(* ===== verification/Gw_Prelude.thy ===== *)
theory Gw_Prelude
  imports Main "HOL-Library.Word" "HOL-Library.Multiset"
begin

unbundle bit_operations_syntax

text \<open>
  Shared vocabulary of the development: the machine integer types of the firmware, the
  6-byte MAC address of \<open>mac_addr.h\<close>, the collections the component proofs use, the
  generic lemmas on lists, and three interfaces (locales) that several components provide:
  a state machine with an invariant, a FIFO of pool indices with a membership flag, and a
  comparison of two records in memory.
\<close>

section \<open>Machine integers and addresses\<close>

type_synonym u8 = "8 word"
type_synonym u16 = "16 word"
type_synonym u32 = "32 word"

text \<open>A MAC address is an array of six bytes; the constructor has exactly six.\<close>

datatype mac_address = MAC u8 u8 u8 u8 u8 u8

fun mac_bytes :: "mac_address \<Rightarrow> u8 list" where
  "mac_bytes (MAC a b c d e f) = [a, b, c, d, e, f]"

lemma length_mac_bytes [simp]: "length (mac_bytes m) = 6"
  by (cases m) simp

lemma mac_bytes_inject [simp]: "mac_bytes m = mac_bytes m' \<longleftrightarrow> m = m'"
  by (cases m; cases m') simp

lemma unat_u8_less: "unat (x :: u8) < 256"
  using unsigned_less [where w = x] by simp

text \<open>MAC addresses are ordered by their value as a 48-bit number, most significant byte first.\<close>

definition mac_value :: "mac_address \<Rightarrow> nat" where
  "mac_value m = foldl (\<lambda>v b. v * 256 + unat b) 0 (mac_bytes m)"

lemma radix_256_inject:
  assumes "v * 256 + x = v' * 256 + (y :: nat)" and "x < 256" and "y < 256"
  shows "v = v' \<and> x = y"
proof -
  from assms have "v = (v * 256 + x) div 256" and "v' = (v' * 256 + y) div 256"
    by simp_all
  with assms(1) have "v = v'" by simp
  with assms(1) show ?thesis by simp
qed

lemma foldl_bytes_inject:
  assumes "length xs = length ys"
    and "foldl (\<lambda>v b. v * 256 + unat (b :: u8)) v xs = foldl (\<lambda>v b. v * 256 + unat b) v' ys"
  shows "v = v' \<and> xs = ys"
  using assms
proof (induction xs ys arbitrary: v v' rule: list_induct2)
  case Nil
  then show ?case by simp
next
  case (Cons x xs y ys)
  from Cons.prems Cons.IH [of "v * 256 + unat x" "v' * 256 + unat y"]
  have eq: "v * 256 + unat x = v' * 256 + unat y" and tail: "xs = ys" by simp_all
  from eq unat_u8_less unat_u8_less have "v = v' \<and> unat x = unat y"
    by (rule radix_256_inject)
  then have "v = v'" and "x = y" by (simp_all only: word_unat_eq_iff)
  with tail show ?case by simp
qed

lemma mac_value_inject: "mac_value m = mac_value m' \<Longrightarrow> m = m'"
  using foldl_bytes_inject [of "mac_bytes m" "mac_bytes m'" 0 0] by (simp add: mac_value_def)

instantiation mac_address :: linorder
begin

definition less_eq_mac_address :: "mac_address \<Rightarrow> mac_address \<Rightarrow> bool" where
  "less_eq_mac_address m m' \<longleftrightarrow> mac_value m \<le> mac_value m'"

definition less_mac_address :: "mac_address \<Rightarrow> mac_address \<Rightarrow> bool" where
  "less_mac_address m m' \<longleftrightarrow> mac_value m < mac_value m'"

instance
  by standard
    (auto simp: less_eq_mac_address_def less_mac_address_def intro: mac_value_inject)

end

section \<open>Collections\<close>

named_theorems pool_simps \<open>simplification rules for pools of elements and their lists\<close>
named_theorems inv_intros \<open>preservation of the component invariants\<close>

section \<open>Lists\<close>

lemma distinct_snoc_new: "distinct xs \<Longrightarrow> x \<notin> set xs \<Longrightarrow> distinct (xs @ [x])"
  by simp

lemma set_move_to_front: "x \<in> set xs \<Longrightarrow> set (x # remove1 x xs) = set xs"
  by (induction xs) auto

lemma distinct_move_to_front: "distinct xs \<Longrightarrow> distinct (x # remove1 x xs)"
  by simp

lemma length_move_to_front: "x \<in> set xs \<Longrightarrow> length (x # remove1 x xs) = length xs"
  by (induction xs) (auto simp: length_remove1 split: if_splits dest: length_pos_if_in_set)

lemma mset_move_to_front: "x \<in> set xs \<Longrightarrow> mset (x # remove1 x xs) = mset xs"
  by simp

lemma remove1_last_distinct:
  assumes "distinct xs" and "xs \<noteq> []"
  shows "remove1 (last xs) xs = butlast xs"
proof -
  have "xs = butlast xs @ [last xs]" using assms(2) by simp
  moreover from this assms(1) have "last xs \<notin> set (butlast xs)"
    by (metis distinct_append disjoint_iff list.set_intros(1))
  ultimately show ?thesis
    by (metis append_Nil2 remove1.simps(2) remove1_append)
qed

text \<open>A filter does not see an update of elements that stay on the same side of the predicate.\<close>

lemma filter_remove1_distinct:
  "distinct xs \<Longrightarrow> filter P (remove1 x xs) = remove1 x (filter P xs)"
  by (induction xs) (auto simp: remove1_idem)

text \<open>
  A list that holds its \<open>P\<close>-elements first keeps that shape when an element is moved to
  the front and joins them.
\<close>

lemma split_move_to_front:
  assumes split: "xs = filter P xs @ filter (\<lambda>j. \<not> P j) xs"
    and dist: "distinct xs" and mem: "x \<in> set xs"
  defines "xs' \<equiv> x # remove1 x xs" and "P' \<equiv> \<lambda>j. j = x \<or> P j"
  shows "xs' = filter P' xs' @ filter (\<lambda>j. \<not> P' j) xs'"
proof -
  let ?A = "filter P xs" and ?B = "filter (\<lambda>j. \<not> P j) xs"
  have notin: "x \<notin> set (remove1 x xs)" using dist by simp
  have "filter P' (remove1 x xs) = filter P (remove1 x xs)"
    and "filter (\<lambda>j. \<not> P' j) (remove1 x xs) = filter (\<lambda>j. \<not> P j) (remove1 x xs)"
    using notin by (auto simp: P'_def intro!: filter_cong)
  moreover have "remove1 x xs = remove1 x ?A @ remove1 x ?B"
    using arg_cong [OF split, of "remove1 x"] by (cases "P x") (auto simp: remove1_append remove1_idem)
  ultimately show ?thesis
    using dist by (simp add: xs'_def P'_def filter_remove1_distinct)
qed

lemma remove1_eq_filter: "distinct xs \<Longrightarrow> remove1 x xs = filter (\<lambda>y. y \<noteq> x) xs"
  by (simp add: distinct_remove1_removeAll removeAll_filter_not_eq eq_commute)

lemma map_take_if:
  assumes "distinct xs"
  shows "map (\<lambda>i. if i \<in> set (take n xs) then f i else g i) xs = map f (take n xs) @ map g (drop n xs)"
    (is "map ?h xs = _")
proof -
  have "set (take n xs) \<inter> set (drop n xs) = {}"
    using assms by (metis append_take_drop_id distinct_append)
  then have "map ?h (take n xs) = map f (take n xs)" and "map ?h (drop n xs) = map g (drop n xs)"
    by auto
  moreover have "map ?h xs = map ?h (take n xs) @ map ?h (drop n xs)"
    by (simp only: append_take_drop_id flip: map_append)
  ultimately show ?thesis by (simp only:)
qed

text \<open>Removing one element removes exactly its image, when no other element shares it.\<close>

lemma setcompr_remove:
  assumes "\<And>y. y \<in> A \<Longrightarrow> y \<noteq> e \<Longrightarrow> f y \<noteq> f e"
  shows "{f x |x. x \<in> A - {e} \<and> P x} = {f x |x. x \<in> A \<and> P x} - {f e}"
  using assms by auto

lemma find_map: "find P (map f xs) = map_option f (find (\<lambda>x. P (f x)) xs)"
  by (induction xs) auto

lemma find_unique:
  assumes "x \<in> set xs" and "P x" and "\<And>y. y \<in> set xs \<Longrightarrow> P y \<Longrightarrow> y = x"
  shows "find P xs = Some x"
proof (cases "find P xs")
  case None
  with assms(1,2) show ?thesis by (auto simp: find_None_iff)
next
  case (Some y)
  then have "y \<in> set xs" and "P y" by (auto simp: find_Some_iff)
  with Some assms(3) show ?thesis by simp
qed

lemma map_fun_upd_notin [pool_simps]: "i \<notin> set xs \<Longrightarrow> map (\<lambda>j. g ((f(i := y)) j)) xs = map (\<lambda>j. g (f j)) xs"
  by (induction xs) auto

section \<open>C strings\<close>

text \<open>
  A C string is the list of its characters before the terminator. Reading the terminator's
  position gives NUL; reading past it is outside the object.
\<close>

definition NUL :: char where "NUL = CHR 0x00"

definition c_char_at :: "string \<Rightarrow> nat \<Rightarrow> char option" where
  "c_char_at str i = (if i < length str then Some (str ! i) else if i = length str then Some NUL else None)"

text \<open>The decimal digits of a number, as \<open>printf\<close> writes them.\<close>

fun print_nat :: "nat \<Rightarrow> string" where
  "print_nat n = (if n < 10 then [char_of (48 + n)] else print_nat (n div 10) @ [char_of (48 + n mod 10)])"

declare print_nat.simps [simp del]

definition print_int :: "int \<Rightarrow> string" where
  "print_int i = (if i < 0 then CHR ''-'' # print_nat (nat (- i)) else print_nat (nat i))"

text \<open>\<open>snprintf\<close> into a buffer of \<open>n\<close> bytes keeps what fits before the terminator.\<close>

definition snprintf_buf :: "nat \<Rightarrow> string \<Rightarrow> string" where
  "snprintf_buf n s = take (n - 1) s"

section \<open>Interfaces\<close>

text \<open>
  A component that handles events one at a time: an operation and an invariant it keeps.
  A whole run keeps the invariant, and whatever the invariant implies holds after every run.
\<close>

fun run_events :: "('s \<Rightarrow> 'e \<Rightarrow> 's) \<Rightarrow> 's \<Rightarrow> 'e list \<Rightarrow> 's" where
  "run_events step s [] = s"
| "run_events step s (e # es) = run_events step (step s e) es"

lemma run_events_append: "run_events step s (xs @ ys) = run_events step (run_events step s xs) ys"
  by (induction xs arbitrary: s) auto

text \<open>A run in which every event meets its precondition in the state it arrives in.\<close>

fun enabled_run :: "('s \<Rightarrow> 'e \<Rightarrow> 's) \<Rightarrow> ('s \<Rightarrow> 'e \<Rightarrow> bool) \<Rightarrow> 's \<Rightarrow> 'e list \<Rightarrow> bool" where
  "enabled_run step enabled s [] = True"
| "enabled_run step enabled s (e # es) = (enabled s e \<and> enabled_run step enabled (step s e) es)"

lemma enabled_run_True [simp]: "enabled_run step (\<lambda>_ _. True) s es"
  by (induction es arbitrary: s) auto

locale event_machine =
  fixes step :: "'s \<Rightarrow> 'e \<Rightarrow> 's"
    and inv :: "'s \<Rightarrow> bool"
    and enabled :: "'s \<Rightarrow> 'e \<Rightarrow> bool"
  assumes step_inv: "inv s \<Longrightarrow> enabled s e \<Longrightarrow> inv (step s e)"
begin

lemma run_inv: "inv s \<Longrightarrow> enabled_run step enabled s es \<Longrightarrow> inv (run_events step s es)"
  by (induction es arbitrary: s) (auto simp: step_inv)

lemma run_prefix_inv:
  "inv s \<Longrightarrow> enabled_run step enabled s (xs @ ys) \<Longrightarrow> inv (run_events step s xs)"
  by (induction xs arbitrary: s) (auto simp: step_inv)

end

text \<open>
  A component with a specification over abstract states that every enabled step follows; then every
  enabled run does.
\<close>

locale simulation = event_machine step inv enabled
  for step :: "'s \<Rightarrow> 'e \<Rightarrow> 's" and inv :: "'s \<Rightarrow> bool" and enabled :: "'s \<Rightarrow> 'e \<Rightarrow> bool" +
  fixes abs :: "'s \<Rightarrow> 'a"
    and spec :: "'a \<Rightarrow> 'e \<Rightarrow> 'a"
  assumes step_abs: "inv s \<Longrightarrow> enabled s e \<Longrightarrow> abs (step s e) = spec (abs s) e"
begin

lemma run_abs:
  "inv s \<Longrightarrow> enabled_run step enabled s es \<Longrightarrow> abs (run_events step s es) = run_events spec (abs s) es"
  by (induction es arbitrary: s) (auto simp: step_abs step_inv)

end

text \<open>
  A FIFO of indices in which every index carries a flag that says whether it is linked: the
  flag makes insertion idempotent, so no index is linked twice.
\<close>

definition flag_queue_ok :: "nat list \<Rightarrow> (nat \<Rightarrow> bool) \<Rightarrow> bool" where
  "flag_queue_ok q flag \<longleftrightarrow> distinct q \<and> (\<forall>i. flag i \<longleftrightarrow> i \<in> set q)"

locale flag_queue =
  fixes pending :: "'s \<Rightarrow> nat list"
    and flag :: "'s \<Rightarrow> nat \<Rightarrow> bool"
    and enq :: "nat \<Rightarrow> 's \<Rightarrow> 's"
    and deq :: "'s \<Rightarrow> 's"
  assumes pending_enq: "pending (enq i s) = (if flag s i then pending s else pending s @ [i])"
    and flag_enq: "flag (enq i s) = (flag s)(i := True)"
    and pending_deq: "pending s = i # is \<Longrightarrow> pending (deq s) = is"
    and flag_deq: "pending s = i # is \<Longrightarrow> flag (deq s) = (flag s)(i := False)"
begin

lemma enq_ok: "flag_queue_ok (pending s) (flag s) \<Longrightarrow> flag_queue_ok (pending (enq i s)) (flag (enq i s))"
  by (auto simp: flag_queue_ok_def pending_enq flag_enq)

lemma set_enq:
  "flag_queue_ok (pending s) (flag s) \<Longrightarrow> set (pending (enq i s)) = insert i (set (pending s))"
  by (auto simp: flag_queue_ok_def pending_enq)

lemma enq_prefix: "\<exists>ys. pending (enq i s) = pending s @ ys"
  by (simp add: pending_enq)

lemma enq_idem:
  "flag_queue_ok (pending s) (flag s) \<Longrightarrow> pending (enq i (enq i s)) = pending (enq i s)"
  by (simp add: pending_enq [of i "enq i s"] flag_enq)

lemma deq_ok:
  assumes "flag_queue_ok (pending s) (flag s)" and "pending s = i # is"
  shows "flag_queue_ok (pending (deq s)) (flag (deq s))"
  using assms by (auto simp: flag_queue_ok_def pending_deq flag_deq)

end

text \<open>
  A comparison of two records in memory, as the configuration code writes it: \<open>cmp\<close> may read
  outside an object (None), \<open>ok\<close> says that the object is safe to read, and \<open>view\<close> is
  what the object means. The contract is that on safe objects the comparison returns, and says yes
  exactly when the two mean the same.
\<close>

locale comparison =
  fixes cmp :: "'a \<Rightarrow> 'a \<Rightarrow> bool option"
    and ok :: "'a \<Rightarrow> bool"
    and view :: "'a \<Rightarrow> 'v"
  assumes cmp_exact: "ok x \<Longrightarrow> ok y \<Longrightarrow> cmp x y = Some (view x = view y)"
begin

lemma cmp_refl: "ok x \<Longrightarrow> cmp x x = Some True"
  by (simp add: cmp_exact)

lemma cmp_sym: "ok x \<Longrightarrow> ok y \<Longrightarrow> cmp x y = cmp y x"
  by (auto simp: cmp_exact)

lemma cmp_trans:
  "ok x \<Longrightarrow> ok y \<Longrightarrow> ok z \<Longrightarrow> cmp x y = Some True \<Longrightarrow> cmp y z = Some True \<Longrightarrow> cmp x z = Some True"
  by (simp add: cmp_exact)

lemma cmp_cong: "ok x \<Longrightarrow> ok y \<Longrightarrow> cmp x y = Some True \<Longrightarrow> f (view x) = f (view y)"
  by (simp add: cmp_exact)

text \<open>
  A destination that is overwritten exactly when the comparison says no means the same as the
  source afterwards.
\<close>

lemma store_if_different:
  "ok x \<Longrightarrow> ok y \<Longrightarrow> cmp x y = Some b \<Longrightarrow> view (if b then x else y) = view y"
  by (auto simp: cmp_exact)

end

end
