(* ===== verification/Gw_Cfg_Defs.thy ===== *)
theory Gw_Cfg_Defs
  imports Gw_Prelude
begin

text \<open>
  The enumerations and the record types of \<open>gw_cfg.h\<close>, and the C strings they are made of. A
  \<open>char buf[N]\<close> is a list of characters, the bytes behind the terminator included; reading a
  string without terminator would leave the buffer. Field names that two structures share carry
  the name of the structure. The structures of the WiFi manager and of the ESP-IDF that
  \<open>gw_cfg_t\<close> contains are declared elsewhere: their records have the fields that
  \<open>gw_cfg.c\<close> reads, and the extension slot of the record stands for the others.
\<close>

section \<open>C strings\<close>

definition terminated :: "string \<Rightarrow> bool" where
  "terminated buf \<longleftrightarrow> NUL \<in> set buf"

definition c_str :: "string \<Rightarrow> string" where
  "c_str buf = takeWhile (\<lambda>c. c \<noteq> NUL) buf"

text \<open>\<open>0 == strcmp(a, b)\<close>; None is a read behind the end of a buffer.\<close>

fun strcmp_equal :: "string \<Rightarrow> string \<Rightarrow> bool option" where
  "strcmp_equal (x # xs) (y # ys) =
     (if x \<noteq> y then Some False else if x = NUL then Some True else strcmp_equal xs ys)"
| "strcmp_equal [] _ = None"
| "strcmp_equal _ [] = None"

lemma terminated_simps [simp]:
  "\<not> terminated []"
  "terminated (x # xs) \<longleftrightarrow> x = NUL \<or> terminated xs"
  by (auto simp: terminated_def)

lemma c_str_simps [simp]:
  "c_str [] = []"
  "c_str (x # xs) = (if x = NUL then [] else x # c_str xs)"
  by (simp_all add: c_str_def)

lemma strcmp_equal_exact:
  "terminated xs \<Longrightarrow> terminated ys \<Longrightarrow> strcmp_equal xs ys = Some (c_str xs = c_str ys)"
  by (induction xs ys rule: strcmp_equal.induct) auto

lemma c_str_append [simp]: "c_str (xs @ ys) = (if NUL \<in> set xs then c_str xs else xs @ c_str ys)"
  by (induction xs) auto

text \<open>
  A chain of tests of which the first that fails returns \<open>false\<close>: what is behind it is not
  evaluated.
\<close>

fun first_difference :: "bool option list \<Rightarrow> bool option" where
  "first_difference [] = Some True"
| "first_difference (None # _) = None"
| "first_difference (Some True # cs) = first_difference cs"
| "first_difference (Some False # _) = Some False"

lemma first_difference_Some:
  "first_difference cs = Some b \<Longrightarrow> first_difference (Some a # cs) = Some (a \<and> b)"
  by (cases a) auto

lemma first_difference_Some_iff [simp]:
  "first_difference (Some a # cs) = (if a then first_difference cs else Some False)"
  by simp

section \<open>Enumerations\<close>

datatype gw_cfg_http_data_format =
  GW_CFG_HTTP_DATA_FORMAT_RUUVI | GW_CFG_HTTP_DATA_FORMAT_RUUVI_RAW_AND_DECODED
| GW_CFG_HTTP_DATA_FORMAT_RUUVI_DECODED

datatype gw_cfg_http_auth_type =
  GW_CFG_HTTP_AUTH_TYPE_NONE | GW_CFG_HTTP_AUTH_TYPE_BASIC | GW_CFG_HTTP_AUTH_TYPE_BEARER
| GW_CFG_HTTP_AUTH_TYPE_TOKEN | GW_CFG_HTTP_AUTH_TYPE_APIKEY

datatype gw_cfg_mqtt_data_format =
  GW_CFG_MQTT_DATA_FORMAT_RUUVI_RAW | GW_CFG_MQTT_DATA_FORMAT_RUUVI_RAW_AND_DECODED
| GW_CFG_MQTT_DATA_FORMAT_RUUVI_DECODED

datatype auto_update_cycle_type =
  AUTO_UPDATE_CYCLE_TYPE_REGULAR | AUTO_UPDATE_CYCLE_TYPE_BETA_TESTER | AUTO_UPDATE_CYCLE_TYPE_MANUAL

section \<open>Records\<close>

text \<open>
  The union of the authentication data is its memory: the fields of each variant start at the
  first byte, and the password of the basic variant follows the user name.
\<close>

definition auth_basic_user :: "string \<Rightarrow> string" where
  "auth_basic_user auth = take 51 auth"

definition auth_basic_password :: "string \<Rightarrow> string" where
  "auth_basic_password auth = take 51 (drop 51 auth)"

definition auth_token_buf :: "string \<Rightarrow> string" where
  "auth_token_buf auth = take 256 auth"

record ruuvi_gw_cfg_remote =
  use_remote_cfg :: bool
  remote_use_ssl_client_cert :: bool
  remote_use_ssl_server_cert :: bool
  remote_url :: string
  remote_auth_type :: gw_cfg_http_auth_type
  remote_auth :: string
  refresh_interval_minutes :: u16

record ruuvi_gw_cfg_http =
  use_http_ruuvi :: bool
  use_http :: bool
  http_use_ssl_client_cert :: bool
  http_use_ssl_server_cert :: bool
  http_url :: string
  http_period :: u32
  http_data_format :: gw_cfg_http_data_format
  http_auth_type :: gw_cfg_http_auth_type
  http_auth :: string

record ruuvi_gw_cfg_http_stat =
  use_http_stat :: bool
  http_stat_use_ssl_client_cert :: bool
  http_stat_use_ssl_server_cert :: bool
  http_stat_url :: string
  http_stat_user :: string
  http_stat_pass :: string

record ruuvi_gw_cfg_mqtt =
  use_mqtt :: bool
  mqtt_disable_retained_messages :: bool
  mqtt_use_ssl_client_cert :: bool
  mqtt_use_ssl_server_cert :: bool
  mqtt_transport :: string
  mqtt_data_format :: gw_cfg_mqtt_data_format
  mqtt_server :: string
  mqtt_port :: u16
  mqtt_sending_interval :: u32
  mqtt_prefix :: string
  mqtt_client_id :: string
  mqtt_user :: string
  mqtt_pass :: string

text \<open>
  The kind of LAN authentication is an enumeration of the web server component; these are the
  constants that the code distinguishes, in a switch without default.
\<close>

datatype http_server_auth_type =
  HTTP_SERVER_AUTH_TYPE_BASIC | HTTP_SERVER_AUTH_TYPE_DIGEST | HTTP_SERVER_AUTH_TYPE_RUUVI
| HTTP_SERVER_AUTH_TYPE_DEFAULT | HTTP_SERVER_AUTH_TYPE_ALLOW | HTTP_SERVER_AUTH_TYPE_DENY
| HTTP_SERVER_AUTH_TYPE_BEARER

record ruuvi_gw_cfg_lan_auth =
  lan_auth_type :: http_server_auth_type
  lan_auth_user :: string
  lan_auth_pass :: string
  lan_auth_api_key :: string
  lan_auth_api_key_rw :: string

record ruuvi_gw_cfg_auto_update =
  auto_update_cycle :: auto_update_cycle_type
  auto_update_weekdays_bitmask :: u8
  auto_update_interval_from :: u8
  auto_update_interval_to :: u8
  auto_update_tz_offset_hours :: u8

record ruuvi_gw_cfg_ntp =
  ntp_use :: bool
  ntp_use_dhcp :: bool
  ntp_server1 :: string
  ntp_server2 :: string
  ntp_server3 :: string
  ntp_server4 :: string

record ruuvi_gw_cfg_filter =
  company_id :: u16
  company_use_filtering :: bool

record ruuvi_gw_cfg_scan =
  scan_coded_phy :: bool
  scan_1mbit_phy :: bool
  scan_2mbit_phy :: bool
  scan_channel_37 :: bool
  scan_channel_38 :: bool
  scan_channel_39 :: bool
  scan_default :: bool

record ruuvi_gw_cfg_scan_filter =
  sf_allow_listed :: bool
  sf_length :: u32
  sf_list :: "mac_address list"

record gw_cfg_ruuvi =
  cfg_remote :: ruuvi_gw_cfg_remote
  cfg_http :: ruuvi_gw_cfg_http
  cfg_http_stat :: ruuvi_gw_cfg_http_stat
  cfg_mqtt :: ruuvi_gw_cfg_mqtt
  cfg_lan_auth :: ruuvi_gw_cfg_lan_auth
  cfg_auto_update :: ruuvi_gw_cfg_auto_update
  cfg_ntp :: ruuvi_gw_cfg_ntp
  cfg_filter :: ruuvi_gw_cfg_filter
  cfg_scan :: ruuvi_gw_cfg_scan
  cfg_scan_filter :: ruuvi_gw_cfg_scan_filter
  cfg_coordinates :: string
  cfg_fw_update_url :: string

record gw_cfg_eth =
  use_eth :: bool
  eth_dhcp :: bool
  eth_static_ip :: string
  eth_netmask :: string
  eth_gw :: string
  eth_dns1 :: string
  eth_dns2 :: string

record wifi_ap_config =
  ap_ssid :: string
  ap_password :: string
  ap_ssid_len :: int
  ap_channel :: int
  ap_authmode :: int
  ap_ssid_hidden :: int
  ap_max_connection :: int
  ap_beacon_interval :: int

record wifi_settings_ap =
  ap_bandwidth :: int
  ap_ip :: string
  ap_gw :: string
  ap_netmask :: string

record wifi_sta_config =
  sta_ssid :: string
  sta_password :: string
  sta_scan_method :: int
  sta_bssid_set :: bool
  sta_bssid :: mac_address
  sta_channel :: int
  sta_listen_interval :: int
  sta_sort_method :: int
  sta_threshold_rssi :: int
  sta_threshold_authmode :: int
  sta_pmf_capable :: bool
  sta_pmf_required :: bool

record wifi_settings_sta =
  sta_power_save :: int
  sta_static_ip :: bool
  sta_static_ip_addr :: u32
  sta_static_netmask :: u32
  sta_static_gw :: u32

record wifiman_config_ap =
  wifi_config_ap :: wifi_ap_config
  wifi_set_ap :: wifi_settings_ap

record wifiman_config_sta =
  wifi_config_sta :: wifi_sta_config
  wifi_set_sta :: wifi_settings_sta

record gw_cfg_device_info =
  di_wifi_ap :: string
  di_hostname :: string
  di_esp32_fw_ver :: string
  di_nrf52_fw_ver :: string
  di_nrf52_mac_addr :: string
  di_nrf52_device_id :: string
  di_esp32_mac_addr_wifi :: string
  di_esp32_mac_addr_eth :: string

record gw_cfg =
  device_info :: gw_cfg_device_info
  ruuvi_cfg :: gw_cfg_ruuvi
  eth_cfg :: gw_cfg_eth
  wifi_cfg_ap :: wifiman_config_ap
  wifi_cfg_sta :: wifiman_config_sta

record gw_cfg_update_status =
  flag_ruuvi_cfg_modified :: bool
  flag_eth_cfg_modified :: bool
  flag_wifi_ap_cfg_modified :: bool
  flag_wifi_sta_cfg_modified :: bool

end
