(* ===== verification/Gw_Cfg_Cmp.thy ===== *)
theory Gw_Cfg_Cmp
  imports Gw_Cfg_Defs
begin

text \<open>
  The comparisons of configuration records in \<open>gw_cfg_cmp.c\<close> and \<open>gw_cfg.c\<close>, in the order
  of the code. Every test of a function is an element of \<open>first_difference\<close>; a test that
  reads behind the end of a string gives None. For each record, \<open>_ok\<close> says that its strings are
  terminated and \<open>_view\<close> is what it means: the strings up to their terminators, the
  authentication data of the selected kind, the used part of the filter list. Each function is
  shown to be a \<open>comparison\<close> of the two.
\<close>

named_theorems cfg_cmp

lemmas [cfg_cmp] = strcmp_equal_exact

section \<open>Authentication data\<close>

definition ruuvi_gw_cfg_cmp_auth_basic :: "string \<Rightarrow> string \<Rightarrow> bool option" where
  "ruuvi_gw_cfg_cmp_auth_basic x y = first_difference
     [strcmp_equal (auth_basic_user x) (auth_basic_user y),
      strcmp_equal (auth_basic_password x) (auth_basic_password y)]"

text \<open>The switch over the authentication type, which \<open>remote\<close> and \<open>http\<close> share.\<close>

fun auth_cmp :: "gw_cfg_http_auth_type \<Rightarrow> string \<Rightarrow> string \<Rightarrow> bool option" where
  "auth_cmp GW_CFG_HTTP_AUTH_TYPE_NONE x y = Some True"
| "auth_cmp GW_CFG_HTTP_AUTH_TYPE_BASIC x y = ruuvi_gw_cfg_cmp_auth_basic x y"
| "auth_cmp GW_CFG_HTTP_AUTH_TYPE_BEARER x y = strcmp_equal (auth_token_buf x) (auth_token_buf y)"
| "auth_cmp GW_CFG_HTTP_AUTH_TYPE_TOKEN x y = strcmp_equal (auth_token_buf x) (auth_token_buf y)"
| "auth_cmp GW_CFG_HTTP_AUTH_TYPE_APIKEY x y = strcmp_equal (auth_token_buf x) (auth_token_buf y)"

datatype auth_value =
  Auth_none | Auth_basic string string | Auth_bearer string | Auth_token string | Auth_apikey string

fun auth_view :: "gw_cfg_http_auth_type \<Rightarrow> string \<Rightarrow> auth_value" where
  "auth_view GW_CFG_HTTP_AUTH_TYPE_NONE x = Auth_none"
| "auth_view GW_CFG_HTTP_AUTH_TYPE_BASIC x =
     Auth_basic (c_str (auth_basic_user x)) (c_str (auth_basic_password x))"
| "auth_view GW_CFG_HTTP_AUTH_TYPE_BEARER x = Auth_bearer (c_str (auth_token_buf x))"
| "auth_view GW_CFG_HTTP_AUTH_TYPE_TOKEN x = Auth_token (c_str (auth_token_buf x))"
| "auth_view GW_CFG_HTTP_AUTH_TYPE_APIKEY x = Auth_apikey (c_str (auth_token_buf x))"

fun auth_ok :: "gw_cfg_http_auth_type \<Rightarrow> string \<Rightarrow> bool" where
  "auth_ok GW_CFG_HTTP_AUTH_TYPE_NONE x = True"
| "auth_ok GW_CFG_HTTP_AUTH_TYPE_BASIC x =
     (terminated (auth_basic_user x) \<and> terminated (auth_basic_password x))"
| "auth_ok _ x = terminated (auth_token_buf x)"

lemma auth_cmp_exact:
  "auth_ok t x \<Longrightarrow> auth_ok t y \<Longrightarrow> auth_cmp t x y = Some (auth_view t x = auth_view t y)"
  by (cases t) (simp_all add: ruuvi_gw_cfg_cmp_auth_basic_def strcmp_equal_exact)

interpretation auth_comparison: comparison "auth_cmp t" "auth_ok t" "auth_view t" for t
  by unfold_locales (rule auth_cmp_exact)

lemma auth_view_type: "auth_view t x = auth_view t' y \<Longrightarrow> t = t'"
  by (cases t; cases t') simp_all

section \<open>The sections of the configuration\<close>

definition ruuvi_gw_cfg_remote_cmp :: "ruuvi_gw_cfg_remote \<Rightarrow> ruuvi_gw_cfg_remote \<Rightarrow> bool option" where
  [cfg_cmp]: "ruuvi_gw_cfg_remote_cmp x y = first_difference
     [Some (use_remote_cfg x = use_remote_cfg y), strcmp_equal (remote_url x) (remote_url y),
      Some (remote_auth_type x = remote_auth_type y),
      auth_cmp (remote_auth_type x) (remote_auth x) (remote_auth y),
      Some (refresh_interval_minutes x = refresh_interval_minutes y),
      Some (remote_use_ssl_client_cert x = remote_use_ssl_client_cert y),
      Some (remote_use_ssl_server_cert x = remote_use_ssl_server_cert y)]"

definition remote_ok :: "ruuvi_gw_cfg_remote \<Rightarrow> bool" where
  [cfg_cmp]: "remote_ok x \<longleftrightarrow> terminated (remote_url x) \<and> auth_ok (remote_auth_type x) (remote_auth x)"

text \<open>The union is replaced by what its selected variant holds.\<close>

definition remote_view :: "ruuvi_gw_cfg_remote \<Rightarrow> ruuvi_gw_cfg_remote \<times> auth_value" where
  [cfg_cmp]: "remote_view x = (x\<lparr>remote_url := c_str (remote_url x), remote_auth := []\<rparr>,
     auth_view (remote_auth_type x) (remote_auth x))"

interpretation remote_comparison: comparison ruuvi_gw_cfg_remote_cmp remote_ok remote_view
  apply unfold_locales
  subgoal for x y by (cases x; cases y) (auto simp: cfg_cmp auth_cmp_exact)
  done

definition ruuvi_gw_cfg_http_cmp :: "ruuvi_gw_cfg_http \<Rightarrow> ruuvi_gw_cfg_http \<Rightarrow> bool option" where
  [cfg_cmp]: "ruuvi_gw_cfg_http_cmp x y = first_difference
     [Some (use_http_ruuvi x = use_http_ruuvi y), Some (use_http x = use_http y),
      Some (http_use_ssl_client_cert x = http_use_ssl_client_cert y),
      Some (http_use_ssl_server_cert x = http_use_ssl_server_cert y),
      strcmp_equal (http_url x) (http_url y), Some (http_period x = http_period y),
      Some (http_data_format x = http_data_format y), Some (http_auth_type x = http_auth_type y),
      auth_cmp (http_auth_type x) (http_auth x) (http_auth y)]"

definition http_ok :: "ruuvi_gw_cfg_http \<Rightarrow> bool" where
  [cfg_cmp]: "http_ok x \<longleftrightarrow> terminated (http_url x) \<and> auth_ok (http_auth_type x) (http_auth x)"

definition http_view :: "ruuvi_gw_cfg_http \<Rightarrow> ruuvi_gw_cfg_http \<times> auth_value" where
  [cfg_cmp]: "http_view x = (x\<lparr>http_url := c_str (http_url x), http_auth := []\<rparr>,
     auth_view (http_auth_type x) (http_auth x))"

interpretation http_comparison: comparison ruuvi_gw_cfg_http_cmp http_ok http_view
  apply unfold_locales
  subgoal for x y by (cases x; cases y) (auto simp: cfg_cmp auth_cmp_exact)
  done

definition ruuvi_gw_cfg_http_stat_cmp :: "ruuvi_gw_cfg_http_stat \<Rightarrow> ruuvi_gw_cfg_http_stat \<Rightarrow> bool option" where [cfg_cmp]:
  "ruuvi_gw_cfg_http_stat_cmp x y = first_difference
     [Some (use_http_stat x = use_http_stat y),
      Some (http_stat_use_ssl_client_cert x = http_stat_use_ssl_client_cert y),
      Some (http_stat_use_ssl_server_cert x = http_stat_use_ssl_server_cert y),
      strcmp_equal (http_stat_url x) (http_stat_url y),
      strcmp_equal (http_stat_user x) (http_stat_user y),
      strcmp_equal (http_stat_pass x) (http_stat_pass y)]"

definition http_stat_ok :: "ruuvi_gw_cfg_http_stat \<Rightarrow> bool" where [cfg_cmp]:
  "http_stat_ok x \<longleftrightarrow>
     terminated (http_stat_url x) \<and> terminated (http_stat_user x) \<and>
     terminated (http_stat_pass x)"

definition http_stat_view :: "ruuvi_gw_cfg_http_stat \<Rightarrow> ruuvi_gw_cfg_http_stat" where [cfg_cmp]:
  "http_stat_view x = x\<lparr>http_stat_url := c_str (http_stat_url x), http_stat_user := c_str (http_stat_user x),
     http_stat_pass := c_str (http_stat_pass x)\<rparr>"

interpretation http_stat_comparison: comparison ruuvi_gw_cfg_http_stat_cmp http_stat_ok http_stat_view
  apply unfold_locales
  subgoal for x y by (cases x; cases y) (simp add: cfg_cmp)
  done

definition ruuvi_gw_cfg_mqtt_cmp :: "ruuvi_gw_cfg_mqtt \<Rightarrow> ruuvi_gw_cfg_mqtt \<Rightarrow> bool option" where [cfg_cmp]:
  "ruuvi_gw_cfg_mqtt_cmp x y = first_difference
     [Some (use_mqtt x = use_mqtt y),
      Some (mqtt_disable_retained_messages x = mqtt_disable_retained_messages y),
      strcmp_equal (mqtt_transport x) (mqtt_transport y),
      Some (mqtt_data_format x = mqtt_data_format y),
      strcmp_equal (mqtt_server x) (mqtt_server y), Some (mqtt_port x = mqtt_port y),
      Some (mqtt_sending_interval x = mqtt_sending_interval y),
      strcmp_equal (mqtt_prefix x) (mqtt_prefix y),
      strcmp_equal (mqtt_client_id x) (mqtt_client_id y),
      strcmp_equal (mqtt_user x) (mqtt_user y), strcmp_equal (mqtt_pass x) (mqtt_pass y),
      Some (mqtt_use_ssl_client_cert x = mqtt_use_ssl_client_cert y),
      Some (mqtt_use_ssl_server_cert x = mqtt_use_ssl_server_cert y)]"

definition mqtt_ok :: "ruuvi_gw_cfg_mqtt \<Rightarrow> bool" where [cfg_cmp]:
  "mqtt_ok x \<longleftrightarrow>
     terminated (mqtt_transport x) \<and> terminated (mqtt_server x) \<and>
     terminated (mqtt_prefix x) \<and> terminated (mqtt_client_id x) \<and>
     terminated (mqtt_user x) \<and> terminated (mqtt_pass x)"

definition mqtt_view :: "ruuvi_gw_cfg_mqtt \<Rightarrow> ruuvi_gw_cfg_mqtt" where [cfg_cmp]:
  "mqtt_view x = x\<lparr>mqtt_transport := c_str (mqtt_transport x), mqtt_server := c_str (mqtt_server x),
     mqtt_prefix := c_str (mqtt_prefix x), mqtt_client_id := c_str (mqtt_client_id x),
     mqtt_user := c_str (mqtt_user x), mqtt_pass := c_str (mqtt_pass x)\<rparr>"

interpretation mqtt_comparison: comparison ruuvi_gw_cfg_mqtt_cmp mqtt_ok mqtt_view
  apply unfold_locales
  subgoal for x y by (cases x; cases y) (simp add: cfg_cmp)
  done

definition ruuvi_gw_cfg_lan_auth_cmp :: "ruuvi_gw_cfg_lan_auth \<Rightarrow> ruuvi_gw_cfg_lan_auth \<Rightarrow> bool option" where [cfg_cmp]:
  "ruuvi_gw_cfg_lan_auth_cmp x y = first_difference
     [Some (lan_auth_type x = lan_auth_type y),
      strcmp_equal (lan_auth_user x) (lan_auth_user y),
      strcmp_equal (lan_auth_pass x) (lan_auth_pass y),
      strcmp_equal (lan_auth_api_key x) (lan_auth_api_key y),
      strcmp_equal (lan_auth_api_key_rw x) (lan_auth_api_key_rw y)]"

definition lan_auth_ok :: "ruuvi_gw_cfg_lan_auth \<Rightarrow> bool" where [cfg_cmp]:
  "lan_auth_ok x \<longleftrightarrow>
     terminated (lan_auth_user x) \<and> terminated (lan_auth_pass x) \<and>
     terminated (lan_auth_api_key x) \<and> terminated (lan_auth_api_key_rw x)"

definition lan_auth_view :: "ruuvi_gw_cfg_lan_auth \<Rightarrow> ruuvi_gw_cfg_lan_auth" where [cfg_cmp]:
  "lan_auth_view x = x\<lparr>lan_auth_user := c_str (lan_auth_user x), lan_auth_pass := c_str (lan_auth_pass x),
     lan_auth_api_key := c_str (lan_auth_api_key x),
     lan_auth_api_key_rw := c_str (lan_auth_api_key_rw x)\<rparr>"

interpretation lan_auth_comparison: comparison ruuvi_gw_cfg_lan_auth_cmp lan_auth_ok lan_auth_view
  apply unfold_locales
  subgoal for x y by (cases x; cases y) (simp add: cfg_cmp)
  done

definition ruuvi_gw_cfg_auto_update_cmp :: "ruuvi_gw_cfg_auto_update \<Rightarrow> ruuvi_gw_cfg_auto_update \<Rightarrow> bool option" where [cfg_cmp]:
  "ruuvi_gw_cfg_auto_update_cmp x y = first_difference
     [Some (auto_update_cycle x = auto_update_cycle y),
      Some (auto_update_weekdays_bitmask x = auto_update_weekdays_bitmask y),
      Some (auto_update_interval_from x = auto_update_interval_from y),
      Some (auto_update_interval_to x = auto_update_interval_to y),
      Some (auto_update_tz_offset_hours x = auto_update_tz_offset_hours y)]"

interpretation auto_update_comparison: comparison ruuvi_gw_cfg_auto_update_cmp "\<lambda>_. True" "\<lambda>x. x"
  apply unfold_locales
  subgoal for x y by (cases x; cases y) (simp add: cfg_cmp)
  done

definition ruuvi_gw_cfg_ntp_cmp :: "ruuvi_gw_cfg_ntp \<Rightarrow> ruuvi_gw_cfg_ntp \<Rightarrow> bool option" where [cfg_cmp]:
  "ruuvi_gw_cfg_ntp_cmp x y = first_difference
     [Some (ntp_use x = ntp_use y), Some (ntp_use_dhcp x = ntp_use_dhcp y),
      strcmp_equal (ntp_server1 x) (ntp_server1 y),
      strcmp_equal (ntp_server2 x) (ntp_server2 y),
      strcmp_equal (ntp_server3 x) (ntp_server3 y),
      strcmp_equal (ntp_server4 x) (ntp_server4 y)]"

definition ntp_ok :: "ruuvi_gw_cfg_ntp \<Rightarrow> bool" where [cfg_cmp]:
  "ntp_ok x \<longleftrightarrow>
     terminated (ntp_server1 x) \<and> terminated (ntp_server2 x) \<and>
     terminated (ntp_server3 x) \<and> terminated (ntp_server4 x)"

definition ntp_view :: "ruuvi_gw_cfg_ntp \<Rightarrow> ruuvi_gw_cfg_ntp" where [cfg_cmp]:
  "ntp_view x = x\<lparr>ntp_server1 := c_str (ntp_server1 x), ntp_server2 := c_str (ntp_server2 x),
     ntp_server3 := c_str (ntp_server3 x), ntp_server4 := c_str (ntp_server4 x)\<rparr>"

interpretation ntp_comparison: comparison ruuvi_gw_cfg_ntp_cmp ntp_ok ntp_view
  apply unfold_locales
  subgoal for x y by (cases x; cases y) (simp add: cfg_cmp)
  done

definition ruuvi_gw_cfg_filter_cmp :: "ruuvi_gw_cfg_filter \<Rightarrow> ruuvi_gw_cfg_filter \<Rightarrow> bool option" where [cfg_cmp]:
  "ruuvi_gw_cfg_filter_cmp x y = first_difference
     [Some (company_use_filtering x = company_use_filtering y),
      Some (company_id x = company_id y)]"

interpretation filter_comparison: comparison ruuvi_gw_cfg_filter_cmp "\<lambda>_. True" "\<lambda>x. x"
  apply unfold_locales
  subgoal for x y by (cases x; cases y) (simp add: cfg_cmp)
  done

definition ruuvi_gw_cfg_scan_cmp :: "ruuvi_gw_cfg_scan \<Rightarrow> ruuvi_gw_cfg_scan \<Rightarrow> bool option" where [cfg_cmp]:
  "ruuvi_gw_cfg_scan_cmp x y = first_difference
     [Some (scan_coded_phy x = scan_coded_phy y),
      Some (scan_1mbit_phy x = scan_1mbit_phy y),
      Some (scan_2mbit_phy x = scan_2mbit_phy y),
      Some (scan_channel_37 x = scan_channel_37 y),
      Some (scan_channel_38 x = scan_channel_38 y),
      Some (scan_channel_39 x = scan_channel_39 y), Some (scan_default x = scan_default y)]"

interpretation scan_comparison: comparison ruuvi_gw_cfg_scan_cmp "\<lambda>_. True" "\<lambda>x. x"
  apply unfold_locales
  subgoal for x y by (cases x; cases y) (simp add: cfg_cmp)
  done

text \<open>
  The loop over the addresses of the scan filter: it compares as many entries as the first record
  says, and None is an index behind the array.
\<close>

fun scan_filter_list_cmp :: "nat \<Rightarrow> mac_address list \<Rightarrow> mac_address list \<Rightarrow> bool option" where
  "scan_filter_list_cmp 0 _ _ = Some True"
| "scan_filter_list_cmp (Suc n) (x # xs) (y # ys) =
     (if x \<noteq> y then Some False else scan_filter_list_cmp n xs ys)"
| "scan_filter_list_cmp (Suc n) [] _ = None"
| "scan_filter_list_cmp (Suc n) _ [] = None"

lemma scan_filter_list_cmp_exact:
  "n \<le> length xs \<Longrightarrow> n \<le> length ys \<Longrightarrow> scan_filter_list_cmp n xs ys = Some (take n xs = take n ys)"
  by (induction n xs ys rule: scan_filter_list_cmp.induct) auto

definition ruuvi_gw_cfg_scan_filter_cmp ::
  "ruuvi_gw_cfg_scan_filter \<Rightarrow> ruuvi_gw_cfg_scan_filter \<Rightarrow> bool option" where
  [cfg_cmp]: "ruuvi_gw_cfg_scan_filter_cmp x y = first_difference
     [Some (sf_allow_listed x = sf_allow_listed y), Some (sf_length x = sf_length y),
      scan_filter_list_cmp (unat (sf_length x)) (sf_list x) (sf_list y)]"

definition scan_filter_ok :: "ruuvi_gw_cfg_scan_filter \<Rightarrow> bool" where
  [cfg_cmp]: "scan_filter_ok x \<longleftrightarrow> unat (sf_length x) \<le> length (sf_list x)"

definition scan_filter_view :: "ruuvi_gw_cfg_scan_filter \<Rightarrow> ruuvi_gw_cfg_scan_filter" where
  [cfg_cmp]: "scan_filter_view x = x\<lparr>sf_list := take (unat (sf_length x)) (sf_list x)\<rparr>"

interpretation scan_filter_comparison:
  comparison ruuvi_gw_cfg_scan_filter_cmp scan_filter_ok scan_filter_view
  apply unfold_locales
  subgoal for x y by (cases x; cases y) (auto simp: cfg_cmp scan_filter_list_cmp_exact)
  done

definition ruuvi_gw_cfg_coordinates_cmp :: "string \<Rightarrow> string \<Rightarrow> bool option" where
  "ruuvi_gw_cfg_coordinates_cmp x y = first_difference [strcmp_equal x y]"

definition ruuvi_gw_cfg_fw_update_cmp :: "string \<Rightarrow> string \<Rightarrow> bool option" where
  "ruuvi_gw_cfg_fw_update_cmp x y = first_difference [strcmp_equal x y]"

interpretation coordinates_comparison: comparison ruuvi_gw_cfg_coordinates_cmp terminated c_str
  by unfold_locales (simp add: ruuvi_gw_cfg_coordinates_cmp_def strcmp_equal_exact)

interpretation fw_update_comparison: comparison ruuvi_gw_cfg_fw_update_cmp terminated c_str
  by unfold_locales (simp add: ruuvi_gw_cfg_fw_update_cmp_def strcmp_equal_exact)

section \<open>The whole configuration\<close>

definition gw_cfg_ruuvi_cmp :: "gw_cfg_ruuvi \<Rightarrow> gw_cfg_ruuvi \<Rightarrow> bool option" where
  "gw_cfg_ruuvi_cmp x y = first_difference
     [ruuvi_gw_cfg_remote_cmp (cfg_remote x) (cfg_remote y),
      ruuvi_gw_cfg_http_cmp (cfg_http x) (cfg_http y),
      ruuvi_gw_cfg_http_stat_cmp (cfg_http_stat x) (cfg_http_stat y),
      ruuvi_gw_cfg_mqtt_cmp (cfg_mqtt x) (cfg_mqtt y),
      ruuvi_gw_cfg_lan_auth_cmp (cfg_lan_auth x) (cfg_lan_auth y),
      ruuvi_gw_cfg_auto_update_cmp (cfg_auto_update x) (cfg_auto_update y),
      ruuvi_gw_cfg_ntp_cmp (cfg_ntp x) (cfg_ntp y),
      ruuvi_gw_cfg_filter_cmp (cfg_filter x) (cfg_filter y),
      ruuvi_gw_cfg_scan_cmp (cfg_scan x) (cfg_scan y),
      ruuvi_gw_cfg_scan_filter_cmp (cfg_scan_filter x) (cfg_scan_filter y),
      ruuvi_gw_cfg_coordinates_cmp (cfg_coordinates x) (cfg_coordinates y),
      ruuvi_gw_cfg_fw_update_cmp (cfg_fw_update_url x) (cfg_fw_update_url y)]"

definition gw_cfg_ruuvi_ok :: "gw_cfg_ruuvi \<Rightarrow> bool" where
  "gw_cfg_ruuvi_ok x \<longleftrightarrow> remote_ok (cfg_remote x) \<and> http_ok (cfg_http x) \<and>
     http_stat_ok (cfg_http_stat x) \<and> mqtt_ok (cfg_mqtt x) \<and> lan_auth_ok (cfg_lan_auth x) \<and>
     ntp_ok (cfg_ntp x) \<and> scan_filter_ok (cfg_scan_filter x) \<and> terminated (cfg_coordinates x) \<and>
     terminated (cfg_fw_update_url x)"

text \<open>What a Ruuvi configuration means, section by section.\<close>

record ruuvi_meaning =
  m_remote :: "ruuvi_gw_cfg_remote \<times> auth_value"
  m_http :: "ruuvi_gw_cfg_http \<times> auth_value"
  m_http_stat :: ruuvi_gw_cfg_http_stat
  m_mqtt :: ruuvi_gw_cfg_mqtt
  m_lan_auth :: ruuvi_gw_cfg_lan_auth
  m_auto_update :: ruuvi_gw_cfg_auto_update
  m_ntp :: ruuvi_gw_cfg_ntp
  m_filter :: ruuvi_gw_cfg_filter
  m_scan :: ruuvi_gw_cfg_scan
  m_scan_filter :: ruuvi_gw_cfg_scan_filter
  m_coordinates :: string
  m_fw_update_url :: string

definition gw_cfg_ruuvi_view :: "gw_cfg_ruuvi \<Rightarrow> ruuvi_meaning" where
  "gw_cfg_ruuvi_view x = \<lparr>m_remote = remote_view (cfg_remote x), m_http = http_view (cfg_http x),
     m_http_stat = http_stat_view (cfg_http_stat x), m_mqtt = mqtt_view (cfg_mqtt x),
     m_lan_auth = lan_auth_view (cfg_lan_auth x), m_auto_update = cfg_auto_update x,
     m_ntp = ntp_view (cfg_ntp x), m_filter = cfg_filter x, m_scan = cfg_scan x,
     m_scan_filter = scan_filter_view (cfg_scan_filter x), m_coordinates = c_str (cfg_coordinates x),
     m_fw_update_url = c_str (cfg_fw_update_url x)\<rparr>"

lemmas section_comparisons =
  remote_comparison.cmp_exact http_comparison.cmp_exact http_stat_comparison.cmp_exact
  mqtt_comparison.cmp_exact lan_auth_comparison.cmp_exact auto_update_comparison.cmp_exact
  ntp_comparison.cmp_exact filter_comparison.cmp_exact scan_comparison.cmp_exact
  scan_filter_comparison.cmp_exact coordinates_comparison.cmp_exact fw_update_comparison.cmp_exact

interpretation ruuvi_comparison: comparison gw_cfg_ruuvi_cmp gw_cfg_ruuvi_ok gw_cfg_ruuvi_view
  by unfold_locales
    (simp add: gw_cfg_ruuvi_cmp_def gw_cfg_ruuvi_ok_def gw_cfg_ruuvi_view_def section_comparisons)

section \<open>Ethernet and WiFi\<close>

definition gw_cfg_eth_cmp :: "gw_cfg_eth \<Rightarrow> gw_cfg_eth \<Rightarrow> bool option" where [cfg_cmp]:
  "gw_cfg_eth_cmp x y = first_difference
     [Some (use_eth x = use_eth y), Some (eth_dhcp x = eth_dhcp y),
      strcmp_equal (eth_static_ip x) (eth_static_ip y),
      strcmp_equal (eth_netmask x) (eth_netmask y), strcmp_equal (eth_gw x) (eth_gw y),
      strcmp_equal (eth_dns1 x) (eth_dns1 y), strcmp_equal (eth_dns2 x) (eth_dns2 y)]"

definition eth_ok :: "gw_cfg_eth \<Rightarrow> bool" where [cfg_cmp]:
  "eth_ok x \<longleftrightarrow>
     terminated (eth_static_ip x) \<and> terminated (eth_netmask x) \<and>
     terminated (eth_gw x) \<and> terminated (eth_dns1 x) \<and> terminated (eth_dns2 x)"

definition eth_view :: "gw_cfg_eth \<Rightarrow> gw_cfg_eth" where [cfg_cmp]:
  "eth_view x = x\<lparr>eth_static_ip := c_str (eth_static_ip x), eth_netmask := c_str (eth_netmask x),
     eth_gw := c_str (eth_gw x), eth_dns1 := c_str (eth_dns1 x),
     eth_dns2 := c_str (eth_dns2 x)\<rparr>"

interpretation eth_comparison: comparison gw_cfg_eth_cmp eth_ok eth_view
  apply unfold_locales
  subgoal for x y by (cases x; cases y) (simp add: cfg_cmp)
  done

definition wifiman_config_cmp_config_ap :: "wifi_ap_config \<Rightarrow> wifi_ap_config \<Rightarrow> bool option" where [cfg_cmp]:
  "wifiman_config_cmp_config_ap x y = first_difference
     [strcmp_equal (ap_ssid x) (ap_ssid y), strcmp_equal (ap_password x) (ap_password y),
      Some (ap_ssid_len x = ap_ssid_len y), Some (ap_channel x = ap_channel y),
      Some (ap_authmode x = ap_authmode y), Some (ap_ssid_hidden x = ap_ssid_hidden y),
      Some (ap_max_connection x = ap_max_connection y),
      Some (ap_beacon_interval x = ap_beacon_interval y)]"

definition config_ap_ok :: "wifi_ap_config \<Rightarrow> bool" where [cfg_cmp]:
  "config_ap_ok x \<longleftrightarrow>
     terminated (ap_ssid x) \<and> terminated (ap_password x)"

definition config_ap_view :: "wifi_ap_config \<Rightarrow> wifi_ap_config" where [cfg_cmp]:
  "config_ap_view x = x\<lparr>ap_ssid := c_str (ap_ssid x), ap_password := c_str (ap_password x)\<rparr>"

interpretation config_ap_comparison: comparison wifiman_config_cmp_config_ap config_ap_ok config_ap_view
  apply unfold_locales
  subgoal for x y by (cases x; cases y) (simp add: cfg_cmp)
  done

definition wifiman_config_cmp_settings_ap :: "wifi_settings_ap \<Rightarrow> wifi_settings_ap \<Rightarrow> bool option" where [cfg_cmp]:
  "wifiman_config_cmp_settings_ap x y = first_difference
     [Some (ap_bandwidth x = ap_bandwidth y), strcmp_equal (ap_ip x) (ap_ip y),
      strcmp_equal (ap_gw x) (ap_gw y), strcmp_equal (ap_netmask x) (ap_netmask y)]"

definition settings_ap_ok :: "wifi_settings_ap \<Rightarrow> bool" where [cfg_cmp]:
  "settings_ap_ok x \<longleftrightarrow>
     terminated (ap_ip x) \<and> terminated (ap_gw x) \<and> terminated (ap_netmask x)"

definition settings_ap_view :: "wifi_settings_ap \<Rightarrow> wifi_settings_ap" where [cfg_cmp]:
  "settings_ap_view x = x\<lparr>ap_ip := c_str (ap_ip x), ap_gw := c_str (ap_gw x), ap_netmask := c_str (ap_netmask x)\<rparr>"

interpretation settings_ap_comparison: comparison wifiman_config_cmp_settings_ap settings_ap_ok settings_ap_view
  apply unfold_locales
  subgoal for x y by (cases x; cases y) (simp add: cfg_cmp)
  done

definition wifiman_config_cmp_sta_config :: "wifi_sta_config \<Rightarrow> wifi_sta_config \<Rightarrow> bool option" where [cfg_cmp]:
  "wifiman_config_cmp_sta_config x y = first_difference
     [strcmp_equal (sta_ssid x) (sta_ssid y),
      strcmp_equal (sta_password x) (sta_password y),
      Some (sta_scan_method x = sta_scan_method y),
      Some (sta_bssid_set x = sta_bssid_set y), Some (sta_bssid x = sta_bssid y),
      Some (sta_channel x = sta_channel y),
      Some (sta_listen_interval x = sta_listen_interval y),
      Some (sta_sort_method x = sta_sort_method y),
      Some (sta_threshold_rssi x = sta_threshold_rssi y),
      Some (sta_threshold_authmode x = sta_threshold_authmode y),
      Some (sta_pmf_capable x = sta_pmf_capable y),
      Some (sta_pmf_required x = sta_pmf_required y)]"

definition config_sta_ok :: "wifi_sta_config \<Rightarrow> bool" where [cfg_cmp]:
  "config_sta_ok x \<longleftrightarrow>
     terminated (sta_ssid x) \<and> terminated (sta_password x)"

definition config_sta_view :: "wifi_sta_config \<Rightarrow> wifi_sta_config" where [cfg_cmp]:
  "config_sta_view x = x\<lparr>sta_ssid := c_str (sta_ssid x), sta_password := c_str (sta_password x)\<rparr>"

interpretation config_sta_comparison: comparison wifiman_config_cmp_sta_config config_sta_ok config_sta_view
  apply unfold_locales
  subgoal for x y by (cases x; cases y) (simp add: cfg_cmp)
  done

definition wifiman_config_cmp_settings_sta :: "wifi_settings_sta \<Rightarrow> wifi_settings_sta \<Rightarrow> bool option" where [cfg_cmp]:
  "wifiman_config_cmp_settings_sta x y = first_difference
     [Some (sta_power_save x = sta_power_save y), Some (sta_static_ip x = sta_static_ip y),
      Some (sta_static_ip_addr x = sta_static_ip_addr y),
      Some (sta_static_netmask x = sta_static_netmask y),
      Some (sta_static_gw x = sta_static_gw y)]"

interpretation settings_sta_comparison: comparison wifiman_config_cmp_settings_sta "\<lambda>_. True" "\<lambda>x. x"
  apply unfold_locales
  subgoal for x y by (cases x; cases y) (simp add: cfg_cmp)
  done

definition wifiman_config_ap_cmp :: "wifiman_config_ap \<Rightarrow> wifiman_config_ap \<Rightarrow> bool option" where
  "wifiman_config_ap_cmp x y = first_difference
     [wifiman_config_cmp_config_ap (wifi_config_ap x) (wifi_config_ap y),
      wifiman_config_cmp_settings_ap (wifi_set_ap x) (wifi_set_ap y)]"

definition wifiman_config_sta_cmp :: "wifiman_config_sta \<Rightarrow> wifiman_config_sta \<Rightarrow> bool option" where
  "wifiman_config_sta_cmp x y = first_difference
     [wifiman_config_cmp_sta_config (wifi_config_sta x) (wifi_config_sta y),
      wifiman_config_cmp_settings_sta (wifi_set_sta x) (wifi_set_sta y)]"

definition wifi_ap_ok :: "wifiman_config_ap \<Rightarrow> bool" where
  "wifi_ap_ok x \<longleftrightarrow> config_ap_ok (wifi_config_ap x) \<and> settings_ap_ok (wifi_set_ap x)"

definition wifi_ap_view :: "wifiman_config_ap \<Rightarrow> wifi_ap_config \<times> wifi_settings_ap" where
  "wifi_ap_view x = (config_ap_view (wifi_config_ap x), settings_ap_view (wifi_set_ap x))"

definition wifi_sta_ok :: "wifiman_config_sta \<Rightarrow> bool" where
  "wifi_sta_ok x \<longleftrightarrow> config_sta_ok (wifi_config_sta x)"

definition wifi_sta_view :: "wifiman_config_sta \<Rightarrow> wifi_sta_config \<times> wifi_settings_sta" where
  "wifi_sta_view x = (config_sta_view (wifi_config_sta x), wifi_set_sta x)"

interpretation wifi_ap_comparison: comparison wifiman_config_ap_cmp wifi_ap_ok wifi_ap_view
  by unfold_locales (simp add: wifiman_config_ap_cmp_def wifi_ap_ok_def wifi_ap_view_def
    config_ap_comparison.cmp_exact settings_ap_comparison.cmp_exact)

interpretation wifi_sta_comparison: comparison wifiman_config_sta_cmp wifi_sta_ok wifi_sta_view
  by unfold_locales (simp add: wifiman_config_sta_cmp_def wifi_sta_ok_def wifi_sta_view_def
    config_sta_comparison.cmp_exact settings_sta_comparison.cmp_exact)

section \<open>Properties\<close>

text \<open>A configuration with every kind of field set; the bytes behind the terminators are arbitrary.\<close>

definition gw_cfg_ruuvi_example :: "string \<Rightarrow> gw_cfg_ruuvi" where
  "gw_cfg_ruuvi_example garbage = \<lparr>
     cfg_remote = \<lparr>use_remote_cfg = True, remote_use_ssl_client_cert = False,
       remote_use_ssl_server_cert = False, remote_url = ''https://r'' @ NUL # garbage,
       remote_auth_type = GW_CFG_HTTP_AUTH_TYPE_BEARER, remote_auth = ''token'' @ NUL # garbage,
       refresh_interval_minutes = 60\<rparr>,
     cfg_http = \<lparr>use_http_ruuvi = True, use_http = False, http_use_ssl_client_cert = False,
       http_use_ssl_server_cert = False, http_url = ''https://h'' @ NUL # garbage, http_period = 10,
       http_data_format = GW_CFG_HTTP_DATA_FORMAT_RUUVI, http_auth_type = GW_CFG_HTTP_AUTH_TYPE_NONE,
       http_auth = garbage\<rparr>,
     cfg_http_stat = \<lparr>use_http_stat = True, http_stat_use_ssl_client_cert = False,
       http_stat_use_ssl_server_cert = False, http_stat_url = ''https://s'' @ NUL # garbage,
       http_stat_user = NUL # garbage, http_stat_pass = NUL # garbage\<rparr>,
     cfg_mqtt = \<lparr>use_mqtt = False, mqtt_disable_retained_messages = False,
       mqtt_use_ssl_client_cert = False, mqtt_use_ssl_server_cert = False,
       mqtt_transport = ''TCP'' @ NUL # garbage,
       mqtt_data_format = GW_CFG_MQTT_DATA_FORMAT_RUUVI_RAW, mqtt_server = ''m'' @ NUL # garbage,
       mqtt_port = 1883, mqtt_sending_interval = 0, mqtt_prefix = ''p'' @ NUL # garbage,
       mqtt_client_id = NUL # garbage, mqtt_user = NUL # garbage, mqtt_pass = NUL # garbage\<rparr>,
     cfg_lan_auth = \<lparr>lan_auth_type = HTTP_SERVER_AUTH_TYPE_DEFAULT, lan_auth_user = ''Admin'' @ NUL # garbage,
       lan_auth_pass = NUL # garbage, lan_auth_api_key = NUL # garbage,
       lan_auth_api_key_rw = NUL # garbage\<rparr>,
     cfg_auto_update = \<lparr>auto_update_cycle = AUTO_UPDATE_CYCLE_TYPE_REGULAR,
       auto_update_weekdays_bitmask = 127, auto_update_interval_from = 0,
       auto_update_interval_to = 24, auto_update_tz_offset_hours = 3\<rparr>,
     cfg_ntp = \<lparr>ntp_use = True, ntp_use_dhcp = False, ntp_server1 = ''t1'' @ NUL # garbage,
       ntp_server2 = ''t2'' @ NUL # garbage, ntp_server3 = NUL # garbage, ntp_server4 = NUL # garbage\<rparr>,
     cfg_filter = \<lparr>company_id = 0x0499, company_use_filtering = True\<rparr>,
     cfg_scan = \<lparr>scan_coded_phy = False, scan_1mbit_phy = True, scan_2mbit_phy = True,
       scan_channel_37 = True, scan_channel_38 = True, scan_channel_39 = True, scan_default = True\<rparr>,
     cfg_scan_filter = \<lparr>sf_allow_listed = False, sf_length = 1, sf_list = [MAC 1 2 3 4 5 6, MAC 0 0 0 0 0 0]\<rparr>,
     cfg_coordinates = NUL # garbage,
     cfg_fw_update_url = ''https://f'' @ NUL # garbage\<rparr>"

lemma gw_cfg_ruuvi_example_ok: "gw_cfg_ruuvi_ok (gw_cfg_ruuvi_example garbage)"
  by (simp add: gw_cfg_ruuvi_ok_def gw_cfg_ruuvi_example_def remote_ok_def http_ok_def
    http_stat_ok_def mqtt_ok_def lan_auth_ok_def ntp_ok_def scan_filter_ok_def
    auth_token_buf_def NUL_def)

text \<open>C16: \<open>gw_cfg_ruuvi_cmp\<close> is the equality of configurations. On two configurations whose
  strings are terminated and whose filter length is within the filter array, the comparison reads
  no memory outside them, and it returns true exactly when the two mean the same: the scalar
  fields agree, the strings agree up to their terminators, the authentication data of the selected
  type agree, and the used parts of the scan filters agree. No field is forgotten, and bytes that
  are not used do not count.
\<close>

theorem gw_cfg_ruuvi_cmp_exact:
  assumes "gw_cfg_ruuvi_ok x" and "gw_cfg_ruuvi_ok y"
  shows "gw_cfg_ruuvi_cmp x y = Some (gw_cfg_ruuvi_view x = gw_cfg_ruuvi_view y)"
  using assms by (rule ruuvi_comparison.cmp_exact)

theorem gw_cfg_ruuvi_cmp_exact_witness:
  "gw_cfg_ruuvi_cmp (gw_cfg_ruuvi_example ''a'') (gw_cfg_ruuvi_example ''xyz'') = Some True"
  using gw_cfg_ruuvi_cmp_exact [OF gw_cfg_ruuvi_example_ok gw_cfg_ruuvi_example_ok, of "''a''" "''xyz''"]
  by (simp add: gw_cfg_ruuvi_view_def gw_cfg_ruuvi_example_def cfg_cmp auth_token_buf_def NUL_def)

end
