(* ===== verification/Event_Mgr.thy ===== *)
theory Event_Mgr
  imports Gw_Prelude
begin

text \<open>
  The event manager, \<open>main/event_mgr.c\<close>: one queue of subscribers per event; a subscriber is
  a signal object with a signal number, in memory that the manager allocated (\<open>is_static\<close>
  false) or that the caller owns. A subscriber record is identified by its address. The state
  also tracks the addresses the manager has allocated and not yet freed. A failed assertion and
  the dereference of a NULL pointer are error values.
\<close>

section \<open>Data model\<close>

datatype event_mgr_ev =
  EVENT_MGR_EV_NONE
| EVENT_MGR_EV_REBOOT
| EVENT_MGR_EV_WIFI_AP_STARTED
| EVENT_MGR_EV_WIFI_AP_STOPPED
| EVENT_MGR_EV_WPS_ACTIVATED
| EVENT_MGR_EV_WPS_DEACTIVATED
| EVENT_MGR_EV_WIFI_AP_STA_CONNECTED
| EVENT_MGR_EV_WIFI_AP_STA_DISCONNECTED
| EVENT_MGR_EV_WIFI_CONNECTED
| EVENT_MGR_EV_WIFI_DISCONNECTED
| EVENT_MGR_EV_ETH_CONNECTED
| EVENT_MGR_EV_ETH_DISCONNECTED
| EVENT_MGR_EV_TIME_SYNCHRONIZED
| EVENT_MGR_EV_GW_CFG_READY
| EVENT_MGR_EV_GW_CFG_CHANGED_RUUVI
| EVENT_MGR_EV_GW_CFG_CHANGED_ETH
| EVENT_MGR_EV_GW_CFG_CHANGED_WIFI
| EVENT_MGR_EV_GW_CFG_CHANGED_RUUVI_NTP_USE
| EVENT_MGR_EV_GW_CFG_CHANGED_RUUVI_NTP_USE_DHCP
| EVENT_MGR_EV_RELAYING_MODE_CHANGED
| EVENT_MGR_EV_CFG_MODE_ACTIVATED
| EVENT_MGR_EV_CFG_MODE_DEACTIVATED
| EVENT_MGR_EV_CFG_BLE_SCAN_CHANGED
| EVENT_MGR_EV_RECV_ADV
| EVENT_MGR_EV_RECV_ADV_TIMEOUT
| EVENT_MGR_EV_GREEN_LED_STATE_CHANGED
| EVENT_MGR_EV_MQTT_CONNECTED
| EVENT_MGR_EV_LAST

type_synonym addr = nat
type_synonym os_signal = nat
type_synonym os_signal_num = nat

record event_mgr_ev_info =
  ev_info_addr :: addr
  p_signal :: os_signal
  sig_num :: os_signal_num
  is_static :: bool

record event_mgr =
  mutex_created :: bool
  events :: "event_mgr_ev \<Rightarrow> event_mgr_ev_info list"
  allocated :: "addr set"

datatype event_mgr_error = Assert_failed | Null_dereference

definition ev_in_range :: "event_mgr_ev \<Rightarrow> bool" where
  "ev_in_range ev \<longleftrightarrow> ev \<noteq> EVENT_MGR_EV_NONE \<and> ev \<noteq> EVENT_MGR_EV_LAST"

section \<open>Operations\<close>

definition event_mgr_init :: "event_mgr \<Rightarrow> bool \<times> event_mgr" where
  "event_mgr_init s =
     (if mutex_created s then (False, s)
      else (True, s\<lparr>mutex_created := True,
                    events := (\<lambda>ev. if ev \<noteq> EVENT_MGR_EV_LAST then [] else events s ev)\<rparr>))"

text \<open>Emptying one queue: unlink the head, free it unless the caller owns it.\<close>

fun event_mgr_free_queue :: "event_mgr_ev_info list \<Rightarrow> addr set \<Rightarrow> addr set" where
  "event_mgr_free_queue [] al = al"
| "event_mgr_free_queue (e # es) al =
     event_mgr_free_queue es (if \<not> is_static e then al - {ev_info_addr e} else al)"

definition all_events :: "event_mgr_ev list" where
  "all_events = [EVENT_MGR_EV_NONE, EVENT_MGR_EV_REBOOT, EVENT_MGR_EV_WIFI_AP_STARTED,
     EVENT_MGR_EV_WIFI_AP_STOPPED, EVENT_MGR_EV_WPS_ACTIVATED, EVENT_MGR_EV_WPS_DEACTIVATED,
     EVENT_MGR_EV_WIFI_AP_STA_CONNECTED, EVENT_MGR_EV_WIFI_AP_STA_DISCONNECTED,
     EVENT_MGR_EV_WIFI_CONNECTED, EVENT_MGR_EV_WIFI_DISCONNECTED, EVENT_MGR_EV_ETH_CONNECTED,
     EVENT_MGR_EV_ETH_DISCONNECTED, EVENT_MGR_EV_TIME_SYNCHRONIZED, EVENT_MGR_EV_GW_CFG_READY,
     EVENT_MGR_EV_GW_CFG_CHANGED_RUUVI, EVENT_MGR_EV_GW_CFG_CHANGED_ETH,
     EVENT_MGR_EV_GW_CFG_CHANGED_WIFI, EVENT_MGR_EV_GW_CFG_CHANGED_RUUVI_NTP_USE,
     EVENT_MGR_EV_GW_CFG_CHANGED_RUUVI_NTP_USE_DHCP, EVENT_MGR_EV_RELAYING_MODE_CHANGED,
     EVENT_MGR_EV_CFG_MODE_ACTIVATED, EVENT_MGR_EV_CFG_MODE_DEACTIVATED,
     EVENT_MGR_EV_CFG_BLE_SCAN_CHANGED, EVENT_MGR_EV_RECV_ADV, EVENT_MGR_EV_RECV_ADV_TIMEOUT,
     EVENT_MGR_EV_GREEN_LED_STATE_CHANGED, EVENT_MGR_EV_MQTT_CONNECTED]"

definition event_mgr_deinit :: "event_mgr \<Rightarrow> event_mgr" where
  "event_mgr_deinit s =
     (let s1 = fold (\<lambda>ev t. t\<lparr>allocated := event_mgr_free_queue (events t ev) (allocated t),
                              events := (events t)(ev := [])\<rparr>) all_events s
      in s1\<lparr>mutex_created := False\<rparr>)"

text \<open>\<open>os_calloc\<close> answers with a fresh address or with NULL (\<open>None\<close>).\<close>

definition event_mgr_create_ev_info_sig ::
  "addr option \<Rightarrow> os_signal \<Rightarrow> os_signal_num \<Rightarrow> event_mgr_ev_info option" where
  "event_mgr_create_ev_info_sig calloc sig num =
     (case calloc of
        None \<Rightarrow> None
      | Some a \<Rightarrow> Some \<lparr>ev_info_addr = a, p_signal = sig, sig_num = num, is_static = False\<rparr>)"

definition event_mgr_subscribe_sig ::
  "addr option \<Rightarrow> event_mgr_ev \<Rightarrow> os_signal \<Rightarrow> os_signal_num \<Rightarrow> event_mgr \<Rightarrow> event_mgr_error + (bool \<times> event_mgr)" where
  "event_mgr_subscribe_sig calloc ev sig num s =
     (if \<not> ev_in_range ev then Inl Assert_failed
      else case event_mgr_create_ev_info_sig calloc sig num of
             None \<Rightarrow> Inr (False, s)
           | Some info \<Rightarrow> Inr (True, s\<lparr>allocated := insert (ev_info_addr info) (allocated s),
                                       events := (events s)(ev := events s ev @ [info])\<rparr>))"

definition event_mgr_subscribe_sig_static ::
  "addr \<Rightarrow> event_mgr_ev \<Rightarrow> os_signal \<Rightarrow> os_signal_num \<Rightarrow> event_mgr \<Rightarrow> event_mgr_error + event_mgr" where
  "event_mgr_subscribe_sig_static mem ev sig num s =
     (if \<not> ev_in_range ev then Inl Assert_failed
      else let info = \<lparr>ev_info_addr = mem, p_signal = sig, sig_num = num, is_static = True\<rparr>
           in Inr (s\<lparr>events := (events s)(ev := events s ev @ [info])\<rparr>))"

text \<open>
  When the search loop ends without a match \<open>p_elem\<close> is NULL, and the code writes through it
  all the same.
\<close>

definition event_mgr_unsubscribe_sig ::
  "event_mgr_ev \<Rightarrow> os_signal \<Rightarrow> os_signal_num \<Rightarrow> event_mgr \<Rightarrow> event_mgr_error + event_mgr" where
  "event_mgr_unsubscribe_sig ev sig num s =
     (if \<not> ev_in_range ev then Inl Assert_failed
      else case find (\<lambda>e. p_signal e = sig \<and> sig_num e = num) (events s ev) of
             None \<Rightarrow> Inl Null_dereference
           | Some e \<Rightarrow> Inr (s\<lparr>events := (events s)(ev := remove1 e (events s ev)),
                              allocated := (if \<not> is_static e then allocated s - {ev_info_addr e}
                                            else allocated s)\<rparr>))"

definition event_mgr_unsubscribe_sig_static ::
  "addr \<Rightarrow> event_mgr_ev \<Rightarrow> event_mgr \<Rightarrow> event_mgr_error + event_mgr" where
  "event_mgr_unsubscribe_sig_static mem ev s =
     (if \<not> ev_in_range ev then Inl Assert_failed
      else case find (\<lambda>e. ev_info_addr e = mem) (events s ev) of
             None \<Rightarrow> Inl Null_dereference
           | Some e \<Rightarrow> Inr (s\<lparr>events := (events s)(ev := remove1 e (events s ev))\<rparr>))"

text \<open>The signals sent, in order.\<close>

definition event_mgr_notify :: "event_mgr_ev \<Rightarrow> event_mgr \<Rightarrow> (os_signal \<times> os_signal_num) list" where
  "event_mgr_notify ev s =
     (if \<not> ev_in_range ev then [] else map (\<lambda>e. (p_signal e, sig_num e)) (events s ev))"

section \<open>Memory safety\<close>

text \<open>
  No subscriber record is linked twice in a queue, no record is in two queues, and the records
  the manager allocated and has not freed are exactly the linked ones it owns: nothing linked is
  freed, nothing unlinked is leaked.
\<close>

definition linked :: "event_mgr \<Rightarrow> event_mgr_ev_info set" where
  "linked s = (\<Union>ev. set (events s ev))"

definition event_mgr_inv :: "event_mgr \<Rightarrow> bool" where
  "event_mgr_inv s \<longleftrightarrow>
     (\<forall>ev. distinct (events s ev)) \<and>
     (\<forall>ev ev' e e'. e \<in> set (events s ev) \<longrightarrow> e' \<in> set (events s ev') \<longrightarrow>
        ev_info_addr e = ev_info_addr e' \<longrightarrow> ev = ev' \<and> e = e') \<and>
     (\<forall>ev. \<not> ev_in_range ev \<longrightarrow> events s ev = []) \<and>
     allocated s = {ev_info_addr e |e. e \<in> linked s \<and> \<not> is_static e}"

text \<open>The start-up state: zeroed static memory, then \<open>event_mgr_init\<close>.\<close>

definition event_mgr_start :: event_mgr where
  "event_mgr_start = snd (event_mgr_init \<lparr>mutex_created = False, events = (\<lambda>_. []), allocated = {}\<rparr>)"

lemma event_mgr_start_eq: "event_mgr_start = \<lparr>mutex_created = True, events = (\<lambda>_. []), allocated = {}\<rparr>"
  by (simp add: event_mgr_start_def event_mgr_init_def fun_eq_iff)

lemma event_mgr_inv_start: "event_mgr_inv event_mgr_start"
  by (auto simp: event_mgr_inv_def event_mgr_start_eq linked_def)

text \<open>
  The calls clients make. A failed assertion and a dereference of NULL are values of the run: no
  later call repairs them.
\<close>

datatype event_mgr_op =
  Subscribe "addr option" event_mgr_ev os_signal os_signal_num
| Subscribe_static addr event_mgr_ev os_signal os_signal_num
| Unsubscribe event_mgr_ev os_signal os_signal_num
| Unsubscribe_static addr event_mgr_ev

fun event_mgr_exec :: "event_mgr_op \<Rightarrow> event_mgr \<Rightarrow> event_mgr_error + event_mgr" where
  "event_mgr_exec (Subscribe a ev sig num) s = map_sum id snd (event_mgr_subscribe_sig a ev sig num s)"
| "event_mgr_exec (Subscribe_static mem ev sig num) s = event_mgr_subscribe_sig_static mem ev sig num s"
| "event_mgr_exec (Unsubscribe ev sig num) s = event_mgr_unsubscribe_sig ev sig num s"
| "event_mgr_exec (Unsubscribe_static mem ev) s = event_mgr_unsubscribe_sig_static mem ev s"

definition event_mgr_step :: "event_mgr_error + event_mgr \<Rightarrow> event_mgr_op \<Rightarrow> event_mgr_error + event_mgr" where
  "event_mgr_step r x = (case r of Inl err \<Rightarrow> Inl err | Inr s \<Rightarrow> event_mgr_exec x s)"

definition event_mgr_sound :: "event_mgr_error + event_mgr \<Rightarrow> bool" where
  "event_mgr_sound r \<longleftrightarrow> (case r of Inl _ \<Rightarrow> False | Inr s \<Rightarrow> event_mgr_inv s)"

text \<open>
  The protocol of the callers: the events are those of the enumeration between its two marks; the
  allocator and the owners of static records hand out addresses that no linked record has; only a
  signal that is subscribed is unsubscribed, and a static record only from the event it is linked
  in.
\<close>

fun event_mgr_protocol :: "event_mgr \<Rightarrow> event_mgr_op \<Rightarrow> bool" where
  "event_mgr_protocol s (Subscribe a ev sig num) \<longleftrightarrow>
     ev_in_range ev \<and> (\<forall>x. a = Some x \<longrightarrow> x \<notin> ev_info_addr ` linked s)"
| "event_mgr_protocol s (Subscribe_static mem ev sig num) \<longleftrightarrow>
     ev_in_range ev \<and> mem \<notin> ev_info_addr ` linked s"
| "event_mgr_protocol s (Unsubscribe ev sig num) \<longleftrightarrow>
     ev_in_range ev \<and> (sig, num) \<in> set (event_mgr_notify ev s)"
| "event_mgr_protocol s (Unsubscribe_static mem ev) \<longleftrightarrow>
     ev_in_range ev \<and> (\<exists>e \<in> set (events s ev). ev_info_addr e = mem \<and> is_static e)"

definition event_mgr_enabled :: "event_mgr_error + event_mgr \<Rightarrow> event_mgr_op \<Rightarrow> bool" where
  "event_mgr_enabled r x \<longleftrightarrow> (case r of Inl _ \<Rightarrow> False | Inr s \<Rightarrow> event_mgr_protocol s x)"

lemma event_mgr_step_Inr [simp]: "event_mgr_step (Inr s) x = event_mgr_exec x s"
  and event_mgr_sound_Inr [simp]: "event_mgr_sound (Inr s) = event_mgr_inv s"
  and event_mgr_sound_Inl [simp]: "\<not> event_mgr_sound (Inl err)"
  and event_mgr_enabled_Inr [simp]: "event_mgr_enabled (Inr s) x = event_mgr_protocol s x"
  by (simp_all add: event_mgr_step_def event_mgr_sound_def event_mgr_enabled_def)

lemma linked_mem: "e \<in> linked s \<longleftrightarrow> (\<exists>ev. e \<in> set (events s ev))"
  by (auto simp: linked_def)

lemma event_mgr_invD:
  assumes "event_mgr_inv s"
  shows "distinct (events s ev)"
    and "e \<in> set (events s ev) \<Longrightarrow> e' \<in> set (events s ev') \<Longrightarrow> ev_info_addr e = ev_info_addr e' \<Longrightarrow>
      ev = ev' \<and> e = e'"
    and "\<not> ev_in_range ev \<Longrightarrow> events s ev = []"
    and "allocated s = {ev_info_addr e |e. e \<in> linked s \<and> \<not> is_static e}"
  using assms unfolding event_mgr_inv_def by blast+

lemma append_inv:
  assumes inv: "event_mgr_inv s" and range: "ev_in_range ev" and new: "ev_info_addr e \<notin> ev_info_addr ` linked s"
  shows "event_mgr_inv (s\<lparr>events := (events s)(ev := events s ev @ [e]),
    allocated := (if is_static e then allocated s else insert (ev_info_addr e) (allocated s))\<rparr>)" (is "event_mgr_inv ?s")
proof -
  note D = event_mgr_invD [OF inv]
  have evs: "set (events ?s ev') = (if ev' = ev then insert e (set (events s ev')) else set (events s ev'))" for ev'
    by simp
  have links: "linked ?s = insert e (linked s)" by (auto simp: linked_def split: if_splits)
  have fresh: "x \<in> set (events s ev') \<Longrightarrow> ev_info_addr x \<noteq> ev_info_addr e" for x ev'
    using new by (metis image_eqI linked_mem)
  have "distinct (events ?s ev')" for ev' using D(1) fresh [of e ev] by auto
  moreover have "a = b \<and> x = y" if "x \<in> set (events ?s a)" "y \<in> set (events ?s b)"
    "ev_info_addr x = ev_info_addr y" for a b x y
  proof -
    have "x = e \<and> a = ev \<or> x \<in> set (events s a)" "y = e \<and> b = ev \<or> y \<in> set (events s b)"
      using that(1,2) unfolding evs by (simp_all split: if_splits)
    with that(3) D(2) [of x a y b] fresh [of x a] fresh [of y b] show ?thesis by metis
  qed
  moreover have "events ?s ev' = []" if "\<not> ev_in_range ev'" for ev' using that D(3) range by auto
  moreover have "allocated ?s = {ev_info_addr x |x. x \<in> linked ?s \<and> \<not> is_static x}"
    unfolding links using D(4) by auto
  ultimately show ?thesis unfolding event_mgr_inv_def by blast
qed

lemma keep_allocated [simp]: "s\<lparr>events := X, allocated := allocated s\<rparr> = s\<lparr>events := X\<rparr>"
  by (cases s) simp

lemma remove_inv:
  assumes inv: "event_mgr_inv s" and mem: "e \<in> set (events s ev)"
  shows "event_mgr_inv (s\<lparr>events := (events s)(ev := remove1 e (events s ev)),
    allocated := (if is_static e then allocated s else allocated s - {ev_info_addr e})\<rparr>)" (is "event_mgr_inv ?s")
proof -
  note D = event_mgr_invD [OF inv]
  have evs: "set (events ?s ev') = (if ev' = ev then set (events s ev') - {e} else set (events s ev'))" for ev'
    using D(1) by simp
  have uniq: "x = e \<and> ev' = ev" if "x \<in> set (events s ev')" "ev_info_addr x = ev_info_addr e" for x ev'
    using D(2) [OF that(1) mem that(2)] by simp
  have other: "set (events s ev') - {e} = set (events s ev')" if "ev' \<noteq> ev" for ev'
    using uniq [of e ev'] that by blast
  then have evs': "set (events ?s ev') = set (events s ev') - {e}" for ev'
    unfolding evs by (cases "ev' = ev") simp_all
  have links: "linked ?s = linked s - {e}"
    unfolding linked_def evs' by blast
  have "distinct (events ?s ev')" for ev' using D(1) by simp
  moreover have "a = b \<and> x = y" if "x \<in> set (events ?s a)" "y \<in> set (events ?s b)"
    "ev_info_addr x = ev_info_addr y" for a b x y
    using that D(2) [of x a y b] unfolding evs by (simp split: if_splits)
  moreover have "events ?s ev' = []" if "\<not> ev_in_range ev'" for ev' using that D(3) by auto
  moreover have "allocated ?s = {ev_info_addr x |x. x \<in> linked ?s \<and> \<not> is_static x}"
  proof (cases "is_static e")
    case True
    then have "{ev_info_addr x |x. x \<in> linked s - {e} \<and> \<not> is_static x} =
        {ev_info_addr x |x. x \<in> linked s \<and> \<not> is_static x}" by blast
    with True D(4) links show ?thesis by simp
  next
    case False
    have "ev_info_addr y \<noteq> ev_info_addr e" if "y \<in> linked s" "y \<noteq> e" for y
      using uniq that by (auto simp: linked_mem)
    then have "{ev_info_addr x |x. x \<in> linked s - {e} \<and> \<not> is_static x} =
        {ev_info_addr x |x. x \<in> linked s \<and> \<not> is_static x} - {ev_info_addr e}"
      by (rule setcompr_remove)
    with False D(4) links show ?thesis by simp
  qed
  ultimately show ?thesis unfolding event_mgr_inv_def by blast
qed

lemma subscribe_sig_inv:
  assumes "event_mgr_inv s" and "\<And>x. a = Some x \<Longrightarrow> x \<notin> ev_info_addr ` linked s"
    and "event_mgr_subscribe_sig a ev sig num s = Inr (ok, s')"
  shows "event_mgr_inv s'"
proof (cases a)
  case None
  with assms(1,3) show ?thesis
    by (auto simp: event_mgr_subscribe_sig_def event_mgr_create_ev_info_sig_def split: if_splits)
next
  case (Some x)
  let ?e = "\<lparr>ev_info_addr = x, p_signal = sig, sig_num = num, is_static = False\<rparr>"
  from Some assms(3) have "ev_in_range ev" and "s' = s\<lparr>events := (events s)(ev := events s ev @ [?e]),
      allocated := insert x (allocated s)\<rparr>"
    by (auto simp: event_mgr_subscribe_sig_def event_mgr_create_ev_info_sig_def split: if_splits)
  with append_inv [of s ev ?e] assms(1,2) Some show ?thesis by simp
qed

lemma event_mgr_exec_sound:
  assumes inv: "event_mgr_inv s" and ok: "event_mgr_protocol s x"
  shows "event_mgr_sound (event_mgr_exec x s)"
proof (cases x)
  case (Subscribe a ev sig num)
  with ok obtain b s' where r: "event_mgr_subscribe_sig a ev sig num s = Inr (b, s')"
    by (cases a) (auto simp: event_mgr_subscribe_sig_def event_mgr_create_ev_info_sig_def)
  with subscribe_sig_inv [OF inv _ r] ok Subscribe show ?thesis by simp
next
  case (Subscribe_static mem ev sig num)
  with inv ok append_inv [of s ev "\<lparr>ev_info_addr = mem, p_signal = sig, sig_num = num, is_static = True\<rparr>"]
  show ?thesis by (simp add: event_mgr_subscribe_sig_static_def)
next
  case (Unsubscribe ev sig num)
  show ?thesis
  proof (cases "find (\<lambda>e. p_signal e = sig \<and> sig_num e = num) (events s ev)")
    case None
    with ok Unsubscribe have False by (auto simp: event_mgr_notify_def find_None_iff)
    then show ?thesis ..
  next
    case (Some e)
    then have "e \<in> set (events s ev)" by (auto simp: find_Some_iff)
    with inv ok Some remove_inv [of s e ev] Unsubscribe show ?thesis
      by (simp add: event_mgr_unsubscribe_sig_def split: if_splits)
  qed
next
  case (Unsubscribe_static mem ev)
  then obtain e' where e': "e' \<in> set (events s ev)" "ev_info_addr e' = mem" "is_static e'"
    and range: "ev_in_range ev" using ok by auto
  then obtain e where Some: "find (\<lambda>e. ev_info_addr e = mem) (events s ev) = Some e"
    by (cases "find (\<lambda>e. ev_info_addr e = mem) (events s ev)") (auto simp: find_None_iff)
  then have e: "e \<in> set (events s ev)" and "ev_info_addr e = mem" by (auto simp: find_Some_iff)
  with event_mgr_invD(2) [OF inv this(1) e'(1)] e' have "is_static e" by simp
  with inv Some e range remove_inv [of s e ev] Unsubscribe_static show ?thesis
    by (simp add: event_mgr_unsubscribe_sig_static_def)
qed

lemma event_mgr_step_sound:
  assumes "event_mgr_sound r" and "event_mgr_enabled r x"
  shows "event_mgr_sound (event_mgr_step r x)"
  using assms event_mgr_exec_sound by (cases r) simp_all

interpretation ev_mgr: event_machine event_mgr_step event_mgr_sound event_mgr_enabled
  by unfold_locales (rule event_mgr_step_sound)

lemma free_queue_eq:
  "event_mgr_free_queue es al = al - {ev_info_addr e |e. e \<in> set es \<and> \<not> is_static e}"
  by (induction es arbitrary: al) auto

definition clear_event :: "event_mgr_ev \<Rightarrow> event_mgr \<Rightarrow> event_mgr" where
  "clear_event ev t = t\<lparr>allocated := event_mgr_free_queue (events t ev) (allocated t),
                        events := (events t)(ev := [])\<rparr>"

lemma clear_event_parts [simp]:
  "events (clear_event ev s) ev' = (if ev' = ev then [] else events s ev')"
  "allocated (clear_event ev s) = allocated s - {ev_info_addr e |e. e \<in> set (events s ev) \<and> \<not> is_static e}"
  by (simp_all add: clear_event_def free_queue_eq)

lemma clear_events_events: "events (fold clear_event evs s) ev = (if ev \<in> set evs then [] else events s ev)"
  by (induction evs arbitrary: s) auto

lemma clear_events_allocated:
  assumes "ev \<in> set evs" and "e \<in> set (events s ev)" and "\<not> is_static e"
  shows "ev_info_addr e \<notin> allocated (fold clear_event evs s)"
  using assms
proof (induction evs arbitrary: s)
  case (Cons a evs)
  have mono: "allocated (fold clear_event evs t) \<subseteq> allocated t" for t
    by (induction evs arbitrary: t) (auto, force)
  show ?case
  proof (cases "ev = a")
    case True
    with Cons.prems mono [of "clear_event a s"] show ?thesis by auto
  next
    case False
    with Cons.prems Cons.IH [of "clear_event a s"] show ?thesis by simp
  qed
qed simp

lemma clear_events_subset: "allocated (fold clear_event evs s) \<subseteq> allocated s"
  by (induction evs arbitrary: s) (auto, force)

lemma deinit_eq: "event_mgr_deinit s = (fold clear_event all_events s)\<lparr>mutex_created := False\<rparr>"
  by (simp add: event_mgr_deinit_def Let_def clear_event_def [abs_def])

lemma all_events_complete: "ev_in_range ev \<Longrightarrow> ev \<in> set all_events"
  by (cases ev) (simp_all add: ev_in_range_def all_events_def)

section \<open>Properties\<close>

text \<open>C6: along any run of calls that keep the protocol (an event of the enumeration, fresh
  memory for a new subscriber, only subscribed signals unsubscribed) no assertion fails and no NULL
  is dereferenced, and after the run every linked record is linked once and the records the manager
  has allocated and not freed are exactly the linked ones it owns: no leak, no dangling
  subscriber.\<close>

theorem event_mgr_memory_safe:
  assumes "enabled_run event_mgr_step event_mgr_enabled (Inr event_mgr_start) ops"
  shows "\<exists>s. run_events event_mgr_step (Inr event_mgr_start) ops = Inr s \<and> event_mgr_inv s"
proof -
  have "event_mgr_sound (run_events event_mgr_step (Inr event_mgr_start) ops)"
    by (rule ev_mgr.run_inv [OF _ assms]) (simp add: event_mgr_inv_start)
  then show ?thesis by (cases "run_events event_mgr_step (Inr event_mgr_start) ops") simp_all
qed

theorem event_mgr_memory_safe_witness:
  "\<exists>s. run_events event_mgr_step (Inr event_mgr_start)
     [Subscribe (Some 10) EVENT_MGR_EV_REBOOT 7 0, Subscribe None EVENT_MGR_EV_REBOOT 8 0,
      Unsubscribe EVENT_MGR_EV_REBOOT 7 0] = Inr s \<and> event_mgr_inv s"
  by (rule event_mgr_memory_safe)
    (simp add: event_mgr_start_eq event_mgr_subscribe_sig_def ev_in_range_def
      event_mgr_create_ev_info_sig_def linked_def image_iff event_mgr_notify_def)

text \<open>After \<open>event_mgr_deinit\<close> no queue has a subscriber, and every record the manager
  had allocated is freed.\<close>

theorem event_mgr_deinit_releases_all:
  assumes "event_mgr_inv s"
  shows "(\<forall>ev. events (event_mgr_deinit s) ev = []) \<and> allocated (event_mgr_deinit s) = {} \<and>
    \<not> mutex_created (event_mgr_deinit s)"
proof -
  note D = event_mgr_invD [OF assms]
  have "events s ev = []" if "ev \<notin> set all_events" for ev
    using D(3) that all_events_complete by blast
  then have "events (event_mgr_deinit s) ev = []" for ev
    by (simp add: deinit_eq clear_events_events)
  moreover have "a \<notin> allocated (event_mgr_deinit s)" for a
  proof (cases "a \<in> allocated s")
    case True
    then obtain e ev where e: "a = ev_info_addr e" "e \<in> set (events s ev)" "\<not> is_static e"
      using D(4) by (auto simp: linked_mem)
    then have "ev \<in> set all_events" using D(3) [of ev] all_events_complete by (cases "ev_in_range ev") auto
    from clear_events_allocated [OF this e(2,3)] e(1) show ?thesis by (simp add: deinit_eq)
  next
    case False
    with clear_events_subset [of all_events s] show ?thesis by (auto simp: deinit_eq)
  qed
  ultimately show ?thesis by (auto simp: deinit_eq)
qed

theorem event_mgr_deinit_releases_all_witness:
  "allocated (event_mgr_deinit
     \<lparr>mutex_created = True, events = (\<lambda>_. [])(EVENT_MGR_EV_REBOOT :=
        [\<lparr>ev_info_addr = 3, p_signal = 1, sig_num = 2, is_static = False\<rparr>]), allocated = {3}\<rparr>) = {}"
  using event_mgr_deinit_releases_all
    [OF append_inv [OF event_mgr_inv_start, of EVENT_MGR_EV_REBOOT
      "\<lparr>ev_info_addr = 3, p_signal = 1, sig_num = 2, is_static = False\<rparr>"]]
  by (simp add: event_mgr_start_eq linked_def ev_in_range_def)

text \<open>A successful subscription, with allocated or with static memory, appends one
  notification to the end of its event and changes no other event; a failed allocation changes
  nothing.\<close>

theorem event_mgr_subscribe_notifies:
  "(case event_mgr_subscribe_sig a ev sig num s of
      Inl err \<Rightarrow> err = Assert_failed \<and> \<not> ev_in_range ev
    | Inr (ok, s') \<Rightarrow> ok = (a \<noteq> None) \<and>
        event_mgr_notify ev' s' = event_mgr_notify ev' s @ (if ok \<and> ev' = ev then [(sig, num)] else [])) \<and>
   (case event_mgr_subscribe_sig_static mem ev sig num s of
      Inl err \<Rightarrow> err = Assert_failed \<and> \<not> ev_in_range ev
    | Inr s' \<Rightarrow> event_mgr_notify ev' s' = event_mgr_notify ev' s @ (if ev' = ev then [(sig, num)] else []))"
  by (auto simp: event_mgr_subscribe_sig_def event_mgr_subscribe_sig_static_def event_mgr_notify_def
      event_mgr_create_ev_info_sig_def split: option.split)

lemma map_remove1_find:
  assumes "find (\<lambda>e. f e = y) xs = Some e"
  shows "map f (remove1 e xs) = remove1 y (map f xs)"
proof -
  have "f e = y" using assms by (auto simp: find_Some_iff)
  with assms show ?thesis by (induction xs) (auto split: if_splits)
qed

text \<open>Unsubscribing removes the first notification of the signal from the event and leaves
  the other events alone; unsubscribing a signal that is not subscribed dereferences a NULL pointer.\<close>

theorem event_mgr_unsubscribe_sig_effect:
  "case event_mgr_unsubscribe_sig ev sig num s of
     Inl Assert_failed \<Rightarrow> \<not> ev_in_range ev
   | Inl Null_dereference \<Rightarrow> ev_in_range ev \<and> (sig, num) \<notin> set (event_mgr_notify ev s)
   | Inr s' \<Rightarrow> (sig, num) \<in> set (event_mgr_notify ev s) \<and>
       event_mgr_notify ev' s' =
         (if ev' = ev then remove1 (sig, num) (event_mgr_notify ev s) else event_mgr_notify ev' s)"
proof (cases "ev_in_range ev")
  case True
  have pred: "(\<lambda>e. p_signal e = sig \<and> sig_num e = num) = (\<lambda>e. (p_signal e, sig_num e) = (sig, num))"
    by auto
  show ?thesis
  proof (cases "find (\<lambda>e. p_signal e = sig \<and> sig_num e = num) (events s ev)")
    case None
    then have "(sig, num) \<notin> set (event_mgr_notify ev s)"
      by (auto simp: event_mgr_notify_def find_None_iff)
    with True None show ?thesis by (simp add: event_mgr_unsubscribe_sig_def)
  next
    case (Some e)
    then have "e \<in> set (events s ev)" "p_signal e = sig" "sig_num e = num" by (auto simp: find_Some_iff)
    with True Some map_remove1_find [OF Some [unfolded pred]] show ?thesis
      by (force simp: event_mgr_unsubscribe_sig_def event_mgr_notify_def)
  qed
qed (simp add: event_mgr_unsubscribe_sig_def)

end
