(* ===== verification/Gw_Cfg.thy ===== *)
theory Gw_Cfg
  imports Gw_Cfg_Cmp Event_Mgr "HOL-Library.Monad_Syntax"
begin

text \<open>
  The configuration store of \<open>gw_cfg.c\<close>: the current configuration under a recursive mutex, the
  notifications to the rest of the firmware, the callback that saves to flash. None is a failed
  assertion, an unlock without lock, or a read behind the end of a string. The mutex is None
  before \<open>gw_cfg_init\<close>, otherwise how often the caller holds it. Memory for copies comes from the
  caller of the model as a flag that says whether the allocation succeeds.
\<close>

section \<open>State\<close>

datatype gw_cfg_effect = Cfg_notify event_mgr_ev | Cfg_on_change "gw_cfg option"

record gw_cfg_state =
  g_gateway_config :: gw_cfg
  g_gw_cfg_ready :: bool
  g_gw_cfg_is_empty :: bool
  g_gw_cfg_mutex :: "nat option"
  g_p_gw_cfg_cb_on_change_cfg :: bool
  cfg_trace :: "gw_cfg_effect list"

definition cfg_emit :: "gw_cfg_effect \<Rightarrow> gw_cfg_state \<Rightarrow> gw_cfg_state" where
  "cfg_emit e s = s\<lparr>cfg_trace := cfg_trace s @ [e]\<rparr>"

definition gw_cfg_mutex_lock :: "gw_cfg_state \<Rightarrow> gw_cfg_state option" where
  "gw_cfg_mutex_lock s = (case g_gw_cfg_mutex s of
     None \<Rightarrow> None
   | Some n \<Rightarrow> Some (s\<lparr>g_gw_cfg_mutex := Some (Suc n)\<rparr>))"

definition gw_cfg_mutex_unlock :: "gw_cfg_state \<Rightarrow> gw_cfg_state option" where
  "gw_cfg_mutex_unlock s = (case g_gw_cfg_mutex s of
     Some (Suc n) \<Rightarrow> Some (s\<lparr>g_gw_cfg_mutex := Some n\<rparr>)
   | _ \<Rightarrow> None)"

definition gw_cfg_init :: "gw_cfg \<Rightarrow> bool \<Rightarrow> gw_cfg_state \<Rightarrow> gw_cfg_state option" where
  "gw_cfg_init dflt cb s =
     (if g_gw_cfg_mutex s \<noteq> None then None
      else do {
        s \<leftarrow> gw_cfg_mutex_lock (s\<lparr>g_gw_cfg_mutex := Some 0\<rparr>);
        gw_cfg_mutex_unlock (s\<lparr>g_gw_cfg_ready := False, g_gw_cfg_is_empty := True,
          g_gateway_config := dflt, g_p_gw_cfg_cb_on_change_cfg := cb\<rparr>)
      })"

definition gw_cfg_deinit :: "gw_cfg_state \<Rightarrow> gw_cfg_state option" where
  "gw_cfg_deinit s = do {
     s \<leftarrow> gw_cfg_mutex_lock s;
     s \<leftarrow> gw_cfg_mutex_unlock (s\<lparr>g_p_gw_cfg_cb_on_change_cfg := False, g_gw_cfg_ready := False\<rparr>);
     Some (s\<lparr>g_gw_cfg_mutex := None\<rparr>)
   }"

definition gw_cfg_is_initialized :: "gw_cfg_state \<Rightarrow> bool" where
  "gw_cfg_is_initialized s \<longleftrightarrow> (if g_gw_cfg_mutex s \<noteq> None then g_gw_cfg_ready s else False)"

definition gw_cfg_lock_ro :: "gw_cfg_state \<Rightarrow> (gw_cfg \<times> gw_cfg_state) option" where
  "gw_cfg_lock_ro s = do { s \<leftarrow> gw_cfg_mutex_lock s; Some (g_gateway_config s, s) }"

definition gw_cfg_unlock_ro :: "gw_cfg_state \<Rightarrow> gw_cfg_state option" where
  "gw_cfg_unlock_ro s = gw_cfg_mutex_unlock s"

text \<open>The getters lock, read and unlock.\<close>

definition gw_cfg_read :: "(gw_cfg \<Rightarrow> 'a) \<Rightarrow> gw_cfg_state \<Rightarrow> ('a \<times> gw_cfg_state) option" where
  "gw_cfg_read f s = do {
     (c, s) \<leftarrow> gw_cfg_lock_ro s;
     s \<leftarrow> gw_cfg_unlock_ro s;
     Some (f c, s)
   }"

definition gw_cfg_is_empty :: "gw_cfg_state \<Rightarrow> (bool \<times> gw_cfg_state) option" where
  "gw_cfg_is_empty s = do {
     (c, s) \<leftarrow> gw_cfg_lock_ro s;
     let flag_is_empty = g_gw_cfg_is_empty s;
     s \<leftarrow> gw_cfg_unlock_ro s;
     Some (flag_is_empty, s)
   }"

section \<open>Storing a section\<close>

type_synonym set_state = "gw_cfg_state \<times> gw_cfg_update_status"

definition gw_cfg_set_ruuvi :: "gw_cfg_ruuvi \<Rightarrow> set_state \<Rightarrow> set_state option" where
  "gw_cfg_set_ruuvi new = (\<lambda>(s, st).
     let old = ruuvi_cfg (g_gateway_config s) in
     do {
       same \<leftarrow> gw_cfg_ruuvi_cmp old new;
       if same then Some (s, st)
       else
         let s = (if g_gw_cfg_ready s then
             (let s = cfg_emit (Cfg_notify EVENT_MGR_EV_GW_CFG_CHANGED_RUUVI) s in
              if ntp_use (cfg_ntp old) \<noteq> ntp_use (cfg_ntp new)
              then cfg_emit (Cfg_notify EVENT_MGR_EV_GW_CFG_CHANGED_RUUVI_NTP_USE) s
              else if ntp_use (cfg_ntp new) \<and> ntp_use_dhcp (cfg_ntp old) \<noteq> ntp_use_dhcp (cfg_ntp new)
              then cfg_emit (Cfg_notify EVENT_MGR_EV_GW_CFG_CHANGED_RUUVI_NTP_USE_DHCP) s
              else s)
             else s)
         in Some (s\<lparr>g_gateway_config := (g_gateway_config s)\<lparr>ruuvi_cfg := new\<rparr>\<rparr>,
                  st\<lparr>flag_ruuvi_cfg_modified := True\<rparr>)
     })"

definition gw_cfg_set_eth :: "gw_cfg_eth \<Rightarrow> set_state \<Rightarrow> set_state option" where
  "gw_cfg_set_eth new = (\<lambda>(s, st). do {
     same \<leftarrow> gw_cfg_eth_cmp (eth_cfg (g_gateway_config s)) new;
     if same then Some (s, st)
     else
       let s = (if g_gw_cfg_ready s then cfg_emit (Cfg_notify EVENT_MGR_EV_GW_CFG_CHANGED_ETH) s else s)
       in Some (s\<lparr>g_gateway_config := (g_gateway_config s)\<lparr>eth_cfg := new\<rparr>\<rparr>,
                st\<lparr>flag_eth_cfg_modified := True\<rparr>)
   })"

definition gw_cfg_set_wifi_ap :: "wifiman_config_ap \<Rightarrow> set_state \<Rightarrow> set_state option" where
  "gw_cfg_set_wifi_ap new = (\<lambda>(s, st). do {
     same \<leftarrow> wifiman_config_ap_cmp (wifi_cfg_ap (g_gateway_config s)) new;
     if same then Some (s, st)
     else
       let s = (if g_gw_cfg_ready s then cfg_emit (Cfg_notify EVENT_MGR_EV_GW_CFG_CHANGED_WIFI) s else s)
       in Some (s\<lparr>g_gateway_config := (g_gateway_config s)\<lparr>wifi_cfg_ap := new\<rparr>\<rparr>,
                st\<lparr>flag_wifi_ap_cfg_modified := True\<rparr>)
   })"

definition gw_cfg_set_wifi_sta :: "wifiman_config_sta \<Rightarrow> set_state \<Rightarrow> set_state option" where
  "gw_cfg_set_wifi_sta new = (\<lambda>(s, st). do {
     same \<leftarrow> wifiman_config_sta_cmp (wifi_cfg_sta (g_gateway_config s)) new;
     if same then Some (s, st)
     else
       let s = (if g_gw_cfg_ready s then cfg_emit (Cfg_notify EVENT_MGR_EV_GW_CFG_CHANGED_WIFI) s else s)
       in Some (s\<lparr>g_gateway_config := (g_gateway_config s)\<lparr>wifi_cfg_sta := new\<rparr>\<rparr>,
                st\<lparr>flag_wifi_sta_cfg_modified := True\<rparr>)
   })"

text \<open>A section whose pointer is NULL is left alone.\<close>

fun when_given :: "('a \<Rightarrow> 'b \<Rightarrow> 'b option) \<Rightarrow> 'a option \<Rightarrow> 'b \<Rightarrow> 'b option" where
  "when_given f None x = Some x"
| "when_given f (Some a) x = f a x"

definition gw_cfg_set ::
  "gw_cfg_ruuvi option \<Rightarrow> gw_cfg_eth option \<Rightarrow> wifiman_config_ap option \<Rightarrow> wifiman_config_sta option
   \<Rightarrow> gw_cfg_state \<Rightarrow> (gw_cfg_update_status \<times> gw_cfg_state) option" where
  "gw_cfg_set ru eth ap sta s = do {
     s \<leftarrow> gw_cfg_mutex_lock s;
     let s = s\<lparr>g_gw_cfg_is_empty := (ru = None \<and> eth = None \<and> ap = None \<and> sta = None)\<rparr>;
     let st = \<lparr>flag_ruuvi_cfg_modified = False, flag_eth_cfg_modified = False,
       flag_wifi_ap_cfg_modified = False, flag_wifi_sta_cfg_modified = False\<rparr>;
     (s, st) \<leftarrow> when_given gw_cfg_set_ruuvi ru (s, st);
     (s, st) \<leftarrow> when_given gw_cfg_set_eth eth (s, st);
     (s, st) \<leftarrow> when_given gw_cfg_set_wifi_ap ap (s, st);
     (s, st) \<leftarrow> when_given gw_cfg_set_wifi_sta sta (s, st);
     let s = (if g_p_gw_cfg_cb_on_change_cfg s
       then cfg_emit (Cfg_on_change (if g_gw_cfg_is_empty s then None else Some (g_gateway_config s))) s
       else s);
     let s = (if \<not> g_gw_cfg_ready s
       then (let s = s\<lparr>g_gw_cfg_ready := True\<rparr> in
             if g_p_gw_cfg_cb_on_change_cfg s then cfg_emit (Cfg_notify EVENT_MGR_EV_GW_CFG_READY) s else s)
       else s);
     s \<leftarrow> gw_cfg_mutex_unlock s;
     Some (st, s)
   }"

definition gw_cfg_update_eth_cfg :: "gw_cfg_eth \<Rightarrow> gw_cfg_state \<Rightarrow> gw_cfg_state option" where
  "gw_cfg_update_eth_cfg eth s = map_option snd (gw_cfg_set None (Some eth) None None s)"

definition gw_cfg_update_ruuvi_cfg :: "gw_cfg_ruuvi \<Rightarrow> gw_cfg_state \<Rightarrow> gw_cfg_state option" where
  "gw_cfg_update_ruuvi_cfg ru s = map_option snd (gw_cfg_set (Some ru) None None None s)"

definition gw_cfg_update_wifi_ap_config :: "wifiman_config_ap \<Rightarrow> gw_cfg_state \<Rightarrow> gw_cfg_state option" where
  "gw_cfg_update_wifi_ap_config ap s = map_option snd (gw_cfg_set None None (Some ap) None s)"

definition gw_cfg_update_wifi_sta_config :: "wifiman_config_sta \<Rightarrow> gw_cfg_state \<Rightarrow> gw_cfg_state option" where
  "gw_cfg_update_wifi_sta_config sta s = map_option snd (gw_cfg_set None None None (Some sta) s)"

definition gw_cfg_update ::
  "gw_cfg option \<Rightarrow> gw_cfg_state \<Rightarrow> (gw_cfg_update_status \<times> gw_cfg_state) option" where
  "gw_cfg_update p s = (case p of
     None \<Rightarrow> gw_cfg_set None None None None s
   | Some c \<Rightarrow> gw_cfg_set (Some (ruuvi_cfg c)) (Some (eth_cfg c)) (Some (wifi_cfg_ap c)) (Some (wifi_cfg_sta c)) s)"

text \<open>\<open>snprintf(dst, n, "%s", src)\<close>: the bytes of the buffer behind the terminator stay.\<close>

definition snprintf_s :: "nat \<Rightarrow> string \<Rightarrow> string \<Rightarrow> string option" where
  "snprintf_s n dst src =
     (if terminated src
      then let t = take (n - 1) (c_str src) in Some (t @ NUL # drop (length t + 1) dst)
      else None)"

definition gw_cfg_update_fw_update_url :: "string \<Rightarrow> gw_cfg_state \<Rightarrow> gw_cfg_state option" where
  "gw_cfg_update_fw_update_url url s = do {
     s \<leftarrow> gw_cfg_mutex_lock s;
     let c = g_gateway_config s;
     url' \<leftarrow> snprintf_s 256 (cfg_fw_update_url (ruuvi_cfg c)) url;
     let s = s\<lparr>g_gateway_config := c\<lparr>ruuvi_cfg := (ruuvi_cfg c)\<lparr>cfg_fw_update_url := url'\<rparr>\<rparr>\<rparr>;
     let s = (if g_p_gw_cfg_cb_on_change_cfg s
       then cfg_emit (Cfg_on_change (Some (g_gateway_config s))) s else s);
     gw_cfg_mutex_unlock s
   }"

definition gw_cfg_set_eth_use_eth :: "bool \<Rightarrow> gw_cfg_state \<Rightarrow> gw_cfg_state option" where
  "gw_cfg_set_eth_use_eth flag s = do {
     s \<leftarrow> gw_cfg_mutex_lock s;
     let c = g_gateway_config s;
     gw_cfg_mutex_unlock (s\<lparr>g_gateway_config := c\<lparr>eth_cfg := (eth_cfg c)\<lparr>use_eth := flag\<rparr>\<rparr>\<rparr>)
   }"

section \<open>Reading\<close>

text \<open>The interval is written through a pointer that may be NULL.\<close>

definition gw_cfg_get_remote_cfg_use ::
  "bool \<Rightarrow> gw_cfg_state \<Rightarrow> ((bool \<times> u16 option) \<times> gw_cfg_state) option" where
  "gw_cfg_get_remote_cfg_use with_interval = gw_cfg_read (\<lambda>c.
     (use_remote_cfg (cfg_remote (ruuvi_cfg c)),
      if with_interval then Some (refresh_interval_minutes (cfg_remote (ruuvi_cfg c))) else None))"

text \<open>The copy is allocated while the mutex is held, and a failed allocation returns at once.\<close>

definition gw_cfg_get_remote_cfg_copy ::
  "bool \<Rightarrow> gw_cfg_state \<Rightarrow> (ruuvi_gw_cfg_remote option \<times> gw_cfg_state) option" where
  "gw_cfg_get_remote_cfg_copy alloc s = do {
     (c, s) \<leftarrow> gw_cfg_lock_ro s;
     if \<not> alloc then Some (None, s)
     else do {
       s \<leftarrow> gw_cfg_unlock_ro s;
       Some (Some (cfg_remote (ruuvi_cfg c)), s)
     }
   }"

definition gw_cfg_get_copy :: "gw_cfg_state \<Rightarrow> (gw_cfg \<times> gw_cfg_state) option" where
  "gw_cfg_get_copy = gw_cfg_read (\<lambda>c. c)"

definition gw_cfg_get_eth_use_eth :: "gw_cfg_state \<Rightarrow> (bool \<times> gw_cfg_state) option" where
  "gw_cfg_get_eth_use_eth = gw_cfg_read (\<lambda>c. use_eth (eth_cfg c))"

definition gw_cfg_get_eth_use_dhcp :: "gw_cfg_state \<Rightarrow> (bool \<times> gw_cfg_state) option" where
  "gw_cfg_get_eth_use_dhcp = gw_cfg_read (\<lambda>c. eth_dhcp (eth_cfg c))"

definition gw_cfg_get_mqtt_use_mqtt :: "gw_cfg_state \<Rightarrow> (bool \<times> gw_cfg_state) option" where
  "gw_cfg_get_mqtt_use_mqtt = gw_cfg_read (\<lambda>c. use_mqtt (cfg_mqtt (ruuvi_cfg c)))"

definition gw_cfg_get_mqtt_sending_interval :: "gw_cfg_state \<Rightarrow> (u32 \<times> gw_cfg_state) option" where
  "gw_cfg_get_mqtt_sending_interval = gw_cfg_read (\<lambda>c. mqtt_sending_interval (cfg_mqtt (ruuvi_cfg c)))"

definition gw_cfg_get_http_use_http_ruuvi :: "gw_cfg_state \<Rightarrow> (bool \<times> gw_cfg_state) option" where
  "gw_cfg_get_http_use_http_ruuvi = gw_cfg_read (\<lambda>c. use_http_ruuvi (cfg_http (ruuvi_cfg c)))"

definition gw_cfg_get_http_use_http :: "gw_cfg_state \<Rightarrow> (bool \<times> gw_cfg_state) option" where
  "gw_cfg_get_http_use_http = gw_cfg_read (\<lambda>c. use_http (cfg_http (ruuvi_cfg c)))"

definition gw_cfg_get_http_period :: "gw_cfg_state \<Rightarrow> (u32 \<times> gw_cfg_state) option" where
  "gw_cfg_get_http_period = gw_cfg_read (\<lambda>c. http_period (cfg_http (ruuvi_cfg c)))"

definition gw_cfg_get_http_stat_use_http_stat :: "gw_cfg_state \<Rightarrow> (bool \<times> gw_cfg_state) option" where
  "gw_cfg_get_http_stat_use_http_stat = gw_cfg_read (\<lambda>c. use_http_stat (cfg_http_stat (ruuvi_cfg c)))"

definition gw_cfg_get_auto_update_cycle :: "gw_cfg_state \<Rightarrow> (auto_update_cycle_type \<times> gw_cfg_state) option" where
  "gw_cfg_get_auto_update_cycle = gw_cfg_read (\<lambda>c. auto_update_cycle (cfg_auto_update (ruuvi_cfg c)))"

definition gw_cfg_get_ntp_use :: "gw_cfg_state \<Rightarrow> (bool \<times> gw_cfg_state) option" where
  "gw_cfg_get_ntp_use = gw_cfg_read (\<lambda>c. ntp_use (cfg_ntp (ruuvi_cfg c)))"

definition gw_cfg_get_coordinates :: "gw_cfg_state \<Rightarrow> (string \<times> gw_cfg_state) option" where
  "gw_cfg_get_coordinates = gw_cfg_read (\<lambda>c. cfg_coordinates (ruuvi_cfg c))"

definition gw_cfg_get_wifi_cfg :: "gw_cfg_state \<Rightarrow> ((wifiman_config_ap \<times> wifiman_config_sta) \<times> gw_cfg_state) option" where
  "gw_cfg_get_wifi_cfg = gw_cfg_read (\<lambda>c. (wifi_cfg_ap c, wifi_cfg_sta c))"

definition gw_cfg_get_mqtt_use_mqtt_over_ssl_or_wss :: "gw_cfg_state \<Rightarrow> (bool \<times> gw_cfg_state) option" where
  "gw_cfg_get_mqtt_use_mqtt_over_ssl_or_wss s = do {
     ((use, transport), s) \<leftarrow>
       gw_cfg_read (\<lambda>c. (use_mqtt (cfg_mqtt (ruuvi_cfg c)), mqtt_transport (cfg_mqtt (ruuvi_cfg c)))) s;
     if \<not> use then Some (False, s)
     else do {
       ssl \<leftarrow> strcmp_equal transport (''SSL'' @ [NUL]);
       if ssl then Some (True, s)
       else do {
         wss \<leftarrow> strcmp_equal transport (''WSS'' @ [NUL]);
         Some (wss, s)
       }
     }
   }"

text \<open>These allocate before they lock; the caller of \<open>gw_cfg_alloc_copy\<close> names the section.\<close>

definition gw_cfg_alloc_copy ::
  "(gw_cfg \<Rightarrow> 'a) \<Rightarrow> bool \<Rightarrow> gw_cfg_state \<Rightarrow> ('a option \<times> gw_cfg_state) option" where
  "gw_cfg_alloc_copy f alloc s =
     (if g_gw_cfg_mutex s = None then None
      else if \<not> alloc then Some (None, s)
      else gw_cfg_read (\<lambda>c. Some (f c)) s)"

definition gw_cfg_get_http_copy ::
  "bool \<Rightarrow> gw_cfg_state \<Rightarrow> (ruuvi_gw_cfg_http option \<times> gw_cfg_state) option" where
  "gw_cfg_get_http_copy = gw_cfg_alloc_copy (\<lambda>c. cfg_http (ruuvi_cfg c))"

definition gw_cfg_get_http_stat_copy ::
  "bool \<Rightarrow> gw_cfg_state \<Rightarrow> (ruuvi_gw_cfg_http_stat option \<times> gw_cfg_state) option" where
  "gw_cfg_get_http_stat_copy = gw_cfg_alloc_copy (\<lambda>c. cfg_http_stat (ruuvi_cfg c))"

definition gw_cfg_get_mqtt_copy ::
  "bool \<Rightarrow> gw_cfg_state \<Rightarrow> (ruuvi_gw_cfg_mqtt option \<times> gw_cfg_state) option" where
  "gw_cfg_get_mqtt_copy = gw_cfg_alloc_copy (\<lambda>c. cfg_mqtt (ruuvi_cfg c))"

text \<open>
  \<open>str_buf_printf_with_alloc("%s", buf)\<close> reads the string up to its terminator and returns a copy,
  or a null buffer when the allocation fails.
\<close>

definition str_buf_copy :: "bool \<Rightarrow> string \<Rightarrow> string option option" where
  "str_buf_copy alloc buf =
     (if \<not> terminated buf then None else Some (if alloc then Some (c_str buf) else None))"

fun gw_cfg_get_http_password_copy_unsafe :: "bool \<Rightarrow> gw_cfg \<Rightarrow> string option option" where
  "gw_cfg_get_http_password_copy_unsafe alloc c =
     (let h = cfg_http (ruuvi_cfg c) in
      case http_auth_type h of
        GW_CFG_HTTP_AUTH_TYPE_NONE \<Rightarrow> str_buf_copy alloc [NUL]
      | GW_CFG_HTTP_AUTH_TYPE_BASIC \<Rightarrow> str_buf_copy alloc (auth_basic_password (http_auth h))
      | GW_CFG_HTTP_AUTH_TYPE_BEARER \<Rightarrow> str_buf_copy alloc (auth_token_buf (http_auth h))
      | GW_CFG_HTTP_AUTH_TYPE_TOKEN \<Rightarrow> str_buf_copy alloc (auth_token_buf (http_auth h))
      | GW_CFG_HTTP_AUTH_TYPE_APIKEY \<Rightarrow> str_buf_copy alloc (auth_token_buf (http_auth h)))"

definition gw_cfg_copy_str ::
  "(gw_cfg \<Rightarrow> string option option) \<Rightarrow> gw_cfg_state \<Rightarrow> (string option \<times> gw_cfg_state) option" where
  "gw_cfg_copy_str f s = do {
     (c, s) \<leftarrow> gw_cfg_lock_ro s;
     str \<leftarrow> f c;
     s \<leftarrow> gw_cfg_unlock_ro s;
     Some (str, s)
   }"

definition gw_cfg_get_http_password_copy ::
  "bool \<Rightarrow> gw_cfg_state \<Rightarrow> (string option \<times> gw_cfg_state) option" where
  "gw_cfg_get_http_password_copy alloc = gw_cfg_copy_str (gw_cfg_get_http_password_copy_unsafe alloc)"

definition gw_cfg_get_http_stat_password_copy ::
  "bool \<Rightarrow> gw_cfg_state \<Rightarrow> (string option \<times> gw_cfg_state) option" where
  "gw_cfg_get_http_stat_password_copy alloc =
     gw_cfg_copy_str (\<lambda>c. str_buf_copy alloc (http_stat_pass (cfg_http_stat (ruuvi_cfg c))))"

definition gw_cfg_get_mqtt_password_copy ::
  "bool \<Rightarrow> gw_cfg_state \<Rightarrow> (string option \<times> gw_cfg_state) option" where
  "gw_cfg_get_mqtt_password_copy alloc =
     gw_cfg_copy_str (\<lambda>c. str_buf_copy alloc (mqtt_pass (cfg_mqtt (ruuvi_cfg c))))"

definition gw_cfg_get_fw_update_url ::
  "bool \<Rightarrow> gw_cfg_state \<Rightarrow> (string option \<times> gw_cfg_state) option" where
  "gw_cfg_get_fw_update_url alloc =
     gw_cfg_copy_str (\<lambda>c. str_buf_copy alloc (cfg_fw_update_url (ruuvi_cfg c)))"

definition gw_cfg_is_wifi_sta_configured :: "gw_cfg_state \<Rightarrow> (bool \<times> gw_cfg_state) option" where
  "gw_cfg_is_wifi_sta_configured s = do {
     (c, s) \<leftarrow> gw_cfg_lock_ro s;
     configured \<leftarrow> (case sta_ssid (wifi_config_sta (wifi_cfg_sta c)) of
         [] \<Rightarrow> None
       | ch # _ \<Rightarrow> Some (ch \<noteq> NUL));
     s \<leftarrow> gw_cfg_unlock_ro s;
     Some (configured, s)
   }"

text \<open>The strings of the device information are read without the mutex; it must exist.\<close>

definition gw_cfg_device_string :: "(gw_cfg_device_info \<Rightarrow> string) \<Rightarrow> gw_cfg_state \<Rightarrow> (string \<times> gw_cfg_state) option" where
  "gw_cfg_device_string f s =
     (if g_gw_cfg_mutex s = None then None else Some (f (device_info (g_gateway_config s)), s))"

definition gw_cfg_get_esp32_fw_ver :: "gw_cfg_state \<Rightarrow> (string \<times> gw_cfg_state) option" where
  "gw_cfg_get_esp32_fw_ver = gw_cfg_device_string di_esp32_fw_ver"

definition gw_cfg_get_nrf52_fw_ver :: "gw_cfg_state \<Rightarrow> (string \<times> gw_cfg_state) option" where
  "gw_cfg_get_nrf52_fw_ver = gw_cfg_device_string di_nrf52_fw_ver"

definition gw_cfg_get_nrf52_device_id :: "gw_cfg_state \<Rightarrow> (string \<times> gw_cfg_state) option" where
  "gw_cfg_get_nrf52_device_id = gw_cfg_device_string di_nrf52_device_id"

definition gw_cfg_get_nrf52_mac_addr :: "gw_cfg_state \<Rightarrow> (string \<times> gw_cfg_state) option" where
  "gw_cfg_get_nrf52_mac_addr = gw_cfg_device_string di_nrf52_mac_addr"

definition gw_cfg_get_esp32_mac_addr_wifi :: "gw_cfg_state \<Rightarrow> (string \<times> gw_cfg_state) option" where
  "gw_cfg_get_esp32_mac_addr_wifi = gw_cfg_device_string di_esp32_mac_addr_wifi"

definition gw_cfg_get_esp32_mac_addr_eth :: "gw_cfg_state \<Rightarrow> (string \<times> gw_cfg_state) option" where
  "gw_cfg_get_esp32_mac_addr_eth = gw_cfg_device_string di_esp32_mac_addr_eth"

section \<open>What the store means\<close>

record gw_cfg_meaning =
  mean_device :: gw_cfg_device_info
  mean_ruuvi :: ruuvi_meaning
  mean_eth :: gw_cfg_eth
  mean_wifi_ap :: "wifi_ap_config \<times> wifi_settings_ap"
  mean_wifi_sta :: "wifi_sta_config \<times> wifi_settings_sta"

definition gw_cfg_view :: "gw_cfg \<Rightarrow> gw_cfg_meaning" where
  "gw_cfg_view c = \<lparr>mean_device = device_info c, mean_ruuvi = gw_cfg_ruuvi_view (ruuvi_cfg c),
     mean_eth = eth_view (eth_cfg c), mean_wifi_ap = wifi_ap_view (wifi_cfg_ap c),
     mean_wifi_sta = wifi_sta_view (wifi_cfg_sta c)\<rparr>"

definition gw_cfg_ok :: "gw_cfg \<Rightarrow> bool" where
  "gw_cfg_ok c \<longleftrightarrow> gw_cfg_ruuvi_ok (ruuvi_cfg c) \<and> eth_ok (eth_cfg c) \<and>
     wifi_ap_ok (wifi_cfg_ap c) \<and> wifi_sta_ok (wifi_cfg_sta c)"

text \<open>The sections an update gives replace those of the store.\<close>

fun given :: "('a \<Rightarrow> 'v) \<Rightarrow> 'a option \<Rightarrow> 'v \<Rightarrow> 'v" where
  "given view None v = v"
| "given view (Some a) v = view a"

definition meaning_set ::
  "gw_cfg_ruuvi option \<Rightarrow> gw_cfg_eth option \<Rightarrow> wifiman_config_ap option \<Rightarrow> wifiman_config_sta option
   \<Rightarrow> gw_cfg_meaning \<Rightarrow> gw_cfg_meaning" where
  "meaning_set ru eth ap sta m = m\<lparr>mean_ruuvi := given gw_cfg_ruuvi_view ru (mean_ruuvi m),
     mean_eth := given eth_view eth (mean_eth m), mean_wifi_ap := given wifi_ap_view ap (mean_wifi_ap m),
     mean_wifi_sta := given wifi_sta_view sta (mean_wifi_sta m)\<rparr>"

text \<open>The notifications that a change from \<open>m\<close> to \<open>m'\<close> causes in a store that is ready.\<close>

definition ruuvi_change_events :: "ruuvi_meaning \<Rightarrow> ruuvi_meaning \<Rightarrow> event_mgr_ev list" where
  "ruuvi_change_events m m' =
     (if m = m' then []
      else EVENT_MGR_EV_GW_CFG_CHANGED_RUUVI #
        (if ntp_use (m_ntp m) \<noteq> ntp_use (m_ntp m') then [EVENT_MGR_EV_GW_CFG_CHANGED_RUUVI_NTP_USE]
         else if ntp_use (m_ntp m') \<and> ntp_use_dhcp (m_ntp m) \<noteq> ntp_use_dhcp (m_ntp m')
         then [EVENT_MGR_EV_GW_CFG_CHANGED_RUUVI_NTP_USE_DHCP]
         else []))"

definition change_events :: "gw_cfg_meaning \<Rightarrow> gw_cfg_meaning \<Rightarrow> event_mgr_ev list" where
  "change_events m m' =
     ruuvi_change_events (mean_ruuvi m) (mean_ruuvi m') @
     (if mean_eth m = mean_eth m' then [] else [EVENT_MGR_EV_GW_CFG_CHANGED_ETH]) @
     (if mean_wifi_ap m = mean_wifi_ap m' then [] else [EVENT_MGR_EV_GW_CFG_CHANGED_WIFI]) @
     (if mean_wifi_sta m = mean_wifi_sta m' then [] else [EVENT_MGR_EV_GW_CFG_CHANGED_WIFI])"

definition notified :: "gw_cfg_state \<Rightarrow> event_mgr_ev list" where
  "notified s = concat (map (\<lambda>e. case e of Cfg_notify ev \<Rightarrow> [ev] | Cfg_on_change _ \<Rightarrow> []) (cfg_trace s))"

lemma notified_append:
  "cfg_trace s' = cfg_trace s @ map Cfg_notify evs @ rest \<Longrightarrow>
   notified s' = notified s @ evs @ concat (map (\<lambda>e. case e of Cfg_notify ev \<Rightarrow> [ev] | Cfg_on_change _ \<Rightarrow> []) rest)"
proof -
  have "concat (map (\<lambda>e. case e of Cfg_notify ev \<Rightarrow> [ev] | Cfg_on_change _ \<Rightarrow> []) (map Cfg_notify evs)) = evs"
    by (induction evs) auto
  then show "cfg_trace s' = cfg_trace s @ map Cfg_notify evs @ rest \<Longrightarrow> ?thesis"
    by (simp add: notified_def)
qed

section \<open>Each section\<close>

text \<open>The memory of a section after an update: the new one when it differs.\<close>

fun stored :: "('a \<Rightarrow> 'v) \<Rightarrow> 'a option \<Rightarrow> 'a \<Rightarrow> 'a" where
  "stored view None old = old"
| "stored view (Some new) old = (if view old = view new then old else new)"

lemma stored_view [simp]: "view (stored view p old) = given view p (view old)"
  by (cases p) auto

lemma stored_ok: "ok old \<Longrightarrow> pred_option ok p \<Longrightarrow> ok (stored view p old)"
  by (cases p) auto

lemma set_ruuvi_given:
  assumes "gw_cfg_ruuvi_ok (ruuvi_cfg (g_gateway_config s))" and "pred_option gw_cfg_ruuvi_ok p"
  shows "when_given gw_cfg_set_ruuvi p (s, st) =
      Some (s\<lparr>g_gateway_config := (g_gateway_config s)
                \<lparr>ruuvi_cfg := stored gw_cfg_ruuvi_view p (ruuvi_cfg (g_gateway_config s))\<rparr>,
              cfg_trace := cfg_trace s @ (if g_gw_cfg_ready s then map Cfg_notify
                (ruuvi_change_events (gw_cfg_ruuvi_view (ruuvi_cfg (g_gateway_config s)))
                  (given gw_cfg_ruuvi_view p (gw_cfg_ruuvi_view (ruuvi_cfg (g_gateway_config s)))))
                else [])\<rparr>,
            st\<lparr>flag_ruuvi_cfg_modified := flag_ruuvi_cfg_modified st \<or>
              gw_cfg_ruuvi_view (ruuvi_cfg (g_gateway_config s)) \<noteq>
                given gw_cfg_ruuvi_view p (gw_cfg_ruuvi_view (ruuvi_cfg (g_gateway_config s)))\<rparr>)"
proof -
  have ntp: "ntp_use (m_ntp (gw_cfg_ruuvi_view c)) = ntp_use (cfg_ntp c)"
    "ntp_use_dhcp (m_ntp (gw_cfg_ruuvi_view c)) = ntp_use_dhcp (cfg_ntp c)" for c
    by (simp_all add: gw_cfg_ruuvi_view_def ntp_view_def)
  from assms show ?thesis
    by (cases p) (auto simp: ruuvi_change_events_def gw_cfg_set_ruuvi_def ruuvi_comparison.cmp_exact
      ntp cfg_emit_def Let_def)
qed

lemma set_eth_given:
  assumes "eth_ok (eth_cfg (g_gateway_config s))" and "pred_option eth_ok p"
  shows "when_given gw_cfg_set_eth p (s, st) =
      Some (s\<lparr>g_gateway_config := (g_gateway_config s)\<lparr>eth_cfg := stored eth_view p (eth_cfg (g_gateway_config s))\<rparr>,
              cfg_trace := cfg_trace s @ (if g_gw_cfg_ready s \<and>
                  eth_view (eth_cfg (g_gateway_config s)) \<noteq> given eth_view p (eth_view (eth_cfg (g_gateway_config s)))
                then [Cfg_notify EVENT_MGR_EV_GW_CFG_CHANGED_ETH] else [])\<rparr>,
            st\<lparr>flag_eth_cfg_modified := flag_eth_cfg_modified st \<or>
              eth_view (eth_cfg (g_gateway_config s)) \<noteq> given eth_view p (eth_view (eth_cfg (g_gateway_config s)))\<rparr>)"
  using assms by (cases p) (auto simp: gw_cfg_set_eth_def eth_comparison.cmp_exact cfg_emit_def)

lemma set_wifi_ap_given:
  assumes "wifi_ap_ok (wifi_cfg_ap (g_gateway_config s))" and "pred_option wifi_ap_ok p"
  shows "when_given gw_cfg_set_wifi_ap p (s, st) =
      Some (s\<lparr>g_gateway_config := (g_gateway_config s)\<lparr>wifi_cfg_ap := stored wifi_ap_view p (wifi_cfg_ap (g_gateway_config s))\<rparr>,
              cfg_trace := cfg_trace s @ (if g_gw_cfg_ready s \<and>
                  wifi_ap_view (wifi_cfg_ap (g_gateway_config s)) \<noteq> given wifi_ap_view p (wifi_ap_view (wifi_cfg_ap (g_gateway_config s)))
                then [Cfg_notify EVENT_MGR_EV_GW_CFG_CHANGED_WIFI] else [])\<rparr>,
            st\<lparr>flag_wifi_ap_cfg_modified := flag_wifi_ap_cfg_modified st \<or>
              wifi_ap_view (wifi_cfg_ap (g_gateway_config s)) \<noteq> given wifi_ap_view p (wifi_ap_view (wifi_cfg_ap (g_gateway_config s)))\<rparr>)"
  using assms by (cases p) (auto simp: gw_cfg_set_wifi_ap_def wifi_ap_comparison.cmp_exact cfg_emit_def)

lemma set_wifi_sta_given:
  assumes "wifi_sta_ok (wifi_cfg_sta (g_gateway_config s))" and "pred_option wifi_sta_ok p"
  shows "when_given gw_cfg_set_wifi_sta p (s, st) =
      Some (s\<lparr>g_gateway_config := (g_gateway_config s)\<lparr>wifi_cfg_sta := stored wifi_sta_view p (wifi_cfg_sta (g_gateway_config s))\<rparr>,
              cfg_trace := cfg_trace s @ (if g_gw_cfg_ready s \<and>
                  wifi_sta_view (wifi_cfg_sta (g_gateway_config s)) \<noteq> given wifi_sta_view p (wifi_sta_view (wifi_cfg_sta (g_gateway_config s)))
                then [Cfg_notify EVENT_MGR_EV_GW_CFG_CHANGED_WIFI] else [])\<rparr>,
            st\<lparr>flag_wifi_sta_cfg_modified := flag_wifi_sta_cfg_modified st \<or>
              wifi_sta_view (wifi_cfg_sta (g_gateway_config s)) \<noteq> given wifi_sta_view p (wifi_sta_view (wifi_cfg_sta (g_gateway_config s)))\<rparr>)"
  using assms by (cases p) (auto simp: gw_cfg_set_wifi_sta_def wifi_sta_comparison.cmp_exact cfg_emit_def)

lemmas set_given = set_ruuvi_given set_eth_given set_wifi_ap_given set_wifi_sta_given

section \<open>An update\<close>

text \<open>
  The state after \<open>gw_cfg_set\<close>: the memory of the four sections, the notifications, the
  callback and the notification that the configuration is ready.
\<close>

definition config_after ::
  "gw_cfg_ruuvi option \<Rightarrow> gw_cfg_eth option \<Rightarrow> wifiman_config_ap option \<Rightarrow> wifiman_config_sta option
   \<Rightarrow> gw_cfg \<Rightarrow> gw_cfg" where
  "config_after ru eth ap sta c = c\<lparr>ruuvi_cfg := stored gw_cfg_ruuvi_view ru (ruuvi_cfg c),
     eth_cfg := stored eth_view eth (eth_cfg c), wifi_cfg_ap := stored wifi_ap_view ap (wifi_cfg_ap c),
     wifi_cfg_sta := stored wifi_sta_view sta (wifi_cfg_sta c)\<rparr>"

definition update_ok ::
  "gw_cfg_ruuvi option \<Rightarrow> gw_cfg_eth option \<Rightarrow> wifiman_config_ap option \<Rightarrow> wifiman_config_sta option \<Rightarrow> bool" where
  "update_ok ru eth ap sta \<longleftrightarrow> pred_option gw_cfg_ruuvi_ok ru \<and> pred_option eth_ok eth \<and>
     pred_option wifi_ap_ok ap \<and> pred_option wifi_sta_ok sta"

lemma config_after_ok: "gw_cfg_ok c \<Longrightarrow> update_ok ru eth ap sta \<Longrightarrow> gw_cfg_ok (config_after ru eth ap sta c)"
  by (simp add: gw_cfg_ok_def update_ok_def config_after_def stored_ok)

lemma config_after_view:
  "gw_cfg_view (config_after ru eth ap sta c) = meaning_set ru eth ap sta (gw_cfg_view c)"
  by (simp add: gw_cfg_view_def config_after_def meaning_set_def)

lemma stored_idem [simp]: "stored view p (stored view p old) = stored view p old"
  by (cases p) auto

lemma config_after_idem: "config_after ru eth ap sta (config_after ru eth ap sta c) = config_after ru eth ap sta c"
  by (simp add: config_after_def)

definition clean_status :: gw_cfg_update_status where
  "clean_status = \<lparr>flag_ruuvi_cfg_modified = False, flag_eth_cfg_modified = False,
     flag_wifi_ap_cfg_modified = False, flag_wifi_sta_cfg_modified = False\<rparr>"

definition status_of :: "gw_cfg_meaning \<Rightarrow> gw_cfg_meaning \<Rightarrow> gw_cfg_update_status" where
  "status_of m m' = \<lparr>flag_ruuvi_cfg_modified = (mean_ruuvi m \<noteq> mean_ruuvi m'),
     flag_eth_cfg_modified = (mean_eth m \<noteq> mean_eth m'),
     flag_wifi_ap_cfg_modified = (mean_wifi_ap m \<noteq> mean_wifi_ap m'),
     flag_wifi_sta_cfg_modified = (mean_wifi_sta m \<noteq> mean_wifi_sta m')\<rparr>"

definition update_trace :: "gw_cfg_state \<Rightarrow> bool \<Rightarrow> gw_cfg \<Rightarrow> gw_cfg_effect list" where
  "update_trace s is_empty c =
     (if g_gw_cfg_ready s then map Cfg_notify (change_events (gw_cfg_view (g_gateway_config s)) (gw_cfg_view c)) else []) @
     (if g_p_gw_cfg_cb_on_change_cfg s then [Cfg_on_change (if is_empty then None else Some c)] else []) @
     (if \<not> g_gw_cfg_ready s \<and> g_p_gw_cfg_cb_on_change_cfg s then [Cfg_notify EVENT_MGR_EV_GW_CFG_READY] else [])"

lemma gw_cfg_set_eq:
  assumes "gw_cfg_ok (g_gateway_config s)" and "update_ok ru eth ap sta" and "g_gw_cfg_mutex s = Some n"
  defines "c \<equiv> config_after ru eth ap sta (g_gateway_config s)"
  defines "is_empty \<equiv> ru = None \<and> eth = None \<and> ap = None \<and> sta = None"
  shows "gw_cfg_set ru eth ap sta s =
    Some (status_of (gw_cfg_view (g_gateway_config s)) (gw_cfg_view c),
          s\<lparr>g_gateway_config := c, g_gw_cfg_ready := True, g_gw_cfg_is_empty := is_empty,
            cfg_trace := cfg_trace s @ update_trace s is_empty c\<rparr>)"
proof -
  from assms(1,2) have ok: "gw_cfg_ruuvi_ok (ruuvi_cfg (g_gateway_config s))"
    "eth_ok (eth_cfg (g_gateway_config s))" "wifi_ap_ok (wifi_cfg_ap (g_gateway_config s))"
    "wifi_sta_ok (wifi_cfg_sta (g_gateway_config s))" "pred_option gw_cfg_ruuvi_ok ru"
    "pred_option eth_ok eth" "pred_option wifi_ap_ok ap" "pred_option wifi_sta_ok sta"
    by (simp_all add: gw_cfg_ok_def update_ok_def)
  from ok assms(3) show ?thesis
    unfolding gw_cfg_set_def gw_cfg_mutex_lock_def gw_cfg_mutex_unlock_def
    by (auto simp: set_given Let_def c_def is_empty_def config_after_def config_after_view meaning_set_def
      status_of_def update_trace_def change_events_def cfg_emit_def gw_cfg_view_def)
qed

section \<open>The firmware update URL and the Ethernet switch\<close>

lemma NUL_notin_c_str [simp]: "NUL \<notin> set (c_str xs)"
  by (induction xs) auto

lemma snprintf_s_view:
  assumes "snprintf_s n dst src = Some buf"
  shows "c_str buf = take (n - 1) (c_str src) \<and> terminated buf"
proof -
  have "NUL \<notin> set (take (n - 1) (c_str src))"
    using in_set_takeD [of NUL "n - 1" "c_str src"] by auto
  with assms show ?thesis
    by (auto simp: snprintf_s_def terminated_def split: if_splits)
qed

lemma gw_cfg_update_fw_update_url_spec:
  assumes "gw_cfg_ok (g_gateway_config s)" and "terminated url" and "g_gw_cfg_mutex s = Some n"
  shows "\<exists>c. gw_cfg_update_fw_update_url url s = Some (s\<lparr>g_gateway_config := c,
      cfg_trace := cfg_trace s @ (if g_p_gw_cfg_cb_on_change_cfg s then [Cfg_on_change (Some c)] else [])\<rparr>) \<and>
    gw_cfg_ok c \<and> gw_cfg_view c = (gw_cfg_view (g_gateway_config s))\<lparr>mean_ruuvi :=
      (mean_ruuvi (gw_cfg_view (g_gateway_config s)))\<lparr>m_fw_update_url := take 255 (c_str url)\<rparr>\<rparr>"
proof -
  let ?c = "g_gateway_config s"
  from assms(2) obtain u where u: "snprintf_s 256 (cfg_fw_update_url (ruuvi_cfg ?c)) url = Some u"
    by (auto simp: snprintf_s_def Let_def)
  define c where "c = ?c\<lparr>ruuvi_cfg := (ruuvi_cfg ?c)\<lparr>cfg_fw_update_url := u\<rparr>\<rparr>"
  have "gw_cfg_update_fw_update_url url s = Some (s\<lparr>g_gateway_config := c,
      cfg_trace := cfg_trace s @ (if g_p_gw_cfg_cb_on_change_cfg s then [Cfg_on_change (Some c)] else [])\<rparr>)"
    using assms(3) u by (cases s) (simp add: gw_cfg_update_fw_update_url_def gw_cfg_mutex_lock_def
      gw_cfg_mutex_unlock_def cfg_emit_def c_def Let_def)
  moreover have "gw_cfg_ok c"
    using assms(1) snprintf_s_view [OF u] by (simp add: gw_cfg_ok_def gw_cfg_ruuvi_ok_def c_def)
  moreover have "gw_cfg_view c = (gw_cfg_view ?c)\<lparr>mean_ruuvi :=
      (mean_ruuvi (gw_cfg_view ?c))\<lparr>m_fw_update_url := take 255 (c_str url)\<rparr>\<rparr>"
    using snprintf_s_view [OF u] by (simp add: gw_cfg_view_def gw_cfg_ruuvi_view_def c_def)
  ultimately show ?thesis by blast
qed

lemma gw_cfg_set_eth_use_eth_spec:
  assumes "gw_cfg_ok (g_gateway_config s)" and "g_gw_cfg_mutex s = Some n"
  shows "\<exists>c. gw_cfg_set_eth_use_eth flag s = Some (s\<lparr>g_gateway_config := c\<rparr>) \<and> gw_cfg_ok c \<and>
    gw_cfg_view c = (gw_cfg_view (g_gateway_config s))\<lparr>mean_eth :=
      (mean_eth (gw_cfg_view (g_gateway_config s)))\<lparr>use_eth := flag\<rparr>\<rparr>"
proof -
  let ?c = "g_gateway_config s"
  define c where "c = ?c\<lparr>eth_cfg := (eth_cfg ?c)\<lparr>use_eth := flag\<rparr>\<rparr>"
  have "gw_cfg_set_eth_use_eth flag s = Some (s\<lparr>g_gateway_config := c\<rparr>)"
    using assms(2) by (cases s) (simp add: gw_cfg_set_eth_use_eth_def gw_cfg_mutex_lock_def
      gw_cfg_mutex_unlock_def c_def Let_def)
  moreover have "gw_cfg_ok c" using assms(1) by (simp add: gw_cfg_ok_def eth_ok_def c_def)
  moreover have "gw_cfg_view c = (gw_cfg_view ?c)\<lparr>mean_eth := (mean_eth (gw_cfg_view ?c))\<lparr>use_eth := flag\<rparr>\<rparr>"
    by (cases "eth_cfg ?c") (simp add: gw_cfg_view_def eth_view_def c_def)
  ultimately show ?thesis by blast
qed

lemma gw_cfg_read_eq:
  "g_gw_cfg_mutex s = Some n \<Longrightarrow> gw_cfg_read f s = Some (f (g_gateway_config s), s)"
  by (cases s) (simp add: gw_cfg_read_def gw_cfg_lock_ro_def gw_cfg_unlock_ro_def
    gw_cfg_mutex_lock_def gw_cfg_mutex_unlock_def)

lemma gw_cfg_get_mqtt_ssl_eq:
  assumes "gw_cfg_ok (g_gateway_config s)" and "g_gw_cfg_mutex s = Some n"
  defines "q \<equiv> cfg_mqtt (ruuvi_cfg (g_gateway_config s))"
  shows "gw_cfg_get_mqtt_use_mqtt_over_ssl_or_wss s =
    Some (use_mqtt q \<and> (c_str (mqtt_transport q) = ''SSL'' \<or> c_str (mqtt_transport q) = ''WSS''), s)"
proof -
  from assms have "terminated (mqtt_transport q)"
    by (simp add: gw_cfg_ok_def gw_cfg_ruuvi_ok_def mqtt_ok_def)
  then have "strcmp_equal (mqtt_transport q) (str @ [NUL]) = Some (c_str (mqtt_transport q) = str)"
    if "NUL \<notin> set str" for str
    using that by (simp add: strcmp_equal_exact terminated_def)
  from this [of "''SSL''"] this [of "''WSS''"] show ?thesis
    using assms by (simp add: gw_cfg_get_mqtt_use_mqtt_over_ssl_or_wss_def gw_cfg_read_eq NUL_def)
qed

section \<open>The store as a machine\<close>

text \<open>
  Everything a client may call between \<open>gw_cfg_init\<close> and \<open>gw_cfg_deinit\<close>: the updates, the
  getters (the flag of those that copy says whether the allocation succeeds), the copy of the remote
  configuration, and the lock for reading, which is recursive.
\<close>

datatype gw_cfg_getter =
  Get_Is_empty | Get_Remote_use bool | Get_Copy | Get_Eth_use_eth | Get_Eth_use_dhcp
| Get_Use_mqtt | Get_Mqtt_sending_interval | Get_Mqtt_over_ssl_or_wss | Get_Use_http_ruuvi
| Get_Use_http | Get_Http_period | Get_Http_copy bool | Get_Http_password bool | Get_Use_http_stat
| Get_Http_stat_copy bool | Get_Http_stat_password bool | Get_Mqtt_copy bool
| Get_Mqtt_password bool | Get_Auto_update_cycle | Get_Ntp_use | Get_Coordinates | Get_Wifi_cfg
| Get_Wifi_sta_configured | Get_Fw_update_url bool | Get_Esp32_fw_ver | Get_Nrf52_fw_ver
| Get_Nrf52_device_id | Get_Nrf52_mac_addr | Get_Esp32_mac_wifi | Get_Esp32_mac_eth

fun gw_cfg_get :: "gw_cfg_getter \<Rightarrow> gw_cfg_state \<Rightarrow> gw_cfg_state option" where
  "gw_cfg_get Get_Is_empty s = map_option snd (gw_cfg_is_empty s)"
| "gw_cfg_get (Get_Remote_use b) s = map_option snd (gw_cfg_get_remote_cfg_use b s)"
| "gw_cfg_get Get_Copy s = map_option snd (gw_cfg_get_copy s)"
| "gw_cfg_get Get_Eth_use_eth s = map_option snd (gw_cfg_get_eth_use_eth s)"
| "gw_cfg_get Get_Eth_use_dhcp s = map_option snd (gw_cfg_get_eth_use_dhcp s)"
| "gw_cfg_get Get_Use_mqtt s = map_option snd (gw_cfg_get_mqtt_use_mqtt s)"
| "gw_cfg_get Get_Mqtt_sending_interval s = map_option snd (gw_cfg_get_mqtt_sending_interval s)"
| "gw_cfg_get Get_Mqtt_over_ssl_or_wss s = map_option snd (gw_cfg_get_mqtt_use_mqtt_over_ssl_or_wss s)"
| "gw_cfg_get Get_Use_http_ruuvi s = map_option snd (gw_cfg_get_http_use_http_ruuvi s)"
| "gw_cfg_get Get_Use_http s = map_option snd (gw_cfg_get_http_use_http s)"
| "gw_cfg_get Get_Http_period s = map_option snd (gw_cfg_get_http_period s)"
| "gw_cfg_get (Get_Http_copy b) s = map_option snd (gw_cfg_get_http_copy b s)"
| "gw_cfg_get (Get_Http_password b) s = map_option snd (gw_cfg_get_http_password_copy b s)"
| "gw_cfg_get Get_Use_http_stat s = map_option snd (gw_cfg_get_http_stat_use_http_stat s)"
| "gw_cfg_get (Get_Http_stat_copy b) s = map_option snd (gw_cfg_get_http_stat_copy b s)"
| "gw_cfg_get (Get_Http_stat_password b) s = map_option snd (gw_cfg_get_http_stat_password_copy b s)"
| "gw_cfg_get (Get_Mqtt_copy b) s = map_option snd (gw_cfg_get_mqtt_copy b s)"
| "gw_cfg_get (Get_Mqtt_password b) s = map_option snd (gw_cfg_get_mqtt_password_copy b s)"
| "gw_cfg_get Get_Auto_update_cycle s = map_option snd (gw_cfg_get_auto_update_cycle s)"
| "gw_cfg_get Get_Ntp_use s = map_option snd (gw_cfg_get_ntp_use s)"
| "gw_cfg_get Get_Coordinates s = map_option snd (gw_cfg_get_coordinates s)"
| "gw_cfg_get Get_Wifi_cfg s = map_option snd (gw_cfg_get_wifi_cfg s)"
| "gw_cfg_get Get_Wifi_sta_configured s = map_option snd (gw_cfg_is_wifi_sta_configured s)"
| "gw_cfg_get (Get_Fw_update_url b) s = map_option snd (gw_cfg_get_fw_update_url b s)"
| "gw_cfg_get Get_Esp32_fw_ver s = map_option snd (gw_cfg_get_esp32_fw_ver s)"
| "gw_cfg_get Get_Nrf52_fw_ver s = map_option snd (gw_cfg_get_nrf52_fw_ver s)"
| "gw_cfg_get Get_Nrf52_device_id s = map_option snd (gw_cfg_get_nrf52_device_id s)"
| "gw_cfg_get Get_Nrf52_mac_addr s = map_option snd (gw_cfg_get_nrf52_mac_addr s)"
| "gw_cfg_get Get_Esp32_mac_wifi s = map_option snd (gw_cfg_get_esp32_mac_addr_wifi s)"
| "gw_cfg_get Get_Esp32_mac_eth s = map_option snd (gw_cfg_get_esp32_mac_addr_eth s)"

datatype gw_cfg_op =
  Cfg_update "gw_cfg option"
| Cfg_update_ruuvi gw_cfg_ruuvi
| Cfg_update_eth gw_cfg_eth
| Cfg_update_wifi_ap wifiman_config_ap
| Cfg_update_wifi_sta wifiman_config_sta
| Cfg_update_fw_url string
| Cfg_set_use_eth bool
| Cfg_get gw_cfg_getter
| Cfg_get_remote_copy bool
| Cfg_lock_ro
| Cfg_unlock_ro

fun gw_cfg_exec :: "gw_cfg_op \<Rightarrow> gw_cfg_state \<Rightarrow> gw_cfg_state option" where
  "gw_cfg_exec (Cfg_update p) s = map_option snd (gw_cfg_update p s)"
| "gw_cfg_exec (Cfg_update_ruuvi ru) s = gw_cfg_update_ruuvi_cfg ru s"
| "gw_cfg_exec (Cfg_update_eth eth) s = gw_cfg_update_eth_cfg eth s"
| "gw_cfg_exec (Cfg_update_wifi_ap ap) s = gw_cfg_update_wifi_ap_config ap s"
| "gw_cfg_exec (Cfg_update_wifi_sta sta) s = gw_cfg_update_wifi_sta_config sta s"
| "gw_cfg_exec (Cfg_update_fw_url url) s = gw_cfg_update_fw_update_url url s"
| "gw_cfg_exec (Cfg_set_use_eth flag) s = gw_cfg_set_eth_use_eth flag s"
| "gw_cfg_exec (Cfg_get g) s = gw_cfg_get g s"
| "gw_cfg_exec (Cfg_get_remote_copy alloc) s = map_option snd (gw_cfg_get_remote_cfg_copy alloc s)"
| "gw_cfg_exec Cfg_lock_ro s = map_option snd (gw_cfg_lock_ro s)"
| "gw_cfg_exec Cfg_unlock_ro s = gw_cfg_unlock_ro s"

definition gw_cfg_step :: "gw_cfg_state option \<Rightarrow> gw_cfg_op \<Rightarrow> gw_cfg_state option" where
  "gw_cfg_step s op = Option.bind s (gw_cfg_exec op)"

text \<open>The arguments of an operation are terminated strings.\<close>

fun gw_cfg_op_ok :: "gw_cfg_op \<Rightarrow> bool" where
  "gw_cfg_op_ok (Cfg_update p) = pred_option gw_cfg_ok p"
| "gw_cfg_op_ok (Cfg_update_ruuvi ru) = gw_cfg_ruuvi_ok ru"
| "gw_cfg_op_ok (Cfg_update_eth eth) = eth_ok eth"
| "gw_cfg_op_ok (Cfg_update_wifi_ap ap) = wifi_ap_ok ap"
| "gw_cfg_op_ok (Cfg_update_wifi_sta sta) = wifi_sta_ok sta"
| "gw_cfg_op_ok (Cfg_update_fw_url url) = terminated url"
| "gw_cfg_op_ok _ = True"

text \<open>
  The abstract store: a meaning, whether it is ready, what was notified, and how often the client
  holds the lock.
\<close>

record cfg_spec =
  sp_meaning :: gw_cfg_meaning
  sp_ready :: bool
  sp_callback :: bool
  sp_notified :: "event_mgr_ev list"
  sp_held :: nat

definition cfg_abs :: "gw_cfg_state \<Rightarrow> cfg_spec" where
  "cfg_abs s = \<lparr>sp_meaning = gw_cfg_view (g_gateway_config s), sp_ready = g_gw_cfg_ready s,
     sp_callback = g_p_gw_cfg_cb_on_change_cfg s, sp_notified = notified s,
     sp_held = (case g_gw_cfg_mutex s of None \<Rightarrow> 0 | Some n \<Rightarrow> n)\<rparr>"

definition spec_set :: "(gw_cfg_meaning \<Rightarrow> gw_cfg_meaning) \<Rightarrow> cfg_spec \<Rightarrow> cfg_spec" where
  "spec_set f a = a\<lparr>sp_meaning := f (sp_meaning a), sp_ready := True, sp_notified := sp_notified a @
     (if sp_ready a then change_events (sp_meaning a) (f (sp_meaning a))
      else if sp_callback a then [EVENT_MGR_EV_GW_CFG_READY] else [])\<rparr>"

fun spec_exec :: "gw_cfg_op \<Rightarrow> cfg_spec \<Rightarrow> cfg_spec" where
  "spec_exec (Cfg_update None) a = spec_set (\<lambda>m. m) a"
| "spec_exec (Cfg_update (Some c)) a =
     spec_set (\<lambda>m. (gw_cfg_view c)\<lparr>mean_device := mean_device m\<rparr>) a"
| "spec_exec (Cfg_update_ruuvi ru) a = spec_set (mean_ruuvi_update (\<lambda>_. gw_cfg_ruuvi_view ru)) a"
| "spec_exec (Cfg_update_eth eth) a = spec_set (mean_eth_update (\<lambda>_. eth_view eth)) a"
| "spec_exec (Cfg_update_wifi_ap ap) a = spec_set (mean_wifi_ap_update (\<lambda>_. wifi_ap_view ap)) a"
| "spec_exec (Cfg_update_wifi_sta sta) a = spec_set (mean_wifi_sta_update (\<lambda>_. wifi_sta_view sta)) a"
| "spec_exec (Cfg_update_fw_url url) a =
     a\<lparr>sp_meaning := mean_ruuvi_update (m_fw_update_url_update (\<lambda>_. take 255 (c_str url))) (sp_meaning a)\<rparr>"
| "spec_exec (Cfg_set_use_eth flag) a =
     a\<lparr>sp_meaning := mean_eth_update (use_eth_update (\<lambda>_. flag)) (sp_meaning a)\<rparr>"
| "spec_exec (Cfg_get _) a = a"
| "spec_exec (Cfg_get_remote_copy alloc) a = (if alloc then a else a\<lparr>sp_held := sp_held a + 1\<rparr>)"
| "spec_exec Cfg_lock_ro a = a\<lparr>sp_held := sp_held a + 1\<rparr>"
| "spec_exec Cfg_unlock_ro a = a\<lparr>sp_held := sp_held a - 1\<rparr>"

text \<open>A client unlocks only what it has locked.\<close>

definition spec_enabled :: "cfg_spec \<Rightarrow> gw_cfg_op \<Rightarrow> bool" where
  "spec_enabled a op \<longleftrightarrow> gw_cfg_op_ok op \<and> (op = Cfg_unlock_ro \<longrightarrow> 0 < sp_held a)"

abbreviation spec_step :: "cfg_spec \<Rightarrow> gw_cfg_op \<Rightarrow> cfg_spec" where
  "spec_step a op \<equiv> spec_exec op a"

lemmas gw_cfg_getter_defs = gw_cfg_get_remote_cfg_use_def gw_cfg_get_copy_def
  gw_cfg_get_eth_use_eth_def gw_cfg_get_eth_use_dhcp_def gw_cfg_get_mqtt_use_mqtt_def
  gw_cfg_get_mqtt_sending_interval_def gw_cfg_get_http_use_http_ruuvi_def
  gw_cfg_get_http_use_http_def gw_cfg_get_http_period_def gw_cfg_get_http_copy_def
  gw_cfg_get_http_stat_use_http_stat_def
  gw_cfg_get_http_stat_copy_def gw_cfg_get_mqtt_copy_def
  gw_cfg_get_auto_update_cycle_def gw_cfg_get_ntp_use_def
  gw_cfg_get_coordinates_def gw_cfg_get_wifi_cfg_def
  gw_cfg_get_esp32_fw_ver_def gw_cfg_get_nrf52_fw_ver_def gw_cfg_get_nrf52_device_id_def
  gw_cfg_get_nrf52_mac_addr_def gw_cfg_get_esp32_mac_addr_wifi_def
  gw_cfg_get_esp32_mac_addr_eth_def

definition cfg_inv :: "gw_cfg_state \<Rightarrow> bool" where
  "cfg_inv s \<longleftrightarrow> gw_cfg_ok (g_gateway_config s) \<and> g_gw_cfg_mutex s = Some 0"

definition cfg_sound :: "gw_cfg_state \<Rightarrow> bool" where
  "cfg_sound s \<longleftrightarrow> gw_cfg_ok (g_gateway_config s) \<and> g_gw_cfg_mutex s \<noteq> None"

lemma gw_cfg_get_keeps:
  assumes "cfg_sound s"
  shows "gw_cfg_get g s = Some s"
proof -
  from assms obtain n where ok: "gw_cfg_ok (g_gateway_config s)" and m: "g_gw_cfg_mutex s = Some n"
    by (auto simp: cfg_sound_def)
  have str: "\<exists>x. gw_cfg_copy_str f s = Some (x, s)" if "f (g_gateway_config s) \<noteq> None" for f
    using m that by (cases s) (auto simp: gw_cfg_copy_str_def gw_cfg_lock_ro_def gw_cfg_unlock_ro_def
      gw_cfg_mutex_lock_def gw_cfg_mutex_unlock_def)
  have "gw_cfg_get_http_password_copy_unsafe b (g_gateway_config s) \<noteq> None" for b
    using ok by (cases "http_auth_type (cfg_http (ruuvi_cfg (g_gateway_config s)))")
      (auto simp: gw_cfg_ok_def gw_cfg_ruuvi_ok_def http_ok_def str_buf_copy_def Let_def)
  then have pw: "\<exists>x. gw_cfg_get_http_password_copy b s = Some (x, s)" for b
    unfolding gw_cfg_get_http_password_copy_def by (rule str)
  have copies: "\<exists>x. gw_cfg_get_http_stat_password_copy b s = Some (x, s)"
    "\<exists>x. gw_cfg_get_mqtt_password_copy b s = Some (x, s)"
    "\<exists>x. gw_cfg_get_fw_update_url b s = Some (x, s)" for b
    unfolding gw_cfg_get_http_stat_password_copy_def gw_cfg_get_mqtt_password_copy_def gw_cfg_get_fw_update_url_def
    using ok by (auto intro!: str simp: gw_cfg_ok_def gw_cfg_ruuvi_ok_def http_stat_ok_def mqtt_ok_def str_buf_copy_def)
  have empty: "\<exists>b. gw_cfg_is_empty s = Some (b, s)"
    using m by (cases s) (simp add: gw_cfg_is_empty_def gw_cfg_lock_ro_def gw_cfg_unlock_ro_def
      gw_cfg_mutex_lock_def gw_cfg_mutex_unlock_def)
  have "sta_ssid (wifi_config_sta (wifi_cfg_sta (g_gateway_config s))) \<noteq> []"
    using ok by (auto simp: gw_cfg_ok_def wifi_sta_ok_def config_sta_ok_def)
  then have sta: "\<exists>b. gw_cfg_is_wifi_sta_configured s = Some (b, s)"
    using m by (cases s) (auto simp: gw_cfg_is_wifi_sta_configured_def gw_cfg_lock_ro_def gw_cfg_unlock_ro_def
      gw_cfg_mutex_lock_def gw_cfg_mutex_unlock_def split: list.split)
  show ?thesis
    using pw copies empty sta
    by (cases g) (auto simp: gw_cfg_get_mqtt_ssl_eq [OF ok m] gw_cfg_read_eq [OF m] m gw_cfg_alloc_copy_def
      gw_cfg_device_string_def gw_cfg_getter_defs)
qed

lemma gw_cfg_set_simulation:
  assumes "cfg_sound s" and "update_ok ru eth ap sta"
  shows "\<exists>st s'. gw_cfg_set ru eth ap sta s = Some (st, s') \<and> cfg_sound s' \<and>
    cfg_abs s' = spec_set (meaning_set ru eth ap sta) (cfg_abs s)"
proof -
  from assms(1) obtain n where ok: "gw_cfg_ok (g_gateway_config s)" and m: "g_gw_cfg_mutex s = Some n"
    by (auto simp: cfg_sound_def)
  from gw_cfg_set_eq [OF ok assms(2) m] config_after_ok [OF ok assms(2)] m show ?thesis
    by (auto simp: cfg_sound_def cfg_abs_def spec_set_def config_after_view notified_def update_trace_def o_def
      concat_map_singleton)
qed

lemma map_option_snd: "(\<exists>st s'. r = Some (st, s') \<and> P s') \<Longrightarrow> \<exists>s'. map_option snd r = Some s' \<and> P s'"
  by auto

lemma gw_cfg_update_Some_spec:
  "meaning_set (Some (ruuvi_cfg c)) (Some (eth_cfg c)) (Some (wifi_cfg_ap c)) (Some (wifi_cfg_sta c)) =
   (\<lambda>m. (gw_cfg_view c)\<lparr>mean_device := mean_device m\<rparr>)"
  by (rule ext) (simp add: meaning_set_def gw_cfg_view_def)

lemma meaning_set_one_section:
  "meaning_set None None None None = (\<lambda>m. m)"
  "meaning_set (Some ru) None None None = mean_ruuvi_update (\<lambda>_. gw_cfg_ruuvi_view ru)"
  "meaning_set None (Some eth) None None = mean_eth_update (\<lambda>_. eth_view eth)"
  "meaning_set None None (Some ap) None = mean_wifi_ap_update (\<lambda>_. wifi_ap_view ap)"
  "meaning_set None None None (Some sta) = mean_wifi_sta_update (\<lambda>_. wifi_sta_view sta)"
  by (rule ext, simp add: meaning_set_def)+

lemma gw_cfg_exec_simulation:
  assumes "cfg_sound s" and "spec_enabled (cfg_abs s) op"
  shows "\<exists>s'. gw_cfg_exec op s = Some s' \<and> cfg_sound s' \<and> cfg_abs s' = spec_exec op (cfg_abs s)"
proof -
  from assms(1) obtain n where ok: "gw_cfg_ok (g_gateway_config s)" and m: "g_gw_cfg_mutex s = Some n"
    by (auto simp: cfg_sound_def)
  note enabled = assms(2) [unfolded spec_enabled_def]
  show ?thesis
proof (cases op)
  case (Cfg_update p)
  show ?thesis
  proof (cases p)
    case None
    with gw_cfg_set_simulation [OF assms(1), of None None None None] Cfg_update show ?thesis
      by (auto simp: gw_cfg_update_def update_ok_def meaning_set_one_section)
  next
    case (Some c)
    with enabled Cfg_update have "update_ok (Some (ruuvi_cfg c)) (Some (eth_cfg c)) (Some (wifi_cfg_ap c)) (Some (wifi_cfg_sta c))"
      by (simp add: update_ok_def gw_cfg_ok_def)
    from gw_cfg_set_simulation [OF assms(1) this] Some Cfg_update show ?thesis
      by (auto simp: gw_cfg_update_def gw_cfg_update_Some_spec)
  qed
next
  case (Cfg_update_ruuvi ru)
  with enabled gw_cfg_set_simulation [OF assms(1), of "Some ru" None None None] show ?thesis
    by (auto simp: gw_cfg_update_ruuvi_cfg_def update_ok_def meaning_set_one_section)
next
  case (Cfg_update_eth eth)
  with enabled gw_cfg_set_simulation [OF assms(1), of None "Some eth" None None] show ?thesis
    by (auto simp: gw_cfg_update_eth_cfg_def update_ok_def meaning_set_one_section)
next
  case (Cfg_update_wifi_ap ap)
  with enabled gw_cfg_set_simulation [OF assms(1), of None None "Some ap" None] show ?thesis
    by (auto simp: gw_cfg_update_wifi_ap_config_def update_ok_def meaning_set_one_section)
next
  case (Cfg_update_wifi_sta sta)
  with enabled gw_cfg_set_simulation [OF assms(1), of None None None "Some sta"] show ?thesis
    by (auto simp: gw_cfg_update_wifi_sta_config_def update_ok_def meaning_set_one_section)
next
  case (Cfg_update_fw_url url)
  with enabled ok m gw_cfg_update_fw_update_url_spec [of s url n] show ?thesis
    by (auto simp: cfg_sound_def cfg_abs_def notified_def)
next
  case (Cfg_set_use_eth flag)
  with ok m gw_cfg_set_eth_use_eth_spec [of s n flag] show ?thesis
    by (auto simp: cfg_sound_def cfg_abs_def notified_def)
next
  case (Cfg_get g)
  with assms(1) show ?thesis by (simp add: gw_cfg_get_keeps)
next
  case (Cfg_get_remote_copy alloc)
  with ok m show ?thesis
    by (cases s) (simp add: gw_cfg_get_remote_cfg_copy_def gw_cfg_lock_ro_def gw_cfg_unlock_ro_def
      gw_cfg_mutex_lock_def gw_cfg_mutex_unlock_def cfg_sound_def cfg_abs_def notified_def)
next
  case Cfg_lock_ro
  with ok m show ?thesis
    by (simp add: gw_cfg_lock_ro_def gw_cfg_mutex_lock_def cfg_sound_def cfg_abs_def notified_def)
next
  case Cfg_unlock_ro
  with enabled m obtain k where "n = Suc k" by (cases n) (simp_all add: cfg_abs_def)
  with Cfg_unlock_ro ok m show ?thesis
    by (simp add: gw_cfg_unlock_ro_def gw_cfg_mutex_unlock_def cfg_sound_def cfg_abs_def notified_def)
qed
qed

interpretation cfg_machine:
  event_machine gw_cfg_step "\<lambda>s. \<exists>t. s = Some t \<and> cfg_sound t" "\<lambda>s op. \<forall>t. s = Some t \<longrightarrow> spec_enabled (cfg_abs t) op"
  using gw_cfg_exec_simulation by unfold_locales (fastforce simp: gw_cfg_step_def)

lemma gw_cfg_run_simulation:
  assumes "cfg_sound s" and "enabled_run spec_step spec_enabled (cfg_abs s) ops"
  shows "\<exists>s'. run_events gw_cfg_step (Some s) ops = Some s' \<and> cfg_sound s' \<and>
    cfg_abs s' = run_events spec_step (cfg_abs s) ops"
  using assms
proof (induction ops arbitrary: s)
  case Nil
  then show ?case by simp
next
  case (Cons op ops)
  then obtain s1 where "gw_cfg_exec op s = Some s1" "cfg_sound s1" "cfg_abs s1 = spec_exec op (cfg_abs s)"
    using gw_cfg_exec_simulation [of s op] by auto
  with Cons.IH [of s1] Cons.prems show ?case
    by (simp add: gw_cfg_step_def)
qed

section \<open>Properties\<close>

definition eth_example :: gw_cfg_eth where
  "eth_example = \<lparr>use_eth = True, eth_dhcp = True, eth_static_ip = [NUL], eth_netmask = [NUL],
     eth_gw = [NUL], eth_dns1 = [NUL], eth_dns2 = [NUL]\<rparr>"

definition gw_cfg_example :: gw_cfg where
  "gw_cfg_example = \<lparr>
     device_info = \<lparr>di_wifi_ap = [NUL], di_hostname = [NUL], di_esp32_fw_ver = [NUL],
       di_nrf52_fw_ver = [NUL], di_nrf52_mac_addr = [NUL], di_nrf52_device_id = [NUL],
       di_esp32_mac_addr_wifi = [NUL], di_esp32_mac_addr_eth = [NUL]\<rparr>,
     ruuvi_cfg = gw_cfg_ruuvi_example ''x'', eth_cfg = eth_example,
     wifi_cfg_ap = \<lparr>wifi_config_ap = \<lparr>ap_ssid = ''R'' @ [NUL], ap_password = [NUL], ap_ssid_len = 1,
         ap_channel = 1, ap_authmode = 0, ap_ssid_hidden = 0, ap_max_connection = 4,
         ap_beacon_interval = 100\<rparr>,
       wifi_set_ap = \<lparr>ap_bandwidth = 1, ap_ip = [NUL], ap_gw = [NUL], ap_netmask = [NUL]\<rparr>\<rparr>,
     wifi_cfg_sta = \<lparr>wifi_config_sta = \<lparr>sta_ssid = [NUL], sta_password = [NUL], sta_scan_method = 0,
         sta_bssid_set = False, sta_bssid = MAC 0 0 0 0 0 0, sta_channel = 0, sta_listen_interval = 0,
         sta_sort_method = 0, sta_threshold_rssi = 0, sta_threshold_authmode = 0,
         sta_pmf_capable = False, sta_pmf_required = False\<rparr>,
       wifi_set_sta = \<lparr>sta_power_save = 0, sta_static_ip = False, sta_static_ip_addr = 0,
         sta_static_netmask = 0, sta_static_gw = 0\<rparr>\<rparr>\<rparr>"

definition gw_cfg_state_example :: "nat option \<Rightarrow> gw_cfg_state" where
  "gw_cfg_state_example m = \<lparr>g_gateway_config = gw_cfg_example, g_gw_cfg_ready = True,
     g_gw_cfg_is_empty = False, g_gw_cfg_mutex = m, g_p_gw_cfg_cb_on_change_cfg = True, cfg_trace = []\<rparr>"

lemma gw_cfg_example_ok: "gw_cfg_ok gw_cfg_example"
  by (simp add: gw_cfg_ok_def gw_cfg_example_def gw_cfg_ruuvi_example_ok eth_example_def eth_ok_def
    wifi_ap_ok_def config_ap_ok_def settings_ap_ok_def wifi_sta_ok_def config_sta_ok_def)

text \<open>C8: What an update of the configuration does. Given terminated strings and an initialised store,
  \<open>gw_cfg_set\<close> returns with the mutex as it was. Afterwards every section it was given means what
  the caller passed and every other section and the device information mean what they meant; the
  status flags name exactly the sections whose meaning changed. In a store that was ready, exactly
  the changed sections are notified, in the order Ruuvi, Ethernet, access point, station, with the
  NTP notification that fits the change; then the callback receives the new configuration (NULL for
  an update without sections). In a store that was not ready no change is notified, and the
  notification that the configuration is ready follows the callback. The same update once more
  changes and notifies nothing.
\<close>

theorem gw_cfg_set_effect:
  assumes "gw_cfg_ok (g_gateway_config s)" and "update_ok ru eth ap sta" and "g_gw_cfg_mutex s = Some n"
  defines "m \<equiv> gw_cfg_view (g_gateway_config s)"
  shows "\<exists>st s' st'' s''. gw_cfg_set ru eth ap sta s = Some (st, s') \<and>
    gw_cfg_ok (g_gateway_config s') \<and> g_gw_cfg_mutex s' = Some n \<and> g_gw_cfg_ready s' \<and>
    g_p_gw_cfg_cb_on_change_cfg s' = g_p_gw_cfg_cb_on_change_cfg s \<and>
    gw_cfg_view (g_gateway_config s') = meaning_set ru eth ap sta m \<and>
    st = status_of m (gw_cfg_view (g_gateway_config s')) \<and>
    g_gw_cfg_is_empty s' = (ru = None \<and> eth = None \<and> ap = None \<and> sta = None) \<and>
    cfg_trace s' = cfg_trace s @
      (if g_gw_cfg_ready s then map Cfg_notify (change_events m (gw_cfg_view (g_gateway_config s'))) else []) @
      (if g_p_gw_cfg_cb_on_change_cfg s
       then [Cfg_on_change (if g_gw_cfg_is_empty s' then None else Some (g_gateway_config s'))] else []) @
      (if \<not> g_gw_cfg_ready s \<and> g_p_gw_cfg_cb_on_change_cfg s
       then [Cfg_notify EVENT_MGR_EV_GW_CFG_READY] else []) \<and>
    gw_cfg_set ru eth ap sta s' = Some (st'', s'') \<and>
    g_gateway_config s'' = g_gateway_config s' \<and> st'' = clean_status \<and> notified s'' = notified s'"
proof -
  define c where "c = config_after ru eth ap sta (g_gateway_config s)"
  define e where "e \<longleftrightarrow> ru = None \<and> eth = None \<and> ap = None \<and> sta = None"
  define s' where "s' = s\<lparr>g_gateway_config := c, g_gw_cfg_ready := True, g_gw_cfg_is_empty := e,
    cfg_trace := cfg_trace s @ update_trace s e c\<rparr>"
  have run: "gw_cfg_set ru eth ap sta s = Some (status_of m (gw_cfg_view c), s')"
    using gw_cfg_set_eq [OF assms(1-3)] by (simp add: s'_def c_def e_def m_def)
  have ok: "gw_cfg_ok c" unfolding c_def by (rule config_after_ok [OF assms(1,2)])
  have same: "config_after ru eth ap sta c = c"
    unfolding c_def by (rule config_after_idem)
  have "gw_cfg_set ru eth ap sta s' = Some (clean_status, s'\<lparr>cfg_trace := cfg_trace s' @
      (if g_p_gw_cfg_cb_on_change_cfg s then [Cfg_on_change (if e then None else Some c)] else [])\<rparr>)"
    using gw_cfg_set_eq [OF _ assms(2), of s' n] ok same assms(3)
    by (simp add: s'_def status_of_def clean_status_def update_trace_def change_events_def
      ruuvi_change_events_def e_def)
  with run ok show ?thesis
    using assms(3) by (simp add: s'_def m_def c_def config_after_view update_trace_def notified_def e_def)
qed

lemma gw_cfg_state_example_parts:
  "g_gateway_config (gw_cfg_state_example m) = gw_cfg_example"
  "g_gw_cfg_ready (gw_cfg_state_example m)" "g_gw_cfg_mutex (gw_cfg_state_example m) = m"
  "g_p_gw_cfg_cb_on_change_cfg (gw_cfg_state_example m)" "cfg_trace (gw_cfg_state_example m) = []"
  by (simp_all add: gw_cfg_state_example_def)

theorem gw_cfg_set_effect_witness:
  "\<exists>st s'. gw_cfg_set None (Some (eth_example\<lparr>use_eth := False\<rparr>)) None None (gw_cfg_state_example (Some 0)) =
      Some (st, s') \<and>
    flag_eth_cfg_modified st \<and> \<not> flag_ruuvi_cfg_modified st \<and> \<not> use_eth (eth_cfg (g_gateway_config s')) \<and>
    cfg_trace s' = [Cfg_notify EVENT_MGR_EV_GW_CFG_CHANGED_ETH, Cfg_on_change (Some (g_gateway_config s'))]"
proof -
  define m where "m = gw_cfg_view gw_cfg_example"
  let ?e = "eth_example\<lparr>use_eth := False\<rparr>"
  have e: "mean_eth m \<noteq> eth_view ?e"
    by (simp add: m_def gw_cfg_view_def gw_cfg_example_def eth_example_def eth_view_def)
  have u: "update_ok None (Some ?e) None None"
    by (simp add: update_ok_def eth_ok_def eth_example_def)
  obtain st s' where run: "gw_cfg_set None (Some ?e) None None (gw_cfg_state_example (Some 0)) = Some (st, s')"
    and v: "gw_cfg_view (g_gateway_config s') = m\<lparr>mean_eth := eth_view ?e\<rparr>"
    and st: "st = status_of m (gw_cfg_view (g_gateway_config s'))"
    and tr: "cfg_trace s' = map Cfg_notify (change_events m (gw_cfg_view (g_gateway_config s'))) @
        [Cfg_on_change (Some (g_gateway_config s'))]"
    using gw_cfg_set_effect [of "gw_cfg_state_example (Some 0)", OF _ u, of 0]
    by (auto simp: gw_cfg_state_example_parts gw_cfg_example_ok meaning_set_def m_def)
  have "use_eth (eth_cfg c) = use_eth (mean_eth (gw_cfg_view c))" for c
    by (simp add: gw_cfg_view_def eth_view_def)
  then have "\<not> use_eth (eth_cfg (g_gateway_config s'))"
    by (simp add: v eth_view_def)
  with run e show ?thesis
    by (simp add: st tr v status_of_def change_events_def ruuvi_change_events_def)
qed

text \<open>Which operations are updates of whole sections, and which take the mutex and keep it.\<close>

fun is_section_update :: "gw_cfg_op \<Rightarrow> bool" where
  "is_section_update (Cfg_update _) = True"
| "is_section_update (Cfg_update_ruuvi _) = True"
| "is_section_update (Cfg_update_eth _) = True"
| "is_section_update (Cfg_update_wifi_ap _) = True"
| "is_section_update (Cfg_update_wifi_sta _) = True"
| "is_section_update _ = False"

abbreviation ready_events :: "event_mgr_ev list \<Rightarrow> event_mgr_ev list" where
  "ready_events evs \<equiv> filter (\<lambda>ev. ev = EVENT_MGR_EV_GW_CFG_READY) evs"

lemma no_ready_in_changes: "ready_events (change_events m m') = []"
  by (auto simp: change_events_def ruuvi_change_events_def)

lemma spec_exec_ready:
  "ready_events (sp_notified (spec_exec op a)) = ready_events (sp_notified a) @
     (if \<not> sp_ready a \<and> sp_callback a \<and> is_section_update op then [EVENT_MGR_EV_GW_CFG_READY] else [])"
  "sp_callback (spec_exec op a) = sp_callback a"
  "sp_ready (spec_exec op a) = (sp_ready a \<or> is_section_update op)"
  by (induction op a rule: spec_exec.induct) (simp_all add: spec_set_def no_ready_in_changes)

lemma spec_run_ready:
  "ready_events (sp_notified (run_events spec_step a ops)) = ready_events (sp_notified a) @
     (if \<not> sp_ready a \<and> sp_callback a \<and> list_ex is_section_update ops then [EVENT_MGR_EV_GW_CFG_READY] else [])"
  by (induction ops arbitrary: a) (auto simp: spec_exec_ready)

definition locks_taken :: "gw_cfg_op list \<Rightarrow> nat" where
  "locks_taken ops = length (filter (\<lambda>op. op = Cfg_lock_ro \<or> op = Cfg_get_remote_copy False) ops)"

definition locks_released :: "gw_cfg_op list \<Rightarrow> nat" where
  "locks_released ops = length (filter (\<lambda>op. op = Cfg_unlock_ro) ops)"

lemma spec_exec_held:
  "spec_enabled a op \<Longrightarrow> sp_held (spec_exec op a) + of_bool (op = Cfg_unlock_ro) =
     sp_held a + of_bool (op = Cfg_lock_ro \<or> op = Cfg_get_remote_copy False)"
  by (induction op a rule: spec_exec.induct) (auto simp: spec_set_def spec_enabled_def)

lemma spec_run_held:
  "enabled_run spec_step spec_enabled a ops \<Longrightarrow>
     sp_held (run_events spec_step a ops) + locks_released ops = sp_held a + locks_taken ops"
proof (induction ops arbitrary: a)
  case (Cons op ops)
  from Cons.prems have "spec_enabled a op" by simp
  from spec_exec_held [OF this] Cons.IH [of "spec_exec op a"] Cons.prems show ?case
    by (auto simp: locks_taken_def locks_released_def split: if_splits)
qed (simp add: locks_taken_def locks_released_def)

definition spec_start :: "gw_cfg \<Rightarrow> bool \<Rightarrow> cfg_spec" where
  "spec_start dflt cb = \<lparr>sp_meaning = gw_cfg_view dflt, sp_ready = False, sp_callback = cb,
     sp_notified = [], sp_held = 0\<rparr>"

text \<open>C7: The life of the configuration store. After \<open>gw_cfg_init\<close> with a valid default
  configuration, every sequence of updates, single-field changes, getters and locks for reading with
  terminated strings, in which the client unlocks only what it locked, succeeds: no assertion fails
  and no string is read past its end. The store refines an abstract one that holds only meanings: the
  meaning of the configuration, whether it is ready, the notifications sent so far and how often the
  mutex is held are those of the abstract operations. Updates and getters give the mutex back: it is
  held as often as the client locked it and did not unlock it, plus once for every copy of the remote
  configuration whose allocation failed, which returns with the mutex locked; so it is free after
  every run without such a failure in which the client unlocks what it locked, and no other run. With
  a callback, the notification that the configuration is ready is sent exactly once, by the first
  update of sections, and without one never. From any such state \<open>gw_cfg_deinit\<close> succeeds.
\<close>

theorem gw_cfg_run_refines:
  assumes "gw_cfg_ok dflt" and "g_gw_cfg_mutex s0 = None" and "cfg_trace s0 = []"
    and "enabled_run spec_step spec_enabled (spec_start dflt cb) ops"
  shows "\<exists>s n. run_events gw_cfg_step (gw_cfg_init dflt cb s0) ops = Some s \<and>
    gw_cfg_ok (g_gateway_config s) \<and>
    cfg_abs s = run_events spec_step (spec_start dflt cb) ops \<and>
    g_gw_cfg_mutex s = Some n \<and> n + locks_released ops = locks_taken ops \<and>
    filter (\<lambda>ev. ev = EVENT_MGR_EV_GW_CFG_READY) (notified s) =
      (if cb \<and> list_ex is_section_update ops then [EVENT_MGR_EV_GW_CFG_READY] else []) \<and>
    gw_cfg_deinit s = Some (s\<lparr>g_p_gw_cfg_cb_on_change_cfg := False, g_gw_cfg_ready := False,
      g_gw_cfg_mutex := None\<rparr>)"
proof -
  obtain s1 where init: "gw_cfg_init dflt cb s0 = Some s1" and inv: "cfg_sound s1"
    and abs: "cfg_abs s1 = spec_start dflt cb"
    using assms(1-3) by (simp add: gw_cfg_init_def gw_cfg_mutex_lock_def gw_cfg_mutex_unlock_def cfg_sound_def
      cfg_abs_def notified_def spec_start_def)
  obtain s where run: "run_events gw_cfg_step (Some s1) ops = Some s" "cfg_sound s"
      "cfg_abs s = run_events spec_step (spec_start dflt cb) ops"
    using gw_cfg_run_simulation [OF inv, of ops] assms(4) abs by auto
  then obtain n where n: "g_gw_cfg_mutex s = Some n" "gw_cfg_ok (g_gateway_config s)"
    by (auto simp: cfg_sound_def)
  have "notified s = sp_notified (cfg_abs s)" and "n = sp_held (cfg_abs s)"
    using n by (simp_all add: cfg_abs_def)
  with run have "ready_events (notified s) =
      (if cb \<and> list_ex is_section_update ops then [EVENT_MGR_EV_GW_CFG_READY] else [])"
    and "n + locks_released ops = locks_taken ops"
    using spec_run_held [OF assms(4)] by (simp_all add: spec_run_ready spec_start_def)
  moreover have "gw_cfg_deinit s = Some (s\<lparr>g_p_gw_cfg_cb_on_change_cfg := False, g_gw_cfg_ready := False,
      g_gw_cfg_mutex := None\<rparr>)"
    using n by (cases s) (simp add: gw_cfg_deinit_def gw_cfg_mutex_lock_def gw_cfg_mutex_unlock_def)
  ultimately show ?thesis using run(1,3) init n by auto
qed

theorem gw_cfg_run_refines_witness:
  "\<exists>s. run_events gw_cfg_step (gw_cfg_init gw_cfg_example True (gw_cfg_state_example None))
      [Cfg_update None, Cfg_set_use_eth False, Cfg_get (Get_Mqtt_password True), Cfg_lock_ro,
       Cfg_get_remote_copy False, Cfg_unlock_ro, Cfg_update (Some gw_cfg_example)] = Some s \<and>
    g_gw_cfg_mutex s = Some 1 \<and>
    filter (\<lambda>ev. ev = EVENT_MGR_EV_GW_CFG_READY) (notified s) = [EVENT_MGR_EV_GW_CFG_READY]"
proof -
  let ?ops = "[Cfg_update None, Cfg_set_use_eth False, Cfg_get (Get_Mqtt_password True), Cfg_lock_ro,
     Cfg_get_remote_copy False, Cfg_unlock_ro, Cfg_update (Some gw_cfg_example)]"
  have "enabled_run spec_step spec_enabled (spec_start gw_cfg_example True) ?ops"
    by (simp add: spec_enabled_def gw_cfg_example_ok spec_start_def spec_set_def)
  moreover have "g_gw_cfg_mutex (gw_cfg_state_example None) = None"
    and "cfg_trace (gw_cfg_state_example None) = []"
    by (simp_all add: gw_cfg_state_example_def)
  ultimately obtain s n where "run_events gw_cfg_step (gw_cfg_init gw_cfg_example True (gw_cfg_state_example None)) ?ops = Some s"
    and "g_gw_cfg_mutex s = Some n" and "n + locks_released ?ops = locks_taken ?ops"
    and "filter (\<lambda>ev. ev = EVENT_MGR_EV_GW_CFG_READY) (notified s) =
      (if True \<and> list_ex is_section_update ?ops then [EVENT_MGR_EV_GW_CFG_READY] else [])"
    using gw_cfg_run_refines [OF gw_cfg_example_ok, of "gw_cfg_state_example None" True ?ops] by blast
  then show ?thesis by (simp add: locks_released_def locks_taken_def)
qed

text \<open>The getters that hand out copies and the mutex. With an initialised store, the HTTP,
  statistics and MQTT copies return the section (or NULL when the allocation failed) and leave the
  mutex as it was. The copy of the remote configuration does so only when its allocation succeeds:
  when it fails, the function returns NULL with the mutex locked once more, so that every other task
  that wants the configuration waits for ever.
\<close>

theorem gw_cfg_copies_and_mutex:
  assumes "g_gw_cfg_mutex s = Some n"
  defines "c \<equiv> ruuvi_cfg (g_gateway_config s)"
  shows "gw_cfg_get_http_copy alloc s = Some (if alloc then Some (cfg_http c) else None, s) \<and>
    gw_cfg_get_http_stat_copy alloc s = Some (if alloc then Some (cfg_http_stat c) else None, s) \<and>
    gw_cfg_get_mqtt_copy alloc s = Some (if alloc then Some (cfg_mqtt c) else None, s) \<and>
    gw_cfg_get_remote_cfg_copy alloc s =
      (if alloc then Some (Some (cfg_remote c), s)
       else Some (None, s\<lparr>g_gw_cfg_mutex := Some (Suc n)\<rparr>))"
  using assms by (cases s)
    (simp add: gw_cfg_get_http_copy_def gw_cfg_get_http_stat_copy_def gw_cfg_get_mqtt_copy_def
      gw_cfg_alloc_copy_def gw_cfg_read_eq gw_cfg_get_remote_cfg_copy_def gw_cfg_lock_ro_def
      gw_cfg_unlock_ro_def gw_cfg_mutex_lock_def gw_cfg_mutex_unlock_def)

theorem gw_cfg_copies_and_mutex_witness:
  "fst (the (gw_cfg_get_remote_cfg_copy False (gw_cfg_state_example (Some 0)))) = None \<and>
   g_gw_cfg_mutex (snd (the (gw_cfg_get_remote_cfg_copy False (gw_cfg_state_example (Some 0))))) = Some 1"
  using gw_cfg_copies_and_mutex [of "gw_cfg_state_example (Some 0)" 0 False]
  by (simp add: gw_cfg_state_example_def)

end
