(* ===== verification/Adv_Table.thy ===== *)
theory Adv_Table
  imports Gw_Prelude
begin

text \<open>
  The table of received BLE advertisements, \<open>main/adv_table.c\<close>: a static pool of
  \<open>MAX_ADVS_TABLE\<close> elements, threaded through a hash table on the MAC address, three
  retransmission queues (HTTP to Ruuvi, HTTP to a custom server, MQTT) and one history list
  ordered by the time of the last update. The pool is a function on the indices
  \<open>0..<100\<close> and every intrusive list is the list of the indices it links, in order. The
  mutex is not part of the state: every exported function holds it for its whole body, so each
  is one atomic step.
\<close>

section \<open>Data model\<close>

definition MAX_ADVS_TABLE :: nat where "MAX_ADVS_TABLE = 100"
definition ADV_TABLE_HASH_SIZE :: u32 where "ADV_TABLE_HASH_SIZE = 101"
definition BLE_MAX_REGULAR_ADV_DATA_LEN :: u8 where "BLE_MAX_REGULAR_ADV_DATA_LEN = 31"

text \<open>\<open>adv_report_t\<close>; on the ESP32 \<open>time_t\<close> has 32 bits. The buffer holds 48 bytes.\<close>

record adv_report =
  timestamp :: u32
  samples_counter :: u32
  tag_mac :: mac_address
  rssi :: u8
  primary_phy :: "4 word"
  secondary_phy :: "4 word"
  ch_index :: u8
  is_coded_phy :: bool
  tx_power :: u8
  data_len :: u8
  data_buf :: "u8 list"

text \<open>
  \<open>retransmission_list1\<close>, \<open>2\<close> and \<open>3\<close> are three copies of the same queue; the model
  indexes them.
\<close>

datatype rlist = RList1 | RList2 | RList3

record adv_reports_list_elem =
  is_in_hash_table :: bool
  is_in_retransmission_list :: "rlist \<Rightarrow> bool"
  elem_report :: adv_report

record adv_table_state =
  g_arr_of_adv_reports :: "nat \<Rightarrow> adv_reports_list_elem"
  g_adv_hash_table :: "nat \<Rightarrow> nat list"
  g_adv_reports_retransmission_list :: "rlist \<Rightarrow> nat list"
  g_adv_reports_hist_list :: "nat list"

definition zero_report :: adv_report where
  "zero_report = \<lparr>timestamp = 0, samples_counter = 0, tag_mac = MAC 0 0 0 0 0 0, rssi = 0,
     primary_phy = 0, secondary_phy = 0, ch_index = 0, is_coded_phy = False, tx_power = 0,
     data_len = 0, data_buf = replicate 48 0\<rparr>"

abbreviation report_at :: "adv_table_state \<Rightarrow> nat \<Rightarrow> adv_report" where
  "report_at s i \<equiv> elem_report (g_arr_of_adv_reports s i)"

abbreviation in_hash :: "adv_table_state \<Rightarrow> nat \<Rightarrow> bool" where
  "in_hash s i \<equiv> is_in_hash_table (g_arr_of_adv_reports s i)"

abbreviation in_rlist :: "adv_table_state \<Rightarrow> nat \<Rightarrow> rlist \<Rightarrow> bool" where
  "in_rlist s i \<equiv> is_in_retransmission_list (g_arr_of_adv_reports s i)"

definition upd_elem ::
  "nat \<Rightarrow> (adv_reports_list_elem \<Rightarrow> adv_reports_list_elem) \<Rightarrow> adv_table_state \<Rightarrow> adv_table_state" where
  "upd_elem i f s = s\<lparr>g_arr_of_adv_reports := (g_arr_of_adv_reports s)(i := f (g_arr_of_adv_reports s i))\<rparr>"

definition upd_report :: "nat \<Rightarrow> (adv_report \<Rightarrow> adv_report) \<Rightarrow> adv_table_state \<Rightarrow> adv_table_state" where
  "upd_report i f = upd_elem i (\<lambda>e. e\<lparr>elem_report := f (elem_report e)\<rparr>)"

section \<open>Operations\<close>

definition adv_table_init :: "adv_table_state" where
  "adv_table_init = \<lparr>
     g_arr_of_adv_reports = (\<lambda>_. \<lparr>is_in_hash_table = False,
       is_in_retransmission_list = (\<lambda>_. False), elem_report = zero_report\<rparr>),
     g_adv_hash_table = (\<lambda>_. []),
     g_adv_reports_retransmission_list = (\<lambda>_. []),
     g_adv_reports_hist_list = [0..<MAX_ADVS_TABLE]\<rparr>"

definition mac_address_is_equal :: "mac_address \<Rightarrow> mac_address \<Rightarrow> bool" where
  "mac_address_is_equal m1 m2 \<longleftrightarrow> mac_bytes m1 = mac_bytes m2"

definition adv_report_calc_hash :: "mac_address \<Rightarrow> u32" where
  "adv_report_calc_hash m =
     (let half = length (mac_bytes m) div 2 in
      fold (\<lambda>i hash_val. hash_val OR
             push_bit (i * 8) (ucast (mac_bytes m ! i) XOR ucast (mac_bytes m ! (i + half))))
        [0..<half] 0)"

definition hash_idx :: "mac_address \<Rightarrow> nat" where
  "hash_idx m = unat (adv_report_calc_hash m mod ADV_TABLE_HASH_SIZE)"

definition adv_hash_table_search :: "mac_address \<Rightarrow> adv_table_state \<Rightarrow> nat option" where
  "adv_hash_table_search m s =
     find (\<lambda>i. mac_address_is_equal m (tag_mac (report_at s i))) (g_adv_hash_table s (hash_idx m))"

definition adv_hash_table_add :: "nat \<Rightarrow> adv_table_state \<Rightarrow> adv_table_state" where
  "adv_hash_table_add i s =
     (let b = hash_idx (tag_mac (report_at s i)) in
      upd_elem i (\<lambda>e. e\<lparr>is_in_hash_table := True\<rparr>)
        (s\<lparr>g_adv_hash_table := (g_adv_hash_table s)(b := g_adv_hash_table s b @ [i])\<rparr>))"

definition adv_hash_table_remove :: "nat \<Rightarrow> adv_table_state \<Rightarrow> adv_table_state" where
  "adv_hash_table_remove i s =
     (if \<not> in_hash s i then s
      else let b = hash_idx (tag_mac (report_at s i)) in
        upd_elem i (\<lambda>e. e\<lparr>is_in_hash_table := False\<rparr>)
          (s\<lparr>g_adv_hash_table := (g_adv_hash_table s)(b := remove1 i (g_adv_hash_table s b))\<rparr>))"

definition adv_table_check_if_adv_must_be_discarded :: "adv_report \<Rightarrow> adv_report \<Rightarrow> bool" where
  "adv_table_check_if_adv_must_be_discarded p_adv p_prev_adv =
     (if data_len p_prev_adv = data_len p_adv \<and>
         take (unat (data_len p_adv)) (data_buf p_prev_adv) = take (unat (data_len p_adv)) (data_buf p_adv)
      then True
      else let is_prev_ext_adv = data_len p_prev_adv > BLE_MAX_REGULAR_ADV_DATA_LEN;
               is_new_ext_adv = data_len p_adv > BLE_MAX_REGULAR_ADV_DATA_LEN
           in is_prev_ext_adv \<and> \<not> is_new_ext_adv)"

text \<open>The insertion into one retransmission list, guarded by the element's flag.\<close>

definition rlist_insert :: "rlist \<Rightarrow> nat \<Rightarrow> adv_table_state \<Rightarrow> adv_table_state" where
  "rlist_insert L i s =
     (if \<not> in_rlist s i L
      then upd_elem i (\<lambda>e. e\<lparr>is_in_retransmission_list := (is_in_retransmission_list e)(L := True)\<rparr>)
        (s\<lparr>g_adv_reports_retransmission_list :=
            (g_adv_reports_retransmission_list s)(L := g_adv_reports_retransmission_list s L @ [i])\<rparr>)
      else s)"

text \<open>The tail of \<open>adv_table_put_unsafe\<close> under \<open>flag_updated\<close>.\<close>

definition adv_table_mark_updated :: "nat \<Rightarrow> adv_table_state \<Rightarrow> adv_table_state" where
  "adv_table_mark_updated i s =
     (let s1 = rlist_insert RList1 i s;
          s2 = rlist_insert RList2 i s1;
          s3 = rlist_insert RList3 i s2
      in s3\<lparr>g_adv_reports_hist_list := i # remove1 i (g_adv_reports_hist_list s3)\<rparr>)"

definition adv_table_put :: "adv_report \<Rightarrow> adv_table_state \<Rightarrow> bool \<times> adv_table_state" where
  "adv_table_put p_adv s =
     (case adv_hash_table_search (tag_mac p_adv) s of
        None \<Rightarrow>
          let i = last (g_adv_reports_hist_list s);
              s1 = adv_hash_table_remove i s;
              s2 = upd_report i (\<lambda>_. p_adv) s1;
              s3 = adv_hash_table_add i s2
          in (True, adv_table_mark_updated i s3)
      | Some i \<Rightarrow>
          if \<not> adv_table_check_if_adv_must_be_discarded p_adv (report_at s i)
          then let prev_counter = samples_counter (report_at s i);
                   s1 = upd_report i (\<lambda>_. p_adv\<lparr>samples_counter := prev_counter + 1\<rparr>) s
               in (True, adv_table_mark_updated i s1)
          else (False, upd_report i (\<lambda>r. r\<lparr>samples_counter := samples_counter r + 1\<rparr>) s))"

text \<open>
  The drain loop of \<open>adv_table_read_retransmission_list1_and_clear_unsafe\<close> (and its two
  copies): pop the head, clear its flag, stop when the caller's table is full, copy the report.
  The report table is the list of its first \<open>num_of_advs\<close> entries.
\<close>

definition rlist_pop :: "rlist \<Rightarrow> adv_table_state \<Rightarrow> adv_table_state" where
  "rlist_pop L s =
     upd_elem (hd (g_adv_reports_retransmission_list s L))
       (\<lambda>e. e\<lparr>is_in_retransmission_list := (is_in_retransmission_list e)(L := False)\<rparr>)
       (s\<lparr>g_adv_reports_retransmission_list := (g_adv_reports_retransmission_list s)
            (L := tl (g_adv_reports_retransmission_list s L))\<rparr>)"

lemma rlist_pop_list [simp]:
  "g_adv_reports_retransmission_list (rlist_pop L s) =
     (g_adv_reports_retransmission_list s)(L := tl (g_adv_reports_retransmission_list s L))"
  by (simp add: rlist_pop_def upd_elem_def)

function rlist_drain :: "rlist \<Rightarrow> adv_table_state \<Rightarrow> adv_report list \<Rightarrow> adv_table_state \<times> adv_report list" where
  "rlist_drain L s tbl =
     (case g_adv_reports_retransmission_list s L of
        [] \<Rightarrow> (s, tbl)
      | i # _ \<Rightarrow>
          let s' = rlist_pop L s in
          if length tbl \<ge> MAX_ADVS_TABLE then (s', tbl)
          else rlist_drain L s' (tbl @ [report_at s' i]))"
  by pat_completeness auto
termination
  by (relation "measure (\<lambda>(L, s, _). length (g_adv_reports_retransmission_list s L))") auto

declare rlist_drain.simps [simp del]

definition adv_table_read_retransmission_list1_and_clear :: "adv_table_state \<Rightarrow> adv_table_state \<times> adv_report list" where
  "adv_table_read_retransmission_list1_and_clear s = rlist_drain RList1 s []"

definition adv_table_read_retransmission_list2_and_clear :: "adv_table_state \<Rightarrow> adv_table_state \<times> adv_report list" where
  "adv_table_read_retransmission_list2_and_clear s = rlist_drain RList2 s []"

definition adv_table_read_retransmission_list3_and_clear :: "adv_table_state \<Rightarrow> adv_table_state \<times> adv_report list" where
  "adv_table_read_retransmission_list3_and_clear s = rlist_drain RList3 s []"

definition adv_table_read_retransmission_list3_head :: "adv_table_state \<Rightarrow> adv_table_state \<times> adv_report option" where
  "adv_table_read_retransmission_list3_head s =
     (case g_adv_reports_retransmission_list s RList3 of
        [] \<Rightarrow> (s, None)
      | i # _ \<Rightarrow> let s' = rlist_pop RList3 s in (s', Some (report_at s' i)))"

definition adv_table_read_retransmission_list3_is_empty :: "adv_table_state \<Rightarrow> bool" where
  "adv_table_read_retransmission_list3_is_empty s \<longleftrightarrow> g_adv_reports_retransmission_list s RList3 = []"

text \<open>
  The history scan stops at the first element that is free or too old. With timestamps the age
  \<open>cur_time - timestamp\<close> is compared as an unsigned 32-bit number; with counters the
  difference to the filter is read as a signed one.
\<close>

fun history_scan ::
  "adv_table_state \<Rightarrow> u32 \<Rightarrow> bool \<Rightarrow> u32 \<Rightarrow> bool \<Rightarrow> nat list \<Rightarrow> adv_report list \<Rightarrow> adv_report list" where
  "history_scan s cur_time flag_use_timestamps filt flag_use_filter [] tbl = tbl"
| "history_scan s cur_time flag_use_timestamps filt flag_use_filter (i # is) tbl =
     (if length tbl \<ge> MAX_ADVS_TABLE then tbl
      else if data_len (report_at s i) = 0 then tbl
      else if flag_use_timestamps \<and> flag_use_filter \<and> cur_time - timestamp (report_at s i) > filt then tbl
      else if \<not> flag_use_timestamps \<and> flag_use_filter \<and> sint (timestamp (report_at s i) - filt) \<le> 0 then tbl
      else history_scan s cur_time flag_use_timestamps filt flag_use_filter is (tbl @ [report_at s i]))"

definition adv_table_history_read ::
  "u32 \<Rightarrow> bool \<Rightarrow> u32 \<Rightarrow> bool \<Rightarrow> adv_table_state \<Rightarrow> adv_report list" where
  "adv_table_history_read cur_time flag_use_timestamps filt flag_use_filter s =
     history_scan s cur_time flag_use_timestamps filt flag_use_filter (g_adv_reports_hist_list s) []"

fun statistics_scan ::
  "nat list \<Rightarrow> adv_table_state \<Rightarrow> adv_report list \<Rightarrow> adv_table_state \<times> adv_report list" where
  "statistics_scan [] s tbl = (s, tbl)"
| "statistics_scan (i # is) s tbl =
     (if length tbl \<ge> MAX_ADVS_TABLE then (s, tbl)
      else if timestamp (report_at s i) = 0 then (s, tbl)
      else statistics_scan is (upd_report i (\<lambda>r. r\<lparr>samples_counter := 0\<rparr>) s) (tbl @ [report_at s i]))"

definition adv_table_statistics_read :: "adv_table_state \<Rightarrow> adv_table_state \<times> adv_report list" where
  "adv_table_statistics_read s = statistics_scan (g_adv_reports_hist_list s) s []"

function adv_retransmission_list_clear :: "rlist \<Rightarrow> adv_table_state \<Rightarrow> adv_table_state" where
  "adv_retransmission_list_clear L s =
     (case g_adv_reports_retransmission_list s L of
        [] \<Rightarrow> s
      | _ # _ \<Rightarrow> adv_retransmission_list_clear L (rlist_pop L s))"
  by pat_completeness auto
termination
  by (relation "measure (\<lambda>(L, s). length (g_adv_reports_retransmission_list s L))") auto

declare adv_retransmission_list_clear.simps [simp del]

definition report_mark_free :: "adv_report \<Rightarrow> adv_report" where
  "report_mark_free r = r\<lparr>timestamp := 0, samples_counter := 0, data_len := 0\<rparr>"

definition adv_table_clear :: "adv_table_state \<Rightarrow> adv_table_state" where
  "adv_table_clear s =
     (let s1 = adv_retransmission_list_clear RList1 s;
          s2 = adv_retransmission_list_clear RList2 s1;
          s3 = adv_retransmission_list_clear RList3 s2
      in fold (\<lambda>i. upd_report i report_mark_free) (g_adv_reports_hist_list s3) s3)"

section \<open>How the primitives act on each part of the state\<close>

lemma upd_elem_parts [simp]:
  "g_adv_hash_table (upd_elem i f s) = g_adv_hash_table s"
  "g_adv_reports_retransmission_list (upd_elem i f s) = g_adv_reports_retransmission_list s"
  "g_adv_reports_hist_list (upd_elem i f s) = g_adv_reports_hist_list s"
  by (simp_all add: upd_elem_def)

lemma upd_elem_arr: "g_arr_of_adv_reports (upd_elem i f s) j =
    (if j = i then f (g_arr_of_adv_reports s i) else g_arr_of_adv_reports s j)"
  by (simp add: upd_elem_def)

lemma upd_report_parts [simp]:
  "g_adv_hash_table (upd_report i f s) = g_adv_hash_table s"
  "g_adv_reports_retransmission_list (upd_report i f s) = g_adv_reports_retransmission_list s"
  "g_adv_reports_hist_list (upd_report i f s) = g_adv_reports_hist_list s"
  "report_at (upd_report i f s) j = (if j = i then f (report_at s i) else report_at s j)"
  "in_hash (upd_report i f s) j = in_hash s j"
  "in_rlist (upd_report i f s) j = in_rlist s j"
  by (simp_all add: upd_report_def upd_elem_arr)

lemma hash_add_parts [simp]:
  "g_adv_reports_retransmission_list (adv_hash_table_add i s) = g_adv_reports_retransmission_list s"
  "g_adv_reports_hist_list (adv_hash_table_add i s) = g_adv_reports_hist_list s"
  "report_at (adv_hash_table_add i s) j = report_at s j"
  "in_hash (adv_hash_table_add i s) j = (j = i \<or> in_hash s j)"
  "in_rlist (adv_hash_table_add i s) j = in_rlist s j"
  by (simp_all add: adv_hash_table_add_def upd_elem_def Let_def)

lemma hash_add_bucket [simp]:
  "g_adv_hash_table (adv_hash_table_add i s) b =
     (if b = hash_idx (tag_mac (report_at s i)) then g_adv_hash_table s b @ [i] else g_adv_hash_table s b)"
  by (simp add: adv_hash_table_add_def Let_def)

lemma hash_remove_parts [simp]:
  "g_adv_reports_retransmission_list (adv_hash_table_remove i s) = g_adv_reports_retransmission_list s"
  "g_adv_reports_hist_list (adv_hash_table_remove i s) = g_adv_reports_hist_list s"
  "report_at (adv_hash_table_remove i s) j = report_at s j"
  "in_hash (adv_hash_table_remove i s) j = (j \<noteq> i \<and> in_hash s j)"
  "in_rlist (adv_hash_table_remove i s) j = in_rlist s j"
  by (auto simp: adv_hash_table_remove_def upd_elem_def Let_def)

lemma hash_remove_bucket [simp]:
  "g_adv_hash_table (adv_hash_table_remove i s) b =
     (if in_hash s i \<and> b = hash_idx (tag_mac (report_at s i)) then remove1 i (g_adv_hash_table s b)
      else g_adv_hash_table s b)"
  by (simp add: adv_hash_table_remove_def Let_def)

lemma rlist_insert_parts [simp]:
  "g_adv_hash_table (rlist_insert L i s) = g_adv_hash_table s"
  "g_adv_reports_hist_list (rlist_insert L i s) = g_adv_reports_hist_list s"
  "report_at (rlist_insert L i s) j = report_at s j"
  "in_hash (rlist_insert L i s) j = in_hash s j"
  "in_rlist (rlist_insert L i s) j = (if j = i then (in_rlist s i)(L := True) else in_rlist s j)"
  by (auto simp: rlist_insert_def upd_elem_def fun_eq_iff)

lemma rlist_insert_list [simp]:
  "g_adv_reports_retransmission_list (rlist_insert L i s) L' =
     (if L' = L \<and> \<not> in_rlist s i L then g_adv_reports_retransmission_list s L @ [i]
      else g_adv_reports_retransmission_list s L')"
  by (simp add: rlist_insert_def)

lemma rlist_pop_parts [simp]:
  "g_adv_hash_table (rlist_pop L s) = g_adv_hash_table s"
  "g_adv_reports_hist_list (rlist_pop L s) = g_adv_reports_hist_list s"
  "report_at (rlist_pop L s) j = report_at s j"
  "in_hash (rlist_pop L s) j = in_hash s j"
  "in_rlist (rlist_pop L s) j =
     (if j = hd (g_adv_reports_retransmission_list s L) then (in_rlist s j)(L := False) else in_rlist s j)"
  by (auto simp: rlist_pop_def upd_elem_def)

lemma mark_updated_parts [simp]:
  "g_adv_hash_table (adv_table_mark_updated i s) = g_adv_hash_table s"
  "g_adv_reports_hist_list (adv_table_mark_updated i s) = i # remove1 i (g_adv_reports_hist_list s)"
  "report_at (adv_table_mark_updated i s) j = report_at s j"
  "in_hash (adv_table_mark_updated i s) j = in_hash s j"
  by (simp_all add: adv_table_mark_updated_def Let_def)

lemma mark_updated_list [simp]:
  "g_adv_reports_retransmission_list (adv_table_mark_updated i s) L =
     g_adv_reports_retransmission_list (rlist_insert L i s) L"
  "in_rlist (adv_table_mark_updated i s) j L = in_rlist (rlist_insert L i s) j L"
  by (cases L; simp add: adv_table_mark_updated_def Let_def)+

text \<open>Each of the three lists provides the flagged queue interface.\<close>

interpretation rl: flag_queue
  "\<lambda>s. g_adv_reports_retransmission_list s L" "\<lambda>s i. in_rlist s i L" "rlist_insert L" "rlist_pop L"
  for L
  by unfold_locales (auto simp: fun_eq_iff)

section \<open>The invariant of the table\<close>

text \<open>
  Every element is in the history list exactly once; a retransmission flag says exactly whether
  the element is linked in that list; a hash flag says exactly whether the element is linked, in
  the bucket of its MAC; no two linked elements have the same MAC; the linked elements are the
  front part of the history list; an element that was never linked holds no data.
\<close>

definition hist_ok :: "adv_table_state \<Rightarrow> bool" where
  "hist_ok s \<longleftrightarrow> distinct (g_adv_reports_hist_list s) \<and> set (g_adv_reports_hist_list s) = {..<MAX_ADVS_TABLE}"

definition rlists_ok :: "adv_table_state \<Rightarrow> bool" where
  "rlists_ok s \<longleftrightarrow> (\<forall>L. flag_queue_ok (g_adv_reports_retransmission_list s L) (\<lambda>i. in_rlist s i L) \<and>
      set (g_adv_reports_retransmission_list s L) \<subseteq> {..<MAX_ADVS_TABLE})"

definition hash_ok :: "adv_table_state \<Rightarrow> bool" where
  "hash_ok s \<longleftrightarrow> (\<forall>b. distinct (g_adv_hash_table s b) \<and>
      (\<forall>i. i \<in> set (g_adv_hash_table s b) \<longleftrightarrow>
        i < MAX_ADVS_TABLE \<and> in_hash s i \<and> hash_idx (tag_mac (report_at s i)) = b))"

definition mac_unique :: "adv_table_state \<Rightarrow> bool" where
  "mac_unique s \<longleftrightarrow> (\<forall>i < MAX_ADVS_TABLE. \<forall>j < MAX_ADVS_TABLE. in_hash s i \<longrightarrow> in_hash s j \<longrightarrow>
      tag_mac (report_at s i) = tag_mac (report_at s j) \<longrightarrow> i = j)"

definition used_first :: "adv_table_state \<Rightarrow> bool" where
  "used_first s \<longleftrightarrow> g_adv_reports_hist_list s =
     filter (in_hash s) (g_adv_reports_hist_list s) @ filter (\<lambda>i. \<not> in_hash s i) (g_adv_reports_hist_list s)"

definition free_blank :: "adv_table_state \<Rightarrow> bool" where
  "free_blank s \<longleftrightarrow> (\<forall>i. \<not> in_hash s i \<longrightarrow> data_len (report_at s i) = 0 \<and> timestamp (report_at s i) = 0)"

definition adv_table_inv :: "adv_table_state \<Rightarrow> bool" where
  "adv_table_inv s \<longleftrightarrow>
     hist_ok s \<and> rlists_ok s \<and> hash_ok s \<and> mac_unique s \<and> used_first s \<and> free_blank s"

lemma adv_table_inv_init [inv_intros]: "adv_table_inv adv_table_init"
  by (auto simp: adv_table_inv_def adv_table_init_def hist_ok_def rlists_ok_def hash_ok_def
      mac_unique_def used_first_def flag_queue_ok_def free_blank_def zero_report_def)

lemma hist_nonempty: "hist_ok s \<Longrightarrow> g_adv_reports_hist_list s \<noteq> []"
proof -
  assume "hist_ok s"
  then have "0 \<in> set (g_adv_reports_hist_list s)" by (simp add: hist_ok_def MAX_ADVS_TABLE_def)
  then show ?thesis by auto
qed

lemma length_hist: "hist_ok s \<Longrightarrow> length (g_adv_reports_hist_list s) = MAX_ADVS_TABLE"
  using distinct_card [of "g_adv_reports_hist_list s"] by (simp add: hist_ok_def)

text \<open>The hash lookup finds exactly the linked element with the MAC.\<close>

lemma mac_address_is_equal_iff [simp]: "mac_address_is_equal m m' \<longleftrightarrow> m = m'"
  by (simp add: mac_address_is_equal_def)

lemma search_SomeD:
  assumes "hash_ok s" and "adv_hash_table_search m s = Some i"
  shows "i < MAX_ADVS_TABLE \<and> in_hash s i \<and> tag_mac (report_at s i) = m"
  using assms by (auto simp: adv_hash_table_search_def find_Some_iff hash_ok_def dest!: nth_mem)

lemma search_None_iff:
  assumes "hash_ok s"
  shows "adv_hash_table_search m s = None \<longleftrightarrow>
    (\<forall>i < MAX_ADVS_TABLE. in_hash s i \<longrightarrow> tag_mac (report_at s i) \<noteq> m)"
  using assms by (auto simp: adv_hash_table_search_def find_None_iff hash_ok_def)

lemma search_Some_iff:
  assumes "hash_ok s" and "mac_unique s"
  shows "adv_hash_table_search m s = Some i \<longleftrightarrow>
    i < MAX_ADVS_TABLE \<and> in_hash s i \<and> tag_mac (report_at s i) = m" (is "_ \<longleftrightarrow> ?P i")
proof
  assume "?P i"
  then obtain j where j: "adv_hash_table_search m s = Some j"
    using search_None_iff [OF assms(1)] by fastforce
  with search_SomeD [OF assms(1)] \<open>?P i\<close> assms(2) have "j = i"
    by (metis mac_unique_def)
  with j show "adv_hash_table_search m s = Some i" by simp
qed (rule search_SomeD [OF assms(1)])

section \<open>Every operation keeps the invariant\<close>

lemma upd_report_inv [inv_intros]:
  assumes "adv_table_inv s" and "\<And>r. tag_mac (f r) = tag_mac r"
    and "\<And>r. data_len r = 0 \<Longrightarrow> data_len (f r) = 0" and "\<And>r. timestamp r = 0 \<Longrightarrow> timestamp (f r) = 0"
  shows "adv_table_inv (upd_report i f s)"
proof -
  have [simp]: "tag_mac (report_at (upd_report i f s) j) = tag_mac (report_at s j)" for j
    by (simp add: assms(2))
  have "free_blank (upd_report i f s)"
    using assms(1,3,4) by (simp add: adv_table_inv_def free_blank_def)
  then show ?thesis
    using assms(1)
    unfolding adv_table_inv_def hist_ok_def rlists_ok_def hash_ok_def mac_unique_def used_first_def
    by (simp del: upd_report_parts(4))
qed

lemma upd_counter_inv [inv_intros]:
  "adv_table_inv s \<Longrightarrow> adv_table_inv (upd_report i (samples_counter_update g) s)"
  by (rule upd_report_inv) simp_all

lemma rlist_insert_ok:
  assumes "rlists_ok s" and "i < MAX_ADVS_TABLE"
  shows "rlists_ok (rlist_insert L i s)"
  unfolding rlists_ok_def
proof (intro allI conjI)
  fix L'
  from assms(1) have ok: "flag_queue_ok (g_adv_reports_retransmission_list s L') (\<lambda>i. in_rlist s i L')"
    and sub: "set (g_adv_reports_retransmission_list s L') \<subseteq> {..<MAX_ADVS_TABLE}"
    by (simp_all add: rlists_ok_def)
  show "flag_queue_ok (g_adv_reports_retransmission_list (rlist_insert L i s) L')
      (\<lambda>j. in_rlist (rlist_insert L i s) j L')"
  proof (cases "L' = L")
    case True
    with rl.enq_ok [where L = L and s = s and i = i] ok show ?thesis by simp
  next
    case False
    then have "(\<lambda>j. in_rlist (rlist_insert L i s) j L') = (\<lambda>j. in_rlist s j L')"
      by (auto simp: fun_eq_iff)
    with ok False show ?thesis by simp
  qed
  from sub assms(2) show "set (g_adv_reports_retransmission_list (rlist_insert L i s) L') \<subseteq> {..<MAX_ADVS_TABLE}"
    by auto
qed

lemma rlists_ok_cong:
  assumes "rlists_ok s"
    and "\<And>L. g_adv_reports_retransmission_list s' L = g_adv_reports_retransmission_list s L"
    and "\<And>i L. in_rlist s' i L = in_rlist s i L"
  shows "rlists_ok s'"
  using assms by (simp add: rlists_ok_def)

lemma mark_updated_rlists_ok: "rlists_ok s \<Longrightarrow> i < MAX_ADVS_TABLE \<Longrightarrow> rlists_ok (adv_table_mark_updated i s)"
  by (rule rlists_ok_cong [where s = "rlist_insert RList3 i (rlist_insert RList2 i (rlist_insert RList1 i s))"])
    (simp_all add: adv_table_mark_updated_def Let_def rlist_insert_ok)

lemma mark_updated_inv [inv_intros]:
  assumes hist: "hist_ok s" and rls: "rlists_ok s" and hash: "hash_ok s" and uniq: "mac_unique s"
    and split: "g_adv_reports_hist_list s =
        filter P (g_adv_reports_hist_list s) @ filter (\<lambda>j. \<not> P j) (g_adv_reports_hist_list s)"
    and P: "\<And>j. in_hash s j \<longleftrightarrow> j = i \<or> P j" and i: "i < MAX_ADVS_TABLE"
    and blank: "free_blank s"
  shows "adv_table_inv (adv_table_mark_updated i s)"
  unfolding adv_table_inv_def
proof (intro conjI)
  let ?h = "g_adv_reports_hist_list s"
  from hist i have mem: "i \<in> set ?h" and dist: "distinct ?h" by (simp_all add: hist_ok_def)
  show "hist_ok (adv_table_mark_updated i s)"
    using hist set_move_to_front [OF mem] by (auto simp: hist_ok_def)
  show "rlists_ok (adv_table_mark_updated i s)" by (rule mark_updated_rlists_ok [OF rls i])
  show "hash_ok (adv_table_mark_updated i s)" using hash by (simp add: hash_ok_def)
  show "mac_unique (adv_table_mark_updated i s)" using uniq by (simp add: mac_unique_def)
  show "free_blank (adv_table_mark_updated i s)" using blank by (simp add: free_blank_def)
  have "in_hash (adv_table_mark_updated i s) = (\<lambda>j. j = i \<or> P j)" by (simp add: P fun_eq_iff)
  with split_move_to_front [OF split dist mem] show "used_first (adv_table_mark_updated i s)"
    by (simp add: used_first_def P del: filter.simps)
qed

text \<open>The element that \<open>adv_table_put\<close> takes for a MAC it does not know.\<close>

definition adv_table_recycle :: "nat \<Rightarrow> adv_report \<Rightarrow> adv_table_state \<Rightarrow> adv_table_state" where
  "adv_table_recycle i p s = adv_hash_table_add i (upd_report i (\<lambda>_. p) (adv_hash_table_remove i s))"

lemma recycle_parts [simp]:
  "g_adv_reports_retransmission_list (adv_table_recycle i p s) = g_adv_reports_retransmission_list s"
  "g_adv_reports_hist_list (adv_table_recycle i p s) = g_adv_reports_hist_list s"
  "report_at (adv_table_recycle i p s) j = (if j = i then p else report_at s j)"
  "in_hash (adv_table_recycle i p s) j = (j = i \<or> in_hash s j)"
  "in_rlist (adv_table_recycle i p s) j = in_rlist s j"
  by (auto simp: adv_table_recycle_def)

lemma recycle_hash_ok:
  assumes "hash_ok s" and "i < MAX_ADVS_TABLE"
  shows "hash_ok (adv_table_recycle i p s)"
  unfolding hash_ok_def
proof (intro allI conjI)
  fix b
  have dist: "distinct (g_adv_hash_table s c)"
    and mem: "j \<in> set (g_adv_hash_table s c) \<longleftrightarrow>
      j < MAX_ADVS_TABLE \<and> in_hash s j \<and> hash_idx (tag_mac (report_at s j)) = c" for c j
    using assms(1) by (simp_all add: hash_ok_def)
  show "distinct (g_adv_hash_table (adv_table_recycle i p s) b)"
    using dist by (auto simp: adv_table_recycle_def mem)
  fix j
  show "j \<in> set (g_adv_hash_table (adv_table_recycle i p s) b) \<longleftrightarrow>
      j < MAX_ADVS_TABLE \<and> in_hash (adv_table_recycle i p s) j \<and>
      hash_idx (tag_mac (report_at (adv_table_recycle i p s) j)) = b"
    using dist assms(2) by (auto simp: adv_table_recycle_def mem)
qed

lemma put_unfold:
  "adv_table_put p s =
     (case adv_hash_table_search (tag_mac p) s of
        None \<Rightarrow> (True, adv_table_mark_updated (last (g_adv_reports_hist_list s))
                  (adv_table_recycle (last (g_adv_reports_hist_list s)) p s))
      | Some i \<Rightarrow>
          if \<not> adv_table_check_if_adv_must_be_discarded p (report_at s i)
          then (True, adv_table_mark_updated i
                 (upd_report i (\<lambda>_. p\<lparr>samples_counter := samples_counter (report_at s i) + 1\<rparr>) s))
          else (False, upd_report i (\<lambda>r. r\<lparr>samples_counter := samples_counter r + 1\<rparr>) s))"
  by (simp add: adv_table_put_def adv_table_recycle_def Let_def split: option.split)

lemma invD:
  assumes "adv_table_inv s"
  shows "hist_ok s" "rlists_ok s" "hash_ok s" "mac_unique s" "used_first s" "free_blank s"
  using assms by (simp_all add: adv_table_inv_def)

lemma last_hist_less: "hist_ok s \<Longrightarrow> last (g_adv_reports_hist_list s) < MAX_ADVS_TABLE"
  using last_in_set [OF hist_nonempty] by (auto simp: hist_ok_def)

lemma put_inv [inv_intros]:
  assumes inv: "adv_table_inv s"
  shows "adv_table_inv (snd (adv_table_put p s))"
proof (cases "adv_hash_table_search (tag_mac p) s")
  case None
  let ?i = "last (g_adv_reports_hist_list s)" and ?t = "adv_table_recycle (last (g_adv_reports_hist_list s)) p s"
  note D = invD [OF inv] and i = last_hist_less [OF invD(1) [OF inv]]
  have "mac_unique ?t"
    using D(4) None search_None_iff [OF D(3)] by (auto simp: mac_unique_def)
  moreover have "hist_ok ?t" "rlists_ok ?t" using D(1,2) by (simp_all add: hist_ok_def rlists_ok_def)
  ultimately have "adv_table_inv (adv_table_mark_updated ?i ?t)"
    using D(5,6) recycle_hash_ok [OF D(3) i] i
    by (intro mark_updated_inv [where P = "in_hash s"]) (simp_all add: used_first_def free_blank_def)
  with None show ?thesis by (simp add: put_unfold)
next
  case (Some i)
  note D = invD [OF inv] and i = search_SomeD [OF invD(3) [OF inv] Some]
  let ?t = "upd_report i (\<lambda>_. p\<lparr>samples_counter := samples_counter (report_at s i) + 1\<rparr>) s"
  have mac: "tag_mac (report_at ?t j) = tag_mac (report_at s j)" for j using i by simp
  have "hist_ok ?t" "rlists_ok ?t" "hash_ok ?t" "mac_unique ?t"
    using D mac by (simp_all add: hist_ok_def rlists_ok_def hash_ok_def mac_unique_def del: upd_report_parts(4))
  then have "adv_table_inv (adv_table_mark_updated i ?t)"
    using D(5,6) i by (intro mark_updated_inv [where P = "in_hash s"]) (auto simp: used_first_def free_blank_def)
  moreover have "adv_table_inv (upd_report i (\<lambda>r. r\<lparr>samples_counter := samples_counter r + 1\<rparr>) s)"
    by (rule upd_report_inv [OF inv]) simp_all
  ultimately show ?thesis using Some by (simp add: put_unfold)
qed

lemma rlist_pop_inv [inv_intros]:
  assumes inv: "adv_table_inv s" and q: "g_adv_reports_retransmission_list s L = i # is"
  shows "adv_table_inv (rlist_pop L s)"
proof -
  note D = invD [OF inv]
  have "rlists_ok (rlist_pop L s)"
    unfolding rlists_ok_def
  proof (intro allI conjI)
    fix L'
    from D(2) have ok: "flag_queue_ok (g_adv_reports_retransmission_list s L') (\<lambda>i. in_rlist s i L')"
      and sub: "set (g_adv_reports_retransmission_list s L') \<subseteq> {..<MAX_ADVS_TABLE}"
      by (simp_all add: rlists_ok_def)
    show "flag_queue_ok (g_adv_reports_retransmission_list (rlist_pop L s) L') (\<lambda>i. in_rlist (rlist_pop L s) i L')"
    proof (cases "L' = L")
      case True
      with rl.deq_ok [OF _ q] ok show ?thesis by simp
    next
      case False
      then have "(\<lambda>i. in_rlist (rlist_pop L s) i L') = (\<lambda>i. in_rlist s i L')" by (auto simp: fun_eq_iff)
      with ok False show ?thesis by simp
    qed
    from sub q show "set (g_adv_reports_retransmission_list (rlist_pop L s) L') \<subseteq> {..<MAX_ADVS_TABLE}"
      by auto
  qed
  with D show ?thesis
    by (simp add: adv_table_inv_def hist_ok_def hash_ok_def mac_unique_def used_first_def free_blank_def)
qed

lemma drain_inv [inv_intros]: "adv_table_inv s \<Longrightarrow> adv_table_inv (fst (rlist_drain L s tbl))"
proof (induction L s tbl rule: rlist_drain.induct)
  case (1 L s tbl)
  then show ?case
    by (cases "g_adv_reports_retransmission_list s L")
      (auto simp: rlist_drain.simps [of L s tbl] Let_def rlist_pop_inv)
qed

lemma list_clear_inv [inv_intros]: "adv_table_inv s \<Longrightarrow> adv_table_inv (adv_retransmission_list_clear L s)"
proof (induction L s rule: adv_retransmission_list_clear.induct)
  case (1 L s)
  then show ?case
    by (cases "g_adv_reports_retransmission_list s L")
      (auto simp: adv_retransmission_list_clear.simps [of L s] rlist_pop_inv)
qed

lemma statistics_scan_inv: "adv_table_inv s \<Longrightarrow> adv_table_inv (fst (statistics_scan is s tbl))"
  by (induction "is" s tbl rule: statistics_scan.induct) (auto simp: upd_counter_inv)

lemma mark_free_inv: "adv_table_inv s \<Longrightarrow> adv_table_inv (fold (\<lambda>i. upd_report i report_mark_free) is s)"
proof (induction "is" arbitrary: s)
  case (Cons i "is")
  have "adv_table_inv (upd_report i report_mark_free s)"
    by (rule upd_report_inv [OF Cons.prems]) (simp_all add: report_mark_free_def)
  then show ?case by (simp add: Cons.IH)
qed simp

lemma clear_inv [inv_intros]: "adv_table_inv s \<Longrightarrow> adv_table_inv (adv_table_clear s)"
  by (simp add: adv_table_clear_def Let_def mark_free_inv list_clear_inv)

text \<open>The calls other modules make on the table, as events.\<close>

datatype adv_table_op =
  Op_put adv_report
| Op_read_list1 | Op_read_list2 | Op_read_list3
| Op_list3_head
| Op_statistics
| Op_clear

fun adv_table_step :: "adv_table_state \<Rightarrow> adv_table_op \<Rightarrow> adv_table_state" where
  "adv_table_step s (Op_put p) = snd (adv_table_put p s)"
| "adv_table_step s Op_read_list1 = fst (adv_table_read_retransmission_list1_and_clear s)"
| "adv_table_step s Op_read_list2 = fst (adv_table_read_retransmission_list2_and_clear s)"
| "adv_table_step s Op_read_list3 = fst (adv_table_read_retransmission_list3_and_clear s)"
| "adv_table_step s Op_list3_head = fst (adv_table_read_retransmission_list3_head s)"
| "adv_table_step s Op_statistics = fst (adv_table_statistics_read s)"
| "adv_table_step s Op_clear = adv_table_clear s"

lemma adv_table_step_inv: "adv_table_inv s \<Longrightarrow> adv_table_inv (adv_table_step s x)"
  by (cases x)
    (auto simp: adv_table_read_retransmission_list1_and_clear_def
      adv_table_read_retransmission_list2_and_clear_def adv_table_read_retransmission_list3_and_clear_def
      adv_table_read_retransmission_list3_head_def adv_table_statistics_read_def Let_def
      put_inv drain_inv rlist_pop_inv statistics_scan_inv clear_inv split: list.split)

interpretation adv_tbl: event_machine adv_table_step adv_table_inv "\<lambda>_ _. True"
  by unfold_locales (rule adv_table_step_inv)

section \<open>Abstract specification: a bounded list of reports, most recently updated first\<close>

definition abs_table :: "adv_table_state \<Rightarrow> adv_report list" where
  "abs_table s = map (report_at s) (filter (in_hash s) (g_adv_reports_hist_list s))"

definition lru_put :: "adv_report \<Rightarrow> adv_report list \<Rightarrow> bool \<times> adv_report list" where
  "lru_put p rs =
     (case find (\<lambda>r. tag_mac r = tag_mac p) rs of
        None \<Rightarrow> (True, p # (if length rs = MAX_ADVS_TABLE then butlast rs else rs))
      | Some r \<Rightarrow>
          if adv_table_check_if_adv_must_be_discarded p r
          then (False, map (\<lambda>x. if tag_mac x = tag_mac p then x\<lparr>samples_counter := samples_counter x + 1\<rparr> else x) rs)
          else (True, p\<lparr>samples_counter := samples_counter r + 1\<rparr> # filter (\<lambda>x. tag_mac x \<noteq> tag_mac p) rs))"

text \<open>The linked elements, in history order.\<close>

abbreviation used :: "adv_table_state \<Rightarrow> nat list" where
  "used s \<equiv> filter (in_hash s) (g_adv_reports_hist_list s)"

lemma used_facts:
  assumes "adv_table_inv s"
  shows "distinct (used s)" and "i \<in> set (used s) \<longleftrightarrow> i < MAX_ADVS_TABLE \<and> in_hash s i"
  using assms by (auto simp: adv_table_inv_def hist_ok_def)

lemma find_abs_table:
  assumes inv: "adv_table_inv s"
  shows "find (\<lambda>r. tag_mac r = m) (abs_table s) = map_option (report_at s) (adv_hash_table_search m s)"
proof (cases "adv_hash_table_search m s")
  case None
  with search_None_iff [OF invD(3) [OF inv]]
  have "tag_mac (report_at s i) \<noteq> m" if "i \<in> set (used s)" for i
    using that used_facts(2) [OF inv] by blast
  then have "find (\<lambda>r. tag_mac r = m) (abs_table s) = None"
    by (auto simp: abs_table_def find_None_iff)
  with None show ?thesis by simp
next
  case (Some i)
  note i = search_SomeD [OF invD(3) [OF inv] Some]
  have "find (\<lambda>j. tag_mac (report_at s j) = m) (used s) = Some i"
    using i used_facts(2) [OF inv] invD(4) [OF inv] by (intro find_unique) (auto simp: mac_unique_def)
  with Some show ?thesis by (simp add: abs_table_def find_map)
qed

lemma used_full_iff:
  assumes inv: "adv_table_inv s"
  shows "length (abs_table s) = MAX_ADVS_TABLE \<longleftrightarrow> in_hash s (last (g_adv_reports_hist_list s))"
proof -
  let ?h = "g_adv_reports_hist_list s" and ?F = "filter (\<lambda>i. \<not> in_hash s i) (g_adv_reports_hist_list s)"
  note D = invD [OF inv]
  have split: "?h = used s @ ?F" using D(5) by (simp add: used_first_def)
  have len: "length (used s) + length ?F = MAX_ADVS_TABLE"
    using length_hist [OF D(1)] arg_cong [OF split, of length] by simp
  show ?thesis
  proof (cases "?F = []")
    case True
    with split have "last ?h \<in> set (used s)"
      using hist_nonempty [OF D(1)] by (metis append_Nil2 last_in_set)
    with True len show ?thesis by (simp add: abs_table_def)
  next
    case False
    then have "last ?h \<in> set ?F" by (metis split last_appendR last_in_set)
    with False len show ?thesis by (auto simp: abs_table_def)
  qed
qed

lemma abs_table_mark_updated:
  assumes "distinct (g_adv_reports_hist_list s)" and "in_hash s i"
  shows "abs_table (adv_table_mark_updated i s) = report_at s i # map (report_at s) (remove1 i (used s))"
  using assms by (simp add: abs_table_def filter_remove1_distinct)

theorem put_refines_lru:
  assumes inv: "adv_table_inv s"
  shows "lru_put p (abs_table s) = (fst (adv_table_put p s), abs_table (snd (adv_table_put p s)))"
proof (cases "adv_hash_table_search (tag_mac p) s")
  case None
  let ?i = "last (g_adv_reports_hist_list s)" and ?h = "g_adv_reports_hist_list s"
  let ?t = "adv_table_recycle ?i p s"
  note D = invD [OF inv]
  have dist: "distinct ?h" using D(1) by (simp add: hist_ok_def)
  have "abs_table (adv_table_mark_updated ?i ?t) = p # map (report_at s) (remove1 ?i (used s))"
  proof -
    have "remove1 ?i (used ?t) = remove1 ?i (used s)"
      using dist by (auto simp: remove1_eq_filter intro: filter_cong)
    moreover have "map (report_at ?t) (remove1 ?i (used s)) = map (report_at s) (remove1 ?i (used s))"
      using dist by (auto simp: remove1_eq_filter)
    ultimately have "report_at ?t ?i # map (report_at ?t) (remove1 ?i (used ?t)) =
        p # map (report_at s) (remove1 ?i (used s))" by simp
    moreover have "abs_table (adv_table_mark_updated ?i ?t) =
        report_at ?t ?i # map (report_at ?t) (remove1 ?i (used ?t))"
      by (rule abs_table_mark_updated) (simp_all add: dist)
    ultimately show ?thesis by simp
  qed
  moreover have "map (report_at s) (remove1 ?i (used s)) =
      (if length (abs_table s) = MAX_ADVS_TABLE then butlast (abs_table s) else abs_table s)"
  proof (cases "in_hash s ?i")
    case True
    then have "length (used s) = length ?h"
      using used_full_iff [OF inv] length_hist [OF D(1)] by (simp add: abs_table_def)
    then have "used s = ?h"
      by (metis filter_id_conv length_filter_less nat_neq_iff)
    with True used_full_iff [OF inv] show ?thesis
      using remove1_last_distinct [OF dist hist_nonempty [OF D(1)]]
      by (simp add: abs_table_def map_butlast)
  next
    case False
    with used_full_iff [OF inv] show ?thesis by (simp add: abs_table_def remove1_idem)
  qed
  ultimately show ?thesis
    using None find_abs_table [OF inv, of "tag_mac p"] by (simp add: lru_put_def put_unfold)
next
  case (Some i)
  note D = invD [OF inv] and i = search_SomeD [OF invD(3) [OF inv] Some]
  have dist: "distinct (g_adv_reports_hist_list s)" using D(1) by (simp add: hist_ok_def)
  have same: "tag_mac (report_at s j) = tag_mac p \<longleftrightarrow> j = i" if "j \<in> set (used s)" for j
    using that i D(4) used_facts(2) [OF inv] by (auto simp: mac_unique_def)
  let ?q = "p\<lparr>samples_counter := samples_counter (report_at s i) + 1\<rparr>"
  have rest: "remove1 i (used s) = filter (\<lambda>j. tag_mac (report_at s j) \<noteq> tag_mac p) (used s)"
    unfolding remove1_eq_filter [OF distinct_filter [OF dist]] using same by (auto intro!: filter_cong)
  have notin: "i \<notin> set (remove1 i (used s))" using dist by simp
  let ?t = "upd_report i (\<lambda>_. ?q) s"
  have "abs_table (adv_table_mark_updated i ?t) = report_at ?t i # map (report_at ?t) (remove1 i (used ?t))"
    by (rule abs_table_mark_updated) (use dist i in simp_all)
  also have "map (report_at ?t) (remove1 i (used ?t)) = map (report_at s) (remove1 i (used s))"
    using notin by auto
  also have "\<dots> = filter (\<lambda>x. tag_mac x \<noteq> tag_mac p) (abs_table s)"
    unfolding rest by (simp add: abs_table_def filter_map o_def)
  finally have upd: "abs_table (adv_table_mark_updated i ?t) =
      ?q # filter (\<lambda>x. tag_mac x \<noteq> tag_mac p) (abs_table s)" by simp
  have cnt: "abs_table (upd_report i (\<lambda>r. r\<lparr>samples_counter := samples_counter r + 1\<rparr>) s) =
      map (\<lambda>x. if tag_mac x = tag_mac p then x\<lparr>samples_counter := samples_counter x + 1\<rparr> else x) (abs_table s)"
    using same by (auto simp: abs_table_def)
  show ?thesis
    using Some find_abs_table [OF inv, of "tag_mac p"] upd cnt by (simp add: lru_put_def put_unfold)
qed

section \<open>Draining the retransmission lists\<close>

text \<open>What a drained list leaves behind: only that list and its flags change.\<close>

definition rlist_emptied :: "rlist \<Rightarrow> adv_table_state \<Rightarrow> adv_table_state \<Rightarrow> bool" where
  "rlist_emptied L s s' \<longleftrightarrow>
     g_adv_reports_retransmission_list s' = (g_adv_reports_retransmission_list s)(L := []) \<and>
     g_adv_hash_table s' = g_adv_hash_table s \<and>
     g_adv_reports_hist_list s' = g_adv_reports_hist_list s \<and>
     (\<forall>j. report_at s' j = report_at s j \<and> in_hash s' j = in_hash s j)"

lemma rlist_emptied_pop:
  "g_adv_reports_retransmission_list s L = i # is \<Longrightarrow> rlist_emptied L (rlist_pop L s) s' \<Longrightarrow> rlist_emptied L s s'"
  by (simp add: rlist_emptied_def)

lemma drain_result:
  "length tbl + length (g_adv_reports_retransmission_list s L) \<le> MAX_ADVS_TABLE \<Longrightarrow>
   rlist_emptied L s (fst (rlist_drain L s tbl)) \<and>
   snd (rlist_drain L s tbl) = tbl @ map (report_at s) (g_adv_reports_retransmission_list s L)"
proof (induction L s tbl rule: rlist_drain.induct)
  case (1 L s tbl)
  show ?case
  proof (cases "g_adv_reports_retransmission_list s L")
    case Nil
    then show ?thesis by (auto simp: rlist_drain.simps [of L s tbl] rlist_emptied_def fun_eq_iff)
  next
    case (Cons i "is")
    with "1.prems" have "\<not> length tbl \<ge> MAX_ADVS_TABLE" by simp
    with Cons 1 show ?thesis
      by (auto simp: rlist_drain.simps [of L s tbl] Let_def intro: rlist_emptied_pop)
  qed
qed

lemma list_clear_result: "rlist_emptied L s (adv_retransmission_list_clear L s)"
proof (induction L s rule: adv_retransmission_list_clear.induct)
  case (1 L s)
  then show ?case
    by (cases "g_adv_reports_retransmission_list s L")
      (auto simp: adv_retransmission_list_clear.simps [of L s] intro: rlist_emptied_pop,
       auto simp: rlist_emptied_def fun_eq_iff)
qed

lemma pending_length: "adv_table_inv s \<Longrightarrow> length (g_adv_reports_retransmission_list s L) \<le> MAX_ADVS_TABLE"
  by (metis adv_table_inv_def rlists_ok_def flag_queue_ok_def card_lessThan card_mono distinct_card
      finite_lessThan)

lemma drain_pending:
  assumes "adv_table_inv s"
  shows "rlist_emptied L s (fst (rlist_drain L s [])) \<and>
    snd (rlist_drain L s []) = map (report_at s) (g_adv_reports_retransmission_list s L)"
  using drain_result [of "[]" s L] pending_length [OF assms] by simp

section \<open>Reading the history and the statistics\<close>

definition history_accepts :: "u32 \<Rightarrow> bool \<Rightarrow> u32 \<Rightarrow> bool \<Rightarrow> adv_report \<Rightarrow> bool" where
  "history_accepts cur_time flag_use_timestamps filt flag_use_filter r \<longleftrightarrow>
     data_len r \<noteq> 0 \<and>
     (flag_use_filter \<longrightarrow>
       (if flag_use_timestamps then cur_time - timestamp r \<le> filt else 0 < sint (timestamp r - filt)))"

lemma history_scan_takeWhile:
  "length tbl + length is \<le> MAX_ADVS_TABLE \<Longrightarrow>
   history_scan s cur ts f uf is tbl = tbl @ takeWhile (history_accepts cur ts f uf) (map (report_at s) is)"
  by (induction "is" arbitrary: tbl) (auto simp: history_accepts_def not_less not_le)

text \<open>Free elements are at the end of the history list and hold no data, so a scan that stops at
  the first report without data or without a time stamp never leaves the linked part.\<close>

lemma takeWhile_used:
  assumes inv: "adv_table_inv s" and blank: "\<And>r. data_len r = 0 \<Longrightarrow> timestamp r = 0 \<Longrightarrow> \<not> P r"
  shows "takeWhile P (map (report_at s) (g_adv_reports_hist_list s)) = takeWhile P (abs_table s)"
proof -
  let ?F = "filter (\<lambda>i. \<not> in_hash s i) (g_adv_reports_hist_list s)"
  have "map (report_at s) (g_adv_reports_hist_list s) = abs_table s @ map (report_at s) ?F"
    using invD(5) [OF inv] by (metis used_first_def abs_table_def map_append)
  moreover have "takeWhile P (map (report_at s) ?F) = []"
    using invD(6) [OF inv] blank by (cases ?F) (auto simp: free_blank_def filter_eq_Cons_iff)
  moreover have "takeWhile P (xs @ ys) = takeWhile P xs" if "takeWhile P ys = []" for xs ys
    using that by (induction xs) auto
  ultimately show ?thesis by simp
qed

lemma history_read_takeWhile:
  assumes "adv_table_inv s"
  shows "adv_table_history_read cur ts f uf s = takeWhile (history_accepts cur ts f uf) (abs_table s)"
  using history_scan_takeWhile [of "[]" "g_adv_reports_hist_list s" s cur ts f uf]
    length_hist [OF invD(1) [OF assms]] takeWhile_used [OF assms, of "history_accepts cur ts f uf"]
  by (simp add: adv_table_history_read_def history_accepts_def)

lemma statistics_scan_result:
  "distinct is \<Longrightarrow> length tbl + length is \<le> MAX_ADVS_TABLE \<Longrightarrow>
   snd (statistics_scan is s tbl) = tbl @ takeWhile (\<lambda>r. timestamp r \<noteq> 0) (map (report_at s) is)"
proof (induction "is" s tbl rule: statistics_scan.induct)
  case (2 i "is" s tbl)
  then have "map (report_at (upd_report i (samples_counter_update (\<lambda>_. 0)) s)) is = map (report_at s) is"
    by auto
  with 2 show ?case by (simp del: upd_report_parts(4))
qed simp

definition reset_counter :: "adv_report \<Rightarrow> adv_report" where
  "reset_counter r = r\<lparr>samples_counter := 0\<rparr>"

text \<open>The counters of exactly the reported prefix are reset.\<close>

lemma statistics_scan_state:
  "distinct is \<Longrightarrow> length tbl + length is \<le> MAX_ADVS_TABLE \<Longrightarrow>
   (let n = length (takeWhile (\<lambda>i. timestamp (report_at s i) \<noteq> 0) is); s' = fst (statistics_scan is s tbl)
    in g_adv_reports_hist_list s' = g_adv_reports_hist_list s \<and> (\<forall>j. in_hash s' j = in_hash s j) \<and>
       (\<forall>j. report_at s' j = (if j \<in> set (take n is) then reset_counter (report_at s j) else report_at s j)))"
proof (induction "is" s tbl rule: statistics_scan.induct)
  case (2 i "is" s tbl)
  let ?s = "upd_report i (samples_counter_update (\<lambda>_. 0)) s"
  have ts: "timestamp (report_at ?s j) = timestamp (report_at s j)" for j by simp
  have upd: "report_at ?s j = (if j = i then reset_counter (report_at s i) else report_at s j)" for j
    by (simp add: reset_counter_def)
  from 2 have nf: "\<not> MAX_ADVS_TABLE \<le> length tbl" by simp
  have notin: "i \<notin> set (take n is)" for n using "2.prems"(1) by (auto dest: in_set_takeD)
  show ?case
  proof (cases "timestamp (report_at s i) = 0")
    case True
    with nf show ?thesis by simp
  next
    case False
    from False nf 2 have "let n = length (takeWhile (\<lambda>i. timestamp (report_at ?s i) \<noteq> 0) is);
        s' = fst (statistics_scan is ?s (tbl @ [report_at s i]))
      in g_adv_reports_hist_list s' = g_adv_reports_hist_list ?s \<and> (\<forall>j. in_hash s' j = in_hash ?s j) \<and>
       (\<forall>j. report_at s' j = (if j \<in> set (take n is) then reset_counter (report_at ?s j) else report_at ?s j))"
      by simp
    then show ?thesis
      using False nf unfolding ts Let_def by (auto simp: upd notin simp del: upd_report_parts(4))
  qed
qed simp

lemma mark_free_parts [simp]:
  "g_adv_reports_hist_list (fold (\<lambda>i. upd_report i report_mark_free) is s) = g_adv_reports_hist_list s"
  "g_adv_reports_retransmission_list (fold (\<lambda>i. upd_report i report_mark_free) is s) =
     g_adv_reports_retransmission_list s"
  "in_hash (fold (\<lambda>i. upd_report i report_mark_free) is s) j = in_hash s j"
  by (induction "is" arbitrary: s) auto

lemma mark_free_idem [simp]: "report_mark_free (report_mark_free r) = report_mark_free r"
  by (simp add: report_mark_free_def)

lemma mark_free_report [simp]:
  "report_at (fold (\<lambda>i. upd_report i report_mark_free) is s) j =
     (if j \<in> set is then report_mark_free (report_at s j) else report_at s j)"
  by (induction "is" arbitrary: s) auto

lemma clear_parts:
  "g_adv_reports_hist_list (adv_table_clear s) = g_adv_reports_hist_list s"
  "g_adv_reports_retransmission_list (adv_table_clear s) L = []"
  "in_hash (adv_table_clear s) j = in_hash s j"
  "report_at (adv_table_clear s) j =
     (if j \<in> set (g_adv_reports_hist_list s) then report_mark_free (report_at s j) else report_at s j)"
  using list_clear_result [of RList1 s]
    list_clear_result [of RList2 "adv_retransmission_list_clear RList1 s"]
    list_clear_result [of RList3 "adv_retransmission_list_clear RList2 (adv_retransmission_list_clear RList1 s)"]
  by (cases L; simp add: adv_table_clear_def Let_def rlist_emptied_def)+

lemma abs_table_clear: "abs_table (adv_table_clear s) = map report_mark_free (abs_table s)"
  by (auto simp: abs_table_def clear_parts o_def)

lemma statistics_abs_table:
  assumes inv: "adv_table_inv s"
  defines "n \<equiv> length (takeWhile (\<lambda>r. timestamp r \<noteq> 0) (abs_table s))"
  shows "snd (adv_table_statistics_read s) = take n (abs_table s)"
    and "abs_table (fst (adv_table_statistics_read s)) =
      map reset_counter (take n (abs_table s)) @ drop n (abs_table s)"
proof -
  let ?h = "g_adv_reports_hist_list s" and ?s' = "fst (adv_table_statistics_read s)"
  note D = invD [OF inv]
  have dist: "distinct ?h" and len: "length ?h \<le> MAX_ADVS_TABLE"
    using D(1) length_hist [OF D(1)] by (simp_all add: hist_ok_def)
  have tw: "takeWhile (\<lambda>r. timestamp r \<noteq> 0) (map (report_at s) ?h) = take n (abs_table s)"
    using takeWhile_used [OF inv, of "\<lambda>r. timestamp r \<noteq> 0"] takeWhile_eq_take [of _ "abs_table s"]
    by (simp add: n_def)
  then show "snd (adv_table_statistics_read s) = take n (abs_table s)"
    using statistics_scan_result [OF dist, of "[]" s] len by (simp add: adv_table_statistics_read_def)
  have nle: "n \<le> length (used s)" using length_takeWhile_le [of _ "abs_table s"] by (simp add: n_def abs_table_def)
  then have "length (takeWhile (\<lambda>i. timestamp (report_at s i) \<noteq> 0) ?h) = n"
    using arg_cong [OF tw, of length] by (simp add: takeWhile_map o_def abs_table_def)
  moreover have "?h = used s @ filter (\<lambda>i. \<not> in_hash s i) ?h" using D(5) by (simp add: used_first_def)
  then have "take n ?h = take n (used s)"
    by (metis append_Nil2 diff_is_0_eq nle take0 take_append)
  ultimately have st: "g_adv_reports_hist_list ?s' = ?h" "in_hash ?s' j = in_hash s j"
    "report_at ?s' j = (if j \<in> set (take n (used s)) then reset_counter (report_at s j) else report_at s j)" for j
    using statistics_scan_state [OF dist, of "[]" s] len by (simp_all add: adv_table_statistics_read_def Let_def)
  have "map (report_at ?s') (used s) = map reset_counter (take n (abs_table s)) @ drop n (abs_table s)"
    using map_take_if [OF used_facts(1) [OF inv], of n "\<lambda>j. reset_counter (report_at s j)" "report_at s"]
    by (simp add: st(3) abs_table_def take_map drop_map o_def)
  then show "abs_table ?s' = map reset_counter (take n (abs_table s)) @ drop n (abs_table s)"
    using st(1,2) by (simp add: abs_table_def)
qed

lemma rlist_insert_mem: "rlists_ok s \<Longrightarrow> i \<in> set (g_adv_reports_retransmission_list (rlist_insert L i s) L)"
  by (auto simp: rlists_ok_def flag_queue_ok_def)

section \<open>Properties\<close>

definition adv_table_after :: "adv_table_op list \<Rightarrow> adv_table_state" where
  "adv_table_after ops = run_events adv_table_step adv_table_init ops"

lemma after_inv [simp]: "adv_table_inv (adv_table_after ops)"
  using adv_tbl.run_inv [OF adv_table_inv_init] by (simp add: adv_table_after_def)

text \<open>C3: after any sequence of calls on the initialised table the pool is consistent: every
  element is in the history list once, flags and links agree for the hash table and the three
  retransmission lists, no MAC is stored twice, and the free elements are at the end.\<close>

theorem adv_table_reachable_consistent: "adv_table_inv (run_events adv_table_step adv_table_init ops)"
  using after_inv by (simp add: adv_table_after_def)

text \<open>C2: on every reachable table \<open>adv_table_put\<close> behaves as the insertion into a
  bounded list ordered by the last update: an unknown MAC is put in front and, when the table is
  full, replaces the least recently updated entry; a known MAC with new data moves to the front with
  its counter increased; a repeated payload, or a regular advertisement after an extended one, only
  increases the counter. The returned flag is the one of that specification.\<close>

theorem adv_put_refines_lru:
  "let s = adv_table_after ops in
   lru_put p (abs_table s) = (fst (adv_table_put p s), abs_table (snd (adv_table_put p s)))"
  unfolding Let_def by (rule put_refines_lru) simp

text \<open>On every reachable table the hash lookup returns an element exactly when that element
  is linked and carries the MAC, so the 101-bucket table agrees with a linear search.\<close>

theorem adv_hash_search_exact:
  "let s = adv_table_after ops in
   adv_hash_table_search m s = Some i \<longleftrightarrow>
     i < MAX_ADVS_TABLE \<and> in_hash s i \<and> tag_mac (report_at s i) = m"
  unfolding Let_def
  by (rule search_Some_iff [OF invD(3) [OF after_inv] invD(4) [OF after_inv]])

text \<open>An advertisement that \<open>adv_table_put\<close> accepts is found under its MAC with the
  new payload and is pending in all three retransmission lists, behind whatever was pending before;
  one that is discarded leaves the three lists as they were.\<close>

theorem adv_put_pending:
  "let s = adv_table_after ops; s' = snd (adv_table_put p s) in
   if fst (adv_table_put p s)
   then \<exists>i. adv_hash_table_search (tag_mac p) s' = Some i \<and> data_buf (report_at s' i) = data_buf p \<and>
     (\<forall>L. i \<in> set (g_adv_reports_retransmission_list s' L) \<and>
       (\<exists>ys. g_adv_reports_retransmission_list s' L = g_adv_reports_retransmission_list s L @ ys))
   else \<forall>L. g_adv_reports_retransmission_list s' L = g_adv_reports_retransmission_list s L"
proof -
  let ?s = "adv_table_after ops"
  let ?s' = "snd (adv_table_put p ?s)"
  have mark: "i \<in> set (g_adv_reports_retransmission_list (adv_table_mark_updated i t) L) \<and>
      (\<exists>ys. g_adv_reports_retransmission_list (adv_table_mark_updated i t) L =
        g_adv_reports_retransmission_list t L @ ys)" if "rlists_ok t" for i t L
    using rlist_insert_mem [OF that] rl.enq_prefix by (simp only: mark_updated_list)
  have inv': "adv_table_inv ?s'" by (rule put_inv) simp
  note find = search_Some_iff [OF invD(3) [OF inv'] invD(4) [OF inv']]
  show ?thesis
  proof (cases "adv_hash_table_search (tag_mac p) ?s")
    case None
    let ?i = "last (g_adv_reports_hist_list ?s)"
    have s': "?s' = adv_table_mark_updated ?i (adv_table_recycle ?i p ?s)"
      using None by (simp add: put_unfold)
    have "rlists_ok (adv_table_recycle ?i p ?s)"
      using invD(2) [OF after_inv] by (simp add: rlists_ok_def)
    from mark [OF this, of ?i] find [of "tag_mac p" ?i] last_hist_less [OF invD(1) [OF after_inv]] None
    show ?thesis by (auto simp: Let_def s' put_unfold simp del: mark_updated_list)
  next
    case (Some i)
    note i = search_SomeD [OF invD(3) [OF after_inv] Some]
    let ?t = "upd_report i (\<lambda>_. p\<lparr>samples_counter := samples_counter (report_at ?s i) + 1\<rparr>) ?s"
    have "rlists_ok ?t" using invD(2) [OF after_inv] by (simp add: rlists_ok_def)
    from mark [OF this, of i] find [of "tag_mac p" i] Some i
    show ?thesis by (auto simp: Let_def put_unfold simp del: mark_updated_list)
  qed
qed

text \<open>Reading a retransmission list returns every pending element once, in the order it
  became pending and with its current report, and empties that list; the other two lists, the hash
  table and the history are untouched.\<close>

theorem adv_read_retransmission_lists:
  "let s = adv_table_after ops in
   snd (adv_table_read_retransmission_list1_and_clear s) =
     map (report_at s) (g_adv_reports_retransmission_list s RList1) \<and>
   rlist_emptied RList1 s (fst (adv_table_read_retransmission_list1_and_clear s)) \<and>
   snd (adv_table_read_retransmission_list2_and_clear s) =
     map (report_at s) (g_adv_reports_retransmission_list s RList2) \<and>
   rlist_emptied RList2 s (fst (adv_table_read_retransmission_list2_and_clear s)) \<and>
   snd (adv_table_read_retransmission_list3_and_clear s) =
     map (report_at s) (g_adv_reports_retransmission_list s RList3) \<and>
   rlist_emptied RList3 s (fst (adv_table_read_retransmission_list3_and_clear s))"
  by (simp add: Let_def adv_table_read_retransmission_list1_and_clear_def drain_pending
      adv_table_read_retransmission_list2_and_clear_def adv_table_read_retransmission_list3_and_clear_def)

text \<open>The history read returns the longest run of most recently updated reports that hold
  data and pass the time or counter filter, at most the stored ones; the statistics read returns the
  run of reports with a time stamp and resets the counters of exactly those.\<close>

theorem adv_history_and_statistics_read:
  "let s = adv_table_after ops; n = length (takeWhile (\<lambda>r. timestamp r \<noteq> 0) (abs_table s)) in
   adv_table_history_read cur ts f uf s = takeWhile (history_accepts cur ts f uf) (abs_table s) \<and>
   snd (adv_table_statistics_read s) = take n (abs_table s) \<and>
   abs_table (fst (adv_table_statistics_read s)) =
     map reset_counter (take n (abs_table s)) @ drop n (abs_table s)"
  by (simp add: Let_def history_read_takeWhile statistics_abs_table)

text \<open>Clearing the table makes the history and all three retransmission lists read as
  empty whatever the filter, but keeps every known MAC in its place, so that the next advertisement
  of a known sensor reuses its element.\<close>

theorem adv_clear_forgets_data:
  "let s = adv_table_after ops; s' = adv_table_clear s in
   adv_table_history_read cur ts f uf s' = [] \<and>
   (\<forall>L. g_adv_reports_retransmission_list s' L = []) \<and>
   snd (adv_table_statistics_read s') = [] \<and>
   map tag_mac (abs_table s') = map tag_mac (abs_table s)"
proof -
  let ?s = "adv_table_after ops"
  let ?s' = "adv_table_clear ?s"
  have "takeWhile P (map report_mark_free xs) = []" if "\<And>r. \<not> P (report_mark_free r)" for P xs
    using that by (cases xs) auto
  then have "takeWhile (history_accepts cur ts f uf) (abs_table ?s') = []"
    "takeWhile (\<lambda>r. timestamp r \<noteq> 0) (abs_table ?s') = []"
    unfolding abs_table_clear by (simp_all add: history_accepts_def report_mark_free_def)
  then show ?thesis
    using clear_inv [OF after_inv, of ops]
    by (simp add: Let_def history_read_takeWhile statistics_abs_table clear_parts abs_table_clear
        report_mark_free_def o_def)
qed

end
