(* ===== verification/Leds.thy ===== *)
theory Leds
  imports Gw_Prelude
begin

text \<open>
  The LED logic: the player of blinking sequences (\<open>main/leds_blinking.c\<close>), the sub-machine
  that turns connection flags into a sequence (\<open>main/leds_ctrl2.c\<close>) and the controller state
  machine above it (\<open>main/leds_ctrl.c\<close>). A failed \<open>assert\<close> aborts the firmware; it is
  the result \<open>None\<close>. Task handles are numbers.
\<close>

type_synonym task = nat

section \<open>The sequence player, \<open>leds_blinking.c\<close>\<close>

datatype leds_color = LEDS_COLOR_OFF | LEDS_COLOR_RED | LEDS_COLOR_GREEN

record leds_blinking_state =
  g_leds_blinking_mode :: "string option"
  g_leds_blinking_sequence_idx :: nat
  g_leds_blinking_task_handle :: "task option"

definition leds_blinking_init ::
  "task \<Rightarrow> string option \<Rightarrow> leds_blinking_state \<Rightarrow> leds_blinking_state option" where
  "leds_blinking_init cur mode s =
     (if g_leds_blinking_task_handle s \<noteq> None then None
      else Some (s\<lparr>g_leds_blinking_task_handle := Some cur, g_leds_blinking_mode := mode,
                   g_leds_blinking_sequence_idx := 0\<rparr>))"

definition leds_blinking_deinit :: "task \<Rightarrow> leds_blinking_state \<Rightarrow> leds_blinking_state option" where
  "leds_blinking_deinit cur s =
     (if g_leds_blinking_task_handle s \<noteq> Some cur then None
      else Some (s\<lparr>g_leds_blinking_task_handle := None, g_leds_blinking_mode := None,
                   g_leds_blinking_sequence_idx := 0\<rparr>))"

definition leds_blinking_set_new_sequence ::
  "task \<Rightarrow> string option \<Rightarrow> leds_blinking_state \<Rightarrow> leds_blinking_state option" where
  "leds_blinking_set_new_sequence cur mode s =
     (if g_leds_blinking_task_handle s \<noteq> Some cur then None
      else if mode = None then None
      else if g_leds_blinking_sequence_idx s \<noteq> 0 then None
      else Some (s\<lparr>g_leds_blinking_mode := mode\<rparr>))"

definition leds_blinking_get_next_internal :: "string option \<Rightarrow> nat \<Rightarrow> (leds_color \<times> nat) option" where
  "leds_blinking_get_next_internal mode idx =
     (case mode of None \<Rightarrow> None
      | Some p_sequence \<Rightarrow>
        (case c_char_at p_sequence idx of None \<Rightarrow> None
         | Some cmd \<Rightarrow>
           (case c_char_at p_sequence (idx + 1) of None \<Rightarrow> None
            | Some nxt \<Rightarrow>
              let idx' = (if nxt = NUL then 0 else idx + 1) in
              if cmd = CHR ''R'' then Some (LEDS_COLOR_RED, idx')
              else if cmd = CHR ''G'' then Some (LEDS_COLOR_GREEN, idx')
              else if cmd = CHR ''-'' then Some (LEDS_COLOR_OFF, idx')
              else None)))"

definition leds_blinking_get_next ::
  "task \<Rightarrow> leds_blinking_state \<Rightarrow> (leds_color \<times> leds_blinking_state) option" where
  "leds_blinking_get_next cur s =
     (if g_leds_blinking_task_handle s \<noteq> Some cur then None
      else map_option (\<lambda>(c, i). (c, s\<lparr>g_leds_blinking_sequence_idx := i\<rparr>))
             (leds_blinking_get_next_internal (g_leds_blinking_mode s) (g_leds_blinking_sequence_idx s)))"

definition leds_blinking_is_sequence_finished :: "task \<Rightarrow> leds_blinking_state \<Rightarrow> bool option" where
  "leds_blinking_is_sequence_finished cur s =
     (if g_leds_blinking_task_handle s \<noteq> Some cur then None
      else Some (g_leds_blinking_sequence_idx s = 0))"

section \<open>The sub-machine, \<open>leds_ctrl2.c\<close>\<close>

definition LEDS_BLINKING_AFTER_REBOOT :: string where "LEDS_BLINKING_AFTER_REBOOT = ''R-R-R-R-''"
definition LEDS_BLINKING_WHILE_CHECKING_NRF52_FW :: string where "LEDS_BLINKING_WHILE_CHECKING_NRF52_FW = ''-''"
definition LEDS_BLINKING_CONTROLLED_BY_NRF52 :: string where "LEDS_BLINKING_CONTROLLED_BY_NRF52 = ''-''"
definition LEDS_BLINKING_WHILE_FLASHING_NRF52_FW :: string where "LEDS_BLINKING_WHILE_FLASHING_NRF52_FW = ''R---------''"
definition LEDS_BLINKING_NRF52_FAILURE :: string where "LEDS_BLINKING_NRF52_FAILURE = ''R''"
definition LEDS_BLINKING_ON_CFG_ERASING :: string where "LEDS_BLINKING_ON_CFG_ERASING = ''-''"
definition LEDS_BLINKING_ON_CFG_ERASED :: string where "LEDS_BLINKING_ON_CFG_ERASED = ''RR--RR--''"
definition LEDS_BLINKING_MODE_BEFORE_REBOOT :: string where "LEDS_BLINKING_MODE_BEFORE_REBOOT = ''-''"
definition LEDS_BLINKING_MODE_WIFI_HOTSPOT_ACTIVE :: string where
  "LEDS_BLINKING_MODE_WIFI_HOTSPOT_ACTIVE = ''RRRRRRRRRRGGGGGGGGGG''"
definition LEDS_BLINKING_MODE_WIFI_HOTSPOT_ACTIVE_AND_WPS :: string where
  "LEDS_BLINKING_MODE_WIFI_HOTSPOT_ACTIVE_AND_WPS = ''RRRRRRRRGRGGGGGGGGGG''"
definition LEDS_BLINKING_MODE_NETWORK_PROBLEM :: string where "LEDS_BLINKING_MODE_NETWORK_PROBLEM = ''R-R-R-R-R-''"
definition LEDS_BLINKING_MODE_NOT_CONNECTED_TO_ANY_TARGET :: string where
  "LEDS_BLINKING_MODE_NOT_CONNECTED_TO_ANY_TARGET = ''RRRRR-----''"
definition LEDS_BLINKING_MODE_NO_ADVS :: string where "LEDS_BLINKING_MODE_NO_ADVS = ''G-G-G-G-G-''"
definition LEDS_BLINKING_MODE_CONNECTED_TO_ALL_TARGETS :: string where
  "LEDS_BLINKING_MODE_CONNECTED_TO_ALL_TARGETS = ''G''"
definition LEDS_BLINKING_MODE_CONNECTED_TO_SOME_TARGETS :: string where
  "LEDS_BLINKING_MODE_CONNECTED_TO_SOME_TARGETS = ''GGGGGGGGG-''"

lemmas blinking_sequences =
  LEDS_BLINKING_AFTER_REBOOT_def LEDS_BLINKING_WHILE_CHECKING_NRF52_FW_def
  LEDS_BLINKING_CONTROLLED_BY_NRF52_def LEDS_BLINKING_WHILE_FLASHING_NRF52_FW_def
  LEDS_BLINKING_NRF52_FAILURE_def LEDS_BLINKING_ON_CFG_ERASING_def LEDS_BLINKING_ON_CFG_ERASED_def
  LEDS_BLINKING_MODE_BEFORE_REBOOT_def LEDS_BLINKING_MODE_WIFI_HOTSPOT_ACTIVE_def
  LEDS_BLINKING_MODE_WIFI_HOTSPOT_ACTIVE_AND_WPS_def LEDS_BLINKING_MODE_NETWORK_PROBLEM_def
  LEDS_BLINKING_MODE_NOT_CONNECTED_TO_ANY_TARGET_def LEDS_BLINKING_MODE_NO_ADVS_def
  LEDS_BLINKING_MODE_CONNECTED_TO_ALL_TARGETS_def LEDS_BLINKING_MODE_CONNECTED_TO_SOME_TARGETS_def

definition LEDS_CTRL_MAX_NUM_HTTP_CONN :: nat where "LEDS_CTRL_MAX_NUM_HTTP_CONN = 2"

record leds_ctrl_params =
  flag_use_mqtt :: bool
  http_targets_bitmask :: u32

text \<open>The status arrays have two and one entries.\<close>

record leds_ctrl2_state =
  params :: leds_ctrl_params
  flag_wifi_ap_active :: bool
  flag_wps_active :: bool
  flag_network_connected :: bool
  flag_http_conn_status :: "bool list"
  flag_mqtt_conn_status :: "bool list"
  flag_http_poll_status :: bool
  flag_recv_adv_status :: bool

datatype leds_ctrl2_event =
  LEDS_CTRL2_EVENT_WIFI_AP_STARTED
| LEDS_CTRL2_EVENT_WIFI_AP_STOPPED
| LEDS_CTRL2_EVENT_WPS_ACTIVATED
| LEDS_CTRL2_EVENT_WPS_DEACTIVATED
| LEDS_CTRL2_EVENT_NETWORK_CONNECTED
| LEDS_CTRL2_EVENT_NETWORK_DISCONNECTED
| LEDS_CTRL2_EVENT_MQTT1_CONNECTED
| LEDS_CTRL2_EVENT_MQTT1_DISCONNECTED
| LEDS_CTRL2_EVENT_HTTP1_DATA_SENT_SUCCESSFULLY
| LEDS_CTRL2_EVENT_HTTP1_DATA_SENT_FAIL
| LEDS_CTRL2_EVENT_HTTP2_DATA_SENT_SUCCESSFULLY
| LEDS_CTRL2_EVENT_HTTP2_DATA_SENT_FAIL
| LEDS_CTRL2_EVENT_HTTP_POLL_OK
| LEDS_CTRL2_EVENT_HTTP_POLL_TIMEOUT
| LEDS_CTRL2_EVENT_RECV_ADV
| LEDS_CTRL2_EVENT_RECV_ADV_TIMEOUT

definition leds_ctrl2_init :: "leds_ctrl2_state \<Rightarrow> leds_ctrl2_state" where
  "leds_ctrl2_init s = \<lparr>params = \<lparr>flag_use_mqtt = False, http_targets_bitmask = 0\<rparr>,
     flag_wifi_ap_active = False, flag_wps_active = False, flag_network_connected = True,
     flag_http_conn_status = [True, True], flag_mqtt_conn_status = [True],
     flag_http_poll_status = True, flag_recv_adv_status = True\<rparr>"

definition leds_ctrl2_deinit :: "leds_ctrl2_state \<Rightarrow> leds_ctrl2_state" where
  "leds_ctrl2_deinit s = s\<lparr>params := \<lparr>flag_use_mqtt = False, http_targets_bitmask = 0\<rparr>,
     flag_wifi_ap_active := False, flag_network_connected := False, flag_recv_adv_status := False,
     flag_http_conn_status := [False, False], flag_mqtt_conn_status := [False],
     flag_http_poll_status := False\<rparr>"

definition leds_ctrl2_configure :: "leds_ctrl_params \<Rightarrow> leds_ctrl2_state \<Rightarrow> leds_ctrl2_state" where
  "leds_ctrl2_configure p s = s\<lparr>params := p\<rparr>"

fun leds_ctrl2_on_event :: "leds_ctrl2_event \<Rightarrow> leds_ctrl2_state \<Rightarrow> leds_ctrl2_state" where
  "leds_ctrl2_on_event LEDS_CTRL2_EVENT_WIFI_AP_STARTED s = s\<lparr>flag_wifi_ap_active := True\<rparr>"
| "leds_ctrl2_on_event LEDS_CTRL2_EVENT_WIFI_AP_STOPPED s = s\<lparr>flag_wifi_ap_active := False\<rparr>"
| "leds_ctrl2_on_event LEDS_CTRL2_EVENT_WPS_ACTIVATED s = s\<lparr>flag_wps_active := True\<rparr>"
| "leds_ctrl2_on_event LEDS_CTRL2_EVENT_WPS_DEACTIVATED s = s\<lparr>flag_wps_active := False\<rparr>"
| "leds_ctrl2_on_event LEDS_CTRL2_EVENT_NETWORK_CONNECTED s =
     s\<lparr>flag_network_connected := True,
       flag_http_conn_status := (flag_http_conn_status s)[0 := True, 1 := True]\<rparr>"
| "leds_ctrl2_on_event LEDS_CTRL2_EVENT_NETWORK_DISCONNECTED s = s\<lparr>flag_network_connected := False\<rparr>"
| "leds_ctrl2_on_event LEDS_CTRL2_EVENT_MQTT1_CONNECTED s =
     s\<lparr>flag_mqtt_conn_status := (flag_mqtt_conn_status s)[0 := True]\<rparr>"
| "leds_ctrl2_on_event LEDS_CTRL2_EVENT_MQTT1_DISCONNECTED s =
     s\<lparr>flag_mqtt_conn_status := (flag_mqtt_conn_status s)[0 := False]\<rparr>"
| "leds_ctrl2_on_event LEDS_CTRL2_EVENT_HTTP1_DATA_SENT_SUCCESSFULLY s =
     s\<lparr>flag_http_conn_status := (flag_http_conn_status s)[0 := True]\<rparr>"
| "leds_ctrl2_on_event LEDS_CTRL2_EVENT_HTTP1_DATA_SENT_FAIL s =
     s\<lparr>flag_http_conn_status := (flag_http_conn_status s)[0 := False]\<rparr>"
| "leds_ctrl2_on_event LEDS_CTRL2_EVENT_HTTP2_DATA_SENT_SUCCESSFULLY s =
     s\<lparr>flag_http_conn_status := (flag_http_conn_status s)[1 := True]\<rparr>"
| "leds_ctrl2_on_event LEDS_CTRL2_EVENT_HTTP2_DATA_SENT_FAIL s =
     s\<lparr>flag_http_conn_status := (flag_http_conn_status s)[1 := False]\<rparr>"
| "leds_ctrl2_on_event LEDS_CTRL2_EVENT_HTTP_POLL_OK s = s\<lparr>flag_http_poll_status := True\<rparr>"
| "leds_ctrl2_on_event LEDS_CTRL2_EVENT_HTTP_POLL_TIMEOUT s = s\<lparr>flag_http_poll_status := False\<rparr>"
| "leds_ctrl2_on_event LEDS_CTRL2_EVENT_RECV_ADV s = s\<lparr>flag_recv_adv_status := True\<rparr>"
| "leds_ctrl2_on_event LEDS_CTRL2_EVENT_RECV_ADV_TIMEOUT s = s\<lparr>flag_recv_adv_status := False\<rparr>"

definition http_target_configured :: "leds_ctrl2_state \<Rightarrow> nat \<Rightarrow> bool" where
  "http_target_configured s i \<longleftrightarrow> http_targets_bitmask (params s) AND push_bit i 1 \<noteq> 0"

definition leds_ctrl2_get_num_configured_targets :: "leds_ctrl2_state \<Rightarrow> u32" where
  "leds_ctrl2_get_num_configured_targets s =
     (let cnt = fold (\<lambda>i cnt. if http_target_configured s i then cnt + 1 else cnt)
                  [0..<LEDS_CTRL_MAX_NUM_HTTP_CONN] 0
      in if flag_use_mqtt (params s) then cnt + 1 else cnt)"

definition leds_ctrl2_get_num_active_targets :: "leds_ctrl2_state \<Rightarrow> u32" where
  "leds_ctrl2_get_num_active_targets s =
     (let cnt = fold (\<lambda>i cnt. if http_target_configured s i
                              then (if flag_http_conn_status s ! i then cnt + 1 else cnt) else cnt)
                  [0..<LEDS_CTRL_MAX_NUM_HTTP_CONN] 0
      in if flag_use_mqtt (params s) \<and> flag_mqtt_conn_status s ! 0 then cnt + 1 else cnt)"

definition leds_ctrl2_get_new_blinking_sequence :: "leds_ctrl2_state \<Rightarrow> string" where
  "leds_ctrl2_get_new_blinking_sequence s =
     (if flag_wifi_ap_active s
      then (if flag_wps_active s then LEDS_BLINKING_MODE_WIFI_HOTSPOT_ACTIVE_AND_WPS
            else LEDS_BLINKING_MODE_WIFI_HOTSPOT_ACTIVE)
      else if \<not> flag_network_connected s then LEDS_BLINKING_MODE_NETWORK_PROBLEM
      else if \<not> flag_recv_adv_status s then LEDS_BLINKING_MODE_NO_ADVS
      else let num_configured_targets = leds_ctrl2_get_num_configured_targets s in
        if num_configured_targets = 0
        then (if \<not> flag_http_poll_status s then LEDS_BLINKING_MODE_NOT_CONNECTED_TO_ANY_TARGET
              else LEDS_BLINKING_MODE_CONNECTED_TO_ALL_TARGETS)
        else let num_active_targets = leds_ctrl2_get_num_active_targets s in
          if num_active_targets = 0 then LEDS_BLINKING_MODE_NOT_CONNECTED_TO_ANY_TARGET
          else if num_configured_targets \<noteq> num_active_targets
          then LEDS_BLINKING_MODE_CONNECTED_TO_SOME_TARGETS
          else LEDS_BLINKING_MODE_CONNECTED_TO_ALL_TARGETS)"

section \<open>The controller, \<open>leds_ctrl.c\<close>\<close>

datatype leds_ctrl_event =
  LEDS_CTRL_EVENT_REBOOT
| LEDS_CTRL_EVENT_CFG_ERASED
| LEDS_CTRL_EVENT_NRF52_FW_CHECK
| LEDS_CTRL_EVENT_NRF52_FW_UPDATING
| LEDS_CTRL_EVENT_NRF52_READY
| LEDS_CTRL_EVENT_NRF52_FAILURE
| LEDS_CTRL_EVENT_CFG_READY

datatype leds_sm =
  LEDS_CTRL_STATE_INITIAL
| LEDS_CTRL_STATE_AFTER_REBOOT
| LEDS_CTRL_STATE_CHECKING_NRF52_FW
| LEDS_CTRL_STATE_FLASHING_NRF52_FW
| LEDS_CTRL_STATE_NRF52_FAILURE
| LEDS_CTRL_STATE_CFG_ERASING
| LEDS_CTRL_STATE_CFG_ERASED
| LEDS_CTRL_STATE_WAITING_CFG_READY
| LEDS_CTRL_STATE_SUBSTATE
| LEDS_CTRL_STATE_BEFORE_REBOOT

text \<open>The callbacks are pointers that may be NULL; the model records which are set, and a trace
  of the calls made.\<close>

datatype leds_cb = On_enter_after_reboot | On_exit_after_reboot | On_enter_before_reboot

record leds_ctrl_state =
  task_handle :: "task option"
  leds_sm_state :: leds_sm
  flag_configure_button_pressed :: bool
  flag_submachine_configured :: bool
  callbacks :: "leds_cb \<Rightarrow> bool"
  cb_trace :: "leds_cb list"
  leds_ctrl2 :: leds_ctrl2_state

definition call_cb :: "leds_cb \<Rightarrow> leds_ctrl_state \<Rightarrow> leds_ctrl_state" where
  "call_cb cb s = (if callbacks s cb then s\<lparr>cb_trace := cb_trace s @ [cb]\<rparr> else s)"

definition leds_ctrl_check_cur_thread :: "task \<Rightarrow> leds_ctrl_state \<Rightarrow> bool" where
  "leds_ctrl_check_cur_thread cur s \<longleftrightarrow> Some cur = task_handle s"

definition leds_ctrl_do_actions_step :: "leds_ctrl_state \<Rightarrow> leds_sm" where
  "leds_ctrl_do_actions_step s =
     (case leds_sm_state s of
        LEDS_CTRL_STATE_INITIAL \<Rightarrow>
          (if flag_configure_button_pressed s then LEDS_CTRL_STATE_CFG_ERASING else LEDS_CTRL_STATE_AFTER_REBOOT)
      | st \<Rightarrow> st)"

definition leds_ctrl_transition :: "leds_sm \<Rightarrow> leds_ctrl_state \<Rightarrow> leds_ctrl_state" where
  "leds_ctrl_transition new_st s =
     (let s1 = (if new_st = LEDS_CTRL_STATE_AFTER_REBOOT then call_cb On_enter_after_reboot s
                else if new_st = LEDS_CTRL_STATE_BEFORE_REBOOT then call_cb On_enter_before_reboot s
                else s);
          s2 = (if leds_sm_state s1 = LEDS_CTRL_STATE_AFTER_REBOOT then call_cb On_exit_after_reboot s1 else s1)
      in s2\<lparr>leds_sm_state := new_st\<rparr>)"

lemma transition_state [simp]:
  "leds_sm_state (leds_ctrl_transition n s) = n"
  "flag_configure_button_pressed (leds_ctrl_transition n s) = flag_configure_button_pressed s"
  "flag_submachine_configured (leds_ctrl_transition n s) = flag_submachine_configured s"
  "callbacks (leds_ctrl_transition n s) = callbacks s"
  "task_handle (leds_ctrl_transition n s) = task_handle s"
  "leds_ctrl2 (leds_ctrl_transition n s) = leds_ctrl2 s"
  by (simp_all add: leds_ctrl_transition_def call_cb_def Let_def)

text \<open>The loop of \<open>leds_ctrl_do_actions\<close>; only \<open>INITIAL\<close> moves on, so it ends.\<close>

function leds_ctrl_do_actions :: "leds_ctrl_state \<Rightarrow> leds_ctrl_state" where
  "leds_ctrl_do_actions s =
     (let new_st = leds_ctrl_do_actions_step s in
      if new_st = leds_sm_state s then s
      else leds_ctrl_do_actions (leds_ctrl_transition new_st s))"
  by pat_completeness auto
termination
  by (relation "measure (\<lambda>s. if leds_sm_state s = LEDS_CTRL_STATE_INITIAL then 1 else 0)")
    (auto simp: leds_ctrl_do_actions_step_def split: leds_sm.splits if_splits)

declare leds_ctrl_do_actions.simps [simp del]

definition leds_ctrl_init :: "task \<Rightarrow> bool \<Rightarrow> (leds_cb \<Rightarrow> bool) \<Rightarrow> leds_ctrl_state \<Rightarrow> leds_ctrl_state" where
  "leds_ctrl_init cur pressed cbs s =
     leds_ctrl_do_actions
       (s\<lparr>leds_sm_state := LEDS_CTRL_STATE_INITIAL, task_handle := Some cur,
          flag_configure_button_pressed := pressed, flag_submachine_configured := False,
          callbacks := cbs, leds_ctrl2 := leds_ctrl2_init (leds_ctrl2 s)\<rparr>)"

definition leds_ctrl_deinit :: "leds_ctrl_state \<Rightarrow> leds_ctrl_state" where
  "leds_ctrl_deinit s = s\<lparr>leds_sm_state := LEDS_CTRL_STATE_INITIAL, task_handle := None,
     flag_submachine_configured := False, callbacks := (\<lambda>_. False),
     leds_ctrl2 := leds_ctrl2_deinit (leds_ctrl2 s)\<rparr>"

definition leds_ctrl_configure_sub_machine :: "leds_ctrl_params \<Rightarrow> leds_ctrl_state \<Rightarrow> leds_ctrl_state" where
  "leds_ctrl_configure_sub_machine p s =
     s\<lparr>leds_ctrl2 := leds_ctrl2_configure p (leds_ctrl2 s), flag_submachine_configured := True\<rparr>"

text \<open>One handler per state; \<open>None\<close> is an \<open>assert(0)\<close> branch, a \<open>break\<close> keeps the state.\<close>

definition leds_ctrl_handle_event_in_state_after_reboot :: "leds_ctrl_state \<Rightarrow> leds_ctrl_event \<Rightarrow> leds_sm option" where
  "leds_ctrl_handle_event_in_state_after_reboot s ev =
     (case ev of
        LEDS_CTRL_EVENT_REBOOT \<Rightarrow> Some LEDS_CTRL_STATE_BEFORE_REBOOT
      | LEDS_CTRL_EVENT_CFG_ERASED \<Rightarrow> None
      | LEDS_CTRL_EVENT_NRF52_FW_CHECK \<Rightarrow> Some LEDS_CTRL_STATE_CHECKING_NRF52_FW
      | LEDS_CTRL_EVENT_NRF52_FW_UPDATING \<Rightarrow> None
      | LEDS_CTRL_EVENT_NRF52_READY \<Rightarrow> None
      | LEDS_CTRL_EVENT_NRF52_FAILURE \<Rightarrow> None
      | LEDS_CTRL_EVENT_CFG_READY \<Rightarrow> None)"

definition leds_ctrl_handle_event_in_state_cfg_erasing :: "leds_ctrl_state \<Rightarrow> leds_ctrl_event \<Rightarrow> leds_sm option" where
  "leds_ctrl_handle_event_in_state_cfg_erasing s ev =
     (case ev of
        LEDS_CTRL_EVENT_REBOOT \<Rightarrow> Some LEDS_CTRL_STATE_BEFORE_REBOOT
      | LEDS_CTRL_EVENT_CFG_ERASED \<Rightarrow> Some LEDS_CTRL_STATE_CFG_ERASED
      | LEDS_CTRL_EVENT_NRF52_FW_CHECK \<Rightarrow> None
      | LEDS_CTRL_EVENT_NRF52_FW_UPDATING \<Rightarrow> None
      | LEDS_CTRL_EVENT_NRF52_READY \<Rightarrow> None
      | LEDS_CTRL_EVENT_NRF52_FAILURE \<Rightarrow> None
      | LEDS_CTRL_EVENT_CFG_READY \<Rightarrow> None)"

definition leds_ctrl_handle_event_in_state_checking_nrf52_fw :: "leds_ctrl_state \<Rightarrow> leds_ctrl_event \<Rightarrow> leds_sm option" where
  "leds_ctrl_handle_event_in_state_checking_nrf52_fw s ev =
     (case ev of
        LEDS_CTRL_EVENT_REBOOT \<Rightarrow> Some LEDS_CTRL_STATE_BEFORE_REBOOT
      | LEDS_CTRL_EVENT_CFG_ERASED \<Rightarrow> None
      | LEDS_CTRL_EVENT_NRF52_FW_CHECK \<Rightarrow> None
      | LEDS_CTRL_EVENT_NRF52_FW_UPDATING \<Rightarrow> Some LEDS_CTRL_STATE_FLASHING_NRF52_FW
      | LEDS_CTRL_EVENT_NRF52_READY \<Rightarrow> Some LEDS_CTRL_STATE_WAITING_CFG_READY
      | LEDS_CTRL_EVENT_NRF52_FAILURE \<Rightarrow> Some LEDS_CTRL_STATE_NRF52_FAILURE
      | LEDS_CTRL_EVENT_CFG_READY \<Rightarrow> None)"

definition leds_ctrl_handle_event_in_state_flashing_nrf52_fw :: "leds_ctrl_state \<Rightarrow> leds_ctrl_event \<Rightarrow> leds_sm option" where
  "leds_ctrl_handle_event_in_state_flashing_nrf52_fw s ev =
     (case ev of
        LEDS_CTRL_EVENT_REBOOT \<Rightarrow> Some LEDS_CTRL_STATE_BEFORE_REBOOT
      | LEDS_CTRL_EVENT_CFG_ERASED \<Rightarrow> None
      | LEDS_CTRL_EVENT_NRF52_FW_CHECK \<Rightarrow> None
      | LEDS_CTRL_EVENT_NRF52_FW_UPDATING \<Rightarrow> None
      | LEDS_CTRL_EVENT_NRF52_READY \<Rightarrow> Some LEDS_CTRL_STATE_WAITING_CFG_READY
      | LEDS_CTRL_EVENT_NRF52_FAILURE \<Rightarrow> Some LEDS_CTRL_STATE_NRF52_FAILURE
      | LEDS_CTRL_EVENT_CFG_READY \<Rightarrow> Some (leds_sm_state s))"

definition leds_ctrl_handle_event_in_state_waiting_cfg_ready :: "leds_ctrl_state \<Rightarrow> leds_ctrl_event \<Rightarrow> leds_sm option" where
  "leds_ctrl_handle_event_in_state_waiting_cfg_ready s ev =
     (case ev of
        LEDS_CTRL_EVENT_REBOOT \<Rightarrow> Some LEDS_CTRL_STATE_BEFORE_REBOOT
      | LEDS_CTRL_EVENT_CFG_ERASED \<Rightarrow> None
      | LEDS_CTRL_EVENT_NRF52_FW_CHECK \<Rightarrow> None
      | LEDS_CTRL_EVENT_NRF52_FW_UPDATING \<Rightarrow> None
      | LEDS_CTRL_EVENT_NRF52_READY \<Rightarrow> None
      | LEDS_CTRL_EVENT_NRF52_FAILURE \<Rightarrow> None
      | LEDS_CTRL_EVENT_CFG_READY \<Rightarrow> Some LEDS_CTRL_STATE_SUBSTATE)"

definition leds_ctrl_handle_event_in_state_substate :: "leds_ctrl_state \<Rightarrow> leds_ctrl_event \<Rightarrow> leds_sm option" where
  "leds_ctrl_handle_event_in_state_substate s ev =
     (case ev of
        LEDS_CTRL_EVENT_REBOOT \<Rightarrow> Some LEDS_CTRL_STATE_BEFORE_REBOOT
      | LEDS_CTRL_EVENT_CFG_ERASED \<Rightarrow> None
      | LEDS_CTRL_EVENT_NRF52_FW_CHECK \<Rightarrow> None
      | LEDS_CTRL_EVENT_NRF52_FW_UPDATING \<Rightarrow> Some LEDS_CTRL_STATE_FLASHING_NRF52_FW
      | LEDS_CTRL_EVENT_NRF52_READY \<Rightarrow> Some (leds_sm_state s)
      | LEDS_CTRL_EVENT_NRF52_FAILURE \<Rightarrow> Some (leds_sm_state s)
      | LEDS_CTRL_EVENT_CFG_READY \<Rightarrow> None)"

lemmas state_handlers =
  leds_ctrl_handle_event_in_state_after_reboot_def leds_ctrl_handle_event_in_state_cfg_erasing_def
  leds_ctrl_handle_event_in_state_checking_nrf52_fw_def
  leds_ctrl_handle_event_in_state_flashing_nrf52_fw_def
  leds_ctrl_handle_event_in_state_waiting_cfg_ready_def leds_ctrl_handle_event_in_state_substate_def

definition leds_ctrl_next_state :: "leds_ctrl_state \<Rightarrow> leds_ctrl_event \<Rightarrow> leds_sm option" where
  "leds_ctrl_next_state s ev =
     (if ev = LEDS_CTRL_EVENT_REBOOT then Some LEDS_CTRL_STATE_BEFORE_REBOOT
      else case leds_sm_state s of
        LEDS_CTRL_STATE_INITIAL \<Rightarrow> Some (leds_sm_state s)
      | LEDS_CTRL_STATE_AFTER_REBOOT \<Rightarrow> leds_ctrl_handle_event_in_state_after_reboot s ev
      | LEDS_CTRL_STATE_CHECKING_NRF52_FW \<Rightarrow> leds_ctrl_handle_event_in_state_checking_nrf52_fw s ev
      | LEDS_CTRL_STATE_FLASHING_NRF52_FW \<Rightarrow> leds_ctrl_handle_event_in_state_flashing_nrf52_fw s ev
      | LEDS_CTRL_STATE_NRF52_FAILURE \<Rightarrow> Some (leds_sm_state s)
      | LEDS_CTRL_STATE_CFG_ERASING \<Rightarrow> leds_ctrl_handle_event_in_state_cfg_erasing s ev
      | LEDS_CTRL_STATE_CFG_ERASED \<Rightarrow> Some (leds_sm_state s)
      | LEDS_CTRL_STATE_WAITING_CFG_READY \<Rightarrow> leds_ctrl_handle_event_in_state_waiting_cfg_ready s ev
      | LEDS_CTRL_STATE_SUBSTATE \<Rightarrow>
          (if \<not> flag_submachine_configured s then None else leds_ctrl_handle_event_in_state_substate s ev)
      | LEDS_CTRL_STATE_BEFORE_REBOOT \<Rightarrow> Some (leds_sm_state s))"

definition leds_ctrl_handle_event :: "task \<Rightarrow> leds_ctrl_event \<Rightarrow> leds_ctrl_state \<Rightarrow> leds_ctrl_state option" where
  "leds_ctrl_handle_event cur ev s =
     (if \<not> leds_ctrl_check_cur_thread cur s then None
      else map_option (\<lambda>n. if n \<noteq> leds_sm_state s then leds_ctrl_do_actions (leds_ctrl_transition n s) else s)
             (leds_ctrl_next_state s ev))"

definition leds_ctrl_get_new_blinking_sequence :: "task \<Rightarrow> leds_ctrl_state \<Rightarrow> string option" where
  "leds_ctrl_get_new_blinking_sequence cur s =
     (if \<not> leds_ctrl_check_cur_thread cur s then None
      else case leds_sm_state s of
        LEDS_CTRL_STATE_INITIAL \<Rightarrow> None
      | LEDS_CTRL_STATE_AFTER_REBOOT \<Rightarrow> Some LEDS_BLINKING_AFTER_REBOOT
      | LEDS_CTRL_STATE_CHECKING_NRF52_FW \<Rightarrow> Some LEDS_BLINKING_WHILE_CHECKING_NRF52_FW
      | LEDS_CTRL_STATE_FLASHING_NRF52_FW \<Rightarrow> Some LEDS_BLINKING_WHILE_FLASHING_NRF52_FW
      | LEDS_CTRL_STATE_NRF52_FAILURE \<Rightarrow> Some LEDS_BLINKING_NRF52_FAILURE
      | LEDS_CTRL_STATE_CFG_ERASING \<Rightarrow> Some LEDS_BLINKING_ON_CFG_ERASING
      | LEDS_CTRL_STATE_CFG_ERASED \<Rightarrow> Some LEDS_BLINKING_ON_CFG_ERASED
      | LEDS_CTRL_STATE_WAITING_CFG_READY \<Rightarrow> Some LEDS_BLINKING_CONTROLLED_BY_NRF52
      | LEDS_CTRL_STATE_SUBSTATE \<Rightarrow> Some (leds_ctrl2_get_new_blinking_sequence (leds_ctrl2 s))
      | LEDS_CTRL_STATE_BEFORE_REBOOT \<Rightarrow> Some LEDS_BLINKING_MODE_BEFORE_REBOOT)"

definition leds_ctrl_is_in_substate :: "task \<Rightarrow> leds_ctrl_state \<Rightarrow> bool option" where
  "leds_ctrl_is_in_substate cur s =
     (if \<not> leds_ctrl_check_cur_thread cur s then None
      else Some (leds_sm_state s = LEDS_CTRL_STATE_SUBSTATE))"

section \<open>Playing a sequence\<close>

text \<open>A sequence the player accepts: not empty, and only the three commands.\<close>

definition playable :: "string \<Rightarrow> bool" where
  "playable str \<longleftrightarrow> str \<noteq> [] \<and> set str \<subseteq> {CHR ''R'', CHR ''G'', CHR ''-''}"

fun color_of :: "char \<Rightarrow> leds_color" where
  "color_of c = (if c = CHR ''R'' then LEDS_COLOR_RED else if c = CHR ''G'' then LEDS_COLOR_GREEN
                 else LEDS_COLOR_OFF)"

fun play :: "nat \<Rightarrow> string option \<Rightarrow> nat \<Rightarrow> (leds_color list \<times> nat) option" where
  "play 0 mode idx = Some ([], idx)"
| "play (Suc n) mode idx =
     (case leds_blinking_get_next_internal mode idx of
        None \<Rightarrow> None
      | Some (c, idx') \<Rightarrow> map_option (\<lambda>(cs, i). (c # cs, i)) (play n mode idx'))"

lemma playable_next:
  assumes "playable str" and "i < length str"
  shows "leds_blinking_get_next_internal (Some str) i =
    Some (color_of (str ! i), if Suc i = length str then 0 else Suc i)"
proof -
  have "str ! i \<in> {CHR ''R'', CHR ''G'', CHR ''-''}"
    using assms(1) nth_mem [OF assms(2)] unfolding playable_def by blast
  moreover have "str ! Suc i \<noteq> NUL" if "Suc i < length str"
  proof -
    have "str ! Suc i \<in> {CHR ''R'', CHR ''G'', CHR ''-''}"
      using assms(1) nth_mem [OF that] unfolding playable_def by blast
    then show ?thesis by (auto simp: NUL_def)
  qed
  ultimately show ?thesis
    using assms(2) by (auto simp: leds_blinking_get_next_internal_def c_char_at_def Let_def)
qed

lemma play_from:
  "playable str \<Longrightarrow> i < length str \<Longrightarrow> n = length str - i \<Longrightarrow>
   play n (Some str) i = Some (map color_of (drop i str), 0)"
proof (induction n arbitrary: i)
  case 0
  then show ?case by simp
next
  case (Suc n)
  have drop: "map color_of (drop i str) = color_of (str ! i) # map color_of (drop (Suc i) str)"
    using Suc.prems(2) by (simp flip: Cons_nth_drop_Suc del: color_of.simps)
  show ?case
  proof (cases "Suc i = length str")
    case True
    with Suc.prems have "n = 0" by simp
    with True drop playable_next [OF Suc.prems(1,2)] show ?thesis by (simp del: color_of.simps)
  next
    case False
    with Suc.prems have "play n (Some str) (Suc i) = Some (map color_of (drop (Suc i) str), 0)"
      by (intro Suc.IH) simp_all
    with False drop playable_next [OF Suc.prems(1,2)] show ?thesis by (simp del: color_of.simps)
  qed
qed

section \<open>Connection status\<close>

text \<open>The delivery targets: the two HTTP connections and the MQTT one.\<close>

datatype leds_target = Target_http nat | Target_mqtt

definition configured_targets :: "leds_ctrl2_state \<Rightarrow> leds_target set" where
  "configured_targets s = (\<Union>i \<in> {0, 1}. if http_target_configured s i then {Target_http i} else {}) \<union>
     (if flag_use_mqtt (params s) then {Target_mqtt} else {})"

definition connected_targets :: "leds_ctrl2_state \<Rightarrow> leds_target set" where
  "connected_targets s = (\<Union>i \<in> {0, 1}. if flag_http_conn_status s ! i then {Target_http i} else {}) \<union>
     (if flag_mqtt_conn_status s ! 0 then {Target_mqtt} else {})"

text \<open>The status the LED must show, from the most to the least urgent.\<close>

definition leds_status_spec :: "leds_ctrl2_state \<Rightarrow> string" where
  "leds_status_spec s =
     (if flag_wifi_ap_active s \<and> flag_wps_active s then LEDS_BLINKING_MODE_WIFI_HOTSPOT_ACTIVE_AND_WPS
      else if flag_wifi_ap_active s then LEDS_BLINKING_MODE_WIFI_HOTSPOT_ACTIVE
      else if \<not> flag_network_connected s then LEDS_BLINKING_MODE_NETWORK_PROBLEM
      else if \<not> flag_recv_adv_status s then LEDS_BLINKING_MODE_NO_ADVS
      else if configured_targets s = {} \<and> \<not> flag_http_poll_status s \<or>
              configured_targets s \<noteq> {} \<and> configured_targets s \<inter> connected_targets s = {}
        then LEDS_BLINKING_MODE_NOT_CONNECTED_TO_ANY_TARGET
      else if configured_targets s \<subseteq> connected_targets s then LEDS_BLINKING_MODE_CONNECTED_TO_ALL_TARGETS
      else LEDS_BLINKING_MODE_CONNECTED_TO_SOME_TARGETS)"

lemma targets_unfold:
  "configured_targets s = (if http_target_configured s 0 then {Target_http 0} else {}) \<union>
     (if http_target_configured s 1 then {Target_http 1} else {}) \<union>
     (if flag_use_mqtt (params s) then {Target_mqtt} else {})"
  "connected_targets s = (if flag_http_conn_status s ! 0 then {Target_http 0} else {}) \<union>
     (if flag_http_conn_status s ! 1 then {Target_http 1} else {}) \<union>
     (if flag_mqtt_conn_status s ! 0 then {Target_mqtt} else {})"
  by (simp_all add: configured_targets_def connected_targets_def)

lemma num_targets_unfold:
  "leds_ctrl2_get_num_configured_targets s =
     of_bool (http_target_configured s 0) + of_bool (http_target_configured s 1) + of_bool (flag_use_mqtt (params s))"
  "leds_ctrl2_get_num_active_targets s =
     of_bool (http_target_configured s 0 \<and> flag_http_conn_status s ! 0) +
     of_bool (http_target_configured s 1 \<and> flag_http_conn_status s ! 1) +
     of_bool (flag_use_mqtt (params s) \<and> flag_mqtt_conn_status s ! 0)"
  by (simp_all add: leds_ctrl2_get_num_configured_targets_def leds_ctrl2_get_num_active_targets_def
      LEDS_CTRL_MAX_NUM_HTTP_CONN_def numeral_2_eq_2 Let_def)

lemma status_spec_holds: "leds_ctrl2_get_new_blinking_sequence s = leds_status_spec s"
  unfolding leds_ctrl2_get_new_blinking_sequence_def leds_status_spec_def num_targets_unfold targets_unfold
  by (cases "http_target_configured s 0"; cases "http_target_configured s 1"; cases "flag_use_mqtt (params s)";
      cases "flag_http_conn_status s ! 0"; cases "flag_http_conn_status s ! 1"; cases "flag_mqtt_conn_status s ! 0")
    (simp_all add: Let_def)

section \<open>Runs of the controller\<close>

text \<open>The LED task: events of the controller, events of the sub-machine, its configuration.\<close>

datatype leds_input =
  Ctrl_event leds_ctrl_event
| Ctrl2_event leds_ctrl2_event
| Configure leds_ctrl_params

fun leds_step :: "task \<Rightarrow> leds_ctrl_state \<Rightarrow> leds_input \<Rightarrow> leds_ctrl_state option" where
  "leds_step cur s (Ctrl_event ev) = leds_ctrl_handle_event cur ev s"
| "leds_step cur s (Ctrl2_event ev) = Some (s\<lparr>leds_ctrl2 := leds_ctrl2_on_event ev (leds_ctrl2 s)\<rparr>)"
| "leds_step cur s (Configure p) = Some (leds_ctrl_configure_sub_machine p s)"

text \<open>The states a running controller passes through: every step that does not abort.\<close>

inductive leds_reach :: "task \<Rightarrow> leds_ctrl_state \<Rightarrow> leds_ctrl_state \<Rightarrow> bool" for cur s0 where
  leds_reach_refl: "leds_reach cur s0 s0"
| leds_reach_step: "leds_reach cur s0 s \<Longrightarrow> leds_step cur s x = Some s' \<Longrightarrow> leds_reach cur s0 s'"

text \<open>The diagram of the controller.\<close>

inductive leds_edge :: "leds_sm \<Rightarrow> leds_ctrl_event \<Rightarrow> leds_sm \<Rightarrow> bool" where
  "leds_edge st LEDS_CTRL_EVENT_REBOOT LEDS_CTRL_STATE_BEFORE_REBOOT"
| "leds_edge LEDS_CTRL_STATE_AFTER_REBOOT LEDS_CTRL_EVENT_NRF52_FW_CHECK LEDS_CTRL_STATE_CHECKING_NRF52_FW"
| "leds_edge LEDS_CTRL_STATE_CFG_ERASING LEDS_CTRL_EVENT_CFG_ERASED LEDS_CTRL_STATE_CFG_ERASED"
| "leds_edge LEDS_CTRL_STATE_CHECKING_NRF52_FW LEDS_CTRL_EVENT_NRF52_FW_UPDATING LEDS_CTRL_STATE_FLASHING_NRF52_FW"
| "leds_edge LEDS_CTRL_STATE_CHECKING_NRF52_FW LEDS_CTRL_EVENT_NRF52_READY LEDS_CTRL_STATE_WAITING_CFG_READY"
| "leds_edge LEDS_CTRL_STATE_CHECKING_NRF52_FW LEDS_CTRL_EVENT_NRF52_FAILURE LEDS_CTRL_STATE_NRF52_FAILURE"
| "leds_edge LEDS_CTRL_STATE_FLASHING_NRF52_FW LEDS_CTRL_EVENT_NRF52_READY LEDS_CTRL_STATE_WAITING_CFG_READY"
| "leds_edge LEDS_CTRL_STATE_FLASHING_NRF52_FW LEDS_CTRL_EVENT_NRF52_FAILURE LEDS_CTRL_STATE_NRF52_FAILURE"
| "leds_edge LEDS_CTRL_STATE_WAITING_CFG_READY LEDS_CTRL_EVENT_CFG_READY LEDS_CTRL_STATE_SUBSTATE"
| "leds_edge LEDS_CTRL_STATE_SUBSTATE LEDS_CTRL_EVENT_NRF52_FW_UPDATING LEDS_CTRL_STATE_FLASHING_NRF52_FW"

inductive_simps leds_edge_simps:
  "leds_edge LEDS_CTRL_STATE_INITIAL ev st"
  "leds_edge LEDS_CTRL_STATE_AFTER_REBOOT ev st"
  "leds_edge LEDS_CTRL_STATE_CHECKING_NRF52_FW ev st"
  "leds_edge LEDS_CTRL_STATE_FLASHING_NRF52_FW ev st"
  "leds_edge LEDS_CTRL_STATE_NRF52_FAILURE ev st"
  "leds_edge LEDS_CTRL_STATE_CFG_ERASING ev st"
  "leds_edge LEDS_CTRL_STATE_CFG_ERASED ev st"
  "leds_edge LEDS_CTRL_STATE_WAITING_CFG_READY ev st"
  "leds_edge LEDS_CTRL_STATE_SUBSTATE ev st"
  "leds_edge LEDS_CTRL_STATE_BEFORE_REBOOT ev st"

lemma do_actions_idle: "leds_sm_state s \<noteq> LEDS_CTRL_STATE_INITIAL \<Longrightarrow> leds_ctrl_do_actions s = s"
  by (simp add: leds_ctrl_do_actions.simps [of s] leds_ctrl_do_actions_step_def split: leds_sm.split)

lemma do_actions_initial:
  assumes "leds_sm_state s = LEDS_CTRL_STATE_INITIAL"
  shows "leds_ctrl_do_actions s = leds_ctrl_transition
    (if flag_configure_button_pressed s then LEDS_CTRL_STATE_CFG_ERASING else LEDS_CTRL_STATE_AFTER_REBOOT) s"
  using assms
  by (simp add: leds_ctrl_do_actions.simps [of s] leds_ctrl_do_actions_step_def do_actions_idle)

lemma next_state_edge:
  "leds_ctrl_next_state s ev = Some n \<Longrightarrow> n = leds_sm_state s \<or> leds_edge (leds_sm_state s) ev n"
  by (cases "leds_sm_state s"; cases ev)
    (auto simp: leds_ctrl_next_state_def state_handlers leds_edge_simps split: if_splits)

lemma next_state_not_initial:
  "leds_ctrl_next_state s ev = Some n \<Longrightarrow> n \<noteq> leds_sm_state s \<Longrightarrow> n \<noteq> LEDS_CTRL_STATE_INITIAL"
  by (auto dest!: next_state_edge elim: leds_edge.cases)

lemma handle_event_cases:
  assumes "leds_ctrl_handle_event cur ev s = Some s'"
  shows "(s' = s \<and> leds_ctrl_next_state s ev = Some (leds_sm_state s)) \<or>
    (\<exists>n. n \<noteq> leds_sm_state s \<and> leds_ctrl_next_state s ev = Some n \<and> s' = leds_ctrl_transition n s)"
  using assms next_state_not_initial [of s ev]
  by (auto simp: leds_ctrl_handle_event_def do_actions_idle split: if_splits)

text \<open>
  The orders in which the callbacks may have been called, by start mode and current state. With
  the configure button pressed only the erasing states and the final one occur.
\<close>

fun allowed_traces :: "bool \<Rightarrow> leds_sm \<Rightarrow> leds_cb list list" where
  "allowed_traces pressed LEDS_CTRL_STATE_BEFORE_REBOOT =
     (if pressed then [[On_enter_before_reboot]]
      else [[On_enter_after_reboot, On_enter_before_reboot, On_exit_after_reboot],
            [On_enter_after_reboot, On_exit_after_reboot, On_enter_before_reboot]])"
| "allowed_traces pressed LEDS_CTRL_STATE_INITIAL = []"
| "allowed_traces pressed LEDS_CTRL_STATE_CFG_ERASING = (if pressed then [[]] else [])"
| "allowed_traces pressed LEDS_CTRL_STATE_CFG_ERASED = (if pressed then [[]] else [])"
| "allowed_traces pressed LEDS_CTRL_STATE_AFTER_REBOOT = (if pressed then [] else [[On_enter_after_reboot]])"
| "allowed_traces pressed _ = (if pressed then [] else [[On_enter_after_reboot, On_exit_after_reboot]])"

definition leds_run_inv :: "task \<Rightarrow> bool \<Rightarrow> (leds_cb \<Rightarrow> bool) \<Rightarrow> leds_ctrl_state \<Rightarrow> bool" where
  "leds_run_inv cur pressed cbs s \<longleftrightarrow>
     task_handle s = Some cur \<and> callbacks s = cbs \<and>
     cb_trace s \<in> set (map (filter cbs) (allowed_traces pressed (leds_sm_state s)))"

lemma transition_trace:
  "cb_trace (leds_ctrl_transition n s) = cb_trace s @
     filter (callbacks s)
       ((if n = LEDS_CTRL_STATE_AFTER_REBOOT then [On_enter_after_reboot]
         else if n = LEDS_CTRL_STATE_BEFORE_REBOOT then [On_enter_before_reboot] else []) @
        (if leds_sm_state s = LEDS_CTRL_STATE_AFTER_REBOOT then [On_exit_after_reboot] else []))"
  by (simp add: leds_ctrl_transition_def call_cb_def Let_def)

lemma leds_init_inv:
  "cb_trace s = [] \<Longrightarrow> leds_run_inv cur pressed cbs (leds_ctrl_init cur pressed cbs s)"
  by (auto simp: leds_ctrl_init_def do_actions_initial leds_run_inv_def transition_trace)

lemma edge_trace_inv:
  assumes "leds_run_inv cur pressed cbs s" and "leds_edge (leds_sm_state s) ev n" and "n \<noteq> leds_sm_state s"
  shows "leds_run_inv cur pressed cbs (leds_ctrl_transition n s)"
  using assms(2)
proof cases
  case 1
  with assms(1,3) show ?thesis
    unfolding leds_run_inv_def transition_trace
    by (cases pressed; cases "leds_sm_state s") auto
qed (use assms(1) in \<open>auto simp: leds_run_inv_def transition_trace split: if_splits\<close>)

lemma leds_step_inv:
  assumes "leds_run_inv cur pressed cbs s" and "leds_step cur s x = Some s'"
  shows "leds_run_inv cur pressed cbs s'"
proof (cases x)
  case (Ctrl_event ev)
  with assms(2) consider "s' = s"
    | n where "n \<noteq> leds_sm_state s" "leds_ctrl_next_state s ev = Some n" "s' = leds_ctrl_transition n s"
    using handle_event_cases [of cur ev s s'] by auto
  then show ?thesis
  proof cases
    case 1
    with assms(1) show ?thesis by simp
  next
    case 2
    with next_state_edge [OF 2(2)] show ?thesis using edge_trace_inv [OF assms(1)] by auto
  qed
qed (use assms in \<open>auto simp: leds_run_inv_def leds_ctrl_configure_sub_machine_def\<close>)

lemma leds_reach_inv:
  assumes "leds_reach cur (leds_ctrl_init cur pressed cbs s0) s" and "cb_trace s0 = []"
  shows "leds_run_inv cur pressed cbs s"
  using assms by (induction rule: leds_reach.induct) (auto intro: leds_init_inv leds_step_inv)

lemma all_sequences_playable:
  "playable LEDS_BLINKING_AFTER_REBOOT" "playable LEDS_BLINKING_WHILE_CHECKING_NRF52_FW"
  "playable LEDS_BLINKING_CONTROLLED_BY_NRF52" "playable LEDS_BLINKING_WHILE_FLASHING_NRF52_FW"
  "playable LEDS_BLINKING_NRF52_FAILURE" "playable LEDS_BLINKING_ON_CFG_ERASING"
  "playable LEDS_BLINKING_ON_CFG_ERASED" "playable LEDS_BLINKING_MODE_BEFORE_REBOOT"
  "playable (leds_ctrl2_get_new_blinking_sequence t)"
  by (simp_all add: playable_def blinking_sequences leds_ctrl2_get_new_blinking_sequence_def Let_def)

lemma new_sequence_playable:
  assumes "leds_run_inv cur pressed cbs s"
  shows "\<exists>str. leds_ctrl_get_new_blinking_sequence cur s = Some str \<and> playable str"
  using assms all_sequences_playable
  by (cases "leds_sm_state s")
    (auto simp: leds_ctrl_get_new_blinking_sequence_def leds_ctrl_check_cur_thread_def leds_run_inv_def)

section \<open>Properties\<close>

text \<open>C22: the blinking sequence of the sub-machine is the one of the most urgent status:
  hotspot with or without WPS, no network, no advertisements, then by comparing the set of configured
  targets with the set of connected ones (no target connected, all of them, some); counting bits of the
  mask and flags agrees with the sets.\<close>

theorem leds_status_is_spec: "leds_ctrl2_get_new_blinking_sequence s = leds_status_spec s"
  by (rule status_spec_holds)

text \<open>On the LED task, with the sub-machine configured, an event changes the controller's
  state exactly along an edge of its diagram, for every state and event.\<close>

theorem leds_controller_diagram:
  assumes "leds_ctrl_check_cur_thread cur s" and "flag_submachine_configured s" and "st \<noteq> leds_sm_state s"
  shows "(\<exists>s'. leds_ctrl_handle_event cur ev s = Some s' \<and> leds_sm_state s' = st) \<longleftrightarrow>
    leds_edge (leds_sm_state s) ev st"
proof
  assume "\<exists>s'. leds_ctrl_handle_event cur ev s = Some s' \<and> leds_sm_state s' = st"
  then show "leds_edge (leds_sm_state s) ev st"
    using assms(3) handle_event_cases [of cur ev s] next_state_edge [of s ev st] by auto
next
  assume edge: "leds_edge (leds_sm_state s) ev st"
  then have "leds_ctrl_next_state s ev = Some st"
    using assms(2,3)
    by (cases "leds_sm_state s"; cases ev)
      (auto simp: leds_ctrl_next_state_def state_handlers leds_edge_simps)
  with assms next_state_not_initial [OF this] edge
  show "\<exists>s'. leds_ctrl_handle_event cur ev s = Some s' \<and> leds_sm_state s' = st"
    by (auto simp: leds_ctrl_handle_event_def do_actions_idle elim: leds_edge.cases)
qed

definition leds_example_state :: leds_ctrl_state where
  "leds_example_state = \<lparr>task_handle = Some 1, leds_sm_state = LEDS_CTRL_STATE_WAITING_CFG_READY,
     flag_configure_button_pressed = False, flag_submachine_configured = True, callbacks = (\<lambda>_. True),
     cb_trace = [], leds_ctrl2 = leds_ctrl2_init undefined\<rparr>"

theorem leds_controller_diagram_witness:
  "\<exists>s'. leds_ctrl_handle_event 1 LEDS_CTRL_EVENT_CFG_READY leds_example_state = Some s' \<and>
     leds_sm_state s' = LEDS_CTRL_STATE_SUBSTATE"
proof -
  have "leds_ctrl_check_cur_thread 1 leds_example_state" "flag_submachine_configured leds_example_state"
    "LEDS_CTRL_STATE_SUBSTATE \<noteq> leds_sm_state leds_example_state"
    by (simp_all add: leds_example_state_def leds_ctrl_check_cur_thread_def)
  from leds_controller_diagram [OF this] show ?thesis
    by (simp add: leds_example_state_def leds_edge_simps)
qed

text \<open>In every run of the LED task the controller calls its callbacks in the documented
  order: after a normal start the after-reboot callback is entered once and left once, when that state
  is left; the before-reboot callback is called once, and only in the final state; with the configure
  button pressed the after-reboot callbacks are never called.\<close>

theorem leds_callback_protocol:
  assumes "leds_reach cur (leds_ctrl_init cur pressed cbs s0) s" and "cb_trace s0 = []"
  shows "cb_trace s \<in> set (map (filter cbs) (allowed_traces pressed (leds_sm_state s)))"
  using leds_reach_inv [OF assms] by (simp add: leds_run_inv_def)

theorem leds_callback_protocol_witness:
  "cb_trace (leds_ctrl_init 1 False (\<lambda>_. True) leds_example_state) \<in>
     set (map (filter (\<lambda>_. True))
       (allowed_traces False (leds_sm_state (leds_ctrl_init 1 False (\<lambda>_. True) leds_example_state))))"
  by (rule leds_callback_protocol [OF leds_reach_refl]) (simp add: leds_example_state_def)

text \<open>Whatever state a run has reached, the sequence the controller chooses can be played
  from its first position to its end without a failed assertion: the player shows its colours in
  order and is back at position 0, where a new sequence may be set.\<close>

theorem leds_sequences_play:
  assumes "leds_reach cur (leds_ctrl_init cur pressed cbs s0) s" and "cb_trace s0 = []"
  shows "\<exists>str. leds_ctrl_get_new_blinking_sequence cur s = Some str \<and>
    play (length str) (Some str) 0 = Some (map color_of str, 0)"
proof -
  obtain str where str: "leds_ctrl_get_new_blinking_sequence cur s = Some str" "playable str"
    using new_sequence_playable [OF leds_reach_inv [OF assms]] by blast
  with play_from [of str 0 "length str"] show ?thesis by (auto simp: playable_def)
qed

theorem leds_sequences_play_witness:
  "\<exists>str. leds_ctrl_get_new_blinking_sequence 1 (leds_ctrl_init 1 True (\<lambda>_. False) leds_example_state) = Some str \<and>
    play (length str) (Some str) 0 = Some (map color_of str, 0)"
  by (rule leds_sequences_play [OF leds_reach_refl]) (simp add: leds_example_state_def)

end
