(* ===== verification/Adv_Post_World.thy ===== *)
theory Adv_Post_World
  imports Adv_Table Event_Mgr Gw_Cfg_Defs
begin

text \<open>
  What the advertisement posting task (\<open>adv_post*.c\<close>, \<open>http.c\<close>) reads and writes. The record
  \<open>post_world\<close> holds the static variables of those modules and the task's own
  \<open>adv_post_state_t\<close>; calls to code that is not part of the model (the timer and signal
  wrappers, the HTTP and MQTT clients, the LEDs, the nRF52 link) are appended to
  \<open>w_trace\<close>, and their answers are the fields of the argument \<open>post_env\<close>. An operation
  that may stop the task (a failed assertion, or \<open>gateway_restart\<close>, which does not return)
  gives a result in a sum type. The theory also models \<open>network_timeout.c\<close>,
  \<open>adv_post_timers.c\<close> and \<open>adv_post_green_led.c\<close>.
\<close>

section \<open>Names of the code\<close>

datatype adv_post_sig =
  ADV_POST_SIG_STOP | ADV_POST_SIG_NETWORK_DISCONNECTED | ADV_POST_SIG_NETWORK_CONNECTED
| ADV_POST_SIG_TIME_SYNCHRONIZED | ADV_POST_SIG_RETRANSMIT | ADV_POST_SIG_RETRANSMIT2
| ADV_POST_SIG_RETRANSMIT_MQTT | ADV_POST_SIG_SEND_STATISTICS | ADV_POST_SIG_DO_ASYNC_COMM
| ADV_POST_SIG_RELAYING_MODE_CHANGED | ADV_POST_SIG_NETWORK_WATCHDOG
| ADV_POST_SIG_TASK_WATCHDOG_FEED | ADV_POST_SIG_GW_CFG_READY | ADV_POST_SIG_GW_CFG_CHANGED_RUUVI
| ADV_POST_SIG_BLE_SCAN_CHANGED | ADV_POST_SIG_CFG_MODE_ACTIVATED
| ADV_POST_SIG_CFG_MODE_DEACTIVATED | ADV_POST_SIG_GREEN_LED_STATE_CHANGED
| ADV_POST_SIG_GREEN_LED_UPDATE | ADV_POST_SIG_RECV_ADV_TIMEOUT

datatype periodic_timer =
  ADV_POST_PERIODIC_TIMER_SIG_RETRANSMIT | ADV_POST_PERIODIC_TIMER_SIG_RETRANSMIT2
| ADV_POST_PERIODIC_TIMER_SIG_SEND_STATISTICS | ADV_POST_PERIODIC_TIMER_SIG_MQTT
| ADV_POST_PERIODIC_TIMER_SIG_NETWORK_WATCHDOG | ADV_POST_PERIODIC_TIMER_SIG_WATCHDOG_FEED
| ADV_POST_PERIODIC_TIMER_SIG_GREEN_LED_UPDATE

datatype one_shot_timer =
  ADV_POST_ONE_SHOT_TIMER_SIG_DO_ASYNC_COMM | ADV_POST_ONE_SHOT_TIMER_SIG_RECV_ADV_TIMEOUT

datatype adv_post_action =
  ADV_POST_ACTION_NONE | ADV_POST_ACTION_POST_ADVS_TO_RUUVI | ADV_POST_ACTION_POST_ADVS_TO_CUSTOM
| ADV_POST_ACTION_POST_STATS | ADV_POST_ACTION_POST_ADVS_TO_MQTT

datatype adv_post_green_led_cmd =
  ADV_POST_GREEN_LED_CMD_UPDATE | ADV_POST_GREEN_LED_CMD_OFF | ADV_POST_GREEN_LED_CMD_ON

datatype http_post_recipient =
  HTTP_POST_RECIPIENT_STATS | HTTP_POST_RECIPIENT_ADVS1 | HTTP_POST_RECIPIENT_ADVS2

section \<open>Constants\<close>

definition TIME_UNITS_MS_PER_SECOND :: u32 where "TIME_UNITS_MS_PER_SECOND = 1000"
definition ADV_POST_DEFAULT_INTERVAL_SECONDS :: u32 where "ADV_POST_DEFAULT_INTERVAL_SECONDS = 10"
definition ADV_POST_STATISTICS_INTERVAL_SECONDS :: u32 where "ADV_POST_STATISTICS_INTERVAL_SECONDS = 60 * 60"
definition ADV_POST_DO_ASYNC_COMM_INTERVAL_MS :: u32 where "ADV_POST_DO_ASYNC_COMM_INTERVAL_MS = 50"
definition RUUVI_NETWORK_WATCHDOG_TIMEOUT_SECONDS :: u32 where "RUUVI_NETWORK_WATCHDOG_TIMEOUT_SECONDS = 60 * 60"
definition RUUVI_NETWORK_WATCHDOG_PERIOD_SECONDS :: u32 where "RUUVI_NETWORK_WATCHDOG_PERIOD_SECONDS = 1"
definition RUUVI_MAX_LOW_HEAP_MEM_CNT :: u32 where "RUUVI_MAX_LOW_HEAP_MEM_CNT = 5"
definition ADV_POST_GREEN_LED_ON_INTERVAL_MS :: u32 where "ADV_POST_GREEN_LED_ON_INTERVAL_MS = 1500"
definition ADV_POST_DELAY_BEFORE_RETRYING_POST_AFTER_ERROR_MS :: u32 where
  "ADV_POST_DELAY_BEFORE_RETRYING_POST_AFTER_ERROR_MS = 67 * 1000"
definition ADV_POST_INITIAL_DELAY_IN_SENDING_STATISTICS_SECONDS :: u32 where
  "ADV_POST_INITIAL_DELAY_IN_SENDING_STATISTICS_SECONDS = 30"

section \<open>Calls that leave the model\<close>

datatype leds_note =
  Leds_http1_data_sent_fail | Leds_http1_data_sent_successfully
| Leds_http2_data_sent_fail | Leds_http2_data_sent_successfully

datatype hmac_target = Hmac_http_ruuvi | Hmac_http_custom | Hmac_stats

text \<open>
  The arguments of a call are kept: the body of an HTTP post is described by the reports and the
  parameters of the JSON generator (raw, decode, time stamps, nonce).
\<close>

datatype effect =
  Periodic_relaunch periodic_timer
| Periodic_start periodic_timer
| Periodic_stop periodic_timer
| Periodic_set_period periodic_timer u32
| Periodic_restart_with_period periodic_timer u32
| Periodic_update_timestamp periodic_timer u32
| One_shot_start one_shot_timer
| One_shot_stop one_shot_timer
| One_shot_relaunch one_shot_timer
| Send_signal adv_post_sig
| Leds_notify leds_note
| Api_send_led_ctrl u32
| Send_nrf_settings
| Main_restart_services
| Reset_info_clear_extra_info
| Fw_mark_app_valid
| Task_wdt_reset
| Log_advs_cnt u32
| Notify_event event_mgr_ev
| Http_client_init
| Http_client_cleanup
| Http_set_header string
| Http_post_advs_body http_post_recipient "adv_report list" bool bool bool u32
| Http_post_stat_body "adv_report list" u32
| Mqtt_publish_adv adv_report bool u32
| Http_server_use_mutex bool
| Mutex_unlocked_by_non_owner
| Clear_http_relaying_cmd
| Hmac_set_key hmac_target string
| Log_recv_adv adv_report "16 word option"
| Metrics_received_advs_increment "4 word"
| Ruuvi_device_id_set "u8 list" "u8 list"

section \<open>The environment of one activation\<close>

text \<open>
  \<open>cfg_view\<close> is what the getters of \<open>gw_cfg.c\<close> return to the task; \<open>post_env\<close>
  adds the answers of the calls: allocation results, the clocks, the timer queries, the HTTP and
  MQTT clients.
\<close>

record cfg_view =
  c_use_http_ruuvi :: bool
  c_use_http :: bool
  c_http_period :: u32
  c_http_data_format :: gw_cfg_http_data_format
  c_http_auth_type :: gw_cfg_http_auth_type
  c_http_use_ssl_client_cert :: bool
  c_http_use_ssl_server_cert :: bool
  c_use_http_stat :: bool
  c_http_stat_use_ssl_client_cert :: bool
  c_http_stat_use_ssl_server_cert :: bool
  c_use_mqtt :: bool
  c_mqtt_over_ssl_or_wss :: bool
  c_mqtt_sending_interval :: u32
  c_ntp_use :: bool
  c_scan_filter_allow_listed :: bool
  c_scan_filter_list :: "mac_address list"

datatype perform_result = Perform_ok | Perform_again | Perform_ssl_handshake_failed | Perform_other_error

record post_env =
  e_cfg :: cfg_view
  e_gw_cfg_initialized :: bool
  e_time :: u32
  e_tick :: u32
  e_ms_to_ticks :: "u32 \<Rightarrow> u32"
  e_time_is_synchronized :: bool
  e_mqtt_connected :: bool
  e_relaying_via_http_enabled :: bool
  e_green_led_state :: bool
  e_timer_active :: "periodic_timer \<Rightarrow> bool"
  e_timer_period :: "periodic_timer \<Rightarrow> u32"
  e_alloc_reports :: bool
  e_alloc_cfg_copy :: bool
  e_alloc_gen :: bool
  e_alloc_url :: bool
  e_alloc_client :: bool
  e_alloc_auth :: bool
  e_alloc_filter :: bool
  e_alloc_reset_info :: bool
  e_alloc_stat_info :: bool
  e_alloc_stat_json :: bool
  e_file_server_cert :: bool
  e_file_client_cert :: bool
  e_file_client_key :: bool
  e_set_body_ok :: bool
  e_start_perform :: perform_result
  e_poll_headers :: "(string \<times> string) list"
  e_poll_perform :: perform_result
  e_str_to_uint32 :: "string \<Rightarrow> u32"
  e_hmac_str_valid :: bool
  e_http_status :: nat
  e_mqtt_publish_ok :: bool
  e_hmac_set_ok :: bool
  e_cfg_cache_free :: bool
  e_metrics_received_advs :: u32

section \<open>The state\<close>

record adv_post_state =
  flag_primary_time_sync_is_done :: bool
  flag_network_connected :: bool
  flag_async_comm_in_progress :: bool
  flag_need_to_send_advs1 :: bool
  flag_need_to_send_advs2 :: bool
  flag_need_to_send_statistics :: bool
  flag_need_to_send_mqtt_periodic :: bool
  flag_relaying_enabled :: bool
  flag_use_timestamps :: bool
  flag_stop :: bool

record adv_post_cfg_cache =
  flag_use_ntp :: bool
  scan_filter_allow_listed :: bool
  scan_filter_length :: nat
  p_arr_of_scan_filter_mac :: "mac_address list option"

text \<open>
  \<open>http_async_info_t\<close>: the semaphore is available or taken; a pointer is kept as whether it
  is different from NULL.
\<close>

record http_async_info =
  http_async_sema :: bool
  p_http_client_handle :: bool
  p_server_cert :: bool
  p_client_cert :: bool
  p_client_key :: bool
  use_json_stream_gen :: bool
  p_body :: bool
  recipient :: http_post_recipient

datatype mutex_owner = Mutex_free | Mutex_adv_post | Mutex_http_server

record post_world =
  w_trace :: "effect list"
  w_st :: adv_post_state
  g_adv_post_timers1_interval_ms :: u32
  g_adv_post_timers2_interval_ms :: u32
  g_network_timeout_last_successful_timestamp :: u32
  g_adv_post_green_led_state :: bool
  g_adv_post_nonce :: u32
  g_adv_post_action :: adv_post_action
  g_p_adv_post_reports_mqtt :: "adv_report list option"
  g_adv_post_reports_mqtt_idx :: u32
  g_adv_post_reports_mqtt_timestamp :: u32
  g_adv_post_malloc_fail_cnt0 :: u32
  g_adv_post_malloc_fail_cnt1 :: u32
  g_http_post_advs_malloc_fail_cnt :: u32
  g_adv_post_stat_nonce :: u32
  g_http_async_info :: http_async_info
  g_http_server_mutex :: mutex_owner
  g_adv_post_cfg_cache :: adv_post_cfg_cache
  g_adv_post_advs_cnt :: u32
  w_table :: adv_table_state

text \<open>
  The state after \<open>adv_post_init\<close> and the start of \<open>adv_post_task\<close>; the two nonces are
  random. The request slot's semaphore is signalled when it is created.
\<close>

definition adv_post_state_init :: adv_post_state where
  "adv_post_state_init = \<lparr>flag_primary_time_sync_is_done = False, flag_network_connected = False,
     flag_async_comm_in_progress = False, flag_need_to_send_advs1 = False,
     flag_need_to_send_advs2 = False, flag_need_to_send_statistics = False,
     flag_need_to_send_mqtt_periodic = False, flag_relaying_enabled = True,
     flag_use_timestamps = False, flag_stop = False\<rparr>"

definition http_async_info_init :: http_async_info where
  "http_async_info_init = \<lparr>http_async_sema = True, p_http_client_handle = False, p_server_cert = False,
     p_client_cert = False, p_client_key = False, use_json_stream_gen = False, p_body = False,
     recipient = HTTP_POST_RECIPIENT_STATS\<rparr>"

definition adv_post_init :: "u32 \<Rightarrow> u32 \<Rightarrow> post_world" where
  "adv_post_init nonce stat_nonce = \<lparr>w_trace = [], w_st = adv_post_state_init,
     g_adv_post_timers1_interval_ms = ADV_POST_DEFAULT_INTERVAL_SECONDS * TIME_UNITS_MS_PER_SECOND,
     g_adv_post_timers2_interval_ms = ADV_POST_DEFAULT_INTERVAL_SECONDS * TIME_UNITS_MS_PER_SECOND,
     g_network_timeout_last_successful_timestamp = 0, g_adv_post_green_led_state = False,
     g_adv_post_nonce = nonce, g_adv_post_action = ADV_POST_ACTION_NONE,
     g_p_adv_post_reports_mqtt = None, g_adv_post_reports_mqtt_idx = 0,
     g_adv_post_reports_mqtt_timestamp = 0, g_adv_post_malloc_fail_cnt0 = 0,
     g_adv_post_malloc_fail_cnt1 = 0, g_http_post_advs_malloc_fail_cnt = 0,
     g_adv_post_stat_nonce = stat_nonce, g_http_async_info = http_async_info_init,
     g_http_server_mutex = Mutex_free,
     g_adv_post_cfg_cache = \<lparr>flag_use_ntp = False, scan_filter_allow_listed = False,
       scan_filter_length = 0, p_arr_of_scan_filter_mac = None\<rparr>,
     g_adv_post_advs_cnt = 0, w_table = adv_table_init\<rparr>"

text \<open>An environment in which every call succeeds, for evaluating the model.\<close>

definition cfg_example :: cfg_view where
  "cfg_example = \<lparr>c_use_http_ruuvi = True, c_use_http = True, c_http_period = 10,
     c_http_data_format = GW_CFG_HTTP_DATA_FORMAT_RUUVI, c_http_auth_type = GW_CFG_HTTP_AUTH_TYPE_NONE,
     c_http_use_ssl_client_cert = False, c_http_use_ssl_server_cert = False, c_use_http_stat = True,
     c_http_stat_use_ssl_client_cert = False, c_http_stat_use_ssl_server_cert = False,
     c_use_mqtt = True, c_mqtt_over_ssl_or_wss = False, c_mqtt_sending_interval = 0, c_ntp_use = False,
     c_scan_filter_allow_listed = False, c_scan_filter_list = []\<rparr>"

definition env_example :: post_env where
  "env_example = \<lparr>e_cfg = cfg_example, e_gw_cfg_initialized = True, e_time = 1000, e_tick = 5,
     e_ms_to_ticks = (\<lambda>x. x), e_time_is_synchronized = True, e_mqtt_connected = True,
     e_relaying_via_http_enabled = True, e_green_led_state = False, e_timer_active = (\<lambda>_. True),
     e_timer_period = (\<lambda>_. 10000), e_alloc_reports = True, e_alloc_cfg_copy = True, e_alloc_gen = True,
     e_alloc_url = True, e_alloc_client = True, e_alloc_auth = True, e_alloc_filter = True,
     e_alloc_reset_info = True, e_alloc_stat_info = True, e_alloc_stat_json = True,
     e_file_server_cert = False, e_file_client_cert = False, e_file_client_key = False,
     e_set_body_ok = True, e_start_perform = Perform_again, e_poll_headers = [], e_poll_perform = Perform_ok,
     e_str_to_uint32 = (\<lambda>_. 0), e_hmac_str_valid = True, e_http_status = 200, e_mqtt_publish_ok = True,
     e_hmac_set_ok = True, e_cfg_cache_free = True, e_metrics_received_advs = 42\<rparr>"

definition emit :: "effect \<Rightarrow> post_world \<Rightarrow> post_world" where
  "emit e w = w\<lparr>w_trace := w_trace w @ [e]\<rparr>"

text \<open>\<open>set_st\<close> updates the task's \<open>adv_post_state_t\<close>.\<close>

definition set_st :: "(adv_post_state \<Rightarrow> adv_post_state) \<Rightarrow> post_world \<Rightarrow> post_world" where
  "set_st f w = w\<lparr>w_st := f (w_st w)\<rparr>"

lemma emit_parts [simp]:
  "w_trace (emit e w) = w_trace w @ [e]"
  "w_st (emit e w) = w_st w"
  "g_adv_post_timers1_interval_ms (emit e w) = g_adv_post_timers1_interval_ms w"
  "g_adv_post_timers2_interval_ms (emit e w) = g_adv_post_timers2_interval_ms w"
  "g_network_timeout_last_successful_timestamp (emit e w) = g_network_timeout_last_successful_timestamp w"
  "g_adv_post_nonce (emit e w) = g_adv_post_nonce w"
  "g_adv_post_action (emit e w) = g_adv_post_action w"
  "g_p_adv_post_reports_mqtt (emit e w) = g_p_adv_post_reports_mqtt w"
  "g_adv_post_reports_mqtt_idx (emit e w) = g_adv_post_reports_mqtt_idx w"
  "g_adv_post_reports_mqtt_timestamp (emit e w) = g_adv_post_reports_mqtt_timestamp w"
  "g_http_async_info (emit e w) = g_http_async_info w"
  "g_http_server_mutex (emit e w) = g_http_server_mutex w"
  "g_adv_post_cfg_cache (emit e w) = g_adv_post_cfg_cache w"
  "w_table (emit e w) = w_table w"
  by (simp_all add: emit_def)

lemma set_st_parts [simp]:
  "w_trace (set_st f w) = w_trace w"
  "w_st (set_st f w) = f (w_st w)"
  "g_adv_post_timers1_interval_ms (set_st f w) = g_adv_post_timers1_interval_ms w"
  "g_adv_post_timers2_interval_ms (set_st f w) = g_adv_post_timers2_interval_ms w"
  "g_network_timeout_last_successful_timestamp (set_st f w) = g_network_timeout_last_successful_timestamp w"
  "g_adv_post_nonce (set_st f w) = g_adv_post_nonce w"
  "g_adv_post_action (set_st f w) = g_adv_post_action w"
  "g_p_adv_post_reports_mqtt (set_st f w) = g_p_adv_post_reports_mqtt w"
  "g_adv_post_reports_mqtt_idx (set_st f w) = g_adv_post_reports_mqtt_idx w"
  "g_adv_post_reports_mqtt_timestamp (set_st f w) = g_adv_post_reports_mqtt_timestamp w"
  "g_http_async_info (set_st f w) = g_http_async_info w"
  "g_http_server_mutex (set_st f w) = g_http_server_mutex w"
  "g_adv_post_cfg_cache (set_st f w) = g_adv_post_cfg_cache w"
  "w_table (set_st f w) = w_table w"
  by (simp_all add: set_st_def)

section \<open>Results\<close>

text \<open>
  \<open>gateway_restart\<close> called from a task other than the reset task saves the message and waits
  for the reboot in an endless loop, so nothing after it runs; a failed assertion aborts.
\<close>

datatype stop_reason = Gateway_restart string | Assertion_failed

type_synonym 'a res = "(stop_reason \<times> post_world) + ('a \<times> post_world)"

definition ret :: "'a \<Rightarrow> post_world \<Rightarrow> 'a res" where
  "ret a w = Inr (a, w)"

definition stop_with :: "stop_reason \<Rightarrow> post_world \<Rightarrow> 'a res" where
  "stop_with r w = Inl (r, w)"

definition and_then :: "'a res \<Rightarrow> ('a \<Rightarrow> post_world \<Rightarrow> 'b res) \<Rightarrow> 'b res" where
  "and_then r f = (case r of Inl x \<Rightarrow> Inl x | Inr (a, w) \<Rightarrow> f a w)"

text \<open>The state after an operation, stopped or not.\<close>

definition world_of :: "'a res \<Rightarrow> post_world" where
  "world_of r = (case r of Inl (_, w) \<Rightarrow> w | Inr (_, w) \<Rightarrow> w)"

text \<open>
  \<open>ensures r Q\<close>: no assertion fails and, unless the gateway is being restarted, the value and
  the state satisfy \<open>Q\<close>.
\<close>

definition ensures :: "'a res \<Rightarrow> ('a \<Rightarrow> post_world \<Rightarrow> bool) \<Rightarrow> bool" where
  "ensures r Q = (case r of Inl (x, _) \<Rightarrow> x \<noteq> Assertion_failed | Inr (a, w) \<Rightarrow> Q a w)"

named_theorems wp_simps \<open>weakest preconditions of the posting task's operations\<close>

lemma ensures_ret [simp, wp_simps]: "ensures (ret a w) Q \<longleftrightarrow> Q a w"
  by (simp add: ensures_def ret_def)

lemma ensures_stop [simp, wp_simps]: "ensures (stop_with r w) Q \<longleftrightarrow> r \<noteq> Assertion_failed"
  by (simp add: ensures_def stop_with_def)

lemma ensures_and_then [simp, wp_simps]:
  "ensures (and_then r f) Q \<longleftrightarrow> ensures r (\<lambda>a w. ensures (f a w) Q)"
  by (auto simp: ensures_def and_then_def split: sum.splits)

lemma ensures_if [simp, wp_simps]:
  "ensures (if b then r else r') Q \<longleftrightarrow> (if b then ensures r Q else ensures r' Q)"
  by simp

lemma ensures_mono: "ensures r P \<Longrightarrow> (\<And>a w. P a w \<Longrightarrow> Q a w) \<Longrightarrow> ensures r Q"
  by (auto simp: ensures_def split: sum.splits)

lemma ensures_conj: "ensures r P \<Longrightarrow> ensures r Q \<Longrightarrow> ensures r (\<lambda>a w. P a w \<and> Q a w)"
  by (auto simp: ensures_def split: sum.splits)

lemma ret_inject [simp]: "ret a w = ret b v \<longleftrightarrow> a = b \<and> w = v"
  by (simp add: ret_def)

lemma and_then_ret [simp]: "and_then (ret a w) f = f a w"
  by (simp add: and_then_def ret_def)

lemma and_then_stop [simp]: "and_then (stop_with r w) f = stop_with r w"
  by (simp add: and_then_def stop_with_def)

lemma world_of_ret [simp]: "world_of (ret a w) = w"
  by (simp add: world_of_def ret_def)

lemma world_of_stop [simp]: "world_of (stop_with r w) = w"
  by (simp add: world_of_def stop_with_def)

lemma ensures_ret_inverse: "r = ret a w \<Longrightarrow> ensures r Q \<longleftrightarrow> Q a w"
  by simp

end
