(* ===== verification/Adv_Post_Timers.thy ===== *)
theory Adv_Post_Timers
  imports Adv_Post_World
begin

text \<open>
  The timers of the posting task (\<open>adv_post_timers.c\<close>), the network watchdog's time stamp
  (\<open>network_timeout.c\<close>) and the green LED (\<open>adv_post_green_led.c\<close>). A timer object
  lives in the wrapper library: the calls are effects, and whether a timer runs, with which period,
  is asked of the environment.
\<close>

section \<open>Creation\<close>

definition all_periodic_timers :: "periodic_timer list" where
  "all_periodic_timers =
     [ADV_POST_PERIODIC_TIMER_SIG_RETRANSMIT, ADV_POST_PERIODIC_TIMER_SIG_RETRANSMIT2,
      ADV_POST_PERIODIC_TIMER_SIG_SEND_STATISTICS, ADV_POST_PERIODIC_TIMER_SIG_MQTT,
      ADV_POST_PERIODIC_TIMER_SIG_NETWORK_WATCHDOG, ADV_POST_PERIODIC_TIMER_SIG_WATCHDOG_FEED,
      ADV_POST_PERIODIC_TIMER_SIG_GREEN_LED_UPDATE]"

text \<open>The tables of descriptors: the signal a timer sends and its first period in ticks.\<close>

fun g_adv_post_periodic_timer_sig :: "(u32 \<Rightarrow> u32) \<Rightarrow> periodic_timer \<Rightarrow> adv_post_sig \<times> u32" where
  "g_adv_post_periodic_timer_sig pdMS_TO_TICKS ADV_POST_PERIODIC_TIMER_SIG_RETRANSMIT =
     (ADV_POST_SIG_RETRANSMIT, pdMS_TO_TICKS (ADV_POST_DEFAULT_INTERVAL_SECONDS * TIME_UNITS_MS_PER_SECOND))"
| "g_adv_post_periodic_timer_sig pdMS_TO_TICKS ADV_POST_PERIODIC_TIMER_SIG_RETRANSMIT2 =
     (ADV_POST_SIG_RETRANSMIT2, pdMS_TO_TICKS (ADV_POST_DEFAULT_INTERVAL_SECONDS * TIME_UNITS_MS_PER_SECOND))"
| "g_adv_post_periodic_timer_sig pdMS_TO_TICKS ADV_POST_PERIODIC_TIMER_SIG_MQTT =
     (ADV_POST_SIG_RETRANSMIT_MQTT, 0)"
| "g_adv_post_periodic_timer_sig pdMS_TO_TICKS ADV_POST_PERIODIC_TIMER_SIG_SEND_STATISTICS =
     (ADV_POST_SIG_SEND_STATISTICS,
      pdMS_TO_TICKS ADV_POST_STATISTICS_INTERVAL_SECONDS * TIME_UNITS_MS_PER_SECOND)"
| "g_adv_post_periodic_timer_sig pdMS_TO_TICKS ADV_POST_PERIODIC_TIMER_SIG_NETWORK_WATCHDOG =
     (ADV_POST_SIG_NETWORK_WATCHDOG,
      pdMS_TO_TICKS (RUUVI_NETWORK_WATCHDOG_PERIOD_SECONDS * TIME_UNITS_MS_PER_SECOND))"
| "g_adv_post_periodic_timer_sig pdMS_TO_TICKS ADV_POST_PERIODIC_TIMER_SIG_WATCHDOG_FEED =
     (ADV_POST_SIG_TASK_WATCHDOG_FEED, pdMS_TO_TICKS 1000)"
| "g_adv_post_periodic_timer_sig pdMS_TO_TICKS ADV_POST_PERIODIC_TIMER_SIG_GREEN_LED_UPDATE =
     (ADV_POST_SIG_GREEN_LED_UPDATE, pdMS_TO_TICKS 1000)"

fun g_adv_post_one_shot_timer_sig :: "(u32 \<Rightarrow> u32) \<Rightarrow> one_shot_timer \<Rightarrow> adv_post_sig \<times> u32" where
  "g_adv_post_one_shot_timer_sig pdMS_TO_TICKS ADV_POST_ONE_SHOT_TIMER_SIG_DO_ASYNC_COMM =
     (ADV_POST_SIG_DO_ASYNC_COMM, pdMS_TO_TICKS ADV_POST_DO_ASYNC_COMM_INTERVAL_MS)"
| "g_adv_post_one_shot_timer_sig pdMS_TO_TICKS ADV_POST_ONE_SHOT_TIMER_SIG_RECV_ADV_TIMEOUT =
     (ADV_POST_SIG_RECV_ADV_TIMEOUT, pdMS_TO_TICKS (10 * 1000))"

definition adv_post_delete_timers :: "post_world \<Rightarrow> post_world" where
  "adv_post_delete_timers w =
     fold (\<lambda>t. emit (One_shot_stop t))
       [ADV_POST_ONE_SHOT_TIMER_SIG_DO_ASYNC_COMM, ADV_POST_ONE_SHOT_TIMER_SIG_RECV_ADV_TIMEOUT]
       (fold (\<lambda>t. emit (Periodic_stop t)) all_periodic_timers w)"

section \<open>The network watchdog's time stamp\<close>

definition network_timeout_update_timestamp :: "post_env \<Rightarrow> post_world \<Rightarrow> post_world" where
  "network_timeout_update_timestamp E w = w\<lparr>g_network_timeout_last_successful_timestamp := e_tick E\<rparr>"

definition network_timeout_check :: "post_env \<Rightarrow> post_world \<Rightarrow> bool" where
  "network_timeout_check E w =
     (let timeout_ticks = e_ms_to_ticks E RUUVI_NETWORK_WATCHDOG_TIMEOUT_SECONDS * 1000;
          delta_ticks = e_tick E - g_network_timeout_last_successful_timestamp w
      in delta_ticks > timeout_ticks)"

section \<open>Operations on the timers\<close>

definition adv_post_timers_relaunch_timer_sig_retransmit_to_http_ruuvi :: "post_world \<Rightarrow> post_world" where
  "adv_post_timers_relaunch_timer_sig_retransmit_to_http_ruuvi =
     emit (Periodic_relaunch ADV_POST_PERIODIC_TIMER_SIG_RETRANSMIT)"

definition adv_post_timers_relaunch_timer_sig_retransmit_to_http_custom :: "post_world \<Rightarrow> post_world" where
  "adv_post_timers_relaunch_timer_sig_retransmit_to_http_custom =
     emit (Periodic_relaunch ADV_POST_PERIODIC_TIMER_SIG_RETRANSMIT2)"

definition adv1_post_timer_stop :: "post_world \<Rightarrow> post_world" where
  "adv1_post_timer_stop = emit (Periodic_stop ADV_POST_PERIODIC_TIMER_SIG_RETRANSMIT)"

definition adv2_post_timer_stop :: "post_world \<Rightarrow> post_world" where
  "adv2_post_timer_stop = emit (Periodic_stop ADV_POST_PERIODIC_TIMER_SIG_RETRANSMIT2)"

definition adv_post_timers_restart_timer_sig_mqtt :: "u32 \<Rightarrow> post_world \<Rightarrow> post_world" where
  "adv_post_timers_restart_timer_sig_mqtt delay_ticks =
     emit (Periodic_restart_with_period ADV_POST_PERIODIC_TIMER_SIG_MQTT delay_ticks)"

definition adv_post_timers_stop_timer_sig_mqtt :: "post_world \<Rightarrow> post_world" where
  "adv_post_timers_stop_timer_sig_mqtt = emit (Periodic_stop ADV_POST_PERIODIC_TIMER_SIG_MQTT)"

definition adv_post_timers_stop_timer_sig_send_statistics :: "post_world \<Rightarrow> post_world" where
  "adv_post_timers_stop_timer_sig_send_statistics =
     emit (Periodic_stop ADV_POST_PERIODIC_TIMER_SIG_SEND_STATISTICS)"

definition adv_post_timers_relaunch_timer_sig_send_statistics :: "post_world \<Rightarrow> post_world" where
  "adv_post_timers_relaunch_timer_sig_send_statistics =
     emit (Periodic_relaunch ADV_POST_PERIODIC_TIMER_SIG_SEND_STATISTICS)"

definition adv_post_timers_postpone_sending_statistics :: "post_env \<Rightarrow> post_world \<Rightarrow> post_world" where
  "adv_post_timers_postpone_sending_statistics E =
     emit (Periodic_update_timestamp ADV_POST_PERIODIC_TIMER_SIG_SEND_STATISTICS
       (e_tick E - e_ms_to_ticks E
         ((ADV_POST_STATISTICS_INTERVAL_SECONDS - ADV_POST_INITIAL_DELAY_IN_SENDING_STATISTICS_SECONDS)
          * TIME_UNITS_MS_PER_SECOND)))"

definition adv_post_timers_start_timer_sig_do_async_comm :: "post_world \<Rightarrow> post_world" where
  "adv_post_timers_start_timer_sig_do_async_comm = emit (One_shot_start ADV_POST_ONE_SHOT_TIMER_SIG_DO_ASYNC_COMM)"

definition adv_post_timers_stop_timer_sig_do_async_comm :: "post_world \<Rightarrow> post_world" where
  "adv_post_timers_stop_timer_sig_do_async_comm = emit (One_shot_stop ADV_POST_ONE_SHOT_TIMER_SIG_DO_ASYNC_COMM)"

definition adv_post_timers_start_timer_sig_watchdog_feed :: "post_world \<Rightarrow> post_world" where
  "adv_post_timers_start_timer_sig_watchdog_feed = emit (Periodic_start ADV_POST_PERIODIC_TIMER_SIG_WATCHDOG_FEED)"

definition adv_post_timers_start_timer_sig_network_watchdog :: "post_env \<Rightarrow> post_world \<Rightarrow> post_world" where
  "adv_post_timers_start_timer_sig_network_watchdog E w =
     emit (Periodic_start ADV_POST_PERIODIC_TIMER_SIG_NETWORK_WATCHDOG) (network_timeout_update_timestamp E w)"

definition adv_post_timers_stop_timer_sig_network_watchdog :: "post_world \<Rightarrow> post_world" where
  "adv_post_timers_stop_timer_sig_network_watchdog = emit (Periodic_stop ADV_POST_PERIODIC_TIMER_SIG_NETWORK_WATCHDOG)"

definition adv_post_timers_start_timer_sig_recv_adv_timeout :: "post_world \<Rightarrow> post_world" where
  "adv_post_timers_start_timer_sig_recv_adv_timeout = emit (One_shot_start ADV_POST_ONE_SHOT_TIMER_SIG_RECV_ADV_TIMEOUT)"

definition adv_post_timers_relaunch_timer_sig_recv_adv_timeout :: "post_world \<Rightarrow> post_world" where
  "adv_post_timers_relaunch_timer_sig_recv_adv_timeout = emit (One_shot_relaunch ADV_POST_ONE_SHOT_TIMER_SIG_RECV_ADV_TIMEOUT)"

section \<open>The posting periods\<close>

definition adv_post_timer_relaunch_with_period ::
  "post_env \<Rightarrow> periodic_timer \<Rightarrow> u32 \<Rightarrow> post_world \<Rightarrow> post_world" where
  "adv_post_timer_relaunch_with_period E p_timer_sig period_ms w =
     (let period_ticks = e_ms_to_ticks E period_ms in
      if \<not> e_timer_active E p_timer_sig \<or> e_timer_period E p_timer_sig \<noteq> period_ticks
      then emit (Periodic_relaunch p_timer_sig) (emit (Periodic_set_period p_timer_sig period_ticks) w)
      else w)"

definition adv1_post_timer_relaunch_with_default_period :: "post_env \<Rightarrow> post_world \<Rightarrow> post_world" where
  "adv1_post_timer_relaunch_with_default_period E w =
     adv_post_timer_relaunch_with_period E ADV_POST_PERIODIC_TIMER_SIG_RETRANSMIT
       (g_adv_post_timers1_interval_ms w) w"

definition adv1_post_timer_relaunch_with_increased_period :: "post_env \<Rightarrow> post_world \<Rightarrow> post_world" where
  "adv1_post_timer_relaunch_with_increased_period E w =
     adv_post_timer_relaunch_with_period E ADV_POST_PERIODIC_TIMER_SIG_RETRANSMIT
       ADV_POST_DELAY_BEFORE_RETRYING_POST_AFTER_ERROR_MS w"

definition adv2_post_timer_relaunch_with_default_period :: "post_env \<Rightarrow> post_world \<Rightarrow> post_world" where
  "adv2_post_timer_relaunch_with_default_period E w =
     adv_post_timer_relaunch_with_period E ADV_POST_PERIODIC_TIMER_SIG_RETRANSMIT2
       (g_adv_post_timers2_interval_ms w) w"

definition adv2_post_timer_relaunch_with_increased_period :: "post_env \<Rightarrow> post_world \<Rightarrow> post_world" where
  "adv2_post_timer_relaunch_with_increased_period E w =
     adv_post_timer_relaunch_with_period E ADV_POST_PERIODIC_TIMER_SIG_RETRANSMIT2
       ADV_POST_DELAY_BEFORE_RETRYING_POST_AFTER_ERROR_MS w"

definition adv2_post_timer_set_default_period :: "u32 \<Rightarrow> post_world \<Rightarrow> post_world" where
  "adv2_post_timer_set_default_period period_ms w = w\<lparr>g_adv_post_timers2_interval_ms := period_ms\<rparr>"

definition adv1_post_timer_set_default_period_by_server_resp :: "u32 \<Rightarrow> post_world \<Rightarrow> post_world" where
  "adv1_post_timer_set_default_period_by_server_resp period_ms w =
     (if period_ms \<noteq> g_adv_post_timers1_interval_ms w
      then w\<lparr>g_adv_post_timers1_interval_ms := period_ms\<rparr> else w)"

definition adv2_post_timer_set_default_period_by_server_resp :: "u32 \<Rightarrow> post_world \<Rightarrow> post_world" where
  "adv2_post_timer_set_default_period_by_server_resp period_ms w =
     (if period_ms \<noteq> g_adv_post_timers2_interval_ms w
      then w\<lparr>g_adv_post_timers2_interval_ms := period_ms\<rparr> else w)"

section \<open>The green LED\<close>

definition adv_post_on_green_led_update :: "post_env \<Rightarrow> adv_post_green_led_cmd \<Rightarrow> post_world \<Rightarrow> post_world" where
  "adv_post_on_green_led_update E cmd w =
     (let w1 = (case cmd of
                  ADV_POST_GREEN_LED_CMD_UPDATE \<Rightarrow> w
                | ADV_POST_GREEN_LED_CMD_OFF \<Rightarrow> w\<lparr>g_adv_post_green_led_state := False\<rparr>
                | ADV_POST_GREEN_LED_CMD_ON \<Rightarrow> w\<lparr>g_adv_post_green_led_state := True\<rparr>);
          w2 = (if \<not> e_timer_active E ADV_POST_PERIODIC_TIMER_SIG_GREEN_LED_UPDATE
                then emit (Periodic_start ADV_POST_PERIODIC_TIMER_SIG_GREEN_LED_UPDATE) w1 else w1)
      in emit (Api_send_led_ctrl
           (if g_adv_post_green_led_state w2 then ADV_POST_GREEN_LED_ON_INTERVAL_MS else 0)) w2)"

section \<open>Properties\<close>

text \<open>The network watchdog fires exactly when more than the configured time has passed since the
  last fed time stamp, also when the 32-bit tick counter has wrapped in between, for up to
  \<open>2 ^ 32 - 1\<close> ticks of silence.\<close>

theorem network_watchdog_window:
  assumes "n < 2 ^ 32" and "e_tick E' = e_tick E + word_of_nat n"
  shows "network_timeout_check E' (network_timeout_update_timestamp E w) \<longleftrightarrow>
    n > unat (e_ms_to_ticks E' RUUVI_NETWORK_WATCHDOG_TIMEOUT_SECONDS * 1000)"
proof -
  have "unat (word_of_nat n :: u32) = n" using assms(1) by (simp add: unat_of_nat take_bit_nat_eq_self_iff)
  then show ?thesis
    by (simp add: network_timeout_check_def network_timeout_update_timestamp_def Let_def assms(2) word_less_nat_alt)
qed

theorem network_watchdog_window_witness:
  "network_timeout_check (env_example\<lparr>e_tick := 3600000 + 4\<rparr>)
     (network_timeout_update_timestamp (env_example\<lparr>e_tick := - 1\<rparr>) (adv_post_init 7 9))"
proof -
  have "network_timeout_check (env_example\<lparr>e_tick := 3600000 + 4\<rparr>)
     (network_timeout_update_timestamp (env_example\<lparr>e_tick := - 1\<rparr>) (adv_post_init 7 9)) \<longleftrightarrow>
    3600005 > unat (e_ms_to_ticks (env_example\<lparr>e_tick := 3600000 + 4\<rparr>) RUUVI_NETWORK_WATCHDOG_TIMEOUT_SECONDS * 1000)"
    by (rule network_watchdog_window) simp_all
  then show ?thesis by (simp add: env_example_def RUUVI_NETWORK_WATCHDOG_TIMEOUT_SECONDS_def)
qed

end
