(* ===== verification/Http_Async.thy ===== *)
theory Http_Async
  imports Adv_Post_Timers
begin

text \<open>
  The asynchronous HTTP request of the gateway: \<open>http.c\<close> (the request slot
  \<open>g_http_async_info\<close>, sending, polling, aborting, the response headers),
  \<open>http_post_advs\<close> and \<open>http_post_stat\<close>, and the functions of
  \<open>adv_post_async_comm.c\<close> that the response headers call. The HTTP client itself is the
  environment: it creates or refuses a client, and one \<open>esp_http_client_perform\<close> delivers a
  list of headers and then asks to be polled again, succeeds or fails. The body is described by
  the call that creates its generator.
\<close>

section \<open>The request slot\<close>

definition upd_http :: "(http_async_info \<Rightarrow> http_async_info) \<Rightarrow> post_world \<Rightarrow> post_world" where
  "upd_http f w = w\<lparr>g_http_async_info := f (g_http_async_info w)\<rparr>"

lemma upd_http_parts [simp]:
  "w_trace (upd_http f w) = w_trace w"
  "w_st (upd_http f w) = w_st w"
  "g_adv_post_timers1_interval_ms (upd_http f w) = g_adv_post_timers1_interval_ms w"
  "g_adv_post_timers2_interval_ms (upd_http f w) = g_adv_post_timers2_interval_ms w"
  "g_network_timeout_last_successful_timestamp (upd_http f w) = g_network_timeout_last_successful_timestamp w"
  "g_adv_post_nonce (upd_http f w) = g_adv_post_nonce w"
  "g_adv_post_action (upd_http f w) = g_adv_post_action w"
  "g_p_adv_post_reports_mqtt (upd_http f w) = g_p_adv_post_reports_mqtt w"
  "g_adv_post_reports_mqtt_idx (upd_http f w) = g_adv_post_reports_mqtt_idx w"
  "g_http_async_info (upd_http f w) = f (g_http_async_info w)"
  "g_http_server_mutex (upd_http f w) = g_http_server_mutex w"
  "g_adv_post_cfg_cache (upd_http f w) = g_adv_post_cfg_cache w"
  "w_table (upd_http f w) = w_table w"
  by (simp_all add: upd_http_def)

text \<open>\<open>esp_http_client_cleanup\<close> does nothing with a NULL handle; the callers then clear it.\<close>

definition http_cleanup :: "post_world \<Rightarrow> post_world" where
  "http_cleanup w =
     upd_http (\<lambda>i. i\<lparr>p_http_client_handle := False\<rparr>)
       (if p_http_client_handle (g_http_async_info w) then emit Http_client_cleanup w else w)"

definition info_free_certs :: "http_async_info \<Rightarrow> http_async_info" where
  "info_free_certs i = i\<lparr>p_server_cert := False, p_client_cert := False, p_client_key := False\<rparr>"

definition http_async_info_free_data :: "post_world \<Rightarrow> post_world" where
  "http_async_info_free_data = upd_http (\<lambda>i. (info_free_certs i)\<lparr>p_body := False\<rparr>)"

section \<open>Sending\<close>

definition http_send_async :: "post_env \<Rightarrow> post_world \<Rightarrow> bool \<times> post_world" where
  "http_send_async E w =
     (if \<not> e_set_body_ok E then (False, w)
      else let w1 = emit (Http_set_header ''Content-Type'') w;
               w2 = (if e_hmac_str_valid E then emit (Http_set_header ''Ruuvi-HMAC-SHA256'') w1 else w1)
           in if e_start_perform E \<noteq> Perform_again
              then (False, http_cleanup (upd_http info_free_certs w2))
              else (True, w2))"

definition http_handle_add_authorization_if_needed :: "post_env \<Rightarrow> post_world \<Rightarrow> bool \<times> post_world" where
  "http_handle_add_authorization_if_needed E w =
     (if c_http_auth_type (e_cfg E) \<in>
        {GW_CFG_HTTP_AUTH_TYPE_BEARER, GW_CFG_HTTP_AUTH_TYPE_TOKEN, GW_CFG_HTTP_AUTH_TYPE_APIKEY}
      then if e_alloc_auth E then (True, emit (Http_set_header ''Authorization'') w) else (False, w)
      else (True, w))"

definition adv_post_set_adv_post_http_action :: "bool \<Rightarrow> post_world \<Rightarrow> post_world" where
  "adv_post_set_adv_post_http_action flag_post_to_ruuvi w =
     (if flag_post_to_ruuvi then w\<lparr>g_adv_post_action := ADV_POST_ACTION_POST_ADVS_TO_RUUVI\<rparr>
      else w\<lparr>g_adv_post_action := ADV_POST_ACTION_POST_ADVS_TO_CUSTOM\<rparr>)"

text \<open>Whether raw data and decoded data are posted, by \<open>data_format\<close>.\<close>

definition http_advs_format :: "bool \<Rightarrow> gw_cfg_http_data_format \<Rightarrow> bool \<times> bool" where
  "http_advs_format flag_post_to_ruuvi data_format =
     (if \<not> flag_post_to_ruuvi
      then (case data_format of
              GW_CFG_HTTP_DATA_FORMAT_RUUVI \<Rightarrow> (True, False)
            | GW_CFG_HTTP_DATA_FORMAT_RUUVI_RAW_AND_DECODED \<Rightarrow> (True, True)
            | GW_CFG_HTTP_DATA_FORMAT_RUUVI_DECODED \<Rightarrow> (False, True))
      else (True, False))"

definition http_init_client_config_for_http_target :: "post_env \<Rightarrow> bool \<Rightarrow> post_world \<Rightarrow> bool \<times> post_world" where
  "http_init_client_config_for_http_target E flag_post_to_ruuvi w =
     (let use_ssl_client_cert = (\<not> flag_post_to_ruuvi \<and> c_http_use_ssl_client_cert (e_cfg E));
          use_ssl_server_cert = (\<not> flag_post_to_ruuvi \<and> c_http_use_ssl_server_cert (e_cfg E))
      in if \<not> e_alloc_url E then (False, w)
         else (True, upd_http (\<lambda>i. i\<lparr>p_server_cert := use_ssl_server_cert \<and> e_file_server_cert E,
                p_client_cert := use_ssl_client_cert \<and> e_file_client_cert E,
                p_client_key := use_ssl_client_cert \<and> e_file_client_key E\<rparr>) w))"

text \<open>The part of \<open>http_send_advs_internal\<close> after the generator exists.\<close>

definition http_send_advs_open :: "post_env \<Rightarrow> bool \<Rightarrow> post_world \<Rightarrow> bool \<times> post_world" where
  "http_send_advs_open E flag_post_to_ruuvi w =
     (let (cfg_ok, w1) = http_init_client_config_for_http_target E flag_post_to_ruuvi w in
      if \<not> cfg_ok then (False, http_async_info_free_data w1)
      else if \<not> e_alloc_client E
      then (False, http_async_info_free_data (upd_http (\<lambda>i. i\<lparr>p_http_client_handle := False\<rparr>) w1))
      else let w2 = emit Http_client_init (upd_http (\<lambda>i. i\<lparr>p_http_client_handle := True\<rparr>) w1);
               (auth_ok, w3) = (if \<not> flag_post_to_ruuvi
                                then http_handle_add_authorization_if_needed E w2 else (True, w2))
           in if \<not> auth_ok then (False, http_async_info_free_data w3)
              else let w4 = adv_post_set_adv_post_http_action flag_post_to_ruuvi w3;
                       (sent, w5) = http_send_async E w4
                   in if \<not> sent then (False, http_async_info_free_data (http_cleanup w5))
                      else (True, w5))"

definition http_send_advs_internal ::
  "post_env \<Rightarrow> adv_report list \<Rightarrow> u32 \<Rightarrow> bool \<Rightarrow> bool \<Rightarrow> post_world \<Rightarrow> bool res" where
  "http_send_advs_internal E p_reports nonce use_timestamps flag_post_to_ruuvi w =
     (let rcpt = (if flag_post_to_ruuvi then HTTP_POST_RECIPIENT_ADVS1 else HTTP_POST_RECIPIENT_ADVS2);
          (flag_raw_data, flag_decode) = http_advs_format flag_post_to_ruuvi (c_http_data_format (e_cfg E));
          w1 = upd_http (\<lambda>i. i\<lparr>recipient := rcpt, use_json_stream_gen := True, p_body := e_alloc_gen E\<rparr>) w
      in if \<not> e_alloc_gen E
         then let cnt = g_http_post_advs_malloc_fail_cnt w1 + 1;
                  w2 = w1\<lparr>g_http_post_advs_malloc_fail_cnt := cnt\<rparr>
              in if cnt > RUUVI_MAX_LOW_HEAP_MEM_CNT then stop_with (Gateway_restart ''Low memory'') w2
                 else ret False w2
         else let w2 = emit (Http_post_advs_body rcpt p_reports flag_raw_data flag_decode use_timestamps nonce)
                         (w1\<lparr>g_http_post_advs_malloc_fail_cnt := 0\<rparr>);
                  (ok, w3) = http_send_advs_open E flag_post_to_ruuvi w2
              in ret ok w3)"

text \<open>\<open>os_sema_wait_immediate\<close> takes the semaphore when it is available.\<close>

definition http_post_advs ::
  "post_env \<Rightarrow> adv_report list \<Rightarrow> u32 \<Rightarrow> bool \<Rightarrow> bool \<Rightarrow> post_world \<Rightarrow> bool res" where
  "http_post_advs E p_reports nonce use_timestamps flag_post_to_ruuvi w =
     (if \<not> http_async_sema (g_http_async_info w) then stop_with Assertion_failed w
      else and_then
        (http_send_advs_internal E p_reports nonce use_timestamps flag_post_to_ruuvi
          (upd_http (\<lambda>i. i\<lparr>http_async_sema := False\<rparr>) w))
        (\<lambda>ok w'. if \<not> ok then ret False (upd_http (\<lambda>i. i\<lparr>http_async_sema := True\<rparr>) w')
                 else ret True w'))"

definition http_send_statistics_internal :: "post_env \<Rightarrow> adv_report list \<Rightarrow> u32 \<Rightarrow> post_world \<Rightarrow> bool \<times> post_world" where
  "http_send_statistics_internal E p_reports nonce w =
     (let w1 = upd_http (\<lambda>i. i\<lparr>recipient := HTTP_POST_RECIPIENT_STATS, use_json_stream_gen := False,
                 p_body := e_alloc_stat_json E\<rparr>) w in
      if \<not> e_alloc_stat_json E then (False, w1)
      else let w2 = upd_http (\<lambda>i. i\<lparr>
                  p_server_cert := c_http_stat_use_ssl_server_cert (e_cfg E) \<and> e_file_server_cert E,
                  p_client_cert := c_http_stat_use_ssl_client_cert (e_cfg E) \<and> e_file_client_cert E,
                  p_client_key := c_http_stat_use_ssl_client_cert (e_cfg E) \<and> e_file_client_key E,
                  p_http_client_handle := e_alloc_client E\<rparr>) (emit (Http_post_stat_body p_reports nonce) w1)
           in if \<not> e_alloc_client E then (False, http_async_info_free_data w2)
              else let (sent, w3) = http_send_async E (emit Http_client_init w2)
                   in if \<not> sent then (False, http_async_info_free_data (http_cleanup w3))
                      else (True, w3))"

definition http_post_stat :: "post_env \<Rightarrow> adv_report list \<Rightarrow> u32 \<Rightarrow> post_world \<Rightarrow> bool res" where
  "http_post_stat E p_reports nonce w =
     (if \<not> http_async_sema (g_http_async_info w) then stop_with Assertion_failed w
      else let (ok, w1) = http_send_statistics_internal E p_reports nonce
                 (upd_http (\<lambda>i. i\<lparr>http_async_sema := False\<rparr>) w)
           in if \<not> ok then ret False (upd_http (\<lambda>i. i\<lparr>http_async_sema := True\<rparr>) w1)
              else ret True w1)"

section \<open>Response headers\<close>

definition ascii_lower :: "char \<Rightarrow> char" where
  "ascii_lower c = (if 65 \<le> (of_char c :: nat) \<and> (of_char c :: nat) \<le> 90
                    then char_of ((of_char c :: nat) + 32) else c)"

definition strcasecmp_eq :: "string \<Rightarrow> string \<Rightarrow> bool" where
  "strcasecmp_eq s t \<longleftrightarrow> map ascii_lower s = map ascii_lower t"

definition adv_post_set_default_period :: "u32 \<Rightarrow> post_world \<Rightarrow> post_world" where
  "adv_post_set_default_period period_ms w =
     (case g_adv_post_action w of
        ADV_POST_ACTION_NONE \<Rightarrow> w
      | ADV_POST_ACTION_POST_ADVS_TO_RUUVI \<Rightarrow> adv1_post_timer_set_default_period_by_server_resp period_ms w
      | ADV_POST_ACTION_POST_ADVS_TO_CUSTOM \<Rightarrow> adv2_post_timer_set_default_period_by_server_resp period_ms w
      | ADV_POST_ACTION_POST_STATS \<Rightarrow> w
      | ADV_POST_ACTION_POST_ADVS_TO_MQTT \<Rightarrow> w)"

definition adv_post_set_hmac_sha256_key :: "post_env \<Rightarrow> string \<Rightarrow> post_world \<Rightarrow> bool \<times> post_world" where
  "adv_post_set_hmac_sha256_key E p_key_str w =
     (case g_adv_post_action w of
        ADV_POST_ACTION_NONE \<Rightarrow> (False, w)
      | ADV_POST_ACTION_POST_ADVS_TO_RUUVI \<Rightarrow> (e_hmac_set_ok E, emit (Hmac_set_key Hmac_http_ruuvi p_key_str) w)
      | ADV_POST_ACTION_POST_ADVS_TO_CUSTOM \<Rightarrow> (e_hmac_set_ok E, emit (Hmac_set_key Hmac_http_custom p_key_str) w)
      | ADV_POST_ACTION_POST_STATS \<Rightarrow> (e_hmac_set_ok E, emit (Hmac_set_key Hmac_stats p_key_str) w)
      | ADV_POST_ACTION_POST_ADVS_TO_MQTT \<Rightarrow> (False, w))"

text \<open>The period of the header \<open>X-Ruuvi-Gateway-Rate\<close>, in seconds.\<close>

definition gateway_rate_seconds :: "post_env \<Rightarrow> string \<Rightarrow> u32" where
  "gateway_rate_seconds E header_value =
     (let period_seconds = e_str_to_uint32 E header_value in
      if period_seconds = 0 \<or> period_seconds > 60 * 60 then ADV_POST_DEFAULT_INTERVAL_SECONDS
      else period_seconds)"

text \<open>The posting task registers the handler without user data.\<close>

definition http_post_event_handler_on_header :: "post_env \<Rightarrow> string \<times> string \<Rightarrow> post_world \<Rightarrow> post_world" where
  "http_post_event_handler_on_header E header w =
     (let (header_key, header_value) = header in
      if strcasecmp_eq ''Ruuvi-HMAC-KEY'' header_key then snd (adv_post_set_hmac_sha256_key E header_value w)
      else if strcasecmp_eq ''X-Ruuvi-Gateway-Rate'' header_key
      then adv_post_set_default_period (gateway_rate_seconds E header_value * TIME_UNITS_MS_PER_SECOND) w
      else w)"

section \<open>The response body of a check request\<close>

text \<open>
  \<open>http_resp_cb_info_t\<close> is the user data of the requests that the web interface makes to
  check a configuration: a buffer of \<open>content_length + 1\<close> bytes, where the addition wraps at
  \<open>2 ^ 32\<close>. The buffer is its size and the bytes received; \<open>None\<close> stands for a write
  outside the buffer.
\<close>

record http_resp_cb_info =
  content_length :: u32
  offset :: u32
  p_buf :: "(nat \<times> u8 list) option"

definition cb_info_on_content_length :: "(u32 \<Rightarrow> bool) \<Rightarrow> u32 \<Rightarrow> http_resp_cb_info \<Rightarrow> http_resp_cb_info option" where
  "cb_info_on_content_length os_malloc len cb =
     (if \<not> os_malloc (len + 1) then Some (cb\<lparr>content_length := len, offset := 0, p_buf := None\<rparr>)
      else if unat (len + 1) \<ge> 1
      then Some (cb\<lparr>content_length := len, offset := 0, p_buf := Some (unat (len + 1), [])\<rparr>)
      else None)"

definition http_post_event_handler_on_data :: "u8 list \<Rightarrow> http_resp_cb_info \<Rightarrow> http_resp_cb_info option" where
  "http_post_event_handler_on_data data cb =
     (case p_buf cb of
        None \<Rightarrow> Some cb
      | Some (cap, bytes) \<Rightarrow>
          let remaining_buf = content_length cb - offset cb;
              data_len = word_of_nat (length data) :: u32;
              len = (if data_len \<le> remaining_buf then data_len else remaining_buf);
              offset' = offset cb + len
          in if unat (offset cb) + unat len \<le> cap \<and> unat offset' < cap
             then Some (cb\<lparr>offset := offset',
                    p_buf := Some (cap, take (unat (offset cb)) bytes @ take (unat len) data)\<rparr>)
             else None)"

section \<open>Polling and aborting\<close>

definition http_async_poll_handle_resp_ok :: "post_env \<Rightarrow> post_world \<Rightarrow> post_world" where
  "http_async_poll_handle_resp_ok E w =
     (case recipient (g_http_async_info w) of
        HTTP_POST_RECIPIENT_STATS \<Rightarrow> emit Reset_info_clear_extra_info w
      | HTTP_POST_RECIPIENT_ADVS1 \<Rightarrow> network_timeout_update_timestamp E w
      | HTTP_POST_RECIPIENT_ADVS2 \<Rightarrow> network_timeout_update_timestamp E w)"

definition http_async_poll_handle_resp_err :: "post_env \<Rightarrow> post_world \<Rightarrow> post_world" where
  "http_async_poll_handle_resp_err E w =
     (if e_http_status E = 429
      then (case recipient (g_http_async_info w) of
              HTTP_POST_RECIPIENT_STATS \<Rightarrow> w
            | HTTP_POST_RECIPIENT_ADVS1 \<Rightarrow> network_timeout_update_timestamp E w
            | HTTP_POST_RECIPIENT_ADVS2 \<Rightarrow> network_timeout_update_timestamp E w)
      else w)"

definition http_async_poll_do_actions_after_completion_advs1 :: "post_env \<Rightarrow> bool \<Rightarrow> post_world \<Rightarrow> post_world" where
  "http_async_poll_do_actions_after_completion_advs1 E flag_success w =
     (if flag_success
      then adv1_post_timer_relaunch_with_default_period E (emit (Leds_notify Leds_http1_data_sent_successfully) w)
      else adv1_post_timer_relaunch_with_increased_period E (emit (Leds_notify Leds_http1_data_sent_fail) w))"

definition http_async_poll_do_actions_after_completion_advs2 :: "post_env \<Rightarrow> bool \<Rightarrow> post_world \<Rightarrow> post_world" where
  "http_async_poll_do_actions_after_completion_advs2 E flag_success w =
     (if flag_success
      then adv2_post_timer_relaunch_with_default_period E (emit (Leds_notify Leds_http2_data_sent_successfully) w)
      else adv2_post_timer_relaunch_with_increased_period E (emit (Leds_notify Leds_http2_data_sent_fail) w))"

definition http_async_poll_do_actions_after_completion :: "post_env \<Rightarrow> bool \<Rightarrow> post_world \<Rightarrow> post_world" where
  "http_async_poll_do_actions_after_completion E flag_success w =
     (case recipient (g_http_async_info w) of
        HTTP_POST_RECIPIENT_STATS \<Rightarrow> w
      | HTTP_POST_RECIPIENT_ADVS1 \<Rightarrow> http_async_poll_do_actions_after_completion_advs1 E flag_success w
      | HTTP_POST_RECIPIENT_ADVS2 \<Rightarrow> http_async_poll_do_actions_after_completion_advs2 E flag_success w)"

text \<open>The counter is an array element that the caller chooses by its index.\<close>

definition malloc_fail_cnt :: "nat \<Rightarrow> post_world \<Rightarrow> u32" where
  "malloc_fail_cnt k w = (if k = 0 then g_adv_post_malloc_fail_cnt0 w else g_adv_post_malloc_fail_cnt1 w)"

definition set_malloc_fail_cnt :: "nat \<Rightarrow> u32 \<Rightarrow> post_world \<Rightarrow> post_world" where
  "set_malloc_fail_cnt k n w =
     (if k = 0 then w\<lparr>g_adv_post_malloc_fail_cnt0 := n\<rparr> else w\<lparr>g_adv_post_malloc_fail_cnt1 := n\<rparr>)"

definition http_success :: "post_env \<Rightarrow> bool" where
  "http_success E \<longleftrightarrow> e_poll_perform E = Perform_ok \<and> 200 \<le> e_http_status E \<and> e_http_status E \<le> 299"

text \<open>The end of \<open>http_async_poll\<close>: the client and its data are released, then the slot.\<close>

definition http_async_poll_finish :: "post_env \<Rightarrow> bool \<Rightarrow> post_world \<Rightarrow> bool res" where
  "http_async_poll_finish E flag_success w =
     (let w1 = http_async_info_free_data (http_cleanup w);
          w2 = (if flag_success \<and> recipient (g_http_async_info w1) \<noteq> HTTP_POST_RECIPIENT_STATS
                then emit Fw_mark_app_valid w1 else w1);
          w3 = http_async_poll_do_actions_after_completion E flag_success w2
      in ret True (upd_http (\<lambda>i. i\<lparr>http_async_sema := True\<rparr>) w3))"

definition http_async_poll :: "post_env \<Rightarrow> nat \<Rightarrow> post_world \<Rightarrow> bool res" where
  "http_async_poll E k w =
     (let w1 = fold (http_post_event_handler_on_header E) (e_poll_headers E) w in
      case e_poll_perform E of
        Perform_again \<Rightarrow> ret False w1
      | Perform_ok \<Rightarrow>
          let w2 = (if 200 \<le> e_http_status E \<and> e_http_status E \<le> 299
                    then http_async_poll_handle_resp_ok E w1 else http_async_poll_handle_resp_err E w1)
          in http_async_poll_finish E (200 \<le> e_http_status E \<and> e_http_status E \<le> 299) (set_malloc_fail_cnt k 0 w2)
      | Perform_ssl_handshake_failed \<Rightarrow>
          let cnt = malloc_fail_cnt k w1 + 1;
              w2 = set_malloc_fail_cnt k cnt w1
          in if cnt \<ge> RUUVI_MAX_LOW_HEAP_MEM_CNT then stop_with (Gateway_restart ''Low memory'') w2
             else http_async_poll_finish E False w2
      | Perform_other_error \<Rightarrow> http_async_poll_finish E False (set_malloc_fail_cnt k 0 w1))"

definition http_abort_any_req_during_processing :: "post_world \<Rightarrow> post_world" where
  "http_abort_any_req_during_processing w =
     (let w1 = (if \<not> http_async_sema (g_http_async_info w)
                then http_async_info_free_data (http_cleanup w)
                else w)
      in upd_http (\<lambda>i. i\<lparr>http_async_sema := True\<rparr>) w1)"

section \<open>The slot invariant and the frame\<close>

text \<open>
  An idle slot holds no body and no certificate; a busy one has a client and a body. An operation
  of the slot leaves the task's flags, its mutex, its MQTT buffer and the advertisement table alone.
\<close>

definition http_ok :: "post_world \<Rightarrow> bool" where
  "http_ok w \<longleftrightarrow>
     (let i = g_http_async_info w in
      if http_async_sema i then \<not> p_body i \<and> \<not> p_server_cert i \<and> \<not> p_client_cert i \<and> \<not> p_client_key i
      else p_body i \<and> p_http_client_handle i)"

definition http_busy :: "post_world \<Rightarrow> bool" where
  "http_busy w \<longleftrightarrow> \<not> http_async_sema (g_http_async_info w)"

definition mutex_clean :: "post_world \<Rightarrow> bool" where
  "mutex_clean w \<longleftrightarrow> Mutex_unlocked_by_non_owner \<notin> set (w_trace w)"

definition same_task :: "post_world \<Rightarrow> post_world \<Rightarrow> bool" where
  "same_task w w' \<longleftrightarrow>
     w_st w' = w_st w \<and> g_adv_post_nonce w' = g_adv_post_nonce w \<and>
     g_p_adv_post_reports_mqtt w' = g_p_adv_post_reports_mqtt w \<and>
     g_adv_post_reports_mqtt_idx w' = g_adv_post_reports_mqtt_idx w \<and>
     g_http_server_mutex w' = g_http_server_mutex w \<and>
     g_adv_post_cfg_cache w' = g_adv_post_cfg_cache w \<and> w_table w' = w_table w \<and>
     mutex_clean w' = mutex_clean w"

lemma same_task_refl [simp]: "same_task w w"
  by (simp add: same_task_def)

lemma same_task_trans: "same_task w w' \<Longrightarrow> same_task w' w'' \<Longrightarrow> same_task w w''"
  by (simp add: same_task_def)

lemma mutex_clean_parts [simp]:
  "mutex_clean (emit e w) \<longleftrightarrow> e \<noteq> Mutex_unlocked_by_non_owner \<and> mutex_clean w"
  "mutex_clean (upd_http f w) = mutex_clean w" "mutex_clean (set_st g w) = mutex_clean w"
  by (auto simp: mutex_clean_def)

lemma mutex_clean_cong: "w_trace w' = w_trace w \<Longrightarrow> mutex_clean w' = mutex_clean w"
  by (simp add: mutex_clean_def)

lemma same_task_emit [simp]:
  "e \<noteq> Mutex_unlocked_by_non_owner \<Longrightarrow> same_task w (emit e w') \<longleftrightarrow> same_task w w'"
  "e \<noteq> Mutex_unlocked_by_non_owner \<Longrightarrow> same_task (emit e w) w' \<longleftrightarrow> same_task w w'"
  by (simp_all add: same_task_def)

lemma same_task_upd_http [simp]: "same_task w (upd_http f w') \<longleftrightarrow> same_task w w'"
  by (simp add: same_task_def)

lemma cleanup_parts [simp]:
  "same_task w (http_cleanup w') \<longleftrightarrow> same_task w w'"
  "g_http_async_info (http_cleanup w) = (g_http_async_info w)\<lparr>p_http_client_handle := False\<rparr>"
  "g_adv_post_action (http_cleanup w) = g_adv_post_action w"
  "g_adv_post_timers1_interval_ms (http_cleanup w) = g_adv_post_timers1_interval_ms w"
  "g_adv_post_timers2_interval_ms (http_cleanup w) = g_adv_post_timers2_interval_ms w"
  "w_trace (http_cleanup w) =
     w_trace w @ (if p_http_client_handle (g_http_async_info w) then [Http_client_cleanup] else [])"
  by (simp_all add: http_cleanup_def)

lemma free_data_parts [simp]:
  "same_task w (http_async_info_free_data w') \<longleftrightarrow> same_task w w'"
  "g_http_async_info (http_async_info_free_data w) = (info_free_certs (g_http_async_info w))\<lparr>p_body := False\<rparr>"
  "g_adv_post_action (http_async_info_free_data w) = g_adv_post_action w"
  "g_adv_post_timers1_interval_ms (http_async_info_free_data w) = g_adv_post_timers1_interval_ms w"
  "g_adv_post_timers2_interval_ms (http_async_info_free_data w) = g_adv_post_timers2_interval_ms w"
  "w_trace (http_async_info_free_data w) = w_trace w"
  by (simp_all add: http_async_info_free_data_def)

lemma free_certs_parts [simp]:
  "http_async_sema (info_free_certs i) = http_async_sema i"
  "p_http_client_handle (info_free_certs i) = p_http_client_handle i"
  "p_body (info_free_certs i) = p_body i" "recipient (info_free_certs i) = recipient i"
  "\<not> p_server_cert (info_free_certs i)" "\<not> p_client_cert (info_free_certs i)"
  "\<not> p_client_key (info_free_certs i)"
  by (simp_all add: info_free_certs_def)

lemma set_action_parts [simp]:
  "same_task w (adv_post_set_adv_post_http_action b w') \<longleftrightarrow> same_task w w'"
  "g_http_async_info (adv_post_set_adv_post_http_action b w) = g_http_async_info w"
  "w_trace (adv_post_set_adv_post_http_action b w) = w_trace w"
  "g_adv_post_action (adv_post_set_adv_post_http_action b w) =
     (if b then ADV_POST_ACTION_POST_ADVS_TO_RUUVI else ADV_POST_ACTION_POST_ADVS_TO_CUSTOM)"
  by (simp_all add: adv_post_set_adv_post_http_action_def same_task_def mutex_clean_def)

lemma malloc_cnt_parts [simp]:
  "same_task w (set_malloc_fail_cnt k n w') \<longleftrightarrow> same_task w w'"
  "g_http_async_info (set_malloc_fail_cnt k n w) = g_http_async_info w"
  "g_adv_post_action (set_malloc_fail_cnt k n w) = g_adv_post_action w"
  "g_adv_post_timers1_interval_ms (set_malloc_fail_cnt k n w) = g_adv_post_timers1_interval_ms w"
  "g_adv_post_timers2_interval_ms (set_malloc_fail_cnt k n w) = g_adv_post_timers2_interval_ms w"
  "w_trace (set_malloc_fail_cnt k n w) = w_trace w"
  by (simp_all add: set_malloc_fail_cnt_def same_task_def mutex_clean_def)

lemma update_timestamp_parts [simp]:
  "same_task w (network_timeout_update_timestamp E w') \<longleftrightarrow> same_task w w'"
  "g_http_async_info (network_timeout_update_timestamp E w) = g_http_async_info w"
  "g_adv_post_action (network_timeout_update_timestamp E w) = g_adv_post_action w"
  "g_adv_post_timers1_interval_ms (network_timeout_update_timestamp E w) = g_adv_post_timers1_interval_ms w"
  "g_adv_post_timers2_interval_ms (network_timeout_update_timestamp E w) = g_adv_post_timers2_interval_ms w"
  "w_trace (network_timeout_update_timestamp E w) = w_trace w"
  by (simp_all add: network_timeout_update_timestamp_def same_task_def mutex_clean_def)

lemma relaunch_parts [simp]:
  "same_task w (adv_post_timer_relaunch_with_period E t p w') \<longleftrightarrow> same_task w w'"
  "g_http_async_info (adv_post_timer_relaunch_with_period E t p w) = g_http_async_info w"
  "g_adv_post_action (adv_post_timer_relaunch_with_period E t p w) = g_adv_post_action w"
  by (simp_all add: adv_post_timer_relaunch_with_period_def Let_def)

lemmas relaunch_defs =
  adv1_post_timer_relaunch_with_default_period_def adv1_post_timer_relaunch_with_increased_period_def
  adv2_post_timer_relaunch_with_default_period_def adv2_post_timer_relaunch_with_increased_period_def

lemma on_header_parts:
  "same_task w (http_post_event_handler_on_header E h w)"
  "g_http_async_info (http_post_event_handler_on_header E h w) = g_http_async_info w"
  "g_adv_post_action (http_post_event_handler_on_header E h w) = g_adv_post_action w"
  by (cases h; simp add: http_post_event_handler_on_header_def adv_post_set_hmac_sha256_key_def
      adv_post_set_default_period_def adv1_post_timer_set_default_period_by_server_resp_def
      adv2_post_timer_set_default_period_by_server_resp_def same_task_def mutex_clean_def split: adv_post_action.split)+

lemma headers_parts:
  "same_task w (fold (http_post_event_handler_on_header E) hs w) \<and>
   g_http_async_info (fold (http_post_event_handler_on_header E) hs w) = g_http_async_info w \<and>
   g_adv_post_action (fold (http_post_event_handler_on_header E) hs w) = g_adv_post_action w"
proof (induction hs arbitrary: w)
  case (Cons h hs)
  from Cons [of "http_post_event_handler_on_header E h w"] on_header_parts [where w = w and E = E and h = h]
  show ?case by (auto intro: same_task_trans)
qed simp

lemma send_async_spec:
  assumes "p_body (g_http_async_info w)" and "p_http_client_handle (g_http_async_info w)"
    and "\<not> http_async_sema (g_http_async_info w)" and "http_send_async E w = (ok, w')"
  shows "same_task w w' \<and> g_adv_post_action w' = g_adv_post_action w \<and>
    recipient (g_http_async_info w') = recipient (g_http_async_info w) \<and>
    \<not> http_async_sema (g_http_async_info w') \<and> (ok \<longrightarrow> g_http_async_info w' = g_http_async_info w)"
  using assms by (auto simp: http_send_async_def Let_def split: if_splits)

lemma init_config_spec:
  assumes "http_init_client_config_for_http_target E b w = (ok, w')"
  shows "same_task w w' \<and> g_adv_post_action w' = g_adv_post_action w \<and>
    http_async_sema (g_http_async_info w') = http_async_sema (g_http_async_info w) \<and>
    recipient (g_http_async_info w') = recipient (g_http_async_info w) \<and>
    p_body (g_http_async_info w') = p_body (g_http_async_info w) \<and> w_trace w' = w_trace w \<and>
    p_http_client_handle (g_http_async_info w') = p_http_client_handle (g_http_async_info w) \<and>
    ok = e_alloc_url E"
  using assms by (auto simp: http_init_client_config_for_http_target_def Let_def split: if_splits)

lemma auth_spec:
  assumes "http_handle_add_authorization_if_needed E w = (ok, w')"
  shows "same_task w w' \<and> g_adv_post_action w' = g_adv_post_action w \<and>
    g_http_async_info w' = g_http_async_info w"
  using assms by (auto simp: http_handle_add_authorization_if_needed_def split: if_splits)

lemma send_advs_open_spec:
  assumes body: "p_body (g_http_async_info w)" and busy: "\<not> http_async_sema (g_http_async_info w)"
    and res: "http_send_advs_open E b w = (ok, w')"
  shows "same_task w w' \<and> (ok \<longrightarrow> http_ok w') \<and> \<not> http_async_sema (g_http_async_info w') \<and>
    recipient (g_http_async_info w') = recipient (g_http_async_info w) \<and>
    (\<not> ok \<longrightarrow> g_http_async_info w' = (info_free_certs (g_http_async_info w'))\<lparr>p_body := False\<rparr>) \<and>
    (ok \<longrightarrow> g_adv_post_action w' =
       (if b then ADV_POST_ACTION_POST_ADVS_TO_RUUVI else ADV_POST_ACTION_POST_ADVS_TO_CUSTOM))"
proof -
  obtain cfg w1 where 1: "http_init_client_config_for_http_target E b w = (cfg, w1)" by fastforce
  note s1 = init_config_spec [OF 1]
  define w2 where "w2 = emit Http_client_init (upd_http (\<lambda>i. i\<lparr>p_http_client_handle := True\<rparr>) w1)"
  obtain auth w3 where 3: "(if \<not> b then http_handle_add_authorization_if_needed E w2 else (True, w2)) = (auth, w3)"
    by fastforce
  have s3: "same_task w2 w3 \<and> g_http_async_info w3 = g_http_async_info w2"
    using 3 auth_spec [of E w2 auth w3] by (auto split: if_splits)
  define w4 where "w4 = adv_post_set_adv_post_http_action b w3"
  obtain sent w5 where 5: "http_send_async E w4 = (sent, w5)" by fastforce
  have i4: "g_http_async_info w4 = (g_http_async_info w1)\<lparr>p_http_client_handle := True\<rparr>"
    using s3 by (simp add: w4_def w2_def)
  have s5: "same_task w4 w5 \<and> g_adv_post_action w5 = g_adv_post_action w4 \<and>
    recipient (g_http_async_info w5) = recipient (g_http_async_info w4) \<and>
    \<not> http_async_sema (g_http_async_info w5) \<and> (sent \<longrightarrow> g_http_async_info w5 = g_http_async_info w4)"
    using send_async_spec [OF _ _ _ 5] i4 s1 body busy by simp
  have frame: "same_task w w1" "same_task w w3" "same_task w w5"
    using s1 s3 s5 by (auto simp: same_task_def w2_def w4_def adv_post_set_adv_post_http_action_def mutex_clean_def)
  have res': "(ok, w') =
    (if \<not> cfg then (False, http_async_info_free_data w1)
     else if \<not> e_alloc_client E
     then (False, http_async_info_free_data (upd_http (\<lambda>i. i\<lparr>p_http_client_handle := False\<rparr>) w1))
     else if \<not> auth then (False, http_async_info_free_data w3)
     else if \<not> sent then (False, http_async_info_free_data (http_cleanup w5)) else (True, w5))"
    using res unfolding http_send_advs_open_def Let_def 1 prod.case w2_def [symmetric] 3 w4_def [symmetric] 5
    by (rule sym)
  have i3: "g_http_async_info w3 = (g_http_async_info w1)\<lparr>p_http_client_handle := True\<rparr>"
    using s3 by (simp add: w2_def)
  note parts = frame s1 s5 i3 i4 body busy
  show ?thesis
  proof (cases "cfg \<and> e_alloc_client E \<and> auth \<and> sent")
    case True
    with res' have eq: "ok" "w' = w5" by simp_all
    have act: "g_adv_post_action w4 =
      (if b then ADV_POST_ACTION_POST_ADVS_TO_RUUVI else ADV_POST_ACTION_POST_ADVS_TO_CUSTOM)"
      by (simp add: w4_def)
    from True parts act show ?thesis by (simp add: eq http_ok_def Let_def)
  next
    case False
    then have nok: "\<not> ok" using res' by (auto split: if_splits)
    from False res' consider "w' = http_async_info_free_data w1"
      | "w' = http_async_info_free_data (upd_http (\<lambda>i. i\<lparr>p_http_client_handle := False\<rparr>) w1)"
      | "w' = http_async_info_free_data w3" | "w' = http_async_info_free_data (http_cleanup w5)"
      by (auto split: if_splits)
    then show ?thesis using nok parts by cases (simp_all add: info_free_certs_def)
  qed
qed

lemma post_advs_spec:
  assumes ok: "http_ok w" and idle: "\<not> http_busy w"
  shows "ensures (http_post_advs E rs n ts b w) (\<lambda>r w'. same_task w w' \<and> http_ok w' \<and> http_busy w' = r \<and>
    (r \<longrightarrow> recipient (g_http_async_info w') = (if b then HTTP_POST_RECIPIENT_ADVS1 else HTTP_POST_RECIPIENT_ADVS2) \<and>
      g_adv_post_action w' = (if b then ADV_POST_ACTION_POST_ADVS_TO_RUUVI else ADV_POST_ACTION_POST_ADVS_TO_CUSTOM)))"
proof -
  define w0 where "w0 = upd_http (\<lambda>i. i\<lparr>http_async_sema := False\<rparr>) w"
  obtain raw dec where f: "http_advs_format b (c_http_data_format (e_cfg E)) = (raw, dec)" by fastforce
  let ?rcpt = "if b then HTTP_POST_RECIPIENT_ADVS1 else HTTP_POST_RECIPIENT_ADVS2"
  define w1 where "w1 = upd_http (\<lambda>i. i\<lparr>recipient := ?rcpt, use_json_stream_gen := True, p_body := e_alloc_gen E\<rparr>) w0"
  have idle': "http_async_sema (g_http_async_info w)" using idle by (simp add: http_busy_def)
  show ?thesis
  proof (cases "e_alloc_gen E")
    case True
    define w2 where "w2 = emit (Http_post_advs_body ?rcpt rs raw dec ts n) (w1\<lparr>g_http_post_advs_malloc_fail_cnt := 0\<rparr>)"
    obtain r w3 where 3: "http_send_advs_open E b w2 = (r, w3)" by fastforce
    have i2: "p_body (g_http_async_info w2)" "\<not> http_async_sema (g_http_async_info w2)"
      "recipient (g_http_async_info w2) = ?rcpt"
      using True by (simp_all add: w2_def w1_def w0_def)
    have frame: "same_task w w2" by (simp add: w2_def w1_def w0_def same_task_def mutex_clean_def)
    have internal: "http_send_advs_internal E rs n ts b w0 = ret r w3"
      using True f 3 by (simp add: http_send_advs_internal_def Let_def w1_def w2_def)
    note s = send_advs_open_spec [OF i2(1,2) 3]
    have fr: "same_task w w3" using frame s by (blast intro: same_task_trans)
    have free: "\<not> r \<Longrightarrow> \<not> p_body (g_http_async_info w3) \<and> \<not> p_server_cert (g_http_async_info w3) \<and>
      \<not> p_client_cert (g_http_async_info w3) \<and> \<not> p_client_key (g_http_async_info w3)"
    proof -
      assume "\<not> r"
      with s have e: "g_http_async_info w3 = (info_free_certs (g_http_async_info w3))\<lparr>p_body := False\<rparr>" by blast
      show ?thesis by (subst e, subst e, subst e, subst e) simp
    qed
    show ?thesis
      using idle' internal s fr free i2(3)
      by (cases r) (simp_all add: http_post_advs_def w0_def [symmetric] http_busy_def http_ok_def)
  next
    case False
    have fr: "same_task w (w1\<lparr>g_http_post_advs_malloc_fail_cnt := n'\<rparr>)" for n'
      by (simp add: w1_def w0_def same_task_def mutex_clean_def)
    have "http_send_advs_internal E rs n ts b w0 =
      (let cnt = g_http_post_advs_malloc_fail_cnt w1 + 1; w2 = w1\<lparr>g_http_post_advs_malloc_fail_cnt := cnt\<rparr>
       in if cnt > RUUVI_MAX_LOW_HEAP_MEM_CNT then stop_with (Gateway_restart ''Low memory'') w2 else ret False w2)"
      using False f by (simp add: http_send_advs_internal_def Let_def w1_def)
    then show ?thesis
      using idle' ok fr False
      by (simp add: http_post_advs_def w0_def [symmetric] Let_def http_busy_def http_ok_def)
        (simp add: w1_def w0_def)
  qed
qed

lemma post_stat_spec:
  assumes ok: "http_ok w" and idle: "\<not> http_busy w"
  shows "ensures (http_post_stat E rs n w) (\<lambda>r w'. same_task w w' \<and> http_ok w' \<and> http_busy w' = r \<and>
    g_adv_post_action w' = g_adv_post_action w \<and>
    (r \<longrightarrow> recipient (g_http_async_info w') = HTTP_POST_RECIPIENT_STATS))"
proof -
  have idle': "http_async_sema (g_http_async_info w)" using idle by (simp add: http_busy_def)
  define w0 where "w0 = upd_http (\<lambda>i. i\<lparr>http_async_sema := False\<rparr>) w"
  define w1 where "w1 = upd_http (\<lambda>i. i\<lparr>recipient := HTTP_POST_RECIPIENT_STATS, use_json_stream_gen := False,
                 p_body := e_alloc_stat_json E\<rparr>) w0"
  define w2 where "w2 = upd_http (\<lambda>i. i\<lparr>
                  p_server_cert := c_http_stat_use_ssl_server_cert (e_cfg E) \<and> e_file_server_cert E,
                  p_client_cert := c_http_stat_use_ssl_client_cert (e_cfg E) \<and> e_file_client_cert E,
                  p_client_key := c_http_stat_use_ssl_client_cert (e_cfg E) \<and> e_file_client_key E,
                  p_http_client_handle := e_alloc_client E\<rparr>) (emit (Http_post_stat_body rs n) w1)"
  obtain sent w3 where 3: "http_send_async E (emit Http_client_init w2) = (sent, w3)" by fastforce
  have eq: "http_send_statistics_internal E rs n w0 =
    (if \<not> e_alloc_stat_json E then (False, w1)
     else if \<not> e_alloc_client E then (False, http_async_info_free_data w2)
     else if \<not> sent then (False, http_async_info_free_data (http_cleanup w3)) else (True, w3))"
    unfolding http_send_statistics_internal_def Let_def w1_def [symmetric] w2_def [symmetric] 3 by simp
  have frame: "same_task w w1" "same_task w w2" "g_adv_post_action w1 = g_adv_post_action w"
    "g_adv_post_action w2 = g_adv_post_action w"
    by (simp_all add: w2_def w1_def w0_def)
  have s3: "same_task w w3 \<and> g_adv_post_action w3 = g_adv_post_action w \<and>
      recipient (g_http_async_info w3) = HTTP_POST_RECIPIENT_STATS \<and>
      \<not> http_async_sema (g_http_async_info w3) \<and> (sent \<longrightarrow> g_http_async_info w3 = g_http_async_info w2)"
    if "e_alloc_stat_json E" "e_alloc_client E"
  proof -
    have "p_body (g_http_async_info w2)" "p_http_client_handle (g_http_async_info w2)"
      "\<not> http_async_sema (g_http_async_info w2)" "recipient (g_http_async_info w2) = HTTP_POST_RECIPIENT_STATS"
      using that by (simp_all add: w2_def w1_def w0_def)
    with send_async_spec [OF _ _ _ 3] frame show ?thesis by (auto intro: same_task_trans)
  qed
  have i1: "g_http_async_info w1 = (g_http_async_info w)\<lparr>http_async_sema := False,
      recipient := HTTP_POST_RECIPIENT_STATS, use_json_stream_gen := False, p_body := e_alloc_stat_json E\<rparr>"
    by (simp add: w1_def w0_def)
  show ?thesis
  proof (cases "e_alloc_stat_json E")
    case False
    then show ?thesis using idle' ok frame i1
      by (simp add: http_post_stat_def w0_def [symmetric] eq http_busy_def http_ok_def Let_def)
  next
    case json: True
    show ?thesis
    proof (cases "e_alloc_client E")
      case False
      then show ?thesis using json idle' frame
        by (simp add: http_post_stat_def w0_def [symmetric] eq http_busy_def http_ok_def Let_def)
    next
      case True
      have i2: "p_body (g_http_async_info w2)" "p_http_client_handle (g_http_async_info w2)"
        "\<not> http_async_sema (g_http_async_info w2)" "recipient (g_http_async_info w2) = HTTP_POST_RECIPIENT_STATS"
        using json True by (simp_all add: w2_def w1_def w0_def)
      from s3 [OF json True] i2 json True idle' show ?thesis
        by (cases sent) (simp_all add: http_post_stat_def w0_def [symmetric] eq http_busy_def http_ok_def Let_def)
    qed
  qed
qed

lemma completion_parts [simp]:
  "same_task w (http_async_poll_do_actions_after_completion E s w') \<longleftrightarrow> same_task w w'"
  "g_http_async_info (http_async_poll_do_actions_after_completion E s w) = g_http_async_info w"
  "g_adv_post_action (http_async_poll_do_actions_after_completion E s w) = g_adv_post_action w"
  by (auto simp: http_async_poll_do_actions_after_completion_def relaunch_defs
      http_async_poll_do_actions_after_completion_advs1_def
      http_async_poll_do_actions_after_completion_advs2_def split: http_post_recipient.splits)

lemma resp_parts [simp]:
  "same_task w (http_async_poll_handle_resp_ok E w') \<longleftrightarrow> same_task w w'"
  "g_http_async_info (http_async_poll_handle_resp_ok E w) = g_http_async_info w"
  "g_adv_post_action (http_async_poll_handle_resp_ok E w) = g_adv_post_action w"
  "same_task w (http_async_poll_handle_resp_err E w') \<longleftrightarrow> same_task w w'"
  "g_http_async_info (http_async_poll_handle_resp_err E w) = g_http_async_info w"
  "g_adv_post_action (http_async_poll_handle_resp_err E w) = g_adv_post_action w"
  by (auto simp: http_async_poll_handle_resp_ok_def http_async_poll_handle_resp_err_def
      split: http_post_recipient.splits)

lemma poll_finish_spec:
  "ensures (http_async_poll_finish E s w) (\<lambda>r w'. same_task w w' \<and> http_ok w' \<and> r \<and> \<not> http_busy w' \<and>
     g_adv_post_action w' = g_adv_post_action w \<and> recipient (g_http_async_info w') = recipient (g_http_async_info w))"
  by (simp add: http_async_poll_finish_def Let_def http_ok_def http_busy_def)

lemma poll_spec:
  assumes ok: "http_ok w" and busy: "http_busy w"
  shows "ensures (http_async_poll E k w) (\<lambda>r w'. same_task w w' \<and> http_ok w' \<and> http_busy w' = (\<not> r) \<and>
     g_adv_post_action w' = g_adv_post_action w \<and> recipient (g_http_async_info w') = recipient (g_http_async_info w))"
proof -
  define w1 where "w1 = fold (http_post_event_handler_on_header E) (e_poll_headers E) w"
  have 1: "same_task w w1" "g_http_async_info w1 = g_http_async_info w" "g_adv_post_action w1 = g_adv_post_action w"
    using headers_parts [of w E "e_poll_headers E"] by (simp_all add: w1_def)
  have fin: "ensures (http_async_poll_finish E s w2) (\<lambda>r w'. same_task w w' \<and> http_ok w' \<and> http_busy w' = (\<not> r) \<and>
     g_adv_post_action w' = g_adv_post_action w \<and> recipient (g_http_async_info w') = recipient (g_http_async_info w))"
    if "same_task w w2" "g_http_async_info w2 = g_http_async_info w" "g_adv_post_action w2 = g_adv_post_action w"
    for s w2
    by (rule ensures_mono [OF poll_finish_spec]) (use that in \<open>auto intro: same_task_trans\<close>)
  have unchanged: "http_ok w1 = http_ok w" "http_busy w1 = http_busy w" using 1 by (simp_all add: http_ok_def http_busy_def)
  show ?thesis
    using 1 ok busy unchanged
    by (cases "e_poll_perform E") (simp_all add: http_async_poll_def w1_def [symmetric] Let_def fin)
qed

lemma abort_spec:
  assumes "http_ok w"
  shows "same_task w (http_abort_any_req_during_processing w) \<and> http_ok (http_abort_any_req_during_processing w) \<and>
    \<not> http_busy (http_abort_any_req_during_processing w) \<and>
    g_adv_post_action (http_abort_any_req_during_processing w) = g_adv_post_action w"
  using assms by (simp add: http_abort_any_req_during_processing_def Let_def http_ok_def http_busy_def)

section \<open>The slot as an interface\<close>

text \<open>
  A whole transaction of a client of the slot: start, poll with the given answers, abort when they
  do not complete it.
\<close>

fun poll_until :: "('e \<Rightarrow> post_world \<Rightarrow> bool res) \<Rightarrow> 'e list \<Rightarrow> post_world \<Rightarrow> bool res" where
  "poll_until poll [] w = ret False w"
| "poll_until poll (e # es) w = and_then (poll e w) (\<lambda>d w'. if d then ret True w' else poll_until poll es w')"

definition http_transaction ::
  "('r \<Rightarrow> post_world \<Rightarrow> bool res) \<Rightarrow> ('e \<Rightarrow> post_world \<Rightarrow> bool res) \<Rightarrow> (post_world \<Rightarrow> post_world) \<Rightarrow>
    'r \<Rightarrow> 'e list \<Rightarrow> post_world \<Rightarrow> bool res" where
  "http_transaction start poll abort r es w = and_then (start r w) (\<lambda>b w1. if \<not> b then ret False w1
     else and_then (poll_until poll es w1) (\<lambda>d w2. if d then ret True w2 else ret False (abort w2)))"

text \<open>
  What a client of the slot relies on: a request starts only in an idle slot and occupies it
  exactly when the start succeeds; polling releases it exactly when it reports completion; aborting
  always releases it.
\<close>

locale request_slot =
  fixes slot_ok :: "post_world \<Rightarrow> bool"
    and busy :: "post_world \<Rightarrow> bool"
    and start :: "'r \<Rightarrow> post_world \<Rightarrow> bool res"
    and poll :: "'e \<Rightarrow> post_world \<Rightarrow> bool res"
    and abort :: "post_world \<Rightarrow> post_world"
  assumes start_law: "slot_ok w \<Longrightarrow> \<not> busy w \<Longrightarrow> ensures (start r w) (\<lambda>b w'. slot_ok w' \<and> busy w' = b)"
    and poll_law: "slot_ok w \<Longrightarrow> busy w \<Longrightarrow> ensures (poll e w) (\<lambda>d w'. slot_ok w' \<and> busy w' = (\<not> d))"
    and abort_law: "slot_ok w \<Longrightarrow> slot_ok (abort w) \<and> \<not> busy (abort w)"
begin

lemma poll_until_spec:
  "slot_ok w \<Longrightarrow> busy w \<Longrightarrow> ensures (poll_until poll es w) (\<lambda>d w'. slot_ok w' \<and> busy w' = (\<not> d))"
proof (induction es arbitrary: w)
  case (Cons e es)
  show ?case unfolding poll_until.simps ensures_and_then
    by (rule ensures_mono [OF poll_law [OF Cons.prems]]) (auto simp: Cons.IH)
qed simp

lemma transaction_spec:
  assumes "slot_ok w" and "\<not> busy w"
  shows "ensures (http_transaction start poll abort r es w) (\<lambda>_ w'. slot_ok w' \<and> \<not> busy w')"
  unfolding http_transaction_def ensures_and_then
  by (rule ensures_mono [OF start_law [OF assms]])
    (auto intro!: ensures_mono [OF poll_until_spec] simp: abort_law)

end

record advs_request =
  rq_env :: post_env
  rq_reports :: "adv_report list"
  rq_nonce :: u32
  rq_use_timestamps :: bool
  rq_to_ruuvi :: bool

definition start_advs_request :: "advs_request \<Rightarrow> post_world \<Rightarrow> bool res" where
  "start_advs_request r =
     http_post_advs (rq_env r) (rq_reports r) (rq_nonce r) (rq_use_timestamps r) (rq_to_ruuvi r)"

definition start_stat_request :: "post_env \<times> adv_report list \<times> u32 \<Rightarrow> post_world \<Rightarrow> bool res" where
  "start_stat_request r = (case r of (E, rs, n) \<Rightarrow> http_post_stat E rs n)"

interpretation advs_slot: request_slot http_ok http_busy start_advs_request
  "\<lambda>(E, k). http_async_poll E k" http_abort_any_req_during_processing
  by unfold_locales
    (auto simp: start_advs_request_def abort_spec split: prod.splits
      intro: ensures_mono [OF post_advs_spec] ensures_mono [OF poll_spec])

interpretation stat_slot: request_slot http_ok http_busy start_stat_request
  "\<lambda>(E, k). http_async_poll E k" http_abort_any_req_during_processing
  by unfold_locales
    (auto simp: start_stat_request_def abort_spec split: prod.splits
      intro: ensures_mono [OF post_stat_spec] ensures_mono [OF poll_spec])

section \<open>What a completed poll does\<close>

definition relaunch_effects :: "post_env \<Rightarrow> periodic_timer \<Rightarrow> u32 \<Rightarrow> effect list" where
  "relaunch_effects E t period_ms =
     (if e_timer_active E t \<and> e_timer_period E t = e_ms_to_ticks E period_ms then []
      else [Periodic_set_period t (e_ms_to_ticks E period_ms), Periodic_relaunch t])"

lemma relaunch_trace [simp]:
  "w_trace (adv_post_timer_relaunch_with_period E t p w) = w_trace w @ relaunch_effects E t p"
  by (simp add: adv_post_timer_relaunch_with_period_def relaunch_effects_def Let_def)

definition poll_completion_effects :: "post_env \<Rightarrow> post_world \<Rightarrow> effect list" where
  "poll_completion_effects E w =
     (let s = http_success E in
      case recipient (g_http_async_info w) of
        HTTP_POST_RECIPIENT_STATS \<Rightarrow> (if s then [Reset_info_clear_extra_info] else []) @ [Http_client_cleanup]
      | HTTP_POST_RECIPIENT_ADVS1 \<Rightarrow>
          [Http_client_cleanup] @
          (if s then [Fw_mark_app_valid, Leds_notify Leds_http1_data_sent_successfully] @
             relaunch_effects E ADV_POST_PERIODIC_TIMER_SIG_RETRANSMIT (g_adv_post_timers1_interval_ms w)
           else [Leds_notify Leds_http1_data_sent_fail] @
             relaunch_effects E ADV_POST_PERIODIC_TIMER_SIG_RETRANSMIT ADV_POST_DELAY_BEFORE_RETRYING_POST_AFTER_ERROR_MS)
      | HTTP_POST_RECIPIENT_ADVS2 \<Rightarrow>
          [Http_client_cleanup] @
          (if s then [Fw_mark_app_valid, Leds_notify Leds_http2_data_sent_successfully] @
             relaunch_effects E ADV_POST_PERIODIC_TIMER_SIG_RETRANSMIT2 (g_adv_post_timers2_interval_ms w)
           else [Leds_notify Leds_http2_data_sent_fail] @
             relaunch_effects E ADV_POST_PERIODIC_TIMER_SIG_RETRANSMIT2 ADV_POST_DELAY_BEFORE_RETRYING_POST_AFTER_ERROR_MS))"

text \<open>The watchdog's time stamp moves when the server answered an advertisement post with a
  success or asked to slow down.\<close>

definition poll_feeds_watchdog :: "post_env \<Rightarrow> post_world \<Rightarrow> bool" where
  "poll_feeds_watchdog E w \<longleftrightarrow> recipient (g_http_async_info w) \<noteq> HTTP_POST_RECIPIENT_STATS \<and>
     e_poll_perform E = Perform_ok \<and> (http_success E \<or> e_http_status E = 429)"

lemma finish_trace:
  assumes "p_http_client_handle (g_http_async_info w)"
  shows "ensures (http_async_poll_finish E s w) (\<lambda>_ w'.
    (recipient (g_http_async_info w) = HTTP_POST_RECIPIENT_STATS \<longrightarrow> w_trace w' = w_trace w @ [Http_client_cleanup]) \<and>
    (recipient (g_http_async_info w) = HTTP_POST_RECIPIENT_ADVS1 \<longrightarrow> w_trace w' = w_trace w @ [Http_client_cleanup] @
      (if s then [Fw_mark_app_valid, Leds_notify Leds_http1_data_sent_successfully] @
         relaunch_effects E ADV_POST_PERIODIC_TIMER_SIG_RETRANSMIT (g_adv_post_timers1_interval_ms w)
       else [Leds_notify Leds_http1_data_sent_fail] @ relaunch_effects E ADV_POST_PERIODIC_TIMER_SIG_RETRANSMIT
         ADV_POST_DELAY_BEFORE_RETRYING_POST_AFTER_ERROR_MS)) \<and>
    (recipient (g_http_async_info w) = HTTP_POST_RECIPIENT_ADVS2 \<longrightarrow> w_trace w' = w_trace w @ [Http_client_cleanup] @
      (if s then [Fw_mark_app_valid, Leds_notify Leds_http2_data_sent_successfully] @
         relaunch_effects E ADV_POST_PERIODIC_TIMER_SIG_RETRANSMIT2 (g_adv_post_timers2_interval_ms w)
       else [Leds_notify Leds_http2_data_sent_fail] @ relaunch_effects E ADV_POST_PERIODIC_TIMER_SIG_RETRANSMIT2
         ADV_POST_DELAY_BEFORE_RETRYING_POST_AFTER_ERROR_MS)))"
  using assms
  by (cases "recipient (g_http_async_info w)"; cases s)
    (simp_all add: http_async_poll_finish_def Let_def relaunch_defs
      http_async_poll_do_actions_after_completion_def http_async_poll_do_actions_after_completion_advs1_def
      http_async_poll_do_actions_after_completion_advs2_def)

lemma finish_timestamp [simp]:
  "ensures (http_async_poll_finish E s w)
     (\<lambda>_ w'. g_network_timeout_last_successful_timestamp w' = g_network_timeout_last_successful_timestamp w)"
  by (cases "recipient (g_http_async_info w)"; cases s)
    (simp_all add: http_async_poll_finish_def Let_def relaunch_defs http_cleanup_def http_async_info_free_data_def
      adv_post_timer_relaunch_with_period_def
      http_async_poll_do_actions_after_completion_def http_async_poll_do_actions_after_completion_advs1_def
      http_async_poll_do_actions_after_completion_advs2_def)

lemma resp_ok_trace:
  "w_trace (http_async_poll_handle_resp_ok E w) = w_trace w @
     (if recipient (g_http_async_info w) = HTTP_POST_RECIPIENT_STATS then [Reset_info_clear_extra_info] else [])"
  "w_trace (http_async_poll_handle_resp_err E w) = w_trace w"
  "g_adv_post_timers1_interval_ms (http_async_poll_handle_resp_ok E w) = g_adv_post_timers1_interval_ms w"
  "g_adv_post_timers2_interval_ms (http_async_poll_handle_resp_ok E w) = g_adv_post_timers2_interval_ms w"
  "g_adv_post_timers1_interval_ms (http_async_poll_handle_resp_err E w) = g_adv_post_timers1_interval_ms w"
  "g_adv_post_timers2_interval_ms (http_async_poll_handle_resp_err E w) = g_adv_post_timers2_interval_ms w"
  by (auto simp: http_async_poll_handle_resp_ok_def http_async_poll_handle_resp_err_def
      split: http_post_recipient.splits)

lemma poll_ok_world:
  assumes "e_poll_perform E = Perform_ok"
  shows "http_async_poll E k w =
    (let w1 = fold (http_post_event_handler_on_header E) (e_poll_headers E) w
     in http_async_poll_finish E (http_success E) (set_malloc_fail_cnt k 0
         (if http_success E then http_async_poll_handle_resp_ok E w1 else http_async_poll_handle_resp_err E w1)))"
  using assms by (simp add: http_async_poll_def http_success_def Let_def)

lemma timestamps_resp:
  "g_network_timeout_last_successful_timestamp (http_async_poll_handle_resp_ok E w) =
    (if recipient (g_http_async_info w) \<noteq> HTTP_POST_RECIPIENT_STATS then e_tick E
     else g_network_timeout_last_successful_timestamp w)"
  "g_network_timeout_last_successful_timestamp (http_async_poll_handle_resp_err E w) =
    (if recipient (g_http_async_info w) \<noteq> HTTP_POST_RECIPIENT_STATS \<and> e_http_status E = 429 then e_tick E
     else g_network_timeout_last_successful_timestamp w)"
  "g_network_timeout_last_successful_timestamp (set_malloc_fail_cnt k n w) = g_network_timeout_last_successful_timestamp w"
  by (auto simp: http_async_poll_handle_resp_ok_def http_async_poll_handle_resp_err_def set_malloc_fail_cnt_def
      network_timeout_update_timestamp_def split: http_post_recipient.splits)

section \<open>Counting clients\<close>

definition open_clients :: "post_world \<Rightarrow> int" where
  "open_clients w = int (count_list (w_trace w) Http_client_init) - int (count_list (w_trace w) Http_client_cleanup)"

lemma open_clients_emit [simp]:
  "open_clients (emit e w) = open_clients w +
     (if e = Http_client_init then 1 else if e = Http_client_cleanup then -1 else 0)"
  by (simp add: open_clients_def)

lemma open_clients_cong: "w_trace w = w_trace w' \<Longrightarrow> open_clients w = open_clients w'"
  by (simp add: open_clients_def)

lemma open_clients_parts [simp]:
  "open_clients (upd_http f w) = open_clients w"
  "open_clients (http_async_info_free_data w) = open_clients w"
  "open_clients (adv_post_set_adv_post_http_action b w) = open_clients w"
  "open_clients (w\<lparr>g_http_post_advs_malloc_fail_cnt := n\<rparr>) = open_clients w"
  "open_clients (http_cleanup w) = open_clients w - (if p_http_client_handle (g_http_async_info w) then 1 else 0)"
  by (auto simp: open_clients_def)

lemma init_config_clients:
  "http_init_client_config_for_http_target E b w = (ok, w') \<Longrightarrow> open_clients w' = open_clients w"
  by (auto simp: http_init_client_config_for_http_target_def Let_def split: if_splits)

text \<open>The failure that loses a client: the string of the \<open>Authorization\<close> header of a
  custom server cannot be allocated.\<close>

definition authorization_fails :: "post_env \<Rightarrow> bool \<Rightarrow> bool" where
  "authorization_fails E flag_post_to_ruuvi \<longleftrightarrow>
     e_alloc_gen E \<and> e_alloc_url E \<and> e_alloc_client E \<and> \<not> flag_post_to_ruuvi \<and> \<not> e_alloc_auth E \<and>
     c_http_auth_type (e_cfg E) \<in>
       {GW_CFG_HTTP_AUTH_TYPE_BEARER, GW_CFG_HTTP_AUTH_TYPE_TOKEN, GW_CFG_HTTP_AUTH_TYPE_APIKEY}"

lemma send_async_clients:
  assumes "p_http_client_handle (g_http_async_info w)"
  shows "open_clients (http_cleanup (snd (http_send_async E w))) = open_clients w - 1"
  using assms by (auto simp: http_send_async_def Let_def)

lemma send_async_ok_clients:
  assumes "http_send_async E w = (True, w')"
  shows "open_clients w' = open_clients w"
  using assms by (auto simp: http_send_async_def Let_def split: if_splits)

lemma send_advs_open_clients:
  assumes gen: "e_alloc_gen E" and res: "http_send_advs_open E b w = (ok, w')"
  shows "open_clients w' = open_clients w + (if ok \<or> authorization_fails E b then 1 else 0)"
proof -
  obtain cfg w1 where 1: "http_init_client_config_for_http_target E b w = (cfg, w1)" by fastforce
  note c1 = init_config_clients [OF 1]
  have cfg: "cfg = e_alloc_url E" using init_config_spec [OF 1] by blast
  define w2 where "w2 = emit Http_client_init (upd_http (\<lambda>i. i\<lparr>p_http_client_handle := True\<rparr>) w1)"
  have c2: "open_clients w2 = open_clients w + 1" by (simp add: w2_def c1)
  obtain auth w3 where 3: "(if \<not> b then http_handle_add_authorization_if_needed E w2 else (True, w2)) = (auth, w3)"
    by fastforce
  have c3: "open_clients w3 = open_clients w + 1" "p_http_client_handle (g_http_async_info w3)"
    "auth \<longleftrightarrow> b \<or> e_alloc_auth E \<or> c_http_auth_type (e_cfg E) \<notin>
       {GW_CFG_HTTP_AUTH_TYPE_BEARER, GW_CFG_HTTP_AUTH_TYPE_TOKEN, GW_CFG_HTTP_AUTH_TYPE_APIKEY}"
    using 3 c2 by (auto simp: http_handle_add_authorization_if_needed_def w2_def split: if_splits)
  define w4 where "w4 = adv_post_set_adv_post_http_action b w3"
  have c4: "open_clients w4 = open_clients w + 1" "p_http_client_handle (g_http_async_info w4)"
    using c3 by (simp_all add: w4_def)
  obtain sent w5 where 5: "http_send_async E w4 = (sent, w5)" by fastforce
  note c5 = send_async_clients [OF c4(2), of E, unfolded 5, simplified c4(1), simplified]
  have res': "(ok, w') =
    (if \<not> cfg then (False, http_async_info_free_data w1)
     else if \<not> e_alloc_client E
     then (False, http_async_info_free_data (upd_http (\<lambda>i. i\<lparr>p_http_client_handle := False\<rparr>) w1))
     else if \<not> auth then (False, http_async_info_free_data w3)
     else if \<not> sent then (False, http_async_info_free_data (http_cleanup w5)) else (True, w5))"
    using res unfolding http_send_advs_open_def Let_def 1 prod.case w2_def [symmetric] 3 w4_def [symmetric] 5
    by (rule sym)
  show ?thesis
  proof (cases "cfg \<and> e_alloc_client E \<and> auth \<and> sent")
    case True
    then have "open_clients w5 = open_clients w + 1" using send_async_ok_clients [of E w4 w5] 5 c4 by simp
    with True res' show ?thesis by simp
  next
    case False
    then have nok: "\<not> ok" using res' by (auto split: if_splits)
    consider "\<not> cfg \<or> \<not> e_alloc_client E" | "cfg" "e_alloc_client E" "\<not> auth"
      | "cfg" "e_alloc_client E" "auth" "\<not> sent"
      using False by blast
    then show ?thesis
    proof cases
      case 1
      with res' nok cfg c1 show ?thesis by (auto simp: authorization_fails_def split: if_splits)
    next
      case 2
      with res' nok cfg c3 gen show ?thesis by (auto simp: authorization_fails_def)
    next
      case 3
      with res' nok cfg c3 c5 show ?thesis by (auto simp: authorization_fails_def)
    qed
  qed
qed

section \<open>Properties\<close>

text \<open>C5: a request to any target, started in an idle slot, polled with any answers and
  aborted when these do not complete it, never runs into the slot's assertion and, unless the gateway
  is being restarted, leaves the slot idle with its body and certificates released.\<close>

theorem http_request_transaction:
  assumes "http_ok w" and "\<not> http_busy w"
  shows "ensures (http_transaction start_advs_request (\<lambda>(E, k). http_async_poll E k)
      http_abort_any_req_during_processing r polls w) (\<lambda>_ w'. http_ok w' \<and> \<not> http_busy w') \<and>
    ensures (http_transaction start_stat_request (\<lambda>(E, k). http_async_poll E k)
      http_abort_any_req_during_processing q polls w) (\<lambda>_ w'. http_ok w' \<and> \<not> http_busy w')"
  using advs_slot.transaction_spec [OF assms] stat_slot.transaction_spec [OF assms] by (rule conjI)

lemma init_http [simp]: "http_ok (adv_post_init n m)" "\<not> http_busy (adv_post_init n m)"
  by (simp_all add: http_ok_def http_busy_def adv_post_init_def http_async_info_init_def)

theorem http_request_transaction_witness:
  "ensures (http_transaction start_advs_request (\<lambda>(E, k). http_async_poll E k)
      http_abort_any_req_during_processing
      \<lparr>rq_env = env_example, rq_reports = [], rq_nonce = 7, rq_use_timestamps = False, rq_to_ruuvi = True\<rparr>
      [(env_example\<lparr>e_poll_perform := Perform_again\<rparr>, 0), (env_example, 0)] (adv_post_init 7 9))
    (\<lambda>_ w'. http_ok w' \<and> \<not> http_busy w')"
  by (rule http_request_transaction [THEN conjunct1]) simp_all

text \<open>A poll that completes a request releases the client exactly once, reports the outcome
  on the LED of its target, confirms the firmware after a success, and restarts the target's timer
  with its own period after a success and with 67 seconds after a failure; the period is the one that
  the response headers have just set. The watchdog is fed exactly by a successful answer or by a
  429 to an advertisement post.\<close>

theorem http_poll_completion:
  fixes E :: post_env and w :: post_world
  assumes "http_ok w" and "http_busy w"
  defines "w1 \<equiv> fold (http_post_event_handler_on_header E) (e_poll_headers E) w"
  shows "ensures (http_async_poll E k w) (\<lambda>done w'. done \<longrightarrow>
    w_trace w' = w_trace w1 @ poll_completion_effects E w1 \<and>
    g_network_timeout_last_successful_timestamp w' =
      (if poll_feeds_watchdog E w1 then e_tick E else g_network_timeout_last_successful_timestamp w1))"
proof -
  have h: "p_http_client_handle (g_http_async_info w1)"
    using assms(1,2) headers_parts [of w E "e_poll_headers E"]
    by (simp add: w1_def http_ok_def http_busy_def Let_def)
  have fin: "ensures (http_async_poll_finish E (http_success E) w2)
      (\<lambda>done w'. done \<longrightarrow> w_trace w' = w_trace w1 @ poll_completion_effects E w1 \<and>
        g_network_timeout_last_successful_timestamp w' = g_network_timeout_last_successful_timestamp w2)"
    if "w_trace w2 = w_trace w1 @ (if http_success E \<and> recipient (g_http_async_info w1) = HTTP_POST_RECIPIENT_STATS
        then [Reset_info_clear_extra_info] else [])"
      and "g_http_async_info w2 = g_http_async_info w1"
      and "g_adv_post_timers1_interval_ms w2 = g_adv_post_timers1_interval_ms w1"
      and "g_adv_post_timers2_interval_ms w2 = g_adv_post_timers2_interval_ms w1" for w2
    by (rule ensures_mono [OF ensures_conj [OF finish_trace finish_timestamp]])
      (use that h in \<open>auto simp: poll_completion_effects_def Let_def split: http_post_recipient.splits\<close>)
  show ?thesis
  proof (cases "e_poll_perform E")
    case Perform_ok
    show ?thesis
      unfolding poll_ok_world [OF Perform_ok] Let_def w1_def [symmetric]
      by (rule ensures_mono [OF fin])
        (auto simp: resp_ok_trace timestamps_resp poll_feeds_watchdog_def Perform_ok)
  next
    case Perform_again
    then show ?thesis by (simp add: http_async_poll_def Let_def)
  next
    case Perform_ssl_handshake_failed
    then have s: "\<not> http_success E" "\<not> poll_feeds_watchdog E w1" by (simp_all add: http_success_def poll_feeds_watchdog_def)
    have "ensures (http_async_poll_finish E False (set_malloc_fail_cnt k n w1)) (\<lambda>done w'. done \<longrightarrow>
        w_trace w' = w_trace w1 @ poll_completion_effects E w1 \<and>
        g_network_timeout_last_successful_timestamp w' = g_network_timeout_last_successful_timestamp w1)" for n
      using fin [of "set_malloc_fail_cnt k n w1"] s by (simp add: timestamps_resp)
    then show ?thesis
      using s Perform_ssl_handshake_failed by (simp add: http_async_poll_def w1_def [symmetric] Let_def)
  next
    case Perform_other_error
    then have s: "\<not> http_success E" "\<not> poll_feeds_watchdog E w1" by (simp_all add: http_success_def poll_feeds_watchdog_def)
    have "ensures (http_async_poll_finish E False (set_malloc_fail_cnt k n w1)) (\<lambda>done w'. done \<longrightarrow>
        w_trace w' = w_trace w1 @ poll_completion_effects E w1 \<and>
        g_network_timeout_last_successful_timestamp w' = g_network_timeout_last_successful_timestamp w1)" for n
      using fin [of "set_malloc_fail_cnt k n w1"] s by (simp add: timestamps_resp)
    then show ?thesis
      using s Perform_other_error by (simp add: http_async_poll_def w1_def [symmetric] Let_def)
  qed
qed


theorem http_poll_completion_witness:
  "let w = upd_http (\<lambda>i. i\<lparr>http_async_sema := False, p_body := True, p_http_client_handle := True,
        recipient := HTTP_POST_RECIPIENT_ADVS1\<rparr>) (adv_post_init 7 9)
   in ensures (http_async_poll env_example 0 w) (\<lambda>done w'. done \<longrightarrow>
        w_trace w' = [Http_client_cleanup, Fw_mark_app_valid, Leds_notify Leds_http1_data_sent_successfully] \<and>
        g_network_timeout_last_successful_timestamp w' = 5)"
proof -
  let ?w = "upd_http (\<lambda>i. i\<lparr>http_async_sema := False, p_body := True, p_http_client_handle := True,
        recipient := HTTP_POST_RECIPIENT_ADVS1\<rparr>) (adv_post_init 7 9)"
  have "http_ok ?w" "http_busy ?w" by (simp_all add: http_ok_def http_busy_def)
  from http_poll_completion [OF this, of env_example 0] show ?thesis
    by (simp add: env_example_def poll_completion_effects_def http_success_def poll_feeds_watchdog_def
        relaunch_effects_def adv_post_init_def ADV_POST_DEFAULT_INTERVAL_SECONDS_def TIME_UNITS_MS_PER_SECOND_def)
qed

definition rate_period :: "post_env \<Rightarrow> string \<Rightarrow> nat" where
  "rate_period E v = 1000 * (let n = unat (e_str_to_uint32 E v) in if 1 \<le> n \<and> n \<le> 3600 then n else 10)"

lemma unat_rate: "unat (gateway_rate_seconds E v * TIME_UNITS_MS_PER_SECOND) = rate_period E v"
proof -
  let ?n = "e_str_to_uint32 E v"
  have le: "unat ?n \<le> 3600 \<longleftrightarrow> \<not> ?n > 60 * 60" by (auto simp: word_less_nat_alt)
  have z: "unat ?n = 0 \<longleftrightarrow> ?n = 0" by (simp add: unat_eq_0)
  define m where "m = (if 1 \<le> unat ?n \<and> unat ?n \<le> 3600 then unat ?n else 10)"
  have m: "gateway_rate_seconds E v = word_of_nat m" "m \<le> 3600"
    using le z by (auto simp: gateway_rate_seconds_def m_def Let_def ADV_POST_DEFAULT_INTERVAL_SECONDS_def)
  have "unat (word_of_nat m * (1000 :: u32)) = m * 1000"
    using m(2) by (simp add: unat_word_ariths unat_of_nat take_bit_nat_eq_self_iff)
  then show ?thesis by (simp add: m TIME_UNITS_MS_PER_SECOND_def rate_period_def m_def Let_def)
qed

text \<open>The header \<open>X-Ruuvi-Gateway-Rate\<close>, in any case of its letters, sets the
  period of the target that is being posted to, and of no other, to the number of seconds it gives when
  that is between 1 and 3600 and to 10 seconds otherwise; without such a header no period changes.\<close>

theorem http_rate_header:
  "let w' = http_post_event_handler_on_header E (k, v) w;
       rate = strcasecmp_eq ''X-Ruuvi-Gateway-Rate'' k in
   unat (g_adv_post_timers1_interval_ms w') =
     (if rate \<and> g_adv_post_action w = ADV_POST_ACTION_POST_ADVS_TO_RUUVI then rate_period E v
      else unat (g_adv_post_timers1_interval_ms w)) \<and>
   unat (g_adv_post_timers2_interval_ms w') =
     (if rate \<and> g_adv_post_action w = ADV_POST_ACTION_POST_ADVS_TO_CUSTOM then rate_period E v
      else unat (g_adv_post_timers2_interval_ms w))"
proof -
  have other: "\<not> strcasecmp_eq ''Ruuvi-HMAC-KEY'' k" if "strcasecmp_eq ''X-Ruuvi-Gateway-Rate'' k"
  proof
    assume "strcasecmp_eq ''Ruuvi-HMAC-KEY'' k"
    with that have "strcasecmp_eq ''X-Ruuvi-Gateway-Rate'' ''Ruuvi-HMAC-KEY''" by (simp add: strcasecmp_eq_def)
    then show False by (auto simp: strcasecmp_eq_def dest: arg_cong [where f = length])
  qed
  show ?thesis
    using other
    by (auto simp: http_post_event_handler_on_header_def Let_def adv_post_set_hmac_sha256_key_def
        adv_post_set_default_period_def adv1_post_timer_set_default_period_by_server_resp_def
        adv2_post_timer_set_default_period_by_server_resp_def unat_rate [symmetric]
        split: adv_post_action.splits)
qed

text \<open>A post of advertisements that does not start leaves as many HTTP clients open as
  before, except when the string of the \<open>Authorization\<close> header cannot be allocated: then the
  client that was just created stays open for ever. A post that starts has exactly one more.\<close>

theorem http_post_clients:
  assumes "http_post_advs E rs n ts b w = Inr (started, w')"
  shows "open_clients w' = open_clients w + (if started \<or> authorization_fails E b then 1 else 0)"
proof -
  define w0 where "w0 = upd_http (\<lambda>i. i\<lparr>http_async_sema := False\<rparr>) w"
  from assms have idle: "http_async_sema (g_http_async_info w)"
    by (auto simp: http_post_advs_def stop_with_def split: if_splits)
  obtain raw dec where f: "http_advs_format b (c_http_data_format (e_cfg E)) = (raw, dec)" by fastforce
  have internal: "open_clients w1 = open_clients w + (if r \<or> authorization_fails E b then 1 else 0)"
    if "http_send_advs_internal E rs n ts b w0 = Inr (r, w1)" for r w1
  proof (cases "e_alloc_gen E")
    case True
    define w2 where "w2 = emit (Http_post_advs_body (if b then HTTP_POST_RECIPIENT_ADVS1 else HTTP_POST_RECIPIENT_ADVS2)
       rs raw dec ts n) ((upd_http (\<lambda>i. i\<lparr>recipient := if b then HTTP_POST_RECIPIENT_ADVS1 else HTTP_POST_RECIPIENT_ADVS2,
       use_json_stream_gen := True, p_body := e_alloc_gen E\<rparr>) w0)\<lparr>g_http_post_advs_malloc_fail_cnt := 0\<rparr>)"
    obtain r' w3 where 3: "http_send_advs_open E b w2 = (r', w3)" by fastforce
    have "http_send_advs_internal E rs n ts b w0 = ret r' w3"
      using True f 3 by (simp add: http_send_advs_internal_def Let_def w2_def)
    with that have "r = r'" "w1 = w3" by (simp_all add: ret_def)
    moreover have "open_clients w2 = open_clients w" by (simp add: w2_def w0_def)
    ultimately show ?thesis using send_advs_open_clients [OF True 3] by simp
  next
    case False
    with that f show ?thesis
      by (auto simp: http_send_advs_internal_def Let_def stop_with_def ret_def w0_def authorization_fails_def
          split: if_splits)
  qed
  from assms idle obtain r w1 where r: "http_send_advs_internal E rs n ts b w0 = Inr (r, w1)"
    by (cases "http_send_advs_internal E rs n ts b w0") (auto simp: http_post_advs_def and_then_def w0_def)
  with assms idle have "started = r \<and> open_clients w' = open_clients w1"
    by (auto simp: http_post_advs_def and_then_def w0_def [symmetric] ret_def split: if_splits)
  with internal [OF r] show ?thesis by simp
qed

section \<open>The buffer of a check request\<close>

fun cb_info_receive :: "u8 list list \<Rightarrow> http_resp_cb_info \<Rightarrow> http_resp_cb_info option" where
  "cb_info_receive [] cb = Some cb"
| "cb_info_receive (d # ds) cb = Option.bind (http_post_event_handler_on_data d cb) (cb_info_receive ds)"

lemma on_data_step:
  assumes buf: "p_buf cb = Some (unat (content_length cb) + 1, take (unat (content_length cb)) got)"
    and off: "unat (offset cb) = length (take (unat (content_length cb)) got)"
    and len: "length d < 2 ^ 32"
  shows "\<exists>cb'. http_post_event_handler_on_data d cb = Some cb' \<and> content_length cb' = content_length cb \<and>
    p_buf cb' = Some (unat (content_length cb) + 1, take (unat (content_length cb)) (got @ d)) \<and>
    unat (offset cb') = length (take (unat (content_length cb)) (got @ d))"
proof -
  let ?n = "unat (content_length cb)" and ?o = "unat (offset cb)"
  define l where "l = (if word_of_nat (length d) \<le> content_length cb - offset cb
    then word_of_nat (length d) else content_length cb - offset cb :: u32)"
  have o: "?o = min (length got) ?n" using off by simp
  then have "offset cb \<le> content_length cb" by (simp add: word_le_nat_alt)
  then have rem: "unat (content_length cb - offset cb) = ?n - ?o" by (simp add: unat_sub)
  have dl: "unat (word_of_nat (length d) :: u32) = length d" using len by (simp add: unat_of_nat take_bit_nat_eq_self_iff)
  have l: "unat l = min (length d) (?n - ?o)"
    by (auto simp: l_def word_le_nat_alt dl rem)
  have bound: "?n < 2 ^ 32" using unsigned_less [of "content_length cb"] by simp
  have off': "unat (offset cb + l) = ?o + unat l"
    using l o bound by (subst unat_add_lem [THEN iffD1]) auto
  have bytes: "take ?o (take ?n got) @ take (unat l) d = take ?n (got @ d)"
    using l o by (cases "length got \<le> ?n") (auto simp: min_def)
  have "http_post_event_handler_on_data d cb =
      Some (cb\<lparr>offset := offset cb + l, p_buf := Some (?n + 1, take ?o (take ?n got) @ take (unat l) d)\<rparr>)"
    using l o off' by (simp add: http_post_event_handler_on_data_def buf Let_def l_def [symmetric]) (auto simp: min_def)
  then show ?thesis using bytes off' l o by (auto simp: min_def)
qed

lemma receive_result:
  assumes "p_buf cb = Some (unat (content_length cb) + 1, take (unat (content_length cb)) got)"
    and "unat (offset cb) = length (take (unat (content_length cb)) got)"
    and "\<forall>d \<in> set ds. length d < 2 ^ 32"
  shows "\<exists>cb'. cb_info_receive ds cb = Some cb' \<and>
    p_buf cb' = Some (unat (content_length cb) + 1, take (unat (content_length cb)) (got @ concat ds))"
  using assms
proof (induction ds arbitrary: cb got)
  case (Cons d ds)
  from on_data_step [OF Cons.prems(1,2)] Cons.prems(3) obtain cb' where
    cb': "http_post_event_handler_on_data d cb = Some cb'" "content_length cb' = content_length cb"
      "p_buf cb' = Some (unat (content_length cb) + 1, take (unat (content_length cb)) (got @ d))"
      "unat (offset cb') = length (take (unat (content_length cb)) (got @ d))" by auto
  with Cons.IH [of cb' "got @ d"] Cons.prems(3) show ?case by auto
qed simp

lemma receive_no_buffer: "p_buf cb = None \<Longrightarrow> cb_info_receive ds cb = Some cb"
  by (induction ds) (simp_all add: http_post_event_handler_on_data_def)

text \<open>The response of a check request never leaves its buffer and the buffer holds the
  first \<open>Content-Length\<close> bytes received, for any chunks shorter than 4 GB, when the header is
  accepted; the header itself writes outside the buffer exactly when the length is \<open>2 ^ 32 - 1\<close>
  and the allocator returns a buffer for a request of no bytes.\<close>

theorem check_response_buffer:
  assumes "\<forall>d \<in> set ds. length d < 2 ^ 32"
  shows "case cb_info_on_content_length os_malloc len cb of
      None \<Rightarrow> len = - 1 \<and> os_malloc 0
    | Some cb' \<Rightarrow> (len = - 1 \<longrightarrow> \<not> os_malloc 0) \<and>
        (\<exists>cb''. cb_info_receive ds cb' = Some cb'' \<and>
          p_buf cb'' = (if os_malloc (len + 1) then Some (unat len + 1, take (unat len) (concat ds)) else None))"
proof (cases "os_malloc (len + 1)")
  case False
  then show ?thesis
    using receive_no_buffer [of "cb\<lparr>content_length := len, offset := 0, p_buf := None\<rparr>" ds]
    by (auto simp: cb_info_on_content_length_def)
next
  case True
  show ?thesis
  proof (cases "len = - 1")
    case max: True
    with True show ?thesis by (simp add: cb_info_on_content_length_def)
  next
    case False
    then have "len + 1 \<noteq> 0" by (metis add.commute add_eq_0_iff)
    then have u: "unat (len + 1) = unat len + 1" by (metis add.commute plus_1_eq_Suc unatSuc Suc_eq_plus1)
    let ?cb = "cb\<lparr>content_length := len, offset := 0, p_buf := Some (unat len + 1, [])\<rparr>"
    from True u have "cb_info_on_content_length os_malloc len cb = Some ?cb" by (simp add: cb_info_on_content_length_def)
    moreover from receive_result [of ?cb "[]" ds] assms
    obtain cb'' where "cb_info_receive ds ?cb = Some cb''" "p_buf cb'' = Some (unat len + 1, take (unat len) (concat ds))"
      by auto
    ultimately show ?thesis using True False by simp
  qed
qed

theorem check_response_buffer_witness:
  "case cb_info_on_content_length (\<lambda>n. n \<noteq> 0) 3 \<lparr>content_length = 0, offset = 0, p_buf = None\<rparr> of
     None \<Rightarrow> False
   | Some cb' \<Rightarrow> \<exists>cb''. cb_info_receive [[1, 2], [3, 4]] cb' = Some cb'' \<and> p_buf cb'' = Some (4, [1, 2, 3])"
  using check_response_buffer [where ds = "[[1, 2], [3, 4]]" and os_malloc = "\<lambda>n. n \<noteq> 0" and len = 3
      and cb = "\<lparr>content_length = 0, offset = 0, p_buf = None\<rparr>"]
  by (simp split: option.splits)

theorem http_post_clients_witness:
  "open_clients (snd (projr (http_post_advs
      (env_example\<lparr>e_cfg := cfg_example\<lparr>c_http_auth_type := GW_CFG_HTTP_AUTH_TYPE_TOKEN\<rparr>, e_alloc_auth := False\<rparr>)
      [] 7 False False (adv_post_init 7 9)))) = 1"
proof -
  let ?E = "env_example\<lparr>e_cfg := cfg_example\<lparr>c_http_auth_type := GW_CFG_HTTP_AUTH_TYPE_TOKEN\<rparr>, e_alloc_auth := False\<rparr>"
  have "\<exists>w'. http_post_advs ?E [] 7 False False (adv_post_init 7 9) = Inr (False, w')"
    by (simp add: http_post_advs_def http_send_advs_internal_def http_advs_format_def http_send_advs_open_def
        http_init_client_config_for_http_target_def http_handle_add_authorization_if_needed_def
        env_example_def cfg_example_def Let_def adv_post_init_def http_async_info_init_def ret_def and_then_def)
  then obtain w' where w': "http_post_advs ?E [] 7 False False (adv_post_init 7 9) = Inr (False, w')" by blast
  have "authorization_fails ?E False"
    by (simp add: authorization_fails_def env_example_def cfg_example_def)
  with http_post_clients [OF w'] w' show ?thesis by (simp add: open_clients_def adv_post_init_def)
qed
end
