(* ===== verification/Adv_Post_Comm.thy ===== *)
theory Adv_Post_Comm
  imports Http_Async
begin

text \<open>
  The asynchronous communication of the posting task: \<open>adv_post_async_comm.c\<close> and
  \<open>adv_post_statistics.c\<close>, with the mutex between the task's HTTP posts and the web server
  (\<open>http_server_mutex_*\<close> of \<open>ruuvi_gateway_main.c\<close>). A pass of
  \<open>adv_post_do_async_comm\<close> polls what is in progress and starts at most one new transfer.
\<close>

section \<open>The mutex of the web server\<close>

definition http_server_mutex_try_lock :: "post_world \<Rightarrow> bool \<times> post_world" where
  "http_server_mutex_try_lock w =
     (if g_http_server_mutex w = Mutex_free then (True, w\<lparr>g_http_server_mutex := Mutex_adv_post\<rparr>) else (False, w))"

text \<open>A mutex must be released by the task that took it; a release by another is recorded.\<close>

definition http_server_mutex_unlock :: "post_world \<Rightarrow> post_world" where
  "http_server_mutex_unlock w =
     (if g_http_server_mutex w = Mutex_adv_post then w\<lparr>g_http_server_mutex := Mutex_free\<rparr>
      else emit Mutex_unlocked_by_non_owner w)"

section \<open>Posting advertisements\<close>

definition adv_post_retransmit_advs :: "post_env \<Rightarrow> adv_report list \<Rightarrow> bool \<Rightarrow> bool \<Rightarrow> post_world \<Rightarrow> bool res" where
  "adv_post_retransmit_advs E p_reports use_timestamps flag_post_to_ruuvi w =
     (if \<not> e_alloc_cfg_copy E then ret False w
      else and_then (http_post_advs E p_reports (g_adv_post_nonce w) use_timestamps flag_post_to_ruuvi w)
        (\<lambda>res w'. if \<not> res then ret False w' else ret True w'))"

definition adv_post_do_retransmission :: "post_env \<Rightarrow> bool \<Rightarrow> adv_post_action \<Rightarrow> post_world \<Rightarrow> bool res" where
  "adv_post_do_retransmission E use_timestamps action w =
     (if \<not> e_alloc_reports E then ret False w
      else case action of
        ADV_POST_ACTION_NONE \<Rightarrow> stop_with Assertion_failed w
      | ADV_POST_ACTION_POST_ADVS_TO_RUUVI \<Rightarrow>
          let (tbl, reports) = adv_table_read_retransmission_list1_and_clear (w_table w)
          in adv_post_retransmit_advs E reports use_timestamps True (w\<lparr>w_table := tbl\<rparr>)
      | ADV_POST_ACTION_POST_ADVS_TO_CUSTOM \<Rightarrow>
          let (tbl, reports) = adv_table_read_retransmission_list2_and_clear (w_table w)
          in adv_post_retransmit_advs E reports use_timestamps False (w\<lparr>w_table := tbl\<rparr>)
      | ADV_POST_ACTION_POST_STATS \<Rightarrow> stop_with Assertion_failed w
      | ADV_POST_ACTION_POST_ADVS_TO_MQTT \<Rightarrow>
          let (tbl, reports) = adv_table_read_retransmission_list3_and_clear (w_table w)
          in ret True (w\<lparr>w_table := tbl, g_p_adv_post_reports_mqtt := Some reports,
               g_adv_post_reports_mqtt_idx := 0,
               g_adv_post_reports_mqtt_timestamp := (if c_ntp_use (e_cfg E) then e_time E else 0)\<rparr>))"

text \<open>The guards that the four senders share.\<close>

definition time_not_ready :: "post_env \<Rightarrow> post_world \<Rightarrow> bool" where
  "time_not_ready E w \<longleftrightarrow> flag_use_timestamps (w_st w) \<and> \<not> e_time_is_synchronized E"

definition adv_post_do_async_comm_send_advs1 :: "post_env \<Rightarrow> post_world \<Rightarrow> unit res" where
  "adv_post_do_async_comm_send_advs1 E w =
     (if \<not> flag_network_connected (w_st w) then ret () w
      else if time_not_ready E w then ret () w
      else let (locked, w1) = http_server_mutex_try_lock w in
      if \<not> locked then ret () w1
      else and_then
        (adv_post_do_retransmission E (flag_use_timestamps (w_st w1)) ADV_POST_ACTION_POST_ADVS_TO_RUUVI
          (w1\<lparr>g_adv_post_action := ADV_POST_ACTION_POST_ADVS_TO_RUUVI\<rparr>))
        (\<lambda>res w2.
          if \<not> res
          then ret () (http_server_mutex_unlock (emit (Leds_notify Leds_http1_data_sent_fail)
                 (w2\<lparr>g_adv_post_action := ADV_POST_ACTION_NONE\<rparr>)))
          else ret () (set_st (\<lambda>st. st\<lparr>flag_async_comm_in_progress := True, flag_need_to_send_advs1 := False\<rparr>)
                 (w2\<lparr>g_adv_post_nonce := g_adv_post_nonce w2 + 1\<rparr>))))"

definition adv_post_do_async_comm_send_advs2 :: "post_env \<Rightarrow> post_world \<Rightarrow> unit res" where
  "adv_post_do_async_comm_send_advs2 E w =
     (if \<not> flag_network_connected (w_st w) then ret () w
      else if time_not_ready E w then ret () w
      else let (locked, w1) = http_server_mutex_try_lock w in
      if \<not> locked then ret () w1
      else and_then
        (adv_post_do_retransmission E (flag_use_timestamps (w_st w1)) ADV_POST_ACTION_POST_ADVS_TO_CUSTOM
          (w1\<lparr>g_adv_post_action := ADV_POST_ACTION_POST_ADVS_TO_CUSTOM\<rparr>))
        (\<lambda>res w2.
          if \<not> res
          then ret () (http_server_mutex_unlock (emit (Leds_notify Leds_http2_data_sent_fail)
                 (w2\<lparr>g_adv_post_action := ADV_POST_ACTION_NONE\<rparr>)))
          else ret () (set_st (\<lambda>st. st\<lparr>flag_async_comm_in_progress := True, flag_need_to_send_advs2 := False\<rparr>)
                 (w2\<lparr>g_adv_post_nonce := g_adv_post_nonce w2 + 1\<rparr>))))"

section \<open>Posting statistics\<close>

definition adv_post_stat :: "post_env \<Rightarrow> post_world \<Rightarrow> bool res" where
  "adv_post_stat E w =
     (if \<not> e_alloc_reports E then ret False w
      else let (tbl, reports) = adv_table_statistics_read (w_table w);
               w1 = w\<lparr>w_table := tbl\<rparr>
           in if \<not> e_alloc_reset_info E then ret False w1
              else if \<not> e_alloc_stat_info E then ret False w1
              else http_post_stat E reports (g_adv_post_stat_nonce w1)
                (w1\<lparr>g_adv_post_stat_nonce := g_adv_post_stat_nonce w1 + 1\<rparr>))"

definition adv_post_statistics_do_send :: "post_env \<Rightarrow> post_world \<Rightarrow> bool res" where
  "adv_post_statistics_do_send E w = (if \<not> e_alloc_cfg_copy E then ret False w else adv_post_stat E w)"

definition adv_post_do_async_comm_send_statistics :: "post_env \<Rightarrow> post_world \<Rightarrow> unit res" where
  "adv_post_do_async_comm_send_statistics E w =
     (if \<not> c_use_http_stat (e_cfg E) then ret () (set_st (\<lambda>st. st\<lparr>flag_need_to_send_statistics := False\<rparr>) w)
      else if \<not> flag_network_connected (w_st w) then ret () w
      else if time_not_ready E w then ret () w
      else let (locked, w1) = http_server_mutex_try_lock w in
      if \<not> locked then ret () w1
      else and_then (adv_post_statistics_do_send E (w1\<lparr>g_adv_post_action := ADV_POST_ACTION_POST_STATS\<rparr>))
        (\<lambda>res w2.
          if \<not> res then ret () (http_server_mutex_unlock (w2\<lparr>g_adv_post_action := ADV_POST_ACTION_NONE\<rparr>))
          else ret () (set_st (\<lambda>st. st\<lparr>flag_need_to_send_statistics := False, flag_async_comm_in_progress := True\<rparr>) w2)))"

section \<open>Publishing to MQTT\<close>

definition adv_post_do_async_comm_start_sending_periodic_mqtt :: "post_env \<Rightarrow> post_world \<Rightarrow> unit res" where
  "adv_post_do_async_comm_start_sending_periodic_mqtt E w =
     (let w_off = set_st (\<lambda>st. st\<lparr>flag_need_to_send_mqtt_periodic := False\<rparr>) w in
      if \<not> c_use_mqtt (e_cfg E) then ret () w_off
      else if \<not> flag_network_connected (w_st w) then ret () w_off
      else if \<not> e_mqtt_connected E then ret () w_off
      else if time_not_ready E w then ret () w
      else and_then
        (adv_post_do_retransmission E (flag_use_timestamps (w_st w)) ADV_POST_ACTION_POST_ADVS_TO_MQTT
          (w\<lparr>g_adv_post_action := ADV_POST_ACTION_POST_ADVS_TO_MQTT\<rparr>))
        (\<lambda>res w1.
          if \<not> res then ret () (emit Main_restart_services (w1\<lparr>g_adv_post_action := ADV_POST_ACTION_NONE\<rparr>))
          else ret () (emit (Send_signal ADV_POST_SIG_DO_ASYNC_COMM)
            (set_st (\<lambda>st. st\<lparr>flag_need_to_send_mqtt_periodic := False, flag_async_comm_in_progress := True\<rparr>) w1))))"

text \<open>
  The buffer is a table of 100 reports that \<open>os_calloc\<close> fills with zeros, so reading behind
  \<open>num_of_advs\<close> gives a zero report.
\<close>

definition mqtt_report_at :: "adv_report list \<Rightarrow> u32 \<Rightarrow> adv_report" where
  "mqtt_report_at reports idx = (if unat idx < length reports then reports ! unat idx else zero_report)"

definition adv_post_do_async_comm_in_progress_mqtt :: "post_env \<Rightarrow> post_world \<Rightarrow> bool res" where
  "adv_post_do_async_comm_in_progress_mqtt E w =
     (case g_p_adv_post_reports_mqtt w of
        None \<Rightarrow> stop_with Assertion_failed w
      | Some reports \<Rightarrow>
          let w1 = emit (Mqtt_publish_adv (mqtt_report_at reports (g_adv_post_reports_mqtt_idx w))
                     (c_ntp_use (e_cfg E)) (g_adv_post_reports_mqtt_timestamp w)) w;
              w_free = w1\<lparr>g_p_adv_post_reports_mqtt := None, g_adv_post_reports_mqtt_idx := 0\<rparr>
          in if \<not> e_mqtt_publish_ok E then ret True w_free
             else let idx = g_adv_post_reports_mqtt_idx w1 + 1 in
                  if idx \<ge> word_of_nat (length reports) then ret True w_free
                  else ret False (w1\<lparr>g_adv_post_reports_mqtt_idx := idx\<rparr>))"

section \<open>One pass\<close>

text \<open>What a completed HTTP request resets before the mutex is released.\<close>

definition async_comm_http_done :: "post_world \<Rightarrow> post_world" where
  "async_comm_http_done w =
     (case g_adv_post_action w of
        ADV_POST_ACTION_POST_ADVS_TO_RUUVI \<Rightarrow>
          (set_st (\<lambda>st. st\<lparr>flag_need_to_send_advs1 := False\<rparr>) w)\<lparr>g_adv_post_action := ADV_POST_ACTION_NONE\<rparr>
      | ADV_POST_ACTION_POST_ADVS_TO_CUSTOM \<Rightarrow>
          (set_st (\<lambda>st. st\<lparr>flag_need_to_send_advs2 := False\<rparr>) w)\<lparr>g_adv_post_action := ADV_POST_ACTION_NONE\<rparr>
      | ADV_POST_ACTION_POST_STATS \<Rightarrow>
          (set_st (\<lambda>st. st\<lparr>flag_need_to_send_statistics := False\<rparr>) w)\<lparr>g_adv_post_action := ADV_POST_ACTION_NONE\<rparr>
      | ADV_POST_ACTION_NONE \<Rightarrow> w
      | ADV_POST_ACTION_POST_ADVS_TO_MQTT \<Rightarrow> w)"

definition adv_post_do_async_comm_in_progress :: "post_env \<Rightarrow> post_world \<Rightarrow> bool res" where
  "adv_post_do_async_comm_in_progress E w =
     (if g_adv_post_action w \<noteq> ADV_POST_ACTION_POST_ADVS_TO_MQTT
      then and_then
        (http_async_poll E (if g_adv_post_action w = ADV_POST_ACTION_POST_ADVS_TO_RUUVI then 0 else 1) w)
        (\<lambda>done w1.
          if \<not> done then ret False (adv_post_timers_start_timer_sig_do_async_comm w1)
          else ret True (http_server_mutex_unlock (async_comm_http_done w1)))
      else and_then (adv_post_do_async_comm_in_progress_mqtt E w)
        (\<lambda>done w1. if \<not> done then ret False (adv_post_timers_start_timer_sig_do_async_comm w1) else ret True w1))"

text \<open>The second half of \<open>adv_post_do_async_comm\<close>: at most one transfer is started.\<close>

definition adv_post_start_next :: "post_env \<Rightarrow> post_world \<Rightarrow> unit res" where
  "adv_post_start_next E w =
     (if \<not> flag_relaying_enabled (w_st w) then ret () w
      else if flag_need_to_send_advs1 (w_st w)
      then and_then (adv_post_do_async_comm_send_advs1 E w) (\<lambda>_ w'. ret () (adv_post_timers_start_timer_sig_do_async_comm w'))
      else if flag_need_to_send_advs2 (w_st w)
      then and_then (adv_post_do_async_comm_send_advs2 E w) (\<lambda>_ w'. ret () (adv_post_timers_start_timer_sig_do_async_comm w'))
      else if flag_need_to_send_statistics (w_st w)
      then and_then (adv_post_do_async_comm_send_statistics E w) (\<lambda>_ w'. ret () (adv_post_timers_start_timer_sig_do_async_comm w'))
      else if flag_need_to_send_mqtt_periodic (w_st w)
      then and_then (adv_post_do_async_comm_start_sending_periodic_mqtt E w) (\<lambda>_ w'. ret () (adv_post_timers_start_timer_sig_do_async_comm w'))
      else ret () w)"

definition adv_post_do_async_comm :: "post_env \<Rightarrow> post_world \<Rightarrow> unit res" where
  "adv_post_do_async_comm E w =
     (if flag_async_comm_in_progress (w_st w)
      then and_then (adv_post_do_async_comm_in_progress E w)
        (\<lambda>done w1. if \<not> done then ret () w1
          else adv_post_start_next E (set_st (\<lambda>st. st\<lparr>flag_async_comm_in_progress := False\<rparr>) w1))
      else adv_post_start_next E w)"

section \<open>The invariant\<close>

definition http_action :: "adv_post_action \<Rightarrow> bool" where
  "http_action a \<longleftrightarrow> a \<in> {ADV_POST_ACTION_POST_ADVS_TO_RUUVI, ADV_POST_ACTION_POST_ADVS_TO_CUSTOM,
     ADV_POST_ACTION_POST_STATS}"

definition mqtt_buffer_ok :: "post_world \<Rightarrow> bool" where
  "mqtt_buffer_ok w = (case g_p_adv_post_reports_mqtt w of
     None \<Rightarrow> False
   | Some rs \<Rightarrow> length rs \<le> MAX_ADVS_TABLE \<and>
       (g_adv_post_reports_mqtt_idx w = 0 \<or> unat (g_adv_post_reports_mqtt_idx w) < length rs))"

text \<open>
  A transfer is in progress exactly when the task holds what that transfer needs: the request slot
  and the web server's mutex for an HTTP post, the buffer and an index inside it for MQTT.
\<close>

definition post_inv :: "post_world \<Rightarrow> bool" where
  "post_inv w \<longleftrightarrow> http_ok w \<and> adv_table_inv (w_table w) \<and>
     (let p = flag_async_comm_in_progress (w_st w); a = g_adv_post_action w in
      http_busy w = (p \<and> http_action a) \<and> (g_http_server_mutex w = Mutex_adv_post) = (p \<and> http_action a) \<and>
      (p \<longrightarrow> a \<noteq> ADV_POST_ACTION_NONE) \<and> (p \<and> a = ADV_POST_ACTION_POST_ADVS_TO_MQTT \<longrightarrow> mqtt_buffer_ok w))"

lemma http_action_simps [simp]:
  "http_action ADV_POST_ACTION_POST_ADVS_TO_RUUVI" "http_action ADV_POST_ACTION_POST_ADVS_TO_CUSTOM"
  "http_action ADV_POST_ACTION_POST_STATS" "\<not> http_action ADV_POST_ACTION_NONE"
  "\<not> http_action ADV_POST_ACTION_POST_ADVS_TO_MQTT"
  by (simp_all add: http_action_def)

lemma http_action_iff: "http_action a \<longleftrightarrow> a \<noteq> ADV_POST_ACTION_NONE \<and> a \<noteq> ADV_POST_ACTION_POST_ADVS_TO_MQTT"
  by (cases a) simp_all

lemma http_view_cong:
  "g_http_async_info w' = g_http_async_info w \<Longrightarrow> http_ok w' = http_ok w \<and> http_busy w' = http_busy w"
  by (simp add: http_ok_def http_busy_def)

lemma http_view_parts [simp]:
  "http_ok (emit e w) = http_ok w" "http_busy (emit e w) = http_busy w"
  "http_ok (set_st f w) = http_ok w" "http_busy (set_st f w) = http_busy w"
  "http_ok (w\<lparr>g_adv_post_action := a\<rparr>) = http_ok w" "http_busy (w\<lparr>g_adv_post_action := a\<rparr>) = http_busy w"
  "http_ok (w\<lparr>g_adv_post_nonce := n\<rparr>) = http_ok w" "http_busy (w\<lparr>g_adv_post_nonce := n\<rparr>) = http_busy w"
  "http_ok (w\<lparr>g_http_server_mutex := m\<rparr>) = http_ok w" "http_busy (w\<lparr>g_http_server_mutex := m\<rparr>) = http_busy w"
  "http_ok (w\<lparr>w_table := t\<rparr>) = http_ok w" "http_busy (w\<lparr>w_table := t\<rparr>) = http_busy w"
  "http_ok (w\<lparr>g_adv_post_stat_nonce := n\<rparr>) = http_ok w" "http_busy (w\<lparr>g_adv_post_stat_nonce := n\<rparr>) = http_busy w"
  by (simp_all add: http_ok_def http_busy_def)

lemma clean_view_parts [simp]:
  "mutex_clean (w\<lparr>g_adv_post_action := a\<rparr>) = mutex_clean w"
  "mutex_clean (w\<lparr>g_adv_post_nonce := n\<rparr>) = mutex_clean w"
  "mutex_clean (w\<lparr>g_http_server_mutex := m\<rparr>) = mutex_clean w"
  "mutex_clean (w\<lparr>w_table := t\<rparr>) = mutex_clean w"
  "mutex_clean (w\<lparr>g_adv_post_stat_nonce := n\<rparr>) = mutex_clean w"
  by (simp_all add: mutex_clean_def)

lemma unlock_owned [simp]:
  "g_http_server_mutex w = Mutex_adv_post \<Longrightarrow> http_server_mutex_unlock w = w\<lparr>g_http_server_mutex := Mutex_free\<rparr>"
  by (simp add: http_server_mutex_unlock_def)

text \<open>What one attempt to start an HTTP post guarantees.\<close>

definition post_attempt :: "post_world \<Rightarrow> bool \<Rightarrow> post_world \<Rightarrow> bool" where
  "post_attempt w r w' \<longleftrightarrow> http_ok w' \<and> http_busy w' = r \<and> adv_table_inv (w_table w') \<and> w_st w' = w_st w \<and>
     g_http_server_mutex w' = g_http_server_mutex w \<and> mutex_clean w' = mutex_clean w \<and>
     (r \<longrightarrow> g_adv_post_action w' = g_adv_post_action w)"

lemma retransmit_spec:
  assumes "http_ok w" "\<not> http_busy w" "adv_table_inv (w_table w)"
    and "g_adv_post_action w = (if b then ADV_POST_ACTION_POST_ADVS_TO_RUUVI else ADV_POST_ACTION_POST_ADVS_TO_CUSTOM)"
  shows "ensures (adv_post_retransmit_advs E rs ts b w) (post_attempt w)"
  using assms
  by (auto simp: adv_post_retransmit_advs_def post_attempt_def same_task_def
      intro!: ensures_mono [OF post_advs_spec])

lemma do_retransmission_spec:
  assumes "http_ok w" "\<not> http_busy w" "adv_table_inv (w_table w)"
    and "g_adv_post_action w = a"
    and "a = ADV_POST_ACTION_POST_ADVS_TO_RUUVI \<or> a = ADV_POST_ACTION_POST_ADVS_TO_CUSTOM"
  shows "ensures (adv_post_do_retransmission E ts a w) (post_attempt w)"
proof -
  have "ensures (adv_post_retransmit_advs E (snd (rlist_drain L (w_table w) [])) ts b
      (w\<lparr>w_table := fst (rlist_drain L (w_table w) [])\<rparr>)) (post_attempt w)"
    if "a = (if b then ADV_POST_ACTION_POST_ADVS_TO_RUUVI else ADV_POST_ACTION_POST_ADVS_TO_CUSTOM)" for L b
    by (rule ensures_mono [OF retransmit_spec])
      (use assms that in \<open>auto simp: drain_inv post_attempt_def\<close>)
  from this [of True RList1] this [of False RList2] assms show ?thesis
    by (auto simp: adv_post_do_retransmission_def split_beta Let_def post_attempt_def
        adv_table_read_retransmission_list1_and_clear_def adv_table_read_retransmission_list2_and_clear_def)
qed

lemma statistics_spec:
  assumes "http_ok w" "\<not> http_busy w" "adv_table_inv (w_table w)"
  shows "ensures (adv_post_statistics_do_send E w) (post_attempt w)"
proof -
  have tbl: "adv_table_inv (fst (adv_table_statistics_read (w_table w)))"
    using statistics_scan_inv [OF assms(3)] by (simp add: adv_table_statistics_read_def)
  obtain tbl' rs where t: "adv_table_statistics_read (w_table w) = (tbl', rs)" by fastforce
  let ?w = "w\<lparr>w_table := tbl', g_adv_post_stat_nonce := g_adv_post_stat_nonce w + 1\<rparr>"
  have ok: "http_ok ?w" "\<not> http_busy ?w" using assms by (simp_all add: http_ok_def http_busy_def)
  have c: "mutex_clean ?w = mutex_clean w" by (simp add: mutex_clean_def)
  have "ensures (http_post_stat E rs (g_adv_post_stat_nonce w) ?w) (post_attempt w)"
    by (rule ensures_mono [OF post_stat_spec [OF ok]])
      (use tbl t c in \<open>auto simp: post_attempt_def same_task_def\<close>)
  then show ?thesis
    using assms tbl by (auto simp: adv_post_statistics_do_send_def adv_post_stat_def t Let_def post_attempt_def)
qed

definition keeps_post_inv :: "post_world \<Rightarrow> 'a \<Rightarrow> post_world \<Rightarrow> bool" where
  "keeps_post_inv w _ w' \<longleftrightarrow> post_inv w' \<and> mutex_clean w' = mutex_clean w \<and>
     flag_relaying_enabled (w_st w') = flag_relaying_enabled (w_st w)"

lemma idle_facts:
  assumes "post_inv w" and "\<not> flag_async_comm_in_progress (w_st w)"
  shows "http_ok w" "\<not> http_busy w" "adv_table_inv (w_table w)" "g_http_server_mutex w \<noteq> Mutex_adv_post"
  using assms by (simp_all add: post_inv_def Let_def)

text \<open>The two ends of an attempt: the transfer runs, or the mutex is given back.\<close>

lemma attempt_failed:
  assumes "post_attempt (w\<lparr>g_http_server_mutex := Mutex_adv_post, g_adv_post_action := a\<rparr>) False w2"
    and "\<not> flag_async_comm_in_progress (w_st w)"
  shows "keeps_post_inv w x (http_server_mutex_unlock (w2\<lparr>g_adv_post_action := ADV_POST_ACTION_NONE\<rparr>))"
    and "e \<noteq> Mutex_unlocked_by_non_owner \<Longrightarrow> keeps_post_inv w x
      (http_server_mutex_unlock (emit e (w2\<lparr>g_adv_post_action := ADV_POST_ACTION_NONE\<rparr>)))"
  using assms by (simp_all add: keeps_post_inv_def post_inv_def post_attempt_def Let_def)

lemma attempt_done:
  assumes "post_attempt (w\<lparr>g_http_server_mutex := Mutex_adv_post, g_adv_post_action := a\<rparr>) True w2"
    and "http_action a"
    and "flag_async_comm_in_progress (upd (w_st w))"
    and "flag_relaying_enabled (upd (w_st w)) = flag_relaying_enabled (w_st w)"
  shows "keeps_post_inv w x (set_st upd w2)" "keeps_post_inv w x (set_st upd (w2\<lparr>g_adv_post_nonce := n\<rparr>))"
  using assms by (auto simp: keeps_post_inv_def post_inv_def post_attempt_def Let_def http_action_iff)

lemma keeps_refl [simp]: "keeps_post_inv w x w \<longleftrightarrow> post_inv w"
  by (simp add: keeps_post_inv_def)

lemma send_advs1_inv:
  assumes "post_inv w" and "\<not> flag_async_comm_in_progress (w_st w)"
  shows "ensures (adv_post_do_async_comm_send_advs1 E w) (keeps_post_inv w)"
proof -
  have send: "ensures (adv_post_do_retransmission E (flag_use_timestamps (w_st w)) ADV_POST_ACTION_POST_ADVS_TO_RUUVI
      (w\<lparr>g_http_server_mutex := Mutex_adv_post, g_adv_post_action := ADV_POST_ACTION_POST_ADVS_TO_RUUVI\<rparr>))
    (post_attempt (w\<lparr>g_http_server_mutex := Mutex_adv_post, g_adv_post_action := ADV_POST_ACTION_POST_ADVS_TO_RUUVI\<rparr>))"
    by (rule do_retransmission_spec) (use idle_facts [OF assms] in simp_all)
  show ?thesis
    using assms
    by (auto simp: adv_post_do_async_comm_send_advs1_def http_server_mutex_try_lock_def
        intro!: ensures_mono [OF send] attempt_failed attempt_done)
qed

lemma send_advs2_inv:
  assumes "post_inv w" and "\<not> flag_async_comm_in_progress (w_st w)"
  shows "ensures (adv_post_do_async_comm_send_advs2 E w) (keeps_post_inv w)"
proof -
  have send: "ensures (adv_post_do_retransmission E (flag_use_timestamps (w_st w)) ADV_POST_ACTION_POST_ADVS_TO_CUSTOM
      (w\<lparr>g_http_server_mutex := Mutex_adv_post, g_adv_post_action := ADV_POST_ACTION_POST_ADVS_TO_CUSTOM\<rparr>))
    (post_attempt (w\<lparr>g_http_server_mutex := Mutex_adv_post, g_adv_post_action := ADV_POST_ACTION_POST_ADVS_TO_CUSTOM\<rparr>))"
    by (rule do_retransmission_spec) (use idle_facts [OF assms] in simp_all)
  show ?thesis
    using assms
    by (auto simp: adv_post_do_async_comm_send_advs2_def http_server_mutex_try_lock_def
        intro!: ensures_mono [OF send] attempt_failed attempt_done)
qed

lemma mqtt_buffer_parts [simp]:
  "mqtt_buffer_ok (set_st f w) = mqtt_buffer_ok w" "mqtt_buffer_ok (emit e w) = mqtt_buffer_ok w"
  by (simp_all add: mqtt_buffer_ok_def split: option.split)

lemma keeps_set_st:
  assumes "post_inv w" and "\<And>st. flag_async_comm_in_progress (upd st) = flag_async_comm_in_progress st"
    and "\<And>st. flag_relaying_enabled (upd st) = flag_relaying_enabled st"
  shows "keeps_post_inv w x (set_st upd w)"
  using assms by (auto simp: keeps_post_inv_def post_inv_def Let_def)

lemma send_statistics_inv:
  assumes "post_inv w" and "\<not> flag_async_comm_in_progress (w_st w)"
  shows "ensures (adv_post_do_async_comm_send_statistics E w) (keeps_post_inv w)"
proof -
  have send: "ensures (adv_post_statistics_do_send E
      (w\<lparr>g_http_server_mutex := Mutex_adv_post, g_adv_post_action := ADV_POST_ACTION_POST_STATS\<rparr>))
    (post_attempt (w\<lparr>g_http_server_mutex := Mutex_adv_post, g_adv_post_action := ADV_POST_ACTION_POST_STATS\<rparr>))"
    by (rule statistics_spec) (use idle_facts [OF assms] in simp_all)
  show ?thesis
    using assms
    by (auto simp: adv_post_do_async_comm_send_statistics_def http_server_mutex_try_lock_def
        intro!: ensures_mono [OF send] attempt_failed attempt_done keeps_set_st)
qed

lemma start_mqtt_inv:
  assumes "post_inv w" and "\<not> flag_async_comm_in_progress (w_st w)"
  shows "ensures (adv_post_do_async_comm_start_sending_periodic_mqtt E w) (keeps_post_inv w)"
proof -
  note idle = idle_facts [OF assms]
  have len: "length (snd (rlist_drain RList3 (w_table w) [])) \<le> MAX_ADVS_TABLE"
    using drain_pending [OF idle(3), of RList3] pending_length [OF idle(3), of RList3] by simp
  have tbl: "adv_table_inv (fst (rlist_drain RList3 (w_table w) []))" using drain_inv [OF idle(3)] .
  show ?thesis
    using assms idle len tbl
    by (auto simp: adv_post_do_async_comm_start_sending_periodic_mqtt_def adv_post_do_retransmission_def
        adv_table_read_retransmission_list3_and_clear_def split_beta Let_def
        intro!: keeps_set_st)
      (auto simp: keeps_post_inv_def post_inv_def Let_def mqtt_buffer_ok_def http_ok_def http_busy_def mutex_clean_def)
qed

lemma keeps_trans: "keeps_post_inv w x w' \<Longrightarrow> keeps_post_inv w' y w'' \<Longrightarrow> keeps_post_inv w z w''"
  by (simp add: keeps_post_inv_def)

lemma keeps_emit [simp]:
  assumes "e \<noteq> Mutex_unlocked_by_non_owner"
  shows "keeps_post_inv w x (emit e w') \<longleftrightarrow> keeps_post_inv w x w'"
  using assms by (simp add: keeps_post_inv_def post_inv_def Let_def)

definition stopped :: "post_world \<Rightarrow> post_world" where
  "stopped = set_st (\<lambda>st. st\<lparr>flag_async_comm_in_progress := False\<rparr>)"

lemma http_done_parts [simp]:
  "http_ok (async_comm_http_done w) = http_ok w" "http_busy (async_comm_http_done w) = http_busy w"
  "w_table (async_comm_http_done w) = w_table w"
  "g_http_server_mutex (async_comm_http_done w) = g_http_server_mutex w"
  "mutex_clean (async_comm_http_done w) = mutex_clean w"
  "flag_relaying_enabled (w_st (async_comm_http_done w)) = flag_relaying_enabled (w_st w)"
  by (simp_all add: async_comm_http_done_def split: adv_post_action.split)

lemma in_progress_http_inv:
  assumes inv: "post_inv w" and prog: "flag_async_comm_in_progress (w_st w)"
    and http: "g_adv_post_action w \<noteq> ADV_POST_ACTION_POST_ADVS_TO_MQTT"
  shows "ensures (adv_post_do_async_comm_in_progress E w)
    (\<lambda>done w'. keeps_post_inv w done (if done then stopped w' else w') \<and> (done \<longrightarrow> flag_relaying_enabled (w_st w') = flag_relaying_enabled (w_st w)))"
proof -
  from inv prog http have i: "http_ok w" "http_busy w" "g_http_server_mutex w = Mutex_adv_post"
    "adv_table_inv (w_table w)" "http_action (g_adv_post_action w)"
    by (auto simp: post_inv_def Let_def http_action_iff)
  let ?k = "if g_adv_post_action w = ADV_POST_ACTION_POST_ADVS_TO_RUUVI then 0 else 1"
  have waiting: "keeps_post_inv w x w'"
    if "same_task w w' \<and> http_ok w' \<and> http_busy w' \<and> g_adv_post_action w' = g_adv_post_action w" for x w'
    using that i prog http
    by (auto simp: keeps_post_inv_def post_inv_def Let_def same_task_def)
  have finished: "keeps_post_inv w x (stopped (http_server_mutex_unlock (async_comm_http_done w')))"
    if "same_task w w' \<and> http_ok w' \<and> \<not> http_busy w'" for x w'
    using that i by (simp add: keeps_post_inv_def post_inv_def Let_def same_task_def stopped_def)
  have eq: "adv_post_do_async_comm_in_progress E w = and_then (http_async_poll E ?k w) (\<lambda>done w1.
      if \<not> done then ret False (adv_post_timers_start_timer_sig_do_async_comm w1)
      else ret True (http_server_mutex_unlock (async_comm_http_done w1)))"
    using http by (simp add: adv_post_do_async_comm_in_progress_def)
  have relay: "flag_relaying_enabled (w_st (http_server_mutex_unlock (async_comm_http_done w'))) =
      flag_relaying_enabled (w_st w)" if "same_task w w'" for w'
    using that i by (simp add: same_task_def)
  show ?thesis
    unfolding eq ensures_and_then
  proof (rule ensures_mono [OF poll_spec [OF i(1,2), of E ?k]], goal_cases)
    case (1 r w')
    then show ?case
      using waiting [of w' False] finished [of w' True] relay [of w']
      by (cases r) (simp_all add: adv_post_timers_start_timer_sig_do_async_comm_def)
  qed
qed

lemma in_progress_mqtt_inv:
  assumes inv: "post_inv w" and prog: "flag_async_comm_in_progress (w_st w)"
    and mqtt: "g_adv_post_action w = ADV_POST_ACTION_POST_ADVS_TO_MQTT"
  shows "ensures (adv_post_do_async_comm_in_progress E w)
    (\<lambda>done w'. keeps_post_inv w done (if done then stopped w' else w') \<and> (done \<longrightarrow> flag_relaying_enabled (w_st w') = flag_relaying_enabled (w_st w)))"
proof -
  from inv prog mqtt obtain rs where rs: "g_p_adv_post_reports_mqtt w = Some rs" "length rs \<le> MAX_ADVS_TABLE"
    by (auto simp: post_inv_def Let_def mqtt_buffer_ok_def split: option.splits)
  have i: "http_ok w" "\<not> http_busy w" "g_http_server_mutex w \<noteq> Mutex_adv_post" "adv_table_inv (w_table w)"
    using inv mqtt by (simp_all add: post_inv_def Let_def)
  let ?idx = "g_adv_post_reports_mqtt_idx w + 1"
  define w1 where "w1 = emit (Mqtt_publish_adv (mqtt_report_at rs (g_adv_post_reports_mqtt_idx w))
      (c_ntp_use (e_cfg E)) (g_adv_post_reports_mqtt_timestamp w)) w"
  have freed: "keeps_post_inv w x (stopped (w1\<lparr>g_p_adv_post_reports_mqtt := None, g_adv_post_reports_mqtt_idx := 0\<rparr>))" for x
    using i by (simp add: keeps_post_inv_def post_inv_def Let_def stopped_def w1_def http_ok_def http_busy_def mutex_clean_def)
  have next_ok: "keeps_post_inv w x (w1\<lparr>g_adv_post_reports_mqtt_idx := ?idx\<rparr>)" if "\<not> ?idx \<ge> word_of_nat (length rs)" for x
  proof -
    have "unat (word_of_nat (length rs) :: u32) = length rs"
      using rs(2) by (simp add: unat_of_nat take_bit_nat_eq_self_iff MAX_ADVS_TABLE_def)
    with that have "unat ?idx < length rs" by (simp add: word_le_nat_alt)
    then show ?thesis using i rs mqtt
      by (simp add: keeps_post_inv_def post_inv_def Let_def w1_def http_ok_def http_busy_def mutex_clean_def mqtt_buffer_ok_def)
  qed
  show ?thesis
    using mqtt freed [of True, unfolded w1_def] next_ok [of False, unfolded w1_def]
    by (simp add: adv_post_do_async_comm_in_progress_def adv_post_do_async_comm_in_progress_mqtt_def rs Let_def
        adv_post_timers_start_timer_sig_do_async_comm_def)
qed

lemma start_next_inv:
  assumes "post_inv w" and "\<not> flag_async_comm_in_progress (w_st w)"
  shows "ensures (adv_post_start_next E w) (keeps_post_inv w)"
  using assms
  by (auto simp: adv_post_start_next_def adv_post_timers_start_timer_sig_do_async_comm_def
      intro: ensures_mono [OF send_advs1_inv] ensures_mono [OF send_advs2_inv]
        ensures_mono [OF send_statistics_inv] ensures_mono [OF start_mqtt_inv])

lemma do_async_comm_inv [inv_intros]:
  assumes "post_inv w"
  shows "ensures (adv_post_do_async_comm E w) (keeps_post_inv w)"
proof (cases "flag_async_comm_in_progress (w_st w)")
  case True
  have prog: "ensures (adv_post_do_async_comm_in_progress E w)
    (\<lambda>done w'. keeps_post_inv w done (if done then stopped w' else w') \<and> (done \<longrightarrow> flag_relaying_enabled (w_st w') = flag_relaying_enabled (w_st w)))"
    using in_progress_http_inv [OF assms True] in_progress_mqtt_inv [OF assms True] by blast
  show ?thesis
    using True
  proof (simp add: adv_post_do_async_comm_def stopped_def [symmetric], intro ensures_mono [OF prog] conjI impI)
    fix a w'
    assume k: "keeps_post_inv w a (if a then stopped w' else w') \<and> (a \<longrightarrow> flag_relaying_enabled (w_st w') = flag_relaying_enabled (w_st w))"
    { assume "\<not> a" with k show "keeps_post_inv w () w'" by (simp add: keeps_post_inv_def) }
    assume a: "a"
    with k have s: "post_inv (stopped w')" "keeps_post_inv w () (stopped w')" by (simp_all add: keeps_post_inv_def)
    show "ensures (adv_post_start_next E (stopped w')) (keeps_post_inv w)"
      by (rule ensures_mono [OF start_next_inv [OF s(1)]]) (use s(2) in \<open>auto simp: stopped_def intro: keeps_trans\<close>)
  qed
next
  case False
  with start_next_inv [OF assms] show ?thesis by (simp add: adv_post_do_async_comm_def)
qed

section \<open>What a started post contains\<close>

definition extends :: "post_world \<Rightarrow> post_world \<Rightarrow> bool" where
  "extends w w' \<longleftrightarrow> (\<exists>es. w_trace w' = w_trace w @ es)"

lemma extends_simps [simp]:
  "extends w w" "extends w w' \<Longrightarrow> extends w (emit e w')" "extends w (upd_http f w') = extends w w'"
  "extends w (http_async_info_free_data w') = extends w w'"
  "extends w (adv_post_set_adv_post_http_action b w') = extends w w'"
  by (auto simp: extends_def)

lemma extends_mem: "extends w w' \<Longrightarrow> e \<in> set (w_trace w) \<Longrightarrow> e \<in> set (w_trace w')"
  by (auto simp: extends_def)

lemma extends_trans: "extends w w' \<Longrightarrow> extends w' w'' \<Longrightarrow> extends w w''"
  by (auto simp: extends_def)

lemma extends_open: "http_send_advs_open E b w = (True, w') \<Longrightarrow> extends w w'"
  by (auto simp: http_send_advs_open_def http_init_client_config_for_http_target_def Let_def
      http_handle_add_authorization_if_needed_def http_send_async_def split: if_splits prod.splits)

lemma post_advs_body:
  "ensures (http_post_advs E rs n ts b w) (\<lambda>r w'. r \<longrightarrow>
     Http_post_advs_body (if b then HTTP_POST_RECIPIENT_ADVS1 else HTTP_POST_RECIPIENT_ADVS2) rs
       (fst (http_advs_format b (c_http_data_format (e_cfg E))))
       (snd (http_advs_format b (c_http_data_format (e_cfg E)))) ts n \<in> set (w_trace w')) \<or>
   http_busy w"
proof (cases "http_async_sema (g_http_async_info w)")
  case True
  obtain raw dec where f: "http_advs_format b (c_http_data_format (e_cfg E)) = (raw, dec)" by fastforce
  let ?body = "Http_post_advs_body (if b then HTTP_POST_RECIPIENT_ADVS1 else HTTP_POST_RECIPIENT_ADVS2) rs raw dec ts n"
  have "?body \<in> set (w_trace w')" if "http_send_advs_open E b (emit ?body v) = (True, w')" for v w'
    using extends_mem [OF extends_open [OF that]] by simp
  then show ?thesis
    using True f
    by (auto simp: http_post_advs_def http_send_advs_internal_def Let_def split: prod.splits)
next
  case False
  then show ?thesis by (simp add: http_busy_def)
qed

section \<open>Properties\<close>

definition pending_reports :: "rlist \<Rightarrow> post_world \<Rightarrow> adv_report list" where
  "pending_reports L w = map (report_at (w_table w)) (g_adv_reports_retransmission_list (w_table w) L)"

text \<open>The two outcomes of an attempt to post to the Ruuvi cloud.\<close>

definition advs1_started :: "post_env \<Rightarrow> post_world \<Rightarrow> post_world \<Rightarrow> bool" where
  "advs1_started E w w' \<longleftrightarrow>
     Http_post_advs_body HTTP_POST_RECIPIENT_ADVS1 (pending_reports RList1 w) True False
       (flag_use_timestamps (w_st w)) (g_adv_post_nonce w) \<in> set (w_trace w') \<and>
     g_adv_post_nonce w' = g_adv_post_nonce w + 1 \<and> g_adv_post_action w' = ADV_POST_ACTION_POST_ADVS_TO_RUUVI \<and>
     g_http_server_mutex w' = Mutex_adv_post \<and> http_busy w' \<and>
     w_st w' = (w_st w)\<lparr>flag_async_comm_in_progress := True, flag_need_to_send_advs1 := False\<rparr> \<and>
     pending_reports RList1 w' = []"

definition advs1_failed :: "post_env \<Rightarrow> post_world \<Rightarrow> post_world \<Rightarrow> bool" where
  "advs1_failed E w w' \<longleftrightarrow>
     last (w_trace w') = Leds_notify Leds_http1_data_sent_fail \<and>
     g_adv_post_nonce w' = g_adv_post_nonce w \<and> g_adv_post_action w' = ADV_POST_ACTION_NONE \<and>
     g_http_server_mutex w' = Mutex_free \<and> \<not> http_busy w' \<and> w_st w' = w_st w \<and>
     pending_reports RList1 w' = (if e_alloc_reports E then [] else pending_reports RList1 w)"

lemma attempt_advs1:
  assumes "http_ok w" "\<not> http_busy w" "adv_table_inv (w_table w)"
    and "g_adv_post_action w = ADV_POST_ACTION_POST_ADVS_TO_RUUVI"
  shows "ensures (adv_post_do_retransmission E ts ADV_POST_ACTION_POST_ADVS_TO_RUUVI w) (\<lambda>r w'.
     post_attempt w r w' \<and> g_adv_post_nonce w' = g_adv_post_nonce w \<and>
     pending_reports RList1 w' = (if e_alloc_reports E then [] else pending_reports RList1 w) \<and>
     (r \<longrightarrow> e_alloc_reports E \<and> Http_post_advs_body HTTP_POST_RECIPIENT_ADVS1 (pending_reports RList1 w) True False ts
        (g_adv_post_nonce w) \<in> set (w_trace w')))"
proof -
  let ?d = "rlist_drain RList1 (w_table w) []"
  define v where "v = w\<lparr>w_table := fst ?d\<rparr>"
  have d: "rlist_emptied RList1 (w_table w) (fst ?d)" "snd ?d = pending_reports RList1 w"
    using drain_pending [OF assms(3), of RList1] by (simp_all add: pending_reports_def)
  have v: "http_ok v" "\<not> http_busy v" "g_adv_post_nonce v = g_adv_post_nonce w"
    "adv_table_inv (w_table v)" "pending_reports RList1 v = []"
    using assms d by (simp_all add: v_def drain_inv pending_reports_def rlist_emptied_def)
  have frame: "pending_reports RList1 w' = [] \<and> g_adv_post_nonce w' = g_adv_post_nonce w"
    if "same_task v w'" for w' using that v by (simp add: same_task_def pending_reports_def)
  have body: "ensures (http_post_advs E (pending_reports RList1 w) (g_adv_post_nonce w) ts True v) (\<lambda>r w'. r \<longrightarrow>
     Http_post_advs_body HTTP_POST_RECIPIENT_ADVS1 (pending_reports RList1 w) True False ts (g_adv_post_nonce w)
       \<in> set (w_trace w'))"
    using post_advs_body [of E "pending_reports RList1 w" "g_adv_post_nonce w" ts True v] v
    by (simp add: http_advs_format_def)
  have att: "ensures (adv_post_retransmit_advs E (pending_reports RList1 w) ts True v) (\<lambda>r w'.
     post_attempt w r w' \<and> g_adv_post_nonce w' = g_adv_post_nonce w \<and> pending_reports RList1 w' = [] \<and>
     (r \<longrightarrow> Http_post_advs_body HTTP_POST_RECIPIENT_ADVS1 (pending_reports RList1 w) True False ts
        (g_adv_post_nonce w) \<in> set (w_trace w')))"
  proof (cases "e_alloc_cfg_copy E")
    case True
    have "post_attempt w r w'" if "same_task v w' \<and> http_ok w' \<and> http_busy w' = r \<and>
      (r \<longrightarrow> recipient (g_http_async_info w') = HTTP_POST_RECIPIENT_ADVS1 \<and>
        g_adv_post_action w' = ADV_POST_ACTION_POST_ADVS_TO_RUUVI)" for r w'
      using that v assms by (auto simp: post_attempt_def same_task_def v_def)
    note pa = this
    have "ensures (http_post_advs E (pending_reports RList1 w) (g_adv_post_nonce w) ts True v) (\<lambda>r w'.
      post_attempt w r w' \<and> g_adv_post_nonce w' = g_adv_post_nonce w \<and> pending_reports RList1 w' = [] \<and>
      (r \<longrightarrow> Http_post_advs_body HTTP_POST_RECIPIENT_ADVS1 (pending_reports RList1 w) True False ts
        (g_adv_post_nonce w) \<in> set (w_trace w')))"
    proof (rule ensures_mono [OF ensures_conj [OF post_advs_spec [OF v(1,2)] body]], goal_cases)
      case (1 r w')
      then show ?case using frame [of w'] pa [of w' r] by simp
    qed
    moreover have "adv_post_retransmit_advs E (pending_reports RList1 w) ts True v =
      and_then (http_post_advs E (pending_reports RList1 w) (g_adv_post_nonce w) ts True v) ret"
      using True v(3) by (simp add: adv_post_retransmit_advs_def and_then_def split: sum.split)
    ultimately show ?thesis by simp
  next
    case False
    then show ?thesis using v assms by (simp add: adv_post_retransmit_advs_def post_attempt_def v_def)
  qed
  show ?thesis
  proof (cases "e_alloc_reports E")
    case True
    then show ?thesis
      using att by (simp add: adv_post_do_retransmission_def adv_table_read_retransmission_list1_and_clear_def
          split_beta d(2) v_def)
  next
    case False
    then show ?thesis using assms by (simp add: adv_post_do_retransmission_def post_attempt_def)
  qed
qed

text \<open>C4: an attempt to post to the Ruuvi cloud does nothing without network, while the clock is
  needed and not synchronised, or while the web server holds the mutex. Otherwise it either starts a
  request whose body is exactly the pending list with the current nonce, keeps mutex and slot, and
  clears the request flag, or it fails, gives the mutex back and keeps the flag; the pending
  advertisements are gone from the list in both cases, unless the buffer itself could not be allocated,
  so a post that fails to start loses them for this target.\<close>

theorem send_advs1_outcome:
  assumes "post_inv w" and "\<not> flag_async_comm_in_progress (w_st w)"
  shows "ensures (adv_post_do_async_comm_send_advs1 E w) (\<lambda>_ w'.
     if \<not> flag_network_connected (w_st w) \<or> time_not_ready E w \<or> g_http_server_mutex w \<noteq> Mutex_free then w' = w
     else advs1_started E w w' \<or> advs1_failed E w w')"
proof -
  let ?v = "w\<lparr>g_http_server_mutex := Mutex_adv_post, g_adv_post_action := ADV_POST_ACTION_POST_ADVS_TO_RUUVI\<rparr>"
  have pend: "pending_reports RList1 ?v = pending_reports RList1 w" by (simp add: pending_reports_def)
  have att: "ensures (adv_post_do_retransmission E ts ADV_POST_ACTION_POST_ADVS_TO_RUUVI ?v) (\<lambda>r w'.
     post_attempt ?v r w' \<and> g_adv_post_nonce w' = g_adv_post_nonce w \<and>
     pending_reports RList1 w' = (if e_alloc_reports E then [] else pending_reports RList1 w) \<and>
     (r \<longrightarrow> e_alloc_reports E \<and> Http_post_advs_body HTTP_POST_RECIPIENT_ADVS1 (pending_reports RList1 w) True False ts
        (g_adv_post_nonce w) \<in> set (w_trace w')))" for ts
  proof -
    have "http_ok ?v" "\<not> http_busy ?v" "adv_table_inv (w_table ?v)"
      "g_adv_post_action ?v = ADV_POST_ACTION_POST_ADVS_TO_RUUVI"
      using idle_facts [OF assms] by simp_all
    from attempt_advs1 [OF this, of E ts, unfolded pend] show ?thesis by simp
  qed
  have pst: "pending_reports RList1 (w'\<lparr>g_http_server_mutex := m\<rparr>) = pending_reports RList1 w'"
    "pending_reports RList1 (emit e w') = pending_reports RList1 w'"
    "pending_reports RList1 (w'\<lparr>g_adv_post_action := a\<rparr>) = pending_reports RList1 w'"
    "pending_reports RList1 (set_st f w') = pending_reports RList1 w'"
    "pending_reports RList1 (w'\<lparr>g_adv_post_nonce := n\<rparr>) = pending_reports RList1 w'" for w' m e a f n
    by (simp_all add: pending_reports_def)
  show ?thesis
  proof (cases "\<not> flag_network_connected (w_st w) \<or> time_not_ready E w \<or> g_http_server_mutex w \<noteq> Mutex_free")
    case True
    then show ?thesis by (auto simp: adv_post_do_async_comm_send_advs1_def http_server_mutex_try_lock_def)
  next
    case False
    then have eq: "adv_post_do_async_comm_send_advs1 E w = and_then
        (adv_post_do_retransmission E (flag_use_timestamps (w_st w)) ADV_POST_ACTION_POST_ADVS_TO_RUUVI ?v)
        (\<lambda>res w2. if \<not> res
          then ret () (http_server_mutex_unlock (emit (Leds_notify Leds_http1_data_sent_fail)
                 (w2\<lparr>g_adv_post_action := ADV_POST_ACTION_NONE\<rparr>)))
          else ret () (set_st (\<lambda>st. st\<lparr>flag_async_comm_in_progress := True, flag_need_to_send_advs1 := False\<rparr>)
                 (w2\<lparr>g_adv_post_nonce := g_adv_post_nonce w2 + 1\<rparr>)))"
      by (simp add: adv_post_do_async_comm_send_advs1_def http_server_mutex_try_lock_def)
    show ?thesis
      unfolding eq ensures_and_then
    proof (rule ensures_mono [OF att], goal_cases)
      case (1 r w')
      with False show ?case
        by (cases r) (simp_all add: advs1_started_def advs1_failed_def post_attempt_def pst)
    qed
  qed
qed

lemma post_inv_init [simp]: "post_inv (adv_post_init n m)"
  using adv_table_inv_init
  by (simp add: post_inv_def http_ok_def http_busy_def adv_post_init_def http_async_info_init_def adv_post_state_init_def)

lemma mutex_clean_init [simp]: "mutex_clean (adv_post_init n m)"
  by (simp add: mutex_clean_def adv_post_init_def)

lemma init_idle [simp]: "\<not> flag_async_comm_in_progress (w_st (adv_post_init n m))"
  by (simp add: adv_post_init_def adv_post_state_init_def)

theorem send_advs1_outcome_witness:
  "let w = set_st (\<lambda>st. st\<lparr>flag_network_connected := True, flag_need_to_send_advs1 := True\<rparr>) (adv_post_init 7 9)
   in ensures (adv_post_do_async_comm_send_advs1 env_example w)
        (\<lambda>_ w'. advs1_started env_example w w' \<or> advs1_failed env_example w w')"
proof -
  let ?w = "set_st (\<lambda>st. st\<lparr>flag_network_connected := True, flag_need_to_send_advs1 := True\<rparr>) (adv_post_init 7 9)"
  have "post_inv ?w" using keeps_set_st [OF post_inv_init, of "\<lambda>st. st\<lparr>flag_network_connected := True, flag_need_to_send_advs1 := True\<rparr>" 7 9]
    by (simp add: keeps_post_inv_def)
  moreover have "g_http_server_mutex ?w = Mutex_free" "\<not> time_not_ready env_example ?w"
    by (simp_all add: adv_post_init_def time_not_ready_def env_example_def)
  ultimately show ?thesis using send_advs1_outcome [of ?w env_example] by simp
qed

subsection \<open>Publishing to MQTT\<close>

lemma publish_from:
  assumes "g_p_adv_post_reports_mqtt w = Some rs" and "length rs \<le> MAX_ADVS_TABLE"
    and "unat (g_adv_post_reports_mqtt_idx w) = k" and "k < length rs"
    and "length Es = length rs - k" and "\<forall>E \<in> set Es. e_mqtt_publish_ok E \<and> c_ntp_use (e_cfg E) = ntp"
    and "g_adv_post_reports_mqtt_timestamp w = ts"
  shows "\<exists>w'. poll_until adv_post_do_async_comm_in_progress_mqtt Es w = ret True w' \<and>
    w_trace w' = w_trace w @ map (\<lambda>r. Mqtt_publish_adv r ntp ts) (drop k rs) \<and>
    g_p_adv_post_reports_mqtt w' = None"
  using assms
proof (induction Es arbitrary: w k)
  case (Cons E Es)
  let ?i = "g_adv_post_reports_mqtt_idx w"
  define w1 where "w1 = emit (Mqtt_publish_adv (rs ! k) ntp ts) w"
  have E: "e_mqtt_publish_ok E" "c_ntp_use (e_cfg E) = ntp" using Cons.prems(6) by simp_all
  have at: "mqtt_report_at rs ?i = rs ! k" using Cons.prems(3,4) by (simp add: mqtt_report_at_def)
  have small: "length rs \<le> 100" using Cons.prems(2) by (simp add: MAX_ADVS_TABLE_def)
  have len: "unat (word_of_nat (length rs) :: u32) = length rs"
    using small by (simp add: unat_of_nat take_bit_nat_eq_self_iff)
  have i1: "unat (?i + 1) = k + 1"
    using Cons.prems(3,4) small by (subst unat_add_lem [THEN iffD1]) simp_all
  have last_iff: "word_of_nat (length rs) \<le> ?i + 1 \<longleftrightarrow> length rs \<le> k + 1"
    unfolding word_le_nat_alt len i1 ..
  have split: "drop k rs = rs ! k # drop (k + 1) rs" using Cons.prems(4) by (simp add: Cons_nth_drop_Suc)
  show ?case
  proof (cases "length rs \<le> k + 1")
    case True
    then show ?thesis
      using Cons.prems(1,7) E at last_iff split
      by (simp add: adv_post_do_async_comm_in_progress_mqtt_def Let_def w1_def)
  next
    case False
    let ?w2 = "w1\<lparr>g_adv_post_reports_mqtt_idx := ?i + 1\<rparr>"
    have step: "adv_post_do_async_comm_in_progress_mqtt E w = ret False ?w2"
      using Cons.prems(1,7) E at last_iff False by (simp add: adv_post_do_async_comm_in_progress_mqtt_def Let_def w1_def)
    have "\<exists>w'. poll_until adv_post_do_async_comm_in_progress_mqtt Es ?w2 = ret True w' \<and>
      w_trace w' = w_trace ?w2 @ map (\<lambda>r. Mqtt_publish_adv r ntp ts) (drop (k + 1) rs) \<and>
      g_p_adv_post_reports_mqtt w' = None"
      by (rule Cons.IH) (use Cons.prems False i1 in \<open>simp_all add: w1_def\<close>)
    then show ?thesis using step split by (auto simp: w1_def)
  qed
qed simp

text \<open>C23: when the broker accepts every message, publishing the buffer takes one poll per report,
  sends each pending report once and in order with the time stamp of the start, and frees the buffer;
  when nothing was pending it sends one report of zeros.\<close>

theorem mqtt_publishes_buffer:
  assumes "g_p_adv_post_reports_mqtt w = Some rs" and "length rs \<le> MAX_ADVS_TABLE"
    and "g_adv_post_reports_mqtt_idx w = 0" and "length Es = max 1 (length rs)"
    and "\<forall>E \<in> set Es. e_mqtt_publish_ok E \<and> c_ntp_use (e_cfg E) = ntp"
  shows "\<exists>w'. poll_until adv_post_do_async_comm_in_progress_mqtt Es w = ret True w' \<and>
    w_trace w' = w_trace w @ map (\<lambda>r. Mqtt_publish_adv r ntp (g_adv_post_reports_mqtt_timestamp w))
      (if rs = [] then [zero_report] else rs) \<and>
    g_p_adv_post_reports_mqtt w' = None"
proof (cases "rs = []")
  case True
  with assms(4) obtain E where "Es = [E]" by (auto simp: length_Suc_conv)
  with assms True show ?thesis
    by (simp add: adv_post_do_async_comm_in_progress_mqtt_def Let_def mqtt_report_at_def)
next
  case False
  then have "1 \<le> length rs" by (cases rs) simp_all
  with assms False have "length Es = length rs - 0" "0 < length rs" by simp_all
  with publish_from [of w rs 0 Es ntp "g_adv_post_reports_mqtt_timestamp w"] assms show ?thesis
    by (cases rs) auto
qed

theorem mqtt_publishes_buffer_witness:
  "\<exists>w'. poll_until adv_post_do_async_comm_in_progress_mqtt [env_example]
      ((adv_post_init 7 9)\<lparr>g_p_adv_post_reports_mqtt := Some []\<rparr>) = ret True w' \<and>
    w_trace w' = [Mqtt_publish_adv zero_report False 0]"
  using mqtt_publishes_buffer [of "(adv_post_init 7 9)\<lparr>g_p_adv_post_reports_mqtt := Some []\<rparr>" "[]" "[env_example]" False]
  by (auto simp: adv_post_init_def env_example_def cfg_example_def)

subsection \<open>The choice of the next transfer\<close>

definition next_action :: "adv_post_state \<Rightarrow> adv_post_action" where
  "next_action st =
     (if \<not> flag_relaying_enabled st then ADV_POST_ACTION_NONE
      else if flag_need_to_send_advs1 st then ADV_POST_ACTION_POST_ADVS_TO_RUUVI
      else if flag_need_to_send_advs2 st then ADV_POST_ACTION_POST_ADVS_TO_CUSTOM
      else if flag_need_to_send_statistics st then ADV_POST_ACTION_POST_STATS
      else if flag_need_to_send_mqtt_periodic st then ADV_POST_ACTION_POST_ADVS_TO_MQTT
      else ADV_POST_ACTION_NONE)"

text \<open>The flags of the transfers that a pass did not choose.\<close>

definition others_kept :: "adv_post_action \<Rightarrow> adv_post_state \<Rightarrow> adv_post_state \<Rightarrow> bool" where
  "others_kept a st st' \<longleftrightarrow>
     (a \<noteq> ADV_POST_ACTION_POST_ADVS_TO_RUUVI \<longrightarrow> flag_need_to_send_advs1 st' = flag_need_to_send_advs1 st) \<and>
     (a \<noteq> ADV_POST_ACTION_POST_ADVS_TO_CUSTOM \<longrightarrow> flag_need_to_send_advs2 st' = flag_need_to_send_advs2 st) \<and>
     (a \<noteq> ADV_POST_ACTION_POST_STATS \<longrightarrow> flag_need_to_send_statistics st' = flag_need_to_send_statistics st) \<and>
     (a \<noteq> ADV_POST_ACTION_POST_ADVS_TO_MQTT \<longrightarrow>
        flag_need_to_send_mqtt_periodic st' = flag_need_to_send_mqtt_periodic st)"

definition chosen :: "adv_post_action \<Rightarrow> post_world \<Rightarrow> 'a \<Rightarrow> post_world \<Rightarrow> bool" where
  "chosen a w _ w' \<longleftrightarrow> others_kept a (w_st w) (w_st w') \<and>
     (flag_async_comm_in_progress (w_st w') \<longrightarrow> g_adv_post_action w' = a)"

lemma others_kept_refl [simp]: "others_kept a st st"
  by (simp add: others_kept_def)

lemma chosen_same_st: "\<not> flag_async_comm_in_progress (w_st w) \<Longrightarrow> w_st w' = w_st w \<Longrightarrow> chosen a w x w'"
  by (simp add: chosen_def)

lemma unlock_parts [simp]: "w_st (http_server_mutex_unlock w) = w_st w"
  by (simp add: http_server_mutex_unlock_def)

lemma send_advs_chosen:
  assumes "post_inv w" and "\<not> flag_async_comm_in_progress (w_st w)"
  shows "ensures (adv_post_do_async_comm_send_advs1 E w) (chosen ADV_POST_ACTION_POST_ADVS_TO_RUUVI w)"
    and "ensures (adv_post_do_async_comm_send_advs2 E w) (chosen ADV_POST_ACTION_POST_ADVS_TO_CUSTOM w)"
    and "ensures (adv_post_do_async_comm_send_statistics E w) (chosen ADV_POST_ACTION_POST_STATS w)"
proof -
  let ?v = "\<lambda>a. w\<lparr>g_http_server_mutex := Mutex_adv_post, g_adv_post_action := a\<rparr>"
  have send: "ensures (adv_post_do_retransmission E ts a (?v a)) (post_attempt (?v a))"
    if "a = ADV_POST_ACTION_POST_ADVS_TO_RUUVI \<or> a = ADV_POST_ACTION_POST_ADVS_TO_CUSTOM" for a ts
    by (rule do_retransmission_spec) (use idle_facts [OF assms] that in simp_all)
  have stat: "ensures (adv_post_statistics_do_send E (?v ADV_POST_ACTION_POST_STATS))
      (post_attempt (?v ADV_POST_ACTION_POST_STATS))"
    by (rule statistics_spec) (use idle_facts [OF assms] in simp_all)
  show "ensures (adv_post_do_async_comm_send_advs1 E w) (chosen ADV_POST_ACTION_POST_ADVS_TO_RUUVI w)"
    using assms(2)
    by (auto simp: adv_post_do_async_comm_send_advs1_def http_server_mutex_try_lock_def chosen_same_st
        intro!: ensures_mono [OF send])
      (auto simp: chosen_def others_kept_def post_attempt_def)
  show "ensures (adv_post_do_async_comm_send_advs2 E w) (chosen ADV_POST_ACTION_POST_ADVS_TO_CUSTOM w)"
    using assms(2)
    by (auto simp: adv_post_do_async_comm_send_advs2_def http_server_mutex_try_lock_def chosen_same_st
        intro!: ensures_mono [OF send])
      (auto simp: chosen_def others_kept_def post_attempt_def)
  show "ensures (adv_post_do_async_comm_send_statistics E w) (chosen ADV_POST_ACTION_POST_STATS w)"
    using assms(2)
    by (auto simp: adv_post_do_async_comm_send_statistics_def http_server_mutex_try_lock_def chosen_same_st
        intro!: ensures_mono [OF stat])
      (auto simp: chosen_def others_kept_def post_attempt_def)
qed

lemma start_mqtt_chosen:
  assumes "\<not> flag_async_comm_in_progress (w_st w)"
  shows "ensures (adv_post_do_async_comm_start_sending_periodic_mqtt E w) (chosen ADV_POST_ACTION_POST_ADVS_TO_MQTT w)"
  using assms
  by (auto simp: adv_post_do_async_comm_start_sending_periodic_mqtt_def adv_post_do_retransmission_def Let_def
      split_beta chosen_def others_kept_def)

text \<open>A pass that finds nothing in progress starts at most the first requested transfer in
  the order Ruuvi cloud, custom server, statistics, MQTT, nothing while relaying is suspended, and
  leaves the requests of the other transfers as they were.\<close>

theorem async_comm_priority:
  assumes "post_inv w" and "\<not> flag_async_comm_in_progress (w_st w)"
  shows "ensures (adv_post_do_async_comm E w) (\<lambda>_ w'.
    others_kept (next_action (w_st w)) (w_st w) (w_st w') \<and>
    (flag_async_comm_in_progress (w_st w') \<longrightarrow> g_adv_post_action w' = next_action (w_st w)))"
proof -
  have tail: "chosen a w () (adv_post_timers_start_timer_sig_do_async_comm w') = chosen a w () w'" for a w'
    by (simp add: chosen_def adv_post_timers_start_timer_sig_do_async_comm_def)
  note sends = send_advs_chosen [OF assms] start_mqtt_chosen [OF assms(2)]
  have "ensures (adv_post_do_async_comm E w) (chosen (next_action (w_st w)) w)"
    using assms(2)
    by (auto simp: adv_post_do_async_comm_def adv_post_start_next_def next_action_def chosen_same_st
        intro: ensures_mono [OF sends(1)] ensures_mono [OF sends(2)] ensures_mono [OF sends(3)] ensures_mono [OF sends(4)]
        simp: tail)
  then show ?thesis by (rule ensures_mono) (simp add: chosen_def)
qed

theorem async_comm_priority_witness:
  "let w = set_st (\<lambda>st. st\<lparr>flag_network_connected := True, flag_need_to_send_advs2 := True,
        flag_need_to_send_statistics := True\<rparr>) (adv_post_init 7 9)
   in ensures (adv_post_do_async_comm env_example w) (\<lambda>_ w'. flag_need_to_send_statistics (w_st w') \<and>
     (flag_async_comm_in_progress (w_st w') \<longrightarrow> g_adv_post_action w' = ADV_POST_ACTION_POST_ADVS_TO_CUSTOM))"
proof -
  let ?f = "\<lambda>st. st\<lparr>flag_network_connected := True, flag_need_to_send_advs2 := True, flag_need_to_send_statistics := True\<rparr>"
  let ?w = "set_st ?f (adv_post_init 7 9)"
  have "post_inv ?w" using keeps_set_st [OF post_inv_init, of ?f 7 9] by (simp add: keeps_post_inv_def)
  moreover have "next_action (w_st ?w) = ADV_POST_ACTION_POST_ADVS_TO_CUSTOM"
    by (simp add: next_action_def adv_post_init_def adv_post_state_init_def)
  ultimately show ?thesis
    using async_comm_priority [of ?w env_example]
    by (auto simp: others_kept_def elim: ensures_mono)
qed
end
