(* ===== verification/Adv_Post_Recv.thy ===== *)
theory Adv_Post_Recv
  imports Adv_Post_Timers
begin

text \<open>
  The callbacks of the nRF52 link, \<open>adv_post.c\<close>: a received advertisement is parsed, filtered
  by its MAC and put into the table; the device identifier is stored; a configuration request is
  answered. The payload is the decoded UART message.
\<close>

section \<open>Serialisation of a number\<close>

fun u64_to_array_loop :: "64 word \<Rightarrow> nat \<Rightarrow> u8 list" where
  "u64_to_array_loop u64 0 = []"
| "u64_to_array_loop u64 (Suc cnt) = ucast (drop_bit (8 * cnt) u64 AND 0xFF) # u64_to_array_loop u64 cnt"

text \<open>The iteration with counter \<open>cnt\<close> writes the byte at \<open>num_bytes - 1 - cnt\<close>.\<close>

definition u64_to_array :: "64 word \<Rightarrow> nat \<Rightarrow> u8 list" where
  "u64_to_array u64 num_bytes = u64_to_array_loop u64 num_bytes"

section \<open>Parsing\<close>

datatype uart_cmd = RE_CA_UART_ADV_RPRT | RE_CA_UART_ADV_RPRT2 | RE_CA_UART_OTHER

record uart_ble_adv =
  uart_cmd :: uart_cmd
  uart_mac :: mac_address
  uart_adv_len :: u8
  uart_adv :: "u8 list"
  uart_rssi_db :: u8
  uart_primary_phy :: "4 word"
  uart_secondary_phy :: "4 word"
  uart_ch_index :: u8
  uart_is_coded_phy :: bool
  uart_tx_power :: u8

text \<open>\<open>None\<close> is a NULL message; the destination is the zeroed report of the caller.\<close>

definition parse_adv_report_from_uart :: "uart_ble_adv option \<Rightarrow> u32 \<Rightarrow> adv_report option" where
  "parse_adv_report_from_uart p_msg ts =
     (case p_msg of
        None \<Rightarrow> None
      | Some m \<Rightarrow>
          if uart_cmd m \<noteq> RE_CA_UART_ADV_RPRT \<and> uart_cmd m \<noteq> RE_CA_UART_ADV_RPRT2 then None
          else if unat (uart_adv_len m) > length (data_buf zero_report) then None
          else if uart_adv_len m = 0 then None
          else Some (zero_report\<lparr>tag_mac := uart_mac m, timestamp := ts, samples_counter := 0,
                 rssi := uart_rssi_db m, primary_phy := uart_primary_phy m,
                 secondary_phy := uart_secondary_phy m, ch_index := uart_ch_index m,
                 is_coded_phy := uart_is_coded_phy m, tx_power := uart_tx_power m,
                 data_len := uart_adv_len m,
                 data_buf := take (unat (uart_adv_len m)) (uart_adv m) @
                   drop (unat (uart_adv_len m)) (data_buf zero_report)\<rparr>))"

section \<open>The MAC filter\<close>

text \<open>The loops compare the address with the first \<open>scan_filter_length\<close> entries of the array.\<close>

definition mac_in_filter :: "adv_post_cfg_cache \<Rightarrow> mac_address \<Rightarrow> bool" where
  "mac_in_filter c m \<longleftrightarrow> (case p_arr_of_scan_filter_mac c of
     None \<Rightarrow> False
   | Some arr \<Rightarrow> list_ex (\<lambda>a. a = m) (take (scan_filter_length c) arr))"

definition adv_post_check_if_mac_filtered_out :: "adv_post_cfg_cache \<Rightarrow> mac_address \<Rightarrow> bool" where
  "adv_post_check_if_mac_filtered_out c m =
     (if scan_filter_length c = 0 then False
      else if scan_filter_allow_listed c then \<not> mac_in_filter c m
      else mac_in_filter c m)"

section \<open>The manufacturer identifier for the log\<close>

text \<open>
  \<open>get_ble_manuf_id\<close> walks over the length-type chunks. The remaining length is a difference
  that is compared with an unsigned constant, so on the 32-bit target it is unsigned and wraps when a
  chunk claims more bytes than there are. \<open>None\<close> stands for a read behind the 48 bytes of the
  buffer.
\<close>

lemma manuf_offset:
  assumes "unat (p :: u32) < n" and "n \<le> 1000"
  shows "unat (p + ucast (l :: u8) + 1) = unat p + unat l + 1"
proof -
  have l: "unat l < 256" by (rule unat_u8_less)
  have u: "unat (ucast l :: u32) = unat l" using l by (simp add: unsigned_ucast_eq take_bit_nat_eq_self_iff)
  have a: "unat (p + ucast l) = unat p + unat l"
    using assms l u by (subst unat_add_lem [THEN iffD1]) simp_all
  then show ?thesis using assms l by (subst unat_add_lem [THEN iffD1]) simp_all
qed

function manuf_id_loop :: "u8 list \<Rightarrow> u32 \<Rightarrow> u32 \<Rightarrow> u16 option" where
  "manuf_id_loop buf dlen p =
     (if dlen - p \<ge> 2
      then if unat p + 1 < 48
           then let len = buf ! unat p; type = buf ! (unat p + 1) in
                if type \<noteq> 0xFF then manuf_id_loop buf dlen (p + ucast len + 1)
                else if len < 3 then Some 0
                else if unat p + 3 < 48
                then Some (push_bit 8 (ucast (buf ! (unat p + 3))) OR ucast (buf ! (unat p + 2)))
                else None
           else None
      else Some 0)"
  by pat_completeness auto
termination
proof (relation "measure (\<lambda>(_, _, p). 48 - unat p)")
  fix buf :: "u8 list" and dlen p :: u32 and x y
  assume "unat p + 1 < 48" and "x = buf ! unat p"
  then show "((buf, dlen, p + ucast x + 1), buf, dlen, p) \<in> measure (\<lambda>(_, _, p). 48 - unat p)"
    using manuf_offset [of p 48 x] by simp
qed simp

declare manuf_id_loop.simps [simp del]

definition get_ble_manuf_id :: "adv_report \<Rightarrow> u16 option" where
  "get_ble_manuf_id p_adv =
     (if data_len p_adv < 2 then Some 0 else manuf_id_loop (data_buf p_adv) (ucast (data_len p_adv)) 0)"

section \<open>The callbacks\<close>

definition adv_post_log_adv_report :: "adv_report \<Rightarrow> adv_post_cfg_cache \<Rightarrow> post_world \<Rightarrow> post_world" where
  "adv_post_log_adv_report p_adv c w =
     (if scan_filter_allow_listed c \<and> scan_filter_length c > 0 \<and> scan_filter_length c \<le> 3 \<and>
         mac_in_filter c (tag_mac p_adv)
      then emit (Log_recv_adv p_adv (get_ble_manuf_id p_adv)) w else w)"

definition adv_put_to_table :: "adv_report \<Rightarrow> post_world \<Rightarrow> bool \<times> post_world" where
  "adv_put_to_table p_adv w =
     (let w1 = emit (Metrics_received_advs_increment (secondary_phy p_adv)) w;
          (r, tbl) = adv_table_put p_adv (w_table w1)
      in (r, w1\<lparr>w_table := tbl\<rparr>))"

text \<open>The time stamp of a report: the clock, or the running number of advertisements.\<close>

definition recv_timestamp :: "post_env \<Rightarrow> post_world \<Rightarrow> u32" where
  "recv_timestamp E w =
     (if flag_use_ntp (g_adv_post_cfg_cache w)
      then (if e_time_is_synchronized E then e_time E else 0)
      else e_metrics_received_advs E)"

definition adv_post_send_report :: "post_env \<Rightarrow> uart_ble_adv option \<Rightarrow> post_world \<Rightarrow> post_world" where
  "adv_post_send_report E p_arg w =
     (let w1 = w\<lparr>g_adv_post_advs_cnt := g_adv_post_advs_cnt w + 1\<rparr>;
          c = g_adv_post_cfg_cache w1
      in if \<not> e_gw_cfg_initialized E then w1
         else if \<not> e_cfg_cache_free E then w1
         else (case parse_adv_report_from_uart p_arg (recv_timestamp E w1) of
             None \<Rightarrow> w1
           | Some r \<Rightarrow>
               if adv_post_check_if_mac_filtered_out c (tag_mac r) then w1
               else let w2 = adv_post_log_adv_report r c (adv_post_timers_relaunch_timer_sig_recv_adv_timeout w1) in
                    if flag_use_ntp c \<and> \<not> e_time_is_synchronized E then w2
                    else let (accepted, w3) = adv_put_to_table r w2 in
                         if \<not> accepted then w3 else emit (Notify_event EVENT_MGR_EV_RECV_ADV) w3))"

definition adv_post_cb_on_recv_device_id :: "64 word \<Rightarrow> 64 word \<Rightarrow> post_world \<Rightarrow> post_world" where
  "adv_post_cb_on_recv_device_id dev_id addr w =
     emit (Ruuvi_device_id_set (u64_to_array dev_id 8) (u64_to_array addr 6)) w"

definition adv_post_send_get_all :: "post_env \<Rightarrow> post_world \<Rightarrow> post_world" where
  "adv_post_send_get_all E w =
     emit Send_nrf_settings (adv_post_on_green_led_update E ADV_POST_GREEN_LED_CMD_UPDATE w)"

definition adv_post_advs_cnt_get_and_clear :: "post_world \<Rightarrow> u32 \<times> post_world" where
  "adv_post_advs_cnt_get_and_clear w = (g_adv_post_advs_cnt w, w\<lparr>g_adv_post_advs_cnt := 0\<rparr>)"


section \<open>Properties\<close>

lemma byte_of_drop:
  "unat (ucast (drop_bit k (u :: 64 word) AND 0xFF) :: u8) = unat u div 2 ^ k mod 256"
proof -
  have "(255 :: 64 word) = mask 8" by (simp add: mask_eq_exp_minus_1)
  then have e: "drop_bit k u AND 0xFF = take_bit 8 (drop_bit k u)" by (simp only: take_bit_eq_mask)
  have t: "take_bit LENGTH(64) (unat u) = unat u"
    using unsigned_less [of u] by (simp add: take_bit_nat_eq_self_iff)
  have "unat (take_bit 8 (drop_bit k u)) = take_bit 8 (drop_bit k (unat u))"
    by (simp only: unsigned_take_bit_eq unsigned_drop_bit_eq t)
  then show ?thesis
    unfolding e unsigned_ucast_eq by (simp add: take_bit_eq_mod drop_bit_eq_div)
qed

lemma foldl_u64_loop:
  "foldl (\<lambda>v b. v * 256 + unat b) a (u64_to_array_loop u n) = a * 256 ^ n + unat u mod 256 ^ n"
proof (induction n arbitrary: a)
  case (Suc n)
  have p: "(2 :: nat) ^ (8 * n) = 256 ^ n" by (simp add: power_mult)
  have "unat u mod 256 ^ Suc n = 256 ^ n * (unat u div 256 ^ n mod 256) + unat u mod 256 ^ n"
    by (metis add.commute mod_mult2_eq mult.commute power_Suc)
  then show ?case
    unfolding u64_to_array_loop.simps foldl.simps Suc byte_of_drop p by (simp add: algebra_simps)
qed simp

text \<open>\<open>u64_to_array\<close> writes exactly the requested number of bytes, most significant first:
  read back as a big-endian number they give the value modulo \<open>256 ^ n\<close>, so a MAC address and a
  device identifier survive the transfer.\<close>

theorem u64_to_array_big_endian:
  "length (u64_to_array u n) = n \<and>
   foldl (\<lambda>v b. v * 256 + unat b) 0 (u64_to_array u n) = unat u mod 256 ^ n"
proof -
  have "length (u64_to_array_loop u n) = n" by (induction n) simp_all
  then show ?thesis by (simp add: u64_to_array_def foldl_u64_loop)
qed

text \<open>A UART message becomes a report exactly when it is an advertisement of 1 to 48 bytes;
  the report then carries the message's address, signal data and time stamp, its buffer has 48 bytes,
  starts with the payload and is zero behind it.\<close>

theorem parse_adv_report:
  assumes "unat (uart_adv_len m) \<le> length (uart_adv m)"
  shows "case parse_adv_report_from_uart (Some m) ts of
      None \<Rightarrow> uart_cmd m = RE_CA_UART_OTHER \<or> uart_adv_len m = 0 \<or> 48 < unat (uart_adv_len m)
    | Some r \<Rightarrow> uart_cmd m \<noteq> RE_CA_UART_OTHER \<and> 1 \<le> unat (uart_adv_len m) \<and> unat (uart_adv_len m) \<le> 48 \<and>
        tag_mac r = uart_mac m \<and> timestamp r = ts \<and> rssi r = uart_rssi_db m \<and> data_len r = uart_adv_len m \<and>
        samples_counter r = 0 \<and> length (data_buf r) = 48 \<and>
        take (unat (data_len r)) (data_buf r) = take (unat (uart_adv_len m)) (uart_adv m) \<and>
        drop (unat (data_len r)) (data_buf r) = replicate (48 - unat (data_len r)) 0"
proof -
  have z: "data_buf zero_report = replicate 48 0" by (simp add: zero_report_def)
  have one: "Suc 0 \<le> unat (uart_adv_len m) \<longleftrightarrow> uart_adv_len m \<noteq> 0"
    using unat_eq_0 [of "uart_adv_len m"] by linarith
  have other: "uart_cmd m = RE_CA_UART_OTHER \<longleftrightarrow> uart_cmd m \<noteq> RE_CA_UART_ADV_RPRT \<and> uart_cmd m \<noteq> RE_CA_UART_ADV_RPRT2"
    by (cases "uart_cmd m") simp_all
  show ?thesis
    using assms by (simp add: parse_adv_report_from_uart_def z one other)
qed

theorem parse_adv_report_witness:
  "case parse_adv_report_from_uart (Some \<lparr>uart_cmd = RE_CA_UART_ADV_RPRT, uart_mac = MAC 1 2 3 4 5 6,
       uart_adv_len = 3, uart_adv = [2, 1, 6], uart_rssi_db = 200, uart_primary_phy = 1, uart_secondary_phy = 15,
       uart_ch_index = 37, uart_is_coded_phy = False, uart_tx_power = 127\<rparr>) 99 of
     None \<Rightarrow> False | Some r \<Rightarrow> tag_mac r = MAC 1 2 3 4 5 6 \<and> take 3 (data_buf r) = [2, 1, 6]"
proof -
  let ?m = "\<lparr>uart_cmd = RE_CA_UART_ADV_RPRT, uart_mac = MAC 1 2 3 4 5 6,
       uart_adv_len = 3, uart_adv = [2, 1, 6], uart_rssi_db = 200, uart_primary_phy = 1, uart_secondary_phy = 15,
       uart_ch_index = 37, uart_is_coded_phy = False, uart_tx_power = 127\<rparr> :: uart_ble_adv"
  show ?thesis using parse_adv_report [of ?m 99] by (auto split: option.splits)
qed

subsection \<open>The filter\<close>

definition mac_permitted :: "adv_post_cfg_cache \<Rightarrow> mac_address \<Rightarrow> bool" where
  "mac_permitted c m \<longleftrightarrow> scan_filter_length c = 0 \<or>
     (m \<in> set (take (scan_filter_length c) (case p_arr_of_scan_filter_mac c of None \<Rightarrow> [] | Some arr \<Rightarrow> arr)) \<longleftrightarrow>
      scan_filter_allow_listed c)"

lemma filtered_out_iff: "adv_post_check_if_mac_filtered_out c m \<longleftrightarrow> \<not> mac_permitted c m"
  by (auto simp: adv_post_check_if_mac_filtered_out_def mac_in_filter_def mac_permitted_def list_ex_iff
      split: option.splits)

lemma log_parts [simp]:
  "w_table (adv_post_log_adv_report r c w) = w_table w"
  "g_adv_post_cfg_cache (adv_post_log_adv_report r c w) = g_adv_post_cfg_cache w"
  by (simp_all add: adv_post_log_adv_report_def)

lemma send_report_table:
  "g_adv_post_cfg_cache (adv_post_send_report E p w) = g_adv_post_cfg_cache w \<and>
   (w_table (adv_post_send_report E p w) = w_table w \<or>
    (\<exists>r. mac_permitted (g_adv_post_cfg_cache w) (tag_mac r) \<and>
      w_table (adv_post_send_report E p w) = snd (adv_table_put r (w_table w))))"
  by (auto simp: adv_post_send_report_def Let_def adv_put_to_table_def filtered_out_iff
      adv_post_timers_relaunch_timer_sig_recv_adv_timeout_def split: option.splits prod.splits)

lemma lru_put_other:
  assumes "r \<in> set (snd (lru_put p xs))" and "tag_mac r \<noteq> tag_mac p"
  shows "r \<in> set xs"
  using assms
  by (auto simp: lru_put_def Let_def report_mark_free_def dest: in_set_butlastD
      split: option.splits if_splits)

lemma put_other_mac:
  assumes "adv_table_inv s" and "r \<in> set (abs_table (snd (adv_table_put p s)))" and "tag_mac r \<noteq> tag_mac p"
  shows "r \<in> set (abs_table s)"
proof -
  have "abs_table (snd (adv_table_put p s)) = snd (lru_put p (abs_table s))"
    using put_refines_lru [OF assms(1), of p] by simp
  with assms(2,3) show ?thesis using lru_put_other by metis
qed

lemma send_report_other_mac:
  assumes "adv_table_inv (w_table w)" and "\<not> mac_permitted (g_adv_post_cfg_cache w) (tag_mac r)"
    and "r \<in> set (abs_table (w_table (adv_post_send_report E p w)))"
  shows "r \<in> set (abs_table (w_table w))"
  using send_report_table [of E p w] assms put_other_mac [OF assms(1)] by metis

lemma send_report_inv: "adv_table_inv (w_table w) \<Longrightarrow> adv_table_inv (w_table (adv_post_send_report E p w))"
  using send_report_table [of E p w] put_inv by metis

lemma recv_fold_other_mac:
  assumes "adv_table_inv (w_table w)"
    and "r \<in> set (abs_table (w_table (fold (\<lambda>(E, p). adv_post_send_report E p) msgs w)))"
    and "\<not> mac_permitted (g_adv_post_cfg_cache w) (tag_mac r)"
  shows "r \<in> set (abs_table (w_table w))"
  using assms
proof (induction msgs arbitrary: w)
  case (Cons m msgs)
  obtain E p where m: "m = (E, p)" by (cases m)
  let ?w = "adv_post_send_report E p w"
  have c: "g_adv_post_cfg_cache ?w = g_adv_post_cfg_cache w" using send_report_table by blast
  from Cons.IH [of ?w] Cons.prems have "r \<in> set (abs_table (w_table ?w))"
    by (simp add: m c send_report_inv)
  with send_report_other_mac Cons.prems show ?case by blast
qed simp

text \<open>C24: whatever messages arrive, the table gets no new or changed report of a sensor that the
  configured filter excludes: with an allow list the sensors that are not on it, with a deny list those
  that are, and none when the list is empty.\<close>

theorem recv_respects_filter:
  assumes "adv_table_inv (w_table w)"
  shows "{r \<in> set (abs_table (w_table (fold (\<lambda>(E, p). adv_post_send_report E p) msgs w))).
      \<not> mac_permitted (g_adv_post_cfg_cache w) (tag_mac r)} \<subseteq> set (abs_table (w_table w))"
  using recv_fold_other_mac [OF assms] by blast

theorem recv_respects_filter_witness:
  "let w = (adv_post_init 7 9)\<lparr>g_adv_post_cfg_cache := \<lparr>flag_use_ntp = False, scan_filter_allow_listed = True,
        scan_filter_length = 1, p_arr_of_scan_filter_mac = Some [MAC 1 2 3 4 5 6]\<rparr>\<rparr>;
       m = \<lparr>uart_cmd = RE_CA_UART_ADV_RPRT, uart_mac = MAC 9 9 9 9 9 9, uart_adv_len = 3, uart_adv = [2, 1, 6],
         uart_rssi_db = 200, uart_primary_phy = 1, uart_secondary_phy = 15, uart_ch_index = 37,
         uart_is_coded_phy = False, uart_tx_power = 127\<rparr>
   in {r \<in> set (abs_table (w_table (fold (\<lambda>(E, p). adv_post_send_report E p) [(env_example, Some m)] w))).
        \<not> mac_permitted (g_adv_post_cfg_cache w) (tag_mac r)} \<subseteq> set (abs_table adv_table_init)"
  unfolding Let_def
  by (rule order_trans [OF recv_respects_filter]) (simp_all add: adv_post_init_def adv_table_inv_init)

subsection \<open>The manufacturer identifier\<close>

text \<open>What the walk should find: the chunks tile the data, the first manufacturer chunk counts.\<close>

fun ad_well_formed :: "u8 list \<Rightarrow> bool" where
  "ad_well_formed [] = True"
| "ad_well_formed [l] = True"
| "ad_well_formed (l # t # rest) = (if t = 0xFF then 3 \<le> unat l \<and> unat l \<le> Suc (length rest)
     else 1 \<le> unat l \<and> unat l \<le> Suc (length rest) \<and> ad_well_formed (drop (unat l - 1) rest))"

fun ad_manuf_id :: "u8 list \<Rightarrow> u16" where
  "ad_manuf_id (l # t # rest) = (if t = 0xFF
     then push_bit 8 (ucast (rest ! 1)) OR ucast (rest ! 0)
     else ad_manuf_id (drop (unat l - 1) rest))"
| "ad_manuf_id _ = 0"

lemma manuf_loop_well_formed:
  assumes "ad_well_formed (drop (unat p) (take n buf))" and "length buf = 48" and "n \<le> 48"
    and "unat p \<le> n" and "dlen = word_of_nat n"
  shows "manuf_id_loop buf dlen p = Some (ad_manuf_id (drop (unat p) (take n buf)))"
  using assms
proof (induction buf dlen p rule: manuf_id_loop.induct)
  case (1 buf dlen p)
  let ?d = "drop (unat p) (take n buf)"
  have dl: "unat dlen = n" using 1(4,6) by (simp add: unat_of_nat take_bit_nat_eq_self_iff)
  have "p \<le> dlen" unfolding word_le_nat_alt dl by (rule 1(5))
  then have rem: "unat (dlen - p) = n - unat p" by (simp add: unat_sub dl)
  then have ge2: "dlen - p \<ge> 2 \<longleftrightarrow> unat p + 2 \<le> n" by (simp add: word_le_nat_alt) linarith
  show ?case
  proof (cases "unat p + 2 \<le> n")
    case False
    then have "length ?d < 2" using 1(3,4) by simp
    then have "?d = [] \<or> (\<exists>l. ?d = [l])" by (cases ?d; cases "tl ?d") auto
    with False ge2 show ?thesis by (subst manuf_id_loop.simps) auto
  next
    case True
    let ?l = "buf ! unat p" and ?t = "buf ! (unat p + 1)" and ?rest = "drop (unat p + 2) (take n buf)"
    have d: "?d = ?l # ?t # ?rest"
      using True 1(3,4) by (simp add: Cons_nth_drop_Suc [symmetric] numeral_2_eq_2)
    have p48: "unat p + 1 < 48" using True 1(4) by simp
    have lenr: "length ?rest = n - (unat p + 2)" using 1(3,4) by simp
    show ?thesis
    proof (cases "?t = 0xFF")
      case t: True
      with 1(2) d lenr have l: "3 \<le> unat ?l" "unat ?l \<le> Suc (n - (unat p + 2))" by simp_all
      then have p3: "unat p + 3 < n" using True by linarith
      have "\<not> ?l < 3" using l(1) by (simp add: word_less_nat_alt)
      moreover have "?rest ! 0 = buf ! (unat p + 2)" "?rest ! 1 = buf ! (unat p + 3)"
        using p3 1(3,4) by (simp_all add: numeral_3_eq_3)
      ultimately show ?thesis
        using t p3 1(4) p48 ge2 True d by (subst manuf_id_loop.simps) (simp add: Let_def)
    next
      case t: False
      with 1(2) d lenr have l: "1 \<le> unat ?l" "unat ?l \<le> Suc (n - (unat p + 2))"
        "ad_well_formed (drop (unat ?l - 1) ?rest)" by (simp_all del: drop_drop)
      have p': "unat (p + ucast ?l + 1) = unat p + unat ?l + 1" using manuf_offset [of p 48 ?l] p48 by simp
      have tail: "drop (unat ?l - 1) ?rest = drop (unat p + unat ?l + 1) (take n buf)"
        using l(1) by (simp add: add.commute)
      have "manuf_id_loop buf dlen (p + ucast ?l + 1) = Some (ad_manuf_id (drop (unat (p + ucast ?l + 1)) (take n buf)))"
        by (rule 1(1)) (use True ge2 p48 t l 1(3-6) tail p' in \<open>simp_all add: algebra_simps\<close>)
      then show ?thesis
        using t p48 ge2 True d tail p' by (subst manuf_id_loop.simps) (simp add: Let_def)
    qed
  qed
qed

text \<open>On a well-formed payload the walk stays inside the buffer and gives the identifier of
  the first manufacturer chunk, or 0 without one.\<close>

theorem manuf_id_well_formed:
  assumes "length (data_buf r) = 48" and "unat (data_len r) \<le> 48"
    and "ad_well_formed (take (unat (data_len r)) (data_buf r))"
  shows "get_ble_manuf_id r = Some (ad_manuf_id (take (unat (data_len r)) (data_buf r)))"
proof (cases "data_len r < 2")
  case True
  then have "length (take (unat (data_len r)) (data_buf r)) < 2" by (simp add: word_less_nat_alt)
  then obtain l where "take (unat (data_len r)) (data_buf r) = [] \<or> take (unat (data_len r)) (data_buf r) = [l]"
    by (cases "take (unat (data_len r)) (data_buf r)"; cases "tl (take (unat (data_len r)) (data_buf r))") auto
  with True show ?thesis by (auto simp: get_ble_manuf_id_def)
next
  case False
  have u: "ucast (data_len r) = (word_of_nat (unat (data_len r)) :: u32)" by simp
  have "manuf_id_loop (data_buf r) (ucast (data_len r)) 0 =
      Some (ad_manuf_id (drop (unat (0 :: u32)) (take (unat (data_len r)) (data_buf r))))"
    by (rule manuf_loop_well_formed [OF _ assms(1,2) _ u]) (use assms(3) in simp_all)
  with False show ?thesis by (simp add: get_ble_manuf_id_def)
qed

theorem manuf_id_well_formed_witness:
  "get_ble_manuf_id (zero_report\<lparr>data_len := 8, data_buf := [2, 1, 6, 4, 0xFF, 0x99, 0x04, 5] @ replicate 40 0\<rparr>) =
     Some 0x0499"
proof -
  let ?r = "zero_report\<lparr>data_len := 8, data_buf := [2, 1, 6, 4, 0xFF, 0x99, 0x04, 5] @ replicate 40 0\<rparr>"
  have t: "take (unat (data_len ?r)) (data_buf ?r) = [2, 1, 6, 4, 0xFF, 0x99, 0x04, 5]" by simp
  have "ad_well_formed [2, 1, 6, 4, 0xFF, 0x99, 0x04, 5]" "ad_manuf_id [2, 1, 6, 4, 0xFF, 0x99, 0x04, 5] = 0x0499"
    by code_simp+
  with manuf_id_well_formed [of ?r] show ?thesis unfolding t by simp
qed

lemma manuf_loop_overrun:
  assumes "unat dlen < unat p" and "unat p \<le> 1000" and "\<forall>i. unat p \<le> i \<and> i < 48 \<longrightarrow> buf ! i \<noteq> 0xFF"
  shows "manuf_id_loop buf dlen p = None"
  using assms
proof (induction buf dlen p rule: manuf_id_loop.induct)
  case (1 buf dlen p)
  have "dlen < p" using 1(2) by (simp add: word_less_nat_alt)
  then have "unat (dlen - p) = unat dlen + 2 ^ 32 - unat p"
    using unat_sub_if' [of dlen p] 1(2) by (simp split: if_splits)
  then have ge2: "dlen - p \<ge> 2" using 1(3) by (simp add: word_le_nat_alt)
  show ?case
  proof (cases "unat p + 1 < 48")
    case False
    with ge2 show ?thesis by (subst manuf_id_loop.simps) simp
  next
    case True
    let ?p = "p + ucast (buf ! unat p) + 1"
    have p': "unat ?p = unat p + unat (buf ! unat p) + 1" using manuf_offset [of p 48] True by simp
    have t: "buf ! (unat p + 1) \<noteq> 0xFF" using 1(4) True by simp
    have "manuf_id_loop buf dlen ?p = None"
      by (rule 1(1)) (use ge2 True t 1(2,4) p' unat_u8_less [of "buf ! unat p"] in auto)
    with ge2 True t show ?thesis by (subst manuf_id_loop.simps) (simp add: Let_def)
  qed
qed

text \<open>A first chunk that claims more bytes than the payload has makes the unsigned remaining
  length wrap: the walk goes on behind the payload and, unless a byte \<open>0xFF\<close> stops it there, reads
  behind the 48 bytes of the buffer.\<close>

theorem manuf_id_overrun:
  assumes "2 \<le> unat (data_len r)" and "unat (data_len r) \<le> unat (data_buf r ! 0)"
    and "data_buf r ! 1 \<noteq> 0xFF" and "\<forall>i. unat (data_buf r ! 0) < i \<and> i < 48 \<longrightarrow> data_buf r ! i \<noteq> 0xFF"
  shows "get_ble_manuf_id r = None"
proof -
  let ?d = "ucast (data_len r) :: u32" and ?p = "0 + ucast (data_buf r ! 0) + 1 :: u32"
  have dl: "unat ?d = unat (data_len r)"
    using unat_u8_less [of "data_len r"] by (simp add: unsigned_ucast_eq take_bit_nat_eq_self_iff)
  have p': "unat ?p = unat (data_buf r ! 0) + 1" using manuf_offset [of 0 48 "data_buf r ! 0"] by simp
  have "manuf_id_loop (data_buf r) ?d ?p = None"
    by (rule manuf_loop_overrun)
      (use assms p' dl unat_u8_less [of "data_buf r ! 0"] in \<open>simp_all add: Suc_le_eq\<close>)
  moreover have "?d - 0 \<ge> 2" using assms(1) dl by (simp add: word_le_nat_alt)
  ultimately have "manuf_id_loop (data_buf r) ?d 0 = None"
    using assms(3) by (subst manuf_id_loop.simps) (simp add: Let_def)
  moreover have "\<not> data_len r < 2" using assms(1) by (simp add: word_less_nat_alt)
  ultimately show ?thesis by (simp add: get_ble_manuf_id_def)
qed

theorem manuf_id_overrun_witness:
  "get_ble_manuf_id (zero_report\<lparr>data_len := 3, data_buf := [5, 9, 1] @ replicate 45 0\<rparr>) = None"
  by (rule manuf_id_overrun) (auto simp: nth_append nth_Cons')
end
