(* ===== verification/Adv_Post_Signals.thy ===== *)
theory Adv_Post_Signals
  imports Adv_Post_Comm Adv_Post_Recv
begin

text \<open>
  The signal handlers of the posting task, \<open>adv_post_signals.c\<close>, their dispatch, the events of
  the event manager that raise the signals (\<open>adv_post_events.c\<close>), and the loop of
  \<open>adv_post_task.c\<close> as a state machine whose events are signals, received advertisements and the
  web server's use of the mutex.
\<close>

section \<open>Signals from the event manager\<close>

definition g_adv_post_ev_to_sig :: "(event_mgr_ev \<times> adv_post_sig) list" where
  "g_adv_post_ev_to_sig =
     [(EVENT_MGR_EV_WIFI_DISCONNECTED, ADV_POST_SIG_NETWORK_DISCONNECTED),
      (EVENT_MGR_EV_ETH_DISCONNECTED, ADV_POST_SIG_NETWORK_DISCONNECTED),
      (EVENT_MGR_EV_WIFI_CONNECTED, ADV_POST_SIG_NETWORK_CONNECTED),
      (EVENT_MGR_EV_ETH_CONNECTED, ADV_POST_SIG_NETWORK_CONNECTED),
      (EVENT_MGR_EV_TIME_SYNCHRONIZED, ADV_POST_SIG_TIME_SYNCHRONIZED),
      (EVENT_MGR_EV_GW_CFG_READY, ADV_POST_SIG_GW_CFG_READY),
      (EVENT_MGR_EV_GW_CFG_CHANGED_RUUVI, ADV_POST_SIG_GW_CFG_CHANGED_RUUVI),
      (EVENT_MGR_EV_RELAYING_MODE_CHANGED, ADV_POST_SIG_RELAYING_MODE_CHANGED),
      (EVENT_MGR_EV_GREEN_LED_STATE_CHANGED, ADV_POST_SIG_GREEN_LED_STATE_CHANGED),
      (EVENT_MGR_EV_CFG_MODE_ACTIVATED, ADV_POST_SIG_CFG_MODE_ACTIVATED),
      (EVENT_MGR_EV_CFG_MODE_DEACTIVATED, ADV_POST_SIG_CFG_MODE_DEACTIVATED),
      (EVENT_MGR_EV_CFG_BLE_SCAN_CHANGED, ADV_POST_SIG_BLE_SCAN_CHANGED)]"

section \<open>Handlers\<close>

definition clear_table :: "post_world \<Rightarrow> post_world" where
  "clear_table w = w\<lparr>w_table := adv_table_clear (w_table w)\<rparr>"

definition adv_post_restart_pending_retransmissions :: "post_world \<Rightarrow> post_world" where
  "adv_post_restart_pending_retransmissions w =
     (let w1 = (if flag_need_to_send_advs1 (w_st w)
                then adv_post_timers_relaunch_timer_sig_retransmit_to_http_ruuvi w else w);
          w2 = (if flag_need_to_send_advs2 (w_st w1)
                then adv_post_timers_relaunch_timer_sig_retransmit_to_http_custom w1 else w1)
      in if flag_need_to_send_statistics (w_st w2)
         then adv_post_timers_relaunch_timer_sig_send_statistics w2 else w2)"

definition adv_post_handle_sig_stop :: "post_world \<Rightarrow> post_world" where
  "adv_post_handle_sig_stop = set_st (\<lambda>st. st\<lparr>flag_stop := True\<rparr>)"

definition adv_post_handle_sig_network_disconnected :: "post_world \<Rightarrow> post_world" where
  "adv_post_handle_sig_network_disconnected = set_st (\<lambda>st. st\<lparr>flag_network_connected := False\<rparr>)"

definition adv_post_handle_sig_network_connected :: "post_world \<Rightarrow> post_world" where
  "adv_post_handle_sig_network_connected w =
     adv_post_restart_pending_retransmissions (set_st (\<lambda>st. st\<lparr>flag_network_connected := True\<rparr>) w)"

definition adv_post_handle_sig_time_synchronized :: "post_env \<Rightarrow> post_world \<Rightarrow> post_world" where
  "adv_post_handle_sig_time_synchronized E w =
     (let w1 = (if \<not> flag_primary_time_sync_is_done (w_st w)
                then let v = clear_table (set_st (\<lambda>st. st\<lparr>flag_primary_time_sync_is_done := True\<rparr>) w)
                     in if c_use_http_stat (e_cfg E) then adv_post_timers_postpone_sending_statistics E v else v
                else w)
      in adv_post_restart_pending_retransmissions w1)"

definition adv_post_handle_sig_retransmit :: "post_env \<Rightarrow> post_world \<Rightarrow> post_world" where
  "adv_post_handle_sig_retransmit E w =
     (if flag_relaying_enabled (w_st w) \<and> c_use_http_ruuvi (e_cfg E)
      then emit (Send_signal ADV_POST_SIG_DO_ASYNC_COMM) (set_st (\<lambda>st. st\<lparr>flag_need_to_send_advs1 := True\<rparr>) w)
      else w)"

definition adv_post_handle_sig_retransmit2 :: "post_env \<Rightarrow> post_world \<Rightarrow> post_world" where
  "adv_post_handle_sig_retransmit2 E w =
     (if flag_relaying_enabled (w_st w) \<and> c_use_http (e_cfg E)
      then emit (Send_signal ADV_POST_SIG_DO_ASYNC_COMM) (set_st (\<lambda>st. st\<lparr>flag_need_to_send_advs2 := True\<rparr>) w)
      else w)"

definition adv_post_handle_sig_retransmit_mqtt :: "post_env \<Rightarrow> post_world \<Rightarrow> post_world" where
  "adv_post_handle_sig_retransmit_mqtt E w =
     (if flag_relaying_enabled (w_st w) \<and> c_use_mqtt (e_cfg E)
      then emit (Send_signal ADV_POST_SIG_DO_ASYNC_COMM)
        (set_st (\<lambda>st. st\<lparr>flag_need_to_send_mqtt_periodic := True\<rparr>) w)
      else w)"

definition adv_post_handle_sig_send_statistics :: "post_env \<Rightarrow> post_world \<Rightarrow> post_world" where
  "adv_post_handle_sig_send_statistics E w =
     (if flag_relaying_enabled (w_st w) \<and> c_use_http_stat (e_cfg E)
      then emit (Send_signal ADV_POST_SIG_DO_ASYNC_COMM) (set_st (\<lambda>st. st\<lparr>flag_need_to_send_statistics := True\<rparr>) w)
      else w)"

definition adv_post_handle_sig_relaying_mode_changed :: "post_env \<Rightarrow> post_world \<Rightarrow> post_world" where
  "adv_post_handle_sig_relaying_mode_changed E w =
     (let w1 = set_st (\<lambda>st. st\<lparr>flag_relaying_enabled := e_relaying_via_http_enabled E\<rparr>) w;
          w2 = (if \<not> flag_relaying_enabled (w_st w1) \<and> flag_async_comm_in_progress (w_st w1)
                then http_server_mutex_unlock
                  (set_st (\<lambda>st. st\<lparr>flag_async_comm_in_progress := False\<rparr>)
                    (http_abort_any_req_during_processing (adv_post_timers_stop_timer_sig_do_async_comm w1)))
                else w1)
      in emit Clear_http_relaying_cmd w2)"

definition adv_post_handle_sig_network_watchdog :: "post_env \<Rightarrow> post_world \<Rightarrow> unit res" where
  "adv_post_handle_sig_network_watchdog E w =
     (if network_timeout_check E w then stop_with (Gateway_restart ''Network watchdog'') w else ret () w)"

definition adv_post_handle_sig_task_watchdog_feed :: "post_world \<Rightarrow> post_world" where
  "adv_post_handle_sig_task_watchdog_feed w =
     (let (cnt, w1) = adv_post_advs_cnt_get_and_clear w in emit Task_wdt_reset (emit (Log_advs_cnt cnt) w1))"

definition adv_post_on_gw_cfg_change_handle_scan_filter ::
  "post_env \<Rightarrow> adv_post_cfg_cache \<Rightarrow> bool \<times> adv_post_cfg_cache" where
  "adv_post_on_gw_cfg_change_handle_scan_filter E c =
     (let macs = c_scan_filter_list (e_cfg E);
          c1 = c\<lparr>scan_filter_allow_listed := c_scan_filter_allow_listed (e_cfg E)\<rparr>
      in if macs \<noteq> [] \<and> \<not> e_alloc_filter E
         then (False, c1\<lparr>p_arr_of_scan_filter_mac := None, scan_filter_length := 0\<rparr>)
         else let c2 = (if macs \<noteq> []
                        then c1\<lparr>p_arr_of_scan_filter_mac := Some (replicate (length macs) (MAC 0 0 0 0 0 0))\<rparr> else c1)
              in case p_arr_of_scan_filter_mac c2 of
                   None \<Rightarrow> (True, c2\<lparr>scan_filter_length := 0\<rparr>)
                 | Some arr \<Rightarrow> (True, c2\<lparr>p_arr_of_scan_filter_mac := Some (macs @ drop (length macs) arr),
                                  scan_filter_length := length macs\<rparr>))"

definition free_scan_filter :: "adv_post_cfg_cache \<Rightarrow> adv_post_cfg_cache" where
  "free_scan_filter c = (if p_arr_of_scan_filter_mac c \<noteq> None
     then c\<lparr>scan_filter_length := 0, p_arr_of_scan_filter_mac := None\<rparr> else c)"

text \<open>The timers and request flags of the four targets after a change of the configuration.\<close>

definition on_gw_cfg_change_targets :: "post_env \<Rightarrow> post_world \<Rightarrow> post_world" where
  "on_gw_cfg_change_targets E w =
     (let cfg = e_cfg E;
          w1 = (if c_use_http_ruuvi cfg
                then set_st (\<lambda>st. st\<lparr>flag_need_to_send_advs1 := True\<rparr>) (adv1_post_timer_relaunch_with_default_period E w)
                else set_st (\<lambda>st. st\<lparr>flag_need_to_send_advs1 := False\<rparr>) (adv1_post_timer_stop w));
          w2 = (if c_use_http cfg
                then set_st (\<lambda>st. st\<lparr>flag_need_to_send_advs2 := True\<rparr>)
                  (adv2_post_timer_relaunch_with_default_period E
                    (adv2_post_timer_set_default_period (c_http_period cfg * TIME_UNITS_MS_PER_SECOND) w1))
                else set_st (\<lambda>st. st\<lparr>flag_need_to_send_advs2 := False\<rparr>) (adv2_post_timer_stop w1));
          w3 = (if c_use_mqtt cfg \<and> c_mqtt_sending_interval cfg \<noteq> 0
                then adv_post_timers_restart_timer_sig_mqtt
                  (e_ms_to_ticks E (c_mqtt_sending_interval cfg) * TIME_UNITS_MS_PER_SECOND) w2
                else adv_post_timers_stop_timer_sig_mqtt w2)
      in if c_use_http_stat cfg
         then set_st (\<lambda>st. st\<lparr>flag_need_to_send_statistics := True\<rparr>) (adv_post_timers_relaunch_timer_sig_send_statistics w3)
         else set_st (\<lambda>st. st\<lparr>flag_need_to_send_statistics := False\<rparr>) (adv_post_timers_stop_timer_sig_send_statistics w3))"

definition adv_post_on_gw_cfg_change :: "post_env \<Rightarrow> post_world \<Rightarrow> unit res" where
  "adv_post_on_gw_cfg_change E w =
     (let w1 = set_st (\<lambda>st. st\<lparr>flag_use_timestamps := c_ntp_use (e_cfg E)\<rparr>) w;
          c1 = free_scan_filter ((g_adv_post_cfg_cache w1)\<lparr>flag_use_ntp := flag_use_timestamps (w_st w1)\<rparr>);
          (ok, c2) = adv_post_on_gw_cfg_change_handle_scan_filter E c1;
          w2 = w1\<lparr>g_adv_post_cfg_cache := c2\<rparr>
      in if \<not> ok then stop_with (Gateway_restart ''Low memory on gw_cfg_change'') w2
         else ret () (adv_post_timers_start_timer_sig_do_async_comm (clear_table (on_gw_cfg_change_targets E w2))))"

definition select_http_server_mutex :: "post_env \<Rightarrow> post_world \<Rightarrow> post_world" where
  "select_http_server_mutex E =
     emit (Http_server_use_mutex (c_mqtt_over_ssl_or_wss (e_cfg E) \<and> (c_use_http_ruuvi (e_cfg E) \<or> c_use_http (e_cfg E))))"

definition adv_post_handle_sig_gw_cfg_ready :: "post_env \<Rightarrow> post_world \<Rightarrow> unit res" where
  "adv_post_handle_sig_gw_cfg_ready E w =
     (let w1 = emit Send_nrf_settings w;
          w2 = (if c_use_http_stat (e_cfg E) then adv_post_timers_postpone_sending_statistics E w1 else w1)
      in and_then (adv_post_on_gw_cfg_change E w2) (\<lambda>_ w3. ret () (select_http_server_mutex E w3)))"

definition adv_post_handle_sig_gw_cfg_changed_ruuvi :: "post_env \<Rightarrow> post_world \<Rightarrow> unit res" where
  "adv_post_handle_sig_gw_cfg_changed_ruuvi E w =
     and_then (adv_post_on_gw_cfg_change E (emit Send_nrf_settings w)) (\<lambda>_ w1. ret () (select_http_server_mutex E w1))"

definition adv_post_handle_sig_ble_scan_changed :: "post_world \<Rightarrow> post_world" where
  "adv_post_handle_sig_ble_scan_changed = clear_table"

definition adv_post_handle_sig_cfg_mode_activated :: "post_env \<Rightarrow> post_world \<Rightarrow> post_world" where
  "adv_post_handle_sig_cfg_mode_activated E w =
     (let w1 = network_timeout_update_timestamp E w
      in clear_table (w1\<lparr>g_adv_post_cfg_cache := free_scan_filter (g_adv_post_cfg_cache w1)\<rparr>))"

definition adv_post_handle_sig_cfg_mode_deactivated :: "post_env \<Rightarrow> post_world \<Rightarrow> unit res" where
  "adv_post_handle_sig_cfg_mode_deactivated E w =
     adv_post_on_gw_cfg_change E (emit Send_nrf_settings (network_timeout_update_timestamp E w))"

definition adv_post_handle_sig_green_led_state_changed :: "post_env \<Rightarrow> post_world \<Rightarrow> post_world" where
  "adv_post_handle_sig_green_led_state_changed E w =
     (if e_green_led_state E then adv_post_on_green_led_update E ADV_POST_GREEN_LED_CMD_ON w
      else adv_post_on_green_led_update E ADV_POST_GREEN_LED_CMD_OFF w)"

definition adv_post_handle_sig_green_led_update :: "post_env \<Rightarrow> post_world \<Rightarrow> post_world" where
  "adv_post_handle_sig_green_led_update E = adv_post_on_green_led_update E ADV_POST_GREEN_LED_CMD_UPDATE"

definition adv_post_handle_sig_recv_adv_timeout :: "post_world \<Rightarrow> post_world" where
  "adv_post_handle_sig_recv_adv_timeout = emit (Notify_event EVENT_MGR_EV_RECV_ADV_TIMEOUT)"

section \<open>Dispatch\<close>

fun sig_handler :: "post_env \<Rightarrow> adv_post_sig \<Rightarrow> post_world \<Rightarrow> unit res" where
  "sig_handler E ADV_POST_SIG_STOP w = ret () (adv_post_handle_sig_stop w)"
| "sig_handler E ADV_POST_SIG_NETWORK_DISCONNECTED w = ret () (adv_post_handle_sig_network_disconnected w)"
| "sig_handler E ADV_POST_SIG_NETWORK_CONNECTED w = ret () (adv_post_handle_sig_network_connected w)"
| "sig_handler E ADV_POST_SIG_TIME_SYNCHRONIZED w = ret () (adv_post_handle_sig_time_synchronized E w)"
| "sig_handler E ADV_POST_SIG_RETRANSMIT w = ret () (adv_post_handle_sig_retransmit E w)"
| "sig_handler E ADV_POST_SIG_RETRANSMIT2 w = ret () (adv_post_handle_sig_retransmit2 E w)"
| "sig_handler E ADV_POST_SIG_RETRANSMIT_MQTT w = ret () (adv_post_handle_sig_retransmit_mqtt E w)"
| "sig_handler E ADV_POST_SIG_SEND_STATISTICS w = ret () (adv_post_handle_sig_send_statistics E w)"
| "sig_handler E ADV_POST_SIG_DO_ASYNC_COMM w = adv_post_do_async_comm E w"
| "sig_handler E ADV_POST_SIG_RELAYING_MODE_CHANGED w = ret () (adv_post_handle_sig_relaying_mode_changed E w)"
| "sig_handler E ADV_POST_SIG_NETWORK_WATCHDOG w = adv_post_handle_sig_network_watchdog E w"
| "sig_handler E ADV_POST_SIG_TASK_WATCHDOG_FEED w = ret () (adv_post_handle_sig_task_watchdog_feed w)"
| "sig_handler E ADV_POST_SIG_GW_CFG_READY w = adv_post_handle_sig_gw_cfg_ready E w"
| "sig_handler E ADV_POST_SIG_GW_CFG_CHANGED_RUUVI w = adv_post_handle_sig_gw_cfg_changed_ruuvi E w"
| "sig_handler E ADV_POST_SIG_BLE_SCAN_CHANGED w = ret () (adv_post_handle_sig_ble_scan_changed w)"
| "sig_handler E ADV_POST_SIG_CFG_MODE_ACTIVATED w = ret () (adv_post_handle_sig_cfg_mode_activated E w)"
| "sig_handler E ADV_POST_SIG_CFG_MODE_DEACTIVATED w = adv_post_handle_sig_cfg_mode_deactivated E w"
| "sig_handler E ADV_POST_SIG_GREEN_LED_STATE_CHANGED w = ret () (adv_post_handle_sig_green_led_state_changed E w)"
| "sig_handler E ADV_POST_SIG_GREEN_LED_UPDATE w = ret () (adv_post_handle_sig_green_led_update E w)"
| "sig_handler E ADV_POST_SIG_RECV_ADV_TIMEOUT w = ret () (adv_post_handle_sig_recv_adv_timeout w)"

definition adv_post_handle_sig :: "post_env \<Rightarrow> adv_post_sig \<Rightarrow> post_world \<Rightarrow> bool res" where
  "adv_post_handle_sig E s w = and_then (sig_handler E s w) (\<lambda>_ w'. ret (flag_stop (w_st w')) w')"

section \<open>The task as a state machine\<close>

text \<open>
  The loop of \<open>adv_post_task\<close> handles the pending signals one after another until
  \<open>flag_stop\<close> is set; between two signals the UART task may deliver an advertisement and the web
  server may take the mutex when it is free and release it. The state is the result of the last
  handler, so a stopped machine stays stopped.
\<close>

datatype post_event =
  Ev_signal post_env adv_post_sig
| Ev_uart_adv post_env "uart_ble_adv option"
| Ev_http_server_lock
| Ev_http_server_unlock

fun post_event_step :: "post_event \<Rightarrow> post_world \<Rightarrow> bool res" where
  "post_event_step (Ev_signal E s) w = (if flag_stop (w_st w) then ret True w else adv_post_handle_sig E s w)"
| "post_event_step (Ev_uart_adv E m) w = ret (flag_stop (w_st w)) (adv_post_send_report E m w)"
| "post_event_step Ev_http_server_lock w = ret (flag_stop (w_st w))
     (if g_http_server_mutex w = Mutex_free then w\<lparr>g_http_server_mutex := Mutex_http_server\<rparr> else w)"
| "post_event_step Ev_http_server_unlock w = ret (flag_stop (w_st w))
     (if g_http_server_mutex w = Mutex_http_server then w\<lparr>g_http_server_mutex := Mutex_free\<rparr> else w)"

definition adv_post_step :: "bool res \<Rightarrow> post_event \<Rightarrow> bool res" where
  "adv_post_step r e = and_then r (\<lambda>_ w. post_event_step e w)"

section \<open>The invariant of the machine\<close>

text \<open>The handlers that only change flags, timers, the cache and the table.\<close>

definition quiet :: "post_world \<Rightarrow> post_world \<Rightarrow> bool" where
  "quiet w w' \<longleftrightarrow> g_http_async_info w' = g_http_async_info w \<and> g_http_server_mutex w' = g_http_server_mutex w \<and>
     g_adv_post_action w' = g_adv_post_action w \<and>
     g_p_adv_post_reports_mqtt w' = g_p_adv_post_reports_mqtt w \<and>
     g_adv_post_reports_mqtt_idx w' = g_adv_post_reports_mqtt_idx w \<and>
     flag_async_comm_in_progress (w_st w') = flag_async_comm_in_progress (w_st w) \<and>
     (adv_table_inv (w_table w) \<longrightarrow> adv_table_inv (w_table w')) \<and>
     mutex_clean w' = mutex_clean w"

lemma quiet_refl [simp]: "quiet w w"
  by (simp add: quiet_def)

lemma quiet_trans: "quiet w w' \<Longrightarrow> quiet w' w'' \<Longrightarrow> quiet w w''"
  by (simp add: quiet_def)

lemma quiet_inv: "quiet w w' \<Longrightarrow> post_inv w \<Longrightarrow> post_inv w' \<and> mutex_clean w' = mutex_clean w"
proof -
  assume q: "quiet w w'" and inv: "post_inv w"
  have "g_p_adv_post_reports_mqtt w' = g_p_adv_post_reports_mqtt w"
    "g_adv_post_reports_mqtt_idx w' = g_adv_post_reports_mqtt_idx w" using q by (simp_all only: quiet_def)
  then have "mqtt_buffer_ok w' = mqtt_buffer_ok w" by (simp add: mqtt_buffer_ok_def split: option.split)
  moreover have "http_ok w' = http_ok w" "http_busy w' = http_busy w"
    using http_view_cong [of w' w] q by (simp_all only: quiet_def)
  ultimately show "post_inv w' \<and> mutex_clean w' = mutex_clean w" using q inv by (simp add: quiet_def post_inv_def Let_def)
qed

lemma quiet_emit [simp]: "e \<noteq> Mutex_unlocked_by_non_owner \<Longrightarrow> quiet w (emit e w') = quiet w w'"
  by (simp add: quiet_def)

lemma quiet_set_st [simp]:
  "(\<And>st. flag_async_comm_in_progress (f st) = flag_async_comm_in_progress st) \<Longrightarrow> quiet w (set_st f w') = quiet w w'"
  by (simp add: quiet_def)

lemma quiet_clear_table: "quiet w w' \<Longrightarrow> quiet w (clear_table w')"
  by (simp add: quiet_def clear_table_def mutex_clean_def clear_inv)

lemma quiet_fields [simp]:
  "quiet w (w'\<lparr>g_adv_post_cfg_cache := c\<rparr>) = quiet w w'"
  "quiet w (w'\<lparr>g_adv_post_advs_cnt := n\<rparr>) = quiet w w'"
  "quiet w (w'\<lparr>g_adv_post_green_led_state := b\<rparr>) = quiet w w'"
  "quiet w (w'\<lparr>g_adv_post_timers2_interval_ms := n\<rparr>) = quiet w w'"
  "quiet w (network_timeout_update_timestamp E w') = quiet w w'"
  by (simp_all add: quiet_def mutex_clean_def network_timeout_update_timestamp_def)

lemma quiet_relaunch [simp]: "quiet w (adv_post_timer_relaunch_with_period E t p w') = quiet w w'"
  by (simp add: adv_post_timer_relaunch_with_period_def Let_def)

lemmas timer_defs =
  adv_post_timers_relaunch_timer_sig_retransmit_to_http_ruuvi_def
  adv_post_timers_relaunch_timer_sig_retransmit_to_http_custom_def
  adv1_post_timer_stop_def adv2_post_timer_stop_def adv_post_timers_restart_timer_sig_mqtt_def
  adv_post_timers_stop_timer_sig_mqtt_def adv_post_timers_stop_timer_sig_send_statistics_def
  adv_post_timers_relaunch_timer_sig_send_statistics_def adv_post_timers_postpone_sending_statistics_def
  adv_post_timers_start_timer_sig_do_async_comm_def adv_post_timers_stop_timer_sig_do_async_comm_def
  adv2_post_timer_set_default_period_def relaunch_defs

lemma quiet_restart: "quiet w w' \<Longrightarrow> quiet w (adv_post_restart_pending_retransmissions w')"
  by (simp add: adv_post_restart_pending_retransmissions_def timer_defs Let_def)

lemma quiet_led: "quiet w w' \<Longrightarrow> quiet w (adv_post_on_green_led_update E c w')"
  by (simp add: adv_post_on_green_led_update_def Let_def split: adv_post_green_led_cmd.split)

lemma quiet_targets: "quiet w w' \<Longrightarrow> quiet w (on_gw_cfg_change_targets E w')"
  by (simp add: on_gw_cfg_change_targets_def timer_defs Let_def)

lemma quiet_cfg_change: "quiet v w \<Longrightarrow> ensures (adv_post_on_gw_cfg_change E w) (\<lambda>_ w'. quiet v w')"
  by (simp add: adv_post_on_gw_cfg_change_def Let_def timer_defs quiet_clear_table quiet_targets split_beta)

lemma quiet_send_report: "quiet w (adv_post_send_report E m w)"
proof -
  have put: "quiet v (v'\<lparr>w_table := snd (adv_table_put r (w_table v'))\<rparr>)" if "quiet v v'" for v v' r
    using that by (simp add: quiet_def mutex_clean_def put_inv)
  have log: "quiet v (adv_post_log_adv_report r c v') = quiet v v'" for v v' r c
    by (simp add: adv_post_log_adv_report_def)
  have put_table: "quiet v (snd (adv_put_to_table r v'))" if "quiet v v'" for v v' r
    using put [of v "emit (Metrics_received_advs_increment (secondary_phy r)) v'"] that
    by (simp add: adv_put_to_table_def Let_def split_beta)
  show ?thesis
    using put_table
    by (simp add: adv_post_send_report_def Let_def split_beta log
        adv_post_timers_relaunch_timer_sig_recv_adv_timeout_def split: option.split)
qed

text \<open>The one handler that can break the mutex discipline.\<close>

definition aborts_mqtt :: "post_env \<Rightarrow> post_world \<Rightarrow> bool" where
  "aborts_mqtt E w \<longleftrightarrow> \<not> e_relaying_via_http_enabled E \<and> flag_async_comm_in_progress (w_st w) \<and>
     g_adv_post_action w = ADV_POST_ACTION_POST_ADVS_TO_MQTT"

lemma relaying_changed_inv:
  assumes inv: "post_inv w"
  shows "post_inv (adv_post_handle_sig_relaying_mode_changed E w) \<and>
    mutex_clean (adv_post_handle_sig_relaying_mode_changed E w) = (mutex_clean w \<and> \<not> aborts_mqtt E w)"
proof (cases "\<not> e_relaying_via_http_enabled E \<and> flag_async_comm_in_progress (w_st w)")
  case False
  then have "adv_post_handle_sig_relaying_mode_changed E w = emit Clear_http_relaying_cmd
      (set_st (\<lambda>st. st\<lparr>flag_relaying_enabled := e_relaying_via_http_enabled E\<rparr>) w)"
    by (auto simp: adv_post_handle_sig_relaying_mode_changed_def Let_def)
  with False quiet_inv [OF _ inv, of "adv_post_handle_sig_relaying_mode_changed E w"] show ?thesis
    by (simp add: aborts_mqtt_def) blast
next
  case True
  define v where "v = adv_post_timers_stop_timer_sig_do_async_comm
      (set_st (\<lambda>st. st\<lparr>flag_relaying_enabled := e_relaying_via_http_enabled E\<rparr>) w)"
  define w3 where "w3 = set_st (\<lambda>st. st\<lparr>flag_async_comm_in_progress := False\<rparr>) (http_abort_any_req_during_processing v)"
  have eq: "adv_post_handle_sig_relaying_mode_changed E w = emit Clear_http_relaying_cmd (http_server_mutex_unlock w3)"
    using True by (simp add: adv_post_handle_sig_relaying_mode_changed_def Let_def v_def w3_def)
  have v: "http_ok v" "adv_table_inv (w_table v)" "g_http_server_mutex v = g_http_server_mutex w"
    "mutex_clean v = mutex_clean w" "g_adv_post_action v = g_adv_post_action w"
    using inv by (simp_all add: v_def timer_defs post_inv_def)
  note a = abort_spec [OF v(1)]
  have w3: "http_ok w3" "\<not> http_busy w3" "adv_table_inv (w_table w3)" "\<not> flag_async_comm_in_progress (w_st w3)"
    "g_http_server_mutex w3 = g_http_server_mutex w" "mutex_clean w3 = mutex_clean w"
    using a v by (simp_all add: w3_def same_task_def)
  have m: "(g_http_server_mutex w = Mutex_adv_post) = (g_adv_post_action w \<noteq> ADV_POST_ACTION_POST_ADVS_TO_MQTT)"
    using inv True by (auto simp: post_inv_def Let_def http_action_iff)
  show ?thesis
  proof (cases "g_http_server_mutex w = Mutex_adv_post")
    case own: True
    then show ?thesis using m w3 True by (simp add: eq post_inv_def Let_def aborts_mqtt_def)
  next
    case other: False
    then show ?thesis using m w3 True
      by (simp add: eq post_inv_def Let_def aborts_mqtt_def http_server_mutex_unlock_def)
  qed
qed

text \<open>Whether an event breaks the mutex discipline in a state.\<close>

definition breaks_mutex :: "post_event \<Rightarrow> post_world \<Rightarrow> bool" where
  "breaks_mutex e w = (case e of
     Ev_signal E s \<Rightarrow> s = ADV_POST_SIG_RELAYING_MODE_CHANGED \<and> \<not> flag_stop (w_st w) \<and> aborts_mqtt E w
   | _ \<Rightarrow> False)"

lemma sig_handler_quiet:
  assumes "s \<noteq> ADV_POST_SIG_RELAYING_MODE_CHANGED" and "s \<noteq> ADV_POST_SIG_DO_ASYNC_COMM"
  shows "ensures (sig_handler E s w) (\<lambda>_ w'. quiet w w')"
  using assms
  by (cases s) (simp_all add: adv_post_handle_sig_stop_def
      adv_post_handle_sig_network_disconnected_def adv_post_handle_sig_network_connected_def
      adv_post_handle_sig_time_synchronized_def adv_post_handle_sig_retransmit_def adv_post_handle_sig_retransmit2_def
      adv_post_handle_sig_retransmit_mqtt_def adv_post_handle_sig_send_statistics_def
      adv_post_handle_sig_network_watchdog_def adv_post_handle_sig_task_watchdog_feed_def
      adv_post_advs_cnt_get_and_clear_def adv_post_handle_sig_gw_cfg_ready_def
      adv_post_handle_sig_gw_cfg_changed_ruuvi_def adv_post_handle_sig_ble_scan_changed_def
      adv_post_handle_sig_cfg_mode_activated_def adv_post_handle_sig_cfg_mode_deactivated_def
      adv_post_handle_sig_green_led_state_changed_def adv_post_handle_sig_green_led_update_def
      adv_post_handle_sig_recv_adv_timeout_def select_http_server_mutex_def Let_def timer_defs
      quiet_restart quiet_led quiet_clear_table quiet_cfg_change)

lemma sig_handler_inv:
  assumes inv: "post_inv w"
  shows "ensures (sig_handler E s w) (\<lambda>_ w'. post_inv w' \<and>
    mutex_clean w' = (mutex_clean w \<and> \<not> (s = ADV_POST_SIG_RELAYING_MODE_CHANGED \<and> aborts_mqtt E w)))"
proof -
  consider "s = ADV_POST_SIG_RELAYING_MODE_CHANGED" | "s = ADV_POST_SIG_DO_ASYNC_COMM"
    | "s \<noteq> ADV_POST_SIG_RELAYING_MODE_CHANGED" "s \<noteq> ADV_POST_SIG_DO_ASYNC_COMM" by blast
  then show ?thesis
  proof cases
    case 1
    then show ?thesis using relaying_changed_inv [OF inv, of E] by simp
  next
    case 2
    show ?thesis unfolding 2 sig_handler.simps
      by (rule ensures_mono [OF do_async_comm_inv [OF inv]]) (simp add: keeps_post_inv_def)
  next
    case 3
    show ?thesis
    proof (rule ensures_mono [OF sig_handler_quiet [OF 3]], goal_cases)
      case (1 a w')
      from quiet_inv [OF 1 inv] 3 show ?case by simp
    qed
  qed
qed

lemma mqtt_buffer_mutex [simp]: "mqtt_buffer_ok (w\<lparr>g_http_server_mutex := x\<rparr>) = mqtt_buffer_ok w"
  by (simp add: mqtt_buffer_ok_def split: option.split)

lemma event_step_inv:
  assumes inv: "post_inv w"
  shows "ensures (post_event_step e w) (\<lambda>_ w'. post_inv w' \<and> mutex_clean w' = (mutex_clean w \<and> \<not> breaks_mutex e w))"
proof (cases e)
  case (Ev_signal E s)
  show ?thesis
  proof (cases "flag_stop (w_st w)")
    case True
    then show ?thesis using inv by (simp add: Ev_signal breaks_mutex_def)
  next
    case False
    then show ?thesis
      using sig_handler_inv [OF inv, of E s] by (simp add: Ev_signal breaks_mutex_def adv_post_handle_sig_def)
  qed
next
  case (Ev_uart_adv E m)
  then show ?thesis using quiet_inv [OF quiet_send_report inv, of E m] by (simp add: breaks_mutex_def)
next
  case Ev_http_server_lock
  have "post_inv (w\<lparr>g_http_server_mutex := Mutex_http_server\<rparr>)" if "g_http_server_mutex w = Mutex_free"
    using inv that by (simp add: post_inv_def Let_def)
  then show ?thesis using inv by (simp add: Ev_http_server_lock breaks_mutex_def)
next
  case Ev_http_server_unlock
  have "post_inv (w\<lparr>g_http_server_mutex := Mutex_free\<rparr>)" if "g_http_server_mutex w = Mutex_http_server"
    using inv that by (simp add: post_inv_def Let_def)
  then show ?thesis using inv by (simp add: Ev_http_server_unlock breaks_mutex_def)
qed

definition running_inv :: "bool res \<Rightarrow> bool" where
  "running_inv r \<longleftrightarrow> ensures r (\<lambda>_. post_inv)"

definition clean_inv :: "bool res \<Rightarrow> bool" where
  "clean_inv r \<longleftrightarrow> ensures r (\<lambda>_ w. post_inv w \<and> mutex_clean w)"

text \<open>Relaying is not suspended while a transfer to MQTT is in progress.\<close>

definition no_mqtt_abort :: "bool res \<Rightarrow> post_event \<Rightarrow> bool" where
  "no_mqtt_abort r e \<longleftrightarrow> \<not> isl r \<longrightarrow> \<not> breaks_mutex e (world_of r)"

lemma running_step: "running_inv r \<Longrightarrow> running_inv (adv_post_step r e)"
  unfolding running_inv_def adv_post_step_def ensures_and_then
  by (erule ensures_mono) (rule ensures_mono [OF event_step_inv], simp_all)

lemma clean_step: "clean_inv r \<Longrightarrow> no_mqtt_abort r e \<Longrightarrow> clean_inv (adv_post_step r e)"
proof (cases r)
  case (Inl x)
  moreover assume "clean_inv r"
  ultimately show ?thesis by (simp add: clean_inv_def adv_post_step_def and_then_def ensures_def)
next
  case (Inr x)
  obtain b w where x: "x = (b, w)" by (cases x)
  assume "clean_inv r" "no_mqtt_abort r e"
  then have "post_inv w" "mutex_clean w" "\<not> breaks_mutex e w"
    by (simp_all add: Inr x clean_inv_def no_mqtt_abort_def world_of_def ensures_def)
  with event_step_inv [of w e] show ?thesis
    by (simp add: Inr x clean_inv_def adv_post_step_def and_then_def)
qed

interpretation post_machine: event_machine adv_post_step running_inv "\<lambda>_ _. True"
  by unfold_locales (rule running_step)

interpretation clean_machine: event_machine adv_post_step clean_inv no_mqtt_abort
  by unfold_locales (rule clean_step)

section \<open>Properties\<close>

definition adv_post_run :: "u32 \<Rightarrow> u32 \<Rightarrow> post_event list \<Rightarrow> bool res" where
  "adv_post_run n m evs = run_events adv_post_step (ret False (adv_post_init n m)) evs"

text \<open>C1: for every sequence of signals, received advertisements and accesses of the web server,
  with any answers of the environment, no assertion of the task, of the request slot or of the MQTT
  buffer fails, and as long as the gateway is not being restarted a transfer is in progress exactly
  when the task holds the request slot and the web server's mutex (HTTP) or a buffer with an index
  inside it (MQTT).\<close>

theorem adv_post_task_safe: "ensures (adv_post_run n m evs) (\<lambda>_. post_inv)"
proof -
  have "running_inv (ret False (adv_post_init n m))" by (simp add: running_inv_def)
  from post_machine.run_inv [OF this, of evs] show ?thesis by (simp add: running_inv_def adv_post_run_def)
qed

text \<open>The task releases the web server's mutex only while it owns it, provided that relaying
  is never suspended in the middle of a transfer to MQTT.\<close>

theorem adv_post_mutex_discipline:
  assumes "enabled_run adv_post_step no_mqtt_abort (ret False (adv_post_init n m)) evs"
  shows "ensures (adv_post_run n m evs) (\<lambda>_ w. Mutex_unlocked_by_non_owner \<notin> set (w_trace w))"
proof -
  have "clean_inv (ret False (adv_post_init n m))" by (simp add: clean_inv_def)
  from clean_machine.run_inv [OF this assms] show ?thesis
    unfolding clean_inv_def adv_post_run_def by (rule ensures_mono) (simp add: mutex_clean_def)
qed

theorem adv_post_mutex_discipline_witness:
  "ensures (adv_post_run 7 9 [Ev_signal env_example ADV_POST_SIG_NETWORK_CONNECTED,
      Ev_signal (env_example\<lparr>e_relaying_via_http_enabled := False\<rparr>) ADV_POST_SIG_RELAYING_MODE_CHANGED])
    (\<lambda>_ w. Mutex_unlocked_by_non_owner \<notin> set (w_trace w))"
  by (rule adv_post_mutex_discipline)
    (simp add: no_mqtt_abort_def breaks_mutex_def aborts_mqtt_def adv_post_step_def adv_post_handle_sig_def
      world_of_def ret_def and_then_def adv_post_handle_sig_network_connected_def
      adv_post_restart_pending_retransmissions_def timer_defs adv_post_init_def adv_post_state_init_def Let_def)

text \<open>When relaying is suspended in the middle of a transfer to MQTT, the handler releases the
  web server's mutex although the task does not own it, and it forgets the transfer without freeing
  its buffer.\<close>

theorem relaying_suspended_during_mqtt:
  assumes "post_inv w" and "aborts_mqtt E w"
  shows "ensures (sig_handler E ADV_POST_SIG_RELAYING_MODE_CHANGED w) (\<lambda>_ w'.
     g_http_server_mutex w \<noteq> Mutex_adv_post \<and> Mutex_unlocked_by_non_owner \<in> set (w_trace w') \<and>
     \<not> flag_async_comm_in_progress (w_st w') \<and> g_p_adv_post_reports_mqtt w' \<noteq> None)"
proof -
  from assms have p: "flag_async_comm_in_progress (w_st w)" "g_adv_post_action w = ADV_POST_ACTION_POST_ADVS_TO_MQTT"
    "\<not> e_relaying_via_http_enabled E" by (simp_all add: aborts_mqtt_def)
  with assms(1) have m: "g_http_server_mutex w \<noteq> Mutex_adv_post" "g_p_adv_post_reports_mqtt w \<noteq> None"
    "http_ok w" "\<not> http_busy w"
    by (auto simp: post_inv_def Let_def mqtt_buffer_ok_def split: option.splits)
  then show ?thesis
    using p by (simp add: adv_post_handle_sig_relaying_mode_changed_def Let_def timer_defs
        http_abort_any_req_during_processing_def http_busy_def http_server_mutex_unlock_def)
qed

theorem relaying_suspended_during_mqtt_witness:
  "let w = (set_st (\<lambda>st. st\<lparr>flag_async_comm_in_progress := True\<rparr>) (adv_post_init 7 9))
       \<lparr>g_adv_post_action := ADV_POST_ACTION_POST_ADVS_TO_MQTT, g_p_adv_post_reports_mqtt := Some []\<rparr>
   in ensures (sig_handler (env_example\<lparr>e_relaying_via_http_enabled := False\<rparr>) ADV_POST_SIG_RELAYING_MODE_CHANGED w)
     (\<lambda>_ w'. Mutex_unlocked_by_non_owner \<in> set (w_trace w'))"
proof -
  let ?w = "(set_st (\<lambda>st. st\<lparr>flag_async_comm_in_progress := True\<rparr>) (adv_post_init 7 9))
       \<lparr>g_adv_post_action := ADV_POST_ACTION_POST_ADVS_TO_MQTT, g_p_adv_post_reports_mqtt := Some []\<rparr>"
  have "post_inv ?w"
    using post_inv_init [of 7 9]
    by (simp add: post_inv_def Let_def mqtt_buffer_ok_def http_ok_def http_busy_def adv_post_init_def)
  moreover have "aborts_mqtt (env_example\<lparr>e_relaying_via_http_enabled := False\<rparr>) ?w" by (simp add: aborts_mqtt_def)
  ultimately show ?thesis
    unfolding Let_def by (rule ensures_mono [OF relaying_suspended_during_mqtt]) simp
qed

lemma relaunch_more [simp]:
  "w_st (adv_post_timer_relaunch_with_period E t p w) = w_st w"
  "w_table (adv_post_timer_relaunch_with_period E t p w) = w_table w"
  "g_adv_post_cfg_cache (adv_post_timer_relaunch_with_period E t p w) = g_adv_post_cfg_cache w"
  "g_adv_post_timers2_interval_ms (adv_post_timer_relaunch_with_period E t p w) = g_adv_post_timers2_interval_ms w"
  by (simp_all add: adv_post_timer_relaunch_with_period_def Let_def)

lemma targets_parts:
  "w_table (on_gw_cfg_change_targets E w) = w_table w"
  "g_adv_post_cfg_cache (on_gw_cfg_change_targets E w) = g_adv_post_cfg_cache w"
  "w_st (on_gw_cfg_change_targets E w) = (w_st w)\<lparr>flag_need_to_send_advs1 := c_use_http_ruuvi (e_cfg E),
     flag_need_to_send_advs2 := c_use_http (e_cfg E), flag_need_to_send_statistics := c_use_http_stat (e_cfg E)\<rparr>"
  by (simp_all add: on_gw_cfg_change_targets_def timer_defs Let_def)

text \<open>After a change of the configuration, unless the filter cannot be allocated and the gateway
  restarts, the filter of received advertisements is the configured one, exactly the configured
  targets are requested, time stamps are used as configured, and the table has forgotten all data.\<close>

theorem gw_cfg_change_effect:
  "ensures (adv_post_on_gw_cfg_change E w) (\<lambda>_ w'. let cfg = e_cfg E in
     (\<forall>m. mac_permitted (g_adv_post_cfg_cache w') m =
        (c_scan_filter_list cfg = [] \<or> (m \<in> set (c_scan_filter_list cfg)) = c_scan_filter_allow_listed cfg)) \<and>
     w_st w' = (w_st w)\<lparr>flag_need_to_send_advs1 := c_use_http_ruuvi cfg, flag_need_to_send_advs2 := c_use_http cfg,
       flag_need_to_send_statistics := c_use_http_stat cfg, flag_use_timestamps := c_ntp_use cfg\<rparr> \<and>
     flag_use_ntp (g_adv_post_cfg_cache w') = c_ntp_use cfg \<and>
     w_table w' = adv_table_clear (w_table w))"
  by (auto simp: adv_post_on_gw_cfg_change_def Let_def timer_defs clear_table_def targets_parts
      adv_post_on_gw_cfg_change_handle_scan_filter_def free_scan_filter_def mac_permitted_def split: option.splits)
end
