(* ===== verification/Json_Wrap.thy ===== *)
theory Json_Wrap
  imports Gw_Cfg_Defs "HOL-Library.Monad_Syntax" "HOL-Library.Countable"
begin

text \<open>
  \<open>cjson_wrap.c\<close>: reading typed values out of a JSON object. The library cJSON belongs to the ESP-IDF
  and is not in the repository: it is the argument \<open>cjson_lib\<close>, and \<open>cjson_documented\<close> is what its
  documentation says of the functions used here. A pointer to an object inside the tree is the list
  of names that leads to it.
\<close>

section \<open>The library\<close>

type_synonym cj_ptr = "string list"

text \<open>
  An item as the code sees it: its type with \<open>valuestring\<close> or \<open>valueint\<close>. Only strings have a
  \<open>valuestring\<close>.
\<close>

datatype cj_item = CJ_Bool bool | CJ_Number int | CJ_String string | CJ_Object | CJ_Array | CJ_Null

record 'j cjson_lib =
  cJSON_CreateObject :: "'j option"
  cJSON_AddToObject :: "'j \<Rightarrow> cj_ptr \<Rightarrow> string \<Rightarrow> cj_item \<Rightarrow> 'j option"
  cJSON_AddStringToArray :: "'j \<Rightarrow> cj_ptr \<Rightarrow> string \<Rightarrow> 'j option"
  cJSON_Print :: "'j \<Rightarrow> string option"
  cJSON_Parse :: "string \<Rightarrow> 'j option"
  cJSON_GetObjectItem :: "'j \<Rightarrow> cj_ptr \<Rightarrow> string \<Rightarrow> cj_item option"
  cJSON_ArrayStrings :: "'j \<Rightarrow> cj_ptr \<Rightarrow> string option list"

text \<open>Names are compared without regard to case.\<close>

definition lower_char :: "char \<Rightarrow> char" where
  "lower_char c = (let n = of_char c :: nat in if 65 \<le> n \<and> n \<le> 90 then char_of (n + 32) else c)"

definition same_ptr :: "cj_ptr \<Rightarrow> cj_ptr \<Rightarrow> bool" where
  "same_ptr p q \<longleftrightarrow> map (map lower_char) p = map (map lower_char) q"

text \<open>A number is a double; \<open>valueint\<close> saturates.\<close>

fun cj_stored :: "cj_item \<Rightarrow> cj_item" where
  "cj_stored (CJ_Number n) = CJ_Number (max (- 2147483648) (min n 2147483647))"
| "cj_stored i = i"

text \<open>
  The documented behaviour: a new object has no items; adding a name that is not there yet makes
  it the one found under this name and leaves the others; adding to an array appends; parsing a
  printed object gives an object with the same items. Each call may also fail for lack of memory.
\<close>

definition cjson_documented :: "'j cjson_lib \<Rightarrow> bool" where
  "cjson_documented L \<longleftrightarrow>
     (\<forall>j p k. cJSON_CreateObject L = Some j \<longrightarrow> cJSON_GetObjectItem L j p k = None) \<and>
     (\<forall>j p k i j'. cJSON_AddToObject L j p k i = Some j' \<longrightarrow> cJSON_GetObjectItem L j p k = None \<longrightarrow>
        (\<forall>p' k'. cJSON_GetObjectItem L j' p' k' =
           (if same_ptr (p' @ [k']) (p @ [k]) then Some (cj_stored i) else cJSON_GetObjectItem L j p' k')) \<and>
        (\<forall>a. if same_ptr a (p @ [k]) then i = CJ_Array \<longrightarrow> cJSON_ArrayStrings L j' a = []
             else \<not> same_ptr a p \<longrightarrow> cJSON_ArrayStrings L j' a = cJSON_ArrayStrings L j a)) \<and>
     (\<forall>j p str j'. cJSON_AddStringToArray L j p str = Some j' \<longrightarrow>
        cJSON_GetObjectItem L j' = cJSON_GetObjectItem L j \<and>
        (\<forall>a. cJSON_ArrayStrings L j' a =
           cJSON_ArrayStrings L j a @ (if same_ptr a p then [Some str] else []))) \<and>
     (\<forall>j text j'. cJSON_Print L j = Some text \<longrightarrow> text \<noteq> [] \<and> (cJSON_Parse L text = Some j' \<longrightarrow>
        cJSON_GetObjectItem L j' = cJSON_GetObjectItem L j \<and>
        cJSON_ArrayStrings L j' = cJSON_ArrayStrings L j))"

section \<open>Reading values\<close>

text \<open>
  A getter that returns false leaves the variable of the caller as it was: its result is None, and
  otherwise the new value. \<open>snprintf (buf, buf_len, "%s", str)\<close> leaves the bytes behind the terminator.
\<close>

definition snprintf_str :: "string \<Rightarrow> string \<Rightarrow> string" where
  "snprintf_str buf str =
     (if buf = [] then [] else let t = take (length buf - 1) str in t @ NUL # drop (length t + 1) buf)"

definition cJSON_GetStringValue :: "cj_item \<Rightarrow> string option" where
  "cJSON_GetStringValue i = (case i of CJ_String s \<Rightarrow> Some s | _ \<Rightarrow> None)"

definition json_wrap_get_string_val :: "'j cjson_lib \<Rightarrow> 'j \<Rightarrow> cj_ptr \<Rightarrow> string \<Rightarrow> string option" where
  "json_wrap_get_string_val L j p k = Option.bind (cJSON_GetObjectItem L j p k) cJSON_GetStringValue"

definition json_wrap_copy_string_val :: "'j cjson_lib \<Rightarrow> 'j \<Rightarrow> cj_ptr \<Rightarrow> string \<Rightarrow> string \<Rightarrow> string option" where
  "json_wrap_copy_string_val L j p k buf = do {
     p_json_attr \<leftarrow> cJSON_GetObjectItem L j p k;
     p_str \<leftarrow> cJSON_GetStringValue p_json_attr;
     Some (snprintf_str buf p_str)
   }"

definition json_wrap_get_bool_val :: "'j cjson_lib \<Rightarrow> 'j \<Rightarrow> cj_ptr \<Rightarrow> string \<Rightarrow> bool option" where
  "json_wrap_get_bool_val L j p k =
     (case cJSON_GetObjectItem L j p k of Some (CJ_Bool b) \<Rightarrow> Some b | _ \<Rightarrow> None)"

text \<open>\<open>strtoul\<close> and \<open>strtol\<close> in base 16 behind the prefix, with 32 bits: digits up to the first
  character that is none, saturating.\<close>

definition hex_digit :: "char \<Rightarrow> nat option" where
  "hex_digit c = (let n = of_char c in
     if 48 \<le> n \<and> n \<le> 57 then Some (n - 48)
     else if 97 \<le> n \<and> n \<le> 102 then Some (n - 87)
     else if 65 \<le> n \<and> n \<le> 70 then Some (n - 55) else None)"

definition hex_value :: "string \<Rightarrow> nat" where
  "hex_value s = foldl (\<lambda>a c. 16 * a + the (hex_digit c)) 0 (takeWhile (\<lambda>c. hex_digit c \<noteq> None) s)"

definition has_hex_prefix :: "string \<Rightarrow> bool" where
  "has_hex_prefix s \<longleftrightarrow> take 2 s = ''0x''"

text \<open>
  A number in the range of the type is taken, another number refused. What is not a number is read
  as a string: without \<open>valuestring\<close> the comparison with the prefix reads through NULL (the outer
  None).
\<close>

definition json_wrap_get_uint32_val ::
  "(string \<Rightarrow> nat \<Rightarrow> u32 \<times> string) \<Rightarrow> 'j cjson_lib \<Rightarrow> 'j \<Rightarrow> cj_ptr \<Rightarrow> string \<Rightarrow> u32 option option" where
  "json_wrap_get_uint32_val os_str_to_uint32 L j p k = (case cJSON_GetObjectItem L j p k of
     None \<Rightarrow> Some None
   | Some (CJ_Number n) \<Rightarrow>
       if 0 \<le> n \<and> (word_of_int n :: u32) \<le> 0xFFFFFFFF then Some (Some (ucast (word_of_int n :: u16)))
       else Some None
   | Some (CJ_String s) \<Rightarrow>
       (let (val, p_end) = os_str_to_uint32 s (if has_hex_prefix s then 16 else 10) in
        if p_end \<noteq> [] then Some None else Some (Some val))
   | Some _ \<Rightarrow> None)"

definition json_wrap_get_uint16_val ::
  "'j cjson_lib \<Rightarrow> 'j \<Rightarrow> cj_ptr \<Rightarrow> string \<Rightarrow> u16 option option" where
  "json_wrap_get_uint16_val L j p k = (case cJSON_GetObjectItem L j p k of
     None \<Rightarrow> Some None
   | Some (CJ_Number n) \<Rightarrow>
       if 0 \<le> n \<and> n \<le> 0xFFFF then Some (Some (word_of_int n)) else Some None
   | Some (CJ_String s) \<Rightarrow>
       if \<not> has_hex_prefix s then Some None
       else (let val = min (hex_value (drop 2 s)) (2 ^ 32 - 1) in
             if val \<le> 0xFFFF then Some (Some (of_nat val)) else Some None)
   | Some _ \<Rightarrow> None)"

definition json_wrap_get_uint8_val ::
  "'j cjson_lib \<Rightarrow> 'j \<Rightarrow> cj_ptr \<Rightarrow> string \<Rightarrow> u8 option option" where
  "json_wrap_get_uint8_val L j p k = (case cJSON_GetObjectItem L j p k of
     None \<Rightarrow> Some None
   | Some (CJ_Number n) \<Rightarrow>
       if 0 \<le> n \<and> n \<le> 0xFF then Some (Some (word_of_int n)) else Some None
   | Some (CJ_String s) \<Rightarrow>
       if \<not> has_hex_prefix s then Some None
       else (let val = min (hex_value (drop 2 s)) (2 ^ 32 - 1) in
             if val \<le> 0xFF then Some (Some (of_nat val)) else Some None)
   | Some _ \<Rightarrow> None)"

text \<open>An \<open>int8_t\<close> is kept as its bits.\<close>

definition json_wrap_get_int8_val ::
  "'j cjson_lib \<Rightarrow> 'j \<Rightarrow> cj_ptr \<Rightarrow> string \<Rightarrow> u8 option option" where
  "json_wrap_get_int8_val L j p k = (case cJSON_GetObjectItem L j p k of
     None \<Rightarrow> Some None
   | Some (CJ_Number n) \<Rightarrow>
       if n < -128 then Some None else if n > 127 then Some None else Some (Some (word_of_int n))
   | Some (CJ_String s) \<Rightarrow>
       if \<not> has_hex_prefix s then Some None
       else (let val = int (min (hex_value (drop 2 s)) (2 ^ 31 - 1)) in
             if 0 \<le> val \<and> val \<le> 127 then Some (Some (word_of_int val)) else Some None)
   | Some _ \<Rightarrow> None)"

end
