(* ===== verification/Gw_Cfg_Json_Gen.thy ===== *)
theory Gw_Cfg_Json_Gen
  imports Json_Wrap
begin

text \<open>
  \<open>gw_cfg_json_generate.c\<close>: the configuration as a JSON object, for the flash memory and for the web
  page of the gateway. A function of the code that returns \<open>false\<close> is None, otherwise it is the
  object with the items added. Strings are read up to their terminators: the buffers of a valid
  configuration (\<open>gw_cfg_ok\<close>) have one.
\<close>

section \<open>What is called\<close>

text \<open>
  The functions of the submodules and of the flash memory that the generator and the parser call,
  and the default configuration.
\<close>

record json_env =
  mac_address_to_str :: "mac_address \<Rightarrow> string"
  mac_addr_from_str :: "string option \<Rightarrow> mac_address \<Rightarrow> bool \<times> mac_address"
  http_server_auth_type_to_str :: "http_server_auth_type \<Rightarrow> string"
  http_server_auth_type_from_str :: "string \<Rightarrow> http_server_auth_type"
  sizeof_http_server_auth_type_str :: nat
  os_str_to_uint32_cptr :: "string \<Rightarrow> nat \<Rightarrow> u32 \<times> string"
  ruuvi_nvs_open_gw_cfg_storage :: bool
  nvs_get_str_ok :: "string \<Rightarrow> bool"
  g_gw_cfg_default :: gw_cfg

definition gw_cfg_storage_check :: "json_env \<Rightarrow> bool" where
  "gw_cfg_storage_check E = ruuvi_nvs_open_gw_cfg_storage E"

definition gw_cfg_storage_check_file :: "json_env \<Rightarrow> string \<Rightarrow> bool" where
  "gw_cfg_storage_check_file E f =
     (if \<not> ruuvi_nvs_open_gw_cfg_storage E then False
      else if \<not> nvs_get_str_ok E f then False else True)"

definition g_gw_cfg_storage_list_of_allowed_files :: "string list" where
  "g_gw_cfg_storage_list_of_allowed_files =
     [''http_cli_cert'', ''http_cli_key'', ''stat_cli_cert'', ''stat_cli_key'', ''mqtt_cli_cert'',
      ''mqtt_cli_key'', ''rcfg_cli_cert'', ''rcfg_cli_key'', ''http_srv_cert'', ''stat_srv_cert'',
      ''mqtt_srv_cert'', ''rcfg_srv_cert'']"

definition gw_cfg_default_get_lan_auth :: "json_env \<Rightarrow> ruuvi_gw_cfg_lan_auth" where
  "gw_cfg_default_get_lan_auth E = cfg_lan_auth (ruuvi_cfg (g_gw_cfg_default E))"

definition gw_cfg_default_get_mqtt :: "json_env \<Rightarrow> ruuvi_gw_cfg_mqtt" where
  "gw_cfg_default_get_mqtt E = cfg_mqtt (ruuvi_cfg (g_gw_cfg_default E))"

definition gw_cfg_default_get_scan :: "json_env \<Rightarrow> ruuvi_gw_cfg_scan" where
  "gw_cfg_default_get_scan E = cfg_scan (ruuvi_cfg (g_gw_cfg_default E))"

definition RUUVI_GATEWAY_HTTP_DEFAULT_URL :: string where
  "RUUVI_GATEWAY_HTTP_DEFAULT_URL = ''https://network.ruuvi.com/record''"

definition gw_cfg_auth_type_to_str :: "json_env \<Rightarrow> ruuvi_gw_cfg_lan_auth \<Rightarrow> string" where
  "gw_cfg_auth_type_to_str E c = (let d = gw_cfg_default_get_lan_auth E in
     http_server_auth_type_to_str E
       (if lan_auth_type c = HTTP_SERVER_AUTH_TYPE_RUUVI \<and>
           c_str (lan_auth_user c) = c_str (lan_auth_user d) \<and>
           c_str (lan_auth_pass c) = c_str (lan_auth_pass d)
        then HTTP_SERVER_AUTH_TYPE_DEFAULT else lan_auth_type c))"

section \<open>Adding one item\<close>

definition gw_cfg_json_add_bool :: "'j cjson_lib \<Rightarrow> cj_ptr \<Rightarrow> string \<Rightarrow> bool \<Rightarrow> 'j \<Rightarrow> 'j option" where
  "gw_cfg_json_add_bool L p k b j = cJSON_AddToObject L j p k (CJ_Bool b)"

definition gw_cfg_json_add_string :: "'j cjson_lib \<Rightarrow> cj_ptr \<Rightarrow> string \<Rightarrow> string \<Rightarrow> 'j \<Rightarrow> 'j option" where
  "gw_cfg_json_add_string L p k s j = cJSON_AddToObject L j p k (CJ_String (c_str s))"

definition gw_cfg_json_add_number :: "'j cjson_lib \<Rightarrow> cj_ptr \<Rightarrow> string \<Rightarrow> int \<Rightarrow> 'j \<Rightarrow> 'j option" where
  "gw_cfg_json_add_number L p k n j = cJSON_AddToObject L j p k (CJ_Number n)"

text \<open>A string that is left out when the passwords are hidden.\<close>

definition add_password :: "'j cjson_lib \<Rightarrow> bool \<Rightarrow> cj_ptr \<Rightarrow> string \<Rightarrow> string \<Rightarrow> 'j \<Rightarrow> 'j option" where
  "add_password L hide p k s j = (if hide then Some j else gw_cfg_json_add_string L p k s j)"

section \<open>The sections\<close>

fun gw_cfg_json_add_items_device_info_storage_files ::
  "'j cjson_lib \<Rightarrow> json_env \<Rightarrow> string list \<Rightarrow> 'j \<Rightarrow> 'j option" where
  "gw_cfg_json_add_items_device_info_storage_files L E [] j = Some j"
| "gw_cfg_json_add_items_device_info_storage_files L E (f # fs) j = do {
     j \<leftarrow> gw_cfg_json_add_bool L [''storage''] f (gw_cfg_storage_check_file E f) j;
     gw_cfg_json_add_items_device_info_storage_files L E fs j
   }"

definition gw_cfg_json_add_items_device_info ::
  "'j cjson_lib \<Rightarrow> json_env \<Rightarrow> gw_cfg_device_info \<Rightarrow> 'j \<Rightarrow> 'j option" where
  "gw_cfg_json_add_items_device_info L E c j = do {
     j \<leftarrow> gw_cfg_json_add_string L [] ''fw_ver'' (di_esp32_fw_ver c) j;
     j \<leftarrow> gw_cfg_json_add_string L [] ''nrf52_fw_ver'' (di_nrf52_fw_ver c) j;
     j \<leftarrow> gw_cfg_json_add_string L [] ''gw_mac'' (di_nrf52_mac_addr c) j;
     j \<leftarrow> cJSON_AddToObject L j [] ''storage'' CJ_Object;
     let is_storage_ready = gw_cfg_storage_check E;
     j \<leftarrow> gw_cfg_json_add_bool L [''storage''] ''storage_ready'' (is_storage_ready) j;
     if is_storage_ready
     then gw_cfg_json_add_items_device_info_storage_files L E g_gw_cfg_storage_list_of_allowed_files j
     else Some j
   }"

definition gw_cfg_json_add_items_wifi_sta_config ::
  "'j cjson_lib \<Rightarrow> bool \<Rightarrow> wifiman_config_sta \<Rightarrow> 'j \<Rightarrow> 'j option" where
  "gw_cfg_json_add_items_wifi_sta_config L hide c j = do {
     let sta = wifi_config_sta c;
     j \<leftarrow> cJSON_AddToObject L j [] ''wifi_sta_config'' CJ_Object;
     j \<leftarrow> gw_cfg_json_add_string L [''wifi_sta_config''] ''ssid'' (sta_ssid sta) j;
     add_password L hide [''wifi_sta_config''] ''password'' (sta_password sta) j
   }"

definition gw_cfg_json_add_items_wifi_ap_config ::
  "'j cjson_lib \<Rightarrow> bool \<Rightarrow> wifiman_config_ap \<Rightarrow> 'j \<Rightarrow> 'j option" where
  "gw_cfg_json_add_items_wifi_ap_config L hide c j = do {
     let ap = wifi_config_ap c;
     j \<leftarrow> cJSON_AddToObject L j [] ''wifi_ap_config'' CJ_Object;
     j \<leftarrow> add_password L hide [''wifi_ap_config''] ''password'' (ap_password ap) j;
     gw_cfg_json_add_number L [''wifi_ap_config''] ''channel'' (if ap_channel ap \<noteq> 0 then ap_channel ap else 1) j
   }"

definition gw_cfg_json_add_items_eth ::
  "'j cjson_lib \<Rightarrow> gw_cfg_eth \<Rightarrow> 'j \<Rightarrow> 'j option" where
  "gw_cfg_json_add_items_eth L c j = do {
     j \<leftarrow> gw_cfg_json_add_bool L [] ''use_eth'' (use_eth c) j;
     j \<leftarrow> gw_cfg_json_add_bool L [] ''eth_dhcp'' (eth_dhcp c) j;
     j \<leftarrow> gw_cfg_json_add_string L [] ''eth_static_ip'' (eth_static_ip c) j;
     j \<leftarrow> gw_cfg_json_add_string L [] ''eth_netmask'' (eth_netmask c) j;
     j \<leftarrow> gw_cfg_json_add_string L [] ''eth_gw'' (eth_gw c) j;
     j \<leftarrow> gw_cfg_json_add_string L [] ''eth_dns1'' (eth_dns1 c) j;
     gw_cfg_json_add_string L [] ''eth_dns2'' (eth_dns2 c) j
   }"

definition gw_cfg_json_add_items_remote_auth_basic ::
  "'j cjson_lib \<Rightarrow> bool \<Rightarrow> ruuvi_gw_cfg_remote \<Rightarrow> 'j \<Rightarrow> 'j option" where
  "gw_cfg_json_add_items_remote_auth_basic L hide c j = do {
     j \<leftarrow> gw_cfg_json_add_string L [] ''remote_cfg_auth_type'' ''basic'' j;
     j \<leftarrow> gw_cfg_json_add_string L [] ''remote_cfg_auth_basic_user'' (auth_basic_user (remote_auth c)) j;
     add_password L hide [] ''remote_cfg_auth_basic_pass'' (auth_basic_password (remote_auth c)) j
   }"

definition gw_cfg_json_add_items_remote_auth_bearer ::
  "'j cjson_lib \<Rightarrow> bool \<Rightarrow> ruuvi_gw_cfg_remote \<Rightarrow> 'j \<Rightarrow> 'j option" where
  "gw_cfg_json_add_items_remote_auth_bearer L hide c j = do {
     j \<leftarrow> gw_cfg_json_add_string L [] ''remote_cfg_auth_type'' ''bearer'' j;
     add_password L hide [] ''remote_cfg_auth_bearer_token'' (auth_token_buf (remote_auth c)) j
   }"

definition gw_cfg_json_add_items_remote_auth_token ::
  "'j cjson_lib \<Rightarrow> bool \<Rightarrow> ruuvi_gw_cfg_remote \<Rightarrow> 'j \<Rightarrow> 'j option" where
  "gw_cfg_json_add_items_remote_auth_token L hide c j = do {
     j \<leftarrow> gw_cfg_json_add_string L [] ''remote_cfg_auth_type'' ''token'' j;
     add_password L hide [] ''remote_cfg_auth_token'' (auth_token_buf (remote_auth c)) j
   }"

definition gw_cfg_json_add_items_remote_auth_apikey ::
  "'j cjson_lib \<Rightarrow> bool \<Rightarrow> ruuvi_gw_cfg_remote \<Rightarrow> 'j \<Rightarrow> 'j option" where
  "gw_cfg_json_add_items_remote_auth_apikey L hide c j = do {
     j \<leftarrow> gw_cfg_json_add_string L [] ''remote_cfg_auth_type'' ''api_key'' j;
     add_password L hide [] ''remote_cfg_auth_apikey'' (auth_token_buf (remote_auth c)) j
   }"

definition gw_cfg_json_add_items_remote ::
  "'j cjson_lib \<Rightarrow> bool \<Rightarrow> ruuvi_gw_cfg_remote \<Rightarrow> 'j \<Rightarrow> 'j option" where
  "gw_cfg_json_add_items_remote L hide c j = do {
     j \<leftarrow> gw_cfg_json_add_bool L [] ''remote_cfg_use'' (use_remote_cfg c) j;
     j \<leftarrow> gw_cfg_json_add_string L [] ''remote_cfg_url'' (remote_url c) j;
     j \<leftarrow> (case remote_auth_type c of
         GW_CFG_HTTP_AUTH_TYPE_NONE \<Rightarrow> gw_cfg_json_add_string L [] ''remote_cfg_auth_type'' ''none'' j
       | GW_CFG_HTTP_AUTH_TYPE_BASIC \<Rightarrow> gw_cfg_json_add_items_remote_auth_basic L hide c j
       | GW_CFG_HTTP_AUTH_TYPE_BEARER \<Rightarrow> gw_cfg_json_add_items_remote_auth_bearer L hide c j
       | GW_CFG_HTTP_AUTH_TYPE_TOKEN \<Rightarrow> gw_cfg_json_add_items_remote_auth_token L hide c j
       | GW_CFG_HTTP_AUTH_TYPE_APIKEY \<Rightarrow> gw_cfg_json_add_items_remote_auth_apikey L hide c j);
     j \<leftarrow> gw_cfg_json_add_bool L [] ''remote_cfg_use_ssl_client_cert'' (remote_use_ssl_client_cert c) j;
     j \<leftarrow> gw_cfg_json_add_bool L [] ''remote_cfg_use_ssl_server_cert'' (remote_use_ssl_server_cert c) j;
     gw_cfg_json_add_number L [] ''remote_cfg_refresh_interval_minutes'' (uint (refresh_interval_minutes c)) j
   }"

definition gw_cfg_json_add_items_http_default ::
  "'j cjson_lib \<Rightarrow> 'j \<Rightarrow> 'j option" where
  "gw_cfg_json_add_items_http_default L j = do {
     j \<leftarrow> gw_cfg_json_add_bool L [] ''use_http_ruuvi'' True j;
     j \<leftarrow> gw_cfg_json_add_bool L [] ''use_http'' True j;
     j \<leftarrow> gw_cfg_json_add_string L [] ''http_url'' RUUVI_GATEWAY_HTTP_DEFAULT_URL j;
     j \<leftarrow> gw_cfg_json_add_string L [] ''http_data_format'' ''ruuvi'' j;
     gw_cfg_json_add_string L [] ''http_auth'' ''none'' j
   }"

definition gw_cfg_json_add_items_http_custom_auth_basic ::
  "'j cjson_lib \<Rightarrow> bool \<Rightarrow> ruuvi_gw_cfg_http \<Rightarrow> 'j \<Rightarrow> 'j option" where
  "gw_cfg_json_add_items_http_custom_auth_basic L hide c j = do {
     j \<leftarrow> gw_cfg_json_add_string L [] ''http_auth'' ''basic'' j;
     j \<leftarrow> gw_cfg_json_add_string L [] ''http_user'' (auth_basic_user (http_auth c)) j;
     add_password L hide [] ''http_pass'' (auth_basic_password (http_auth c)) j
   }"

definition gw_cfg_json_add_items_http_custom_auth_bearer ::
  "'j cjson_lib \<Rightarrow> bool \<Rightarrow> ruuvi_gw_cfg_http \<Rightarrow> 'j \<Rightarrow> 'j option" where
  "gw_cfg_json_add_items_http_custom_auth_bearer L hide c j = do {
     j \<leftarrow> gw_cfg_json_add_string L [] ''http_auth'' ''bearer'' j;
     add_password L hide [] ''http_bearer_token'' (auth_token_buf (http_auth c)) j
   }"

definition gw_cfg_json_add_items_http_custom_auth_token ::
  "'j cjson_lib \<Rightarrow> bool \<Rightarrow> ruuvi_gw_cfg_http \<Rightarrow> 'j \<Rightarrow> 'j option" where
  "gw_cfg_json_add_items_http_custom_auth_token L hide c j = do {
     j \<leftarrow> gw_cfg_json_add_string L [] ''http_auth'' ''token'' j;
     add_password L hide [] ''http_api_key'' (auth_token_buf (http_auth c)) j
   }"

definition gw_cfg_json_add_items_http_custom_auth_apikey ::
  "'j cjson_lib \<Rightarrow> bool \<Rightarrow> ruuvi_gw_cfg_http \<Rightarrow> 'j \<Rightarrow> 'j option" where
  "gw_cfg_json_add_items_http_custom_auth_apikey L hide c j = do {
     j \<leftarrow> gw_cfg_json_add_string L [] ''http_auth'' ''api_key'' j;
     add_password L hide [] ''http_api_key'' (auth_token_buf (http_auth c)) j
   }"

definition gw_cfg_json_add_items_http_custom_params ::
  "'j cjson_lib \<Rightarrow> bool \<Rightarrow> ruuvi_gw_cfg_http \<Rightarrow> 'j \<Rightarrow> 'j option" where
  "gw_cfg_json_add_items_http_custom_params L hide c j = do {
     j \<leftarrow> gw_cfg_json_add_bool L [] ''http_use_ssl_client_cert'' (http_use_ssl_client_cert c) j;
     j \<leftarrow> gw_cfg_json_add_bool L [] ''http_use_ssl_server_cert'' (http_use_ssl_server_cert c) j;
     j \<leftarrow> gw_cfg_json_add_string L [] ''http_url'' (http_url c) j;
     j \<leftarrow> gw_cfg_json_add_number L [] ''http_period'' (uint (http_period c)) j;
     j \<leftarrow> (case http_data_format c of
         GW_CFG_HTTP_DATA_FORMAT_RUUVI \<Rightarrow> gw_cfg_json_add_string L [] ''http_data_format'' ''ruuvi'' j
       | GW_CFG_HTTP_DATA_FORMAT_RUUVI_RAW_AND_DECODED \<Rightarrow> gw_cfg_json_add_string L [] ''http_data_format'' ''ruuvi_raw_and_decoded'' j
       | GW_CFG_HTTP_DATA_FORMAT_RUUVI_DECODED \<Rightarrow> gw_cfg_json_add_string L [] ''http_data_format'' ''ruuvi_decoded'' j);
     (case http_auth_type c of
         GW_CFG_HTTP_AUTH_TYPE_NONE \<Rightarrow> gw_cfg_json_add_string L [] ''http_auth'' ''none'' j
       | GW_CFG_HTTP_AUTH_TYPE_BASIC \<Rightarrow> gw_cfg_json_add_items_http_custom_auth_basic L hide c j
       | GW_CFG_HTTP_AUTH_TYPE_BEARER \<Rightarrow> gw_cfg_json_add_items_http_custom_auth_bearer L hide c j
       | GW_CFG_HTTP_AUTH_TYPE_TOKEN \<Rightarrow> gw_cfg_json_add_items_http_custom_auth_token L hide c j
       | GW_CFG_HTTP_AUTH_TYPE_APIKEY \<Rightarrow> gw_cfg_json_add_items_http_custom_auth_apikey L hide c j)
   }"

definition gw_cfg_json_add_items_http ::
  "'j cjson_lib \<Rightarrow> bool \<Rightarrow> ruuvi_gw_cfg_http \<Rightarrow> 'j \<Rightarrow> 'j option" where
  "gw_cfg_json_add_items_http L hide c j = 
     (if use_http_ruuvi c \<and> \<not> use_http c then gw_cfg_json_add_items_http_default L j
      else if use_http c \<and> http_data_format c = GW_CFG_HTTP_DATA_FORMAT_RUUVI \<and>
        http_auth_type c = GW_CFG_HTTP_AUTH_TYPE_NONE \<and> c_str (http_url c) = RUUVI_GATEWAY_HTTP_DEFAULT_URL
      then gw_cfg_json_add_items_http_default L j
      else do {
        j \<leftarrow> gw_cfg_json_add_bool L [] ''use_http_ruuvi'' (use_http_ruuvi c) j;
        j \<leftarrow> gw_cfg_json_add_bool L [] ''use_http'' (use_http c) j;
        if use_http c then gw_cfg_json_add_items_http_custom_params L hide c j else Some j
      })"

definition gw_cfg_json_add_items_http_stat ::
  "'j cjson_lib \<Rightarrow> bool \<Rightarrow> ruuvi_gw_cfg_http_stat \<Rightarrow> 'j \<Rightarrow> 'j option" where
  "gw_cfg_json_add_items_http_stat L hide c j = do {
     j \<leftarrow> gw_cfg_json_add_bool L [] ''use_http_stat'' (use_http_stat c) j;
     j \<leftarrow> gw_cfg_json_add_string L [] ''http_stat_url'' (http_stat_url c) j;
     j \<leftarrow> gw_cfg_json_add_string L [] ''http_stat_user'' (http_stat_user c) j;
     j \<leftarrow> add_password L hide [] ''http_stat_pass'' (http_stat_pass c) j;
     j \<leftarrow> gw_cfg_json_add_bool L [] ''http_stat_use_ssl_client_cert'' (http_stat_use_ssl_client_cert c) j;
     gw_cfg_json_add_bool L [] ''http_stat_use_ssl_server_cert'' (http_stat_use_ssl_server_cert c) j
   }"

definition gw_cfg_json_add_items_mqtt ::
  "'j cjson_lib \<Rightarrow> bool \<Rightarrow> ruuvi_gw_cfg_mqtt \<Rightarrow> 'j \<Rightarrow> 'j option" where
  "gw_cfg_json_add_items_mqtt L hide c j = do {
     j \<leftarrow> gw_cfg_json_add_bool L [] ''use_mqtt'' (use_mqtt c) j;
     j \<leftarrow> gw_cfg_json_add_bool L [] ''mqtt_disable_retained_messages'' (mqtt_disable_retained_messages c) j;
     j \<leftarrow> gw_cfg_json_add_string L [] ''mqtt_transport'' (mqtt_transport c) j;
     j \<leftarrow> (case mqtt_data_format c of
         GW_CFG_MQTT_DATA_FORMAT_RUUVI_RAW \<Rightarrow> gw_cfg_json_add_string L [] ''mqtt_data_format'' ''ruuvi_raw'' j
       | GW_CFG_MQTT_DATA_FORMAT_RUUVI_RAW_AND_DECODED \<Rightarrow> gw_cfg_json_add_string L [] ''mqtt_data_format'' ''ruuvi_raw_and_decoded'' j
       | GW_CFG_MQTT_DATA_FORMAT_RUUVI_DECODED \<Rightarrow> gw_cfg_json_add_string L [] ''mqtt_data_format'' ''ruuvi_decoded'' j);
     j \<leftarrow> gw_cfg_json_add_string L [] ''mqtt_server'' (mqtt_server c) j;
     j \<leftarrow> gw_cfg_json_add_number L [] ''mqtt_port'' (uint (mqtt_port c)) j;
     j \<leftarrow> gw_cfg_json_add_number L [] ''mqtt_sending_interval'' (uint (mqtt_sending_interval c)) j;
     j \<leftarrow> gw_cfg_json_add_string L [] ''mqtt_prefix'' (mqtt_prefix c) j;
     j \<leftarrow> gw_cfg_json_add_string L [] ''mqtt_client_id'' (mqtt_client_id c) j;
     j \<leftarrow> gw_cfg_json_add_string L [] ''mqtt_user'' (mqtt_user c) j;
     j \<leftarrow> add_password L hide [] ''mqtt_pass'' (mqtt_pass c) j;
     j \<leftarrow> gw_cfg_json_add_bool L [] ''mqtt_use_ssl_client_cert'' (mqtt_use_ssl_client_cert c) j;
     gw_cfg_json_add_bool L [] ''mqtt_use_ssl_server_cert'' (mqtt_use_ssl_server_cert c) j
   }"

definition gw_cfg_json_add_items_lan_auth ::
  "'j cjson_lib \<Rightarrow> json_env \<Rightarrow> bool \<Rightarrow> ruuvi_gw_cfg_lan_auth \<Rightarrow> 'j \<Rightarrow> 'j option" where
  "gw_cfg_json_add_items_lan_auth L E hide c j = do {
     j \<leftarrow> gw_cfg_json_add_string L [] ''lan_auth_type'' (gw_cfg_auth_type_to_str E c) j;
     j \<leftarrow> gw_cfg_json_add_string L [] ''lan_auth_user'' (lan_auth_user c) j;
     j \<leftarrow> (if \<not> hide \<and> lan_auth_type c \<in> {HTTP_SERVER_AUTH_TYPE_BASIC, HTTP_SERVER_AUTH_TYPE_DIGEST,
              HTTP_SERVER_AUTH_TYPE_RUUVI}
          then gw_cfg_json_add_string L [] ''lan_auth_pass'' (lan_auth_pass c) j else Some j);
     if hide then do {
       j \<leftarrow> gw_cfg_json_add_bool L [] ''lan_auth_api_key_use'' (c_str (lan_auth_api_key c) \<noteq> []) j;
       gw_cfg_json_add_bool L [] ''lan_auth_api_key_rw_use'' (c_str (lan_auth_api_key_rw c) \<noteq> []) j
     } else do {
       j \<leftarrow> gw_cfg_json_add_string L [] ''lan_auth_api_key'' (lan_auth_api_key c) j;
       gw_cfg_json_add_string L [] ''lan_auth_api_key_rw'' (lan_auth_api_key_rw c) j
     }
   }"

fun gw_cfg_json_conv_auto_update_cycle_to_str :: "auto_update_cycle_type \<Rightarrow> string" where
  "gw_cfg_json_conv_auto_update_cycle_to_str AUTO_UPDATE_CYCLE_TYPE_REGULAR = ''regular''"
| "gw_cfg_json_conv_auto_update_cycle_to_str AUTO_UPDATE_CYCLE_TYPE_BETA_TESTER = ''beta''"
| "gw_cfg_json_conv_auto_update_cycle_to_str AUTO_UPDATE_CYCLE_TYPE_MANUAL = ''manual''"

definition gw_cfg_json_add_items_auto_update ::
  "'j cjson_lib \<Rightarrow> ruuvi_gw_cfg_auto_update \<Rightarrow> 'j \<Rightarrow> 'j option" where
  "gw_cfg_json_add_items_auto_update L c j = do {
     j \<leftarrow> gw_cfg_json_add_string L [] ''auto_update_cycle'' (gw_cfg_json_conv_auto_update_cycle_to_str (auto_update_cycle c)) j;
     j \<leftarrow> gw_cfg_json_add_number L [] ''auto_update_weekdays_bitmask'' (uint (auto_update_weekdays_bitmask c)) j;
     j \<leftarrow> gw_cfg_json_add_number L [] ''auto_update_interval_from'' (uint (auto_update_interval_from c)) j;
     j \<leftarrow> gw_cfg_json_add_number L [] ''auto_update_interval_to'' (uint (auto_update_interval_to c)) j;
     gw_cfg_json_add_number L [] ''auto_update_tz_offset_hours'' (sint (auto_update_tz_offset_hours c)) j
   }"

definition gw_cfg_json_add_items_ntp ::
  "'j cjson_lib \<Rightarrow> ruuvi_gw_cfg_ntp \<Rightarrow> 'j \<Rightarrow> 'j option" where
  "gw_cfg_json_add_items_ntp L c j = do {
     j \<leftarrow> gw_cfg_json_add_bool L [] ''ntp_use'' (ntp_use c) j;
     j \<leftarrow> gw_cfg_json_add_bool L [] ''ntp_use_dhcp'' (ntp_use_dhcp c) j;
     j \<leftarrow> gw_cfg_json_add_string L [] ''ntp_server1'' (ntp_server1 c) j;
     j \<leftarrow> gw_cfg_json_add_string L [] ''ntp_server2'' (ntp_server2 c) j;
     j \<leftarrow> gw_cfg_json_add_string L [] ''ntp_server3'' (ntp_server3 c) j;
     gw_cfg_json_add_string L [] ''ntp_server4'' (ntp_server4 c) j
   }"

definition gw_cfg_json_add_items_filter ::
  "'j cjson_lib \<Rightarrow> ruuvi_gw_cfg_filter \<Rightarrow> 'j \<Rightarrow> 'j option" where
  "gw_cfg_json_add_items_filter L c j = do {
     j \<leftarrow> gw_cfg_json_add_number L [] ''company_id'' (uint (company_id c)) j;
     gw_cfg_json_add_bool L [] ''company_use_filtering'' (company_use_filtering c) j
   }"

definition gw_cfg_json_add_items_scan ::
  "'j cjson_lib \<Rightarrow> ruuvi_gw_cfg_scan \<Rightarrow> 'j \<Rightarrow> 'j option" where
  "gw_cfg_json_add_items_scan L c j = do {
     j \<leftarrow> gw_cfg_json_add_bool L [] ''scan_coded_phy'' (scan_coded_phy c) j;
     j \<leftarrow> gw_cfg_json_add_bool L [] ''scan_1mbit_phy'' (scan_1mbit_phy c) j;
     j \<leftarrow> gw_cfg_json_add_bool L [] ''scan_2mbit_phy'' (scan_2mbit_phy c) j;
     j \<leftarrow> gw_cfg_json_add_bool L [] ''scan_channel_37'' (scan_channel_37 c) j;
     j \<leftarrow> gw_cfg_json_add_bool L [] ''scan_channel_38'' (scan_channel_38 c) j;
     j \<leftarrow> gw_cfg_json_add_bool L [] ''scan_channel_39'' (scan_channel_39 c) j;
     gw_cfg_json_add_bool L [] ''scan_default'' (scan_default c) j
   }"

text \<open>The loop over the addresses of the filter.\<close>

fun add_scan_filter_list :: "'j cjson_lib \<Rightarrow> json_env \<Rightarrow> mac_address list \<Rightarrow> 'j \<Rightarrow> 'j option" where
  "add_scan_filter_list L E [] j = Some j"
| "add_scan_filter_list L E (mac # macs) j = do {
     j \<leftarrow> cJSON_AddStringToArray L j [''scan_filter_list''] (mac_address_to_str E mac);
     add_scan_filter_list L E macs j
   }"

definition gw_cfg_json_add_items_scan_filter ::
  "'j cjson_lib \<Rightarrow> json_env \<Rightarrow> ruuvi_gw_cfg_scan_filter \<Rightarrow> 'j \<Rightarrow> 'j option" where
  "gw_cfg_json_add_items_scan_filter L E c j = do {
     j \<leftarrow> gw_cfg_json_add_bool L [] ''scan_filter_allow_listed'' (sf_allow_listed c) j;
     j \<leftarrow> cJSON_AddToObject L j [] ''scan_filter_list'' CJ_Array;
     add_scan_filter_list L E (take (unat (sf_length c)) (sf_list c)) j
   }"

definition gw_cfg_json_add_items_fw_update ::
  "'j cjson_lib \<Rightarrow> string \<Rightarrow> 'j \<Rightarrow> 'j option" where
  "gw_cfg_json_add_items_fw_update L url j = gw_cfg_json_add_string L [] ''fw_update_url'' url j"

definition gw_cfg_json_add_items ::
  "'j cjson_lib \<Rightarrow> json_env \<Rightarrow> bool \<Rightarrow> gw_cfg \<Rightarrow> 'j \<Rightarrow> 'j option" where
  "gw_cfg_json_add_items L E hide c j = do {
     let r = ruuvi_cfg c;
     j \<leftarrow> (if hide then gw_cfg_json_add_items_device_info L E (device_info c) j else Some j);
     j \<leftarrow> gw_cfg_json_add_items_wifi_sta_config L hide (wifi_cfg_sta c) j;
     j \<leftarrow> gw_cfg_json_add_items_wifi_ap_config L hide (wifi_cfg_ap c) j;
     j \<leftarrow> gw_cfg_json_add_items_eth L (eth_cfg c) j;
     j \<leftarrow> gw_cfg_json_add_items_remote L hide (cfg_remote r) j;
     j \<leftarrow> gw_cfg_json_add_items_http L hide (cfg_http r) j;
     j \<leftarrow> gw_cfg_json_add_items_http_stat L hide (cfg_http_stat r) j;
     j \<leftarrow> gw_cfg_json_add_items_mqtt L hide (cfg_mqtt r) j;
     j \<leftarrow> gw_cfg_json_add_items_lan_auth L E hide (cfg_lan_auth r) j;
     j \<leftarrow> gw_cfg_json_add_items_auto_update L (cfg_auto_update r) j;
     j \<leftarrow> gw_cfg_json_add_items_ntp L (cfg_ntp r) j;
     j \<leftarrow> gw_cfg_json_add_items_filter L (cfg_filter r) j;
     j \<leftarrow> gw_cfg_json_add_items_scan L (cfg_scan r) j;
     j \<leftarrow> gw_cfg_json_add_items_scan_filter L E (cfg_scan_filter r) j;
     j \<leftarrow> gw_cfg_json_add_string L [] ''coordinates'' (cfg_coordinates r) j;
     gw_cfg_json_add_items_fw_update L (cfg_fw_update_url r) j
   }"

section \<open>The whole configuration\<close>

text \<open>
  The result is \<open>p_str\<close>; the code returns whether it is not NULL. The object is deleted on every
  path behind its creation.
\<close>

definition gw_cfg_json_generate :: "'j cjson_lib \<Rightarrow> json_env \<Rightarrow> bool \<Rightarrow> gw_cfg \<Rightarrow> string option" where
  "gw_cfg_json_generate L E hide c = do {
     j \<leftarrow> cJSON_CreateObject L;
     j \<leftarrow> gw_cfg_json_add_items L E hide c j;
     cJSON_Print L j
   }"

definition gw_cfg_json_generate_for_saving :: "'j cjson_lib \<Rightarrow> json_env \<Rightarrow> gw_cfg \<Rightarrow> string option" where
  "gw_cfg_json_generate_for_saving L E c = gw_cfg_json_generate L E False c"

definition gw_cfg_json_generate_for_ui_client :: "'j cjson_lib \<Rightarrow> json_env \<Rightarrow> gw_cfg \<Rightarrow> string option" where
  "gw_cfg_json_generate_for_ui_client L E c = gw_cfg_json_generate L E True c"

end
