(* ===== verification/Gw_Cfg_Json_Parse.thy ===== *)
theory Gw_Cfg_Json_Parse
  imports Gw_Cfg_Json_Gen
begin

text \<open>
  \<open>gw_cfg_json_parse*.c\<close>: a JSON object read into a configuration. A section is passed with its
  previous value and returned updated; None is an access outside an object or through NULL.
  \<open>sizeof\<close> of a string buffer is its length.
\<close>

section \<open>Getters\<close>

text \<open>They add only text for the log to those of \<open>cjson_wrap.c\<close>; the pointer of the object comes last.\<close>

definition gw_cfg_json_copy_string_val :: "'j cjson_lib \<Rightarrow> 'j \<Rightarrow> string \<Rightarrow> string \<Rightarrow> string option" where
  "gw_cfg_json_copy_string_val L j k buf = json_wrap_copy_string_val L j [] k buf"

definition gw_cfg_json_get_bool_val :: "'j cjson_lib \<Rightarrow> 'j \<Rightarrow> string \<Rightarrow> bool option" where
  "gw_cfg_json_get_bool_val L j k = json_wrap_get_bool_val L j [] k"

definition gw_cfg_json_get_uint32_val ::
  "'j cjson_lib \<Rightarrow> json_env \<Rightarrow> 'j \<Rightarrow> string \<Rightarrow> u32 option option" where
  "gw_cfg_json_get_uint32_val L E j k = json_wrap_get_uint32_val (os_str_to_uint32_cptr E) L j [] k"

definition gw_cfg_json_get_uint16_val :: "'j cjson_lib \<Rightarrow> 'j \<Rightarrow> string \<Rightarrow> u16 option option" where
  "gw_cfg_json_get_uint16_val L j k = json_wrap_get_uint16_val L j [] k"

definition gw_cfg_json_get_uint8_val :: "'j cjson_lib \<Rightarrow> 'j \<Rightarrow> cj_ptr \<Rightarrow> string \<Rightarrow> u8 option option" where
  "gw_cfg_json_get_uint8_val L j p k = json_wrap_get_uint8_val L j p k"

definition gw_cfg_json_get_int8_val :: "'j cjson_lib \<Rightarrow> 'j \<Rightarrow> string \<Rightarrow> u8 option option" where
  "gw_cfg_json_get_int8_val L j k = json_wrap_get_int8_val L j [] k"

text \<open>A variable after a getter; a local buffer; a variable that is a string buffer.\<close>

definition keep :: "'a \<Rightarrow> 'a option \<Rightarrow> 'a" where
  "keep old new = (case new of None \<Rightarrow> old | Some v \<Rightarrow> v)"

definition local_buf :: "nat \<Rightarrow> string" where
  "local_buf n = replicate n NUL"

definition copy_str :: "'j cjson_lib \<Rightarrow> 'j \<Rightarrow> string \<Rightarrow> string \<Rightarrow> string" where
  "copy_str L j k buf = keep buf (gw_cfg_json_copy_string_val L j k buf)"

definition get_bool :: "'j cjson_lib \<Rightarrow> 'j \<Rightarrow> string \<Rightarrow> bool \<Rightarrow> bool" where
  "get_bool L j k v = keep v (gw_cfg_json_get_bool_val L j k)"

text \<open>A string buffer inside a union, at an offset.\<close>

definition copy_str_at :: "nat \<Rightarrow> nat \<Rightarrow> 'j cjson_lib \<Rightarrow> 'j \<Rightarrow> string \<Rightarrow> string \<Rightarrow> string" where
  "copy_str_at off n L j k mem =
     take off mem @ copy_str L j k (take n (drop off mem)) @ drop (off + n) mem"

section \<open>Device information and Ethernet\<close>

definition gw_cfg_json_parse_device_info ::
  "'j cjson_lib \<Rightarrow> 'j \<Rightarrow> gw_cfg_device_info \<Rightarrow> gw_cfg_device_info" where
  "gw_cfg_json_parse_device_info L j c =
     (let zero = (\<lambda>buf. replicate (length buf) NUL) in
      \<lparr>di_wifi_ap = zero (di_wifi_ap c), di_hostname = zero (di_hostname c),
       di_esp32_fw_ver = copy_str L j ''fw_ver'' (zero (di_esp32_fw_ver c)),
       di_nrf52_fw_ver = copy_str L j ''nrf52_fw_ver'' (zero (di_nrf52_fw_ver c)),
       di_nrf52_mac_addr = copy_str L j ''gw_mac'' (zero (di_nrf52_mac_addr c)),
       di_nrf52_device_id = zero (di_nrf52_device_id c),
       di_esp32_mac_addr_wifi = zero (di_esp32_mac_addr_wifi c),
       di_esp32_mac_addr_eth = zero (di_esp32_mac_addr_eth c)\<rparr>)"

definition gw_cfg_json_parse_ip :: "'j cjson_lib \<Rightarrow> 'j \<Rightarrow> string \<Rightarrow> string \<Rightarrow> string" where
  "gw_cfg_json_parse_ip L j k buf = copy_str L j k buf"

definition gw_cfg_json_parse_eth_dhcp :: "'j cjson_lib \<Rightarrow> 'j \<Rightarrow> gw_cfg_eth \<Rightarrow> gw_cfg_eth" where
  "gw_cfg_json_parse_eth_dhcp L j c = c\<lparr>
     eth_static_ip := gw_cfg_json_parse_ip L j ''eth_static_ip'' (eth_static_ip c),
     eth_netmask := gw_cfg_json_parse_ip L j ''eth_netmask'' (eth_netmask c),
     eth_gw := gw_cfg_json_parse_ip L j ''eth_gw'' (eth_gw c),
     eth_dns1 := gw_cfg_json_parse_ip L j ''eth_dns1'' (eth_dns1 c),
     eth_dns2 := gw_cfg_json_parse_ip L j ''eth_dns2'' (eth_dns2 c)\<rparr>"

definition gw_cfg_json_parse_eth :: "'j cjson_lib \<Rightarrow> 'j \<Rightarrow> gw_cfg_eth \<Rightarrow> gw_cfg_eth" where
  "gw_cfg_json_parse_eth L j c =
     (let c = c\<lparr>use_eth := get_bool L j ''use_eth'' (use_eth c)\<rparr> in
      if use_eth c
      then let c = c\<lparr>eth_dhcp := get_bool L j ''eth_dhcp'' (eth_dhcp c)\<rparr> in
           if \<not> eth_dhcp c then gw_cfg_json_parse_eth_dhcp L j c else c
      else c)"

section \<open>Remote configuration\<close>

definition gw_cfg_json_parse_remote_auth_type_basic :: "'j cjson_lib \<Rightarrow> 'j \<Rightarrow> string \<Rightarrow> string" where
  "gw_cfg_json_parse_remote_auth_type_basic L j auth =
     (let auth = copy_str_at 0 51 L j ''remote_cfg_auth_basic_user'' auth in
      copy_str_at 51 51 L j ''remote_cfg_auth_basic_pass'' auth)"

definition gw_cfg_json_parse_remote_auth_type_bearer :: "'j cjson_lib \<Rightarrow> 'j \<Rightarrow> string \<Rightarrow> string" where
  "gw_cfg_json_parse_remote_auth_type_bearer L j auth =
     copy_str_at 0 256 L j ''remote_cfg_auth_bearer_token'' auth"

definition gw_cfg_json_parse_remote ::
  "'j cjson_lib \<Rightarrow> 'j \<Rightarrow> ruuvi_gw_cfg_remote \<Rightarrow> ruuvi_gw_cfg_remote option" where
  "gw_cfg_json_parse_remote L j c = do {
     let c = c\<lparr>use_remote_cfg := get_bool L j ''remote_cfg_use'' (use_remote_cfg c)\<rparr>;
     let c = c\<lparr>remote_url := copy_str L j ''remote_cfg_url'' (remote_url c)\<rparr>;
     let c = (case gw_cfg_json_copy_string_val L j ''remote_cfg_auth_type'' (local_buf 8) of
        None \<Rightarrow> c
      | Some auth_type_str \<Rightarrow>
          (let auth_type =
             (if c_str auth_type_str = ''none'' then GW_CFG_HTTP_AUTH_TYPE_NONE
              else if c_str auth_type_str = ''no'' then GW_CFG_HTTP_AUTH_TYPE_NONE
              else if c_str auth_type_str = ''basic'' then GW_CFG_HTTP_AUTH_TYPE_BASIC
              else if c_str auth_type_str = ''bearer'' then GW_CFG_HTTP_AUTH_TYPE_BEARER
              else GW_CFG_HTTP_AUTH_TYPE_NONE);
             c = (if remote_auth_type c \<noteq> auth_type
                  then c\<lparr>remote_auth := replicate (length (remote_auth c)) NUL, remote_auth_type := auth_type\<rparr>
                  else c)
           in case auth_type of
                GW_CFG_HTTP_AUTH_TYPE_BASIC \<Rightarrow>
                  c\<lparr>remote_auth := gw_cfg_json_parse_remote_auth_type_basic L j (remote_auth c)\<rparr>
              | GW_CFG_HTTP_AUTH_TYPE_BEARER \<Rightarrow>
                  c\<lparr>remote_auth := gw_cfg_json_parse_remote_auth_type_bearer L j (remote_auth c)\<rparr>
              | _ \<Rightarrow> c));
     let c = c\<lparr>remote_use_ssl_client_cert :=
       get_bool L j ''remote_cfg_use_ssl_client_cert'' (remote_use_ssl_client_cert c)\<rparr>;
     let c = c\<lparr>remote_use_ssl_server_cert :=
       get_bool L j ''remote_cfg_use_ssl_server_cert'' (remote_use_ssl_server_cert c)\<rparr>;
     minutes \<leftarrow> gw_cfg_json_get_uint16_val L j ''remote_cfg_refresh_interval_minutes'';
     Some (c\<lparr>refresh_interval_minutes := keep (refresh_interval_minutes c) minutes\<rparr>)
   }"

section \<open>HTTP\<close>

definition gw_cfg_json_parse_http_data_format :: "'j cjson_lib \<Rightarrow> 'j \<Rightarrow> gw_cfg_http_data_format" where
  "gw_cfg_json_parse_http_data_format L j =
     (case gw_cfg_json_copy_string_val L j ''http_data_format'' (local_buf 22) of
        None \<Rightarrow> GW_CFG_HTTP_DATA_FORMAT_RUUVI
      | Some data_format_str \<Rightarrow>
          if c_str data_format_str = ''ruuvi'' then GW_CFG_HTTP_DATA_FORMAT_RUUVI
          else if c_str data_format_str = ''ruuvi_raw_and_decoded''
          then GW_CFG_HTTP_DATA_FORMAT_RUUVI_RAW_AND_DECODED
          else if c_str data_format_str = ''ruuvi_decoded'' then GW_CFG_HTTP_DATA_FORMAT_RUUVI_DECODED
          else GW_CFG_HTTP_DATA_FORMAT_RUUVI)"

definition gw_cfg_json_parse_http_auth_type :: "'j cjson_lib \<Rightarrow> 'j \<Rightarrow> gw_cfg_http_auth_type" where
  "gw_cfg_json_parse_http_auth_type L j =
     (case gw_cfg_json_copy_string_val L j ''http_auth'' (local_buf 8) of
        None \<Rightarrow> GW_CFG_HTTP_AUTH_TYPE_NONE
      | Some auth_type_str \<Rightarrow>
          if c_str auth_type_str = ''none'' then GW_CFG_HTTP_AUTH_TYPE_NONE
          else if c_str auth_type_str = ''basic'' then GW_CFG_HTTP_AUTH_TYPE_BASIC
          else if c_str auth_type_str = ''bearer'' then GW_CFG_HTTP_AUTH_TYPE_BEARER
          else if c_str auth_type_str = ''token'' then GW_CFG_HTTP_AUTH_TYPE_TOKEN
          else if c_str auth_type_str = ''api_key'' then GW_CFG_HTTP_AUTH_TYPE_APIKEY
          else GW_CFG_HTTP_AUTH_TYPE_NONE)"

definition gw_cfg_json_parse_http_auth_basic :: "'j cjson_lib \<Rightarrow> 'j \<Rightarrow> string \<Rightarrow> string" where
  "gw_cfg_json_parse_http_auth_basic L j auth =
     (let auth = copy_str_at 0 51 L j ''http_user'' auth in copy_str_at 51 51 L j ''http_pass'' auth)"

definition gw_cfg_json_parse_http_auth_bearer :: "'j cjson_lib \<Rightarrow> 'j \<Rightarrow> string \<Rightarrow> string" where
  "gw_cfg_json_parse_http_auth_bearer L j auth = copy_str_at 0 256 L j ''http_bearer_token'' auth"

definition gw_cfg_json_parse_http_auth_token :: "'j cjson_lib \<Rightarrow> 'j \<Rightarrow> string \<Rightarrow> string" where
  "gw_cfg_json_parse_http_auth_token L j auth = copy_str_at 0 256 L j ''http_api_key'' auth"

definition gw_cfg_json_parse_http_auth_apikey :: "'j cjson_lib \<Rightarrow> 'j \<Rightarrow> string \<Rightarrow> string" where
  "gw_cfg_json_parse_http_auth_apikey L j auth = copy_str_at 0 256 L j ''http_api_key'' auth"

definition gw_cfg_json_parse_http_ssl_certs :: "'j cjson_lib \<Rightarrow> 'j \<Rightarrow> ruuvi_gw_cfg_http \<Rightarrow> ruuvi_gw_cfg_http" where
  "gw_cfg_json_parse_http_ssl_certs L j c = c\<lparr>
     http_use_ssl_client_cert := get_bool L j ''http_use_ssl_client_cert'' (http_use_ssl_client_cert c),
     http_use_ssl_server_cert := get_bool L j ''http_use_ssl_server_cert'' (http_use_ssl_server_cert c)\<rparr>"

definition gw_cfg_json_parse_http ::
  "'j cjson_lib \<Rightarrow> json_env \<Rightarrow> 'j \<Rightarrow> ruuvi_gw_cfg_http \<Rightarrow> ruuvi_gw_cfg_http option" where
  "gw_cfg_json_parse_http L E j c = do {
     let c = c\<lparr>use_http_ruuvi := get_bool L j ''use_http_ruuvi'' (use_http_ruuvi c)\<rparr>;
     let c = c\<lparr>use_http := get_bool L j ''use_http'' (use_http c)\<rparr>;
     if use_http c then do {
       let c = c\<lparr>http_data_format := gw_cfg_json_parse_http_data_format L j\<rparr>;
       let c = c\<lparr>http_auth_type := gw_cfg_json_parse_http_auth_type L j\<rparr>;
       let c = c\<lparr>http_url := copy_str L j ''http_url'' (http_url c)\<rparr>;
       let c = c\<lparr>http_auth := (case http_auth_type c of
           GW_CFG_HTTP_AUTH_TYPE_NONE \<Rightarrow> http_auth c
         | GW_CFG_HTTP_AUTH_TYPE_BASIC \<Rightarrow> gw_cfg_json_parse_http_auth_basic L j (http_auth c)
         | GW_CFG_HTTP_AUTH_TYPE_BEARER \<Rightarrow> gw_cfg_json_parse_http_auth_bearer L j (http_auth c)
         | GW_CFG_HTTP_AUTH_TYPE_TOKEN \<Rightarrow> gw_cfg_json_parse_http_auth_token L j (http_auth c)
         | GW_CFG_HTTP_AUTH_TYPE_APIKEY \<Rightarrow> gw_cfg_json_parse_http_auth_apikey L j (http_auth c))\<rparr>;
       let c = (if http_data_format c = GW_CFG_HTTP_DATA_FORMAT_RUUVI \<and>
                   http_auth_type c = GW_CFG_HTTP_AUTH_TYPE_NONE \<and>
                   c_str (http_url c) = RUUVI_GATEWAY_HTTP_DEFAULT_URL
                then c\<lparr>use_http_ruuvi := True, use_http := False\<rparr> else c);
       if use_http c then do {
         period \<leftarrow> gw_cfg_json_get_uint32_val L E j ''http_period'';
         let c = c\<lparr>http_period := keep (http_period c) period\<rparr>;
         Some (gw_cfg_json_parse_http_ssl_certs L j c)
       } else Some c
     } else Some c
   }"

definition gw_cfg_json_parse_http_stat ::
  "'j cjson_lib \<Rightarrow> 'j \<Rightarrow> ruuvi_gw_cfg_http_stat \<Rightarrow> ruuvi_gw_cfg_http_stat" where
  "gw_cfg_json_parse_http_stat L j c =
     (let c = c\<lparr>use_http_stat := get_bool L j ''use_http_stat'' (use_http_stat c),
        http_stat_url := copy_str L j ''http_stat_url'' (http_stat_url c),
        http_stat_user := copy_str L j ''http_stat_user'' (http_stat_user c),
        http_stat_pass := copy_str L j ''http_stat_pass'' (http_stat_pass c)\<rparr> in
      if use_http_stat c
      then c\<lparr>
        http_stat_use_ssl_client_cert :=
          get_bool L j ''http_stat_use_ssl_client_cert'' (http_stat_use_ssl_client_cert c),
        http_stat_use_ssl_server_cert :=
          get_bool L j ''http_stat_use_ssl_server_cert'' (http_stat_use_ssl_server_cert c)\<rparr>
      else c)"

section \<open>MQTT\<close>

definition gw_cfg_json_parse_mqtt_data_format :: "'j cjson_lib \<Rightarrow> 'j \<Rightarrow> gw_cfg_mqtt_data_format" where
  "gw_cfg_json_parse_mqtt_data_format L j =
     (case gw_cfg_json_copy_string_val L j ''mqtt_data_format'' (local_buf 22) of
        None \<Rightarrow> GW_CFG_MQTT_DATA_FORMAT_RUUVI_RAW
      | Some data_format_str \<Rightarrow>
          if c_str data_format_str = ''ruuvi_raw'' then GW_CFG_MQTT_DATA_FORMAT_RUUVI_RAW
          else if c_str data_format_str = ''ruuvi_raw_and_decoded''
          then GW_CFG_MQTT_DATA_FORMAT_RUUVI_RAW_AND_DECODED
          else if c_str data_format_str = ''ruuvi_decoded'' then GW_CFG_MQTT_DATA_FORMAT_RUUVI_DECODED
          else GW_CFG_MQTT_DATA_FORMAT_RUUVI_RAW)"

text \<open>A string that must not be missing or empty: the default replaces it.\<close>

definition copy_or_default :: "'j cjson_lib \<Rightarrow> 'j \<Rightarrow> string \<Rightarrow> string \<Rightarrow> string \<Rightarrow> string" where
  "copy_or_default L j k buf def =
     (let buf = keep def (gw_cfg_json_copy_string_val L j k buf) in if c_str buf = [] then def else buf)"

definition gw_cfg_json_parse_mqtt ::
  "'j cjson_lib \<Rightarrow> json_env \<Rightarrow> 'j \<Rightarrow> ruuvi_gw_cfg_mqtt \<Rightarrow> ruuvi_gw_cfg_mqtt option" where
  "gw_cfg_json_parse_mqtt L E j c = do {
     let default_mqtt = gw_cfg_default_get_mqtt E;
     port \<leftarrow> gw_cfg_json_get_uint16_val L j ''mqtt_port'';
     interval \<leftarrow> gw_cfg_json_get_uint32_val L E j ''mqtt_sending_interval'';
     let c = c\<lparr>use_mqtt := get_bool L j ''use_mqtt'' (use_mqtt c),
       mqtt_disable_retained_messages :=
         get_bool L j ''mqtt_disable_retained_messages'' (mqtt_disable_retained_messages c),
       mqtt_transport := copy_str L j ''mqtt_transport'' (mqtt_transport c),
       mqtt_data_format := gw_cfg_json_parse_mqtt_data_format L j,
       mqtt_server := copy_str L j ''mqtt_server'' (mqtt_server c),
       mqtt_port := keep (mqtt_port c) port,
       mqtt_sending_interval := keep (mqtt_sending_interval c) interval,
       mqtt_prefix := copy_or_default L j ''mqtt_prefix'' (mqtt_prefix c) (mqtt_prefix default_mqtt),
       mqtt_client_id :=
         copy_or_default L j ''mqtt_client_id'' (mqtt_client_id c) (mqtt_client_id default_mqtt),
       mqtt_user := copy_str L j ''mqtt_user'' (mqtt_user c),
       mqtt_pass := copy_str L j ''mqtt_pass'' (mqtt_pass c)\<rparr>;
     Some (if use_mqtt c
       then c\<lparr>
         mqtt_use_ssl_client_cert := get_bool L j ''mqtt_use_ssl_client_cert'' (mqtt_use_ssl_client_cert c),
         mqtt_use_ssl_server_cert := get_bool L j ''mqtt_use_ssl_server_cert'' (mqtt_use_ssl_server_cert c)\<rparr>
       else c)
   }"

section \<open>LAN authentication, updates and time servers\<close>

definition gw_cfg_json_parse_lan_auth_user_password ::
  "'j cjson_lib \<Rightarrow> 'j \<Rightarrow> ruuvi_gw_cfg_lan_auth \<Rightarrow> ruuvi_gw_cfg_lan_auth" where
  "gw_cfg_json_parse_lan_auth_user_password L j c = c\<lparr>
     lan_auth_user := copy_str L j ''lan_auth_user'' (lan_auth_user c),
     lan_auth_pass := copy_str L j ''lan_auth_pass'' (lan_auth_pass c)\<rparr>"

definition gw_cfg_json_parse_lan_auth ::
  "'j cjson_lib \<Rightarrow> json_env \<Rightarrow> 'j \<Rightarrow> ruuvi_gw_cfg_lan_auth \<Rightarrow> ruuvi_gw_cfg_lan_auth" where
  "gw_cfg_json_parse_lan_auth L E j c =
     (let c = (case gw_cfg_json_copy_string_val L j ''lan_auth_type''
                      (local_buf (sizeof_http_server_auth_type_str E)) of
           None \<Rightarrow> c
         | Some lan_auth_type_str \<Rightarrow>
             (let d = gw_cfg_default_get_lan_auth E;
                  c = c\<lparr>lan_auth_type := http_server_auth_type_from_str E (c_str lan_auth_type_str)\<rparr>;
                  c = (if lan_auth_type c \<in> {HTTP_SERVER_AUTH_TYPE_BASIC, HTTP_SERVER_AUTH_TYPE_DIGEST,
                            HTTP_SERVER_AUTH_TYPE_RUUVI}
                       then gw_cfg_json_parse_lan_auth_user_password L j c
                       else if lan_auth_type c = HTTP_SERVER_AUTH_TYPE_DEFAULT
                       then c\<lparr>lan_auth_user := lan_auth_user d, lan_auth_pass := lan_auth_pass d\<rparr>
                       else c\<lparr>lan_auth_user := (lan_auth_user c)[0 := NUL],
                              lan_auth_pass := (lan_auth_pass c)[0 := NUL]\<rparr>)
              in if lan_auth_type c = HTTP_SERVER_AUTH_TYPE_RUUVI \<and>
                    c_str (lan_auth_user d) = c_str (lan_auth_user c) \<and>
                    c_str (lan_auth_pass d) = c_str (lan_auth_pass c)
                 then c\<lparr>lan_auth_type := HTTP_SERVER_AUTH_TYPE_DEFAULT\<rparr> else c))
      in c\<lparr>lan_auth_api_key := copy_str L j ''lan_auth_api_key'' (lan_auth_api_key c),
           lan_auth_api_key_rw := copy_str L j ''lan_auth_api_key_rw'' (lan_auth_api_key_rw c)\<rparr>)"

definition gw_cfg_json_parse_auto_update ::
  "'j cjson_lib \<Rightarrow> 'j \<Rightarrow> ruuvi_gw_cfg_auto_update \<Rightarrow> ruuvi_gw_cfg_auto_update option" where
  "gw_cfg_json_parse_auto_update L j c = do {
     let c = (case gw_cfg_json_copy_string_val L j ''auto_update_cycle'' (local_buf 20) of
         None \<Rightarrow> c
       | Some auto_update_cycle_str \<Rightarrow> c\<lparr>auto_update_cycle :=
           (if c_str auto_update_cycle_str = ''regular'' then AUTO_UPDATE_CYCLE_TYPE_REGULAR
            else if c_str auto_update_cycle_str = ''beta'' then AUTO_UPDATE_CYCLE_TYPE_BETA_TESTER
            else if c_str auto_update_cycle_str = ''manual'' then AUTO_UPDATE_CYCLE_TYPE_MANUAL
            else AUTO_UPDATE_CYCLE_TYPE_REGULAR)\<rparr>);
     weekdays \<leftarrow> gw_cfg_json_get_uint8_val L j [] ''auto_update_weekdays_bitmask'';
     from_hour \<leftarrow> gw_cfg_json_get_uint8_val L j [] ''auto_update_interval_from'';
     to_hour \<leftarrow> gw_cfg_json_get_uint8_val L j [] ''auto_update_interval_to'';
     tz \<leftarrow> gw_cfg_json_get_int8_val L j ''auto_update_tz_offset_hours'';
     Some (c\<lparr>auto_update_weekdays_bitmask := keep (auto_update_weekdays_bitmask c) weekdays,
       auto_update_interval_from := keep (auto_update_interval_from c) from_hour,
       auto_update_interval_to := keep (auto_update_interval_to c) to_hour,
       auto_update_tz_offset_hours := keep (auto_update_tz_offset_hours c) tz\<rparr>)
   }"

definition gw_cfg_json_parse_ntp_server :: "'j cjson_lib \<Rightarrow> 'j \<Rightarrow> string \<Rightarrow> string \<Rightarrow> string" where
  "gw_cfg_json_parse_ntp_server L j k buf = copy_str L j k buf"

definition gw_cfg_json_parse_ntp_servers :: "'j cjson_lib \<Rightarrow> 'j \<Rightarrow> ruuvi_gw_cfg_ntp \<Rightarrow> ruuvi_gw_cfg_ntp" where
  "gw_cfg_json_parse_ntp_servers L j c = c\<lparr>
     ntp_server1 := gw_cfg_json_parse_ntp_server L j ''ntp_server1'' (ntp_server1 c),
     ntp_server2 := gw_cfg_json_parse_ntp_server L j ''ntp_server2'' (ntp_server2 c),
     ntp_server3 := gw_cfg_json_parse_ntp_server L j ''ntp_server3'' (ntp_server3 c),
     ntp_server4 := gw_cfg_json_parse_ntp_server L j ''ntp_server4'' (ntp_server4 c)\<rparr>"

definition gw_cfg_json_parse_ntp :: "'j cjson_lib \<Rightarrow> 'j \<Rightarrow> ruuvi_gw_cfg_ntp \<Rightarrow> ruuvi_gw_cfg_ntp" where
  "gw_cfg_json_parse_ntp L j c =
     (let c = c\<lparr>ntp_use := get_bool L j ''ntp_use'' (ntp_use c)\<rparr> in
      if ntp_use c
      then let c = c\<lparr>ntp_use_dhcp := get_bool L j ''ntp_use_dhcp'' (ntp_use_dhcp c)\<rparr> in
           if \<not> ntp_use_dhcp c then gw_cfg_json_parse_ntp_servers L j c else c
      else c\<lparr>ntp_use_dhcp := False\<rparr>)"

section \<open>Filters and scanning\<close>

definition gw_cfg_json_parse_filter ::
  "'j cjson_lib \<Rightarrow> 'j \<Rightarrow> ruuvi_gw_cfg_filter \<Rightarrow> ruuvi_gw_cfg_filter option" where
  "gw_cfg_json_parse_filter L j c = do {
     id \<leftarrow> gw_cfg_json_get_uint16_val L j ''company_id'';
     Some (c\<lparr>company_id := keep (company_id c) id,
       company_use_filtering := get_bool L j ''company_use_filtering'' (company_use_filtering c)\<rparr>)
   }"

text \<open>The assignments from the default that both branches share.\<close>

definition scan_from_default :: "ruuvi_gw_cfg_scan \<Rightarrow> ruuvi_gw_cfg_scan \<Rightarrow> ruuvi_gw_cfg_scan" where
  "scan_from_default d c = c\<lparr>scan_coded_phy := scan_coded_phy d, scan_1mbit_phy := scan_1mbit_phy d,
     scan_2mbit_phy := scan_2mbit_phy d, scan_channel_37 := scan_channel_37 d,
     scan_channel_38 := scan_channel_38 d, scan_channel_39 := scan_channel_39 d\<rparr>"

definition gw_cfg_json_parse_scan ::
  "'j cjson_lib \<Rightarrow> json_env \<Rightarrow> 'j \<Rightarrow> ruuvi_gw_cfg_scan \<Rightarrow> ruuvi_gw_cfg_scan" where
  "gw_cfg_json_parse_scan L E j c =
     (let d = gw_cfg_default_get_scan E;
          flag_scan_default_exists = (gw_cfg_json_get_bool_val L j ''scan_default'' \<noteq> None);
          c = c\<lparr>scan_default := get_bool L j ''scan_default'' (scan_default c)\<rparr> in
      if scan_default c then (scan_from_default d c)\<lparr>scan_default := scan_default d\<rparr>
      else
        let c = c\<lparr>scan_coded_phy := get_bool L j ''scan_coded_phy'' (scan_coded_phy c),
              scan_1mbit_phy := get_bool L j ''scan_1mbit_phy'' (scan_1mbit_phy c)\<rparr>;
            flag_need_to_conv_conf = (gw_cfg_json_get_bool_val L j ''scan_extended_payload'' \<noteq> None);
            c = c\<lparr>scan_2mbit_phy := get_bool L j ''scan_extended_payload'' (scan_2mbit_phy c)\<rparr>;
            c = c\<lparr>scan_2mbit_phy := get_bool L j ''scan_2mbit_phy'' (scan_2mbit_phy c),
              scan_channel_37 := get_bool L j ''scan_channel_37'' (scan_channel_37 c),
              scan_channel_38 := get_bool L j ''scan_channel_38'' (scan_channel_38 c),
              scan_channel_39 := get_bool L j ''scan_channel_39'' (scan_channel_39 c)\<rparr> in
        if flag_need_to_conv_conf \<and> \<not> flag_scan_default_exists then
          let flag_scan_default = True;
              flag_scan_default =
                (if scan_coded_phy c \<or> \<not> scan_1mbit_phy c \<or> \<not> scan_2mbit_phy c then False
                 else flag_scan_default);
              flag_scan_default =
                (if \<not> scan_channel_37 c \<or> \<not> scan_channel_38 c \<or> \<not> scan_channel_39 c then False
                 else flag_scan_default) in
          if flag_scan_default then scan_from_default d (c\<lparr>scan_default := True\<rparr>)
          else c\<lparr>scan_default := False\<rparr>
        else c)"

text \<open>
  The loop over the items of the list: the address of the element behind the array must not be
  handed out. An item that is no address keeps its place.
\<close>

fun parse_scan_filter_list ::
  "json_env \<Rightarrow> string option list \<Rightarrow> u32 \<Rightarrow> mac_address list \<Rightarrow> (u32 \<times> mac_address list) option" where
  "parse_scan_filter_list E [] arr_idx macs = Some (arr_idx, macs)"
| "parse_scan_filter_list E (str # strs) arr_idx macs =
     (if unat arr_idx < length macs
      then parse_scan_filter_list E strs (arr_idx + 1)
             (macs[unat arr_idx := snd (mac_addr_from_str E str (macs ! unat arr_idx))])
      else None)"

definition gw_cfg_json_parse_scan_filter ::
  "'j cjson_lib \<Rightarrow> json_env \<Rightarrow> 'j \<Rightarrow> ruuvi_gw_cfg_scan_filter \<Rightarrow> ruuvi_gw_cfg_scan_filter option" where
  "gw_cfg_json_parse_scan_filter L E j c = do {
     let c = c\<lparr>sf_allow_listed := get_bool L j ''scan_filter_allow_listed'' (sf_allow_listed c)\<rparr>;
     case cJSON_GetObjectItem L j [] ''scan_filter_list'' of
       None \<Rightarrow> Some c
     | Some _ \<Rightarrow> do {
         (n, macs) \<leftarrow> parse_scan_filter_list E (cJSON_ArrayStrings L j [''scan_filter_list'']) 0 (sf_list c);
         Some (c\<lparr>sf_list := macs, sf_length := n\<rparr>)
       }
   }"

definition gw_cfg_json_parse_fw_update :: "'j cjson_lib \<Rightarrow> 'j \<Rightarrow> string \<Rightarrow> string" where
  "gw_cfg_json_parse_fw_update L j url = copy_str L j ''fw_update_url'' url"

section \<open>WiFi\<close>

text \<open>The settings of the WiFi manager are not stored: \<open>gw_cfg_json_parse_wifi_sta_settings\<close> and
  \<open>gw_cfg_json_parse_wifi_ap_settings\<close> change nothing.\<close>

definition gw_cfg_json_parse_wifi_sta_config ::
  "'j cjson_lib \<Rightarrow> 'j \<Rightarrow> cj_ptr \<Rightarrow> wifi_sta_config \<Rightarrow> wifi_sta_config" where
  "gw_cfg_json_parse_wifi_sta_config L j p c = c\<lparr>
     sta_ssid := keep (sta_ssid c) (json_wrap_copy_string_val L j p ''ssid'' (sta_ssid c)),
     sta_password := keep (sta_password c) (json_wrap_copy_string_val L j p ''password'' (sta_password c))\<rparr>"

definition gw_cfg_json_parse_wifi_ap_config ::
  "'j cjson_lib \<Rightarrow> 'j \<Rightarrow> cj_ptr \<Rightarrow> wifi_ap_config \<Rightarrow> wifi_ap_config option" where
  "gw_cfg_json_parse_wifi_ap_config L j p c = do {
     let c = c\<lparr>ap_password :=
       keep (ap_password c) (json_wrap_copy_string_val L j p ''password'' (ap_password c))\<rparr>;
     channel \<leftarrow> gw_cfg_json_get_uint8_val L j p ''channel'';
     let c = c\<lparr>ap_channel := keep (ap_channel c) (map_option uint channel)\<rparr>;
     Some (if ap_channel c = 0 then c\<lparr>ap_channel := 1\<rparr> else c)
   }"

section \<open>The whole configuration\<close>

definition gw_cfg_json_parse_cjson_ruuvi_cfg ::
  "'j cjson_lib \<Rightarrow> json_env \<Rightarrow> 'j \<Rightarrow> gw_cfg_ruuvi \<Rightarrow> gw_cfg_ruuvi option" where
  "gw_cfg_json_parse_cjson_ruuvi_cfg L E j c = do {
     remote \<leftarrow> gw_cfg_json_parse_remote L j (cfg_remote c);
     http \<leftarrow> gw_cfg_json_parse_http L E j (cfg_http c);
     let http_stat = gw_cfg_json_parse_http_stat L j (cfg_http_stat c);
     mqtt \<leftarrow> gw_cfg_json_parse_mqtt L E j (cfg_mqtt c);
     let lan_auth = gw_cfg_json_parse_lan_auth L E j (cfg_lan_auth c);
     auto_update \<leftarrow> gw_cfg_json_parse_auto_update L j (cfg_auto_update c);
     let ntp = gw_cfg_json_parse_ntp L j (cfg_ntp c);
     cfilter \<leftarrow> gw_cfg_json_parse_filter L j (cfg_filter c);
     let scan = gw_cfg_json_parse_scan L E j (cfg_scan c);
     scan_filter \<leftarrow> gw_cfg_json_parse_scan_filter L E j (cfg_scan_filter c);
     let coordinates = copy_str L j ''coordinates'' (cfg_coordinates c);
     let url = gw_cfg_json_parse_fw_update L j (cfg_fw_update_url c);
     Some \<lparr>cfg_remote = remote, cfg_http = http, cfg_http_stat = http_stat, cfg_mqtt = mqtt,
       cfg_lan_auth = lan_auth, cfg_auto_update = auto_update, cfg_ntp = ntp, cfg_filter = cfilter,
       cfg_scan = scan, cfg_scan_filter = scan_filter, cfg_coordinates = coordinates,
       cfg_fw_update_url = url\<rparr>
   }"

text \<open>The sections whose pointers are not NULL, in the order of the code.\<close>

fun parse_opt :: "('a \<Rightarrow> 'a option) \<Rightarrow> 'a option \<Rightarrow> 'a option option" where
  "parse_opt f None = Some None"
| "parse_opt f (Some c) = map_option Some (f c)"

definition parse_wifi_ap :: "'j cjson_lib \<Rightarrow> 'j \<Rightarrow> wifiman_config_ap \<Rightarrow> wifiman_config_ap option" where
  "parse_wifi_ap L j c = (case cJSON_GetObjectItem L j [] ''wifi_ap_config'' of
     None \<Rightarrow> Some c
   | Some _ \<Rightarrow> do {
       ap \<leftarrow> gw_cfg_json_parse_wifi_ap_config L j [''wifi_ap_config''] (wifi_config_ap c);
       Some (c\<lparr>wifi_config_ap := ap\<rparr>)
     })"

definition parse_wifi_sta :: "'j cjson_lib \<Rightarrow> 'j \<Rightarrow> wifiman_config_sta \<Rightarrow> wifiman_config_sta" where
  "parse_wifi_sta L j c = (case cJSON_GetObjectItem L j [] ''wifi_sta_config'' of
     None \<Rightarrow> c
   | Some _ \<Rightarrow>
       c\<lparr>wifi_config_sta := gw_cfg_json_parse_wifi_sta_config L j [''wifi_sta_config''] (wifi_config_sta c)\<rparr>)"

definition gw_cfg_json_parse_cjson ::
  "'j cjson_lib \<Rightarrow> json_env \<Rightarrow> 'j \<Rightarrow> gw_cfg_device_info option \<Rightarrow> gw_cfg_ruuvi option \<Rightarrow> gw_cfg_eth option \<Rightarrow>
   wifiman_config_ap option \<Rightarrow> wifiman_config_sta option \<Rightarrow>
   (gw_cfg_device_info option \<times> gw_cfg_ruuvi option \<times> gw_cfg_eth option \<times> wifiman_config_ap option \<times>
    wifiman_config_sta option) option" where
  "gw_cfg_json_parse_cjson L E j dev ru eth ap sta = do {
     let dev = map_option (gw_cfg_json_parse_device_info L j) dev;
     ru \<leftarrow> parse_opt (gw_cfg_json_parse_cjson_ruuvi_cfg L E j) ru;
     let eth = map_option (gw_cfg_json_parse_eth L j) eth;
     ap \<leftarrow> parse_opt (parse_wifi_ap L j) ap;
     let sta = map_option (parse_wifi_sta L j) sta;
     Some (dev, ru, eth, ap, sta)
   }"

definition gw_cfg_json_parse_cjson_ruuvi ::
  "'j cjson_lib \<Rightarrow> json_env \<Rightarrow> 'j \<Rightarrow> gw_cfg_ruuvi \<Rightarrow> gw_cfg_ruuvi option" where
  "gw_cfg_json_parse_cjson_ruuvi L E j ru = do {
     (_, ru, _, _, _) \<leftarrow> gw_cfg_json_parse_cjson L E j None (Some ru) None None None;
     ru
   }"

definition gw_cfg_json_parse_cjson_eth :: "'j cjson_lib \<Rightarrow> json_env \<Rightarrow> 'j \<Rightarrow> gw_cfg_eth \<Rightarrow> gw_cfg_eth option" where
  "gw_cfg_json_parse_cjson_eth L E j eth = do {
     (_, _, eth, _, _) \<leftarrow> gw_cfg_json_parse_cjson L E j None None (Some eth) None None;
     eth
   }"

definition gw_cfg_json_parse_cjson_wifi_ap ::
  "'j cjson_lib \<Rightarrow> json_env \<Rightarrow> 'j \<Rightarrow> gw_cfg_eth option \<Rightarrow> wifiman_config_ap \<Rightarrow>
   (gw_cfg_eth option \<times> wifiman_config_ap) option" where
  "gw_cfg_json_parse_cjson_wifi_ap L E j eth ap = do {
     (_, _, eth, ap, _) \<leftarrow> gw_cfg_json_parse_cjson L E j None None eth (Some ap) None;
     ap \<leftarrow> ap;
     Some (eth, ap)
   }"

definition gw_cfg_json_parse_cjson_wifi_sta ::
  "'j cjson_lib \<Rightarrow> json_env \<Rightarrow> 'j \<Rightarrow> wifiman_config_sta \<Rightarrow> wifiman_config_sta option" where
  "gw_cfg_json_parse_cjson_wifi_sta L E j sta = do {
     (_, _, _, _, sta) \<leftarrow> gw_cfg_json_parse_cjson L E j None None None None (Some sta);
     sta
   }"

text \<open>The text is without its terminator; the boolean is the result, the configuration the one behind
  the pointer afterwards.\<close>

definition gw_cfg_json_parse ::
  "'j cjson_lib \<Rightarrow> json_env \<Rightarrow> string \<Rightarrow> gw_cfg \<Rightarrow> (bool \<times> gw_cfg) option" where
  "gw_cfg_json_parse L E json_str c =
     (if json_str = [] then Some (False, c)
      else case cJSON_Parse L json_str of
        None \<Rightarrow> Some (False, c)
      | Some j \<Rightarrow> do {
          (_, ru, eth, ap, sta) \<leftarrow> gw_cfg_json_parse_cjson L E j None (Some (ruuvi_cfg c)) (Some (eth_cfg c))
            (Some (wifi_cfg_ap c)) (Some (wifi_cfg_sta c));
          ru \<leftarrow> ru;
          eth \<leftarrow> eth;
          ap \<leftarrow> ap;
          sta \<leftarrow> sta;
          Some (True, c\<lparr>ruuvi_cfg := ru, eth_cfg := eth, wifi_cfg_ap := ap, wifi_cfg_sta := sta\<rparr>)
        })"

end
