(* ===== verification/Json_Ops.thy ===== *)
theory Json_Ops
  imports Gw_Cfg_Json_Parse
begin

text \<open>
  What the generator does to an object as a list of operations, and what the documented library then
  lets the parser find. The interface \<open>json_section\<close> is what a section of the configuration owes to
  the others: its generator adds a known list of items, and its parser, given an object in which
  these items are found, restores the section.
\<close>

named_theorems json_add
named_theorems json_ops
named_theorems json_found

lemmas [json_add] = gw_cfg_json_add_bool_def gw_cfg_json_add_string_def gw_cfg_json_add_number_def
  add_password_def

section \<open>Operations\<close>

datatype json_op = Put cj_ptr string cj_item | Push cj_ptr string

fun run_op :: "'j cjson_lib \<Rightarrow> json_op \<Rightarrow> 'j \<Rightarrow> 'j option" where
  "run_op L (Put p k i) j = cJSON_AddToObject L j p k i"
| "run_op L (Push p str) j = cJSON_AddStringToArray L j p str"

fun run_ops :: "'j cjson_lib \<Rightarrow> json_op list \<Rightarrow> 'j \<Rightarrow> 'j option" where
  "run_ops L [] j = Some j"
| "run_ops L (x # xs) j = Option.bind (run_op L x j) (run_ops L xs)"

lemma run_ops_append: "run_ops L (xs @ ys) j = Option.bind (run_ops L xs j) (run_ops L ys)"
proof (induction xs arbitrary: j)
  case (Cons x xs)
  then show ?case by (cases "run_op L x j") simp_all
qed simp

lemma run_ops_one [simp]: "run_ops L [x] j = run_op L x j"
  by (cases "run_op L x j") simp_all

text \<open>The place of an item, and the strings pushed to an array.\<close>

definition place :: "cj_ptr \<Rightarrow> cj_ptr" where
  "place p = map (map lower_char) p"

lemma same_ptr_place: "same_ptr p q \<longleftrightarrow> place p = place q"
  by (simp add: same_ptr_def place_def)

fun places :: "json_op list \<Rightarrow> cj_ptr list" where
  "places [] = []"
| "places (Put p k i # xs) = place (p @ [k]) # places xs"
| "places (Push p str # xs) = places xs"

fun pushed :: "cj_ptr \<Rightarrow> json_op list \<Rightarrow> string list" where
  "pushed a [] = []"
| "pushed a (Put p k i # xs) = pushed a xs"
| "pushed a (Push p str # xs) = (if place a = place p then [str] else []) @ pushed a xs"

lemma places_append [simp]: "places (xs @ ys) = places xs @ places ys"
  by (induction xs rule: places.induct) auto

lemma pushed_append [simp]: "pushed a (xs @ ys) = pushed a xs @ pushed a ys"
  by (induction a xs rule: pushed.induct) auto

lemma Put_in_places: "Put p k i \<in> set xs \<Longrightarrow> place (p @ [k]) \<in> set (places xs)"
  by (induction xs rule: places.induct) auto

section \<open>What is found after the operations\<close>

lemma documented_create:
  assumes "cjson_documented L" and "cJSON_CreateObject L = Some j"
  shows "cJSON_GetObjectItem L j p k = None"
  using assms(1) [unfolded cjson_documented_def, THEN conjunct1, rule_format, OF assms(2)] .

lemma documented_add:
  assumes "cjson_documented L" and "cJSON_AddToObject L j p k i = Some j'"
    and "cJSON_GetObjectItem L j p k = None"
  shows "cJSON_GetObjectItem L j' p' k' =
      (if place (p' @ [k']) = place (p @ [k]) then Some (cj_stored i) else cJSON_GetObjectItem L j p' k')"
    and "place a = place (p @ [k]) \<Longrightarrow> i = CJ_Array \<Longrightarrow> cJSON_ArrayStrings L j' a = []"
    and "place a \<noteq> place (p @ [k]) \<Longrightarrow> place a \<noteq> place p \<Longrightarrow>
      cJSON_ArrayStrings L j' a = cJSON_ArrayStrings L j a"
proof -
  note both = assms(1) [unfolded cjson_documented_def same_ptr_place, THEN conjunct2, THEN conjunct1,
    rule_format, OF assms(2,3)]
  show "cJSON_GetObjectItem L j' p' k' =
      (if place (p' @ [k']) = place (p @ [k]) then Some (cj_stored i) else cJSON_GetObjectItem L j p' k')"
    using both [THEN conjunct1] by blast
  note array = both [THEN conjunct2, rule_format, of a]
  show "place a = place (p @ [k]) \<Longrightarrow> i = CJ_Array \<Longrightarrow> cJSON_ArrayStrings L j' a = []"
    using array by simp
  show "place a \<noteq> place (p @ [k]) \<Longrightarrow> place a \<noteq> place p \<Longrightarrow>
      cJSON_ArrayStrings L j' a = cJSON_ArrayStrings L j a"
    using array by simp
qed

lemma documented_push:
  assumes "cjson_documented L" and "cJSON_AddStringToArray L j p str = Some j'"
  shows "cJSON_GetObjectItem L j' = cJSON_GetObjectItem L j"
    and "cJSON_ArrayStrings L j' a =
      cJSON_ArrayStrings L j a @ (if place a = place p then [Some str] else [])"
  using assms(1) [unfolded cjson_documented_def same_ptr_place, THEN conjunct2, THEN conjunct2,
    THEN conjunct1, rule_format, OF assms(2)] by simp_all

lemma documented_print:
  assumes "cjson_documented L" and "cJSON_Print L j = Some text"
  shows "text \<noteq> []" and "cJSON_Parse L text = Some j' \<Longrightarrow>
    cJSON_GetObjectItem L j' = cJSON_GetObjectItem L j \<and> cJSON_ArrayStrings L j' = cJSON_ArrayStrings L j"
  using assms(1) [unfolded cjson_documented_def, THEN conjunct2, THEN conjunct2, THEN conjunct2,
    THEN spec, THEN spec, THEN spec, THEN mp, OF assms(2)] by simp_all

text \<open>Items added under different names are all found, and nothing else is.\<close>

lemma run_ops_get:
  assumes "cjson_documented L" and "run_ops L xs j = Some j'" and "distinct (places xs)"
    and "\<And>p k. place (p @ [k]) \<in> set (places xs) \<Longrightarrow> cJSON_GetObjectItem L j p k = None"
  shows "(Put p k i \<in> set xs \<longrightarrow> cJSON_GetObjectItem L j' p k = Some (cj_stored i)) \<and>
    (place (p @ [k]) \<notin> set (places xs) \<longrightarrow> cJSON_GetObjectItem L j' p k = cJSON_GetObjectItem L j p k)"
  using assms(2-)
proof (induction xs arbitrary: j)
  case Nil
  then show ?case by simp
next
  case (Cons x xs)
  from Cons.prems(1) obtain j1 where j1: "run_op L x j = Some j1" "run_ops L xs j1 = Some j'"
    by (auto simp: bind_eq_Some_conv)
  show ?case
  proof (cases x)
    case (Push q str)
    with j1 documented_push(1) [OF assms(1)] have eq: "cJSON_GetObjectItem L j1 = cJSON_GetObjectItem L j"
      by simp
    with Cons.prems(2,3) Push show ?thesis using Cons.IH [OF j1(2)] by simp
  next
    case (Put q l v)
    have none: "cJSON_GetObjectItem L j q l = None" using Cons.prems(3) Put by simp
    from j1 Put have "cJSON_AddToObject L j q l v = Some j1" by simp
    note get = documented_add(1) [OF assms(1) this none]
    have "place (q @ [l]) \<notin> set (places xs)" and d: "distinct (places xs)" using Cons.prems(2) Put by auto
    then have "\<And>p k. place (p @ [k]) \<in> set (places xs) \<Longrightarrow> cJSON_GetObjectItem L j1 p k = None"
      using Cons.prems(3) Put get by auto
    from Cons.IH [OF j1(2) d this] \<open>place (q @ [l]) \<notin> _\<close> get Put show ?thesis
      by (auto dest: Put_in_places)
  qed
qed

lemma run_ops_array:
  assumes "cjson_documented L" and "run_ops L xs j = Some j'" and "distinct (places xs)"
    and "\<And>p k. place (p @ [k]) \<in> set (places xs) \<Longrightarrow> cJSON_GetObjectItem L j p k = None"
    and "\<And>p k i. Put p k i \<in> set xs \<Longrightarrow> place p \<noteq> place a \<and> place (p @ [k]) \<noteq> place a"
  shows "cJSON_ArrayStrings L j' a = cJSON_ArrayStrings L j a @ map Some (pushed a xs)"
  using assms(2-)
proof (induction xs arbitrary: j)
  case Nil
  then show ?case by simp
next
  case (Cons x xs)
  from Cons.prems(1) obtain j1 where j1: "run_op L x j = Some j1" "run_ops L xs j1 = Some j'"
    by (auto simp: bind_eq_Some_conv)
  have ne: "\<And>p k i. Put p k i \<in> set xs \<Longrightarrow> place p \<noteq> place a \<and> place (p @ [k]) \<noteq> place a"
    by (rule Cons.prems(4)) (rule list.set_intros(2))
  show ?case
  proof (cases x)
    case (Push q str)
    with j1 have run: "cJSON_AddStringToArray L j q str = Some j1" by simp
    note push = documented_push [OF assms(1) run]
    from Push Cons.prems(2,3) push(1) have
      "distinct (places xs)" "\<And>p k. place (p @ [k]) \<in> set (places xs) \<Longrightarrow> cJSON_GetObjectItem L j1 p k = None"
      by simp_all
    from Cons.IH [OF j1(2) this ne] push(2) [of a] Push show ?thesis by simp
  next
    case (Put q l v)
    have none: "cJSON_GetObjectItem L j q l = None" using Cons.prems(3) Put by simp
    from j1 Put have run: "cJSON_AddToObject L j q l v = Some j1" by simp
    note add = documented_add [OF assms(1) run none]
    have d: "distinct (places xs)" and "place (q @ [l]) \<notin> set (places xs)" using Cons.prems(2) Put by auto
    then have fresh: "\<And>p k. place (p @ [k]) \<in> set (places xs) \<Longrightarrow> cJSON_GetObjectItem L j1 p k = None"
      using Cons.prems(3) Put add(1) by auto
    have "place a \<noteq> place (q @ [l])" "place a \<noteq> place q" using Cons.prems(4) [of q l v] Put by auto
    from Cons.IH [OF j1(2) d fresh ne] add(3) [OF this] Put show ?thesis by simp
  qed
qed

text \<open>
  \<open>reads L xs absent j\<close>: in \<open>j\<close> the items of \<open>xs\<close> are found, its arrays have the strings that were
  pushed, and the names \<open>absent\<close> are not found.
\<close>

definition reads :: "'j cjson_lib \<Rightarrow> json_op list \<Rightarrow> string list \<Rightarrow> 'j \<Rightarrow> bool" where
  "reads L xs absent j \<longleftrightarrow>
     (\<forall>p k i. Put p k i \<in> set xs \<longrightarrow> cJSON_GetObjectItem L j p k = Some (cj_stored i)) \<and>
     (\<forall>p k. Put p k CJ_Array \<in> set xs \<longrightarrow>
        cJSON_ArrayStrings L j (p @ [k]) = map Some (pushed (p @ [k]) xs)) \<and>
     (\<forall>k \<in> set absent. cJSON_GetObjectItem L j [] k = None)"

lemma reads_get: "reads L xs absent j \<Longrightarrow> Put p k i \<in> set xs \<Longrightarrow> cJSON_GetObjectItem L j p k = Some (cj_stored i)"
  by (simp add: reads_def)

lemma reads_absent: "reads L xs absent j \<Longrightarrow> k \<in> set absent \<Longrightarrow> cJSON_GetObjectItem L j [] k = None"
  by (simp add: reads_def)

lemma reads_array:
  "reads L xs absent j \<Longrightarrow> Put p k CJ_Array \<in> set xs \<Longrightarrow>
   cJSON_ArrayStrings L j (p @ [k]) = map Some (pushed (p @ [k]) xs)"
  by (simp add: reads_def)

text \<open>A part of the operations, all pushes to its arrays included.\<close>

lemma reads_part:
  assumes "reads L xs absent j" and "set ys \<subseteq> set xs" and "set absent' \<subseteq> set absent"
    and "\<And>p k. Put p k CJ_Array \<in> set ys \<Longrightarrow> pushed (p @ [k]) ys = pushed (p @ [k]) xs"
  shows "reads L ys absent' j"
  using assms unfolding reads_def by (metis subsetD)

lemma reads_same:
  assumes "reads L xs absent j" and "cJSON_GetObjectItem L j' = cJSON_GetObjectItem L j"
    and "cJSON_ArrayStrings L j' = cJSON_ArrayStrings L j"
  shows "reads L xs absent j'"
  using assms by (simp add: reads_def)

text \<open>Operations on other places than those of an array.\<close>

definition apart :: "cj_ptr \<Rightarrow> json_op list \<Rightarrow> bool" where
  "apart a = list_all (\<lambda>x. case x of Put q l i \<Rightarrow> i \<noteq> CJ_Array \<and> place q \<noteq> place a | Push _ _ \<Rightarrow> False)"

lemma apart_simps [simp]:
  "apart a []"
  "apart a (Put q l i # xs) \<longleftrightarrow> i \<noteq> CJ_Array \<and> place q \<noteq> place a \<and> apart a xs"
  "apart a (Push q str # xs) \<longleftrightarrow> False"
  "apart a (xs @ ys) \<longleftrightarrow> apart a xs \<and> apart a ys"
  by (simp_all add: apart_def)

lemma apart_Put: "apart a xs \<Longrightarrow> Put q l i \<in> set xs \<Longrightarrow> i \<noteq> CJ_Array \<and> place q \<noteq> place a"
  by (auto simp: apart_def list_all_iff)

lemma apart_pushed: "apart a xs \<Longrightarrow> pushed b xs = []"
  by (induction b xs rule: pushed.induct) simp_all

lemma pushed_all [simp]: "pushed a (map (Push a) ss) = ss"
  by (induction ss) simp_all

lemma places_pushes [simp]: "places (map (Push a) ss) = []"
  by (induction ss) simp_all

lemma Put_pushes [simp]: "Put p k i \<notin> set (map (Push a) ss)"
  by auto

text \<open>The operations of a section: different names out of a list, and the array \<open>a\<close> in one piece.\<close>

definition whole_array :: "cj_ptr \<Rightarrow> json_op list \<Rightarrow> bool" where
  "whole_array a xs \<longleftrightarrow> apart a xs \<or>
     (\<exists>ys p k ss zs. a = p @ [k] \<and> xs = ys @ Put p k CJ_Array # map (Push a) ss @ zs \<and>
        apart a ys \<and> apart a zs)"

definition ops_wf :: "cj_ptr list \<Rightarrow> json_op list \<Rightarrow> bool" where
  "ops_wf names xs \<longleftrightarrow> distinct (places xs) \<and> set (places xs) \<subseteq> set names"

lemma ops_wf_append:
  assumes "ops_wf ns xs" and "ops_wf ms ys" and "set ns \<inter> set ms = {}"
  shows "ops_wf (ns @ ms) (xs @ ys)"
  using assms by (auto simp: ops_wf_def)

lemma run_ops_whole_array:
  assumes "cjson_documented L" and "cJSON_CreateObject L = Some j" and "run_ops L xs j = Some j'"
    and "distinct (places xs)" and "whole_array a xs" and "Put q l CJ_Array \<in> set xs"
  shows "cJSON_ArrayStrings L j' (q @ [l]) = map Some (pushed (q @ [l]) xs)"
proof -
  from assms(5,6) obtain ys p k ss zs where xs: "a = p @ [k]"
    "xs = ys @ Put p k CJ_Array # map (Push a) ss @ zs" "apart a ys" "apart a zs"
    unfolding whole_array_def using apart_Put by blast
  with assms(6) have q: "q @ [l] = a" using apart_Put by fastforce
  let ?rest = "map (Push a) ss @ zs"
  from assms(3) xs obtain j1 j2 where run: "run_ops L ys j = Some j1"
      "cJSON_AddToObject L j1 p k CJ_Array = Some j2" "run_ops L ?rest j2 = Some j'"
    by (auto simp: run_ops_append bind_eq_Some_conv)
  have none: "cJSON_GetObjectItem L j p k = None" for p k by (rule documented_create [OF assms(1,2)])
  have d: "distinct (places ys)" "distinct (places ?rest)" "place a \<notin> set (places ys)"
      "place a \<notin> set (places ?rest)" "set (places ys) \<inter> set (places ?rest) = {}"
    using assms(4) xs by auto
  have get1: "cJSON_GetObjectItem L j1 p k = None" if "place (p @ [k]) \<notin> set (places ys)" for p k
    using run_ops_get [OF assms(1) run(1) d(1)] none that by auto
  have k: "cJSON_GetObjectItem L j1 p k = None" using get1 d(3) xs(1) by simp
  note add = documented_add [OF assms(1) run(2) k]
  have fresh: "cJSON_GetObjectItem L j2 p' k' = None" if "place (p' @ [k']) \<in> set (places ?rest)" for p' k'
    using add(1) [of p' k'] get1 [of p' k'] d that xs(1) by auto
  have "place p' \<noteq> place a \<and> place (p' @ [k']) \<noteq> place a" if "Put p' k' i \<in> set ?rest" for p' k' i
    using that apart_Put [OF xs(4)] Put_in_places [of p' k' i zs] d(4) by auto
  from run_ops_array [OF assms(1) run(3) d(2) fresh this] add(2) [of a] xs(1)
  have "cJSON_ArrayStrings L j' a = map Some (pushed a ?rest)" by simp
  then show ?thesis using xs q by (simp add: apart_pushed)
qed

lemma run_ops_reads:
  assumes "cjson_documented L" and "cJSON_CreateObject L = Some j" and "run_ops L xs j = Some j'"
    and "ops_wf names xs" and "whole_array a xs" and "\<And>k. k \<in> set absent \<Longrightarrow> place [k] \<notin> set names"
  shows "reads L xs absent j'"
proof -
  have d: "distinct (places xs)" and n: "set (places xs) \<subseteq> set names" using assms(4) by (simp_all add: ops_wf_def)
  have none: "cJSON_GetObjectItem L j p k = None" for p k by (rule documented_create [OF assms(1,2)])
  note get = run_ops_get [OF assms(1,3) d none]
  have "cJSON_GetObjectItem L j' [] k = None" if "k \<in> set absent" for k
  proof -
    from n assms(6) [OF that] have "place [k] \<notin> set (places xs)" by auto
    then show ?thesis using get [where p = "[]" and k = k] none by simp
  qed
  then show ?thesis
    unfolding reads_def using get run_ops_whole_array [OF assms(1-3) d assms(5)] by blast
qed

section \<open>The interface of a section\<close>

locale json_section =
  fixes L :: "'j cjson_lib"
    and add :: "'c \<Rightarrow> 'j \<Rightarrow> 'j option"
    and ops :: "'c \<Rightarrow> json_op list"
    and names :: "cj_ptr list"
    and absent :: "string list"
    and array :: cj_ptr
    and parse :: "'j \<Rightarrow> 'c \<Rightarrow> 'c option"
    and fits :: "'c \<Rightarrow> 'c \<Rightarrow> bool"
    and restored :: "'c \<Rightarrow> 'c \<Rightarrow> 'v"
    and view :: "'c \<Rightarrow> 'v"
  assumes add_ops: "add c j = run_ops L (ops c) j"
    and ops_wf: "ops_wf names (ops c)"
    and ops_array: "whole_array array (ops c)"
    and absent_names: "k \<in> set absent \<Longrightarrow> place [k] \<notin> set names"
    and parse_ops: "fits c d \<Longrightarrow> reads L (ops c) absent j \<Longrightarrow> \<exists>d'. parse j d = Some d' \<and> view d' = restored c d"
begin

text \<open>Generating, printing and parsing a section restores it.\<close>

lemma round_trip:
  assumes "cjson_documented L" and "cJSON_CreateObject L = Some j0" and "add c j0 = Some j"
    and "cJSON_Print L j = Some text" and "cJSON_Parse L text = Some j'" and "fits c d"
  shows "\<exists>d'. parse j' d = Some d' \<and> view d' = restored c d"
proof (rule parse_ops [OF assms(6)])
  have "run_ops L (ops c) j0 = Some j" using assms(3) by (simp add: add_ops)
  from run_ops_reads [OF assms(1,2) this ops_wf ops_array absent_names]
  have found: "reads L (ops c) absent j" .
  show "reads L (ops c) absent j'"
    by (rule reads_same [OF found]) (simp_all add: documented_print(2) [OF assms(1,4,5)])
qed

end

end
