(* ===== verification/Gw_Cfg_Json_Sections.thy ===== *)
theory Gw_Cfg_Json_Sections
  imports Json_Ops Gw_Cfg
begin

text \<open>
  The sections of the configuration in JSON. For each: the operations of its generator, what the
  parser restores from them, and the interpretation of \<open>json_section\<close>. A restored section is told by
  its meaning (\<open>Gw_Cfg_Cmp\<close>); \<open>_fits\<close> says that the section read into has buffers of the same sizes.
\<close>

section \<open>Strings\<close>

definition same_size :: "string \<Rightarrow> string \<Rightarrow> bool" where
  "same_size x y \<longleftrightarrow> terminated x \<and> length x = length y"

lemma length_c_str: "terminated x \<Longrightarrow> length (c_str x) < length x"
  by (induction x) auto

lemma length_c_str_less: "same_size x y \<Longrightarrow> length (c_str x) < length y"
  using length_c_str by (fastforce simp: same_size_def)

lemma c_str_id: "NUL \<notin> set s \<Longrightarrow> c_str s = s"
  by (induction s) auto

lemma snprintf_str_room:
  assumes "length s < length buf"
  shows "snprintf_str buf s = s @ NUL # drop (length s + 1) buf"
  using assms by (auto simp: snprintf_str_def)

lemma c_str_snprintf_room: "length s < length buf \<Longrightarrow> NUL \<notin> set s \<Longrightarrow> c_str (snprintf_str buf s) = s"
  by (simp add: snprintf_str_room c_str_id)

lemma c_str_snprintf [simp]: "same_size x y \<Longrightarrow> c_str (snprintf_str y (c_str x)) = c_str x"
  by (simp add: c_str_snprintf_room length_c_str_less)

lemma length_snprintf [simp]: "length (snprintf_str buf s) = length buf"
  by (cases buf) (auto simp: snprintf_str_def Let_def)

lemma terminated_snprintf: "buf \<noteq> [] \<Longrightarrow> terminated (snprintf_str buf s)"
  by (auto simp: snprintf_str_def Let_def terminated_def)

lemma length_local_buf [simp]: "length (local_buf n) = n"
  by (simp add: local_buf_def)

lemma c_str_local:
  "length s < n \<Longrightarrow> NUL \<notin> set s \<Longrightarrow> c_str (snprintf_str (local_buf n) s) = s"
  by (simp add: c_str_snprintf_room)

text \<open>A string written into the memory of a union.\<close>

definition write_at :: "nat \<Rightarrow> nat \<Rightarrow> string \<Rightarrow> string \<Rightarrow> string" where
  "write_at off n mem s = take off mem @ snprintf_str (take n (drop off mem)) s @ drop (off + n) mem"

lemma length_write_at: "off + n \<le> length mem \<Longrightarrow> length (write_at off n mem s) = length mem"
  by (simp add: write_at_def)

lemma write_at_0:
  assumes "n \<le> length mem"
  shows "take n (write_at 0 n mem s) = snprintf_str (take n mem) s"
    and "drop n (write_at 0 n mem s) = drop n mem"
  using assms by (simp_all add: write_at_def)

lemma write_at_next:
  assumes "off + n \<le> length mem"
  shows "take off (write_at off n mem s) = take off mem"
    and "take n (drop off (write_at off n mem s)) = snprintf_str (take n (drop off mem)) s"
  using assms by (simp_all add: write_at_def)

definition auth_fits :: "gw_cfg_http_auth_type \<Rightarrow> string \<Rightarrow> string \<Rightarrow> bool" where
  "auth_fits t x y \<longleftrightarrow> auth_ok t x \<and> length x = 256 \<and> length y = 256"

lemma auth_basic_written:
  assumes "auth_fits GW_CFG_HTTP_AUTH_TYPE_BASIC x y"
  shows "auth_view GW_CFG_HTTP_AUTH_TYPE_BASIC
      (write_at 51 51 (write_at 0 51 y (c_str (auth_basic_user x))) (c_str (auth_basic_password x))) =
    auth_view GW_CFG_HTTP_AUTH_TYPE_BASIC x"
proof -
  let ?u = "c_str (auth_basic_user x)"
  let ?y = "write_at 0 51 y ?u"
  from assms have "length x = 256" "length y = 256" "terminated (take 51 x)" "terminated (take 51 (drop 51 x))"
    by (auto simp: auth_fits_def auth_basic_user_def auth_basic_password_def)
  then have sizes: "same_size (auth_basic_user x) (take 51 y)"
      "same_size (auth_basic_password x) (take 51 (drop 51 y))" and len: "51 + 51 \<le> length ?y" "51 \<le> length y"
    by (simp_all add: same_size_def auth_basic_user_def auth_basic_password_def length_write_at)
  show ?thesis
    using write_at_next [OF len(1)] write_at_0 [OF len(2)] sizes
    by (simp add: auth_basic_user_def [of "write_at 51 51 _ _"] auth_basic_password_def [of "write_at 51 51 _ _"])
qed

lemma auth_token_written:
  assumes "auth_fits t x y" and "t \<noteq> GW_CFG_HTTP_AUTH_TYPE_NONE" and "t \<noteq> GW_CFG_HTTP_AUTH_TYPE_BASIC"
  shows "c_str (auth_token_buf (write_at 0 256 y (c_str (auth_token_buf x)))) = c_str (auth_token_buf x)"
proof -
  from assms have "same_size (auth_token_buf x) (take 256 y)" "256 \<le> length y"
    by (cases t; simp add: auth_fits_def same_size_def auth_token_buf_def)+
  then show ?thesis
    using write_at_0 [of 256 y] by (simp add: auth_token_buf_def [of "write_at _ _ _ _"])
qed

section \<open>Reading what was added\<close>

lemma run_ops_eta:
  "run_ops L [] = Some"
  "run_ops L (x # xs) = (\<lambda>j. Option.bind (run_op L x j) (run_ops L xs))"
  by (auto simp: fun_eq_iff)

fun gets :: "'j cjson_lib \<Rightarrow> json_op list \<Rightarrow> 'j \<Rightarrow> bool" where
  "gets L [] j = True"
| "gets L (Put p k i # xs) j = (cJSON_GetObjectItem L j p k = Some (cj_stored i) \<and> gets L xs j)"
| "gets L (Push p str # xs) j = gets L xs j"

lemma reads_gets: "reads L xs absent j \<Longrightarrow> gets L xs j"
proof -
  have "(\<forall>p k i. Put p k i \<in> set xs \<longrightarrow> cJSON_GetObjectItem L j p k = Some (cj_stored i)) \<Longrightarrow> gets L xs j"
    by (induction L xs j rule: gets.induct) auto
  then show "reads L xs absent j \<Longrightarrow> ?thesis" by (simp add: reads_def)
qed

lemma gets_append [simp]: "gets L (xs @ ys) j \<longleftrightarrow> gets L xs j \<and> gets L ys j"
  by (induction L xs j rule: gets.induct) auto

lemma copy_found [json_found]:
  "cJSON_GetObjectItem L j [] k = Some (CJ_String s) \<Longrightarrow>
   gw_cfg_json_copy_string_val L j k buf = Some (snprintf_str buf s)"
  "cJSON_GetObjectItem L j p k = Some (CJ_String s) \<Longrightarrow>
   json_wrap_copy_string_val L j p k buf = Some (snprintf_str buf s)"
  "cJSON_GetObjectItem L j [] k = Some (CJ_String s) \<Longrightarrow> copy_str L j k buf = snprintf_str buf s"
  "cJSON_GetObjectItem L j [] k = Some (CJ_String s) \<Longrightarrow>
   copy_str_at off n L j k mem = write_at off n mem s"
  by (simp_all add: gw_cfg_json_copy_string_val_def json_wrap_copy_string_val_def
    cJSON_GetStringValue_def copy_str_def keep_def copy_str_at_def write_at_def)

lemma get_bool_found [json_found]:
  "cJSON_GetObjectItem L j [] k = Some (CJ_Bool b) \<Longrightarrow> gw_cfg_json_get_bool_val L j k = Some b"
  "cJSON_GetObjectItem L j [] k = Some (CJ_Bool b) \<Longrightarrow> get_bool L j k v = b"
  "cJSON_GetObjectItem L j [] k = None \<Longrightarrow> gw_cfg_json_get_bool_val L j k = None"
  by (simp_all add: gw_cfg_json_get_bool_val_def json_wrap_get_bool_val_def get_bool_def keep_def)

text \<open>What remains of a 32-bit number: the value is saturated to an \<open>int\<close> and cut to 16 bits.\<close>

definition json_u32 :: "u32 \<Rightarrow> u32" where
  "json_u32 w = ucast (word_of_int (min (uint w) 2147483647) :: u16)"

lemma cj_stored_uint:
  fixes w :: "'a::len word"
  shows "cj_stored (CJ_Number (uint w)) = CJ_Number (min (uint w) 2147483647)"
proof -
  have "0 \<le> uint w" by simp
  then have "- 2147483648 \<le> uint w" by linarith
  then show ?thesis by (simp add: max_def)
qed

lemma get_uint32_found [json_found]:
  assumes "cJSON_GetObjectItem L j [] k = Some (cj_stored (CJ_Number (uint w)))"
  shows "gw_cfg_json_get_uint32_val L E j k = Some (Some (json_u32 w))"
proof -
  have "(word_of_int n :: u32) \<le> 0xFFFFFFFF" for n
  proof -
    have "(0xFFFFFFFF :: u32) = - 1" by simp
    then show ?thesis by (simp only: word_order.extremum)
  qed
  then show ?thesis
    using assms by (simp add: gw_cfg_json_get_uint32_val_def json_wrap_get_uint32_val_def cj_stored_uint json_u32_def
      del: cj_stored.simps)
qed

lemma uint_bound: "uint (w :: 'a::len word) < 2 ^ LENGTH('a)"
  by (rule uint_lt2p)

lemma get_uint16_found [json_found]:
  assumes "cJSON_GetObjectItem L j [] k = Some (cj_stored (CJ_Number (uint w)))"
  shows "gw_cfg_json_get_uint16_val L j k = Some (Some w)"
proof -
  have b: "uint w < 65536" using uint_bound [of w] by simp
  then have "min (uint w) 2147483647 = uint w" by simp
  then show ?thesis using assms b
    by (simp add: gw_cfg_json_get_uint16_val_def json_wrap_get_uint16_val_def cj_stored_uint del: cj_stored.simps)
qed

lemma get_uint8_found [json_found]:
  assumes "cJSON_GetObjectItem L j p k = Some (cj_stored (CJ_Number (uint w)))"
  shows "gw_cfg_json_get_uint8_val L j p k = Some (Some w)"
proof -
  have b: "uint w < 256" using uint_bound [of w] by simp
  then have "min (uint w) 2147483647 = uint w" by simp
  then show ?thesis using assms b
    by (simp add: gw_cfg_json_get_uint8_val_def json_wrap_get_uint8_val_def cj_stored_uint del: cj_stored.simps)
qed

lemma get_int8_found [json_found]:
  assumes "cJSON_GetObjectItem L j [] k = Some (cj_stored (CJ_Number (sint (w :: u8))))"
  shows "gw_cfg_json_get_int8_val L j k = Some (Some w)"
proof -
  have "sint w < 128" "-128 \<le> sint w" using sint_lt [of w] sint_ge [of w] by simp_all
  then show ?thesis using assms
    by (simp add: gw_cfg_json_get_int8_val_def json_wrap_get_int8_val_def max_def min_def)
qed

section \<open>Sections\<close>

lemmas [json_add] = run_ops_eta NUL_def

lemma add_string_eta [json_add]:
  "gw_cfg_json_add_string L p k s = (\<lambda>j. cJSON_AddToObject L j p k (CJ_String (c_str s)))"
  by (simp add: fun_eq_iff gw_cfg_json_add_string_def)

subsection \<open>Ethernet\<close>

text \<open>The addresses are parsed only when they are used.\<close>

definition eth_ops :: "gw_cfg_eth \<Rightarrow> json_op list" where
  "eth_ops c =
     [Put [] ''use_eth'' (CJ_Bool (use_eth c)), Put [] ''eth_dhcp'' (CJ_Bool (eth_dhcp c)),
      Put [] ''eth_static_ip'' (CJ_String (c_str (eth_static_ip c))),
      Put [] ''eth_netmask'' (CJ_String (c_str (eth_netmask c))),
      Put [] ''eth_gw'' (CJ_String (c_str (eth_gw c))),
      Put [] ''eth_dns1'' (CJ_String (c_str (eth_dns1 c))),
      Put [] ''eth_dns2'' (CJ_String (c_str (eth_dns2 c)))]"

definition eth_names :: "cj_ptr list" where
  "eth_names =
     [[''use_eth''], [''eth_dhcp''], [''eth_static_ip''], [''eth_netmask''], [''eth_gw''],
      [''eth_dns1''], [''eth_dns2'']]"

definition eth_fits :: "gw_cfg_eth \<Rightarrow> gw_cfg_eth \<Rightarrow> bool" where
  "eth_fits c d \<longleftrightarrow> same_size (eth_static_ip c) (eth_static_ip d) \<and>
     same_size (eth_netmask c) (eth_netmask d) \<and> same_size (eth_gw c) (eth_gw d) \<and>
     same_size (eth_dns1 c) (eth_dns1 d) \<and> same_size (eth_dns2 c) (eth_dns2 d)"

definition eth_restored :: "gw_cfg_eth \<Rightarrow> gw_cfg_eth \<Rightarrow> gw_cfg_eth" where
  "eth_restored v vd =
     (if \<not> use_eth v then vd\<lparr>use_eth := False\<rparr>
      else if eth_dhcp v then vd\<lparr>use_eth := True, eth_dhcp := True\<rparr> else v)"

lemma eth_parse:
  assumes "eth_fits c d" and "gets L (eth_ops c) j"
  shows "\<exists>d'. Some (gw_cfg_json_parse_eth L j d) = Some d' \<and> eth_view d' = eth_restored (eth_view c) (eth_view d)"
  using assms
  by (cases c; cases d)
    (simp_all add: eth_ops_def eth_fits_def gw_cfg_json_parse_eth_def json_found eth_restored_def Let_def gw_cfg_json_parse_eth_dhcp_def gw_cfg_json_parse_ip_def eth_view_def)

interpretation eth_json: json_section L "gw_cfg_json_add_items_eth L" "eth_ops" eth_names "[]" "[''scan_filter_list'']"
  "\<lambda>j d. Some (gw_cfg_json_parse_eth L j d)" eth_fits "\<lambda>c d. eth_restored (eth_view c) (eth_view d)" eth_view for L 
proof
  show "gw_cfg_json_add_items_eth L c j = run_ops L (eth_ops c) j" for c j
    by (simp add: gw_cfg_json_add_items_eth_def eth_ops_def json_add)
  show "ops_wf eth_names (eth_ops c)" for c
    by (simp add: ops_wf_def eth_ops_def eth_names_def place_def lower_char_def)
  show "whole_array [''scan_filter_list''] (eth_ops c)" for c
    by (simp add: whole_array_def eth_ops_def place_def)
  show "k \<in> set [] \<Longrightarrow> place [k] \<notin> set eth_names" for k
    by simp
qed (erule eth_parse, erule reads_gets)

subsection \<open>Statistics\<close>

definition http_stat_ops :: "ruuvi_gw_cfg_http_stat \<Rightarrow> json_op list" where
  "http_stat_ops c =
     [Put [] ''use_http_stat'' (CJ_Bool (use_http_stat c)),
      Put [] ''http_stat_url'' (CJ_String (c_str (http_stat_url c))),
      Put [] ''http_stat_user'' (CJ_String (c_str (http_stat_user c))),
      Put [] ''http_stat_pass'' (CJ_String (c_str (http_stat_pass c))),
      Put [] ''http_stat_use_ssl_client_cert'' (CJ_Bool (http_stat_use_ssl_client_cert c)),
      Put [] ''http_stat_use_ssl_server_cert'' (CJ_Bool (http_stat_use_ssl_server_cert c))]"

definition http_stat_names :: "cj_ptr list" where
  "http_stat_names =
     [[''use_http_stat''], [''http_stat_url''], [''http_stat_user''], [''http_stat_pass''],
      [''http_stat_use_ssl_client_cert''], [''http_stat_use_ssl_server_cert'']]"

definition http_stat_fits :: "ruuvi_gw_cfg_http_stat \<Rightarrow> ruuvi_gw_cfg_http_stat \<Rightarrow> bool" where
  "http_stat_fits c d \<longleftrightarrow> same_size (http_stat_url c) (http_stat_url d) \<and>
     same_size (http_stat_user c) (http_stat_user d) \<and>
     same_size (http_stat_pass c) (http_stat_pass d)"

definition http_stat_restored :: "ruuvi_gw_cfg_http_stat \<Rightarrow> ruuvi_gw_cfg_http_stat \<Rightarrow> ruuvi_gw_cfg_http_stat" where
  "http_stat_restored v vd =
     (if use_http_stat v then v
      else v\<lparr>http_stat_use_ssl_client_cert := http_stat_use_ssl_client_cert vd,
             http_stat_use_ssl_server_cert := http_stat_use_ssl_server_cert vd\<rparr>)"

lemma http_stat_parse:
  assumes "http_stat_fits c d" and "gets L (http_stat_ops c) j"
  shows "\<exists>d'. Some (gw_cfg_json_parse_http_stat L j d) = Some d' \<and> http_stat_view d' = http_stat_restored (http_stat_view c) (http_stat_view d)"
  using assms
  by (cases c; cases d)
    (simp_all add: http_stat_ops_def http_stat_fits_def gw_cfg_json_parse_http_stat_def json_found http_stat_restored_def Let_def http_stat_view_def)

interpretation http_stat_json: json_section L "gw_cfg_json_add_items_http_stat L False" "http_stat_ops" http_stat_names "[]" "[''scan_filter_list'']"
  "\<lambda>j d. Some (gw_cfg_json_parse_http_stat L j d)" http_stat_fits "\<lambda>c d. http_stat_restored (http_stat_view c) (http_stat_view d)" http_stat_view for L 
proof
  show "gw_cfg_json_add_items_http_stat L False c j = run_ops L (http_stat_ops c) j" for c j
    by (simp add: gw_cfg_json_add_items_http_stat_def http_stat_ops_def json_add)
  show "ops_wf http_stat_names (http_stat_ops c)" for c
    by (simp add: ops_wf_def http_stat_ops_def http_stat_names_def place_def lower_char_def)
  show "whole_array [''scan_filter_list''] (http_stat_ops c)" for c
    by (simp add: whole_array_def http_stat_ops_def place_def)
  show "k \<in> set [] \<Longrightarrow> place [k] \<notin> set http_stat_names" for k
    by simp
qed (erule http_stat_parse, erule reads_gets)

subsection \<open>Time servers\<close>

definition ntp_ops :: "ruuvi_gw_cfg_ntp \<Rightarrow> json_op list" where
  "ntp_ops c =
     [Put [] ''ntp_use'' (CJ_Bool (ntp_use c)), Put [] ''ntp_use_dhcp'' (CJ_Bool (ntp_use_dhcp c)),
      Put [] ''ntp_server1'' (CJ_String (c_str (ntp_server1 c))),
      Put [] ''ntp_server2'' (CJ_String (c_str (ntp_server2 c))),
      Put [] ''ntp_server3'' (CJ_String (c_str (ntp_server3 c))),
      Put [] ''ntp_server4'' (CJ_String (c_str (ntp_server4 c)))]"

definition ntp_names :: "cj_ptr list" where
  "ntp_names =
     [[''ntp_use''], [''ntp_use_dhcp''], [''ntp_server1''], [''ntp_server2''], [''ntp_server3''],
      [''ntp_server4'']]"

definition ntp_fits :: "ruuvi_gw_cfg_ntp \<Rightarrow> ruuvi_gw_cfg_ntp \<Rightarrow> bool" where
  "ntp_fits c d \<longleftrightarrow> same_size (ntp_server1 c) (ntp_server1 d) \<and> same_size (ntp_server2 c) (ntp_server2 d) \<and>
     same_size (ntp_server3 c) (ntp_server3 d) \<and> same_size (ntp_server4 c) (ntp_server4 d)"

definition ntp_restored :: "ruuvi_gw_cfg_ntp \<Rightarrow> ruuvi_gw_cfg_ntp \<Rightarrow> ruuvi_gw_cfg_ntp" where
  "ntp_restored v vd =
     (if \<not> ntp_use v then vd\<lparr>ntp_use := False, ntp_use_dhcp := False\<rparr>
      else if ntp_use_dhcp v then vd\<lparr>ntp_use := True, ntp_use_dhcp := True\<rparr> else v)"

lemma ntp_parse:
  assumes "ntp_fits c d" and "gets L (ntp_ops c) j"
  shows "\<exists>d'. Some (gw_cfg_json_parse_ntp L j d) = Some d' \<and> ntp_view d' = ntp_restored (ntp_view c) (ntp_view d)"
  using assms
  by (cases c; cases d)
    (simp_all add: ntp_ops_def ntp_fits_def gw_cfg_json_parse_ntp_def json_found ntp_restored_def Let_def gw_cfg_json_parse_ntp_servers_def gw_cfg_json_parse_ntp_server_def ntp_view_def)

interpretation ntp_json: json_section L "gw_cfg_json_add_items_ntp L" "ntp_ops" ntp_names "[]" "[''scan_filter_list'']"
  "\<lambda>j d. Some (gw_cfg_json_parse_ntp L j d)" ntp_fits "\<lambda>c d. ntp_restored (ntp_view c) (ntp_view d)" ntp_view for L 
proof
  show "gw_cfg_json_add_items_ntp L c j = run_ops L (ntp_ops c) j" for c j
    by (simp add: gw_cfg_json_add_items_ntp_def ntp_ops_def json_add)
  show "ops_wf ntp_names (ntp_ops c)" for c
    by (simp add: ops_wf_def ntp_ops_def ntp_names_def place_def lower_char_def)
  show "whole_array [''scan_filter_list''] (ntp_ops c)" for c
    by (simp add: whole_array_def ntp_ops_def place_def)
  show "k \<in> set [] \<Longrightarrow> place [k] \<notin> set ntp_names" for k
    by simp
qed (erule ntp_parse, erule reads_gets)

subsection \<open>Company filter\<close>

definition filter_ops :: "ruuvi_gw_cfg_filter \<Rightarrow> json_op list" where
  "filter_ops c =
     [Put [] ''company_id'' (CJ_Number (uint (company_id c))),
      Put [] ''company_use_filtering'' (CJ_Bool (company_use_filtering c))]"

definition filter_names :: "cj_ptr list" where
  "filter_names =
     [[''company_id''], [''company_use_filtering'']]"

definition filter_fits :: "ruuvi_gw_cfg_filter \<Rightarrow> ruuvi_gw_cfg_filter \<Rightarrow> bool" where
  "filter_fits c d \<longleftrightarrow> True"

definition filter_restored :: "ruuvi_gw_cfg_filter \<Rightarrow> ruuvi_gw_cfg_filter" where
  "filter_restored v =
     v"

lemma filter_parse:
  assumes "filter_fits c d" and "gets L (filter_ops c) j"
  shows "\<exists>d'. gw_cfg_json_parse_filter L j d = Some d' \<and> d' = filter_restored c"
  using assms
  by (cases c; cases d)
    (simp_all add: filter_ops_def filter_fits_def gw_cfg_json_parse_filter_def json_found filter_restored_def Let_def keep_def del: cj_stored.simps(1))

interpretation filter_json: json_section L "gw_cfg_json_add_items_filter L" "filter_ops" filter_names "[]" "[''scan_filter_list'']"
  "gw_cfg_json_parse_filter L" filter_fits "\<lambda>c d. filter_restored c" "\<lambda>x. x" for L 
proof
  show "gw_cfg_json_add_items_filter L c j = run_ops L (filter_ops c) j" for c j
    by (simp add: gw_cfg_json_add_items_filter_def filter_ops_def json_add)
  show "ops_wf filter_names (filter_ops c)" for c
    by (simp add: ops_wf_def filter_ops_def filter_names_def place_def lower_char_def)
  show "whole_array [''scan_filter_list''] (filter_ops c)" for c
    by (simp add: whole_array_def filter_ops_def place_def)
  show "k \<in> set [] \<Longrightarrow> place [k] \<notin> set filter_names" for k
    by simp
qed (erule filter_parse, erule reads_gets)

subsection \<open>Automatic updates\<close>

definition auto_update_ops :: "ruuvi_gw_cfg_auto_update \<Rightarrow> json_op list" where
  "auto_update_ops c =
     [Put [] ''auto_update_cycle'' (CJ_String (gw_cfg_json_conv_auto_update_cycle_to_str (auto_update_cycle c))),
      Put [] ''auto_update_weekdays_bitmask'' (CJ_Number (uint (auto_update_weekdays_bitmask c))),
      Put [] ''auto_update_interval_from'' (CJ_Number (uint (auto_update_interval_from c))),
      Put [] ''auto_update_interval_to'' (CJ_Number (uint (auto_update_interval_to c))),
      Put [] ''auto_update_tz_offset_hours'' (CJ_Number (sint (auto_update_tz_offset_hours c)))]"

definition auto_update_names :: "cj_ptr list" where
  "auto_update_names =
     [[''auto_update_cycle''], [''auto_update_weekdays_bitmask''], [''auto_update_interval_from''],
      [''auto_update_interval_to''], [''auto_update_tz_offset_hours'']]"

definition auto_update_fits :: "ruuvi_gw_cfg_auto_update \<Rightarrow> ruuvi_gw_cfg_auto_update \<Rightarrow> bool" where
  "auto_update_fits c d \<longleftrightarrow> True"

definition auto_update_restored :: "ruuvi_gw_cfg_auto_update \<Rightarrow> ruuvi_gw_cfg_auto_update" where
  "auto_update_restored v =
     v"

lemma auto_update_parse:
  assumes "auto_update_fits c d" and "gets L (auto_update_ops c) j"
  shows "\<exists>d'. gw_cfg_json_parse_auto_update L j d = Some d' \<and> d' = auto_update_restored c"
  using assms
  by (cases c; cases d; cases "auto_update_cycle c")
    (simp_all add: auto_update_ops_def auto_update_fits_def gw_cfg_json_parse_auto_update_def json_found auto_update_restored_def Let_def keep_def c_str_local NUL_def del: cj_stored.simps(1))

interpretation auto_update_json: json_section L "gw_cfg_json_add_items_auto_update L" "auto_update_ops" auto_update_names "[]" "[''scan_filter_list'']"
  "gw_cfg_json_parse_auto_update L" auto_update_fits "\<lambda>c d. auto_update_restored c" "\<lambda>x. x" for L 
proof
  show "gw_cfg_json_add_items_auto_update L c j = run_ops L (auto_update_ops c) j" for c j
    by (cases "auto_update_cycle c")
      (simp_all add: gw_cfg_json_add_items_auto_update_def auto_update_ops_def json_add)
  show "ops_wf auto_update_names (auto_update_ops c)" for c
    by (simp add: ops_wf_def auto_update_ops_def auto_update_names_def place_def lower_char_def)
  show "whole_array [''scan_filter_list''] (auto_update_ops c)" for c
    by (simp add: whole_array_def auto_update_ops_def place_def)
  show "k \<in> set [] \<Longrightarrow> place [k] \<notin> set auto_update_names" for k
    by simp
qed (erule auto_update_parse, erule reads_gets)

subsection \<open>Scanning\<close>

text \<open>With the default settings the parser takes the default configuration of this firmware.\<close>

definition scan_ops :: "ruuvi_gw_cfg_scan \<Rightarrow> json_op list" where
  "scan_ops c =
     [Put [] ''scan_coded_phy'' (CJ_Bool (scan_coded_phy c)),
      Put [] ''scan_1mbit_phy'' (CJ_Bool (scan_1mbit_phy c)),
      Put [] ''scan_2mbit_phy'' (CJ_Bool (scan_2mbit_phy c)),
      Put [] ''scan_channel_37'' (CJ_Bool (scan_channel_37 c)),
      Put [] ''scan_channel_38'' (CJ_Bool (scan_channel_38 c)),
      Put [] ''scan_channel_39'' (CJ_Bool (scan_channel_39 c)),
      Put [] ''scan_default'' (CJ_Bool (scan_default c))]"

definition scan_names :: "cj_ptr list" where
  "scan_names =
     [[''scan_coded_phy''], [''scan_1mbit_phy''], [''scan_2mbit_phy''], [''scan_channel_37''],
      [''scan_channel_38''], [''scan_channel_39''], [''scan_default'']]"

definition scan_fits :: "ruuvi_gw_cfg_scan \<Rightarrow> ruuvi_gw_cfg_scan \<Rightarrow> bool" where
  "scan_fits c d \<longleftrightarrow> True"

definition scan_restored :: "json_env \<Rightarrow> ruuvi_gw_cfg_scan \<Rightarrow> ruuvi_gw_cfg_scan" where
  "scan_restored E v =
     (if scan_default v then gw_cfg_default_get_scan E else v)"

lemma scan_parse:
  assumes "scan_fits c d" and "reads L (scan_ops c) [''scan_extended_payload''] j"
  shows "\<exists>d'. Some (gw_cfg_json_parse_scan L E j d) = Some d' \<and> d' = scan_restored E c"
proof -
  have "cJSON_GetObjectItem L j [] ''scan_extended_payload'' = None"
    using reads_absent [OF assms(2)] by simp
  then show ?thesis
    using reads_gets [OF assms(2)]
    by (cases c; cases d; cases "gw_cfg_default_get_scan E")
      (simp add: scan_ops_def gw_cfg_json_parse_scan_def json_found scan_restored_def Let_def
        scan_from_default_def get_bool_def keep_def)
qed

interpretation scan_json: json_section L "gw_cfg_json_add_items_scan L" "scan_ops" scan_names "[''scan_extended_payload'']" "[''scan_filter_list'']"
  "\<lambda>j d. Some (gw_cfg_json_parse_scan L E j d)" scan_fits "\<lambda>c d. scan_restored E c" "\<lambda>x. x" for L 
proof
  show "gw_cfg_json_add_items_scan L c j = run_ops L (scan_ops c) j" for c j
    by (simp add: gw_cfg_json_add_items_scan_def scan_ops_def json_add)
  show "ops_wf scan_names (scan_ops c)" for c
    by (simp add: ops_wf_def scan_ops_def scan_names_def place_def lower_char_def)
  show "whole_array [''scan_filter_list''] (scan_ops c)" for c
    by (simp add: whole_array_def scan_ops_def place_def)
  show "k \<in> set [''scan_extended_payload''] \<Longrightarrow> place [k] \<notin> set scan_names" for k
    by (auto simp: scan_names_def place_def lower_char_def)
qed (erule scan_parse)

subsection \<open>Scan filter\<close>

text \<open>The texts of addresses can be read back.\<close>

definition mac_text_ok :: "json_env \<Rightarrow> bool" where
  "mac_text_ok E \<longleftrightarrow> (\<forall>mac old. mac_addr_from_str E (Some (mac_address_to_str E mac)) old = (True, mac))"

definition scan_filter_ops :: "json_env \<Rightarrow> ruuvi_gw_cfg_scan_filter \<Rightarrow> json_op list" where
  "scan_filter_ops E c =
     [Put [] ''scan_filter_allow_listed'' (CJ_Bool (sf_allow_listed c)),
      Put [] ''scan_filter_list'' CJ_Array] @
     map (Push [''scan_filter_list''])
       (map (mac_address_to_str E) (take (unat (sf_length c)) (sf_list c)))"

definition scan_filter_names :: "cj_ptr list" where
  "scan_filter_names = [[''scan_filter_allow_listed''], [''scan_filter_list'']]"

definition scan_filter_fits :: "json_env \<Rightarrow> ruuvi_gw_cfg_scan_filter \<Rightarrow> ruuvi_gw_cfg_scan_filter \<Rightarrow> bool" where
  "scan_filter_fits E c d \<longleftrightarrow> mac_text_ok E \<and> scan_filter_ok c \<and> length (sf_list c) = length (sf_list d)"

lemma add_scan_filter_list_ops:
  "add_scan_filter_list L E macs j =
   run_ops L (map (Push [''scan_filter_list'']) (map (mac_address_to_str E) macs)) j"
proof (induction macs arbitrary: j)
  case (Cons mac macs)
  then show ?case
    by (cases "cJSON_AddStringToArray L j [''scan_filter_list''] (mac_address_to_str E mac)") simp_all
qed simp

lemma parse_scan_filter_list_restores:
  assumes "mac_text_ok E" and "length pre + length macs \<le> length all" and "length pre + length macs < 2 ^ 32"
    and "take (length pre) all = pre"
  shows "\<exists>macs'. parse_scan_filter_list E (map Some (map (mac_address_to_str E) macs)) (of_nat (length pre)) all =
      Some (of_nat (length pre + length macs), macs') \<and> take (length pre + length macs) macs' = pre @ macs"
  using assms(2-)
proof (induction macs arbitrary: pre all)
  case Nil
  then show ?case by simp
next
  case (Cons mac macs)
  let ?all = "all[length pre := mac]"
  have u: "unat (of_nat (length pre) :: u32) = length pre"
    using Cons.prems(2) by (simp add: unsigned_of_nat take_bit_nat_eq_self)
  have "take (length (pre @ [mac])) ?all = pre @ [mac]"
    using Cons.prems by (simp add: take_Suc_conv_app_nth)
  from Cons.IH [of "pre @ [mac]" ?all, OF _ _ this] Cons.prems assms(1)
  show ?case by (simp add: u mac_text_ok_def add.commute)
qed

lemma scan_filter_parse:
  assumes "scan_filter_fits E c d" and "reads L (scan_filter_ops E c) [] j"
  shows "\<exists>d'. gw_cfg_json_parse_scan_filter L E j d = Some d' \<and> scan_filter_view d' = scan_filter_view c"
proof -
  let ?n = "unat (sf_length c)"
  from assms(1) have fit: "mac_text_ok E" "?n \<le> length (sf_list c)" "length (sf_list c) = length (sf_list d)"
    by (simp_all add: scan_filter_fits_def scan_filter_ok_def)
  have "cJSON_ArrayStrings L j ([] @ [''scan_filter_list'']) =
      map Some (pushed ([] @ [''scan_filter_list'']) (scan_filter_ops E c))"
    by (rule reads_array [OF assms(2)]) (simp add: scan_filter_ops_def)
  then have arr: "cJSON_ArrayStrings L j [''scan_filter_list''] =
      map Some (map (mac_address_to_str E) (take ?n (sf_list c)))"
    by (simp add: scan_filter_ops_def del: map_map)
  have "?n < 2 ^ 32" using unsigned_less [of "sf_length c"] by simp
  have "\<exists>macs'. parse_scan_filter_list E (map Some (map (mac_address_to_str E) (take ?n (sf_list c)))) 0 (sf_list d) =
      Some (sf_length c, macs') \<and> take ?n macs' = take ?n (sf_list c)"
    using parse_scan_filter_list_restores [OF fit(1), of "[]" "take ?n (sf_list c)" "sf_list d"] fit \<open>?n < 2 ^ 32\<close>
    by (simp add: min_absorb2 del: map_map)
  then obtain macs' where
    "parse_scan_filter_list E (cJSON_ArrayStrings L j [''scan_filter_list'']) 0 (sf_list d) = Some (sf_length c, macs')"
    "take ?n macs' = take ?n (sf_list c)"
    unfolding arr by blast
  then show ?thesis
    using reads_gets [OF assms(2)]
    by (cases c; cases d) (simp add: scan_filter_ops_def gw_cfg_json_parse_scan_filter_def json_found
      scan_filter_view_def)
qed

interpretation scan_filter_json: json_section L "gw_cfg_json_add_items_scan_filter L E" "scan_filter_ops E"
  scan_filter_names "[]" "[''scan_filter_list'']" "gw_cfg_json_parse_scan_filter L E" "scan_filter_fits E"
  "\<lambda>c d. scan_filter_view c" scan_filter_view for L E
proof
  show "gw_cfg_json_add_items_scan_filter L E c j = run_ops L (scan_filter_ops E c) j" for c j
    by (simp add: gw_cfg_json_add_items_scan_filter_def scan_filter_ops_def json_add add_scan_filter_list_ops
      del: map_map)
  show "ops_wf scan_filter_names (scan_filter_ops E c)" for c
    by (simp add: ops_wf_def scan_filter_ops_def scan_filter_names_def place_def lower_char_def del: map_map)
  show "whole_array [''scan_filter_list''] (scan_filter_ops E c)" for c
    unfolding whole_array_def scan_filter_ops_def
    by (rule disjI2, rule exI [of _ "[Put [] ''scan_filter_allow_listed'' (CJ_Bool (sf_allow_listed c))]"],
      rule exI [of _ "[]"], rule exI [of _ "''scan_filter_list''"],
      rule exI [of _ "map (mac_address_to_str E) (take (unat (sf_length c)) (sf_list c))"],
      rule exI [of _ "[]"]) (simp add: place_def del: map_map)
  show "k \<in> set [] \<Longrightarrow> place [k] \<notin> set scan_filter_names" for k
    by simp
qed (erule scan_filter_parse)

subsection \<open>Remote configuration\<close>

text \<open>The parser does not know the types \<open>token\<close> and \<open>api_key\<close>, which the generator writes: they become \<open>none\<close>.\<close>

lemma auth_written [json_found]:
  assumes "length x = 256" and "length y = 256"
  shows "terminated (auth_basic_user x) \<Longrightarrow> terminated (auth_basic_password x) \<Longrightarrow>
      auth_view GW_CFG_HTTP_AUTH_TYPE_BASIC
        (write_at 51 51 (write_at 0 51 y (c_str (auth_basic_user x))) (c_str (auth_basic_password x))) =
      auth_view GW_CFG_HTTP_AUTH_TYPE_BASIC x"
    and "terminated (auth_token_buf x) \<Longrightarrow>
      c_str (auth_token_buf (write_at 0 256 y (c_str (auth_token_buf x)))) = c_str (auth_token_buf x)"
  using auth_basic_written [of x y] auth_token_written [of GW_CFG_HTTP_AUTH_TYPE_TOKEN x y] assms
  by (auto simp: auth_fits_def)

definition remote_ops :: "ruuvi_gw_cfg_remote \<Rightarrow> json_op list" where
  "remote_ops c =
     [Put [] ''remote_cfg_use'' (CJ_Bool (use_remote_cfg c)), Put [] ''remote_cfg_url'' (CJ_String (c_str (remote_url c)))] @
     (case remote_auth_type c of
        GW_CFG_HTTP_AUTH_TYPE_NONE \<Rightarrow> [Put [] ''remote_cfg_auth_type'' (CJ_String ''none'')]
      | GW_CFG_HTTP_AUTH_TYPE_BASIC \<Rightarrow>
          [Put [] ''remote_cfg_auth_type'' (CJ_String ''basic''),
           Put [] ''remote_cfg_auth_basic_user'' (CJ_String (c_str (auth_basic_user (remote_auth c)))),
           Put [] ''remote_cfg_auth_basic_pass'' (CJ_String (c_str (auth_basic_password (remote_auth c))))]
      | GW_CFG_HTTP_AUTH_TYPE_BEARER \<Rightarrow>
          [Put [] ''remote_cfg_auth_type'' (CJ_String ''bearer''), Put [] ''remote_cfg_auth_bearer_token'' (CJ_String (c_str (auth_token_buf (remote_auth c))))]
      | GW_CFG_HTTP_AUTH_TYPE_TOKEN \<Rightarrow>
          [Put [] ''remote_cfg_auth_type'' (CJ_String ''token''), Put [] ''remote_cfg_auth_token'' (CJ_String (c_str (auth_token_buf (remote_auth c))))]
      | GW_CFG_HTTP_AUTH_TYPE_APIKEY \<Rightarrow>
          [Put [] ''remote_cfg_auth_type'' (CJ_String ''api_key''), Put [] ''remote_cfg_auth_apikey'' (CJ_String (c_str (auth_token_buf (remote_auth c))))]) @
     [Put [] ''remote_cfg_use_ssl_client_cert'' (CJ_Bool (remote_use_ssl_client_cert c)),
      Put [] ''remote_cfg_use_ssl_server_cert'' (CJ_Bool (remote_use_ssl_server_cert c)),
      Put [] ''remote_cfg_refresh_interval_minutes'' (CJ_Number (uint (refresh_interval_minutes c)))]"

definition remote_names :: "cj_ptr list" where
  "remote_names =
     [[''remote_cfg_use''], [''remote_cfg_url''], [''remote_cfg_auth_type''],
      [''remote_cfg_auth_basic_user''], [''remote_cfg_auth_basic_pass''],
      [''remote_cfg_auth_bearer_token''], [''remote_cfg_auth_token''], [''remote_cfg_auth_apikey''],
      [''remote_cfg_use_ssl_client_cert''], [''remote_cfg_use_ssl_server_cert''],
      [''remote_cfg_refresh_interval_minutes'']]"

definition remote_fits :: "ruuvi_gw_cfg_remote \<Rightarrow> ruuvi_gw_cfg_remote \<Rightarrow> bool" where
  "remote_fits c d \<longleftrightarrow> same_size (remote_url c) (remote_url d) \<and>
     auth_fits (remote_auth_type c) (remote_auth c) (remote_auth d)"

definition remote_restored :: "ruuvi_gw_cfg_remote \<times> auth_value \<Rightarrow> ruuvi_gw_cfg_remote \<times> auth_value" where
  "remote_restored v =
     (if remote_auth_type (fst v) \<in> {GW_CFG_HTTP_AUTH_TYPE_TOKEN, GW_CFG_HTTP_AUTH_TYPE_APIKEY}
      then ((fst v)\<lparr>remote_auth_type := GW_CFG_HTTP_AUTH_TYPE_NONE\<rparr>, Auth_none) else v)"

lemma remote_parse:
  assumes "remote_fits c d" and "gets L (remote_ops c) j"
  shows "\<exists>d'. gw_cfg_json_parse_remote L j d = Some d' \<and> remote_view d' = remote_restored (remote_view c)"
  using assms
  by (cases c; cases d; cases "remote_auth_type c")
    (simp_all add: remote_ops_def remote_fits_def auth_fits_def gw_cfg_json_parse_remote_def json_found
      remote_restored_def remote_view_def keep_def c_str_local NUL_def Let_def
      gw_cfg_json_parse_remote_auth_type_basic_def gw_cfg_json_parse_remote_auth_type_bearer_def
      del: cj_stored.simps(1) auth_view.simps(2))

interpretation remote_json: json_section L "gw_cfg_json_add_items_remote L False" "remote_ops" remote_names "[]" "[''scan_filter_list'']"
  "gw_cfg_json_parse_remote L" remote_fits "\<lambda>c d. remote_restored (remote_view c)" remote_view for L 
proof
  show "gw_cfg_json_add_items_remote L False c j = run_ops L (remote_ops c) j" for c j
    by (cases "remote_auth_type c")
      (simp_all add: gw_cfg_json_add_items_remote_def remote_ops_def json_add
        gw_cfg_json_add_items_remote_auth_basic_def gw_cfg_json_add_items_remote_auth_bearer_def
        gw_cfg_json_add_items_remote_auth_token_def gw_cfg_json_add_items_remote_auth_apikey_def)
  show "ops_wf remote_names (remote_ops c)" for c
    by (cases "remote_auth_type c")
      (simp_all add: ops_wf_def remote_ops_def remote_names_def place_def lower_char_def)
  show "whole_array [''scan_filter_list''] (remote_ops c)" for c
    by (cases "remote_auth_type c") (simp_all add: whole_array_def remote_ops_def place_def)
  show "k \<in> set [] \<Longrightarrow> place [k] \<notin> set remote_names" for k
    by simp
qed (erule remote_parse, erule reads_gets)

subsection \<open>HTTP target\<close>

text \<open>The Ruuvi cloud alone is written as a custom target with the default address.\<close>

definition http_is_default :: "ruuvi_gw_cfg_http \<Rightarrow> bool" where
  "http_is_default c \<longleftrightarrow> use_http_ruuvi c \<and> \<not> use_http c \<or>
     use_http c \<and> http_data_format c = GW_CFG_HTTP_DATA_FORMAT_RUUVI \<and>
     http_auth_type c = GW_CFG_HTTP_AUTH_TYPE_NONE \<and> c_str (http_url c) = RUUVI_GATEWAY_HTTP_DEFAULT_URL"

fun http_data_format_str :: "gw_cfg_http_data_format \<Rightarrow> string" where
  "http_data_format_str GW_CFG_HTTP_DATA_FORMAT_RUUVI = ''ruuvi''"
| "http_data_format_str GW_CFG_HTTP_DATA_FORMAT_RUUVI_RAW_AND_DECODED = ''ruuvi_raw_and_decoded''"
| "http_data_format_str GW_CFG_HTTP_DATA_FORMAT_RUUVI_DECODED = ''ruuvi_decoded''"

definition http_default_ops :: "json_op list" where
  "http_default_ops =
     [Put [] ''use_http_ruuvi'' (CJ_Bool (True)), Put [] ''use_http'' (CJ_Bool (True)),
      Put [] ''http_url'' (CJ_String RUUVI_GATEWAY_HTTP_DEFAULT_URL),
      Put [] ''http_data_format'' (CJ_String ''ruuvi''), Put [] ''http_auth'' (CJ_String ''none'')]"

definition http_custom_ops :: "ruuvi_gw_cfg_http \<Rightarrow> json_op list" where
  "http_custom_ops c =
     [Put [] ''http_use_ssl_client_cert'' (CJ_Bool (http_use_ssl_client_cert c)),
      Put [] ''http_use_ssl_server_cert'' (CJ_Bool (http_use_ssl_server_cert c)),
      Put [] ''http_url'' (CJ_String (c_str (http_url c))),
      Put [] ''http_period'' (CJ_Number (uint (http_period c))),
      Put [] ''http_data_format'' (CJ_String (http_data_format_str (http_data_format c)))] @
     (case http_auth_type c of
        GW_CFG_HTTP_AUTH_TYPE_NONE \<Rightarrow> [Put [] ''http_auth'' (CJ_String ''none'')]
      | GW_CFG_HTTP_AUTH_TYPE_BASIC \<Rightarrow>
          [Put [] ''http_auth'' (CJ_String ''basic''),
           Put [] ''http_user'' (CJ_String (c_str (auth_basic_user (http_auth c)))),
           Put [] ''http_pass'' (CJ_String (c_str (auth_basic_password (http_auth c))))]
      | GW_CFG_HTTP_AUTH_TYPE_BEARER \<Rightarrow>
          [Put [] ''http_auth'' (CJ_String ''bearer''), Put [] ''http_bearer_token'' (CJ_String (c_str (auth_token_buf (http_auth c))))]
      | GW_CFG_HTTP_AUTH_TYPE_TOKEN \<Rightarrow>
          [Put [] ''http_auth'' (CJ_String ''token''), Put [] ''http_api_key'' (CJ_String (c_str (auth_token_buf (http_auth c))))]
      | GW_CFG_HTTP_AUTH_TYPE_APIKEY \<Rightarrow>
          [Put [] ''http_auth'' (CJ_String ''api_key''), Put [] ''http_api_key'' (CJ_String (c_str (auth_token_buf (http_auth c))))])"

definition http_ops :: "ruuvi_gw_cfg_http \<Rightarrow> json_op list" where
  "http_ops c =
     (if http_is_default c then http_default_ops
      else [Put [] ''use_http_ruuvi'' (CJ_Bool (use_http_ruuvi c)), Put [] ''use_http'' (CJ_Bool (use_http c))] @
        (if use_http c then http_custom_ops c else []))"

definition http_names :: "cj_ptr list" where
  "http_names =
     [[''use_http_ruuvi''], [''use_http''], [''http_use_ssl_client_cert''],
      [''http_use_ssl_server_cert''], [''http_url''], [''http_period''], [''http_data_format''],
      [''http_auth''], [''http_user''], [''http_pass''], [''http_bearer_token''], [''http_api_key'']]"

lemma add_http_custom: "gw_cfg_json_add_items_http_custom_params L False c j = run_ops L (http_custom_ops c) j"
  by (cases "http_auth_type c"; cases "http_data_format c")
    (simp_all add: gw_cfg_json_add_items_http_custom_params_def http_custom_ops_def json_add
      gw_cfg_json_add_items_http_custom_auth_basic_def gw_cfg_json_add_items_http_custom_auth_bearer_def
      gw_cfg_json_add_items_http_custom_auth_token_def gw_cfg_json_add_items_http_custom_auth_apikey_def)

lemma default_url_str [simp]: "c_str RUUVI_GATEWAY_HTTP_DEFAULT_URL = RUUVI_GATEWAY_HTTP_DEFAULT_URL"
  by (simp add: RUUVI_GATEWAY_HTTP_DEFAULT_URL_def NUL_def)

lemma add_http_default: "gw_cfg_json_add_items_http_default L j = run_ops L http_default_ops j"
  by (simp add: gw_cfg_json_add_items_http_default_def http_default_ops_def json_add)

lemma add_http: "gw_cfg_json_add_items_http L False c j = run_ops L (http_ops c) j"
  by (cases "http_is_default c")
    (auto simp: gw_cfg_json_add_items_http_def http_ops_def add_http_default add_http_custom http_is_default_def
      gw_cfg_json_add_bool_def run_ops_eta)

lemma http_custom_wf:
  "ops_wf (drop 2 http_names) (http_custom_ops c) \<and> apart [''scan_filter_list''] (http_custom_ops c)"
  by (cases "http_auth_type c")
    (simp_all add: ops_wf_def http_custom_ops_def http_names_def place_def lower_char_def)

lemma http_wf: "ops_wf http_names (http_ops c) \<and> apart [''scan_filter_list''] (http_ops c)"
proof -
  let ?switches = "[Put [] ''use_http_ruuvi'' (CJ_Bool (use_http_ruuvi c)), Put [] ''use_http'' (CJ_Bool (use_http c))]"
  have def: "ops_wf http_names http_default_ops" "apart [''scan_filter_list''] http_default_ops"
    by (simp_all add: ops_wf_def http_default_ops_def http_names_def place_def lower_char_def)
  have switches: "ops_wf (take 2 http_names) ?switches" "apart [''scan_filter_list''] ?switches"
    by (simp_all add: ops_wf_def http_names_def place_def lower_char_def)
  have "set (take 2 http_names) \<inter> set (drop 2 http_names) = {}"
    by (simp add: http_names_def)
  from ops_wf_append [OF switches(1) _ this] http_custom_wf [of c]
  have "ops_wf http_names (?switches @ http_custom_ops c)" by simp
  moreover have "ops_wf http_names ?switches"
    using switches(1) set_take_subset [of 2 http_names] by (auto simp: ops_wf_def)
  ultimately show ?thesis
    using def switches http_custom_wf [of c] by (simp only: http_ops_def apart_simps append_Nil2 simp_thms split: if_split)
qed

text \<open>Of a target that is not in use only the switches are kept.\<close>

definition http_default_restored ::
  "ruuvi_gw_cfg_http \<times> auth_value \<Rightarrow> ruuvi_gw_cfg_http \<times> auth_value" where
  "http_default_restored vd = ((fst vd)\<lparr>use_http_ruuvi := True, use_http := False,
     http_url := RUUVI_GATEWAY_HTTP_DEFAULT_URL, http_data_format := GW_CFG_HTTP_DATA_FORMAT_RUUVI,
     http_auth_type := GW_CFG_HTTP_AUTH_TYPE_NONE\<rparr>, Auth_none)"

definition http_restored ::
  "ruuvi_gw_cfg_http \<times> auth_value \<Rightarrow> ruuvi_gw_cfg_http \<times> auth_value \<Rightarrow> ruuvi_gw_cfg_http \<times> auth_value" where
  "http_restored v vd =
     (if http_is_default (fst v) then http_default_restored vd
      else if use_http (fst v) then ((fst v)\<lparr>http_period := json_u32 (http_period (fst v))\<rparr>, snd v)
      else ((fst vd)\<lparr>use_http_ruuvi := False, use_http := False\<rparr>, snd vd))"

definition http_fits :: "ruuvi_gw_cfg_http \<Rightarrow> ruuvi_gw_cfg_http \<Rightarrow> bool" where
  "http_fits c d \<longleftrightarrow> same_size (http_url c) (http_url d) \<and>
     auth_fits (http_auth_type c) (http_auth c) (http_auth d) \<and>
     length RUUVI_GATEWAY_HTTP_DEFAULT_URL < length (http_url d)"

lemma http_parse_data_format:
  "cJSON_GetObjectItem L j [] ''http_data_format'' = Some (CJ_String (http_data_format_str f)) \<Longrightarrow>
   gw_cfg_json_parse_http_data_format L j = f"
  by (cases f) (simp_all add: gw_cfg_json_parse_http_data_format_def json_found c_str_local NUL_def)

lemma http_parse_auth_type:
  "cJSON_GetObjectItem L j [] ''http_auth'' = Some (CJ_String str) \<Longrightarrow>
   str = (case t of GW_CFG_HTTP_AUTH_TYPE_NONE \<Rightarrow> ''none'' | GW_CFG_HTTP_AUTH_TYPE_BASIC \<Rightarrow> ''basic''
     | GW_CFG_HTTP_AUTH_TYPE_BEARER \<Rightarrow> ''bearer'' | GW_CFG_HTTP_AUTH_TYPE_TOKEN \<Rightarrow> ''token''
     | GW_CFG_HTTP_AUTH_TYPE_APIKEY \<Rightarrow> ''api_key'') \<Longrightarrow>
   gw_cfg_json_parse_http_auth_type L j = t"
  by (cases t) (simp_all add: gw_cfg_json_parse_http_auth_type_def json_found c_str_local NUL_def)

lemma http_parse_default:
  assumes "http_fits c d" and "gets L http_default_ops j"
  shows "\<exists>d'. gw_cfg_json_parse_http L E j d = Some d' \<and> http_view d' = http_default_restored (http_view d)"
proof -
  have "NUL \<notin> set RUUVI_GATEWAY_HTTP_DEFAULT_URL" by (simp add: RUUVI_GATEWAY_HTTP_DEFAULT_URL_def NUL_def)
  then show ?thesis
    using assms http_parse_data_format [of L j GW_CFG_HTTP_DATA_FORMAT_RUUVI]
      http_parse_auth_type [of L j "''none''" GW_CFG_HTTP_AUTH_TYPE_NONE]
    by (cases d) (simp add: http_default_ops_def http_fits_def gw_cfg_json_parse_http_def json_found
      c_str_snprintf_room http_default_restored_def http_view_def)
qed

lemma http_parse_custom:
  assumes "http_fits c d" and "gets L (http_custom_ops c) j" and "use_http c" and "\<not> http_is_default c"
    and "gets L [Put [] ''use_http_ruuvi'' (CJ_Bool (use_http_ruuvi c)), Put [] ''use_http'' (CJ_Bool True)] j"
  shows "\<exists>d'. gw_cfg_json_parse_http L E j d = Some d' \<and> http_view d' = http_restored (http_view c) (http_view d)"
proof -
  have f: "gw_cfg_json_parse_http_data_format L j = http_data_format c"
    by (rule http_parse_data_format) (use assms(2) in \<open>simp add: http_custom_ops_def\<close>)
  have t: "gw_cfg_json_parse_http_auth_type L j = http_auth_type c"
    by (rule http_parse_auth_type [where str = "case http_auth_type c of
        GW_CFG_HTTP_AUTH_TYPE_NONE \<Rightarrow> ''none'' | GW_CFG_HTTP_AUTH_TYPE_BASIC \<Rightarrow> ''basic''
      | GW_CFG_HTTP_AUTH_TYPE_BEARER \<Rightarrow> ''bearer'' | GW_CFG_HTTP_AUTH_TYPE_TOKEN \<Rightarrow> ''token''
      | GW_CFG_HTTP_AUTH_TYPE_APIKEY \<Rightarrow> ''api_key''"])
      (use assms(2) in \<open>cases "http_auth_type c"; simp add: http_custom_ops_def\<close>)+
  from assms f t show ?thesis
    by (cases c; cases d; cases "http_auth_type c"; cases "http_data_format c = GW_CFG_HTTP_DATA_FORMAT_RUUVI")
      (simp_all add: http_custom_ops_def http_fits_def auth_fits_def gw_cfg_json_parse_http_def json_found
        http_restored_def http_view_def http_is_default_def keep_def c_str_id gw_cfg_json_parse_http_ssl_certs_def
        gw_cfg_json_parse_http_auth_basic_def gw_cfg_json_parse_http_auth_bearer_def
        gw_cfg_json_parse_http_auth_token_def gw_cfg_json_parse_http_auth_apikey_def
        del: cj_stored.simps(1) auth_view.simps(2))
qed

lemma http_parse:
  assumes "http_fits c d" and "gets L (http_ops c) j"
  shows "\<exists>d'. gw_cfg_json_parse_http L E j d = Some d' \<and> http_view d' = http_restored (http_view c) (http_view d)"
proof (cases "http_is_default c")
  case True
  then have "http_is_default (fst (http_view c))" by (simp add: http_is_default_def http_view_def c_str_id)
  with True http_parse_default [OF assms(1)] assms(2) show ?thesis
    by (simp add: http_ops_def http_restored_def)
next
  case custom: False
  then have nd: "\<not> http_is_default (fst (http_view c))" by (simp add: http_is_default_def http_view_def c_str_id)
  show ?thesis
  proof (cases "use_http c")
    case True
    with custom assms(2) have g: "gets L (http_custom_ops c) j"
      "gets L [Put [] ''use_http_ruuvi'' (CJ_Bool (use_http_ruuvi c)), Put [] ''use_http'' (CJ_Bool True)] j"
      by (simp_all add: http_ops_def)
    from http_parse_custom [OF assms(1) g(1) True custom g(2)] show ?thesis .
  next
    case False
    with custom have "\<not> use_http_ruuvi c" by (simp add: http_is_default_def)
    with False custom assms(2) nd show ?thesis
      by (cases d) (simp add: http_ops_def gw_cfg_json_parse_http_def json_found http_restored_def http_view_def)
  qed
qed


interpretation http_json: json_section L "gw_cfg_json_add_items_http L False" "http_ops" http_names "[]" "[''scan_filter_list'']"
  "gw_cfg_json_parse_http L E" http_fits "\<lambda>c d. http_restored (http_view c) (http_view d)" http_view for L 
proof
  show "gw_cfg_json_add_items_http L False c j = run_ops L (http_ops c) j" for c j
    by (rule add_http)
  show "ops_wf http_names (http_ops c)" for c
    using http_wf [of c] by simp
  show "whole_array [''scan_filter_list''] (http_ops c)" for c
    using http_wf [of c] by (simp add: whole_array_def)
  show "k \<in> set [] \<Longrightarrow> place [k] \<notin> set http_names" for k
    by simp
qed (erule http_parse, erule reads_gets)

subsection \<open>MQTT\<close>

text \<open>An empty topic prefix or client identifier becomes the default.\<close>

fun mqtt_data_format_str :: "gw_cfg_mqtt_data_format \<Rightarrow> string" where
  "mqtt_data_format_str GW_CFG_MQTT_DATA_FORMAT_RUUVI_RAW = ''ruuvi_raw''"
| "mqtt_data_format_str GW_CFG_MQTT_DATA_FORMAT_RUUVI_RAW_AND_DECODED = ''ruuvi_raw_and_decoded''"
| "mqtt_data_format_str GW_CFG_MQTT_DATA_FORMAT_RUUVI_DECODED = ''ruuvi_decoded''"

definition mqtt_ops :: "ruuvi_gw_cfg_mqtt \<Rightarrow> json_op list" where
  "mqtt_ops c =
     [Put [] ''use_mqtt'' (CJ_Bool (use_mqtt c)),
      Put [] ''mqtt_disable_retained_messages'' (CJ_Bool (mqtt_disable_retained_messages c)),
      Put [] ''mqtt_transport'' (CJ_String (c_str (mqtt_transport c))),
      Put [] ''mqtt_data_format'' (CJ_String (mqtt_data_format_str (mqtt_data_format c))),
      Put [] ''mqtt_server'' (CJ_String (c_str (mqtt_server c))),
      Put [] ''mqtt_port'' (CJ_Number (uint (mqtt_port c))),
      Put [] ''mqtt_sending_interval'' (CJ_Number (uint (mqtt_sending_interval c))),
      Put [] ''mqtt_prefix'' (CJ_String (c_str (mqtt_prefix c))),
      Put [] ''mqtt_client_id'' (CJ_String (c_str (mqtt_client_id c))),
      Put [] ''mqtt_user'' (CJ_String (c_str (mqtt_user c))),
      Put [] ''mqtt_pass'' (CJ_String (c_str (mqtt_pass c))),
      Put [] ''mqtt_use_ssl_client_cert'' (CJ_Bool (mqtt_use_ssl_client_cert c)),
      Put [] ''mqtt_use_ssl_server_cert'' (CJ_Bool (mqtt_use_ssl_server_cert c))]"

definition mqtt_names :: "cj_ptr list" where
  "mqtt_names =
     [[''use_mqtt''], [''mqtt_disable_retained_messages''], [''mqtt_transport''],
      [''mqtt_data_format''], [''mqtt_server''], [''mqtt_port''], [''mqtt_sending_interval''],
      [''mqtt_prefix''], [''mqtt_client_id''], [''mqtt_user''], [''mqtt_pass''],
      [''mqtt_use_ssl_client_cert''], [''mqtt_use_ssl_server_cert'']]"

definition mqtt_fits :: "ruuvi_gw_cfg_mqtt \<Rightarrow> ruuvi_gw_cfg_mqtt \<Rightarrow> bool" where
  "mqtt_fits c d \<longleftrightarrow> same_size (mqtt_transport c) (mqtt_transport d) \<and>
     same_size (mqtt_server c) (mqtt_server d) \<and> same_size (mqtt_prefix c) (mqtt_prefix d) \<and>
     same_size (mqtt_client_id c) (mqtt_client_id d) \<and> same_size (mqtt_user c) (mqtt_user d) \<and>
     same_size (mqtt_pass c) (mqtt_pass d)"

definition mqtt_restored ::
  "json_env \<Rightarrow> ruuvi_gw_cfg_mqtt \<Rightarrow> ruuvi_gw_cfg_mqtt \<Rightarrow> ruuvi_gw_cfg_mqtt" where
  "mqtt_restored E v vd =
     (let def = gw_cfg_default_get_mqtt E;
          v = v\<lparr>mqtt_sending_interval := json_u32 (mqtt_sending_interval v),
            mqtt_prefix := (if mqtt_prefix v = [] then c_str (mqtt_prefix def) else mqtt_prefix v),
            mqtt_client_id := (if mqtt_client_id v = [] then c_str (mqtt_client_id def) else mqtt_client_id v)\<rparr> in
      if use_mqtt v then v
      else v\<lparr>mqtt_use_ssl_client_cert := mqtt_use_ssl_client_cert vd,
             mqtt_use_ssl_server_cert := mqtt_use_ssl_server_cert vd\<rparr>)"

lemma mqtt_parse_data_format:
  "cJSON_GetObjectItem L j [] ''mqtt_data_format'' = Some (CJ_String (mqtt_data_format_str f)) \<Longrightarrow>
   gw_cfg_json_parse_mqtt_data_format L j = f"
  by (cases f) (simp_all add: gw_cfg_json_parse_mqtt_data_format_def json_found c_str_local NUL_def)

lemma mqtt_parse:
  assumes "mqtt_fits c d" and "gets L (mqtt_ops c) j"
  shows "\<exists>d'. gw_cfg_json_parse_mqtt L E j d = Some d' \<and>
    mqtt_view d' = mqtt_restored E (mqtt_view c) (mqtt_view d)"
proof -
  have f: "gw_cfg_json_parse_mqtt_data_format L j = mqtt_data_format c"
    by (rule mqtt_parse_data_format) (use assms(2) in \<open>simp add: mqtt_ops_def\<close>)
  from assms f show ?thesis
    by (cases c; cases d) (simp add: mqtt_ops_def mqtt_fits_def gw_cfg_json_parse_mqtt_def json_found copy_or_default_def
      mqtt_restored_def Let_def mqtt_view_def keep_def del: cj_stored.simps(1))
qed

interpretation mqtt_json: json_section L "gw_cfg_json_add_items_mqtt L False" mqtt_ops mqtt_names "[]"
  "[''scan_filter_list'']" "gw_cfg_json_parse_mqtt L E" mqtt_fits
  "\<lambda>c d. mqtt_restored E (mqtt_view c) (mqtt_view d)" mqtt_view for L E
proof
  show "gw_cfg_json_add_items_mqtt L False c j = run_ops L (mqtt_ops c) j" for c j
    by (cases "mqtt_data_format c") (simp_all add: gw_cfg_json_add_items_mqtt_def mqtt_ops_def json_add)
  show "ops_wf mqtt_names (mqtt_ops c)" for c
    by (simp add: ops_wf_def mqtt_ops_def mqtt_names_def place_def lower_char_def)
  show "whole_array [''scan_filter_list''] (mqtt_ops c)" for c
    by (simp add: whole_array_def mqtt_ops_def place_def)
  show "k \<in> set [] \<Longrightarrow> place [k] \<notin> set mqtt_names" for k
    by simp
qed (erule mqtt_parse, erule reads_gets)

subsection \<open>LAN authentication\<close>

text \<open>
  The names of the kinds of authentication can be read back and fit into their buffer. The default
  user and password are stored as the kind \<open>default\<close>.
\<close>

definition auth_names_ok :: "json_env \<Rightarrow> bool" where
  "auth_names_ok E \<longleftrightarrow> (\<forall>t. http_server_auth_type_from_str E (http_server_auth_type_to_str E t) = t \<and>
     NUL \<notin> set (http_server_auth_type_to_str E t) \<and>
     length (http_server_auth_type_to_str E t) < sizeof_http_server_auth_type_str E)"

definition lan_auth_kind :: "json_env \<Rightarrow> ruuvi_gw_cfg_lan_auth \<Rightarrow> http_server_auth_type" where
  "lan_auth_kind E c = (let d = gw_cfg_default_get_lan_auth E in
     if lan_auth_type c = HTTP_SERVER_AUTH_TYPE_RUUVI \<and> c_str (lan_auth_user c) = c_str (lan_auth_user d) \<and>
        c_str (lan_auth_pass c) = c_str (lan_auth_pass d)
     then HTTP_SERVER_AUTH_TYPE_DEFAULT else lan_auth_type c)"

lemma gw_cfg_auth_type_to_str_kind:
  "gw_cfg_auth_type_to_str E c = http_server_auth_type_to_str E (lan_auth_kind E c)"
  by (simp add: gw_cfg_auth_type_to_str_def lan_auth_kind_def Let_def)

definition lan_auth_ops :: "json_env \<Rightarrow> ruuvi_gw_cfg_lan_auth \<Rightarrow> json_op list" where
  "lan_auth_ops E c =
     [Put [] ''lan_auth_type'' (CJ_String (c_str (gw_cfg_auth_type_to_str E c))),
      Put [] ''lan_auth_user'' (CJ_String (c_str (lan_auth_user c)))] @
     (if lan_auth_type c \<in> {HTTP_SERVER_AUTH_TYPE_BASIC, HTTP_SERVER_AUTH_TYPE_DIGEST, HTTP_SERVER_AUTH_TYPE_RUUVI}
      then [Put [] ''lan_auth_pass'' (CJ_String (c_str (lan_auth_pass c)))] else []) @
     [Put [] ''lan_auth_api_key'' (CJ_String (c_str (lan_auth_api_key c))),
      Put [] ''lan_auth_api_key_rw'' (CJ_String (c_str (lan_auth_api_key_rw c)))]"

definition lan_auth_names :: "cj_ptr list" where
  "lan_auth_names = [[''lan_auth_type''], [''lan_auth_user''], [''lan_auth_pass''], [''lan_auth_api_key''],
     [''lan_auth_api_key_rw'']]"

definition lan_auth_fits :: "json_env \<Rightarrow> ruuvi_gw_cfg_lan_auth \<Rightarrow> ruuvi_gw_cfg_lan_auth \<Rightarrow> bool" where
  "lan_auth_fits E c d \<longleftrightarrow> auth_names_ok E \<and> same_size (lan_auth_user c) (lan_auth_user d) \<and>
     same_size (lan_auth_pass c) (lan_auth_pass d) \<and> same_size (lan_auth_api_key c) (lan_auth_api_key d) \<and>
     same_size (lan_auth_api_key_rw c) (lan_auth_api_key_rw d)"

definition lan_auth_restored :: "json_env \<Rightarrow> ruuvi_gw_cfg_lan_auth \<Rightarrow> ruuvi_gw_cfg_lan_auth" where
  "lan_auth_restored E c =
     (let def = gw_cfg_default_get_lan_auth E; v = (lan_auth_view c)\<lparr>lan_auth_type := lan_auth_kind E c\<rparr> in
      case lan_auth_kind E c of
        HTTP_SERVER_AUTH_TYPE_DEFAULT \<Rightarrow>
          v\<lparr>lan_auth_user := c_str (lan_auth_user def), lan_auth_pass := c_str (lan_auth_pass def)\<rparr>
      | HTTP_SERVER_AUTH_TYPE_BASIC \<Rightarrow> v
      | HTTP_SERVER_AUTH_TYPE_DIGEST \<Rightarrow> v
      | HTTP_SERVER_AUTH_TYPE_RUUVI \<Rightarrow> v
      | _ \<Rightarrow> v\<lparr>lan_auth_user := [], lan_auth_pass := []\<rparr>)"

lemma c_str_cleared: "same_size x y \<Longrightarrow> c_str (y[0 := NUL]) = []"
  by (cases y) (auto simp: same_size_def)

lemma lan_auth_parse:
  assumes "lan_auth_fits E c d" and "gets L (lan_auth_ops E c) j"
  shows "\<exists>d'. Some (gw_cfg_json_parse_lan_auth L E j d) = Some d' \<and> lan_auth_view d' = lan_auth_restored E c"
proof -
  let ?str = "http_server_auth_type_to_str E (lan_auth_kind E c)"
  from assms(1) have names: "http_server_auth_type_from_str E ?str = lan_auth_kind E c" "c_str ?str = ?str"
      "c_str (snprintf_str (local_buf (sizeof_http_server_auth_type_str E)) ?str) = ?str"
    by (simp_all add: lan_auth_fits_def auth_names_ok_def c_str_id c_str_local)
  have kind: "lan_auth_kind E c = HTTP_SERVER_AUTH_TYPE_RUUVI \<Longrightarrow> lan_auth_type c = HTTP_SERVER_AUTH_TYPE_RUUVI \<and>
      \<not> (c_str (lan_auth_user (gw_cfg_default_get_lan_auth E)) = c_str (lan_auth_user c) \<and>
         c_str (lan_auth_pass (gw_cfg_default_get_lan_auth E)) = c_str (lan_auth_pass c))"
    "lan_auth_kind E c = HTTP_SERVER_AUTH_TYPE_BASIC \<Longrightarrow> lan_auth_type c = HTTP_SERVER_AUTH_TYPE_BASIC"
    "lan_auth_kind E c = HTTP_SERVER_AUTH_TYPE_DIGEST \<Longrightarrow> lan_auth_type c = HTTP_SERVER_AUTH_TYPE_DIGEST"
    by (auto simp: lan_auth_kind_def Let_def split: if_splits)
  from assms names kind show ?thesis
    by (cases c; cases d; cases "lan_auth_kind E c")
      (auto simp: lan_auth_ops_def lan_auth_fits_def gw_cfg_json_parse_lan_auth_def json_found Let_def
        lan_auth_restored_def lan_auth_view_def gw_cfg_auth_type_to_str_kind c_str_cleared
        gw_cfg_json_parse_lan_auth_user_password_def)
qed

interpretation lan_auth_json: json_section L "gw_cfg_json_add_items_lan_auth L E False" "lan_auth_ops E"
  lan_auth_names "[]" "[''scan_filter_list'']" "\<lambda>j d. Some (gw_cfg_json_parse_lan_auth L E j d)"
  "lan_auth_fits E" "\<lambda>c d. lan_auth_restored E c" lan_auth_view for L E
proof
  show "gw_cfg_json_add_items_lan_auth L E False c j = run_ops L (lan_auth_ops E c) j" for c j
    by (simp add: gw_cfg_json_add_items_lan_auth_def lan_auth_ops_def json_add)
  show "ops_wf lan_auth_names (lan_auth_ops E c)" for c
    by (simp add: ops_wf_def lan_auth_ops_def lan_auth_names_def place_def lower_char_def)
  show "whole_array [''scan_filter_list''] (lan_auth_ops E c)" for c
    by (simp add: whole_array_def lan_auth_ops_def place_def)
  show "k \<in> set [] \<Longrightarrow> place [k] \<notin> set lan_auth_names" for k
    by simp
qed (erule lan_auth_parse, erule reads_gets)

subsection \<open>WiFi\<close>

text \<open>Only the passwords, the SSID of the station and the channel of the access point are stored.\<close>

definition wifi_sta_ops :: "wifiman_config_sta \<Rightarrow> json_op list" where
  "wifi_sta_ops c =
     [Put [] ''wifi_sta_config'' CJ_Object,
      Put [''wifi_sta_config''] ''ssid'' (CJ_String (c_str (sta_ssid (wifi_config_sta c)))),
      Put [''wifi_sta_config''] ''password'' (CJ_String (c_str (sta_password (wifi_config_sta c))))]"

definition wifi_sta_names :: "cj_ptr list" where
  "wifi_sta_names = [[''wifi_sta_config''], [''wifi_sta_config'', ''ssid''], [''wifi_sta_config'', ''password'']]"

definition wifi_sta_fits :: "wifiman_config_sta \<Rightarrow> wifiman_config_sta \<Rightarrow> bool" where
  "wifi_sta_fits c d \<longleftrightarrow> same_size (sta_ssid (wifi_config_sta c)) (sta_ssid (wifi_config_sta d)) \<and>
     same_size (sta_password (wifi_config_sta c)) (sta_password (wifi_config_sta d))"

definition wifi_sta_restored ::
  "wifi_sta_config \<times> wifi_settings_sta \<Rightarrow> wifi_sta_config \<times> wifi_settings_sta \<Rightarrow>
   wifi_sta_config \<times> wifi_settings_sta" where
  "wifi_sta_restored v vd =
     ((fst vd)\<lparr>sta_ssid := sta_ssid (fst v), sta_password := sta_password (fst v)\<rparr>, snd vd)"

lemma wifi_sta_parse:
  assumes "wifi_sta_fits c d" and "gets L (wifi_sta_ops c) j"
  shows "\<exists>d'. Some (parse_wifi_sta L j d) = Some d' \<and>
    wifi_sta_view d' = wifi_sta_restored (wifi_sta_view c) (wifi_sta_view d)"
  using assms
  by (simp add: wifi_sta_ops_def wifi_sta_fits_def parse_wifi_sta_def gw_cfg_json_parse_wifi_sta_config_def
    json_found keep_def wifi_sta_restored_def wifi_sta_view_def config_sta_view_def)

interpretation wifi_sta_json: json_section L "gw_cfg_json_add_items_wifi_sta_config L False" wifi_sta_ops
  wifi_sta_names "[]" "[''scan_filter_list'']" "\<lambda>j d. Some (parse_wifi_sta L j d)" wifi_sta_fits
  "\<lambda>c d. wifi_sta_restored (wifi_sta_view c) (wifi_sta_view d)" wifi_sta_view for L
proof
  show "gw_cfg_json_add_items_wifi_sta_config L False c j = run_ops L (wifi_sta_ops c) j" for c j
    by (simp add: gw_cfg_json_add_items_wifi_sta_config_def wifi_sta_ops_def json_add Let_def)
  show "ops_wf wifi_sta_names (wifi_sta_ops c)" for c
    by (simp add: ops_wf_def wifi_sta_ops_def wifi_sta_names_def place_def lower_char_def)
  show "whole_array [''scan_filter_list''] (wifi_sta_ops c)" for c
    by (simp add: whole_array_def wifi_sta_ops_def place_def lower_char_def)
  show "k \<in> set [] \<Longrightarrow> place [k] \<notin> set wifi_sta_names" for k
    by simp
qed (erule wifi_sta_parse, erule reads_gets)

definition wifi_channel :: "int \<Rightarrow> int" where
  "wifi_channel n = (if n = 0 then 1 else n)"

definition wifi_ap_ops :: "wifiman_config_ap \<Rightarrow> json_op list" where
  "wifi_ap_ops c =
     [Put [] ''wifi_ap_config'' CJ_Object,
      Put [''wifi_ap_config''] ''password'' (CJ_String (c_str (ap_password (wifi_config_ap c)))),
      Put [''wifi_ap_config''] ''channel'' (CJ_Number (wifi_channel (ap_channel (wifi_config_ap c))))]"

definition wifi_ap_names :: "cj_ptr list" where
  "wifi_ap_names = [[''wifi_ap_config''], [''wifi_ap_config'', ''password''], [''wifi_ap_config'', ''channel'']]"

text \<open>The channel is a \<open>uint8_t\<close>.\<close>

definition wifi_ap_fits :: "wifiman_config_ap \<Rightarrow> wifiman_config_ap \<Rightarrow> bool" where
  "wifi_ap_fits c d \<longleftrightarrow> same_size (ap_password (wifi_config_ap c)) (ap_password (wifi_config_ap d)) \<and>
     0 \<le> ap_channel (wifi_config_ap c) \<and> ap_channel (wifi_config_ap c) < 256"

definition wifi_ap_restored ::
  "wifi_ap_config \<times> wifi_settings_ap \<Rightarrow> wifi_ap_config \<times> wifi_settings_ap \<Rightarrow>
   wifi_ap_config \<times> wifi_settings_ap" where
  "wifi_ap_restored v vd =
     ((fst vd)\<lparr>ap_password := ap_password (fst v), ap_channel := wifi_channel (ap_channel (fst v))\<rparr>, snd vd)"

lemma get_channel_found:
  assumes "cJSON_GetObjectItem L j p k = Some (cj_stored (CJ_Number n))" and "0 \<le> n" and "n < 256"
  shows "gw_cfg_json_get_uint8_val L j p k = Some (Some (word_of_int n)) \<and> uint (word_of_int n :: u8) = n"
  using assms by (simp add: gw_cfg_json_get_uint8_val_def json_wrap_get_uint8_val_def max_def min_def
    unsigned_of_int take_bit_int_eq_self)

lemma wifi_ap_parse:
  assumes "wifi_ap_fits c d" and "gets L (wifi_ap_ops c) j"
  shows "\<exists>d'. parse_wifi_ap L j d = Some d' \<and>
    wifi_ap_view d' = wifi_ap_restored (wifi_ap_view c) (wifi_ap_view d)"
proof -
  let ?n = "wifi_channel (ap_channel (wifi_config_ap c))"
  from assms(1) have "0 \<le> ?n" "?n < 256" "?n \<noteq> 0"
    by (auto simp: wifi_channel_def wifi_ap_fits_def)
  moreover have "cJSON_GetObjectItem L j [''wifi_ap_config''] ''channel'' = Some (cj_stored (CJ_Number ?n))"
    using assms(2) by (simp add: wifi_ap_ops_def del: cj_stored.simps(1))
  ultimately show ?thesis
    using assms get_channel_found [of L j "[''wifi_ap_config'']" "''channel''" ?n]
    by (simp add: wifi_ap_ops_def wifi_ap_fits_def parse_wifi_ap_def gw_cfg_json_parse_wifi_ap_config_def
      json_found keep_def wifi_ap_restored_def wifi_ap_view_def config_ap_view_def del: cj_stored.simps(1))
qed

interpretation wifi_ap_json: json_section L "gw_cfg_json_add_items_wifi_ap_config L False" wifi_ap_ops
  wifi_ap_names "[]" "[''scan_filter_list'']" "parse_wifi_ap L" wifi_ap_fits
  "\<lambda>c d. wifi_ap_restored (wifi_ap_view c) (wifi_ap_view d)" wifi_ap_view for L
proof
  show "gw_cfg_json_add_items_wifi_ap_config L False c j = run_ops L (wifi_ap_ops c) j" for c j
    by (simp add: gw_cfg_json_add_items_wifi_ap_config_def wifi_ap_ops_def json_add Let_def wifi_channel_def)
  show "ops_wf wifi_ap_names (wifi_ap_ops c)" for c
    by (simp add: ops_wf_def wifi_ap_ops_def wifi_ap_names_def place_def lower_char_def)
  show "whole_array [''scan_filter_list''] (wifi_ap_ops c)" for c
    by (simp add: whole_array_def wifi_ap_ops_def place_def lower_char_def)
  show "k \<in> set [] \<Longrightarrow> place [k] \<notin> set wifi_ap_names" for k
    by simp
qed (erule wifi_ap_parse, erule reads_gets)

end
