(* ===== verification/Gw_Cfg_Json.thy ===== *)
theory Gw_Cfg_Json
  imports Gw_Cfg_Json_Sections
begin

text \<open>
  The whole configuration in JSON: what survives being saved and loaded, what the web page of the
  gateway is told, and what a document from outside can do.
\<close>

section \<open>Saving and loading\<close>

lemma ops_wf_concat:
  assumes "list_all2 ops_wf nss xss" and "distinct (concat nss)"
  shows "ops_wf (concat nss) (concat xss)"
  using assms
proof (induction nss xss rule: list_all2_induct)
  case Nil
  then show ?case by (simp add: ops_wf_def)
next
  case (Cons ns nss xs xss)
  then have "set ns \<inter> set (concat nss) = {}" and "distinct (concat nss)" by simp_all
  with Cons show ?case by (simp add: ops_wf_append)
qed

lemma whole_array_apart:
  assumes "whole_array a xs" and "ops_wf ns xs" and "place a \<notin> set ns"
  shows "apart a xs"
proof (rule ccontr)
  assume "\<not> apart a xs"
  with assms(1) obtain p k where "a = p @ [k]" "Put p k CJ_Array \<in> set xs"
    unfolding whole_array_def by fastforce
  then have "place a \<in> set (places xs)" using Put_in_places by fastforce
  with assms(2,3) show False by (auto simp: ops_wf_def)
qed

lemma apart_concat: "apart a (concat xss) \<longleftrightarrow> list_all (apart a) xss"
  by (induction xss) simp_all

text \<open>The operations in the order of the code; the scan filter with its array is the last section but one.\<close>

definition other_ops :: "json_env \<Rightarrow> gw_cfg \<Rightarrow> json_op list list" where
  "other_ops E c = (let r = ruuvi_cfg c in
     [wifi_sta_ops (wifi_cfg_sta c), wifi_ap_ops (wifi_cfg_ap c), eth_ops (eth_cfg c), remote_ops (cfg_remote r),
      http_ops (cfg_http r), http_stat_ops (cfg_http_stat r), mqtt_ops (cfg_mqtt r),
      lan_auth_ops E (cfg_lan_auth r), auto_update_ops (cfg_auto_update r), ntp_ops (cfg_ntp r),
      filter_ops (cfg_filter r), scan_ops (cfg_scan r)])"

definition text_ops :: "gw_cfg \<Rightarrow> json_op list" where
  "text_ops c =
     [Put [] ''coordinates'' (CJ_String (c_str (cfg_coordinates (ruuvi_cfg c)))),
      Put [] ''fw_update_url'' (CJ_String (c_str (cfg_fw_update_url (ruuvi_cfg c))))]"

definition gw_cfg_ops :: "json_env \<Rightarrow> gw_cfg \<Rightarrow> json_op list" where
  "gw_cfg_ops E c = concat (other_ops E c @ [scan_filter_ops E (cfg_scan_filter (ruuvi_cfg c)), text_ops c])"

definition other_names :: "cj_ptr list list" where
  "other_names = [wifi_sta_names, wifi_ap_names, eth_names, remote_names, http_names, http_stat_names, mqtt_names,
     lan_auth_names, auto_update_names, ntp_names, filter_names, scan_names]"

definition text_names :: "cj_ptr list" where
  "text_names = [[''coordinates''], [''fw_update_url'']]"

definition gw_cfg_names :: "cj_ptr list" where
  "gw_cfg_names = concat (other_names @ [scan_filter_names, text_names])"

lemmas names_defs = wifi_sta_names_def wifi_ap_names_def eth_names_def remote_names_def http_names_def
  http_stat_names_def mqtt_names_def lan_auth_names_def auto_update_names_def ntp_names_def filter_names_def
  scan_names_def scan_filter_names_def text_names_def

lemma gw_cfg_names_distinct: "distinct gw_cfg_names"
  by code_simp

lemma gw_cfg_names_absent: "[''scan_extended_payload''] \<notin> set gw_cfg_names"
  by code_simp

lemmas sections_wf = wifi_sta_json.ops_wf wifi_ap_json.ops_wf eth_json.ops_wf remote_json.ops_wf http_json.ops_wf
  http_stat_json.ops_wf mqtt_json.ops_wf lan_auth_json.ops_wf auto_update_json.ops_wf ntp_json.ops_wf
  filter_json.ops_wf scan_json.ops_wf scan_filter_json.ops_wf

lemmas sections_array = wifi_sta_json.ops_array wifi_ap_json.ops_array eth_json.ops_array remote_json.ops_array
  http_json.ops_array http_stat_json.ops_array mqtt_json.ops_array lan_auth_json.ops_array
  auto_update_json.ops_array ntp_json.ops_array filter_json.ops_array scan_json.ops_array

lemmas sections_add = wifi_sta_json.add_ops wifi_ap_json.add_ops eth_json.add_ops remote_json.add_ops
  http_json.add_ops http_stat_json.add_ops mqtt_json.add_ops lan_auth_json.add_ops auto_update_json.add_ops
  ntp_json.add_ops filter_json.add_ops scan_json.add_ops scan_filter_json.add_ops

lemma text_ops_wf: "ops_wf text_names (text_ops c)"
  by (simp add: ops_wf_def text_ops_def text_names_def place_def lower_char_def)

lemma other_ops_wf: "list_all2 ops_wf other_names (other_ops E c)"
  by (simp add: other_names_def other_ops_def Let_def sections_wf)

lemma gw_cfg_ops_wf: "ops_wf gw_cfg_names (gw_cfg_ops E c)"
  unfolding gw_cfg_names_def gw_cfg_ops_def
proof (rule ops_wf_concat)
  show "list_all2 ops_wf (other_names @ [scan_filter_names, text_names])
      (other_ops E c @ [scan_filter_ops E (cfg_scan_filter (ruuvi_cfg c)), text_ops c])"
    using other_ops_wf by (simp add: list_all2_appendI sections_wf text_ops_wf)
  show "distinct (concat (other_names @ [scan_filter_names, text_names]))"
    using gw_cfg_names_distinct by (simp only: gw_cfg_names_def)
qed

lemma run_ops_append_eta: "run_ops L (xs @ ys) = (\<lambda>j. Option.bind (run_ops L xs j) (run_ops L ys))"
  by (simp add: fun_eq_iff run_ops_append)

lemma gw_cfg_add_ops: "gw_cfg_json_add_items L E False c j = run_ops L (gw_cfg_ops E c) j"
  by (simp add: gw_cfg_json_add_items_def gw_cfg_ops_def other_ops_def text_ops_def Let_def sections_add
    run_ops_append_eta gw_cfg_json_add_items_fw_update_def add_string_eta run_ops_eta)

lemma other_apart: "list_all (apart [''scan_filter_list'']) (other_ops E c)"
proof -
  have "place [''scan_filter_list''] \<notin> set ns" if "ns \<in> set other_names" for ns
  proof -
    have "place [''scan_filter_list''] = [''scan_filter_list'']" by (simp add: place_def lower_char_def)
    moreover have "[''scan_filter_list''] \<in> set scan_filter_names" by (simp add: scan_filter_names_def)
    ultimately show ?thesis
      using that gw_cfg_names_distinct by (auto simp: gw_cfg_names_def)
  qed
  then have names: "list_all (\<lambda>ns. place [''scan_filter_list''] \<notin> set ns) other_names"
    by (simp add: list_all_iff)
  show ?thesis
    using names whole_array_apart [OF sections_array(1) sections_wf(1)]
      whole_array_apart [OF sections_array(2) sections_wf(2)]
      whole_array_apart [OF sections_array(3) sections_wf(3)]
      whole_array_apart [OF sections_array(4) sections_wf(4)]
      whole_array_apart [OF sections_array(5) sections_wf(5)]
      whole_array_apart [OF sections_array(6) sections_wf(6)]
      whole_array_apart [OF sections_array(7) sections_wf(7)]
      whole_array_apart [OF sections_array(8) sections_wf(8)]
      whole_array_apart [OF sections_array(9) sections_wf(9)]
      whole_array_apart [OF sections_array(10) sections_wf(10)]
      whole_array_apart [OF sections_array(11) sections_wf(11)]
      whole_array_apart [OF sections_array(12) sections_wf(12)]
    by (simp add: other_names_def other_ops_def Let_def)
qed

lemma gw_cfg_ops_array: "whole_array [''scan_filter_list''] (gw_cfg_ops E c)"
proof -
  let ?f = "cfg_scan_filter (ruuvi_cfg c)"
  let ?allow = "[Put [] ''scan_filter_allow_listed'' (CJ_Bool (sf_allow_listed ?f))]"
  have eq: "gw_cfg_ops E c = (concat (other_ops E c) @ ?allow) @ Put [] ''scan_filter_list'' CJ_Array #
      map (Push [''scan_filter_list'']) (map (mac_address_to_str E) (take (unat (sf_length ?f)) (sf_list ?f))) @
      text_ops c"
    by (simp add: gw_cfg_ops_def scan_filter_ops_def del: map_map)
  have "apart [''scan_filter_list''] (concat (other_ops E c) @ ?allow)"
    using other_apart by (simp add: apart_concat place_def)
  moreover have "apart [''scan_filter_list''] (text_ops c)"
    by (simp add: text_ops_def place_def)
  ultimately show ?thesis
    unfolding whole_array_def eq by (metis append_Nil)
qed

text \<open>Two configurations as objects of the same C type, and what the submodules promise.\<close>

definition ruuvi_fits :: "json_env \<Rightarrow> gw_cfg_ruuvi \<Rightarrow> gw_cfg_ruuvi \<Rightarrow> bool" where
  "ruuvi_fits E c d \<longleftrightarrow> remote_fits (cfg_remote c) (cfg_remote d) \<and> http_fits (cfg_http c) (cfg_http d) \<and>
     http_stat_fits (cfg_http_stat c) (cfg_http_stat d) \<and> mqtt_fits (cfg_mqtt c) (cfg_mqtt d) \<and>
     lan_auth_fits E (cfg_lan_auth c) (cfg_lan_auth d) \<and> ntp_fits (cfg_ntp c) (cfg_ntp d) \<and>
     scan_filter_fits E (cfg_scan_filter c) (cfg_scan_filter d) \<and>
     same_size (cfg_coordinates c) (cfg_coordinates d) \<and> same_size (cfg_fw_update_url c) (cfg_fw_update_url d)"

definition gw_cfg_fits :: "json_env \<Rightarrow> gw_cfg \<Rightarrow> gw_cfg \<Rightarrow> bool" where
  "gw_cfg_fits E c d \<longleftrightarrow> ruuvi_fits E (ruuvi_cfg c) (ruuvi_cfg d) \<and> eth_fits (eth_cfg c) (eth_cfg d) \<and>
     wifi_ap_fits (wifi_cfg_ap c) (wifi_cfg_ap d) \<and> wifi_sta_fits (wifi_cfg_sta c) (wifi_cfg_sta d)"

text \<open>What is loaded, from the meaning of the saved configuration and of the one that is read into.\<close>

definition ruuvi_restored :: "json_env \<Rightarrow> ruuvi_meaning \<Rightarrow> ruuvi_meaning \<Rightarrow> ruuvi_meaning" where
  "ruuvi_restored E m md = m\<lparr>m_remote := remote_restored (m_remote m), m_http := http_restored (m_http m) (m_http md),
     m_http_stat := http_stat_restored (m_http_stat m) (m_http_stat md),
     m_mqtt := mqtt_restored E (m_mqtt m) (m_mqtt md), m_lan_auth := lan_auth_restored E (m_lan_auth m),
     m_ntp := ntp_restored (m_ntp m) (m_ntp md), m_scan := scan_restored E (m_scan m)\<rparr>"

definition gw_cfg_restored :: "json_env \<Rightarrow> gw_cfg_meaning \<Rightarrow> gw_cfg_meaning \<Rightarrow> gw_cfg_meaning" where
  "gw_cfg_restored E m md = \<lparr>mean_device = mean_device md,
     mean_ruuvi = ruuvi_restored E (mean_ruuvi m) (mean_ruuvi md), mean_eth = eth_restored (mean_eth m) (mean_eth md),
     mean_wifi_ap = wifi_ap_restored (mean_wifi_ap m) (mean_wifi_ap md),
     mean_wifi_sta = wifi_sta_restored (mean_wifi_sta m) (mean_wifi_sta md)\<rparr>"

lemma c_str_idem [simp]: "c_str (c_str x) = c_str x"
  by (simp add: c_str_id)

lemma lan_auth_kind_view [simp]: "lan_auth_kind E (lan_auth_view c) = lan_auth_kind E c"
  by (simp add: lan_auth_kind_def lan_auth_view_def Let_def)

lemma lan_auth_restored_view: "lan_auth_restored E (lan_auth_view c) = lan_auth_restored E c"
proof -
  have "lan_auth_view (lan_auth_view c) = lan_auth_view c" by (simp add: lan_auth_view_def)
  then show ?thesis by (simp add: lan_auth_restored_def)
qed

lemma ruuvi_parse:
  assumes "ruuvi_fits E (ruuvi_cfg c) d" and "reads L (gw_cfg_ops E c) [''scan_extended_payload''] j"
  shows "\<exists>d'. gw_cfg_json_parse_cjson_ruuvi_cfg L E j d = Some d' \<and>
    gw_cfg_ruuvi_view d' = ruuvi_restored E (gw_cfg_ruuvi_view (ruuvi_cfg c)) (gw_cfg_ruuvi_view d)"
proof -
  let ?r = "ruuvi_cfg c"
  note fit = assms(1) [unfolded ruuvi_fits_def]
  from reads_gets [OF assms(2)]
  have g: "gets L (remote_ops (cfg_remote ?r)) j" "gets L (http_ops (cfg_http ?r)) j"
      "gets L (http_stat_ops (cfg_http_stat ?r)) j" "gets L (mqtt_ops (cfg_mqtt ?r)) j"
      "gets L (lan_auth_ops E (cfg_lan_auth ?r)) j" "gets L (auto_update_ops (cfg_auto_update ?r)) j"
      "gets L (ntp_ops (cfg_ntp ?r)) j" "gets L (filter_ops (cfg_filter ?r)) j"
      "gets L (text_ops c) j"
    by (simp_all add: gw_cfg_ops_def other_ops_def Let_def)
  have "Put p k CJ_Array \<notin> set (scan_ops (cfg_scan ?r))" for p k
    by (simp add: scan_ops_def)
  then have scan: "reads L (scan_ops (cfg_scan ?r)) [''scan_extended_payload''] j"
    by (intro reads_part [OF assms(2)]) (auto simp: gw_cfg_ops_def other_ops_def Let_def)
  have others: "pushed a (concat (other_ops E c)) = []" "pushed a (text_ops c) = []" for a
    using other_apart [of E c] by (auto simp: apart_concat [symmetric] apart_pushed text_ops_def)
  have sf: "reads L (scan_filter_ops E (cfg_scan_filter ?r)) [] j"
    by (rule reads_part [OF assms(2)]) (auto simp: gw_cfg_ops_def others)
  from remote_parse [OF _ g(1)] fit obtain remote where remote:
    "gw_cfg_json_parse_remote L j (cfg_remote d) = Some remote"
    "remote_view remote = remote_restored (remote_view (cfg_remote ?r))" by blast
  from http_parse [OF _ g(2)] fit obtain http where http:
    "gw_cfg_json_parse_http L E j (cfg_http d) = Some http"
    "http_view http = http_restored (http_view (cfg_http ?r)) (http_view (cfg_http d))" by blast
  from mqtt_parse [OF _ g(4)] fit obtain mqtt where mqtt:
    "gw_cfg_json_parse_mqtt L E j (cfg_mqtt d) = Some mqtt"
    "mqtt_view mqtt = mqtt_restored E (mqtt_view (cfg_mqtt ?r)) (mqtt_view (cfg_mqtt d))" by blast
  from scan_filter_parse [OF _ sf] fit obtain sfil where sfil:
    "gw_cfg_json_parse_scan_filter L E j (cfg_scan_filter d) = Some sfil"
    "scan_filter_view sfil = scan_filter_view (cfg_scan_filter ?r)" by blast
  have au: "gw_cfg_json_parse_auto_update L j (cfg_auto_update d) = Some (cfg_auto_update ?r)"
    using auto_update_parse [OF _ g(6), of "cfg_auto_update d"]
    by (simp add: auto_update_fits_def auto_update_restored_def)
  have fil: "gw_cfg_json_parse_filter L j (cfg_filter d) = Some (cfg_filter ?r)"
    using filter_parse [OF _ g(8), of "cfg_filter d"] by (simp add: filter_fits_def filter_restored_def)
  have rest: "http_stat_view (gw_cfg_json_parse_http_stat L j (cfg_http_stat d)) =
      http_stat_restored (http_stat_view (cfg_http_stat ?r)) (http_stat_view (cfg_http_stat d))"
    "lan_auth_view (gw_cfg_json_parse_lan_auth L E j (cfg_lan_auth d)) = lan_auth_restored E (cfg_lan_auth ?r)"
    "ntp_view (gw_cfg_json_parse_ntp L j (cfg_ntp d)) = ntp_restored (ntp_view (cfg_ntp ?r)) (ntp_view (cfg_ntp d))"
    "gw_cfg_json_parse_scan L E j (cfg_scan d) = scan_restored E (cfg_scan ?r)"
    using http_stat_parse [OF _ g(3)] lan_auth_parse [OF _ g(5)] ntp_parse [OF _ g(7)]
      scan_parse [OF _ scan, of "cfg_scan d" E] fit by (auto simp: scan_fits_def)
  have strings: "c_str (copy_str L j ''coordinates'' (cfg_coordinates d)) = c_str (cfg_coordinates ?r)"
    "c_str (gw_cfg_json_parse_fw_update L j (cfg_fw_update_url d)) = c_str (cfg_fw_update_url ?r)"
    using g(9) fit by (simp_all add: text_ops_def json_found gw_cfg_json_parse_fw_update_def)
  show ?thesis
    by (simp add: gw_cfg_json_parse_cjson_ruuvi_cfg_def remote http mqtt sfil au fil Let_def)
      (simp add: gw_cfg_ruuvi_view_def ruuvi_restored_def remote http mqtt sfil rest strings lan_auth_restored_view)
qed

text \<open>The configuration as the text of \<open>gw_cfg_json_parse\<close> is read into it.\<close>

definition gw_cfg_json_parse_object :: "'j cjson_lib \<Rightarrow> json_env \<Rightarrow> 'j \<Rightarrow> gw_cfg \<Rightarrow> gw_cfg option" where
  "gw_cfg_json_parse_object L E j c = do {
     ru \<leftarrow> gw_cfg_json_parse_cjson_ruuvi_cfg L E j (ruuvi_cfg c);
     ap \<leftarrow> parse_wifi_ap L j (wifi_cfg_ap c);
     Some (c\<lparr>ruuvi_cfg := ru, eth_cfg := gw_cfg_json_parse_eth L j (eth_cfg c), wifi_cfg_ap := ap,
       wifi_cfg_sta := parse_wifi_sta L j (wifi_cfg_sta c)\<rparr>)
   }"

lemma gw_cfg_json_parse_eq:
  assumes "text \<noteq> []" and "cJSON_Parse L text = Some j"
  shows "gw_cfg_json_parse L E text c = map_option (Pair True) (gw_cfg_json_parse_object L E j c)"
  using assms
  by (cases "gw_cfg_json_parse_cjson_ruuvi_cfg L E j (ruuvi_cfg c)"; cases "parse_wifi_ap L j (wifi_cfg_ap c)")
    (simp_all add: gw_cfg_json_parse_def gw_cfg_json_parse_cjson_def gw_cfg_json_parse_object_def)

lemma gw_cfg_object_parse:
  assumes "gw_cfg_fits E c d" and "reads L (gw_cfg_ops E c) [''scan_extended_payload''] j"
  shows "\<exists>d'. gw_cfg_json_parse_object L E j d = Some d' \<and>
    gw_cfg_view d' = gw_cfg_restored E (gw_cfg_view c) (gw_cfg_view d)"
proof -
  note fit = assms(1) [unfolded gw_cfg_fits_def]
  from reads_gets [OF assms(2)]
  have g: "gets L (eth_ops (eth_cfg c)) j" "gets L (wifi_ap_ops (wifi_cfg_ap c)) j"
      "gets L (wifi_sta_ops (wifi_cfg_sta c)) j"
    by (simp_all add: gw_cfg_ops_def other_ops_def Let_def)
  from ruuvi_parse [OF _ assms(2)] fit obtain ru where ru:
    "gw_cfg_json_parse_cjson_ruuvi_cfg L E j (ruuvi_cfg d) = Some ru"
    "gw_cfg_ruuvi_view ru = ruuvi_restored E (gw_cfg_ruuvi_view (ruuvi_cfg c)) (gw_cfg_ruuvi_view (ruuvi_cfg d))"
    by blast
  from wifi_ap_parse [OF _ g(2)] fit obtain ap where ap: "parse_wifi_ap L j (wifi_cfg_ap d) = Some ap"
    "wifi_ap_view ap = wifi_ap_restored (wifi_ap_view (wifi_cfg_ap c)) (wifi_ap_view (wifi_cfg_ap d))" by blast
  have "eth_view (gw_cfg_json_parse_eth L j (eth_cfg d)) = eth_restored (eth_view (eth_cfg c)) (eth_view (eth_cfg d))"
    "wifi_sta_view (parse_wifi_sta L j (wifi_cfg_sta d)) =
      wifi_sta_restored (wifi_sta_view (wifi_cfg_sta c)) (wifi_sta_view (wifi_cfg_sta d))"
    using eth_parse [OF _ g(1)] wifi_sta_parse [OF _ g(3)] fit by simp_all
  with ru ap show ?thesis
    by (simp add: gw_cfg_json_parse_object_def gw_cfg_view_def gw_cfg_restored_def)
qed

interpretation gw_cfg_json: json_section L "gw_cfg_json_add_items L E False" "gw_cfg_ops E" gw_cfg_names
  "[''scan_extended_payload'']" "[''scan_filter_list'']" "gw_cfg_json_parse_object L E" "gw_cfg_fits E"
  "\<lambda>c d. gw_cfg_restored E (gw_cfg_view c) (gw_cfg_view d)" gw_cfg_view for L E
proof
  show "gw_cfg_json_add_items L E False c j = run_ops L (gw_cfg_ops E c) j" for c j
    by (rule gw_cfg_add_ops)
  show "ops_wf gw_cfg_names (gw_cfg_ops E c)" for c
    by (rule gw_cfg_ops_wf)
  show "whole_array [''scan_filter_list''] (gw_cfg_ops E c)" for c
    by (rule gw_cfg_ops_array)
  show "k \<in> set [''scan_extended_payload''] \<Longrightarrow> place [k] \<notin> set gw_cfg_names" for k
    using gw_cfg_names_absent by (simp add: place_def lower_char_def)
qed (rule gw_cfg_object_parse)

text \<open>Saving once more changes nothing more.\<close>

lemma json_u32_idem [simp]: "json_u32 (json_u32 w) = json_u32 w"
proof -
  have u: "uint (json_u32 w) = min (uint w) 2147483647 mod 65536"
    by (simp add: json_u32_def unsigned_ucast_eq unsigned_of_int take_bit_eq_mod)
  then have "min (uint (json_u32 w)) 2147483647 = uint (json_u32 w)" by simp
  with u show ?thesis by (simp add: json_u32_def [of "json_u32 w"] word_uint_eq_iff unsigned_ucast_eq
    unsigned_of_int take_bit_eq_mod)
qed

lemma restored_idem:
  "remote_restored (remote_restored r) = remote_restored r"
  "eth_restored (eth_restored e ed) ed = eth_restored e ed"
  "http_stat_restored (http_stat_restored h h0) h0 = http_stat_restored h h0"
  "mqtt_restored E (mqtt_restored E q qd) qd = mqtt_restored E q qd"
  "ntp_restored (ntp_restored n nd) nd = ntp_restored n nd"
  "scan_restored E (scan_restored E s) = scan_restored E s"
  "wifi_ap_restored (wifi_ap_restored a ad) ad = wifi_ap_restored a ad"
  "wifi_sta_restored (wifi_sta_restored t td) td = wifi_sta_restored t td"
  by (simp_all add: remote_restored_def eth_restored_def http_stat_restored_def mqtt_restored_def Let_def
    ntp_restored_def scan_restored_def wifi_ap_restored_def wifi_sta_restored_def wifi_channel_def)

lemma http_restored_idem: "http_restored (http_restored v vd) vd = http_restored v vd"
proof -
  have "http_is_default (fst (http_default_restored vd))"
    by (simp add: http_is_default_def http_default_restored_def)
  moreover have "http_is_default (r\<lparr>http_period := p\<rparr>) = http_is_default r" for r p
    by (simp add: http_is_default_def)
  moreover have "\<not> http_is_default (r\<lparr>use_http_ruuvi := False, use_http := False\<rparr>)" for r
    by (simp add: http_is_default_def)
  ultimately show ?thesis by (simp add: http_restored_def)
qed

lemma lan_auth_restored_idem: "lan_auth_restored E (lan_auth_restored E c) = lan_auth_restored E c"
proof -
  have view: "lan_auth_view (lan_auth_restored E c) = lan_auth_restored E c"
    by (simp add: lan_auth_restored_def lan_auth_view_def Let_def split: http_server_auth_type.split)
  have "lan_auth_kind E (lan_auth_restored E c) = lan_auth_kind E c"
    by (cases "lan_auth_kind E c"; cases "lan_auth_type c")
      (auto simp: lan_auth_restored_def lan_auth_kind_def lan_auth_view_def Let_def split: if_splits)
  with view show ?thesis
    by (cases "lan_auth_kind E c") (simp_all add: lan_auth_restored_def [of E "lan_auth_restored E c"] Let_def,
      simp_all add: lan_auth_restored_def lan_auth_view_def Let_def)
qed

lemma gw_cfg_restored_idem:
  "gw_cfg_restored E (gw_cfg_restored E m md) md = gw_cfg_restored E m md"
  by (simp add: gw_cfg_restored_def ruuvi_restored_def restored_idem http_restored_idem lan_auth_restored_idem)

section \<open>An instance of the library\<close>

text \<open>
  An object is the list of its items with their places, and the strings pushed to its arrays; its
  text is its number in an enumeration of all objects.
\<close>

instance cj_item :: countable
  by countable_datatype

type_synonym list_object = "(cj_ptr \<times> cj_item) list \<times> (cj_ptr \<times> string) list"

definition list_json :: "list_object cjson_lib" where
  "list_json = \<lparr>
     cJSON_CreateObject = Some ([], []),
     cJSON_AddToObject = (\<lambda>j p k i. Some ((place (p @ [k]), cj_stored i) # fst j,
       if i = CJ_Array then filter (\<lambda>x. fst x \<noteq> place (p @ [k])) (snd j) else snd j)),
     cJSON_AddStringToArray = (\<lambda>j p str. Some (fst j, snd j @ [(place p, str)])),
     cJSON_Print = (\<lambda>j. Some (replicate (Suc (to_nat j)) CHR ''x'')),
     cJSON_Parse = (\<lambda>text. Some (from_nat (length text - 1))),
     cJSON_GetObjectItem = (\<lambda>j p k. map_of (fst j) (place (p @ [k]))),
     cJSON_ArrayStrings = (\<lambda>j a. map (Some \<circ> snd) (filter (\<lambda>x. fst x = place a) (snd j)))\<rparr>"

lemma filter_other_place:
  "filter (\<lambda>x. fst x = b) (filter (\<lambda>x. fst x \<noteq> a) xs) = (if a = b then [] else filter (\<lambda>x. fst x = b) xs)"
  by (induction xs) auto

lemma list_json_simps:
  "cJSON_CreateObject list_json = Some ([], [])"
  "cJSON_AddToObject list_json j p k i = Some ((place (p @ [k]), cj_stored i) # fst j,
     if i = CJ_Array then filter (\<lambda>x. fst x \<noteq> place (p @ [k])) (snd j) else snd j)"
  "cJSON_AddStringToArray list_json j p str = Some (fst j, snd j @ [(place p, str)])"
  "cJSON_Print list_json j = Some (replicate (Suc (to_nat j)) CHR ''x'')"
  "cJSON_Parse list_json text = Some (from_nat (length text - 1))"
  "cJSON_GetObjectItem list_json j = (\<lambda>p k. map_of (fst j) (place (p @ [k])))"
  "cJSON_ArrayStrings list_json j = (\<lambda>a. map (Some \<circ> snd) (filter (\<lambda>x. fst x = place a) (snd j)))"
  by (simp_all add: list_json_def fun_eq_iff)

lemma list_json_documented: "cjson_documented list_json"
  unfolding cjson_documented_def same_ptr_place list_json_simps
proof (intro conjI allI impI)
  fix j :: list_object and p k
  assume "Some ([], []) = Some j"
  then show "map_of (fst j) (place (p @ [k])) = None" by auto
next
  fix j :: list_object and p k i j' p' k'
  assume "Some ((place (p @ [k]), cj_stored i) # fst j,
     if i = CJ_Array then filter (\<lambda>x. fst x \<noteq> place (p @ [k])) (snd j) else snd j) = Some j'"
  then have "fst j' = (place (p @ [k]), cj_stored i) # fst j" by (simp only: option.inject) auto
  then show "map_of (fst j') (place (p' @ [k'])) =
      (if place (p' @ [k']) = place (p @ [k]) then Some (cj_stored i) else map_of (fst j) (place (p' @ [k'])))"
    by simp
next
  fix j :: list_object and p str j'
  assume push: "Some (fst j, snd j @ [(place p, str)]) = Some j'"
  then have "fst j' = fst j" by (simp only: option.inject) auto
  then show "(\<lambda>p k. map_of (fst j') (place (p @ [k]))) = (\<lambda>p k. map_of (fst j) (place (p @ [k])))"
    by simp
  fix a
  from push have "snd j' = snd j @ [(place p, str)]" by (simp only: option.inject) auto
  then show "map (Some \<circ> snd) (filter (\<lambda>x. fst x = place a) (snd j')) =
      map (Some \<circ> snd) (filter (\<lambda>x. fst x = place a) (snd j)) @ (if place a = place p then [Some str] else [])"
    by simp
next
  fix j j' :: list_object and t
  assume t: "Some (replicate (Suc (to_nat j)) CHR ''x'') = Some t"
  then show "t \<noteq> []" by auto
  from t have "length t - 1 = to_nat j" by auto
  moreover assume "Some (from_nat (length t - 1)) = Some j'"
  ultimately have "j' = j" by simp
  then show "(\<lambda>p k. map_of (fst j') (place (p @ [k]))) = (\<lambda>p k. map_of (fst j) (place (p @ [k])))"
    and "(\<lambda>a. map (Some \<circ> snd) (filter (\<lambda>x. fst x = place a) (snd j'))) =
      (\<lambda>a. map (Some \<circ> snd) (filter (\<lambda>x. fst x = place a) (snd j)))" by simp_all
next
  fix j :: list_object and p k i j' a
  assume "Some ((place (p @ [k]), cj_stored i) # fst j,
     if i = CJ_Array then filter (\<lambda>x. fst x \<noteq> place (p @ [k])) (snd j) else snd j) = Some j'"
  then have j': "j' = ((place (p @ [k]), cj_stored i) # fst j,
     if i = CJ_Array then filter (\<lambda>x. fst x \<noteq> place (p @ [k])) (snd j) else snd j)" by simp
  show "if place a = place (p @ [k])
       then i = CJ_Array \<longrightarrow> map (Some \<circ> snd) (filter (\<lambda>x. fst x = place a) (snd j')) = []
       else place a \<noteq> place p \<longrightarrow> map (Some \<circ> snd) (filter (\<lambda>x. fst x = place a) (snd j')) =
         map (Some \<circ> snd) (filter (\<lambda>x. fst x = place a) (snd j))"
    unfolding j' by (simp add: filter_other_place del: filter_filter)
qed

lemma list_json_run: "\<exists>j'. run_ops list_json xs j = Some j'"
proof (induction xs arbitrary: j)
  case (Cons x xs)
  have "\<exists>j1. run_op list_json x j = Some j1"
    by (cases x) (simp_all add: list_json_simps)
  with Cons show ?case by auto
qed simp

text \<open>The submodules: addresses in pairs of letters, kinds of authentication in one.\<close>

definition letters :: "u8 \<Rightarrow> string" where
  "letters b = [char_of (65 + unat b div 16), char_of (65 + unat b mod 16)]"

fun byte_of :: "char \<Rightarrow> char \<Rightarrow> u8" where
  "byte_of c d = of_nat ((of_char c - 65) * 16 + (of_char d - 65))"

lemma byte_of_letters: "byte_of (char_of (65 + unat b div 16)) (char_of (65 + unat b mod 16)) = b"
proof -
  have "unat b < 256" using unsigned_less [of b] by simp
  then have "of_char (char_of (65 + unat b div 16) :: char) = 65 + unat b div 16"
      "of_char (char_of (65 + unat b mod 16) :: char) = 65 + unat b mod 16"
    by (simp_all add: take_bit_nat_eq_self)
  then show ?thesis by simp
qed

fun mac_from_letters :: "string \<Rightarrow> mac_address" where
  "mac_from_letters [a, a', b, b', c, c', d, d', e, e', f, f'] =
     MAC (byte_of a a') (byte_of b b') (byte_of c c') (byte_of d d') (byte_of e e') (byte_of f f')"
| "mac_from_letters _ = MAC 0 0 0 0 0 0"

fun kind_letter :: "http_server_auth_type \<Rightarrow> string" where
  "kind_letter HTTP_SERVER_AUTH_TYPE_BASIC = ''b''"
| "kind_letter HTTP_SERVER_AUTH_TYPE_DIGEST = ''d''"
| "kind_letter HTTP_SERVER_AUTH_TYPE_RUUVI = ''r''"
| "kind_letter HTTP_SERVER_AUTH_TYPE_DEFAULT = ''f''"
| "kind_letter HTTP_SERVER_AUTH_TYPE_ALLOW = ''a''"
| "kind_letter HTTP_SERVER_AUTH_TYPE_DENY = ''n''"
| "kind_letter HTTP_SERVER_AUTH_TYPE_BEARER = ''t''"

definition json_env_example :: "gw_cfg \<Rightarrow> json_env" where
  "json_env_example def = \<lparr>
     mac_address_to_str = (\<lambda>mac. concat (map letters (mac_bytes mac))),
     mac_addr_from_str = (\<lambda>str old. case str of None \<Rightarrow> (False, old) | Some s \<Rightarrow> (True, mac_from_letters s)),
     http_server_auth_type_to_str = kind_letter,
     http_server_auth_type_from_str = (\<lambda>s.
       if s = ''b'' then HTTP_SERVER_AUTH_TYPE_BASIC else if s = ''d'' then HTTP_SERVER_AUTH_TYPE_DIGEST
       else if s = ''r'' then HTTP_SERVER_AUTH_TYPE_RUUVI else if s = ''f'' then HTTP_SERVER_AUTH_TYPE_DEFAULT
       else if s = ''a'' then HTTP_SERVER_AUTH_TYPE_ALLOW else if s = ''n'' then HTTP_SERVER_AUTH_TYPE_DENY
       else HTTP_SERVER_AUTH_TYPE_BEARER),
     sizeof_http_server_auth_type_str = 16,
     os_str_to_uint32_cptr = (\<lambda>s base. (0, s)),
     ruuvi_nvs_open_gw_cfg_storage = False, nvs_get_str_ok = (\<lambda>_. False),
     g_gw_cfg_default = def\<rparr>"

lemma json_env_example_mac: "mac_text_ok (json_env_example def)"
  unfolding mac_text_ok_def
proof (intro allI)
  fix mac old
  show "mac_addr_from_str (json_env_example def) (Some (mac_address_to_str (json_env_example def) mac)) old = (True, mac)"
    by (cases mac) (simp add: json_env_example_def letters_def byte_of_letters del: byte_of.simps)
qed

lemma json_env_example_names: "auth_names_ok (json_env_example def)"
  unfolding auth_names_ok_def
proof
  fix t
  show "http_server_auth_type_from_str (json_env_example def) (http_server_auth_type_to_str (json_env_example def) t) = t \<and>
      NUL \<notin> set (http_server_auth_type_to_str (json_env_example def) t) \<and>
      length (http_server_auth_type_to_str (json_env_example def) t) <
        sizeof_http_server_auth_type_str (json_env_example def)"
    by (cases t) (simp_all add: json_env_example_def NUL_def)
qed

text \<open>A configuration that sends to a custom target every 100000 seconds.\<close>

definition json_example :: gw_cfg where
  "json_example = (let r = gw_cfg_ruuvi_example (replicate 250 NUL) in
     gw_cfg_example\<lparr>ruuvi_cfg := r\<lparr>cfg_http := (cfg_http r)\<lparr>use_http := True, http_period := 100000,
       http_auth := replicate 256 NUL\<rparr>\<rparr>\<rparr>)"

lemma json_example_parts:
  "wifi_cfg_ap json_example = wifi_cfg_ap gw_cfg_example" "wifi_cfg_sta json_example = wifi_cfg_sta gw_cfg_example"
  "eth_cfg json_example = eth_example"
  "cfg_http (ruuvi_cfg json_example) = (cfg_http (gw_cfg_ruuvi_example (replicate 250 NUL)))\<lparr>use_http := True,
     http_period := 100000, http_auth := replicate 256 NUL\<rparr>"
  "cfg_remote (ruuvi_cfg json_example) = cfg_remote (gw_cfg_ruuvi_example (replicate 250 NUL))"
  "cfg_http_stat (ruuvi_cfg json_example) = cfg_http_stat (gw_cfg_ruuvi_example (replicate 250 NUL))"
  "cfg_mqtt (ruuvi_cfg json_example) = cfg_mqtt (gw_cfg_ruuvi_example (replicate 250 NUL))"
  "cfg_lan_auth (ruuvi_cfg json_example) = cfg_lan_auth (gw_cfg_ruuvi_example (replicate 250 NUL))"
  "cfg_ntp (ruuvi_cfg json_example) = cfg_ntp (gw_cfg_ruuvi_example (replicate 250 NUL))"
  "cfg_scan_filter (ruuvi_cfg json_example) = cfg_scan_filter (gw_cfg_ruuvi_example (replicate 250 NUL))"
  "cfg_coordinates (ruuvi_cfg json_example) = cfg_coordinates (gw_cfg_ruuvi_example (replicate 250 NUL))"
  "cfg_fw_update_url (ruuvi_cfg json_example) = cfg_fw_update_url (gw_cfg_ruuvi_example (replicate 250 NUL))"
  by (simp_all add: json_example_def gw_cfg_example_def Let_def)

lemma json_example_fits: "gw_cfg_fits (json_env_example def) json_example json_example"
proof -
  have "length RUUVI_GATEWAY_HTTP_DEFAULT_URL < 200"
    by (simp add: RUUVI_GATEWAY_HTTP_DEFAULT_URL_def)
  then have "ruuvi_fits (json_env_example def) (ruuvi_cfg json_example) (ruuvi_cfg json_example)"
    by (simp add: ruuvi_fits_def json_example_parts gw_cfg_ruuvi_example_def remote_fits_def http_fits_def
      http_stat_fits_def mqtt_fits_def lan_auth_fits_def ntp_fits_def scan_filter_fits_def auth_fits_def
      same_size_def auth_token_buf_def scan_filter_ok_def json_env_example_mac json_env_example_names)
  then show ?thesis
    by (simp add: gw_cfg_fits_def json_example_parts gw_cfg_example_def eth_example_def eth_fits_def
      wifi_ap_fits_def wifi_sta_fits_def same_size_def)
qed

section \<open>Properties\<close>

text \<open>C12: A configuration survives being saved and loaded, but for the values listed in
  \<open>gw_cfg_restored\<close>. Whenever the generator for the flash memory returns a text and there is memory to
  parse it, reading it into a configuration of the same layout succeeds without an access outside an
  object, and every section then means what the saved one meant, except: the settings of a target,
  of Ethernet or of the time servers that are not in use are those of the configuration that is read
  into; the Ruuvi cloud alone loses the address of its custom target; the scan settings of
  \<open>scan_default\<close>, an empty MQTT prefix or client identifier and the default LAN user become the
  defaults; users of a LAN kind without them are dropped; the remote authentication types token and
  API key become none; channel 0 becomes 1; and the two 32-bit intervals keep only their lowest 16
  bits. Saving and loading the result once more changes nothing more.
\<close>

theorem gw_cfg_json_round_trip:
  assumes "cjson_documented L" and "gw_cfg_json_generate_for_saving L E c = Some text"
    and "cJSON_Parse L text = Some j" and "gw_cfg_fits E c d"
  shows "(\<exists>d'. gw_cfg_json_parse L E text d = Some (True, d') \<and>
      gw_cfg_view d' = gw_cfg_restored E (gw_cfg_view c) (gw_cfg_view d)) \<and>
    gw_cfg_restored E (gw_cfg_restored E (gw_cfg_view c) (gw_cfg_view d)) (gw_cfg_view d) =
      gw_cfg_restored E (gw_cfg_view c) (gw_cfg_view d)"
proof -
  from assms(2) obtain j0 j1 where run: "cJSON_CreateObject L = Some j0"
      "gw_cfg_json_add_items L E False c j0 = Some j1" "cJSON_Print L j1 = Some text"
    by (auto simp: gw_cfg_json_generate_for_saving_def gw_cfg_json_generate_def bind_eq_Some_conv)
  from gw_cfg_json.round_trip [OF assms(1) run assms(3,4)] obtain d' where
    "gw_cfg_json_parse_object L E j d = Some d'"
    "gw_cfg_view d' = gw_cfg_restored E (gw_cfg_view c) (gw_cfg_view d)" by blast
  with gw_cfg_json_parse_eq [OF documented_print(1) [OF assms(1) run(3)] assms(3)] gw_cfg_restored_idem
  show ?thesis by simp
qed

theorem gw_cfg_json_round_trip_witness:
  "\<exists>t d'. gw_cfg_json_generate_for_saving list_json (json_env_example json_example) json_example = Some t \<and>
     gw_cfg_json_parse list_json (json_env_example json_example) t json_example = Some (True, d') \<and>
     http_period (cfg_http (ruuvi_cfg json_example)) = 100000 \<and> http_period (cfg_http (ruuvi_cfg d')) = 34464"
proof -
  let ?E = "json_env_example json_example"
  obtain j1 where "run_ops list_json (gw_cfg_ops ?E json_example) ([], []) = Some j1"
    using list_json_run by blast
  then obtain t where gen: "gw_cfg_json_generate_for_saving list_json ?E json_example = Some t"
    by (simp add: gw_cfg_json_generate_for_saving_def gw_cfg_json_generate_def gw_cfg_add_ops list_json_simps)
  obtain j where "cJSON_Parse list_json t = Some j" by (simp add: list_json_simps)
  from gw_cfg_json_round_trip [OF list_json_documented gen this json_example_fits]
  obtain d' where parse: "gw_cfg_json_parse list_json ?E t json_example = Some (True, d')"
    and mean: "gw_cfg_view d' = gw_cfg_restored ?E (gw_cfg_view json_example) (gw_cfg_view json_example)" by blast
  have "use_http (cfg_http (ruuvi_cfg json_example)) \<and>
      c_str (http_url (cfg_http (ruuvi_cfg json_example))) \<noteq> RUUVI_GATEWAY_HTTP_DEFAULT_URL"
    by (simp add: json_example_parts gw_cfg_ruuvi_example_def RUUVI_GATEWAY_HTTP_DEFAULT_URL_def NUL_def)
  then have default: "\<not> http_is_default (fst (http_view (cfg_http (ruuvi_cfg json_example))))"
      "use_http (fst (http_view (cfg_http (ruuvi_cfg json_example))))"
    by (simp_all add: http_is_default_def http_view_def)
  have "http_period (cfg_http (ruuvi_cfg d')) = http_period (fst (m_http (mean_ruuvi (gw_cfg_view d'))))"
    by (simp add: gw_cfg_view_def gw_cfg_ruuvi_view_def http_view_def)
  also have "\<dots> = json_u32 (http_period (fst (http_view (cfg_http (ruuvi_cfg json_example)))))"
    using default unfolding mean
    by (simp add: gw_cfg_restored_def ruuvi_restored_def gw_cfg_view_def gw_cfg_ruuvi_view_def http_restored_def)
  also have "\<dots> = 34464"
    by (simp add: http_view_def json_example_parts json_u32_def)
  finally have "http_period (cfg_http (ruuvi_cfg d')) = 34464" .
  with gen parse show ?thesis by (simp add: json_example_parts)
qed

section \<open>What the web page is told\<close>

text \<open>
  A configuration without its secrets. Of the LAN authentication the page shows the kind (which tells
  whether the password is the default one) and whether there are API keys.
\<close>

definition auth_shown :: "gw_cfg_http_auth_type \<Rightarrow> string \<Rightarrow> string" where
  "auth_shown t auth = (if t = GW_CFG_HTTP_AUTH_TYPE_BASIC then auth_basic_user auth else [])"

definition lan_auth_shown :: "json_env \<Rightarrow> ruuvi_gw_cfg_lan_auth \<Rightarrow> ruuvi_gw_cfg_lan_auth" where
  "lan_auth_shown E c = c\<lparr>lan_auth_type := lan_auth_kind E c, lan_auth_pass := [],
     lan_auth_api_key := (if c_str (lan_auth_api_key c) = [] then [] else ''set''),
     lan_auth_api_key_rw := (if c_str (lan_auth_api_key_rw c) = [] then [] else ''set'')\<rparr>"

definition ruuvi_shown :: "json_env \<Rightarrow> gw_cfg_ruuvi \<Rightarrow> gw_cfg_ruuvi" where
  "ruuvi_shown E c = c\<lparr>
     cfg_remote := (cfg_remote c)\<lparr>remote_auth := auth_shown (remote_auth_type (cfg_remote c)) (remote_auth (cfg_remote c))\<rparr>,
     cfg_http := (cfg_http c)\<lparr>http_auth := auth_shown (http_auth_type (cfg_http c)) (http_auth (cfg_http c))\<rparr>,
     cfg_http_stat := (cfg_http_stat c)\<lparr>http_stat_pass := []\<rparr>, cfg_mqtt := (cfg_mqtt c)\<lparr>mqtt_pass := []\<rparr>,
     cfg_lan_auth := lan_auth_shown E (cfg_lan_auth c)\<rparr>"

definition gw_cfg_shown :: "json_env \<Rightarrow> gw_cfg \<Rightarrow> gw_cfg" where
  "gw_cfg_shown E c = c\<lparr>ruuvi_cfg := ruuvi_shown E (ruuvi_cfg c),
     wifi_cfg_ap := (wifi_cfg_ap c)\<lparr>wifi_config_ap := (wifi_config_ap (wifi_cfg_ap c))\<lparr>ap_password := []\<rparr>\<rparr>,
     wifi_cfg_sta := (wifi_cfg_sta c)\<lparr>wifi_config_sta := (wifi_config_sta (wifi_cfg_sta c))\<lparr>sta_password := []\<rparr>\<rparr>\<rparr>"

lemma wifi_shown:
  "c\<lparr>wifi_config_sta := (wifi_config_sta c)\<lparr>sta_password := []\<rparr>\<rparr> =
   d\<lparr>wifi_config_sta := (wifi_config_sta d)\<lparr>sta_password := []\<rparr>\<rparr> \<Longrightarrow>
   gw_cfg_json_add_items_wifi_sta_config L True c = gw_cfg_json_add_items_wifi_sta_config L True d"
  "a\<lparr>wifi_config_ap := (wifi_config_ap a)\<lparr>ap_password := []\<rparr>\<rparr> =
   b\<lparr>wifi_config_ap := (wifi_config_ap b)\<lparr>ap_password := []\<rparr>\<rparr> \<Longrightarrow>
   gw_cfg_json_add_items_wifi_ap_config L True a = gw_cfg_json_add_items_wifi_ap_config L True b"
proof -
  show "gw_cfg_json_add_items_wifi_sta_config L True c = gw_cfg_json_add_items_wifi_sta_config L True d"
    if "c\<lparr>wifi_config_sta := (wifi_config_sta c)\<lparr>sta_password := []\<rparr>\<rparr> =
      d\<lparr>wifi_config_sta := (wifi_config_sta d)\<lparr>sta_password := []\<rparr>\<rparr>"
  proof -
    from that have "sta_ssid (wifi_config_sta c) = sta_ssid (wifi_config_sta d)"
      by (cases c; cases d; cases "wifi_config_sta c"; cases "wifi_config_sta d") simp
    then show ?thesis
      by (simp add: fun_eq_iff gw_cfg_json_add_items_wifi_sta_config_def Let_def add_password_def)
  qed
  show "gw_cfg_json_add_items_wifi_ap_config L True a = gw_cfg_json_add_items_wifi_ap_config L True b"
    if "a\<lparr>wifi_config_ap := (wifi_config_ap a)\<lparr>ap_password := []\<rparr>\<rparr> =
      b\<lparr>wifi_config_ap := (wifi_config_ap b)\<lparr>ap_password := []\<rparr>\<rparr>"
  proof -
    from that have "ap_channel (wifi_config_ap a) = ap_channel (wifi_config_ap b)"
      by (cases a; cases b; cases "wifi_config_ap a"; cases "wifi_config_ap b") simp
    then show ?thesis
      by (simp add: fun_eq_iff gw_cfg_json_add_items_wifi_ap_config_def Let_def add_password_def)
  qed
qed

lemma remote_shown:
  assumes "c\<lparr>remote_auth := auth_shown (remote_auth_type c) (remote_auth c)\<rparr> =
    d\<lparr>remote_auth := auth_shown (remote_auth_type d) (remote_auth d)\<rparr>"
  shows "gw_cfg_json_add_items_remote L True c = gw_cfg_json_add_items_remote L True d"
  using assms
  by (cases c; cases d; cases "remote_auth_type c")
    (simp_all add: fun_eq_iff auth_shown_def gw_cfg_json_add_items_remote_def add_password_def
      gw_cfg_json_add_items_remote_auth_basic_def gw_cfg_json_add_items_remote_auth_bearer_def
      gw_cfg_json_add_items_remote_auth_token_def gw_cfg_json_add_items_remote_auth_apikey_def)

lemma http_shown:
  assumes "c\<lparr>http_auth := auth_shown (http_auth_type c) (http_auth c)\<rparr> =
    d\<lparr>http_auth := auth_shown (http_auth_type d) (http_auth d)\<rparr>"
  shows "gw_cfg_json_add_items_http L True c = gw_cfg_json_add_items_http L True d"
proof -
  from assms have custom: "gw_cfg_json_add_items_http_custom_params L True c =
      gw_cfg_json_add_items_http_custom_params L True d"
    by (cases c; cases d; cases "http_auth_type c")
      (simp_all add: fun_eq_iff auth_shown_def add_password_def gw_cfg_json_add_items_http_custom_params_def
        gw_cfg_json_add_items_http_custom_auth_basic_def gw_cfg_json_add_items_http_custom_auth_bearer_def
        gw_cfg_json_add_items_http_custom_auth_token_def gw_cfg_json_add_items_http_custom_auth_apikey_def)
  from assms have "use_http_ruuvi c = use_http_ruuvi d" "use_http c = use_http d"
      "http_data_format c = http_data_format d" "http_auth_type c = http_auth_type d" "http_url c = http_url d"
    by (cases c; cases d; simp)+
  then show ?thesis
    by (intro ext) (simp only: gw_cfg_json_add_items_http_def custom)
qed

lemma passwords_shown:
  "c\<lparr>http_stat_pass := []\<rparr> = d\<lparr>http_stat_pass := []\<rparr> \<Longrightarrow>
   gw_cfg_json_add_items_http_stat L True c = gw_cfg_json_add_items_http_stat L True d"
  "q\<lparr>mqtt_pass := []\<rparr> = r\<lparr>mqtt_pass := []\<rparr> \<Longrightarrow>
   gw_cfg_json_add_items_mqtt L True q = gw_cfg_json_add_items_mqtt L True r"
  by (cases c; cases d; simp add: fun_eq_iff gw_cfg_json_add_items_http_stat_def add_password_def)
    (cases q; cases r; simp add: fun_eq_iff gw_cfg_json_add_items_mqtt_def add_password_def)

lemma lan_auth_shown_same:
  assumes "lan_auth_shown E c = lan_auth_shown E d"
  shows "gw_cfg_json_add_items_lan_auth L E True c = gw_cfg_json_add_items_lan_auth L E True d"
proof -
  from assms have "lan_auth_kind E c = lan_auth_kind E d" "lan_auth_user c = lan_auth_user d"
      "(c_str (lan_auth_api_key c) = []) = (c_str (lan_auth_api_key d) = [])"
      "(c_str (lan_auth_api_key_rw c) = []) = (c_str (lan_auth_api_key_rw d) = [])"
    by (cases c; cases d; simp add: lan_auth_shown_def split: if_splits)+
  then show ?thesis
    by (simp add: fun_eq_iff gw_cfg_json_add_items_lan_auth_def gw_cfg_auth_type_to_str_kind)
qed

text \<open>C13: The web page never learns a secret. The text that the gateway generates for the web page
  depends on the configuration only through \<open>gw_cfg_shown\<close>, in which the WiFi passwords, the passwords,
  bearer tokens and API keys of the targets and of the remote configuration, the MQTT password and
  the LAN password and keys are erased: two configurations that agree in the rest give the same
  text, whatever the library does. Of the LAN secrets it tells only whether the keys are set and
  whether the user and password are the default ones.
\<close>

theorem gw_cfg_json_ui_hides_secrets:
  assumes "gw_cfg_shown E c = gw_cfg_shown E d"
  shows "gw_cfg_json_generate_for_ui_client L E c = gw_cfg_json_generate_for_ui_client L E d"
proof -
  from assms have parts: "device_info c = device_info d" "eth_cfg c = eth_cfg d"
      "ruuvi_shown E (ruuvi_cfg c) = ruuvi_shown E (ruuvi_cfg d)"
      "(wifi_cfg_ap c)\<lparr>wifi_config_ap := (wifi_config_ap (wifi_cfg_ap c))\<lparr>ap_password := []\<rparr>\<rparr> =
       (wifi_cfg_ap d)\<lparr>wifi_config_ap := (wifi_config_ap (wifi_cfg_ap d))\<lparr>ap_password := []\<rparr>\<rparr>"
      "(wifi_cfg_sta c)\<lparr>wifi_config_sta := (wifi_config_sta (wifi_cfg_sta c))\<lparr>sta_password := []\<rparr>\<rparr> =
       (wifi_cfg_sta d)\<lparr>wifi_config_sta := (wifi_config_sta (wifi_cfg_sta d))\<lparr>sta_password := []\<rparr>\<rparr>"
    by (cases c; cases d; simp add: gw_cfg_shown_def)+
  define r s where "r = ruuvi_cfg c" and "s = ruuvi_cfg d"
  from parts(3) have rs: "cfg_auto_update r = cfg_auto_update s" "cfg_ntp r = cfg_ntp s" "cfg_filter r = cfg_filter s"
      "cfg_scan r = cfg_scan s" "cfg_scan_filter r = cfg_scan_filter s" "cfg_coordinates r = cfg_coordinates s"
      "cfg_fw_update_url r = cfg_fw_update_url s"
      "(cfg_remote r)\<lparr>remote_auth := auth_shown (remote_auth_type (cfg_remote r)) (remote_auth (cfg_remote r))\<rparr> =
       (cfg_remote s)\<lparr>remote_auth := auth_shown (remote_auth_type (cfg_remote s)) (remote_auth (cfg_remote s))\<rparr>"
      "(cfg_http r)\<lparr>http_auth := auth_shown (http_auth_type (cfg_http r)) (http_auth (cfg_http r))\<rparr> =
       (cfg_http s)\<lparr>http_auth := auth_shown (http_auth_type (cfg_http s)) (http_auth (cfg_http s))\<rparr>"
      "(cfg_http_stat r)\<lparr>http_stat_pass := []\<rparr> = (cfg_http_stat s)\<lparr>http_stat_pass := []\<rparr>"
      "(cfg_mqtt r)\<lparr>mqtt_pass := []\<rparr> = (cfg_mqtt s)\<lparr>mqtt_pass := []\<rparr>"
      "lan_auth_shown E (cfg_lan_auth r) = lan_auth_shown E (cfg_lan_auth s)"
    unfolding r_def [symmetric] s_def [symmetric] by (cases r; cases s; simp add: ruuvi_shown_def)+
  have "gw_cfg_json_add_items L E True c = gw_cfg_json_add_items L E True d"
    unfolding gw_cfg_json_add_items_def fun_eq_iff r_def [symmetric] s_def [symmetric] Let_def
    by (simp add: parts rs(1-7) wifi_shown(1) [OF parts(5)] wifi_shown(2) [OF parts(4)] remote_shown [OF rs(8)]
      http_shown [OF rs(9)] passwords_shown(1) [OF rs(10)] passwords_shown(2) [OF rs(11)] lan_auth_shown_same [OF rs(12)])
  then show ?thesis
    by (simp add: gw_cfg_json_generate_for_ui_client_def gw_cfg_json_generate_def)
qed

theorem gw_cfg_json_ui_hides_secrets_witness:
  "gw_cfg_json_generate_for_ui_client list_json (json_env_example json_example) json_example =
   gw_cfg_json_generate_for_ui_client list_json (json_env_example json_example)
     (json_example\<lparr>wifi_cfg_sta := (wifi_cfg_sta json_example)\<lparr>wifi_config_sta :=
       (wifi_config_sta (wifi_cfg_sta json_example))\<lparr>sta_password := ''secret'' @ [NUL]\<rparr>\<rparr>\<rparr>)"
  by (rule gw_cfg_json_ui_hides_secrets) (simp add: gw_cfg_shown_def)

section \<open>Documents from outside\<close>

text \<open>The numbers that are read whatever the document says.\<close>

definition number_keys :: "string list" where
  "number_keys = [''remote_cfg_refresh_interval_minutes'', ''mqtt_port'', ''mqtt_sending_interval'',
     ''auto_update_weekdays_bitmask'', ''auto_update_interval_from'', ''auto_update_interval_to'',
     ''auto_update_tz_offset_hours'', ''company_id'']"

definition no_number_or_string :: "cj_item \<Rightarrow> bool" where
  "no_number_or_string i \<longleftrightarrow> (case i of CJ_Number _ \<Rightarrow> False | CJ_String _ \<Rightarrow> False | _ \<Rightarrow> True)"

lemma wrong_type_getters:
  assumes "cJSON_GetObjectItem L j [] k = Some i" and "no_number_or_string i"
  shows "gw_cfg_json_get_uint32_val L E j k = None" and "gw_cfg_json_get_uint16_val L j k = None"
    and "gw_cfg_json_get_uint8_val L j [] k = None" and "gw_cfg_json_get_int8_val L j k = None"
  using assms
  by (cases i; simp add: no_number_or_string_def gw_cfg_json_get_uint32_val_def json_wrap_get_uint32_val_def
    gw_cfg_json_get_uint16_val_def json_wrap_get_uint16_val_def gw_cfg_json_get_uint8_val_def
    json_wrap_get_uint8_val_def gw_cfg_json_get_int8_val_def json_wrap_get_int8_val_def)+

text \<open>A document that has \<open>true\<close>, \<open>null\<close>, an object or an array where a number belongs stops the
  gateway. Whatever the configuration and the rest of the document, if one of the eight numbers of
  \<open>number_keys\<close> is an item that is neither a number nor a string, reading the Ruuvi section
  compares the prefix of a string that is not there: \<open>strncmp\<close> is called with NULL. The same
  document with this item left out would keep the previous value.
\<close>

theorem json_number_of_wrong_type:
  assumes "k \<in> set number_keys" and "cJSON_GetObjectItem L j [] k = Some i" and "no_number_or_string i"
  shows "gw_cfg_json_parse_cjson_ruuvi L E j c = None"
proof -
  note getters = wrong_type_getters [OF assms(2,3)]
  consider "gw_cfg_json_parse_remote L j (cfg_remote c) = None" | "gw_cfg_json_parse_mqtt L E j (cfg_mqtt c) = None"
    | "gw_cfg_json_parse_auto_update L j (cfg_auto_update c) = None"
    | "gw_cfg_json_parse_filter L j (cfg_filter c) = None"
    using assms(1) getters
    by (auto simp: number_keys_def gw_cfg_json_parse_remote_def gw_cfg_json_parse_mqtt_def
      gw_cfg_json_parse_auto_update_def gw_cfg_json_parse_filter_def Let_def)
  then have "gw_cfg_json_parse_cjson_ruuvi_cfg L E j c = None"
    by cases (simp_all add: gw_cfg_json_parse_cjson_ruuvi_cfg_def Let_def)
  then show ?thesis
    by (simp add: gw_cfg_json_parse_cjson_ruuvi_def gw_cfg_json_parse_cjson_def)
qed

theorem json_number_of_wrong_type_witness:
  "gw_cfg_json_parse_cjson_ruuvi list_json (json_env_example json_example)
     (the (cJSON_AddToObject list_json ([], []) [] ''mqtt_port'' (CJ_Bool True))) (ruuvi_cfg json_example) = None"
  by (rule json_number_of_wrong_type [where k = "''mqtt_port''" and i = "CJ_Bool True"])
    (simp_all add: number_keys_def no_number_or_string_def list_json_simps)

text \<open>The loop over the scan filter.\<close>

lemma unat_of_nat_u32: "k < 2 ^ 32 \<Longrightarrow> unat (of_nat k :: u32) = k"
  by (simp add: unsigned_of_nat take_bit_nat_eq_self)

lemma parse_scan_filter_list_spec:
  assumes "k + length strs \<le> length macs" and "length macs < 2 ^ 32"
  shows "\<exists>macs'. parse_scan_filter_list E strs (of_nat k) macs = Some (of_nat (k + length strs), macs') \<and>
    length macs' = length macs \<and>
    (\<forall>i < length macs. macs' ! i = (if k \<le> i \<and> i < k + length strs
       then snd (mac_addr_from_str E (strs ! (i - k)) (macs ! i)) else macs ! i))"
  using assms
proof (induction strs arbitrary: k macs)
  case Nil
  then show ?case by auto
next
  case (Cons str strs)
  let ?macs = "macs[k := snd (mac_addr_from_str E str (macs ! k))]"
  have u: "unat (of_nat k :: u32) = k" "k < length macs"
    using Cons.prems by (simp_all add: unat_of_nat_u32)
  from Cons.IH [of "Suc k" ?macs] Cons.prems obtain macs' where
    run: "parse_scan_filter_list E strs (of_nat (Suc k)) ?macs = Some (of_nat (Suc k + length strs), macs')"
    and len: "length macs' = length macs"
    and nth: "\<forall>i < length macs. macs' ! i = (if Suc k \<le> i \<and> i < Suc k + length strs
      then snd (mac_addr_from_str E (strs ! (i - Suc k)) (?macs ! i)) else ?macs ! i)" by auto
  have "macs' ! i = (if k \<le> i \<and> i < k + length (str # strs)
      then snd (mac_addr_from_str E ((str # strs) ! (i - k)) (macs ! i)) else macs ! i)" if "i < length macs" for i
    using nth that u(2) by (cases "i = k") (auto simp: nth_Cons' nth_list_update)
  moreover have "parse_scan_filter_list E (str # strs) (of_nat k) macs =
      parse_scan_filter_list E strs (of_nat (Suc k)) ?macs"
    using u by (simp add: add.commute)
  ultimately show ?case using run len by simp
qed

lemma parse_scan_filter_list_overrun:
  assumes "length macs < k + length strs" and "k \<le> length macs" and "length macs < 2 ^ 32"
  shows "parse_scan_filter_list E strs (of_nat k) macs = None"
  using assms
proof (induction strs arbitrary: k macs)
  case Nil
  then show ?case by simp
next
  case (Cons str strs)
  have u: "unat (of_nat k :: u32) = k" using Cons.prems by (simp add: unat_of_nat_u32)
  show ?case
  proof (cases "k < length macs")
    case True
    let ?macs = "macs[k := snd (mac_addr_from_str E str (macs ! k))]"
    have "parse_scan_filter_list E strs (of_nat (Suc k)) ?macs = None"
      by (rule Cons.IH) (use Cons.prems True in simp_all)
    with True u show ?thesis by (simp add: add.commute)
  qed (simp add: u)
qed

text \<open>The scan filter of a document may be as long as its array, and no longer. When the document
  has a \<open>scan_filter_list\<close> with at most as many items as the array of the configuration, the items
  are read into it in order and counted, also those that are no addresses, whose places keep what
  the address parser left there; the rest of the array is untouched and the section stays valid. One item
  more, and the address behind the end of the array is handed out to be written: the code has no
  check.
\<close>

theorem json_scan_filter_bounds:
  assumes "cJSON_GetObjectItem L j [] ''scan_filter_list'' = Some i" and "length (sf_list c) < 2 ^ 32"
  defines "strs \<equiv> cJSON_ArrayStrings L j [''scan_filter_list'']"
  shows "(gw_cfg_json_parse_scan_filter L E j c = None \<longleftrightarrow> length (sf_list c) < length strs) \<and>
    (\<forall>c'. gw_cfg_json_parse_scan_filter L E j c = Some c' \<longrightarrow>
       scan_filter_ok c' \<and> unat (sf_length c') = length strs \<and> length (sf_list c') = length (sf_list c) \<and>
       (\<forall>n < length (sf_list c). sf_list c' ! n = (if n < length strs
          then snd (mac_addr_from_str E (strs ! n) (sf_list c ! n)) else sf_list c ! n)))"
proof (cases "length (sf_list c) < length strs")
  case True
  from parse_scan_filter_list_overrun [of "sf_list c" 0 strs E] True assms(2)
  have "parse_scan_filter_list E strs 0 (sf_list c) = None" by simp
  with True assms show ?thesis by (simp add: gw_cfg_json_parse_scan_filter_def)
next
  case False
  from parse_scan_filter_list_spec [of 0 strs "sf_list c" E] False assms(2) obtain macs' where
    run: "parse_scan_filter_list E strs 0 (sf_list c) = Some (of_nat (length strs), macs')"
      "length macs' = length (sf_list c)"
      "\<forall>n < length (sf_list c). macs' ! n = (if n < length strs
         then snd (mac_addr_from_str E (strs ! n) (sf_list c ! n)) else sf_list c ! n)" by auto
  have "unat (of_nat (length strs) :: u32) = length strs"
    using False assms(2) by (simp add: unat_of_nat_u32)
  with run False assms(1) show ?thesis
    by (auto simp: gw_cfg_json_parse_scan_filter_def strs_def scan_filter_ok_def)
qed

theorem json_scan_filter_bounds_witness:
  "gw_cfg_json_parse_scan_filter list_json (json_env_example json_example)
     ([([''scan_filter_list''], CJ_Array)], [([''scan_filter_list''], ''AAAAAAAAAAAB'')])
     \<lparr>sf_allow_listed = False, sf_length = 0, sf_list = []\<rparr> = None"
  using json_scan_filter_bounds [of list_json "([([''scan_filter_list''], CJ_Array)], [([''scan_filter_list''], ''AAAAAAAAAAAB'')])"
      CJ_Array "\<lparr>sf_allow_listed = False, sf_length = 0, sf_list = []\<rparr>" "json_env_example json_example"]
  by (simp add: list_json_simps place_def lower_char_def)

text \<open>A terminated prefix holds the whole string.\<close>

lemma terminated_take: "terminated (take n s) \<Longrightarrow> length (c_str s) < n" for s :: string
proof (induction s arbitrary: n)
  case (Cons a s)
  then show ?case by (cases n) (auto split: if_splits)
qed simp

text \<open>C25: A change of the HTTP authentication exposes the old token. Unlike the remote section, the
  HTTP section does not clear the union when the type changes. For a configuration with a bearer
  token, a document that asks for basic authentication without giving a user leaves the memory as it
  is: the first 51 bytes of the token are now the user name, which is stored, sent with every
  request and shown on the web page; if they are all in use the user name has no terminator, and the
  section is no longer valid.
\<close>

theorem json_http_auth_change_exposes_token:
  assumes "http_auth_type c = GW_CFG_HTTP_AUTH_TYPE_BEARER" and "length (http_auth c) = 256"
    and "cJSON_GetObjectItem L j [] ''use_http'' = Some (CJ_Bool True)"
    and "cJSON_GetObjectItem L j [] ''http_auth'' = Some (CJ_String ''basic'')"
    and "cJSON_GetObjectItem L j [] ''http_user'' = None" and "cJSON_GetObjectItem L j [] ''http_pass'' = None"
    and "cJSON_GetObjectItem L j [] ''http_period'' = None"
  shows "\<exists>c'. gw_cfg_json_parse_http L E j c = Some c' \<and> http_auth_type c' = GW_CFG_HTTP_AUTH_TYPE_BASIC \<and>
    auth_basic_user (http_auth c') = take 51 (auth_token_buf (http_auth c)) \<and>
    (\<forall>i. gw_cfg_json_add_items_http_custom_auth_basic L True c' i = do {
       i \<leftarrow> cJSON_AddToObject L i [] ''http_auth'' (CJ_String ''basic'');
       cJSON_AddToObject L i [] ''http_user'' (CJ_String (c_str (take 51 (auth_token_buf (http_auth c)))))
     }) \<and>
    (51 \<le> length (c_str (auth_token_buf (http_auth c))) \<longrightarrow> \<not> http_ok c')"
proof -
  have t: "gw_cfg_json_parse_http_auth_type L j = GW_CFG_HTTP_AUTH_TYPE_BASIC"
    using assms(4) by (intro http_parse_auth_type) simp_all
  have split: "take 51 mem @ take 51 (drop 51 mem) @ drop 102 mem = mem" for mem :: string
    using append_take_drop_id [of 51 mem] append_take_drop_id [of 51 "drop 51 mem"] by simp
  have same: "gw_cfg_json_parse_http_auth_basic L j mem = mem" for mem
    using assms(5,6) split by (simp add: gw_cfg_json_parse_http_auth_basic_def copy_str_at_def copy_str_def
      gw_cfg_json_copy_string_val_def json_wrap_copy_string_val_def keep_def)
  have period: "gw_cfg_json_get_uint32_val L E j ''http_period'' = Some None"
    using assms(7) by (simp add: gw_cfg_json_get_uint32_val_def json_wrap_get_uint32_val_def)
  from t same period assms(3) obtain c' where c': "gw_cfg_json_parse_http L E j c = Some c'"
      "http_auth_type c' = GW_CFG_HTTP_AUTH_TYPE_BASIC" "http_auth c' = http_auth c"
    by (simp add: gw_cfg_json_parse_http_def json_found gw_cfg_json_parse_http_ssl_certs_def)
  have "\<not> http_ok c'" if long: "51 \<le> length (c_str (auth_token_buf (http_auth c)))"
  proof -
    from terminated_take [of 51 "auth_token_buf (http_auth c)"] long
    have "\<not> terminated (take 51 (auth_token_buf (http_auth c)))" by linarith
    with c' show ?thesis by (simp add: http_ok_def auth_basic_user_def auth_token_buf_def)
  qed
  moreover have "auth_basic_user (http_auth c') = take 51 (auth_token_buf (http_auth c))"
    using c' by (simp add: auth_basic_user_def auth_token_buf_def)
  ultimately show ?thesis
    using c' by (simp add: gw_cfg_json_add_items_http_custom_auth_basic_def json_add)
qed

lemma c_str_zeros: "c_str (replicate n NUL) = []"
  by (cases n) simp_all

theorem json_http_auth_change_exposes_token_witness:
  "\<exists>c'. gw_cfg_json_parse_http list_json (json_env_example json_example)
       ([([''use_http''], CJ_Bool True), ([''http_auth''], CJ_String ''basic'')], [])
       ((cfg_http (ruuvi_cfg json_example))\<lparr>http_auth_type := GW_CFG_HTTP_AUTH_TYPE_BEARER,
         http_auth := ''secret'' @ replicate 250 NUL\<rparr>) = Some c' \<and>
     http_auth_type c' = GW_CFG_HTTP_AUTH_TYPE_BASIC \<and> c_str (auth_basic_user (http_auth c')) = ''secret''"
proof -
  let ?c = "(cfg_http (ruuvi_cfg json_example))\<lparr>http_auth_type := GW_CFG_HTTP_AUTH_TYPE_BEARER,
         http_auth := ''secret'' @ replicate 250 NUL\<rparr>"
  have "c_str (take 51 (auth_token_buf (http_auth ?c))) = ''secret''"
    by (simp add: auth_token_buf_def take_Cons' c_str_zeros [unfolded NUL_def] NUL_def)
  with json_http_auth_change_exposes_token [of ?c list_json
      "([([''use_http''], CJ_Bool True), ([''http_auth''], CJ_String ''basic'')], [])" "json_env_example json_example"]
  show ?thesis by (auto simp: list_json_simps place_def lower_char_def)
qed

section \<open>Parsing keeps the strings strings\<close>

text \<open>The memory of a union has the size of its largest variant.\<close>

definition gw_cfg_typed :: "gw_cfg \<Rightarrow> bool" where
  "gw_cfg_typed c \<longleftrightarrow> gw_cfg_ok c \<and> length (remote_auth (cfg_remote (ruuvi_cfg c))) = 256 \<and>
     length (http_auth (cfg_http (ruuvi_cfg c))) = 256 \<and>
     length (sf_list (cfg_scan_filter (ruuvi_cfg c))) < 2 ^ 32"

lemma terminated_not_empty: "terminated buf \<Longrightarrow> buf \<noteq> []"
  by auto

lemma json_copy_typed:
  "json_wrap_copy_string_val L j p k buf = Some buf' \<Longrightarrow> terminated buf \<Longrightarrow> terminated buf'"
  "terminated buf \<Longrightarrow> terminated (keep buf (json_wrap_copy_string_val L j p k buf))"
  by (auto simp: json_wrap_copy_string_val_def keep_def terminated_snprintf terminated_not_empty
    split: bind_splits option.splits)

lemma copy_str_typed [simp]: "terminated buf \<Longrightarrow> terminated (copy_str L j k buf)"
  by (simp add: copy_str_def gw_cfg_json_copy_string_val_def json_copy_typed)

lemma copy_or_default_typed: "terminated buf \<Longrightarrow> terminated def \<Longrightarrow> terminated (copy_or_default L j k buf def)"
  by (cases "gw_cfg_json_copy_string_val L j k buf")
    (auto simp: copy_or_default_def keep_def gw_cfg_json_copy_string_val_def dest: json_copy_typed(1))

lemma length_copy_str [simp]: "length (copy_str L j k buf) = length buf"
  by (auto simp: copy_str_def gw_cfg_json_copy_string_val_def json_wrap_copy_string_val_def keep_def
    split: bind_splits option.splits)

lemma length_copy_str_at [simp]: "off + n \<le> length mem \<Longrightarrow> length (copy_str_at off n L j k mem) = length mem"
  by (simp add: copy_str_at_def)

lemma copy_str_at_typed:
  assumes "length mem = 256"
  shows "terminated (take 51 mem) \<Longrightarrow> terminated (take 51 (copy_str_at 0 51 L j k mem))"
    and "take 51 (drop 51 (copy_str_at 0 51 L j k mem)) = take 51 (drop 51 mem)"
    and "terminated (take 51 (drop 51 mem)) \<Longrightarrow> terminated (take 51 (drop 51 (copy_str_at 51 51 L j k mem)))"
    and "take 51 (copy_str_at 51 51 L j k mem) = take 51 mem"
    and "terminated mem \<Longrightarrow> terminated (copy_str_at 0 256 L j k mem)"
  using assms by (simp_all add: copy_str_at_def)

lemma auth_parsed_typed:
  assumes "length mem = 256"
  shows "auth_ok GW_CFG_HTTP_AUTH_TYPE_BASIC mem \<Longrightarrow>
      auth_ok GW_CFG_HTTP_AUTH_TYPE_BASIC (copy_str_at 51 51 L j k2 (copy_str_at 0 51 L j k1 mem))"
    and "t \<notin> {GW_CFG_HTTP_AUTH_TYPE_NONE, GW_CFG_HTTP_AUTH_TYPE_BASIC} \<Longrightarrow> auth_ok t mem \<Longrightarrow>
      auth_ok t (copy_str_at 0 256 L j k mem)"
  using assms by (auto simp: auth_basic_user_def auth_basic_password_def copy_str_at_typed)
    (cases t; simp add: auth_token_buf_def copy_str_at_typed)

lemma auth_ok_cleared: "auth_ok t (replicate 256 NUL)"
  by (cases t) (simp_all add: auth_basic_user_def auth_basic_password_def auth_token_buf_def terminated_def)

lemma remote_parsed_typed:
  assumes "gw_cfg_json_parse_remote L j c = Some c'" and "remote_ok c" and "length (remote_auth c) = 256"
  shows "remote_ok c' \<and> length (remote_auth c') = 256"
  using assms
  by (auto simp: gw_cfg_json_parse_remote_def Let_def remote_ok_def auth_ok_cleared auth_parsed_typed
    gw_cfg_json_parse_remote_auth_type_basic_def gw_cfg_json_parse_remote_auth_type_bearer_def
    simp del: auth_ok.simps(2-5) split: bind_splits option.splits if_splits)

lemma http_parsed_typed:
  assumes "gw_cfg_json_parse_http L E j c = Some c'" and "http_ok c" and "length (http_auth c) = 256"
    and "auth_ok (http_auth_type c') (http_auth c)"
  shows "http_ok c' \<and> length (http_auth c') = 256"
  using assms
  by (auto simp: gw_cfg_json_parse_http_def Let_def http_ok_def auth_parsed_typed gw_cfg_json_parse_http_ssl_certs_def
    gw_cfg_json_parse_http_auth_basic_def gw_cfg_json_parse_http_auth_bearer_def
    gw_cfg_json_parse_http_auth_token_def gw_cfg_json_parse_http_auth_apikey_def
    simp del: auth_ok.simps(2-5) split: bind_splits option.splits if_splits gw_cfg_http_auth_type.splits)

lemma terminated_cleared: "terminated buf \<Longrightarrow> terminated (buf[0 := NUL])"
  by (cases buf) simp_all

lemma sections_parsed_typed:
  "http_stat_ok c1 \<Longrightarrow> http_stat_ok (gw_cfg_json_parse_http_stat L j c1)"
  "gw_cfg_json_parse_mqtt L E j c2 = Some c2' \<Longrightarrow> mqtt_ok c2 \<Longrightarrow> mqtt_ok (gw_cfg_default_get_mqtt E) \<Longrightarrow> mqtt_ok c2'"
  "lan_auth_ok c3 \<Longrightarrow> lan_auth_ok (gw_cfg_default_get_lan_auth E) \<Longrightarrow> lan_auth_ok (gw_cfg_json_parse_lan_auth L E j c3)"
  "ntp_ok c4 \<Longrightarrow> ntp_ok (gw_cfg_json_parse_ntp L j c4)"
  "eth_ok c5 \<Longrightarrow> eth_ok (gw_cfg_json_parse_eth L j c5)"
  subgoal by (simp add: gw_cfg_json_parse_http_stat_def http_stat_ok_def Let_def)
  subgoal by (auto simp: gw_cfg_json_parse_mqtt_def mqtt_ok_def Let_def copy_or_default_typed split: bind_splits)
  subgoal by (auto simp: gw_cfg_json_parse_lan_auth_def gw_cfg_json_parse_lan_auth_user_password_def lan_auth_ok_def
      terminated_cleared Let_def split: option.splits)
  subgoal by (simp add: gw_cfg_json_parse_ntp_def gw_cfg_json_parse_ntp_servers_def gw_cfg_json_parse_ntp_server_def
      ntp_ok_def Let_def)
  subgoal by (simp add: gw_cfg_json_parse_eth_def gw_cfg_json_parse_eth_dhcp_def gw_cfg_json_parse_ip_def eth_ok_def Let_def)
  done

lemma scan_filter_parsed_typed:
  assumes "gw_cfg_json_parse_scan_filter L E j c = Some c'" and "scan_filter_ok c" and "length (sf_list c) < 2 ^ 32"
  shows "scan_filter_ok c' \<and> length (sf_list c') < 2 ^ 32"
proof (cases "cJSON_GetObjectItem L j [] ''scan_filter_list''")
  case None
  with assms show ?thesis by (auto simp: gw_cfg_json_parse_scan_filter_def scan_filter_ok_def)
next
  case (Some i)
  let ?strs = "cJSON_ArrayStrings L j [''scan_filter_list'']"
  from assms(1) Some obtain n macs' where run: "parse_scan_filter_list E ?strs 0 (sf_list c) = Some (n, macs')"
    and c': "c' = c\<lparr>sf_allow_listed := get_bool L j ''scan_filter_allow_listed'' (sf_allow_listed c),
      sf_list := macs', sf_length := n\<rparr>"
    by (auto simp: gw_cfg_json_parse_scan_filter_def Let_def split: bind_splits)
  with parse_scan_filter_list_overrun [of "sf_list c" 0 ?strs E] assms(3) have "length ?strs \<le> length (sf_list c)"
    by (cases "length (sf_list c) < length ?strs") simp_all
  with parse_scan_filter_list_spec [of 0 ?strs "sf_list c" E] run assms(3) c' show ?thesis
    by (auto simp: scan_filter_ok_def unat_of_nat_u32)
qed

lemma wifi_parsed_typed:
  "parse_wifi_ap L j c1 = Some c1' \<Longrightarrow> wifi_ap_ok c1 \<Longrightarrow> wifi_ap_ok c1'"
  "wifi_sta_ok c2 \<Longrightarrow> wifi_sta_ok (parse_wifi_sta L j c2)"
  by (auto simp: parse_wifi_ap_def parse_wifi_sta_def gw_cfg_json_parse_wifi_ap_config_def Let_def json_copy_typed
    gw_cfg_json_parse_wifi_sta_config_def wifi_ap_ok_def wifi_sta_ok_def config_ap_ok_def config_sta_ok_def
    split: bind_splits option.splits if_splits)

lemma ruuvi_parsed_typed:
  assumes "gw_cfg_json_parse_cjson_ruuvi_cfg L E j c = Some c'" and "gw_cfg_ruuvi_ok c"
    and "length (remote_auth (cfg_remote c)) = 256" and "length (http_auth (cfg_http c)) = 256"
    and "length (sf_list (cfg_scan_filter c)) < 2 ^ 32"
    and "mqtt_ok (gw_cfg_default_get_mqtt E)" and "lan_auth_ok (gw_cfg_default_get_lan_auth E)"
    and "auth_ok (http_auth_type (cfg_http c')) (http_auth (cfg_http c))"
  shows "gw_cfg_ruuvi_ok c' \<and> length (remote_auth (cfg_remote c')) = 256 \<and>
    length (http_auth (cfg_http c')) = 256 \<and> length (sf_list (cfg_scan_filter c')) < 2 ^ 32"
proof -
  from assms(1) obtain r h q f where parsed: "gw_cfg_json_parse_remote L j (cfg_remote c) = Some r"
      "gw_cfg_json_parse_http L E j (cfg_http c) = Some h" "gw_cfg_json_parse_mqtt L E j (cfg_mqtt c) = Some q"
      "gw_cfg_json_parse_scan_filter L E j (cfg_scan_filter c) = Some f"
    and c': "cfg_remote c' = r" "cfg_http c' = h" "cfg_mqtt c' = q" "cfg_scan_filter c' = f"
      "cfg_http_stat c' = gw_cfg_json_parse_http_stat L j (cfg_http_stat c)"
      "cfg_lan_auth c' = gw_cfg_json_parse_lan_auth L E j (cfg_lan_auth c)"
      "cfg_ntp c' = gw_cfg_json_parse_ntp L j (cfg_ntp c)"
      "cfg_coordinates c' = copy_str L j ''coordinates'' (cfg_coordinates c)"
      "cfg_fw_update_url c' = gw_cfg_json_parse_fw_update L j (cfg_fw_update_url c)"
    by (auto simp: gw_cfg_json_parse_cjson_ruuvi_cfg_def Let_def split: bind_splits)
  with assms(2-8) remote_parsed_typed [OF parsed(1)] http_parsed_typed [OF parsed(2)]
    scan_filter_parsed_typed [OF parsed(4)]
  show ?thesis
    by (simp add: gw_cfg_ruuvi_ok_def sections_parsed_typed sections_parsed_typed(2) [OF parsed(3)]
      gw_cfg_json_parse_fw_update_def)
qed

text \<open>A number of a document, and a document with numbers where they belong and a scan filter that fits the array.\<close>

definition number_item :: "'j cjson_lib \<Rightarrow> 'j \<Rightarrow> cj_ptr \<Rightarrow> string \<Rightarrow> bool" where
  "number_item L j p k \<longleftrightarrow> (case cJSON_GetObjectItem L j p k of None \<Rightarrow> True | Some i \<Rightarrow> \<not> no_number_or_string i)"

definition scan_filter_in_array :: "'j cjson_lib \<Rightarrow> 'j \<Rightarrow> ruuvi_gw_cfg_scan_filter \<Rightarrow> bool" where
  "scan_filter_in_array L j c \<longleftrightarrow> cJSON_GetObjectItem L j [] ''scan_filter_list'' = None \<or>
     length (cJSON_ArrayStrings L j [''scan_filter_list'']) \<le> length (sf_list c)"

definition document_in_bounds :: "'j cjson_lib \<Rightarrow> 'j \<Rightarrow> gw_cfg \<Rightarrow> bool" where
  "document_in_bounds L j c \<longleftrightarrow> (\<forall>k\<in>set (''http_period'' # number_keys). number_item L j [] k) \<and>
     number_item L j [''wifi_ap_config''] ''channel'' \<and> scan_filter_in_array L j (cfg_scan_filter (ruuvi_cfg c))"

lemma number_getters:
  assumes "number_item L j p k"
  shows "\<exists>v. json_wrap_get_uint32_val f L j p k = Some v" and "\<exists>v. json_wrap_get_uint16_val L j p k = Some v"
    and "\<exists>v. json_wrap_get_uint8_val L j p k = Some v" and "\<exists>v. json_wrap_get_int8_val L j p k = Some v"
proof -
  consider "cJSON_GetObjectItem L j p k = None" | n where "cJSON_GetObjectItem L j p k = Some (CJ_Number n)"
    | s where "cJSON_GetObjectItem L j p k = Some (CJ_String s)"
    using assms by (auto simp: number_item_def no_number_or_string_def split: option.splits cj_item.splits)
  then show "\<exists>v. json_wrap_get_uint32_val f L j p k = Some v" "\<exists>v. json_wrap_get_uint16_val L j p k = Some v"
    "\<exists>v. json_wrap_get_uint8_val L j p k = Some v" "\<exists>v. json_wrap_get_int8_val L j p k = Some v"
    by (cases; simp add: json_wrap_get_uint32_val_def json_wrap_get_uint16_val_def json_wrap_get_uint8_val_def
      json_wrap_get_int8_val_def Let_def split: prod.split)+
qed

lemma document_parses:
  assumes "document_in_bounds L j c" and "length (sf_list (cfg_scan_filter (ruuvi_cfg c))) < 2 ^ 32"
  shows "\<exists>c'. gw_cfg_json_parse_object L E j c = Some c'"
proof -
  let ?r = "ruuvi_cfg c"
  have num: "number_item L j [] k" if "k \<in> {''http_period'', ''remote_cfg_refresh_interval_minutes'', ''mqtt_port'',
      ''mqtt_sending_interval'', ''auto_update_weekdays_bitmask'', ''auto_update_interval_from'', ''auto_update_interval_to'',
      ''auto_update_tz_offset_hours'', ''company_id''}" for k
    using assms(1) that by (auto simp: document_in_bounds_def number_keys_def)
  have u32: "\<exists>v. gw_cfg_json_get_uint32_val L E j k = Some v" if "number_item L j [] k" for k
    using number_getters(1) [OF that] by (simp add: gw_cfg_json_get_uint32_val_def)
  have u16: "\<exists>v. gw_cfg_json_get_uint16_val L j k = Some v" if "number_item L j [] k" for k
    using number_getters(2) [OF that] by (simp add: gw_cfg_json_get_uint16_val_def)
  have u8: "\<exists>v. gw_cfg_json_get_uint8_val L j p k = Some v" if "number_item L j p k" for p k
    using number_getters(3) [OF that] by (simp add: gw_cfg_json_get_uint8_val_def)
  have i8: "\<exists>v. gw_cfg_json_get_int8_val L j k = Some v" if "number_item L j [] k" for k
    using number_getters(4) [OF that] by (simp add: gw_cfg_json_get_int8_val_def)
  obtain v1 where v1: "gw_cfg_json_get_uint16_val L j ''remote_cfg_refresh_interval_minutes'' = Some v1" using u16 num by blast
  obtain v2 where v2: "gw_cfg_json_get_uint32_val L E j ''http_period'' = Some v2" using u32 num by blast
  obtain v3 where v3: "gw_cfg_json_get_uint16_val L j ''mqtt_port'' = Some v3" using u16 num by blast
  obtain v4 where v4: "gw_cfg_json_get_uint32_val L E j ''mqtt_sending_interval'' = Some v4" using u32 num by blast
  obtain v5 where v5: "gw_cfg_json_get_uint8_val L j [] ''auto_update_weekdays_bitmask'' = Some v5" using u8 num by blast
  obtain v6 where v6: "gw_cfg_json_get_uint8_val L j [] ''auto_update_interval_from'' = Some v6" using u8 num by blast
  obtain v7 where v7: "gw_cfg_json_get_uint8_val L j [] ''auto_update_interval_to'' = Some v7" using u8 num by blast
  obtain v8 where v8: "gw_cfg_json_get_int8_val L j ''auto_update_tz_offset_hours'' = Some v8" using i8 num by blast
  obtain v9 where v9: "gw_cfg_json_get_uint16_val L j ''company_id'' = Some v9" using u16 num by blast
  obtain v10 where v10: "gw_cfg_json_get_uint8_val L j [''wifi_ap_config''] ''channel'' = Some v10"
    using u8 [of "[''wifi_ap_config'']" "''channel''"] assms(1) unfolding document_in_bounds_def by blast
  have "\<exists>x. gw_cfg_json_parse_remote L j (cfg_remote ?r) = Some x" by (simp add: gw_cfg_json_parse_remote_def v1 Let_def)
  moreover have "\<exists>x. gw_cfg_json_parse_http L E j (cfg_http ?r) = Some x"
    by (simp add: gw_cfg_json_parse_http_def v2 Let_def)
  moreover have "\<exists>x. gw_cfg_json_parse_mqtt L E j (cfg_mqtt ?r) = Some x" by (simp add: gw_cfg_json_parse_mqtt_def v3 v4 Let_def)
  moreover have "\<exists>x. gw_cfg_json_parse_auto_update L j (cfg_auto_update ?r) = Some x"
    by (simp add: gw_cfg_json_parse_auto_update_def v5 v6 v7 v8 Let_def)
  moreover have "\<exists>x. gw_cfg_json_parse_filter L j (cfg_filter ?r) = Some x" by (simp add: gw_cfg_json_parse_filter_def v9)
  moreover have "\<exists>x. gw_cfg_json_parse_scan_filter L E j (cfg_scan_filter ?r) = Some x"
  proof (cases "cJSON_GetObjectItem L j [] ''scan_filter_list''")
    case (Some i)
    then show ?thesis
      using parse_scan_filter_list_spec [of 0 "cJSON_ArrayStrings L j [''scan_filter_list'']" "sf_list (cfg_scan_filter ?r)" E] assms
      by (auto simp: gw_cfg_json_parse_scan_filter_def document_in_bounds_def scan_filter_in_array_def)
  qed (simp add: gw_cfg_json_parse_scan_filter_def)
  moreover have "\<exists>x. parse_wifi_ap L j (wifi_cfg_ap c) = Some x"
    by (cases "cJSON_GetObjectItem L j [] ''wifi_ap_config''") (simp_all add: parse_wifi_ap_def gw_cfg_json_parse_wifi_ap_config_def v10 Let_def)
  ultimately show ?thesis by (auto simp: gw_cfg_json_parse_object_def gw_cfg_json_parse_cjson_ruuvi_cfg_def Let_def)
qed

lemma long_filter_fails:
  assumes "\<not> scan_filter_in_array L j (cfg_scan_filter (ruuvi_cfg c))" and "length (sf_list (cfg_scan_filter (ruuvi_cfg c))) < 2 ^ 32"
  shows "gw_cfg_json_parse_object L E j c = None"
proof -
  have "gw_cfg_json_parse_scan_filter L E j (cfg_scan_filter (ruuvi_cfg c)) = None"
    using assms parse_scan_filter_list_overrun [of "sf_list (cfg_scan_filter (ruuvi_cfg c))" 0 "cJSON_ArrayStrings L j [''scan_filter_list'']" E]
    by (auto simp: scan_filter_in_array_def gw_cfg_json_parse_scan_filter_def)
  then have "gw_cfg_json_parse_cjson_ruuvi_cfg L E j (ruuvi_cfg c) = None"
    by (auto simp: gw_cfg_json_parse_cjson_ruuvi_cfg_def Let_def split: bind_splits)
  then show ?thesis by (simp add: gw_cfg_json_parse_object_def)
qed

lemma parsed_document_typed:
  assumes "gw_cfg_json_parse L E json_str c = Some (res, c')" and "gw_cfg_typed c"
    and "gw_cfg_typed (g_gw_cfg_default E)"
    and "auth_ok (http_auth_type (cfg_http (ruuvi_cfg c'))) (http_auth (cfg_http (ruuvi_cfg c)))"
  shows "gw_cfg_typed c'"
proof (cases "json_str = [] \<or> cJSON_Parse L json_str = None")
  case True
  with assms(1,2) show ?thesis by (auto simp: gw_cfg_json_parse_def split: if_splits)
next
  case False
  then obtain j where "cJSON_Parse L json_str = Some j" "json_str \<noteq> []" by auto
  with assms(1) obtain ru ap where parsed: "gw_cfg_json_parse_cjson_ruuvi_cfg L E j (ruuvi_cfg c) = Some ru"
      "parse_wifi_ap L j (wifi_cfg_ap c) = Some ap"
    and c': "c' = c\<lparr>ruuvi_cfg := ru, eth_cfg := gw_cfg_json_parse_eth L j (eth_cfg c), wifi_cfg_ap := ap,
      wifi_cfg_sta := parse_wifi_sta L j (wifi_cfg_sta c)\<rparr>"
    by (auto simp: gw_cfg_json_parse_def gw_cfg_json_parse_cjson_def split: bind_splits)
  from assms(3) have "mqtt_ok (gw_cfg_default_get_mqtt E)" "lan_auth_ok (gw_cfg_default_get_lan_auth E)"
    by (simp_all add: gw_cfg_typed_def gw_cfg_ok_def gw_cfg_ruuvi_ok_def gw_cfg_default_get_mqtt_def
      gw_cfg_default_get_lan_auth_def)
  with ruuvi_parsed_typed [OF parsed(1)] assms(2,4) c'
  have "gw_cfg_ruuvi_ok ru \<and> length (remote_auth (cfg_remote ru)) = 256 \<and>
      length (http_auth (cfg_http ru)) = 256 \<and> length (sf_list (cfg_scan_filter ru)) < 2 ^ 32"
    by (simp add: gw_cfg_typed_def gw_cfg_ok_def)
  with assms(2) c' wifi_parsed_typed(1) [OF parsed(2)] show ?thesis
    by (simp add: gw_cfg_typed_def gw_cfg_ok_def sections_parsed_typed wifi_parsed_typed(2))
qed

text \<open>C14: What the parser makes of a document. An empty text and one that is no JSON are refused and change nothing. A document whose
  numbers are numbers or strings and whose scan filter has no more entries than the array is always parsed. One with a longer scan
  filter overruns the array (None): the code has no check. Whenever a document is parsed, the configuration keeps its type: every string is terminated,
  also those inside the union of the selected authentication, and the scan filter counts no more entries than its array has.
  The default configuration must have its type too, and the one exception is the HTTP authentication: its type may change
  while the memory is not cleared, so that memory must suit the type the document selects.
\<close>

theorem gw_cfg_json_parse_typed:
  assumes "gw_cfg_typed c" and "gw_cfg_typed (g_gw_cfg_default E)"
  shows "(json_str = [] \<or> cJSON_Parse L json_str = None \<longrightarrow> gw_cfg_json_parse L E json_str c = Some (False, c)) \<and>
    (\<forall>j. json_str \<noteq> [] \<and> cJSON_Parse L json_str = Some j \<longrightarrow>
      (document_in_bounds L j c \<longrightarrow> (\<exists>c'. gw_cfg_json_parse L E json_str c = Some (True, c'))) \<and>
      (\<not> scan_filter_in_array L j (cfg_scan_filter (ruuvi_cfg c)) \<longrightarrow> gw_cfg_json_parse L E json_str c = None)) \<and>
    (\<forall>res c'. gw_cfg_json_parse L E json_str c = Some (res, c') \<and>
      auth_ok (http_auth_type (cfg_http (ruuvi_cfg c'))) (http_auth (cfg_http (ruuvi_cfg c))) \<longrightarrow> gw_cfg_typed c')"
proof (intro conjI allI impI)
  show "gw_cfg_json_parse L E json_str c = Some (False, c)" if "json_str = [] \<or> cJSON_Parse L json_str = None"
    using that by (auto simp: gw_cfg_json_parse_def)
next
  fix j assume j: "json_str \<noteq> [] \<and> cJSON_Parse L json_str = Some j"
  have len: "length (sf_list (cfg_scan_filter (ruuvi_cfg c))) < 2 ^ 32" using assms(1) by (simp add: gw_cfg_typed_def)
  have eq: "gw_cfg_json_parse L E json_str c = map_option (Pair True) (gw_cfg_json_parse_object L E j c)"
    by (rule gw_cfg_json_parse_eq) (use j in simp_all)
  show "\<exists>c'. gw_cfg_json_parse L E json_str c = Some (True, c')" if "document_in_bounds L j c"
    using document_parses [OF that len, of E] by (auto simp: eq)
  show "gw_cfg_json_parse L E json_str c = None" if "\<not> scan_filter_in_array L j (cfg_scan_filter (ruuvi_cfg c))"
    using long_filter_fails [OF that len] by (simp add: eq)
next
  fix res c' assume "gw_cfg_json_parse L E json_str c = Some (res, c') \<and>
      auth_ok (http_auth_type (cfg_http (ruuvi_cfg c'))) (http_auth (cfg_http (ruuvi_cfg c)))"
  then show "gw_cfg_typed c'" using parsed_document_typed [OF _ assms] by blast
qed

lemma json_example_typed: "gw_cfg_typed json_example"
proof -
  have "gw_cfg_ruuvi_ok (gw_cfg_ruuvi_example (replicate 250 NUL))"
    by (simp add: gw_cfg_ruuvi_ok_def gw_cfg_ruuvi_example_def cfg_cmp auth_token_buf_def)
  then have "gw_cfg_ruuvi_ok (ruuvi_cfg json_example)"
    by (simp add: gw_cfg_ruuvi_ok_def json_example_parts http_ok_def gw_cfg_ruuvi_example_def)
  moreover have "length (remote_auth (cfg_remote (ruuvi_cfg json_example))) = 256"
    "length (http_auth (cfg_http (ruuvi_cfg json_example))) = 256"
    "length (sf_list (cfg_scan_filter (ruuvi_cfg json_example))) < 2 ^ 32"
    by (simp_all add: json_example_parts gw_cfg_ruuvi_example_def)
  ultimately show ?thesis
    using gw_cfg_example_ok by (simp add: gw_cfg_typed_def gw_cfg_ok_def json_example_parts gw_cfg_example_def)
qed

text \<open>A document with the coordinates only.\<close>

definition coordinates_document :: list_object where
  "coordinates_document = ([([''coordinates''], CJ_String ''60.1'')], [])"

lemma coordinates_document_items:
  "cJSON_GetObjectItem list_json coordinates_document p k =
     (if map (map lower_char) (p @ [k]) = [''coordinates''] then Some (CJ_String ''60.1'') else None)"
  by (simp add: list_json_simps coordinates_document_def place_def)

lemma coordinates_document_parse:
  "\<exists>c'. gw_cfg_json_parse list_json E (replicate (Suc (to_nat coordinates_document)) CHR ''x'') c = Some (True, c') \<and>
     (http_auth_type (cfg_http (ruuvi_cfg c')) = http_auth_type (cfg_http (ruuvi_cfg c)) \<or>
      http_auth_type (cfg_http (ruuvi_cfg c')) = GW_CFG_HTTP_AUTH_TYPE_NONE) \<and>
     cfg_coordinates (ruuvi_cfg c') = snprintf_str (cfg_coordinates (ruuvi_cfg c)) ''60.1''"
  by (simp add: gw_cfg_json_parse_def gw_cfg_json_parse_cjson_def list_json_simps(5) parse_wifi_ap_def
    gw_cfg_json_parse_cjson_ruuvi_cfg_def gw_cfg_json_parse_remote_def gw_cfg_json_parse_mqtt_def
    gw_cfg_json_parse_auto_update_def gw_cfg_json_parse_filter_def gw_cfg_json_parse_http_def
    gw_cfg_json_parse_http_auth_type_def gw_cfg_json_parse_http_ssl_certs_def gw_cfg_json_parse_scan_filter_def
    copy_str_def get_bool_def gw_cfg_json_copy_string_val_def json_wrap_copy_string_val_def keep_def
    gw_cfg_json_get_uint32_val_def json_wrap_get_uint32_val_def gw_cfg_json_get_uint16_val_def
    json_wrap_get_uint16_val_def gw_cfg_json_get_uint8_val_def json_wrap_get_uint8_val_def
    gw_cfg_json_get_int8_val_def json_wrap_get_int8_val_def gw_cfg_json_get_bool_val_def json_wrap_get_bool_val_def
    cJSON_GetStringValue_def Let_def coordinates_document_items lower_char_def)

theorem gw_cfg_json_parse_typed_witness:
  "\<exists>c'. gw_cfg_json_parse list_json (json_env_example json_example)
       (replicate (Suc (to_nat coordinates_document)) CHR ''x'') json_example = Some (True, c') \<and> gw_cfg_typed c' \<and>
     cfg_coordinates (ruuvi_cfg c') = snprintf_str (cfg_coordinates (ruuvi_cfg json_example)) ''60.1''"
proof -
  from coordinates_document_parse [of "json_env_example json_example" json_example] obtain c' where
    run: "gw_cfg_json_parse list_json (json_env_example json_example)
       (replicate (Suc (to_nat coordinates_document)) CHR ''x'') json_example = Some (True, c')"
    and c': "http_auth_type (cfg_http (ruuvi_cfg c')) = http_auth_type (cfg_http (ruuvi_cfg json_example)) \<or>
      http_auth_type (cfg_http (ruuvi_cfg c')) = GW_CFG_HTTP_AUTH_TYPE_NONE"
      "cfg_coordinates (ruuvi_cfg c') = snprintf_str (cfg_coordinates (ruuvi_cfg json_example)) ''60.1''" by blast
  have "auth_ok (http_auth_type (cfg_http (ruuvi_cfg json_example))) (http_auth (cfg_http (ruuvi_cfg json_example)))"
    using json_example_typed by (simp add: gw_cfg_typed_def gw_cfg_ok_def gw_cfg_ruuvi_ok_def http_ok_def)
  with c'(1) have "auth_ok (http_auth_type (cfg_http (ruuvi_cfg c'))) (http_auth (cfg_http (ruuvi_cfg json_example)))"
    by auto
  moreover have "gw_cfg_typed (g_gw_cfg_default (json_env_example json_example))"
    using json_example_typed by (simp add: json_env_example_def)
  ultimately have "gw_cfg_typed c'"
    using gw_cfg_json_parse_typed [OF json_example_typed, of "json_env_example json_example"
      "replicate (Suc (to_nat coordinates_document)) CHR ''x''" list_json] run by blast
  with run c'(2) show ?thesis by blast
qed

end
