(* ===== verification/Gw_Status.thy ===== *)
theory Gw_Status
  imports Event_Mgr "HOL-Library.Monad_Syntax"
begin

text \<open>
  The status of the gateway, \<open>gw_status.c\<close>: one event group of bits, which several tasks set and
  clear, and the two counters that suspend relaying. \<open>xEventGroupSetBits\<close> and
  \<open>xEventGroupClearBits\<close> are atomic; so each operation is one step. A task that suspends or resumes
  relaying may wait until the others have acknowledged it: what they do to the bits during each
  delay, and the tick counter, are the argument \<open>E\<close>. The counters are \<open>int32_t\<close>; None is the
  overflow of such a counter, which the language leaves undefined, or a wait that does not end.
\<close>

unbundle bit_operations_syntax

section \<open>Bits\<close>

definition GW_STATUS_WIFI_CONNECTED_BIT :: u32 where "GW_STATUS_WIFI_CONNECTED_BIT = push_bit 0 1"
definition GW_STATUS_ETH_CONNECTED_BIT :: u32 where "GW_STATUS_ETH_CONNECTED_BIT = push_bit 1 1"
definition GW_STATUS_ETH_LINK_UP_BIT :: u32 where "GW_STATUS_ETH_LINK_UP_BIT = push_bit 2 1"
definition GW_STATUS_MQTT_STARTED_BIT :: u32 where "GW_STATUS_MQTT_STARTED_BIT = push_bit 3 1"
definition GW_STATUS_MQTT_CONNECTED_BIT :: u32 where "GW_STATUS_MQTT_CONNECTED_BIT = push_bit 4 1"
definition GW_STATUS_MQTT_RELAYING_CMD_BIT :: u32 where "GW_STATUS_MQTT_RELAYING_CMD_BIT = push_bit 5 1"
definition GW_STATUS_HTTP_RELAYING_CMD_BIT :: u32 where "GW_STATUS_HTTP_RELAYING_CMD_BIT = push_bit 6 1"
definition GW_STATUS_NRF_STATUS_BIT :: u32 where "GW_STATUS_NRF_STATUS_BIT = push_bit 7 1"
definition GW_STATUS_FIRST_BOOT_AFTER_CFG_ERASE :: u32 where "GW_STATUS_FIRST_BOOT_AFTER_CFG_ERASE = push_bit 10 1"
definition GW_STATUS_CFG_MODE :: u32 where "GW_STATUS_CFG_MODE = push_bit 11 1"
definition GW_STATUS_CONFIGURE_BUTTON_PRESSED :: u32 where "GW_STATUS_CONFIGURE_BUTTON_PRESSED = push_bit 12 1"
definition GW_STATUS_WAITING_AUTO_CFG_BY_WPS :: u32 where "GW_STATUS_WAITING_AUTO_CFG_BY_WPS = push_bit 13 1"
definition GW_STATUS_MQTT_ERROR_MASK :: u32 where "GW_STATUS_MQTT_ERROR_MASK = push_bit 8 3"
definition GW_STATUS_MQTT_ERROR_NONE :: u32 where "GW_STATUS_MQTT_ERROR_NONE = push_bit 8 0"
definition GW_STATUS_MQTT_ERROR_DNS :: u32 where "GW_STATUS_MQTT_ERROR_DNS = push_bit 8 1"
definition GW_STATUS_MQTT_ERROR_AUTH :: u32 where "GW_STATUS_MQTT_ERROR_AUTH = push_bit 8 2"
definition GW_STATUS_MQTT_ERROR_CONNECT :: u32 where "GW_STATUS_MQTT_ERROR_CONNECT = push_bit 8 3"

lemmas status_bit_defs =
  GW_STATUS_WIFI_CONNECTED_BIT_def
  GW_STATUS_ETH_CONNECTED_BIT_def
  GW_STATUS_ETH_LINK_UP_BIT_def
  GW_STATUS_MQTT_STARTED_BIT_def
  GW_STATUS_MQTT_CONNECTED_BIT_def
  GW_STATUS_MQTT_RELAYING_CMD_BIT_def
  GW_STATUS_HTTP_RELAYING_CMD_BIT_def
  GW_STATUS_NRF_STATUS_BIT_def
  GW_STATUS_FIRST_BOOT_AFTER_CFG_ERASE_def
  GW_STATUS_CFG_MODE_def
  GW_STATUS_CONFIGURE_BUTTON_PRESSED_def
  GW_STATUS_WAITING_AUTO_CFG_BY_WPS_def

lemmas status_error_defs =
  GW_STATUS_MQTT_ERROR_MASK_def
  GW_STATUS_MQTT_ERROR_NONE_def
  GW_STATUS_MQTT_ERROR_DNS_def
  GW_STATUS_MQTT_ERROR_AUTH_def
  GW_STATUS_MQTT_ERROR_CONNECT_def

datatype mqtt_error = MQTT_ERROR_NONE | MQTT_ERROR_DNS | MQTT_ERROR_AUTH | MQTT_ERROR_CONNECT

section \<open>State\<close>

text \<open>The 32 bits of an \<open>int32_t\<close>, read by \<open>sint\<close>; for a value that is not negative \<open>unat\<close> is the same.\<close>

type_synonym i32 = "32 word"

record gw_status =
  g_p_ev_grp_status_bits :: u32
  cnt_relaying_via_http_suspended :: i32
  cnt_relaying_via_mqtt_suspended :: i32
  gs_events :: "event_mgr_ev list"

definition xEventGroupSetBits :: "u32 \<Rightarrow> gw_status \<Rightarrow> gw_status" where
  "xEventGroupSetBits m s = s\<lparr>g_p_ev_grp_status_bits := g_p_ev_grp_status_bits s OR m\<rparr>"

definition xEventGroupClearBits :: "u32 \<Rightarrow> gw_status \<Rightarrow> gw_status" where
  "xEventGroupClearBits m s = s\<lparr>g_p_ev_grp_status_bits := g_p_ev_grp_status_bits s AND NOT m\<rparr>"

definition status_any :: "u32 \<Rightarrow> gw_status \<Rightarrow> bool" where
  "status_any m s \<longleftrightarrow> g_p_ev_grp_status_bits s AND m \<noteq> 0"

text \<open>The event group and the mutex can be created or not.\<close>

definition gw_status_init :: "bool \<Rightarrow> gw_status \<Rightarrow> bool \<times> gw_status" where
  "gw_status_init created s =
     (if \<not> created then (False, s)
      else (True, s\<lparr>g_p_ev_grp_status_bits := 0, cnt_relaying_via_http_suspended := 0,
                    cnt_relaying_via_mqtt_suspended := 0\<rparr>))"

section \<open>Setting, clearing and reading\<close>

definition gw_status_set_wifi_connected :: "gw_status \<Rightarrow> gw_status" where
  "gw_status_set_wifi_connected s = xEventGroupSetBits GW_STATUS_WIFI_CONNECTED_BIT s"

definition gw_status_set_eth_connected :: "gw_status \<Rightarrow> gw_status" where
  "gw_status_set_eth_connected s = xEventGroupSetBits GW_STATUS_ETH_CONNECTED_BIT s"

definition gw_status_set_eth_link_up :: "gw_status \<Rightarrow> gw_status" where
  "gw_status_set_eth_link_up s = xEventGroupSetBits GW_STATUS_ETH_LINK_UP_BIT s"

definition gw_status_set_mqtt_started :: "gw_status \<Rightarrow> gw_status" where
  "gw_status_set_mqtt_started s = xEventGroupSetBits GW_STATUS_MQTT_STARTED_BIT s"

definition gw_status_set_mqtt_relaying_cmd :: "gw_status \<Rightarrow> gw_status" where
  "gw_status_set_mqtt_relaying_cmd s = xEventGroupSetBits GW_STATUS_MQTT_RELAYING_CMD_BIT s"

definition gw_status_set_http_relaying_cmd :: "gw_status \<Rightarrow> gw_status" where
  "gw_status_set_http_relaying_cmd s = xEventGroupSetBits GW_STATUS_HTTP_RELAYING_CMD_BIT s"

definition gw_status_set_nrf_status :: "gw_status \<Rightarrow> gw_status" where
  "gw_status_set_nrf_status s = xEventGroupSetBits GW_STATUS_NRF_STATUS_BIT s"

definition gw_status_set_first_boot_after_cfg_erase :: "gw_status \<Rightarrow> gw_status" where
  "gw_status_set_first_boot_after_cfg_erase s = xEventGroupSetBits GW_STATUS_FIRST_BOOT_AFTER_CFG_ERASE s"

definition gw_status_set_cfg_mode :: "gw_status \<Rightarrow> gw_status" where
  "gw_status_set_cfg_mode s = xEventGroupSetBits GW_STATUS_CFG_MODE s"

definition gw_status_set_configure_button_pressed :: "gw_status \<Rightarrow> gw_status" where
  "gw_status_set_configure_button_pressed s = xEventGroupSetBits GW_STATUS_CONFIGURE_BUTTON_PRESSED s"

definition gw_status_set_waiting_auto_cfg_by_wps :: "gw_status \<Rightarrow> gw_status" where
  "gw_status_set_waiting_auto_cfg_by_wps s = xEventGroupSetBits GW_STATUS_WAITING_AUTO_CFG_BY_WPS s"

definition gw_status_clear_wifi_connected :: "gw_status \<Rightarrow> gw_status" where
  "gw_status_clear_wifi_connected s = xEventGroupClearBits GW_STATUS_WIFI_CONNECTED_BIT s"

definition gw_status_clear_eth_connected :: "gw_status \<Rightarrow> gw_status" where
  "gw_status_clear_eth_connected s = xEventGroupClearBits (GW_STATUS_ETH_CONNECTED_BIT OR GW_STATUS_ETH_LINK_UP_BIT) s"

definition gw_status_clear_mqtt_started :: "gw_status \<Rightarrow> gw_status" where
  "gw_status_clear_mqtt_started s = xEventGroupClearBits GW_STATUS_MQTT_STARTED_BIT s"

definition gw_status_clear_mqtt_relaying_cmd :: "gw_status \<Rightarrow> gw_status" where
  "gw_status_clear_mqtt_relaying_cmd s = xEventGroupClearBits GW_STATUS_MQTT_RELAYING_CMD_BIT s"

definition gw_status_clear_http_relaying_cmd :: "gw_status \<Rightarrow> gw_status" where
  "gw_status_clear_http_relaying_cmd s = xEventGroupClearBits GW_STATUS_HTTP_RELAYING_CMD_BIT s"

definition gw_status_clear_nrf_status :: "gw_status \<Rightarrow> gw_status" where
  "gw_status_clear_nrf_status s = xEventGroupClearBits GW_STATUS_NRF_STATUS_BIT s"

definition gw_status_clear_first_boot_after_cfg_erase :: "gw_status \<Rightarrow> gw_status" where
  "gw_status_clear_first_boot_after_cfg_erase s = xEventGroupClearBits GW_STATUS_FIRST_BOOT_AFTER_CFG_ERASE s"

definition gw_status_clear_cfg_mode :: "gw_status \<Rightarrow> gw_status" where
  "gw_status_clear_cfg_mode s = xEventGroupClearBits GW_STATUS_CFG_MODE s"

definition gw_status_clear_configure_button_pressed :: "gw_status \<Rightarrow> gw_status" where
  "gw_status_clear_configure_button_pressed s = xEventGroupClearBits GW_STATUS_CONFIGURE_BUTTON_PRESSED s"

definition gw_status_clear_waiting_auto_cfg_by_wps :: "gw_status \<Rightarrow> gw_status" where
  "gw_status_clear_waiting_auto_cfg_by_wps s = xEventGroupClearBits GW_STATUS_WAITING_AUTO_CFG_BY_WPS s"

definition gw_status_clear_mqtt_connected :: "gw_status \<Rightarrow> gw_status" where
  "gw_status_clear_mqtt_connected s = xEventGroupClearBits GW_STATUS_MQTT_CONNECTED_BIT s"

definition gw_status_clear_mqtt_connected_and_error :: "gw_status \<Rightarrow> gw_status" where
  "gw_status_clear_mqtt_connected_and_error s = xEventGroupClearBits (GW_STATUS_MQTT_CONNECTED_BIT OR GW_STATUS_MQTT_ERROR_MASK) s"

definition gw_status_set_mqtt_connected :: "gw_status \<Rightarrow> gw_status" where
  "gw_status_set_mqtt_connected s =
     xEventGroupSetBits GW_STATUS_MQTT_CONNECTED_BIT (xEventGroupClearBits GW_STATUS_MQTT_ERROR_MASK s)"

fun mqtt_error_bits :: "mqtt_error \<Rightarrow> u32" where
  "mqtt_error_bits MQTT_ERROR_NONE = 0"
| "mqtt_error_bits MQTT_ERROR_DNS = GW_STATUS_MQTT_ERROR_DNS"
| "mqtt_error_bits MQTT_ERROR_AUTH = GW_STATUS_MQTT_ERROR_AUTH"
| "mqtt_error_bits MQTT_ERROR_CONNECT = GW_STATUS_MQTT_ERROR_CONNECT"

definition gw_status_set_mqtt_error :: "mqtt_error \<Rightarrow> gw_status \<Rightarrow> gw_status" where
  "gw_status_set_mqtt_error e s =
     xEventGroupSetBits (mqtt_error_bits e)
       (xEventGroupClearBits (GW_STATUS_MQTT_CONNECTED_BIT OR GW_STATUS_MQTT_ERROR_MASK) s)"

text \<open>None is the failed assertion at the end.\<close>

definition gw_status_get_mqtt_error :: "gw_status \<Rightarrow> mqtt_error option" where
  "gw_status_get_mqtt_error s =
     (let event_bits = g_p_ev_grp_status_bits s AND GW_STATUS_MQTT_ERROR_MASK in
      if event_bits = GW_STATUS_MQTT_ERROR_NONE then Some MQTT_ERROR_NONE
      else if event_bits = GW_STATUS_MQTT_ERROR_DNS then Some MQTT_ERROR_DNS
      else if event_bits = GW_STATUS_MQTT_ERROR_AUTH then Some MQTT_ERROR_AUTH
      else if event_bits = GW_STATUS_MQTT_ERROR_CONNECT then Some MQTT_ERROR_CONNECT
      else None)"

definition gw_status_is_eth_link_up :: "gw_status \<Rightarrow> bool" where
  "gw_status_is_eth_link_up s \<longleftrightarrow> status_any GW_STATUS_ETH_LINK_UP_BIT s"

definition gw_status_is_network_connected :: "gw_status \<Rightarrow> bool" where
  "gw_status_is_network_connected s \<longleftrightarrow> status_any (GW_STATUS_WIFI_CONNECTED_BIT OR GW_STATUS_ETH_CONNECTED_BIT) s"

definition gw_status_is_mqtt_started :: "gw_status \<Rightarrow> bool" where
  "gw_status_is_mqtt_started s \<longleftrightarrow> status_any GW_STATUS_MQTT_STARTED_BIT s"

definition gw_status_is_mqtt_relaying_cmd_handled :: "gw_status \<Rightarrow> bool" where
  "gw_status_is_mqtt_relaying_cmd_handled s \<longleftrightarrow> \<not> status_any GW_STATUS_MQTT_RELAYING_CMD_BIT s"

definition gw_status_is_mqtt_connected :: "gw_status \<Rightarrow> bool" where
  "gw_status_is_mqtt_connected s \<longleftrightarrow> status_any GW_STATUS_MQTT_CONNECTED_BIT s"

definition gw_status_is_mqtt_connected_or_error :: "gw_status \<Rightarrow> bool" where
  "gw_status_is_mqtt_connected_or_error s \<longleftrightarrow> status_any (GW_STATUS_MQTT_CONNECTED_BIT OR GW_STATUS_MQTT_ERROR_MASK) s"

definition gw_status_is_http_relaying_cmd_handled :: "gw_status \<Rightarrow> bool" where
  "gw_status_is_http_relaying_cmd_handled s \<longleftrightarrow> \<not> status_any GW_STATUS_HTTP_RELAYING_CMD_BIT s"

definition gw_status_get_nrf_status :: "gw_status \<Rightarrow> bool" where
  "gw_status_get_nrf_status s \<longleftrightarrow> status_any GW_STATUS_NRF_STATUS_BIT s"

definition gw_status_get_first_boot_after_cfg_erase :: "gw_status \<Rightarrow> bool" where
  "gw_status_get_first_boot_after_cfg_erase s \<longleftrightarrow> status_any GW_STATUS_FIRST_BOOT_AFTER_CFG_ERASE s"

definition gw_status_get_cfg_mode :: "gw_status \<Rightarrow> bool" where
  "gw_status_get_cfg_mode s \<longleftrightarrow> status_any GW_STATUS_CFG_MODE s"

definition gw_status_get_configure_button_pressed :: "gw_status \<Rightarrow> bool" where
  "gw_status_get_configure_button_pressed s \<longleftrightarrow> status_any GW_STATUS_CONFIGURE_BUTTON_PRESSED s"

definition gw_status_is_waiting_auto_cfg_by_wps :: "gw_status \<Rightarrow> bool" where
  "gw_status_is_waiting_auto_cfg_by_wps s \<longleftrightarrow> status_any GW_STATUS_WAITING_AUTO_CFG_BY_WPS s"

lemmas status_op_defs =
  xEventGroupSetBits_def xEventGroupClearBits_def gw_status_set_mqtt_connected_def gw_status_set_mqtt_error_def
  gw_status_set_wifi_connected_def
  gw_status_set_eth_connected_def
  gw_status_set_eth_link_up_def
  gw_status_set_mqtt_started_def
  gw_status_set_mqtt_relaying_cmd_def
  gw_status_set_http_relaying_cmd_def
  gw_status_set_nrf_status_def
  gw_status_set_first_boot_after_cfg_erase_def
  gw_status_set_cfg_mode_def
  gw_status_set_configure_button_pressed_def
  gw_status_set_waiting_auto_cfg_by_wps_def
  gw_status_clear_wifi_connected_def
  gw_status_clear_eth_connected_def
  gw_status_clear_mqtt_started_def
  gw_status_clear_mqtt_relaying_cmd_def
  gw_status_clear_http_relaying_cmd_def
  gw_status_clear_nrf_status_def
  gw_status_clear_first_boot_after_cfg_erase_def
  gw_status_clear_cfg_mode_def
  gw_status_clear_configure_button_pressed_def
  gw_status_clear_waiting_auto_cfg_by_wps_def
  gw_status_clear_mqtt_connected_def
  gw_status_clear_mqtt_connected_and_error_def

lemmas status_get_defs =
  gw_status_is_eth_link_up_def
  gw_status_is_network_connected_def
  gw_status_is_mqtt_started_def
  gw_status_is_mqtt_relaying_cmd_handled_def
  gw_status_is_mqtt_connected_def
  gw_status_is_mqtt_connected_or_error_def
  gw_status_is_http_relaying_cmd_handled_def
  gw_status_get_nrf_status_def
  gw_status_get_first_boot_after_cfg_erase_def
  gw_status_get_cfg_mode_def
  gw_status_get_configure_button_pressed_def
  gw_status_is_waiting_auto_cfg_by_wps_def

section \<open>Suspending and resuming relaying\<close>

record wait_env =
  we_tick :: "nat \<Rightarrow> u32"
  we_others :: "nat \<Rightarrow> u32 \<Rightarrow> u32"
  we_ms_to_ticks :: "u32 \<Rightarrow> u32"

definition TIMEOUT_WAITING_UNTIL_RELAYING_STOPPED_SECONDS :: u32 where
  "TIMEOUT_WAITING_UNTIL_RELAYING_STOPPED_SECONDS = 15"

definition relaying_timeout_ticks :: "wait_env \<Rightarrow> u32" where
  "relaying_timeout_ticks E = we_ms_to_ticks E (TIMEOUT_WAITING_UNTIL_RELAYING_STOPPED_SECONDS * 1000)"

text \<open>One of the two waiting loops, from its poll number \<open>k\<close>; it returns the number of the last poll.\<close>

partial_function (option) relaying_cmd_wait ::
  "wait_env \<Rightarrow> (gw_status \<Rightarrow> bool) \<Rightarrow> u32 \<Rightarrow> nat \<Rightarrow> gw_status \<Rightarrow> (nat \<times> gw_status) option" where
  "relaying_cmd_wait E handled tick_start k s =
     (if handled s then Some (k, s)
      else if we_tick E k - tick_start \<ge> relaying_timeout_ticks E then Some (k, s)
      else relaying_cmd_wait E handled tick_start (k + 1)
        (s\<lparr>g_p_ev_grp_status_bits := we_others E k (g_p_ev_grp_status_bits s)\<rparr>))"

definition gw_status_wait_after_relaying_mode_changed ::
  "wait_env \<Rightarrow> bool \<Rightarrow> bool \<Rightarrow> gw_status \<Rightarrow> gw_status option" where
  "gw_status_wait_after_relaying_mode_changed E notify_http notify_mqtt s =
     (let tick_start = we_tick E 0 in
      case (if notify_mqtt then relaying_cmd_wait E gw_status_is_mqtt_relaying_cmd_handled tick_start 1 s
            else Some (1, s)) of
        None \<Rightarrow> None
      | Some (k, s) \<Rightarrow> map_option snd
          (if notify_http then relaying_cmd_wait E gw_status_is_http_relaying_cmd_handled tick_start k s
           else Some (k, s)))"

definition gw_status_notify_relaying_mode_changed_and_wait ::
  "wait_env \<Rightarrow> bool \<Rightarrow> bool \<Rightarrow> bool \<Rightarrow> gw_status \<Rightarrow> gw_status option" where
  "gw_status_notify_relaying_mode_changed_and_wait E notify_http notify_mqtt flag_wait s =
     (if \<not> notify_http \<and> \<not> notify_mqtt then Some s
      else
        let s = (if notify_http then gw_status_set_http_relaying_cmd s else s);
            s = (if notify_mqtt then gw_status_set_mqtt_relaying_cmd s else s);
            s = s\<lparr>gs_events := gs_events s @ [EVENT_MGR_EV_RELAYING_MODE_CHANGED]\<rparr>
        in if flag_wait then gw_status_wait_after_relaying_mode_changed E notify_http notify_mqtt s
           else Some s)"

text \<open>\<open>cnt += 1\<close> on an \<open>int32_t\<close>.\<close>

definition suspend_count :: "i32 \<Rightarrow> i32 option" where
  "suspend_count cnt = (if cnt = 0x7FFFFFFF then None else Some (cnt + 1))"

text \<open>
  The shared step of the two resumes: nothing when the counter is zero already. A counter is never
  negative: it starts at zero, only a counter that is not zero is decreased, and an increase of the
  greatest value is None. So \<open>cnt -= 1\<close> does not leave the range.
\<close>

definition resume_count :: "i32 \<Rightarrow> bool \<times> i32" where
  "resume_count cnt = (if cnt = 0 then (False, cnt) else (cnt - 1 = 0, cnt - 1))"

definition gw_status_suspend_relaying :: "wait_env \<Rightarrow> bool \<Rightarrow> gw_status \<Rightarrow> gw_status option" where
  "gw_status_suspend_relaying E flag_wait s =
     (let notify_http = cnt_relaying_via_http_suspended s = 0;
          notify_mqtt = cnt_relaying_via_mqtt_suspended s = 0
      in do {
        http \<leftarrow> suspend_count (cnt_relaying_via_http_suspended s);
        mqtt \<leftarrow> suspend_count (cnt_relaying_via_mqtt_suspended s);
        gw_status_notify_relaying_mode_changed_and_wait E notify_http notify_mqtt flag_wait
          (s\<lparr>cnt_relaying_via_http_suspended := http, cnt_relaying_via_mqtt_suspended := mqtt\<rparr>)
      })"

definition gw_status_resume_relaying :: "wait_env \<Rightarrow> bool \<Rightarrow> gw_status \<Rightarrow> gw_status option" where
  "gw_status_resume_relaying E flag_wait s =
     (let (notify_http, http) = resume_count (cnt_relaying_via_http_suspended s);
          (notify_mqtt, mqtt) = resume_count (cnt_relaying_via_mqtt_suspended s);
          s = s\<lparr>cnt_relaying_via_http_suspended := http, cnt_relaying_via_mqtt_suspended := mqtt\<rparr>
      in gw_status_notify_relaying_mode_changed_and_wait E notify_http notify_mqtt flag_wait s)"

definition gw_status_suspend_http_relaying :: "wait_env \<Rightarrow> bool \<Rightarrow> gw_status \<Rightarrow> gw_status option" where
  "gw_status_suspend_http_relaying E flag_wait s =
     (let notify_http = cnt_relaying_via_http_suspended s = 0
      in do {
        http \<leftarrow> suspend_count (cnt_relaying_via_http_suspended s);
        gw_status_notify_relaying_mode_changed_and_wait E notify_http False flag_wait
          (s\<lparr>cnt_relaying_via_http_suspended := http\<rparr>)
      })"

definition gw_status_resume_http_relaying :: "wait_env \<Rightarrow> bool \<Rightarrow> gw_status \<Rightarrow> gw_status option" where
  "gw_status_resume_http_relaying E flag_wait s =
     (let (notify_http, http) = resume_count (cnt_relaying_via_http_suspended s);
          s = s\<lparr>cnt_relaying_via_http_suspended := http\<rparr>
      in gw_status_notify_relaying_mode_changed_and_wait E notify_http False flag_wait s)"

definition gw_status_is_relaying_via_http_enabled :: "gw_status \<Rightarrow> bool" where
  "gw_status_is_relaying_via_http_enabled s \<longleftrightarrow> cnt_relaying_via_http_suspended s = 0"

definition gw_status_is_relaying_via_mqtt_enabled :: "gw_status \<Rightarrow> bool" where
  "gw_status_is_relaying_via_mqtt_enabled s \<longleftrightarrow> cnt_relaying_via_mqtt_suspended s = 0"

section \<open>The status as independent values\<close>

text \<open>Whether relaying is suspended is a count; \<open>v_changes\<close> counts the notifications sent.\<close>

record status_view =
  v_wifi_connected :: bool
  v_eth_connected :: bool
  v_eth_link_up :: bool
  v_mqtt_started :: bool
  v_mqtt_connected :: bool
  v_mqtt_relaying_cmd :: bool
  v_http_relaying_cmd :: bool
  v_nrf_status :: bool
  v_first_boot :: bool
  v_cfg_mode :: bool
  v_button_pressed :: bool
  v_waiting_wps :: bool
  v_mqtt_error :: mqtt_error
  v_http_suspended :: nat
  v_mqtt_suspended :: nat
  v_changes :: nat

definition error_of_bits :: "bool \<Rightarrow> bool \<Rightarrow> mqtt_error" where
  "error_of_bits b8 b9 =
     (if b9 then (if b8 then MQTT_ERROR_CONNECT else MQTT_ERROR_AUTH)
      else if b8 then MQTT_ERROR_DNS else MQTT_ERROR_NONE)"

definition status_view :: "gw_status \<Rightarrow> status_view" where
  "status_view s = (let b = bit (g_p_ev_grp_status_bits s) in
     \<lparr>v_wifi_connected = b 0, v_eth_connected = b 1, v_eth_link_up = b 2, v_mqtt_started = b 3, v_mqtt_connected = b 4, v_mqtt_relaying_cmd = b 5, v_http_relaying_cmd = b 6, v_nrf_status = b 7, v_first_boot = b 10, v_cfg_mode = b 11, v_button_pressed = b 12, v_waiting_wps = b 13,
      v_mqtt_error = error_of_bits (b 8) (b 9),
      v_http_suspended = unat (cnt_relaying_via_http_suspended s),
      v_mqtt_suspended = unat (cnt_relaying_via_mqtt_suspended s), v_changes = length (gs_events s)\<rparr>)"

datatype gw_status_op =
  Set_wifi_connected
| Set_eth_connected
| Set_eth_link_up
| Set_mqtt_started
| Set_mqtt_relaying_cmd
| Set_http_relaying_cmd
| Set_nrf_status
| Set_first_boot_after_cfg_erase
| Set_cfg_mode
| Set_configure_button_pressed
| Set_waiting_auto_cfg_by_wps
| Clear_wifi_connected
| Clear_eth_connected
| Clear_mqtt_started
| Clear_mqtt_relaying_cmd
| Clear_http_relaying_cmd
| Clear_nrf_status
| Clear_first_boot_after_cfg_erase
| Clear_cfg_mode
| Clear_configure_button_pressed
| Clear_waiting_auto_cfg_by_wps
| Clear_mqtt_connected
| Clear_mqtt_connected_and_error
| Set_mqtt_connected
| Set_mqtt_error mqtt_error
| Suspend_relaying
| Resume_relaying
| Suspend_http_relaying
| Resume_http_relaying

text \<open>The operations, the four that can wait called without waiting.\<close>

fun gw_status_step :: "wait_env \<Rightarrow> gw_status \<Rightarrow> gw_status_op \<Rightarrow> gw_status" where
  "gw_status_step E s Set_wifi_connected = gw_status_set_wifi_connected s"
| "gw_status_step E s Set_eth_connected = gw_status_set_eth_connected s"
| "gw_status_step E s Set_eth_link_up = gw_status_set_eth_link_up s"
| "gw_status_step E s Set_mqtt_started = gw_status_set_mqtt_started s"
| "gw_status_step E s Set_mqtt_relaying_cmd = gw_status_set_mqtt_relaying_cmd s"
| "gw_status_step E s Set_http_relaying_cmd = gw_status_set_http_relaying_cmd s"
| "gw_status_step E s Set_nrf_status = gw_status_set_nrf_status s"
| "gw_status_step E s Set_first_boot_after_cfg_erase = gw_status_set_first_boot_after_cfg_erase s"
| "gw_status_step E s Set_cfg_mode = gw_status_set_cfg_mode s"
| "gw_status_step E s Set_configure_button_pressed = gw_status_set_configure_button_pressed s"
| "gw_status_step E s Set_waiting_auto_cfg_by_wps = gw_status_set_waiting_auto_cfg_by_wps s"
| "gw_status_step E s Clear_wifi_connected = gw_status_clear_wifi_connected s"
| "gw_status_step E s Clear_eth_connected = gw_status_clear_eth_connected s"
| "gw_status_step E s Clear_mqtt_started = gw_status_clear_mqtt_started s"
| "gw_status_step E s Clear_mqtt_relaying_cmd = gw_status_clear_mqtt_relaying_cmd s"
| "gw_status_step E s Clear_http_relaying_cmd = gw_status_clear_http_relaying_cmd s"
| "gw_status_step E s Clear_nrf_status = gw_status_clear_nrf_status s"
| "gw_status_step E s Clear_first_boot_after_cfg_erase = gw_status_clear_first_boot_after_cfg_erase s"
| "gw_status_step E s Clear_cfg_mode = gw_status_clear_cfg_mode s"
| "gw_status_step E s Clear_configure_button_pressed = gw_status_clear_configure_button_pressed s"
| "gw_status_step E s Clear_waiting_auto_cfg_by_wps = gw_status_clear_waiting_auto_cfg_by_wps s"
| "gw_status_step E s Clear_mqtt_connected = gw_status_clear_mqtt_connected s"
| "gw_status_step E s Clear_mqtt_connected_and_error = gw_status_clear_mqtt_connected_and_error s"
| "gw_status_step E s Set_mqtt_connected = gw_status_set_mqtt_connected s"
| "gw_status_step E s (Set_mqtt_error e) = gw_status_set_mqtt_error e s"
| "gw_status_step E s Suspend_relaying = the (gw_status_suspend_relaying E False s)"
| "gw_status_step E s Resume_relaying = the (gw_status_resume_relaying E False s)"
| "gw_status_step E s Suspend_http_relaying = the (gw_status_suspend_http_relaying E False s)"
| "gw_status_step E s Resume_http_relaying = the (gw_status_resume_http_relaying E False s)"

text \<open>With the failure of the counters as a value of the run.\<close>

definition gw_status_exec :: "wait_env \<Rightarrow> gw_status_op \<Rightarrow> gw_status \<Rightarrow> gw_status option" where
  "gw_status_exec E op s = (case op of
     Suspend_relaying \<Rightarrow> gw_status_suspend_relaying E False s
   | Resume_relaying \<Rightarrow> gw_status_resume_relaying E False s
   | Suspend_http_relaying \<Rightarrow> gw_status_suspend_http_relaying E False s
   | Resume_http_relaying \<Rightarrow> gw_status_resume_http_relaying E False s
   | _ \<Rightarrow> Some (gw_status_step E s op))"

fun gw_status_run :: "wait_env \<Rightarrow> gw_status_op list \<Rightarrow> gw_status \<Rightarrow> gw_status option" where
  "gw_status_run E [] s = Some s"
| "gw_status_run E (op # ops) s = Option.bind (gw_status_exec E op s) (gw_status_run E ops)"

text \<open>The specification: each operation sets its own value.\<close>

definition spec_notify :: "bool \<Rightarrow> bool \<Rightarrow> status_view \<Rightarrow> status_view" where
  "spec_notify http mqtt v =
     v\<lparr>v_http_relaying_cmd := v_http_relaying_cmd v \<or> http, v_mqtt_relaying_cmd := v_mqtt_relaying_cmd v \<or> mqtt,
       v_changes := v_changes v + (if http \<or> mqtt then 1 else 0)\<rparr>"

fun status_spec :: "status_view \<Rightarrow> gw_status_op \<Rightarrow> status_view" where
  "status_spec v Set_wifi_connected = v\<lparr>v_wifi_connected := True\<rparr>"
| "status_spec v Set_eth_connected = v\<lparr>v_eth_connected := True\<rparr>"
| "status_spec v Set_eth_link_up = v\<lparr>v_eth_link_up := True\<rparr>"
| "status_spec v Set_mqtt_started = v\<lparr>v_mqtt_started := True\<rparr>"
| "status_spec v Set_mqtt_relaying_cmd = v\<lparr>v_mqtt_relaying_cmd := True\<rparr>"
| "status_spec v Set_http_relaying_cmd = v\<lparr>v_http_relaying_cmd := True\<rparr>"
| "status_spec v Set_nrf_status = v\<lparr>v_nrf_status := True\<rparr>"
| "status_spec v Set_first_boot_after_cfg_erase = v\<lparr>v_first_boot := True\<rparr>"
| "status_spec v Set_cfg_mode = v\<lparr>v_cfg_mode := True\<rparr>"
| "status_spec v Set_configure_button_pressed = v\<lparr>v_button_pressed := True\<rparr>"
| "status_spec v Set_waiting_auto_cfg_by_wps = v\<lparr>v_waiting_wps := True\<rparr>"
| "status_spec v Clear_wifi_connected = v\<lparr>v_wifi_connected := False\<rparr>"
| "status_spec v Clear_mqtt_started = v\<lparr>v_mqtt_started := False\<rparr>"
| "status_spec v Clear_mqtt_relaying_cmd = v\<lparr>v_mqtt_relaying_cmd := False\<rparr>"
| "status_spec v Clear_http_relaying_cmd = v\<lparr>v_http_relaying_cmd := False\<rparr>"
| "status_spec v Clear_nrf_status = v\<lparr>v_nrf_status := False\<rparr>"
| "status_spec v Clear_first_boot_after_cfg_erase = v\<lparr>v_first_boot := False\<rparr>"
| "status_spec v Clear_cfg_mode = v\<lparr>v_cfg_mode := False\<rparr>"
| "status_spec v Clear_configure_button_pressed = v\<lparr>v_button_pressed := False\<rparr>"
| "status_spec v Clear_waiting_auto_cfg_by_wps = v\<lparr>v_waiting_wps := False\<rparr>"
| "status_spec v Clear_mqtt_connected = v\<lparr>v_mqtt_connected := False\<rparr>"
| "status_spec v Clear_eth_connected = v\<lparr>v_eth_connected := False, v_eth_link_up := False\<rparr>"
| "status_spec v Clear_mqtt_connected_and_error = v\<lparr>v_mqtt_connected := False, v_mqtt_error := MQTT_ERROR_NONE\<rparr>"
| "status_spec v Set_mqtt_connected = v\<lparr>v_mqtt_connected := True, v_mqtt_error := MQTT_ERROR_NONE\<rparr>"
| "status_spec v (Set_mqtt_error e) = v\<lparr>v_mqtt_connected := False, v_mqtt_error := e\<rparr>"
| "status_spec v Suspend_relaying = spec_notify (v_http_suspended v = 0) (v_mqtt_suspended v = 0)
     (v\<lparr>v_http_suspended := v_http_suspended v + 1, v_mqtt_suspended := v_mqtt_suspended v + 1\<rparr>)"
| "status_spec v Resume_relaying = spec_notify (v_http_suspended v = 1) (v_mqtt_suspended v = 1)
     (v\<lparr>v_http_suspended := v_http_suspended v - 1, v_mqtt_suspended := v_mqtt_suspended v - 1\<rparr>)"
| "status_spec v Suspend_http_relaying = spec_notify (v_http_suspended v = 0) False
     (v\<lparr>v_http_suspended := v_http_suspended v + 1\<rparr>)"
| "status_spec v Resume_http_relaying = spec_notify (v_http_suspended v = 1) False
     (v\<lparr>v_http_suspended := v_http_suspended v - 1\<rparr>)"

text \<open>The counters are not negative and can be increased.\<close>

definition counts_fit :: "gw_status \<Rightarrow> gw_status_op \<Rightarrow> bool" where
  "counts_fit s e \<longleftrightarrow> unat (cnt_relaying_via_http_suspended s) < 2 ^ 31 - 1 \<and>
     unat (cnt_relaying_via_mqtt_suspended s) < 2 ^ 31 - 1"

lemma suspend_count_ok: "unat cnt < 2 ^ 31 - 1 \<Longrightarrow> suspend_count cnt = Some (cnt + 1)"
  by (auto simp: suspend_count_def)

section \<open>Refinement\<close>

lemma bit_push_small:
  "bit (push_bit k 1 :: u32) n \<longleftrightarrow> n = k \<and> n < 32"
  "bit (push_bit k 2 :: u32) n \<longleftrightarrow> n = k + 1 \<and> n < 32"
  "bit (push_bit k 3 :: u32) n \<longleftrightarrow> (n = k \<or> n = k + 1) \<and> n < 32"
  "\<not> bit (push_bit k 0 :: u32) n"
proof -
  have "(2 :: u32) = push_bit 1 1" and "(3 :: u32) = mask 2" by (simp_all add: mask_eq_exp_minus_1)
  then show "bit (push_bit k 1 :: u32) n \<longleftrightarrow> n = k \<and> n < 32"
    "bit (push_bit k 2 :: u32) n \<longleftrightarrow> n = k + 1 \<and> n < 32"
    "bit (push_bit k 3 :: u32) n \<longleftrightarrow> (n = k \<or> n = k + 1) \<and> n < 32"
    "\<not> bit (push_bit k 0 :: u32) n"
    by (auto simp only: bit_push_bit_iff bit_1_iff bit_mask_iff push_bit_push_bit bit_0_eq) auto
qed

lemma mqtt_error_mask_bit: "bit GW_STATUS_MQTT_ERROR_MASK n \<longleftrightarrow> n = 8 \<or> n = 9"
  unfolding status_error_defs bit_push_small by auto

lemma status_bit_bit:
  "bit GW_STATUS_WIFI_CONNECTED_BIT n \<longleftrightarrow> n = 0"
  "bit GW_STATUS_ETH_CONNECTED_BIT n \<longleftrightarrow> n = 1"
  "bit GW_STATUS_ETH_LINK_UP_BIT n \<longleftrightarrow> n = 2"
  "bit GW_STATUS_MQTT_STARTED_BIT n \<longleftrightarrow> n = 3"
  "bit GW_STATUS_MQTT_CONNECTED_BIT n \<longleftrightarrow> n = 4"
  "bit GW_STATUS_MQTT_RELAYING_CMD_BIT n \<longleftrightarrow> n = 5"
  "bit GW_STATUS_HTTP_RELAYING_CMD_BIT n \<longleftrightarrow> n = 6"
  "bit GW_STATUS_NRF_STATUS_BIT n \<longleftrightarrow> n = 7"
  "bit GW_STATUS_FIRST_BOOT_AFTER_CFG_ERASE n \<longleftrightarrow> n = 10"
  "bit GW_STATUS_CFG_MODE n \<longleftrightarrow> n = 11"
  "bit GW_STATUS_CONFIGURE_BUTTON_PRESSED n \<longleftrightarrow> n = 12"
  "bit GW_STATUS_WAITING_AUTO_CFG_BY_WPS n \<longleftrightarrow> n = 13"
  unfolding status_bit_defs bit_push_small by auto

lemma mqtt_error_bits_bit:
  "bit (mqtt_error_bits e) n \<longleftrightarrow> n = 8 \<and> (e = MQTT_ERROR_DNS \<or> e = MQTT_ERROR_CONNECT) \<or>
     n = 9 \<and> (e = MQTT_ERROR_AUTH \<or> e = MQTT_ERROR_CONNECT)"
  by (cases e; simp only: mqtt_error_bits.simps status_error_defs bit_push_small bit_0_eq; auto)

lemmas status_bits = status_bit_bit mqtt_error_mask_bit mqtt_error_bits_bit bit_or_iff bit_and_iff bit_not_iff

lemma error_of_bits_eq:
  "error_of_bits (e = MQTT_ERROR_DNS \<or> e = MQTT_ERROR_CONNECT) (e = MQTT_ERROR_AUTH \<or> e = MQTT_ERROR_CONNECT) = e"
  by (cases e) (simp_all add: error_of_bits_def)

lemma mqtt_status_view [simp]:
  "status_view (gw_status_set_mqtt_connected s) =
     (status_view s)\<lparr>v_mqtt_connected := True, v_mqtt_error := MQTT_ERROR_NONE\<rparr>"
  "status_view (gw_status_clear_mqtt_connected s) = (status_view s)\<lparr>v_mqtt_connected := False\<rparr>"
  "status_view (gw_status_set_mqtt_error e s) = (status_view s)\<lparr>v_mqtt_connected := False, v_mqtt_error := e\<rparr>"
  "status_view (gw_status_clear_mqtt_connected_and_error s) =
     (status_view s)\<lparr>v_mqtt_connected := False, v_mqtt_error := MQTT_ERROR_NONE\<rparr>"
  "status_view (gw_status_set_mqtt_started s) = (status_view s)\<lparr>v_mqtt_started := True\<rparr>"
  "status_view (gw_status_clear_mqtt_started s) = (status_view s)\<lparr>v_mqtt_started := False\<rparr>"
  by (simp_all add: status_view_def status_op_defs status_bits error_of_bits_eq Let_def)
    (simp_all add: error_of_bits_def)

definition notified_status :: "bool \<Rightarrow> bool \<Rightarrow> gw_status \<Rightarrow> gw_status" where
  "notified_status http mqtt s = the (gw_status_notify_relaying_mode_changed_and_wait undefined http mqtt False s)"

lemma notify_no_wait:
  "gw_status_notify_relaying_mode_changed_and_wait E http mqtt False s = Some (notified_status http mqtt s)"
  by (simp add: notified_status_def gw_status_notify_relaying_mode_changed_and_wait_def Let_def)

lemma notify_view: "status_view (notified_status http mqtt s) = spec_notify http mqtt (status_view s)"
  by (simp add: notified_status_def gw_status_notify_relaying_mode_changed_and_wait_def Let_def spec_notify_def
    status_view_def status_op_defs status_bits)

lemma unat_plus_one: "x \<noteq> - 1 \<Longrightarrow> unat (x + 1 :: u32) = unat x + 1"
  using unatSuc [of x] by (metis add.commute add_eq_0_iff Suc_eq_plus1)

lemma unat_minus_one: "x \<noteq> 0 \<Longrightarrow> unat (x - 1 :: u32) = unat x - 1"
  by (simp add: unat_minus_one)

lemma count_minus_1: "unat x < 2 ^ 31 - 1 \<Longrightarrow> (x :: i32) \<noteq> - 1"
  by (auto simp: unsigned_minus_1_eq_mask mask_eq_exp_minus_1)

lemma resume_count_spec:
  "fst (resume_count x) \<longleftrightarrow> unat x = 1" "unat (snd (resume_count x)) = unat x - 1"
proof -
  have "x = 1 \<longleftrightarrow> unat x = 1" by (metis unat_1 unsigned_word_eqI)
  then show "fst (resume_count x) \<longleftrightarrow> unat x = 1" by (auto simp: resume_count_def)
  show "unat (snd (resume_count x)) = unat x - 1" by (simp add: resume_count_def unat_minus_one)
qed

lemma status_step_spec:
  assumes "counts_fit s e"
  shows "status_view (gw_status_step E s e) = status_spec (status_view s) e"
proof (cases e)
  case Set_wifi_connected
  then show ?thesis
    by (simp add: status_view_def status_op_defs status_bits error_of_bits_def Let_def)
next
  case Set_eth_connected
  then show ?thesis
    by (simp add: status_view_def status_op_defs status_bits error_of_bits_def Let_def)
next
  case Set_eth_link_up
  then show ?thesis
    by (simp add: status_view_def status_op_defs status_bits error_of_bits_def Let_def)
next
  case Set_mqtt_started
  then show ?thesis
    by (simp add: status_view_def status_op_defs status_bits error_of_bits_def Let_def)
next
  case Set_mqtt_relaying_cmd
  then show ?thesis
    by (simp add: status_view_def status_op_defs status_bits error_of_bits_def Let_def)
next
  case Set_http_relaying_cmd
  then show ?thesis
    by (simp add: status_view_def status_op_defs status_bits error_of_bits_def Let_def)
next
  case Set_nrf_status
  then show ?thesis
    by (simp add: status_view_def status_op_defs status_bits error_of_bits_def Let_def)
next
  case Set_first_boot_after_cfg_erase
  then show ?thesis
    by (simp add: status_view_def status_op_defs status_bits error_of_bits_def Let_def)
next
  case Set_cfg_mode
  then show ?thesis
    by (simp add: status_view_def status_op_defs status_bits error_of_bits_def Let_def)
next
  case Set_configure_button_pressed
  then show ?thesis
    by (simp add: status_view_def status_op_defs status_bits error_of_bits_def Let_def)
next
  case Set_waiting_auto_cfg_by_wps
  then show ?thesis
    by (simp add: status_view_def status_op_defs status_bits error_of_bits_def Let_def)
next
  case Clear_wifi_connected
  then show ?thesis
    by (simp add: status_view_def status_op_defs status_bits error_of_bits_def Let_def)
next
  case Clear_eth_connected
  then show ?thesis
    by (simp add: status_view_def status_op_defs status_bits error_of_bits_def Let_def)
next
  case Clear_mqtt_started
  then show ?thesis
    by (simp add: status_view_def status_op_defs status_bits error_of_bits_def Let_def)
next
  case Clear_mqtt_relaying_cmd
  then show ?thesis
    by (simp add: status_view_def status_op_defs status_bits error_of_bits_def Let_def)
next
  case Clear_http_relaying_cmd
  then show ?thesis
    by (simp add: status_view_def status_op_defs status_bits error_of_bits_def Let_def)
next
  case Clear_nrf_status
  then show ?thesis
    by (simp add: status_view_def status_op_defs status_bits error_of_bits_def Let_def)
next
  case Clear_first_boot_after_cfg_erase
  then show ?thesis
    by (simp add: status_view_def status_op_defs status_bits error_of_bits_def Let_def)
next
  case Clear_cfg_mode
  then show ?thesis
    by (simp add: status_view_def status_op_defs status_bits error_of_bits_def Let_def)
next
  case Clear_configure_button_pressed
  then show ?thesis
    by (simp add: status_view_def status_op_defs status_bits error_of_bits_def Let_def)
next
  case Clear_waiting_auto_cfg_by_wps
  then show ?thesis
    by (simp add: status_view_def status_op_defs status_bits error_of_bits_def Let_def)
next
  case Clear_mqtt_connected
  then show ?thesis
    by (simp add: status_view_def status_op_defs status_bits error_of_bits_def Let_def)
next
  case Clear_mqtt_connected_and_error
  then show ?thesis
    by (simp add: status_view_def status_op_defs status_bits error_of_bits_def Let_def)
next
  case Set_mqtt_connected
  then show ?thesis
    by (simp add: status_view_def status_op_defs status_bits error_of_bits_def Let_def)
next
  case (Set_mqtt_error x)
  then show ?thesis
    by (simp add: status_view_def status_op_defs status_bits error_of_bits_eq Let_def)
next
  case Suspend_relaying
  with assms show ?thesis
    by (simp add: gw_status_suspend_relaying_def suspend_count_ok notify_no_wait notify_view counts_fit_def)
      (simp add: status_view_def unat_plus_one count_minus_1 unat_eq_0 Let_def)
next
  case Resume_relaying
  then show ?thesis
    by (simp add: gw_status_resume_relaying_def Let_def case_prod_beta resume_count_spec notify_no_wait notify_view)
      (simp add: status_view_def Let_def resume_count_spec)
next
  case Suspend_http_relaying
  with assms show ?thesis
    by (simp add: gw_status_suspend_http_relaying_def suspend_count_ok notify_no_wait notify_view counts_fit_def)
      (simp add: status_view_def unat_plus_one count_minus_1 unat_eq_0 Let_def)
next
  case Resume_http_relaying
  then show ?thesis
    by (simp add: gw_status_resume_http_relaying_def Let_def case_prod_beta resume_count_spec notify_no_wait notify_view)
      (simp add: status_view_def Let_def resume_count_spec)
qed

lemma status_exec_step:
  assumes "counts_fit s e"
  shows "gw_status_exec E e s = Some (gw_status_step E s e)"
  using assms
  by (cases e) (simp_all add: gw_status_exec_def gw_status_suspend_relaying_def gw_status_suspend_http_relaying_def
    gw_status_resume_relaying_def gw_status_resume_http_relaying_def suspend_count_ok notify_no_wait counts_fit_def
    case_prod_beta Let_def)

lemma status_run_steps:
  "enabled_run (gw_status_step E) counts_fit s es \<Longrightarrow>
   gw_status_run E es s = Some (run_events (gw_status_step E) s es)"
  by (induction es arbitrary: s) (simp_all add: status_exec_step)

lemma spec_counts:
  "v_http_suspended (status_spec v e) \<le> v_http_suspended v + 1 \<and>
   v_mqtt_suspended (status_spec v e) \<le> v_mqtt_suspended v + 1"
  by (cases e) (auto simp: spec_notify_def)

lemma short_run_enabled:
  "v_http_suspended (status_view s) + length es < 2 ^ 31 \<Longrightarrow>
   v_mqtt_suspended (status_view s) + length es < 2 ^ 31 \<Longrightarrow>
   enabled_run (gw_status_step E) counts_fit s es"
proof (induction es arbitrary: s)
  case Nil
  then show ?case by simp
next
  case (Cons e es)
  have fit: "counts_fit s e"
    using Cons.prems by (simp add: counts_fit_def status_view_def Let_def)
  with Cons.prems Cons.IH [of "gw_status_step E s e"] spec_counts [of "status_view s" e]
  show ?case by (simp add: status_step_spec)
qed

interpretation status_machine:
  simulation "gw_status_step E" "\<lambda>_. True" counts_fit status_view status_spec for E
  by unfold_locales (simp_all add: status_step_spec)

section \<open>Reading\<close>

lemma status_any_iff: "status_any m s \<longleftrightarrow> (\<exists>n. bit m n \<and> bit (g_p_ev_grp_status_bits s) n)"
proof -
  have "x \<noteq> 0 \<longleftrightarrow> (\<exists>n. bit x n)" for x :: u32 by (metis bit_eqI bit_0_eq bot_apply bot_bool_def)
  then show ?thesis by (auto simp: status_any_def bit_and_iff)
qed

lemma mqtt_error_field:
  "g_p_ev_grp_status_bits s AND GW_STATUS_MQTT_ERROR_MASK =
   mqtt_error_bits (error_of_bits (bit (g_p_ev_grp_status_bits s) 8) (bit (g_p_ev_grp_status_bits s) 9))"
  by (rule bit_eqI) (auto simp: status_bits error_of_bits_def)

lemma mqtt_error_bits_inject: "mqtt_error_bits x = mqtt_error_bits y \<longleftrightarrow> x = y"
proof
  assume "mqtt_error_bits x = mqtt_error_bits y"
  then have "bit (mqtt_error_bits x) n = bit (mqtt_error_bits y) n" for n by simp
  from this [of 8] this [of 9] show "x = y" by (cases x; cases y) (simp_all add: mqtt_error_bits_bit del: mqtt_error_bits.simps)
qed simp

lemma get_mqtt_error_view: "gw_status_get_mqtt_error s = Some (v_mqtt_error (status_view s))"
proof -
  define e where "e = v_mqtt_error (status_view s)"
  have field: "g_p_ev_grp_status_bits s AND GW_STATUS_MQTT_ERROR_MASK = mqtt_error_bits e"
    by (simp add: mqtt_error_field e_def status_view_def Let_def)
  have none: "GW_STATUS_MQTT_ERROR_NONE = mqtt_error_bits MQTT_ERROR_NONE"
    by (simp add: GW_STATUS_MQTT_ERROR_NONE_def)
  show ?thesis
    unfolding gw_status_get_mqtt_error_def Let_def field e_def [symmetric] none mqtt_error_bits.simps(2-4) [symmetric]
    by (cases e) (simp_all only: mqtt_error_bits_inject if_True if_False mqtt_error.distinct not_False_eq_True simp_thms)
qed

text \<open>What the status functions of the code say of an abstract status.\<close>

definition reads_view :: "gw_status \<Rightarrow> status_view \<Rightarrow> bool" where
  "reads_view s v \<longleftrightarrow>
     gw_status_is_network_connected s = (v_wifi_connected v \<or> v_eth_connected v) \<and>
     gw_status_is_eth_link_up s = v_eth_link_up v \<and>
     gw_status_is_mqtt_started s = v_mqtt_started v \<and>
     gw_status_is_mqtt_connected s = v_mqtt_connected v \<and>
     gw_status_get_mqtt_error s = Some (v_mqtt_error v) \<and>
     gw_status_is_mqtt_connected_or_error s = (v_mqtt_connected v \<or> v_mqtt_error v \<noteq> MQTT_ERROR_NONE) \<and>
     gw_status_is_mqtt_relaying_cmd_handled s = (\<not> v_mqtt_relaying_cmd v) \<and>
     gw_status_is_http_relaying_cmd_handled s = (\<not> v_http_relaying_cmd v) \<and>
     gw_status_get_nrf_status s = v_nrf_status v \<and>
     gw_status_get_first_boot_after_cfg_erase s = v_first_boot v \<and>
     gw_status_get_cfg_mode s = v_cfg_mode v \<and>
     gw_status_get_configure_button_pressed s = v_button_pressed v \<and>
     gw_status_is_waiting_auto_cfg_by_wps s = v_waiting_wps v \<and>
     gw_status_is_relaying_via_http_enabled s = (v_http_suspended v = 0) \<and>
     gw_status_is_relaying_via_mqtt_enabled s = (v_mqtt_suspended v = 0)"

lemma status_reads_view: "reads_view s (status_view s)"
proof -
  have err: "gw_status_is_mqtt_connected_or_error s =
      (v_mqtt_connected (status_view s) \<or> v_mqtt_error (status_view s) \<noteq> MQTT_ERROR_NONE)"
    by (auto simp: gw_status_is_mqtt_connected_or_error_def status_any_iff status_bits status_view_def
      error_of_bits_def Let_def)
  show ?thesis
    unfolding reads_view_def
    by (intro conjI; (rule err get_mqtt_error_view)?)
      (auto simp: status_get_defs status_any_iff status_bits status_view_def Let_def
        gw_status_is_relaying_via_http_enabled_def gw_status_is_relaying_via_mqtt_enabled_def unat_eq_0)
qed

text \<open>C20: The bits of the status do not interfere. From the initialised status every sequence of
  fewer than \<open>2^31\<close> operations runs without an overflow of the two \<open>int32_t\<close> counters, and the status
  stands for the values that the specification computes, in which
  every operation sets only its own value: the network flags, the MQTT state with its error, the
  pending commands, the modes, and the two counts of suspensions. Relaying over HTTP or MQTT is
  enabled exactly when its count is zero, a resume without a suspension changes nothing, and a
  notification is sent exactly when a count leaves or reaches zero. Every function that reads the status
  returns the corresponding value, and \<open>gw_status_get_mqtt_error\<close> never fails its assertion.\<close>

theorem gw_status_refines:
  assumes "gw_status_init True s0 = (True, s)" and "length ops < 2 ^ 31"
  defines "v \<equiv> run_events status_spec (status_view s) ops"
  shows "\<exists>t. gw_status_run E ops s = Some t \<and> status_view t = v \<and> reads_view t v"
proof -
  have "v_http_suspended (status_view s) = 0" "v_mqtt_suspended (status_view s) = 0"
    using assms(1) by (auto simp: gw_status_init_def status_view_def Let_def)
  then have enabled: "enabled_run (gw_status_step E) counts_fit s ops"
    using assms(2) by (intro short_run_enabled) simp_all
  then have "status_view (run_events (gw_status_step E) s ops) = v"
    unfolding v_def by (intro status_machine.run_abs) simp_all
  with status_reads_view [of "run_events (gw_status_step E) s ops"] status_run_steps [OF enabled]
  show ?thesis by simp
qed

definition sim_status :: gw_status where
  "sim_status = \<lparr>g_p_ev_grp_status_bits = 0xFFFF, cnt_relaying_via_http_suspended = 7,
     cnt_relaying_via_mqtt_suspended = 7, gs_events = []\<rparr>"

definition sim_wait :: wait_env where
  "sim_wait = \<lparr>we_tick = (\<lambda>k. 0xFFFFFFF0 + 50 * word_of_nat k), we_others = (\<lambda>_ bits. bits),
     we_ms_to_ticks = (\<lambda>ms. ms)\<rparr>"

theorem gw_status_refines_witness:
  "\<exists>s t. gw_status_init True sim_status = (True, s) \<and>
    gw_status_run sim_wait [Suspend_relaying, Suspend_http_relaying, Resume_relaying] s = Some t \<and>
    \<not> gw_status_is_relaying_via_http_enabled t \<and> gw_status_is_relaying_via_mqtt_enabled t"
proof -
  let ?ops = "[Suspend_relaying, Suspend_http_relaying, Resume_relaying]"
  define s where "s = snd (gw_status_init True sim_status)"
  have init: "gw_status_init True sim_status = (True, s)" by (simp add: s_def gw_status_init_def)
  then have "v_http_suspended (status_view s) = 0" "v_mqtt_suspended (status_view s) = 0"
    by (auto simp: gw_status_init_def status_view_def Let_def)
  then have "v_http_suspended (run_events status_spec (status_view s) ?ops) = 1"
    "v_mqtt_suspended (run_events status_spec (status_view s) ?ops) = 0"
    by (simp_all add: spec_notify_def)
  moreover obtain t where "gw_status_run sim_wait ?ops s = Some t"
    "reads_view t (run_events status_spec (status_view s) ?ops)"
    using gw_status_refines [OF init, of ?ops sim_wait] by auto
  ultimately have "gw_status_run sim_wait ?ops s = Some t"
    "\<not> gw_status_is_relaying_via_http_enabled t \<and> gw_status_is_relaying_via_mqtt_enabled t"
    unfolding reads_view_def by (simp_all only: not_False_eq_True one_neq_zero simp_thms)
  with init show ?thesis by blast
qed

section \<open>Waiting\<close>

text \<open>
  The tick counter moves on between two polls, by less than half of its range, and the timeout is
  less than half of the range as well.
\<close>

definition ticks_move :: "(nat \<Rightarrow> u32) \<Rightarrow> u32 \<Rightarrow> bool" where
  "ticks_move tick timeout \<longleftrightarrow> unat timeout \<le> 2 ^ 31 \<and>
     (\<forall>k. 0 < unat (tick (k + 1) - tick k) \<and> unat (tick (k + 1) - tick k) < 2 ^ 31)"

definition ticks_advance :: "wait_env \<Rightarrow> bool" where
  "ticks_advance E \<longleftrightarrow> ticks_move (we_tick E) (relaying_timeout_ticks E)"

lemma elapsed_grows:
  assumes "ticks_move tick timeout" and "tick k - start < timeout"
  shows "unat (tick k - start) < unat (tick (k + 1) - start)"
proof -
  let ?d = "tick (k + 1) - tick k"
  have d: "0 < unat ?d" "unat ?d < 2 ^ 31" and t: "unat timeout \<le> 2 ^ 31"
    using assms(1) by (simp_all add: ticks_move_def)
  have e: "unat (tick k - start) < unat timeout"
    using assms(2) by (simp add: word_less_nat_alt)
  have "tick (k + 1) - start = (tick k - start) + ?d" by simp
  moreover have "unat (tick k - start) + unat ?d < 2 ^ LENGTH(32)" using d e t by simp
  ultimately have "unat (tick (k + 1) - start) = unat (tick k - start) + unat ?d"
    by (metis unat_add_lem)
  with d show ?thesis by simp
qed

text \<open>So a poll loop has a first poll at which it stops: some condition holds or the time is up.\<close>

lemma first_stop_exists:
  assumes "ticks_move tick timeout"
  shows "\<exists>j \<ge> k. (done j \<or> tick j - start \<ge> timeout) \<and> (\<forall>i \<in> {k..<j}. \<not> done i \<and> tick i - start < timeout)"
proof (induction "unat timeout - unat (tick k - start)" arbitrary: k rule: less_induct)
  case less
  show ?case
  proof (cases "done k \<or> tick k - start \<ge> timeout")
    case True
    then show ?thesis by (intro exI [of _ k]) simp
  next
    case False
    then have now: "tick k - start < timeout" by auto
    then have "unat (tick k - start) < unat timeout" by (simp add: word_less_nat_alt)
    with elapsed_grows [OF assms now] less [of "k + 1"] obtain j where j: "j \<ge> k + 1"
      "done j \<or> tick j - start \<ge> timeout" "\<forall>i \<in> {k + 1..<j}. \<not> done i \<and> tick i - start < timeout"
      by (meson diff_less_mono2)
    have "\<forall>i \<in> {k..<j}. \<not> done i \<and> tick i - start < timeout"
    proof
      fix i assume "i \<in> {k..<j}"
      with j(3) False now show "\<not> done i \<and> tick i - start < timeout" by (cases "i = k") auto
    qed
    with j(1,2) show ?thesis by (intro exI [of _ j]) auto
  qed
qed

text \<open>The status at poll \<open>j\<close> when the polls began with number \<open>k\<close> in the status \<open>s\<close>.\<close>

definition polled :: "wait_env \<Rightarrow> nat \<Rightarrow> gw_status \<Rightarrow> nat \<Rightarrow> gw_status" where
  "polled E k s j = fold (\<lambda>i t. t\<lparr>g_p_ev_grp_status_bits := we_others E i (g_p_ev_grp_status_bits t)\<rparr>) [k..<j] s"

lemma polled_start [simp]: "polled E k s k = s"
  by (simp add: polled_def)

lemma polled_step:
  "k < j \<Longrightarrow> polled E k s j =
     polled E (k + 1) (s\<lparr>g_p_ev_grp_status_bits := we_others E k (g_p_ev_grp_status_bits s)\<rparr>) j"
  by (simp add: polled_def upt_rec)

lemma polled_trans: "k \<le> i \<Longrightarrow> i \<le> j \<Longrightarrow> polled E i (polled E k s i) j = polled E k s j"
  using upt_add_eq_append [of k i "j - i"] by (simp add: polled_def)

lemma polled_counts:
  "cnt_relaying_via_http_suspended (polled E k s j) = cnt_relaying_via_http_suspended s"
  "cnt_relaying_via_mqtt_suspended (polled E k s j) = cnt_relaying_via_mqtt_suspended s"
  "gs_events (polled E k s j) = gs_events s"
proof -
  define f :: "nat \<Rightarrow> gw_status \<Rightarrow> gw_status" where "f i t = t\<lparr>g_p_ev_grp_status_bits := we_others E i (g_p_ev_grp_status_bits t)\<rparr>" for i t
  have "cnt_relaying_via_http_suspended (fold f is s) = cnt_relaying_via_http_suspended s \<and>
    cnt_relaying_via_mqtt_suspended (fold f is s) = cnt_relaying_via_mqtt_suspended s \<and>
    gs_events (fold f is s) = gs_events s" for "is"
    by (induction "is" arbitrary: s) (simp_all add: f_def)
  then show "cnt_relaying_via_http_suspended (polled E k s j) = cnt_relaying_via_http_suspended s"
    "cnt_relaying_via_mqtt_suspended (polled E k s j) = cnt_relaying_via_mqtt_suspended s"
    "gs_events (polled E k s j) = gs_events s" by (simp_all add: polled_def f_def [abs_def])
qed

text \<open>
  From poll \<open>k\<close> on, \<open>j\<close> is the first poll at which the command is handled or the timeout since
  \<open>start\<close> has elapsed.
\<close>

definition first_stop :: "wait_env \<Rightarrow> (gw_status \<Rightarrow> bool) \<Rightarrow> u32 \<Rightarrow> nat \<Rightarrow> gw_status \<Rightarrow> nat \<Rightarrow> bool" where
  "first_stop E handled start k s j \<longleftrightarrow> k \<le> j \<and>
     (handled (polled E k s j) \<or> we_tick E j - start \<ge> relaying_timeout_ticks E) \<and>
     (\<forall>i \<in> {k..<j}. \<not> handled (polled E k s i) \<and> we_tick E i - start < relaying_timeout_ticks E)"

lemma wait_first_stop:
  assumes "first_stop E handled start k s j"
  shows "relaying_cmd_wait E handled start k s = Some (j, polled E k s j)"
  using assms
proof (induction "j - k" arbitrary: k s)
  case 0
  then have "k = j" by (simp add: first_stop_def)
  with "0.prems" show ?case by (subst relaying_cmd_wait.simps) (auto simp: first_stop_def)
next
  case (Suc n)
  define s1 where "s1 = s\<lparr>g_p_ev_grp_status_bits := we_others E k (g_p_ev_grp_status_bits s)\<rparr>"
  from Suc.hyps(2) have k: "k < j" by simp
  have later: "polled E (Suc k) s1 i = polled E k s i" if "k < i" for i
    using polled_step [OF that, of E s] by (simp add: s1_def)
  have "first_stop E handled start (Suc k) s1 j"
    using Suc.prems k by (auto simp: first_stop_def later)
  with Suc.hyps(1) [of "Suc k" s1] Suc.hyps(2) have "relaying_cmd_wait E handled start (Suc k) s1 = Some (j, polled E k s j)"
    by (simp add: later k)
  moreover have "\<not> handled s \<and> we_tick E k - start < relaying_timeout_ticks E"
    using Suc.prems k unfolding first_stop_def by (auto dest!: bspec [of _ _ k])
  ultimately show ?case by (subst relaying_cmd_wait.simps) (auto simp: s1_def)
qed

lemma first_stop_poll:
  assumes "ticks_advance E"
  shows "\<exists>j. first_stop E handled start k s j"
  using first_stop_exists [OF assms [unfolded ticks_advance_def], of k "\<lambda>j. handled (polled E k s j)" start]
  by (auto simp: first_stop_def)

lemma relaying_cmd_wait_ends:
  assumes "ticks_advance E"
  shows "\<exists>j s'. relaying_cmd_wait E handled start k s = Some (j, s') \<and>
    (handled s' \<or> we_tick E j - start \<ge> relaying_timeout_ticks E) \<and>
    cnt_relaying_via_http_suspended s' = cnt_relaying_via_http_suspended s \<and>
    cnt_relaying_via_mqtt_suspended s' = cnt_relaying_via_mqtt_suspended s \<and> gs_events s' = gs_events s"
proof -
  obtain j where "first_stop E handled start k s j" using first_stop_poll [OF assms] by blast
  with wait_first_stop [OF this] show ?thesis by (auto simp: first_stop_def polled_counts)
qed

text \<open>C21: A task that suspends or resumes relaying and waits for the acknowledgement does not wait for
  ever and does not return early. The function polls from number 1 on; the tick counter is read at
  the beginning (number 0) and at every poll, and the other tasks may do anything to the status bits
  between two polls. If the counter moves on between two polls,
  \<open>gw_status_wait_after_relaying_mode_changed\<close> returns, also across a wrap of the counter: when MQTT
  is to be waited for, it leaves the first loop at the first poll \<open>j1\<close> at which the MQTT command is
  handled or 15 seconds have elapsed since the beginning, and when HTTP is to be waited for, the second loop, which
  goes on from there, at the first poll \<open>j2\<close> at which the HTTP command is handled or the same 15 seconds
  have elapsed. It returns at \<open>j2\<close> with the status as the others left it; the counts of
  suspensions and the notifications are as before.\<close>

theorem relaying_wait_terminates:
  assumes "ticks_advance E"
  shows "\<exists>j1 j2.
    (if mqtt then first_stop E gw_status_is_mqtt_relaying_cmd_handled (we_tick E 0) 1 s j1 else j1 = 1) \<and>
    (if http then first_stop E gw_status_is_http_relaying_cmd_handled (we_tick E 0) j1 (polled E 1 s j1) j2 else j2 = j1) \<and>
    gw_status_wait_after_relaying_mode_changed E http mqtt s = Some (polled E 1 s j2) \<and>
    cnt_relaying_via_http_suspended (polled E 1 s j2) = cnt_relaying_via_http_suspended s \<and>
    cnt_relaying_via_mqtt_suspended (polled E 1 s j2) = cnt_relaying_via_mqtt_suspended s \<and>
    gs_events (polled E 1 s j2) = gs_events s"
proof -
  obtain j1 where j1: "if mqtt then first_stop E gw_status_is_mqtt_relaying_cmd_handled (we_tick E 0) 1 s j1 else j1 = 1"
    using first_stop_poll [OF assms, of gw_status_is_mqtt_relaying_cmd_handled "we_tick E 0" 1 s] by (cases mqtt) auto
  then have one: "(if mqtt then relaying_cmd_wait E gw_status_is_mqtt_relaying_cmd_handled (we_tick E 0) 1 s
      else Some (1, s)) = Some (j1, polled E 1 s j1)"
    by (auto simp: wait_first_stop split: if_splits)
  obtain j2 where j2: "if http then first_stop E gw_status_is_http_relaying_cmd_handled (we_tick E 0) j1 (polled E 1 s j1) j2
      else j2 = j1"
    using first_stop_poll [OF assms, of gw_status_is_http_relaying_cmd_handled "we_tick E 0" j1 "polled E 1 s j1"] by (cases http) auto
  have "1 \<le> j1" "j1 \<le> j2" using j1 j2 by (auto simp: first_stop_def split: if_splits)
  with one j2 have "gw_status_wait_after_relaying_mode_changed E http mqtt s = Some (polled E 1 s j2)"
    by (auto simp: gw_status_wait_after_relaying_mode_changed_def Let_def wait_first_stop polled_trans split: if_splits)
  with j1 j2 show ?thesis by (intro exI [of _ j1] exI [of _ j2] conjI) (assumption | rule polled_counts)+
qed

theorem relaying_wait_terminates_witness:
  "gw_status_wait_after_relaying_mode_changed sim_wait True True sim_status \<noteq> None"
proof -
  have "we_tick sim_wait (k + 1) - we_tick sim_wait k = 50" for k
    by (simp add: sim_wait_def)
  moreover have "relaying_timeout_ticks sim_wait = 15000"
    by (simp add: sim_wait_def relaying_timeout_ticks_def TIMEOUT_WAITING_UNTIL_RELAYING_STOPPED_SECONDS_def)
  ultimately have "ticks_advance sim_wait" unfolding ticks_advance_def ticks_move_def by simp
  from relaying_wait_terminates [OF this, where http = True and mqtt = True and s = sim_status] show ?thesis by auto
qed

end
