(* ===== verification/Mqtt.thy ===== *)
theory Mqtt
  imports Gw_Status Adv_Table Gw_Cfg_Defs
begin

text \<open>
  The MQTT connection of the gateway, \<open>mqtt.c\<close>. The client library, the timers and the JSON
  generator are outside the model: what they answer is the argument \<open>E\<close>, and the calls are
  recorded in \<open>mq_calls\<close>. Every operation that uses the protected data holds the mutex of the
  module from its beginning to its end, so it is one step. None is a NULL pointer given to
  \<open>esp_mqtt_client_init\<close>, which reads the configuration behind it.
\<close>

section \<open>Calls and environment\<close>

datatype mqtt_cert = Ssl_mqtt_cli_cert | Ssl_mqtt_cli_key | Ssl_mqtt_srv_cert

datatype mqtt_transport_code = Transport_tcp | Transport_ssl | Transport_ws | Transport_wss

text \<open>The fields of the client configuration that depend on the configuration of the gateway.\<close>

record mqtt_client_config =
  cli_host :: string
  cli_port :: u16
  cli_client_id :: string
  cli_username :: string
  cli_password :: string
  cli_lwt_topic :: "string option"
  cli_lwt_msg :: "string option"
  cli_lwt_retain :: bool
  cli_cert_pem :: "string option"
  cli_client_cert_pem :: "string option"
  cli_client_key_pem :: "string option"
  cli_transport :: mqtt_transport_code

datatype mqtt_call =
  Client_init mqtt_client_config bool
| Client_start bool
| Client_destroy
| Client_publish bool string string bool
| Free_buf string
| Notify_mqtt event_mgr_ev
| Leds_mqtt1_connected
| Leds_mqtt1_disconnected
| Mark_app_valid
| Unregister_task_watchdog
| Register_task_watchdog
| Delay_ms u32

record mqtt_env =
  me_json :: "adv_report \<Rightarrow> bool \<Rightarrow> u32 \<Rightarrow> string option"
  me_mac_to_str :: "mac_address \<Rightarrow> string"
  me_buffer_size :: nat
  me_outbox_size :: int
  me_outbox_max_size :: int
  me_publish :: "string \<Rightarrow> string \<Rightarrow> bool"
  me_read_file :: "mqtt_cert \<Rightarrow> string option"
  me_alloc_config :: bool
  me_client_init :: bool
  me_client_start :: bool
  me_task_wdt_used :: bool
  me_err_name :: "int \<Rightarrow> string option"
  me_with_err_desc :: "int \<Rightarrow> string \<Rightarrow> string"

record mqtt_world =
  mq_status :: gw_status
  mq_client :: bool
  mq_topic :: string
  mq_prefix :: string
  mq_disable_retained_messages :: bool
  mq_err_msg :: string
  mq_server_cert :: "string option"
  mq_client_cert :: "string option"
  mq_client_key :: "string option"
  mq_calls :: "mqtt_call list"

definition mqtt_call :: "mqtt_call \<Rightarrow> mqtt_world \<Rightarrow> mqtt_world" where
  "mqtt_call c w = w\<lparr>mq_calls := mq_calls w @ [c]\<rparr>"

definition on_status :: "(gw_status \<Rightarrow> gw_status) \<Rightarrow> mqtt_world \<Rightarrow> mqtt_world" where
  "on_status f w = w\<lparr>mq_status := f (mq_status w)\<rparr>"

definition MQTT_QOS :: int where "MQTT_QOS = 0"
definition TOPIC_LEN :: nat where "TOPIC_LEN = 512"
definition MQTT_PROTECTED_DATA_ERR_MSG_SIZE :: nat where "MQTT_PROTECTED_DATA_ERR_MSG_SIZE = 120"

section \<open>Publishing\<close>

text \<open>The prefix is a buffer, the topic a string; neither pointer is NULL in the calls.\<close>

definition mqtt_create_full_topic :: "string \<Rightarrow> string \<Rightarrow> string" where
  "mqtt_create_full_topic p_prefix p_topic =
     snprintf_buf TOPIC_LEN (if c_str p_prefix \<noteq> [] then c_str p_prefix @ p_topic else p_topic)"

definition esp_mqtt_client_publish :: "mqtt_env \<Rightarrow> string \<Rightarrow> string \<Rightarrow> bool \<Rightarrow> mqtt_world \<Rightarrow> bool \<times> mqtt_world" where
  "esp_mqtt_client_publish E topic data retain w =
     (mq_client w \<and> me_publish E topic data, mqtt_call (Client_publish (mq_client w) topic data retain) w)"

definition mqtt_is_buffer_available_for_publish :: "mqtt_env \<Rightarrow> bool" where
  "mqtt_is_buffer_available_for_publish E =
     (if MQTT_QOS = 0 then True
      else me_outbox_size E < me_outbox_max_size E - int (me_buffer_size E))"

definition mqtt_publish_adv :: "mqtt_env \<Rightarrow> adv_report \<Rightarrow> bool \<Rightarrow> u32 \<Rightarrow> mqtt_world \<Rightarrow> bool \<times> mqtt_world" where
  "mqtt_publish_adv E adv flag_use_timestamps ts w =
     (case me_json E adv flag_use_timestamps ts of
        None \<Rightarrow> (False, w)
      | Some json \<Rightarrow>
          if \<not> mq_client w then (False, w)
          else
            let w = w\<lparr>mq_topic := mqtt_create_full_topic (mq_prefix w) (me_mac_to_str E (tag_mac adv))\<rparr>;
                msg_len = length (mq_topic w) + 2 + 2 + length json + 2
            in if msg_len > me_buffer_size E then (False, w)
               else esp_mqtt_client_publish E (mq_topic w) json False w)"

definition STATE_ONLINE :: string where "STATE_ONLINE = ''{'' @ [CHR 0x22] @ ''state'' @ [CHR 0x22] @ '': '' @ [CHR 0x22] @ ''online'' @ [CHR 0x22] @ ''}''"
definition STATE_OFFLINE :: string where "STATE_OFFLINE = ''{'' @ [CHR 0x22] @ ''state'' @ [CHR 0x22] @ '': '' @ [CHR 0x22] @ ''offline'' @ [CHR 0x22] @ ''}''"

definition publish_state :: "mqtt_env \<Rightarrow> string \<Rightarrow> mqtt_world \<Rightarrow> mqtt_world" where
  "publish_state E message w =
     (let w = w\<lparr>mq_topic := mqtt_create_full_topic (mq_prefix w) ''gw_status''\<rparr>
      in snd (esp_mqtt_client_publish E (mq_topic w) message (\<not> mq_disable_retained_messages w) w))"

definition mqtt_publish_connect :: "mqtt_env \<Rightarrow> mqtt_world \<Rightarrow> mqtt_world" where
  "mqtt_publish_connect E w = publish_state E STATE_ONLINE w"

definition mqtt_publish_state_offline :: "mqtt_env \<Rightarrow> mqtt_world \<Rightarrow> mqtt_world" where
  "mqtt_publish_state_offline E w = publish_state E STATE_OFFLINE w"

section \<open>Events of the client\<close>

datatype mqtt_error_type = MQTT_ERROR_TYPE_NONE | MQTT_ERROR_TYPE_TCP_TRANSPORT | MQTT_ERROR_TYPE_CONNECTION_REFUSED

record mqtt_error_codes =
  error_type :: mqtt_error_type
  esp_tls_last_esp_err :: int
  esp_transport_sock_errno :: int
  connect_return_code :: int

definition MQTT_CONNECTION_REFUSE_BAD_USERNAME :: int where "MQTT_CONNECTION_REFUSE_BAD_USERNAME = 4"
definition MQTT_CONNECTION_REFUSE_NOT_AUTHORIZED :: int where "MQTT_CONNECTION_REFUSE_NOT_AUTHORIZED = 5"

definition ESP_ERR_ESP_TLS_CANNOT_RESOLVE_HOSTNAME :: int where
  "ESP_ERR_ESP_TLS_CANNOT_RESOLVE_HOSTNAME = 0x8000 + 1"

definition ESP_ERR_ESP_TLS_FAILED_CONNECT_TO_HOST :: int where
  "ESP_ERR_ESP_TLS_FAILED_CONNECT_TO_HOST = 0x8000 + 4"

definition esp_tls_err_is_cannot_resolve_hostname :: "int \<Rightarrow> bool" where
  "esp_tls_err_is_cannot_resolve_hostname err \<longleftrightarrow> ESP_ERR_ESP_TLS_CANNOT_RESOLVE_HOSTNAME = err"

definition esp_tls_err_is_failed_connect_to_host :: "int \<Rightarrow> bool" where
  "esp_tls_err_is_failed_connect_to_host err \<longleftrightarrow> ESP_ERR_ESP_TLS_FAILED_CONNECT_TO_HOST = err"

definition mqtt_connect_return_code_to_str :: "int \<Rightarrow> string" where
  "mqtt_connect_return_code_to_str c =
     (if c = 0 then ''MQTT_CONNECTION_ACCEPTED''
      else if c = 1 then ''MQTT_CONNECTION_REFUSE_PROTOCOL''
      else if c = 2 then ''MQTT_CONNECTION_REFUSE_ID_REJECTED''
      else if c = 3 then ''MQTT_CONNECTION_REFUSE_SERVER_UNAVAILABLE''
      else if c = MQTT_CONNECTION_REFUSE_BAD_USERNAME then ''MQTT_CONNECTION_REFUSE_BAD_USERNAME''
      else if c = MQTT_CONNECTION_REFUSE_NOT_AUTHORIZED then ''MQTT_CONNECTION_REFUSE_NOT_AUTHORIZED''
      else ''Unknown'')"

text \<open>The text for an error number; an allocation that fails leaves it empty.\<close>

definition err_desc :: "mqtt_env \<Rightarrow> int \<Rightarrow> string" where
  "err_desc E err = (case me_err_name E err of None \<Rightarrow> [] | Some s \<Rightarrow> s)"

text \<open>The result is the error code and the message.\<close>

definition mqtt_get_error_code :: "mqtt_env \<Rightarrow> mqtt_error_codes \<Rightarrow> mqtt_error \<times> string" where
  "mqtt_get_error_code E h =
     (let tls = esp_tls_last_esp_err h; sock = esp_transport_sock_errno h;
          msg = snprintf_buf MQTT_PROTECTED_DATA_ERR_MSG_SIZE in
      case error_type h of
        MQTT_ERROR_TYPE_TCP_TRANSPORT \<Rightarrow>
          if esp_tls_err_is_cannot_resolve_hostname tls then (MQTT_ERROR_DNS, msg ''Failed to resolve hostname'')
          else if esp_tls_err_is_failed_connect_to_host tls
          then (MQTT_ERROR_CONNECT, msg (me_with_err_desc E sock ''Failed to connect to host''))
          else (MQTT_ERROR_CONNECT,
                if tls \<noteq> 0 then msg (''Error '' @ print_int tls @ '' ('' @ err_desc E tls @ '')'')
                else if sock \<noteq> 0 then msg (err_desc E sock)
                else msg ''Unknown error'')
      | MQTT_ERROR_TYPE_CONNECTION_REFUSED \<Rightarrow>
          (if connect_return_code h = MQTT_CONNECTION_REFUSE_BAD_USERNAME \<or>
              connect_return_code h = MQTT_CONNECTION_REFUSE_NOT_AUTHORIZED
           then MQTT_ERROR_AUTH else MQTT_ERROR_CONNECT,
           msg (''Refusal to connect: '' @ mqtt_connect_return_code_to_str (connect_return_code h)))
      | MQTT_ERROR_TYPE_NONE \<Rightarrow> (MQTT_ERROR_CONNECT, msg ''Failed to connect (Unknown error type)''))"

datatype mqtt_event = MQTT_EVENT_CONNECTED | MQTT_EVENT_DISCONNECTED | MQTT_EVENT_ERROR mqtt_error_codes | MQTT_EVENT_OTHER

fun mqtt_event_handler :: "mqtt_env \<Rightarrow> mqtt_event \<Rightarrow> mqtt_world \<Rightarrow> mqtt_world" where
  "mqtt_event_handler E MQTT_EVENT_CONNECTED w =
     mqtt_call Mark_app_valid (mqtt_call Leds_mqtt1_connected
       (mqtt_call (Notify_mqtt EVENT_MGR_EV_MQTT_CONNECTED) (on_status gw_status_set_mqtt_connected w)))"
| "mqtt_event_handler E MQTT_EVENT_DISCONNECTED w =
     mqtt_call Leds_mqtt1_disconnected (on_status gw_status_clear_mqtt_connected w)"
| "mqtt_event_handler E (MQTT_EVENT_ERROR h) w =
     (let (e, msg) = mqtt_get_error_code E h in on_status (gw_status_set_mqtt_error e) (w\<lparr>mq_err_msg := msg\<rparr>))"
| "mqtt_event_handler E MQTT_EVENT_OTHER w = w"

section \<open>Starting and stopping\<close>

definition mqtt_transport_name_to_code :: "string \<Rightarrow> mqtt_transport_code" where
  "mqtt_transport_name_to_code name =
     (if c_str name = ''TCP'' then Transport_tcp
      else if c_str name = ''SSL'' then Transport_ssl
      else if c_str name = ''WS'' then Transport_ws
      else if c_str name = ''WSS'' then Transport_wss
      else Transport_tcp)"

text \<open>The last arguments are those of \<open>mqtt_client_config_params_t\<close>.\<close>

definition mqtt_generate_client_config ::
  "ruuvi_gw_cfg_mqtt \<Rightarrow> string option \<Rightarrow> string option \<Rightarrow> mqtt_world \<Rightarrow> mqtt_client_config" where
  "mqtt_generate_client_config c p_topic p_lwt_message w =
     \<lparr>cli_host = c_str (mqtt_server c), cli_port = mqtt_port c, cli_client_id = c_str (mqtt_client_id c),
      cli_username = c_str (mqtt_user c), cli_password = c_str (mqtt_pass c),
      cli_lwt_topic = (if mqtt_disable_retained_messages c then None else p_topic),
      cli_lwt_msg = (if mqtt_disable_retained_messages c then None else p_lwt_message),
      cli_lwt_retain = (\<not> mqtt_disable_retained_messages c),
      cli_cert_pem = mq_server_cert w, cli_client_cert_pem = mq_client_cert w,
      cli_client_key_pem = mq_client_key w,
      cli_transport = mqtt_transport_name_to_code (mqtt_transport c)\<rparr>"

definition mqtt_create_client_config ::
  "mqtt_env \<Rightarrow> ruuvi_gw_cfg_mqtt \<Rightarrow> mqtt_world \<Rightarrow> mqtt_client_config option \<times> mqtt_world" where
  "mqtt_create_client_config E c w =
     (if \<not> me_alloc_config E then (None, w)
      else
        let w = w\<lparr>mq_topic := mqtt_create_full_topic (mqtt_prefix c) ''gw_status'', mq_prefix := mqtt_prefix c,
                  mq_disable_retained_messages := mqtt_disable_retained_messages c\<rparr>
        in (Some (mqtt_generate_client_config c
              (if mq_disable_retained_messages w then None else Some (mq_topic w))
              (if mq_disable_retained_messages w then None else Some STATE_OFFLINE) w), w))"

definition mqtt_app_start_internal2 :: "mqtt_env \<Rightarrow> mqtt_client_config \<Rightarrow> mqtt_world \<Rightarrow> bool \<times> mqtt_world" where
  "mqtt_app_start_internal2 E cli w =
     (let w = (mqtt_call (Client_init cli (me_client_init E)) w)\<lparr>mq_client := me_client_init E\<rparr> in
      if \<not> mq_client w then (False, w)
      else let w = mqtt_call (Client_start (me_client_start E)) w in
      if \<not> me_client_start E then (False, (mqtt_call Client_destroy w)\<lparr>mq_client := False\<rparr>)
      else (True, w))"

text \<open>
  The code tests the pointer to the configuration of the gateway, not the one it has just
  received, so a failed allocation goes on to \<open>esp_mqtt_client_init\<close>.
\<close>

definition mqtt_app_start_internal :: "mqtt_env \<Rightarrow> ruuvi_gw_cfg_mqtt \<Rightarrow> mqtt_world \<Rightarrow> mqtt_world option" where
  "mqtt_app_start_internal E c w =
     (let w = on_status gw_status_clear_mqtt_connected_and_error w;
          w = w\<lparr>mq_err_msg := [], mq_server_cert := None, mq_client_cert := None, mq_client_key := None\<rparr>;
          w = (if mqtt_use_ssl_client_cert c
               then w\<lparr>mq_client_cert := me_read_file E Ssl_mqtt_cli_cert, mq_client_key := me_read_file E Ssl_mqtt_cli_key\<rparr>
               else w);
          w = (if mqtt_use_ssl_server_cert c then w\<lparr>mq_server_cert := me_read_file E Ssl_mqtt_srv_cert\<rparr> else w)
      in if c_str (mqtt_server c) = [] \<or> mqtt_port c = 0
         then Some (on_status (gw_status_set_mqtt_error MQTT_ERROR_CONNECT) w)
         else
           let (p_mqtt_cli_cfg, w) = mqtt_create_client_config E c w in
           case p_mqtt_cli_cfg of
             None \<Rightarrow> None
           | Some cli \<Rightarrow>
               let (ok, w) = mqtt_app_start_internal2 E cli w
               in Some (if ok then on_status gw_status_set_mqtt_started w else w))"

definition mqtt_app_start :: "mqtt_env \<Rightarrow> ruuvi_gw_cfg_mqtt \<Rightarrow> mqtt_world \<Rightarrow> mqtt_world option" where
  "mqtt_app_start E c w = (if mq_client w then Some w else mqtt_app_start_internal E c w)"

text \<open>The argument is the copy of the configuration, None when it cannot be allocated.\<close>

definition mqtt_app_start_with_gw_cfg :: "mqtt_env \<Rightarrow> ruuvi_gw_cfg_mqtt option \<Rightarrow> mqtt_world \<Rightarrow> mqtt_world option" where
  "mqtt_app_start_with_gw_cfg E copy w =
     (case copy of
        None \<Rightarrow> Some (on_status (gw_status_set_mqtt_error MQTT_ERROR_CONNECT) w)
      | Some c \<Rightarrow> mqtt_app_start E c w)"

definition str_buf_free_buf :: "string option \<Rightarrow> mqtt_world \<Rightarrow> mqtt_world" where
  "str_buf_free_buf b w = (case b of None \<Rightarrow> w | Some s \<Rightarrow> mqtt_call (Free_buf s) w)"

definition mqtt_app_stop :: "mqtt_env \<Rightarrow> mqtt_world \<Rightarrow> mqtt_world" where
  "mqtt_app_stop E w =
     (let w = (if mq_client w
        then
          let w = (if gw_status_is_mqtt_connected (mq_status w)
                   then mqtt_call (Delay_ms 500) (mqtt_publish_state_offline E w) else w);
              w = mqtt_call Client_destroy (mqtt_call Unregister_task_watchdog w);
              w = (if me_task_wdt_used E then mqtt_call Register_task_watchdog w else w)
          in w\<lparr>mq_client := False\<rparr>
        else w);
          w = on_status gw_status_clear_mqtt_started (on_status gw_status_clear_mqtt_connected_and_error w);
          w = (str_buf_free_buf (mq_server_cert w) w)\<lparr>mq_server_cert := None\<rparr>;
          w = (str_buf_free_buf (mq_client_cert w) w)\<lparr>mq_client_cert := None\<rparr>
      in (str_buf_free_buf (mq_client_key w) w)\<lparr>mq_client_key := None\<rparr>)"

definition mqtt_app_is_working :: "mqtt_world \<Rightarrow> bool" where
  "mqtt_app_is_working w = mq_client w"

text \<open>The argument says whether the copy can be allocated.\<close>

definition mqtt_app_get_error_message :: "bool \<Rightarrow> mqtt_world \<Rightarrow> string option" where
  "mqtt_app_get_error_message alloc w = (if mq_client w \<and> alloc then Some (mq_err_msg w) else None)"

section \<open>The life of the client\<close>

lemma is_mqtt_connected_view: "gw_status_is_mqtt_connected s = v_mqtt_connected (status_view s)"
  and is_mqtt_started_view: "gw_status_is_mqtt_started s = v_mqtt_started (status_view s)"
  using status_reads_view [of s] by (simp_all add: reads_view_def)

lemma mqtt_call_fields [simp]:
  "mq_client (mqtt_call c w) = mq_client w" "mq_status (mqtt_call c w) = mq_status w"
  "mq_topic (mqtt_call c w) = mq_topic w" "mq_prefix (mqtt_call c w) = mq_prefix w"
  "mq_err_msg (mqtt_call c w) = mq_err_msg w" "mq_server_cert (mqtt_call c w) = mq_server_cert w"
  "mq_client_cert (mqtt_call c w) = mq_client_cert w" "mq_client_key (mqtt_call c w) = mq_client_key w"
  "mq_disable_retained_messages (mqtt_call c w) = mq_disable_retained_messages w"
  "mq_calls (mqtt_call c w) = mq_calls w @ [c]"
  by (simp_all add: mqtt_call_def)

lemma on_status_fields [simp]:
  "mq_client (on_status f w) = mq_client w" "mq_status (on_status f w) = f (mq_status w)"
  "mq_topic (on_status f w) = mq_topic w" "mq_err_msg (on_status f w) = mq_err_msg w"
  "mq_prefix (on_status f w) = mq_prefix w" "mq_disable_retained_messages (on_status f w) = mq_disable_retained_messages w"
  "mq_server_cert (on_status f w) = mq_server_cert w" "mq_client_cert (on_status f w) = mq_client_cert w"
  "mq_client_key (on_status f w) = mq_client_key w" "mq_calls (on_status f w) = mq_calls w"
  by (simp_all add: on_status_def)

datatype mqtt_op =
  App_start ruuvi_gw_cfg_mqtt
| App_stop
| Client_event mqtt_event
| Publish_adv adv_report bool u32
| Publish_connect

fun mqtt_exec :: "mqtt_env \<Rightarrow> mqtt_op \<Rightarrow> mqtt_world \<Rightarrow> mqtt_world option" where
  "mqtt_exec E (App_start c) w = mqtt_app_start E c w"
| "mqtt_exec E App_stop w = Some (mqtt_app_stop E w)"
| "mqtt_exec E (Client_event ev) w = Some (mqtt_event_handler E ev w)"
| "mqtt_exec E (Publish_adv adv use_ts ts) w = Some (snd (mqtt_publish_adv E adv use_ts ts w))"
| "mqtt_exec E Publish_connect w = Some (mqtt_publish_connect E w)"

definition mqtt_step :: "mqtt_world option \<Rightarrow> mqtt_env \<times> mqtt_op \<Rightarrow> mqtt_world option" where
  "mqtt_step s x = Option.bind s (mqtt_exec (fst x) (snd x))"

text \<open>The client sends events only while it exists; the configuration can be allocated.\<close>

fun mqtt_enabled :: "mqtt_world option \<Rightarrow> mqtt_env \<times> mqtt_op \<Rightarrow> bool" where
  "mqtt_enabled (Some w) (E, Client_event ev) = mq_client w"
| "mqtt_enabled (Some w) (E, App_start c) = me_alloc_config E"
| "mqtt_enabled _ _ = True"

fun client_created :: "mqtt_call \<Rightarrow> bool" where
  "client_created (Client_init cfg ok) = ok"
| "client_created _ = False"

definition mqtt_inv :: "mqtt_world \<Rightarrow> bool" where
  "mqtt_inv w \<longleftrightarrow>
     v_mqtt_started (status_view (mq_status w)) = mq_client w \<and>
     (v_mqtt_connected (status_view (mq_status w)) \<longrightarrow> mq_client w) \<and>
     length (filter client_created (mq_calls w)) =
       count_list (mq_calls w) Client_destroy + (if mq_client w then 1 else 0) \<and>
     length (mq_topic w) < TOPIC_LEN \<and> length (mq_err_msg w) < MQTT_PROTECTED_DATA_ERR_MSG_SIZE"

lemma full_topic_fits: "length (mqtt_create_full_topic p t) < TOPIC_LEN"
  by (simp add: mqtt_create_full_topic_def snprintf_buf_def TOPIC_LEN_def)

lemma error_message_fits: "length (snd (mqtt_get_error_code E h)) < MQTT_PROTECTED_DATA_ERR_MSG_SIZE"
  by (cases "error_type h")
    (auto simp: mqtt_get_error_code_def Let_def snprintf_buf_def MQTT_PROTECTED_DATA_ERR_MSG_SIZE_def)

lemma publish_state_inv: "mqtt_inv w \<Longrightarrow> mqtt_inv (publish_state E m w)"
  by (simp add: publish_state_def Let_def esp_mqtt_client_publish_def mqtt_inv_def full_topic_fits)

lemma publish_adv_inv: "mqtt_inv w \<Longrightarrow> mqtt_inv (snd (mqtt_publish_adv E adv use_ts ts w))"
  by (cases "me_json E adv use_ts ts")
    (auto simp: mqtt_publish_adv_def Let_def esp_mqtt_client_publish_def mqtt_inv_def full_topic_fits)

lemma free_buf_fields [simp]:
  "mq_client (str_buf_free_buf b w) = mq_client w" "mq_status (str_buf_free_buf b w) = mq_status w"
  "mq_topic (str_buf_free_buf b w) = mq_topic w" "mq_err_msg (str_buf_free_buf b w) = mq_err_msg w"
  "mq_server_cert (str_buf_free_buf b w) = mq_server_cert w" "mq_client_cert (str_buf_free_buf b w) = mq_client_cert w"
  "mq_client_key (str_buf_free_buf b w) = mq_client_key w"
  "filter client_created (mq_calls (str_buf_free_buf b w)) = filter client_created (mq_calls w)"
  "count_list (mq_calls (str_buf_free_buf b w)) Client_destroy = count_list (mq_calls w) Client_destroy"
  by (cases b; simp add: str_buf_free_buf_def)+

lemma publish_state_fields [simp]:
  "mq_client (publish_state E m w) = mq_client w" "mq_status (publish_state E m w) = mq_status w"
  "mq_err_msg (publish_state E m w) = mq_err_msg w"
  "filter client_created (mq_calls (publish_state E m w)) = filter client_created (mq_calls w)"
  "count_list (mq_calls (publish_state E m w)) Client_destroy = count_list (mq_calls w) Client_destroy"
  "length (mq_topic (publish_state E m w)) < TOPIC_LEN"
  by (simp_all add: publish_state_def esp_mqtt_client_publish_def Let_def full_topic_fits)

lemma app_stop_inv: "mqtt_inv w \<Longrightarrow> mqtt_inv (mqtt_app_stop E w)"
  by (simp add: mqtt_app_stop_def Let_def mqtt_inv_def mqtt_publish_state_offline_def)

lemma event_handler_inv: "mqtt_inv w \<Longrightarrow> mq_client w \<Longrightarrow> mqtt_inv (mqtt_event_handler E ev w)"
  using error_message_fits by (cases ev) (auto simp: mqtt_inv_def case_prod_beta)

lemma app_start_inv:
  assumes "mqtt_inv w" and "me_alloc_config E"
  shows "\<exists>w'. mqtt_app_start E c w = Some w' \<and> mqtt_inv w'"
proof (cases "mq_client w")
  case True
  with assms(1) show ?thesis by (simp add: mqtt_app_start_def)
next
  case False
  with assms show ?thesis
    by (simp add: mqtt_app_start_def mqtt_app_start_internal_def mqtt_create_client_config_def
      mqtt_app_start_internal2_def Let_def mqtt_inv_def full_topic_fits MQTT_PROTECTED_DATA_ERR_MSG_SIZE_def)
qed

lemma mqtt_exec_inv:
  "mqtt_inv w \<Longrightarrow> mqtt_enabled (Some w) (E, x) \<Longrightarrow> \<exists>w'. mqtt_exec E x w = Some w' \<and> mqtt_inv w'"
  by (cases x) (simp_all add: app_start_inv app_stop_inv event_handler_inv publish_adv_inv publish_state_inv
    mqtt_publish_connect_def)

interpretation mqtt_machine:
  event_machine mqtt_step "\<lambda>s. \<exists>w. s = Some w \<and> mqtt_inv w" mqtt_enabled
  using mqtt_exec_inv by unfold_locales (force simp: mqtt_step_def)

section \<open>Properties\<close>

text \<open>A module that has not been used, and calls that all succeed.\<close>

definition mqtt_initial :: "gw_status \<Rightarrow> mqtt_world" where
  "mqtt_initial st = \<lparr>mq_status = st, mq_client = False, mq_topic = [], mq_prefix = [],
     mq_disable_retained_messages = False, mq_err_msg = [], mq_server_cert = None, mq_client_cert = None,
     mq_client_key = None, mq_calls = []\<rparr>"

definition sim_mqtt_env :: mqtt_env where
  "sim_mqtt_env = \<lparr>me_json = (\<lambda>adv _ _. Some ''{}''), me_mac_to_str = (\<lambda>_. ''AA:BB:CC:DD:EE:FF''),
     me_buffer_size = 1024, me_outbox_size = 0, me_outbox_max_size = 4096, me_publish = (\<lambda>_ _. True),
     me_read_file = (\<lambda>_. Some ''cert''), me_alloc_config = True, me_client_init = True, me_client_start = True,
     me_task_wdt_used = True, me_err_name = (\<lambda>_. None), me_with_err_desc = (\<lambda>_ s. s)\<rparr>"

definition sim_mqtt_cfg :: ruuvi_gw_cfg_mqtt where
  "sim_mqtt_cfg = \<lparr>use_mqtt = True, mqtt_disable_retained_messages = False, mqtt_use_ssl_client_cert = False,
     mqtt_use_ssl_server_cert = True, mqtt_transport = ''SSL'' @ [NUL], mqtt_data_format = GW_CFG_MQTT_DATA_FORMAT_RUUVI_RAW,
     mqtt_server = ''host'' @ [NUL], mqtt_port = 8883, mqtt_sending_interval = 0, mqtt_prefix = ''ruuvi/'' @ [NUL],
     mqtt_client_id = [NUL], mqtt_user = [NUL], mqtt_pass = [NUL]\<rparr>"

definition sim_mqtt_status :: gw_status where
  "sim_mqtt_status = \<lparr>g_p_ev_grp_status_bits = 0, cnt_relaying_via_http_suspended = 0,
     cnt_relaying_via_mqtt_suspended = 0, gs_events = []\<rparr>"

lemma mqtt_initial_inv:
  "\<not> gw_status_is_mqtt_started st \<Longrightarrow> \<not> gw_status_is_mqtt_connected st \<Longrightarrow> mqtt_inv (mqtt_initial st)"
  by (simp add: mqtt_inv_def mqtt_initial_def is_mqtt_started_view is_mqtt_connected_view TOPIC_LEN_def
    MQTT_PROTECTED_DATA_ERR_MSG_SIZE_def)

lemma sim_status_view:
  "\<not> gw_status_is_mqtt_started sim_mqtt_status" "\<not> gw_status_is_mqtt_connected sim_mqtt_status"
  by (simp_all add: sim_mqtt_status_def gw_status_is_mqtt_started_def gw_status_is_mqtt_connected_def status_any_def)

text \<open>C19: The life of the MQTT client. In every run of starts, stops, publications and events of the client,
  with any answers of the library, from a module that has not been used: the status bit
  MQTT_STARTED is set exactly while a client exists, MQTT_CONNECTED only while one exists, every client that
  was created has been destroyed except the current one, and the topic and the error message fit into
  their buffers. The events come only while a client exists, and the configuration of a client can
  be allocated.\<close>

theorem mqtt_client_lifecycle:
  assumes "\<not> gw_status_is_mqtt_started st" and "\<not> gw_status_is_mqtt_connected st"
    and "enabled_run mqtt_step mqtt_enabled (Some (mqtt_initial st)) ops"
  shows "\<exists>w. run_events mqtt_step (Some (mqtt_initial st)) ops = Some w \<and>
    gw_status_is_mqtt_started (mq_status w) = mqtt_app_is_working w \<and>
    (gw_status_is_mqtt_connected (mq_status w) \<longrightarrow> mqtt_app_is_working w) \<and>
    length (filter client_created (mq_calls w)) =
      count_list (mq_calls w) Client_destroy + (if mqtt_app_is_working w then 1 else 0) \<and>
    length (mq_topic w) < 512 \<and> length (mq_err_msg w) < 120"
  using mqtt_machine.run_inv [OF _ assms(3)] mqtt_initial_inv [OF assms(1,2)]
  by (auto simp: mqtt_inv_def mqtt_app_is_working_def is_mqtt_started_view is_mqtt_connected_view TOPIC_LEN_def
    MQTT_PROTECTED_DATA_ERR_MSG_SIZE_def)

theorem mqtt_client_lifecycle_witness:
  "\<exists>w. run_events mqtt_step (Some (mqtt_initial sim_mqtt_status))
      [(sim_mqtt_env, App_start sim_mqtt_cfg), (sim_mqtt_env, Client_event MQTT_EVENT_CONNECTED)] = Some w \<and>
    gw_status_is_mqtt_started (mq_status w)"
proof -
  let ?ops = "[(sim_mqtt_env, App_start sim_mqtt_cfg), (sim_mqtt_env, Client_event MQTT_EVENT_CONNECTED)]"
  have started: "\<exists>w. mqtt_app_start sim_mqtt_env sim_mqtt_cfg (mqtt_initial sim_mqtt_status) = Some w \<and> mq_client w"
    by (simp add: mqtt_app_start_def mqtt_initial_def mqtt_app_start_internal_def mqtt_create_client_config_def
      mqtt_app_start_internal2_def Let_def sim_mqtt_env_def sim_mqtt_cfg_def NUL_def)
  then have "enabled_run mqtt_step mqtt_enabled (Some (mqtt_initial sim_mqtt_status)) ?ops"
    by (auto simp: mqtt_step_def) (simp add: sim_mqtt_env_def)
  from mqtt_client_lifecycle [OF sim_status_view this] started show ?thesis
    by (auto simp: mqtt_app_is_working_def mqtt_step_def)
qed

text \<open>Publishing one advertisement. \<open>mqtt_publish_adv\<close> returns true exactly when the message could be
  generated, a client exists, topic and message fit into the buffer of the client, and the client accepts
  the message. The client is called at most once, exactly in the first three of these cases, with the
  topic made of the configured prefix and the MAC address of the sensor, cut to 511 characters, and never as
  a retained message. Nothing else than the topic buffer changes.\<close>

theorem mqtt_publish_adv_effect:
  defines "topic w adv E \<equiv> take 511 (c_str (mq_prefix w) @ me_mac_to_str E (tag_mac adv))"
  defines "sent w adv E use_ts ts \<equiv> (case me_json E adv use_ts ts of None \<Rightarrow> []
     | Some json \<Rightarrow> if mq_client w \<and> length (topic w adv E) + length json + 6 \<le> me_buffer_size E
                    then [(topic w adv E, json)] else [])"
  shows "fst (mqtt_publish_adv E adv use_ts ts w) = (\<exists>m \<in> set (sent w adv E use_ts ts). me_publish E (fst m) (snd m)) \<and>
    (\<exists>t. snd (mqtt_publish_adv E adv use_ts ts w) =
       w\<lparr>mq_topic := t, mq_calls := mq_calls w @ map (\<lambda>m. Client_publish True (fst m) (snd m) False) (sent w adv E use_ts ts)\<rparr>)"
proof (cases "me_json E adv use_ts ts")
  case None
  then show ?thesis by (cases w) (auto simp: mqtt_publish_adv_def sent_def)
next
  case (Some json)
  have topic: "mqtt_create_full_topic (mq_prefix w) (me_mac_to_str E (tag_mac adv)) = topic w adv E"
    by (simp add: mqtt_create_full_topic_def topic_def snprintf_buf_def TOPIC_LEN_def)
  show ?thesis
  proof (cases "mq_client w")
    case False
    with Some show ?thesis
      by (cases w) (auto simp: mqtt_publish_adv_def sent_def)
  next
    case True
    with Some topic show ?thesis
      by (cases w) (auto simp: mqtt_publish_adv_def sent_def Let_def esp_mqtt_client_publish_def mqtt_call_def)
  qed
qed

text \<open>A failed start leaks certificates. If the client cannot be created, or the server or port is
  missing, a start that has read the certificate of the server keeps it without a client. The next
  start, with any configuration, overwrites the pointer and frees nothing.\<close>

theorem mqtt_failed_start_leaks_certificate:
  assumes "\<not> mq_client w" and "mqtt_use_ssl_server_cert c" and "me_read_file E Ssl_mqtt_srv_cert = Some cert"
    and "c_str (mqtt_server c) = [] \<or> mqtt_port c = 0 \<or> me_alloc_config E \<and> \<not> me_client_init E"
  shows "\<exists>w1. mqtt_app_start E c w = Some w1 \<and> \<not> mq_client w1 \<and> mq_server_cert w1 = Some cert \<and>
    (\<forall>E' c' w2. mqtt_app_start E' c' w1 = Some w2 \<longrightarrow>
       mq_server_cert w2 = (if mqtt_use_ssl_server_cert c' then me_read_file E' Ssl_mqtt_srv_cert else None) \<and>
       (\<forall>s. count_list (mq_calls w2) (Free_buf s) = count_list (mq_calls w) (Free_buf s)))"
proof -
  have again: "mq_server_cert w2 = (if mqtt_use_ssl_server_cert c' then me_read_file E' Ssl_mqtt_srv_cert else None) \<and>
      (\<forall>s. count_list (mq_calls w2) (Free_buf s) = count_list (mq_calls w1) (Free_buf s))"
    if "\<not> mq_client w1" "mqtt_app_start E' c' w1 = Some w2" for E' c' w1 w2
    using that by (auto simp: mqtt_app_start_def mqtt_app_start_internal_def mqtt_create_client_config_def
      mqtt_app_start_internal2_def Let_def split: if_splits)
  have "\<exists>w1. mqtt_app_start E c w = Some w1 \<and> \<not> mq_client w1"
    using assms(1,4) by (auto simp: mqtt_app_start_def mqtt_app_start_internal_def mqtt_create_client_config_def
      mqtt_app_start_internal2_def Let_def)
  then obtain w1 where w1: "mqtt_app_start E c w = Some w1" "\<not> mq_client w1" by blast
  with again [OF assms(1) w1(1)] again [OF w1(2)] assms(2,3) show ?thesis by (intro exI [of _ w1]) auto
qed

theorem mqtt_failed_start_leaks_certificate_witness:
  "\<exists>w1. mqtt_app_start sim_mqtt_env (sim_mqtt_cfg\<lparr>mqtt_port := 0\<rparr>) (mqtt_initial sim_mqtt_status) = Some w1 \<and>
    mq_server_cert w1 = Some ''cert''"
  using mqtt_failed_start_leaks_certificate [of "mqtt_initial sim_mqtt_status" "sim_mqtt_cfg\<lparr>mqtt_port := 0\<rparr>" sim_mqtt_env "''cert''"]
  by (auto simp: mqtt_initial_def sim_mqtt_cfg_def sim_mqtt_env_def)

text \<open>A failed allocation is not noticed. \<open>mqtt_app_start\<close> gives a NULL configuration to
  \<open>esp_mqtt_client_init\<close> exactly when no client exists, a server and a port are configured, and the
  configuration of the client cannot be allocated: the code tests another pointer for NULL.\<close>

theorem mqtt_start_uses_null_config:
  "mqtt_app_start E c w = None \<longleftrightarrow>
     \<not> mq_client w \<and> c_str (mqtt_server c) \<noteq> [] \<and> mqtt_port c \<noteq> 0 \<and> \<not> me_alloc_config E"
  by (auto simp: mqtt_app_start_def mqtt_app_start_internal_def mqtt_create_client_config_def
    mqtt_app_start_internal2_def Let_def)

text \<open>The class of an error, read off the event.\<close>

definition mqtt_error_class :: "mqtt_error_codes \<Rightarrow> mqtt_error" where
  "mqtt_error_class h =
     (if error_type h = MQTT_ERROR_TYPE_TCP_TRANSPORT \<and> esp_tls_last_esp_err h = 0x8001 then MQTT_ERROR_DNS
      else if error_type h = MQTT_ERROR_TYPE_CONNECTION_REFUSED \<and> connect_return_code h \<in> {4, 5} then MQTT_ERROR_AUTH
      else MQTT_ERROR_CONNECT)"

text \<open>An error of the connection is reported. After the event, the status says not connected, and
  \<open>gw_status_get_mqtt_error\<close> returns DNS exactly for a host name that cannot be resolved, AUTH exactly
  for a refused user name or authorization, and CONNECT for every other error, never NONE. The
  message for the user fits into its buffer; \<open>mqtt_app_get_error_message\<close> returns it while the client exists. The other values of the status stay.\<close>

theorem mqtt_error_is_reported:
  defines "w' E h w \<equiv> mqtt_event_handler E (MQTT_EVENT_ERROR h) w"
  shows "gw_status_get_mqtt_error (mq_status (w' E h w)) = Some (mqtt_error_class h) \<and>
    \<not> gw_status_is_mqtt_connected (mq_status (w' E h w)) \<and>
    gw_status_is_mqtt_connected_or_error (mq_status (w' E h w)) \<and>
    status_view (mq_status (w' E h w)) =
      (status_view (mq_status w))\<lparr>v_mqtt_connected := False, v_mqtt_error := mqtt_error_class h\<rparr> \<and>
    mqtt_app_get_error_message True (w' E h w) =
      (if mq_client w then Some (snd (mqtt_get_error_code E h)) else None) \<and>
    length (snd (mqtt_get_error_code E h)) < 120"
proof -
  have cls: "fst (mqtt_get_error_code E h) = mqtt_error_class h"
    by (cases "error_type h") (auto simp: mqtt_get_error_code_def mqtt_error_class_def Let_def
      esp_tls_err_is_cannot_resolve_hostname_def esp_tls_err_is_failed_connect_to_host_def
      ESP_ERR_ESP_TLS_CANNOT_RESOLVE_HOSTNAME_def ESP_ERR_ESP_TLS_FAILED_CONNECT_TO_HOST_def
      MQTT_CONNECTION_REFUSE_BAD_USERNAME_def MQTT_CONNECTION_REFUSE_NOT_AUTHORIZED_def)
  have ne: "mqtt_error_class h \<noteq> MQTT_ERROR_NONE" by (simp add: mqtt_error_class_def)
  obtain e msg where code: "mqtt_get_error_code E h = (e, msg)" by fastforce
  with cls have e: "e = mqtt_error_class h" by simp
  have st: "mq_status (w' E h w) = gw_status_set_mqtt_error (mqtt_error_class h) (mq_status w)"
    and cl: "mq_client (w' E h w) = mq_client w" and m: "mq_err_msg (w' E h w) = msg"
    using code e by (simp_all add: w'_def)
  have len: "length msg < 120"
    using error_message_fits [of E h] code by (simp add: MQTT_PROTECTED_DATA_ERR_MSG_SIZE_def)
  from status_reads_view [of "mq_status (w' E h w)"] ne len show ?thesis
    by (simp add: reads_view_def st cl m code mqtt_app_get_error_message_def)
qed

end
