(* ===== verification/Adv_Mqtt.thy ===== *)
theory Adv_Mqtt
  imports Mqtt
begin

text \<open>
  The task that relays advertisements to the MQTT broker as they arrive (\<open>adv_mqtt*.c\<close>): the instant
  mode, for a sending interval of zero. It shares the table of advertisements with the posting task
  and takes the head of the third list. The record \<open>adv_mqtt_world\<close> has the static variables and
  the state of the task; \<open>adv_mqtt_env\<close> has what one activation reads of the clocks, of the counter of
  received advertisements and of the configuration.
\<close>

section \<open>Signals, timers, events\<close>

datatype adv_mqtt_sig =
  ADV_MQTT_SIG_STOP | ADV_MQTT_SIG_ON_RECV_ADV | ADV_MQTT_SIG_MQTT_CONNECTED | ADV_MQTT_SIG_TASK_WATCHDOG_FEED
| ADV_MQTT_SIG_GW_CFG_READY | ADV_MQTT_SIG_GW_CFG_CHANGED_RUUVI | ADV_MQTT_SIG_RELAYING_MODE_CHANGED
| ADV_MQTT_SIG_CFG_MODE_ACTIVATED | ADV_MQTT_SIG_CFG_MODE_DEACTIVATED

fun adv_mqtt_conv_to_sig_num :: "adv_mqtt_sig \<Rightarrow> os_signal_num" where
  "adv_mqtt_conv_to_sig_num ADV_MQTT_SIG_STOP = 0"
| "adv_mqtt_conv_to_sig_num ADV_MQTT_SIG_ON_RECV_ADV = 1"
| "adv_mqtt_conv_to_sig_num ADV_MQTT_SIG_MQTT_CONNECTED = 2"
| "adv_mqtt_conv_to_sig_num ADV_MQTT_SIG_TASK_WATCHDOG_FEED = 3"
| "adv_mqtt_conv_to_sig_num ADV_MQTT_SIG_GW_CFG_READY = 4"
| "adv_mqtt_conv_to_sig_num ADV_MQTT_SIG_GW_CFG_CHANGED_RUUVI = 5"
| "adv_mqtt_conv_to_sig_num ADV_MQTT_SIG_RELAYING_MODE_CHANGED = 6"
| "adv_mqtt_conv_to_sig_num ADV_MQTT_SIG_CFG_MODE_ACTIVATED = 7"
| "adv_mqtt_conv_to_sig_num ADV_MQTT_SIG_CFG_MODE_DEACTIVATED = 8"

definition all_adv_mqtt_sigs :: "adv_mqtt_sig list" where
  "all_adv_mqtt_sigs = [ADV_MQTT_SIG_STOP, ADV_MQTT_SIG_ON_RECV_ADV, ADV_MQTT_SIG_MQTT_CONNECTED,
     ADV_MQTT_SIG_TASK_WATCHDOG_FEED, ADV_MQTT_SIG_GW_CFG_READY, ADV_MQTT_SIG_GW_CFG_CHANGED_RUUVI,
     ADV_MQTT_SIG_RELAYING_MODE_CHANGED, ADV_MQTT_SIG_CFG_MODE_ACTIVATED, ADV_MQTT_SIG_CFG_MODE_DEACTIVATED]"

text \<open>None is the failed assertion for a number out of range.\<close>

definition adv_mqtt_conv_from_sig_num :: "os_signal_num \<Rightarrow> adv_mqtt_sig option" where
  "adv_mqtt_conv_from_sig_num n = find (\<lambda>s. adv_mqtt_conv_to_sig_num s = n) all_adv_mqtt_sigs"

datatype adv_mqtt_timer = ADV_MQTT_PERIODIC_TIMER_SIG_WATCHDOG_FEED | ADV_MQTT_ONE_SHOT_TIMER_SIG_RETRY_SENDING_ADVS

text \<open>The tables of timers: the signal and the period in ticks.\<close>

fun g_adv_mqtt_timer_sig :: "(u32 \<Rightarrow> u32) \<Rightarrow> adv_mqtt_timer \<Rightarrow> adv_mqtt_sig \<times> u32" where
  "g_adv_mqtt_timer_sig pdMS_TO_TICKS ADV_MQTT_PERIODIC_TIMER_SIG_WATCHDOG_FEED =
     (ADV_MQTT_SIG_TASK_WATCHDOG_FEED, pdMS_TO_TICKS 1000)"
| "g_adv_mqtt_timer_sig pdMS_TO_TICKS ADV_MQTT_ONE_SHOT_TIMER_SIG_RETRY_SENDING_ADVS =
     (ADV_MQTT_SIG_ON_RECV_ADV, pdMS_TO_TICKS 50)"

definition g_adv_mqtt_ev_to_sig :: "(event_mgr_ev \<times> adv_mqtt_sig) list" where
  "g_adv_mqtt_ev_to_sig =
     [(EVENT_MGR_EV_RECV_ADV, ADV_MQTT_SIG_ON_RECV_ADV),
      (EVENT_MGR_EV_MQTT_CONNECTED, ADV_MQTT_SIG_MQTT_CONNECTED),
      (EVENT_MGR_EV_GW_CFG_READY, ADV_MQTT_SIG_GW_CFG_READY),
      (EVENT_MGR_EV_GW_CFG_CHANGED_RUUVI, ADV_MQTT_SIG_GW_CFG_CHANGED_RUUVI),
      (EVENT_MGR_EV_RELAYING_MODE_CHANGED, ADV_MQTT_SIG_RELAYING_MODE_CHANGED),
      (EVENT_MGR_EV_CFG_MODE_ACTIVATED, ADV_MQTT_SIG_CFG_MODE_ACTIVATED),
      (EVENT_MGR_EV_CFG_MODE_DEACTIVATED, ADV_MQTT_SIG_CFG_MODE_DEACTIVATED)]"

text \<open>The records of the subscribers are static: entry \<open>i\<close> of the array at \<open>mem\<close>.\<close>

fun subscribe_events_from ::
  "addr \<Rightarrow> os_signal \<Rightarrow> (event_mgr_ev \<times> adv_mqtt_sig) list \<Rightarrow> event_mgr \<Rightarrow> event_mgr_error + event_mgr" where
  "subscribe_events_from mem sig [] s = Inr s"
| "subscribe_events_from mem sig ((ev, n) # evs) s =
     (case event_mgr_subscribe_sig_static mem ev sig (adv_mqtt_conv_to_sig_num n) s of
        Inl e \<Rightarrow> Inl e
      | Inr s \<Rightarrow> subscribe_events_from (Suc mem) sig evs s)"

definition adv_mqtt_subscribe_events :: "addr \<Rightarrow> os_signal \<Rightarrow> event_mgr \<Rightarrow> event_mgr_error + event_mgr" where
  "adv_mqtt_subscribe_events mem sig s = subscribe_events_from mem sig g_adv_mqtt_ev_to_sig s"

fun unsubscribe_events_from ::
  "addr \<Rightarrow> (event_mgr_ev \<times> adv_mqtt_sig) list \<Rightarrow> event_mgr \<Rightarrow> event_mgr_error + event_mgr" where
  "unsubscribe_events_from mem [] s = Inr s"
| "unsubscribe_events_from mem ((ev, n) # evs) s =
     (case event_mgr_unsubscribe_sig_static mem ev s of
        Inl e \<Rightarrow> Inl e
      | Inr s \<Rightarrow> unsubscribe_events_from (Suc mem) evs s)"

definition adv_mqtt_unsubscribe_events :: "addr \<Rightarrow> event_mgr \<Rightarrow> event_mgr_error + event_mgr" where
  "adv_mqtt_unsubscribe_events mem s = unsubscribe_events_from mem g_adv_mqtt_ev_to_sig s"

section \<open>State\<close>

record adv_mqtt_cfg_cache =
  flag_use_ntp :: bool
  flag_mqtt_instant_mode_active :: bool

datatype adv_mqtt_call =
  Adv_mqtt_send_sig adv_mqtt_sig
| Adv_mqtt_timer_start adv_mqtt_timer
| Adv_mqtt_wdt_add
| Adv_mqtt_wdt_reset
| Adv_mqtt_wdt_delete

record adv_mqtt_world =
  am_table :: adv_table_state
  am_mqtt :: mqtt_world
  g_adv_mqtt_cfg_cache :: adv_mqtt_cfg_cache
  am_flag_stop :: bool
  am_last_successful_timestamp :: u32
  am_calls :: "adv_mqtt_call list"

record adv_mqtt_env =
  am_env :: mqtt_env
  am_time_is_synchronized :: bool
  am_time :: u32
  am_received_advs :: u32
  am_tick :: u32
  am_cfg_ntp_use :: bool
  am_cfg_use_mqtt :: bool
  am_cfg_sending_interval :: u32

definition am_call :: "adv_mqtt_call \<Rightarrow> adv_mqtt_world \<Rightarrow> adv_mqtt_world" where
  "am_call c w = w\<lparr>am_calls := am_calls w @ [c]\<rparr>"

definition adv_mqtt_timers_start_timer_sig_watchdog_feed :: "adv_mqtt_world \<Rightarrow> adv_mqtt_world" where
  "adv_mqtt_timers_start_timer_sig_watchdog_feed =
     am_call (Adv_mqtt_timer_start ADV_MQTT_PERIODIC_TIMER_SIG_WATCHDOG_FEED)"

definition adv_mqtt_timers_start_timer_sig_retry_sending_advs :: "adv_mqtt_world \<Rightarrow> adv_mqtt_world" where
  "adv_mqtt_timers_start_timer_sig_retry_sending_advs =
     am_call (Adv_mqtt_timer_start ADV_MQTT_ONE_SHOT_TIMER_SIG_RETRY_SENDING_ADVS)"

definition adv_mqtt_stop :: "adv_mqtt_world \<Rightarrow> adv_mqtt_world" where
  "adv_mqtt_stop = am_call (Adv_mqtt_send_sig ADV_MQTT_SIG_STOP)"

section \<open>Handlers\<close>

definition adv_mqtt_handle_sig_stop :: "adv_mqtt_world \<Rightarrow> adv_mqtt_world" where
  "adv_mqtt_handle_sig_stop w = w\<lparr>am_flag_stop := True\<rparr>"

text \<open>The time stamp of a message.\<close>

definition adv_mqtt_timestamp :: "adv_mqtt_env \<Rightarrow> adv_mqtt_world \<Rightarrow> u32" where
  "adv_mqtt_timestamp E w =
     (let timestamp_if_synchronized = if am_time_is_synchronized E then am_time E else 0
      in if flag_use_ntp (g_adv_mqtt_cfg_cache w) then timestamp_if_synchronized else am_received_advs E)"

definition adv_mqtt_handle_sig_recv_adv :: "adv_mqtt_env \<Rightarrow> adv_mqtt_world \<Rightarrow> adv_mqtt_world" where
  "adv_mqtt_handle_sig_recv_adv E w =
     (if \<not> gw_status_is_mqtt_connected (mq_status (am_mqtt w)) \<or>
         \<not> gw_status_is_relaying_via_mqtt_enabled (mq_status (am_mqtt w)) then w
      else if \<not> flag_mqtt_instant_mode_active (g_adv_mqtt_cfg_cache w) then w
      else if \<not> mqtt_is_buffer_available_for_publish (am_env E)
      then adv_mqtt_timers_start_timer_sig_retry_sending_advs w
      else
        let (t, head) = adv_table_read_retransmission_list3_head (am_table w);
            w = w\<lparr>am_table := t\<rparr>;
            w = (case head of
                None \<Rightarrow> w
              | Some adv_report \<Rightarrow>
                  let (ok, m) = mqtt_publish_adv (am_env E) adv_report (flag_use_ntp (g_adv_mqtt_cfg_cache w))
                        (adv_mqtt_timestamp E w) (am_mqtt w);
                      w = w\<lparr>am_mqtt := m\<rparr>
                  in if ok then w\<lparr>am_last_successful_timestamp := am_tick E\<rparr> else w)
        in if \<not> adv_table_read_retransmission_list3_is_empty (am_table w)
           then am_call (Adv_mqtt_send_sig ADV_MQTT_SIG_ON_RECV_ADV) w else w)"

definition adv_mqtt_handle_sig_mqtt_connected :: "adv_mqtt_env \<Rightarrow> adv_mqtt_world \<Rightarrow> adv_mqtt_world" where
  "adv_mqtt_handle_sig_mqtt_connected E w = w\<lparr>am_mqtt := mqtt_publish_connect (am_env E) (am_mqtt w)\<rparr>"

definition adv_mqtt_handle_sig_task_watchdog_feed :: "adv_mqtt_world \<Rightarrow> adv_mqtt_world" where
  "adv_mqtt_handle_sig_task_watchdog_feed = am_call Adv_mqtt_wdt_reset"

definition adv_mqtt_on_gw_cfg_change :: "adv_mqtt_env \<Rightarrow> adv_mqtt_world \<Rightarrow> adv_mqtt_world" where
  "adv_mqtt_on_gw_cfg_change E w =
     w\<lparr>g_adv_mqtt_cfg_cache := \<lparr>flag_use_ntp = am_cfg_ntp_use E,
        flag_mqtt_instant_mode_active = (am_cfg_use_mqtt E \<and> am_cfg_sending_interval E = 0)\<rparr>\<rparr>"

fun adv_mqtt_sig_handler :: "adv_mqtt_env \<Rightarrow> adv_mqtt_sig \<Rightarrow> adv_mqtt_world \<Rightarrow> adv_mqtt_world" where
  "adv_mqtt_sig_handler E ADV_MQTT_SIG_STOP w = adv_mqtt_handle_sig_stop w"
| "adv_mqtt_sig_handler E ADV_MQTT_SIG_ON_RECV_ADV w = adv_mqtt_handle_sig_recv_adv E w"
| "adv_mqtt_sig_handler E ADV_MQTT_SIG_MQTT_CONNECTED w = adv_mqtt_handle_sig_mqtt_connected E w"
| "adv_mqtt_sig_handler E ADV_MQTT_SIG_TASK_WATCHDOG_FEED w = adv_mqtt_handle_sig_task_watchdog_feed w"
| "adv_mqtt_sig_handler E ADV_MQTT_SIG_GW_CFG_READY w = adv_mqtt_on_gw_cfg_change E w"
| "adv_mqtt_sig_handler E ADV_MQTT_SIG_GW_CFG_CHANGED_RUUVI w = adv_mqtt_on_gw_cfg_change E w"
| "adv_mqtt_sig_handler E ADV_MQTT_SIG_RELAYING_MODE_CHANGED w = w"
| "adv_mqtt_sig_handler E ADV_MQTT_SIG_CFG_MODE_ACTIVATED w = w"
| "adv_mqtt_sig_handler E ADV_MQTT_SIG_CFG_MODE_DEACTIVATED w = adv_mqtt_on_gw_cfg_change E w"

definition adv_mqtt_handle_sig :: "adv_mqtt_env \<Rightarrow> adv_mqtt_sig \<Rightarrow> adv_mqtt_world \<Rightarrow> bool \<times> adv_mqtt_world" where
  "adv_mqtt_handle_sig E s w = (let w = adv_mqtt_sig_handler E s w in (am_flag_stop w, w))"

section \<open>The task\<close>

text \<open>
  One wakeup: the signals that arrived, in the order of their numbers, each with the environment in
  which it is handled; a stop leaves the others. None is the failed assertion.
\<close>

fun adv_mqtt_wakeup :: "(adv_mqtt_env \<times> os_signal_num) list \<Rightarrow> adv_mqtt_world \<Rightarrow> adv_mqtt_world option" where
  "adv_mqtt_wakeup [] w = Some w"
| "adv_mqtt_wakeup ((E, n) # sigs) w =
     (case adv_mqtt_conv_from_sig_num n of
        None \<Rightarrow> None
      | Some s \<Rightarrow>
          let (stop, w) = adv_mqtt_handle_sig E s w in
          if stop then Some w else adv_mqtt_wakeup sigs w)"

definition adv_mqtt_wdt_add_and_start :: "adv_mqtt_world \<Rightarrow> adv_mqtt_world" where
  "adv_mqtt_wdt_add_and_start w = adv_mqtt_timers_start_timer_sig_watchdog_feed (am_call Adv_mqtt_wdt_add w)"

text \<open>The loop over the wakeups of a run, until a stop.\<close>

fun adv_mqtt_task_loop :: "(adv_mqtt_env \<times> os_signal_num) list list \<Rightarrow> adv_mqtt_world \<Rightarrow> adv_mqtt_world option" where
  "adv_mqtt_task_loop [] w = Some w"
| "adv_mqtt_task_loop (sigs # rest) w =
     (if am_flag_stop w then Some w else Option.bind (adv_mqtt_wakeup sigs w) (adv_mqtt_task_loop rest))"

text \<open>
  The whole task, with the event manager it subscribes to: \<open>registered\<close> is the answer of
  \<open>os_signal_register_cur_thread\<close>, \<open>wakeups\<close> is what arrives. It ends when it was stopped.
\<close>

definition adv_mqtt_task ::
  "addr \<Rightarrow> os_signal \<Rightarrow> bool \<Rightarrow> (adv_mqtt_env \<times> os_signal_num) list list \<Rightarrow> event_mgr \<times> adv_mqtt_world \<Rightarrow>
   (event_mgr \<times> adv_mqtt_world) option" where
  "adv_mqtt_task mem sig registered wakeups = (\<lambda>(ev, w).
     (case adv_mqtt_subscribe_events mem sig ev of
        Inl _ \<Rightarrow> None
      | Inr ev \<Rightarrow>
          if \<not> registered
          then (case adv_mqtt_unsubscribe_events mem ev of Inl _ \<Rightarrow> None | Inr ev \<Rightarrow> Some (ev, w))
          else
            (case adv_mqtt_task_loop wakeups ((adv_mqtt_wdt_add_and_start w)\<lparr>am_flag_stop := False\<rparr>) of
               None \<Rightarrow> None
             | Some w \<Rightarrow>
                 if am_flag_stop w
                 then (case adv_mqtt_unsubscribe_events mem ev of
                         Inl _ \<Rightarrow> None
                       | Inr ev \<Rightarrow> Some (ev, am_call Adv_mqtt_wdt_delete w))
                 else Some (ev, w))))"

section \<open>Signal numbers and subscriptions\<close>

lemma conv_sig_num: "adv_mqtt_conv_from_sig_num (adv_mqtt_conv_to_sig_num s) = Some s"
  by (cases s) (simp_all add: adv_mqtt_conv_from_sig_num_def all_adv_mqtt_sigs_def)

lemma conv_from_sig_num_None: "adv_mqtt_conv_from_sig_num n = None \<longleftrightarrow> n > 8"
  by (auto simp: adv_mqtt_conv_from_sig_num_def all_adv_mqtt_sigs_def)

text \<open>The records that a list of subscriptions adds to a queue.\<close>

fun new_entries :: "addr \<Rightarrow> os_signal \<Rightarrow> (event_mgr_ev \<times> adv_mqtt_sig) list \<Rightarrow> event_mgr_ev \<Rightarrow> event_mgr_ev_info list" where
  "new_entries mem sig [] ev = []"
| "new_entries mem sig ((e, n) # evs) ev =
     (if e = ev then [\<lparr>ev_info_addr = mem, p_signal = sig, sig_num = adv_mqtt_conv_to_sig_num n, is_static = True\<rparr>] else [])
     @ new_entries (Suc mem) sig evs ev"

definition mem_unused :: "addr \<Rightarrow> nat \<Rightarrow> event_mgr \<Rightarrow> bool" where
  "mem_unused mem n s \<longleftrightarrow> (\<forall>ev. \<forall>e \<in> set (events s ev). ev_info_addr e < mem \<or> ev_info_addr e \<ge> mem + n)"

lemma subscribe_events_from_result:
  "\<forall>(ev, n) \<in> set evs. ev_in_range ev \<Longrightarrow>
   subscribe_events_from mem sig evs s = Inr (s\<lparr>events := \<lambda>ev. events s ev @ new_entries mem sig evs ev\<rparr>)"
proof (induction mem sig evs s rule: subscribe_events_from.induct)
  case (1 mem sig s)
  then show ?case by simp
next
  case (2 mem sig ev n evs s)
  then show ?case
    by (auto simp: event_mgr_subscribe_sig_static_def Let_def fun_eq_iff intro!: arg_cong [of _ _ "\<lambda>f. s\<lparr>events := f\<rparr>"])
qed

lemma new_entries_none: "ev \<notin> fst ` set evs \<Longrightarrow> new_entries mem sig evs ev = []"
  by (induction evs arbitrary: mem) auto

lemma find_last: "find P xs = None \<Longrightarrow> P x \<Longrightarrow> find P (xs @ [x]) = Some x"
  by (induction xs) (auto split: if_splits)

lemma unsubscribe_events_from_result:
  "\<forall>(ev, n) \<in> set evs. ev_in_range ev \<Longrightarrow> distinct (map fst evs) \<Longrightarrow> mem_unused mem (length evs) s \<Longrightarrow>
   unsubscribe_events_from mem evs (s\<lparr>events := \<lambda>ev. events s ev @ new_entries mem sig evs ev\<rparr>) = Inr s"
proof (induction evs arbitrary: mem)
  case Nil
  then show ?case by simp
next
  case (Cons x evs)
  obtain ev n where x: "x = (ev, n)" by (cases x)
  define i where "i = \<lparr>ev_info_addr = mem, p_signal = sig, sig_num = adv_mqtt_conv_to_sig_num n, is_static = True\<rparr>"
  have none: "new_entries (Suc mem) sig evs ev = []"
    using Cons.prems(2) x by (intro new_entries_none) auto
  have other: "e \<in> set (events s ev) \<Longrightarrow> ev_info_addr e \<noteq> mem" for e
    using Cons.prems(3) by (force simp: mem_unused_def)
  then have "find (\<lambda>e. ev_info_addr e = mem) (events s ev @ [i]) = Some i"
    by (intro find_last) (auto simp: find_None_iff i_def)
  moreover have "i \<notin> set (events s ev)" using other [of i] by (auto simp: i_def)
  then have "remove1 i (events s ev @ [i]) = events s ev" by (simp add: remove1_append)
  moreover have "(\<lambda>e. events s e @ new_entries mem sig (x # evs) e)(ev := events s ev) =
      (\<lambda>e. events s e @ new_entries (Suc mem) sig evs e)"
    using none by (auto simp: x fun_eq_iff)
  ultimately have "event_mgr_unsubscribe_sig_static mem ev
      (s\<lparr>events := \<lambda>e. events s e @ new_entries mem sig (x # evs) e\<rparr>) =
      Inr (s\<lparr>events := \<lambda>e. events s e @ new_entries (Suc mem) sig evs e\<rparr>)"
    using Cons.prems(1) none by (simp add: event_mgr_unsubscribe_sig_static_def x i_def)
  moreover have "mem_unused (Suc mem) (length evs) s" using Cons.prems(3) by (force simp: mem_unused_def)
  ultimately show ?case using Cons by (simp add: x)
qed

lemma adv_mqtt_events_ok:
  "\<forall>(ev, n) \<in> set g_adv_mqtt_ev_to_sig. ev_in_range ev" "distinct (map fst g_adv_mqtt_ev_to_sig)"
  "length g_adv_mqtt_ev_to_sig = 7"
  by (simp_all add: g_adv_mqtt_ev_to_sig_def ev_in_range_def)

lemma notify_new_entries:
  assumes "distinct (map fst evs)" and "\<forall>(ev, n) \<in> set evs. ev_in_range ev"
  shows "event_mgr_notify ev (s\<lparr>events := \<lambda>ev. events s ev @ new_entries mem sig evs ev\<rparr>) =
    event_mgr_notify ev s @ (case map_of evs ev of None \<Rightarrow> [] | Some n \<Rightarrow> [(sig, adv_mqtt_conv_to_sig_num n)])"
proof -
  have "map (\<lambda>e. (p_signal e, sig_num e)) (new_entries mem sig evs ev) =
      (case map_of evs ev of None \<Rightarrow> [] | Some n \<Rightarrow> [(sig, adv_mqtt_conv_to_sig_num n)])"
    using assms(1) by (induction mem sig evs ev rule: new_entries.induct) (auto simp: new_entries_none)
  moreover have "map_of evs ev = None" if "\<not> ev_in_range ev"
    using assms(2) that by (auto simp: map_of_eq_None_iff)
  ultimately show ?thesis by (simp add: event_mgr_notify_def)
qed

section \<open>Relaying\<close>

text \<open>The conditions under which the task relays.\<close>

definition relays_now :: "adv_mqtt_world \<Rightarrow> bool" where
  "relays_now w \<longleftrightarrow> gw_status_is_mqtt_connected (mq_status (am_mqtt w)) \<and>
     gw_status_is_relaying_via_mqtt_enabled (mq_status (am_mqtt w)) \<and>
     flag_mqtt_instant_mode_active (g_adv_mqtt_cfg_cache w)"

definition am_pending :: "adv_mqtt_world \<Rightarrow> adv_report list" where
  "am_pending w = map (report_at (am_table w)) (g_adv_reports_retransmission_list (am_table w) RList3)"

lemma buffer_available [simp]: "mqtt_is_buffer_available_for_publish E"
  by (simp add: mqtt_is_buffer_available_for_publish_def MQTT_QOS_def)

lemma publish_adv_status [simp]:
  "mq_status (snd (mqtt_publish_adv E adv use_ts ts m)) = mq_status m"
  by (auto simp: mqtt_publish_adv_def esp_mqtt_client_publish_def Let_def split: option.split)

text \<open>What handling one signal does while the task relays and a report is pending.\<close>

definition relay_one :: "adv_mqtt_env \<Rightarrow> adv_report \<Rightarrow> adv_mqtt_world \<Rightarrow> adv_mqtt_world" where
  "relay_one E r w =
     (let p = mqtt_publish_adv (am_env E) r (flag_use_ntp (g_adv_mqtt_cfg_cache w)) (adv_mqtt_timestamp E w) (am_mqtt w) in
      w\<lparr>am_table := rlist_pop RList3 (am_table w), am_mqtt := snd p,
        am_last_successful_timestamp := (if fst p then am_tick E else am_last_successful_timestamp w),
        am_calls := am_calls w @ (if length (am_pending w) > 1 then [Adv_mqtt_send_sig ADV_MQTT_SIG_ON_RECV_ADV] else [])\<rparr>)"

lemma recv_adv_relays:
  assumes "relays_now w" and "am_pending w = r # rs"
  shows "adv_mqtt_handle_sig_recv_adv E w = relay_one E r w"
proof -
  obtain i js where q: "g_adv_reports_retransmission_list (am_table w) RList3 = i # js"
    and r: "report_at (am_table w) i = r" and rs: "map (report_at (am_table w)) js = rs"
    using assms(2) by (auto simp: am_pending_def)
  obtain ok m where p: "mqtt_publish_adv (am_env E) r (flag_use_ntp (g_adv_mqtt_cfg_cache w)) (adv_mqtt_timestamp E w)
      (am_mqtt w) = (ok, m)" by fastforce
  have ts: "adv_mqtt_timestamp E (w\<lparr>am_table := t\<rparr>) = adv_mqtt_timestamp E w" for t
    by (simp add: adv_mqtt_timestamp_def)
  have n: "length (am_pending w) > 1 \<longleftrightarrow> js \<noteq> []" using q by (auto simp: am_pending_def)
  define v where "v = w\<lparr>am_table := rlist_pop RList3 (am_table w), am_mqtt := m,
    am_last_successful_timestamp := (if ok then am_tick E else am_last_successful_timestamp w)\<rparr>"
  have "adv_mqtt_handle_sig_recv_adv E w = (if js \<noteq> [] then am_call (Adv_mqtt_send_sig ADV_MQTT_SIG_ON_RECV_ADV) v else v)"
    using assms(1) q r p ts
    by (auto simp: adv_mqtt_handle_sig_recv_adv_def relays_now_def Let_def v_def
      adv_table_read_retransmission_list3_head_def adv_table_read_retransmission_list3_is_empty_def)
  also have "\<dots> = relay_one E r w"
    using n p by (cases w) (auto simp: relay_one_def v_def am_call_def)
  finally show ?thesis .
qed

lemma recv_adv_idle:
  "\<not> relays_now w \<Longrightarrow> adv_mqtt_handle_sig_recv_adv E w = w"
  "am_pending w = [] \<Longrightarrow> adv_mqtt_handle_sig_recv_adv E w = w"
  by (auto simp: adv_mqtt_handle_sig_recv_adv_def relays_now_def am_pending_def
    adv_table_read_retransmission_list3_head_def adv_table_read_retransmission_list3_is_empty_def)

lemma relay_one_parts:
  assumes "am_pending w = r # rs"
  shows "am_pending (relay_one E r w) = rs" and "relays_now (relay_one E r w) = relays_now w"
    and "g_adv_mqtt_cfg_cache (relay_one E r w) = g_adv_mqtt_cfg_cache w"
  using assms by (auto simp: relay_one_def am_pending_def relays_now_def Let_def)

lemma adv_mqtt_timestamp_relay [simp]: "adv_mqtt_timestamp E (relay_one E r w) = adv_mqtt_timestamp E w"
  by (simp add: adv_mqtt_timestamp_def relay_one_def Let_def)

section \<open>The task among the others\<close>

text \<open>
  What happens around the task: it handles a signal; another task works on the table of
  advertisements, starts or stops the MQTT client, or the client delivers an event.
\<close>

datatype am_event =
  Am_signal adv_mqtt_env adv_mqtt_sig
| Am_table adv_table_op
| Am_mqtt mqtt_env mqtt_op

fun am_step :: "adv_mqtt_world option \<Rightarrow> am_event \<Rightarrow> adv_mqtt_world option" where
  "am_step s (Am_signal E sig) = map_option (\<lambda>w. snd (adv_mqtt_handle_sig E sig w)) s"
| "am_step s (Am_table x) = map_option (\<lambda>w. w\<lparr>am_table := adv_table_step (am_table w) x\<rparr>) s"
| "am_step s (Am_mqtt E x) = Option.bind s (\<lambda>w. map_option (\<lambda>m. w\<lparr>am_mqtt := m\<rparr>) (mqtt_exec E x (am_mqtt w)))"

fun am_enabled :: "adv_mqtt_world option \<Rightarrow> am_event \<Rightarrow> bool" where
  "am_enabled (Some w) (Am_mqtt E x) = mqtt_enabled (Some (am_mqtt w)) (E, x)"
| "am_enabled _ _ = True"

definition am_inv :: "adv_mqtt_world option \<Rightarrow> bool" where
  "am_inv s \<longleftrightarrow> (\<exists>w. s = Some w \<and> adv_table_inv (am_table w) \<and> mqtt_inv (am_mqtt w))"

lemma list3_head_inv: "adv_table_inv t \<Longrightarrow> adv_table_inv (fst (adv_table_read_retransmission_list3_head t))"
  using adv_tbl.step_inv [of t Op_list3_head] by simp

lemma recv_adv_inv:
  assumes "adv_table_inv (am_table w)" and "mqtt_inv (am_mqtt w)"
  shows "adv_table_inv (am_table (adv_mqtt_handle_sig_recv_adv E w)) \<and> mqtt_inv (am_mqtt (adv_mqtt_handle_sig_recv_adv E w))"
proof (cases "relays_now w")
  case False
  with assms show ?thesis by (simp add: recv_adv_idle)
next
  case True
  show ?thesis
  proof (cases "am_pending w")
    case Nil
    with assms show ?thesis by (simp add: recv_adv_idle)
  next
    case (Cons r rs)
    have "adv_table_inv (rlist_pop RList3 (am_table w))"
      using list3_head_inv [OF assms(1)] Cons
      by (auto simp: adv_table_read_retransmission_list3_head_def am_pending_def Let_def)
    with assms(2) publish_adv_inv show ?thesis
      unfolding recv_adv_relays [OF True Cons] by (simp add: relay_one_def Let_def)
  qed
qed

lemma am_step_inv: "am_inv s \<Longrightarrow> am_enabled s e \<Longrightarrow> am_inv (am_step s e)"
proof -
  assume inv: "am_inv s" and en: "am_enabled s e"
  then obtain w where s: "s = Some w" and t: "adv_table_inv (am_table w)" and m: "mqtt_inv (am_mqtt w)"
    by (auto simp: am_inv_def)
  show "am_inv (am_step s e)"
  proof (cases e)
    case (Am_signal E sig)
    show ?thesis
      using t m recv_adv_inv [OF t m, of E] publish_state_inv [OF m, of "am_env E" STATE_ONLINE]
      by (cases sig) (simp_all add: Am_signal s am_inv_def adv_mqtt_handle_sig_def Let_def
        adv_mqtt_handle_sig_stop_def adv_mqtt_handle_sig_mqtt_connected_def mqtt_publish_connect_def
        adv_mqtt_handle_sig_task_watchdog_feed_def adv_mqtt_on_gw_cfg_change_def am_call_def)
  next
    case (Am_table x)
    with t m s adv_tbl.step_inv [OF t, of x] show ?thesis by (simp add: am_inv_def)
  next
    case (Am_mqtt E x)
    from en have "mqtt_enabled (Some (am_mqtt w)) (E, x)" by (simp add: s Am_mqtt)
    from mqtt_exec_inv [OF m this] t show ?thesis by (auto simp: am_inv_def s Am_mqtt)
  qed
qed

interpretation am_machine: event_machine am_step am_inv am_enabled
  by unfold_locales (rule am_step_inv)

text \<open>The configuration that a signal leaves in the cache of the task.\<close>

fun cache_after :: "adv_mqtt_cfg_cache \<Rightarrow> am_event \<Rightarrow> adv_mqtt_cfg_cache" where
  "cache_after c (Am_signal E sig) =
     (if sig \<in> {ADV_MQTT_SIG_GW_CFG_READY, ADV_MQTT_SIG_GW_CFG_CHANGED_RUUVI, ADV_MQTT_SIG_CFG_MODE_DEACTIVATED}
      then \<lparr>flag_use_ntp = am_cfg_ntp_use E,
            flag_mqtt_instant_mode_active = (am_cfg_use_mqtt E \<and> am_cfg_sending_interval E = 0)\<rparr>
      else c)"
| "cache_after c _ = c"

lemma recv_adv_cache [simp]:
  "g_adv_mqtt_cfg_cache (adv_mqtt_handle_sig_recv_adv E w) = g_adv_mqtt_cfg_cache w"
proof (cases "relays_now w \<and> am_pending w \<noteq> []")
  case True
  then obtain r rs where "am_pending w = r # rs" by (cases "am_pending w") auto
  with True show ?thesis by (simp add: recv_adv_relays relay_one_def Let_def)
next
  case False
  then show ?thesis using recv_adv_idle [of w E] by auto
qed

lemma am_step_cache:
  "am_step (Some w) e = Some w' \<Longrightarrow> g_adv_mqtt_cfg_cache w' = cache_after (g_adv_mqtt_cfg_cache w) e"
proof (induction e)
  case (Am_signal E sig)
  then show ?case
    by (cases sig) (auto simp: adv_mqtt_handle_sig_def Let_def adv_mqtt_handle_sig_stop_def
      adv_mqtt_handle_sig_mqtt_connected_def adv_mqtt_handle_sig_task_watchdog_feed_def
      adv_mqtt_on_gw_cfg_change_def am_call_def)
qed auto

lemma am_run_cache:
  "am_inv (Some w) \<Longrightarrow> enabled_run am_step am_enabled (Some w) es \<Longrightarrow>
   \<exists>w'. run_events am_step (Some w) es = Some w' \<and> am_inv (Some w') \<and>
     g_adv_mqtt_cfg_cache w' = run_events cache_after (g_adv_mqtt_cfg_cache w) es"
proof (induction es arbitrary: w)
  case Nil
  then show ?case by simp
next
  case (Cons e es)
  then have "am_inv (am_step (Some w) e)" by (intro am_machine.step_inv) simp_all
  then obtain w1 where w1: "am_step (Some w) e = Some w1" "am_inv (Some w1)" by (auto simp: am_inv_def)
  with Cons.IH [of w1] Cons.prems am_step_cache [OF w1(1)] show ?case by auto
qed

section \<open>Properties\<close>

lemma relay_run:
  "relays_now w \<Longrightarrow> am_pending w = rs \<Longrightarrow>
   am_pending ((adv_mqtt_handle_sig_recv_adv E ^^ length rs) w) = [] \<and>
   rlist_emptied RList3 (am_table w) (am_table ((adv_mqtt_handle_sig_recv_adv E ^^ length rs) w)) \<and>
   am_mqtt ((adv_mqtt_handle_sig_recv_adv E ^^ length rs) w) =
     fold (\<lambda>r m. snd (mqtt_publish_adv (am_env E) r (flag_use_ntp (g_adv_mqtt_cfg_cache w)) (adv_mqtt_timestamp E w) m))
       rs (am_mqtt w) \<and>
   am_calls ((adv_mqtt_handle_sig_recv_adv E ^^ length rs) w) =
     am_calls w @ replicate (length rs - 1) (Adv_mqtt_send_sig ADV_MQTT_SIG_ON_RECV_ADV)"
proof (induction rs arbitrary: w)
  case Nil
  then show ?case by (auto simp: rlist_emptied_def am_pending_def fun_eq_iff)
next
  case (Cons r rs)
  define w1 where "w1 = relay_one E r w"
  note parts = relay_one_parts [OF Cons.prems(2), of E, folded w1_def]
  have step: "(adv_mqtt_handle_sig_recv_adv E ^^ length (r # rs)) w = (adv_mqtt_handle_sig_recv_adv E ^^ length rs) w1"
    unfolding w1_def recv_adv_relays [OF Cons.prems, symmetric]
    by (simp only: length_Cons funpow_Suc_right o_apply)
  have "relays_now w1" using Cons.prems(1) parts(2) by simp
  note IH = Cons.IH [OF this parts(1)]
  obtain i js where "g_adv_reports_retransmission_list (am_table w) RList3 = i # js"
    using Cons.prems(2) by (auto simp: am_pending_def)
  moreover have "am_table w1 = rlist_pop RList3 (am_table w)" by (simp add: w1_def relay_one_def Let_def)
  ultimately have "rlist_emptied RList3 (am_table w) t" if "rlist_emptied RList3 (am_table w1) t" for t
    using that rlist_emptied_pop by metis
  moreover have "am_mqtt w1 = snd (mqtt_publish_adv (am_env E) r (flag_use_ntp (g_adv_mqtt_cfg_cache w))
      (adv_mqtt_timestamp E w) (am_mqtt w))" by (simp add: w1_def relay_one_def Let_def)
  moreover have "adv_mqtt_timestamp E w1 = adv_mqtt_timestamp E w" by (simp add: w1_def)
  moreover have "am_calls w1 = am_calls w @ (if rs \<noteq> [] then [Adv_mqtt_send_sig ADV_MQTT_SIG_ON_RECV_ADV] else [])"
    using Cons.prems(2) by (simp add: w1_def relay_one_def Let_def)
  moreover have "[Adv_mqtt_send_sig ADV_MQTT_SIG_ON_RECV_ADV] @ replicate (length rs - 1) (Adv_mqtt_send_sig ADV_MQTT_SIG_ON_RECV_ADV)
      = replicate (length rs) (Adv_mqtt_send_sig ADV_MQTT_SIG_ON_RECV_ADV)" if "rs \<noteq> []"
    using that by (cases rs) simp_all
  ultimately show ?case unfolding step using IH parts(3) by auto
qed

text \<open>C17: The instant mode relays every pending advertisement once. If the broker is connected, relaying over
  MQTT is not suspended and the configuration has the instant mode, then handling the signal
  ON_RECV_ADV as often as advertisements are pending publishes each of them exactly once, in the
  order in which they became pending, with one time stamp, and empties the third list; the other two
  lists, the history and the reports stay. The task sends itself the signal after each of them but the
  last, so the first signal is enough. An advertisement that the client does not accept is not
  repeated. Under any other condition the signal changes nothing and the advertisements stay pending.\<close>

theorem adv_mqtt_relays_pending:
  fixes E w
  defines "w' \<equiv> (adv_mqtt_handle_sig_recv_adv E ^^ length (am_pending w)) w"
  shows "if relays_now w
    then am_pending w' = [] \<and> rlist_emptied RList3 (am_table w) (am_table w') \<and>
      am_mqtt w' = fold (\<lambda>r m. snd (mqtt_publish_adv (am_env E) r (flag_use_ntp (g_adv_mqtt_cfg_cache w))
        (adv_mqtt_timestamp E w) m)) (am_pending w) (am_mqtt w) \<and>
      am_calls w' = am_calls w @ replicate (length (am_pending w) - 1) (Adv_mqtt_send_sig ADV_MQTT_SIG_ON_RECV_ADV)
    else w' = w"
proof (cases "relays_now w")
  case True
  with relay_run [OF True refl] show ?thesis by (simp add: w'_def)
next
  case False
  then have "(adv_mqtt_handle_sig_recv_adv E ^^ n) w = w" for n
    by (induction n) (simp_all add: recv_adv_idle)
  with False show ?thesis by (simp add: w'_def)
qed

definition sim_am_env :: adv_mqtt_env where
  "sim_am_env = \<lparr>am_env = sim_mqtt_env, am_time_is_synchronized = True, am_time = 1700000000, am_received_advs = 5,
     am_tick = 100, am_cfg_ntp_use = True, am_cfg_use_mqtt = True, am_cfg_sending_interval = 0\<rparr>"

definition sim_am_world :: adv_mqtt_world where
  "sim_am_world = \<lparr>am_table = adv_table_init, am_mqtt = mqtt_initial sim_mqtt_status,
     g_adv_mqtt_cfg_cache = \<lparr>flag_use_ntp = False, flag_mqtt_instant_mode_active = False\<rparr>,
     am_flag_stop = False, am_last_successful_timestamp = 0, am_calls = []\<rparr>"

text \<open>C18: The task among the others. Let the table be consistent and the MQTT module not used yet. In every
  run in which the task handles signals while other tasks work on the table, start and stop the client,
  and the client delivers events, the table stays consistent and the life of the client is kept to;
  and the cached configuration of the task is the one read at the last of the signals GW_CFG_READY,
  GW_CFG_CHANGED_RUUVI and CFG_MODE_DEACTIVATED: the instant mode is active exactly when MQTT was in use
  then with a sending interval of zero.\<close>

theorem adv_mqtt_run_consistent:
  assumes "adv_table_inv (am_table w)" and "mqtt_inv (am_mqtt w)" and "enabled_run am_step am_enabled (Some w) es"
  shows "\<exists>w'. run_events am_step (Some w) es = Some w' \<and> adv_table_inv (am_table w') \<and> mqtt_inv (am_mqtt w') \<and>
    g_adv_mqtt_cfg_cache w' = run_events cache_after (g_adv_mqtt_cfg_cache w) es"
proof -
  have "am_inv (Some w)" using assms(1,2) by (simp add: am_inv_def)
  from am_run_cache [OF this assms(3)] show ?thesis by (auto simp: am_inv_def)
qed

lemma sim_am_inv: "adv_table_inv (am_table sim_am_world)" "mqtt_inv (am_mqtt sim_am_world)"
  by (simp_all add: sim_am_world_def adv_table_inv_init mqtt_initial_inv sim_status_view)

theorem adv_mqtt_run_consistent_witness:
  "\<exists>w'. run_events am_step (Some sim_am_world)
      [Am_signal sim_am_env ADV_MQTT_SIG_GW_CFG_READY, Am_table Op_clear,
       Am_signal sim_am_env ADV_MQTT_SIG_MQTT_CONNECTED] = Some w' \<and>
    adv_table_inv (am_table w') \<and> flag_mqtt_instant_mode_active (g_adv_mqtt_cfg_cache w')"
  using adv_mqtt_run_consistent [OF sim_am_inv, of "[Am_signal sim_am_env ADV_MQTT_SIG_GW_CFG_READY, Am_table Op_clear,
       Am_signal sim_am_env ADV_MQTT_SIG_MQTT_CONNECTED]"]
  by (auto simp: sim_am_env_def)

text \<open>The subscriptions of the task. While it runs, each of its seven events sends the mapped
  signal number to its signal object, after the notifications of the earlier subscribers, and no
  other event sends anything new. When it could not be registered, or when it has been stopped, it has taken
  back its subscriptions, and the event manager is as it was; no unsubscription dereferences NULL.\<close>

theorem adv_mqtt_task_subscriptions:
  assumes "mem_unused mem 7 ev"
    and "\<not> registered \<or> adv_mqtt_task_loop wakeups ((adv_mqtt_wdt_add_and_start w)\<lparr>am_flag_stop := False\<rparr>) \<noteq> None"
  shows "\<exists>ev' w'. adv_mqtt_task mem sig registered wakeups (ev, w) = Some (ev', w') \<and>
    (if \<not> registered \<or> am_flag_stop w' then ev' = ev
     else \<forall>e. event_mgr_notify e ev' = event_mgr_notify e ev @
       (case map_of g_adv_mqtt_ev_to_sig e of None \<Rightarrow> [] | Some n \<Rightarrow> [(sig, adv_mqtt_conv_to_sig_num n)]))"
proof -
  define ev1 where "ev1 = ev\<lparr>events := \<lambda>e. events ev e @ new_entries mem sig g_adv_mqtt_ev_to_sig e\<rparr>"
  have sub: "adv_mqtt_subscribe_events mem sig ev = Inr ev1"
    unfolding adv_mqtt_subscribe_events_def ev1_def
    by (rule subscribe_events_from_result [OF adv_mqtt_events_ok(1)])
  have unsub: "adv_mqtt_unsubscribe_events mem ev1 = Inr ev"
    unfolding adv_mqtt_unsubscribe_events_def ev1_def
    by (rule unsubscribe_events_from_result [OF adv_mqtt_events_ok(1,2)]) (simp only: assms(1) adv_mqtt_events_ok(3))
  have notifies: "event_mgr_notify e ev1 = event_mgr_notify e ev @
      (case map_of g_adv_mqtt_ev_to_sig e of None \<Rightarrow> [] | Some n \<Rightarrow> [(sig, adv_mqtt_conv_to_sig_num n)])" for e
    unfolding ev1_def by (rule notify_new_entries [OF adv_mqtt_events_ok(2,1)])
  show ?thesis
  proof (cases registered)
    case False
    with sub unsub show ?thesis by (simp add: adv_mqtt_task_def)
  next
    case True
    with assms(2) obtain w1 where
      "adv_mqtt_task_loop wakeups ((adv_mqtt_wdt_add_and_start w)\<lparr>am_flag_stop := False\<rparr>) = Some w1" by auto
    with True sub unsub notifies show ?thesis
      by (cases "am_flag_stop w1") (simp_all add: adv_mqtt_task_def am_call_def)
  qed
qed

theorem adv_mqtt_task_subscriptions_witness:
  "\<exists>ev' w'. adv_mqtt_task 100 1 True [[(sim_am_env, 4)]] (\<lparr>mutex_created = True, events = (\<lambda>_. []), allocated = {}\<rparr>, sim_am_world) =
      Some (ev', w') \<and> event_mgr_notify EVENT_MGR_EV_RECV_ADV ev' = [(1, 1)]"
proof -
  let ?ev = "\<lparr>mutex_created = True, events = (\<lambda>_. []), allocated = {}\<rparr> :: event_mgr"
  have unused: "mem_unused 100 7 ?ev" by (simp add: mem_unused_def)
  have run: "\<exists>w1. adv_mqtt_task_loop [[(sim_am_env, 4)]] ((adv_mqtt_wdt_add_and_start sim_am_world)\<lparr>am_flag_stop := False\<rparr>) = Some w1 \<and>
      \<not> am_flag_stop w1"
    by (simp add: adv_mqtt_conv_from_sig_num_def all_adv_mqtt_sigs_def adv_mqtt_handle_sig_def adv_mqtt_on_gw_cfg_change_def)
  then obtain w1 where w1: "adv_mqtt_task_loop [[(sim_am_env, 4)]]
      ((adv_mqtt_wdt_add_and_start sim_am_world)\<lparr>am_flag_stop := False\<rparr>) = Some w1" "\<not> am_flag_stop w1" by blast
  with adv_mqtt_task_subscriptions [OF unused, of True "[[(sim_am_env, 4)]]" sim_am_world 1]
  obtain ev' w' where task: "adv_mqtt_task 100 1 True [[(sim_am_env, 4)]] (?ev, sim_am_world) = Some (ev', w')"
    and res: "if am_flag_stop w' then ev' = ?ev else \<forall>e. event_mgr_notify e ev' = event_mgr_notify e ?ev @
       (case map_of g_adv_mqtt_ev_to_sig e of None \<Rightarrow> [] | Some n \<Rightarrow> [(1, adv_mqtt_conv_to_sig_num n)])" by auto
  have "w' = w1"
    using task w1 subscribe_events_from_result [OF adv_mqtt_events_ok(1), of 100 1 ?ev]
    by (simp add: adv_mqtt_task_def adv_mqtt_subscribe_events_def)
  with w1(2) res have "event_mgr_notify EVENT_MGR_EV_RECV_ADV ev' = event_mgr_notify EVENT_MGR_EV_RECV_ADV ?ev @ [(1, 1)]"
    by (simp add: g_adv_mqtt_ev_to_sig_def)
  with task show ?thesis by (auto simp: event_mgr_notify_def)
qed

end
