(* ===== verification/Main_World.thy ===== *)
theory Main_World
  imports Mqtt Gw_Cfg
begin

text \<open>
  The state and the environment that the main task, the network, the reset task and the time task share, and
  \<open>ethernet.c\<close>, which they call. What these tasks ask of the WiFi manager, of the drivers and of each other is
  recorded in \<open>ml_calls\<close> in the order of the calls; what is answered during one activation is the argument \<open>E\<close>.
\<close>

unbundle bit_operations_syntax

section \<open>Signals and timers\<close>

datatype main_task_sig =
  MAIN_TASK_SIG_LOG_HEAP_USAGE | MAIN_TASK_SIG_CHECK_FOR_FW_UPDATES
| MAIN_TASK_SIG_SCHEDULE_NEXT_CHECK_FOR_FW_UPDATES | MAIN_TASK_SIG_SCHEDULE_RETRY_CHECK_FOR_FW_UPDATES
| MAIN_TASK_SIG_DEFERRED_ETHERNET_ACTIVATION | MAIN_TASK_SIG_WIFI_AP_STARTED | MAIN_TASK_SIG_WIFI_AP_STOPPED
| MAIN_TASK_SIG_ACTIVATE_CFG_MODE | MAIN_TASK_SIG_DEACTIVATE_CFG_MODE | MAIN_TASK_SIG_TASK_RESTART_SERVICES
| MAIN_TASK_SIG_CHECK_FOR_REMOTE_CFG | MAIN_TASK_SIG_NETWORK_CONNECTED | MAIN_TASK_SIG_NETWORK_DISCONNECTED
| MAIN_TASK_SIG_RECONNECT_NETWORK | MAIN_TASK_SIG_SET_DEFAULT_CONFIG | MAIN_TASK_SIG_ON_GET_HISTORY
| MAIN_TASK_SIG_ON_GET_HISTORY_TIMEOUT | MAIN_TASK_SIG_RELAYING_MODE_CHANGED | MAIN_TASK_SIG_LOG_RUNTIME_STAT
| MAIN_TASK_SIG_TASK_WATCHDOG_FEED

text \<open>In the order of their numbers, which begin at 0.\<close>

definition all_main_task_sigs :: "main_task_sig list" where
  "all_main_task_sigs = [MAIN_TASK_SIG_LOG_HEAP_USAGE, MAIN_TASK_SIG_CHECK_FOR_FW_UPDATES,
     MAIN_TASK_SIG_SCHEDULE_NEXT_CHECK_FOR_FW_UPDATES, MAIN_TASK_SIG_SCHEDULE_RETRY_CHECK_FOR_FW_UPDATES,
     MAIN_TASK_SIG_DEFERRED_ETHERNET_ACTIVATION, MAIN_TASK_SIG_WIFI_AP_STARTED, MAIN_TASK_SIG_WIFI_AP_STOPPED,
     MAIN_TASK_SIG_ACTIVATE_CFG_MODE, MAIN_TASK_SIG_DEACTIVATE_CFG_MODE, MAIN_TASK_SIG_TASK_RESTART_SERVICES,
     MAIN_TASK_SIG_CHECK_FOR_REMOTE_CFG, MAIN_TASK_SIG_NETWORK_CONNECTED, MAIN_TASK_SIG_NETWORK_DISCONNECTED,
     MAIN_TASK_SIG_RECONNECT_NETWORK, MAIN_TASK_SIG_SET_DEFAULT_CONFIG, MAIN_TASK_SIG_ON_GET_HISTORY,
     MAIN_TASK_SIG_ON_GET_HISTORY_TIMEOUT, MAIN_TASK_SIG_RELAYING_MODE_CHANGED,
     MAIN_TASK_SIG_LOG_RUNTIME_STAT, MAIN_TASK_SIG_TASK_WATCHDOG_FEED]"

definition main_task_conv_to_sig_num :: "main_task_sig \<Rightarrow> os_signal_num" where
  "main_task_conv_to_sig_num s = length (takeWhile (\<lambda>t. t \<noteq> s) all_main_task_sigs)"

text \<open>None is the failed assertion for a number out of range.\<close>

definition main_task_conv_from_sig_num :: "os_signal_num \<Rightarrow> main_task_sig option" where
  "main_task_conv_from_sig_num n =
     (if n < length all_main_task_sigs then Some (all_main_task_sigs ! n) else None)"

datatype main_timer =
  Timer_log_heap_usage | Timer_log_runtime_stat | Timer_check_for_fw_updates | Timer_deactivate_cfg_mode
| Timer_check_for_remote_cfg | Timer_get_history_timeout | Timer_task_watchdog_feed
| Timer_deferred_ethernet_activation

definition MAIN_TASK_LOG_HEAP_STAT_PERIOD_MS :: u32 where "MAIN_TASK_LOG_HEAP_STAT_PERIOD_MS = 100"
definition MAIN_TASK_LOG_HEAP_USAGE_PERIOD_SECONDS :: u32 where "MAIN_TASK_LOG_HEAP_USAGE_PERIOD_SECONDS = 10"
definition MAIN_TASK_CHECK_FOR_REMOTE_CFG_PERIOD_MS :: u32 where
  "MAIN_TASK_CHECK_FOR_REMOTE_CFG_PERIOD_MS = 60 * 60 * 1000"
definition MAIN_TASK_GET_HISTORY_TIMEOUT_MS :: u32 where "MAIN_TASK_GET_HISTORY_TIMEOUT_MS = 70 * 1000"
definition MAIN_TASK_LOG_RUNTIME_STAT_PERIOD_MS :: u32 where "MAIN_TASK_LOG_RUNTIME_STAT_PERIOD_MS = 30 * 1000"
definition MAIN_TASK_WATCHDOG_FEED_PERIOD_MS :: u32 where "MAIN_TASK_WATCHDOG_FEED_PERIOD_MS = 1 * 1000"
definition RUUVI_NUM_BYTES_IN_1KB :: u32 where "RUUVI_NUM_BYTES_IN_1KB = 1024"
definition RUUVI_FREE_HEAP_LIM_KIB :: u32 where "RUUVI_FREE_HEAP_LIM_KIB = 50"
definition RUUVI_MAX_LOW_HEAP_MEM_CNT_main :: u32 where "RUUVI_MAX_LOW_HEAP_MEM_CNT_main = 5"
definition RUUVI_CHECK_FOR_FW_UPDATES_DELAY_AFTER_REBOOT_SECONDS :: u32 where
  "RUUVI_CHECK_FOR_FW_UPDATES_DELAY_AFTER_REBOOT_SECONDS = 40 * 60"
definition RUUVI_CHECK_FOR_FW_UPDATES_DELAY_AFTER_SUCCESS_SECONDS :: u32 where
  "RUUVI_CHECK_FOR_FW_UPDATES_DELAY_AFTER_SUCCESS_SECONDS = 12 * 60 * 60"
definition RUUVI_CHECK_FOR_FW_UPDATES_DELAY_BEFORE_RETRY_SECONDS :: u32 where
  "RUUVI_CHECK_FOR_FW_UPDATES_DELAY_BEFORE_RETRY_SECONDS = 40 * 60"
definition RUUVI_CFG_MODE_DEACTIVATION_DEFAULT_DELAY_SEC :: u32 where
  "RUUVI_CFG_MODE_DEACTIVATION_DEFAULT_DELAY_SEC = 60"
definition RUUVI_DELAY_BEFORE_ETHERNET_ACTIVATION_ON_FIRST_BOOT_SEC :: u32 where
  "RUUVI_DELAY_BEFORE_ETHERNET_ACTIVATION_ON_FIRST_BOOT_SEC = 60"

section \<open>State\<close>

datatype force_start_wifi_hotspot = FORCE_START_WIFI_HOTSPOT_DISABLED | FORCE_START_WIFI_HOTSPOT_ONCE

datatype http_server_user_req_code =
  HTTP_SERVER_USER_REQ_CODE_DOWNLOAD_LATEST_RELEASE_INFO | HTTP_SERVER_USER_REQ_CODE_DOWNLOAD_GW_CFG

datatype eth_dns_type = ESP_NETIF_DNS_MAIN | ESP_NETIF_DNS_BACKUP | ESP_NETIF_DNS_FALLBACK

datatype eth_init_call =
  Esp_netif_new | Esp_eth_set_default_handlers | Esp_event_handler_register_eth | Esp_event_handler_register_ip
| Esp_eth_driver_install | Esp_eth_new_netif_glue | Esp_netif_attach

datatype dhcpc_stop_result = Dhcpc_stopped | Dhcpc_already_stopped | Dhcpc_stop_failed

datatype update_reason = UPDATE_CONNECTION_OK | UPDATE_LOST_CONNECTION | UPDATE_USER_DISCONNECT

datatype reset_timer = Reset_by_configure_button | Reset_by_command | Uptime_counter | Watchdog_feed

datatype sntp_sync_mode = SNTP_SYNC_MODE_IMMED | SNTP_SYNC_MODE_SMOOTH

text \<open>\<open>Main_timer_null\<close> is a call with a timer that was deleted.\<close>

datatype main_call =
  Main_timer_start main_timer
| Main_timer_stop main_timer
| Main_timer_restart main_timer u32
| Main_timer_delete main_timer
| Main_timer_simulate main_timer
| Main_timer_null
| Main_send_sig main_task_sig
| Main_user_req http_server_user_req_code
| Main_mdns_init
| Main_mdns_hostname_set
| Main_mdns_instance_name_set
| Main_mdns_service_add u16
| Main_mdns_free
| Main_write_force_start_wifi_hotspot force_start_wifi_hotspot
| Main_write_rebooting_after_auto_update bool
| Main_network_timeout_update
| Tls_clear_session_tickets
| Nrf_send_settings
| Storage_write_file string
| Storage_delete_file string
| Partition_table_check_and_update
| Main_notify event_mgr_ev
| Main_leds_network_disconnected
| Main_leds_nrf52_fw_updating
| Main_leds_http_poll_ok
| Main_leds_http_poll_timeout
| Main_log_runtime_statistics
| Main_wdt_add
| Main_wdt_reset
| Main_delay u32
| Wifi_start bool
| Wifi_reconfigure bool
| Wifi_set_callbacks
| Wifi_set_config_ap
| Wifi_configure_country_and_power
| Wifi_start_ap bool
| Wifi_stop_ap
| Wifi_enable_wps
| Wifi_disable_wps
| Wifi_connect
| Wifi_disconnect
| Wifi_disconnect_eth
| Wifi_stop
| Wifi_update_network_connection_info update_reason
| Eth_clock_enable
| Eth_init eth_init_call
| Eth_start
| Eth_stop
| Eth_driver_uninstall
| Eth_unregister
| Eth_set_hostname
| Eth_dhcpc_start
| Eth_dhcpc_stop
| Eth_set_ip_info u32 u32 u32
| Eth_set_dns_info eth_dns_type u32
| Rng_seed
| Http_server_cb_init
| Reset_timer_start reset_timer
| Reset_timer_stop reset_timer
| Reset_info_set_sw string
| Reset_send_sig_button
| Esp_restart
| Sntp_setoperatingmode_poll
| Sntp_set_sync_mode sntp_sync_mode
| Sntp_set_time_sync_notification_cb
| Sntp_init
| Sntp_stop
| Sntp_servermode_dhcp bool
| Sntp_setserver nat "string option"

record main_env =
  en_mqtt :: mqtt_env
  en_wait :: wait_env
  en_alloc :: bool
  en_default :: gw_cfg
  en_ms_to_ticks :: "u32 \<Rightarrow> u32"
  en_unix_time :: u32
  en_free_heap :: u32
  en_timer_active :: "main_timer \<Rightarrow> bool"
  en_connected_to_wifi_or_ethernet :: bool
  en_connected_to_ethernet :: bool
  en_ap_active :: bool
  en_sta_active :: bool
  en_sta_configured :: bool
  en_mdns_init :: bool
  en_force_start_wifi_hotspot :: force_start_wifi_hotspot
  en_ip4addr_aton :: "string \<Rightarrow> u32"
  en_dhcpc_start :: bool
  en_dhcpc_stop :: dhcpc_stop_result
  en_set_ip_info :: bool
  en_eth_init :: "eth_init_call \<Rightarrow> bool"
  en_link_comes_up :: bool
  en_http_server_cb_init :: bool
  en_sntp_sync_mode :: sntp_sync_mode

record main_world =
  ml_mqtt :: mqtt_world
  ml_cfg :: gw_cfg_state
  g_heap_usage_stat_cnt :: u32
  g_heap_usage_min_free_heap :: u32
  g_heap_usage_max_free_heap :: u32
  g_heap_limit_cnt :: u32
  g_flag_initial_request_for_remote_cfg_performed :: bool
  g_p_timer_sig_deferred_ethernet_activation :: bool
  g_eth_handle :: bool
  g_flag_wifi_initialized :: bool
  g_network_disconnect_cnt :: u32
  g_gpio_is_configure_button_pressed :: bool
  g_cnt_cfg_button_pressed :: u32
  g_uptime_counter :: u32
  gp_time_task_signal :: bool
  g_time_min_valid :: u32
  g_time_is_synchronized :: bool
  g_time_task_ntp_use :: bool
  g_time_task_ntp_use_dhcp :: bool
  g_arr_of_time_servers :: "string list"
  ml_calls :: "main_call list"

definition ml_call :: "main_call \<Rightarrow> main_world \<Rightarrow> main_world" where
  "ml_call c w = w\<lparr>ml_calls := ml_calls w @ [c]\<rparr>"

definition ml_status :: "main_world \<Rightarrow> gw_status" where
  "ml_status w = mq_status (ml_mqtt w)"

definition set_status :: "gw_status \<Rightarrow> main_world \<Rightarrow> main_world" where
  "set_status s w = w\<lparr>ml_mqtt := (ml_mqtt w)\<lparr>mq_status := s\<rparr>\<rparr>"

definition ml_read :: "(gw_cfg_state \<Rightarrow> ('a \<times> gw_cfg_state) option) \<Rightarrow> main_world \<Rightarrow> ('a \<times> main_world) option" where
  "ml_read f w = do { (x, c) \<leftarrow> f (ml_cfg w); Some (x, w\<lparr>ml_cfg := c\<rparr>) }"

definition ml_mqtt_start :: "main_env \<Rightarrow> main_world \<Rightarrow> main_world option" where
  "ml_mqtt_start E w = do {
     (copy, w) \<leftarrow> ml_read (gw_cfg_get_mqtt_copy (en_alloc E)) w;
     m \<leftarrow> mqtt_app_start_with_gw_cfg (en_mqtt E) copy (ml_mqtt w);
     Some (w\<lparr>ml_mqtt := m\<rparr>)
   }"

definition ml_mqtt_stop :: "main_env \<Rightarrow> main_world \<Rightarrow> main_world" where
  "ml_mqtt_stop E w = w\<lparr>ml_mqtt := mqtt_app_stop (en_mqtt E) (ml_mqtt w)\<rparr>"

text \<open>\<open>time_is_synchronized\<close> of the time task.\<close>

definition time_is_synchronized :: "main_world \<Rightarrow> bool" where
  "time_is_synchronized w = g_time_is_synchronized w"

section \<open>Ethernet\<close>

definition ethernet_update_ip_dhcp :: "main_env \<Rightarrow> main_world \<Rightarrow> bool \<times> main_world" where
  "ethernet_update_ip_dhcp E w = (en_dhcpc_start E, ml_call Eth_dhcpc_start w)"

definition eth_netif_dhcpc_stop :: "main_env \<Rightarrow> main_world \<Rightarrow> bool \<times> main_world" where
  "eth_netif_dhcpc_stop E w = (en_dhcpc_stop E \<noteq> Dhcpc_stop_failed, ml_call Eth_dhcpc_stop w)"

definition eth_netif_set_dns_info :: "main_env \<Rightarrow> string \<Rightarrow> eth_dns_type \<Rightarrow> main_world \<Rightarrow> main_world" where
  "eth_netif_set_dns_info E dns_ip type w =
     (let addr = en_ip4addr_aton E (c_str dns_ip) in
      if addr = 0 then w else ml_call (Eth_set_dns_info type addr) w)"

definition ethernet_update_ip_static :: "main_env \<Rightarrow> gw_cfg_eth \<Rightarrow> main_world \<Rightarrow> bool \<times> main_world" where
  "ethernet_update_ip_static E c w =
     (let ip = en_ip4addr_aton E (c_str (eth_static_ip c)) in
      if ip = 0 then (False, w)
      else let netmask = en_ip4addr_aton E (c_str (eth_netmask c)) in
      if netmask = 0 then (False, w)
      else let gw = en_ip4addr_aton E (c_str (eth_gw c)) in
      if gw = 0 then (False, w)
      else let (ok, w) = eth_netif_dhcpc_stop E w in
      if \<not> ok then (False, w)
      else let w = ml_call (Eth_set_ip_info ip netmask gw) w in
      if \<not> en_set_ip_info E then (False, w)
      else (True, eth_netif_set_dns_info E (eth_dns2 c) ESP_NETIF_DNS_BACKUP
                    (eth_netif_set_dns_info E (eth_dns1 c) ESP_NETIF_DNS_MAIN w)))"

definition dns_fallback_server :: string where
  "dns_fallback_server = ''1.1.1.1'' @ [NUL]"

definition ml_unlock_cfg :: "main_world \<Rightarrow> main_world option" where
  "ml_unlock_cfg w = do { s \<leftarrow> gw_cfg_unlock_ro (ml_cfg w); Some (w\<lparr>ml_cfg := s\<rparr>) }"

text \<open>With DHCP the configuration is unlocked before the client is started, and once more at the end.\<close>

definition ethernet_update_ip :: "main_env \<Rightarrow> main_world \<Rightarrow> main_world option" where
  "ethernet_update_ip E w = do {
     (c, w) \<leftarrow> ml_read gw_cfg_lock_ro w;
     if eth_dhcp (eth_cfg c)
     then do {
       w \<leftarrow> ml_unlock_cfg w;
       let (ok, w) = ethernet_update_ip_dhcp E w;
       if \<not> ok then Some w
       else do {
         w \<leftarrow> ml_unlock_cfg w;
         Some (eth_netif_set_dns_info E dns_fallback_server ESP_NETIF_DNS_FALLBACK w)
       }
     }
     else do {
       let (ok, w) = ethernet_update_ip_static E (eth_cfg c) w;
       if \<not> ok then ml_unlock_cfg w
       else do {
         w \<leftarrow> ml_unlock_cfg w;
         Some (eth_netif_set_dns_info E dns_fallback_server ESP_NETIF_DNS_FALLBACK w)
       }
     }
   }"

definition eth_init_try :: "main_env \<Rightarrow> eth_init_call \<Rightarrow> main_world \<Rightarrow> bool \<times> main_world" where
  "eth_init_try E c w = (en_eth_init E c, ml_call (Eth_init c) w)"

definition ethernet_init :: "main_env \<Rightarrow> main_world \<Rightarrow> (bool \<times> main_world) option" where
  "ethernet_init E w =
     (let (ok, w) = eth_init_try E Esp_netif_new (ml_call Eth_clock_enable w) in
      if \<not> ok then Some (False, w)
      else let (ok, w) = eth_init_try E Esp_eth_set_default_handlers w in
      if \<not> ok then Some (False, w)
      else let (ok, w) = eth_init_try E Esp_event_handler_register_eth w in
      if \<not> ok then Some (False, w)
      else let (ok, w) = eth_init_try E Esp_event_handler_register_ip w in
      if \<not> ok then Some (False, w)
      else do {
        w \<leftarrow> ethernet_update_ip E w;
        let (ok, w) = eth_init_try E Esp_eth_driver_install w;
        if \<not> ok then Some (False, w)
        else
          let (ok, w) = eth_init_try E Esp_eth_new_netif_glue (w\<lparr>g_eth_handle := True\<rparr>) in
          if \<not> ok then Some (False, w)
          else Some (eth_init_try E Esp_netif_attach w)
      })"

definition ethernet_deinit :: "main_world \<Rightarrow> main_world" where
  "ethernet_deinit w =
     (if \<not> g_eth_handle w then w
      else ml_call Eth_unregister ((ml_call Eth_driver_uninstall (ml_call Eth_stop w))\<lparr>g_eth_handle := False\<rparr>))"

definition ethernet_start :: "main_world \<Rightarrow> main_world" where
  "ethernet_start w =
     (if \<not> g_eth_handle w then w
      else ml_call Eth_set_hostname (ml_call Main_wdt_reset (ml_call Eth_start (ml_call Main_wdt_reset w))))"

definition ethernet_stop :: "main_world \<Rightarrow> main_world" where
  "ethernet_stop w =
     (if \<not> g_eth_handle w then w
      else ml_call Eth_stop (set_status (gw_status_clear_eth_connected (ml_status w)) w))"

end
