(* ===== verification/Main_Loop.thy ===== *)
theory Main_Loop
  imports Main_World
begin

text \<open>
  The main task, \<open>main_loop.c\<close>: it starts and stops MQTT, enters and leaves the configuration mode,
  schedules the checks for updates, watches the heap and follows the network. The task runs on the
  status, the MQTT connection and the configuration store of the other theories. None stands for a handler that
  does not return: \<open>gateway_restart\<close>, a configuration store without mutex, or a read outside an object.
\<close>

unbundle bit_operations_syntax

text \<open>\<open>main_task_init_timers\<close>: the signal of each timer and its period in ticks.\<close>

fun main_task_init_timers :: "(u32 \<Rightarrow> u32) \<Rightarrow> main_timer \<Rightarrow> main_task_sig \<times> u32" where
  "main_task_init_timers pdMS_TO_TICKS Timer_log_heap_usage =
     (MAIN_TASK_SIG_LOG_HEAP_USAGE, pdMS_TO_TICKS MAIN_TASK_LOG_HEAP_STAT_PERIOD_MS)"
| "main_task_init_timers pdMS_TO_TICKS Timer_check_for_fw_updates =
     (MAIN_TASK_SIG_CHECK_FOR_FW_UPDATES,
      pdMS_TO_TICKS RUUVI_CHECK_FOR_FW_UPDATES_DELAY_AFTER_REBOOT_SECONDS * 1000)"
| "main_task_init_timers pdMS_TO_TICKS Timer_deactivate_cfg_mode =
     (MAIN_TASK_SIG_DEACTIVATE_CFG_MODE, pdMS_TO_TICKS (RUUVI_CFG_MODE_DEACTIVATION_DEFAULT_DELAY_SEC * 1000))"
| "main_task_init_timers pdMS_TO_TICKS Timer_check_for_remote_cfg =
     (MAIN_TASK_SIG_CHECK_FOR_REMOTE_CFG, pdMS_TO_TICKS MAIN_TASK_CHECK_FOR_REMOTE_CFG_PERIOD_MS)"
| "main_task_init_timers pdMS_TO_TICKS Timer_get_history_timeout =
     (MAIN_TASK_SIG_ON_GET_HISTORY_TIMEOUT, pdMS_TO_TICKS MAIN_TASK_GET_HISTORY_TIMEOUT_MS)"
| "main_task_init_timers pdMS_TO_TICKS Timer_log_runtime_stat =
     (MAIN_TASK_SIG_LOG_RUNTIME_STAT, pdMS_TO_TICKS MAIN_TASK_LOG_RUNTIME_STAT_PERIOD_MS)"
| "main_task_init_timers pdMS_TO_TICKS Timer_deferred_ethernet_activation =
     (MAIN_TASK_SIG_DEFERRED_ETHERNET_ACTIVATION,
      pdMS_TO_TICKS (pdMS_TO_TICKS (RUUVI_DELAY_BEFORE_ETHERNET_ACTIVATION_ON_FIRST_BOOT_SEC * 1000)))"
| "main_task_init_timers pdMS_TO_TICKS Timer_task_watchdog_feed =
     (MAIN_TASK_SIG_TASK_WATCHDOG_FEED, pdMS_TO_TICKS MAIN_TASK_WATCHDOG_FEED_PERIOD_MS)"

text \<open>The subscriptions of the task, each with a static record of its own: entry \<open>i\<close> at \<open>mem + i\<close>.\<close>

definition main_task_subscriptions :: "(event_mgr_ev \<times> main_task_sig) list" where
  "main_task_subscriptions =
     [(EVENT_MGR_EV_WIFI_CONNECTED, MAIN_TASK_SIG_NETWORK_CONNECTED),
      (EVENT_MGR_EV_ETH_CONNECTED, MAIN_TASK_SIG_NETWORK_CONNECTED),
      (EVENT_MGR_EV_WIFI_DISCONNECTED, MAIN_TASK_SIG_NETWORK_DISCONNECTED),
      (EVENT_MGR_EV_ETH_DISCONNECTED, MAIN_TASK_SIG_NETWORK_DISCONNECTED),
      (EVENT_MGR_EV_RELAYING_MODE_CHANGED, MAIN_TASK_SIG_RELAYING_MODE_CHANGED),
      (EVENT_MGR_EV_WIFI_AP_STARTED, MAIN_TASK_SIG_WIFI_AP_STARTED),
      (EVENT_MGR_EV_WIFI_AP_STOPPED, MAIN_TASK_SIG_WIFI_AP_STOPPED)]"

fun subscribe_main_from ::
  "addr \<Rightarrow> os_signal \<Rightarrow> (event_mgr_ev \<times> main_task_sig) list \<Rightarrow> event_mgr \<Rightarrow> event_mgr_error + event_mgr" where
  "subscribe_main_from mem sig [] s = Inr s"
| "subscribe_main_from mem sig ((ev, n) # evs) s =
     (case event_mgr_subscribe_sig_static mem ev sig (main_task_conv_to_sig_num n) s of
        Inl e \<Rightarrow> Inl e
      | Inr s \<Rightarrow> subscribe_main_from (Suc mem) sig evs s)"

definition main_task_subscribe_events :: "addr \<Rightarrow> os_signal \<Rightarrow> event_mgr \<Rightarrow> event_mgr_error + event_mgr" where
  "main_task_subscribe_events mem sig s = subscribe_main_from mem sig main_task_subscriptions s"

section \<open>Timers and signals sent by others\<close>

definition main_task_schedule_next_check_for_fw_updates :: "main_world \<Rightarrow> main_world" where
  "main_task_schedule_next_check_for_fw_updates =
     ml_call (Main_send_sig MAIN_TASK_SIG_SCHEDULE_NEXT_CHECK_FOR_FW_UPDATES)"

definition main_task_schedule_retry_check_for_fw_updates :: "main_world \<Rightarrow> main_world" where
  "main_task_schedule_retry_check_for_fw_updates =
     ml_call (Main_send_sig MAIN_TASK_SIG_SCHEDULE_RETRY_CHECK_FOR_FW_UPDATES)"

definition main_task_send_sig_restart_services :: "main_world \<Rightarrow> main_world" where
  "main_task_send_sig_restart_services = ml_call (Main_send_sig MAIN_TASK_SIG_TASK_RESTART_SERVICES)"

definition main_task_send_sig_activate_cfg_mode :: "main_world \<Rightarrow> main_world" where
  "main_task_send_sig_activate_cfg_mode = ml_call (Main_send_sig MAIN_TASK_SIG_ACTIVATE_CFG_MODE)"

definition main_task_send_sig_deactivate_cfg_mode :: "main_world \<Rightarrow> main_world" where
  "main_task_send_sig_deactivate_cfg_mode = ml_call (Main_send_sig MAIN_TASK_SIG_DEACTIVATE_CFG_MODE)"

definition main_task_send_sig_reconnect_network :: "main_world \<Rightarrow> main_world" where
  "main_task_send_sig_reconnect_network = ml_call (Main_send_sig MAIN_TASK_SIG_RECONNECT_NETWORK)"

definition main_task_send_sig_set_default_config :: "main_world \<Rightarrow> main_world" where
  "main_task_send_sig_set_default_config = ml_call (Main_send_sig MAIN_TASK_SIG_SET_DEFAULT_CONFIG)"

definition main_task_send_sig_log_runtime_stat :: "main_world \<Rightarrow> main_world" where
  "main_task_send_sig_log_runtime_stat = ml_call (Main_timer_simulate Timer_log_runtime_stat)"

definition main_task_timer_sig_check_for_fw_updates_restart :: "u32 \<Rightarrow> main_world \<Rightarrow> main_world" where
  "main_task_timer_sig_check_for_fw_updates_restart delay_ticks =
     ml_call (Main_timer_restart Timer_check_for_fw_updates delay_ticks)"

definition main_task_timer_sig_check_for_fw_updates_stop :: "main_world \<Rightarrow> main_world" where
  "main_task_timer_sig_check_for_fw_updates_stop = ml_call (Main_timer_stop Timer_check_for_fw_updates)"

text \<open>The only timer that is ever deleted.\<close>

definition main_task_start_timer_activation_ethernet_after_timeout :: "main_world \<Rightarrow> main_world" where
  "main_task_start_timer_activation_ethernet_after_timeout w =
     ml_call (if g_p_timer_sig_deferred_ethernet_activation w then Main_timer_start Timer_deferred_ethernet_activation
              else Main_timer_null) w"

definition main_task_stop_timer_activation_ethernet_after_timeout :: "main_world \<Rightarrow> main_world" where
  "main_task_stop_timer_activation_ethernet_after_timeout w =
     ml_call (if g_p_timer_sig_deferred_ethernet_activation w then Main_timer_stop Timer_deferred_ethernet_activation
              else Main_timer_null) w"

definition timer_cfg_mode_deactivation_start_with_delay :: "main_env \<Rightarrow> u32 \<Rightarrow> main_world \<Rightarrow> main_world" where
  "timer_cfg_mode_deactivation_start_with_delay E delay_sec w =
     ml_call (Main_timer_restart Timer_deactivate_cfg_mode (en_ms_to_ticks E (delay_sec * 1000)))
       (ml_call (Main_timer_stop Timer_deactivate_cfg_mode) w)"

definition timer_cfg_mode_deactivation_start :: "main_env \<Rightarrow> main_world \<Rightarrow> main_world" where
  "timer_cfg_mode_deactivation_start E =
     timer_cfg_mode_deactivation_start_with_delay E RUUVI_CFG_MODE_DEACTIVATION_DEFAULT_DELAY_SEC"

definition timer_cfg_mode_deactivation_stop :: "main_world \<Rightarrow> main_world" where
  "timer_cfg_mode_deactivation_stop = ml_call (Main_timer_stop Timer_deactivate_cfg_mode)"

definition timer_cfg_mode_deactivation_is_active :: "main_env \<Rightarrow> bool" where
  "timer_cfg_mode_deactivation_is_active E = en_timer_active E Timer_deactivate_cfg_mode"

definition main_task_stop_timer_check_for_remote_cfg :: "main_world \<Rightarrow> main_world" where
  "main_task_stop_timer_check_for_remote_cfg = ml_call (Main_timer_stop Timer_check_for_remote_cfg)"

definition main_task_on_get_history :: "main_world \<Rightarrow> main_world" where
  "main_task_on_get_history = ml_call (Main_send_sig MAIN_TASK_SIG_ON_GET_HISTORY)"

definition start_wifi_ap_internal :: "bool \<Rightarrow> main_world \<Rightarrow> main_world" where
  "start_wifi_ap_internal flag_block_req_from_lan w =
     main_task_send_sig_activate_cfg_mode (ml_call (Wifi_start_ap flag_block_req_from_lan) w)"

definition start_wifi_ap :: "main_world \<Rightarrow> main_world" where
  "start_wifi_ap = start_wifi_ap_internal True"

definition start_wifi_ap_without_blocking_req_from_lan :: "main_world \<Rightarrow> main_world" where
  "start_wifi_ap_without_blocking_req_from_lan = start_wifi_ap_internal False"

lemmas main_calls_defs =
  main_task_schedule_next_check_for_fw_updates_def main_task_schedule_retry_check_for_fw_updates_def
  main_task_send_sig_restart_services_def main_task_send_sig_activate_cfg_mode_def
  main_task_send_sig_deactivate_cfg_mode_def main_task_send_sig_reconnect_network_def
  main_task_send_sig_set_default_config_def main_task_send_sig_log_runtime_stat_def
  main_task_timer_sig_check_for_fw_updates_restart_def main_task_timer_sig_check_for_fw_updates_stop_def
  main_task_start_timer_activation_ethernet_after_timeout_def
  main_task_stop_timer_activation_ethernet_after_timeout_def timer_cfg_mode_deactivation_start_with_delay_def
  timer_cfg_mode_deactivation_start_def timer_cfg_mode_deactivation_stop_def
  main_task_stop_timer_check_for_remote_cfg_def main_task_on_get_history_def start_wifi_ap_internal_def
  start_wifi_ap_def start_wifi_ap_without_blocking_req_from_lan_def

section \<open>Checks for updates\<close>

text \<open>Weekday (Sunday is 0) and hour of \<open>gmtime_r\<close>; \<open>time_t\<close> has 32 bits and is signed.\<close>

definition tm_wday :: "u32 \<Rightarrow> int" where
  "tm_wday t = (sint t div 86400 + 4) mod 7"

definition tm_hour :: "u32 \<Rightarrow> int" where
  "tm_hour t = sint t mod 86400 div 3600"

definition auto_update_local_time :: "ruuvi_gw_cfg_auto_update \<Rightarrow> u32 \<Rightarrow> u32" where
  "auto_update_local_time c unix_time = unix_time + scast (auto_update_tz_offset_hours c) * 3600"

definition check_if_checking_for_fw_updates_allowed2 :: "ruuvi_gw_cfg_auto_update \<Rightarrow> u32 \<Rightarrow> bool" where
  "check_if_checking_for_fw_updates_allowed2 c unix_time =
     (let cur_time = auto_update_local_time c unix_time in
      if auto_update_cycle c = AUTO_UPDATE_CYCLE_TYPE_MANUAL then False
      else if (ucast (auto_update_weekdays_bitmask c) :: u32) AND push_bit (nat (tm_wday cur_time)) 1 = 0 then False
      else if \<not> (uint (auto_update_interval_from c) \<le> tm_hour cur_time \<and>
                 tm_hour cur_time < uint (auto_update_interval_to c)) then False
      else True)"

definition check_if_checking_for_fw_updates_allowed :: "main_env \<Rightarrow> main_world \<Rightarrow> (bool \<times> main_world) option" where
  "check_if_checking_for_fw_updates_allowed E w =
     (if \<not> en_connected_to_wifi_or_ethernet E then Some (False, w)
      else if \<not> time_is_synchronized w then Some (False, w)
      else do {
        (c, w) \<leftarrow> ml_read gw_cfg_lock_ro w;
        let res = check_if_checking_for_fw_updates_allowed2 (cfg_auto_update (ruuvi_cfg c)) (en_unix_time E);
        s \<leftarrow> gw_cfg_unlock_ro (ml_cfg w);
        Some (res, w\<lparr>ml_cfg := s\<rparr>)
      })"

definition main_task_handle_sig_check_for_fw_updates :: "main_env \<Rightarrow> main_world \<Rightarrow> main_world option" where
  "main_task_handle_sig_check_for_fw_updates E w = do {
     (allowed, w) \<leftarrow> check_if_checking_for_fw_updates_allowed E w;
     Some (if allowed then ml_call (Main_user_req HTTP_SERVER_USER_REQ_CODE_DOWNLOAD_LATEST_RELEASE_INFO) w
           else main_task_schedule_retry_check_for_fw_updates w)
   }"

definition main_task_handle_sig_schedule_next_check_for_fw_updates :: "main_env \<Rightarrow> main_world \<Rightarrow> main_world" where
  "main_task_handle_sig_schedule_next_check_for_fw_updates E =
     ml_call (Main_timer_restart Timer_check_for_fw_updates
       (en_ms_to_ticks E RUUVI_CHECK_FOR_FW_UPDATES_DELAY_AFTER_SUCCESS_SECONDS * 1000))"

definition main_task_handle_sig_schedule_retry_check_for_fw_updates :: "main_env \<Rightarrow> main_world \<Rightarrow> main_world" where
  "main_task_handle_sig_schedule_retry_check_for_fw_updates E =
     ml_call (Main_timer_restart Timer_check_for_fw_updates
       (en_ms_to_ticks E RUUVI_CHECK_FOR_FW_UPDATES_DELAY_BEFORE_RETRY_SECONDS * 1000))"

section \<open>Free heap\<close>

definition main_task_handle_sig_log_heap_usage :: "main_env \<Rightarrow> main_world \<Rightarrow> main_world option" where
  "main_task_handle_sig_log_heap_usage E w =
     (let free_heap = en_free_heap E;
          w = w\<lparr>g_heap_usage_stat_cnt := g_heap_usage_stat_cnt w + 1\<rparr> in
      if g_heap_usage_stat_cnt w < MAIN_TASK_LOG_HEAP_USAGE_PERIOD_SECONDS * 1000 div MAIN_TASK_LOG_HEAP_STAT_PERIOD_MS
      then
        let w = (if free_heap < g_heap_usage_min_free_heap w then w\<lparr>g_heap_usage_min_free_heap := free_heap\<rparr> else w);
            w = (if free_heap > g_heap_usage_max_free_heap w then w\<lparr>g_heap_usage_max_free_heap := free_heap\<rparr> else w)
        in Some w
      else do {
        w \<leftarrow> (if g_heap_usage_max_free_heap w < RUUVI_FREE_HEAP_LIM_KIB * RUUVI_NUM_BYTES_IN_1KB
              then
                let w = w\<lparr>g_heap_limit_cnt := g_heap_limit_cnt w + 1\<rparr>
                in if g_heap_limit_cnt w \<ge> RUUVI_MAX_LOW_HEAP_MEM_CNT_main then None else Some w
              else Some (w\<lparr>g_heap_limit_cnt := 0\<rparr>));
        Some (w\<lparr>g_heap_usage_stat_cnt := 0, g_heap_usage_min_free_heap := - 1, g_heap_usage_max_free_heap := 0\<rparr>)
      })"

section \<open>Network and configuration mode\<close>

definition main_task_handle_sig_deferred_ethernet_activation :: "main_env \<Rightarrow> main_world \<Rightarrow> main_world" where
  "main_task_handle_sig_deferred_ethernet_activation E w =
     (if en_connected_to_ethernet E then w
      else ml_call (Main_delay (en_ms_to_ticks E 100)) (ethernet_start w))"

definition main_task_handle_sig_wifi_ap_started :: "main_world \<Rightarrow> main_world" where
  "main_task_handle_sig_wifi_ap_started w = w"

definition main_task_handle_sig_wifi_ap_stopped :: "main_world \<Rightarrow> main_world" where
  "main_task_handle_sig_wifi_ap_stopped w = w"

definition main_task_handle_sig_activate_cfg_mode :: "main_env \<Rightarrow> main_world \<Rightarrow> main_world option" where
  "main_task_handle_sig_activate_cfg_mode E w =
     (if gw_status_get_cfg_mode (ml_status w)
      then Some (if gw_status_is_waiting_auto_cfg_by_wps (ml_status w)
        then (let w = ml_call Wifi_disable_wps w
              in set_status (gw_status_clear_waiting_auto_cfg_by_wps (ml_status w)) w)
        else w)
      else
        let w = set_status (gw_status_set_cfg_mode (ml_status w)) w;
            w = (if en_timer_active E Timer_check_for_remote_cfg
                 then main_task_stop_timer_check_for_remote_cfg w else w);
            w = (if en_timer_active E Timer_check_for_fw_updates
                 then main_task_timer_sig_check_for_fw_updates_stop w else w)
        in do {
          s \<leftarrow> gw_status_suspend_relaying (en_wait E) False (ml_status w);
          Some (ml_call (Main_notify EVENT_MGR_EV_CFG_MODE_ACTIVATED) (set_status s w))
        })"

text \<open>The parts of the deactivation: the timers; the access point, WPS and the status LED; the connection.\<close>

definition cfg_mode_stop_timers :: "main_world \<Rightarrow> main_world" where
  "cfg_mode_stop_timers w =
     (let w = timer_cfg_mode_deactivation_stop w in
      if g_p_timer_sig_deferred_ethernet_activation w
      then (ml_call (Main_timer_delete Timer_deferred_ethernet_activation)
              (ml_call (Main_timer_stop Timer_deferred_ethernet_activation) w))
           \<lparr>g_p_timer_sig_deferred_ethernet_activation := False\<rparr>
      else w)"

definition cfg_mode_stop_ap_and_wps :: "main_env \<Rightarrow> main_world \<Rightarrow> main_world" where
  "cfg_mode_stop_ap_and_wps E w =
     (let w = (if en_ap_active E then ml_call Wifi_stop_ap w else w);
          w = (if gw_status_is_waiting_auto_cfg_by_wps (ml_status w)
               then (let w = ml_call Wifi_disable_wps w
                     in set_status (gw_status_clear_waiting_auto_cfg_by_wps (ml_status w)) w)
               else w);
          w = (if \<not> gw_status_is_network_connected (ml_status w) then ml_call Main_leds_network_disconnected w else w)
      in main_task_on_get_history w)"

definition cfg_mode_connect :: "main_env \<Rightarrow> main_world \<Rightarrow> main_world option" where
  "cfg_mode_connect E w = do {
     (is_empty, w) \<leftarrow> ml_read gw_cfg_is_empty w;
     (use_eth, w) \<leftarrow> (if is_empty then Some (True, w) else ml_read gw_cfg_get_eth_use_eth w);
     Some (if use_eth \<or> \<not> en_sta_configured E
           then (if en_connected_to_ethernet E then w else ethernet_start w)
           else (if en_sta_active E then w else ml_call Wifi_connect w))
   }"

definition main_task_handle_sig_deactivate_cfg_mode :: "main_env \<Rightarrow> main_world \<Rightarrow> main_world option" where
  "main_task_handle_sig_deactivate_cfg_mode E w =
     (let w = cfg_mode_stop_timers w in
      if \<not> gw_status_get_cfg_mode (ml_status w) then Some w
      else do {
        (is_empty, w) \<leftarrow> ml_read gw_cfg_is_empty w;
        let w = (if \<not> is_empty then set_status (gw_status_clear_cfg_mode (ml_status w)) w else w);
        w \<leftarrow> cfg_mode_connect E (cfg_mode_stop_ap_and_wps E w);
        if \<not> gw_status_get_cfg_mode (ml_status w)
        then
          let w = ml_call (Main_notify EVENT_MGR_EV_CFG_MODE_DEACTIVATED) (main_task_send_sig_restart_services w)
          in do {
            s \<leftarrow> gw_status_resume_relaying (en_wait E) False (ml_status w);
            Some (set_status s w)
          }
        else Some w
      })"

definition main_task_handle_sig_check_for_remote_cfg :: "main_world \<Rightarrow> main_world" where
  "main_task_handle_sig_check_for_remote_cfg = ml_call (Main_user_req HTTP_SERVER_USER_REQ_CODE_DOWNLOAD_GW_CFG)"

text \<open>An error of a later call of the mDNS library is logged only.\<close>

definition start_mdns :: "main_env \<Rightarrow> main_world \<Rightarrow> main_world" where
  "start_mdns E w =
     (let w = ml_call Main_mdns_init w in
      if \<not> en_mdns_init E then w
      else ml_call (Main_mdns_service_add 80) (ml_call Main_mdns_instance_name_set (ml_call Main_mdns_hostname_set w)))"

definition stop_mdns :: "main_world \<Rightarrow> main_world" where
  "stop_mdns = ml_call Main_mdns_free"

definition main_task_handle_sig_network_connected :: "main_env \<Rightarrow> main_world \<Rightarrow> main_world option" where
  "main_task_handle_sig_network_connected E w =
     (let w = (if en_force_start_wifi_hotspot E \<noteq> FORCE_START_WIFI_HOTSPOT_DISABLED
               then ml_call (Main_write_force_start_wifi_hotspot FORCE_START_WIFI_HOTSPOT_DISABLED) w else w);
          w = start_mdns E w
      in do {
        ((flag_use_remote_cfg, _), w) \<leftarrow> ml_read (gw_cfg_get_remote_cfg_use True) w;
        Some (if flag_use_remote_cfg \<and> \<not> g_flag_initial_request_for_remote_cfg_performed w \<and> \<not> en_ap_active E
              then ml_call (Main_send_sig MAIN_TASK_SIG_CHECK_FOR_REMOTE_CFG)
                     (w\<lparr>g_flag_initial_request_for_remote_cfg_performed := True\<rparr>)
              else w)
      })"

definition main_task_handle_sig_network_disconnected :: "main_world \<Rightarrow> main_world" where
  "main_task_handle_sig_network_disconnected = stop_mdns"

definition main_task_handle_sig_task_watchdog_feed :: "main_world \<Rightarrow> main_world" where
  "main_task_handle_sig_task_watchdog_feed = ml_call Main_wdt_reset"

definition main_task_handle_sig_network_reconnect :: "main_env \<Rightarrow> main_world \<Rightarrow> main_world option" where
  "main_task_handle_sig_network_reconnect E w = do {
     (use_eth, w) \<leftarrow> ml_read gw_cfg_get_eth_use_eth w;
     Some (if use_eth then ethernet_start (ethernet_stop w)
           else if en_sta_active E then ml_call Wifi_connect (ml_call Wifi_disconnect w)
           else w)
   }"

definition main_task_handle_sig_set_default_config :: "main_env \<Rightarrow> main_world \<Rightarrow> main_world option" where
  "main_task_handle_sig_set_default_config E w =
     (if \<not> en_alloc E then Some w
      else do {
        (st, w) \<leftarrow> ml_read (gw_cfg_update (Some (en_default E))) w;
        Some (main_task_send_sig_deactivate_cfg_mode w)
      })"

section \<open>Services\<close>

definition main_task_configure_periodic_remote_cfg_check :: "main_env \<Rightarrow> main_world \<Rightarrow> main_world option" where
  "main_task_configure_periodic_remote_cfg_check E w = do {
     ((flag_use_remote_cfg, interval), w) \<leftarrow> ml_read (gw_cfg_get_remote_cfg_use True) w;
     let minutes = (case interval of None \<Rightarrow> 0 | Some m \<Rightarrow> m);
     Some (if flag_use_remote_cfg
       then (if minutes \<noteq> 0
             then ml_call (Main_timer_restart Timer_check_for_remote_cfg
                    (en_ms_to_ticks E (ucast minutes * 60 * 1000))) w
             else ml_call (Main_timer_stop Timer_check_for_remote_cfg) w)
       else ml_call (Main_timer_stop Timer_check_for_remote_cfg) w)
   }"

definition main_task_handle_sig_restart_services :: "main_env \<Rightarrow> main_world \<Rightarrow> main_world option" where
  "main_task_handle_sig_restart_services E w =
     (let w = ml_mqtt_stop E w in do {
        (use_mqtt, w) \<leftarrow> ml_read gw_cfg_get_mqtt_use_mqtt w;
        w \<leftarrow> (if use_mqtt \<and> gw_status_is_relaying_via_mqtt_enabled (ml_status w) then ml_mqtt_start E w else Some w);
        w \<leftarrow> main_task_configure_periodic_remote_cfg_check E w;
        (cycle, w) \<leftarrow> ml_read gw_cfg_get_auto_update_cycle w;
        Some (if cycle \<noteq> AUTO_UPDATE_CYCLE_TYPE_MANUAL
              then main_task_timer_sig_check_for_fw_updates_restart
                     (en_ms_to_ticks E RUUVI_CHECK_FOR_FW_UPDATES_DELAY_BEFORE_RETRY_SECONDS * 1000) w
              else main_task_timer_sig_check_for_fw_updates_stop w)
      })"

definition main_task_handle_sig_relaying_mode_changed :: "main_env \<Rightarrow> main_world \<Rightarrow> main_world option" where
  "main_task_handle_sig_relaying_mode_changed E w = do {
     (use_mqtt, w) \<leftarrow> ml_read gw_cfg_get_mqtt_use_mqtt w;
     w \<leftarrow> (if use_mqtt
       then (if gw_status_is_relaying_via_mqtt_enabled (ml_status w)
             then (if \<not> gw_status_is_mqtt_started (ml_status w) then ml_mqtt_start E w else Some w)
             else Some (ml_mqtt_stop E w))
       else Some (ml_mqtt_stop E w));
     let w = set_status (gw_status_clear_mqtt_relaying_cmd (ml_status w)) w;
     Some (main_task_send_sig_log_runtime_stat w)
   }"

section \<open>The task\<close>

fun main_task_handle_sig :: "main_env \<Rightarrow> main_task_sig \<Rightarrow> main_world \<Rightarrow> main_world option" where
  "main_task_handle_sig E MAIN_TASK_SIG_LOG_HEAP_USAGE w = main_task_handle_sig_log_heap_usage E w"
| "main_task_handle_sig E MAIN_TASK_SIG_CHECK_FOR_FW_UPDATES w = main_task_handle_sig_check_for_fw_updates E w"
| "main_task_handle_sig E MAIN_TASK_SIG_SCHEDULE_NEXT_CHECK_FOR_FW_UPDATES w =
     Some (main_task_handle_sig_schedule_next_check_for_fw_updates E w)"
| "main_task_handle_sig E MAIN_TASK_SIG_SCHEDULE_RETRY_CHECK_FOR_FW_UPDATES w =
     Some (main_task_handle_sig_schedule_retry_check_for_fw_updates E w)"
| "main_task_handle_sig E MAIN_TASK_SIG_DEFERRED_ETHERNET_ACTIVATION w =
     Some (main_task_handle_sig_deferred_ethernet_activation E w)"
| "main_task_handle_sig E MAIN_TASK_SIG_WIFI_AP_STARTED w = Some (main_task_handle_sig_wifi_ap_started w)"
| "main_task_handle_sig E MAIN_TASK_SIG_WIFI_AP_STOPPED w = Some (main_task_handle_sig_wifi_ap_stopped w)"
| "main_task_handle_sig E MAIN_TASK_SIG_ACTIVATE_CFG_MODE w = main_task_handle_sig_activate_cfg_mode E w"
| "main_task_handle_sig E MAIN_TASK_SIG_DEACTIVATE_CFG_MODE w = main_task_handle_sig_deactivate_cfg_mode E w"
| "main_task_handle_sig E MAIN_TASK_SIG_TASK_RESTART_SERVICES w = main_task_handle_sig_restart_services E w"
| "main_task_handle_sig E MAIN_TASK_SIG_CHECK_FOR_REMOTE_CFG w = Some (main_task_handle_sig_check_for_remote_cfg w)"
| "main_task_handle_sig E MAIN_TASK_SIG_NETWORK_CONNECTED w = main_task_handle_sig_network_connected E w"
| "main_task_handle_sig E MAIN_TASK_SIG_NETWORK_DISCONNECTED w = Some (main_task_handle_sig_network_disconnected w)"
| "main_task_handle_sig E MAIN_TASK_SIG_RECONNECT_NETWORK w = main_task_handle_sig_network_reconnect E w"
| "main_task_handle_sig E MAIN_TASK_SIG_RELAYING_MODE_CHANGED w = main_task_handle_sig_relaying_mode_changed E w"
| "main_task_handle_sig E MAIN_TASK_SIG_SET_DEFAULT_CONFIG w = main_task_handle_sig_set_default_config E w"
| "main_task_handle_sig E MAIN_TASK_SIG_ON_GET_HISTORY w =
     Some (ml_call Main_leds_http_poll_ok (ml_call (Main_timer_start Timer_get_history_timeout)
       (ml_call (Main_timer_stop Timer_get_history_timeout) w)))"
| "main_task_handle_sig E MAIN_TASK_SIG_ON_GET_HISTORY_TIMEOUT w = Some (ml_call Main_leds_http_poll_timeout w)"
| "main_task_handle_sig E MAIN_TASK_SIG_LOG_RUNTIME_STAT w = Some (ml_call Main_log_runtime_statistics w)"
| "main_task_handle_sig E MAIN_TASK_SIG_TASK_WATCHDOG_FEED w = Some (main_task_handle_sig_task_watchdog_feed w)"

definition main_wdt_add_and_start :: "main_world \<Rightarrow> main_world" where
  "main_wdt_add_and_start w = ml_call (Main_timer_start Timer_task_watchdog_feed) (ml_call Main_wdt_add w)"

text \<open>What \<open>main_loop\<close> does before it waits, and the loop: the signals that arrive, each with the
  environment in which it is handled.\<close>

definition main_loop_start :: "main_env \<Rightarrow> main_world \<Rightarrow> main_world option" where
  "main_loop_start E w =
     (let w = main_wdt_add_and_start w in do {
        (use_mqtt, w) \<leftarrow> ml_read gw_cfg_get_mqtt_use_mqtt w;
        w \<leftarrow> (if use_mqtt then ml_mqtt_start E w else Some w);
        let w = ml_call (Main_timer_start Timer_get_history_timeout)
          (ml_call (Main_timer_start Timer_log_runtime_stat) (ml_call (Main_timer_start Timer_log_heap_usage) w));
        w \<leftarrow> main_task_configure_periodic_remote_cfg_check E w;
        (cycle, w) \<leftarrow> ml_read gw_cfg_get_auto_update_cycle w;
        let w = (if cycle \<noteq> AUTO_UPDATE_CYCLE_TYPE_MANUAL
                 then ml_call (Main_timer_start Timer_check_for_fw_updates) w else w);
        Some (main_task_send_sig_log_runtime_stat w)
      })"

fun main_loop_signals :: "(main_env \<times> os_signal_num) list \<Rightarrow> main_world \<Rightarrow> main_world option" where
  "main_loop_signals [] w = Some w"
| "main_loop_signals ((E, n) # sigs) w =
     (case main_task_conv_from_sig_num n of
        None \<Rightarrow> None
      | Some s \<Rightarrow> Option.bind (main_task_handle_sig E s w) (main_loop_signals sigs))"

definition main_loop :: "main_env \<Rightarrow> (main_env \<times> os_signal_num) list \<Rightarrow> main_world \<Rightarrow> main_world option" where
  "main_loop E sigs w = Option.bind (main_loop_start E w) (main_loop_signals sigs)"

section \<open>What the handlers leave alone\<close>

text \<open>The configuration mode and the two counts of suspensions.\<close>

definition status_modes :: "gw_status \<Rightarrow> bool \<times> nat \<times> nat" where
  "status_modes s = (v_cfg_mode (status_view s), v_http_suspended (status_view s), v_mqtt_suspended (status_view s))"

lemma mode_views [simp]:
  "status_view (gw_status_set_cfg_mode s) = (status_view s)\<lparr>v_cfg_mode := True\<rparr>"
  "status_view (gw_status_clear_cfg_mode s) = (status_view s)\<lparr>v_cfg_mode := False\<rparr>"
  "status_view (gw_status_clear_waiting_auto_cfg_by_wps s) = (status_view s)\<lparr>v_waiting_wps := False\<rparr>"
  "status_view (gw_status_clear_mqtt_relaying_cmd s) = (status_view s)\<lparr>v_mqtt_relaying_cmd := False\<rparr>"
  by (simp_all add: status_view_def status_op_defs status_bits error_of_bits_def Let_def)

lemma status_reads:
  "gw_status_get_cfg_mode s = v_cfg_mode (status_view s)"
  "gw_status_is_waiting_auto_cfg_by_wps s = v_waiting_wps (status_view s)"
  "gw_status_is_relaying_via_mqtt_enabled s = (v_mqtt_suspended (status_view s) = 0)"
  "gw_status_is_relaying_via_http_enabled s = (v_http_suspended (status_view s) = 0)"
  "gw_status_is_mqtt_started s = v_mqtt_started (status_view s)"
  "gw_status_is_mqtt_relaying_cmd_handled s = (\<not> v_mqtt_relaying_cmd (status_view s))"
  using status_reads_view [of s] by (simp_all add: reads_view_def)

lemma suspend_step:
  "counts_fit s op \<Longrightarrow> gw_status_suspend_relaying W False s = Some (gw_status_step W s Suspend_relaying)"
  using status_exec_step [of s Suspend_relaying W] by (simp add: gw_status_exec_def counts_fit_def)

lemma resume_step: "gw_status_resume_relaying W False s = Some (gw_status_step W s Resume_relaying)"
  by (simp add: gw_status_resume_relaying_def case_prod_beta Let_def notify_no_wait)

lemma ml_call_fields [simp]:
  "ml_mqtt (ml_call c w) = ml_mqtt w" "ml_cfg (ml_call c w) = ml_cfg w" "ml_status (ml_call c w) = ml_status w"
  "g_p_timer_sig_deferred_ethernet_activation (ml_call c w) = g_p_timer_sig_deferred_ethernet_activation w"
  "g_heap_limit_cnt (ml_call c w) = g_heap_limit_cnt w"
  "ml_calls (ml_call c w) = ml_calls w @ [c]"
  by (simp_all add: ml_call_def ml_status_def)

lemma set_status_fields [simp]:
  "ml_status (set_status s w) = s" "ml_cfg (set_status s w) = ml_cfg w"
  "mq_client (ml_mqtt (set_status s w)) = mq_client (ml_mqtt w)"
  "g_p_timer_sig_deferred_ethernet_activation (set_status s w) = g_p_timer_sig_deferred_ethernet_activation w"
  "ml_calls (set_status s w) = ml_calls w"
  by (simp_all add: set_status_def ml_status_def)

lemma ethernet_start_fields [simp]:
  "ml_status (ethernet_start w) = ml_status w" "ml_cfg (ethernet_start w) = ml_cfg w" "ml_mqtt (ethernet_start w) = ml_mqtt w"
  "g_p_timer_sig_deferred_ethernet_activation (ethernet_start w) = g_p_timer_sig_deferred_ethernet_activation w"
  by (simp_all add: ethernet_start_def)

lemma clear_eth_connected_view [simp]:
  "status_view (gw_status_clear_eth_connected s) = (status_view s)\<lparr>v_eth_connected := False, v_eth_link_up := False\<rparr>"
  by (simp add: status_view_def status_op_defs status_bits error_of_bits_def Let_def)

lemma ethernet_stop_fields [simp]:
  "status_modes (ml_status (ethernet_stop w)) = status_modes (ml_status w)" "ml_cfg (ethernet_stop w) = ml_cfg w"
  "g_p_timer_sig_deferred_ethernet_activation (ethernet_stop w) = g_p_timer_sig_deferred_ethernet_activation w"
  by (simp_all add: ethernet_stop_def status_modes_def)

lemma mqtt_start_modes:
  "mqtt_app_start_with_gw_cfg E c m = Some m' \<Longrightarrow> status_modes (mq_status m') = status_modes (mq_status m)"
  by (cases c) (auto simp: mqtt_app_start_with_gw_cfg_def mqtt_app_start_def mqtt_app_start_internal_def
    mqtt_create_client_config_def mqtt_app_start_internal2_def status_modes_def Let_def split: if_splits)

lemma mqtt_stop_modes: "status_modes (mq_status (mqtt_app_stop E m)) = status_modes (mq_status m)"
  by (simp add: mqtt_app_stop_def Let_def status_modes_def mqtt_publish_state_offline_def)

lemma mqtt_exec_modes: "mqtt_exec E x m = Some m' \<Longrightarrow> status_modes (mq_status m') = status_modes (mq_status m)"
proof (cases x)
  case (App_start c)
  then show "mqtt_exec E x m = Some m' \<Longrightarrow> ?thesis"
    using mqtt_start_modes [of E "Some c"] by (simp add: mqtt_app_start_with_gw_cfg_def)
next
  case (Client_event ev)
  then show "mqtt_exec E x m = Some m' \<Longrightarrow> ?thesis"
    by (cases ev) (auto simp: status_modes_def case_prod_beta)
next
  case (Publish_adv adv use_ts ts)
  then show "mqtt_exec E x m = Some m' \<Longrightarrow> ?thesis"
    by (cases "me_json E adv use_ts ts") (auto simp: mqtt_publish_adv_def Let_def esp_mqtt_client_publish_def)
qed (auto simp: mqtt_stop_modes mqtt_publish_connect_def)

lemma ml_read_Some:
  "ml_read f w = Some (x, w') \<longleftrightarrow> (\<exists>c. f (ml_cfg w) = Some (x, c) \<and> w' = w\<lparr>ml_cfg := c\<rparr>)"
  by (auto simp: ml_read_def split: bind_splits)

lemma ml_cfg_update_fields [simp]:
  "ml_status (w\<lparr>ml_cfg := c\<rparr>) = ml_status w" "ml_mqtt (w\<lparr>ml_cfg := c\<rparr>) = ml_mqtt w"
  by (simp_all add: ml_status_def)

lemma ml_mqtt_modes:
  "ml_mqtt_start E w = Some w' \<Longrightarrow> status_modes (ml_status w') = status_modes (ml_status w)"
  "status_modes (ml_status (ml_mqtt_stop E w)) = status_modes (ml_status w)"
  by (auto simp: ml_mqtt_start_def ml_mqtt_stop_def ml_status_def mqtt_stop_modes ml_read_Some
    dest!: mqtt_start_modes split: bind_splits)

lemma ml_status_updates [simp]:
  "ml_status (w\<lparr>g_heap_usage_stat_cnt := n1\<rparr>) = ml_status w"
  "ml_status (w\<lparr>g_heap_usage_min_free_heap := n2\<rparr>) = ml_status w"
  "ml_status (w\<lparr>g_heap_usage_max_free_heap := n3\<rparr>) = ml_status w"
  "ml_status (w\<lparr>g_heap_limit_cnt := n4\<rparr>) = ml_status w"
  "ml_status (w\<lparr>g_flag_initial_request_for_remote_cfg_performed := b1\<rparr>) = ml_status w"
  "ml_status (w\<lparr>g_p_timer_sig_deferred_ethernet_activation := b2\<rparr>) = ml_status w"
  by (simp_all add: ml_status_def)

lemmas main_handler_defs =
  main_task_handle_sig_log_heap_usage_def main_task_handle_sig_check_for_fw_updates_def
  check_if_checking_for_fw_updates_allowed_def main_task_handle_sig_schedule_next_check_for_fw_updates_def
  main_task_handle_sig_schedule_retry_check_for_fw_updates_def
  main_task_handle_sig_deferred_ethernet_activation_def main_task_handle_sig_wifi_ap_started_def
  main_task_handle_sig_wifi_ap_stopped_def main_task_handle_sig_check_for_remote_cfg_def start_mdns_def
  stop_mdns_def main_task_handle_sig_network_connected_def main_task_handle_sig_network_disconnected_def
  main_task_handle_sig_task_watchdog_feed_def main_task_handle_sig_network_reconnect_def
  main_task_handle_sig_set_default_config_def

lemma configure_remote_cfg_modes:
  "main_task_configure_periodic_remote_cfg_check E w = Some w' \<Longrightarrow> ml_status w' = ml_status w"
  by (auto simp: main_task_configure_periodic_remote_cfg_check_def ml_read_Some Let_def split: bind_splits)

lemma restart_services_modes:
  assumes "main_task_handle_sig_restart_services E w = Some w'"
  shows "status_modes (ml_status w') = status_modes (ml_status w)"
  using assms
  by (auto simp: main_task_handle_sig_restart_services_def Let_def ml_read_Some ml_mqtt_modes main_calls_defs
    dest!: ml_mqtt_modes(1) configure_remote_cfg_modes split: bind_splits if_splits)

lemma relaying_mode_changed_modes:
  assumes "main_task_handle_sig_relaying_mode_changed E w = Some w'"
  shows "status_modes (ml_status w') = status_modes (ml_status w)"
proof -
  from assms obtain use w2 w1 where cfg: "ml_read gw_cfg_get_mqtt_use_mqtt w = Some (use, w2)"
    and mqtt: "(if use then (if gw_status_is_relaying_via_mqtt_enabled (ml_status w2)
         then (if \<not> gw_status_is_mqtt_started (ml_status w2) then ml_mqtt_start E w2 else Some w2)
         else Some (ml_mqtt_stop E w2)) else Some (ml_mqtt_stop E w2)) = Some w1"
    and w': "w' = main_task_send_sig_log_runtime_stat (set_status (gw_status_clear_mqtt_relaying_cmd (ml_status w1)) w1)"
    unfolding main_task_handle_sig_relaying_mode_changed_def Let_def by (auto split: bind_splits)
  from cfg have "ml_status w2 = ml_status w" by (auto simp: ml_read_Some)
  with mqtt have "status_modes (ml_status w1) = status_modes (ml_status w)"
    by (auto simp: ml_mqtt_modes dest!: ml_mqtt_modes(1) split: if_splits)
  with w' show ?thesis by (simp add: main_calls_defs status_modes_def)
qed

lemma other_handler_modes:
  assumes "main_task_handle_sig E sig w = Some w'"
    and "sig \<notin> {MAIN_TASK_SIG_ACTIVATE_CFG_MODE, MAIN_TASK_SIG_DEACTIVATE_CFG_MODE}"
  shows "status_modes (ml_status w') = status_modes (ml_status w)"
  using assms restart_services_modes relaying_mode_changed_modes
  by (cases sig) (auto simp: main_handler_defs main_calls_defs Let_def ml_read_Some split: bind_splits if_splits)

lemma activate_cfg_mode_modes:
  assumes "main_task_handle_sig_activate_cfg_mode E w = Some w'" and "counts_fit (ml_status w) Suspend_relaying"
  shows "status_modes (ml_status w') =
    (let (cfg, h, m) = status_modes (ml_status w) in if cfg then (cfg, h, m) else (True, h + 1, m + 1))"
proof (cases "v_cfg_mode (status_view (ml_status w))")
  case True
  with assms(1) show ?thesis
    by (auto simp: main_task_handle_sig_activate_cfg_mode_def status_reads Let_def status_modes_def)
next
  case False
  define s where "s = gw_status_set_cfg_mode (ml_status w)"
  have fit: "counts_fit s Suspend_relaying"
    using assms(2) by (simp add: counts_fit_def s_def gw_status_set_cfg_mode_def xEventGroupSetBits_def)
  from status_step_spec [OF this, of "en_wait E"]
  have "status_view (gw_status_step (en_wait E) s Suspend_relaying) = status_spec (status_view s) Suspend_relaying" .
  moreover have "ml_status w' = gw_status_step (en_wait E) s Suspend_relaying"
    using assms(1) False
    by (auto simp: main_task_handle_sig_activate_cfg_mode_def status_reads Let_def suspend_step [OF fit] s_def [symmetric]
      main_calls_defs simp del: gw_status_step.simps split: if_splits)
  ultimately show ?thesis
    using False by (simp add: status_modes_def s_def spec_notify_def del: gw_status_step.simps)
qed

lemma gw_cfg_is_empty_eq:
  "g_gw_cfg_mutex s = Some n \<Longrightarrow> gw_cfg_is_empty s = Some (g_gw_cfg_is_empty s, s)"
  "g_gw_cfg_mutex s = None \<Longrightarrow> gw_cfg_is_empty s = None"
  by (auto simp: gw_cfg_is_empty_def gw_cfg_lock_ro_def gw_cfg_unlock_ro_def gw_cfg_mutex_lock_def gw_cfg_mutex_unlock_def)

lemma ml_read_eq:
  "f (ml_cfg w) = Some (x, ml_cfg w) \<Longrightarrow> ml_read f w = Some (x, w)"
  by (simp add: ml_read_def)

lemma ml_read_cfg:
  "g_gw_cfg_mutex (ml_cfg w) = Some n \<Longrightarrow> ml_read (gw_cfg_read f) w = Some (f (g_gateway_config (ml_cfg w)), w)"
  by (rule ml_read_eq, rule gw_cfg_read_eq)

lemma ml_read_is_empty:
  "g_gw_cfg_mutex (ml_cfg w) = Some n \<Longrightarrow> ml_read gw_cfg_is_empty w = Some (g_gw_cfg_is_empty (ml_cfg w), w)"
  by (simp add: ml_read_def gw_cfg_is_empty_eq)

lemma cfg_mode_stop_timers_fields [simp]:
  "ml_status (cfg_mode_stop_timers w) = ml_status w" "ml_cfg (cfg_mode_stop_timers w) = ml_cfg w"
  "ml_mqtt (cfg_mode_stop_timers w) = ml_mqtt w"
  "\<not> g_p_timer_sig_deferred_ethernet_activation (cfg_mode_stop_timers w)"
  by (simp_all add: cfg_mode_stop_timers_def main_calls_defs Let_def ml_status_def)

lemma cfg_mode_stop_ap_and_wps_fields [simp]:
  "status_view (ml_status (cfg_mode_stop_ap_and_wps E w)) = (status_view (ml_status w))\<lparr>v_waiting_wps := False\<rparr>"
  "ml_cfg (cfg_mode_stop_ap_and_wps E w) = ml_cfg w"
  "g_p_timer_sig_deferred_ethernet_activation (cfg_mode_stop_ap_and_wps E w) =
     g_p_timer_sig_deferred_ethernet_activation w"
  by (simp_all add: cfg_mode_stop_ap_and_wps_def main_calls_defs Let_def status_reads)

lemma cfg_mode_connect_fields:
  assumes "g_gw_cfg_mutex (ml_cfg w) = Some n"
  obtains w' where "cfg_mode_connect E w = Some w'" and "ml_status w' = ml_status w" and "ml_cfg w' = ml_cfg w"
    and "g_p_timer_sig_deferred_ethernet_activation w' = g_p_timer_sig_deferred_ethernet_activation w"
proof -
  define eth where "eth \<longleftrightarrow> g_gw_cfg_is_empty (ml_cfg w) \<or> gw_cfg_eth.use_eth (eth_cfg (g_gateway_config (ml_cfg w)))"
  define w' where "w' = (if eth \<or> \<not> en_sta_configured E
    then (if en_connected_to_ethernet E then w else ethernet_start w)
    else (if en_sta_active E then w else ml_call Wifi_connect w))"
  have "cfg_mode_connect E w = Some w'"
    by (cases "g_gw_cfg_is_empty (ml_cfg w)")
      (simp_all add: cfg_mode_connect_def ml_read_is_empty [OF assms] ml_read_cfg [OF assms]
        gw_cfg_get_eth_use_eth_def w'_def eth_def)
  then show thesis by (rule that) (simp_all add: w'_def)
qed

lemma resume_view: "status_view (gw_status_step W s Resume_relaying) = status_spec (status_view s) Resume_relaying"
  by (simp add: gw_status_resume_relaying_def Let_def case_prod_beta resume_count_spec notify_no_wait notify_view)
    (simp add: status_view_def Let_def resume_count_spec)

text \<open>The mode is left, and relaying resumed, when the gateway is configured.\<close>

lemma deactivate_cfg_mode_modes:
  assumes "g_gw_cfg_mutex (ml_cfg w) = Some n"
  obtains w' where "main_task_handle_sig_deactivate_cfg_mode E w = Some w'" and "ml_cfg w' = ml_cfg w"
    and "\<not> g_p_timer_sig_deferred_ethernet_activation w'"
    and "status_modes (ml_status w') = (let (cfg, h, m) = status_modes (ml_status w) in
      if cfg \<and> \<not> g_gw_cfg_is_empty (ml_cfg w) then (False, h - 1, m - 1) else (cfg, h, m))"
proof (cases "v_cfg_mode (status_view (ml_status w))")
  case False
  then show ?thesis
    by (intro that [of "cfg_mode_stop_timers w"])
      (simp_all add: main_task_handle_sig_deactivate_cfg_mode_def status_reads Let_def status_modes_def)
next
  case True
  define w1 where "w1 = cfg_mode_stop_ap_and_wps E
    (if \<not> g_gw_cfg_is_empty (ml_cfg w)
     then set_status (gw_status_clear_cfg_mode (ml_status w)) (cfg_mode_stop_timers w) else cfg_mode_stop_timers w)"
  have cfg: "ml_cfg w1 = ml_cfg w" by (simp add: w1_def)
  have timer: "\<not> g_p_timer_sig_deferred_ethernet_activation w1" by (simp add: w1_def)
  from assms cfg obtain w2 where w2: "cfg_mode_connect E w1 = Some w2" "ml_status w2 = ml_status w1"
      "ml_cfg w2 = ml_cfg w" "\<not> g_p_timer_sig_deferred_ethernet_activation w2"
    using cfg_mode_connect_fields [of w1 n E] timer by metis
  have v: "v_cfg_mode (status_view (ml_status w1)) = g_gw_cfg_is_empty (ml_cfg w)"
      "v_http_suspended (status_view (ml_status w1)) = v_http_suspended (status_view (ml_status w))"
      "v_mqtt_suspended (status_view (ml_status w1)) = v_mqtt_suspended (status_view (ml_status w))"
    using True by (simp_all add: w1_def)
  define w3 where "w3 = ml_call (Main_notify EVENT_MGR_EV_CFG_MODE_DEACTIVATED) (main_task_send_sig_restart_services w2)"
  define w' where "w' = (if g_gw_cfg_is_empty (ml_cfg w) then w2
    else set_status (gw_status_step (en_wait E) (ml_status w1) Resume_relaying) w3)"
  have w3: "ml_status w3 = ml_status w1" "ml_cfg w3 = ml_cfg w" "\<not> g_p_timer_sig_deferred_ethernet_activation w3"
    using w2 by (simp_all add: w3_def main_calls_defs)
  have run: "main_task_handle_sig_deactivate_cfg_mode E w = Some w'"
    using True w2 w3(1) v(1) w1_def assms
    by (cases "g_gw_cfg_is_empty (ml_cfg w)")
      (simp_all add: main_task_handle_sig_deactivate_cfg_mode_def status_reads Let_def ml_read_is_empty
        resume_step w3_def [symmetric] w'_def del: gw_status_step.simps)
  show ?thesis
  proof (rule that [OF run])
    show "ml_cfg w' = ml_cfg w" "\<not> g_p_timer_sig_deferred_ethernet_activation w'"
      using w2 w3 by (simp_all add: w'_def)
    show "status_modes (ml_status w') = (let (cfg, h, m) = status_modes (ml_status w) in
      if cfg \<and> \<not> g_gw_cfg_is_empty (ml_cfg w) then (False, h - 1, m - 1) else (cfg, h, m))"
      using True v w2(2) resume_view [of "en_wait E" "ml_status w1"]
      by (cases "g_gw_cfg_is_empty (ml_cfg w)")
        (simp_all add: w'_def status_modes_def spec_notify_def del: gw_status_step.simps)
  qed
qed

lemma deactivate_result:
  assumes "g_gw_cfg_mutex (ml_cfg w) = Some n" and "main_task_handle_sig_deactivate_cfg_mode E w = Some w'"
  shows "status_modes (ml_status w') = (let (cfg, h, m) = status_modes (ml_status w) in
      if cfg \<and> \<not> g_gw_cfg_is_empty (ml_cfg w) then (False, h - 1, m - 1) else (cfg, h, m))"
    and "ml_cfg w' = ml_cfg w" and "\<not> g_p_timer_sig_deferred_ethernet_activation w'"
  by (rule deactivate_cfg_mode_modes [OF assms(1), of E]; use assms(2) in simp)+

section \<open>The task among the others\<close>

text \<open>
  A run of the gateway as the main task sees it: its own signals, the suspensions of relaying that other
  tasks (downloads, the validation of URLs, the firmware update) hold, and their calls of the status,
  of MQTT and of the configuration. The two numbers count what the others hold for HTTP and for MQTT.
  Only the main task touches the configuration mode, and nobody resumes what he did not suspend.
  (A wait for the acknowledgement of a suspension does not touch the counts.)
\<close>

declare gw_status_step.simps [simp del]

fun no_mode_change :: "gw_status_op \<Rightarrow> bool" where
  "no_mode_change Set_cfg_mode = False"
| "no_mode_change Clear_cfg_mode = False"
| "no_mode_change Suspend_relaying = False"
| "no_mode_change Resume_relaying = False"
| "no_mode_change Suspend_http_relaying = False"
| "no_mode_change Resume_http_relaying = False"
| "no_mode_change _ = True"

inductive gateway_run :: "main_world \<Rightarrow> main_world \<Rightarrow> nat \<Rightarrow> nat \<Rightarrow> bool" for w0 where
  Start: "gateway_run w0 w0 0 0"
| Signal: "gateway_run w0 w' h m"
    if "gateway_run w0 w h m" and "main_task_handle_sig E sig w = Some w'"
| Other_suspends: "gateway_run w0 (set_status (gw_status_step W (ml_status w) Suspend_relaying) w) (h + 1) (m + 1)"
    if "gateway_run w0 w h m" and "max h m < 2 ^ 31 - 3"
| Other_resumes: "gateway_run w0 (set_status (gw_status_step W (ml_status w) Resume_relaying) w) (h - 1) (m - 1)"
    if "gateway_run w0 w h m" and "0 < h" and "0 < m"
| Other_suspends_http: "gateway_run w0 (set_status (gw_status_step W (ml_status w) Suspend_http_relaying) w) (h + 1) m"
    if "gateway_run w0 w h m" and "max h m < 2 ^ 31 - 3"
| Other_resumes_http: "gateway_run w0 (set_status (gw_status_step W (ml_status w) Resume_http_relaying) w) (h - 1) m"
    if "gateway_run w0 w h m" and "0 < h"
| Other_status: "gateway_run w0 (set_status (gw_status_step W (ml_status w) op) w) h m"
    if "gateway_run w0 w h m" and "no_mode_change op"
| Other_mqtt: "gateway_run w0 (w\<lparr>ml_mqtt := q\<rparr>) h m"
    if "gateway_run w0 w h m" and "mqtt_exec M op (ml_mqtt w) = Some q"
| Other_cfg: "gateway_run w0 (w\<lparr>ml_cfg := c\<rparr>) h m"
    if "gateway_run w0 w h m" and "gw_cfg_exec cop (ml_cfg w) = Some c"

definition main_modes :: "gw_status \<Rightarrow> nat \<Rightarrow> nat \<Rightarrow> bool" where
  "main_modes s h m \<longleftrightarrow> (\<exists>c. status_modes s = (c, h + of_bool c, m + of_bool c)) \<and> max h m \<le> 2 ^ 31 - 3"

lemma main_modes_step_view:
  assumes "main_modes s h m"
  shows "counts_fit s op" and "status_view (gw_status_step W s op) = status_spec (status_view s) op"
proof -
  have "v_http_suspended (status_view s) < 2 ^ 31 - 1" "v_mqtt_suspended (status_view s) < 2 ^ 31 - 1"
    using assms by (auto simp: main_modes_def status_modes_def)
  then show "counts_fit s op" by (simp add: counts_fit_def status_view_def Let_def)
  then show "status_view (gw_status_step W s op) = status_spec (status_view s) op" by (rule status_step_spec)
qed

lemma main_modes_cong: "status_modes s' = status_modes s \<Longrightarrow> main_modes s h m \<Longrightarrow> main_modes s' h m"
  by (simp add: main_modes_def)

lemma no_mode_change_modes:
  "no_mode_change op \<Longrightarrow> main_modes s h m \<Longrightarrow> main_modes (gw_status_step W s op) h m"
  by (rule main_modes_cong, simp only: status_modes_def main_modes_step_view(2)) (cases op; simp)

lemma other_counts_steps:
  assumes "main_modes s h m" and "status_modes s = (c, hh, mm)"
  shows "status_modes (gw_status_step W s Suspend_relaying) = (c, Suc hh, Suc mm)"
    and "status_modes (gw_status_step W s Resume_relaying) = (c, hh - 1, mm - 1)"
    and "status_modes (gw_status_step W s Suspend_http_relaying) = (c, Suc hh, mm)"
    and "status_modes (gw_status_step W s Resume_http_relaying) = (c, hh - 1, mm)"
  using assms(2) by (simp_all add: status_modes_def main_modes_step_view(2) [OF assms(1)] spec_notify_def)

lemma other_counts_modes:
  assumes "main_modes s h m"
  shows "max h m < 2 ^ 31 - 3 \<Longrightarrow> main_modes (gw_status_step W s Suspend_relaying) (Suc h) (Suc m)"
    and "0 < h \<Longrightarrow> 0 < m \<Longrightarrow> main_modes (gw_status_step W s Resume_relaying) (h - Suc 0) (m - Suc 0)"
    and "max h m < 2 ^ 31 - 3 \<Longrightarrow> main_modes (gw_status_step W s Suspend_http_relaying) (Suc h) m"
    and "0 < h \<Longrightarrow> main_modes (gw_status_step W s Resume_http_relaying) (h - Suc 0) m"
proof -
  from assms obtain c where c: "status_modes s = (c, h + of_bool c, m + of_bool c)" "h \<le> 2 ^ 31 - 3" "m \<le> 2 ^ 31 - 3"
    by (auto simp: main_modes_def)
  note steps = other_counts_steps [OF assms c(1), of W]
  show "max h m < 2 ^ 31 - 3 \<Longrightarrow> main_modes (gw_status_step W s Suspend_relaying) (Suc h) (Suc m)"
    and "0 < h \<Longrightarrow> 0 < m \<Longrightarrow> main_modes (gw_status_step W s Resume_relaying) (h - Suc 0) (m - Suc 0)"
    and "max h m < 2 ^ 31 - 3 \<Longrightarrow> main_modes (gw_status_step W s Suspend_http_relaying) (Suc h) m"
    and "0 < h \<Longrightarrow> main_modes (gw_status_step W s Resume_http_relaying) (h - Suc 0) m"
    using c(2,3) by (auto simp: main_modes_def steps)
qed

lemma signal_modes:
  assumes "main_task_handle_sig E sig w = Some w'" and "main_modes (ml_status w) h m"
  shows "main_modes (ml_status w') h m"
proof (cases "sig = MAIN_TASK_SIG_ACTIVATE_CFG_MODE \<or> sig = MAIN_TASK_SIG_DEACTIVATE_CFG_MODE")
  case False
  with assms other_handler_modes show ?thesis by (auto intro: main_modes_cong)
next
  case True
  from assms(2) obtain c where
    c: "status_modes (ml_status w) = (c, h + of_bool c, m + of_bool c)" "max h m \<le> 2 ^ 31 - 3"
    unfolding main_modes_def by blast
  from True show ?thesis
  proof
    assume "sig = MAIN_TASK_SIG_ACTIVATE_CFG_MODE"
    with assms(1) have "main_task_handle_sig_activate_cfg_mode E w = Some w'" by simp
    from activate_cfg_mode_modes [OF this main_modes_step_view(1) [OF assms(2)]] c show ?thesis
      by (cases c) (auto simp: main_modes_def)
  next
    assume "sig = MAIN_TASK_SIG_DEACTIVATE_CFG_MODE"
    with assms have run: "main_task_handle_sig_deactivate_cfg_mode E w = Some w'" by simp
    show ?thesis
    proof (cases "g_gw_cfg_mutex (ml_cfg w)")
      case None
      with run have "w' = cfg_mode_stop_timers w"
        by (auto simp: main_task_handle_sig_deactivate_cfg_mode_def Let_def ml_read_def gw_cfg_is_empty_eq(2) split: if_splits)
      with assms(2) show ?thesis by simp
    next
      case (Some n)
      from deactivate_result(1) [OF this run] have "status_modes (ml_status w') =
          (if c \<and> \<not> g_gw_cfg_is_empty (ml_cfg w) then (False, h, m) else (c, h + of_bool c, m + of_bool c))"
        unfolding c(1) by (cases c) simp_all
      with c(2) show ?thesis unfolding main_modes_def by (cases "c \<and> \<not> g_gw_cfg_is_empty (ml_cfg w)") auto
    qed
  qed
qed

lemma gateway_run_modes:
  assumes "gateway_run w0 w h m" and "status_modes (ml_status w0) = (False, 0, 0)"
  shows "main_modes (ml_status w) h m"
  using assms
proof (induction rule: gateway_run.induct)
  case (Signal w h m E sig w')
  then show ?case using signal_modes by blast
next
  case (Other_mqtt w h m M op q)
  then have "status_modes (mq_status q) = status_modes (ml_status w)"
    using mqtt_exec_modes [of M op "ml_mqtt w" q] by (simp add: ml_status_def)
  with Other_mqtt show ?case by (auto simp: ml_status_def intro: main_modes_cong)
qed (auto simp: main_modes_def [of _ 0 0] no_mode_change_modes other_counts_modes)

definition pdMS_TO_TICKS :: "u32 \<Rightarrow> u32" where
  "pdMS_TO_TICKS ms = ms * 1000 div 1000"

definition sim_main_env :: main_env where
  "sim_main_env = \<lparr>en_mqtt = sim_mqtt_env, en_wait = sim_wait, en_alloc = True, en_default = gw_cfg_example,
     en_ms_to_ticks = pdMS_TO_TICKS, en_unix_time = 0, en_free_heap = 60000,
     en_timer_active = (\<lambda>_. True), en_connected_to_wifi_or_ethernet = True, en_connected_to_ethernet = False,
     en_ap_active = True, en_sta_active = False, en_sta_configured = False, en_mdns_init = True,
     en_force_start_wifi_hotspot = FORCE_START_WIFI_HOTSPOT_DISABLED, en_ip4addr_aton = (\<lambda>_. 0x01010101),
     en_dhcpc_start = True, en_dhcpc_stop = Dhcpc_stopped, en_set_ip_info = True, en_eth_init = (\<lambda>_. True),
     en_link_comes_up = True, en_http_server_cb_init = True, en_sntp_sync_mode = SNTP_SYNC_MODE_IMMED\<rparr>"

definition sim_main :: main_world where
  "sim_main = \<lparr>ml_mqtt = mqtt_initial sim_mqtt_status, ml_cfg = gw_cfg_state_example (Some 0),
     g_heap_usage_stat_cnt = 0, g_heap_usage_min_free_heap = - 1, g_heap_usage_max_free_heap = 0,
     g_heap_limit_cnt = 0, g_flag_initial_request_for_remote_cfg_performed = False,
     g_p_timer_sig_deferred_ethernet_activation = True, g_eth_handle = True, g_flag_wifi_initialized = False,
     g_network_disconnect_cnt = 0, g_gpio_is_configure_button_pressed = False, g_cnt_cfg_button_pressed = 0,
     g_uptime_counter = 0, gp_time_task_signal = False, g_time_min_valid = 0, g_time_is_synchronized = True, g_time_task_ntp_use = False,
     g_time_task_ntp_use_dhcp = False, g_arr_of_time_servers = [], ml_calls = []\<rparr>"

lemma sim_main_modes: "status_modes (ml_status sim_main) = (False, 0, 0)"
  by (simp add: sim_main_def ml_status_def mqtt_initial_def sim_mqtt_status_def status_modes_def status_view_def Let_def)

text \<open>C9: While the gateway is in configuration mode, relaying is suspended. In every run of the main task
  among the other tasks, from a gateway that is not in configuration mode and whose relaying
  nobody suspended, the two counts of suspensions are what the other tasks hold plus one while the mode
  lasts: repeated requests for the mode suspend once, leaving it resumes once, however the signals,
  the restarts of MQTT, the changes of the configuration (an empty configuration keeps the mode) and the suspensions of
  the others interleave. So in configuration mode neither HTTP nor MQTT relays, and outside of it each relays
  exactly when no other task holds a suspension.\<close>

theorem configuration_mode_suspends_relaying:
  assumes "gateway_run w0 w h m" and "status_modes (ml_status w0) = (False, 0, 0)"
  shows "v_http_suspended (status_view (ml_status w)) = h + of_bool (gw_status_get_cfg_mode (ml_status w)) \<and>
    v_mqtt_suspended (status_view (ml_status w)) = m + of_bool (gw_status_get_cfg_mode (ml_status w)) \<and>
    (gw_status_is_relaying_via_http_enabled (ml_status w) \<longleftrightarrow> \<not> gw_status_get_cfg_mode (ml_status w) \<and> h = 0) \<and>
    (gw_status_is_relaying_via_mqtt_enabled (ml_status w) \<longleftrightarrow> \<not> gw_status_get_cfg_mode (ml_status w) \<and> m = 0)"
  using gateway_run_modes [OF assms] by (auto simp: main_modes_def status_modes_def status_reads)

lemma sim_activate:
  obtains w where "main_task_handle_sig sim_main_env MAIN_TASK_SIG_ACTIVATE_CFG_MODE sim_main = Some w"
    and "status_modes (ml_status w) = (True, 1, 1)" and "ml_cfg w = ml_cfg sim_main"
proof -
  let ?s = "ml_status sim_main"
  have "\<not> gw_status_get_cfg_mode ?s" using sim_main_modes by (simp add: status_reads status_modes_def)
  moreover have fit: "counts_fit (gw_status_set_cfg_mode ?s) Suspend_relaying"
    by (simp add: counts_fit_def sim_main_def ml_status_def mqtt_initial_def sim_mqtt_status_def
      gw_status_set_cfg_mode_def xEventGroupSetBits_def)
  ultimately have run: "\<exists>w. main_task_handle_sig sim_main_env MAIN_TASK_SIG_ACTIVATE_CFG_MODE sim_main = Some w \<and> ml_cfg w = ml_cfg sim_main"
    by (simp add: main_task_handle_sig_activate_cfg_mode_def Let_def suspend_step [OF fit] main_calls_defs)
  then obtain w where w: "main_task_handle_sig sim_main_env MAIN_TASK_SIG_ACTIVATE_CFG_MODE sim_main = Some w"
    "ml_cfg w = ml_cfg sim_main" by blast
  have "counts_fit ?s Suspend_relaying"
    by (simp add: counts_fit_def sim_main_def ml_status_def mqtt_initial_def sim_mqtt_status_def)
  with w(1) have "status_modes (ml_status w) = (True, 1, 1)"
    using activate_cfg_mode_modes [of sim_main_env sim_main w] sim_main_modes by simp
  with w show thesis by (intro that)
qed

text \<open>The mode is entered, a download suspends HTTP, the mode is left while the download runs.\<close>

theorem configuration_mode_suspends_relaying_witness:
  "\<exists>w. gateway_run sim_main w 1 0 \<and> \<not> gw_status_get_cfg_mode (ml_status w) \<and>
    \<not> gw_status_is_relaying_via_http_enabled (ml_status w) \<and> gw_status_is_relaying_via_mqtt_enabled (ml_status w)"
proof -
  obtain w1 where w1: "main_task_handle_sig sim_main_env MAIN_TASK_SIG_ACTIVATE_CFG_MODE sim_main = Some w1"
    "status_modes (ml_status w1) = (True, 1, 1)" "ml_cfg w1 = ml_cfg sim_main" by (rule sim_activate)
  define w2 where "w2 = set_status (gw_status_step sim_wait (ml_status w1) Suspend_http_relaying) w1"
  have run1: "gateway_run sim_main w1 0 0" by (rule gateway_run.Signal [OF gateway_run.Start w1(1)])
  have run2: "gateway_run sim_main w2 1 0"
    using gateway_run.Other_suspends_http [OF run1] by (simp add: w2_def)
  have w2: "status_modes (ml_status w2) = (True, 2, 1)" "g_gw_cfg_mutex (ml_cfg w2) = Some 0"
    "\<not> g_gw_cfg_is_empty (ml_cfg w2)"
    using other_counts_steps(3) [OF gateway_run_modes [OF run1 sim_main_modes] w1(2), of sim_wait] w1(3)
    by (simp_all add: w2_def sim_main_def gw_cfg_state_example_def)
  obtain w3 where w3: "main_task_handle_sig_deactivate_cfg_mode sim_main_env w2 = Some w3"
    by (rule deactivate_cfg_mode_modes [OF w2(2), of sim_main_env])
  have "gateway_run sim_main w3 1 0" using gateway_run.Signal [OF run2, of sim_main_env MAIN_TASK_SIG_DEACTIVATE_CFG_MODE] w3 by simp
  moreover have "\<not> gw_status_get_cfg_mode (ml_status w3)"
    using deactivate_result(1) [OF w2(2) w3] w2(1,3) by (simp add: status_reads status_modes_def)
  ultimately show ?thesis using configuration_mode_suspends_relaying [of sim_main w3 1 0] sim_main_modes by auto
qed

section \<open>MQTT follows the configuration and the suspensions\<close>

definition mqtt_starts :: "main_env \<Rightarrow> ruuvi_gw_cfg_mqtt \<Rightarrow> bool" where
  "mqtt_starts E c \<longleftrightarrow> en_alloc E \<and> c_str (mqtt_server c) \<noteq> [] \<and> mqtt_port c \<noteq> 0 \<and>
     me_client_init (en_mqtt E) \<and> me_client_start (en_mqtt E)"

lemma ml_mqtt_start_spec:
  assumes "g_gw_cfg_mutex (ml_cfg w) = Some n" and "mqtt_inv (ml_mqtt w)" and "me_alloc_config (en_mqtt E)"
    and "\<not> mq_client (ml_mqtt w)"
  obtains q where "ml_mqtt_start E w = Some (w\<lparr>ml_mqtt := q\<rparr>)" and "mqtt_inv q"
    and "mq_client q = mqtt_starts E (cfg_mqtt (ruuvi_cfg (g_gateway_config (ml_cfg w))))"
proof -
  define c where "c = cfg_mqtt (ruuvi_cfg (g_gateway_config (ml_cfg w)))"
  have copy: "ml_read (gw_cfg_get_mqtt_copy (en_alloc E)) w = Some (if en_alloc E then Some c else None, w)"
    using assms(1) gw_cfg_read_eq [OF assms(1), of "\<lambda>c. Some (cfg_mqtt (ruuvi_cfg c))"]
    by (simp add: ml_read_def gw_cfg_get_mqtt_copy_def gw_cfg_alloc_copy_def c_def)
  have "\<exists>q. mqtt_app_start_with_gw_cfg (en_mqtt E) (if en_alloc E then Some c else None) (ml_mqtt w) = Some q \<and>
      mqtt_inv q \<and> mq_client q = mqtt_starts E c"
  proof (cases "en_alloc E")
    case True
    obtain q where "mqtt_app_start (en_mqtt E) c (ml_mqtt w) = Some q" "mqtt_inv q"
      using app_start_inv [OF assms(2,3)] by blast
    moreover from this(1) have "mq_client q = mqtt_starts E c"
      using assms(3,4) True by (auto simp: mqtt_app_start_def mqtt_app_start_internal_def mqtt_create_client_config_def
        mqtt_app_start_internal2_def Let_def mqtt_starts_def split: if_splits)
    ultimately show ?thesis using True by (simp add: mqtt_app_start_with_gw_cfg_def)
  next
    case False
    then show ?thesis
      using assms(2,4) by (simp add: mqtt_app_start_with_gw_cfg_def mqtt_starts_def mqtt_inv_def)
  qed
  with copy that show thesis by (auto simp: ml_mqtt_start_def c_def)
qed

lemma ml_mqtt_stop_spec:
  "mqtt_inv (ml_mqtt w) \<Longrightarrow> mqtt_inv (ml_mqtt (ml_mqtt_stop E w))" "\<not> mq_client (ml_mqtt (ml_mqtt_stop E w))"
  "ml_cfg (ml_mqtt_stop E w) = ml_cfg w"
  by (simp_all add: ml_mqtt_stop_def app_stop_inv) (simp add: mqtt_app_stop_def Let_def)

definition remote_cfg_call :: "main_env \<Rightarrow> ruuvi_gw_cfg_remote \<Rightarrow> main_call" where
  "remote_cfg_call E r =
     (if use_remote_cfg r \<and> refresh_interval_minutes r \<noteq> 0
      then Main_timer_restart Timer_check_for_remote_cfg (en_ms_to_ticks E (ucast (refresh_interval_minutes r) * 60 * 1000))
      else Main_timer_stop Timer_check_for_remote_cfg)"

lemma configure_remote_cfg_eq:
  "g_gw_cfg_mutex (ml_cfg w) = Some n \<Longrightarrow> main_task_configure_periodic_remote_cfg_check E w =
     Some (ml_call (remote_cfg_call E (cfg_remote (ruuvi_cfg (g_gateway_config (ml_cfg w))))) w)"
  by (simp add: main_task_configure_periodic_remote_cfg_check_def gw_cfg_get_remote_cfg_use_def ml_read_cfg
    remote_cfg_call_def Let_def)

lemma mqtt_inv_status_cong:
  "mqtt_inv q \<Longrightarrow> v_mqtt_started (status_view s) = v_mqtt_started (status_view (mq_status q)) \<Longrightarrow>
   v_mqtt_connected (status_view s) = v_mqtt_connected (status_view (mq_status q)) \<Longrightarrow> mqtt_inv (q\<lparr>mq_status := s\<rparr>)"
  by (simp add: mqtt_inv_def)

lemma set_status_mqtt: "ml_mqtt (set_status s w) = (ml_mqtt w)\<lparr>mq_status := s\<rparr>"
  by (simp add: set_status_def)

lemma ml_mqtt_stop_status:
  "gw_status_is_relaying_via_mqtt_enabled (ml_status (ml_mqtt_stop E w)) =
   gw_status_is_relaying_via_mqtt_enabled (ml_status w)"
  using ml_mqtt_modes(2) [of E w] by (simp add: status_modes_def status_reads)

lemma relaying_mode_changed_spec:
  fixes w :: main_world
  defines "c \<equiv> cfg_mqtt (ruuvi_cfg (g_gateway_config (ml_cfg w)))"
  assumes "g_gw_cfg_mutex (ml_cfg w) = Some n" and inv: "mqtt_inv (ml_mqtt w)" and "me_alloc_config (en_mqtt E)"
  obtains w' where "main_task_handle_sig_relaying_mode_changed E w = Some w'" and "mqtt_inv (ml_mqtt w')"
    and "gw_status_is_mqtt_relaying_cmd_handled (ml_status w')"
    and "mq_client (ml_mqtt w') \<longleftrightarrow> use_mqtt c \<and> gw_status_is_relaying_via_mqtt_enabled (ml_status w) \<and>
       (mq_client (ml_mqtt w) \<or> mqtt_starts E c)"
    and "mq_client (ml_mqtt w) \<and> mq_client (ml_mqtt w') \<Longrightarrow> mq_calls (ml_mqtt w') = mq_calls (ml_mqtt w)"
proof -
  define on where "on \<longleftrightarrow> use_mqtt c \<and> gw_status_is_relaying_via_mqtt_enabled (ml_status w)"
  have started: "gw_status_is_mqtt_started (ml_status w) = mq_client (ml_mqtt w)"
    using inv by (simp add: status_reads mqtt_inv_def ml_status_def)
  have "\<exists>q. (if use_mqtt c then (if gw_status_is_relaying_via_mqtt_enabled (ml_status w)
             then (if \<not> gw_status_is_mqtt_started (ml_status w) then ml_mqtt_start E w else Some w)
             else Some (ml_mqtt_stop E w)) else Some (ml_mqtt_stop E w)) = Some (w\<lparr>ml_mqtt := q\<rparr>) \<and> mqtt_inv q \<and>
      (mq_client q \<longleftrightarrow> on \<and> (mq_client (ml_mqtt w) \<or> mqtt_starts E c)) \<and>
      (mq_client (ml_mqtt w) \<and> mq_client q \<longrightarrow> q = ml_mqtt w)"
  proof (cases on)
    case False
    then show ?thesis
      using ml_mqtt_stop_spec(1,2) [where w = w and E = E] inv
      by (intro exI [of _ "ml_mqtt (ml_mqtt_stop E w)"]) (auto simp: on_def ml_mqtt_stop_def)
  next
    case on: True
    show ?thesis
    proof (cases "mq_client (ml_mqtt w)")
      case True
      then show ?thesis using on inv by (intro exI [of _ "ml_mqtt w"]) (auto simp: on_def started)
    next
      case False
      with ml_mqtt_start_spec [OF assms(2-4)] on show ?thesis by (fastforce simp: on_def started c_def)
    qed
  qed
  then obtain q where q: "(if use_mqtt c then (if gw_status_is_relaying_via_mqtt_enabled (ml_status w)
             then (if \<not> gw_status_is_mqtt_started (ml_status w) then ml_mqtt_start E w else Some w)
             else Some (ml_mqtt_stop E w)) else Some (ml_mqtt_stop E w)) = Some (w\<lparr>ml_mqtt := q\<rparr>)" "mqtt_inv q"
      "mq_client q \<longleftrightarrow> on \<and> (mq_client (ml_mqtt w) \<or> mqtt_starts E c)"
      "mq_client (ml_mqtt w) \<and> mq_client q \<longrightarrow> q = ml_mqtt w" by blast
  define w' where "w' = main_task_send_sig_log_runtime_stat
    (set_status (gw_status_clear_mqtt_relaying_cmd (mq_status q)) (w\<lparr>ml_mqtt := q\<rparr>))"
  have read: "ml_read gw_cfg_get_mqtt_use_mqtt w = Some (use_mqtt c, w)"
    by (simp add: gw_cfg_get_mqtt_use_mqtt_def ml_read_cfg [OF assms(2)] c_def)
  show thesis
  proof (rule that)
    show "main_task_handle_sig_relaying_mode_changed E w = Some w'"
      unfolding main_task_handle_sig_relaying_mode_changed_def read by (simp add: q(1) Let_def w'_def ml_status_def)
    show "mqtt_inv (ml_mqtt w')"
      using q(2) by (simp add: w'_def main_calls_defs set_status_mqtt mqtt_inv_status_cong)
    show "gw_status_is_mqtt_relaying_cmd_handled (ml_status w')"
      by (simp add: w'_def main_calls_defs status_reads)
    show "mq_client (ml_mqtt w') \<longleftrightarrow> use_mqtt c \<and> gw_status_is_relaying_via_mqtt_enabled (ml_status w) \<and>
       (mq_client (ml_mqtt w) \<or> mqtt_starts E c)"
      using q(3) by (simp add: w'_def main_calls_defs set_status_mqtt on_def)
    show "mq_client (ml_mqtt w) \<and> mq_client (ml_mqtt w') \<Longrightarrow> mq_calls (ml_mqtt w') = mq_calls (ml_mqtt w)"
      using q(4) by (simp add: w'_def main_calls_defs set_status_mqtt)
  qed
qed

lemma restart_services_spec:
  fixes w :: main_world
  defines "c \<equiv> cfg_mqtt (ruuvi_cfg (g_gateway_config (ml_cfg w)))"
  assumes "g_gw_cfg_mutex (ml_cfg w) = Some n" and inv: "mqtt_inv (ml_mqtt w)" and "me_alloc_config (en_mqtt E)"
  obtains w' where "main_task_handle_sig_restart_services E w = Some w'" and "mqtt_inv (ml_mqtt w')"
    and "mq_client (ml_mqtt w') \<longleftrightarrow> use_mqtt c \<and> gw_status_is_relaying_via_mqtt_enabled (ml_status w) \<and> mqtt_starts E c"
proof -
  define on where "on \<longleftrightarrow> use_mqtt c \<and> gw_status_is_relaying_via_mqtt_enabled (ml_status w)"
  define w1 where "w1 = ml_mqtt_stop E w"
  have w1: "g_gw_cfg_mutex (ml_cfg w1) = Some n" "mqtt_inv (ml_mqtt w1)" "\<not> mq_client (ml_mqtt w1)"
      "cfg_mqtt (ruuvi_cfg (g_gateway_config (ml_cfg w1))) = c"
      "gw_status_is_relaying_via_mqtt_enabled (ml_status w1) = gw_status_is_relaying_via_mqtt_enabled (ml_status w)"
    using assms ml_mqtt_stop_spec [where w = w and E = E] by (simp_all add: w1_def ml_mqtt_stop_status)
  have "\<exists>q. (if on then ml_mqtt_start E w1 else Some w1) = Some (w1\<lparr>ml_mqtt := q\<rparr>) \<and> mqtt_inv q \<and>
      (mq_client q \<longleftrightarrow> on \<and> mqtt_starts E c)"
  proof (cases on)
    case True
    with ml_mqtt_start_spec [OF w1(1,2) assms(4) w1(3)] w1(4) show ?thesis by fastforce
  next
    case False
    with w1 show ?thesis by (intro exI [of _ "ml_mqtt w1"]) simp
  qed
  then obtain q where q: "(if on then ml_mqtt_start E w1 else Some w1) = Some (w1\<lparr>ml_mqtt := q\<rparr>)" "mqtt_inv q"
      "mq_client q \<longleftrightarrow> on \<and> mqtt_starts E c" by blast
  define w2 where "w2 = ml_call (remote_cfg_call E (cfg_remote (ruuvi_cfg (g_gateway_config (ml_cfg w1))))) (w1\<lparr>ml_mqtt := q\<rparr>)"
  have w2: "g_gw_cfg_mutex (ml_cfg w2) = Some n" "ml_mqtt w2 = q" using w1(1) by (simp_all add: w2_def)
  have read: "ml_read gw_cfg_get_mqtt_use_mqtt w1 = Some (use_mqtt c, w1)"
    by (simp add: gw_cfg_get_mqtt_use_mqtt_def ml_read_cfg [OF w1(1)] w1(4))
  have "\<exists>w'. main_task_handle_sig_restart_services E w = Some w' \<and> ml_mqtt w' = q"
    using q(1) w1(1,5) w2 configure_remote_cfg_eq [of "w1\<lparr>ml_mqtt := q\<rparr>" n E]
    by (simp add: main_task_handle_sig_restart_services_def w1_def [symmetric] read Let_def on_def w2_def [symmetric]
      gw_cfg_get_auto_update_cycle_def ml_read_cfg [OF w2(1)] main_calls_defs)
  with q that show thesis by (auto simp: on_def)
qed

text \<open>C10: MQTT follows the configuration and the suspensions. Handling a change of the relaying mode returns,
  keeps the invariant of the MQTT module and acknowledges the command, also when nothing can be started. Afterwards
  a client exists exactly if MQTT is configured, not suspended, and either a client
  existed before or one can be started: its configuration can be copied, names a server and a port, and the library creates and
  starts it. A running client that may go on is not touched.
  A restart of the services returns as well and replaces the client: then one exists exactly if MQTT is configured, not suspended and can be started.\<close>

theorem relaying_mode_changed_effect:
  fixes w :: main_world
  defines "c \<equiv> cfg_mqtt (ruuvi_cfg (g_gateway_config (ml_cfg w)))"
  assumes "g_gw_cfg_mutex (ml_cfg w) = Some n" and "mqtt_inv (ml_mqtt w)" and "me_alloc_config (en_mqtt E)"
  shows "\<exists>w' w''. main_task_handle_sig E MAIN_TASK_SIG_RELAYING_MODE_CHANGED w = Some w' \<and> mqtt_inv (ml_mqtt w') \<and>
      gw_status_is_mqtt_relaying_cmd_handled (ml_status w') \<and>
      (mq_client (ml_mqtt w') \<longleftrightarrow> use_mqtt c \<and> gw_status_is_relaying_via_mqtt_enabled (ml_status w) \<and>
         (mq_client (ml_mqtt w) \<or> mqtt_starts E c)) \<and>
      (mq_client (ml_mqtt w) \<and> mq_client (ml_mqtt w') \<longrightarrow> mq_calls (ml_mqtt w') = mq_calls (ml_mqtt w)) \<and>
      main_task_handle_sig E MAIN_TASK_SIG_TASK_RESTART_SERVICES w = Some w'' \<and> mqtt_inv (ml_mqtt w'') \<and>
      (mq_client (ml_mqtt w'') \<longleftrightarrow> use_mqtt c \<and> gw_status_is_relaying_via_mqtt_enabled (ml_status w) \<and> mqtt_starts E c)"
proof -
  obtain w' where w': "main_task_handle_sig_relaying_mode_changed E w = Some w'" "mqtt_inv (ml_mqtt w')"
    "gw_status_is_mqtt_relaying_cmd_handled (ml_status w')"
    "mq_client (ml_mqtt w') \<longleftrightarrow> use_mqtt c \<and> gw_status_is_relaying_via_mqtt_enabled (ml_status w) \<and>
       (mq_client (ml_mqtt w) \<or> mqtt_starts E c)"
    "mq_client (ml_mqtt w) \<and> mq_client (ml_mqtt w') \<Longrightarrow> mq_calls (ml_mqtt w') = mq_calls (ml_mqtt w)"
    using relaying_mode_changed_spec [OF assms(2-4)] unfolding c_def by blast
  obtain w'' where w'': "main_task_handle_sig_restart_services E w = Some w''" "mqtt_inv (ml_mqtt w'')"
    "mq_client (ml_mqtt w'') \<longleftrightarrow> use_mqtt c \<and> gw_status_is_relaying_via_mqtt_enabled (ml_status w) \<and> mqtt_starts E c"
    using restart_services_spec [OF assms(2-4)] unfolding c_def by blast
  from w' w'' show ?thesis by (intro exI [of _ w'] exI [of _ w'']) simp
qed

definition sim_main_mqtt :: main_world where
  "sim_main_mqtt = sim_main\<lparr>ml_cfg := (gw_cfg_state_example (Some 0))\<lparr>g_gateway_config :=
     gw_cfg_example\<lparr>ruuvi_cfg := (gw_cfg_ruuvi_example ''x'')\<lparr>cfg_mqtt := sim_mqtt_cfg\<rparr>\<rparr>\<rparr>\<rparr>"

lemma sim_main_mqtt_inv: "mqtt_inv (ml_mqtt sim_main_mqtt)"
  using mqtt_initial_inv [OF sim_status_view] by (simp add: sim_main_mqtt_def sim_main_def)

theorem relaying_mode_changed_effect_witness:
  "\<exists>w'. main_task_handle_sig sim_main_env MAIN_TASK_SIG_RELAYING_MODE_CHANGED sim_main_mqtt = Some w' \<and>
    mq_client (ml_mqtt w') \<and> gw_status_is_mqtt_relaying_cmd_handled (ml_status w')"
proof -
  let ?c = "cfg_mqtt (ruuvi_cfg (g_gateway_config (ml_cfg sim_main_mqtt)))"
  have "use_mqtt ?c" "mqtt_starts sim_main_env ?c"
    by (simp_all add: sim_main_mqtt_def sim_mqtt_cfg_def mqtt_starts_def sim_main_env_def sim_mqtt_env_def c_str_def NUL_def)
  moreover have "gw_status_is_relaying_via_mqtt_enabled (ml_status sim_main_mqtt)"
    using sim_main_modes by (simp add: status_reads status_modes_def sim_main_mqtt_def ml_status_def)
  moreover have "g_gw_cfg_mutex (ml_cfg sim_main_mqtt) = Some 0" "me_alloc_config (en_mqtt sim_main_env)"
    by (simp_all add: sim_main_mqtt_def gw_cfg_state_example_def sim_main_env_def sim_mqtt_env_def)
  ultimately show ?thesis
    using relaying_mode_changed_effect [of sim_main_mqtt 0 sim_main_env] sim_main_mqtt_inv by blast
qed

section \<open>Checks for updates, the week\<close>

lemma window_within_a_week:
  fixes L d h :: int
  assumes "0 \<le> d" and "d < 7" and "0 \<le> h" and "h < 24"
  obtains k :: nat where "k \<le> 252" and "((L + 2400 * int k) div 86400 + 4) mod 7 = d"
    and "(L + 2400 * int k) mod 86400 div 3600 = h"
proof -
  define S where "S = (d - 4) * 86400 + h * 3600"
  define r where "r = (S - L) mod 604800"
  define j where "j = (r + 2399) div 2400"
  define e where "e = 2400 * j - r"
  have r: "0 \<le> r" "r < 604800" by (simp_all add: r_def)
  have "r + 2399 = 2400 * j + (r + 2399) mod 2400" by (simp add: j_def)
  moreover have "0 \<le> (r + 2399) mod 2400" "(r + 2399) mod 2400 < 2400" by simp_all
  ultimately have e: "0 \<le> e" "e < 2400" and j: "0 \<le> j" "j \<le> 252" using r unfolding e_def by linarith+
  define m where "m = - ((S - L) div 604800)"
  have "r = S - L + 604800 * m" unfolding r_def m_def by (simp add: minus_div_mult_eq_mod [symmetric])
  then have x: "L + 2400 * j = h * 3600 + e + 86400 * (d - 4 + 7 * m)" by (simp add: e_def S_def algebra_simps)
  have small: "0 \<le> h * 3600 + e" "h * 3600 + e < 86400" using e assms by linarith+
  have "(L + 2400 * j) div 86400 = d - 4 + 7 * m" "(L + 2400 * j) mod 86400 = h * 3600 + e"
    unfolding x using small
    by (simp_all only: div_mult_self2 mod_mult_self2 div_pos_pos_trivial mod_pos_pos_trivial)
  moreover have "(h * 3600 + e) div 3600 = h" using e by simp
  moreover have "(d - 4 + 7 * m + 4) mod 7 = d" using assms by simp
  ultimately show thesis using j that [of "nat j"] by simp
qed

text \<open>The seconds of the local time, when they fit the clock.\<close>

definition local_seconds :: "ruuvi_gw_cfg_auto_update \<Rightarrow> int \<Rightarrow> int" where
  "local_seconds c t = t + sint (auto_update_tz_offset_hours c) * 3600"

lemma sint_local_time:
  assumes "0 \<le> local_seconds c t" and "local_seconds c t < 2 ^ 31"
  shows "sint (auto_update_local_time c (word_of_int t)) = local_seconds c t"
proof -
  have "auto_update_local_time c (word_of_int t) = word_of_int (local_seconds c t)"
    unfolding auto_update_local_time_def local_seconds_def scast_eq by (simp only: of_int_add of_int_mult of_int_numeral)
  with assms show ?thesis by (simp add: signed_of_int signed_take_bit_int_eq_self)
qed

lemma weekday_bit:
  assumes "0 \<le> d" and "d < 7"
  shows "((ucast (b :: u8) :: u32) AND push_bit (nat d) 1 = 0) = (\<not> bit b (nat d))"
proof -
  have "nat d < 8" using assms by simp
  moreover have "x AND push_bit n 1 = (if bit x n then push_bit n 1 else 0)" for x :: u32 and n
    by (rule bit_word_eqI) (auto simp: bit_simps)
  moreover have "push_bit (nat d) (1 :: u32) \<noteq> 0"
    using assms by (simp add: push_bit_eq_0_iff)
  ultimately show ?thesis by (auto simp: bit_ucast_iff)
qed

lemma check_allowed_iff:
  assumes "0 \<le> local_seconds c t" and "local_seconds c t < 2 ^ 31"
  shows "check_if_checking_for_fw_updates_allowed2 c (word_of_int t) \<longleftrightarrow>
    auto_update_cycle c \<noteq> AUTO_UPDATE_CYCLE_TYPE_MANUAL \<and>
    bit (auto_update_weekdays_bitmask c) (nat ((local_seconds c t div 86400 + 4) mod 7)) \<and>
    uint (auto_update_interval_from c) \<le> local_seconds c t mod 86400 div 3600 \<and>
    local_seconds c t mod 86400 div 3600 < uint (auto_update_interval_to c)"
  by (auto simp: check_if_checking_for_fw_updates_allowed2_def Let_def tm_wday_def tm_hour_def sint_local_time [OF assms]
    weekday_bit simp del: push_bit_of_1)

lemma handle_check_for_fw_updates_eq:
  assumes "g_gw_cfg_mutex (ml_cfg w) = Some n" and "en_connected_to_wifi_or_ethernet E" and "time_is_synchronized w"
  shows "main_task_handle_sig E MAIN_TASK_SIG_CHECK_FOR_FW_UPDATES w =
    Some (ml_call (if check_if_checking_for_fw_updates_allowed2 (cfg_auto_update (ruuvi_cfg (g_gateway_config (ml_cfg w)))) (en_unix_time E)
      then Main_user_req HTTP_SERVER_USER_REQ_CODE_DOWNLOAD_LATEST_RELEASE_INFO
      else Main_send_sig MAIN_TASK_SIG_SCHEDULE_RETRY_CHECK_FOR_FW_UPDATES) w)"
proof -
  have restore: "ml_cfg w\<lparr>g_gw_cfg_mutex := Some n\<rparr> = ml_cfg w" "w\<lparr>ml_cfg := ml_cfg w\<rparr> = w"
    using assms(1) by (cases "ml_cfg w", simp) (cases w, simp)
  show ?thesis
    using assms by (simp add: main_task_handle_sig_check_for_fw_updates_def check_if_checking_for_fw_updates_allowed_def
      ml_read_def gw_cfg_lock_ro_def gw_cfg_unlock_ro_def gw_cfg_mutex_lock_def gw_cfg_mutex_unlock_def Let_def
      restore main_task_schedule_retry_check_for_fw_updates_def)
qed

text \<open>C11: A permitted update is checked for within a week. When the cycle is not manual, a weekday is
  permitted and the permitted hours of the day are an interval that is not empty, then of the attempts that follow each
  other by the 40 minutes of the retry timer, with the network connected and the clock synchronised and within the 31 bits of \<open>time_t\<close>, one of
  the first 253 asks for the latest release, and each one before it sends the signal that starts the
  retry timer with the 2400000 ticks of 40 minutes. Nothing else is done: the hours and the weekday are those of the configured time zone, and no permitted
  window can fall between two attempts.\<close>

theorem update_check_within_a_week:
  fixes w :: main_world
  defines "c \<equiv> cfg_auto_update (ruuvi_cfg (g_gateway_config (ml_cfg w)))"
  assumes "g_gw_cfg_mutex (ml_cfg w) = Some n"
    and "auto_update_cycle c \<noteq> AUTO_UPDATE_CYCLE_TYPE_MANUAL"
    and "bit (auto_update_weekdays_bitmask c) d" and "d < 7"
    and "auto_update_interval_from c < auto_update_interval_to c" and "auto_update_interval_to c \<le> 24"
    and "0 \<le> local_seconds c t" and "local_seconds c (t + 2400 * 252) < 2 ^ 31"
    and "\<And>k. en_connected_to_wifi_or_ethernet (E k)" and "time_is_synchronized w"
    and "\<And>k. en_unix_time (E k) = word_of_int (t + 2400 * int k)" and "\<And>k. en_ms_to_ticks (E k) = pdMS_TO_TICKS"
  shows "\<exists>k \<le> 252. main_task_handle_sig (E k) MAIN_TASK_SIG_CHECK_FOR_FW_UPDATES w =
      Some (ml_call (Main_user_req HTTP_SERVER_USER_REQ_CODE_DOWNLOAD_LATEST_RELEASE_INFO) w) \<and>
    (\<forall>j < k. main_task_handle_sig (E j) MAIN_TASK_SIG_CHECK_FOR_FW_UPDATES w =
        Some (ml_call (Main_send_sig MAIN_TASK_SIG_SCHEDULE_RETRY_CHECK_FOR_FW_UPDATES) w) \<and>
      main_task_handle_sig (E j) MAIN_TASK_SIG_SCHEDULE_RETRY_CHECK_FOR_FW_UPDATES w =
        Some (ml_call (Main_timer_restart Timer_check_for_fw_updates 2400000) w))"
proof -
  define ok where "ok k = check_if_checking_for_fw_updates_allowed2 c (word_of_int (t + 2400 * int k))" for k :: nat
  have range: "0 \<le> local_seconds c (t + 2400 * int k)" "local_seconds c (t + 2400 * int k) < 2 ^ 31"
    if "k \<le> 252" for k using assms(8,9) that by (simp_all add: local_seconds_def)
  have hours: "0 \<le> uint (auto_update_interval_from c)" "uint (auto_update_interval_from c) < uint (auto_update_interval_to c)"
      "uint (auto_update_interval_to c) \<le> 24"
    using assms(6,7) by (simp_all add: word_less_def word_le_def)
  then obtain k0 where k0: "k0 \<le> 252" "((local_seconds c t + 2400 * int k0) div 86400 + 4) mod 7 = int d"
      "(local_seconds c t + 2400 * int k0) mod 86400 div 3600 = uint (auto_update_interval_from c)"
    using window_within_a_week [of "int d" "uint (auto_update_interval_from c)" "local_seconds c t"] assms(5) by force
  have "local_seconds c (t + 2400 * int k0) = local_seconds c t + 2400 * int k0" by (simp add: local_seconds_def)
  with k0 hours assms(3,4) have "ok k0" unfolding ok_def check_allowed_iff [OF range [OF k0(1)]] by simp
  define k where "k = (LEAST k. ok k)"
  have k: "ok k" "\<And>j. j < k \<Longrightarrow> \<not> ok j" "k \<le> 252"
    unfolding k_def using \<open>ok k0\<close> k0(1) by (auto intro: LeastI dest: not_less_Least Least_le order_trans)
  have ticks: "pdMS_TO_TICKS RUUVI_CHECK_FOR_FW_UPDATES_DELAY_BEFORE_RETRY_SECONDS * 1000 = 2400000"
    by (simp add: pdMS_TO_TICKS_def RUUVI_CHECK_FOR_FW_UPDATES_DELAY_BEFORE_RETRY_SECONDS_def)
  have attempt: "main_task_handle_sig (E j) MAIN_TASK_SIG_CHECK_FOR_FW_UPDATES w =
      Some (ml_call (if ok j then Main_user_req HTTP_SERVER_USER_REQ_CODE_DOWNLOAD_LATEST_RELEASE_INFO
        else Main_send_sig MAIN_TASK_SIG_SCHEDULE_RETRY_CHECK_FOR_FW_UPDATES) w)" for j
    unfolding handle_check_for_fw_updates_eq [OF assms(2,10,11)] assms(12) ok_def c_def by (rule refl)
  have retry: "main_task_handle_sig (E j) MAIN_TASK_SIG_SCHEDULE_RETRY_CHECK_FOR_FW_UPDATES w =
      Some (ml_call (Main_timer_restart Timer_check_for_fw_updates 2400000) w)" for j
    by (simp add: main_task_handle_sig_schedule_retry_check_for_fw_updates_def assms(13) ticks)
  show ?thesis using k unfolding attempt retry by (intro exI [of _ k]) simp
qed

text \<open>Checks on Sundays between 12 and 13 o'clock, from a Tuesday.\<close>

definition sim_main_sunday :: main_world where
  "sim_main_sunday = sim_main\<lparr>ml_cfg := (gw_cfg_state_example (Some 0))\<lparr>g_gateway_config :=
     gw_cfg_example\<lparr>ruuvi_cfg := (gw_cfg_ruuvi_example ''x'')\<lparr>cfg_auto_update :=
       \<lparr>auto_update_cycle = AUTO_UPDATE_CYCLE_TYPE_REGULAR, auto_update_weekdays_bitmask = 1,
        auto_update_interval_from = 12, auto_update_interval_to = 13, auto_update_tz_offset_hours = 3\<rparr>\<rparr>\<rparr>\<rparr>\<rparr>"

theorem update_check_within_a_week_witness:
  "\<exists>k \<le> 252. main_task_handle_sig (sim_main_env\<lparr>en_unix_time := word_of_int (1700000000 + 2400 * int k)\<rparr>)
      MAIN_TASK_SIG_CHECK_FOR_FW_UPDATES sim_main_sunday =
    Some (ml_call (Main_user_req HTTP_SERVER_USER_REQ_CODE_DOWNLOAD_LATEST_RELEASE_INFO) sim_main_sunday)"
proof -
  define c where "c = cfg_auto_update (ruuvi_cfg (g_gateway_config (ml_cfg sim_main_sunday)))"
  have c: "auto_update_cycle c \<noteq> AUTO_UPDATE_CYCLE_TYPE_MANUAL" "bit (auto_update_weekdays_bitmask c) 0"
      "auto_update_interval_from c < auto_update_interval_to c" "auto_update_interval_to c \<le> 24"
      "0 \<le> local_seconds c 1700000000" "local_seconds c (1700000000 + 2400 * 252) < 2 ^ 31"
      "time_is_synchronized sim_main_sunday"
    by (simp_all add: c_def sim_main_sunday_def local_seconds_def time_is_synchronized_def sim_main_def)
  have "g_gw_cfg_mutex (ml_cfg sim_main_sunday) = Some 0" by (simp add: sim_main_sunday_def gw_cfg_state_example_def)
  from update_check_within_a_week [OF this, of 0 1700000000
      "\<lambda>k. sim_main_env\<lparr>en_unix_time := word_of_int (1700000000 + 2400 * int k)\<rparr>", folded c_def] c
  show ?thesis by (auto simp: sim_main_env_def simp del: main_task_handle_sig.simps)
qed

section \<open>Free heap, windows\<close>

text \<open>A window is 100 samples of the free heap; it is low when its first 99 are below 50 KiB (the last
  one is not looked at).\<close>

definition heap_samples :: "main_env list \<Rightarrow> (main_env \<times> os_signal_num) list" where
  "heap_samples Es = map (\<lambda>E. (E, main_task_conv_to_sig_num MAIN_TASK_SIG_LOG_HEAP_USAGE)) Es"

definition low_window :: "main_env list \<Rightarrow> bool" where
  "low_window Es \<longleftrightarrow> (\<forall>E \<in> set (take 99 Es). en_free_heap E < 50 * 1024)"

definition heap_watch :: "main_world \<Rightarrow> nat \<Rightarrow> bool" where
  "heap_watch w l \<longleftrightarrow> l < 5 \<and> g_heap_usage_stat_cnt w = 0 \<and> g_heap_usage_max_free_heap w = 0 \<and> g_heap_limit_cnt w = of_nat l"

lemma main_loop_signals_append:
  "main_loop_signals (xs @ ys) w = Option.bind (main_loop_signals xs w) (main_loop_signals ys)"
  by (induction xs w rule: main_loop_signals.induct) (auto split: option.splits bind_splits)

lemma main_loop_signals_Nil: "main_loop_signals [] = Some"
  by (rule ext) simp

lemma heap_signal:
  "main_loop_signals (heap_samples (E # Es)) w =
     Option.bind (main_task_handle_sig_log_heap_usage E w) (main_loop_signals (heap_samples Es))"
  by (simp add: heap_samples_def main_task_conv_to_sig_num_def main_task_conv_from_sig_num_def all_main_task_sigs_def)

lemmas heap_constants = MAIN_TASK_LOG_HEAP_USAGE_PERIOD_SECONDS_def MAIN_TASK_LOG_HEAP_STAT_PERIOD_MS_def
  RUUVI_FREE_HEAP_LIM_KIB_def RUUVI_NUM_BYTES_IN_1KB_def RUUVI_MAX_LOW_HEAP_MEM_CNT_main_def

lemma heap_sample_inside:
  assumes "g_heap_usage_stat_cnt w = of_nat k" and "k < 99"
  obtains w' where "main_task_handle_sig_log_heap_usage E w = Some w'"
    and "g_heap_usage_stat_cnt w' = of_nat (Suc k)" and "g_heap_limit_cnt w' = g_heap_limit_cnt w"
    and "g_heap_usage_max_free_heap w' < 50 * 1024 \<longleftrightarrow> g_heap_usage_max_free_heap w < 50 * 1024 \<and> en_free_heap E < 50 * 1024"
proof -
  have "unat (of_nat k + 1 :: u32) = k + 1"
    using assms(2) by (simp add: unat_word_ariths unsigned_of_nat take_bit_nat_eq_self)
  then have "of_nat k + 1 < (100 :: u32)" using assms(2) by (simp add: word_less_nat_alt)
  with assms that show thesis
    by (cases "en_free_heap E < g_heap_usage_min_free_heap w"; cases "g_heap_usage_max_free_heap w < en_free_heap E")
      (fastforce simp: main_task_handle_sig_log_heap_usage_def Let_def heap_constants)+
qed

lemma heap_samples_inside:
  assumes "g_heap_usage_stat_cnt w = of_nat k" and "k + length Es < 100"
  obtains w' where "main_loop_signals (heap_samples Es) w = Some w'"
    and "g_heap_usage_stat_cnt w' = of_nat (k + length Es)" and "g_heap_limit_cnt w' = g_heap_limit_cnt w"
    and "g_heap_usage_max_free_heap w' < 50 * 1024 \<longleftrightarrow>
      g_heap_usage_max_free_heap w < 50 * 1024 \<and> (\<forall>E \<in> set Es. en_free_heap E < 50 * 1024)"
  using assms
proof (induction Es arbitrary: w k thesis)
  case Nil
  then show ?case by (simp add: heap_samples_def)
next
  case (Cons E Es)
  obtain w1 where w1: "main_task_handle_sig_log_heap_usage E w = Some w1" "g_heap_usage_stat_cnt w1 = of_nat (Suc k)"
    "g_heap_limit_cnt w1 = g_heap_limit_cnt w"
    "g_heap_usage_max_free_heap w1 < 50 * 1024 \<longleftrightarrow> g_heap_usage_max_free_heap w < 50 * 1024 \<and> en_free_heap E < 50 * 1024"
    using heap_sample_inside [OF Cons.prems(2), of E] Cons.prems(3) by auto
  show ?case
    by (rule Cons.IH [OF _ w1(2)]) (use Cons.prems w1 in \<open>auto simp: heap_signal\<close>)
qed

lemma heap_sample_last:
  assumes "g_heap_usage_stat_cnt w = 99" and "g_heap_limit_cnt w = of_nat l" and "l < 5"
  shows "if g_heap_usage_max_free_heap w < 50 * 1024 \<and> l = 4 then main_task_handle_sig_log_heap_usage E w = None
    else \<exists>w'. main_task_handle_sig_log_heap_usage E w = Some w' \<and>
      heap_watch w' (if g_heap_usage_max_free_heap w < 50 * 1024 then l + 1 else 0)"
proof -
  have "l = 0 \<or> l = 1 \<or> l = 2 \<or> l = 3 \<or> l = 4" using assms(3) by auto
  moreover have "\<not> (5 :: u32) \<le> 1" by (simp add: word_le_nat_alt)
  ultimately show ?thesis
    using assms by (auto simp: main_task_handle_sig_log_heap_usage_def Let_def heap_constants heap_watch_def)
qed

lemma heap_window:
  assumes "heap_watch w l" and "length W = 100"
  shows "if low_window W \<and> l = 4 then main_loop_signals (heap_samples W) w = None
    else \<exists>w'. main_loop_signals (heap_samples W) w = Some w' \<and> heap_watch w' (if low_window W then l + 1 else 0)"
proof -
  obtain E where W: "W = take 99 W @ [E]"
    using assms(2) take_Suc_conv_app_nth [of 99 W] by auto
  have "g_heap_usage_stat_cnt w = of_nat 0" "0 + length (take 99 W) < 100" using assms by (simp_all add: heap_watch_def)
  from heap_samples_inside [OF this] obtain w1 where w1: "main_loop_signals (heap_samples (take 99 W)) w = Some w1"
    "g_heap_usage_stat_cnt w1 = of_nat (0 + length (take 99 W))" "g_heap_limit_cnt w1 = g_heap_limit_cnt w"
    "g_heap_usage_max_free_heap w1 < 50 * 1024 \<longleftrightarrow>
      g_heap_usage_max_free_heap w < 50 * 1024 \<and> (\<forall>E \<in> set (take 99 W). en_free_heap E < 50 * 1024)" .
  have last: "g_heap_usage_stat_cnt w1 = 99" "g_heap_limit_cnt w1 = of_nat l" "l < 5"
    using w1 assms by (simp_all add: heap_watch_def)
  have low: "g_heap_usage_max_free_heap w1 < 50 * 1024 \<longleftrightarrow> low_window W"
    using w1(4) assms(1) by (simp add: heap_watch_def low_window_def)
  have "main_loop_signals (heap_samples W) w = main_task_handle_sig_log_heap_usage E w1"
    by (subst W) (simp add: heap_samples_def main_loop_signals_append w1(1) [unfolded heap_samples_def]
      heap_signal [of E "[]", unfolded heap_samples_def, simplified] main_loop_signals_Nil)
  with heap_sample_last [OF last, of E] show ?thesis unfolding low by simp
qed

text \<open>The counter of the low windows in a row.\<close>

fun low_run :: "nat \<Rightarrow> bool list \<Rightarrow> bool" where
  "low_run l [] = False"
| "low_run l (b # bs) = (if b then l = 4 \<or> low_run (l + 1) bs else low_run 0 bs)"

definition starts_low :: "nat \<Rightarrow> bool list \<Rightarrow> bool" where
  "starts_low n bs \<longleftrightarrow> n \<le> length bs \<and> (\<forall>j < n. bs ! j)"

definition five_in_a_row :: "bool list \<Rightarrow> bool" where
  "five_in_a_row bs \<longleftrightarrow> (\<exists>i. i + 5 \<le> length bs \<and> (\<forall>j < 5. bs ! (i + j)))"

lemma starts_low_Cons: "starts_low (Suc n) (b # bs) \<longleftrightarrow> b \<and> starts_low n bs"
  by (auto simp: starts_low_def All_less_Suc2)

lemma starts_low_five: "starts_low 5 bs \<Longrightarrow> five_in_a_row bs"
  unfolding starts_low_def five_in_a_row_def by (rule exI [of _ 0]) simp

lemma five_in_a_row_Cons: "five_in_a_row (b # bs) \<longleftrightarrow> b \<and> starts_low 4 bs \<or> five_in_a_row bs"
proof
  assume "five_in_a_row (b # bs)"
  then obtain i where i: "i + 5 \<le> length (b # bs)" "\<forall>j < 5. (b # bs) ! (i + j)" unfolding five_in_a_row_def by blast
  show "b \<and> starts_low 4 bs \<or> five_in_a_row bs"
  proof (cases i)
    case 0
    with i have "starts_low (Suc 4) (b # bs)" by (simp add: starts_low_def)
    then show ?thesis unfolding starts_low_Cons by simp
  next
    case (Suc k)
    with i have "k + 5 \<le> length bs \<and> (\<forall>j < 5. bs ! (k + j))" by simp
    then show ?thesis unfolding five_in_a_row_def by blast
  qed
next
  assume "b \<and> starts_low 4 bs \<or> five_in_a_row bs"
  then show "five_in_a_row (b # bs)"
  proof
    assume "b \<and> starts_low 4 bs"
    then have "starts_low (Suc 4) (b # bs)" unfolding starts_low_Cons .
    then show ?thesis using starts_low_five by simp
  next
    assume "five_in_a_row bs"
    then obtain i where "i + 5 \<le> length bs" "\<forall>j < 5. bs ! (i + j)" unfolding five_in_a_row_def by blast
    then show ?thesis unfolding five_in_a_row_def by (intro exI [of _ "Suc i"]) simp
  qed
qed

lemma low_run_iff: "l < 5 \<Longrightarrow> low_run l bs \<longleftrightarrow> starts_low (5 - l) bs \<or> five_in_a_row bs"
proof (induction l bs rule: low_run.induct)
  case (1 l)
  then show ?case by (simp add: starts_low_def five_in_a_row_def)
next
  case (2 l b bs)
  have Suc: "5 - l = Suc (4 - l)" using 2(3) by simp
  have "starts_low 4 bs \<Longrightarrow> starts_low (4 - l) bs" by (auto simp: starts_low_def)
  moreover have "low_run (l + 1) bs \<longleftrightarrow> starts_low (4 - l) bs \<or> five_in_a_row bs" if b and "l \<noteq> 4"
    using 2(1) [OF that(1)] that(2) 2(3) by simp
  moreover have "low_run 0 bs \<longleftrightarrow> starts_low 5 bs \<or> five_in_a_row bs" if "\<not> b"
    using 2(2) [OF that] by simp
  moreover have "starts_low 0 bs" by (simp add: starts_low_def)
  ultimately show ?case
    using starts_low_five [of bs] unfolding Suc starts_low_Cons five_in_a_row_Cons by (cases b; cases "l = 4") auto
qed

text \<open>The restart on low memory. From the start of a window, with no low window counted, the task survives
  the samples of the following windows exactly if no five of them in a row are low; and it restarts the gateway at
  the last sample of the fifth. One window that is not low, even in one sample, begins the count anew.
  The hundredth sample of a window does not count, so a peak there does not save the gateway.\<close>

theorem restart_on_low_memory:
  assumes "heap_watch w 0" and "\<forall>W \<in> set Ws. length W = 100"
  shows "main_loop_signals (heap_samples (concat Ws)) w = None \<longleftrightarrow>
    (\<exists>i. i + 5 \<le> length Ws \<and> (\<forall>j < 5. low_window (Ws ! (i + j))))"
proof -
  have "main_loop_signals (heap_samples (concat Ws)) w = None \<longleftrightarrow> low_run l (map low_window Ws)" if "heap_watch w l" for l
    using that assms(2)
  proof (induction Ws arbitrary: w l)
    case Nil
    then show ?case by (simp add: heap_samples_def)
  next
    case (Cons W Ws)
    have "main_loop_signals (heap_samples (concat (W # Ws))) w =
        Option.bind (main_loop_signals (heap_samples W) w) (main_loop_signals (heap_samples (concat Ws)))"
      by (simp add: heap_samples_def main_loop_signals_append)
    with heap_window [OF Cons.prems(1), of W] Cons show ?case by (auto split: if_splits)
  qed
  moreover have "low_run 0 bs \<longleftrightarrow> five_in_a_row bs" for bs
    using low_run_iff [of 0 bs] starts_low_five by auto
  ultimately show ?thesis using assms(1) by (auto simp: five_in_a_row_def)
qed

theorem restart_on_low_memory_witness:
  "main_loop_signals (heap_samples (concat (replicate 5 (replicate 99 (sim_main_env\<lparr>en_free_heap := 51199\<rparr>) @ [sim_main_env])))) sim_main = None \<and>
   main_loop_signals (heap_samples (concat (replicate 5 (replicate 98 (sim_main_env\<lparr>en_free_heap := 51199\<rparr>) @ replicate 2 sim_main_env)))) sim_main \<noteq> None"
proof -
  have "heap_watch sim_main 0" by (simp add: heap_watch_def sim_main_def)
  note run = restart_on_low_memory [OF this]
  show ?thesis
    by (subst run, simp, subst run, simp) (auto simp: low_window_def sim_main_env_def intro!: exI [of _ 0])
qed

section \<open>Timers\<close>

text \<open>C29: The period of the remote configuration. With the millisecond macro of a system with 32-bit ticks of
  one millisecond, which multiplies by the tick rate first, the timer of a configured remote
  configuration gets the period the user asked for exactly up to 71 minutes. A longer interval is reduced modulo about 71.6 minutes:
  72 minutes become 25 seconds. An interval of 0 minutes, or no remote configuration, stops the timer.\<close>

theorem remote_cfg_period_wraps:
  fixes w :: main_world
  defines "r \<equiv> cfg_remote (ruuvi_cfg (g_gateway_config (ml_cfg w)))"
  assumes "g_gw_cfg_mutex (ml_cfg w) = Some n" and "en_ms_to_ticks E = pdMS_TO_TICKS"
  shows "\<exists>ticks. main_task_configure_periodic_remote_cfg_check E w =
      Some (ml_call (if use_remote_cfg r \<and> refresh_interval_minutes r \<noteq> 0
        then Main_timer_restart Timer_check_for_remote_cfg ticks else Main_timer_stop Timer_check_for_remote_cfg) w) \<and>
    (unat ticks = unat (refresh_interval_minutes r) * 60 * 1000 \<longleftrightarrow> unat (refresh_interval_minutes r) \<le> 71) \<and>
    unat ticks = unat (refresh_interval_minutes r) * 60 * 1000 * 1000 mod 2 ^ 32 div 1000"
proof -
  define m where "m = unat (refresh_interval_minutes r)"
  define ticks where "ticks = pdMS_TO_TICKS (ucast (refresh_interval_minutes r) * 60 * 1000)"
  have m: "m < 65536" unfolding m_def using unsigned_less [of "refresh_interval_minutes r", where ?'a = nat] by simp
  have ms: "unat (ucast (refresh_interval_minutes r) * 60 * 1000 :: u32) = m * 60 * 1000"
    using m by (simp add: unat_word_ariths unsigned_ucast_eq m_def take_bit_nat_eq_self)
  have ticks: "unat ticks = m * 60 * 1000 * 1000 mod 2 ^ 32 div 1000"
    unfolding ms [symmetric] ticks_def pdMS_TO_TICKS_def by (simp only: unat_div_distrib unat_word_ariths) simp
  have "unat ticks = m * 60 * 1000 \<longleftrightarrow> m \<le> 71"
  proof (cases "m \<le> 71")
    case True
    then show ?thesis unfolding ticks by simp
  next
    case False
    have "m * 60 * 1000 * 1000 mod 2 ^ 32 div 1000 \<le> (2 ^ 32 - 1 :: nat) div 1000" by (rule div_le_mono) simp
    with False show ?thesis unfolding ticks by simp
  qed
  moreover have "main_task_configure_periodic_remote_cfg_check E w =
      Some (ml_call (if use_remote_cfg r \<and> refresh_interval_minutes r \<noteq> 0
        then Main_timer_restart Timer_check_for_remote_cfg ticks else Main_timer_stop Timer_check_for_remote_cfg) w)"
    unfolding configure_remote_cfg_eq [OF assms(2)] remote_cfg_call_def assms(3) ticks_def r_def by (rule refl)
  ultimately show ?thesis using ticks unfolding m_def by blast
qed

theorem remote_cfg_period_wraps_witness:
  "main_task_configure_periodic_remote_cfg_check sim_main_env sim_main =
     Some (ml_call (Main_timer_restart Timer_check_for_remote_cfg 3600000) sim_main)"
proof -
  let ?r = "cfg_remote (ruuvi_cfg (g_gateway_config (ml_cfg sim_main)))"
  have "g_gw_cfg_mutex (ml_cfg sim_main) = Some 0" "use_remote_cfg ?r" "refresh_interval_minutes ?r = 60"
    by (simp_all add: sim_main_def gw_cfg_state_example_def gw_cfg_example_def gw_cfg_ruuvi_example_def)
  with remote_cfg_period_wraps [of sim_main 0 sim_main_env] obtain ticks where
    "main_task_configure_periodic_remote_cfg_check sim_main_env sim_main =
       Some (ml_call (Main_timer_restart Timer_check_for_remote_cfg ticks) sim_main)" "unat ticks = 3600000"
    by (auto simp: sim_main_env_def)
  moreover from this(2) have "ticks = 3600000" by (simp add: word_unat_eq_iff)
  ultimately show ?thesis by simp
qed

lemma ml_mqtt_timer:
  "ml_mqtt_start E w = Some w' \<Longrightarrow>
     g_p_timer_sig_deferred_ethernet_activation w' = g_p_timer_sig_deferred_ethernet_activation w"
  "g_p_timer_sig_deferred_ethernet_activation (ml_mqtt_stop E w) = g_p_timer_sig_deferred_ethernet_activation w"
  by (auto simp: ml_mqtt_start_def ml_mqtt_stop_def ml_read_Some split: bind_splits)

lemma configure_remote_cfg_timer:
  "main_task_configure_periodic_remote_cfg_check E w = Some w' \<Longrightarrow>
     g_p_timer_sig_deferred_ethernet_activation w' = g_p_timer_sig_deferred_ethernet_activation w"
  by (auto simp: main_task_configure_periodic_remote_cfg_check_def ml_read_Some Let_def split: bind_splits if_splits)

lemma deactivate_timer:
  assumes "main_task_handle_sig_deactivate_cfg_mode E w = Some w'"
  shows "\<not> g_p_timer_sig_deferred_ethernet_activation w'"
proof (cases "g_gw_cfg_mutex (ml_cfg w)")
  case None
  with assms have "w' = cfg_mode_stop_timers w"
    by (auto simp: main_task_handle_sig_deactivate_cfg_mode_def Let_def ml_read_def gw_cfg_is_empty_eq(2) split: if_splits)
  then show ?thesis by simp
next
  case (Some n)
  with deactivate_result(3) assms show ?thesis by blast
qed

lemma handler_timer:
  assumes "main_task_handle_sig E sig w = Some w'" and "\<not> g_p_timer_sig_deferred_ethernet_activation w"
  shows "\<not> g_p_timer_sig_deferred_ethernet_activation w'"
  using assms deactivate_timer
  by (cases sig) (auto simp: main_handler_defs main_calls_defs Let_def ml_read_Some ml_mqtt_timer
    main_task_handle_sig_relaying_mode_changed_def main_task_handle_sig_restart_services_def
    main_task_handle_sig_activate_cfg_mode_def
    dest!: ml_mqtt_timer(1) configure_remote_cfg_timer split: bind_splits if_splits)

lemma signals_timer:
  "main_loop_signals sigs w = Some w' \<Longrightarrow> \<not> g_p_timer_sig_deferred_ethernet_activation w \<Longrightarrow>
   \<not> g_p_timer_sig_deferred_ethernet_activation w'"
proof (induction sigs w rule: main_loop_signals.induct)
  case (2 E n sigs w)
  then show ?case using handler_timer by (fastforce split: option.splits bind_splits)
qed simp

text \<open>The timer of the deferred Ethernet activation does not survive the configuration mode. After any
  signals, the deactivation of the mode (also of a mode that was not active: the 60 second timer
  and the web interface send it) and any further signals, a call that starts or stops the timer passes NULL to the timer library: the timer was deleted
  and is created only at boot. Callbacks of the WiFi manager make such calls whenever a station
  joins the access point.\<close>

theorem ethernet_timer_is_null_after_cfg_mode:
  assumes "main_loop_signals (sigs @ (E, main_task_conv_to_sig_num MAIN_TASK_SIG_DEACTIVATE_CFG_MODE) # sigs') w = Some w'"
  shows "ml_calls (main_task_start_timer_activation_ethernet_after_timeout w') = ml_calls w' @ [Main_timer_null] \<and>
    ml_calls (main_task_stop_timer_activation_ethernet_after_timeout w') = ml_calls w' @ [Main_timer_null]"
proof -
  have num: "main_task_conv_from_sig_num (main_task_conv_to_sig_num MAIN_TASK_SIG_DEACTIVATE_CFG_MODE) =
      Some MAIN_TASK_SIG_DEACTIVATE_CFG_MODE"
    by (simp add: main_task_conv_to_sig_num_def main_task_conv_from_sig_num_def all_main_task_sigs_def)
  from assms obtain w1 w2 where "main_task_handle_sig_deactivate_cfg_mode E w1 = Some w2"
    and "main_loop_signals sigs' w2 = Some w'"
    by (auto simp: main_loop_signals_append num split: bind_splits)
  then have "\<not> g_p_timer_sig_deferred_ethernet_activation w'" using deactivate_timer signals_timer by blast
  then show ?thesis by (simp add: main_calls_defs)
qed

theorem ethernet_timer_is_null_after_cfg_mode_witness:
  "\<exists>w'. main_loop_signals [(sim_main_env, 7), (sim_main_env, 8)] sim_main = Some w' \<and>
    last (ml_calls (main_task_stop_timer_activation_ethernet_after_timeout w')) = Main_timer_null \<and>
    last (ml_calls (main_task_stop_timer_activation_ethernet_after_timeout sim_main)) = Main_timer_stop Timer_deferred_ethernet_activation"
proof -
  obtain w1 where w1: "main_task_handle_sig sim_main_env MAIN_TASK_SIG_ACTIVATE_CFG_MODE sim_main = Some w1"
    "status_modes (ml_status w1) = (True, 1, 1)" "ml_cfg w1 = ml_cfg sim_main" by (rule sim_activate)
  have mutex: "g_gw_cfg_mutex (ml_cfg w1) = Some 0" by (simp add: w1(3) sim_main_def gw_cfg_state_example_def)
  obtain w2 where w2: "main_task_handle_sig_deactivate_cfg_mode sim_main_env w1 = Some w2"
    by (rule deactivate_cfg_mode_modes [OF mutex, of sim_main_env])
  have nums: "main_task_conv_from_sig_num 7 = Some MAIN_TASK_SIG_ACTIVATE_CFG_MODE"
    "main_task_conv_from_sig_num 8 = Some MAIN_TASK_SIG_DEACTIVATE_CFG_MODE"
    "main_task_conv_to_sig_num MAIN_TASK_SIG_DEACTIVATE_CFG_MODE = 8"
    by (simp_all add: main_task_conv_from_sig_num_def main_task_conv_to_sig_num_def all_main_task_sigs_def)
  have run: "main_loop_signals [(sim_main_env, 7), (sim_main_env, 8)] sim_main = Some w2"
    using w1(1) w2 by (simp add: nums)
  with ethernet_timer_is_null_after_cfg_mode [of "[(sim_main_env, 7)]" sim_main_env "[]" sim_main w2]
  show ?thesis by (auto simp: nums(3) main_calls_defs sim_main_def)
qed

end
