(* ===== verification/Network.thy ===== *)
theory Network
  imports Main_Loop
begin

text \<open>
  The network: the decisions of \<open>network_subsystem_init\<close>, the callbacks of the WiFi manager and of the Ethernet
  driver, and the CONFIGURE button (\<open>gpio.c\<close>, \<open>reset_task.c\<close>).
\<close>

section \<open>Events of Ethernet\<close>

definition ethernet_link_up_cb :: "main_world \<Rightarrow> main_world" where
  "ethernet_link_up_cb w = set_status (gw_status_set_eth_link_up (ml_status w)) w"

definition ethernet_link_down_cb :: "main_world \<Rightarrow> main_world" where
  "ethernet_link_down_cb w =
     (let w = w\<lparr>g_network_disconnect_cnt := g_network_disconnect_cnt w + 1\<rparr>;
          w = ml_call (Wifi_update_network_connection_info UPDATE_LOST_CONNECTION) w;
          w = set_status (gw_status_clear_eth_connected (ml_status w)) w
      in ml_call (Main_notify EVENT_MGR_EV_ETH_DISCONNECTED) w)"

text \<open>The address of the DHCP server is passed on when DHCP is used.\<close>

definition ethernet_connection_ok_cb :: "main_world \<Rightarrow> main_world option" where
  "ethernet_connection_ok_cb w = do {
     (is_empty, w) \<leftarrow> ml_read gw_cfg_is_empty w;
     let w = (if is_empty then main_task_send_sig_set_default_config w else w);
     (use_dhcp, w) \<leftarrow> ml_read gw_cfg_get_eth_use_dhcp w;
     let w = ml_call (Wifi_update_network_connection_info UPDATE_CONNECTION_OK) w;
     let w = set_status (gw_status_set_eth_connected (ml_status w)) w;
     Some (ml_call (Main_notify EVENT_MGR_EV_ETH_CONNECTED) w)
   }"

datatype ethernet_event =
  ETHERNET_EVENT_CONNECTED | ETHERNET_EVENT_DISCONNECTED | ETHERNET_EVENT_START | ETHERNET_EVENT_STOP
| ETHERNET_EVENT_OTHER

definition eth_on_event_connected :: "main_world \<Rightarrow> main_world" where
  "eth_on_event_connected w = ethernet_link_up_cb w"

fun eth_event_handler :: "ethernet_event \<Rightarrow> main_world \<Rightarrow> main_world" where
  "eth_event_handler ETHERNET_EVENT_CONNECTED w = eth_on_event_connected w"
| "eth_event_handler ETHERNET_EVENT_DISCONNECTED w = ethernet_link_down_cb w"
| "eth_event_handler ETHERNET_EVENT_START w = w"
| "eth_event_handler ETHERNET_EVENT_STOP w = ml_call (Main_notify EVENT_MGR_EV_ETH_DISCONNECTED) w"
| "eth_event_handler ETHERNET_EVENT_OTHER w = w"

definition got_ip_event_handler :: "main_world \<Rightarrow> main_world option" where
  "got_ip_event_handler w = ethernet_connection_ok_cb w"

section \<open>Callbacks of the WiFi manager\<close>

definition wifi_connection_ok_cb :: "main_env \<Rightarrow> main_world \<Rightarrow> main_world" where
  "wifi_connection_ok_cb E w =
     (let w = set_status (gw_status_set_wifi_connected (ml_status w)) w;
          w = ml_call (Main_notify EVENT_MGR_EV_WIFI_CONNECTED) w
      in if gw_status_is_waiting_auto_cfg_by_wps (ml_status w)
         then
           let w = (if en_ap_active E then ml_call Wifi_stop_ap w else w)
           in main_task_send_sig_deactivate_cfg_mode w
         else w)"

definition wifi_disconnect_cb :: "main_world \<Rightarrow> main_world" where
  "wifi_disconnect_cb w =
     (let w = w\<lparr>g_network_disconnect_cnt := g_network_disconnect_cnt w + 1\<rparr>;
          w = set_status (gw_status_clear_wifi_connected (ml_status w)) w
      in ml_call (Main_notify EVENT_MGR_EV_WIFI_DISCONNECTED) w)"

definition cb_on_connect_eth_cmd :: "main_world \<Rightarrow> main_world" where
  "cb_on_connect_eth_cmd w = ethernet_start w"

definition cb_on_disconnect_eth_cmd :: "main_world \<Rightarrow> main_world" where
  "cb_on_disconnect_eth_cmd w =
     main_task_stop_timer_activation_ethernet_after_timeout
       (ethernet_stop (ml_call (Wifi_update_network_connection_info UPDATE_USER_DISCONNECT) w))"

definition cb_on_disconnect_sta_cmd :: "main_world \<Rightarrow> main_world" where
  "cb_on_disconnect_sta_cmd w = set_status (gw_status_clear_wifi_connected (ml_status w)) w"

definition cb_on_wps_started :: "main_world \<Rightarrow> main_world" where
  "cb_on_wps_started w = ml_call (Main_notify EVENT_MGR_EV_WPS_ACTIVATED) w"

definition cb_on_wps_stopped :: "main_world \<Rightarrow> main_world" where
  "cb_on_wps_stopped w = ml_call (Main_notify EVENT_MGR_EV_WPS_DEACTIVATED) w"

definition cb_on_ap_started :: "main_world \<Rightarrow> main_world" where
  "cb_on_ap_started w = ml_call (Main_notify EVENT_MGR_EV_WIFI_AP_STARTED) w"

definition cb_on_ap_stopped :: "main_world \<Rightarrow> main_world" where
  "cb_on_ap_stopped w = ml_call (Main_notify EVENT_MGR_EV_WIFI_AP_STOPPED) w"

definition cb_on_ap_sta_connected :: "main_world \<Rightarrow> main_world" where
  "cb_on_ap_sta_connected w =
     (let w = ethernet_stop (ml_call (Main_notify EVENT_MGR_EV_WIFI_AP_STA_CONNECTED) w);
          w = main_task_stop_timer_activation_ethernet_after_timeout w
      in if gw_status_is_waiting_auto_cfg_by_wps (ml_status w)
         then
           let w = ml_call Wifi_disable_wps w
           in set_status (gw_status_clear_waiting_auto_cfg_by_wps (ml_status w)) w
         else w)"

definition cb_on_ap_sta_ip_assigned :: "main_world \<Rightarrow> main_world" where
  "cb_on_ap_sta_ip_assigned w = w"

definition cb_on_ap_sta_disconnected :: "main_world \<Rightarrow> main_world" where
  "cb_on_ap_sta_disconnected w = ml_call (Main_notify EVENT_MGR_EV_WIFI_AP_STA_DISCONNECTED) w"

text \<open>Credentials that WPS found: Ethernet is switched off. A buffer without a first byte cannot be read.\<close>

definition cb_save_wifi_config :: "wifiman_config_sta \<Rightarrow> main_world \<Rightarrow> main_world option" where
  "cb_save_wifi_config sta w = do {
     found \<leftarrow> (case sta_ssid (wifi_config_sta sta) of [] \<Rightarrow> None | ch # _ \<Rightarrow> Some (ch \<noteq> NUL));
     c \<leftarrow> (if found then gw_cfg_set_eth_use_eth False (ml_cfg w) else Some (ml_cfg w));
     c \<leftarrow> gw_cfg_update_wifi_sta_config sta c;
     Some (w\<lparr>ml_cfg := c\<rparr>)
   }"

definition cb_on_request_status_json :: "main_env \<Rightarrow> main_world \<Rightarrow> main_world" where
  "cb_on_request_status_json E w =
     (if timer_cfg_mode_deactivation_is_active E then timer_cfg_mode_deactivation_start E w else w)"

section \<open>Start of the network\<close>

definition RUUVI_CFG_MODE_DEACTIVATION_LONG_DELAY_SEC :: u32 where
  "RUUVI_CFG_MODE_DEACTIVATION_LONG_DELAY_SEC = 60 * 60"

definition network_subsystem_check_if_ethernet_needs_to_be_started ::
  "force_start_wifi_hotspot \<Rightarrow> bool \<Rightarrow> bool \<Rightarrow> bool" where
  "network_subsystem_check_if_ethernet_needs_to_be_started force flag_gw_cfg_use_eth is_wifi_sta_configured =
     (if force = FORCE_START_WIFI_HOTSPOT_DISABLED
      then if flag_gw_cfg_use_eth then True else if \<not> is_wifi_sta_configured then True else False
      else False)"

definition network_subsystem_check_if_wifi_ap_needs_to_be_started :: "force_start_wifi_hotspot \<Rightarrow> bool \<Rightarrow> bool" where
  "network_subsystem_check_if_wifi_ap_needs_to_be_started force flag_gw_cfg_empty =
     (if force \<noteq> FORCE_START_WIFI_HOTSPOT_DISABLED then True else if flag_gw_cfg_empty then True else False)"

text \<open>The seed of the random numbers is text in an allocated buffer; the pointer is not tested before
  \<open>strlen\<close>, and the buffer is never freed.\<close>

definition configure_mbedtls_rng :: "main_env \<Rightarrow> main_world \<Rightarrow> main_world option" where
  "configure_mbedtls_rng E w = (if \<not> en_alloc E then None else Some (ml_call Rng_seed w))"

definition configure_wifi_country_and_max_tx_power :: "main_world \<Rightarrow> main_world" where
  "configure_wifi_country_and_max_tx_power w = ml_call Wifi_configure_country_and_power w"

definition wifi_init :: "main_env \<Rightarrow> bool \<Rightarrow> main_world \<Rightarrow> bool \<times> main_world" where
  "wifi_init E flag_connect_sta w =
     (if g_flag_wifi_initialized w then (True, ml_call (Wifi_reconfigure flag_connect_sta) w)
      else
        let w = ml_call Http_server_cb_init (w\<lparr>g_flag_wifi_initialized := True\<rparr>) in
        if \<not> en_http_server_cb_init E then (False, w)
        else (True, configure_wifi_country_and_max_tx_power
                      (ml_call Wifi_set_callbacks (ml_call (Wifi_start flag_connect_sta) w))))"

text \<open>During the 100 ms after the start of Ethernet the driver reports the link, if there is one.\<close>

definition network_start_ethernet :: "main_env \<Rightarrow> main_world \<Rightarrow> main_world" where
  "network_start_ethernet E w =
     (let w = ml_call (Main_delay (en_ms_to_ticks E 100)) (ethernet_start w);
          w = (if en_link_comes_up E then eth_event_handler ETHERNET_EVENT_CONNECTED w else w)
      in if \<not> gw_status_is_eth_link_up (ml_status w)
         then
           let w = set_status (gw_status_clear_eth_connected (ml_status w)) w
           in ml_call (Main_notify EVENT_MGR_EV_ETH_DISCONNECTED) w
         else w)"

text \<open>The parts of the start: what is noted of the hotspot and the first boot, the start of Ethernet, the hotspot and WPS.\<close>

definition network_note_first_boot :: "force_start_wifi_hotspot \<Rightarrow> bool \<Rightarrow> main_world \<Rightarrow> main_world" where
  "network_note_first_boot force flag_gw_cfg_empty w =
     (let w = (if force = FORCE_START_WIFI_HOTSPOT_ONCE
               then ml_call (Main_write_force_start_wifi_hotspot FORCE_START_WIFI_HOTSPOT_DISABLED) w else w)
      in set_status ((if flag_gw_cfg_empty \<and> force \<noteq> FORCE_START_WIFI_HOTSPOT_DISABLED
                      then gw_status_set_first_boot_after_cfg_erase
                      else gw_status_clear_first_boot_after_cfg_erase) (ml_status w)) w)"

definition network_start_or_defer_ethernet :: "main_env \<Rightarrow> bool \<Rightarrow> main_world \<Rightarrow> main_world" where
  "network_start_or_defer_ethernet E flag_start_ethernet w =
     (if flag_start_ethernet then network_start_ethernet E w
      else if gw_status_get_first_boot_after_cfg_erase (ml_status w)
      then main_task_start_timer_activation_ethernet_after_timeout w else w)"

definition network_start_wifi_ap :: "main_env \<Rightarrow> bool \<Rightarrow> main_world \<Rightarrow> main_world" where
  "network_start_wifi_ap E flag_start_wifi_ap w =
     (if flag_start_wifi_ap
      then timer_cfg_mode_deactivation_start_with_delay E RUUVI_CFG_MODE_DEACTIVATION_LONG_DELAY_SEC (start_wifi_ap w)
      else w)"

definition network_enable_wps :: "main_world \<Rightarrow> main_world option" where
  "network_enable_wps w = do {
     (is_empty, w) \<leftarrow> ml_read gw_cfg_is_empty w;
     Some (if is_empty
       then ml_call Wifi_enable_wps (set_status (gw_status_set_waiting_auto_cfg_by_wps (ml_status w)) w) else w)
   }"

definition network_subsystem_init :: "main_env \<Rightarrow> force_start_wifi_hotspot \<Rightarrow> main_world \<Rightarrow> (bool \<times> main_world) option" where
  "network_subsystem_init E force w = do {
     (flag_gw_cfg_empty, w) \<leftarrow> ml_read gw_cfg_is_empty w;
     (flag_gw_cfg_use_eth, w) \<leftarrow> ml_read gw_cfg_get_eth_use_eth w;
     (is_wifi_sta_configured, w) \<leftarrow> ml_read gw_cfg_is_wifi_sta_configured w;
     let flag_connect_sta =
       (\<not> flag_gw_cfg_use_eth \<and> force = FORCE_START_WIFI_HOTSPOT_DISABLED \<and> is_wifi_sta_configured);
     w \<leftarrow> configure_mbedtls_rng E w;
     let w = network_note_first_boot force flag_gw_cfg_empty w;
     let flag_start_ethernet = network_subsystem_check_if_ethernet_needs_to_be_started
       force flag_gw_cfg_use_eth is_wifi_sta_configured;
     let flag_start_wifi_ap = network_subsystem_check_if_wifi_ap_needs_to_be_started force flag_gw_cfg_empty;
     let (ok, w) = wifi_init E flag_connect_sta w;
     if \<not> ok then Some (False, w)
     else do {
       (_, w) \<leftarrow> ethernet_init E w;
       let w = network_start_or_defer_ethernet E flag_start_ethernet w;
       let flag_start_wifi_ap = (flag_start_wifi_ap \<or>
         flag_start_ethernet \<and> \<not> gw_status_is_eth_link_up (ml_status w) \<and> flag_gw_cfg_empty);
       w \<leftarrow> network_enable_wps (network_start_wifi_ap E flag_start_wifi_ap w);
       Some (True, w)
     }
   }"

text \<open>What \<open>main_task_init\<close> does at its end: it holds the configuration while the network starts.\<close>

definition main_task_init_network :: "main_env \<Rightarrow> main_world \<Rightarrow> (bool \<times> main_world) option" where
  "main_task_init_network E w = do {
     (c, w) \<leftarrow> ml_read gw_cfg_lock_ro w;
     (ok, w) \<leftarrow> network_subsystem_init E (en_force_start_wifi_hotspot E) w;
     w \<leftarrow> ml_unlock_cfg w;
     Some (ok, w)
   }"

section \<open>The CONFIGURE button\<close>

definition RESET_TASK_DELAY_BEFORE_REBOOT_MS :: u32 where "RESET_TASK_DELAY_BEFORE_REBOOT_MS = 500"

datatype reset_task_sig =
  RESET_TASK_SIG_CONFIGURE_BUTTON_EVENT | RESET_TASK_SIG_INCREMENT_UPTIME_COUNTER
| RESET_TASK_SIG_REBOOT_BY_CONFIGURE_BUTTON | RESET_TASK_SIG_REBOOT_BY_COMMAND | RESET_TASK_SIG_TASK_WATCHDOG_FEED
| RESET_TASK_SIG_RESTART

text \<open>The timers of the task: the signal and the period in milliseconds.\<close>

fun reset_task_timer :: "reset_timer \<Rightarrow> reset_task_sig \<times> u32" where
  "reset_task_timer Reset_by_configure_button = (RESET_TASK_SIG_REBOOT_BY_CONFIGURE_BUTTON, 5 * 1000)"
| "reset_task_timer Reset_by_command = (RESET_TASK_SIG_REBOOT_BY_COMMAND, 3 * 1000)"
| "reset_task_timer Uptime_counter = (RESET_TASK_SIG_INCREMENT_UPTIME_COUNTER, 1000)"
| "reset_task_timer Watchdog_feed = (RESET_TASK_SIG_TASK_WATCHDOG_FEED, 1000)"

definition reset_task_notify_configure_button_event :: "main_world \<Rightarrow> main_world" where
  "reset_task_notify_configure_button_event w =
     (if \<not> gw_cfg_is_initialized (ml_cfg w) then w else ml_call Reset_send_sig_button w)"

definition gpio_configure_button_handler_isr :: "bool \<Rightarrow> main_world \<Rightarrow> main_world" where
  "gpio_configure_button_handler_isr level_low w =
     (if level_low
      then
        if \<not> g_gpio_is_configure_button_pressed w
        then
          let w = w\<lparr>g_gpio_is_configure_button_pressed := True\<rparr>
          in reset_task_notify_configure_button_event
               (set_status (gw_status_set_configure_button_pressed (ml_status w)) w)
        else w
      else
        if g_gpio_is_configure_button_pressed w
        then
          let w = w\<lparr>g_gpio_is_configure_button_pressed := False\<rparr>
          in reset_task_notify_configure_button_event
               (set_status (gw_status_clear_configure_button_pressed (ml_status w)) w)
        else w)"

definition gateway_restart_announce :: "main_env \<Rightarrow> string \<Rightarrow> main_world \<Rightarrow> main_world" where
  "gateway_restart_announce E msg w =
     (let w = ml_call Wifi_stop (ml_call (Reset_info_set_sw msg) w)
      in ml_call (Main_notify EVENT_MGR_EV_REBOOT) (ml_call (Main_delay (en_ms_to_ticks E RESET_TASK_DELAY_BEFORE_REBOOT_MS)) w))"

text \<open>The function returns in the reset task only, which still has to handle EVENT_MGR_EV_REBOOT.\<close>

definition gateway_restart :: "bool \<Rightarrow> main_env \<Rightarrow> string \<Rightarrow> main_world \<Rightarrow> main_world option" where
  "gateway_restart in_reset_task E msg w =
     (let w = gateway_restart_announce E msg w in if in_reset_task then Some w else None)"

definition reset_task_watchdog_feed :: "main_world \<Rightarrow> main_world" where
  "reset_task_watchdog_feed w = ml_call Main_wdt_reset w"

definition reset_task_handle_sig_configure_button_event :: "main_env \<Rightarrow> main_world \<Rightarrow> main_world option" where
  "reset_task_handle_sig_configure_button_event E w =
     (if gw_status_get_configure_button_pressed (ml_status w)
      then Some (ml_call (Reset_timer_start Reset_by_configure_button)
                   (w\<lparr>g_cnt_cfg_button_pressed := g_cnt_cfg_button_pressed w + 1\<rparr>))
      else
        let w = ml_call (Reset_timer_stop Reset_by_configure_button) w in do {
          (use_eth, w) \<leftarrow> ml_read gw_cfg_get_eth_use_eth w;
          w \<leftarrow> (if use_eth then Some (ml_call Wifi_disconnect_eth w)
            else do {
              (sta, w) \<leftarrow> ml_read gw_cfg_is_wifi_sta_configured w;
              Some (if sta \<or> en_sta_active E then ml_call Wifi_disconnect w else w)
            });
          Some (if \<not> en_ap_active E then timer_cfg_mode_deactivation_start E (start_wifi_ap w) else w)
        })"

text \<open>None is the end: \<open>esp_restart\<close>.\<close>

fun reset_task_handle_sig :: "main_env \<Rightarrow> reset_task_sig \<Rightarrow> main_world \<Rightarrow> main_world option" where
  "reset_task_handle_sig E RESET_TASK_SIG_CONFIGURE_BUTTON_EVENT w = reset_task_handle_sig_configure_button_event E w"
| "reset_task_handle_sig E RESET_TASK_SIG_INCREMENT_UPTIME_COUNTER w =
     Some (w\<lparr>g_uptime_counter := g_uptime_counter w + 1\<rparr>)"
| "reset_task_handle_sig E RESET_TASK_SIG_REBOOT_BY_CONFIGURE_BUTTON w =
     gateway_restart True E ''System restart is activated by the Configure button'' w"
| "reset_task_handle_sig E RESET_TASK_SIG_REBOOT_BY_COMMAND w =
     gateway_restart True E ''System restart is activated by the Command'' w"
| "reset_task_handle_sig E RESET_TASK_SIG_TASK_WATCHDOG_FEED w = Some (reset_task_watchdog_feed w)"
| "reset_task_handle_sig E RESET_TASK_SIG_RESTART w = None"

definition reset_task_wdt_add_and_start :: "main_world \<Rightarrow> main_world" where
  "reset_task_wdt_add_and_start w = ml_call (Reset_timer_start Watchdog_feed) (ml_call Main_wdt_add w)"

definition reset_task_start :: "main_world \<Rightarrow> main_world" where
  "reset_task_start w = ml_call (Reset_timer_start Uptime_counter) (reset_task_wdt_add_and_start w)"

fun reset_task :: "(main_env \<times> reset_task_sig) list \<Rightarrow> main_world \<Rightarrow> main_world option" where
  "reset_task [] w = Some w"
| "reset_task ((E, s) # sigs) w = Option.bind (reset_task_handle_sig E s w) (reset_task sigs)"

definition reset_task_reboot_after_timeout :: "main_world \<Rightarrow> main_world" where
  "reset_task_reboot_after_timeout w = ml_call (Reset_timer_start Reset_by_command) w"

section \<open>What the start of the network does\<close>

text \<open>The calls that decide how the gateway can be reached.\<close>

fun decisive :: "main_call \<Rightarrow> bool" where
  "decisive (Wifi_start f) = True"
| "decisive (Wifi_reconfigure f) = True"
| "decisive (Wifi_start_ap f) = True"
| "decisive Wifi_enable_wps = True"
| "decisive Eth_start = True"
| "decisive (Main_timer_start t) = True"
| "decisive (Main_timer_restart t d) = True"
| "decisive (Main_send_sig s) = True"
| "decisive _ = False"

definition decisions :: "main_world \<Rightarrow> main_call list" where
  "decisions w = filter decisive (ml_calls w)"

lemma decisions_call [simp]: "decisions (ml_call c w) = decisions w @ (if decisive c then [c] else [])"
  by (simp add: decisions_def)

lemma decisions_set [simp]:
  "decisions (set_status s w) = decisions w" "decisions (w\<lparr>ml_cfg := c\<rparr>) = decisions w"
  "decisions (w\<lparr>g_flag_wifi_initialized := b\<rparr>) = decisions w" "decisions (w\<lparr>g_eth_handle := b\<rparr>) = decisions w"
  by (simp_all add: decisions_def)

definition same_base :: "main_world \<Rightarrow> main_world \<Rightarrow> bool" where
  "same_base w w' \<longleftrightarrow> g_gateway_config (ml_cfg w') = g_gateway_config (ml_cfg w) \<and>
     g_gw_cfg_is_empty (ml_cfg w') = g_gw_cfg_is_empty (ml_cfg w) \<and> ml_mqtt w' = ml_mqtt w \<and>
     g_p_timer_sig_deferred_ethernet_activation w' = g_p_timer_sig_deferred_ethernet_activation w \<and>
     decisions w' = decisions w"

lemma same_base_refl [simp]: "same_base w w"
  by (simp add: same_base_def)

lemma same_base_trans: "same_base w w' \<Longrightarrow> same_base w' w'' \<Longrightarrow> same_base w w''"
  by (simp add: same_base_def)

lemma same_base_call [simp]: "\<not> decisive c \<Longrightarrow> same_base w (ml_call c w') = same_base w w'"
  by (simp add: same_base_def ml_call_def decisions_def)

lemma same_base_mutex [simp]:
  "same_base w (w'\<lparr>ml_cfg := (ml_cfg w')\<lparr>g_gw_cfg_mutex := m\<rparr>\<rparr>) = same_base w w'"
  "same_base w (w'\<lparr>g_eth_handle := b\<rparr>) = same_base w w'"
  by (simp_all add: same_base_def)

lemma ml_call_handle [simp]:
  "g_eth_handle (ml_call c w) = g_eth_handle w" "g_flag_wifi_initialized (ml_call c w) = g_flag_wifi_initialized w"
  "g_eth_handle (set_status s w) = g_eth_handle w" "g_flag_wifi_initialized (set_status s w) = g_flag_wifi_initialized w"
  by (simp_all add: ml_call_def set_status_def)

lemma unlock_cfg: "g_gw_cfg_mutex (ml_cfg w) = Some (Suc n) \<Longrightarrow>
    ml_unlock_cfg w = Some (w\<lparr>ml_cfg := (ml_cfg w)\<lparr>g_gw_cfg_mutex := Some n\<rparr>\<rparr>)"
  by (simp add: ml_unlock_cfg_def gw_cfg_unlock_ro_def gw_cfg_mutex_unlock_def)

lemma unlock_cfg_0: "g_gw_cfg_mutex (ml_cfg w) = Some 0 \<Longrightarrow> ml_unlock_cfg w = None"
  by (simp add: ml_unlock_cfg_def gw_cfg_unlock_ro_def gw_cfg_mutex_unlock_def)

lemma lock_cfg: "g_gw_cfg_mutex (ml_cfg w) = Some n \<Longrightarrow>
    ml_read gw_cfg_lock_ro w = Some (g_gateway_config (ml_cfg w), w\<lparr>ml_cfg := (ml_cfg w)\<lparr>g_gw_cfg_mutex := Some (Suc n)\<rparr>\<rparr>)"
  by (simp add: ml_read_def gw_cfg_lock_ro_def gw_cfg_mutex_lock_def)

lemma set_dns_info [simp]:
  "same_base w (eth_netif_set_dns_info E ip t w') = same_base w w'"
  "g_gw_cfg_mutex (ml_cfg (eth_netif_set_dns_info E ip t w')) = g_gw_cfg_mutex (ml_cfg w')"
  "g_eth_handle (eth_netif_set_dns_info E ip t w') = g_eth_handle w'"
  by (simp_all add: eth_netif_set_dns_info_def Let_def)

lemma update_ip_static:
  "same_base w (snd (ethernet_update_ip_static E c w)) \<and>
   g_gw_cfg_mutex (ml_cfg (snd (ethernet_update_ip_static E c w))) = g_gw_cfg_mutex (ml_cfg w) \<and>
   g_eth_handle (snd (ethernet_update_ip_static E c w)) = g_eth_handle w"
  by (simp add: ethernet_update_ip_static_def Let_def eth_netif_dhcpc_stop_def)

lemma same_base_dhcp:
  "same_base w ((ml_call Eth_dhcpc_start (w\<lparr>ml_cfg := c\<rparr>))\<lparr>ml_cfg := (ml_cfg w)\<lparr>g_gw_cfg_mutex := m\<rparr>\<rparr>)"
  "same_base w (ml_call Eth_dhcpc_start (w\<lparr>ml_cfg := (ml_cfg w)\<lparr>g_gw_cfg_mutex := m\<rparr>\<rparr>))"
  by (simp_all add: same_base_def decisions_def ml_call_def)

lemma ethernet_update_ip_result:
  assumes "g_gw_cfg_mutex (ml_cfg w) = Some m"
  shows "if eth_dhcp (eth_cfg (g_gateway_config (ml_cfg w))) \<and> en_dhcpc_start E \<and> m = 0
    then ethernet_update_ip E w = None
    else \<exists>w'. ethernet_update_ip E w = Some w' \<and> same_base w w' \<and> g_eth_handle w' = g_eth_handle w \<and>
      g_gw_cfg_mutex (ml_cfg w') =
        Some (if eth_dhcp (eth_cfg (g_gateway_config (ml_cfg w))) \<and> en_dhcpc_start E then m - 1 else m)"
proof (cases "eth_dhcp (eth_cfg (g_gateway_config (ml_cfg w)))")
  case True
  then show ?thesis
    using assms by (cases m) (auto simp: ethernet_update_ip_def lock_cfg unlock_cfg ethernet_update_ip_dhcp_def Let_def
      unlock_cfg_0 same_base_dhcp)
next
  case False
  define w1 where "w1 = w\<lparr>ml_cfg := (ml_cfg w)\<lparr>g_gw_cfg_mutex := Some (Suc m)\<rparr>\<rparr>"
  define c where "c = eth_cfg (g_gateway_config (ml_cfg w))"
  define w2 where "w2 = snd (ethernet_update_ip_static E c w1)"
  have w2: "same_base w w2" "g_gw_cfg_mutex (ml_cfg w2) = Some (Suc m)" "g_eth_handle w2 = g_eth_handle w"
    using update_ip_static [of w1 E c] by (simp_all add: w2_def w1_def same_base_def decisions_def)
  obtain ok where ok: "ethernet_update_ip_static E c w1 = (ok, w2)" by (metis w2_def prod.collapse)
  have "ml_read gw_cfg_lock_ro w = Some (g_gateway_config (ml_cfg w), w1)" using lock_cfg [OF assms] by (simp add: w1_def)
  then have "ethernet_update_ip E w = Some (if ok
      then eth_netif_set_dns_info E dns_fallback_server ESP_NETIF_DNS_FALLBACK (w2\<lparr>ml_cfg := (ml_cfg w2)\<lparr>g_gw_cfg_mutex := Some m\<rparr>\<rparr>)
      else w2\<lparr>ml_cfg := (ml_cfg w2)\<lparr>g_gw_cfg_mutex := Some m\<rparr>\<rparr>)"
    using False ok by (simp add: ethernet_update_ip_def unlock_cfg [OF w2(2)] c_def)
  with False w2 show ?thesis by (cases ok) simp_all
qed

lemma eth_init_try_ok:
  "en_eth_init E c \<Longrightarrow> eth_init_try E c w = (True, ml_call (Eth_init c) w)"
  by (simp add: eth_init_try_def)

lemma ethernet_init_ok:
  assumes "g_gw_cfg_mutex (ml_cfg w) = Some m" and "\<And>c. en_eth_init E c"
    and "\<not> (eth_dhcp (eth_cfg (g_gateway_config (ml_cfg w))) \<and> en_dhcpc_start E \<and> m = 0)"
  obtains w' where "ethernet_init E w = Some (True, w')" and "same_base w w'" and "g_eth_handle w'"
    and "g_gw_cfg_mutex (ml_cfg w') =
        Some (if eth_dhcp (eth_cfg (g_gateway_config (ml_cfg w))) \<and> en_dhcpc_start E then m - 1 else m)"
proof -
  define w1 where "w1 = ml_call (Eth_init Esp_event_handler_register_ip) (ml_call (Eth_init Esp_event_handler_register_eth)
    (ml_call (Eth_init Esp_eth_set_default_handlers) (ml_call (Eth_init Esp_netif_new) (ml_call Eth_clock_enable w))))"
  have w1: "g_gw_cfg_mutex (ml_cfg w1) = Some m" "same_base w w1"
      "g_gateway_config (ml_cfg w1) = g_gateway_config (ml_cfg w)" using assms(1) by (simp_all add: w1_def)
  from ethernet_update_ip_result [OF w1(1), of E] assms(3) obtain w2 where w2: "ethernet_update_ip E w1 = Some w2"
    "same_base w1 w2" "g_gw_cfg_mutex (ml_cfg w2) =
        Some (if eth_dhcp (eth_cfg (g_gateway_config (ml_cfg w))) \<and> en_dhcpc_start E then m - 1 else m)"
    unfolding w1(3) by (auto split: if_splits)
  have "ethernet_init E w = Some (True, ml_call (Eth_init Esp_netif_attach) (ml_call (Eth_init Esp_eth_new_netif_glue)
      ((ml_call (Eth_init Esp_eth_driver_install) w2)\<lparr>g_eth_handle := True\<rparr>)))"
    using w2(1) assms(2) by (simp add: ethernet_init_def eth_init_try_ok w1_def [symmetric])
  with same_base_trans [OF w1(2) w2(2)] w2(3) that show thesis by simp
qed

lemma network_status_reads:
  "gw_status_is_eth_link_up s = v_eth_link_up (status_view s)"
  "gw_status_get_first_boot_after_cfg_erase s = v_first_boot (status_view s)"
  using status_reads_view [of s] by (simp_all add: reads_view_def)

lemma network_views [simp]:
  "status_view (gw_status_set_eth_link_up s) = (status_view s)\<lparr>v_eth_link_up := True\<rparr>"
  "status_view (gw_status_set_first_boot_after_cfg_erase s) = (status_view s)\<lparr>v_first_boot := True\<rparr>"
  "status_view (gw_status_clear_first_boot_after_cfg_erase s) = (status_view s)\<lparr>v_first_boot := False\<rparr>"
  "status_view (gw_status_set_waiting_auto_cfg_by_wps s) = (status_view s)\<lparr>v_waiting_wps := True\<rparr>"
  by (simp_all add: status_view_def status_op_defs status_bits error_of_bits_def Let_def)

lemma network_start_ethernet_result:
  assumes "g_eth_handle w"
  shows "decisions (network_start_ethernet E w) = decisions w @ [Eth_start]"
    and "ml_cfg (network_start_ethernet E w) = ml_cfg w"
    and "gw_status_is_eth_link_up (ml_status (network_start_ethernet E w)) \<longleftrightarrow>
      en_link_comes_up E \<or> gw_status_is_eth_link_up (ml_status w)"
  using assms
  by (simp_all add: network_start_ethernet_def ethernet_start_def Let_def eth_on_event_connected_def ethernet_link_up_cb_def
    network_status_reads)

lemma wifi_sta_configured_eq:
  "g_gw_cfg_mutex s = Some n \<Longrightarrow> sta_ssid (wifi_config_sta (wifi_cfg_sta (g_gateway_config s))) = ch # chs \<Longrightarrow>
   gw_cfg_is_wifi_sta_configured s = Some (ch \<noteq> NUL, s)"
  by (cases s) (simp add: gw_cfg_is_wifi_sta_configured_def gw_cfg_lock_ro_def gw_cfg_unlock_ro_def
    gw_cfg_mutex_lock_def gw_cfg_mutex_unlock_def)

text \<open>C30: How a gateway that starts can be reached. When the parts of the network can be initialised, the start
  of the network makes exactly these decisions, in this order: the WiFi manager is started (or reconfigured when the
  update of the nRF52 has started it), connecting as a station if neither the hotspot is forced nor Ethernet is
  configured and there is an SSID; Ethernet is started if the hotspot is not forced and Ethernet is
  configured or there is no SSID, and delayed by a timer on the first boot after the configuration was erased;
  the access point is started, with the configuration mode and a timer that ends it after an hour, if the hotspot
  is forced or the gateway has no configuration; and WPS if it has none. So exactly one of the station and Ethernet is chosen, or
  the access point is up. With DHCP the configuration mutex, which the caller holds, has been released by the time the function returns.\<close>

theorem network_subsystem_init_paths:
  fixes w :: main_world and force :: force_start_wifi_hotspot
  defines "c \<equiv> g_gateway_config (ml_cfg w)" and "emp \<equiv> g_gw_cfg_is_empty (ml_cfg w)"
  assumes "g_gw_cfg_mutex (ml_cfg w) = Some (Suc n)" and "sta_ssid (wifi_config_sta (wifi_cfg_sta c)) = ch # chs"
    and "en_alloc E" and "en_http_server_cb_init E" and "\<And>k. en_eth_init E k" and "g_p_timer_sig_deferred_ethernet_activation w"
  defines "forced \<equiv> force \<noteq> FORCE_START_WIFI_HOTSPOT_DISABLED"
  defines "sta \<equiv> \<not> forced \<and> \<not> use_eth (eth_cfg c) \<and> ch \<noteq> NUL"
    and "eth \<equiv> \<not> forced \<and> (use_eth (eth_cfg c) \<or> ch = NUL)" and "ap \<equiv> forced \<or> emp"
  shows "\<exists>w'. network_subsystem_init E force w = Some (True, w') \<and>
    decisions w' = decisions w @
      [if g_flag_wifi_initialized w then Wifi_reconfigure sta else Wifi_start sta] @
      (if eth then [Eth_start] else if forced \<and> emp then [Main_timer_start Timer_deferred_ethernet_activation] else []) @
      (if ap then [Wifi_start_ap True, Main_send_sig MAIN_TASK_SIG_ACTIVATE_CFG_MODE,
         Main_timer_restart Timer_deactivate_cfg_mode (en_ms_to_ticks E 3600000)] else []) @
      (if emp then [Wifi_enable_wps] else []) \<and>
    g_gw_cfg_mutex (ml_cfg w') = Some (if eth_dhcp (eth_cfg c) \<and> en_dhcpc_start E then n else Suc n) \<and>
    (sta \<longrightarrow> \<not> eth) \<and> (sta \<or> eth \<or> ap)"
proof -
  define w1 where "w1 = network_note_first_boot force emp (ml_call Rng_seed w)"
  have w1: "decisions w1 = decisions w" "ml_cfg w1 = ml_cfg w" "g_flag_wifi_initialized w1 = g_flag_wifi_initialized w"
      "v_first_boot (status_view (ml_status w1)) = (emp \<and> forced)"
      "g_p_timer_sig_deferred_ethernet_activation w1"
    using assms by (simp_all add: w1_def network_note_first_boot_def Let_def)
  obtain w2 where w2: "wifi_init E sta w1 = (True, w2)"
    "decisions w2 = decisions w @ [if g_flag_wifi_initialized w then Wifi_reconfigure sta else Wifi_start sta]"
    "ml_cfg w2 = ml_cfg w" "ml_status w2 = ml_status w1" "g_p_timer_sig_deferred_ethernet_activation w2"
    using w1 assms(6) by (cases "g_flag_wifi_initialized w")
      (simp_all add: wifi_init_def configure_wifi_country_and_max_tx_power_def Let_def ml_status_def [of "_\<lparr>g_flag_wifi_initialized := _\<rparr>"]
        ml_status_def [of w1])
  obtain w3 where w3: "ethernet_init E w2 = Some (True, w3)" "same_base w2 w3" "g_eth_handle w3"
    "g_gw_cfg_mutex (ml_cfg w3) = Some (if eth_dhcp (eth_cfg c) \<and> en_dhcpc_start E then n else Suc n)"
    by (rule ethernet_init_ok [of w2 "Suc n" E]) (use w2(3) assms(3,7) in \<open>simp_all add: c_def\<close>)
  have first: "gw_status_get_first_boot_after_cfg_erase (ml_status w3) = (emp \<and> forced)"
    using w3(2) w2(4) w1(4) by (simp add: network_status_reads same_base_def ml_status_def)
  define w4 where "w4 = network_start_or_defer_ethernet E eth w3"
  have w4: "ml_cfg w4 = ml_cfg w3" "decisions w4 = decisions w2 @
      (if eth then [Eth_start] else if forced \<and> emp then [Main_timer_start Timer_deferred_ethernet_activation] else [])"
    using network_start_ethernet_result [OF w3(3), of E] w3(2) w2(5) first
    by (auto simp: w4_def network_start_or_defer_ethernet_def main_calls_defs same_base_def)
  define w5 where "w5 = network_start_wifi_ap E ap w4"
  have w5: "ml_cfg w5 = ml_cfg w3" "decisions w5 = decisions w4 @ (if ap then [Wifi_start_ap True,
      Main_send_sig MAIN_TASK_SIG_ACTIVATE_CFG_MODE, Main_timer_restart Timer_deactivate_cfg_mode (en_ms_to_ticks E 3600000)] else [])"
    using w4(1) by (simp_all add: w5_def network_start_wifi_ap_def main_calls_defs RUUVI_CFG_MODE_DEACTIVATION_LONG_DELAY_SEC_def)
  define w' where "w' = (if emp then ml_call Wifi_enable_wps (set_status (gw_status_set_waiting_auto_cfg_by_wps (ml_status w5)) w5) else w5)"
  have empty: "ml_read gw_cfg_is_empty w = Some (emp, w)" "ml_read gw_cfg_is_empty w5 = Some (emp, w5)"
    using ml_read_is_empty [of w] ml_read_is_empty [of w5] assms(3) w5(1) w3(2,4) w2(3)
    by (simp_all add: emp_def same_base_def)
  have reads: "ml_read gw_cfg_get_eth_use_eth w = Some (use_eth (eth_cfg c), w)"
      "ml_read gw_cfg_is_wifi_sta_configured w = Some (ch \<noteq> NUL, w)"
    using assms(3,4) wifi_sta_configured_eq [of "ml_cfg w" "Suc n" ch chs]
    by (simp_all add: gw_cfg_get_eth_use_eth_def ml_read_cfg [OF assms(3)] ml_read_eq c_def)
  have flags: "network_subsystem_check_if_ethernet_needs_to_be_started force (use_eth (eth_cfg c)) (ch \<noteq> NUL) = eth"
      "network_subsystem_check_if_wifi_ap_needs_to_be_started force emp = ap"
      "(\<not> use_eth (eth_cfg c) \<and> force = FORCE_START_WIFI_HOTSPOT_DISABLED \<and> ch \<noteq> NUL) = sta"
    by (auto simp: network_subsystem_check_if_ethernet_needs_to_be_started_def
      network_subsystem_check_if_wifi_ap_needs_to_be_started_def eth_def ap_def sta_def forced_def)
  have ap_again: "(ap \<or> eth \<and> \<not> gw_status_is_eth_link_up (ml_status w4) \<and> emp) = ap" by (auto simp: ap_def)
  have wps: "network_enable_wps w5 = Some w'" by (simp add: network_enable_wps_def empty(2) w'_def)
  have "network_subsystem_init E force w = Some (True, w')"
    by (simp add: network_subsystem_init_def empty(1) reads configure_mbedtls_rng_def assms(5) w1_def [symmetric]
      flags w2(1) w3(1) w4_def [symmetric] w5_def [symmetric] ap_again wps Let_def)
  moreover have "decisions w' = decisions w5 @ (if emp then [Wifi_enable_wps] else [])" "ml_cfg w' = ml_cfg w3"
    using w5(1) by (simp_all add: w'_def)
  ultimately show ?thesis
    using w2(2) w4(2) w5(2) w3(4) by (auto simp: sta_def eth_def ap_def)
qed

definition sim_locked :: main_world where
  "sim_locked = sim_main\<lparr>ml_cfg := gw_cfg_state_example (Some 1)\<rparr>"

theorem network_subsystem_init_paths_witness:
  "\<exists>w'. network_subsystem_init sim_main_env FORCE_START_WIFI_HOTSPOT_DISABLED sim_locked = Some (True, w') \<and>
    decisions w' = [Wifi_start False, Eth_start] \<and> g_gw_cfg_mutex (ml_cfg w') = Some 0"
proof -
  let ?c = "g_gateway_config (ml_cfg sim_locked)"
  have h: "g_gw_cfg_mutex (ml_cfg sim_locked) = Some (Suc 0)" "sta_ssid (wifi_config_sta (wifi_cfg_sta ?c)) = NUL # []"
    "en_alloc sim_main_env" "en_http_server_cb_init sim_main_env" "\<And>k. en_eth_init sim_main_env k"
    "g_p_timer_sig_deferred_ethernet_activation sim_locked"
    by (simp_all add: sim_locked_def gw_cfg_state_example_def gw_cfg_example_def sim_main_env_def sim_main_def)
  have "eth_dhcp (eth_cfg ?c)" "use_eth (eth_cfg ?c)" "en_dhcpc_start sim_main_env" "\<not> g_gw_cfg_is_empty (ml_cfg sim_locked)"
    "\<not> g_flag_wifi_initialized sim_locked" "decisions sim_locked = []"
    by (simp_all add: sim_locked_def gw_cfg_state_example_def gw_cfg_example_def sim_main_env_def sim_main_def eth_example_def
      decisions_def)
  with network_subsystem_init_paths [OF h, of FORCE_START_WIFI_HOTSPOT_DISABLED] show ?thesis by auto
qed

section \<open>The configuration mutex\<close>

text \<open>The update of the IP address of Ethernet releases the configuration mutex twice when DHCP is used and its client
  starts. So the task that calls it without holding the mutex (the web server, after Ethernet was
  configured) gives back a mutex that it does not hold; and the main task, which holds it while the network starts, has lost
  it when the network has started, so its own release at the end fails. In every other case both
  return with the mutex as they found it.\<close>

theorem dhcp_releases_configuration_twice:
  fixes w :: main_world
  defines "c \<equiv> g_gateway_config (ml_cfg w)"
  assumes "g_gw_cfg_mutex (ml_cfg w) = Some 0" and "sta_ssid (wifi_config_sta (wifi_cfg_sta c)) = ch # chs"
    and "en_alloc E" and "en_http_server_cb_init E" and "\<And>k. en_eth_init E k" and "g_p_timer_sig_deferred_ethernet_activation w"
  shows "(ethernet_update_ip E w = None \<longleftrightarrow> eth_dhcp (eth_cfg c) \<and> en_dhcpc_start E) \<and>
    (main_task_init_network E w = None \<longleftrightarrow> eth_dhcp (eth_cfg c) \<and> en_dhcpc_start E) \<and>
    (\<forall>w'. ethernet_update_ip E w = Some w' \<or> main_task_init_network E w = Some (True, w') \<longrightarrow>
      g_gw_cfg_mutex (ml_cfg w') = Some 0)"
proof -
  define wl where "wl = w\<lparr>ml_cfg := (ml_cfg w)\<lparr>g_gw_cfg_mutex := Some (Suc 0)\<rparr>\<rparr>"
  have locked: "ml_read gw_cfg_lock_ro w = Some (c, wl)" using lock_cfg [OF assms(2)] by (simp add: wl_def c_def)
  have wl: "g_gw_cfg_mutex (ml_cfg wl) = Some (Suc 0)" "g_gateway_config (ml_cfg wl) = c"
      "g_p_timer_sig_deferred_ethernet_activation wl" using assms(7) by (simp_all add: wl_def c_def)
  from network_subsystem_init_paths [OF wl(1) _ assms(4-6) wl(3), of ch chs "en_force_start_wifi_hotspot E"] assms(3)
  obtain w1 where w1: "network_subsystem_init E (en_force_start_wifi_hotspot E) wl = Some (True, w1)"
    "g_gw_cfg_mutex (ml_cfg w1) = Some (if eth_dhcp (eth_cfg c) \<and> en_dhcpc_start E then 0 else Suc 0)"
    unfolding wl(2) by blast
  have "main_task_init_network E w = Option.bind (ml_unlock_cfg w1) (\<lambda>w. Some (True, w))"
    by (simp add: main_task_init_network_def locked w1(1))
  moreover have "ml_unlock_cfg w1 = (if eth_dhcp (eth_cfg c) \<and> en_dhcpc_start E then None
      else Some (w1\<lparr>ml_cfg := (ml_cfg w1)\<lparr>g_gw_cfg_mutex := Some 0\<rparr>\<rparr>))"
    using w1(2) unlock_cfg_0 [of w1] unlock_cfg [of w1 0] by simp
  ultimately show ?thesis
    using ethernet_update_ip_result [OF assms(2), of E] by (auto simp: c_def split: if_splits)
qed

theorem dhcp_releases_configuration_twice_witness:
  "ethernet_update_ip sim_main_env sim_main = None \<and> main_task_init_network sim_main_env sim_main = None"
proof -
  let ?c = "g_gateway_config (ml_cfg sim_main)"
  have h: "g_gw_cfg_mutex (ml_cfg sim_main) = Some 0" "sta_ssid (wifi_config_sta (wifi_cfg_sta ?c)) = NUL # []"
    "en_alloc sim_main_env" "en_http_server_cb_init sim_main_env" "\<And>k. en_eth_init sim_main_env k"
    "g_p_timer_sig_deferred_ethernet_activation sim_main"
    by (simp_all add: gw_cfg_state_example_def gw_cfg_example_def sim_main_env_def sim_main_def)
  have "eth_dhcp (eth_cfg ?c)" "en_dhcpc_start sim_main_env"
    by (simp_all add: sim_main_def gw_cfg_state_example_def gw_cfg_example_def sim_main_env_def eth_example_def)
  with dhcp_releases_configuration_twice [OF h] show ?thesis by blast
qed

section \<open>A cable configures the gateway\<close>

lemma connected_views [simp]:
  "status_view (gw_status_set_eth_connected s) = (status_view s)\<lparr>v_eth_connected := True\<rparr>"
  by (simp add: status_view_def status_op_defs status_bits error_of_bits_def Let_def)

text \<open>C31: A cable is enough to put a new gateway into operation. When Ethernet gets an address while the gateway has no configuration and is
  in configuration mode, the callback asks the main task for the default configuration; the handler stores it, so that the
  configuration means the default one on this device, and asks for the end of the mode; and that handler leaves the mode
  and takes back its suspension of relaying by HTTP and by MQTT.\<close>

theorem cable_configures_gateway:
  assumes "cfg_inv (ml_cfg w)" and "g_gw_cfg_is_empty (ml_cfg w)" and "gw_cfg_ok (en_default E)" and "en_alloc E"
    and "status_modes (ml_status w) = (True, Suc h, Suc m)"
  shows "\<exists>w1 w2 w3. got_ip_event_handler w = Some w1 \<and>
    decisions w1 = decisions w @ [Main_send_sig MAIN_TASK_SIG_SET_DEFAULT_CONFIG] \<and>
    gw_status_is_network_connected (ml_status w1) \<and>
    main_task_handle_sig E MAIN_TASK_SIG_SET_DEFAULT_CONFIG w1 = Some w2 \<and>
    decisions w2 = decisions w1 @ [Main_send_sig MAIN_TASK_SIG_DEACTIVATE_CFG_MODE] \<and>
    main_task_handle_sig E MAIN_TASK_SIG_DEACTIVATE_CFG_MODE w2 = Some w3 \<and>
    gw_cfg_view (g_gateway_config (ml_cfg w3)) =
      (gw_cfg_view (en_default E))\<lparr>mean_device := mean_device (gw_cfg_view (g_gateway_config (ml_cfg w)))\<rparr> \<and>
    \<not> g_gw_cfg_is_empty (ml_cfg w3) \<and> status_modes (ml_status w3) = (False, h, m)"
proof -
  have mutex: "g_gw_cfg_mutex (ml_cfg w) = Some 0" and ok: "gw_cfg_ok (g_gateway_config (ml_cfg w))"
    using assms(1) by (simp_all add: cfg_inv_def)
  define w1 where "w1 = ml_call (Main_notify EVENT_MGR_EV_ETH_CONNECTED)
    (set_status (gw_status_set_eth_connected (ml_status w))
      (ml_call (Wifi_update_network_connection_info UPDATE_CONNECTION_OK) (main_task_send_sig_set_default_config w)))"
  have w1: "got_ip_event_handler w = Some w1"
    using assms(2) mutex
    by (simp add: got_ip_event_handler_def ethernet_connection_ok_cb_def gw_cfg_get_eth_use_dhcp_def w1_def main_calls_defs
      ml_read_is_empty [where n = 0] ml_read_cfg [where n = 0])
  have w1': "ml_cfg w1 = ml_cfg w" "status_modes (ml_status w1) = (True, Suc h, Suc m)"
      "gw_status_is_network_connected (ml_status w1)"
      "decisions w1 = decisions w @ [Main_send_sig MAIN_TASK_SIG_SET_DEFAULT_CONFIG]"
    using assms(5) status_reads_view [of "ml_status w1"]
    by (simp_all add: w1_def main_calls_defs status_modes_def reads_view_def)
  define d where "d = en_default E"
  have "update_ok (Some (ruuvi_cfg d)) (Some (eth_cfg d)) (Some (wifi_cfg_ap d)) (Some (wifi_cfg_sta d))"
    using assms(3) by (simp add: d_def gw_cfg_ok_def update_ok_def)
  from gw_cfg_set_eq [OF ok this mutex] obtain st c' where c': "gw_cfg_update (Some d) (ml_cfg w) = Some (st, c')"
    "g_gw_cfg_mutex c' = Some 0" "\<not> g_gw_cfg_is_empty c'"
    "gw_cfg_view (g_gateway_config c') = (gw_cfg_view d)\<lparr>mean_device := mean_device (gw_cfg_view (g_gateway_config (ml_cfg w)))\<rparr>"
    by (auto simp: gw_cfg_update_def mutex config_after_view gw_cfg_update_Some_spec)
  define w2 where "w2 = main_task_send_sig_deactivate_cfg_mode (w1\<lparr>ml_cfg := c'\<rparr>)"
  have w2: "main_task_handle_sig E MAIN_TASK_SIG_SET_DEFAULT_CONFIG w1 = Some w2"
    using c'(1) assms(4) w1'(1) by (simp add: main_task_handle_sig_set_default_config_def ml_read_def d_def w2_def)
  have w2': "ml_cfg w2 = c'" "status_modes (ml_status w2) = (True, Suc h, Suc m)"
      "decisions w2 = decisions w1 @ [Main_send_sig MAIN_TASK_SIG_DEACTIVATE_CFG_MODE]"
    using w1'(2) by (simp_all add: w2_def main_calls_defs)
  obtain w3 where w3: "main_task_handle_sig_deactivate_cfg_mode E w2 = Some w3" "ml_cfg w3 = c'"
    "status_modes (ml_status w3) = (False, h, m)"
    by (rule deactivate_cfg_mode_modes [of w2 0 E]) (use w2' c'(2,3) in simp_all)
  from w1 w1' w2 w2' w3 c' show ?thesis
    by (intro exI [of _ w1] exI [of _ w2] exI [of _ w3]) (simp add: d_def)
qed

theorem cable_configures_gateway_witness:
  "\<exists>w w1 w2 w3. g_gw_cfg_is_empty (ml_cfg w) \<and> gw_status_get_cfg_mode (ml_status w) \<and> got_ip_event_handler w = Some w1 \<and>
    main_task_handle_sig sim_main_env MAIN_TASK_SIG_SET_DEFAULT_CONFIG w1 = Some w2 \<and>
    main_task_handle_sig sim_main_env MAIN_TASK_SIG_DEACTIVATE_CFG_MODE w2 = Some w3 \<and>
    \<not> gw_status_get_cfg_mode (ml_status w3) \<and> gw_status_is_relaying_via_http_enabled (ml_status w3)"
proof -
  obtain wa where wa: "main_task_handle_sig sim_main_env MAIN_TASK_SIG_ACTIVATE_CFG_MODE sim_main = Some wa"
    "status_modes (ml_status wa) = (True, 1, 1)" "ml_cfg wa = ml_cfg sim_main" by (rule sim_activate)
  define w where "w = wa\<lparr>ml_cfg := (gw_cfg_state_example (Some 0))\<lparr>g_gw_cfg_is_empty := True\<rparr>\<rparr>"
  have h: "cfg_inv (ml_cfg w)" "g_gw_cfg_is_empty (ml_cfg w)" "gw_cfg_ok (en_default sim_main_env)" "en_alloc sim_main_env"
    "status_modes (ml_status w) = (True, Suc 0, Suc 0)"
    using wa(2) gw_cfg_example_ok by (simp_all add: w_def cfg_inv_def gw_cfg_state_example_def sim_main_env_def)
  from cable_configures_gateway [OF h] h(2,5) show ?thesis
    by (simp add: status_reads status_modes_def) blast
qed

section \<open>The button\<close>

lemma button_views [simp]:
  "status_view (gw_status_set_configure_button_pressed s) = (status_view s)\<lparr>v_button_pressed := True\<rparr>"
  "status_view (gw_status_clear_configure_button_pressed s) = (status_view s)\<lparr>v_button_pressed := False\<rparr>"
  "gw_status_get_configure_button_pressed s = v_button_pressed (status_view s)"
  using status_reads_view [of s]
  by (simp_all add: status_view_def status_op_defs status_bits error_of_bits_def Let_def reads_view_def)

lemma button_isr_eq:
  assumes "gw_cfg_is_initialized (ml_cfg w)" and "g_gpio_is_configure_button_pressed w \<noteq> level_low"
  shows "gpio_configure_button_handler_isr level_low w =
    ml_call Reset_send_sig_button (set_status ((if level_low then gw_status_set_configure_button_pressed
      else gw_status_clear_configure_button_pressed) (ml_status w)) (w\<lparr>g_gpio_is_configure_button_pressed := level_low\<rparr>))"
  using assms by (simp add: gpio_configure_button_handler_isr_def reset_task_notify_configure_button_event_def ml_status_def Let_def)

lemma button_press:
  assumes "v_button_pressed (status_view (ml_status w))"
  shows "reset_task_handle_sig E RESET_TASK_SIG_CONFIGURE_BUTTON_EVENT w =
    Some (ml_call (Reset_timer_start Reset_by_configure_button) (w\<lparr>g_cnt_cfg_button_pressed := g_cnt_cfg_button_pressed w + 1\<rparr>))"
  using assms by (simp add: reset_task_handle_sig_configure_button_event_def)

lemma button_release:
  fixes w :: main_world
  defines "c \<equiv> g_gateway_config (ml_cfg w)"
  assumes "\<not> v_button_pressed (status_view (ml_status w))" and "g_gw_cfg_mutex (ml_cfg w) = Some n"
    and "sta_ssid (wifi_config_sta (wifi_cfg_sta c)) = ch # chs"
  obtains w' where "reset_task_handle_sig E RESET_TASK_SIG_CONFIGURE_BUTTON_EVENT w = Some w'"
    and "ml_calls w' = ml_calls w @ [Reset_timer_stop Reset_by_configure_button] @
      (if use_eth (eth_cfg c) then [Wifi_disconnect_eth] else if ch \<noteq> NUL \<or> en_sta_active E then [Wifi_disconnect] else []) @
      (if en_ap_active E then [] else [Wifi_start_ap True, Main_send_sig MAIN_TASK_SIG_ACTIVATE_CFG_MODE,
         Main_timer_stop Timer_deactivate_cfg_mode,
         Main_timer_restart Timer_deactivate_cfg_mode (en_ms_to_ticks E 60000)])"
proof -
  define w1 where "w1 = ml_call (Reset_timer_stop Reset_by_configure_button) w"
  have w1: "g_gw_cfg_mutex (ml_cfg w1) = Some n" "g_gateway_config (ml_cfg w1) = c"
      "ml_calls w1 = ml_calls w @ [Reset_timer_stop Reset_by_configure_button]"
    using assms by (simp_all add: w1_def)
  have reads: "ml_read gw_cfg_get_eth_use_eth w1 = Some (use_eth (eth_cfg c), w1)"
      "ml_read gw_cfg_is_wifi_sta_configured w1 = Some (ch \<noteq> NUL, w1)"
    using w1(1,2) assms(4) wifi_sta_configured_eq [of "ml_cfg w1" n ch chs]
    by (simp_all add: gw_cfg_get_eth_use_eth_def ml_read_cfg [OF w1(1)] ml_read_eq)
  have "reset_task_handle_sig E RESET_TASK_SIG_CONFIGURE_BUTTON_EVENT w =
     (let w2 = (if use_eth (eth_cfg c) then ml_call Wifi_disconnect_eth w1
                else if ch \<noteq> NUL \<or> en_sta_active E then ml_call Wifi_disconnect w1 else w1)
      in Some (if \<not> en_ap_active E then timer_cfg_mode_deactivation_start E (start_wifi_ap w2) else w2))"
    using assms(2) by (auto simp: reset_task_handle_sig_configure_button_event_def w1_def [symmetric] reads Let_def)
  with w1(3) that show thesis
    by (simp add: main_calls_defs RUUVI_CFG_MODE_DEACTIVATION_DEFAULT_DELAY_SEC_def Let_def split: if_splits)
qed

lemma gw_cfg_initialized_upd [simp]:
  "ml_cfg (w\<lparr>g_gpio_is_configure_button_pressed := b\<rparr>) = ml_cfg w" "ml_cfg (w\<lparr>g_cnt_cfg_button_pressed := n\<rparr>) = ml_cfg w"
  by simp_all

lemma button_fields [simp]:
  "g_gpio_is_configure_button_pressed (ml_call k w) = g_gpio_is_configure_button_pressed w"
  "g_cnt_cfg_button_pressed (ml_call k w) = g_cnt_cfg_button_pressed w"
  "g_gpio_is_configure_button_pressed (set_status s w) = g_gpio_is_configure_button_pressed w"
  "g_cnt_cfg_button_pressed (set_status s w) = g_cnt_cfg_button_pressed w"
  "ml_status (w\<lparr>g_gpio_is_configure_button_pressed := b\<rparr>) = ml_status w"
  "ml_status (w\<lparr>g_cnt_cfg_button_pressed := m\<rparr>) = ml_status w"
  by (simp_all add: ml_call_def set_status_def ml_status_def)

lemma button_isr_same:
  "g_gpio_is_configure_button_pressed w = level_low \<Longrightarrow> gpio_configure_button_handler_isr level_low w = w"
  by (simp add: gpio_configure_button_handler_isr_def)

text \<open>The CONFIGURE button. Pressing it once the configuration is known makes the interrupt handler wake the reset task
  (further interrupts at the same level do nothing), which counts the press and starts the timer of the restart. If
  the button is released before the timer ends, the task stops the timer, disconnects from the network in use and, unless it
  runs already, starts the access point with the configuration mode, which a timer ends after a minute. If the timer ends
  first, the task records the reason, stops the WiFi and announces the reboot, which makes the signal
  RESTART end it.\<close>

theorem configure_button_effect:
  fixes w :: main_world
  defines "c \<equiv> g_gateway_config (ml_cfg w)"
  assumes "gw_cfg_is_initialized (ml_cfg w)" and "\<not> g_gpio_is_configure_button_pressed w"
    and "g_gw_cfg_mutex (ml_cfg w) = Some 0" and "sta_ssid (wifi_config_sta (wifi_cfg_sta c)) = ch # chs"
  shows "\<exists>w1 w2 w3 w4. gpio_configure_button_handler_isr True w = w1 \<and> gpio_configure_button_handler_isr True w1 = w1 \<and>
    reset_task_handle_sig E RESET_TASK_SIG_CONFIGURE_BUTTON_EVENT w1 = Some w2 \<and>
    ml_calls w2 = ml_calls w @ [Reset_send_sig_button, Reset_timer_start Reset_by_configure_button] \<and>
    g_cnt_cfg_button_pressed w2 = g_cnt_cfg_button_pressed w + 1 \<and>
    gpio_configure_button_handler_isr False w2 = w3 \<and> gpio_configure_button_handler_isr False w3 = w3 \<and>
    reset_task_handle_sig E RESET_TASK_SIG_CONFIGURE_BUTTON_EVENT w3 = Some w4 \<and>
    ml_calls w4 = ml_calls w2 @ [Reset_send_sig_button, Reset_timer_stop Reset_by_configure_button] @
      (if use_eth (eth_cfg c) then [Wifi_disconnect_eth] else if ch \<noteq> NUL \<or> en_sta_active E then [Wifi_disconnect] else []) @
      (if en_ap_active E then [] else [Wifi_start_ap True, Main_send_sig MAIN_TASK_SIG_ACTIVATE_CFG_MODE,
         Main_timer_stop Timer_deactivate_cfg_mode,
         Main_timer_restart Timer_deactivate_cfg_mode (en_ms_to_ticks E 60000)]) \<and>
    reset_task [(E, RESET_TASK_SIG_REBOOT_BY_CONFIGURE_BUTTON), (E, RESET_TASK_SIG_RESTART)] w2 = None \<and>
    (\<exists>w5. reset_task_handle_sig E RESET_TASK_SIG_REBOOT_BY_CONFIGURE_BUTTON w2 = Some w5 \<and>
      ml_calls w5 = ml_calls w2 @ [Reset_info_set_sw ''System restart is activated by the Configure button'', Wifi_stop,
        Main_delay (en_ms_to_ticks E 500), Main_notify EVENT_MGR_EV_REBOOT])"
proof -
  define w1 where "w1 = gpio_configure_button_handler_isr True w"
  have isr1: "w1 = ml_call Reset_send_sig_button (set_status (gw_status_set_configure_button_pressed (ml_status w))
      (w\<lparr>g_gpio_is_configure_button_pressed := True\<rparr>))"
    using button_isr_eq [of w True] assms(2,3) by (simp add: w1_def)
  then have w1: "g_gpio_is_configure_button_pressed w1" "v_button_pressed (status_view (ml_status w1))" "ml_cfg w1 = ml_cfg w"
      "ml_calls w1 = ml_calls w @ [Reset_send_sig_button]" "g_cnt_cfg_button_pressed w1 = g_cnt_cfg_button_pressed w"
    by simp_all
  define w2 where "w2 = ml_call (Reset_timer_start Reset_by_configure_button)
    (w1\<lparr>g_cnt_cfg_button_pressed := g_cnt_cfg_button_pressed w1 + 1\<rparr>)"
  have w2: "g_gpio_is_configure_button_pressed w2" "ml_cfg w2 = ml_cfg w" using w1 by (simp_all add: w2_def)
  define w3 where "w3 = gpio_configure_button_handler_isr False w2"
  have isr3: "w3 = ml_call Reset_send_sig_button (set_status (gw_status_clear_configure_button_pressed (ml_status w2))
      (w2\<lparr>g_gpio_is_configure_button_pressed := False\<rparr>))"
    using button_isr_eq [of w2 False] assms(2) w2 by (simp add: w3_def)
  then have w3: "\<not> g_gpio_is_configure_button_pressed w3" "\<not> v_button_pressed (status_view (ml_status w3))" "ml_cfg w3 = ml_cfg w"
      "ml_calls w3 = ml_calls w2 @ [Reset_send_sig_button]"
    using w2 by simp_all
  obtain w4 where "reset_task_handle_sig E RESET_TASK_SIG_CONFIGURE_BUTTON_EVENT w3 = Some w4"
    "ml_calls w4 = ml_calls w3 @ [Reset_timer_stop Reset_by_configure_button] @
      (if use_eth (eth_cfg c) then [Wifi_disconnect_eth] else if ch \<noteq> NUL \<or> en_sta_active E then [Wifi_disconnect] else []) @
      (if en_ap_active E then [] else [Wifi_start_ap True, Main_send_sig MAIN_TASK_SIG_ACTIVATE_CFG_MODE,
         Main_timer_stop Timer_deactivate_cfg_mode,
         Main_timer_restart Timer_deactivate_cfg_mode (en_ms_to_ticks E 60000)])"
    by (rule button_release [of w3 0 ch chs E]) (use w3 assms in simp_all)
  moreover have "reset_task_handle_sig E RESET_TASK_SIG_CONFIGURE_BUTTON_EVENT w1 = Some w2"
    using button_press [OF w1(2)] by (simp add: w2_def)
  moreover have "ml_calls w2 = ml_calls w @ [Reset_send_sig_button, Reset_timer_start Reset_by_configure_button]"
    "g_cnt_cfg_button_pressed w2 = g_cnt_cfg_button_pressed w + 1" using w1 by (simp_all add: w2_def)
  moreover have "gpio_configure_button_handler_isr True w1 = w1" "gpio_configure_button_handler_isr False w3 = w3"
    using w1(1) w3(1) by (simp_all add: button_isr_same)
  ultimately show ?thesis
    unfolding w1_def [symmetric] by (simp add: w3(4) w3_def [symmetric] gateway_restart_def gateway_restart_announce_def Let_def RESET_TASK_DELAY_BEFORE_REBOOT_MS_def)
qed

theorem configure_button_effect_witness:
  "\<exists>w2. reset_task_handle_sig sim_main_env RESET_TASK_SIG_CONFIGURE_BUTTON_EVENT
     (gpio_configure_button_handler_isr True sim_main) = Some w2 \<and>
   reset_task_handle_sig sim_main_env RESET_TASK_SIG_CONFIGURE_BUTTON_EVENT (gpio_configure_button_handler_isr False w2) \<noteq> None \<and>
   ml_calls w2 = [Reset_send_sig_button, Reset_timer_start Reset_by_configure_button]"
proof -
  have h: "gw_cfg_is_initialized (ml_cfg sim_main)" "\<not> g_gpio_is_configure_button_pressed sim_main"
    "g_gw_cfg_mutex (ml_cfg sim_main) = Some 0" "sta_ssid (wifi_config_sta (wifi_cfg_sta (g_gateway_config (ml_cfg sim_main)))) = NUL # []"
    "ml_calls sim_main = []"
    by (simp_all add: sim_main_def gw_cfg_is_initialized_def gw_cfg_state_example_def gw_cfg_example_def)
  from configure_button_effect [OF h(1-4), of sim_main_env] h(5) show ?thesis by auto
qed
end
