(* ===== verification/Time_Task.thy ===== *)
theory Time_Task
  imports Main_Loop
begin

text \<open>
  The time task, \<open>time_task.c\<close>: it passes the configured time servers to the SNTP client, runs the
  client while the network is connected and keeps the flag that tells whether the time is synchronised. Its state is in
  \<open>main_world\<close>; the calls of the SNTP client (a part of the SDK) are recorded there. Times are 32-bit signed numbers.
\<close>

section \<open>Signals\<close>

datatype time_task_sig =
  TIME_TASK_SIG_WIFI_CONNECTED | TIME_TASK_SIG_WIFI_DISCONNECTED | TIME_TASK_SIG_ETH_CONNECTED
| TIME_TASK_SIG_ETH_DISCONNECTED | TIME_TASK_SIG_GW_CFG_CHANGED_RUUVI | TIME_TASK_SIG_STOP

definition all_time_task_sigs :: "time_task_sig list" where
  "all_time_task_sigs = [TIME_TASK_SIG_WIFI_CONNECTED, TIME_TASK_SIG_WIFI_DISCONNECTED, TIME_TASK_SIG_ETH_CONNECTED,
     TIME_TASK_SIG_ETH_DISCONNECTED, TIME_TASK_SIG_GW_CFG_CHANGED_RUUVI, TIME_TASK_SIG_STOP]"

definition time_task_conv_to_sig_num :: "time_task_sig \<Rightarrow> os_signal_num" where
  "time_task_conv_to_sig_num s = length (takeWhile (\<lambda>t. t \<noteq> s) all_time_task_sigs)"

definition time_task_conv_from_sig_num :: "os_signal_num \<Rightarrow> time_task_sig option" where
  "time_task_conv_from_sig_num n = (if n < length all_time_task_sigs then Some (all_time_task_sigs ! n) else None)"

definition TIME_TASK_NUM_OF_TIME_SERVERS :: nat where "TIME_TASK_NUM_OF_TIME_SERVERS = 4"
definition SNTP_MAX_SERVERS :: nat where "SNTP_MAX_SERVERS = 4"
definition TM_YEAR_BASE :: int where "TM_YEAR_BASE = 1900"
definition TM_YEAR_MIN :: int where "TM_YEAR_MIN = 2021"

text \<open>\<open>struct tm\<close>.\<close>

record struct_tm =
  stm_sec :: int
  stm_min :: int
  stm_hour :: int
  stm_mday :: int
  stm_mon :: int
  stm_year :: int
  stm_wday :: int
  stm_yday :: int
  stm_isdst :: int

section \<open>The flag\<close>

definition time_task_get_min_valid_time :: "(struct_tm \<Rightarrow> u32) \<Rightarrow> u32" where
  "time_task_get_min_valid_time os_mkgmtime = os_mkgmtime
     \<lparr>stm_sec = 0, stm_min = 0, stm_hour = 0, stm_mday = 1, stm_mon = 0, stm_year = TM_YEAR_MIN - TM_YEAR_BASE,
      stm_wday = 0, stm_yday = 0, stm_isdst = -1\<rparr>"

definition time_is_valid :: "u32 \<Rightarrow> main_world \<Rightarrow> bool" where
  "time_is_valid ts w = (if sint ts < sint (g_time_min_valid w) then False else True)"

definition time_task_cb_notification_on_sync :: "main_env \<Rightarrow> u32 \<Rightarrow> main_world \<Rightarrow> main_world" where
  "time_task_cb_notification_on_sync E tv_sec w =
     (if sint tv_sec < sint (g_time_min_valid w) then w\<lparr>g_time_is_synchronized := False\<rparr>
      else
        let w = w\<lparr>g_time_is_synchronized := True\<rparr>;
            w = (if en_sntp_sync_mode E = SNTP_SYNC_MODE_IMMED
                 then ml_call (Sntp_set_sync_mode SNTP_SYNC_MODE_SMOOTH) w else w)
        in ml_call (Main_notify EVENT_MGR_EV_TIME_SYNCHRONIZED) w)"

definition time_task_sntp_start :: "main_world \<Rightarrow> main_world" where
  "time_task_sntp_start w = ml_call Sntp_init (w\<lparr>g_time_is_synchronized := False\<rparr>)"

definition time_task_sntp_stop :: "main_world \<Rightarrow> main_world" where
  "time_task_sntp_stop w = ml_call Sntp_stop (w\<lparr>g_time_is_synchronized := False\<rparr>)"

section \<open>Configuration\<close>

text \<open>None is an access behind the end of the array, or of a buffer without a first byte.\<close>

definition time_task_add_ntp_server :: "string \<Rightarrow> string list \<times> nat \<Rightarrow> (string list \<times> nat) option" where
  "time_task_add_ntp_server srv_addr p =
     (case p of (arr, srv_idx) \<Rightarrow>
        case srv_addr of
          [] \<Rightarrow> None
        | ch # _ \<Rightarrow>
            if ch \<noteq> NUL
            then if srv_idx < length arr then Some (arr[srv_idx := srv_addr], srv_idx + 1) else None
            else Some (arr, srv_idx))"

definition time_task_save_settings :: "main_world \<Rightarrow> main_world option" where
  "time_task_save_settings w = do {
     (c, w) \<leftarrow> ml_read gw_cfg_lock_ro w;
     let ntp = cfg_ntp (ruuvi_cfg c);
     let w = w\<lparr>g_time_task_ntp_use := ntp_use ntp, g_time_task_ntp_use_dhcp := ntp_use_dhcp ntp\<rparr>;
     let arr = map (\<lambda>buf. buf[0 := NUL]) (g_arr_of_time_servers w);
     (arr, idx) \<leftarrow> time_task_add_ntp_server (ntp_server1 ntp) (arr, 0);
     (arr, idx) \<leftarrow> time_task_add_ntp_server (ntp_server2 ntp) (arr, idx);
     (arr, idx) \<leftarrow> time_task_add_ntp_server (ntp_server3 ntp) (arr, idx);
     (arr, idx) \<leftarrow> time_task_add_ntp_server (ntp_server4 ntp) (arr, idx);
     ml_unlock_cfg (w\<lparr>g_arr_of_time_servers := arr\<rparr>)
   }"

definition time_task_sntp_add_ntp_server :: "nat \<Rightarrow> string \<Rightarrow> main_world \<Rightarrow> main_world" where
  "time_task_sntp_add_ntp_server server_idx buf w =
     (if buf \<noteq> [] \<and> buf ! 0 \<noteq> NUL then ml_call (Sntp_setserver server_idx (Some (c_str buf))) w
      else ml_call (Sntp_setserver server_idx None) w)"

text \<open>The two loops: the addresses of the client are cleared, and set to the saved ones.\<close>

definition time_task_clear_ntp_servers :: "main_world \<Rightarrow> main_world" where
  "time_task_clear_ntp_servers w = fold (\<lambda>i. ml_call (Sntp_setserver i None)) [0..<SNTP_MAX_SERVERS] w"

definition time_task_add_ntp_servers :: "main_world \<Rightarrow> main_world" where
  "time_task_add_ntp_servers w =
     fold (\<lambda>i. time_task_sntp_add_ntp_server i (g_arr_of_time_servers w ! i)) [0..<TIME_TASK_NUM_OF_TIME_SERVERS] w"

definition time_task_configure_ntp_sources :: "main_world \<Rightarrow> main_world option" where
  "time_task_configure_ntp_sources w = do {
     w \<leftarrow> time_task_save_settings w;
     let w = time_task_clear_ntp_servers w;
     let w = (if g_time_task_ntp_use w
              then if g_time_task_ntp_use_dhcp w then ml_call (Sntp_servermode_dhcp True) w
                   else ml_call (Sntp_servermode_dhcp False) w
              else w);
     Some (if g_time_task_ntp_use w \<and> \<not> g_time_task_ntp_use_dhcp w then time_task_add_ntp_servers w else w)
   }"

section \<open>Handlers\<close>

definition time_task_on_cfg_changed :: "main_world \<Rightarrow> main_world option" where
  "time_task_on_cfg_changed w =
     (let w = time_task_sntp_stop w;
          flag_prev_ntp_use = g_time_task_ntp_use w;
          flag_prev_ntp_use_dhcp = g_time_task_ntp_use_dhcp w
      in do {
        w \<leftarrow> time_task_configure_ntp_sources w;
        Some (if flag_prev_ntp_use \<noteq> g_time_task_ntp_use w \<or> flag_prev_ntp_use_dhcp \<noteq> g_time_task_ntp_use_dhcp w
              then main_task_send_sig_reconnect_network w
              else if g_time_task_ntp_use w then time_task_sntp_start w else w)
      })"

text \<open>The result tells whether the task shall stop.\<close>

fun time_task_handle_sig :: "time_task_sig \<Rightarrow> main_world \<Rightarrow> (bool \<times> main_world) option" where
  "time_task_handle_sig TIME_TASK_SIG_WIFI_CONNECTED w =
     Some (False, if g_time_task_ntp_use w then time_task_sntp_start w else w)"
| "time_task_handle_sig TIME_TASK_SIG_ETH_CONNECTED w =
     Some (False, if g_time_task_ntp_use w then time_task_sntp_start w else w)"
| "time_task_handle_sig TIME_TASK_SIG_WIFI_DISCONNECTED w = Some (False, time_task_sntp_stop w)"
| "time_task_handle_sig TIME_TASK_SIG_ETH_DISCONNECTED w = Some (False, time_task_sntp_stop w)"
| "time_task_handle_sig TIME_TASK_SIG_GW_CFG_CHANGED_RUUVI w = do { w \<leftarrow> time_task_on_cfg_changed w; Some (False, w) }"
| "time_task_handle_sig TIME_TASK_SIG_STOP w = Some (True, w)"

text \<open>The inner loop over the signals of one wake-up, and the loop over the wake-ups.\<close>

fun time_task_batch :: "bool \<Rightarrow> time_task_sig list \<Rightarrow> main_world \<Rightarrow> (bool \<times> main_world) option" where
  "time_task_batch stop [] w = Some (stop, w)"
| "time_task_batch stop (s # sigs) w = do { (stop, w) \<leftarrow> time_task_handle_sig s w; time_task_batch stop sigs w }"

fun time_task_thread :: "time_task_sig list list \<Rightarrow> main_world \<Rightarrow> main_world option" where
  "time_task_thread [] w = Some w"
| "time_task_thread (sigs # wakeups) w = do {
     (stop, w) \<leftarrow> time_task_batch False sigs w;
     if stop then Some w else time_task_thread wakeups w
   }"

definition time_task_destroy_resources :: "main_world \<Rightarrow> main_world" where
  "time_task_destroy_resources w = w\<lparr>gp_time_task_signal := False, g_time_min_valid := 0\<rparr>"

section \<open>Start\<close>

definition time_task_subscriptions :: "(event_mgr_ev \<times> time_task_sig) list" where
  "time_task_subscriptions =
     [(EVENT_MGR_EV_WIFI_CONNECTED, TIME_TASK_SIG_WIFI_CONNECTED),
      (EVENT_MGR_EV_WIFI_DISCONNECTED, TIME_TASK_SIG_WIFI_DISCONNECTED),
      (EVENT_MGR_EV_ETH_CONNECTED, TIME_TASK_SIG_ETH_CONNECTED),
      (EVENT_MGR_EV_ETH_DISCONNECTED, TIME_TASK_SIG_ETH_DISCONNECTED),
      (EVENT_MGR_EV_GW_CFG_CHANGED_RUUVI, TIME_TASK_SIG_GW_CFG_CHANGED_RUUVI)]"

fun subscribe_time_from ::
  "addr \<Rightarrow> os_signal \<Rightarrow> (event_mgr_ev \<times> time_task_sig) list \<Rightarrow> event_mgr \<Rightarrow> event_mgr option" where
  "subscribe_time_from mem sig [] s = Some s"
| "subscribe_time_from mem sig ((ev, n) # evs) s =
     (case event_mgr_subscribe_sig_static mem ev sig (time_task_conv_to_sig_num n) s of
        Inl e \<Rightarrow> None
      | Inr s \<Rightarrow> subscribe_time_from (Suc mem) sig evs s)"

text \<open>The records of the subscriptions are the static ones from \<open>mem\<close> on. The flags say whether the
  signals can be added to the signal object and whether the thread can be created.\<close>

definition time_task_init ::
  "bool \<Rightarrow> bool \<Rightarrow> (struct_tm \<Rightarrow> u32) \<Rightarrow> addr \<Rightarrow> os_signal \<Rightarrow> event_mgr \<Rightarrow> main_world \<Rightarrow> (bool \<times> event_mgr \<times> main_world) option" where
  "time_task_init signals_ok thread_ok os_mkgmtime mem sig ev w = do {
     w \<leftarrow> time_task_save_settings w;
     if gp_time_task_signal w then Some (False, ev, w)
     else
       let w = w\<lparr>gp_time_task_signal := True\<rparr> in
       if \<not> signals_ok then Some (False, ev, time_task_destroy_resources w)
       else do {
         ev \<leftarrow> subscribe_time_from mem sig time_task_subscriptions ev;
         let w = ml_call (Sntp_set_sync_mode SNTP_SYNC_MODE_IMMED) (ml_call Sntp_setoperatingmode_poll w);
         w \<leftarrow> time_task_configure_ntp_sources w;
         let w = ml_call Sntp_set_time_sync_notification_cb w;
         let w = w\<lparr>g_time_min_valid := time_task_get_min_valid_time os_mkgmtime\<rparr>;
         Some (if \<not> thread_ok then (False, ev, time_task_destroy_resources w) else (True, ev, w))
       }
   }"

section \<open>Specification\<close>

text \<open>What the task is meant to do: the client is off or on, its servers are those of the configuration, and the time
  is synchronised from a valid notification until the client is started or stopped.\<close>

record time_view =
  tv_running :: bool
  tv_synchronized :: bool
  tv_use :: bool
  tv_dhcp :: bool
  tv_servers :: "string list"
  tv_min_valid :: u32

definition configured_servers :: "ruuvi_gw_cfg_ntp \<Rightarrow> string list" where
  "configured_servers c = filter (\<lambda>s. s \<noteq> []) (map c_str [ntp_server1 c, ntp_server2 c, ntp_server3 c, ntp_server4 c])"

definition wanted_servers :: "ruuvi_gw_cfg_ntp \<Rightarrow> string list" where
  "wanted_servers c = (if ntp_use c \<and> \<not> ntp_use_dhcp c then configured_servers c else [])"

datatype time_step =
  Time_signal time_task_sig
| Time_notification main_env u32
| Time_others gw_cfg_state

fun time_spec :: "gw_cfg \<Rightarrow> time_step \<Rightarrow> time_view \<Rightarrow> time_view" where
  "time_spec c (Time_signal TIME_TASK_SIG_WIFI_CONNECTED) v =
     (if tv_use v then v\<lparr>tv_running := True, tv_synchronized := False\<rparr> else v)"
| "time_spec c (Time_signal TIME_TASK_SIG_ETH_CONNECTED) v =
     (if tv_use v then v\<lparr>tv_running := True, tv_synchronized := False\<rparr> else v)"
| "time_spec c (Time_signal TIME_TASK_SIG_WIFI_DISCONNECTED) v = v\<lparr>tv_running := False, tv_synchronized := False\<rparr>"
| "time_spec c (Time_signal TIME_TASK_SIG_ETH_DISCONNECTED) v = v\<lparr>tv_running := False, tv_synchronized := False\<rparr>"
| "time_spec c (Time_signal TIME_TASK_SIG_GW_CFG_CHANGED_RUUVI) v =
     (let ntp = cfg_ntp (ruuvi_cfg c) in
      v\<lparr>tv_running := ntp_use ntp \<and> tv_use v \<and> tv_dhcp v = ntp_use_dhcp ntp, tv_synchronized := False,
        tv_use := ntp_use ntp, tv_dhcp := ntp_use_dhcp ntp, tv_servers := wanted_servers ntp\<rparr>)"
| "time_spec c (Time_signal TIME_TASK_SIG_STOP) v = v"
| "time_spec c (Time_notification E t) v =
     (if tv_running v then v\<lparr>tv_synchronized := sint (tv_min_valid v) \<le> sint t\<rparr> else v)"
| "time_spec c (Time_others s) v = v"

text \<open>The SNTP client as the recorded calls leave it.\<close>

fun sntp_step :: "main_call \<Rightarrow> bool \<times> (nat \<Rightarrow> string option) \<Rightarrow> bool \<times> (nat \<Rightarrow> string option)" where
  "sntp_step Sntp_init (running, table) = (True, table)"
| "sntp_step Sntp_stop (running, table) = (False, table)"
| "sntp_step (Sntp_setserver i a) (running, table) = (running, table(i := a))"
| "sntp_step _ client = client"

definition sntp_client :: "main_world \<Rightarrow> bool \<times> (nat \<Rightarrow> string option)" where
  "sntp_client w = fold sntp_step (ml_calls w) (False, \<lambda>_. None)"

definition sntp_table :: "main_world \<Rightarrow> string option list" where
  "sntp_table w = map (snd (sntp_client w)) [0..<SNTP_MAX_SERVERS]"

definition time_task_view :: "main_world \<Rightarrow> time_view" where
  "time_task_view w = \<lparr>tv_running = fst (sntp_client w), tv_synchronized = g_time_is_synchronized w,
     tv_use = g_time_task_ntp_use w, tv_dhcp = g_time_task_ntp_use_dhcp w,
     tv_servers = map the (takeWhile (\<lambda>a. a \<noteq> None) (sntp_table w)), tv_min_valid = g_time_min_valid w\<rparr>"

text \<open>The task among the others: they change the configuration, and the client notifies while it runs.\<close>

fun time_task_step :: "time_step \<Rightarrow> main_world \<Rightarrow> main_world option" where
  "time_task_step (Time_signal s) w = map_option snd (time_task_handle_sig s w)"
| "time_task_step (Time_notification E t) w =
     Some (if fst (sntp_client w) then time_task_cb_notification_on_sync E t w else w)"
| "time_task_step (Time_others s) w = Some (w\<lparr>ml_cfg := s\<rparr>)"

fun time_task_run :: "time_step list \<Rightarrow> main_world \<Rightarrow> main_world option" where
  "time_task_run [] w = Some w"
| "time_task_run (s # steps) w = Option.bind (time_task_step s w) (time_task_run steps)"

fun time_spec_run :: "gw_cfg \<Rightarrow> time_step list \<Rightarrow> time_view \<Rightarrow> time_view" where
  "time_spec_run c [] v = v"
| "time_spec_run c (Time_others s # steps) v = time_spec_run (g_gateway_config s) steps v"
| "time_spec_run c (s # steps) v = time_spec_run c steps (time_spec c s v)"

definition time_task_ok :: "main_world \<Rightarrow> bool" where
  "time_task_ok w \<longleftrightarrow> cfg_inv (ml_cfg w) \<and> length (g_arr_of_time_servers w) = TIME_TASK_NUM_OF_TIME_SERVERS \<and>
     [] \<notin> set (g_arr_of_time_servers w)"

section \<open>Effect of the operations on the client\<close>

lemma sntp_client_call [simp]: "sntp_client (ml_call c w) = sntp_step c (sntp_client w)"
  by (simp add: sntp_client_def)

lemma sntp_client_fields [simp]:
  "sntp_client (w\<lparr>ml_cfg := s\<rparr>) = sntp_client w" "sntp_client (w\<lparr>g_time_is_synchronized := b\<rparr>) = sntp_client w"
  "sntp_client (w\<lparr>g_time_task_ntp_use := b\<rparr>) = sntp_client w" "sntp_client (w\<lparr>g_time_task_ntp_use_dhcp := b\<rparr>) = sntp_client w"
  "sntp_client (w\<lparr>g_arr_of_time_servers := arr\<rparr>) = sntp_client w"
  "sntp_client (w\<lparr>gp_time_task_signal := b\<rparr>) = sntp_client w" "sntp_client (w\<lparr>g_time_min_valid := t\<rparr>) = sntp_client w"
  by (simp_all add: sntp_client_def)

lemma time_fields_call [simp]:
  "g_time_is_synchronized (ml_call c w) = g_time_is_synchronized w" "g_time_task_ntp_use (ml_call c w) = g_time_task_ntp_use w"
  "g_time_task_ntp_use_dhcp (ml_call c w) = g_time_task_ntp_use_dhcp w" "g_time_min_valid (ml_call c w) = g_time_min_valid w"
  "g_arr_of_time_servers (ml_call c w) = g_arr_of_time_servers w" "gp_time_task_signal (ml_call c w) = gp_time_task_signal w"
  by (simp_all add: ml_call_def)

definition saved_as :: "string list \<Rightarrow> string list \<times> nat \<Rightarrow> bool" where
  "saved_as xs p \<longleftrightarrow> map c_str (fst p) = xs @ replicate (TIME_TASK_NUM_OF_TIME_SERVERS - length xs) [] \<and>
     snd p = length xs \<and> length (fst p) = TIME_TASK_NUM_OF_TIME_SERVERS \<and> [] \<notin> set (fst p)"

lemma c_str_Nil_iff: "terminated srv \<Longrightarrow> \<exists>ch chs. srv = ch # chs \<and> (c_str srv = [] \<longleftrightarrow> ch = NUL)"
  by (cases srv) (auto simp: c_str_def)

lemma add_ntp_server_saved:
  assumes "saved_as xs p" and "terminated srv" and "length xs < TIME_TASK_NUM_OF_TIME_SERVERS"
  obtains p' where "time_task_add_ntp_server srv p = Some p'"
    and "saved_as (if c_str srv = [] then xs else xs @ [c_str srv]) p'"
proof -
  obtain ch chs where srv: "srv = ch # chs" "c_str srv = [] \<longleftrightarrow> ch = NUL" using c_str_Nil_iff [OF assms(2)] by blast
  obtain arr k where p: "p = (arr, k)" by (cases p)
  have "c_str ` set (arr[k := srv]) \<subseteq> insert (c_str srv) (c_str ` set arr)" using set_update_subset_insert [of arr k srv] by auto
  moreover have "[] \<notin> set (arr[k := srv])"
    using assms(1) srv(1) set_update_subset_insert [of arr k srv] by (auto simp: saved_as_def p)
  moreover obtain m where m: "TIME_TASK_NUM_OF_TIME_SERVERS - length xs = Suc m"
    "TIME_TASK_NUM_OF_TIME_SERVERS - Suc (length xs) = m" using assms(3) by (metis Suc_diff_Suc)
  ultimately show thesis
    using assms srv that [of "if ch = NUL then (arr, k) else (arr[k := srv], k + 1)"]
    by (auto simp: time_task_add_ntp_server_def p saved_as_def map_update list_update_append m)
qed

lemma c_str_emptied: "buf \<noteq> [] \<Longrightarrow> c_str (buf[0 := NUL]) = []"
  by (cases buf) (simp_all add: c_str_def)

lemma cleared_saved:
  assumes "length arr = TIME_TASK_NUM_OF_TIME_SERVERS" and "[] \<notin> set arr"
  shows "saved_as [] (map (\<lambda>buf. buf[0 := NUL]) arr, 0)"
proof -
  have "map c_str (map (\<lambda>buf. buf[0 := NUL]) arr) = map (\<lambda>_. []) arr"
    using assms(2) by (auto intro: c_str_emptied)
  moreover have "[] \<notin> set (map (\<lambda>buf. buf[0 := NUL]) arr)"
    using assms(2) by (auto dest: arg_cong [of _ _ length])
  ultimately show ?thesis using assms(1) by (simp add: saved_as_def map_replicate_const)
qed

lemma add_four_saved:
  assumes "saved_as [] p0" and "ntp_ok c"
  obtains p1 p2 p3 p4 where "time_task_add_ntp_server (ntp_server1 c) p0 = Some p1"
    and "time_task_add_ntp_server (ntp_server2 c) p1 = Some p2" and "time_task_add_ntp_server (ntp_server3 c) p2 = Some p3"
    and "time_task_add_ntp_server (ntp_server4 c) p3 = Some p4" and "saved_as (configured_servers c) p4"
proof -
  define app where "app s xs = (if c_str s = [] then xs else xs @ [c_str s])" for s and xs :: "string list"
  have step: "\<exists>p'. time_task_add_ntp_server s p = Some p' \<and> saved_as (app s xs) p' \<and> length (app s xs) \<le> Suc (length xs)"
    if "saved_as xs p" "terminated s" "length xs < TIME_TASK_NUM_OF_TIME_SERVERS" for s xs p
    by (rule add_ntp_server_saved [OF that]) (auto simp: app_def)
  have t: "terminated (ntp_server1 c)" "terminated (ntp_server2 c)" "terminated (ntp_server3 c)" "terminated (ntp_server4 c)"
    using assms(2) by (simp_all add: ntp_ok_def)
  obtain p1 where p1: "time_task_add_ntp_server (ntp_server1 c) p0 = Some p1" "saved_as (app (ntp_server1 c) []) p1"
      "length (app (ntp_server1 c) []) \<le> 1"
    using step [OF assms(1) t(1)] by (auto simp: TIME_TASK_NUM_OF_TIME_SERVERS_def)
  obtain p2 where p2: "time_task_add_ntp_server (ntp_server2 c) p1 = Some p2"
      "saved_as (app (ntp_server2 c) (app (ntp_server1 c) [])) p2" "length (app (ntp_server2 c) (app (ntp_server1 c) [])) \<le> 2"
    using step [OF p1(2) t(2)] p1(3) by (force simp: TIME_TASK_NUM_OF_TIME_SERVERS_def)
  obtain p3 where p3: "time_task_add_ntp_server (ntp_server3 c) p2 = Some p3"
      "saved_as (app (ntp_server3 c) (app (ntp_server2 c) (app (ntp_server1 c) []))) p3"
      "length (app (ntp_server3 c) (app (ntp_server2 c) (app (ntp_server1 c) []))) \<le> 3"
    using step [OF p2(2) t(3)] p2(3) by (force simp: TIME_TASK_NUM_OF_TIME_SERVERS_def)
  obtain p4 where p4: "time_task_add_ntp_server (ntp_server4 c) p3 = Some p4"
      "saved_as (app (ntp_server4 c) (app (ntp_server3 c) (app (ntp_server2 c) (app (ntp_server1 c) [])))) p4"
    using step [OF p3(2) t(4)] p3(3) by (force simp: TIME_TASK_NUM_OF_TIME_SERVERS_def)
  have "app (ntp_server4 c) (app (ntp_server3 c) (app (ntp_server2 c) (app (ntp_server1 c) []))) = configured_servers c"
    by (simp add: app_def configured_servers_def)
  with p1 p2 p3 p4 that show thesis by simp
qed

lemma save_settings_result:
  assumes "time_task_ok w"
  defines "ntp \<equiv> cfg_ntp (ruuvi_cfg (g_gateway_config (ml_cfg w)))"
  obtains arr where "time_task_save_settings w = Some (w\<lparr>g_time_task_ntp_use := ntp_use ntp,
      g_time_task_ntp_use_dhcp := ntp_use_dhcp ntp, g_arr_of_time_servers := arr\<rparr>)"
    and "saved_as (configured_servers ntp) (arr, length (configured_servers ntp))"
proof -
  have w: "g_gw_cfg_mutex (ml_cfg w) = Some 0" "ntp_ok ntp"
      "saved_as [] (map (\<lambda>buf. buf[0 := NUL]) (g_arr_of_time_servers w), 0)"
    using assms by (simp_all add: time_task_ok_def cfg_inv_def gw_cfg_ok_def gw_cfg_ruuvi_ok_def cleared_saved)
  from add_four_saved [OF w(3,2)] obtain p1 p2 p3 p4 where
    p: "time_task_add_ntp_server (ntp_server1 ntp) (map (\<lambda>buf. buf[0 := NUL]) (g_arr_of_time_servers w), 0) = Some p1"
    "time_task_add_ntp_server (ntp_server2 ntp) p1 = Some p2" "time_task_add_ntp_server (ntp_server3 ntp) p2 = Some p3"
    "time_task_add_ntp_server (ntp_server4 ntp) p3 = Some p4" "saved_as (configured_servers ntp) p4" .
  define wl where "wl = w\<lparr>ml_cfg := (ml_cfg w)\<lparr>g_gw_cfg_mutex := Some (Suc 0)\<rparr>\<rparr>"
  have lock: "ml_read gw_cfg_lock_ro w = Some (g_gateway_config (ml_cfg w), wl)"
    using w(1) by (simp add: ml_read_def gw_cfg_lock_ro_def gw_cfg_mutex_lock_def wl_def)
  have unlock: "ml_unlock_cfg (wl\<lparr>g_time_task_ntp_use := a, g_time_task_ntp_use_dhcp := b, g_arr_of_time_servers := arr\<rparr>) =
      Some (w\<lparr>g_time_task_ntp_use := a, g_time_task_ntp_use_dhcp := b, g_arr_of_time_servers := arr\<rparr>)" for a b arr
    using w(1) by (cases w; cases "ml_cfg w") (simp add: wl_def ml_unlock_cfg_def gw_cfg_unlock_ro_def gw_cfg_mutex_unlock_def)
  obtain arr where p4: "p4 = (arr, length (configured_servers ntp))" using p(5) by (cases p4) (simp add: saved_as_def)
  have "g_arr_of_time_servers wl = g_arr_of_time_servers w" by (simp add: wl_def)
  with p(1-4) unlock have "time_task_save_settings w = Some (w\<lparr>g_time_task_ntp_use := ntp_use ntp,
      g_time_task_ntp_use_dhcp := ntp_use_dhcp ntp, g_arr_of_time_servers := arr\<rparr>)"
    by (cases p1; cases p2; cases p3) (simp add: time_task_save_settings_def lock Let_def ntp_def p4)
  with p(5) that show thesis by (simp add: p4)
qed

definition table_of :: "string list \<Rightarrow> string option list" where
  "table_of xs = map Some xs @ replicate (SNTP_MAX_SERVERS - length xs) None"

lemma table_of_servers: "map the (takeWhile (\<lambda>a. a \<noteq> None) (table_of xs)) = xs"
proof -
  have "takeWhile (\<lambda>a. a \<noteq> None) (table_of xs) = map Some xs @ takeWhile (\<lambda>a. a \<noteq> None) (replicate (SNTP_MAX_SERVERS - length xs) None)"
    unfolding table_of_def by (rule takeWhile_append2) auto
  then show ?thesis by (cases "SNTP_MAX_SERVERS - length xs") (simp_all add: comp_def)
qed

lemma sntp_client_snd [simp]:
  "sntp_step (Sntp_servermode_dhcp b) client = client" "snd (sntp_step Sntp_init client) = snd client"
  "snd (sntp_step Sntp_stop client) = snd client" "fst (sntp_step Sntp_init client) = True"
  "fst (sntp_step Sntp_stop client) = False"
  by (cases client, simp)+

lemma sntp_table_call [simp]:
  "sntp_table (ml_call (Sntp_servermode_dhcp b) w) = sntp_table w" "sntp_table (ml_call Sntp_init w) = sntp_table w"
  "sntp_table (ml_call Sntp_stop w) = sntp_table w"
  by (simp_all add: sntp_table_def)

lemma add_ntp_server_call:
  "time_task_sntp_add_ntp_server i buf w =
     ml_call (Sntp_setserver i (if c_str buf = [] then None else Some (c_str buf))) w"
  by (cases buf) (simp_all add: time_task_sntp_add_ntp_server_def c_str_def)

lemma upt_four: "[0..<4] = [0, 1, 2, 3 :: nat]"
  by (simp add: upt_rec)

lemma clear_ntp_servers_result:
  "ml_cfg (time_task_clear_ntp_servers w) = ml_cfg w" "fst (sntp_client (time_task_clear_ntp_servers w)) = fst (sntp_client w)"
  "sntp_table (time_task_clear_ntp_servers w) = table_of []"
  "g_time_task_ntp_use (time_task_clear_ntp_servers w) = g_time_task_ntp_use w"
  "g_time_task_ntp_use_dhcp (time_task_clear_ntp_servers w) = g_time_task_ntp_use_dhcp w"
  "g_time_is_synchronized (time_task_clear_ntp_servers w) = g_time_is_synchronized w"
  "g_time_min_valid (time_task_clear_ntp_servers w) = g_time_min_valid w"
  "g_arr_of_time_servers (time_task_clear_ntp_servers w) = g_arr_of_time_servers w"
  by (cases "sntp_client w"; simp add: time_task_clear_ntp_servers_def SNTP_MAX_SERVERS_def upt_four sntp_table_def table_of_def
    numeral_eq_Suc)+

lemma table_from_saved:
  assumes "saved_as xs (arr, k)" and "[] \<notin> set xs"
  shows "map (\<lambda>buf. if c_str buf = [] then None else Some (c_str buf)) arr = table_of xs"
proof -
  let ?g = "\<lambda>s. if s = [] then None else Some s"
  have "map (\<lambda>buf. if c_str buf = [] then None else Some (c_str buf)) arr = map ?g (map c_str arr)" by simp
  also have "map c_str arr = xs @ replicate (TIME_TASK_NUM_OF_TIME_SERVERS - length xs) []"
    using assms(1) by (simp add: saved_as_def)
  also have "map ?g (xs @ replicate (TIME_TASK_NUM_OF_TIME_SERVERS - length xs) []) = table_of xs"
    using assms(2) by (auto simp: table_of_def TIME_TASK_NUM_OF_TIME_SERVERS_def SNTP_MAX_SERVERS_def)
  finally show ?thesis .
qed

lemma add_ntp_servers_result:
  assumes "length (g_arr_of_time_servers w) = TIME_TASK_NUM_OF_TIME_SERVERS"
  shows "ml_cfg (time_task_add_ntp_servers w) = ml_cfg w" "fst (sntp_client (time_task_add_ntp_servers w)) = fst (sntp_client w)"
    "sntp_table (time_task_add_ntp_servers w) =
       map (\<lambda>buf. if c_str buf = [] then None else Some (c_str buf)) (g_arr_of_time_servers w)"
    "g_time_task_ntp_use (time_task_add_ntp_servers w) = g_time_task_ntp_use w"
    "g_time_task_ntp_use_dhcp (time_task_add_ntp_servers w) = g_time_task_ntp_use_dhcp w"
    "g_time_is_synchronized (time_task_add_ntp_servers w) = g_time_is_synchronized w"
    "g_time_min_valid (time_task_add_ntp_servers w) = g_time_min_valid w"
    "g_arr_of_time_servers (time_task_add_ntp_servers w) = g_arr_of_time_servers w"
proof -
  obtain a b c d where arr: "g_arr_of_time_servers w = [a, b, c, d]"
    using assms by (auto simp: TIME_TASK_NUM_OF_TIME_SERVERS_def numeral_eq_Suc length_Suc_conv)
  show "ml_cfg (time_task_add_ntp_servers w) = ml_cfg w" "fst (sntp_client (time_task_add_ntp_servers w)) = fst (sntp_client w)"
    "sntp_table (time_task_add_ntp_servers w) =
       map (\<lambda>buf. if c_str buf = [] then None else Some (c_str buf)) (g_arr_of_time_servers w)"
    "g_time_task_ntp_use (time_task_add_ntp_servers w) = g_time_task_ntp_use w"
    "g_time_task_ntp_use_dhcp (time_task_add_ntp_servers w) = g_time_task_ntp_use_dhcp w"
    "g_time_is_synchronized (time_task_add_ntp_servers w) = g_time_is_synchronized w"
    "g_time_min_valid (time_task_add_ntp_servers w) = g_time_min_valid w"
    "g_arr_of_time_servers (time_task_add_ntp_servers w) = g_arr_of_time_servers w"
    by (cases "sntp_client w"; simp add: time_task_add_ntp_servers_def TIME_TASK_NUM_OF_TIME_SERVERS_def SNTP_MAX_SERVERS_def
      upt_four sntp_table_def add_ntp_server_call arr)+
qed

lemma configure_ntp_sources_result:
  assumes "time_task_ok w"
  defines "ntp \<equiv> cfg_ntp (ruuvi_cfg (g_gateway_config (ml_cfg w)))"
  obtains w' where "time_task_configure_ntp_sources w = Some w'" and "time_task_ok w'" and "ml_cfg w' = ml_cfg w"
    and "time_task_view w' = (time_task_view w)\<lparr>tv_use := ntp_use ntp, tv_dhcp := ntp_use_dhcp ntp, tv_servers := wanted_servers ntp\<rparr>"
    and "sntp_table w' = table_of (wanted_servers ntp)"
proof -
  obtain arr where save: "time_task_save_settings w = Some (w\<lparr>g_time_task_ntp_use := ntp_use ntp,
      g_time_task_ntp_use_dhcp := ntp_use_dhcp ntp, g_arr_of_time_servers := arr\<rparr>)"
    and arr: "saved_as (configured_servers ntp) (arr, length (configured_servers ntp))"
    using save_settings_result [OF assms(1)] unfolding ntp_def .
  define w0 where "w0 = w\<lparr>g_time_task_ntp_use := ntp_use ntp, g_time_task_ntp_use_dhcp := ntp_use_dhcp ntp,
      g_arr_of_time_servers := arr\<rparr>"
  define w1 where "w1 = time_task_clear_ntp_servers w0"
  have w1: "g_time_task_ntp_use w1 = ntp_use ntp" "g_time_task_ntp_use_dhcp w1 = ntp_use_dhcp ntp"
    by (simp_all add: w1_def clear_ntp_servers_result w0_def)
  define w2 where "w2 = (if ntp_use ntp then ml_call (Sntp_servermode_dhcp (ntp_use_dhcp ntp)) w1 else w1)"
  define w' where "w' = (if ntp_use ntp \<and> \<not> ntp_use_dhcp ntp then time_task_add_ntp_servers w2 else w2)"
  have w2: "ml_cfg w2 = ml_cfg w" "fst (sntp_client w2) = fst (sntp_client w)" "sntp_table w2 = table_of []"
      "g_time_task_ntp_use w2 = ntp_use ntp" "g_time_task_ntp_use_dhcp w2 = ntp_use_dhcp ntp"
      "g_time_is_synchronized w2 = g_time_is_synchronized w" "g_time_min_valid w2 = g_time_min_valid w"
      "g_arr_of_time_servers w2 = arr"
    by (auto simp: w2_def w1_def clear_ntp_servers_result w0_def)
  have len: "length (g_arr_of_time_servers w2) = TIME_TASK_NUM_OF_TIME_SERVERS" using arr by (simp add: w2(8) saved_as_def)
  have "[] \<notin> set (configured_servers ntp)" by (auto simp: configured_servers_def)
  from table_from_saved [OF arr this] have table: "sntp_table w' = table_of (wanted_servers ntp)"
    using w2(3,8) by (simp add: w'_def wanted_servers_def add_ntp_servers_result [OF len])
  have "time_task_configure_ntp_sources w = Some w'"
    using w1 by (auto simp: time_task_configure_ntp_sources_def save [folded w0_def] w1_def [symmetric] w2_def w'_def Let_def)
  moreover have "time_task_ok w'" "ml_cfg w' = ml_cfg w"
    using assms(1) arr w2(1,8) by (simp_all add: w'_def add_ntp_servers_result [OF len] time_task_ok_def saved_as_def)
  moreover have "time_task_view w' =
      (time_task_view w)\<lparr>tv_use := ntp_use ntp, tv_dhcp := ntp_use_dhcp ntp, tv_servers := wanted_servers ntp\<rparr>"
    using w2 unfolding time_task_view_def table table_of_servers
    by (simp add: w'_def add_ntp_servers_result [OF len])
  ultimately show thesis using that table by blast
qed

section \<open>The task refines its specification\<close>

lemma sntp_start_stop [simp]:
  "time_task_ok (time_task_sntp_start w) = time_task_ok w" "time_task_ok (time_task_sntp_stop w) = time_task_ok w"
  "time_task_view (time_task_sntp_start w) = (time_task_view w)\<lparr>tv_running := True, tv_synchronized := False\<rparr>"
  "time_task_view (time_task_sntp_stop w) = (time_task_view w)\<lparr>tv_running := False, tv_synchronized := False\<rparr>"
  "ml_cfg (time_task_sntp_start w) = ml_cfg w" "ml_cfg (time_task_sntp_stop w) = ml_cfg w"
  by (simp_all add: time_task_sntp_start_def time_task_sntp_stop_def time_task_ok_def time_task_view_def sntp_table_def)

lemma time_view_reads:
  "g_time_task_ntp_use w = tv_use (time_task_view w)" "g_time_task_ntp_use_dhcp w = tv_dhcp (time_task_view w)"
  "fst (sntp_client w) = tv_running (time_task_view w)" "g_time_is_synchronized w = tv_synchronized (time_task_view w)"
  by (simp_all add: time_task_view_def)

lemma on_cfg_changed_result:
  assumes "time_task_ok w"
  obtains w' where "time_task_on_cfg_changed w = Some w'" and "time_task_ok w'" and "ml_cfg w' = ml_cfg w"
    and "time_task_view w' = time_spec (g_gateway_config (ml_cfg w)) (Time_signal TIME_TASK_SIG_GW_CFG_CHANGED_RUUVI) (time_task_view w)"
proof -
  define ntp where "ntp = cfg_ntp (ruuvi_cfg (g_gateway_config (ml_cfg w)))"
  obtain w1 where w1: "time_task_configure_ntp_sources (time_task_sntp_stop w) = Some w1" "time_task_ok w1"
    "ml_cfg w1 = ml_cfg w" "time_task_view w1 = (time_task_view (time_task_sntp_stop w))\<lparr>tv_use := ntp_use ntp,
       tv_dhcp := ntp_use_dhcp ntp, tv_servers := wanted_servers ntp\<rparr>"
    by (rule configure_ntp_sources_result [of "time_task_sntp_stop w"]) (use assms in \<open>simp_all add: ntp_def\<close>)
  define w' where "w' = (if g_time_task_ntp_use w \<noteq> ntp_use ntp \<or> g_time_task_ntp_use_dhcp w \<noteq> ntp_use_dhcp ntp
    then main_task_send_sig_reconnect_network w1 else if ntp_use ntp then time_task_sntp_start w1 else w1)"
  have "g_time_task_ntp_use w1 = ntp_use ntp" "g_time_task_ntp_use_dhcp w1 = ntp_use_dhcp ntp"
    using w1(4) by (simp_all add: time_view_reads)
  then have "time_task_on_cfg_changed w = Some w'"
    using w1(1) by (simp add: time_task_on_cfg_changed_def w'_def Let_def time_task_sntp_stop_def)
  moreover have reconnect: "time_task_view (main_task_send_sig_reconnect_network w1) = time_task_view w1"
      "time_task_ok (main_task_send_sig_reconnect_network w1) = time_task_ok w1"
      "ml_cfg (main_task_send_sig_reconnect_network w1) = ml_cfg w1"
    by (cases "sntp_client w1"; simp add: main_calls_defs time_task_view_def sntp_table_def time_task_ok_def)+
  then have "time_task_ok w'" "ml_cfg w' = ml_cfg w" using w1(2,3) by (simp_all add: w'_def)
  moreover have "time_task_view w' = time_spec (g_gateway_config (ml_cfg w)) (Time_signal TIME_TASK_SIG_GW_CFG_CHANGED_RUUVI) (time_task_view w)"
    by (auto simp: w'_def reconnect w1(4) time_view_reads ntp_def Let_def)
  ultimately show thesis using that by blast
qed

lemma notification_result:
  assumes "fst (sntp_client w)"
  shows "time_task_ok (time_task_cb_notification_on_sync E t w) = time_task_ok w"
    and "ml_cfg (time_task_cb_notification_on_sync E t w) = ml_cfg w"
    and "time_task_view (time_task_cb_notification_on_sync E t w) =
      (time_task_view w)\<lparr>tv_synchronized := sint (g_time_min_valid w) \<le> sint t\<rparr>"
  by (cases "sntp_client w"; simp add: time_task_cb_notification_on_sync_def time_task_ok_def time_task_view_def sntp_table_def
    Let_def not_less)+

fun others_ok :: "time_step \<Rightarrow> bool" where
  "others_ok (Time_others s) = cfg_inv s"
| "others_ok _ = True"

lemma time_task_step_refines:
  assumes "time_task_ok w" and "others_ok s"
  shows "\<exists>w'. time_task_step s w = Some w' \<and> time_task_ok w' \<and>
    time_task_view w' = time_spec (g_gateway_config (ml_cfg w)) s (time_task_view w) \<and>
    ml_cfg w' = (case s of Time_others c \<Rightarrow> c | _ \<Rightarrow> ml_cfg w)"
proof (cases s)
  case s: (Time_signal sig)
  have connected: "time_task_view (if g_time_task_ntp_use w then time_task_sntp_start w else w) =
      (if tv_use (time_task_view w) then (time_task_view w)\<lparr>tv_running := True, tv_synchronized := False\<rparr> else time_task_view w)"
    "time_task_ok (if g_time_task_ntp_use w then time_task_sntp_start w else w)"
    "ml_cfg (if g_time_task_ntp_use w then time_task_sntp_start w else w) = ml_cfg w"
    using assms(1) by (auto simp: time_view_reads(1))
  show ?thesis
  proof (cases sig)
    case TIME_TASK_SIG_GW_CFG_CHANGED_RUUVI
    obtain w' where "time_task_on_cfg_changed w = Some w'" "time_task_ok w'" "ml_cfg w' = ml_cfg w"
      "time_task_view w' = time_spec (g_gateway_config (ml_cfg w)) (Time_signal TIME_TASK_SIG_GW_CFG_CHANGED_RUUVI) (time_task_view w)"
      by (rule on_cfg_changed_result [OF assms(1)])
    then show ?thesis unfolding s TIME_TASK_SIG_GW_CFG_CHANGED_RUUVI by (intro exI [of _ w']) (simp del: time_spec.simps)
  qed (use connected assms(1) s in simp_all)
next
  case (Time_notification E t)
  with assms(1) notification_result [of w E t] show ?thesis
    by (cases "fst (sntp_client w)") (simp_all add: time_task_view_def)
next
  case (Time_others c)
  with assms show ?thesis by (simp add: time_task_ok_def time_task_view_def sntp_table_def)
qed

definition sim_time :: main_world where
  "sim_time = sim_main\<lparr>g_arr_of_time_servers := replicate 4 [NUL], g_time_is_synchronized := False\<rparr>"

lemma sim_time:
  "time_task_ok sim_time" "\<not> gp_time_task_signal sim_time" "sntp_client sim_time = (False, \<lambda>_. None)" "\<not> g_time_is_synchronized sim_time"
  "wanted_servers (cfg_ntp (ruuvi_cfg (g_gateway_config (ml_cfg sim_time)))) = [''t1'', ''t2'']"
  "ntp_use (cfg_ntp (ruuvi_cfg (g_gateway_config (ml_cfg sim_time))))" "g_time_min_valid sim_time = 0"
  "\<not> ntp_use_dhcp (cfg_ntp (ruuvi_cfg (g_gateway_config (ml_cfg sim_time))))"
  using gw_cfg_example_ok
  by (simp_all add: sim_time_def time_task_ok_def TIME_TASK_NUM_OF_TIME_SERVERS_def sim_main_def sntp_client_def cfg_inv_def
    gw_cfg_state_example_def gw_cfg_example_def gw_cfg_ruuvi_example_def wanted_servers_def configured_servers_def c_str_def NUL_def)

text \<open>A changed configuration starts the client although the gateway has just been disconnected.\<close>

lemma sntp_starts_disconnected:
  assumes "time_task_ok w" and "g_time_task_ntp_use w"
    and "ntp_use (cfg_ntp (ruuvi_cfg (g_gateway_config (ml_cfg w))))"
    and "ntp_use_dhcp (cfg_ntp (ruuvi_cfg (g_gateway_config (ml_cfg w)))) = g_time_task_ntp_use_dhcp w"
  shows "\<exists>w'. time_task_run [Time_signal TIME_TASK_SIG_WIFI_DISCONNECTED, Time_signal TIME_TASK_SIG_GW_CFG_CHANGED_RUUVI] w = Some w' \<and>
    fst (sntp_client w')"
proof -
  obtain w1 where w1: "time_task_step (Time_signal TIME_TASK_SIG_WIFI_DISCONNECTED) w = Some w1" "time_task_ok w1"
    "time_task_view w1 = (time_task_view w)\<lparr>tv_running := False, tv_synchronized := False\<rparr>" "ml_cfg w1 = ml_cfg w"
    using time_task_step_refines [OF assms(1), of "Time_signal TIME_TASK_SIG_WIFI_DISCONNECTED"] by auto
  obtain w2 where w2: "time_task_step (Time_signal TIME_TASK_SIG_GW_CFG_CHANGED_RUUVI) w1 = Some w2"
    "time_task_view w2 = time_spec (g_gateway_config (ml_cfg w1)) (Time_signal TIME_TASK_SIG_GW_CFG_CHANGED_RUUVI) (time_task_view w1)"
    using time_task_step_refines [OF w1(2), of "Time_signal TIME_TASK_SIG_GW_CFG_CHANGED_RUUVI"] by auto
  have "tv_running (time_task_view w2)"
    using assms(2-4) by (simp add: w2(2) w1(3,4) time_view_reads Let_def)
  then have "fst (sntp_client w2)" by (simp add: time_view_reads)
  moreover have "time_task_run [Time_signal TIME_TASK_SIG_WIFI_DISCONNECTED, Time_signal TIME_TASK_SIG_GW_CFG_CHANGED_RUUVI] w = Some w2"
    by (simp only: time_task_run.simps w1(1) w2(1) bind.bind_lunit)
  ultimately show ?thesis by blast
qed

text \<open>C32: Synchronisation of the time. In every run of the time task (its signals in any order, notifications of the SNTP client
  while it runs, and changes of the configuration by other tasks) every step succeeds and the task behaves as its
  specification: the SNTP client gets exactly the configured non-empty servers, in order and without gaps, and none when NTP is off or uses
  DHCP; a connection starts it if NTP is in use, a disconnection stops it, and a changed configuration stops it and starts it again at once
  if NTP is in use and neither this nor the use of DHCP has changed. (The task does not know whether there is a connection: this start
  also happens without one, see \<open>sntp_starts_disconnected\<close>.) The time counts as synchronised exactly if the last notification since the last
  start or stop was not before 2021. So a synchronised time implies a running client, and a running client that NTP is in use.\<close>

theorem time_task_run_refines:
  assumes "time_task_ok w" and "\<forall>s \<in> set steps. others_ok s"
    and "tv_synchronized (time_task_view w) \<longrightarrow> tv_running (time_task_view w)"
    and "tv_running (time_task_view w) \<longrightarrow> tv_use (time_task_view w)"
  shows "\<exists>w'. time_task_run steps w = Some w' \<and> time_task_ok w' \<and>
    time_task_view w' = time_spec_run (g_gateway_config (ml_cfg w)) steps (time_task_view w) \<and>
    (time_is_synchronized w' \<longrightarrow> fst (sntp_client w')) \<and> (fst (sntp_client w') \<longrightarrow> g_time_task_ntp_use w')"
  using assms
proof (induction steps arbitrary: w)
  case Nil
  then show ?case by (simp add: time_view_reads time_is_synchronized_def)
next
  case (Cons s steps)
  then obtain w1 where w1: "time_task_step s w = Some w1" "time_task_ok w1"
    "time_task_view w1 = time_spec (g_gateway_config (ml_cfg w)) s (time_task_view w)"
    "ml_cfg w1 = (case s of Time_others c \<Rightarrow> c | _ \<Rightarrow> ml_cfg w)"
    using time_task_step_refines [of w s] by auto
  have "(tv_synchronized (time_task_view w1) \<longrightarrow> tv_running (time_task_view w1)) \<and>
      (tv_running (time_task_view w1) \<longrightarrow> tv_use (time_task_view w1))"
    using Cons.prems(3,4) unfolding w1(3)
    by (cases "(g_gateway_config (ml_cfg w), s, time_task_view w)" rule: time_spec.cases) (auto simp: Let_def)
  with Cons.IH [of w1] Cons.prems(2) w1 show ?case by (cases s) auto
qed

theorem time_task_run_refines_witness:
  "\<exists>w'. time_task_run [Time_signal TIME_TASK_SIG_GW_CFG_CHANGED_RUUVI, Time_signal TIME_TASK_SIG_ETH_CONNECTED,
       Time_notification sim_main_env 1] sim_time = Some w' \<and>
     time_is_synchronized w' \<and> fst (sntp_client w') \<and> tv_servers (time_task_view w') = [''t1'', ''t2'']"
proof -
  let ?steps = "[Time_signal TIME_TASK_SIG_GW_CFG_CHANGED_RUUVI, Time_signal TIME_TASK_SIG_ETH_CONNECTED, Time_notification sim_main_env 1]"
  have v: "time_task_view sim_time = \<lparr>tv_running = False, tv_synchronized = False, tv_use = g_time_task_ntp_use sim_time,
      tv_dhcp = g_time_task_ntp_use_dhcp sim_time, tv_servers = [], tv_min_valid = 0\<rparr>"
    by (simp add: time_task_view_def sim_time sntp_table_def SNTP_MAX_SERVERS_def upt_four)
  have "\<forall>s \<in> set ?steps. others_ok s" by simp
  from time_task_run_refines [OF sim_time(1) this] v obtain w' where w': "time_task_run ?steps sim_time = Some w'"
    "time_task_view w' = time_spec_run (g_gateway_config (ml_cfg sim_time)) ?steps (time_task_view sim_time)" by auto
  have "time_task_view w' = \<lparr>tv_running = True, tv_synchronized = True, tv_use = True, tv_dhcp = False,
      tv_servers = [''t1'', ''t2''], tv_min_valid = 0\<rparr>"
    unfolding w'(2) v by (simp add: sim_time Let_def)
  then have "time_is_synchronized w'" "fst (sntp_client w')" "tv_servers (time_task_view w') = [''t1'', ''t2'']"
    by (simp_all add: time_is_synchronized_def time_view_reads)
  with w'(1) show ?thesis by blast
qed

lemma fold_keeps: "(\<And>x w. f (g x w) = f w) \<Longrightarrow> f (fold g xs w) = f w"
  by (induction xs arbitrary: w) simp_all

lemma ntp_server_calls_signal [simp]:
  "gp_time_task_signal (time_task_clear_ntp_servers w) = gp_time_task_signal w"
  "gp_time_task_signal (time_task_add_ntp_servers w) = gp_time_task_signal w"
  unfolding time_task_clear_ntp_servers_def time_task_add_ntp_servers_def
  by (rule fold_keeps, simp add: time_task_sntp_add_ntp_server_def)+

lemma configure_ntp_sources_signal:
  assumes "time_task_ok w" and "time_task_configure_ntp_sources w = Some w'"
  shows "gp_time_task_signal w' = gp_time_task_signal w"
  by (rule save_settings_result [OF assms(1)])
    (use assms(2) in \<open>auto simp: time_task_configure_ntp_sources_def Let_def split: if_splits\<close>)

lemma subscribe_time_notifies:
  assumes "\<And>e n. (e, n) \<in> set evs \<Longrightarrow> ev_in_range e"
  shows "\<exists>ev'. subscribe_time_from mem sig evs ev = Some ev' \<and> (\<forall>e. event_mgr_notify e ev' = event_mgr_notify e ev @
       map (\<lambda>(_, n). (sig, time_task_conv_to_sig_num n)) (filter (\<lambda>(e', _). e' = e) evs))"
  using assms
proof (induction evs arbitrary: mem ev)
  case (Cons x evs)
  obtain e n where x: "x = (e, n)" by (cases x)
  define ev1 where "ev1 = ev\<lparr>events := (events ev)(e := events ev e @
    [\<lparr>ev_info_addr = mem, p_signal = sig, sig_num = time_task_conv_to_sig_num n, is_static = True\<rparr>])\<rparr>"
  have "ev_in_range e" using Cons.prems [of e n] by (simp add: x)
  then have "event_mgr_subscribe_sig_static mem e sig (time_task_conv_to_sig_num n) ev = Inr ev1"
    and "\<And>e'. event_mgr_notify e' ev1 = event_mgr_notify e' ev @ (if e' = e then [(sig, time_task_conv_to_sig_num n)] else [])"
    by (simp_all add: event_mgr_subscribe_sig_static_def ev1_def event_mgr_notify_def)
  moreover obtain ev' where "subscribe_time_from (Suc mem) sig evs ev1 = Some ev'"
    "\<forall>e. event_mgr_notify e ev' = event_mgr_notify e ev1 @
       map (\<lambda>(_, n). (sig, time_task_conv_to_sig_num n)) (filter (\<lambda>(e', _). e' = e) evs)"
    using Cons.IH [of "Suc mem" ev1] Cons.prems by (metis list.set_intros(2))
  ultimately show ?case by (intro exI [of _ ev']) (simp add: x)
qed simp

text \<open>Start of the time task. It stores the configured servers, sets the client to them and subscribes its five signals, the time being not
  synchronised. But when the thread cannot be created, the signal object is deleted while all five subscriptions stay, so later
  events are sent to a deleted object.\<close>

theorem time_task_init_effect:
  assumes "time_task_ok w" and "\<not> gp_time_task_signal w"
  defines "ntp \<equiv> cfg_ntp (ruuvi_cfg (g_gateway_config (ml_cfg w)))"
  shows "\<exists>ev' w'. time_task_init True thread_ok os_mkgmtime mem sig ev w = Some (thread_ok, ev', w') \<and>
    gp_time_task_signal w' = thread_ok \<and> sntp_table w' = table_of (wanted_servers ntp) \<and>
    time_task_view w' = (time_task_view w)\<lparr>tv_use := ntp_use ntp, tv_dhcp := ntp_use_dhcp ntp, tv_servers := wanted_servers ntp,
      tv_min_valid := (if thread_ok then time_task_get_min_valid_time os_mkgmtime else 0)\<rparr> \<and>
    (\<forall>e. event_mgr_notify e ev' = event_mgr_notify e ev @
       map (\<lambda>(_, n). (sig, time_task_conv_to_sig_num n)) (filter (\<lambda>(e', _). e' = e) time_task_subscriptions))"
proof -
  obtain arr where save: "time_task_save_settings w = Some (w\<lparr>g_time_task_ntp_use := ntp_use ntp,
      g_time_task_ntp_use_dhcp := ntp_use_dhcp ntp, g_arr_of_time_servers := arr\<rparr>)"
    and arr: "saved_as (configured_servers ntp) (arr, length (configured_servers ntp))"
    using save_settings_result [OF assms(1)] unfolding ntp_def .
  define w1 where "w1 = ml_call (Sntp_set_sync_mode SNTP_SYNC_MODE_IMMED) (ml_call Sntp_setoperatingmode_poll
    ((w\<lparr>g_time_task_ntp_use := ntp_use ntp, g_time_task_ntp_use_dhcp := ntp_use_dhcp ntp,
      g_arr_of_time_servers := arr\<rparr>)\<lparr>gp_time_task_signal := True\<rparr>))"
  have w1: "time_task_ok w1" "ml_cfg w1 = ml_cfg w"
    "fst (sntp_client w1) = fst (sntp_client w)" "g_time_is_synchronized w1 = g_time_is_synchronized w" "gp_time_task_signal w1"
    using assms(1) arr by (cases "sntp_client w"; simp add: w1_def time_task_ok_def saved_as_def)+
  obtain w2 where w2: "time_task_configure_ntp_sources w1 = Some w2" "sntp_table w2 = table_of (wanted_servers ntp)"
    "time_task_view w2 = (time_task_view w1)\<lparr>tv_use := ntp_use ntp, tv_dhcp := ntp_use_dhcp ntp, tv_servers := wanted_servers ntp\<rparr>"
    using configure_ntp_sources_result [OF w1(1)] by (auto simp: w1(2) ntp_def)
  obtain ev' where ev': "subscribe_time_from mem sig time_task_subscriptions ev = Some ev'"
    "\<forall>e. event_mgr_notify e ev' = event_mgr_notify e ev @
       map (\<lambda>(_, n). (sig, time_task_conv_to_sig_num n)) (filter (\<lambda>(e', _). e' = e) time_task_subscriptions)"
    using subscribe_time_notifies [of time_task_subscriptions mem sig ev] by (auto simp: time_task_subscriptions_def ev_in_range_def)
  have "gp_time_task_signal w2 = gp_time_task_signal w1"
    using configure_ntp_sources_signal [OF w1(1) w2(1)] .
  then have sig: "gp_time_task_signal w2" using w1(5) by simp
  define w' where "w' = (ml_call Sntp_set_time_sync_notification_cb w2)
    \<lparr>gp_time_task_signal := thread_ok, g_time_min_valid := (if thread_ok then time_task_get_min_valid_time os_mkgmtime else 0)\<rparr>"
  have "time_task_init True thread_ok os_mkgmtime mem sig ev w = Some (thread_ok, ev', w')"
    using assms(2) sig by (simp add: time_task_init_def save ev'(1) w1_def [symmetric] w2(1) w'_def Let_def time_task_destroy_resources_def)
  moreover have "sntp_table w' = table_of (wanted_servers ntp)" 
    by (cases "sntp_client w2") (simp add: w'_def w2(2) [symmetric] sntp_table_def)
  moreover have "time_task_view w' = (time_task_view w)\<lparr>tv_use := ntp_use ntp, tv_dhcp := ntp_use_dhcp ntp,
      tv_servers := wanted_servers ntp, tv_min_valid := (if thread_ok then time_task_get_min_valid_time os_mkgmtime else 0)\<rparr>"
    using w1(3,4) w2(3) unfolding time_task_view_def calculation(2) w2(2) table_of_servers
    by (cases "sntp_client w2") (simp add: w'_def)
  ultimately show ?thesis using ev'(2) by (intro exI [of _ ev'] exI [of _ w']) (simp add: w'_def)
qed

theorem time_task_init_effect_witness:
  "\<exists>ev' w'. time_task_init True False (\<lambda>_. 1609459200) 0 7 event_mgr_start sim_time = Some (False, ev', w') \<and>
    \<not> gp_time_task_signal w' \<and> event_mgr_notify EVENT_MGR_EV_ETH_CONNECTED ev' =
      event_mgr_notify EVENT_MGR_EV_ETH_CONNECTED event_mgr_start @ [(7, 2)]"
  using time_task_init_effect [OF sim_time(1,2), of False "\<lambda>_. 1609459200" 0 7 event_mgr_start]
  by (auto simp: time_task_subscriptions_def time_task_conv_to_sig_num_def all_time_task_sigs_def)

end
