(* ===== verification/Http_Download.thy ===== *)
theory Http_Download
  imports Main_Loop
begin

text \<open>
  Downloads over HTTP, \<open>http_download.c\<close>, with the wait for an asynchronous request from \<open>http.c\<close>. The data go to a
  callback of the caller. The HTTP client is a library: the argument \<open>D\<close> says, for each call of
  \<open>esp_http_client_perform\<close>, which events it reports and its result, and what the tick counter shows before it. None is a
  write outside a buffer, or a wait that does not end.
\<close>

section \<open>URLs\<close>

definition HTTP_MIN_DOMAIN_NAME_LEN :: nat where "HTTP_MIN_DOMAIN_NAME_LEN = 3"

definition url_host_valid :: "string \<Rightarrow> bool" where
  "url_host_valid host = (if length host < HTTP_MIN_DOMAIN_NAME_LEN then False else if CHR ''.'' \<notin> set host then False else True)"

definition http_download_is_url_valid :: "string \<Rightarrow> bool" where
  "http_download_is_url_valid url =
     (if take 7 url = ''http://'' then url_host_valid (drop 7 url)
      else if take 8 url = ''https://'' then url_host_valid (drop 8 url) else False)"

section \<open>Events of the client\<close>

text \<open>A data event has the bytes, the status code of the response, and which sizes can be allocated during it.\<close>

datatype http_event =
  HTTP_EVENT_ERROR | HTTP_EVENT_ON_CONNECTED | HTTP_EVENT_HEADER_SENT | HTTP_EVENT_ON_HEADER string string
| HTTP_EVENT_ON_DATA "u8 list" nat "u32 \<Rightarrow> bool" | HTTP_EVENT_ON_FINISH | HTTP_EVENT_DISCONNECTED

datatype perform_result = Perform_ok | Perform_again | Perform_failed

datatype esp_http_client_method = HTTP_METHOD_GET | HTTP_METHOD_HEAD

type_synonym 'u on_data = "u8 list \<Rightarrow> u32 \<Rightarrow> u32 \<Rightarrow> nat \<Rightarrow> (u32 \<Rightarrow> bool) \<Rightarrow> 'u \<Rightarrow> (bool \<times> 'u) option"

record http_download_cb_info =
  dl_content_length :: u32
  dl_offset :: u32
  dl_feed_task_watchdog :: bool

text \<open>\<open>ds_live\<close> counts what the download has allocated (its context, the configuration, the client), \<open>ds_resp_heap\<close> the texts of
  responses on the heap; \<open>ds_user\<close> is what the callback of the caller works on.\<close>

record 'u dl_state =
  ds_world :: main_world
  ds_info :: http_download_cb_info
  ds_user :: 'u
  ds_live :: nat
  ds_resp_heap :: nat

record http_server_resp =
  http_resp_code :: nat
  resp_content :: "string option"
  resp_in_heap :: bool

record dl_env =
  de_str_to_uint32 :: "string \<Rightarrow> u32"
  de_calloc_info :: bool
  de_calloc_config :: bool
  de_client_init :: "esp_http_client_method \<Rightarrow> bool"
  de_authorization :: bool
  de_set_header :: "string \<Rightarrow> bool"
  de_first :: "http_event list \<times> perform_result"
  de_poll :: "nat \<Rightarrow> http_event list \<times> perform_result"
  de_tick :: "nat \<Rightarrow> u32"
  de_ms_to_ticks :: "u32 \<Rightarrow> u32"
  de_status_code :: nat
  de_error_text :: string
  de_error_alloc :: bool
  de_str_buf :: bool

definition ascii_lower :: "char \<Rightarrow> char" where
  "ascii_lower c = (let n = of_char c :: nat in if 65 \<le> n \<and> n \<le> 90 then char_of (n + 32) else c)"

definition strcasecmp_equal :: "string \<Rightarrow> string \<Rightarrow> bool" where
  "strcasecmp_equal a b \<longleftrightarrow> map ascii_lower a = map ascii_lower b"

definition http_feed_task_watchdog_if_needed :: "bool \<Rightarrow> main_world \<Rightarrow> main_world" where
  "http_feed_task_watchdog_if_needed flag w = (if flag then ml_call Main_wdt_reset w else w)"

definition dl_feed :: "'u dl_state \<Rightarrow> 'u dl_state" where
  "dl_feed st = st\<lparr>ds_world := http_feed_task_watchdog_if_needed (dl_feed_task_watchdog (ds_info st)) (ds_world st)\<rparr>"

definition dl_set_info :: "(http_download_cb_info \<Rightarrow> http_download_cb_info) \<Rightarrow> 'u dl_state \<Rightarrow> 'u dl_state" where
  "dl_set_info f st = st\<lparr>ds_info := f (ds_info st)\<rparr>"

text \<open>The result says whether the handler returns \<open>ESP_OK\<close>; the client goes on in either case.\<close>

fun http_download_event_handler ::
  "dl_env \<Rightarrow> 'u on_data option \<Rightarrow> http_event \<Rightarrow> 'u dl_state \<Rightarrow> (bool \<times> 'u dl_state) option" where
  "http_download_event_handler D cb HTTP_EVENT_ERROR st = Some (True, dl_feed st)"
| "http_download_event_handler D cb HTTP_EVENT_ON_CONNECTED st =
     Some (True, dl_set_info (\<lambda>i. i\<lparr>dl_offset := 0\<rparr>) (dl_feed st))"
| "http_download_event_handler D cb HTTP_EVENT_HEADER_SENT st = Some (True, dl_feed st)"
| "http_download_event_handler D cb (HTTP_EVENT_ON_HEADER key val) st =
     Some (True, if strcasecmp_equal key ''Content-Length''
                 then dl_set_info (\<lambda>i. i\<lparr>dl_offset := 0, dl_content_length := de_str_to_uint32 D val\<rparr>) (dl_feed st)
                 else dl_feed st)"
| "http_download_event_handler D cb (HTTP_EVENT_ON_DATA buf code alloc) st =
     (let st = dl_feed st;
          count = dl_set_info (\<lambda>i. i\<lparr>dl_offset := dl_offset i + word_of_nat (length buf)\<rparr>)
      in case cb of
           None \<Rightarrow> Some (True, count st)
         | Some on_data \<Rightarrow> do {
             (ok, u) \<leftarrow> on_data buf (dl_offset (ds_info st)) (dl_content_length (ds_info st)) code alloc (ds_user st);
             let st = st\<lparr>ds_user := u\<rparr>;
             Some (if \<not> ok then (False, st) else (True, count st))
           })"
| "http_download_event_handler D cb HTTP_EVENT_ON_FINISH st = Some (True, dl_feed st)"
| "http_download_event_handler D cb HTTP_EVENT_DISCONNECTED st = Some (True, dl_feed st)"

fun dl_events :: "dl_env \<Rightarrow> 'u on_data option \<Rightarrow> http_event list \<Rightarrow> 'u dl_state \<Rightarrow> 'u dl_state option" where
  "dl_events D cb [] st = Some st"
| "dl_events D cb (e # es) st = do { (_, st) \<leftarrow> http_download_event_handler D cb e st; dl_events D cb es st }"

section \<open>The request\<close>

definition http_server_resp_err :: "nat \<Rightarrow> http_server_resp" where
  "http_server_resp_err code = \<lparr>http_resp_code = code, resp_content = None, resp_in_heap = False\<rparr>"

definition http_server_resp_200_json :: "string \<Rightarrow> http_server_resp" where
  "http_server_resp_200_json txt = \<lparr>http_resp_code = 200, resp_content = Some txt, resp_in_heap = False\<rparr>"

text \<open>NULL when the text could not be allocated.\<close>

definition http_server_resp_502_json_in_heap :: "string option \<Rightarrow> http_server_resp" where
  "http_server_resp_502_json_in_heap txt = \<lparr>http_resp_code = 502, resp_content = txt, resp_in_heap = True\<rparr>"

definition http_wait_until_async_req_completed_handle_http_resp :: "nat \<Rightarrow> http_server_resp" where
  "http_wait_until_async_req_completed_handle_http_resp code =
     (if 200 \<le> code \<and> code \<le> 299 then http_server_resp_200_json ''{}'' else http_server_resp_err code)"

text \<open>An error or the timeout: the text of the response is printed into new memory, if there is any.\<close>

definition http_wait_failed :: "dl_env \<Rightarrow> 'u dl_state \<Rightarrow> http_server_resp \<times> 'u dl_state" where
  "http_wait_failed D st =
     (if de_error_alloc D
      then (http_server_resp_502_json_in_heap (Some (de_error_text D)), st\<lparr>ds_resp_heap := ds_resp_heap st + 1\<rparr>)
      else (http_server_resp_502_json_in_heap None, st))"

text \<open>The loop from its poll number \<open>k\<close> on; the tick counter is read before each poll.\<close>

partial_function (option) http_wait_loop ::
  "dl_env \<Rightarrow> 'u on_data option \<Rightarrow> u32 \<Rightarrow> u32 \<Rightarrow> nat \<Rightarrow> 'u dl_state \<Rightarrow> (http_server_resp \<times> 'u dl_state) option" where
  "http_wait_loop D cb tick_start timeout_seconds k st =
     (if de_tick D k - tick_start < de_ms_to_ticks D (timeout_seconds * 1000)
      then Option.bind (dl_events D cb (fst (de_poll D k)) st) (\<lambda>st.
        case snd (de_poll D k) of
          Perform_ok \<Rightarrow> Some (http_wait_until_async_req_completed_handle_http_resp (de_status_code D), st)
        | Perform_failed \<Rightarrow> Some (http_wait_failed D st)
        | Perform_again \<Rightarrow> http_wait_loop D cb tick_start timeout_seconds (k + 1) (dl_feed st))
      else Some (http_wait_failed D st))"

definition http_wait_until_async_req_completed ::
  "dl_env \<Rightarrow> 'u on_data option \<Rightarrow> u32 \<Rightarrow> 'u dl_state \<Rightarrow> (http_server_resp \<times> 'u dl_state) option" where
  "http_wait_until_async_req_completed D cb timeout_seconds st =
     (let tick_start = de_tick D 0 in http_wait_loop D cb tick_start timeout_seconds 1 st)"

definition http_download_by_handle ::
  "dl_env \<Rightarrow> 'u on_data option \<Rightarrow> u32 \<Rightarrow> 'u dl_state \<Rightarrow> (http_server_resp \<times> 'u dl_state) option" where
  "http_download_by_handle D cb timeout_seconds st =
     (if \<not> de_set_header D ''Accept'' then Some (http_server_resp_err 500, st)
      else if \<not> de_set_header D ''User-Agent'' then Some (http_server_resp_err 500, st)
      else do {
        st \<leftarrow> dl_events D cb (fst (de_first D)) st;
        case snd (de_first D) of
          Perform_ok \<Rightarrow> Some (http_server_resp_err (de_status_code D), st)
        | Perform_failed \<Rightarrow> Some (http_server_resp_err 502, st)
        | Perform_again \<Rightarrow> http_wait_until_async_req_completed D cb timeout_seconds st
      })"

definition HTTP_DOWNLOAD_FW_RELEASE_INFO_TIMEOUT_SECONDS :: u32 where
  "HTTP_DOWNLOAD_FW_RELEASE_INFO_TIMEOUT_SECONDS = 30"

definition HTTP_DOWNLOAD_FW_BINARIES_TIMEOUT_SECONDS :: u32 where
  "HTTP_DOWNLOAD_FW_BINARIES_TIMEOUT_SECONDS = 5 * 60"

record http_download_param =
  dp_url :: string
  dp_timeout_seconds :: u32
  dp_feed_task_watchdog :: bool
  dp_auth_type :: gw_cfg_http_auth_type
  dp_http_auth :: bool
  dp_extra_header_item :: "string option"

definition dl_alloc :: "'u dl_state \<Rightarrow> 'u dl_state" where
  "dl_alloc st = st\<lparr>ds_live := ds_live st + 1\<rparr>"

definition dl_free :: "'u dl_state \<Rightarrow> 'u dl_state" where
  "dl_free st = st\<lparr>ds_live := ds_live st - 1\<rparr>"

text \<open>The client, or nothing: then what was created is cleaned up.\<close>

definition http_client_init ::
  "dl_env \<Rightarrow> esp_http_client_method \<Rightarrow> http_download_param \<Rightarrow> 'u dl_state \<Rightarrow> bool \<times> 'u dl_state" where
  "http_client_init D http_method p st =
     (if \<not> de_client_init D http_method then (False, st)
      else
        let st = dl_alloc st in
        if \<not> de_authorization D then (False, dl_free st)
        else case dp_extra_header_item p of
               None \<Rightarrow> (True, st)
             | Some key \<Rightarrow> if \<not> de_set_header D key then (False, dl_free st) else (True, st))"

definition dl_suspend :: "main_env \<Rightarrow> 'u dl_state \<Rightarrow> 'u dl_state option" where
  "dl_suspend E st = do {
     s \<leftarrow> gw_status_suspend_http_relaying (en_wait E) True (ml_status (ds_world st));
     Some (st\<lparr>ds_world := set_status s (ds_world st)\<rparr>)
   }"

definition dl_resume :: "main_env \<Rightarrow> 'u dl_state \<Rightarrow> 'u dl_state option" where
  "dl_resume E st = do {
     s \<leftarrow> gw_status_resume_http_relaying (en_wait E) True (ml_status (ds_world st));
     Some (st\<lparr>ds_world := set_status s (ds_world st)\<rparr>)
   }"

definition http_download_or_check ::
  "main_env \<Rightarrow> dl_env \<Rightarrow> esp_http_client_method \<Rightarrow> http_download_param \<Rightarrow> 'u on_data option \<Rightarrow> 'u dl_state \<Rightarrow>
   (http_server_resp \<times> 'u dl_state) option" where
  "http_download_or_check E D http_method p cb st =
     (if \<not> http_download_is_url_valid (dp_url p) then Some (http_server_resp_err 400, st)
      else if dp_auth_type p \<noteq> GW_CFG_HTTP_AUTH_TYPE_NONE \<and> \<not> dp_http_auth p then Some (http_server_resp_err 400, st)
      else if \<not> gw_status_is_network_connected (ml_status (ds_world st)) then Some (http_server_resp_err 503, st)
      else if \<not> de_calloc_info D then Some (http_server_resp_err 500, st)
      else
        let st = dl_alloc (st\<lparr>ds_info := \<lparr>dl_content_length = 0, dl_offset = 0,
                                dl_feed_task_watchdog = dp_feed_task_watchdog p\<rparr>\<rparr>) in
        if \<not> de_calloc_config D then Some (http_server_resp_err 500, dl_free st)
        else do {
          st \<leftarrow> dl_suspend E (dl_alloc st);
          let (ok, st) = http_client_init D http_method p st;
          if \<not> ok then do {
            st \<leftarrow> dl_resume E (dl_free (dl_free st));
            Some (http_server_resp_err 500, st)
          }
          else do {
            (resp, st) \<leftarrow> http_download_by_handle D cb (dp_timeout_seconds p) st;
            st \<leftarrow> dl_resume E (dl_free (dl_free (dl_free st)));
            Some (resp, st)
          }
        })"

definition http_download_with_auth ::
  "main_env \<Rightarrow> dl_env \<Rightarrow> http_download_param \<Rightarrow> 'u on_data \<Rightarrow> 'u dl_state \<Rightarrow> (http_server_resp \<times> 'u dl_state) option" where
  "http_download_with_auth E D p cb st = http_download_or_check E D HTTP_METHOD_GET p (Some cb) st"

definition resp_free :: "http_server_resp \<Rightarrow> 'u dl_state \<Rightarrow> 'u dl_state" where
  "resp_free resp st =
     (if resp_in_heap resp \<and> resp_content resp \<noteq> None then st\<lparr>ds_resp_heap := ds_resp_heap st - 1\<rparr> else st)"

definition http_check_with_auth ::
  "main_env \<Rightarrow> dl_env \<Rightarrow> http_download_param \<Rightarrow> 'u dl_state \<Rightarrow> (bool \<times> nat \<times> 'u dl_state) option" where
  "http_check_with_auth E D p st = do {
     (resp, st) \<leftarrow> http_download_or_check E D HTTP_METHOD_HEAD p None st;
     Some (http_resp_code resp = 200, http_resp_code resp, resp_free resp st)
   }"

definition http_check :: "main_env \<Rightarrow> dl_env \<Rightarrow> http_download_param \<Rightarrow> 'u dl_state \<Rightarrow> (nat \<times> 'u dl_state) option" where
  "http_check E D p st = do { (_, code, st) \<leftarrow> http_check_with_auth E D p st; Some (code, st) }"

definition http_download ::
  "main_env \<Rightarrow> dl_env \<Rightarrow> http_download_param \<Rightarrow> 'u on_data \<Rightarrow> 'u dl_state \<Rightarrow> (bool \<times> 'u dl_state) option" where
  "http_download E D p cb st = do {
     (resp, st) \<leftarrow> http_download_with_auth E D p cb st;
     Some (http_resp_code resp = 200, resp_free resp st)
   }"

section \<open>Downloading JSON\<close>

record http_server_download_info =
  jd_is_error :: bool
  jd_http_resp_code :: nat
  jd_buf :: "u8 list option"
  jd_buf_size :: u32

text \<open>\<open>memcpy\<close> and the terminator; None is a write behind the end of the buffer.\<close>

definition json_store :: "u8 list \<Rightarrow> nat \<Rightarrow> u8 list \<Rightarrow> u8 list option" where
  "json_store mem k buf =
     (if k + length buf < length mem then Some (take k mem @ buf @ [0] @ drop (k + length buf + 1) mem) else None)"

definition json_buf_grow ::
  "u32 \<Rightarrow> nat \<Rightarrow> (u32 \<Rightarrow> bool) \<Rightarrow> http_server_download_info \<Rightarrow> bool \<times> http_server_download_info" where
  "json_buf_grow content_length len alloc i =
     (case jd_buf i of
        None \<Rightarrow>
          let i = i\<lparr>jd_buf_size := (if content_length = 0 then word_of_nat len + 1 else content_length + 1)\<rparr> in
          if \<not> alloc (jd_buf_size i) then (False, i\<lparr>jd_is_error := True\<rparr>)
          else (True, i\<lparr>jd_buf := Some (replicate (unat (jd_buf_size i)) 0)\<rparr>)
      | Some mem \<Rightarrow>
          if content_length = 0
          then
            let i = i\<lparr>jd_buf_size := jd_buf_size i + word_of_nat len\<rparr> in
            if \<not> alloc (jd_buf_size i) then (False, i\<lparr>jd_is_error := True\<rparr>)
            else (True, i\<lparr>jd_buf := Some (take (unat (jd_buf_size i)) (mem @ replicate (unat (jd_buf_size i) - length mem) 0))\<rparr>)
          else (True, i))"

definition cb_on_http_download_json_data :: "http_server_download_info on_data" where
  "cb_on_http_download_json_data buf offset content_length code alloc i =
     (if jd_is_error i then Some (False, i)
      else if code = 301 \<or> code = 302 then Some (True, i)
      else
        let (ok, i) = json_buf_grow content_length (length buf) alloc (i\<lparr>jd_http_resp_code := code\<rparr>) in
        if \<not> ok then Some (False, i)
        else if offset \<ge> jd_buf_size i \<or> offset + word_of_nat (length buf) \<ge> jd_buf_size i
        then Some (False, i\<lparr>jd_is_error := True, jd_buf := None\<rparr>)
        else do {
          mem \<leftarrow> jd_buf i;
          mem \<leftarrow> json_store mem (unat offset) buf;
          Some (True, i\<lparr>jd_buf := Some mem\<rparr>)
        })"

definition json_info_init :: http_server_download_info where
  "json_info_init = \<lparr>jd_is_error = False, jd_http_resp_code = 200, jd_buf = None, jd_buf_size = 0\<rparr>"

definition bytes_of :: "string \<Rightarrow> u8 list" where
  "bytes_of s = map of_char s"

text \<open>The text of an error response is copied into a new buffer; the response itself is not freed.\<close>

definition json_info_final :: "dl_env \<Rightarrow> http_server_resp \<Rightarrow> http_server_download_info \<Rightarrow> http_server_download_info" where
  "json_info_final D resp i =
     (let i = (if http_resp_code resp \<noteq> 200
               then
                 let i = i\<lparr>jd_is_error := True, jd_http_resp_code := http_resp_code resp\<rparr>
                 in case resp_content resp of
                      None \<Rightarrow> i
                    | Some txt \<Rightarrow> i\<lparr>jd_buf := (if de_str_buf D then Some (bytes_of txt @ [0]) else None)\<rparr>
               else if jd_http_resp_code i \<noteq> 200 then i\<lparr>jd_is_error := True\<rparr>
               else if jd_buf i = None then i\<lparr>jd_is_error := True\<rparr>
               else i)
      in if jd_is_error i \<and> jd_http_resp_code i = 200 then i\<lparr>jd_http_resp_code := 400\<rparr> else i)"

definition http_download_json ::
  "main_env \<Rightarrow> dl_env \<Rightarrow> http_download_param \<Rightarrow> http_server_download_info dl_state \<Rightarrow>
   (http_server_download_info \<times> http_server_download_info dl_state) option" where
  "http_download_json E D p st = do {
     (resp, st) \<leftarrow> http_download_with_auth E D p cb_on_http_download_json_data (st\<lparr>ds_user := json_info_init\<rparr>);
     Some (json_info_final D resp (ds_user st), st)
   }"

definition http_download_firmware_update_info ::
  "main_env \<Rightarrow> dl_env \<Rightarrow> string \<Rightarrow> http_server_download_info dl_state \<Rightarrow>
   (http_server_download_info \<times> http_server_download_info dl_state) option" where
  "http_download_firmware_update_info E D url st = http_download_json E D
     \<lparr>dp_url = url, dp_timeout_seconds = HTTP_DOWNLOAD_FW_RELEASE_INFO_TIMEOUT_SECONDS, dp_feed_task_watchdog = True, dp_auth_type = GW_CFG_HTTP_AUTH_TYPE_NONE, dp_http_auth = False,
      dp_extra_header_item = None\<rparr> st"

section \<open>Every path releases what it took\<close>

lemma notify_and_wait_counts:
  assumes "ticks_advance W"
  shows "\<exists>s'. gw_status_notify_relaying_mode_changed_and_wait W http mqtt wt s = Some s' \<and>
    cnt_relaying_via_http_suspended s' = cnt_relaying_via_http_suspended s \<and>
    cnt_relaying_via_mqtt_suspended s' = cnt_relaying_via_mqtt_suspended s \<and> (\<not> http \<and> \<not> mqtt \<longrightarrow> s' = s)"
proof -
  note ends = relaying_cmd_wait_ends [OF assms, where start = "we_tick W 0"]
  have wait: "\<exists>s'. gw_status_wait_after_relaying_mode_changed W http mqtt s = Some s' \<and>
      cnt_relaying_via_http_suspended s' = cnt_relaying_via_http_suspended s \<and>
      cnt_relaying_via_mqtt_suspended s' = cnt_relaying_via_mqtt_suspended s" for s
  proof -
    obtain j1 s1 where "(if mqtt then relaying_cmd_wait W gw_status_is_mqtt_relaying_cmd_handled (we_tick W 0) 1 s
        else Some (1, s)) = Some (j1, s1)"
      "cnt_relaying_via_http_suspended s1 = cnt_relaying_via_http_suspended s"
      "cnt_relaying_via_mqtt_suspended s1 = cnt_relaying_via_mqtt_suspended s"
      using ends [of gw_status_is_mqtt_relaying_cmd_handled 1 s] by (cases mqtt) auto
    with ends [of gw_status_is_http_relaying_cmd_handled j1 s1] show ?thesis
      by (cases http) (auto simp: gw_status_wait_after_relaying_mode_changed_def)
  qed
  have cmds: "cnt_relaying_via_http_suspended (gw_status_set_http_relaying_cmd s) = cnt_relaying_via_http_suspended s"
    "cnt_relaying_via_mqtt_suspended (gw_status_set_http_relaying_cmd s) = cnt_relaying_via_mqtt_suspended s"
    "cnt_relaying_via_http_suspended (gw_status_set_mqtt_relaying_cmd s) = cnt_relaying_via_http_suspended s"
    "cnt_relaying_via_mqtt_suspended (gw_status_set_mqtt_relaying_cmd s) = cnt_relaying_via_mqtt_suspended s" for s
    by (simp_all add: gw_status_set_http_relaying_cmd_def gw_status_set_mqtt_relaying_cmd_def xEventGroupSetBits_def)
  define s1 where "s1 = (if http then gw_status_set_http_relaying_cmd s else s)"
  define s2 where "s2 = (if mqtt then gw_status_set_mqtt_relaying_cmd s1 else s1)"
  define s3 where "s3 = s2\<lparr>gs_events := gs_events s2 @ [EVENT_MGR_EV_RELAYING_MODE_CHANGED]\<rparr>"
  have s3: "cnt_relaying_via_http_suspended s3 = cnt_relaying_via_http_suspended s"
      "cnt_relaying_via_mqtt_suspended s3 = cnt_relaying_via_mqtt_suspended s"
    by (simp_all add: s3_def s2_def s1_def cmds)
  have "gw_status_notify_relaying_mode_changed_and_wait W http mqtt wt s =
      (if \<not> http \<and> \<not> mqtt then Some s
       else if wt then gw_status_wait_after_relaying_mode_changed W http mqtt s3 else Some s3)"
    by (simp add: gw_status_notify_relaying_mode_changed_and_wait_def s1_def s2_def s3_def Let_def)
  with wait [of s3] s3 show ?thesis by (cases "http \<or> mqtt"; cases wt) auto
qed

text \<open>The counts of suspensions of HTTP and of MQTT.\<close>

definition dl_counts :: "'u dl_state \<Rightarrow> i32 \<times> i32" where
  "dl_counts st = (cnt_relaying_via_http_suspended (ml_status (ds_world st)), cnt_relaying_via_mqtt_suspended (ml_status (ds_world st)))"

definition dl_bits :: "'u dl_state \<Rightarrow> u32" where
  "dl_bits st = g_p_ev_grp_status_bits (ml_status (ds_world st))"

lemma dl_simps [simp]:
  "dl_bits (dl_alloc st) = dl_bits st" "dl_bits (dl_free st) = dl_bits st" "dl_bits (dl_feed st) = dl_bits st"
  "dl_bits (dl_set_info f st) = dl_bits st"
  "dl_bits (st\<lparr>ds_user := u\<rparr>) = dl_bits st" "dl_bits (st\<lparr>ds_info := i\<rparr>) = dl_bits st"
  "dl_counts (dl_alloc st) = dl_counts st" "dl_counts (dl_free st) = dl_counts st" "dl_counts (dl_feed st) = dl_counts st"
  "dl_counts (dl_set_info f st) = dl_counts st"
  "dl_counts (st\<lparr>ds_user := u\<rparr>) = dl_counts st" "dl_counts (st\<lparr>ds_info := i\<rparr>) = dl_counts st"
  "ds_live (dl_alloc st) = Suc (ds_live st)" "ds_live (dl_free st) = ds_live st - 1" "ds_live (dl_feed st) = ds_live st"
  "ds_live (dl_set_info f st) = ds_live st"
  "ds_resp_heap (dl_alloc st) = ds_resp_heap st" "ds_resp_heap (dl_free st) = ds_resp_heap st"
  "ds_resp_heap (dl_feed st) = ds_resp_heap st" "ds_resp_heap (dl_set_info f st) = ds_resp_heap st"
  "dl_bits (st\<lparr>ds_resp_heap := n\<rparr>) = dl_bits st" "dl_counts (st\<lparr>ds_resp_heap := n\<rparr>) = dl_counts st"
  "ds_user (dl_alloc st) = ds_user st" "ds_user (dl_free st) = ds_user st" "ds_user (dl_feed st) = ds_user st"
  "ds_user (dl_set_info f st) = ds_user st"
  by (simp_all add: dl_alloc_def dl_free_def dl_feed_def dl_set_info_def dl_counts_def dl_bits_def
    http_feed_task_watchdog_if_needed_def)

lemma dl_suspend_result:
  assumes "ticks_advance (en_wait E)" and "unat (fst (dl_counts st)) < 2 ^ 31 - 1"
  obtains st' where "dl_suspend E st = Some st'" and "ds_live st' = ds_live st" and "ds_resp_heap st' = ds_resp_heap st"
    and "ds_user st' = ds_user st" and "dl_counts st' = (fst (dl_counts st) + 1, snd (dl_counts st))" and "ds_info st' = ds_info st"
    and "fst (dl_counts st) \<noteq> 0 \<Longrightarrow> dl_bits st' = dl_bits st"
proof -
  let ?s = "ml_status (ds_world st)"
  obtain s' where "gw_status_suspend_http_relaying (en_wait E) True ?s = Some s'"
    "cnt_relaying_via_http_suspended s' = cnt_relaying_via_http_suspended ?s + 1"
    "cnt_relaying_via_mqtt_suspended s' = cnt_relaying_via_mqtt_suspended ?s"
    "cnt_relaying_via_http_suspended ?s \<noteq> 0 \<longrightarrow> g_p_ev_grp_status_bits s' = g_p_ev_grp_status_bits ?s"
    using notify_and_wait_counts [OF assms(1), of "cnt_relaying_via_http_suspended ?s = 0" False True
      "?s\<lparr>cnt_relaying_via_http_suspended := cnt_relaying_via_http_suspended ?s + 1\<rparr>"] assms(2)
    by (auto simp: gw_status_suspend_http_relaying_def Let_def dl_counts_def suspend_count_ok)
  then show thesis by (intro that [of "st\<lparr>ds_world := set_status s' (ds_world st)\<rparr>"]) (simp_all add: dl_suspend_def dl_counts_def dl_bits_def)
qed

lemma dl_resume_result:
  assumes "ticks_advance (en_wait E)" and "fst (dl_counts st) = c + 1" and "c + 1 \<noteq> 0"
  obtains st' where "dl_resume E st = Some st'" and "ds_live st' = ds_live st" and "ds_resp_heap st' = ds_resp_heap st"
    and "ds_user st' = ds_user st" and "dl_counts st' = (c, snd (dl_counts st))"
    and "c \<noteq> 0 \<Longrightarrow> dl_bits st' = dl_bits st"
proof -
  let ?s = "ml_status (ds_world st)"
  have "cnt_relaying_via_http_suspended ?s = c + 1" using assms(2) by (simp add: dl_counts_def)
  then obtain s' where s': "gw_status_resume_http_relaying (en_wait E) True ?s = Some s'"
    "cnt_relaying_via_http_suspended s' = c" "cnt_relaying_via_mqtt_suspended s' = cnt_relaying_via_mqtt_suspended ?s"
    "c \<noteq> 0 \<longrightarrow> s' = ?s\<lparr>cnt_relaying_via_http_suspended := c\<rparr>"
    using notify_and_wait_counts [OF assms(1), of "c = 0" False True "?s\<lparr>cnt_relaying_via_http_suspended := c\<rparr>"] assms(3)
    by (auto simp: gw_status_resume_http_relaying_def resume_count_def Let_def)
  moreover from s'(4) have "c \<noteq> 0 \<longrightarrow> g_p_ev_grp_status_bits s' = g_p_ev_grp_status_bits ?s" by auto
  ultimately show thesis by (intro that [of "st\<lparr>ds_world := set_status s' (ds_world st)\<rparr>"]) (simp_all add: dl_resume_def dl_counts_def dl_bits_def)
qed

text \<open>A callback that stays inside its buffers; \<open>P\<close> is what it keeps of its data.\<close>

definition on_data_safe :: "('u \<Rightarrow> bool) \<Rightarrow> 'u on_data \<Rightarrow> bool" where
  "on_data_safe P cb \<longleftrightarrow> (\<forall>buf off cl code al u. P u \<longrightarrow> (\<exists>ok u'. cb buf off cl code al u = Some (ok, u') \<and> P u'))"

definition dl_same :: "'u dl_state \<Rightarrow> 'u dl_state \<Rightarrow> bool" where
  "dl_same st st' \<longleftrightarrow> dl_counts st' = dl_counts st \<and> dl_bits st' = dl_bits st \<and> ds_live st' = ds_live st \<and> ds_resp_heap st' = ds_resp_heap st"

lemma event_handler_result:
  assumes "case cb of None \<Rightarrow> True | Some on_data \<Rightarrow> on_data_safe P on_data" and "P (ds_user st)"
  shows "\<exists>ok st'. http_download_event_handler D cb e st = Some (ok, st') \<and> dl_same st st' \<and> P (ds_user st')"
proof (cases e)
  case (HTTP_EVENT_ON_DATA buf code alloc)
  show ?thesis
  proof (cases cb)
    case (Some on_data)
    with assms obtain ok u' where "on_data buf (dl_offset (ds_info (dl_feed st))) (dl_content_length (ds_info (dl_feed st))) code alloc
        (ds_user st) = Some (ok, u')" "P u'" unfolding on_data_safe_def by fastforce
    then show ?thesis by (cases ok) (auto simp: HTTP_EVENT_ON_DATA Some Let_def dl_same_def)
  qed (use assms in \<open>auto simp: HTTP_EVENT_ON_DATA dl_same_def Let_def\<close>)
qed (use assms in \<open>auto simp: dl_same_def\<close>)

lemma events_result:
  assumes "case cb of None \<Rightarrow> True | Some on_data \<Rightarrow> on_data_safe P on_data" and "P (ds_user st)"
  shows "\<exists>st'. dl_events D cb es st = Some st' \<and> dl_same st st' \<and> P (ds_user st')"
  using assms(2)
proof (induction es arbitrary: st)
  case (Cons e es)
  obtain ok st1 where st1: "http_download_event_handler D cb e st = Some (ok, st1)" "dl_same st st1" "P (ds_user st1)"
    using event_handler_result [OF assms(1) Cons.prems] by blast
  with Cons.IH [OF st1(3)] show ?case by (auto simp: dl_same_def)
qed (simp add: dl_same_def)

definition dl_resp_same :: "http_server_resp \<Rightarrow> 'u dl_state \<Rightarrow> 'u dl_state \<Rightarrow> bool" where
  "dl_resp_same resp st st' \<longleftrightarrow> dl_counts st' = dl_counts st \<and> ds_live st' = ds_live st \<and>
     (fst (dl_counts st) \<noteq> 0 \<longrightarrow> dl_bits st' = dl_bits st) \<and>
     ds_resp_heap st' = ds_resp_heap st + (if resp_in_heap resp \<and> resp_content resp \<noteq> None then 1 else 0)"

lemmas http_resp_defs =
  http_server_resp_err_def http_server_resp_200_json_def http_server_resp_502_json_in_heap_def
  http_wait_until_async_req_completed_handle_http_resp_def

lemma wait_failed_same: "http_wait_failed D st = (resp, st') \<Longrightarrow> dl_resp_same resp st st' \<and> ds_user st' = ds_user st \<and>
    ds_info st' = ds_info st \<and> http_resp_code resp = 502"
  by (auto simp: http_wait_failed_def dl_resp_same_def http_resp_defs split: if_splits)

text \<open>
  The calls that the wait makes: up to the first that does not ask for another one, or up to the timeout. When the tick counter
  moves on between two polls they are finitely many, and the wait is the run over them.
\<close>

partial_function (option) dl_calls_from ::
  "dl_env \<Rightarrow> u32 \<Rightarrow> u32 \<Rightarrow> nat \<Rightarrow> (http_event list \<times> perform_result) list option" where
  "dl_calls_from D tick_start timeout_seconds k =
     (if de_tick D k - tick_start < de_ms_to_ticks D (timeout_seconds * 1000)
      then if snd (de_poll D k) = Perform_again
           then Option.bind (dl_calls_from D tick_start timeout_seconds (k + 1)) (\<lambda>ps. Some (de_poll D k # ps))
           else Some [de_poll D k]
      else Some [])"

definition dl_calls :: "dl_env \<Rightarrow> u32 \<Rightarrow> (http_event list \<times> perform_result) list" where
  "dl_calls D timeout_seconds = (case dl_calls_from D (de_tick D 0) timeout_seconds 1 of None \<Rightarrow> [] | Some ps \<Rightarrow> ps)"

definition dl_ticks :: "dl_env \<Rightarrow> u32 \<Rightarrow> bool" where
  "dl_ticks D timeout_seconds \<longleftrightarrow> ticks_move (de_tick D) (de_ms_to_ticks D (timeout_seconds * 1000))"

lemma dl_calls_from_exists:
  assumes "dl_ticks D t"
  shows "\<exists>ps. dl_calls_from D start t k = Some ps"
proof -
  obtain j where "j \<ge> k" "snd (de_poll D j) \<noteq> Perform_again \<or> de_tick D j - start \<ge> de_ms_to_ticks D (t * 1000)"
    using first_stop_exists [OF assms [unfolded dl_ticks_def], of k "\<lambda>j. snd (de_poll D j) \<noteq> Perform_again" start] by blast
  then show ?thesis
  proof (induction "j - k" arbitrary: k)
    case 0
    then show ?case by (subst dl_calls_from.simps) auto
  next
    case (Suc n)
    then have "\<exists>ps. dl_calls_from D start t (k + 1) = Some ps" by simp
    then show ?case by (subst dl_calls_from.simps) auto
  qed
qed

fun wait_over ::
  "dl_env \<Rightarrow> 'u on_data option \<Rightarrow> (http_event list \<times> perform_result) list \<Rightarrow> 'u dl_state \<Rightarrow> (http_server_resp \<times> 'u dl_state) option" where
  "wait_over D cb [] st = Some (http_wait_failed D st)"
| "wait_over D cb ((es, r) # polls) st = do {
     st \<leftarrow> dl_events D cb es st;
     case r of
       Perform_ok \<Rightarrow> Some (http_wait_until_async_req_completed_handle_http_resp (de_status_code D), st)
     | Perform_failed \<Rightarrow> Some (http_wait_failed D st)
     | Perform_again \<Rightarrow> wait_over D cb polls (dl_feed st)
   }"

lemma wait_loop_over:
  "dl_calls_from D start t k = Some ps \<Longrightarrow> http_wait_loop D cb start t k st = wait_over D cb ps st"
proof (induction ps arbitrary: k st)
  case Nil
  then show ?case
    by (subst (asm) dl_calls_from.simps, subst http_wait_loop.simps) (auto split: if_splits bind_splits)
next
  case (Cons p ps)
  have p: "p = de_poll D k" "de_tick D k - start < de_ms_to_ticks D (t * 1000)"
    "snd (de_poll D k) = Perform_again \<and> dl_calls_from D start t (k + 1) = Some ps \<or>
     snd (de_poll D k) \<noteq> Perform_again \<and> ps = []"
    using Cons.prems unfolding dl_calls_from.simps [of D start t k] by (auto split: if_splits bind_splits)
  obtain es r where poll: "de_poll D k = (es, r)" by fastforce
  have step: "http_wait_loop D cb start t k st = Option.bind (dl_events D cb es st) (\<lambda>st. case r of
      Perform_ok \<Rightarrow> Some (http_wait_until_async_req_completed_handle_http_resp (de_status_code D), st)
    | Perform_failed \<Rightarrow> Some (http_wait_failed D st)
    | Perform_again \<Rightarrow> http_wait_loop D cb start t (k + 1) (dl_feed st))"
    using p(2) by (subst http_wait_loop.simps) (simp add: poll)
  show ?case
  proof (cases "dl_events D cb es st")
    case None
    then show ?thesis unfolding step by (simp add: p(1) poll)
  next
    case (Some st1)
    with p(3) Cons.IH [of "k + 1" "dl_feed st1"] show ?thesis
      unfolding step by (cases r) (simp_all add: p(1) poll)
  qed
qed

lemma wait_over_calls:
  "dl_ticks D t \<Longrightarrow> http_wait_until_async_req_completed D cb t st = wait_over D cb (dl_calls D t) st"
  using dl_calls_from_exists [of D t "de_tick D 0" 1]
  by (auto simp: http_wait_until_async_req_completed_def dl_calls_def Let_def wait_loop_over)

lemma wait_completed_result:
  assumes "case cb of None \<Rightarrow> True | Some on_data \<Rightarrow> on_data_safe P on_data" and "P (ds_user st)"
  shows "\<exists>resp st'. wait_over D cb polls st = Some (resp, st') \<and> dl_resp_same resp st st' \<and> P (ds_user st')"
  using assms(2)
proof (induction polls arbitrary: st)
  case Nil
  obtain resp st' where "http_wait_failed D st = (resp, st')" by fastforce
  with wait_failed_same [OF this] Nil show ?case by simp
next
  case (Cons poll polls)
  obtain es r where poll: "poll = (es, r)" by (cases poll)
  obtain st1 where st1: "dl_events D cb es st = Some st1" "dl_same st st1" "P (ds_user st1)"
    using events_result [OF assms(1) Cons.prems] by blast
  obtain resp st' where failed: "http_wait_failed D st1 = (resp, st')" by fastforce
  from st1 Cons.IH [of "dl_feed st1"] wait_failed_same [OF failed] failed show ?case
    by (cases r) (auto simp: poll dl_resp_same_def dl_same_def http_resp_defs)
qed

lemma download_by_handle_result:
  assumes "case cb of None \<Rightarrow> True | Some on_data \<Rightarrow> on_data_safe P on_data" and "P (ds_user st)" and "dl_ticks D t"
  shows "\<exists>resp st'. http_download_by_handle D cb t st = Some (resp, st') \<and> dl_resp_same resp st st' \<and> P (ds_user st')"
proof -
  obtain st1 where st1: "dl_events D cb (fst (de_first D)) st = Some st1" "dl_same st st1" "P (ds_user st1)"
    using events_result [OF assms(1,2)] by blast
  with wait_completed_result [OF assms(1) st1(3), of D "dl_calls D t"] assms(2) show ?thesis
    by (cases "snd (de_first D)") (auto simp: http_download_by_handle_def dl_resp_same_def dl_same_def http_resp_defs
      wait_over_calls [OF assms(3)])
qed

definition dl_all_ok :: "dl_env \<Rightarrow> http_download_param \<Rightarrow> bool" where
  "dl_all_ok D p \<longleftrightarrow> de_calloc_info D \<and> de_calloc_config D \<and> de_client_init D HTTP_METHOD_GET \<and> de_authorization D \<and>
     (\<forall>h. de_set_header D h) \<and> http_download_is_url_valid (dp_url p) \<and> dp_auth_type p = GW_CFG_HTTP_AUTH_TYPE_NONE"

lemma client_init_result:
  "\<exists>ok st'. http_client_init D m p st = (ok, st') \<and> dl_counts st' = dl_counts st \<and> dl_bits st' = dl_bits st \<and> ds_resp_heap st' = ds_resp_heap st \<and>
     ds_user st' = ds_user st \<and> ds_live st' = (if ok then Suc (ds_live st) else ds_live st) \<and> (m = HTTP_METHOD_GET \<and> dl_all_ok D p \<longrightarrow> ok)"
  by (auto simp: http_client_init_def dl_all_ok_def Let_def split: option.splits)

text \<open>The whole request, for any condition \<open>Q\<close> on the response and the data of the callback. A request that is refused early does not
  have all it needs.\<close>

lemma count_fits: "unat c < 2 ^ 31 - 1 \<Longrightarrow> (c :: i32) + 1 \<noteq> 0"
  using count_minus_1 [of c] by (metis add_eq_0_iff add.commute minus_minus)

lemma download_or_check_general:
  assumes "ticks_advance (en_wait E)" and "unat (fst (dl_counts st)) < 2 ^ 31 - 1"
    and handle: "\<And>st1. ds_user st1 = ds_user st \<Longrightarrow>
      \<exists>resp st'. http_download_by_handle D cb (dp_timeout_seconds p) st1 = Some (resp, st') \<and> dl_resp_same resp st1 st' \<and> Q resp (ds_user st')"
    and early: "\<And>code. code \<noteq> 200 \<Longrightarrow>
      \<not> (m = HTTP_METHOD_GET \<and> dl_all_ok D p \<and> gw_status_is_network_connected (ml_status (ds_world st))) \<Longrightarrow>
      Q (http_server_resp_err code) (ds_user st)"
  shows "\<exists>resp st'. http_download_or_check E D m p cb st = Some (resp, st') \<and> dl_resp_same resp st st' \<and> Q resp (ds_user st')"
proof -
  define i where "i = \<lparr>dl_content_length = 0, dl_offset = 0, dl_feed_task_watchdog = dp_feed_task_watchdog p\<rparr>"
  define st1 where "st1 = dl_alloc (dl_alloc (st\<lparr>ds_info := i\<rparr>))"
  have st1: "dl_counts st1 = dl_counts st" "ds_live st1 = ds_live st + 2" "ds_resp_heap st1 = ds_resp_heap st" "ds_user st1 = ds_user st"
    "dl_bits st1 = dl_bits st"
    by (simp_all add: st1_def dl_alloc_def dl_counts_def dl_bits_def)
  obtain st2 where st2: "dl_suspend E st1 = Some st2" "ds_live st2 = ds_live st + 2" "ds_resp_heap st2 = ds_resp_heap st"
    "ds_user st2 = ds_user st" "dl_counts st2 = (fst (dl_counts st) + 1, snd (dl_counts st))"
    "fst (dl_counts st) \<noteq> 0 \<longrightarrow> dl_bits st2 = dl_bits st"
    by (rule dl_suspend_result [OF assms(1), of st1]) (use assms(2) in \<open>simp_all add: st1\<close>)
  have fits: "fst (dl_counts st) + 1 \<noteq> 0" using count_fits [OF assms(2)] .
  obtain ok st3 where st3: "http_client_init D m p st2 = (ok, st3)" "dl_counts st3 = dl_counts st2" "ds_resp_heap st3 = ds_resp_heap st2"
    "ds_user st3 = ds_user st2" "ds_live st3 = (if ok then Suc (ds_live st2) else ds_live st2)" "dl_bits st3 = dl_bits st2"
    "m = HTTP_METHOD_GET \<and> dl_all_ok D p \<longrightarrow> ok"
    using client_init_result [of D m p st2] by blast
  have resume: "\<exists>st'. dl_resume E s = Some st' \<and> ds_live st' = ds_live s \<and> ds_resp_heap st' = ds_resp_heap s \<and>
      ds_user st' = ds_user s \<and> dl_counts st' = (fst (dl_counts st), snd (dl_counts s)) \<and>
      (fst (dl_counts st) \<noteq> 0 \<longrightarrow> dl_bits st' = dl_bits s)" if "dl_counts s = dl_counts st2" for s :: "'a dl_state"
    by (rule dl_resume_result [OF assms(1), of s "fst (dl_counts st)"]) (use that st2(5) fits in auto)
  have "\<exists>resp st'. (if \<not> ok then do { st \<leftarrow> dl_resume E (dl_free (dl_free st3)); Some (http_server_resp_err 500, st) }
      else do { (resp, st) \<leftarrow> http_download_by_handle D cb (dp_timeout_seconds p) st3; st \<leftarrow> dl_resume E (dl_free (dl_free (dl_free st))); Some (resp, st) })
      = Some (resp, st') \<and> dl_resp_same resp st st' \<and> Q resp (ds_user st')"
  proof (cases ok)
    case True
    obtain resp st4 where st4: "http_download_by_handle D cb (dp_timeout_seconds p) st3 = Some (resp, st4)" "dl_resp_same resp st3 st4" "Q resp (ds_user st4)"
      using handle [of st3] st3(4) st2(4) by auto
    moreover obtain st5 where "dl_resume E (dl_free (dl_free (dl_free st4))) = Some st5"
      "ds_live st5 = ds_live (dl_free (dl_free (dl_free st4)))" "ds_resp_heap st5 = ds_resp_heap (dl_free (dl_free (dl_free st4)))"
      "ds_user st5 = ds_user (dl_free (dl_free (dl_free st4)))"
      "dl_counts st5 = (fst (dl_counts st), snd (dl_counts (dl_free (dl_free (dl_free st4)))))"
      "fst (dl_counts st) \<noteq> 0 \<longrightarrow> dl_bits st5 = dl_bits (dl_free (dl_free (dl_free st4)))"
    proof -
      have "dl_counts (dl_free (dl_free (dl_free st4))) = dl_counts st2" using st4(2) st3(2) by (simp add: dl_resp_same_def)
      from resume [OF this] show thesis using that by blast
    qed
    ultimately show ?thesis
      using True st3 st2 fits by (intro exI [of _ resp] exI [of _ st5]) (simp add: dl_resp_same_def)
  next
    case False
    moreover obtain st5 where "dl_resume E (dl_free (dl_free st3)) = Some st5" "ds_live st5 = ds_live (dl_free (dl_free st3))"
      "ds_resp_heap st5 = ds_resp_heap (dl_free (dl_free st3))" "ds_user st5 = ds_user (dl_free (dl_free st3))"
      "dl_counts st5 = (fst (dl_counts st), snd (dl_counts (dl_free (dl_free st3))))"
      "fst (dl_counts st) \<noteq> 0 \<longrightarrow> dl_bits st5 = dl_bits (dl_free (dl_free st3))"
    proof -
      have "dl_counts (dl_free (dl_free st3)) = dl_counts st2" using st3(2) by simp
      from resume [OF this] show thesis using that by blast
    qed
    ultimately show ?thesis
      using st3 st2 early [of 500] by (intro exI [of _ "http_server_resp_err 500"] exI [of _ st5]) (auto simp: dl_resp_same_def http_resp_defs)
  qed
  moreover have same: "dl_resp_same (http_server_resp_err code) st st'" if "dl_counts st' = dl_counts st" "ds_live st' = ds_live st"
    "ds_resp_heap st' = ds_resp_heap st" "dl_bits st' = dl_bits st" for code st' using that by (simp add: dl_resp_same_def http_resp_defs)
  ultimately show ?thesis
    using early same [of "dl_free (dl_alloc (st\<lparr>ds_info := i\<rparr>))"] same [of st]
    by (auto simp: http_download_or_check_def i_def [symmetric] st1_def [symmetric] st2(1) st3(1) Let_def dl_all_ok_def)
qed

lemma download_or_check_result:
  assumes "ticks_advance (en_wait E)" and "unat (fst (dl_counts st)) < 2 ^ 31 - 1"
    and "case cb of None \<Rightarrow> True | Some on_data \<Rightarrow> on_data_safe P on_data" and "P (ds_user st)"
    and "dl_ticks D (dp_timeout_seconds p)"
  shows "\<exists>resp st'. http_download_or_check E D m p cb st = Some (resp, st') \<and> dl_resp_same resp st st' \<and> P (ds_user st')"
  using download_or_check_general [OF assms(1,2), where cb = cb and D = D and m = m and p = p and Q = "\<lambda>_. P"]
    download_by_handle_result [OF assms(3) _ assms(5)] assms(4) by simp

section \<open>What a server delivers\<close>

fun data_of :: "http_event list \<Rightarrow> (u8 list \<times> nat) list" where
  "data_of [] = []"
| "data_of (HTTP_EVENT_ON_DATA buf code al # es) = (buf, code) # data_of es"
| "data_of (e # es) = data_of es"

lemma data_of_append [simp]: "data_of (es @ fs) = data_of es @ data_of fs"
  by (induction es rule: data_of.induct) simp_all

text \<open>The events of the calls up to the first that does not ask to be called again.\<close>

fun polled_events :: "(http_event list \<times> perform_result) list \<Rightarrow> http_event list" where
  "polled_events [] = []"
| "polled_events ((es, r) # ps) = es @ (if r = Perform_again then polled_events ps else [])"

fun completes :: "(http_event list \<times> perform_result) list \<Rightarrow> bool" where
  "completes [] = False"
| "completes ((es, r) # ps) = (r = Perform_ok \<or> r = Perform_again \<and> completes ps)"

definition dl_reported :: "dl_env \<Rightarrow> u32 \<Rightarrow> http_event list" where
  "dl_reported D t = fst (de_first D) @ (if snd (de_first D) = Perform_again then polled_events (dl_calls D t) else [])"

text \<open>A server that delivers: the request completes, with status 200 at once or with any 2xx before the timeout.\<close>

definition dl_delivered :: "dl_env \<Rightarrow> u32 \<Rightarrow> bool" where
  "dl_delivered D t \<longleftrightarrow> snd (de_first D) = Perform_ok \<and> de_status_code D = 200 \<or>
     snd (de_first D) = Perform_again \<and> completes (dl_calls D t) \<and> 200 \<le> de_status_code D \<and> de_status_code D \<le> 299"

text \<open>The events work on the data of the callback and the context of the download alone.\<close>

definition dl_alike :: "'u dl_state \<Rightarrow> 'u dl_state \<Rightarrow> bool" where
  "dl_alike s t \<longleftrightarrow> ds_user s = ds_user t \<and> ds_info s = ds_info t"

lemma dl_feed_info [simp]: "ds_info (dl_feed st) = ds_info st"
  by (simp add: dl_feed_def)

lemma handler_alike:
  assumes "dl_alike s t" and "http_download_event_handler D cb e s = Some (ok, s')"
  shows "\<exists>t'. http_download_event_handler D cb e t = Some (ok, t') \<and> dl_alike s' t'"
  using assms by (cases e; cases cb) (auto simp: dl_alike_def dl_set_info_def Let_def split: bind_splits if_splits)

lemma events_alike:
  "dl_alike s t \<Longrightarrow> dl_events D cb es s = Some s' \<Longrightarrow> \<exists>t'. dl_events D cb es t = Some t' \<and> dl_alike s' t'"
proof (induction es arbitrary: s t)
  case (Cons e es)
  then obtain ok s1 where s1: "http_download_event_handler D cb e s = Some (ok, s1)" "dl_events D cb es s1 = Some s'"
    by (auto split: bind_splits)
  from handler_alike [OF Cons.prems(1) s1(1)] obtain t1 where "http_download_event_handler D cb e t = Some (ok, t1)" "dl_alike s1 t1"
    by blast
  with Cons.IH [OF _ s1(2)] show ?case by auto
qed simp

lemma events_append: "dl_events D cb (es @ fs) st = Option.bind (dl_events D cb es st) (dl_events D cb fs)"
proof (induction es arbitrary: st)
  case (Cons e es)
  then show ?case by (cases "http_download_event_handler D cb e st") auto
qed simp

lemma handler_same: "http_download_event_handler D cb e st = Some (ok, st') \<Longrightarrow> dl_same st st'"
  by (cases e; cases cb) (auto simp: dl_same_def Let_def split: bind_splits if_splits)

lemma events_same: "dl_events D cb es st = Some st' \<Longrightarrow> dl_same st st'"
proof (induction es arbitrary: st)
  case (Cons e es)
  then obtain ok st1 where st1: "http_download_event_handler D cb e st = Some (ok, st1)" "dl_events D cb es st1 = Some st'"
    by (auto split: bind_splits)
  from Cons.IH [OF st1(2)] handler_same [OF st1(1)] show ?case by (simp add: dl_same_def)
qed (simp add: dl_same_def)

text \<open>A delivered request runs the events that were reported, whatever their division into calls.\<close>

lemma wait_over_events:
  assumes "completes ps" and "dl_events D cb (polled_events ps) st = Some st1"
  shows "\<exists>st'. wait_over D cb ps st = Some (http_wait_until_async_req_completed_handle_http_resp (de_status_code D), st') \<and>
    dl_alike st1 st' \<and> dl_same st st'"
  using assms
proof (induction ps arbitrary: st st1)
  case (Cons poll ps)
  obtain es r where poll: "poll = (es, r)" by (cases poll)
  from Cons.prems(2) obtain st2 where st2: "dl_events D cb es st = Some st2"
    "dl_events D cb (if r = Perform_again then polled_events ps else []) st2 = Some st1"
    by (auto simp: poll events_append split: bind_splits)
  have same: "dl_same st st2" using events_same [OF st2(1)] .
  show ?case
  proof (cases r)
    case Perform_again
    have "dl_alike st2 (dl_feed st2)" by (simp add: dl_alike_def)
    from events_alike [OF this, of D cb "polled_events ps" st1] st2(2) Perform_again
    obtain st3 where st3: "dl_events D cb (polled_events ps) (dl_feed st2) = Some st3" "dl_alike st1 st3" by auto
    have "completes ps" using Cons.prems(1) by (simp add: poll Perform_again)
    from Cons.IH [OF this st3(1)] st3(2) st2(1) same show ?thesis
      by (auto simp: poll Perform_again dl_alike_def dl_same_def)
  qed (use Cons.prems st2 same in \<open>auto simp: poll dl_alike_def\<close>)
qed simp

lemma by_handle_events:
  assumes "\<forall>h. de_set_header D h" and "dl_ticks D t" and "dl_delivered D t" and "dl_events D cb (dl_reported D t) st = Some st1"
  shows "\<exists>resp st'. http_download_by_handle D cb t st = Some (resp, st') \<and> http_resp_code resp = 200 \<and>
    dl_alike st1 st' \<and> dl_same st st'"
proof -
  from assms(4) obtain st2 where st2: "dl_events D cb (fst (de_first D)) st = Some st2"
    "dl_events D cb (if snd (de_first D) = Perform_again then polled_events (dl_calls D t) else []) st2 = Some st1"
    by (auto simp: dl_reported_def events_append split: bind_splits)
  have same: "dl_same st st2" using events_same [OF st2(1)] .
  show ?thesis
  proof (cases "snd (de_first D) = Perform_again")
    case True
    with assms(3) have "completes (dl_calls D t)" "200 \<le> de_status_code D \<and> de_status_code D \<le> 299"
      by (simp_all add: dl_delivered_def)
    with wait_over_events [of "dl_calls D t" D cb st2 st1] st2 True same assms(1) show ?thesis
      by (auto simp: http_download_by_handle_def wait_over_calls [OF assms(2)] http_resp_defs dl_same_def)
  next
    case False
    with assms(3) st2 same assms(1) show ?thesis
      by (auto simp: dl_delivered_def http_download_by_handle_def http_resp_defs dl_alike_def)
  qed
qed

section \<open>The buffer of a JSON document\<close>

lemma json_store_eq:
  "k + length buf < length mem \<Longrightarrow> \<exists>mem'. json_store mem k buf = Some mem' \<and> length mem' = length mem \<and>
     take (k + length buf) mem' = take k mem @ buf \<and> mem' ! (k + length buf) = 0"
  by (auto simp: json_store_def nth_append)

definition json_holds :: "u32 \<Rightarrow> u8 list \<Rightarrow> http_server_download_info dl_state \<Rightarrow> bool" where
  "json_holds cl d st \<longleftrightarrow> (let i = ds_user st in \<not> jd_is_error i \<and> dl_offset (ds_info st) = word_of_nat (length d) \<and>
     dl_content_length (ds_info st) = cl \<and>
     (\<exists>mem. jd_buf i = Some mem \<and> length mem = unat (jd_buf_size i) \<and>
        jd_buf_size i = (if cl = 0 then word_of_nat (length d) + 1 else cl + 1) \<and>
        take (length d) mem = d \<and> length d < length mem \<and> mem ! length d = 0))"

definition json_fresh :: "u32 \<Rightarrow> http_server_download_info dl_state \<Rightarrow> bool" where
  "json_fresh cl st \<longleftrightarrow> \<not> jd_is_error (ds_user st) \<and> jd_buf (ds_user st) = None \<and> dl_offset (ds_info st) = 0 \<and>
     dl_content_length (ds_info st) = cl"

lemma unat_small: "n < 2 ^ 32 \<Longrightarrow> unat (word_of_nat n :: u32) = n"
  by (simp add: unsigned_of_nat take_bit_nat_eq_self)

lemma unat_add_1: "(cl :: u32) + 1 \<noteq> 0 \<Longrightarrow> unat (cl + 1) = unat cl + 1"
  by (metis Suc_eq_plus1 unatSuc add.commute)

lemma json_grow_result:
  assumes "json_holds cl d st \<or> json_fresh cl st \<and> d = []" and "length d + n + 1 < 2 ^ 32" and "cl + 1 \<noteq> 0"
  shows "\<exists>i mem. json_buf_grow cl n (\<lambda>_. True) ((ds_user st)\<lparr>jd_http_resp_code := code\<rparr>) = (True, i) \<and> \<not> jd_is_error i \<and>
    jd_http_resp_code i = code \<and> jd_buf i = Some mem \<and> length mem = unat (jd_buf_size i) \<and>
    jd_buf_size i = (if cl = 0 then word_of_nat (length d + n) + 1 else cl + 1) \<and> take (length d) mem = d \<and>
    unat (jd_buf_size i) = (if cl = 0 then length d + n + 1 else unat cl + 1)"
proof -
  have sz: "unat (word_of_nat (length d + n) + 1 :: u32) = length d + n + 1"
    using unat_small [of "length d + n + 1"] assms(2) by (simp add: add.commute)
  show ?thesis
  proof (cases "json_fresh cl st \<and> d = []")
    case True
    with sz assms(3) show ?thesis
      by (auto simp: json_fresh_def json_buf_grow_def Let_def unat_add_1)
  next
    case False
    then obtain mem where mem: "\<not> jd_is_error (ds_user st)" "jd_buf (ds_user st) = Some mem" "length mem = unat (jd_buf_size (ds_user st))"
      "jd_buf_size (ds_user st) = (if cl = 0 then word_of_nat (length d) + 1 else cl + 1)" "take (length d) mem = d" "length d < length mem"
      using assms(1) by (auto simp: json_holds_def Let_def)
    have "unat (word_of_nat (length d) + 1 :: u32) = length d + 1"
      using unat_small [of "length d + 1"] assms(2) by (simp add: add.commute)
    moreover have "unat (1 + cl) = Suc (unat cl)" using unat_add_1 [OF assms(3)] by (simp add: add.commute)
    ultimately show ?thesis using mem sz assms(3)
      by (auto simp: json_buf_grow_def Let_def unat_add_1 add.commute add.left_commute)
  qed
qed

definition dl_data :: "u8 list \<Rightarrow> nat \<Rightarrow> http_event" where
  "dl_data buf code = HTTP_EVENT_ON_DATA buf code (\<lambda>_. True)"

lemma json_chunk:
  assumes "json_holds cl d st \<or> json_fresh cl st \<and> d = []" and "length d + length b + 1 < 2 ^ 32" and "cl + 1 \<noteq> 0"
    and "code \<noteq> 301" and "code \<noteq> 302"
  shows "\<exists>ok st'. http_download_event_handler D (Some cb_on_http_download_json_data) (dl_data b code) st = Some (ok, st') \<and>
    (if cl = 0 \<or> length d + length b \<le> unat cl
     then ok \<and> json_holds cl (d @ b) st' \<and> jd_http_resp_code (ds_user st') = code
     else \<not> ok \<and> jd_is_error (ds_user st') \<and> jd_buf (ds_user st') = None \<and> jd_http_resp_code (ds_user st') = code)"
proof -
  obtain i mem where grow: "json_buf_grow cl (length b) (\<lambda>_. True) ((ds_user st)\<lparr>jd_http_resp_code := code\<rparr>) = (True, i)"
    and i: "\<not> jd_is_error i" "jd_http_resp_code i = code" "jd_buf i = Some mem" "length mem = unat (jd_buf_size i)"
      "jd_buf_size i = (if cl = 0 then word_of_nat (length d + length b) + 1 else cl + 1)" "take (length d) mem = d"
      "unat (jd_buf_size i) = (if cl = 0 then length d + length b + 1 else unat cl + 1)"
    using json_grow_result [OF assms(1-3), of code] by blast
  have st: "\<not> jd_is_error (ds_user st)" "dl_offset (ds_info st) = word_of_nat (length d)" "dl_content_length (ds_info st) = cl"
    using assms(1) by (auto simp: json_holds_def json_fresh_def Let_def)
  have off: "unat (word_of_nat (length d) :: u32) = length d"
      "unat (word_of_nat (length d) + word_of_nat (length b) :: u32) = length d + length b"
    using unat_small [of "length d"] unat_small [of "length d + length b"] assms(2) by simp_all
  have fits: "\<not> (word_of_nat (length d) \<ge> jd_buf_size i \<or> word_of_nat (length d) + word_of_nat (length b) \<ge> jd_buf_size i) \<longleftrightarrow>
      cl = 0 \<or> length d + length b \<le> unat cl"
    unfolding word_le_nat_alt off using i(7) by auto
  show ?thesis
  proof (cases "cl = 0 \<or> length d + length b \<le> unat cl")
    case True
    then have "length d + length b < length mem" using i(4,7) by auto
    then obtain mem' where mem': "json_store mem (length d) b = Some mem'" "length mem' = length mem"
      "take (length d + length b) mem' = d @ b" "mem' ! (length d + length b) = 0"
      using json_store_eq [of "length d" b mem] i(6) by auto
    with True fits grow i st off(1) assms(4,5) \<open>length d + length b < length mem\<close> show ?thesis
      by (auto simp: dl_data_def cb_on_http_download_json_data_def Let_def json_holds_def dl_set_info_def)
  next
    case False
    with fits grow i st assms(4,5) show ?thesis
      by (auto simp: dl_data_def cb_on_http_download_json_data_def Let_def)
  qed
qed

text \<open>
  The head of a response: connections and headers, no data. The body: data with status 200, for which memory is available, and
  headers other than Content-Length.
\<close>

fun json_head_event :: "http_event \<Rightarrow> bool" where
  "json_head_event (HTTP_EVENT_ON_DATA _ _ _) = False"
| "json_head_event _ = True"

fun json_body_event :: "http_event \<Rightarrow> bool" where
  "json_body_event (HTTP_EVENT_ON_DATA _ code alloc) = (code = 200 \<and> alloc = (\<lambda>_. True))"
| "json_body_event (HTTP_EVENT_ON_HEADER key _) = (\<not> strcasecmp_equal key ''Content-Length'')"
| "json_body_event HTTP_EVENT_ON_CONNECTED = False"
| "json_body_event _ = True"

text \<open>The value of the last Content-Length, 0 if there is none.\<close>

fun content_length_of :: "dl_env \<Rightarrow> http_event list \<Rightarrow> u32 \<Rightarrow> u32" where
  "content_length_of D [] cl = cl"
| "content_length_of D (HTTP_EVENT_ON_HEADER key val # es) cl =
     content_length_of D es (if strcasecmp_equal key ''Content-Length'' then de_str_to_uint32 D val else cl)"
| "content_length_of D (_ # es) cl = content_length_of D es cl"

definition chunks_of :: "http_event list \<Rightarrow> u8 list list" where
  "chunks_of es = map fst (data_of es)"

text \<open>What the context holds after the chunks \<open>bs\<close>, and after a body that was too long.\<close>

definition json_at :: "u32 \<Rightarrow> u8 list list \<Rightarrow> http_server_download_info dl_state \<Rightarrow> bool" where
  "json_at cl bs st \<longleftrightarrow>
     (if bs = [] then json_fresh cl st else json_holds cl (concat bs) st \<and> jd_http_resp_code (ds_user st) = 200)"

definition json_failed :: "http_server_download_info \<Rightarrow> bool" where
  "json_failed i \<longleftrightarrow> jd_is_error i \<and> jd_buf i = None \<and> jd_http_resp_code i = 200"

lemma json_alike:
  "dl_alike s t \<Longrightarrow> json_at cl bs s = json_at cl bs t"
  by (simp add: dl_alike_def json_at_def json_fresh_def json_holds_def)

lemma head_events:
  assumes "list_all json_head_event es" and "json_fresh cl st"
  shows "\<exists>st'. dl_events D cb es st = Some st' \<and> json_fresh (content_length_of D es cl) st'"
  using assms
proof (induction es arbitrary: cl st)
  case (Cons e es)
  obtain st1 cl1 where st1: "http_download_event_handler D cb e st = Some (True, st1)" "json_fresh cl1 st1"
    "content_length_of D (e # es) cl = content_length_of D es cl1"
    using Cons.prems by (cases e) (auto simp: json_fresh_def dl_set_info_def split: if_splits)
  with Cons.IH [OF _ st1(2)] Cons.prems(1) show ?case by auto
qed simp

lemma json_body_data:
  assumes "json_at cl bs st" and "length (concat bs) + length b + 1 < 2 ^ 32" and "cl + 1 \<noteq> 0"
  shows "\<exists>ok st'. http_download_event_handler D (Some cb_on_http_download_json_data) (dl_data b 200) st = Some (ok, st') \<and>
    (if cl = 0 \<or> length (concat bs) + length b \<le> unat cl then json_at cl (bs @ [b]) st' else json_failed (ds_user st'))"
proof -
  have "json_holds cl (concat bs) st \<or> json_fresh cl st \<and> concat bs = []"
    using assms(1) by (auto simp: json_at_def split: if_splits)
  from json_chunk [OF this assms(2,3), of 200 D] obtain ok st' where
    "http_download_event_handler D (Some cb_on_http_download_json_data) (dl_data b 200) st = Some (ok, st')"
    "if cl = 0 \<or> length (concat bs) + length b \<le> unat cl
     then ok \<and> json_holds cl (concat bs @ b) st' \<and> jd_http_resp_code (ds_user st') = 200
     else \<not> ok \<and> jd_is_error (ds_user st') \<and> jd_buf (ds_user st') = None \<and> jd_http_resp_code (ds_user st') = 200"
    by auto
  then show ?thesis by (intro exI [of _ ok] exI [of _ st']) (simp add: json_at_def json_failed_def split: if_splits)
qed

lemma json_failed_stays:
  assumes "list_all json_body_event es" and "json_failed (ds_user st)"
  shows "\<exists>st'. dl_events D (Some cb_on_http_download_json_data) es st = Some st' \<and> json_failed (ds_user st')"
  using assms
proof (induction es arbitrary: st)
  case (Cons e es)
  obtain ok st1 where "http_download_event_handler D (Some cb_on_http_download_json_data) e st = Some (ok, st1)"
    "json_failed (ds_user st1)"
    using Cons.prems by (cases e) (auto simp: cb_on_http_download_json_data_def json_failed_def Let_def)
  with Cons.IH [of st1] Cons.prems show ?case by auto
qed simp

lemma body_events:
  assumes "list_all json_body_event es" and "json_at cl bs st" and "length (concat (bs @ chunks_of es)) + 1 < 2 ^ 32"
    and "cl + 1 \<noteq> 0"
  shows "\<exists>st'. dl_events D (Some cb_on_http_download_json_data) es st = Some st' \<and>
    (if cl = 0 \<or> length (concat (bs @ chunks_of es)) \<le> unat cl then json_at cl (bs @ chunks_of es) st' else json_failed (ds_user st'))"
  using assms
proof (induction es arbitrary: bs st)
  case Nil
  have "cl = 0 \<or> length (concat bs) \<le> unat cl"
    using Nil(2) unat_add_1 [OF Nil(4)] by (auto simp: json_at_def json_holds_def Let_def split: if_splits)
  with Nil(2) show ?case by (simp add: chunks_of_def)
next
  case (Cons e es)
  show ?case
  proof (cases "\<exists>b code al. e = HTTP_EVENT_ON_DATA b code al")
    case True
    then obtain b where e: "e = dl_data b 200" using Cons.prems(1) by (auto simp: dl_data_def)
    have ch: "chunks_of (e # es) = b # chunks_of es" by (simp add: e dl_data_def chunks_of_def)
    obtain ok st1 where st1: "http_download_event_handler D (Some cb_on_http_download_json_data) e st = Some (ok, st1)"
      "if cl = 0 \<or> length (concat bs) + length b \<le> unat cl then json_at cl (bs @ [b]) st1 else json_failed (ds_user st1)"
    proof -
      have "length (concat bs) + length b + 1 < 2 ^ 32" using Cons.prems(3) by (simp add: ch)
      from json_body_data [OF Cons.prems(2) this Cons.prems(4), of D] show thesis using that by (auto simp: e)
    qed
    show ?thesis
    proof (cases "cl = 0 \<or> length (concat bs) + length b \<le> unat cl")
      case True
      with Cons.IH [of "bs @ [b]" st1] st1 Cons.prems show ?thesis by (auto simp: ch)
    next
      case False
      with json_failed_stays [of es st1 D] st1 Cons.prems(1) show ?thesis by (auto simp: ch)
    qed
  next
    case False
    then have h: "http_download_event_handler D (Some cb_on_http_download_json_data) e st = Some (True, dl_feed st)"
      and ch: "chunks_of (e # es) = chunks_of es"
      using Cons.prems(1) by (cases e; auto simp: chunks_of_def)+
    have "json_at cl bs (dl_feed st)" using Cons.prems(2) json_alike [of st "dl_feed st"] by (simp add: dl_alike_def)
    with Cons.IH [of bs "dl_feed st"] Cons.prems h show ?thesis unfolding ch by (simp split del: if_split)
  qed
qed

text \<open>C33: A download gives back what it takes. Whatever the environment does (allocations that fail, also that of the text of an error,
  a client that cannot be created, responses, errors and timeouts), \<open>http_download\<close> returns, provided the tick counter moves on between
  two polls of the wait for the response and of the wait for relaying, and the callback stays within its
  buffers; the context, the configuration, the client and the text of the response are
  freed, and the suspension of relaying by HTTP that it holds meanwhile is taken back, while that of MQTT is not touched.\<close>

theorem http_download_gives_back:
  assumes "ticks_advance (en_wait E)" and "unat (cnt_relaying_via_http_suspended (ml_status (ds_world st))) < 2 ^ 31 - 1"
    and "ticks_move (de_tick D) (de_ms_to_ticks D (dp_timeout_seconds p * 1000))"
    and "\<And>buf off cl code al u. P u \<Longrightarrow> \<exists>ok u'. cb buf off cl code al u = Some (ok, u') \<and> P u'" and "P (ds_user st)"
  shows "\<exists>ok st'. http_download E D p cb st = Some (ok, st') \<and> ds_live st' = ds_live st \<and> ds_resp_heap st' = ds_resp_heap st \<and>
    cnt_relaying_via_http_suspended (ml_status (ds_world st')) = cnt_relaying_via_http_suspended (ml_status (ds_world st)) \<and>
    cnt_relaying_via_mqtt_suspended (ml_status (ds_world st')) = cnt_relaying_via_mqtt_suspended (ml_status (ds_world st)) \<and> P (ds_user st')"
proof -
  have "on_data_safe P cb" and "dl_ticks D (dp_timeout_seconds p)" using assms(3,4) by (simp_all add: on_data_safe_def dl_ticks_def)
  with download_or_check_result [OF assms(1), where st = st and cb = "Some cb" and P = P and D = D and m = HTTP_METHOD_GET and p = p] assms(2,5)
  obtain resp st' where "http_download_or_check E D HTTP_METHOD_GET p (Some cb) st = Some (resp, st')" "dl_resp_same resp st st'"
    "P (ds_user st')" by (auto simp: dl_counts_def)
  then show ?thesis
    by (auto simp: http_download_def http_download_with_auth_def resp_free_def dl_resp_same_def dl_counts_def)
qed

definition sim_download :: dl_env where
  "sim_download = \<lparr>de_str_to_uint32 = (\<lambda>_. 3), de_calloc_info = True, de_calloc_config = True, de_client_init = (\<lambda>_. True),
     de_authorization = True, de_set_header = (\<lambda>_. True),
     de_first = (HTTP_EVENT_ON_HEADER ''Content-Length'' ''3'' # [] @ map (\<lambda>b. HTTP_EVENT_ON_DATA b 200 (\<lambda>_. True)) [[123, 32], [125]], Perform_ok),
     de_poll = (\<lambda>_. ([], Perform_ok)), de_tick = (\<lambda>k. 0xFFFFFFF0 + 50 * word_of_nat k), de_ms_to_ticks = (\<lambda>ms. ms),
     de_status_code = 200, de_error_text = ''timeout'', de_error_alloc = True, de_str_buf = True\<rparr>"

lemma sim_download_ticks:
  assumes "de_tick D = de_tick sim_download" and "de_ms_to_ticks D = de_ms_to_ticks sim_download" and "unat (t * 1000) \<le> 2 ^ 31"
  shows "dl_ticks D t"
proof -
  have "de_tick D (k + 1) - de_tick D k = 50" for k by (simp add: assms(1) sim_download_def)
  with assms(2,3) show ?thesis unfolding dl_ticks_def ticks_move_def by (simp add: sim_download_def)
qed

definition sim_request :: http_download_param where
  "sim_request = \<lparr>dp_url = ''https://r.fi/x'', dp_timeout_seconds = 25, dp_feed_task_watchdog = True, dp_auth_type = GW_CFG_HTTP_AUTH_TYPE_NONE,
     dp_http_auth = False, dp_extra_header_item = None\<rparr>"

definition sim_download_state :: "'u \<Rightarrow> 'u dl_state" where
  "sim_download_state u = \<lparr>ds_world = set_status (gw_status_set_wifi_connected (ml_status sim_main)) sim_main,
     ds_info = \<lparr>dl_content_length = 0, dl_offset = 0, dl_feed_task_watchdog = False\<rparr>, ds_user = u, ds_live = 0, ds_resp_heap = 0\<rparr>"

lemma sim_wait_advances: "ticks_advance (en_wait sim_main_env)"
  by (simp add: ticks_advance_def ticks_move_def sim_main_env_def sim_wait_def relaying_timeout_ticks_def
    TIMEOUT_WAITING_UNTIL_RELAYING_STOPPED_SECONDS_def)

lemma sim_download_counts:
  "cnt_relaying_via_http_suspended (ml_status (ds_world (sim_download_state u))) = 0"
  "gw_status_is_network_connected (ml_status (ds_world (sim_download_state u)))"
  by (simp_all add: sim_download_state_def sim_main_def ml_status_def mqtt_initial_def sim_mqtt_status_def
    gw_status_set_wifi_connected_def xEventGroupSetBits_def gw_status_is_network_connected_def status_any_def status_bits set_status_def GW_STATUS_WIFI_CONNECTED_BIT_def)

text \<open>The server never answers: the wait ends by the timeout.\<close>

theorem http_download_gives_back_witness:
  "\<exists>ok st'. http_download sim_main_env (sim_download\<lparr>de_first := ([], Perform_again), de_poll := (\<lambda>_. ([], Perform_again))\<rparr>) sim_request
       (\<lambda>buf _ _ _ _ u. Some (True, u @ buf)) (sim_download_state []) =
     Some (ok, st') \<and> ds_live st' = 0 \<and> ds_resp_heap st' = 0"
proof -
  let ?D = "sim_download\<lparr>de_first := ([], Perform_again), de_poll := (\<lambda>_. ([], Perform_again))\<rparr>"
  have "dl_ticks ?D (dp_timeout_seconds sim_request)" by (rule sim_download_ticks) (simp_all add: sim_request_def)
  then have ticks: "ticks_move (de_tick ?D) (de_ms_to_ticks ?D (dp_timeout_seconds sim_request * 1000))" by (simp only: dl_ticks_def)
  have count: "unat (cnt_relaying_via_http_suspended (ml_status (ds_world (sim_download_state ([] :: u8 list))))) < 2 ^ 31 - 1"
    by (simp add: sim_download_counts)
  have "ds_live (sim_download_state u) = 0" "ds_resp_heap (sim_download_state u) = 0" for u by (simp_all add: sim_download_state_def)
  moreover obtain ok st' where "http_download sim_main_env ?D sim_request (\<lambda>buf _ _ _ _ u. Some (True, u @ buf)) (sim_download_state []) = Some (ok, st')"
    "ds_live st' = ds_live (sim_download_state ([] :: u8 list))" "ds_resp_heap st' = ds_resp_heap (sim_download_state ([] :: u8 list))"
    using http_download_gives_back [OF sim_wait_advances count ticks, where P = "\<lambda>_. True" and cb = "\<lambda>buf _ _ _ _ u. Some (True, u @ buf)"]
    by blast
  ultimately show ?thesis by auto
qed

lemma json_download_general:
  assumes "ticks_advance (en_wait E)" and "unat (cnt_relaying_via_http_suspended (ml_status (ds_world st))) < 2 ^ 31 - 1"
    and "dl_all_ok D p" and "gw_status_is_network_connected (ml_status (ds_world st))"
    and "dl_ticks D (dp_timeout_seconds p)" and "dl_delivered D (dp_timeout_seconds p)"
    and events: "\<And>st0. json_fresh 0 st0 \<Longrightarrow> \<exists>st1. dl_events D (Some cb_on_http_download_json_data) (dl_reported D (dp_timeout_seconds p)) st0 = Some st1 \<and>
      Q (ds_user st1)"
  shows "\<exists>i st'. http_download_json E D p st = Some (json_info_final D (http_server_resp_err 200) i, st') \<and> Q i"
proof -
  let ?t = "dp_timeout_seconds p"
  define st1 where "st1 = dl_alloc (dl_alloc (st\<lparr>ds_user := json_info_init,
    ds_info := \<lparr>dl_content_length = 0, dl_offset = 0, dl_feed_task_watchdog = dp_feed_task_watchdog p\<rparr>\<rparr>))"
  have st1: "dl_counts st1 = dl_counts st" "ds_user st1 = json_info_init" "dl_content_length (ds_info st1) = 0" "dl_offset (ds_info st1) = 0"
    by (simp_all add: st1_def dl_alloc_def dl_counts_def)
  have count: "unat (fst (dl_counts st1)) < 2 ^ 31 - 1" using assms(2) st1(1) by (simp add: dl_counts_def)
  obtain st2 where st2: "dl_suspend E st1 = Some st2" "ds_user st2 = json_info_init"
      "dl_counts st2 = (fst (dl_counts st) + 1, snd (dl_counts st))" "ds_info st2 = ds_info st1"
    by (rule dl_suspend_result [OF assms(1) count]) (simp add: st1)
  have init: "http_client_init D HTTP_METHOD_GET p st2 = (True, dl_alloc st2)"
    using assms(3) by (cases "dp_extra_header_item p") (simp_all add: http_client_init_def dl_all_ok_def Let_def)
  have "json_fresh 0 (dl_alloc st2)"
    using st2(2,4) st1(3,4) by (simp add: json_fresh_def dl_alloc_def json_info_init_def)
  from events [OF this] obtain st3 where st3: "dl_events D (Some cb_on_http_download_json_data) (dl_reported D ?t) (dl_alloc st2) = Some st3"
    "Q (ds_user st3)" by blast
  have headers: "\<forall>h. de_set_header D h" using assms(3) by (simp add: dl_all_ok_def)
  obtain resp st4 where st4: "http_download_by_handle D (Some cb_on_http_download_json_data) ?t (dl_alloc st2) = Some (resp, st4)"
    "http_resp_code resp = 200" "dl_alike st3 st4" "dl_same (dl_alloc st2) st4"
    using by_handle_events [OF headers assms(5,6) st3(1)] by blast
  have "dl_counts (dl_free (dl_free (dl_free st4))) = dl_counts st2" using st4(4) by (simp add: dl_same_def)
  with st2(3) count_fits [OF count] st1(1) obtain st5 where st5: "dl_resume E (dl_free (dl_free (dl_free st4))) = Some st5" "ds_user st5 = ds_user st4"
    using dl_resume_result [OF assms(1), of "dl_free (dl_free (dl_free st4))" "fst (dl_counts st)"] by auto
  have "http_download_json E D p st = Some (json_info_final D resp (ds_user st3), st5)"
    using assms(3,4) st2(1) init st4 st5
    by (simp add: http_download_json_def http_download_with_auth_def http_download_or_check_def dl_all_ok_def st1_def Let_def dl_alike_def)
  moreover have "json_info_final D resp i = json_info_final D (http_server_resp_err 200) i" for i
    using st4(2) by (simp add: json_info_final_def http_server_resp_err_def)
  ultimately show ?thesis using st3(2) by auto
qed

lemma json_final:
  "json_at cl bs st \<Longrightarrow> bs \<noteq> [] \<Longrightarrow> i = json_info_final D (http_server_resp_err 200) (ds_user st) \<Longrightarrow>
     \<not> jd_is_error i \<and> jd_http_resp_code i = 200 \<and>
     (\<exists>mem. jd_buf i = Some mem \<and> take (length (concat bs)) mem = concat bs \<and> mem ! length (concat bs) = 0)"
  "json_failed u \<Longrightarrow> i = json_info_final D (http_server_resp_err 200) u \<Longrightarrow>
     jd_is_error i \<and> jd_http_resp_code i = 400 \<and> jd_buf i = None"
  by (auto simp: json_at_def json_failed_def json_info_final_def http_server_resp_err_def json_holds_def Let_def)

lemma fresh_at: "json_fresh cl st = json_at cl [] st"
  by (simp add: json_at_def)

text \<open>C34: A downloaded JSON document is complete. The response may arrive at once or over any number of polls before the timeout, its head
  (connections and headers) and its body divided into data events in any way. When the server delivers it with status 200,
  the buffer that \<open>http_download_json\<close>
  returns holds exactly the received bytes, in order, with a terminator, when they are not more than the (last) Content-Length, or when there is no
  Content-Length or it is 0. A body longer than its Content-Length makes the download fail with code 400 and no buffer; nothing is written behind
  the buffer. (A body shorter than its Content-Length is accepted. The sizes are below \<open>2^32\<close>: a Content-Length of 4294967295 is left out.)\<close>

theorem json_download_complete:
  assumes "ticks_advance (en_wait E)" and "unat (cnt_relaying_via_http_suspended (ml_status (ds_world st))) < 2 ^ 31 - 1"
    and "dl_all_ok D p" and "gw_status_is_network_connected (ml_status (ds_world st))"
    and "dl_ticks D (dp_timeout_seconds p)" and "dl_delivered D (dp_timeout_seconds p)"
    and "dl_reported D (dp_timeout_seconds p) = head @ body"
    and "list_all json_head_event head" and "list_all json_body_event body"
    and "chunks_of body \<noteq> []" and "length (concat (chunks_of body)) + 1 < 2 ^ 32"
    and "content_length_of D head 0 + 1 \<noteq> 0"
  defines "d \<equiv> concat (chunks_of body)" and "cl \<equiv> content_length_of D head 0"
  shows "\<exists>i st'. http_download_json E D p st = Some (i, st') \<and>
    (if cl = 0 \<or> length d \<le> unat cl
     then \<not> jd_is_error i \<and> jd_http_resp_code i = 200 \<and>
       (\<exists>mem. jd_buf i = Some mem \<and> take (length d) mem = d \<and> mem ! length d = 0)
     else jd_is_error i \<and> jd_http_resp_code i = 400 \<and> jd_buf i = None)"
proof -
  let ?Q = "\<lambda>i. if cl = 0 \<or> length d \<le> unat cl then \<exists>st. i = ds_user st \<and> json_at cl (chunks_of body) st else json_failed i"
  have "\<exists>st1. dl_events D (Some cb_on_http_download_json_data) (dl_reported D (dp_timeout_seconds p)) st0 = Some st1 \<and> ?Q (ds_user st1)"
    if fresh: "json_fresh 0 st0" for st0
  proof -
    obtain st1 where st1: "dl_events D (Some cb_on_http_download_json_data) head st0 = Some st1" "json_fresh cl st1"
      using head_events [OF assms(8) fresh, of D] unfolding cl_def by blast
    have len: "length (concat ([] @ chunks_of body)) + 1 < 2 ^ 32" and cl1: "cl + 1 \<noteq> 0"
      using assms(11,12) by (simp_all add: cl_def)
    from body_events [OF assms(9) st1(2) [unfolded fresh_at] len cl1, of D]
    obtain st2 where "dl_events D (Some cb_on_http_download_json_data) body st1 = Some st2"
      "if cl = 0 \<or> length d \<le> unat cl then json_at cl (chunks_of body) st2 else json_failed (ds_user st2)"
      unfolding d_def append_Nil by blast
    with st1(1) show ?thesis by (auto simp: assms(7) events_append)
  qed
  from json_download_general [OF assms(1-6), of ?Q] this obtain i st' where
    "http_download_json E D p st = Some (json_info_final D (http_server_resp_err 200) i, st')" "?Q i" by blast
  with json_final(1) [OF _ assms(10)] json_final(2) show ?thesis
    unfolding d_def by (auto split: if_splits)
qed

text \<open>No Content-Length, the body in three polls, a poll without an event between them.\<close>

definition sim_chunked :: dl_env where
  "sim_chunked = sim_download\<lparr>de_first := ([HTTP_EVENT_ON_CONNECTED, HTTP_EVENT_ON_HEADER ''Server'' ''x''], Perform_again),
     de_poll := (\<lambda>k. (if k = 1 then [HTTP_EVENT_ON_DATA [123, 32] 200 (\<lambda>_. True)]
       else if k = 3 then [HTTP_EVENT_ON_DATA [125] 200 (\<lambda>_. True), HTTP_EVENT_ON_FINISH] else [], if k < 3 then Perform_again else Perform_ok))\<rparr>"

lemma sim_chunked_calls:
  "dl_calls sim_chunked 25 = [([HTTP_EVENT_ON_DATA [123, 32] 200 (\<lambda>_. True)], Perform_again), ([], Perform_again),
     ([HTTP_EVENT_ON_DATA [125] 200 (\<lambda>_. True), HTTP_EVENT_ON_FINISH], Perform_ok)]"
proof -
  have parts: "de_poll sim_chunked k = (if k = 1 then [HTTP_EVENT_ON_DATA [123, 32] 200 (\<lambda>_. True)]
       else if k = 3 then [HTTP_EVENT_ON_DATA [125] 200 (\<lambda>_. True), HTTP_EVENT_ON_FINISH] else [], if k < 3 then Perform_again else Perform_ok)"
    "de_tick sim_chunked k - de_tick sim_chunked 0 = 50 * word_of_nat k" "de_ms_to_ticks sim_chunked t = t" for k t
    by (simp_all add: sim_chunked_def sim_download_def)
  have "dl_calls_from sim_chunked (de_tick sim_chunked 0) 25 3 = Some [([HTTP_EVENT_ON_DATA [125] 200 (\<lambda>_. True), HTTP_EVENT_ON_FINISH], Perform_ok)]"
    by (subst dl_calls_from.simps) (simp add: parts del: One_nat_def)
  then have "dl_calls_from sim_chunked (de_tick sim_chunked 0) 25 2 =
      Some [([], Perform_again), ([HTTP_EVENT_ON_DATA [125] 200 (\<lambda>_. True), HTTP_EVENT_ON_FINISH], Perform_ok)]"
    by (subst dl_calls_from.simps) (simp add: parts del: One_nat_def)
  then have "dl_calls_from sim_chunked (de_tick sim_chunked 0) 25 1 =
      Some [([HTTP_EVENT_ON_DATA [123, 32] 200 (\<lambda>_. True)], Perform_again), ([], Perform_again),
        ([HTTP_EVENT_ON_DATA [125] 200 (\<lambda>_. True), HTTP_EVENT_ON_FINISH], Perform_ok)]"
    by (subst dl_calls_from.simps) (simp add: parts del: One_nat_def)
  then show ?thesis by (simp add: dl_calls_def)
qed

theorem json_download_complete_witness:
  "\<exists>i st' mem. http_download_json sim_main_env sim_chunked sim_request (sim_download_state json_info_init) = Some (i, st') \<and>
     jd_buf i = Some mem \<and> take 3 mem = [123, 32, 125] \<and> mem ! 3 = 0"
proof -
  let ?head = "[HTTP_EVENT_ON_CONNECTED, HTTP_EVENT_ON_HEADER ''Server'' ''x'']"
  let ?body = "[HTTP_EVENT_ON_DATA [123, 32] 200 (\<lambda>_. True), HTTP_EVENT_ON_DATA [125] 200 (\<lambda>_. True), HTTP_EVENT_ON_FINISH]"
  have t: "dp_timeout_seconds sim_request = 25" by (simp add: sim_request_def)
  have ok: "dl_all_ok sim_chunked sim_request"
    by (simp add: dl_all_ok_def sim_chunked_def sim_download_def sim_request_def http_download_is_url_valid_def url_host_valid_def
      HTTP_MIN_DOMAIN_NAME_LEN_def)
  have ticks: "dl_ticks sim_chunked (dp_timeout_seconds sim_request)"
    by (rule sim_download_ticks) (simp_all add: sim_chunked_def t)
  have del: "dl_delivered sim_chunked (dp_timeout_seconds sim_request)"
    "dl_reported sim_chunked (dp_timeout_seconds sim_request) = ?head @ ?body"
    unfolding t dl_delivered_def dl_reported_def sim_chunked_calls by (simp_all add: sim_chunked_def sim_download_def)
  have count: "unat (cnt_relaying_via_http_suspended (ml_status (ds_world (sim_download_state json_info_init)))) < 2 ^ 31 - 1"
    by (simp add: sim_download_counts)
  have cl: "content_length_of sim_chunked ?head 0 = 0" by (simp add: strcasecmp_equal_def)
  have ch: "concat (chunks_of ?body) = [123, 32, 125]" "chunks_of ?body \<noteq> []" by (simp_all add: chunks_of_def)
  obtain i st' mem where "http_download_json sim_main_env sim_chunked sim_request (sim_download_state json_info_init) = Some (i, st')"
    "jd_buf i = Some mem" "take (length (concat (chunks_of ?body))) mem = concat (chunks_of ?body)" "mem ! length (concat (chunks_of ?body)) = 0"
    using json_download_complete [OF sim_wait_advances count ok sim_download_counts(2) ticks del _ _ ch(2)] cl by (auto simp: ch(1))
  moreover have "length [123, 32, 125 :: u8] = 3" by simp
  ultimately show ?thesis unfolding ch(1) by metis
qed

text \<open>A redirect can spoil a download. The event of a new connection resets the offset but not the Content-Length of the response before. When
  a redirect (302) with a body of \<open>n > 0\<close> bytes leads to a server that answers with a chunked body, without a
  Content-Length, any document longer than \<open>n\<close> bytes is refused with code 400 although it arrived completely.\<close>

theorem json_redirect_stale_length:
  assumes "ticks_advance (en_wait E)" and "unat (cnt_relaying_via_http_suspended (ml_status (ds_world st))) < 2 ^ 31 - 1"
    and "dl_all_ok D p" and "gw_status_is_network_connected (ml_status (ds_world st))"
    and "dl_ticks D (dp_timeout_seconds p)" and "dl_delivered D (dp_timeout_seconds p)"
    and "dl_reported D (dp_timeout_seconds p) =
      [HTTP_EVENT_ON_HEADER ''Content-Length'' v, HTTP_EVENT_ON_DATA b0 302 (\<lambda>_. True), HTTP_EVENT_ON_CONNECTED] @ body"
    and "list_all json_body_event body" and "length (concat (chunks_of body)) + 1 < 2 ^ 32"
    and "de_str_to_uint32 D v = n" and "0 < n" and "n + 1 \<noteq> 0" and "unat n < length (concat (chunks_of body))"
  shows "\<exists>i st'. http_download_json E D p st = Some (i, st') \<and> jd_is_error i \<and> jd_http_resp_code i = 400 \<and> jd_buf i = None"
proof -
  have "\<exists>st1. dl_events D (Some cb_on_http_download_json_data) (dl_reported D (dp_timeout_seconds p)) st0 = Some st1 \<and> json_failed (ds_user st1)"
    if fresh: "json_fresh 0 st0" for st0
  proof -
    obtain st1 where st1: "dl_events D (Some cb_on_http_download_json_data)
        [HTTP_EVENT_ON_HEADER ''Content-Length'' v, HTTP_EVENT_ON_DATA b0 302 (\<lambda>_. True), HTTP_EVENT_ON_CONNECTED] st0 = Some st1" "json_fresh n st1"
      using fresh assms(10) by (auto simp: json_fresh_def strcasecmp_equal_def cb_on_http_download_json_data_def dl_set_info_def Let_def)
    from body_events [OF assms(8) st1(2) [unfolded fresh_at] _ assms(12), of D] assms(9,11,13)
    obtain st2 where "dl_events D (Some cb_on_http_download_json_data) body st1 = Some st2" "json_failed (ds_user st2)" by auto
    with st1(1) show ?thesis unfolding assms(7) events_append by auto
  qed
  from json_download_general [OF assms(1-6), of json_failed] this show ?thesis using json_final(2) by blast
qed

theorem json_redirect_stale_length_witness:
  "\<exists>i st'. http_download_json sim_main_env (sim_download\<lparr>de_first := ([HTTP_EVENT_ON_HEADER ''Content-Length'' ''3'',
       HTTP_EVENT_ON_DATA [1, 2, 3] 302 (\<lambda>_. True), HTTP_EVENT_ON_CONNECTED] @
       map (\<lambda>b. HTTP_EVENT_ON_DATA b 200 (\<lambda>_. True)) [[123, 32], [32, 125]], Perform_ok)\<rparr>)
     sim_request (sim_download_state json_info_init) = Some (i, st') \<and> jd_is_error i"
  (is "\<exists>i st'. http_download_json _ ?D _ _ = _ \<and> _")
proof -
  let ?t = "dp_timeout_seconds sim_request"
  let ?body = "[HTTP_EVENT_ON_DATA [123, 32] 200 (\<lambda>_. True), HTTP_EVENT_ON_DATA [32, 125] 200 (\<lambda>_. True)]"
  have h: "dl_all_ok ?D sim_request" "dl_delivered ?D ?t" "de_str_to_uint32 ?D ''3'' = 3"
    "dl_reported ?D ?t = [HTTP_EVENT_ON_HEADER ''Content-Length'' ''3'', HTTP_EVENT_ON_DATA [1, 2, 3] 302 (\<lambda>_. True), HTTP_EVENT_ON_CONNECTED] @ ?body"
    by (simp_all add: dl_all_ok_def sim_download_def sim_request_def http_download_is_url_valid_def url_host_valid_def
      HTTP_MIN_DOMAIN_NAME_LEN_def dl_delivered_def dl_reported_def)
  have ticks: "dl_ticks ?D ?t" by (rule sim_download_ticks) (simp_all add: sim_request_def)
  have count: "unat (cnt_relaying_via_http_suspended (ml_status (ds_world (sim_download_state json_info_init)))) < 2 ^ 31 - 1"
    by (simp add: sim_download_counts)
  from json_redirect_stale_length [OF sim_wait_advances count h(1) sim_download_counts(2) ticks h(2,4) _ _ h(3)]
  show ?thesis by (auto simp: chunks_of_def)
qed

end
