(* ===== verification/Nrf52_Swd.thy ===== *)
theory Nrf52_Swd
  imports Gw_Prelude "HOL-Library.Monad_Syntax"
begin

text \<open>
  Access to the nRF52 over the serial wire debug port (\<open>nrf52swd.c\<close>), with the analog switch that
  connects the pins (\<open>gpio_switch_ctrl.c\<close>). The debug library libswd is a submodule and the chip is
  hardware: both are the argument \<open>D\<close>, a record of the calls the code makes on a device state of
  any type. \<open>nrf52_device\<close> states what the code relies on, the documented behaviour of memory
  access and of the flash controller. The GPIO and SPI drivers are the argument \<open>B\<close>, which says
  whether their calls succeed. An operation returns None when it waits for ever or an assertion fails.
\<close>

section \<open>Devices\<close>

record 'd libswd =
  libswd_debug_init :: "'d \<Rightarrow> bool \<times> 'd"
  libswd_dap_detect :: "'d \<Rightarrow> u32 option \<times> 'd"
  libswd_debug_halt :: "'d \<Rightarrow> bool \<times> 'd"
  libswd_debug_enable_reset_vector_catch :: "'d \<Rightarrow> bool \<times> 'd"
  libswd_debug_reset :: "'d \<Rightarrow> bool \<times> 'd"
  libswd_debug_run :: "'d \<Rightarrow> bool \<times> 'd"
  libswd_memap_read_int_32 :: "u32 \<Rightarrow> nat \<Rightarrow> 'd \<Rightarrow> u32 list option \<times> 'd"
  libswd_memap_write_int_32 :: "u32 \<Rightarrow> u32 list \<Rightarrow> 'd \<Rightarrow> bool \<times> 'd"

record board_env =
  b_gpio_config :: bool
  b_gpio_set_level :: bool
  b_spi_bus_initialize :: bool
  b_spi_bus_add_device :: bool
  b_libswd_init :: bool

datatype swd_effect =
  Gpio_config_nreset bool
| Gpio_nreset_level bool
| Gpio_config_switch
| Gpio_switch_level bool
| Spi_bus_initialize bool
| Spi_bus_add_device bool
| Spi_bus_remove_device
| Spi_bus_free
| Libswd_init bool
| Libswd_deinit
| Memap_write u32 "u32 list"

record 'd swd_world =
  w_device :: 'd
  gp_nrf52swd_libswd_ctx :: bool
  g_nrf52swd_is_gpio_cfg_nreset_initialized :: bool
  g_nrf52swd_is_spi_initialized :: bool
  g_nrf52swd_is_spi_device_added :: bool
  g_nrf52swd_switch_ctrl_activated :: bool
  g_switch_ctrl_cnt :: u32
  w_calls :: "swd_effect list"

definition swd_call :: "swd_effect \<Rightarrow> 'd swd_world \<Rightarrow> 'd swd_world" where
  "swd_call e w = w\<lparr>w_calls := w_calls w @ [e]\<rparr>"

definition on_device :: "('d \<Rightarrow> 'a \<times> 'd) \<Rightarrow> 'd swd_world \<Rightarrow> 'a \<times> 'd swd_world" where
  "on_device f w = (let (r, d) = f (w_device w) in (r, w\<lparr>w_device := d\<rparr>))"

text \<open>The registers of the flash controller.\<close>

definition NRF52_NVMC_BASE :: u32 where "NRF52_NVMC_BASE = 0x4001E000"
definition NRF52_NVMC_REG_READY :: u32 where "NRF52_NVMC_REG_READY = NRF52_NVMC_BASE + 0x400"
definition NRF52_NVMC_REG_CONFIG :: u32 where "NRF52_NVMC_REG_CONFIG = NRF52_NVMC_BASE + 0x504"
definition NRF52_NVMC_REG_ERASEALL :: u32 where "NRF52_NVMC_REG_ERASEALL = NRF52_NVMC_BASE + 0x50C"
definition NRF52_NVMC_REG_READY__MASK :: u32 where "NRF52_NVMC_REG_READY__MASK = 1"
definition NRF52_NVMC_REG_CONFIG__WEN_REN :: u32 where "NRF52_NVMC_REG_CONFIG__WEN_REN = 0"
definition NRF52_NVMC_REG_CONFIG__WEN_WEN :: u32 where "NRF52_NVMC_REG_CONFIG__WEN_WEN = 1"
definition NRF52_NVMC_REG_CONFIG__WEN_EEN :: u32 where "NRF52_NVMC_REG_CONFIG__WEN_EEN = 2"
definition NRF52_NVMC_REG_ERASEALL__ERASE :: u32 where "NRF52_NVMC_REG_ERASEALL__ERASE = 1"

section \<open>The analog switch\<close>

text \<open>The mutex of the switch is created by the initialisation, which precedes every other call.\<close>

definition gpio_switch_ctrl_init :: "board_env \<Rightarrow> 'd swd_world \<Rightarrow> 'd swd_world" where
  "gpio_switch_ctrl_init B w =
     (let w = swd_call Gpio_config_switch (w\<lparr>g_switch_ctrl_cnt := 0\<rparr>)
      in if \<not> b_gpio_config B then w else swd_call (Gpio_switch_level False) w)"

definition gpio_switch_ctrl_activate :: "'d swd_world \<Rightarrow> 'd swd_world" where
  "gpio_switch_ctrl_activate w =
     (let w = (if g_switch_ctrl_cnt w = 0 then swd_call (Gpio_switch_level True) w else w)
      in w\<lparr>g_switch_ctrl_cnt := g_switch_ctrl_cnt w + 1\<rparr>)"

definition gpio_switch_ctrl_deactivate :: "'d swd_world \<Rightarrow> 'd swd_world option" where
  "gpio_switch_ctrl_deactivate w =
     (if g_switch_ctrl_cnt w = 0 then None
      else
        let w = w\<lparr>g_switch_ctrl_cnt := g_switch_ctrl_cnt w - 1\<rparr>
        in Some (if g_switch_ctrl_cnt w = 0 then swd_call (Gpio_switch_level False) w else w))"

section \<open>Opening and closing the port\<close>

definition nrf52swd_init_gpio_cfg_nreset :: "board_env \<Rightarrow> 'd swd_world \<Rightarrow> bool \<times> 'd swd_world" where
  "nrf52swd_init_gpio_cfg_nreset B w =
     (if g_nrf52swd_is_gpio_cfg_nreset_initialized w then (True, w)
      else
        let w = swd_call (Gpio_config_nreset True) w
        in if \<not> b_gpio_config B then (False, w)
           else (True, w\<lparr>g_nrf52swd_is_gpio_cfg_nreset_initialized := True\<rparr>))"

definition nrf52swd_deinit_gpio_cfg_nreset :: "board_env \<Rightarrow> 'd swd_world \<Rightarrow> bool \<times> 'd swd_world" where
  "nrf52swd_deinit_gpio_cfg_nreset B w =
     (if \<not> g_nrf52swd_is_gpio_cfg_nreset_initialized w then (True, w)
      else
        let w = swd_call (Gpio_config_nreset False) w
        in if \<not> b_gpio_config B then (False, w)
           else (True, w\<lparr>g_nrf52swd_is_gpio_cfg_nreset_initialized := False\<rparr>))"

definition nrf52swd_init_spi_init :: "board_env \<Rightarrow> 'd swd_world \<Rightarrow> bool \<times> 'd swd_world" where
  "nrf52swd_init_spi_init B w =
     (b_spi_bus_initialize B, swd_call (Spi_bus_initialize (b_spi_bus_initialize B)) w)"

definition nrf52swd_init_spi_add_device :: "board_env \<Rightarrow> 'd swd_world \<Rightarrow> bool \<times> 'd swd_world" where
  "nrf52swd_init_spi_add_device B w =
     (b_spi_bus_add_device B, swd_call (Spi_bus_add_device (b_spi_bus_add_device B)) w)"

definition nrf52swd_libswd_debug_init :: "'d libswd \<Rightarrow> 'd swd_world \<Rightarrow> bool \<times> 'd swd_world" where
  "nrf52swd_libswd_debug_init D w = on_device (libswd_debug_init D) w"

definition nrf52swd_gpio_init :: "board_env \<Rightarrow> 'd swd_world \<Rightarrow> bool \<times> 'd swd_world" where
  "nrf52swd_gpio_init B w =
     (let (ok, w) = nrf52swd_init_gpio_cfg_nreset B w in
      if \<not> ok then (False, w)
      else (True, (gpio_switch_ctrl_activate w)\<lparr>g_nrf52swd_switch_ctrl_activated := True\<rparr>))"

definition nrf52swd_reset :: "board_env \<Rightarrow> bool \<Rightarrow> 'd swd_world \<Rightarrow> bool \<times> 'd swd_world" where
  "nrf52swd_reset B flag_reset w = (b_gpio_set_level B, swd_call (Gpio_nreset_level (\<not> flag_reset)) w)"

definition nrf52swd_init_internal ::
  "'d libswd \<Rightarrow> board_env \<Rightarrow> 'd swd_world \<Rightarrow> bool \<times> 'd swd_world" where
  "nrf52swd_init_internal D B w =
     (let (ok, w) = nrf52swd_gpio_init B w in
      if \<not> ok then (False, w)
      else let (_, w) = nrf52swd_reset B False w;
               (ok, w) = nrf52swd_init_spi_init B w in
      if \<not> ok then (False, w)
      else let w = w\<lparr>g_nrf52swd_is_spi_initialized := True\<rparr>;
               (ok, w) = nrf52swd_init_spi_add_device B w in
      if \<not> ok then (False, w)
      else let w = w\<lparr>g_nrf52swd_is_spi_device_added := True\<rparr>;
               w = (swd_call (Libswd_init (b_libswd_init B)) w)\<lparr>gp_nrf52swd_libswd_ctx := b_libswd_init B\<rparr> in
      if \<not> b_libswd_init B then (False, w)
      else nrf52swd_libswd_debug_init D w)"

definition nrf52swd_deinit :: "'d swd_world \<Rightarrow> 'd swd_world option" where
  "nrf52swd_deinit w =
     (let w = (if gp_nrf52swd_libswd_ctx w
               then (swd_call Libswd_deinit w)\<lparr>gp_nrf52swd_libswd_ctx := False\<rparr> else w);
          w = (if g_nrf52swd_is_spi_device_added w
               then swd_call Spi_bus_remove_device (w\<lparr>g_nrf52swd_is_spi_device_added := False\<rparr>) else w);
          w = (if g_nrf52swd_is_spi_initialized w
               then swd_call Spi_bus_free (w\<lparr>g_nrf52swd_is_spi_initialized := False\<rparr>) else w)
      in if g_nrf52swd_switch_ctrl_activated w
         then do {
           w \<leftarrow> gpio_switch_ctrl_deactivate w;
           Some (w\<lparr>g_nrf52swd_switch_ctrl_activated := False\<rparr>)
         }
         else Some w)"

definition nrf52swd_init ::
  "'d libswd \<Rightarrow> board_env \<Rightarrow> 'd swd_world \<Rightarrow> (bool \<times> 'd swd_world) option" where
  "nrf52swd_init D B w =
     (let (ok, w) = nrf52swd_init_internal D B w in
      if \<not> ok then do { w \<leftarrow> nrf52swd_deinit w; Some (False, w) } else Some (True, w))"

definition nrf52swd_check_id_code :: "'d libswd \<Rightarrow> 'd swd_world \<Rightarrow> bool \<times> 'd swd_world" where
  "nrf52swd_check_id_code D w =
     (let (r, w) = on_device (libswd_dap_detect D) w in
      case r of None \<Rightarrow> (False, w) | Some id_code \<Rightarrow> (id_code = 0x2ba01477, w))"

definition nrf52swd_debug_halt :: "'d libswd \<Rightarrow> 'd swd_world \<Rightarrow> bool \<times> 'd swd_world" where
  "nrf52swd_debug_halt D w = on_device (libswd_debug_halt D) w"

definition nrf52swd_debug_enable_reset_vector_catch :: "'d libswd \<Rightarrow> 'd swd_world \<Rightarrow> bool \<times> 'd swd_world" where
  "nrf52swd_debug_enable_reset_vector_catch D w = on_device (libswd_debug_enable_reset_vector_catch D) w"

definition nrf52swd_debug_reset :: "'d libswd \<Rightarrow> 'd swd_world \<Rightarrow> bool \<times> 'd swd_world" where
  "nrf52swd_debug_reset D w = on_device (libswd_debug_reset D) w"

definition nrf52swd_debug_run :: "'d libswd \<Rightarrow> 'd swd_world \<Rightarrow> bool \<times> 'd swd_world" where
  "nrf52swd_debug_run D w = on_device (libswd_debug_run D) w"

section \<open>Memory\<close>

definition memap_write :: "'d libswd \<Rightarrow> u32 \<Rightarrow> u32 list \<Rightarrow> 'd swd_world \<Rightarrow> bool \<times> 'd swd_world" where
  "memap_write D a ws w = on_device (libswd_memap_write_int_32 D a ws) (swd_call (Memap_write a ws) w)"

definition nrf52swd_read_reg :: "'d libswd \<Rightarrow> u32 \<Rightarrow> 'd swd_world \<Rightarrow> u32 option \<times> 'd swd_world" where
  "nrf52swd_read_reg D reg_addr w =
     (let (r, w) = on_device (libswd_memap_read_int_32 D reg_addr 1) w in (map_option hd r, w))"

definition nrf52swd_write_reg :: "'d libswd \<Rightarrow> u32 \<Rightarrow> u32 \<Rightarrow> 'd swd_world \<Rightarrow> bool \<times> 'd swd_world" where
  "nrf52swd_write_reg D reg_addr val w = memap_write D reg_addr [val] w"

text \<open>The returned pair is the return value and \<open>*p_result\<close>.\<close>

definition nrf51swd_nvmc_is_ready_or_err :: "'d libswd \<Rightarrow> 'd swd_world \<Rightarrow> (bool \<times> bool) \<times> 'd swd_world" where
  "nrf51swd_nvmc_is_ready_or_err D w =
     (let (r, w) = nrf52swd_read_reg D NRF52_NVMC_REG_READY w in
      case r of
        None \<Rightarrow> ((True, False), w)
      | Some reg_val \<Rightarrow>
          if reg_val AND NRF52_NVMC_REG_READY__MASK \<noteq> 0 then ((True, True), w) else ((False, False), w))"

partial_function (option) nrf51swd_nvmc_wait_while_busy ::
  "'d libswd \<Rightarrow> 'd swd_world \<Rightarrow> (bool \<times> 'd swd_world) option" where
  "nrf51swd_nvmc_wait_while_busy D w =
     (let ((stop, result), w) = nrf51swd_nvmc_is_ready_or_err D w in
      if stop then Some (result, w) else nrf51swd_nvmc_wait_while_busy D w)"

text \<open>A step whose failure ends the operation with \<open>false\<close>.\<close>

definition and_when ::
  "(bool \<times> 'w) option \<Rightarrow> ('w \<Rightarrow> (bool \<times> 'w) option) \<Rightarrow> (bool \<times> 'w) option" where
  "and_when r f = Option.bind r (\<lambda>(ok, w). if ok then f w else Some (False, w))"

definition nrf52swd_erase_all :: "'d libswd \<Rightarrow> 'd swd_world \<Rightarrow> (bool \<times> 'd swd_world) option" where
  "nrf52swd_erase_all D w =
     and_when (nrf51swd_nvmc_wait_while_busy D w) (\<lambda>w.
     and_when (Some (nrf52swd_write_reg D NRF52_NVMC_REG_CONFIG NRF52_NVMC_REG_CONFIG__WEN_EEN w)) (\<lambda>w.
     and_when (Some (nrf52swd_write_reg D NRF52_NVMC_REG_ERASEALL NRF52_NVMC_REG_ERASEALL__ERASE w)) (\<lambda>w.
     and_when (nrf51swd_nvmc_wait_while_busy D w) (\<lambda>w.
     Some (nrf52swd_write_reg D NRF52_NVMC_REG_CONFIG NRF52_NVMC_REG_CONFIG__WEN_REN w)))))"

definition nrf52swd_read_mem :: "'d libswd \<Rightarrow> u32 \<Rightarrow> nat \<Rightarrow> 'd swd_world \<Rightarrow> u32 list option \<times> 'd swd_world" where
  "nrf52swd_read_mem D addr num_words w = on_device (libswd_memap_read_int_32 D addr num_words) w"

definition nrf52swd_write_mem ::
  "'d libswd \<Rightarrow> u32 \<Rightarrow> u32 list \<Rightarrow> 'd swd_world \<Rightarrow> (bool \<times> 'd swd_world) option" where
  "nrf52swd_write_mem D addr ws w =
     and_when (nrf51swd_nvmc_wait_while_busy D w) (\<lambda>w.
     and_when (Some (nrf52swd_write_reg D NRF52_NVMC_REG_CONFIG NRF52_NVMC_REG_CONFIG__WEN_WEN w)) (\<lambda>w.
     and_when (Some (memap_write D addr ws w)) (\<lambda>w.
     and_when (nrf51swd_nvmc_wait_while_busy D w) (\<lambda>w.
     Some (nrf52swd_write_reg D NRF52_NVMC_REG_CONFIG NRF52_NVMC_REG_CONFIG__WEN_REN w)))))"

section \<open>The chip\<close>

text \<open>The addresses of \<open>n\<close> words from \<open>a\<close>.\<close>

definition cells :: "u32 \<Rightarrow> nat \<Rightarrow> u32 set" where
  "cells a n = (\<lambda>i. a + 4 * word_of_nat i) ` {..<n}"

definition words_at :: "(u32 \<Rightarrow> u32) \<Rightarrow> u32 \<Rightarrow> nat \<Rightarrow> u32 list" where
  "words_at m a n = map (\<lambda>i. m (a + 4 * word_of_nat i)) [0..<n]"

definition erased_word :: u32 where "erased_word = 0xFFFFFFFF"

text \<open>
  The behaviour of the nRF52 that the code relies on; \<open>mem\<close> is what the memory of the device
  holds. A read returns the memory and changes only READY, which is volatile. A write other than
  to ERASEALL changes at most the words it names. The register CONFIG holds what was written. A
  successful write of at most a block of erased flash, with writing enabled, stores the words.
\<close>

definition nrf52_device :: "'d libswd \<Rightarrow> ('d \<Rightarrow> u32 \<Rightarrow> u32) \<Rightarrow> bool" where
  "nrf52_device D mem \<longleftrightarrow>
     (\<forall>a n d x. x \<noteq> NRF52_NVMC_REG_READY \<longrightarrow> mem (snd (libswd_memap_read_int_32 D a n d)) x = mem d x) \<and>
     (\<forall>a n d ws. fst (libswd_memap_read_int_32 D a n d) = Some ws \<longrightarrow>
        length ws = n \<and> (NRF52_NVMC_REG_READY \<notin> cells a n \<longrightarrow> ws = words_at (mem d) a n)) \<and>
     (\<forall>a ws d x. a \<noteq> NRF52_NVMC_REG_ERASEALL \<longrightarrow> x \<noteq> NRF52_NVMC_REG_READY \<longrightarrow> x \<notin> cells a (length ws) \<longrightarrow>
        mem (snd (libswd_memap_write_int_32 D a ws d)) x = mem d x) \<and>
     (\<forall>v d. fst (libswd_memap_write_int_32 D NRF52_NVMC_REG_CONFIG [v] d) \<longrightarrow>
        mem (snd (libswd_memap_write_int_32 D NRF52_NVMC_REG_CONFIG [v] d)) NRF52_NVMC_REG_CONFIG = v) \<and>
     (\<forall>a ws d. fst (libswd_memap_write_int_32 D a ws d) \<longrightarrow> length ws \<le> 64 \<longrightarrow>
        mem d NRF52_NVMC_REG_CONFIG = NRF52_NVMC_REG_CONFIG__WEN_WEN \<longrightarrow>
        {NRF52_NVMC_REG_READY, NRF52_NVMC_REG_CONFIG, NRF52_NVMC_REG_ERASEALL} \<inter> cells a (length ws) = {} \<longrightarrow>
        words_at (mem d) a (length ws) = replicate (length ws) erased_word \<longrightarrow>
        words_at (mem (snd (libswd_memap_write_int_32 D a ws d))) a (length ws) = ws)"

text \<open>A chip to evaluate the model on: its memory, always ready.\<close>

definition sim_write :: "u32 \<Rightarrow> u32 list \<Rightarrow> (u32 \<Rightarrow> u32) \<Rightarrow> u32 \<Rightarrow> u32" where
  "sim_write a ws m =
     (if a = NRF52_NVMC_REG_ERASEALL then (\<lambda>x. erased_word)
      else fold (\<lambda>(i, v) m. m(a + 4 * word_of_nat i :=
        (if a = NRF52_NVMC_REG_CONFIG then v else m (a + 4 * word_of_nat i) AND v)))
        (List.enumerate 0 ws) m)"

definition sim_nrf52 :: "(u32 \<Rightarrow> u32) libswd" where
  "sim_nrf52 = \<lparr>libswd_debug_init = Pair True, libswd_dap_detect = Pair (Some 0x2ba01477),
     libswd_debug_halt = Pair True, libswd_debug_enable_reset_vector_catch = Pair True,
     libswd_debug_reset = Pair True, libswd_debug_run = Pair True,
     libswd_memap_read_int_32 = (\<lambda>a n m. (Some (words_at (m(NRF52_NVMC_REG_READY := 1)) a n), m)),
     libswd_memap_write_int_32 = (\<lambda>a ws m. (True, sim_write a ws m))\<rparr>"

lemma cells_0 [simp]: "cells a 0 = {}"
  by (simp add: cells_def)

lemma cells_1 [simp]: "cells a (Suc 0) = {a}"
  by (auto simp: cells_def)

lemma words_at_cong: "(\<And>x. x \<in> cells a n \<Longrightarrow> m x = m' x) \<Longrightarrow> words_at m a n = words_at m' a n"
  by (simp add: words_at_def cells_def)

lemma length_words_at [simp]: "length (words_at m a n) = n"
  by (simp add: words_at_def)

lemma fold_update_other:
  "x \<notin> (\<lambda>i. a + 4 * word_of_nat i) ` {k..<k + length ws} \<Longrightarrow>
   fold (\<lambda>(i, v) m. m(a + 4 * word_of_nat i := g (m (a + 4 * word_of_nat i)) v)) (List.enumerate k ws) m x = m x"
proof (induction ws arbitrary: k m)
  case Nil
  then show ?case by simp
next
  case (Cons v ws)
  from Cons.prems have "x \<noteq> a + 4 * word_of_nat k"
    and "x \<notin> (\<lambda>i. a + 4 * word_of_nat i) ` {Suc k..<Suc k + length ws}"
    by (auto simp: image_iff)
  with Cons.IH [of "Suc k"] show ?case by simp
qed

lemma erased_word_eq: "erased_word = - 1"
  by (simp add: erased_word_def)

lemma erased_word_and [simp]: "erased_word AND v = v"
  by (simp add: erased_word_eq)

lemma cell_inject:
  assumes "a + 4 * word_of_nat i = (a :: u32) + 4 * word_of_nat j" and "i < 2 ^ 30" and "j < 2 ^ 30"
  shows "i = j"
proof -
  have "(word_of_nat (4 * i) :: u32) = word_of_nat (4 * j)" using assms(1) by simp
  then have "unat (word_of_nat (4 * i) :: u32) = unat (word_of_nat (4 * j) :: u32)" by (rule arg_cong)
  then have "4 * i mod 2 ^ 32 = 4 * j mod 2 ^ 32" by (simp only: unat_of_nat) simp
  with assms(2,3) show ?thesis by simp
qed

lemma fold_update_at:
  assumes "j < length ws" and "k + length ws \<le> 2 ^ 30"
  shows "fold (\<lambda>(i, v) m. m(a + 4 * word_of_nat i := g (m (a + 4 * word_of_nat i)) v)) (List.enumerate k ws) m
      ((a :: u32) + 4 * word_of_nat (k + j)) = g (m (a + 4 * word_of_nat (k + j))) (ws ! j)"
  using assms
proof (induction ws arbitrary: k m j)
  case Nil
  then show ?case by simp
next
  case (Cons v ws)
  show ?case
  proof (cases j)
    case 0
    have "a + 4 * word_of_nat k \<notin> (\<lambda>i. a + 4 * word_of_nat i) ` {Suc k..<Suc k + length ws}"
    proof
      assume "a + 4 * word_of_nat k \<in> (\<lambda>i. a + 4 * word_of_nat i) ` {Suc k..<Suc k + length ws}"
      then obtain i where "i \<in> {Suc k..<Suc k + length ws}" "a + 4 * word_of_nat k = a + 4 * word_of_nat i"
        by blast
      with cell_inject [of a k i] Cons.prems(2) show False by auto
    qed
    from fold_update_other [OF this, of g] 0 show ?thesis by (simp del: fun_upd_apply add: fun_upd_same)
  next
    case (Suc j')
    with Cons.prems have "j' < length ws" and "Suc k + length ws \<le> 2 ^ 30" by auto
    note IH = Cons.IH [OF this]
    have "a + 4 * word_of_nat (Suc k + j') \<noteq> a + 4 * word_of_nat k"
      using cell_inject [of a "Suc k + j'" k] Cons.prems Suc by auto
    with IH show ?thesis by (simp add: Suc del: fun_upd_apply add: fun_upd_other)
  qed
qed

lemma sim_nrf52_device: "nrf52_device sim_nrf52 (\<lambda>m. m)"
proof -
  have stored: "words_at (sim_write a ws m) a (length ws) = ws"
    if len: "length ws \<le> 64"
      and reg: "{NRF52_NVMC_REG_READY, NRF52_NVMC_REG_CONFIG, NRF52_NVMC_REG_ERASEALL} \<inter> cells a (length ws) = {}"
      and erased: "words_at m a (length ws) = replicate (length ws) erased_word" for a ws m
  proof (cases "ws = []")
    case True
    then show ?thesis by (simp add: words_at_def)
  next
    case False
    then have "a \<in> cells a (length ws)" by (auto simp: cells_def intro!: image_eqI [of _ _ 0])
    with reg have a: "a \<noteq> NRF52_NVMC_REG_CONFIG" "a \<noteq> NRF52_NVMC_REG_ERASEALL" by auto
    show ?thesis
    proof (rule nth_equalityI)
      fix j assume "j < length (words_at (sim_write a ws m) a (length ws))"
      then have j: "j < length ws" by simp
      have "words_at m a (length ws) ! j = erased_word" using erased j by simp
      then have "m (a + 4 * word_of_nat j) = erased_word" using j by (simp add: words_at_def)
      with j a len fold_update_at [where j = j and k = 0 and ws = ws and a = a and m = m and g = "\<lambda>u v. u AND v"]
      show "words_at (sim_write a ws m) a (length ws) ! j = ws ! j"
        by (simp add: words_at_def sim_write_def)
    qed simp
  qed
  have other: "sim_write a ws m x = m x" if "a \<noteq> NRF52_NVMC_REG_ERASEALL" "x \<notin> cells a (length ws)" for a ws m x
    using that fold_update_other [of x a 0 ws "\<lambda>u v. if a = NRF52_NVMC_REG_CONFIG then v else u AND v"]
    by (simp add: sim_write_def cells_def atLeast0LessThan)
  have read: "words_at (m(NRF52_NVMC_REG_READY := 1)) a n = words_at m a n"
    if "NRF52_NVMC_REG_READY \<notin> cells a n" for m a n
    using that by (intro words_at_cong) auto
  have config: "sim_write NRF52_NVMC_REG_CONFIG [v] m NRF52_NVMC_REG_CONFIG = v" for v m
    by (simp add: sim_write_def NRF52_NVMC_REG_CONFIG_def NRF52_NVMC_REG_ERASEALL_def)
  show ?thesis
    unfolding nrf52_device_def
    by (auto simp: sim_nrf52_def stored other read config)
qed

section \<open>Polling\<close>

text \<open>One read of the READY register through the debug port, and when a caller must not read again: the read failed, or the controller is
  ready. The code polls by \<open>nrf51swd_nvmc_is_ready_or_err\<close>; its flag and its state are these.\<close>

definition poll :: "'d libswd \<Rightarrow> 'd swd_world \<Rightarrow> 'd swd_world" where
  "poll D w = snd (nrf52swd_read_reg D NRF52_NVMC_REG_READY w)"

definition polled_ready :: "'d libswd \<Rightarrow> 'd swd_world \<Rightarrow> nat \<Rightarrow> u32 option" where
  "polled_ready D w k = fst (nrf52swd_read_reg D NRF52_NVMC_REG_READY ((poll D ^^ k) w))"

definition ready_or_failed :: "u32 option \<Rightarrow> bool" where
  "ready_or_failed r \<longleftrightarrow> (case r of None \<Rightarrow> True | Some v \<Rightarrow> v AND NRF52_NVMC_REG_READY__MASK \<noteq> 0)"

definition poll_stops :: "'d libswd \<Rightarrow> 'd swd_world \<Rightarrow> bool" where
  "poll_stops D w \<longleftrightarrow> ready_or_failed (fst (nrf52swd_read_reg D NRF52_NVMC_REG_READY w))"

lemma poll_code:
  "nrf51swd_nvmc_is_ready_or_err D w =
     ((poll_stops D w, poll_stops D w \<and> fst (nrf52swd_read_reg D NRF52_NVMC_REG_READY w) \<noteq> None), poll D w)"
  by (auto simp: nrf51swd_nvmc_is_ready_or_err_def poll_stops_def ready_or_failed_def poll_def split: prod.split option.split)

lemma nvmc_wait_step:
  "nrf51swd_nvmc_wait_while_busy D w =
     (if poll_stops D w then Some (snd (fst (nrf51swd_nvmc_is_ready_or_err D w)), poll D w)
      else nrf51swd_nvmc_wait_while_busy D (poll D w))"
  by (subst nrf51swd_nvmc_wait_while_busy.simps) (simp add: poll_code)

lemma nvmc_wait_after:
  "(\<And>i. i < k \<Longrightarrow> \<not> poll_stops D ((poll D ^^ i) w)) \<Longrightarrow>
   nrf51swd_nvmc_wait_while_busy D w = nrf51swd_nvmc_wait_while_busy D ((poll D ^^ k) w)"
proof (induction k)
  case 0
  then show ?case by simp
next
  case (Suc k)
  then have "nrf51swd_nvmc_wait_while_busy D w = nrf51swd_nvmc_wait_while_busy D ((poll D ^^ k) w)" by simp
  also have "\<dots> = nrf51swd_nvmc_wait_while_busy D (poll D ((poll D ^^ k) w))"
    using Suc.prems [of k] by (subst nvmc_wait_step) simp
  finally show ?case by simp
qed

lemma nvmc_wait_some_aux:
  assumes "nrf51swd_nvmc_wait_while_busy D w = Some y"
  shows "\<exists>k. poll_stops D ((poll D ^^ k) w) \<and> (\<forall>i < k. \<not> poll_stops D ((poll D ^^ i) w)) \<and>
    snd y = (poll D ^^ Suc k) w \<and> fst y = snd (fst (nrf51swd_nvmc_is_ready_or_err D ((poll D ^^ k) w)))"
proof (induction rule: nrf51swd_nvmc_wait_while_busy.raw_induct [OF _ assms])
  case (1 wait D w y)
  show ?case
  proof (cases "poll_stops D w")
    case True
    with 1(2) show ?thesis
      by (intro exI [of _ 0]) (auto simp: poll_code)
  next
    case False
    with 1(2) have "wait D (poll D w) = Some y"
      by (simp add: poll_code)
    from 1(1) [OF this] obtain k where
      "poll_stops D ((poll D ^^ k) (poll D w))" "\<forall>i < k. \<not> poll_stops D ((poll D ^^ i) (poll D w))"
      "snd y = (poll D ^^ Suc k) (poll D w)"
      "fst y = snd (fst (nrf51swd_nvmc_is_ready_or_err D ((poll D ^^ k) (poll D w))))"
      by blast
    with False show ?thesis
      by (intro exI [of _ "Suc k"]) (auto simp: funpow_swap1 less_Suc_eq_0_disj)
  qed
qed

lemma nvmc_wait_some:
  "nrf51swd_nvmc_wait_while_busy D w = Some (r, w') \<Longrightarrow>
    \<exists>k. poll_stops D ((poll D ^^ k) w) \<and> (\<forall>i < k. \<not> poll_stops D ((poll D ^^ i) w)) \<and>
    w' = (poll D ^^ Suc k) w \<and> r = snd (fst (nrf51swd_nvmc_is_ready_or_err D ((poll D ^^ k) w)))"
  by (drule nvmc_wait_some_aux) simp

lemma nvmc_wait_returns:
  "nrf51swd_nvmc_wait_while_busy D w \<noteq> None \<longleftrightarrow> (\<exists>k. poll_stops D ((poll D ^^ k) w))"
proof
  assume "nrf51swd_nvmc_wait_while_busy D w \<noteq> None"
  then obtain r w' where "nrf51swd_nvmc_wait_while_busy D w = Some (r, w')" by auto
  from nvmc_wait_some [OF this] show "\<exists>k. poll_stops D ((poll D ^^ k) w)" by blast
next
  assume "\<exists>k. poll_stops D ((poll D ^^ k) w)"
  then have "poll_stops D ((poll D ^^ (LEAST k. poll_stops D ((poll D ^^ k) w))) w)"
    by (rule LeastI_ex)
  moreover have "\<not> poll_stops D ((poll D ^^ i) w)" if "i < (LEAST k. poll_stops D ((poll D ^^ k) w))" for i
    using not_less_Least [OF that] .
  ultimately show "nrf51swd_nvmc_wait_while_busy D w \<noteq> None"
    using nvmc_wait_after [of "LEAST k. poll_stops D ((poll D ^^ k) w)" D w]
      nvmc_wait_step [of D "(poll D ^^ (LEAST k. poll_stops D ((poll D ^^ k) w))) w"]
    by auto
qed

section \<open>Memory operations\<close>

lemma on_device_parts [simp]:
  "fst (on_device f w) = fst (f (w_device w))"
  "w_device (snd (on_device f w)) = snd (f (w_device w))"
  "w_calls (snd (on_device f w)) = w_calls w"
  by (simp_all add: on_device_def split: prod.split)

lemma swd_call_parts [simp]:
  "w_device (swd_call e w) = w_device w"
  "w_calls (swd_call e w) = w_calls w @ [e]"
  by (simp_all add: swd_call_def)

lemma poll_eq: "poll D w = snd (on_device (libswd_memap_read_int_32 D NRF52_NVMC_REG_READY 1) w)"
  by (auto simp: poll_def nrf51swd_nvmc_is_ready_or_err_def nrf52swd_read_reg_def split: prod.split option.split)

lemma poll_mem:
  "nrf52_device D mem \<Longrightarrow> x \<noteq> NRF52_NVMC_REG_READY \<Longrightarrow> mem (w_device (poll D w)) x = mem (w_device w) x"
  by (simp add: poll_eq nrf52_device_def)

lemma poll_calls [simp]: "w_calls (poll D w) = w_calls w"
  by (simp add: poll_eq)

text \<open>
  What an operation may do to the chip: outside \<open>X\<close> the memory is as before, and only calls of
  \<open>cs\<close> were added.
\<close>

definition swd_frame ::
  "('d \<Rightarrow> u32 \<Rightarrow> u32) \<Rightarrow> u32 set \<Rightarrow> swd_effect set \<Rightarrow> 'd swd_world \<Rightarrow> 'd swd_world \<Rightarrow> bool" where
  "swd_frame mem X cs w w' \<longleftrightarrow>
     (\<forall>x. x \<notin> X \<longrightarrow> mem (w_device w') x = mem (w_device w) x) \<and>
     (\<exists>es. w_calls w' = w_calls w @ es \<and> set es \<subseteq> cs)"

lemma swd_frame_refl [simp]: "swd_frame mem X cs w w"
  by (simp add: swd_frame_def)

lemma swd_frame_trans: "swd_frame mem X cs w w1 \<Longrightarrow> swd_frame mem X cs w1 w2 \<Longrightarrow> swd_frame mem X cs w w2"
  by (fastforce simp: swd_frame_def)

lemma swd_frame_mono:
  "swd_frame mem X cs w w' \<Longrightarrow> X \<subseteq> Y \<Longrightarrow> cs \<subseteq> ds \<Longrightarrow> swd_frame mem Y ds w w'"
  unfolding swd_frame_def by blast

lemma swd_frame_words:
  "swd_frame mem X cs w w' \<Longrightarrow> X \<inter> cells a n = {} \<Longrightarrow>
   words_at (mem (w_device w')) a n = words_at (mem (w_device w)) a n"
  by (rule words_at_cong) (auto simp: swd_frame_def)

text \<open>A chain of steps with a frame has that frame.\<close>

definition framed ::
  "('d \<Rightarrow> u32 \<Rightarrow> u32) \<Rightarrow> u32 set \<Rightarrow> swd_effect set \<Rightarrow> 'd swd_world \<Rightarrow> (bool \<times> 'd swd_world) option \<Rightarrow> bool" where
  "framed mem X cs w r \<longleftrightarrow> (\<forall>ok w'. r = Some (ok, w') \<longrightarrow> swd_frame mem X cs w w')"

lemma framedD: "framed mem X cs w r \<Longrightarrow> r = Some (ok, w') \<Longrightarrow> swd_frame mem X cs w w'"
  by (simp add: framed_def)

lemma framed_and_when:
  assumes "framed mem X cs w r" and "\<And>w1. framed mem X cs w1 (f w1)"
  shows "framed mem X cs w (and_when r f)"
  unfolding framed_def
proof (intro allI impI)
  fix ok w' assume run: "and_when r f = Some (ok, w')"
  then obtain b w1 where r: "r = Some (b, w1)" by (cases r) (auto simp: and_when_def)
  with assms(1) have "swd_frame mem X cs w w1" by (simp add: framed_def)
  with run r assms(2) [of w1] show "swd_frame mem X cs w w'"
    by (cases b) (auto simp: and_when_def framed_def intro: swd_frame_trans)
qed

lemma framed_wait:
  assumes "nrf52_device D mem" and "NRF52_NVMC_REG_READY \<in> X"
  shows "framed mem X cs w (nrf51swd_nvmc_wait_while_busy D w)"
  unfolding framed_def
proof (intro allI impI)
  fix r w' assume "nrf51swd_nvmc_wait_while_busy D w = Some (r, w')"
  then obtain k where w': "w' = (poll D ^^ Suc k) w" using nvmc_wait_some by blast
  have "swd_frame mem X cs v (poll D v)" for v
    unfolding swd_frame_def
  proof (intro conjI allI impI)
    fix x assume "x \<notin> X"
    with assms(2) show "mem (w_device (poll D v)) x = mem (w_device v) x"
      by (intro poll_mem [OF assms(1)]) auto
  qed simp
  then have "swd_frame mem X cs w ((poll D ^^ n) w)" for n
    by (induction n) (auto intro: swd_frame_trans)
  with w' show "swd_frame mem X cs w w'" by blast
qed

lemma nrf52_device_write_other:
  "nrf52_device D mem \<Longrightarrow> a \<noteq> NRF52_NVMC_REG_ERASEALL \<Longrightarrow> x \<noteq> NRF52_NVMC_REG_READY \<Longrightarrow>
   x \<notin> cells a (length ws) \<Longrightarrow> mem (snd (libswd_memap_write_int_32 D a ws d)) x = mem d x"
  unfolding nrf52_device_def by blast

lemma framed_memap_write:
  assumes "nrf52_device D mem" and "a \<noteq> NRF52_NVMC_REG_ERASEALL"
    and "insert NRF52_NVMC_REG_READY (cells a (length ws)) \<subseteq> X" and "Memap_write a ws \<in> cs"
  shows "framed mem X cs w (Some (memap_write D a ws w))"
proof -
  have "w_calls (snd (memap_write D a ws w)) = w_calls w @ [Memap_write a ws]"
    by (simp add: memap_write_def)
  moreover have "mem (w_device (snd (memap_write D a ws w))) x = mem (w_device w) x" if "x \<notin> X" for x
    using nrf52_device_write_other [OF assms(1,2), of x ws] assms(3) that by (auto simp: memap_write_def)
  ultimately show ?thesis
    using assms(4) by (auto simp: framed_def swd_frame_def dest: arg_cong [of _ _ snd])
qed

lemma and_when_True:
  "and_when r f = Some (True, w') \<longleftrightarrow> (\<exists>w1. r = Some (True, w1) \<and> f w1 = Some (True, w'))"
  by (cases r) (auto simp: and_when_def split: if_splits)

lemma reg_distinct [simp]:
  "NRF52_NVMC_REG_CONFIG \<noteq> NRF52_NVMC_REG_ERASEALL" "NRF52_NVMC_REG_CONFIG \<noteq> NRF52_NVMC_REG_READY"
  "NRF52_NVMC_REG_ERASEALL \<noteq> NRF52_NVMC_REG_CONFIG" "NRF52_NVMC_REG_READY \<noteq> NRF52_NVMC_REG_CONFIG"
  "NRF52_NVMC_REG_ERASEALL \<noteq> NRF52_NVMC_REG_READY" "NRF52_NVMC_REG_READY \<noteq> NRF52_NVMC_REG_ERASEALL"
  by (simp_all add: NRF52_NVMC_REG_CONFIG_def NRF52_NVMC_REG_ERASEALL_def NRF52_NVMC_REG_READY_def)

abbreviation flash_regs :: "u32 set" where
  "flash_regs \<equiv> {NRF52_NVMC_REG_READY, NRF52_NVMC_REG_CONFIG, NRF52_NVMC_REG_ERASEALL}"

definition config_writes :: "swd_effect set" where
  "config_writes = {Memap_write NRF52_NVMC_REG_CONFIG [NRF52_NVMC_REG_CONFIG__WEN_WEN],
     Memap_write NRF52_NVMC_REG_CONFIG [NRF52_NVMC_REG_CONFIG__WEN_REN]}"

lemma framed_write_mem:
  assumes "nrf52_device D mem" and "a \<noteq> NRF52_NVMC_REG_ERASEALL"
    and "flash_regs \<union> cells a (length ws) \<subseteq> X" and "insert (Memap_write a ws) config_writes \<subseteq> cs"
  shows "framed mem X cs w (nrf52swd_write_mem D a ws w)"
  unfolding nrf52swd_write_mem_def nrf52swd_write_reg_def
  using assms by (intro framed_and_when framed_wait framed_memap_write) (auto simp: config_writes_def)

lemma nrf52_device_config:
  "nrf52_device D mem \<Longrightarrow> fst (libswd_memap_write_int_32 D NRF52_NVMC_REG_CONFIG [v] d) \<Longrightarrow>
   mem (snd (libswd_memap_write_int_32 D NRF52_NVMC_REG_CONFIG [v] d)) NRF52_NVMC_REG_CONFIG = v"
  unfolding nrf52_device_def by blast

lemma memap_write_config:
  "nrf52_device D mem \<Longrightarrow> memap_write D NRF52_NVMC_REG_CONFIG [v] w = (True, w') \<Longrightarrow>
   mem (w_device w') NRF52_NVMC_REG_CONFIG = v"
  using nrf52_device_config [of D mem v "w_device w"]
  by (auto simp: memap_write_def on_device_def split: prod.splits)

lemma memap_write_stores:
  assumes "nrf52_device D mem" and "memap_write D a ws w = (True, w')" and "length ws \<le> 64"
    and "mem (w_device w) NRF52_NVMC_REG_CONFIG = NRF52_NVMC_REG_CONFIG__WEN_WEN"
    and "flash_regs \<inter> cells a (length ws) = {}"
    and "words_at (mem (w_device w)) a (length ws) = replicate (length ws) erased_word"
  shows "words_at (mem (w_device w')) a (length ws) = ws"
proof -
  have "fst (libswd_memap_write_int_32 D a ws (w_device w))"
    and "w_device w' = snd (libswd_memap_write_int_32 D a ws (w_device w))"
    using assms(2) by (auto simp: memap_write_def on_device_def split: prod.splits)
  with assms(1,3-6) show ?thesis by (simp add: nrf52_device_def)
qed

lemma nrf52swd_write_mem_stores:
  assumes dev: "nrf52_device D mem" and run: "nrf52swd_write_mem D a ws w = Some (True, w')"
    and len: "length ws \<le> 64" and reg: "flash_regs \<inter> cells a (length ws) = {}"
    and erased: "words_at (mem (w_device w)) a (length ws) = replicate (length ws) erased_word"
  shows "words_at (mem (w_device w')) a (length ws) = ws"
proof -
  let ?W = "nrf51swd_nvmc_wait_while_busy D"
  let ?C = "memap_write D NRF52_NVMC_REG_CONFIG"
  obtain w1 w2 w3 w4 where steps: "?W w = Some (True, w1)"
      "?C [NRF52_NVMC_REG_CONFIG__WEN_WEN] w1 = (True, w2)"
      "memap_write D a ws w2 = (True, w3)" "?W w3 = Some (True, w4)"
      "?C [NRF52_NVMC_REG_CONFIG__WEN_REN] w4 = (True, w')"
    using run unfolding nrf52swd_write_mem_def nrf52swd_write_reg_def and_when_True by auto
  have wait: "swd_frame mem flash_regs UNIV v v'" if "?W v = Some (True, v')" for v v'
    by (rule framedD [OF framed_wait [OF dev] that]) simp
  have config: "swd_frame mem flash_regs UNIV v v'" if "?C [x] v = (True, v')" for v v' x
    by (rule framedD [OF framed_memap_write [OF dev], of NRF52_NVMC_REG_CONFIG "[x]" _ _ _ True])
      (simp_all add: that)
  have "words_at (mem (w_device w2)) a (length ws) = words_at (mem (w_device w)) a (length ws)"
    using swd_frame_words [OF swd_frame_trans [OF wait [OF steps(1)] config [OF steps(2)]] reg] .
  then have "words_at (mem (w_device w3)) a (length ws) = ws"
    using memap_write_stores [OF dev steps(3) len memap_write_config [OF dev steps(2)] reg] erased by simp
  then show ?thesis
    using swd_frame_words [OF swd_frame_trans [OF wait [OF steps(4)] config [OF steps(5)]] reg] by simp
qed

lemma nrf52swd_read_mem_spec:
  assumes "nrf52_device D mem" and "nrf52swd_read_mem D a n w = (r, w')"
  shows "swd_frame mem {NRF52_NVMC_REG_READY} {} w w'"
    and "r = Some ws \<Longrightarrow> NRF52_NVMC_REG_READY \<notin> cells a n \<Longrightarrow> ws = words_at (mem (w_device w)) a n"
proof -
  have r: "r = fst (libswd_memap_read_int_32 D a n (w_device w))"
    and w': "w_device w' = snd (libswd_memap_read_int_32 D a n (w_device w))" "w_calls w' = w_calls w"
    using assms(2) by (auto simp: nrf52swd_read_mem_def on_device_def split: prod.splits)
  from assms(1) w' show "swd_frame mem {NRF52_NVMC_REG_READY} {} w w'"
    by (simp add: swd_frame_def nrf52_device_def)
  from assms(1) r show "r = Some ws \<Longrightarrow> NRF52_NVMC_REG_READY \<notin> cells a n \<Longrightarrow> ws = words_at (mem (w_device w)) a n"
    by (auto simp: nrf52_device_def)
qed

section \<open>The resources of the port\<close>

text \<open>The flags and the counter of the switch agree with the driver calls made so far.\<close>

definition port_inv :: "'d swd_world \<Rightarrow> bool" where
  "port_inv w \<longleftrightarrow>
     count_list (w_calls w) (Spi_bus_initialize True) =
       count_list (w_calls w) Spi_bus_free + of_bool (g_nrf52swd_is_spi_initialized w) \<and>
     count_list (w_calls w) (Spi_bus_add_device True) =
       count_list (w_calls w) Spi_bus_remove_device + of_bool (g_nrf52swd_is_spi_device_added w) \<and>
     count_list (w_calls w) (Libswd_init True) =
       count_list (w_calls w) Libswd_deinit + of_bool (gp_nrf52swd_libswd_ctx w) \<and>
     count_list (w_calls w) (Gpio_switch_level True) =
       count_list (w_calls w) (Gpio_switch_level False) + of_bool (g_switch_ctrl_cnt w \<noteq> 0)"

definition port_closed :: "'d swd_world \<Rightarrow> bool" where
  "port_closed w \<longleftrightarrow> \<not> gp_nrf52swd_libswd_ctx w \<and> \<not> g_nrf52swd_is_spi_initialized w \<and>
     \<not> g_nrf52swd_is_spi_device_added w \<and> \<not> g_nrf52swd_switch_ctrl_activated w"

definition port_open :: "'d swd_world \<Rightarrow> bool" where
  "port_open w \<longleftrightarrow> gp_nrf52swd_libswd_ctx w \<and> g_nrf52swd_is_spi_initialized w \<and>
     g_nrf52swd_is_spi_device_added w \<and> g_nrf52swd_switch_ctrl_activated w"

lemma switch_cnt_cancel [simp]: "(c :: u32) + 1 - 1 = c"
  by simp

lemma nrf52swd_deinit_spec:
  assumes "port_inv w" and "g_nrf52swd_switch_ctrl_activated w \<Longrightarrow> g_switch_ctrl_cnt w = c + 1 \<and> g_switch_ctrl_cnt w \<noteq> 0"
    and "\<not> g_nrf52swd_switch_ctrl_activated w \<Longrightarrow> g_switch_ctrl_cnt w = c"
  shows "\<exists>w'. nrf52swd_deinit w = Some w' \<and> port_inv w' \<and> port_closed w' \<and> g_switch_ctrl_cnt w' = c"
  using assms
  by (cases "gp_nrf52swd_libswd_ctx w"; cases "g_nrf52swd_is_spi_device_added w";
      cases "g_nrf52swd_is_spi_initialized w"; cases "g_nrf52swd_switch_ctrl_activated w")
    (simp_all add: nrf52swd_deinit_def Let_def gpio_switch_ctrl_deactivate_def port_inv_def
      port_closed_def swd_call_def)

lemma port_inv_neutral [simp]:
  "port_inv (swd_call (Gpio_nreset_level b) w) = port_inv w"
  "port_inv (swd_call (Gpio_config_nreset b) w) = port_inv w"
  "port_inv (swd_call (Spi_bus_initialize False) w) = port_inv w"
  "port_inv (swd_call (Spi_bus_add_device False) w) = port_inv w"
  "port_inv (swd_call (Libswd_init False) w) = port_inv w"
  "port_inv (w\<lparr>w_device := d\<rparr>) = port_inv w"
  "port_inv (w\<lparr>g_nrf52swd_is_gpio_cfg_nreset_initialized := b\<rparr>) = port_inv w"
  "port_inv (w\<lparr>g_nrf52swd_switch_ctrl_activated := b\<rparr>) = port_inv w"
  by (simp_all add: port_inv_def swd_call_def)

lemma port_inv_acquire:
  "\<not> g_nrf52swd_is_spi_initialized w \<Longrightarrow>
   port_inv ((swd_call (Spi_bus_initialize True) w)\<lparr>g_nrf52swd_is_spi_initialized := True\<rparr>) = port_inv w"
  "\<not> g_nrf52swd_is_spi_device_added w \<Longrightarrow>
   port_inv ((swd_call (Spi_bus_add_device True) w)\<lparr>g_nrf52swd_is_spi_device_added := True\<rparr>) = port_inv w"
  "\<not> gp_nrf52swd_libswd_ctx w \<Longrightarrow>
   port_inv ((swd_call (Libswd_init b) w)\<lparr>gp_nrf52swd_libswd_ctx := b\<rparr>) = port_inv w"
  "g_switch_ctrl_cnt w + 1 \<noteq> 0 \<Longrightarrow> port_inv (gpio_switch_ctrl_activate w) = port_inv w"
  by (auto simp: port_inv_def swd_call_def gpio_switch_ctrl_activate_def Let_def)

text \<open>The fields that decide the course of the initialisation.\<close>

lemma swd_call_fields [simp]:
  "gp_nrf52swd_libswd_ctx (swd_call e w) = gp_nrf52swd_libswd_ctx w"
  "g_nrf52swd_is_spi_initialized (swd_call e w) = g_nrf52swd_is_spi_initialized w"
  "g_nrf52swd_is_spi_device_added (swd_call e w) = g_nrf52swd_is_spi_device_added w"
  "g_nrf52swd_switch_ctrl_activated (swd_call e w) = g_nrf52swd_switch_ctrl_activated w"
  "g_switch_ctrl_cnt (swd_call e w) = g_switch_ctrl_cnt w"
  by (simp_all add: swd_call_def)

lemma switch_activate_fields [simp]:
  "gp_nrf52swd_libswd_ctx (gpio_switch_ctrl_activate w) = gp_nrf52swd_libswd_ctx w"
  "g_nrf52swd_is_spi_initialized (gpio_switch_ctrl_activate w) = g_nrf52swd_is_spi_initialized w"
  "g_nrf52swd_is_spi_device_added (gpio_switch_ctrl_activate w) = g_nrf52swd_is_spi_device_added w"
  "g_nrf52swd_switch_ctrl_activated (gpio_switch_ctrl_activate w) = g_nrf52swd_switch_ctrl_activated w"
  "g_switch_ctrl_cnt (gpio_switch_ctrl_activate w) = g_switch_ctrl_cnt w + 1"
  by (simp_all add: gpio_switch_ctrl_activate_def Let_def)

text \<open>A port that is being opened: at most the resources that the flags name are held.\<close>

definition port_opening :: "u32 \<Rightarrow> 'd swd_world \<Rightarrow> bool" where
  "port_opening c w \<longleftrightarrow> port_inv w \<and>
     g_switch_ctrl_cnt w = (if g_nrf52swd_switch_ctrl_activated w then c + 1 else c)"

lemma gpio_init_opening:
  assumes "port_inv w" and "port_closed w" and "g_switch_ctrl_cnt w = c" and "c + 1 \<noteq> 0"
    and "nrf52swd_gpio_init B w = (ok, w')"
  shows "port_opening c w' \<and> \<not> gp_nrf52swd_libswd_ctx w' \<and> \<not> g_nrf52swd_is_spi_initialized w' \<and>
    \<not> g_nrf52swd_is_spi_device_added w' \<and> g_nrf52swd_switch_ctrl_activated w' = ok"
  using assms
  by (auto simp: nrf52swd_gpio_init_def nrf52swd_init_gpio_cfg_nreset_def Let_def port_opening_def
    port_closed_def port_inv_acquire split: if_splits)

lemma on_device_fields [simp]:
  "port_inv (snd (on_device f w)) = port_inv w"
  "gp_nrf52swd_libswd_ctx (snd (on_device f w)) = gp_nrf52swd_libswd_ctx w"
  "g_nrf52swd_is_spi_initialized (snd (on_device f w)) = g_nrf52swd_is_spi_initialized w"
  "g_nrf52swd_is_spi_device_added (snd (on_device f w)) = g_nrf52swd_is_spi_device_added w"
  "g_nrf52swd_switch_ctrl_activated (snd (on_device f w)) = g_nrf52swd_switch_ctrl_activated w"
  "g_switch_ctrl_cnt (snd (on_device f w)) = g_switch_ctrl_cnt w"
  by (simp_all add: on_device_def split: prod.split)

lemma nrf52swd_init_internal_spec:
  assumes "port_inv w" and "port_closed w" and "g_switch_ctrl_cnt w = c" and "c + 1 \<noteq> 0"
    and run: "nrf52swd_init_internal D B w = (ok, w')"
  shows "port_opening c w' \<and> (ok \<longrightarrow> port_open w')"
proof -
  obtain ok1 w1 where gpio: "nrf52swd_gpio_init B w = (ok1, w1)" by fastforce
  note w1 = gpio_init_opening [OF assms(1-4) gpio]
  show ?thesis
  proof (cases ok1)
    case False
    with run w1 gpio show ?thesis by (simp add: nrf52swd_init_internal_def)
  next
    case True
    define w2 where "w2 = swd_call (Spi_bus_initialize (b_spi_bus_initialize B)) (swd_call (Gpio_nreset_level True) w1)"
    define w3 where "w3 = swd_call (Spi_bus_add_device (b_spi_bus_add_device B)) (w2\<lparr>g_nrf52swd_is_spi_initialized := True\<rparr>)"
    define w4 where "w4 = (swd_call (Libswd_init (b_libswd_init B)) (w3\<lparr>g_nrf52swd_is_spi_device_added := True\<rparr>))
      \<lparr>gp_nrf52swd_libswd_ctx := b_libswd_init B\<rparr>"
    have "nrf52swd_init_internal D B w = (if \<not> b_spi_bus_initialize B then (False, w2)
        else if \<not> b_spi_bus_add_device B then (False, w3)
        else if \<not> b_libswd_init B then (False, w4) else on_device (libswd_debug_init D) w4)"
      using gpio True by (simp add: nrf52swd_init_internal_def nrf52swd_reset_def nrf52swd_init_spi_init_def
        nrf52swd_init_spi_add_device_def nrf52swd_libswd_debug_init_def w2_def w3_def w4_def)
    with run have res: "(ok, w') = (if \<not> b_spi_bus_initialize B then (False, w2)
        else if \<not> b_spi_bus_add_device B then (False, w3)
        else if \<not> b_libswd_init B then (False, w4) else on_device (libswd_debug_init D) w4)"
      by simp
    have w2: "port_opening c w2" if "\<not> b_spi_bus_initialize B" using w1 that by (simp add: w2_def port_opening_def)
    have inv2: "port_inv (w2\<lparr>g_nrf52swd_is_spi_initialized := True\<rparr>)" if "b_spi_bus_initialize B"
      using w1 that port_inv_acquire(1) [of "swd_call (Gpio_nreset_level True) w1"]
      by (simp add: w2_def port_opening_def)
    have inv3: "port_inv w3" if "b_spi_bus_initialize B" "\<not> b_spi_bus_add_device B"
      using inv2 that by (simp add: w3_def)
    have inv4: "port_inv w4" if "b_spi_bus_initialize B" "b_spi_bus_add_device B"
      using inv2 w1 that port_inv_acquire(2) [of "w2\<lparr>g_nrf52swd_is_spi_initialized := True\<rparr>"]
        port_inv_acquire(3) [of "w3\<lparr>g_nrf52swd_is_spi_device_added := True\<rparr>" "b_libswd_init B"]
      by (simp add: w4_def w3_def w2_def)
    have "w' = snd (on_device (libswd_debug_init D) w4)"
      if "b_spi_bus_initialize B" "b_spi_bus_add_device B" "b_libswd_init B"
      using res that by (simp add: prod_eq_iff)
    with res w1 True w2 inv3 inv4 show ?thesis
      by (auto simp: port_opening_def port_open_def w2_def w3_def w4_def split: if_splits)
  qed
qed

text \<open>Opening and closing the debug port never leaks and never fails an assertion. From a closed
  port whose driver calls are balanced, \<open>nrf52swd_init\<close> returns, whatever calls fail. If it returns
  true, the switch is on for one more user and the bus, the device and the library context are held.
  If it returns false, every resource it took has been given back, in particular the switch counter
  is as before. \<open>nrf52swd_deinit\<close> after it returns and leaves the port closed with all driver calls
  balanced: each successful bus initialisation, device registration and library context has been
  released exactly once, and the switch is on exactly while it has users.\<close>

theorem nrf52swd_init_deinit_balanced:
  assumes "port_inv w" and "port_closed w" and "g_switch_ctrl_cnt w + 1 \<noteq> 0"
  shows "\<exists>ok w' w''. nrf52swd_init D B w = Some (ok, w') \<and> port_inv w' \<and>
    (if ok then port_open w' \<and> g_switch_ctrl_cnt w' = g_switch_ctrl_cnt w + 1
     else port_closed w' \<and> g_switch_ctrl_cnt w' = g_switch_ctrl_cnt w) \<and>
    nrf52swd_deinit w' = Some w'' \<and> port_inv w'' \<and> port_closed w'' \<and>
    g_switch_ctrl_cnt w'' = g_switch_ctrl_cnt w"
proof -
  define c where "c = g_switch_ctrl_cnt w"
  obtain ok w1 where run: "nrf52swd_init_internal D B w = (ok, w1)" by fastforce
  have w1: "port_opening c w1" "ok \<Longrightarrow> port_open w1"
    using nrf52swd_init_internal_spec [OF assms(1,2) c_def [symmetric] _ run] assms(3) by (auto simp: c_def)
  have close: "\<exists>v. nrf52swd_deinit u = Some v \<and> port_inv v \<and> port_closed v \<and> g_switch_ctrl_cnt v = c"
    if "port_opening c u" for u :: "'a swd_world"
    using nrf52swd_deinit_spec [of u c] that assms(3) by (auto simp: port_opening_def c_def)
  from close [OF w1(1)] obtain v where v: "nrf52swd_deinit w1 = Some v" "port_inv v" "port_closed v"
    "g_switch_ctrl_cnt v = c" by blast
  show ?thesis
  proof (cases ok)
    case True
    with run v w1 show ?thesis by (auto simp: nrf52swd_init_def port_opening_def port_open_def c_def)
  next
    case False
    have "port_opening c v" using v by (simp add: port_opening_def port_closed_def)
    from close [OF this] False run v show ?thesis by (auto simp: nrf52swd_init_def c_def)
  qed
qed

text \<open>A closed port to the simulated chip.\<close>

definition sim_world :: "(u32 \<Rightarrow> u32) swd_world" where
  "sim_world = \<lparr>w_device = (\<lambda>_. 0), gp_nrf52swd_libswd_ctx = False,
     g_nrf52swd_is_gpio_cfg_nreset_initialized = False, g_nrf52swd_is_spi_initialized = False,
     g_nrf52swd_is_spi_device_added = False, g_nrf52swd_switch_ctrl_activated = False,
     g_switch_ctrl_cnt = 0, w_calls = []\<rparr>"

theorem nrf52swd_init_deinit_balanced_witness:
  "\<exists>w'. nrf52swd_init sim_nrf52 \<lparr>b_gpio_config = True, b_gpio_set_level = True, b_spi_bus_initialize = True,
      b_spi_bus_add_device = False, b_libswd_init = True\<rparr> sim_world = Some (False, w') \<and>
    port_closed w' \<and> g_switch_ctrl_cnt w' = 0"
proof -
  let ?B = "\<lparr>b_gpio_config = True, b_gpio_set_level = True, b_spi_bus_initialize = True,
      b_spi_bus_add_device = False, b_libswd_init = True\<rparr>"
  have "\<not> fst (nrf52swd_init_internal sim_nrf52 ?B sim_world)"
    by (simp add: nrf52swd_init_internal_def nrf52swd_gpio_init_def nrf52swd_init_gpio_cfg_nreset_def
      sim_world_def nrf52swd_reset_def nrf52swd_init_spi_init_def nrf52swd_init_spi_add_device_def)
  then have no: "nrf52swd_init sim_nrf52 ?B sim_world \<noteq> Some (True, w')" for w'
    by (auto simp: nrf52swd_init_def split: prod.splits bind_splits)
  have "port_inv sim_world" "port_closed sim_world" "g_switch_ctrl_cnt sim_world + 1 \<noteq> 0"
    by (simp_all add: port_inv_def port_closed_def sim_world_def)
  from nrf52swd_init_deinit_balanced [OF this, of sim_nrf52 ?B] no show ?thesis
    by (auto simp: sim_world_def split: if_splits)
qed

text \<open>C28: Waiting for the flash controller. \<open>nrf51swd_nvmc_wait_while_busy\<close> returns exactly when some read of the READY register
  through the debug port fails or finds the controller ready, and then after the first such read, having read no further; its result
  is true exactly when that read found the controller ready, and false when it failed. A controller that always answers and never becomes
  ready keeps the caller in the loop for ever: there is no time limit.\<close>

theorem nvmc_wait_terminates:
  "(nrf51swd_nvmc_wait_while_busy D w = None \<longleftrightarrow>
      (\<forall>k. \<exists>v. polled_ready D w k = Some v \<and> v AND NRF52_NVMC_REG_READY__MASK = 0)) \<and>
   (\<forall>r w'. nrf51swd_nvmc_wait_while_busy D w = Some (r, w') \<longrightarrow>
      (\<exists>k. (\<forall>i < k. \<exists>v. polled_ready D w i = Some v \<and> v AND NRF52_NVMC_REG_READY__MASK = 0) \<and> w' = (poll D ^^ Suc k) w \<and>
        (case polled_ready D w k of None \<Rightarrow> \<not> r | Some v \<Rightarrow> v AND NRF52_NVMC_REG_READY__MASK \<noteq> 0 \<and> r)))"
proof -
  have busy: "\<not> poll_stops D ((poll D ^^ k) w) \<longleftrightarrow> (\<exists>v. polled_ready D w k = Some v \<and> v AND NRF52_NVMC_REG_READY__MASK = 0)" for k
    by (cases "polled_ready D w k") (auto simp: poll_stops_def ready_or_failed_def polled_ready_def)
  show ?thesis
  proof (intro conjI allI impI)
    show "nrf51swd_nvmc_wait_while_busy D w = None \<longleftrightarrow>
        (\<forall>k. \<exists>v. polled_ready D w k = Some v \<and> v AND NRF52_NVMC_REG_READY__MASK = 0)"
      unfolding busy [symmetric] using nvmc_wait_returns [of D w] by blast
  next
    fix r w' assume "nrf51swd_nvmc_wait_while_busy D w = Some (r, w')"
    from nvmc_wait_some [OF this] obtain k where k: "poll_stops D ((poll D ^^ k) w)" "\<forall>i < k. \<not> poll_stops D ((poll D ^^ i) w)"
      "w' = (poll D ^^ Suc k) w" "r = snd (fst (nrf51swd_nvmc_is_ready_or_err D ((poll D ^^ k) w)))" by blast
    have "case polled_ready D w k of None \<Rightarrow> \<not> r | Some v \<Rightarrow> v AND NRF52_NVMC_REG_READY__MASK \<noteq> 0 \<and> r"
      using k(1,4) by (auto simp: poll_code poll_stops_def ready_or_failed_def polled_ready_def split: option.splits)
    with k(2,3) show "\<exists>k. (\<forall>i < k. \<exists>v. polled_ready D w i = Some v \<and> v AND NRF52_NVMC_REG_READY__MASK = 0) \<and> w' = (poll D ^^ Suc k) w \<and>
        (case polled_ready D w k of None \<Rightarrow> \<not> r | Some v \<Rightarrow> v AND NRF52_NVMC_REG_READY__MASK \<noteq> 0 \<and> r)"
      unfolding busy by blast
  qed
qed

text \<open>The simulated chip is ready at once, one that does not answer ends the wait with an error, and one whose words are all 0 is never ready.\<close>

theorem nvmc_wait_terminates_witness:
  "(\<exists>w'. nrf51swd_nvmc_wait_while_busy sim_nrf52 sim_world = Some (True, w')) \<and>
   (\<exists>w'. nrf51swd_nvmc_wait_while_busy (sim_nrf52\<lparr>libswd_memap_read_int_32 := (\<lambda>_ _ d. (None, d))\<rparr>) sim_world = Some (False, w')) \<and>
   nrf51swd_nvmc_wait_while_busy (sim_nrf52\<lparr>libswd_memap_read_int_32 := (\<lambda>_ n d. (Some (replicate n 0), d))\<rparr>) sim_world = None"
  (is "?ready \<and> ?failed \<and> ?busy")
proof (intro conjI)
  have polls: "polled_ready sim_nrf52 w k = Some 1" for w k
    by (simp add: polled_ready_def nrf52swd_read_reg_def on_device_def sim_nrf52_def words_at_def)
  then have "nrf51swd_nvmc_wait_while_busy sim_nrf52 sim_world \<noteq> None"
    using nvmc_wait_terminates [of sim_nrf52 sim_world] by (simp add: NRF52_NVMC_REG_READY__MASK_def)
  then obtain r w' where run: "nrf51swd_nvmc_wait_while_busy sim_nrf52 sim_world = Some (r, w')" by auto
  with nvmc_wait_terminates [of sim_nrf52 sim_world] have r by (auto simp: polls)
  with run show ?ready by auto
next
  let ?D = "sim_nrf52\<lparr>libswd_memap_read_int_32 := (\<lambda>_ _ d. (None, d))\<rparr>"
  have polls: "polled_ready ?D w k = None" for w k
    by (simp add: polled_ready_def nrf52swd_read_reg_def on_device_def split: prod.split)
  then have "nrf51swd_nvmc_wait_while_busy ?D sim_world \<noteq> None"
    using nvmc_wait_terminates [of ?D sim_world] by simp
  then obtain r w' where run: "nrf51swd_nvmc_wait_while_busy ?D sim_world = Some (r, w')" by auto
  with nvmc_wait_terminates [of ?D sim_world] have "\<not> r" by (auto simp: polls)
  with run show ?failed by auto
next
  let ?D = "sim_nrf52\<lparr>libswd_memap_read_int_32 := (\<lambda>_ n d. (Some (replicate n 0), d))\<rparr>"
  have "polled_ready ?D w k = Some 0" for w k
    by (simp add: polled_ready_def nrf52swd_read_reg_def on_device_def)
  then show ?busy using nvmc_wait_terminates [of ?D sim_world] by simp
qed

end
