(* ===== verification/Nrf52_Fw.thy ===== *)
theory Nrf52_Fw
  imports Nrf52_Swd Gw_Cfg_Defs
begin

text \<open>
  The update of the nRF52 firmware (\<open>nrf52fw.c\<close>, \<open>nrf52_fw_ver.c\<close>): the parser of \<open>info.txt\<close>, the
  checksum test of the segment files, and the flashing over the debug port of \<open>Nrf52_Swd\<close>. A C
  string is the list of its characters without the terminator; a pointer into it is a suffix. Files
  are read from the argument \<open>E\<close>, which also has the allocation results, the callbacks, the ROM
  function \<open>crc32_le\<close> and the number parser \<open>os_str_to_uint32_cptr\<close> of a submodule, given as the value
  and the number of characters it consumes.
\<close>

section \<open>Parsing\<close>

text \<open>A parser that walks off the end of its string has the result \<open>Reads_past_end\<close>.\<close>

datatype 'a parsed = Parsed 'a | Parse_error | Reads_past_end

type_synonym str_to_uint32 = "nat \<Rightarrow> string \<Rightarrow> u32 \<times> nat"

fun strchr_pos :: "char \<Rightarrow> string \<Rightarrow> nat option" where
  "strchr_pos c [] = None"
| "strchr_pos c (x # xs) = (if x = c then Some 0 else map_option Suc (strchr_pos c xs))"

definition nrf52fw_parse_version_digit :: "str_to_uint32 \<Rightarrow> string \<Rightarrow> nat option \<Rightarrow> u8 option" where
  "nrf52fw_parse_version_digit conv s digit_end =
     (let (val, n) = conv 10 s in
      if (case digit_end of None \<Rightarrow> n \<noteq> length s | Some e \<Rightarrow> n \<noteq> e) then None
      else if val > 255 then None
      else Some (ucast val))"

definition nrf52fw_parse_digit_update_ver ::
  "str_to_uint32 \<Rightarrow> string \<Rightarrow> nat option \<Rightarrow> u32 \<Rightarrow> nat \<Rightarrow> u32 option" where
  "nrf52fw_parse_digit_update_ver conv s digit_end version byte_num =
     (case nrf52fw_parse_version_digit conv s digit_end of
        None \<Rightarrow> None
      | Some digit_val \<Rightarrow> Some (version OR push_bit (8 * byte_num) (ucast digit_val)))"

definition nrf52fw_parse_version :: "str_to_uint32 \<Rightarrow> string \<Rightarrow> u32 option" where
  "nrf52fw_parse_version conv s = do {
     (if s = [] then None else Some ());
     e \<leftarrow> strchr_pos CHR ''.'' s;
     v \<leftarrow> nrf52fw_parse_digit_update_ver conv s (Some e) 0 3;
     let s = drop (e + 1) s;
     (if s = [] then None else Some ());
     e \<leftarrow> strchr_pos CHR ''.'' s;
     v \<leftarrow> nrf52fw_parse_digit_update_ver conv s (Some e) v 2;
     let s = drop (e + 1) s;
     (if s = [] then None else Some ());
     nrf52fw_parse_digit_update_ver conv s None v 1
   }"

definition nrf52fw_parse_version_line :: "str_to_uint32 \<Rightarrow> string \<Rightarrow> u32 option" where
  "nrf52fw_parse_version_line conv s =
     (if take 3 s \<noteq> ''# v'' then None else nrf52fw_parse_version conv (drop 3 s))"

text \<open>\<open>nrf52_fw_ver_get_str\<close>: the three upper bytes in decimal.\<close>

definition version_byte :: "u32 \<Rightarrow> nat \<Rightarrow> nat" where
  "version_byte v k = unat (drop_bit (8 * k) v AND 0xFF)"

definition nrf52_fw_ver_get_str :: "u32 \<Rightarrow> string" where
  "nrf52_fw_ver_get_str v =
     ''v'' @ print_nat (version_byte v 3) @ ''.'' @ print_nat (version_byte v 2) @ ''.'' @
       print_nat (version_byte v 1)"

definition is_blank :: "char \<Rightarrow> bool" where
  "is_blank c \<longleftrightarrow> c = CHR '' '' \<or> c = CHR 0x09"

definition is_line_blank :: "char \<Rightarrow> bool" where
  "is_line_blank c \<longleftrightarrow> c = CHR 0x0A \<or> c = CHR 0x0D \<or> is_blank c"

text \<open>The loop of \<open>nrf52fw_line_rstrip\<close> over a buffer, from position \<open>len\<close> downwards.\<close>

fun rstrip_loop :: "nat \<Rightarrow> string \<Rightarrow> string" where
  "rstrip_loop 0 buf = buf"
| "rstrip_loop (Suc len) buf = (if is_line_blank (buf ! len) then rstrip_loop len (buf[len := NUL]) else buf)"

definition nrf52fw_line_rstrip :: "string \<Rightarrow> nat \<Rightarrow> string" where
  "nrf52fw_line_rstrip buf buf_size = (let buf = buf[buf_size - 1 := NUL] in rstrip_loop (length (c_str buf)) buf)"

record nrf52fw_segment =
  seg_address :: u32
  seg_size :: u32
  seg_file_name :: string
  seg_crc :: u32

text \<open>The first \<open>num_segments\<close> entries of the array of five segments.\<close>

record nrf52fw_info =
  info_fw_ver :: u32
  info_segments :: "nrf52fw_segment list"

fun skip_blanks :: "string \<Rightarrow> string" where
  "skip_blanks [] = []"
| "skip_blanks (c # cs) = (if is_blank c then skip_blanks cs else c # cs)"

text \<open>The loop to the end of the file name: it looks for a blank only.\<close>

fun find_blank :: "string \<Rightarrow> nat option" where
  "find_blank [] = None"
| "find_blank (c # cs) = (if is_blank c then Some 0 else map_option Suc (find_blank cs))"

definition nrf52fw_parse_segment_info_line :: "str_to_uint32 \<Rightarrow> string \<Rightarrow> nrf52fw_segment parsed" where
  "nrf52fw_parse_segment_info_line conv s =
     (let (segment_addr, n) = conv 16 s in
      case c_char_at s n of
        None \<Rightarrow> Reads_past_end
      | Some c \<Rightarrow>
          if \<not> is_blank c then Parse_error
          else
            let s = skip_blanks (drop n s);
                (segment_len, n) = conv 0 s in
            case c_char_at s n of
              None \<Rightarrow> Reads_past_end
            | Some c \<Rightarrow>
                if \<not> is_blank c then Parse_error
                else
                  let s = skip_blanks (drop n s) in
                  case find_blank s of
                    None \<Rightarrow> Reads_past_end
                  | Some name_len \<Rightarrow>
                      if name_len \<ge> 20 then Parse_error
                      else
                        let (segment_crc, n) = conv 16 (drop name_len s) in
                        case c_char_at (drop name_len s) n of
                          None \<Rightarrow> Reads_past_end
                        | Some c \<Rightarrow>
                            if c \<noteq> NUL then Parse_error
                            else Parsed \<lparr>seg_address = segment_addr, seg_size = segment_len,
                              seg_file_name = take name_len s, seg_crc = segment_crc\<rparr>)"

text \<open>\<open>fgets\<close>: at most \<open>n\<close> characters, up to and including a line feed.\<close>

fun fgets_line :: "nat \<Rightarrow> string \<Rightarrow> string \<times> string" where
  "fgets_line 0 t = ([], t)"
| "fgets_line (Suc n) [] = ([], [])"
| "fgets_line (Suc n) (c # t) =
     (if c = CHR 0x0A then ([c], t) else let (l, r) = fgets_line n t in (c # l, r))"

lemma fgets_line_length: "length (fst (fgets_line n t)) + length (snd (fgets_line n t)) = length t"
  by (induction n t rule: fgets_line.induct) (auto split: prod.split)

lemma fgets_line_progress: "n > 0 \<Longrightarrow> t \<noteq> [] \<Longrightarrow> fgets_line n t = (l, r) \<Longrightarrow> length r < length t"
  using fgets_line_length [of n t] by (cases n; cases t) (auto split: if_splits prod.splits)

lemma fgets_line_79: "(l, r) = fgets_line 79 t \<Longrightarrow> t \<noteq> [] \<Longrightarrow> length r < length t"
  using fgets_line_progress [of 79 t l r] by simp

text \<open>The loop over the lines; the line buffer of 80 bytes is used again for every line.\<close>

function parse_info_lines ::
  "str_to_uint32 \<Rightarrow> string \<Rightarrow> nat \<Rightarrow> nrf52fw_info \<Rightarrow> string \<Rightarrow> (nat \<times> nrf52fw_info) parsed" where
  "parse_info_lines conv line_buf line_cnt info t =
     (if t = [] then Parsed (0, info)
      else
        let (l, r) = fgets_line 79 t;
            line_cnt = line_cnt + 1;
            line_buf = nrf52fw_line_rstrip (l @ NUL # drop (length l + 1) line_buf) 80;
            s = c_str line_buf
        in if line_cnt = 1
           then (case nrf52fw_parse_version_line conv s of
                   None \<Rightarrow> Parsed (line_cnt, info)
                 | Some v \<Rightarrow> parse_info_lines conv line_buf line_cnt (info\<lparr>info_fw_ver := v\<rparr>) r)
           else if length (info_segments info) \<ge> 5 then Parsed (line_cnt, info)
           else (case nrf52fw_parse_segment_info_line conv s of
                   Parse_error \<Rightarrow> Parsed (line_cnt, info)
                 | Reads_past_end \<Rightarrow> Reads_past_end
                 | Parsed seg \<Rightarrow> parse_info_lines conv line_buf line_cnt
                     (info\<lparr>info_segments := info_segments info @ [seg]\<rparr>) r))"
  by pat_completeness auto
termination
  by (relation "measure (\<lambda>(conv, buf, cnt, info, t). length t)")
    (auto dest: fgets_line_79)

declare parse_info_lines.simps [simp del]

definition nrf52fw_parse_info_file :: "str_to_uint32 \<Rightarrow> string \<Rightarrow> string \<Rightarrow> (nat \<times> nrf52fw_info) parsed" where
  "nrf52fw_parse_info_file conv line_buf t =
     parse_info_lines conv line_buf 0 \<lparr>info_fw_ver = 0, info_segments = []\<rparr> t"

section \<open>Reading and writing segments\<close>

record fw_env =
  fe_board :: board_env
  fe_mount :: bool
  fe_alloc :: bool
  fe_text :: "string \<Rightarrow> string option"
  fe_file :: "string \<Rightarrow> u8 list option"
  fe_read_error :: "string \<Rightarrow> nat \<Rightarrow> bool"
  fe_crc32_le :: "u32 \<Rightarrow> u8 list \<Rightarrow> u32"
  fe_str_to_uint32 :: str_to_uint32
  fe_line_buf :: string
  fe_has_cb_progress :: bool
  fe_has_cb_before_updating :: bool
  fe_has_cb_after_updating :: bool
  fe_want_fw_ver :: bool

datatype fw_event = Cb_progress u32 u32 | Cb_before_updating | Cb_after_updating bool

record 'd fw_world =
  fw_swd :: "'d swd_world"
  fw_events :: "fw_event list"
  accum_num_bytes_flashed :: u32
  total_size :: u32
  p_nrf52_fw_ver :: "u32 option"

definition fw_emit :: "bool \<Rightarrow> fw_event \<Rightarrow> 'd fw_world \<Rightarrow> 'd fw_world" where
  "fw_emit has e w = (if has then w\<lparr>fw_events := fw_events w @ [e]\<rparr> else w)"

definition on_swd :: "('d swd_world \<Rightarrow> (bool \<times> 'd swd_world) option) \<Rightarrow> 'd fw_world \<Rightarrow> (bool \<times> 'd fw_world) option" where
  "on_swd f w = map_option (\<lambda>(ok, v). (ok, w\<lparr>fw_swd := v\<rparr>)) (f (fw_swd w))"

definition NRF52FW_UICR_FW_VER :: u32 where "NRF52FW_UICR_FW_VER = 0x10001000 + 0x080"
definition NRF52FW_TMP_BUF_SIZE :: nat where "NRF52FW_TMP_BUF_SIZE = 256"

definition nrf52fw_init_swd :: "'d libswd \<Rightarrow> board_env \<Rightarrow> 'd swd_world \<Rightarrow> (bool \<times> 'd swd_world) option" where
  "nrf52fw_init_swd D B w =
     and_when (nrf52swd_init D B w) (\<lambda>w.
     and_when (Some (nrf52swd_check_id_code D w)) (\<lambda>w.
     and_when (Some (nrf52swd_debug_halt D w)) (\<lambda>w.
     and_when (Some (nrf52swd_debug_enable_reset_vector_catch D w)) (\<lambda>w.
     Some (nrf52swd_debug_reset D w)))))"

definition nrf52fw_deinit_swd :: "'d swd_world \<Rightarrow> 'd swd_world option" where
  "nrf52fw_deinit_swd w = nrf52swd_deinit w"

definition nrf52fw_read_current_fw_ver :: "'d libswd \<Rightarrow> 'd fw_world \<Rightarrow> u32 option \<times> 'd fw_world" where
  "nrf52fw_read_current_fw_ver D w =
     (let (r, v) = nrf52swd_read_mem D NRF52FW_UICR_FW_VER 1 (fw_swd w) in (map_option hd r, w\<lparr>fw_swd := v\<rparr>))"

definition nrf52fw_write_current_fw_ver :: "'d libswd \<Rightarrow> u32 \<Rightarrow> 'd fw_world \<Rightarrow> (bool \<times> 'd fw_world) option" where
  "nrf52fw_write_current_fw_ver D fw_ver = on_swd (nrf52swd_write_mem D NRF52FW_UICR_FW_VER [fw_ver])"

text \<open>The words of the write buffer: the bytes of the file, little end first.\<close>

fun words_of_bytes :: "u8 list \<Rightarrow> u32 list" where
  "words_of_bytes (a # b # c # d # bs) =
     (ucast a OR push_bit 8 (ucast b) OR push_bit 16 (ucast c) OR push_bit 24 (ucast d)) # words_of_bytes bs"
| "words_of_bytes _ = []"

text \<open>\<open>nrf52fw_file_read\<close>: None is an error, an empty list the end of the file.\<close>

definition nrf52fw_file_read :: "fw_env \<Rightarrow> string \<Rightarrow> nat \<Rightarrow> u8 list \<Rightarrow> u8 list option" where
  "nrf52fw_file_read E name pos rest =
     (if fe_read_error E name pos then None else Some (take NRF52FW_TMP_BUF_SIZE rest))"

text \<open>The result is the return value and \<open>*p_offset\<close>.\<close>

definition nrf52fw_flash_write_block ::
  "'d libswd \<Rightarrow> u8 list \<Rightarrow> u32 \<Rightarrow> u32 \<Rightarrow> u32 \<Rightarrow> 'd fw_world \<Rightarrow> (bool \<times> u32 \<times> 'd fw_world) option" where
  "nrf52fw_flash_write_block D buf segment_addr segment_len p_offset w =
     (let addr = segment_addr + p_offset;
          len = length buf in
      if len mod 4 \<noteq> 0 then Some (False, p_offset, w)
      else let p_offset = p_offset + word_of_nat len in
      if p_offset > segment_len then Some (False, p_offset, w)
      else map_option (\<lambda>(ok, w). (ok, p_offset, w))
        (and_when (on_swd (nrf52swd_write_mem D addr (words_of_bytes buf)) w) (\<lambda>w.
         let (r, v) = nrf52swd_read_mem D addr (len div 4) (fw_swd w) in
         Some (r = Some (words_of_bytes buf), w\<lparr>fw_swd := v\<rparr>))))"

text \<open>The loop of \<open>nrf52fw_flash_write_segment\<close>, on the rest of the file behind \<open>pos\<close>.\<close>

function write_segment_loop ::
  "'d libswd \<Rightarrow> fw_env \<Rightarrow> string \<Rightarrow> u32 \<Rightarrow> u32 \<Rightarrow> nat \<Rightarrow> u32 \<Rightarrow> u8 list \<Rightarrow> 'd fw_world \<Rightarrow> (bool \<times> 'd fw_world) option" where
  "write_segment_loop D E name addr len pos offset rest w =
     (case nrf52fw_file_read E name pos rest of
        None \<Rightarrow> Some (False, w)
      | Some buf \<Rightarrow>
          if buf = [] then Some (True, w)
          else (case nrf52fw_flash_write_block D buf addr len offset w of
              None \<Rightarrow> None
            | Some (ok, offset, w) \<Rightarrow>
                if \<not> ok then Some (False, w)
                else
                  let w = w\<lparr>accum_num_bytes_flashed := accum_num_bytes_flashed w + word_of_nat (length buf)\<rparr>;
                      w = fw_emit (fe_has_cb_progress E) (Cb_progress (accum_num_bytes_flashed w) (total_size w)) w
                  in write_segment_loop D E name addr len (pos + length buf) offset (drop (length buf) rest) w))"
  by pat_completeness auto
termination
  by (relation "measure (\<lambda>(D, E, name, addr, len, pos, offset, rest, w). length rest)")
    (auto simp: nrf52fw_file_read_def split: if_splits)

declare write_segment_loop.simps [simp del]

definition nrf52fw_write_segment_from_file ::
  "'d libswd \<Rightarrow> fw_env \<Rightarrow> nrf52fw_segment \<Rightarrow> 'd fw_world \<Rightarrow> (bool \<times> 'd fw_world) option" where
  "nrf52fw_write_segment_from_file D E seg w =
     (case fe_file E (seg_file_name seg) of
        None \<Rightarrow> Some (False, w)
      | Some bytes \<Rightarrow>
          write_segment_loop D E (seg_file_name seg) (seg_address seg) (seg_size seg) 0 0 bytes w)"

fun write_segments ::
  "'d libswd \<Rightarrow> fw_env \<Rightarrow> nrf52fw_segment list \<Rightarrow> 'd fw_world \<Rightarrow> (bool \<times> 'd fw_world) option" where
  "write_segments D E [] w = Some (True, w)"
| "write_segments D E (seg # segs) w =
     and_when (nrf52fw_write_segment_from_file D E seg w) (write_segments D E segs)"

text \<open>The version register is written when the image has not written it, otherwise compared.\<close>

definition set_or_check_fw_ver :: "'d libswd \<Rightarrow> nrf52fw_info \<Rightarrow> 'd fw_world \<Rightarrow> (bool \<times> 'd fw_world) option" where
  "set_or_check_fw_ver D info w =
     (let (r, w) = nrf52fw_read_current_fw_ver D w in
      case r of
        None \<Rightarrow> Some (False, w)
      | Some fw_ver \<Rightarrow>
          if fw_ver = 0xFFFFFFFF then nrf52fw_write_current_fw_ver D (info_fw_ver info) w
          else Some (fw_ver = info_fw_ver info, w))"

definition nrf52fw_flash_write_firmware ::
  "'d libswd \<Rightarrow> fw_env \<Rightarrow> nrf52fw_info \<Rightarrow> 'd fw_world \<Rightarrow> (bool \<times> 'd fw_world) option" where
  "nrf52fw_flash_write_firmware D E info w =
     and_when (on_swd (nrf52swd_erase_all D) w) (\<lambda>w.
     let w = w\<lparr>accum_num_bytes_flashed := 0, total_size := sum_list (map seg_size (info_segments info))\<rparr> in
     and_when (write_segments D E (info_segments info) w) (set_or_check_fw_ver D info))"

section \<open>Checking the segments\<close>

function calc_segment_crc_loop ::
  "fw_env \<Rightarrow> string \<Rightarrow> u32 \<Rightarrow> nat \<Rightarrow> u32 \<Rightarrow> u32 \<Rightarrow> u8 list \<Rightarrow> u32 option" where
  "calc_segment_crc_loop E name len pos offset crc rest =
     (case nrf52fw_file_read E name pos rest of
        None \<Rightarrow> None
      | Some buf \<Rightarrow>
          if buf = [] then Some crc
          else if length buf mod 4 \<noteq> 0 then None
          else let offset = offset + word_of_nat (length buf) in
          if offset > len then None
          else calc_segment_crc_loop E name len (pos + length buf) offset (fe_crc32_le E crc buf)
                 (drop (length buf) rest))"
  by pat_completeness auto
termination
  by (relation "measure (\<lambda>(E, name, len, pos, offset, crc, rest). length rest)")
    (auto simp: nrf52fw_file_read_def split: if_splits)

declare calc_segment_crc_loop.simps [simp del]

definition nrf52fw_calc_segment_crc :: "fw_env \<Rightarrow> string \<Rightarrow> u32 \<Rightarrow> u8 list \<Rightarrow> u32 option" where
  "nrf52fw_calc_segment_crc E name len bytes = calc_segment_crc_loop E name len 0 0 0 bytes"

definition nrf52fw_check_fw_segment_crc :: "fw_env \<Rightarrow> nrf52fw_segment \<Rightarrow> bool" where
  "nrf52fw_check_fw_segment_crc E seg =
     (case fe_file E (seg_file_name seg) of
        None \<Rightarrow> False
      | Some bytes \<Rightarrow>
          (case nrf52fw_calc_segment_crc E (seg_file_name seg) (seg_size seg) bytes of
             None \<Rightarrow> False
           | Some crc \<Rightarrow> seg_crc seg = crc))"

fun check_segments :: "fw_env \<Rightarrow> nrf52fw_segment list \<Rightarrow> bool" where
  "check_segments E [] = True"
| "check_segments E (seg # segs) = (if \<not> nrf52fw_check_fw_segment_crc E seg then False else check_segments E segs)"

definition nrf52fw_check_firmware :: "fw_env \<Rightarrow> nrf52fw_info \<Rightarrow> bool" where
  "nrf52fw_check_firmware E info = check_segments E (info_segments info)"

section \<open>The update\<close>

definition nrf52fw_read_info_txt :: "fw_env \<Rightarrow> string \<Rightarrow> nrf52fw_info option parsed" where
  "nrf52fw_read_info_txt E path =
     (case fe_text E path of
        None \<Rightarrow> Parsed None
      | Some t \<Rightarrow>
          (case nrf52fw_parse_info_file (fe_str_to_uint32 E) (fe_line_buf E) t of
             Parsed (err_line_num, info) \<Rightarrow> Parsed (if err_line_num \<noteq> 0 then None else Some info)
           | Parse_error \<Rightarrow> Parse_error
           | Reads_past_end \<Rightarrow> Reads_past_end))"

text \<open>Storing the current version through the pointer of the caller, unless it is NULL.\<close>

definition report_fw_ver :: "fw_env \<Rightarrow> u32 \<Rightarrow> 'd fw_world \<Rightarrow> 'd fw_world" where
  "report_fw_ver E v w = (if fe_want_fw_ver E then w\<lparr>p_nrf52_fw_ver := Some v\<rparr> else w)"

definition reread_fw_ver :: "'d libswd \<Rightarrow> fw_env \<Rightarrow> 'd fw_world \<Rightarrow> 'd fw_world" where
  "reread_fw_ver D E w =
     (if fe_want_fw_ver E
      then (let (r, w) = nrf52fw_read_current_fw_ver D w in
            case r of None \<Rightarrow> w | Some v \<Rightarrow> w\<lparr>p_nrf52_fw_ver := Some v\<rparr>)
      else w)"

text \<open>A failure after the update has begun.\<close>

definition update_failed :: "'d libswd \<Rightarrow> fw_env \<Rightarrow> 'd fw_world \<Rightarrow> bool \<times> 'd fw_world" where
  "update_failed D E w =
     (False, fw_emit (fe_has_cb_after_updating E) (Cb_after_updating False) (reread_fw_ver D E w))"

text \<open>None is a wait for ever, or a read past the end of a line of \<open>info.txt\<close>.\<close>

definition nrf52fw_update_fw_step3 :: "'d libswd \<Rightarrow> fw_env \<Rightarrow> 'd fw_world \<Rightarrow> (bool \<times> 'd fw_world) option" where
  "nrf52fw_update_fw_step3 D E w =
     (case nrf52fw_read_info_txt E ''info.txt'' of
        Parse_error \<Rightarrow> None
      | Reads_past_end \<Rightarrow> None
      | Parsed None \<Rightarrow> Some (False, w)
      | Parsed (Some info) \<Rightarrow>
          (let (r, w) = nrf52fw_read_current_fw_ver D w in
           case r of
             None \<Rightarrow> Some (False, w)
           | Some cur \<Rightarrow>
               let w = report_fw_ver E cur w in
               if cur = info_fw_ver info then Some (True, w)
               else
                 let w = fw_emit (fe_has_cb_before_updating E) Cb_before_updating w in
                 if \<not> nrf52fw_check_firmware E info then Some (update_failed D E w)
                 else
                   (case nrf52fw_flash_write_firmware D E info w of
                      None \<Rightarrow> None
                    | Some (False, w) \<Rightarrow> Some (update_failed D E w)
                    | Some (True, w) \<Rightarrow>
                        (let (r, w) = nrf52fw_read_current_fw_ver D w in
                         case r of
                           None \<Rightarrow>
                             Some (False, fw_emit (fe_has_cb_after_updating E) (Cb_after_updating False)
                               (report_fw_ver E cur w))
                         | Some cur \<Rightarrow>
                             Some (True, report_fw_ver E cur
                               (fw_emit (fe_has_cb_after_updating E) (Cb_after_updating True) w))))))"

definition nrf52fw_update_fw_step2 :: "'d libswd \<Rightarrow> fw_env \<Rightarrow> 'd fw_world \<Rightarrow> (bool \<times> 'd fw_world) option" where
  "nrf52fw_update_fw_step2 D E w =
     (if \<not> fe_alloc E then Some (False, w) else nrf52fw_update_fw_step3 D E w)"

definition nrf52fw_update_fw_step1 :: "'d libswd \<Rightarrow> fw_env \<Rightarrow> 'd fw_world \<Rightarrow> (bool \<times> 'd fw_world) option" where
  "nrf52fw_update_fw_step1 D E w =
     (if \<not> fe_mount E then Some (False, w) else nrf52fw_update_fw_step2 D E w)"

definition nrf52fw_update_fw_step0 :: "'d libswd \<Rightarrow> fw_env \<Rightarrow> 'd fw_world \<Rightarrow> (bool \<times> 'd fw_world) option" where
  "nrf52fw_update_fw_step0 D E w =
     and_when (on_swd (nrf52fw_init_swd D (fe_board E)) w) (\<lambda>w. do {
       (ok, w) \<leftarrow> nrf52fw_update_fw_step1 D E w;
       (ok, w) \<leftarrow> (if ok then on_swd (\<lambda>v. Some (nrf52swd_debug_run D v)) w else Some (ok, w));
       v \<leftarrow> nrf52fw_deinit_swd (fw_swd w);
       Some (ok, w\<lparr>fw_swd := v\<rparr>)
     })"

definition nrf52fw_hw_reset_nrf52 :: "board_env \<Rightarrow> bool \<Rightarrow> 'd swd_world \<Rightarrow> 'd swd_world option" where
  "nrf52fw_hw_reset_nrf52 B flag_reset w =
     (let (_, w) = nrf52swd_init_gpio_cfg_nreset B w;
          w = (if flag_reset then gpio_switch_ctrl_activate w else w);
          (_, w) = nrf52swd_reset B flag_reset w
      in if \<not> flag_reset then gpio_switch_ctrl_deactivate w else Some w)"

definition nrf52fw_update_fw_if_necessary ::
  "'d libswd \<Rightarrow> fw_env \<Rightarrow> 'd fw_world \<Rightarrow> (bool \<times> 'd fw_world) option" where
  "nrf52fw_update_fw_if_necessary D E w = do {
     v \<leftarrow> nrf52fw_hw_reset_nrf52 (fe_board E) True (fw_swd w);
     v \<leftarrow> nrf52fw_hw_reset_nrf52 (fe_board E) False v;
     (res, w) \<leftarrow> nrf52fw_update_fw_step0 D E (w\<lparr>fw_swd := v\<rparr>);
     v \<leftarrow> nrf52fw_hw_reset_nrf52 (fe_board E) True (fw_swd w);
     v \<leftarrow> nrf52fw_hw_reset_nrf52 (fe_board E) False v;
     Some (res, w\<lparr>fw_swd := v\<rparr>)
   }"

definition nrf52fw_software_reset :: "'d libswd \<Rightarrow> board_env \<Rightarrow> 'd swd_world \<Rightarrow> (bool \<times> 'd swd_world) option" where
  "nrf52fw_software_reset D B w =
     and_when (nrf52fw_init_swd D B w) (\<lambda>w.
     let (ok, w) = nrf52swd_debug_run D w in do {
       w \<leftarrow> nrf52fw_deinit_swd w;
       Some (ok, w)
     })"

section \<open>Bytes and cells\<close>

lemma words_of_bytes_append:
  "length xs mod 4 = 0 \<Longrightarrow> words_of_bytes (xs @ ys) = words_of_bytes xs @ words_of_bytes ys"
proof (induction xs rule: words_of_bytes.induct)
  case (1 a b c d bs)
  then show ?case by simp
qed auto

lemma length_words_of_bytes: "length xs mod 4 = 0 \<Longrightarrow> length (words_of_bytes xs) = length xs div 4"
proof (induction xs rule: words_of_bytes.induct)
  case (1 a b c d bs)
  then have "length bs mod 4 = 0" by simp
  with 1 show ?case by simp
qed simp_all

lemma cells_append: "cells a (m + n) = cells a m \<union> cells (a + 4 * word_of_nat m) n"
proof -
  have "(+) m ` {0..<n} = {m..<m + n}" by (simp add: add.commute)
  then have "{..<m + n} = {..<m} \<union> (+) m ` {..<n}" by (auto simp: lessThan_atLeast0)
  then show ?thesis
    by (simp add: cells_def image_Un image_image algebra_simps)
qed

lemma words_at_append:
  "words_at f a (m + n) = words_at f a m @ words_at f (a + 4 * word_of_nat m) n"
  by (rule nth_equalityI) (auto simp: words_at_def nth_append algebra_simps)

lemma cells_disjoint:
  assumes "m + n \<le> 2 ^ 30"
  shows "cells a m \<inter> cells (a + 4 * word_of_nat m) n = {}"
proof -
  have False if "i < m" and "j < n" and "a + 4 * word_of_nat i = a + 4 * word_of_nat m + 4 * word_of_nat j" for i j
  proof -
    have "a + 4 * word_of_nat i = a + 4 * word_of_nat (m + j)"
      using that(3) by (simp add: algebra_simps)
    from cell_inject [OF this] that(1,2) assms show False by auto
  qed
  then show ?thesis by (force simp: cells_def)
qed

lemma word_of_nat_four: "(word_of_nat k :: u32) = 4 * word_of_nat (k div 4)" if "k mod 4 = 0"
proof -
  have "k = 4 * (k div 4)" using that by auto
  then have "(word_of_nat k :: u32) = word_of_nat (4 * (k div 4))" by simp
  then show ?thesis by simp
qed

section \<open>Writing one block and one segment\<close>

abbreviation fw_frame :: "('d \<Rightarrow> u32 \<Rightarrow> u32) \<Rightarrow> u32 set \<Rightarrow> 'd fw_world \<Rightarrow> 'd fw_world \<Rightarrow> bool" where
  "fw_frame mem X w w' \<equiv> swd_frame mem X UNIV (fw_swd w) (fw_swd w')"

abbreviation fw_mem :: "('d \<Rightarrow> u32 \<Rightarrow> u32) \<Rightarrow> 'd fw_world \<Rightarrow> u32 \<Rightarrow> u32" where
  "fw_mem mem w \<equiv> mem (w_device (fw_swd w))"

lemma on_swd_Some: "on_swd f w = Some (ok, w') \<longleftrightarrow> (\<exists>v. f (fw_swd w) = Some (ok, v) \<and> w' = w\<lparr>fw_swd := v\<rparr>)"
  by (auto simp: on_swd_def)

lemma write_block_spec:
  fixes D :: "'d libswd"
  assumes dev: "nrf52_device D mem"
    and run: "nrf52fw_flash_write_block D buf a len off w = Some (True, off', w')"
    and buf: "buf \<noteq> []" and reg: "flash_regs \<inter> cells (a + off) (length buf div 4) = {}"
  shows "length buf mod 4 = 0" and "off' = off + word_of_nat (length buf)" and "off' \<le> len"
    and "fw_frame mem (flash_regs \<union> cells (a + off) (length buf div 4)) w w'"
    and "words_at (fw_mem mem w') (a + off) (length buf div 4) = words_of_bytes buf"
proof -
  show l4: "length buf mod 4 = 0"
    using run by (simp add: nrf52fw_flash_write_block_def Let_def split: if_splits)
  then have n: "length (words_of_bytes buf) = length buf div 4" by (rule length_words_of_bytes)
  from run l4 show "off' = off + word_of_nat (length buf)" and "off' \<le> len"
    by (auto simp: nrf52fw_flash_write_block_def Let_def split: if_splits)
  define f :: "'d fw_world \<Rightarrow> _" where "f = (\<lambda>w. let (r, v) = nrf52swd_read_mem D (a + off) (length buf div 4) (fw_swd w) in
    Some (r = Some (words_of_bytes buf), w\<lparr>fw_swd := v\<rparr>))"
  have "and_when (on_swd (nrf52swd_write_mem D (a + off) (words_of_bytes buf)) w) f = Some (True, w')"
    using run l4 by (auto simp: nrf52fw_flash_write_block_def f_def Let_def split: if_splits)
  then obtain w1 where wr: "on_swd (nrf52swd_write_mem D (a + off) (words_of_bytes buf)) w = Some (True, w1)"
      and f: "f w1 = Some (True, w')"
    by (auto simp: and_when_True)
  obtain r v where rd: "nrf52swd_read_mem D (a + off) (length buf div 4) (fw_swd w1) = (r, v)" by fastforce
  with f have r: "r = Some (words_of_bytes buf)" and w': "w' = w1\<lparr>fw_swd := v\<rparr>"
    by (simp_all add: f_def)
  have "length buf div 4 \<noteq> 0" using l4 buf by (cases buf) auto
  then have "a + off \<in> cells (a + off) (length buf div 4)"
    by (auto simp: cells_def intro!: image_eqI [of _ _ 0])
  with reg have a: "a + off \<noteq> NRF52_NVMC_REG_ERASEALL" by auto
  have "fw_frame mem (flash_regs \<union> cells (a + off) (length buf div 4)) w w1"
    using wr framedD [OF framed_write_mem [OF dev a, of "words_of_bytes buf" "flash_regs \<union> cells (a + off) (length buf div 4)" UNIV]]
    by (auto simp: on_swd_Some n)
  moreover have "fw_frame mem (flash_regs \<union> cells (a + off) (length buf div 4)) w1 w'"
    using nrf52swd_read_mem_spec(1) [OF dev rd] w' by (auto intro: swd_frame_mono)
  ultimately show "fw_frame mem (flash_regs \<union> cells (a + off) (length buf div 4)) w w'"
    by (rule swd_frame_trans)
  have "words_of_bytes buf = words_at (fw_mem mem w1) (a + off) (length buf div 4)"
    using nrf52swd_read_mem_spec(2) [OF dev rd r] reg by blast
  then show "words_at (fw_mem mem w') (a + off) (length buf div 4) = words_of_bytes buf"
    using swd_frame_words [OF nrf52swd_read_mem_spec(1) [OF dev rd]] reg w' by simp
qed

lemma write_segment_loop_spec:
  assumes dev: "nrf52_device D mem"
    and "write_segment_loop D E name a len pos off rest w = Some (True, w')"
    and "off = word_of_nat pos" and "pos mod 4 = 0" and "pos + length rest < 2 ^ 32" and "off \<le> len"
    and "flash_regs \<inter> cells (a + off) (length rest div 4) = {}"
  shows "length rest mod 4 = 0 \<and> pos + length rest \<le> unat len \<and>
    fw_frame mem (flash_regs \<union> cells (a + off) (length rest div 4)) w w' \<and>
    words_at (fw_mem mem w') (a + off) (length rest div 4) = words_of_bytes rest"
  using assms
proof (induction D E name a len pos off rest w rule: write_segment_loop.induct)
  case (1 D E name a len pos off rest w)
  note dev = 1(2)
  from 1(3) obtain buf where buf: "nrf52fw_file_read E name pos rest = Some buf"
    by (subst (asm) write_segment_loop.simps) (auto split: option.splits)
  then have buf': "buf = take 256 rest" by (simp add: nrf52fw_file_read_def NRF52FW_TMP_BUF_SIZE_def split: if_splits)
  show ?case
  proof (cases "buf = []")
    case True
    with buf' have "rest = []" by simp
    moreover have "w' = w" using 1(3) buf True by (subst (asm) write_segment_loop.simps) simp
    moreover have "pos \<le> unat len"
      using 1(4,6,7) by (simp add: word_le_nat_alt unat_of_nat)
    ultimately show ?thesis by (simp add: words_at_def)
  next
    case False
    define l where "l = length buf"
    define rest' where "rest' = drop l rest"
    have rest: "rest = buf @ rest'" and l: "l \<le> 256" "l > 0"
      using buf' False by (auto simp: l_def rest'_def min_def not_le)
    from 1(3) buf False obtain off1 w1 where
      block: "nrf52fw_flash_write_block D buf a len off w = Some (True, off1, w1)"
      by (subst (asm) write_segment_loop.simps) (auto split: option.splits if_splits)
    define v1 where "v1 = w1\<lparr>accum_num_bytes_flashed := accum_num_bytes_flashed w1 + word_of_nat l\<rparr>"
    define w2 where "w2 = fw_emit (fe_has_cb_progress E) (Cb_progress (accum_num_bytes_flashed v1) (total_size v1)) v1"
    have swd2: "fw_swd w2 = fw_swd w1" by (simp add: w2_def v1_def fw_emit_def)
    have run2: "write_segment_loop D E name a len (pos + l) off1 rest' w2 = Some (True, w')"
      using 1(3) buf False block
      by (subst (asm) write_segment_loop.simps) (simp add: Let_def w2_def v1_def l_def rest'_def split: if_splits)
    have "length buf div 4 \<le> length rest div 4" using rest by (simp add: div_le_mono)
    then have sub: "cells (a + off) (length buf div 4) \<subseteq> cells (a + off) (length rest div 4)"
      by (auto simp: cells_def)
    note b = write_block_spec [OF dev block False]
    have reg1: "flash_regs \<inter> cells (a + off) (length buf div 4) = {}" using sub 1(8) by blast
    note b = b [OF reg1]
    have l4: "l mod 4 = 0" using b(1) by (simp add: l_def)
    have off1: "off1 = word_of_nat (pos + l)" using b(2) 1(4) by (simp add: l_def)
    have lens: "length rest = l + length rest'" using rest by (simp add: l_def)
    have split: "length rest div 4 = l div 4 + length rest' div 4"
      using l4 lens by (auto elim!: dvdE simp: mod_eq_0_iff_dvd div_add1_eq)
    have addr1: "a + off + 4 * word_of_nat (l div 4) = a + off1"
      using word_of_nat_four [OF l4] b(2) by (simp add: l_def)
    note cells_split = cells_append [of "a + off" "l div 4" "length rest' div 4", folded split, unfolded addr1]
    have IH: "length rest' mod 4 = 0 \<and> pos + l + length rest' \<le> unat len \<and>
      fw_frame mem (flash_regs \<union> cells (a + off1) (length rest' div 4)) w2 w' \<and>
      words_at (fw_mem mem w') (a + off1) (length rest' div 4) = words_of_bytes rest'"
    proof -
      have "flash_regs \<inter> cells (a + off1) (length rest' div 4) = {}" using cells_split 1(8) by blast
      moreover have "pos + l + length rest' < 2 ^ 32" using lens 1(6) by simp
      moreover have "(pos + l) mod 4 = 0" using 1(5) l4 by auto
      ultimately show ?thesis
        using 1(1) [OF buf False block refl refl _ refl refl dev, folded l_def, folded rest'_def v1_def, folded w2_def]
          run2 off1 b(3) by simp
    qed
    have disj: "cells (a + off) (l div 4) \<inter> cells (a + off1) (length rest' div 4) = {}"
      using cells_disjoint [of "l div 4" "length rest' div 4" "a + off"] addr1 1(6) lens by simp
    have "words_at (fw_mem mem w') (a + off) (l div 4) = words_at (fw_mem mem w1) (a + off) (l div 4)"
      using swd_frame_words [of mem "flash_regs \<union> cells (a + off1) (length rest' div 4)" UNIV "fw_swd w2" "fw_swd w'" "a + off" "l div 4"]
        IH disj reg1 by (auto simp: swd2 l_def)
    note same = this
    have "words_at (fw_mem mem w') (a + off) (length rest div 4) = words_of_bytes rest"
    proof -
      have "words_of_bytes rest = words_of_bytes buf @ words_of_bytes rest'"
        unfolding rest by (rule words_of_bytes_append [OF b(1)])
      with same b(5) IH show ?thesis unfolding split words_at_append addr1 by (simp add: l_def)
    qed
    moreover have "fw_frame mem (flash_regs \<union> cells (a + off) (length rest div 4)) w w'"
      using b(4) IH cells_split
      by (auto simp: swd2 l_def intro!: swd_frame_trans [of mem _ _ "fw_swd w" "fw_swd w1"] elim!: swd_frame_mono)
    moreover have "length rest mod 4 = 0" using l4 IH lens by auto
    ultimately show ?thesis using IH lens by simp
  qed
qed

section \<open>Writing the firmware\<close>

definition seg_bytes :: "fw_env \<Rightarrow> nrf52fw_segment \<Rightarrow> u8 list" where
  "seg_bytes E seg = (case fe_file E (seg_file_name seg) of None \<Rightarrow> [] | Some bytes \<Rightarrow> bytes)"

definition seg_cells :: "fw_env \<Rightarrow> nrf52fw_segment \<Rightarrow> u32 set" where
  "seg_cells E seg = cells (seg_address seg) (length (seg_bytes E seg) div 4)"

text \<open>
  A firmware that fits the chip: no segment file reaches a register of the flash controller, no
  file has 4 GB, and the segments do not overlap.
\<close>

fun layout_ok :: "fw_env \<Rightarrow> nrf52fw_segment list \<Rightarrow> bool" where
  "layout_ok E [] = True"
| "layout_ok E (seg # segs) =
     (length (seg_bytes E seg) < 2 ^ 32 \<and> flash_regs \<inter> seg_cells E seg = {} \<and>
      (\<forall>t \<in> set segs. seg_cells E seg \<inter> seg_cells E t = {}) \<and> layout_ok E segs)"

lemma layout_regs: "layout_ok E segs \<Longrightarrow> seg \<in> set segs \<Longrightarrow> flash_regs \<inter> seg_cells E seg = {}"
  by (induction E segs rule: layout_ok.induct) auto

definition seg_stored :: "('d \<Rightarrow> u32 \<Rightarrow> u32) \<Rightarrow> fw_env \<Rightarrow> 'd fw_world \<Rightarrow> nrf52fw_segment \<Rightarrow> bool" where
  "seg_stored mem E w seg \<longleftrightarrow>
     words_at (fw_mem mem w) (seg_address seg) (length (seg_bytes E seg) div 4) = words_of_bytes (seg_bytes E seg)"

definition seg_accepted :: "fw_env \<Rightarrow> nrf52fw_segment \<Rightarrow> bool" where
  "seg_accepted E seg \<longleftrightarrow> fe_file E (seg_file_name seg) \<noteq> None \<and> length (seg_bytes E seg) mod 4 = 0 \<and>
     length (seg_bytes E seg) \<le> unat (seg_size seg)"

lemma write_segment_from_file_spec:
  assumes dev: "nrf52_device D mem"
    and run: "nrf52fw_write_segment_from_file D E seg w = Some (True, w')" and "layout_ok E [seg]"
  shows "seg_accepted E seg \<and> seg_stored mem E w' seg \<and> fw_frame mem (flash_regs \<union> seg_cells E seg) w w'"
proof -
  from run obtain bytes where found: "fe_file E (seg_file_name seg) = Some bytes"
    by (auto simp: nrf52fw_write_segment_from_file_def split: option.splits)
  then have b: "seg_bytes E seg = bytes" by (simp add: seg_bytes_def)
  have "write_segment_loop D E (seg_file_name seg) (seg_address seg) (seg_size seg) 0 0 bytes w = Some (True, w')"
    using run found by (simp add: nrf52fw_write_segment_from_file_def)
  from write_segment_loop_spec [OF dev this] assms(3) show ?thesis
    by (simp add: seg_accepted_def seg_stored_def seg_cells_def found b)
qed

lemma seg_stored_frame:
  "seg_stored mem E w seg \<Longrightarrow> fw_frame mem X w w' \<Longrightarrow> X \<inter> seg_cells E seg = {} \<Longrightarrow> seg_stored mem E w' seg"
  unfolding seg_stored_def seg_cells_def by (subst swd_frame_words [of mem X UNIV "fw_swd w"]) auto

lemma write_segments_spec:
  assumes "nrf52_device D mem" and "write_segments D E segs w = Some (True, w')" and "layout_ok E segs"
  shows "(\<forall>seg \<in> set segs. seg_accepted E seg \<and> seg_stored mem E w' seg) \<and>
    fw_frame mem (flash_regs \<union> (\<Union>seg \<in> set segs. seg_cells E seg)) w w'"
  using assms(2,3)
proof (induction segs arbitrary: w)
  case Nil
  then show ?case by simp
next
  case (Cons seg segs)
  from Cons.prems(1) obtain w1 where r1: "nrf52fw_write_segment_from_file D E seg w = Some (True, w1)"
    and r2: "write_segments D E segs w1 = Some (True, w')"
    by (auto simp: and_when_True)
  have s1: "seg_accepted E seg \<and> seg_stored mem E w1 seg \<and> fw_frame mem (flash_regs \<union> seg_cells E seg) w w1"
    using write_segment_from_file_spec [OF assms(1) r1] Cons.prems(2) by simp
  have s2: "(\<forall>seg \<in> set segs. seg_accepted E seg \<and> seg_stored mem E w' seg) \<and>
      fw_frame mem (flash_regs \<union> (\<Union>seg \<in> set segs. seg_cells E seg)) w1 w'"
    using Cons.IH [OF r2] Cons.prems(2) by simp
  have "(flash_regs \<union> (\<Union>seg \<in> set segs. seg_cells E seg)) \<inter> seg_cells E seg = {}"
    using Cons.prems(2) by auto
  with s1 s2 have "seg_stored mem E w' seg" by (blast intro: seg_stored_frame)
  moreover have "fw_frame mem (flash_regs \<union> (\<Union>s \<in> set (seg # segs). seg_cells E s)) w w'"
    using s1 s2 by (auto intro!: swd_frame_trans [of mem _ _ "fw_swd w" "fw_swd w1"] elim!: swd_frame_mono)
  ultimately show ?case using s1 s2 by auto
qed

lemma read_current_fw_ver_spec:
  assumes "nrf52_device D mem" and "nrf52fw_read_current_fw_ver D w = (r, w')"
  shows "fw_frame mem {NRF52_NVMC_REG_READY} w w'" and "w_calls (fw_swd w') = w_calls (fw_swd w)"
    and "r = Some v \<Longrightarrow> v = fw_mem mem w NRF52FW_UICR_FW_VER"
    and "w' = w\<lparr>fw_swd := fw_swd w'\<rparr>"
proof -
  obtain q u where rd: "nrf52swd_read_mem D NRF52FW_UICR_FW_VER 1 (fw_swd w) = (q, u)" by fastforce
  with assms(2) have r: "r = map_option hd q" and w': "w' = w\<lparr>fw_swd := u\<rparr>"
    by (simp_all add: nrf52fw_read_current_fw_ver_def)
  note spec = nrf52swd_read_mem_spec [OF assms(1) rd]
  from spec(1) w' show "fw_frame mem {NRF52_NVMC_REG_READY} w w'" by (auto elim: swd_frame_mono)
  from spec(1) w' show "w_calls (fw_swd w') = w_calls (fw_swd w)" by (simp add: swd_frame_def)
  have "NRF52FW_UICR_FW_VER \<noteq> NRF52_NVMC_REG_READY"
    by (simp add: NRF52FW_UICR_FW_VER_def NRF52_NVMC_REG_READY_def NRF52_NVMC_BASE_def)
  with spec(2) r show "r = Some v \<Longrightarrow> v = fw_mem mem w NRF52FW_UICR_FW_VER"
    by (auto simp: words_at_def)
  from w' show "w' = w\<lparr>fw_swd := fw_swd w'\<rparr>" by simp
qed

lemma uicr_not_reg: "NRF52FW_UICR_FW_VER \<notin> flash_regs"
  by (simp add: NRF52FW_UICR_FW_VER_def NRF52_NVMC_REG_READY_def NRF52_NVMC_REG_CONFIG_def
    NRF52_NVMC_REG_ERASEALL_def NRF52_NVMC_BASE_def)

lemma write_current_fw_ver_spec:
  assumes dev: "nrf52_device D mem" and run: "nrf52fw_write_current_fw_ver D v w = Some (True, w')"
    and erased: "fw_mem mem w NRF52FW_UICR_FW_VER = erased_word"
  shows "fw_mem mem w' NRF52FW_UICR_FW_VER = v" and "fw_frame mem (insert NRF52FW_UICR_FW_VER flash_regs) w w'"
proof -
  from run have wr: "nrf52swd_write_mem D NRF52FW_UICR_FW_VER [v] (fw_swd w) = Some (True, fw_swd w')"
    by (auto simp: nrf52fw_write_current_fw_ver_def on_swd_Some)
  have "words_at (fw_mem mem w') NRF52FW_UICR_FW_VER (length [v]) = [v]"
    using uicr_not_reg erased by (intro nrf52swd_write_mem_stores [OF dev wr]) (auto simp: words_at_def)
  then show "fw_mem mem w' NRF52FW_UICR_FW_VER = v" by (simp add: words_at_def)
  show "fw_frame mem (insert NRF52FW_UICR_FW_VER flash_regs) w w'"
    using uicr_not_reg by (intro framedD [OF framed_write_mem [OF dev] wr]) auto
qed

text \<open>
  What a successful flashing leaves in the chip; the version word may have been written over a
  segment that covers it.
\<close>

definition firmware_in_chip :: "('d \<Rightarrow> u32 \<Rightarrow> u32) \<Rightarrow> fw_env \<Rightarrow> nrf52fw_info \<Rightarrow> 'd fw_world \<Rightarrow> bool" where
  "firmware_in_chip mem E info w \<longleftrightarrow>
     fw_mem mem w NRF52FW_UICR_FW_VER = info_fw_ver info \<and>
     (\<forall>seg \<in> set (info_segments info). seg_accepted E seg \<and>
        (\<forall>i < length (seg_bytes E seg) div 4.
           seg_address seg + 4 * word_of_nat i \<noteq> NRF52FW_UICR_FW_VER \<longrightarrow>
           fw_mem mem w (seg_address seg + 4 * word_of_nat i) = words_of_bytes (seg_bytes E seg) ! i))"

lemma seg_stored_nth:
  assumes "seg_stored mem E w seg" and "i < length (seg_bytes E seg) div 4"
  shows "fw_mem mem w (seg_address seg + 4 * word_of_nat i) = words_of_bytes (seg_bytes E seg) ! i"
proof -
  from assms(1) have "words_at (fw_mem mem w) (seg_address seg) (length (seg_bytes E seg) div 4) ! i =
      words_of_bytes (seg_bytes E seg) ! i" by (simp add: seg_stored_def)
  with assms(2) show ?thesis by (simp add: words_at_def)
qed

lemma flash_write_firmware_stores:
  assumes dev: "nrf52_device D mem"
    and run: "nrf52fw_flash_write_firmware D E info w = Some (True, w')"
    and layout: "layout_ok E (info_segments info)"
  shows "firmware_in_chip mem E info w'"
proof -
  from run obtain w1 w2 where
    segs: "write_segments D E (info_segments info) w1 = Some (True, w2)"
    and ver: "set_or_check_fw_ver D info w2 = Some (True, w')"
    by (auto simp: nrf52fw_flash_write_firmware_def and_when_True Let_def)
  obtain r w3 where rd: "nrf52fw_read_current_fw_ver D w2 = (r, w3)" by fastforce
  with ver have fin: "(case r of None \<Rightarrow> Some (False, w3)
      | Some fw_ver \<Rightarrow> if fw_ver = 0xFFFFFFFF then nrf52fw_write_current_fw_ver D (info_fw_ver info) w3
          else Some (fw_ver = info_fw_ver info, w3)) = Some (True, w')"
    by (simp add: set_or_check_fw_ver_def)
  note s = write_segments_spec [OF dev segs layout]
  note ver = read_current_fw_ver_spec [OF dev rd]
  from fin obtain v where v: "r = Some v" by (cases r) auto
  have same: "fw_mem mem w3 x = fw_mem mem w2 x" if "x \<noteq> NRF52_NVMC_REG_READY" for x
    using ver(1) that by (auto simp: swd_frame_def)
  have regs: "flash_regs \<inter> seg_cells E seg = {}" if "seg \<in> set (info_segments info)" for seg
    by (rule layout_regs [OF layout that])
  have stored: "fw_mem mem w3 (seg_address seg + 4 * word_of_nat i) = words_of_bytes (seg_bytes E seg) ! i"
    if "seg \<in> set (info_segments info)" and "i < length (seg_bytes E seg) div 4" for seg i
  proof -
    have "seg_address seg + 4 * word_of_nat i \<in> seg_cells E seg"
      using that(2) by (auto simp: seg_cells_def cells_def)
    with regs [OF that(1)] have "seg_address seg + 4 * word_of_nat i \<noteq> NRF52_NVMC_REG_READY" by auto
    with same s seg_stored_nth [of mem E w2 seg i] that show ?thesis by simp
  qed
  have uicr: "fw_mem mem w3 NRF52FW_UICR_FW_VER = v"
    using ver(3) [OF v] same uicr_not_reg by simp
  show ?thesis
  proof (cases "v = 0xFFFFFFFF")
    case True
    with fin v have wr: "nrf52fw_write_current_fw_ver D (info_fw_ver info) w3 = Some (True, w')" by simp
    note w = write_current_fw_ver_spec [OF dev wr] 
    have "fw_mem mem w3 NRF52FW_UICR_FW_VER = erased_word" using uicr True by (simp add: erased_word_def)
    note w = w [OF this]
    have "fw_mem mem w' (seg_address seg + 4 * word_of_nat i) = fw_mem mem w3 (seg_address seg + 4 * word_of_nat i)"
      if "seg \<in> set (info_segments info)" "i < length (seg_bytes E seg) div 4"
        "seg_address seg + 4 * word_of_nat i \<noteq> NRF52FW_UICR_FW_VER" for seg i
    proof -
      have "seg_address seg + 4 * word_of_nat i \<in> seg_cells E seg"
        using that(2) by (auto simp: seg_cells_def cells_def)
      with regs [OF that(1)] that(3) w(2) show ?thesis by (auto simp: swd_frame_def)
    qed
    with w(1) s stored show ?thesis by (simp add: firmware_in_chip_def)
  next
    case False
    with fin v have "w' = w3" "v = info_fw_ver info" by simp_all
    with uicr s stored show ?thesis by (simp add: firmware_in_chip_def)
  qed
qed

section \<open>Checksums\<close>

text \<open>\<open>crc32_le\<close> continues a checksum.\<close>

definition crc_incremental :: "fw_env \<Rightarrow> bool" where
  "crc_incremental E \<longleftrightarrow> (\<forall>c. fe_crc32_le E c [] = c) \<and>
     (\<forall>c xs ys. fe_crc32_le E c (xs @ ys) = fe_crc32_le E (fe_crc32_le E c xs) ys)"

lemma calc_segment_crc_loop_spec:
  "crc_incremental E \<Longrightarrow> calc_segment_crc_loop E name len pos off crc rest = Some r \<Longrightarrow>
   r = fe_crc32_le E crc rest"
proof (induction E name len pos off crc rest rule: calc_segment_crc_loop.induct)
  case (1 E name len pos off crc rest)
  from 1(3) obtain buf where buf: "nrf52fw_file_read E name pos rest = Some buf"
    by (subst (asm) calc_segment_crc_loop.simps) (auto split: option.splits)
  then have take: "buf = take 256 rest"
    by (simp add: nrf52fw_file_read_def NRF52FW_TMP_BUF_SIZE_def split: if_splits)
  show ?case
  proof (cases "buf = []")
    case True
    with 1(2,3) buf take show ?thesis
      by (subst (asm) calc_segment_crc_loop.simps) (simp add: crc_incremental_def)
  next
    case False
    have rest: "rest = buf @ drop (length buf) rest"
      using take by (auto simp: min_def not_le)
    from 1(3) buf False have four: "\<not> length buf mod 4 \<noteq> 0" and fits: "\<not> len < off + word_of_nat (length buf)"
      and run: "calc_segment_crc_loop E name len (pos + length buf) (off + word_of_nat (length buf))
        (fe_crc32_le E crc buf) (drop (length buf) rest) = Some r"
      by (subst (asm) calc_segment_crc_loop.simps, simp add: Let_def split: if_splits)+
    from 1(1) [OF buf False four refl fits 1(2) run]
    have "r = fe_crc32_le E (fe_crc32_le E crc buf) (drop (length buf) rest)" .
    also have "\<dots> = fe_crc32_le E crc (buf @ drop (length buf) rest)"
      using 1(2) by (simp add: crc_incremental_def)
    finally show ?thesis using rest by simp
  qed
qed

definition seg_crc_matches :: "fw_env \<Rightarrow> nrf52fw_segment \<Rightarrow> bool" where
  "seg_crc_matches E seg \<longleftrightarrow> fe_file E (seg_file_name seg) \<noteq> None \<and> seg_crc seg = fe_crc32_le E 0 (seg_bytes E seg)"

lemma check_firmware_crc:
  assumes "crc_incremental E" and "nrf52fw_check_firmware E info"
  shows "\<forall>seg \<in> set (info_segments info). seg_crc_matches E seg"
proof -
  have one: "seg_crc_matches E seg" if "nrf52fw_check_fw_segment_crc E seg" for seg
    using that calc_segment_crc_loop_spec [OF assms(1)]
    by (auto simp: nrf52fw_check_fw_segment_crc_def nrf52fw_calc_segment_crc_def seg_crc_matches_def
      seg_bytes_def split: option.splits)
  have "check_segments E segs \<Longrightarrow> \<forall>seg \<in> set segs. seg_crc_matches E seg" for segs
    by (induction segs) (auto simp: one split: if_splits)
  with assms(2) show ?thesis by (simp add: nrf52fw_check_firmware_def)
qed

section \<open>The whole update\<close>

lemma fw_swd_fields [simp]:
  "fw_swd (fw_emit has e w) = fw_swd w"
  "fw_swd (report_fw_ver E v w) = fw_swd w"
  by (simp_all add: fw_emit_def report_fw_ver_def)

lemma read_fw_ver_calls: "w_calls (fw_swd (snd (nrf52fw_read_current_fw_ver D w))) = w_calls (fw_swd w)"
  by (simp add: nrf52fw_read_current_fw_ver_def nrf52swd_read_mem_def case_prod_beta Let_def)

lemma update_failed_calls: "w_calls (fw_swd (snd (update_failed D E w))) = w_calls (fw_swd w)"
proof -
  obtain r v where rd: "nrf52fw_read_current_fw_ver D w = (r, v)" by fastforce
  with read_fw_ver_calls [of D w] show ?thesis
    by (auto simp: update_failed_def reread_fw_ver_def split: option.split)
qed

text \<open>C27: The nRF52 is not touched without need. If \<open>nrf52fw_update_fw_step3\<close> writes anything to the
  chip, registers included, then \<open>info.txt\<close> was parsed without error, the version it names is not the
  one read from the chip, and every segment file it lists exists and has the listed checksum over
  all of its bytes. In every other case, a failed parse, an equal version, a checksum error, a chip
  that cannot be read, the list of writes is as before.\<close>

theorem nrf52_update_writes_only_checked:
  assumes "crc_incremental E" and "nrf52fw_update_fw_step3 D E w = Some (ok, w')"
    and "w_calls (fw_swd w') \<noteq> w_calls (fw_swd w)"
  shows "\<exists>info. nrf52fw_read_info_txt E ''info.txt'' = Parsed (Some info) \<and>
    (\<exists>cur. fst (nrf52fw_read_current_fw_ver D w) = Some cur \<and> cur \<noteq> info_fw_ver info) \<and>
    (\<forall>seg \<in> set (info_segments info). seg_crc_matches E seg)"
proof -
  obtain r v where rd: "nrf52fw_read_current_fw_ver D w = (r, v)" by fastforce
  with read_fw_ver_calls [of D w] have calls: "w_calls (fw_swd v) = w_calls (fw_swd w)" by simp
  from assms(2,3) rd calls obtain info where info: "nrf52fw_read_info_txt E ''info.txt'' = Parsed (Some info)"
    by (auto simp: nrf52fw_update_fw_step3_def split: parsed.splits option.splits)
  with assms(2,3) rd calls obtain cur where r: "r = Some cur"
    by (auto simp: nrf52fw_update_fw_step3_def split: option.splits)
  with assms(2,3) rd calls info have ne: "cur \<noteq> info_fw_ver info"
    by (auto simp: nrf52fw_update_fw_step3_def Let_def)
  have "nrf52fw_check_firmware E info"
  proof (rule ccontr)
    assume "\<not> nrf52fw_check_firmware E info"
    with assms(2) rd info r ne have "(ok, w') = update_failed D E (fw_emit (fe_has_cb_before_updating E)
        Cb_before_updating (report_fw_ver E cur v))"
      by (simp add: nrf52fw_update_fw_step3_def Let_def)
    with update_failed_calls [of D E "fw_emit (fe_has_cb_before_updating E) Cb_before_updating (report_fw_ver E cur v)"]
      calls assms(3) show False by (metis fw_swd_fields snd_conv)
  qed
  with check_firmware_crc [OF assms(1)] info rd r ne show ?thesis by auto
qed

lemma firmware_in_chip_frame:
  assumes "firmware_in_chip mem E info w" and "layout_ok E (info_segments info)"
    and "fw_frame mem {NRF52_NVMC_REG_READY} w w'"
  shows "firmware_in_chip mem E info w'"
proof -
  have same: "fw_mem mem w' x = fw_mem mem w x" if "x \<notin> flash_regs" for x
    using assms(3) that by (auto simp: swd_frame_def)
  have "seg_address seg + 4 * word_of_nat i \<notin> flash_regs"
    if "seg \<in> set (info_segments info)" "i < length (seg_bytes E seg) div 4" for seg i
  proof -
    have "seg_address seg + 4 * word_of_nat i \<in> seg_cells E seg"
      using that(2) by (auto simp: seg_cells_def cells_def)
    with layout_regs [OF assms(2) that(1)] show ?thesis by blast
  qed
  with assms(1) same uicr_not_reg show ?thesis by (simp add: firmware_in_chip_def)
qed

text \<open>C26: A successful update. When \<open>nrf52fw_update_fw_step3\<close> returns true on a chip that behaves as
  documented, with a firmware whose segments do not overlap each other or the flash controller, then
  \<open>info.txt\<close> was parsed, and either the chip already held the version it names and nothing was
  written, or every segment file was accepted (its length is a multiple of four and at most the
  listed size) and the flash now holds exactly its bytes as little-endian words at the listed
  address, and the version register holds the listed version.\<close>

theorem nrf52_update_success:
  assumes dev: "nrf52_device D mem"
    and run: "nrf52fw_update_fw_step3 D E w = Some (True, w')"
    and layout: "\<And>info. nrf52fw_read_info_txt E ''info.txt'' = Parsed (Some info) \<Longrightarrow> layout_ok E (info_segments info)"
  shows "\<exists>info. nrf52fw_read_info_txt E ''info.txt'' = Parsed (Some info) \<and>
    (fw_mem mem w NRF52FW_UICR_FW_VER = info_fw_ver info \<and> w_calls (fw_swd w') = w_calls (fw_swd w) \<or>
     nrf52fw_check_firmware E info \<and> firmware_in_chip mem E info w')"
proof -
  from run obtain info where info: "nrf52fw_read_info_txt E ''info.txt'' = Parsed (Some info)"
    by (auto simp: nrf52fw_update_fw_step3_def split: parsed.splits option.splits)
  obtain r v where rd: "nrf52fw_read_current_fw_ver D w = (r, v)" by fastforce
  note ver = read_current_fw_ver_spec [OF dev rd]
  from run info rd obtain cur where r: "r = Some cur"
    by (auto simp: nrf52fw_update_fw_step3_def split: option.splits)
  show ?thesis
  proof (cases "cur = info_fw_ver info")
    case True
    with run info rd r have "fw_swd w' = fw_swd v"
      by (auto simp: nrf52fw_update_fw_step3_def Let_def)
    with True ver(2) ver(3) [OF r] info show ?thesis by auto
  next
    case False
    define v1 where "v1 = fw_emit (fe_has_cb_before_updating E) Cb_before_updating (report_fw_ver E cur v)"
    have check: "nrf52fw_check_firmware E info"
      using run info rd r False by (auto simp: nrf52fw_update_fw_step3_def update_failed_def Let_def split: if_splits)
    from run info rd r False check have flash: "(case nrf52fw_flash_write_firmware D E info v1 of
        None \<Rightarrow> None
      | Some (False, w) \<Rightarrow> Some (update_failed D E w)
      | Some (True, w) \<Rightarrow>
          (let (r, w) = nrf52fw_read_current_fw_ver D w in
           case r of
             None \<Rightarrow> Some (False, fw_emit (fe_has_cb_after_updating E) (Cb_after_updating False) (report_fw_ver E cur w))
           | Some cur \<Rightarrow> Some (True, report_fw_ver E cur
               (fw_emit (fe_has_cb_after_updating E) (Cb_after_updating True) w)))) = Some (True, w')"
      by (simp add: nrf52fw_update_fw_step3_def Let_def v1_def)
    then obtain v2 where v2: "nrf52fw_flash_write_firmware D E info v1 = Some (True, v2)"
      by (auto simp: update_failed_def split: option.splits prod.splits bool.splits)
    obtain r3 v3 where rd3: "nrf52fw_read_current_fw_ver D v2 = (r3, v3)" by fastforce
    with flash v2 have swd: "fw_swd w' = fw_swd v3" by (auto split: option.splits)
    have "firmware_in_chip mem E info v2"
      by (rule flash_write_firmware_stores [OF dev v2 layout [OF info]])
    moreover have "fw_frame mem {NRF52_NVMC_REG_READY} v2 w'"
      using read_current_fw_ver_spec(1) [OF dev rd3] by (simp add: swd)
    ultimately have "firmware_in_chip mem E info w'"
      using firmware_in_chip_frame [OF _ layout [OF info]] by blast
    with info check show ?thesis by blast
  qed
qed

section \<open>A small firmware\<close>

text \<open>A number parser in the manner of \<open>strtoul\<close>, for the evaluation of the model.\<close>

definition digit_value :: "char \<Rightarrow> nat" where
  "digit_value c = (let n = of_char c in
     if 48 \<le> n \<and> n \<le> 57 then n - 48 else if 97 \<le> n \<and> n \<le> 102 then n - 87 else 99)"

definition sim_str_to_uint32 :: str_to_uint32 where
  "sim_str_to_uint32 base s =
     (let digits = takeWhile (\<lambda>c. digit_value c < (if base = 16 then 16 else 10)) (skip_blanks s)
      in (word_of_nat (foldl (\<lambda>n c. n * (if base = 16 then 16 else 10) + digit_value c) 0 digits),
          length s - length (skip_blanks s) + length digits))"

definition sim_fw_env :: fw_env where
  "sim_fw_env = \<lparr>fe_board = \<lparr>b_gpio_config = True, b_gpio_set_level = True, b_spi_bus_initialize = True,
       b_spi_bus_add_device = True, b_libswd_init = True\<rparr>,
     fe_mount = True, fe_alloc = True,
     fe_text = (\<lambda>p. if p = ''info.txt'' then Some (''# v1.2.0'' @ [CHR 0x0A] @ ''1000 4 a.bin a'') else None),
     fe_file = (\<lambda>p. if p = ''a.bin'' then Some [1, 2, 3, 4] else None),
     fe_read_error = (\<lambda>_ _. False), fe_crc32_le = (\<lambda>c bs. foldl (\<lambda>c b. c + ucast b) c bs),
     fe_str_to_uint32 = sim_str_to_uint32, fe_line_buf = [], fe_has_cb_progress = True,
     fe_has_cb_before_updating = False, fe_has_cb_after_updating = True, fe_want_fw_ver = True\<rparr>"

definition sim_fw_world :: "(u32 \<Rightarrow> u32) fw_world" where
  "sim_fw_world = \<lparr>fw_swd = sim_world, fw_events = [], accum_num_bytes_flashed = 0, total_size = 0,
     p_nrf52_fw_ver = None\<rparr>"

definition sim_info :: nrf52fw_info where
  "sim_info = \<lparr>info_fw_ver = 0x01020000, info_segments =
     [\<lparr>seg_address = 0x1000, seg_size = 4, seg_file_name = ''a.bin'', seg_crc = 10\<rparr>]\<rparr>"

lemma sim_crc_incremental: "crc_incremental sim_fw_env"
  by (simp add: crc_incremental_def sim_fw_env_def)

lemma sim_read_info: "nrf52fw_read_info_txt sim_fw_env ''info.txt'' = Parsed (Some sim_info)"
  by code_simp

lemma sim_read_reg [simp]:
  "nrf52swd_read_reg sim_nrf52 a w = (Some (if a = NRF52_NVMC_REG_READY then 1 else w_device w a), w)"
  by (simp add: nrf52swd_read_reg_def on_device_def sim_nrf52_def words_at_def)

lemma sim_wait [simp]: "nrf51swd_nvmc_wait_while_busy sim_nrf52 w = Some (True, w)"
  by (subst nrf51swd_nvmc_wait_while_busy.simps)
    (simp add: nrf51swd_nvmc_is_ready_or_err_def NRF52_NVMC_REG_READY__MASK_def)

lemma sim_memap_write [simp]:
  "memap_write sim_nrf52 a ws w = (True, (swd_call (Memap_write a ws) w)\<lparr>w_device := sim_write a ws (w_device w)\<rparr>)"
  by (simp add: memap_write_def on_device_def sim_nrf52_def)

lemma sim_write_mem [simp]:
  "nrf52swd_write_mem sim_nrf52 a ws w = Some (True, w\<lparr>
     w_device := sim_write NRF52_NVMC_REG_CONFIG [0] (sim_write a ws (sim_write NRF52_NVMC_REG_CONFIG [1] (w_device w))),
     w_calls := w_calls w @ [Memap_write NRF52_NVMC_REG_CONFIG [1], Memap_write a ws, Memap_write NRF52_NVMC_REG_CONFIG [0]]\<rparr>)"
  by (simp add: nrf52swd_write_mem_def and_when_def nrf52swd_write_reg_def NRF52_NVMC_REG_CONFIG__WEN_WEN_def
    NRF52_NVMC_REG_CONFIG__WEN_REN_def swd_call_def)

lemma sim_erase_all [simp]:
  "nrf52swd_erase_all sim_nrf52 w = Some (True, w\<lparr>
     w_device := sim_write NRF52_NVMC_REG_CONFIG [0] (\<lambda>x. erased_word),
     w_calls := w_calls w @ [Memap_write NRF52_NVMC_REG_CONFIG [2], Memap_write NRF52_NVMC_REG_ERASEALL [1],
       Memap_write NRF52_NVMC_REG_CONFIG [0]]\<rparr>)"
  by (simp add: nrf52swd_erase_all_def and_when_def nrf52swd_write_reg_def NRF52_NVMC_REG_CONFIG__WEN_EEN_def
    NRF52_NVMC_REG_CONFIG__WEN_REN_def NRF52_NVMC_REG_ERASEALL__ERASE_def swd_call_def sim_write_def)

lemma sim_read_mem [simp]:
  "nrf52swd_read_mem sim_nrf52 a n w = (Some (words_at ((w_device w)(NRF52_NVMC_REG_READY := 1)) a n), w)"
  by (simp add: nrf52swd_read_mem_def on_device_def sim_nrf52_def)

lemma sim_read_fw_ver [simp]:
  "nrf52fw_read_current_fw_ver sim_nrf52 w = (Some (w_device (fw_swd w) NRF52FW_UICR_FW_VER), w)"
  by (simp add: nrf52fw_read_current_fw_ver_def words_at_def NRF52FW_UICR_FW_VER_def
    NRF52_NVMC_REG_READY_def NRF52_NVMC_BASE_def)

lemma sim_check: "nrf52fw_check_firmware sim_fw_env sim_info"
  by code_simp

definition sim_fw_started :: "(u32 \<Rightarrow> u32) fw_world" where
  "sim_fw_started = sim_fw_world\<lparr>p_nrf52_fw_ver := Some 0\<rparr>"

lemma sim_flash:
  "\<exists>w'. nrf52fw_flash_write_firmware sim_nrf52 sim_fw_env sim_info sim_fw_started = Some (True, w') \<and>
    w_device (fw_swd w') 0x1000 = 0x04030201 \<and> w_device (fw_swd w') NRF52FW_UICR_FW_VER = 0x01020000 \<and>
    length (w_calls (fw_swd w')) = 9"
  by (simp add: nrf52fw_flash_write_firmware_def sim_info_def sim_fw_env_def sim_fw_started_def sim_fw_world_def sim_world_def
    and_when_def on_swd_def nrf52fw_write_segment_from_file_def set_or_check_fw_ver_def
    write_segment_loop.simps nrf52fw_file_read_def NRF52FW_TMP_BUF_SIZE_def nrf52fw_flash_write_block_def
    fw_emit_def sim_write_def NRF52_NVMC_REG_CONFIG_def NRF52_NVMC_REG_ERASEALL_def NRF52_NVMC_BASE_def
    NRF52_NVMC_REG_READY_def NRF52FW_UICR_FW_VER_def words_at_def erased_word_def nrf52fw_write_current_fw_ver_def)

lemma sim_update:
  "\<exists>w'. nrf52fw_update_fw_step3 sim_nrf52 sim_fw_env sim_fw_world = Some (True, w') \<and>
    w_device (fw_swd w') 0x1000 = 0x04030201 \<and> w_device (fw_swd w') NRF52FW_UICR_FW_VER = 0x01020000 \<and>
    length (w_calls (fw_swd w')) = 9"
proof -
  obtain v where v: "nrf52fw_flash_write_firmware sim_nrf52 sim_fw_env sim_info sim_fw_started = Some (True, v)"
    "w_device (fw_swd v) 0x1000 = 0x04030201 \<and> w_device (fw_swd v) NRF52FW_UICR_FW_VER = 0x01020000 \<and>
     length (w_calls (fw_swd v)) = 9"
    using sim_flash by blast
  have "w_device (fw_swd sim_fw_world) NRF52FW_UICR_FW_VER = 0"
    by (simp add: sim_fw_world_def sim_world_def)
  moreover have "info_fw_ver sim_info = 0x01020000" by (simp add: sim_info_def)
  moreover have "fw_emit (fe_has_cb_before_updating sim_fw_env) Cb_before_updating
      (report_fw_ver sim_fw_env 0 sim_fw_world) = sim_fw_started"
    by (simp add: fw_emit_def report_fw_ver_def sim_fw_env_def sim_fw_started_def)
  ultimately show ?thesis
    using v by (simp add: nrf52fw_update_fw_step3_def sim_read_info sim_check Let_def)
qed

theorem nrf52_update_writes_only_checked_witness:
  "\<exists>info. nrf52fw_read_info_txt sim_fw_env ''info.txt'' = Parsed (Some info) \<and>
    (\<forall>seg \<in> set (info_segments info). seg_crc_matches sim_fw_env seg)"
proof -
  obtain w' where run: "nrf52fw_update_fw_step3 sim_nrf52 sim_fw_env sim_fw_world = Some (True, w')"
    and calls: "length (w_calls (fw_swd w')) = 9" using sim_update by blast
  have "length (w_calls (fw_swd sim_fw_world)) = 0" by (simp add: sim_fw_world_def sim_world_def)
  with calls have "w_calls (fw_swd w') \<noteq> w_calls (fw_swd sim_fw_world)" by auto
  from nrf52_update_writes_only_checked [OF sim_crc_incremental run this] show ?thesis by blast
qed

lemma sim_layout: "layout_ok sim_fw_env (info_segments sim_info)"
  by (simp add: sim_info_def seg_bytes_def seg_cells_def sim_fw_env_def NRF52_NVMC_REG_CONFIG_def
    NRF52_NVMC_REG_ERASEALL_def NRF52_NVMC_BASE_def NRF52_NVMC_REG_READY_def)

theorem nrf52_update_success_witness:
  "\<exists>w'. nrf52fw_update_fw_step3 sim_nrf52 sim_fw_env sim_fw_world = Some (True, w') \<and>
    firmware_in_chip (\<lambda>m. m) sim_fw_env sim_info w'"
proof -
  obtain w' where run: "nrf52fw_update_fw_step3 sim_nrf52 sim_fw_env sim_fw_world = Some (True, w')"
    using sim_update by blast
  have layout: "layout_ok sim_fw_env (info_segments info)"
    if "nrf52fw_read_info_txt sim_fw_env ''info.txt'' = Parsed (Some info)" for info
    using that sim_layout by (simp add: sim_read_info)
  have "fw_mem (\<lambda>m. m) sim_fw_world NRF52FW_UICR_FW_VER \<noteq> info_fw_ver sim_info"
    by (simp add: sim_fw_world_def sim_world_def sim_info_def)
  with nrf52_update_success [OF sim_nrf52_device run layout] run show ?thesis
    by (auto simp: sim_read_info)
qed

end
