(* ===== verification/Fw_Update.thy ===== *)
theory Fw_Update
  imports Http_Download Network Nrf52_Fw Json_Wrap
begin

text \<open>
  The firmware update, \<open>fw_update.c\<close> and \<open>esp_ota_ops_patched.c\<close>: three images are downloaded into the partitions that are
  not in use, the boot partition is switched, and the nRF52 is flashed from its new image. The flash memory with its partition table
  belongs to the SDK: the argument \<open>F\<close> is its interface, and the predicate \<open>flash_laws\<close> states what the code relies on.
\<close>

section \<open>The flash memory\<close>

datatype esp_partition_type = ESP_PARTITION_TYPE_APP | ESP_PARTITION_TYPE_DATA

text \<open>A flash memory has at most 16 MB, so that sums of addresses, sizes and offsets stay below \<open>2 ^ 32\<close>.\<close>

record esp_partition =
  part_label :: string
  part_type :: esp_partition_type
  part_subtype :: nat
  part_address :: nat
  part_size :: nat

datatype esp_ota_img_state =
  ESP_OTA_IMG_NEW | ESP_OTA_IMG_PENDING_VERIFY | ESP_OTA_IMG_VALID | ESP_OTA_IMG_INVALID | ESP_OTA_IMG_ABORTED | ESP_OTA_IMG_UNDEFINED

text \<open>Erasing the sector at an address, writing into a partition, verifying an image; \<open>fl_read\<close> and \<open>fl_blank\<close> are what a byte is and
  whether it is erased, of which only statements speak.\<close>

record 'f flash =
  fl_erase_sector :: "nat \<Rightarrow> 'f \<Rightarrow> bool \<times> 'f"
  fl_write :: "esp_partition \<Rightarrow> nat \<Rightarrow> u8 list \<Rightarrow> 'f \<Rightarrow> bool \<times> 'f"
  fl_image_verify :: "esp_partition \<Rightarrow> 'f \<Rightarrow> bool"
  fl_encryption_enabled :: bool
  fl_read :: "'f \<Rightarrow> nat \<Rightarrow> u8"
  fl_blank :: "'f \<Rightarrow> nat \<Rightarrow> bool"
  fl_boot_partition :: "'f \<Rightarrow> esp_partition option"
  fl_set_boot_partition :: "esp_partition \<Rightarrow> 'f \<Rightarrow> bool \<times> 'f"
  fl_running_partition :: "esp_partition option"
  fl_state_partition :: "esp_partition \<Rightarrow> 'f \<Rightarrow> esp_ota_img_state option"
  fl_next_update_partition :: "esp_partition \<Rightarrow> esp_partition option"
  fl_find_fat :: "string \<Rightarrow> esp_partition option"
  fl_partition_verify :: "esp_partition \<Rightarrow> esp_partition option"
  fl_mark_app_valid :: "'f \<Rightarrow> bool \<times> 'f"

text \<open>The partition table of the gateway.\<close>

definition table_row :: "string \<Rightarrow> esp_partition_type \<Rightarrow> nat \<Rightarrow> nat \<Rightarrow> nat \<Rightarrow> esp_partition" where
  "table_row label type subtype address psize =
     \<lparr>part_label = label, part_type = type, part_subtype = subtype, part_address = address, part_size = psize\<rparr>"

definition part_otadata :: esp_partition where "part_otadata = table_row ''otadata'' ESP_PARTITION_TYPE_DATA 0x00 0xD000 0x2000"
definition part_ota_0 :: esp_partition where "part_ota_0 = table_row ''ota_0'' ESP_PARTITION_TYPE_APP 0x10 0x100000 0x400000"
definition part_ota_1 :: esp_partition where "part_ota_1 = table_row ''ota_1'' ESP_PARTITION_TYPE_APP 0x11 0x600000 0x400000"

definition ruuvi_partition_table :: "esp_partition list" where
  "ruuvi_partition_table =
     [table_row ''nvs'' ESP_PARTITION_TYPE_DATA 0x02 0x9000 0x4000, part_otadata,
      table_row ''phy_init'' ESP_PARTITION_TYPE_DATA 0x01 0xF000 0x1000, part_ota_0,
      table_row ''fatfs_gwui'' ESP_PARTITION_TYPE_DATA 0x81 0x500000 0xC0000,
      table_row ''fatfs_nrf52'' ESP_PARTITION_TYPE_DATA 0x81 0x5C0000 0x40000, part_ota_1,
      table_row ''fatfs_gwui_2'' ESP_PARTITION_TYPE_DATA 0x81 0xA00000 0xC0000,
      table_row ''fatfs_nrf52_2'' ESP_PARTITION_TYPE_DATA 0x81 0xAC0000 0x40000,
      table_row ''gw_cfg_def'' ESP_PARTITION_TYPE_DATA 0x02 0xB00000 0x40000]"

section \<open>State\<close>

definition GW_GWUI_PARTITION :: string where "GW_GWUI_PARTITION = ''fatfs_gwui''"
definition GW_NRF_PARTITION :: string where "GW_NRF_PARTITION = ''fatfs_nrf52''"
definition GW_GWUI_PARTITION_2 :: string where "GW_GWUI_PARTITION_2 = GW_GWUI_PARTITION @ ''_2''"
definition GW_NRF_PARTITION_2 :: string where "GW_NRF_PARTITION_2 = GW_NRF_PARTITION @ ''_2''"
definition FW_UPDATE_PERCENTAGE_50 :: u32 where "FW_UPDATE_PERCENTAGE_50 = 50"
definition FW_UPDATE_PERCENTAGE_100 :: u32 where "FW_UPDATE_PERCENTAGE_100 = 100"
definition FW_UPDATE_DELAY_BEFORE_REBOOT_SECONDS :: nat where "FW_UPDATE_DELAY_BEFORE_REBOOT_SECONDS = 5"
definition FW_UPDATE_MAX_OTA_PARTITION_SIZE :: u32 where "FW_UPDATE_MAX_OTA_PARTITION_SIZE = 4 * 1024 * 1024"
definition FW_UPDATE_MAX_DATA_PARTITION_SIZE :: u32 where "FW_UPDATE_MAX_DATA_PARTITION_SIZE = 0xC0000"
definition FW_UPDATE_URL_MAX_LEN :: nat where "FW_UPDATE_URL_MAX_LEN = 128"
definition SPI_FLASH_SEC_SIZE :: nat where "SPI_FLASH_SEC_SIZE = 4096"
definition ESP_OTA_FLASH_ENCRYPTION_MIN_CHUNK_SIZE :: nat where "ESP_OTA_FLASH_ENCRYPTION_MIN_CHUNK_SIZE = 16"
definition ESP_OTA_FLASH_ENCRYPTION_FILL :: u8 where "ESP_OTA_FLASH_ENCRYPTION_FILL = 0xFF"
definition ESP_IMAGE_HEADER_MAGIC :: u8 where "ESP_IMAGE_HEADER_MAGIC = 0xE9"

datatype fw_update_stage =
  FW_UPDATE_STAGE_NONE | FW_UPDATE_STAGE_1 | FW_UPDATE_STAGE_2 | FW_UPDATE_STAGE_3 | FW_UPDATE_STAGE_4
| FW_UPDATE_STAGE_SUCCESSFUL | FW_UPDATE_STAGE_FAILED | FW_UPDATE_STAGE_FAILED_NRF52

datatype fw_updating_reason =
  FW_UPDATE_REASON_NONE | FW_UPDATE_REASON_AUTO | FW_UPDATE_REASON_MANUAL_VIA_HOTSPOT | FW_UPDATE_REASON_MANUAL_VIA_LAN

text \<open>What the status JSON is told: nothing, a stage with a percentage, a stage, or a stage with a message.\<close>

datatype extra_info =
  Extra_empty | Extra_progress fw_update_stage u32 | Extra_stage fw_update_stage | Extra_message fw_update_stage string

record ruuvi_flash_info =
  fi_is_valid :: bool
  fi_is_ota0_active :: bool
  fi_boot_partition :: "esp_partition option"
  fi_running_partition :: "esp_partition option"
  fi_running_partition_state :: esp_ota_img_state
  fi_next_update_partition :: "esp_partition option"
  fi_next_fatfs_gwui_partition :: "esp_partition option"
  fi_next_fatfs_nrf52_partition :: "esp_partition option"

record ota_ops_entry =
  oe_handle :: u32
  oe_part :: esp_partition
  oe_erased_size :: nat
  oe_wrote_size :: nat
  oe_partial_bytes :: nat
  oe_partial_data :: "u8 list"

text \<open>\<open>fu_offset\<close> and \<open>fu_is_error\<close> are the fields of the local information of one download.\<close>

record ('f, 'd) upd_world =
  fu_flash :: 'f
  g_ruuvi_flash_info :: ruuvi_flash_info
  g_fw_update_cfg :: string
  g_update_progress_stage :: fw_update_stage
  g_fw_updating_reason :: fw_updating_reason
  s_ota_ops_entries :: "ota_ops_entry list"
  s_ota_ops_last_handle :: u32
  fu_offset :: nat
  fu_is_error :: bool
  fu_extra_info :: "extra_info list"
  fu_nrf52 :: "'d fw_world"

record ('f, 'd) upd_env =
  ue_main :: main_env
  ue_flash :: "'f flash"
  ue_alloc_url :: "string \<Rightarrow> bool"
  ue_alloc_entry :: bool
  ue_alloc_metadata :: bool
  ue_download :: "string \<Rightarrow> dl_env"
  ue_libswd :: "'d libswd"
  ue_files :: "string \<Rightarrow> 'f \<Rightarrow> fw_env"
  ue_ap_sta_ip_assigned :: bool
  ue_thread_created :: bool

type_synonym ('f, 'd) upd_state = "('f, 'd) upd_world dl_state"

definition on_upd :: "(('f, 'd) upd_world \<Rightarrow> ('f, 'd) upd_world) \<Rightarrow> ('f, 'd) upd_state \<Rightarrow> ('f, 'd) upd_state" where
  "on_upd g st = st\<lparr>ds_user := g (ds_user st)\<rparr>"

definition on_main :: "(main_world \<Rightarrow> main_world) \<Rightarrow> ('f, 'd) upd_state \<Rightarrow> ('f, 'd) upd_state" where
  "on_main g st = st\<lparr>ds_world := g (ds_world st)\<rparr>"

section \<open>Progress\<close>

definition wifi_manager_set_extra_info :: "extra_info \<Rightarrow> ('f, 'd) upd_world \<Rightarrow> ('f, 'd) upd_world" where
  "wifi_manager_set_extra_info x w = w\<lparr>fu_extra_info := fu_extra_info w @ [x]\<rparr>"

definition fw_update_set_extra_info_for_status_json :: "fw_update_stage \<Rightarrow> u32 \<Rightarrow> ('f, 'd) upd_world \<Rightarrow> ('f, 'd) upd_world" where
  "fw_update_set_extra_info_for_status_json stage percentage =
     wifi_manager_set_extra_info (if stage = FW_UPDATE_STAGE_NONE then Extra_empty else Extra_progress stage percentage)"

definition fw_update_set_extra_info_for_status_json_update_reset :: "('f, 'd) upd_world \<Rightarrow> ('f, 'd) upd_world" where
  "fw_update_set_extra_info_for_status_json_update_reset = fw_update_set_extra_info_for_status_json FW_UPDATE_STAGE_NONE 0"

definition fw_update_set_extra_info_for_status_json_update_start :: "('f, 'd) upd_world \<Rightarrow> ('f, 'd) upd_world" where
  "fw_update_set_extra_info_for_status_json_update_start = fw_update_set_extra_info_for_status_json FW_UPDATE_STAGE_1 0"

definition fw_update_set_extra_info_for_status_json_update_successful :: "('f, 'd) upd_world \<Rightarrow> ('f, 'd) upd_world" where
  "fw_update_set_extra_info_for_status_json_update_successful = wifi_manager_set_extra_info (Extra_stage FW_UPDATE_STAGE_SUCCESSFUL)"

definition fw_update_set_extra_info_for_status_json_update_failed :: "string \<Rightarrow> ('f, 'd) upd_world \<Rightarrow> ('f, 'd) upd_world" where
  "fw_update_set_extra_info_for_status_json_update_failed msg = wifi_manager_set_extra_info (Extra_message FW_UPDATE_STAGE_FAILED msg)"

definition fw_update_set_extra_info_for_status_json_update_failed_nrf52 :: "string \<Rightarrow> ('f, 'd) upd_world \<Rightarrow> ('f, 'd) upd_world" where
  "fw_update_set_extra_info_for_status_json_update_failed_nrf52 msg =
     wifi_manager_set_extra_info (Extra_message FW_UPDATE_STAGE_FAILED_NRF52 msg)"

definition fw_update_set_stage_nrf52_updating :: "('f, 'd) upd_world \<Rightarrow> ('f, 'd) upd_world" where
  "fw_update_set_stage_nrf52_updating w =
     fw_update_set_extra_info_for_status_json FW_UPDATE_STAGE_4 0 (w\<lparr>g_update_progress_stage := FW_UPDATE_STAGE_4\<rparr>)"

text \<open>A division by 0 is a crash.\<close>

definition fw_update_nrf52fw_cb_progress :: "u32 \<Rightarrow> u32 \<Rightarrow> ('f, 'd) upd_world \<Rightarrow> ('f, 'd) upd_world option" where
  "fw_update_nrf52fw_cb_progress num_bytes_flashed size_all w =
     (if size_all = 0 then None
      else Some (fw_update_set_extra_info_for_status_json (g_update_progress_stage w)
             ((num_bytes_flashed * FW_UPDATE_PERCENTAGE_100) div size_all) w))"

section \<open>Which partitions are in use\<close>

definition find_data_fat_partition_by_name :: "'f flash \<Rightarrow> string \<Rightarrow> esp_partition option" where
  "find_data_fat_partition_by_name F name = fl_find_fat F name"

text \<open>None is the access to the partition that was not found for the log.\<close>

definition fw_update_find_nrf52_partition :: "'f flash \<Rightarrow> ruuvi_flash_info \<Rightarrow> (bool \<times> ruuvi_flash_info) option" where
  "fw_update_find_nrf52_partition F i =
     (let name = (if fi_is_ota0_active i then GW_NRF_PARTITION_2 else GW_NRF_PARTITION);
          i = i\<lparr>fi_next_fatfs_nrf52_partition := find_data_fat_partition_by_name F name\<rparr>
      in if fi_next_fatfs_nrf52_partition i = None
         then if \<not> fi_is_ota0_active i then Some (False, i)
           else let i = i\<lparr>fi_next_fatfs_nrf52_partition := find_data_fat_partition_by_name F GW_NRF_PARTITION\<rparr> in
             if fi_next_fatfs_nrf52_partition i = None then None else Some (True, i\<lparr>fi_is_valid := True\<rparr>)
         else Some (True, i\<lparr>fi_is_valid := True\<rparr>))"

definition fw_update_read_flash_info_internal :: "'f flash \<Rightarrow> 'f \<Rightarrow> ruuvi_flash_info \<Rightarrow> (bool \<times> ruuvi_flash_info) option" where
  "fw_update_read_flash_info_internal F f i =
     (let i = i\<lparr>fi_is_valid := False, fi_running_partition_state := ESP_OTA_IMG_UNDEFINED, fi_boot_partition := fl_boot_partition F f\<rparr>
      in if fi_boot_partition i = None then Some (False, i)
      else let i = i\<lparr>fi_running_partition := fl_running_partition F\<rparr> in
      case fi_running_partition i of None \<Rightarrow> Some (False, i)
      | Some running \<Rightarrow>
      (case fl_state_partition F running f of None \<Rightarrow> Some (False, i)
      | Some state \<Rightarrow>
      let i = i\<lparr>fi_running_partition_state := state, fi_next_update_partition := fl_next_update_partition F running\<rparr> in
      if fi_next_update_partition i = None then Some (False, i)
      else
        let i = i\<lparr>fi_is_ota0_active := (part_label running = ''ota_0'')\<rparr>;
            gwui_name = (if fi_is_ota0_active i then GW_GWUI_PARTITION_2 else GW_GWUI_PARTITION);
            i = i\<lparr>fi_next_fatfs_gwui_partition := find_data_fat_partition_by_name F gwui_name\<rparr>
        in if fi_next_fatfs_gwui_partition i = None then Some (False, i)
        else fw_update_find_nrf52_partition F i))"

definition fw_update_read_flash_info :: "'f flash \<Rightarrow> ('f, 'd) upd_world \<Rightarrow> (bool \<times> ('f, 'd) upd_world) option" where
  "fw_update_read_flash_info F w = do {
     (_, i) \<leftarrow> fw_update_read_flash_info_internal F (fu_flash w) (g_ruuvi_flash_info w);
     Some (fi_is_valid i, w\<lparr>g_ruuvi_flash_info := i\<rparr>)
   }"

definition fw_update_mark_app_valid_cancel_rollback :: "'f flash \<Rightarrow> ('f, 'd) upd_world \<Rightarrow> bool \<times> ('f, 'd) upd_world" where
  "fw_update_mark_app_valid_cancel_rollback F w =
     (let i = g_ruuvi_flash_info w in
      if fi_running_partition_state i = ESP_OTA_IMG_PENDING_VERIFY
      then let (ok, f) = fl_mark_app_valid F (fu_flash w); w = w\<lparr>fu_flash := f\<rparr> in
        if \<not> ok then (False, w) else (True, w\<lparr>g_ruuvi_flash_info := i\<lparr>fi_running_partition_state := ESP_OTA_IMG_VALID\<rparr>\<rparr>)
      else (True, w))"

definition fw_update_get_current_fatfs_nrf52_partition_name :: "('f, 'd) upd_world \<Rightarrow> string" where
  "fw_update_get_current_fatfs_nrf52_partition_name w =
     (if fi_is_ota0_active (g_ruuvi_flash_info w) then GW_NRF_PARTITION else GW_NRF_PARTITION_2)"

definition fw_update_get_current_fatfs_gwui_partition_name :: "('f, 'd) upd_world \<Rightarrow> string" where
  "fw_update_get_current_fatfs_gwui_partition_name w =
     (if fi_is_ota0_active (g_ruuvi_flash_info w) then GW_GWUI_PARTITION else GW_GWUI_PARTITION_2)"

section \<open>Erasing and writing a FAT partition\<close>

function erase_sectors :: "'f flash \<Rightarrow> esp_partition \<Rightarrow> nat \<Rightarrow> ('f, 'd) upd_world \<Rightarrow> bool \<times> ('f, 'd) upd_world" where
  "erase_sectors F p off w =
     (if off < part_size p
      then let (ok, f) = fl_erase_sector F (part_address p + off) (fu_flash w); w = w\<lparr>fu_flash := f\<rparr> in
        if \<not> ok then (False, w)
        else erase_sectors F p (off + SPI_FLASH_SEC_SIZE)
               (fw_update_set_extra_info_for_status_json (g_update_progress_stage w)
                 ((word_of_nat off * FW_UPDATE_PERCENTAGE_50) div word_of_nat (part_size p)) w)
      else (True, w))"
  by pat_completeness auto
termination by (relation "measure (\<lambda>(_, p, off, _). part_size p - off)") (auto simp: SPI_FLASH_SEC_SIZE_def)

declare erase_sectors.simps [simp del]

definition erase_partition_with_sleep :: "'f flash \<Rightarrow> esp_partition \<Rightarrow> ('f, 'd) upd_world \<Rightarrow> bool \<times> ('f, 'd) upd_world" where
  "erase_partition_with_sleep F p w = (if part_size p mod SPI_FLASH_SEC_SIZE \<noteq> 0 then (False, w) else erase_sectors F p 0 w)"

text \<open>None: the response is not handled here; otherwise the result of the callback.\<close>

definition fw_update_handle_http_resp_code :: "nat \<Rightarrow> bool option" where
  "fw_update_handle_http_resp_code code =
     (if code \<noteq> 200 then if code = 301 \<or> code = 302 then Some True else Some False else None)"

definition fw_update_percentage :: "u32 \<Rightarrow> nat \<Rightarrow> u32 \<Rightarrow> u32 \<Rightarrow> u32" where
  "fw_update_percentage offset len content_length max_size =
     FW_UPDATE_PERCENTAGE_50 + ((offset + word_of_nat len) * FW_UPDATE_PERCENTAGE_50) div
       (if content_length \<noteq> 0 then content_length else max_size)"

definition fw_update_data_partition_cb_on_recv_data :: "'f flash \<Rightarrow> esp_partition \<Rightarrow> ('f, 'd) upd_world on_data" where
  "fw_update_data_partition_cb_on_recv_data F p buf offset content_length code al w =
     (if fu_is_error w then Some (False, w)
      else case fw_update_handle_http_resp_code code of
        Some result \<Rightarrow> Some (result, if \<not> result then w\<lparr>fu_is_error := True\<rparr> else w)
      | None \<Rightarrow>
          let w = fw_update_set_extra_info_for_status_json (g_update_progress_stage w)
                    (fw_update_percentage offset (length buf) content_length FW_UPDATE_MAX_DATA_PARTITION_SIZE) w;
              (ok, f) = fl_write F p (fu_offset w) buf (fu_flash w);
              w = w\<lparr>fu_flash := f\<rparr>
          in if \<not> ok then Some (False, w\<lparr>fu_is_error := True\<rparr>) else Some (True, w\<lparr>fu_offset := fu_offset w + length buf\<rparr>))"

definition fw_update_request :: "string \<Rightarrow> http_download_param" where
  "fw_update_request url = \<lparr>dp_url = url, dp_timeout_seconds = HTTP_DOWNLOAD_FW_BINARIES_TIMEOUT_SECONDS, dp_feed_task_watchdog = False, dp_auth_type = GW_CFG_HTTP_AUTH_TYPE_NONE, dp_http_auth = False,
     dp_extra_header_item = None\<rparr>"

definition fw_update_data_partition ::
  "('f, 'd) upd_env \<Rightarrow> esp_partition \<Rightarrow> string \<Rightarrow> ('f, 'd) upd_state \<Rightarrow> (bool \<times> ('f, 'd) upd_state) option" where
  "fw_update_data_partition E p url st =
     (let F = ue_flash E;
          (ok, w) = erase_partition_with_sleep F p ((ds_user st)\<lparr>fu_offset := 0, fu_is_error := False\<rparr>);
          st = st\<lparr>ds_user := w\<rparr>
      in if \<not> ok then Some (False, st)
         else do {
           (ok, st) \<leftarrow> http_download (ue_main E) (ue_download E url) (fw_update_request url)
             (fw_update_data_partition_cb_on_recv_data F p) st;
           Some (if \<not> ok then (False, st) else if fu_is_error (ds_user st) then (False, st) else (True, st))
         })"

definition fw_update_fatfs_gwui :: "('f, 'd) upd_env \<Rightarrow> string \<Rightarrow> ('f, 'd) upd_state \<Rightarrow> (bool \<times> ('f, 'd) upd_state) option" where
  "fw_update_fatfs_gwui E url st =
     (case fi_next_fatfs_gwui_partition (g_ruuvi_flash_info (ds_user st)) of
        None \<Rightarrow> Some (False, st) | Some p \<Rightarrow> fw_update_data_partition E p url st)"

definition fw_update_fatfs_nrf52 :: "('f, 'd) upd_env \<Rightarrow> string \<Rightarrow> ('f, 'd) upd_state \<Rightarrow> (bool \<times> ('f, 'd) upd_state) option" where
  "fw_update_fatfs_nrf52 E url st =
     (case fi_next_fatfs_nrf52_partition (g_ruuvi_flash_info (ds_user st)) of
        None \<Rightarrow> Some (False, st) | Some p \<Rightarrow> fw_update_data_partition E p url st)"

section \<open>Writing the application\<close>

definition is_ota_partition :: "esp_partition \<Rightarrow> bool" where
  "is_ota_partition p \<longleftrightarrow> part_type p = ESP_PARTITION_TYPE_APP \<and> 0x10 \<le> part_subtype p \<and> part_subtype p < 0x20"

text \<open>The handle, or nothing on an error.\<close>

definition esp_ota_begin_patched ::
  "('f, 'd) upd_env \<Rightarrow> esp_partition \<Rightarrow> ('f, 'd) upd_world \<Rightarrow> u32 option \<times> ('f, 'd) upd_world" where
  "esp_ota_begin_patched E p w =
     (let F = ue_flash E in
      case fl_partition_verify F p of None \<Rightarrow> (None, w)
      | Some v \<Rightarrow>
        if \<not> is_ota_partition v then (None, w)
        else if fl_running_partition F = Some v then (None, w)
        else if Option.bind (fl_running_partition F) (\<lambda>r. fl_state_partition F r (fu_flash w)) = Some ESP_OTA_IMG_PENDING_VERIFY
        then (None, w)
        else let (ok, w) = erase_partition_with_sleep F v w in
        if \<not> ok then (None, w)
        else if \<not> ue_alloc_entry E then (None, w)
        else let h = s_ota_ops_last_handle w + 1 in
          (Some h, w\<lparr>s_ota_ops_last_handle := h,
             s_ota_ops_entries := \<lparr>oe_handle = h, oe_part = v, oe_erased_size = part_size v, oe_wrote_size = 0, oe_partial_bytes = 0,
               oe_partial_data = replicate ESP_OTA_FLASH_ENCRYPTION_MIN_CHUNK_SIZE 0\<rparr> # s_ota_ops_entries w\<rparr>))"

text \<open>\<open>memcpy\<close> into the buffer of the incomplete block; None is a write behind its end.\<close>

definition partial_copy :: "nat \<Rightarrow> u8 list \<Rightarrow> u8 list \<Rightarrow> u8 list option" where
  "partial_copy k data mem =
     (if k + length data \<le> length mem then Some (take k mem @ data @ drop (k + length data) mem) else None)"

definition ota_write_rest :: "'f flash \<Rightarrow> ota_ops_entry \<Rightarrow> u8 list \<Rightarrow> 'f \<Rightarrow> bool \<times> ota_ops_entry \<times> 'f" where
  "ota_write_rest F e data f =
     (let (ok, f) = fl_write F (oe_part e) (oe_wrote_size e) data f
      in (ok, if ok then e\<lparr>oe_wrote_size := oe_wrote_size e + length data\<rparr> else e, f))"

definition ota_keep_tail :: "'f flash \<Rightarrow> ota_ops_entry \<Rightarrow> u8 list \<Rightarrow> 'f \<Rightarrow> (bool \<times> ota_ops_entry \<times> 'f) option" where
  "ota_keep_tail F e data f =
     (let e = e\<lparr>oe_partial_bytes := length data mod ESP_OTA_FLASH_ENCRYPTION_MIN_CHUNK_SIZE\<rparr> in
      if oe_partial_bytes e \<noteq> 0
      then let n = length data - oe_partial_bytes e in do {
        mem \<leftarrow> partial_copy 0 (drop n data) (oe_partial_data e);
        Some (ota_write_rest F (e\<lparr>oe_partial_data := mem\<rparr>) (take n data) f)
      }
      else Some (ota_write_rest F e data f))"

definition esp_ota_write_entry :: "'f flash \<Rightarrow> ota_ops_entry \<Rightarrow> u8 list \<Rightarrow> 'f \<Rightarrow> (bool \<times> ota_ops_entry \<times> 'f) option" where
  "esp_ota_write_entry F e data f =
     (if oe_erased_size e = 0 then None
      else if oe_wrote_size e = 0 \<and> oe_partial_bytes e = 0 \<and> 0 < length data \<and> hd data \<noteq> ESP_IMAGE_HEADER_MAGIC
      then Some (False, e, f)
      else if \<not> fl_encryption_enabled F then Some (ota_write_rest F e data f)
      else if oe_partial_bytes e \<noteq> 0
      then let copy_len = min (ESP_OTA_FLASH_ENCRYPTION_MIN_CHUNK_SIZE - oe_partial_bytes e) (length data) in do {
        mem \<leftarrow> partial_copy (oe_partial_bytes e) (take copy_len data) (oe_partial_data e);
        let e = e\<lparr>oe_partial_data := mem, oe_partial_bytes := oe_partial_bytes e + copy_len\<rparr>;
        if oe_partial_bytes e \<noteq> ESP_OTA_FLASH_ENCRYPTION_MIN_CHUNK_SIZE then Some (True, e, f)
        else
          let (ok, f) = fl_write F (oe_part e) (oe_wrote_size e) (oe_partial_data e) f in
          if \<not> ok then Some (False, e, f)
          else ota_keep_tail F (e\<lparr>oe_partial_bytes := 0,
                 oe_partial_data := replicate ESP_OTA_FLASH_ENCRYPTION_MIN_CHUNK_SIZE ESP_OTA_FLASH_ENCRYPTION_FILL,
                 oe_wrote_size := oe_wrote_size e + ESP_OTA_FLASH_ENCRYPTION_MIN_CHUNK_SIZE\<rparr>) (drop copy_len data) f
      }
      else ota_keep_tail F e data f)"

text \<open>Changing the first entry with a handle.\<close>

fun ota_set_entry :: "u32 \<Rightarrow> ota_ops_entry \<Rightarrow> ota_ops_entry list \<Rightarrow> ota_ops_entry list" where
  "ota_set_entry h e [] = []"
| "ota_set_entry h e (x # xs) = (if oe_handle x = h then e # xs else x # ota_set_entry h e xs)"

fun ota_remove_entry :: "u32 \<Rightarrow> ota_ops_entry list \<Rightarrow> ota_ops_entry list" where
  "ota_remove_entry h [] = []"
| "ota_remove_entry h (x # xs) = (if oe_handle x = h then xs else x # ota_remove_entry h xs)"

definition esp_ota_write_patched ::
  "'f flash \<Rightarrow> u32 \<Rightarrow> u8 list \<Rightarrow> ('f, 'd) upd_world \<Rightarrow> (bool \<times> ('f, 'd) upd_world) option" where
  "esp_ota_write_patched F h data w =
     (case find (\<lambda>e. oe_handle e = h) (s_ota_ops_entries w) of
        None \<Rightarrow> Some (False, w)
      | Some e \<Rightarrow> do {
          (ok, e, f) \<leftarrow> esp_ota_write_entry F e data (fu_flash w);
          Some (ok, w\<lparr>s_ota_ops_entries := ota_set_entry h e (s_ota_ops_entries w), fu_flash := f\<rparr>)
        })"

text \<open>The last incomplete block, then the verification.\<close>

definition ota_finish :: "'f flash \<Rightarrow> bool \<Rightarrow> ota_ops_entry \<Rightarrow> 'f \<Rightarrow> bool \<times> 'f" where
  "ota_finish F alloc e f =
     (if oe_erased_size e = 0 \<or> oe_wrote_size e = 0 then (False, f)
      else
        let (ok, f) = (if 0 < oe_partial_bytes e then fl_write F (oe_part e) (oe_wrote_size e) (oe_partial_data e) f else (True, f)) in
        if \<not> ok then (False, f)
        else if \<not> alloc then (False, f)
        else (fl_image_verify F (oe_part e) f, f))"

definition esp_ota_end_patched :: "('f, 'd) upd_env \<Rightarrow> u32 \<Rightarrow> ('f, 'd) upd_world \<Rightarrow> bool \<times> ('f, 'd) upd_world" where
  "esp_ota_end_patched E h w =
     (case find (\<lambda>e. oe_handle e = h) (s_ota_ops_entries w) of
        None \<Rightarrow> (False, w)
      | Some e \<Rightarrow>
          let (ok, f) = ota_finish (ue_flash E) (ue_alloc_metadata E) e (fu_flash w)
          in (ok, w\<lparr>fu_flash := f, s_ota_ops_entries := ota_remove_entry h (s_ota_ops_entries w)\<rparr>))"

definition fw_update_ota_partition_cb_on_recv_data :: "'f flash \<Rightarrow> u32 \<Rightarrow> ('f, 'd) upd_world on_data" where
  "fw_update_ota_partition_cb_on_recv_data F h buf offset content_length code al w =
     (if fu_is_error w then Some (False, w)
      else case fw_update_handle_http_resp_code code of
        Some result \<Rightarrow> Some (result, if \<not> result then w\<lparr>fu_is_error := True\<rparr> else w)
      | None \<Rightarrow> do {
          (ok, w) \<leftarrow> esp_ota_write_patched F h buf
            (fw_update_set_extra_info_for_status_json (g_update_progress_stage w)
              (fw_update_percentage offset (length buf) content_length FW_UPDATE_MAX_OTA_PARTITION_SIZE) w);
          Some (if \<not> ok then (False, w\<lparr>fu_is_error := True\<rparr>) else (True, w))
        })"

definition fw_update_ota_partition ::
  "('f, 'd) upd_env \<Rightarrow> u32 \<Rightarrow> string \<Rightarrow> ('f, 'd) upd_state \<Rightarrow> (bool \<times> ('f, 'd) upd_state) option" where
  "fw_update_ota_partition E h url st = do {
     (ok, st) \<leftarrow> http_download (ue_main E) (ue_download E url) (fw_update_request url)
       (fw_update_ota_partition_cb_on_recv_data (ue_flash E) h) (on_upd (\<lambda>w. w\<lparr>fu_is_error := False\<rparr>) st);
     Some (if \<not> ok then (False, st) else if fu_is_error (ds_user st) then (False, st)
       else (True, on_upd (\<lambda>w. fw_update_set_extra_info_for_status_json (g_update_progress_stage w) FW_UPDATE_PERCENTAGE_100 w) st))
   }"

definition fw_update_ota :: "('f, 'd) upd_env \<Rightarrow> string \<Rightarrow> ('f, 'd) upd_state \<Rightarrow> (bool \<times> ('f, 'd) upd_state) option" where
  "fw_update_ota E url st =
     (case fi_next_update_partition (g_ruuvi_flash_info (ds_user st)) of
        None \<Rightarrow> Some (False, st)
      | Some p \<Rightarrow>
          let (handle, w) = esp_ota_begin_patched E p (ds_user st); st = st\<lparr>ds_user := w\<rparr> in
          case handle of None \<Rightarrow> Some (False, st)
          | Some h \<Rightarrow> do {
              (res, st) \<leftarrow> fw_update_ota_partition E h url st;
              let (ok, w) = esp_ota_end_patched E h (ds_user st);
              Some (if \<not> ok then False else res, st\<lparr>ds_user := w\<rparr>)
            })"

section \<open>The update\<close>

definition fw_update_url :: "('f, 'd) upd_state \<Rightarrow> string \<Rightarrow> string" where
  "fw_update_url st name = c_str (g_fw_update_cfg (ds_user st)) @ ''/'' @ name"

definition fw_update_ruuvi_gateway_esp_bin :: "('f, 'd) upd_env \<Rightarrow> ('f, 'd) upd_state \<Rightarrow> (bool \<times> ('f, 'd) upd_state) option" where
  "fw_update_ruuvi_gateway_esp_bin E st =
     (if \<not> ue_alloc_url E ''ruuvi_gateway_esp.bin'' then Some (False, st)
      else fw_update_ota E (fw_update_url st ''ruuvi_gateway_esp.bin'') st)"

definition fw_update_fatfs_gwui_bin :: "('f, 'd) upd_env \<Rightarrow> ('f, 'd) upd_state \<Rightarrow> (bool \<times> ('f, 'd) upd_state) option" where
  "fw_update_fatfs_gwui_bin E st =
     (if \<not> ue_alloc_url E ''fatfs_gwui.bin'' then Some (False, st) else fw_update_fatfs_gwui E (fw_update_url st ''fatfs_gwui.bin'') st)"

definition fw_update_fatfs_nrf52_bin :: "('f, 'd) upd_env \<Rightarrow> ('f, 'd) upd_state \<Rightarrow> (bool \<times> ('f, 'd) upd_state) option" where
  "fw_update_fatfs_nrf52_bin E st =
     (if \<not> ue_alloc_url E ''fatfs_nrf52.bin'' then Some (False, st) else fw_update_fatfs_nrf52 E (fw_update_url st ''fatfs_nrf52.bin'') st)"

definition fw_update_set_stage :: "fw_update_stage \<Rightarrow> ('f, 'd) upd_world \<Rightarrow> ('f, 'd) upd_world" where
  "fw_update_set_stage s w = fw_update_set_extra_info_for_status_json s 0 (w\<lparr>g_update_progress_stage := s\<rparr>)"

definition upd_fail :: "string \<Rightarrow> ('f, 'd) upd_state \<Rightarrow> (bool \<times> ('f, 'd) upd_state) option" where
  "upd_fail msg st = Some (False, on_upd (fw_update_set_extra_info_for_status_json_update_failed msg) st)"

text \<open>The partition in use is switched.\<close>

definition fw_update_switch :: "('f, 'd) upd_env \<Rightarrow> ('f, 'd) upd_state \<Rightarrow> (bool \<times> ('f, 'd) upd_state) option" where
  "fw_update_switch E st = do {
     let w = ds_user st;
     let i = g_ruuvi_flash_info w;
     p \<leftarrow> fi_next_update_partition i;
     let (ok, f) = fl_set_boot_partition (ue_flash E) p (fu_flash w);
     let st = st\<lparr>ds_user := w\<lparr>fu_flash := f\<rparr>\<rparr>;
     if \<not> ok then upd_fail ''Failed to switch boot partition'' st
     else Some (True, on_upd (\<lambda>w. w\<lparr>g_ruuvi_flash_info := i\<lparr>fi_boot_partition := fi_next_update_partition i,
            fi_is_ota0_active := \<not> fi_is_ota0_active i\<rparr>\<rparr>) st)
   }"

text \<open>\<open>fw_update_do_actions\<close> up to the switch.\<close>

definition fw_update_images :: "('f, 'd) upd_env \<Rightarrow> ('f, 'd) upd_state \<Rightarrow> (bool \<times> ('f, 'd) upd_state) option" where
  "fw_update_images E st = do {
     (ok, st) \<leftarrow> fw_update_ruuvi_gateway_esp_bin E (on_upd (fw_update_set_stage FW_UPDATE_STAGE_1) st);
     if \<not> ok then upd_fail ''Failed to update OTA'' st
     else do {
       (ok, st) \<leftarrow> fw_update_fatfs_gwui_bin E (on_upd (fw_update_set_stage FW_UPDATE_STAGE_2) st);
       if \<not> ok then upd_fail ''Failed to update GWUI'' st
       else do {
         (ok, st) \<leftarrow> fw_update_fatfs_nrf52_bin E (on_upd (fw_update_set_stage FW_UPDATE_STAGE_3) st);
         if \<not> ok then upd_fail ''Failed to update nRF52'' st
         else fw_update_switch E st
       }
     }
   }"

text \<open>Calls of \<open>fw_update_nrf52fw_cb_progress\<close> are among the events of the update of the nRF52.\<close>

fun report_progress :: "fw_event list \<Rightarrow> ('f, 'd) upd_world \<Rightarrow> ('f, 'd) upd_world option" where
  "report_progress [] w = Some w"
| "report_progress (Cb_progress n k # es) w = do { w \<leftarrow> fw_update_nrf52fw_cb_progress n k w; report_progress es w }"
| "report_progress (_ # es) w = report_progress es w"

definition fw_update_nrf52 :: "('f, 'd) upd_env \<Rightarrow> ('f, 'd) upd_state \<Rightarrow> (bool \<times> ('f, 'd) upd_state) option" where
  "fw_update_nrf52 E st = do {
     let w = fw_update_set_stage_nrf52_updating (ds_user st);
     let files = (ue_files E (fw_update_get_current_fatfs_nrf52_partition_name w) (fu_flash w))
           \<lparr>fe_has_cb_progress := True, fe_has_cb_before_updating := True, fe_has_cb_after_updating := True, fe_want_fw_ver := False\<rparr>;
     (ok, n) \<leftarrow> nrf52fw_update_fw_if_necessary (ue_libswd E) files ((fu_nrf52 w)\<lparr>fw_events := []\<rparr>);
     w \<leftarrow> report_progress (fw_events n) (w\<lparr>fu_nrf52 := n\<rparr>);
     Some (ok, st\<lparr>ds_user := (if \<not> ok then fw_update_set_extra_info_for_status_json_update_failed_nrf52 ''Failed to update nRF52 firmware'' w
             else fw_update_set_extra_info_for_status_json_update_successful w)\<rparr>)
   }"

definition fw_update_do_actions :: "('f, 'd) upd_env \<Rightarrow> ('f, 'd) upd_state \<Rightarrow> (bool \<times> ('f, 'd) upd_state) option" where
  "fw_update_do_actions E st = do {
     (ok, st) \<leftarrow> fw_update_images E st;
     if \<not> ok then Some (False, st) else fw_update_nrf52 E st
   }"

fun fw_update_get_reboot_reason_msg :: "fw_updating_reason \<Rightarrow> bool \<Rightarrow> string" where
  "fw_update_get_reboot_reason_msg FW_UPDATE_REASON_NONE False = ''Restart the system after firmware update (failed)''"
| "fw_update_get_reboot_reason_msg FW_UPDATE_REASON_AUTO False = ''Restart the system after firmware update (auto-updating failed)''"
| "fw_update_get_reboot_reason_msg FW_UPDATE_REASON_MANUAL_VIA_HOTSPOT False =
     ''Restart the system after firmware update (manual updating via WiFi hotspot failed)''"
| "fw_update_get_reboot_reason_msg FW_UPDATE_REASON_MANUAL_VIA_LAN False =
     ''Restart the system after firmware update (manual updating via LAN failed)''"
| "fw_update_get_reboot_reason_msg FW_UPDATE_REASON_NONE True = ''Restart the system after firmware update (completed successfully)''"
| "fw_update_get_reboot_reason_msg FW_UPDATE_REASON_AUTO True =
     ''Restart the system after firmware update (auto-updating completed successfully)''"
| "fw_update_get_reboot_reason_msg FW_UPDATE_REASON_MANUAL_VIA_HOTSPOT True =
     ''Restart the system after firmware update (manual updating via WiFi hotspot completed successfully)''"
| "fw_update_get_reboot_reason_msg FW_UPDATE_REASON_MANUAL_VIA_LAN True =
     ''Restart the system after firmware update (manual updating via LAN completed successfully)''"

definition sleep_with_task_watchdog_feeding :: "main_env \<Rightarrow> nat \<Rightarrow> main_world \<Rightarrow> main_world" where
  "sleep_with_task_watchdog_feeding E n = (\<lambda>w. ml_call (Main_delay (en_ms_to_ticks E 1000)) (ml_call Main_wdt_reset w)) ^^ n"

definition fw_update_start_ap :: "('f, 'd) upd_env \<Rightarrow> fw_updating_reason \<Rightarrow> main_world \<Rightarrow> main_world" where
  "fw_update_start_ap E reason w =
     (if \<not> en_ap_active (ue_main E)
      then ml_call (Main_delay (en_ms_to_ticks (ue_main E) 1000))
             (if reason = FW_UPDATE_REASON_MANUAL_VIA_LAN then start_wifi_ap_without_blocking_req_from_lan w else start_wifi_ap w)
      else w)"

definition fw_update_before_reboot :: "('f, 'd) upd_env \<Rightarrow> fw_updating_reason \<Rightarrow> main_world \<Rightarrow> main_world" where
  "fw_update_before_reboot E reason w = sleep_with_task_watchdog_feeding (ue_main E) FW_UPDATE_DELAY_BEFORE_REBOOT_SECONDS
     (case reason of
        FW_UPDATE_REASON_AUTO \<Rightarrow> ml_call (Main_write_rebooting_after_auto_update True) w
      | FW_UPDATE_REASON_MANUAL_VIA_HOTSPOT \<Rightarrow>
          if ue_ap_sta_ip_assigned E then ml_call (Main_write_force_start_wifi_hotspot FORCE_START_WIFI_HOTSPOT_ONCE) w else w
      | _ \<Rightarrow> w)"

definition fw_update_prepare :: "('f, 'd) upd_env \<Rightarrow> ('f, 'd) upd_state \<Rightarrow> ('f, 'd) upd_state option" where
  "fw_update_prepare E st = do {
     let M = ue_main E;
     let st = on_main (\<lambda>w. main_task_stop_timer_check_for_remote_cfg (ml_call Main_leds_nrf52_fw_updating w)) st;
     s \<leftarrow> gw_status_suspend_relaying (en_wait M) True (ml_status (ds_world st));
     let st = on_main (set_status s) st;
     Some (on_main (\<lambda>w. timer_cfg_mode_deactivation_stop (fw_update_start_ap E (g_fw_updating_reason (ds_user st)) w)) st)
   }"

definition fw_update_finish :: "('f, 'd) upd_env \<Rightarrow> bool \<Rightarrow> ('f, 'd) upd_state \<Rightarrow> ('f, 'd) upd_state" where
  "fw_update_finish E ok st =
     (let reason = g_fw_updating_reason (ds_user st);
          st = (if \<not> ok then on_upd (\<lambda>w. w\<lparr>g_fw_updating_reason := FW_UPDATE_REASON_NONE\<rparr>) st
                else on_main (fw_update_before_reboot E reason) st)
      in on_main (gateway_restart_announce (ue_main E) (fw_update_get_reboot_reason_msg reason ok)) st)"

text \<open>The thread up to the wait for the restart in \<open>gateway_restart\<close>.\<close>

definition fw_update_task :: "('f, 'd) upd_env \<Rightarrow> ('f, 'd) upd_state \<Rightarrow> ('f, 'd) upd_state option" where
  "fw_update_task E st = do {
     st \<leftarrow> fw_update_prepare E st;
     (ok, st) \<leftarrow> fw_update_do_actions E st;
     Some (fw_update_finish E ok st)
   }"

definition fw_update_binaries_is_url_valid :: "('f, 'd) upd_world \<Rightarrow> bool" where
  "fw_update_binaries_is_url_valid w = http_download_is_url_valid (c_str (g_fw_update_cfg w))"

definition fw_update_set_binaries_url :: "string \<Rightarrow> ('f, 'd) upd_world \<Rightarrow> ('f, 'd) upd_world" where
  "fw_update_set_binaries_url url w = w\<lparr>g_fw_update_cfg := snprintf_str (g_fw_update_cfg w) url\<rparr>"

definition fw_update_get_binaries_url :: "('f, 'd) upd_world \<Rightarrow> string" where
  "fw_update_get_binaries_url w = c_str (g_fw_update_cfg w)"

definition fw_update_run :: "('f, 'd) upd_env \<Rightarrow> fw_updating_reason \<Rightarrow> ('f, 'd) upd_state \<Rightarrow> bool \<times> ('f, 'd) upd_state" where
  "fw_update_run E reason st =
     (let st = on_main (ml_call Main_network_timeout_update) (on_upd (\<lambda>w. w\<lparr>g_fw_updating_reason := reason\<rparr>) st) in
      if \<not> ue_thread_created E then (False, on_upd (\<lambda>w. w\<lparr>g_fw_updating_reason := FW_UPDATE_REASON_NONE\<rparr>) st)
      else (True, st))"

section \<open>The URL in a request\<close>

definition json_fw_update_copy_string_val :: "'j cjson_lib \<Rightarrow> 'j \<Rightarrow> string \<Rightarrow> string \<Rightarrow> string option" where
  "json_fw_update_copy_string_val L j name buf = json_wrap_copy_string_val L j [] name buf"

text \<open>None is the access in front of an empty URL.\<close>

definition json_fw_update_parse :: "'j cjson_lib \<Rightarrow> 'j \<Rightarrow> string \<Rightarrow> (bool \<times> string) option" where
  "json_fw_update_parse L j cfg =
     (case json_fw_update_copy_string_val L j ''url'' cfg of
        None \<Rightarrow> Some (False, cfg)
      | Some cfg \<Rightarrow>
          let len = length (c_str cfg) in
          if len = 0 then None
          else Some (True, if cfg ! (len - 1) = CHR ''/'' then cfg[len - 1 := NUL] else cfg))"

definition json_fw_update_parse_http_body :: "'j cjson_lib \<Rightarrow> string \<Rightarrow> ('f, 'd) upd_world \<Rightarrow> (bool \<times> ('f, 'd) upd_world) option" where
  "json_fw_update_parse_http_body L body w =
     (case cJSON_Parse L body of
        None \<Rightarrow> Some (False, w)
      | Some j \<Rightarrow> do {
          (ok, cfg) \<leftarrow> json_fw_update_parse L j (g_fw_update_cfg w);
          Some (ok, w\<lparr>g_fw_update_cfg := cfg\<rparr>)
        })"

definition json_fw_update_url_parse_http_body_get_url :: "'j cjson_lib \<Rightarrow> bool \<Rightarrow> string \<Rightarrow> string option" where
  "json_fw_update_url_parse_http_body_get_url L alloc body = do {
     j \<leftarrow> cJSON_Parse L body;
     url \<leftarrow> json_wrap_get_string_val L j [] ''url'';
     if alloc then Some (c_str url) else None
   }"

text \<open>An empty URL is such an access.\<close>

lemma json_fw_update_empty_url:
  "json_fw_update_copy_string_val L j ''url'' cfg = Some buf \<Longrightarrow> c_str buf = [] \<Longrightarrow> json_fw_update_parse L j cfg = None"
  by (simp add: json_fw_update_parse_def)

end
