(* ===== verification/Fw_Update_Safe.thy ===== *)
theory Fw_Update_Safe
  imports Fw_Update
begin

text \<open>
  What a firmware update does to the flash memory: which bytes it writes, what the new partitions hold when the boot partition is
  switched, and that the partitions in use are not touched.
\<close>

section \<open>The data of a download\<close>

text \<open>\<open>I\<close> speaks of the data reported so far.\<close>

definition follows :: "((u8 list \<times> nat) list \<Rightarrow> 'u \<Rightarrow> bool) \<Rightarrow> 'u on_data \<Rightarrow> bool" where
  "follows I cb \<longleftrightarrow> (\<forall>buf off cl code al u es. I es u \<longrightarrow> (\<exists>ok u'. cb buf off cl code al u = Some (ok, u') \<and> I (es @ [(buf, code)]) u'))"

lemma event_follows:
  assumes "follows I cb" and "I es (ds_user st)"
  shows "\<exists>ok st'. http_download_event_handler D (Some cb) e st = Some (ok, st') \<and> dl_same st st' \<and> I (es @ data_of [e]) (ds_user st')"
proof (cases e)
  case (HTTP_EVENT_ON_DATA buf code alloc)
  with assms obtain ok u' where "cb buf (dl_offset (ds_info (dl_feed st))) (dl_content_length (ds_info (dl_feed st))) code alloc
      (ds_user st) = Some (ok, u')" "I (es @ [(buf, code)]) u'" unfolding follows_def by fastforce
  then show ?thesis by (cases ok) (auto simp: HTTP_EVENT_ON_DATA Let_def dl_same_def)
qed (use assms in \<open>auto simp: dl_same_def\<close>)

lemma data_of_Cons: "data_of (e # es) = data_of [e] @ data_of es"
  by (cases e) simp_all

lemma events_follows:
  assumes "follows I cb" and "I es (ds_user st)"
  shows "\<exists>st'. dl_events D (Some cb) evs st = Some st' \<and> dl_same st st' \<and> I (es @ data_of evs) (ds_user st')"
  using assms(2)
proof (induction evs arbitrary: es st)
  case (Cons e evs)
  obtain ok st1 where st1: "http_download_event_handler D (Some cb) e st = Some (ok, st1)" "dl_same st st1" "I (es @ data_of [e]) (ds_user st1)"
    using event_follows [OF assms(1) Cons.prems] by blast
  with Cons.IH [OF st1(3)] show ?case by (auto simp: dl_same_def data_of_Cons [of e evs])
qed (simp add: dl_same_def)

lemma dl_resp_same_trans: "dl_same st st1 \<Longrightarrow> dl_resp_same resp st1 st' \<Longrightarrow> dl_resp_same resp st st'"
  by (auto simp: dl_same_def dl_resp_same_def)

lemma wait_follows:
  assumes "follows I cb" and "I es (ds_user st)"
  shows "\<exists>resp st'. wait_over D (Some cb) polls st = Some (resp, st') \<and> dl_resp_same resp st st' \<and>
    I (es @ data_of (polled_events polls)) (ds_user st') \<and>
    (http_resp_code resp = 200 \<longleftrightarrow> completes polls \<and> 200 \<le> de_status_code D \<and> de_status_code D \<le> 299)"
  using assms(2)
proof (induction polls arbitrary: es st)
  case Nil
  obtain resp st' where "http_wait_failed D st = (resp, st')" by fastforce
  with wait_failed_same [OF this] Nil show ?case by simp
next
  case (Cons poll polls)
  obtain evs r where poll: "poll = (evs, r)" by (cases poll)
  obtain st1 where st1: "dl_events D (Some cb) evs st = Some st1" "dl_same st st1" "I (es @ data_of evs) (ds_user st1)"
    using events_follows [OF assms(1) Cons.prems] by blast
  show ?case
  proof (cases r)
    case Perform_again
    from Cons.IH [of "es @ data_of evs" "dl_feed st1"] st1(3) obtain resp st' where
      "wait_over D (Some cb) polls (dl_feed st1) = Some (resp, st')" "dl_resp_same resp (dl_feed st1) st'"
      "I (es @ data_of evs @ data_of (polled_events polls)) (ds_user st')"
      "http_resp_code resp = 200 \<longleftrightarrow> completes polls \<and> 200 \<le> de_status_code D \<and> de_status_code D \<le> 299" by auto
    with st1(1,2) show ?thesis by (auto simp: poll Perform_again dl_resp_same_def dl_same_def)
  next
    case Perform_failed
    obtain resp st' where failed: "http_wait_failed D st1 = (resp, st')" by fastforce
    with wait_failed_same [OF failed] st1 show ?thesis
      by (simp add: poll Perform_failed dl_resp_same_trans [OF st1(2)])
  qed (use st1 in \<open>auto simp: poll dl_resp_same_def dl_same_def http_resp_defs\<close>)
qed

lemma by_handle_follows:
  assumes "follows I cb" and "I [] (ds_user st)" and "dl_ticks D t"
  shows "\<exists>resp st'. http_download_by_handle D (Some cb) t st = Some (resp, st') \<and> dl_resp_same resp st st' \<and>
    (I (data_of (dl_reported D t)) (ds_user st') \<or> http_resp_code resp \<noteq> 200 \<and> I [] (ds_user st')) \<and>
    (http_resp_code resp = 200 \<longrightarrow> dl_delivered D t) \<and>
    ((\<forall>h. de_set_header D h) \<and> dl_delivered D t \<longrightarrow> http_resp_code resp = 200)"
proof (cases "de_set_header D ''Accept'' \<and> de_set_header D ''User-Agent''")
  case False
  then have "http_download_by_handle D (Some cb) t st = Some (http_server_resp_err 500, st)"
    by (auto simp: http_download_by_handle_def)
  with False assms(2) show ?thesis by (auto simp: http_resp_defs dl_resp_same_def)
next
  case True
  obtain st1 where st1: "dl_events D (Some cb) (fst (de_first D)) st = Some st1" "dl_same st st1" "I (data_of (fst (de_first D))) (ds_user st1)"
    using events_follows [OF assms(1), of "[]" st D "fst (de_first D)"] assms(2) by auto
  show ?thesis
  proof (cases "snd (de_first D)")
    case Perform_again
    obtain resp st' where "wait_over D (Some cb) (dl_calls D t) st1 = Some (resp, st')"
      "dl_resp_same resp st1 st'" "I (data_of (fst (de_first D)) @ data_of (polled_events (dl_calls D t))) (ds_user st')"
      "http_resp_code resp = 200 \<longleftrightarrow> completes (dl_calls D t) \<and> 200 \<le> de_status_code D \<and> de_status_code D \<le> 299"
      using wait_follows [OF assms(1) st1(3)] by blast
    with st1 True Perform_again dl_resp_same_trans [OF st1(2)] show ?thesis
      by (simp add: http_download_by_handle_def dl_reported_def dl_delivered_def wait_over_calls [OF assms(3)])
  qed (use st1 True in \<open>auto simp: http_download_by_handle_def dl_resp_same_def dl_same_def dl_reported_def dl_delivered_def http_resp_defs\<close>)
qed

text \<open>Everything of the state that is not the data of the callback is as before.\<close>

definition dl_back :: "'u dl_state \<Rightarrow> 'u dl_state \<Rightarrow> bool" where
  "dl_back st st' \<longleftrightarrow> dl_counts st' = dl_counts st \<and> (fst (dl_counts st) \<noteq> 0 \<longrightarrow> dl_bits st' = dl_bits st) \<and>
     ds_live st' = ds_live st \<and> ds_resp_heap st' = ds_resp_heap st"

lemma dl_back_refl [simp]: "dl_back st st" by (simp add: dl_back_def)

lemma dl_back_trans: "dl_back st1 st2 \<Longrightarrow> dl_back st2 st3 \<Longrightarrow> dl_back st1 st3" by (auto simp: dl_back_def)

lemma dl_back_user [simp]: "dl_back (st\<lparr>ds_user := u\<rparr>) st' = dl_back st st'" "dl_back st (st'\<lparr>ds_user := u\<rparr>) = dl_back st st'"
  by (simp_all add: dl_back_def)

lemma download_follows:
  assumes "ticks_advance (en_wait E)" and "unat (fst (dl_counts st)) < 2 ^ 31 - 1" and "dl_ticks D (dp_timeout_seconds p)"
    and "follows I cb" and "I [] (ds_user st)"
  shows "\<exists>ok st'. http_download E D p cb st = Some (ok, st') \<and> dl_back st st' \<and>
    (I (data_of (dl_reported D (dp_timeout_seconds p))) (ds_user st') \<or> \<not> ok \<and> I [] (ds_user st')) \<and>
    (ok \<longrightarrow> dl_delivered D (dp_timeout_seconds p)) \<and>
    (dl_all_ok D p \<and> gw_status_is_network_connected (ml_status (ds_world st)) \<and> dl_delivered D (dp_timeout_seconds p) \<longrightarrow> ok)"
proof -
  let ?t = "dp_timeout_seconds p"
  let ?ok = "dl_all_ok D p \<and> gw_status_is_network_connected (ml_status (ds_world st))"
  let ?Q = "\<lambda>resp u. (I (data_of (dl_reported D ?t)) u \<or> http_resp_code resp \<noteq> 200 \<and> I [] u) \<and>
    (http_resp_code resp = 200 \<longrightarrow> dl_delivered D ?t) \<and> (?ok \<and> dl_delivered D ?t \<longrightarrow> http_resp_code resp = 200)"
  have "\<exists>resp st'. http_download_or_check E D HTTP_METHOD_GET p (Some cb) st = Some (resp, st') \<and> dl_resp_same resp st st' \<and> ?Q resp (ds_user st')"
  proof (rule download_or_check_general [OF assms(1,2), where Q = ?Q])
    fix st1 :: "'a dl_state" assume "ds_user st1 = ds_user st"
    with by_handle_follows [OF assms(4) _ assms(3), of st1] assms(5)
    show "\<exists>resp st'. http_download_by_handle D (Some cb) ?t st1 = Some (resp, st') \<and> dl_resp_same resp st1 st' \<and> ?Q resp (ds_user st')"
      by (auto simp: dl_all_ok_def)
  next
    fix code :: nat assume "code \<noteq> 200" and "\<not> (HTTP_METHOD_GET = HTTP_METHOD_GET \<and> dl_all_ok D p \<and> gw_status_is_network_connected (ml_status (ds_world st)))"
    with assms(5) show "?Q (http_server_resp_err code) (ds_user st)" by (auto simp: http_resp_defs)
  qed
  then obtain resp st' where "http_download_or_check E D HTTP_METHOD_GET p (Some cb) st = Some (resp, st')" "dl_resp_same resp st st'"
    "?Q resp (ds_user st')" by blast
  moreover have "dl_back st (resp_free resp st')" "ds_user (resp_free resp st') = ds_user st'"
    using calculation(2) by (auto simp: dl_back_def dl_resp_same_def resp_free_def dl_counts_def dl_bits_def)
  ultimately show ?thesis by (auto simp: http_download_def http_download_with_auth_def)
qed

section \<open>The flash memory\<close>

definition region :: "esp_partition \<Rightarrow> nat set" where
  "region p = {part_address p ..< part_address p + part_size p}"

text \<open>Outside of \<open>S\<close> nothing has changed.\<close>

definition flash_same :: "'f flash \<Rightarrow> nat set \<Rightarrow> 'f \<Rightarrow> 'f \<Rightarrow> bool" where
  "flash_same F S f f' \<longleftrightarrow> (\<forall>x. x \<notin> S \<longrightarrow> fl_read F f' x = fl_read F f x \<and> fl_blank F f' x = fl_blank F f x)"

text \<open>What the SDK documents: erasing a sector changes this sector, a write changes the partition, and none of the two the choice of the
  boot partition, which is stored at \<open>otadata\<close>; if they succeed, the sector is erased, and what is written to erased bytes can be read back.\<close>

definition erase_law :: "'f flash \<Rightarrow> nat set \<Rightarrow> bool" where
  "erase_law F otadata \<longleftrightarrow> (\<forall>a f. let (ok, f') = fl_erase_sector F a f; S = {a ..< a + SPI_FLASH_SEC_SIZE} in
     flash_same F S f f' \<and> (ok \<longrightarrow> (\<forall>x\<in>S. fl_blank F f' x)) \<and> (S \<inter> otadata = {} \<longrightarrow> fl_boot_partition F f' = fl_boot_partition F f))"

definition write_law :: "'f flash \<Rightarrow> nat set \<Rightarrow> bool" where
  "write_law F otadata \<longleftrightarrow> (\<forall>p off bs f. let (ok, f') = fl_write F p off bs f; a = part_address p + off; S = {a ..< a + length bs} in
     flash_same F (region p) f f' \<and> (region p \<inter> otadata = {} \<longrightarrow> fl_boot_partition F f' = fl_boot_partition F f) \<and>
     (ok \<longrightarrow> off + length bs \<le> part_size p \<and> flash_same F S f f' \<and>
       ((\<forall>x\<in>S. fl_blank F f x) \<longrightarrow> (\<forall>k<length bs. fl_read F f' (a + k) = bs ! k))))"

definition boot_law :: "'f flash \<Rightarrow> nat set \<Rightarrow> bool" where
  "boot_law F otadata \<longleftrightarrow> (\<forall>p f. let (ok, f') = fl_set_boot_partition F p f in
     flash_same F otadata f f' \<and> (ok \<longrightarrow> fl_boot_partition F f' = Some p))"

definition flash_laws :: "'f flash \<Rightarrow> nat set \<Rightarrow> bool" where
  "flash_laws F otadata \<longleftrightarrow> erase_law F otadata \<and> write_law F otadata \<and> boot_law F otadata \<and>
     (\<forall>p v. fl_partition_verify F p = Some v \<longrightarrow> v = p)"

lemma flash_same_refl [simp]: "flash_same F S f f" by (simp add: flash_same_def)

lemma flash_same_trans: "flash_same F S f1 f2 \<Longrightarrow> flash_same F S f2 f3 \<Longrightarrow> flash_same F S f1 f3" by (simp add: flash_same_def)

lemma flash_same_mono: "flash_same F S f f' \<Longrightarrow> S \<subseteq> T \<Longrightarrow> flash_same F T f f'" by (auto simp: flash_same_def)

text \<open>A change of a partition that does not hold the choice of the boot partition.\<close>

definition part_changed :: "'f flash \<Rightarrow> esp_partition \<Rightarrow> 'f \<Rightarrow> 'f \<Rightarrow> bool" where
  "part_changed F p f f' \<longleftrightarrow> flash_same F (region p) f f' \<and> fl_boot_partition F f' = fl_boot_partition F f"

lemma part_changed_refl [simp]: "part_changed F p f f" by (simp add: part_changed_def)

lemma part_changed_trans: "part_changed F p f1 f2 \<Longrightarrow> part_changed F p f2 f3 \<Longrightarrow> part_changed F p f1 f3"
  by (auto simp: part_changed_def intro: flash_same_trans)

text \<open>The bytes \<open>bs\<close> at the beginning of a partition, the rest of which is erased.\<close>

definition part_stored :: "'f flash \<Rightarrow> esp_partition \<Rightarrow> u8 list \<Rightarrow> 'f \<Rightarrow> bool" where
  "part_stored F p bs f \<longleftrightarrow> length bs \<le> part_size p \<and> (\<forall>k<length bs. fl_read F f (part_address p + k) = bs ! k) \<and>
     (\<forall>k. length bs \<le> k \<and> k < part_size p \<longrightarrow> fl_blank F f (part_address p + k))"

lemma stored_same: "flash_same F S f f' \<Longrightarrow> S \<inter> region p = {} \<Longrightarrow> part_stored F p bs f \<Longrightarrow> part_stored F p bs f'"
proof -
  assume same: "flash_same F S f f'" and S: "S \<inter> region p = {}" and st: "part_stored F p bs f"
  have "part_address p + k \<notin> S" if "k < part_size p" for k
  proof -
    have "part_address p + k \<in> region p" using that by (simp add: region_def)
    with S show ?thesis by blast
  qed
  with same st show ?thesis by (simp add: part_stored_def flash_same_def)
qed

lemma write_lawD:
  assumes "write_law F otadata" and "fl_write F p off bs f = (ok, f')"
  shows "flash_same F (region p) f f'" and "region p \<inter> otadata = {} \<Longrightarrow> fl_boot_partition F f' = fl_boot_partition F f"
    and "ok \<Longrightarrow> off + length bs \<le> part_size p"
    and "ok \<Longrightarrow> flash_same F {part_address p + off ..< part_address p + off + length bs} f f'"
    and "ok \<Longrightarrow> \<forall>x\<in>{part_address p + off ..< part_address p + off + length bs}. fl_blank F f x \<Longrightarrow> k < length bs \<Longrightarrow>
      fl_read F f' (part_address p + off + k) = bs ! k"
proof -
  have "let (ok, f') = fl_write F p off bs f; a = part_address p + off; S = {a ..< a + length bs} in
     flash_same F (region p) f f' \<and> (region p \<inter> otadata = {} \<longrightarrow> fl_boot_partition F f' = fl_boot_partition F f) \<and>
     (ok \<longrightarrow> off + length bs \<le> part_size p \<and> flash_same F S f f' \<and>
       ((\<forall>x\<in>S. fl_blank F f x) \<longrightarrow> (\<forall>k<length bs. fl_read F f' (a + k) = bs ! k)))"
    using assms(1) unfolding write_law_def by blast
  note law = this [unfolded assms(2) Let_def prod.case]
  show "flash_same F (region p) f f'" "region p \<inter> otadata = {} \<Longrightarrow> fl_boot_partition F f' = fl_boot_partition F f"
    "ok \<Longrightarrow> off + length bs \<le> part_size p" "ok \<Longrightarrow> flash_same F {part_address p + off ..< part_address p + off + length bs} f f'"
    "ok \<Longrightarrow> \<forall>x\<in>{part_address p + off ..< part_address p + off + length bs}. fl_blank F f x \<Longrightarrow> k < length bs \<Longrightarrow>
      fl_read F f' (part_address p + off + k) = bs ! k"
    using law by blast+
qed

lemma stored_write:
  assumes "write_law F otadata" and "part_stored F p bs f" and "fl_write F p (length bs) ds f = (True, f')"
  shows "part_stored F p (bs @ ds) f'"
proof -
  let ?a = "part_address p + length bs" let ?S = "{?a ..< ?a + length ds}"
  have law: "length bs + length ds \<le> part_size p" "flash_same F ?S f f'"
    "\<forall>x\<in>?S. fl_blank F f x \<Longrightarrow> k < length ds \<Longrightarrow> fl_read F f' (?a + k) = ds ! k" for k
    using write_lawD [OF assms(1,3)] by simp_all
  have "fl_blank F f x" if "x \<in> ?S" for x
    using assms(2) law(1) that unfolding part_stored_def by (auto dest!: spec [of _ "x - part_address p"])
  with law(3) have "fl_read F f' (?a + k) = ds ! k" if "k < length ds" for k using that by blast
  note new = this
  have "fl_read F f' (part_address p + k) = (bs @ ds) ! k" if "k < length (bs @ ds)" for k
  proof (cases "k < length bs")
    case True
    with assms(2) law(2) show ?thesis by (auto simp: part_stored_def flash_same_def nth_append)
  next
    case False
    with new [of "k - length bs"] that show ?thesis by (simp add: nth_append add.assoc)
  qed
  moreover have "fl_blank F f' (part_address p + k)" if "length (bs @ ds) \<le> k" "k < part_size p" for k
    using assms(2) law(2) that by (auto simp: part_stored_def flash_same_def)
  ultimately show ?thesis using law(1) by (simp add: part_stored_def)
qed

lemma write_changes:
  assumes "write_law F otadata" and "region p \<inter> otadata = {}" and "fl_write F p off bs f = (ok, f')"
  shows "part_changed F p f f'" and "ok \<Longrightarrow> off + length bs \<le> part_size p"
  using write_lawD [OF assms(1,3)] assms(2) by (simp_all add: part_changed_def)

section \<open>Erasing and writing a FAT partition\<close>

text \<open>A flash memory without faults, for the statements about success.\<close>

definition flash_healthy :: "'f flash \<Rightarrow> bool" where
  "flash_healthy F \<longleftrightarrow> (\<forall>a f. fst (fl_erase_sector F a f)) \<and> (\<forall>p f. fst (fl_set_boot_partition F p f)) \<and>
     (\<forall>p off bs f. off + length bs \<le> part_size p \<longrightarrow> fst (fl_write F p off bs f))"

lemma flash_healthyD:
  assumes "flash_healthy F"
  shows "fl_erase_sector F a f = (ok, f') \<Longrightarrow> ok" and "fl_set_boot_partition F p f = (ok, f') \<Longrightarrow> ok"
    and "fl_write F p off bs f = (ok, f') \<Longrightarrow> off + length bs \<le> part_size p \<Longrightarrow> ok"
  using assms unfolding flash_healthy_def by (metis fst_conv)+

text \<open>What an update of a partition leaves alone.\<close>

definition upd_keeps :: "('f, 'd) upd_world \<Rightarrow> ('f, 'd) upd_world \<Rightarrow> bool" where
  "upd_keeps w w' \<longleftrightarrow> g_ruuvi_flash_info w' = g_ruuvi_flash_info w \<and> g_fw_update_cfg w' = g_fw_update_cfg w \<and>
     g_fw_updating_reason w' = g_fw_updating_reason w \<and> fu_nrf52 w' = fu_nrf52 w"

lemma upd_keeps_refl [simp]: "upd_keeps w w" by (simp add: upd_keeps_def)

lemma upd_keeps_trans: "upd_keeps w1 w2 \<Longrightarrow> upd_keeps w2 w3 \<Longrightarrow> upd_keeps w1 w3" by (simp add: upd_keeps_def)

lemma extra_info_simps [simp]:
  "upd_keeps w (wifi_manager_set_extra_info x w') = upd_keeps w w'"
  "fu_flash (wifi_manager_set_extra_info x w) = fu_flash w" "fu_offset (wifi_manager_set_extra_info x w) = fu_offset w"
  "fu_is_error (wifi_manager_set_extra_info x w) = fu_is_error w"
  "s_ota_ops_entries (wifi_manager_set_extra_info x w) = s_ota_ops_entries w"
  by (simp_all add: wifi_manager_set_extra_info_def upd_keeps_def)

lemma set_extra_info_simps [simp]:
  "upd_keeps w (fw_update_set_extra_info_for_status_json s n w') = upd_keeps w w'"
  "fu_flash (fw_update_set_extra_info_for_status_json s n w) = fu_flash w"
  "fu_offset (fw_update_set_extra_info_for_status_json s n w) = fu_offset w"
  "fu_is_error (fw_update_set_extra_info_for_status_json s n w) = fu_is_error w"
  "s_ota_ops_entries (fw_update_set_extra_info_for_status_json s n w) = s_ota_ops_entries w"
  by (simp_all add: fw_update_set_extra_info_for_status_json_def)

lemma upd_keeps_update [simp]:
  "upd_keeps w (w'\<lparr>fu_flash := f\<rparr>) = upd_keeps w w'" "upd_keeps w (w'\<lparr>fu_is_error := b\<rparr>) = upd_keeps w w'"
  "upd_keeps w (w'\<lparr>fu_offset := n\<rparr>) = upd_keeps w w'" "upd_keeps w (w'\<lparr>s_ota_ops_entries := es\<rparr>) = upd_keeps w w'"
  "upd_keeps w (w'\<lparr>s_ota_ops_last_handle := h\<rparr>) = upd_keeps w w'"
  "upd_keeps (w\<lparr>fu_offset := n\<rparr>) w' = upd_keeps w w'" "upd_keeps (w\<lparr>fu_is_error := b\<rparr>) w' = upd_keeps w w'"
  by (simp_all add: upd_keeps_def)

lemma erase_lawD:
  assumes "erase_law F otadata" and "fl_erase_sector F a f = (ok, f')"
  shows "flash_same F {a ..< a + SPI_FLASH_SEC_SIZE} f f'"
    and "{a ..< a + SPI_FLASH_SEC_SIZE} \<inter> otadata = {} \<Longrightarrow> fl_boot_partition F f' = fl_boot_partition F f"
    and "ok \<Longrightarrow> x \<in> {a ..< a + SPI_FLASH_SEC_SIZE} \<Longrightarrow> fl_blank F f' x"
proof -
  have "let (ok, f') = fl_erase_sector F a f; S = {a ..< a + SPI_FLASH_SEC_SIZE} in
     flash_same F S f f' \<and> (ok \<longrightarrow> (\<forall>x\<in>S. fl_blank F f' x)) \<and> (S \<inter> otadata = {} \<longrightarrow> fl_boot_partition F f' = fl_boot_partition F f)"
    using assms(1) unfolding erase_law_def by blast
  note law = this [unfolded assms(2) Let_def prod.case]
  show "flash_same F {a ..< a + SPI_FLASH_SEC_SIZE} f f'"
    "{a ..< a + SPI_FLASH_SEC_SIZE} \<inter> otadata = {} \<Longrightarrow> fl_boot_partition F f' = fl_boot_partition F f"
    "ok \<Longrightarrow> x \<in> {a ..< a + SPI_FLASH_SEC_SIZE} \<Longrightarrow> fl_blank F f' x"
    using law by blast+
qed

text \<open>Erasing from an offset on.\<close>

definition erased_from :: "'f flash \<Rightarrow> esp_partition \<Rightarrow> nat \<Rightarrow> bool \<Rightarrow> ('f, 'd) upd_world \<Rightarrow> ('f, 'd) upd_world \<Rightarrow> bool" where
  "erased_from F p off ok w w' \<longleftrightarrow> upd_keeps w w' \<and> s_ota_ops_entries w' = s_ota_ops_entries w \<and>
     fu_is_error w' = fu_is_error w \<and> fu_offset w' = fu_offset w \<and>
     flash_same F {part_address p + off ..< part_address p + part_size p} (fu_flash w) (fu_flash w') \<and>
     fl_boot_partition F (fu_flash w') = fl_boot_partition F (fu_flash w) \<and>
     (ok \<longrightarrow> (\<forall>k. off \<le> k \<and> k < part_size p \<longrightarrow> fl_blank F (fu_flash w') (part_address p + k)))"

lemma sectors_fit:
  fixes off len s :: nat
  assumes "len mod s = 0" and "off mod s = 0" and "off < len" shows "off + s \<le> len"
proof -
  from assms(1,2) have "s dvd len" "s dvd off" by (simp_all add: dvd_eq_mod_eq_0)
  then obtain m n where "len = s * m" "off = s * n" by (auto simp: dvd_def)
  moreover from this assms(3) have "n + 1 \<le> m" by (simp add: Suc_leI)
  then have "s * (n + 1) \<le> s * m" by (rule mult_le_mono2)
  ultimately show ?thesis by simp
qed

lemma erase_sectors_result:
  fixes w :: "('f, 'd) upd_world"
  assumes "erase_law F otadata" and "region p \<inter> otadata = {}" and "part_size p mod SPI_FLASH_SEC_SIZE = 0"
    and "off mod SPI_FLASH_SEC_SIZE = 0" and "erase_sectors F p off w = (ok, w')"
  shows "erased_from F p off ok w w'"
  using assms(4,5)
proof (induction "part_size p - off" arbitrary: off w rule: less_induct)
  case less
  show ?case
  proof (cases "off < part_size p")
    case False
    with less.prems show ?thesis by (auto simp: erase_sectors.simps [of F p off w] erased_from_def)
  next
    case True
    let ?a = "part_address p + off"
    obtain ok1 f where f: "fl_erase_sector F ?a (fu_flash w) = (ok1, f)" by fastforce
    have fit: "off + SPI_FLASH_SEC_SIZE \<le> part_size p" by (rule sectors_fit [OF assms(3) less.prems(1) True])
    have inside: "{?a ..< ?a + SPI_FLASH_SEC_SIZE} \<subseteq> {?a ..< part_address p + part_size p}" using fit by auto
    have "{?a ..< ?a + SPI_FLASH_SEC_SIZE} \<inter> otadata = {}"
      using inside assms(2) by (auto simp: region_def disjoint_iff)
    note law = erase_lawD(1) [OF assms(1) f] erase_lawD(2) [OF assms(1) f this] erase_lawD(3) [OF assms(1) f]
    show ?thesis
    proof (cases ok1)
      case False
      with less.prems(2) True f have "ok = False" "w' = w\<lparr>fu_flash := f\<rparr>"
        by (auto simp: erase_sectors.simps [of F p off w])
      with law(1,2) flash_same_mono [OF law(1) inside] show ?thesis by (simp add: erased_from_def)
    next
      case ok1: True
      define w1 where "w1 = fw_update_set_extra_info_for_status_json (g_update_progress_stage (w\<lparr>fu_flash := f\<rparr>))
        ((word_of_nat off * FW_UPDATE_PERCENTAGE_50) div word_of_nat (part_size p)) (w\<lparr>fu_flash := f\<rparr>)"
      have rest: "erase_sectors F p (off + SPI_FLASH_SEC_SIZE) w1 = (ok, w')"
        using less.prems(2) True f ok1 by (simp add: erase_sectors.simps [of F p off w] w1_def)
      have pos: "0 < SPI_FLASH_SEC_SIZE" by (simp add: SPI_FLASH_SEC_SIZE_def)
      have m: "part_size p - (off + SPI_FLASH_SEC_SIZE) < part_size p - off"
        using True pos by (intro diff_less_mono2) simp_all
      have "(off + SPI_FLASH_SEC_SIZE) mod SPI_FLASH_SEC_SIZE = 0" using less.prems(1) by simp
      note IH = less.hyps [OF m this rest]
      have w1: "upd_keeps w w1" "s_ota_ops_entries w1 = s_ota_ops_entries w" "fu_is_error w1 = fu_is_error w" "fu_offset w1 = fu_offset w"
        "fu_flash w1 = f" by (simp_all add: w1_def)
      have same: "flash_same F {part_address p + (off + SPI_FLASH_SEC_SIZE) ..< part_address p + part_size p} f (fu_flash w')"
        using IH w1 by (simp add: erased_from_def)
      have "flash_same F {?a ..< part_address p + part_size p} (fu_flash w) (fu_flash w')"
        using flash_same_trans [OF flash_same_mono [OF law(1) inside]] flash_same_mono [OF same] by auto
      moreover have "fl_blank F (fu_flash w') (part_address p + k)" if "ok" "off \<le> k" "k < part_size p" for k
      proof (cases "k < off + SPI_FLASH_SEC_SIZE")
        case True
        with that law(3) [OF ok1, of "part_address p + k"] same show ?thesis by (simp add: flash_same_def)
      next
        case False
        with IH that show ?thesis by (simp add: erased_from_def)
      qed
      ultimately show ?thesis using IH w1 law(2) upd_keeps_trans [OF w1(1)] by (auto simp: erased_from_def)
    qed
  qed
qed

definition sector_aligned :: "esp_partition \<Rightarrow> bool" where
  "sector_aligned p \<longleftrightarrow> part_size p mod SPI_FLASH_SEC_SIZE = 0"

lemma erase_sectors_succeeds:
  assumes "flash_healthy F" shows "fst (erase_sectors F p off w)"
proof (induction "part_size p - off" arbitrary: off w rule: less_induct)
  case less
  obtain ok f where f: "fl_erase_sector F (part_address p + off) (fu_flash w) = (ok, f)" by fastforce
  have m: "off < part_size p \<Longrightarrow> part_size p - (off + SPI_FLASH_SEC_SIZE) < part_size p - off"
    by (intro diff_less_mono2) (simp_all add: SPI_FLASH_SEC_SIZE_def)
  from flash_healthyD(1) [OF assms f] less [OF m] f show ?case
    by (subst erase_sectors.simps) (simp add: Let_def)
qed

lemma erase_partition_succeeds:
  assumes "flash_healthy F" and "sector_aligned p" and "erase_partition_with_sleep F p w = (ok, w')"
  shows "ok = True"
  using erase_sectors_succeeds [OF assms(1), of p 0 w] assms(2,3) by (simp add: erase_partition_with_sleep_def sector_aligned_def)

lemma erase_partition_result:
  assumes "flash_laws F otadata" and "region p \<inter> otadata = {}" and "erase_partition_with_sleep F p w = (ok, w')"
  shows "upd_keeps w w'" and "s_ota_ops_entries w' = s_ota_ops_entries w" and "fu_is_error w' = fu_is_error w" and "fu_offset w' = fu_offset w"
    and "part_changed F p (fu_flash w) (fu_flash w')" and "ok \<Longrightarrow> part_stored F p [] (fu_flash w')"
proof -
  have law: "erase_law F otadata" using assms(1) by (simp add: flash_laws_def)
  have "erased_from F p 0 ok w w' \<or> \<not> ok \<and> w' = w"
  proof (cases "part_size p mod SPI_FLASH_SEC_SIZE = 0")
    case True
    with assms(3) erase_sectors_result [OF law assms(2) True, of 0 w ok w'] show ?thesis
      by (simp add: erase_partition_with_sleep_def)
  next
    case False
    with assms(3) show ?thesis by (auto simp: erase_partition_with_sleep_def)
  qed
  then show "upd_keeps w w'" "s_ota_ops_entries w' = s_ota_ops_entries w" "fu_is_error w' = fu_is_error w" "fu_offset w' = fu_offset w"
    "part_changed F p (fu_flash w) (fu_flash w')" "ok \<Longrightarrow> part_stored F p [] (fu_flash w')"
    by (auto simp: erased_from_def part_changed_def region_def part_stored_def)
qed

text \<open>The bodies of the responses with status 200; the others may only be redirects.\<close>

definition body_of :: "(u8 list \<times> nat) list \<Rightarrow> u8 list" where
  "body_of ds = concat (map fst (filter (\<lambda>d. snd d = 200) ds))"

definition codes_ok :: "(u8 list \<times> nat) list \<Rightarrow> bool" where
  "codes_ok ds \<longleftrightarrow> (\<forall>d\<in>set ds. snd d = 200 \<or> snd d = 301 \<or> snd d = 302)"

lemma body_of_simps [simp]: "body_of [] = []" "codes_ok []"
  "body_of (ds @ [(buf, code)]) = body_of ds @ (if code = 200 then buf else [])"
  "codes_ok (ds @ [(buf, code)]) \<longleftrightarrow> codes_ok ds \<and> (code = 200 \<or> code = 301 \<or> code = 302)"
  by (auto simp: body_of_def codes_ok_def)

definition data_inv ::
  "'f flash \<Rightarrow> esp_partition \<Rightarrow> ('f, 'd) upd_world \<Rightarrow> (u8 list \<times> nat) list \<Rightarrow> ('f, 'd) upd_world \<Rightarrow> bool" where
  "data_inv F p w0 ds w \<longleftrightarrow> upd_keeps w0 w \<and> s_ota_ops_entries w = s_ota_ops_entries w0 \<and> part_changed F p (fu_flash w0) (fu_flash w) \<and>
     (\<not> fu_is_error w \<longrightarrow> codes_ok ds \<and> fu_offset w = length (body_of ds) \<and> part_stored F p (body_of ds) (fu_flash w)) \<and>
     (flash_healthy F \<and> codes_ok ds \<and> length (body_of ds) \<le> part_size p \<longrightarrow> \<not> fu_is_error w)"

lemma data_callback_follows:
  assumes "flash_laws F otadata" and "region p \<inter> otadata = {}"
  shows "follows (data_inv F p w0) (fw_update_data_partition_cb_on_recv_data F p)"
  unfolding follows_def
proof (intro allI impI)
  fix buf off cl code al w ds assume inv: "data_inv F p w0 ds w"
  have law: "write_law F otadata" using assms(1) by (simp add: flash_laws_def)
  let ?cb = "fw_update_data_partition_cb_on_recv_data F p buf off cl code al w"
  show "\<exists>ok w'. ?cb = Some (ok, w') \<and> data_inv F p w0 (ds @ [(buf, code)]) w'"
  proof (cases "fu_is_error w \<or> code \<noteq> 200")
    case True
    with inv show ?thesis
      by (auto simp: fw_update_data_partition_cb_on_recv_data_def fw_update_handle_http_resp_code_def data_inv_def)
  next
    case False
    obtain ok f where f: "fl_write F p (fu_offset w) buf (fu_flash w) = (ok, f)" by fastforce
    note changed = write_changes(1) [OF law assms(2) f]
    from inv False have st: "part_stored F p (body_of ds) (fu_flash w)" "fu_offset w = length (body_of ds)" "codes_ok ds"
      by (auto simp: data_inv_def)
    show ?thesis
    proof (cases ok)
      case True
      with st f stored_write [OF law st(1), of buf f] have "part_stored F p (body_of ds @ buf) f" by simp
      with True False inv f st part_changed_trans [OF _ changed] show ?thesis
        by (auto simp: fw_update_data_partition_cb_on_recv_data_def fw_update_handle_http_resp_code_def data_inv_def Let_def)
    next
      case notok: False
      with flash_healthyD(3) [OF _ f] st(2) have "\<not> (flash_healthy F \<and> length (body_of ds @ buf) \<le> part_size p)" by auto
      with notok False inv f part_changed_trans [OF _ changed] show ?thesis
        by (auto simp: fw_update_data_partition_cb_on_recv_data_def fw_update_handle_http_resp_code_def data_inv_def Let_def)
    qed
  qed
qed

text \<open>What a download must deliver.\<close>

text \<open>The images are downloaded with one timeout.\<close>

lemma request_timeout [simp]: "dp_timeout_seconds (fw_update_request url) = HTTP_DOWNLOAD_FW_BINARIES_TIMEOUT_SECONDS"
  by (simp add: fw_update_request_def)

definition dl_data_of :: "dl_env \<Rightarrow> (u8 list \<times> nat) list" where
  "dl_data_of D = data_of (dl_reported D HTTP_DOWNLOAD_FW_BINARIES_TIMEOUT_SECONDS)"

definition dl_completed :: "dl_env \<Rightarrow> bool" where
  "dl_completed D \<longleftrightarrow> dl_delivered D HTTP_DOWNLOAD_FW_BINARIES_TIMEOUT_SECONDS"

definition dl_body :: "dl_env \<Rightarrow> u8 list" where
  "dl_body D = body_of (dl_data_of D)"

definition dl_codes_ok :: "dl_env \<Rightarrow> bool" where
  "dl_codes_ok D \<longleftrightarrow> codes_ok (dl_data_of D)"

definition dl_good :: "dl_env \<Rightarrow> string \<Rightarrow> nat \<Rightarrow> bool" where
  "dl_good D url n \<longleftrightarrow> dl_all_ok D (fw_update_request url) \<and> dl_completed D \<and> dl_codes_ok D \<and> length (dl_body D) \<le> n"

definition upd_connected :: "('f, 'd) upd_state \<Rightarrow> bool" where
  "upd_connected st \<longleftrightarrow> gw_status_is_network_connected (ml_status (ds_world st))"

definition upd_env_ok :: "('f, 'd) upd_env \<Rightarrow> nat set \<Rightarrow> ('f, 'd) upd_state \<Rightarrow> bool" where
  "upd_env_ok E otadata st \<longleftrightarrow> flash_laws (ue_flash E) otadata \<and> ticks_advance (en_wait (ue_main E)) \<and>
     (\<forall>url. dl_ticks (ue_download E url) HTTP_DOWNLOAD_FW_BINARIES_TIMEOUT_SECONDS) \<and> unat (fst (dl_counts st)) < 2 ^ 31 - 1"

lemma data_partition_result:
  assumes "upd_env_ok E otadata st" and "region p \<inter> otadata = {}"
  shows "\<exists>ok st'. fw_update_data_partition E p url st = Some (ok, st') \<and> dl_back st st' \<and> upd_keeps (ds_user st) (ds_user st') \<and>
    s_ota_ops_entries (ds_user st') = s_ota_ops_entries (ds_user st) \<and>
    part_changed (ue_flash E) p (fu_flash (ds_user st)) (fu_flash (ds_user st')) \<and>
    (ok \<longrightarrow> dl_completed (ue_download E url) \<and> dl_codes_ok (ue_download E url) \<and> part_stored (ue_flash E) p (dl_body (ue_download E url)) (fu_flash (ds_user st'))) \<and>
    (flash_healthy (ue_flash E) \<and> sector_aligned p \<and> upd_connected st \<and> dl_good (ue_download E url) url (part_size p) \<longrightarrow> ok)"
proof -
  let ?F = "ue_flash E" let ?D = "ue_download E url" let ?w = "(ds_user st)\<lparr>fu_offset := 0, fu_is_error := False\<rparr>"
  have laws: "flash_laws ?F otadata" using assms(1) by (simp add: upd_env_ok_def)
  obtain ok1 w1 where w1: "erase_partition_with_sleep ?F p ?w = (ok1, w1)" by fastforce
  note erase = erase_partition_result [OF laws assms(2) w1]
  show ?thesis
  proof (cases ok1)
    case False
    then have "\<not> (flash_healthy ?F \<and> sector_aligned p)" using erase_partition_succeeds [OF _ _ w1] by blast
    moreover have "fw_update_data_partition E p url st = Some (False, st\<lparr>ds_user := w1\<rparr>)"
      using w1 False by (simp add: fw_update_data_partition_def Let_def)
    ultimately show ?thesis using erase(1,2,5) by auto
  next
    case True
    have counts: "ticks_advance (en_wait (ue_main E))" "unat (fst (dl_counts (st\<lparr>ds_user := w1\<rparr>))) < 2 ^ 31 - 1"
      "dl_ticks ?D (dp_timeout_seconds (fw_update_request url))"
      using assms(1) by (simp_all add: upd_env_ok_def)
    have inv: "data_inv ?F p (ds_user st) [] (ds_user (st\<lparr>ds_user := w1\<rparr>))" using True erase by (simp add: data_inv_def)
    obtain ok st' where "http_download (ue_main E) ?D (fw_update_request url) (fw_update_data_partition_cb_on_recv_data ?F p)
        (st\<lparr>ds_user := w1\<rparr>) = Some (ok, st')" "dl_back (st\<lparr>ds_user := w1\<rparr>) st'"
      "data_inv ?F p (ds_user st) (dl_data_of ?D) (ds_user st') \<or> \<not> ok \<and> data_inv ?F p (ds_user st) [] (ds_user st')"
      "ok \<longrightarrow> dl_completed ?D"
      "dl_all_ok ?D (fw_update_request url) \<and> gw_status_is_network_connected (ml_status (ds_world (st\<lparr>ds_user := w1\<rparr>))) \<and>
       dl_completed ?D \<longrightarrow> ok"
      using download_follows [OF counts data_callback_follows [OF laws assms(2)] inv]
      unfolding request_timeout dl_data_of_def [symmetric] dl_completed_def [symmetric] by blast
    with True w1 show ?thesis
      by (auto simp: fw_update_data_partition_def data_inv_def dl_body_def dl_codes_ok_def dl_good_def upd_connected_def)
  qed
qed

section \<open>Writing the application\<close>

text \<open>What an entry stands for: complete blocks in the flash memory and, with encryption, the beginning of the next block.\<close>

definition ota_holds :: "'f flash \<Rightarrow> u8 list \<Rightarrow> ota_ops_entry \<Rightarrow> 'f \<Rightarrow> bool" where
  "ota_holds F bs e f \<longleftrightarrow> (\<exists>done. bs = done @ take (oe_partial_bytes e) (oe_partial_data e) \<and> part_stored F (oe_part e) done f \<and>
     oe_wrote_size e = length done \<and> length (oe_partial_data e) = ESP_OTA_FLASH_ENCRYPTION_MIN_CHUNK_SIZE \<and>
     oe_partial_bytes e < ESP_OTA_FLASH_ENCRYPTION_MIN_CHUNK_SIZE \<and> (\<not> fl_encryption_enabled F \<longrightarrow> oe_partial_bytes e = 0))"

definition ota_same :: "ota_ops_entry \<Rightarrow> ota_ops_entry \<Rightarrow> bool" where
  "ota_same e e' \<longleftrightarrow> oe_handle e' = oe_handle e \<and> oe_part e' = oe_part e \<and> oe_erased_size e' = oe_erased_size e"

definition ota_step :: "'f flash \<Rightarrow> u8 list \<Rightarrow> ota_ops_entry \<Rightarrow> 'f \<Rightarrow> bool \<Rightarrow> ota_ops_entry \<Rightarrow> 'f \<Rightarrow> bool" where
  "ota_step F bs e f ok e' f' \<longleftrightarrow> ota_same e e' \<and> part_changed F (oe_part e) f f' \<and> (ok \<longrightarrow> ota_holds F bs e' f')"

lemma write_rest_step:
  assumes "write_law F otadata" and "region (oe_part e) \<inter> otadata = {}"
    and "part_stored F (oe_part e) done f" and "oe_wrote_size e = length done"
    and "length (oe_partial_data e) = ESP_OTA_FLASH_ENCRYPTION_MIN_CHUNK_SIZE"
    and "oe_partial_bytes e < ESP_OTA_FLASH_ENCRYPTION_MIN_CHUNK_SIZE" and "\<not> fl_encryption_enabled F \<longrightarrow> oe_partial_bytes e = 0"
    and "ota_write_rest F e data f = (ok, e', f')"
  shows "ota_step F (done @ data @ take (oe_partial_bytes e) (oe_partial_data e)) e f ok e' f'"
proof -
  obtain ok1 f1 where f1: "fl_write F (oe_part e) (oe_wrote_size e) data f = (ok1, f1)" by fastforce
  with assms(8) have e': "ok1 = ok" "f1 = f'" "e' = (if ok then e\<lparr>oe_wrote_size := oe_wrote_size e + length data\<rparr> else e)"
    by (auto simp: ota_write_rest_def)
  have "part_changed F (oe_part e) f f'" using write_changes(1) [OF assms(1,2) f1] e' by simp
  moreover have "part_stored F (oe_part e) (done @ data) f'" if ok
    using stored_write [OF assms(1,3), of data f'] f1 assms(4) e' that by simp
  ultimately show ?thesis using e' assms(4-7) by (auto simp: ota_step_def ota_same_def ota_holds_def)
qed

lemma keep_tail_step:
  assumes "write_law F otadata" and "region (oe_part e) \<inter> otadata = {}"
    and "part_stored F (oe_part e) done f" and "oe_wrote_size e = length done"
    and "length (oe_partial_data e) = ESP_OTA_FLASH_ENCRYPTION_MIN_CHUNK_SIZE" and "fl_encryption_enabled F"
  shows "\<exists>ok e' f'. ota_keep_tail F e data f = Some (ok, e', f') \<and> ota_step F (done @ data) e f ok e' f'"
proof -
  let ?n = "ESP_OTA_FLASH_ENCRYPTION_MIN_CHUNK_SIZE" let ?t = "length data mod ?n"
  have n: "?t < ?n" by (simp add: ESP_OTA_FLASH_ENCRYPTION_MIN_CHUNK_SIZE_def)
  define tl where "tl = drop (length data - ?t) data"
  have len: "length tl = ?t" using mod_less_eq_dividend [of "length data" ?n] by (simp add: tl_def)
  define mem where "mem = (if ?t = 0 then oe_partial_data e else tl @ drop ?t (oe_partial_data e))"
  define e1 where "e1 = e\<lparr>oe_partial_bytes := ?t, oe_partial_data := mem\<rparr>"
  have mem: "length mem = ?n" "take ?t mem = tl" using assms(5) n len by (auto simp: mem_def)
  have body: "take (length data - ?t) data @ tl = data" by (simp add: tl_def)
  obtain ok e' f' where r: "ota_write_rest F e1 (take (length data - ?t) data) f = (ok, e', f')" by (metis prod_cases3)
  have "ota_keep_tail F e data f = Some (ok, e', f')"
  proof (cases "?t = 0")
    case True
    then have "e1 = e\<lparr>oe_partial_bytes := 0\<rparr>" by (simp add: e1_def mem_def)
    with True r show ?thesis by (simp add: ota_keep_tail_def)
  next
    case False
    with assms(5) n len have "partial_copy 0 tl (oe_partial_data e) = Some mem" by (simp add: partial_copy_def mem_def)
    with False r show ?thesis by (simp add: ota_keep_tail_def Let_def tl_def [symmetric] e1_def)
  qed
  moreover have "ota_step F (done @ take (length data - ?t) data @ take (oe_partial_bytes e1) (oe_partial_data e1)) e1 f ok e' f'"
    by (rule write_rest_step [OF assms(1) _ _ _ _ _ _ r]) (use assms mem n in \<open>simp_all add: e1_def\<close>)
  ultimately show ?thesis using mem body by (auto simp: e1_def ota_step_def ota_same_def)
qed

lemma write_entry_step:
  assumes "write_law F otadata" and "region (oe_part e) \<inter> otadata = {}" and "oe_erased_size e \<noteq> 0" and "ota_holds F bs e f"
  shows "\<exists>ok e' f'. esp_ota_write_entry F e data f = Some (ok, e', f') \<and> ota_step F (bs @ data) e f ok e' f'"
proof -
  let ?n = "ESP_OTA_FLASH_ENCRYPTION_MIN_CHUNK_SIZE" let ?k = "oe_partial_bytes e"
  obtain "done" where d: "bs = done @ take ?k (oe_partial_data e)" "part_stored F (oe_part e) done f" "oe_wrote_size e = length done"
    "length (oe_partial_data e) = ?n" "?k < ?n" "\<not> fl_encryption_enabled F \<longrightarrow> ?k = 0"
    using assms(4) by (auto simp: ota_holds_def)
  consider (magic) "oe_wrote_size e = 0 \<and> ?k = 0 \<and> 0 < length data \<and> hd data \<noteq> ESP_IMAGE_HEADER_MAGIC"
    | (plain) "\<not> fl_encryption_enabled F" | (aligned) "fl_encryption_enabled F" "?k = 0" | (partial) "fl_encryption_enabled F" "?k \<noteq> 0"
    by blast
  then show ?thesis
  proof cases
    case magic
    with assms(3) show ?thesis by (auto simp: esp_ota_write_entry_def ota_step_def ota_same_def)
  next
    case plain
    obtain ok e' f' where r: "ota_write_rest F e data f = (ok, e', f')" by (metis prod_cases3)
    have "ota_step F (done @ data @ take ?k (oe_partial_data e)) e f ok e' f'"
      by (rule write_rest_step [OF assms(1,2) d(2-6) r])
    with plain d r assms(3) show ?thesis by (auto simp: esp_ota_write_entry_def ota_step_def ota_same_def)
  next
    case aligned
    with keep_tail_step [OF assms(1,2) d(2-4) aligned(1), of data] d(1) assms(3) show ?thesis
      by (auto simp: esp_ota_write_entry_def ota_step_def ota_same_def)
  next
    case partial
    define c where "c = min (?n - ?k) (length data)"
    define mem where "mem = take ?k (oe_partial_data e) @ take c data @ drop (?k + c) (oe_partial_data e)"
    define e1 where "e1 = e\<lparr>oe_partial_data := mem, oe_partial_bytes := ?k + c\<rparr>"
    have len: "length (take c data) = c" "length mem = ?n" using d(4,5) by (auto simp: c_def mem_def)
    have copy: "partial_copy ?k (take c data) (oe_partial_data e) = Some mem"
      using d(4,5) len(1) by (auto simp: partial_copy_def mem_def c_def)
    have tk: "take (?k + c) mem = take ?k (oe_partial_data e) @ take c data" using d(4,5) len(1) by (simp add: mem_def)
    show ?thesis
    proof (cases "?k + c = ?n")
      case False
      then have "c = length data" "?k + c < ?n" using d(5) by (auto simp: c_def min_def)
      with tk d len have "ota_holds F (bs @ data) e1 f" by (auto simp: ota_holds_def e1_def partial)
      moreover have "esp_ota_write_entry F e data f = Some (True, e1, f)"
        using partial assms(3) copy False by (simp add: esp_ota_write_entry_def c_def [symmetric] e1_def Let_def)
      ultimately show ?thesis by (auto simp: ota_step_def ota_same_def e1_def)
    next
      case full: True
      obtain ok1 f1 where f1: "fl_write F (oe_part e) (oe_wrote_size e) mem f = (ok1, f1)" by fastforce
      note changed = write_changes(1) [OF assms(1,2) f1]
      show ?thesis
      proof (cases ok1)
        case False
        with partial assms(3) copy full f1 have "esp_ota_write_entry F e data f = Some (False, e1, f1)"
          by (simp add: esp_ota_write_entry_def c_def [symmetric] e1_def Let_def)
        with changed show ?thesis by (auto simp: ota_step_def ota_same_def e1_def)
      next
        case True
        define e2 where "e2 = e1\<lparr>oe_partial_bytes := 0, oe_partial_data := replicate ?n ESP_OTA_FLASH_ENCRYPTION_FILL,
          oe_wrote_size := oe_wrote_size e1 + ?n\<rparr>"
        have "part_stored F (oe_part e) (done @ mem) f1" using stored_write [OF assms(1) d(2), of mem f1] f1 True d(3) by simp
        then have "\<exists>ok e' f'. ota_keep_tail F e2 (drop c data) f1 = Some (ok, e', f') \<and> ota_step F ((done @ mem) @ drop c data) e2 f1 ok e' f'"
          using keep_tail_step [OF assms(1), of e2 "done @ mem" f1 "drop c data"] assms(2) partial d(3) len by (simp add: e2_def e1_def)
        moreover have "(done @ mem) @ drop c data = bs @ data"
          using tk full len(2) d(1) by (metis append.assoc append_take_drop_id order_refl take_all)
        moreover have "esp_ota_write_entry F e data f = ota_keep_tail F e2 (drop c data) f1"
          using partial assms(3) copy full f1 True by (simp add: esp_ota_write_entry_def c_def [symmetric] e1_def e2_def Let_def)
        ultimately show ?thesis using part_changed_trans [OF changed]
          by (fastforce simp: ota_step_def ota_same_def e2_def e1_def)
      qed
    qed
  qed
qed

text \<open>An image that is not refused for its first byte.\<close>

definition image_begins :: "u8 list \<Rightarrow> bool" where
  "image_begins bs \<longleftrightarrow> (bs \<noteq> [] \<longrightarrow> hd bs = ESP_IMAGE_HEADER_MAGIC)"

lemma image_begins_prefix: "image_begins (bs @ cs) \<Longrightarrow> image_begins bs"
  by (simp add: image_begins_def split: if_splits) (cases bs; simp)

lemma ota_holds_plain:
  assumes "ota_holds F bs e f" and "\<not> fl_encryption_enabled F"
  shows "oe_wrote_size e = length bs" and "oe_partial_bytes e = 0"
  using assms by (auto simp: ota_holds_def)

lemma write_entry_succeeds:
  assumes "flash_healthy F" and "\<not> fl_encryption_enabled F" and "ota_holds F bs e f" and "image_begins (bs @ data)"
    and "length (bs @ data) \<le> part_size (oe_part e)" and "esp_ota_write_entry F e data f = Some (ok, e', f')"
  shows ok
proof -
  note plain = ota_holds_plain [OF assms(3,2)]
  obtain ok1 f1 where f1: "fl_write F (oe_part e) (oe_wrote_size e) data f = (ok1, f1)" by fastforce
  from flash_healthyD(3) [OF assms(1) f1] assms(5) plain have ok1 by simp
  moreover have "\<not> (oe_wrote_size e = 0 \<and> 0 < length data \<and> hd data \<noteq> ESP_IMAGE_HEADER_MAGIC)"
    using assms(4) plain by (auto simp: image_begins_def)
  ultimately show ?thesis
    using assms(2,6) f1 plain by (auto simp: esp_ota_write_entry_def ota_write_rest_def Let_def split: if_splits)
qed

definition ota_expected :: "'f flash \<Rightarrow> esp_partition \<Rightarrow> (u8 list \<times> nat) list \<Rightarrow> bool" where
  "ota_expected F p ds \<longleftrightarrow> flash_healthy F \<and> \<not> fl_encryption_enabled F \<and> codes_ok ds \<and> length (body_of ds) \<le> part_size p \<and>
     image_begins (body_of ds)"

lemma ota_expected_prefix: "ota_expected F p (ds @ [(buf, code)]) \<Longrightarrow> ota_expected F p ds \<and> (code = 200 \<or> code = 301 \<or> code = 302)"
  using image_begins_prefix by (auto simp: ota_expected_def)

definition ota_inv ::
  "'f flash \<Rightarrow> esp_partition \<Rightarrow> u32 \<Rightarrow> ('f, 'd) upd_world \<Rightarrow> (u8 list \<times> nat) list \<Rightarrow> ('f, 'd) upd_world \<Rightarrow> bool" where
  "ota_inv F p h w0 ds w \<longleftrightarrow> upd_keeps w0 w \<and> part_changed F p (fu_flash w0) (fu_flash w) \<and>
     (\<exists>e. s_ota_ops_entries w = e # s_ota_ops_entries w0 \<and> oe_handle e = h \<and> oe_part e = p \<and> oe_erased_size e \<noteq> 0 \<and>
       (\<not> fu_is_error w \<longrightarrow> codes_ok ds \<and> ota_holds F (body_of ds) e (fu_flash w))) \<and>
     (ota_expected F p ds \<longrightarrow> \<not> fu_is_error w)"

lemma upd_error_id: "fu_is_error w = b \<Longrightarrow> w\<lparr>fu_is_error := b\<rparr> = w"
  by auto

lemma ota_callback_follows:
  assumes "flash_laws F otadata" and "region p \<inter> otadata = {}"
  shows "follows (ota_inv F p h w0) (fw_update_ota_partition_cb_on_recv_data F h)"
  unfolding follows_def
proof (intro allI impI)
  fix buf off cl code al w ds assume inv: "ota_inv F p h w0 ds w"
  have law: "write_law F otadata" using assms(1) by (simp add: flash_laws_def)
  let ?cb = "fw_update_ota_partition_cb_on_recv_data F h buf off cl code al w"
  obtain e where e: "s_ota_ops_entries w = e # s_ota_ops_entries w0" "oe_handle e = h" "oe_part e = p" "oe_erased_size e \<noteq> 0"
    "\<not> fu_is_error w \<longrightarrow> codes_ok ds \<and> ota_holds F (body_of ds) e (fu_flash w)" using inv by (auto simp: ota_inv_def)
  have keeps: "upd_keeps w0 w" "part_changed F p (fu_flash w0) (fu_flash w)" "ota_expected F p ds \<longrightarrow> \<not> fu_is_error w"
    using inv by (simp_all add: ota_inv_def)
  show "\<exists>ok w'. ?cb = Some (ok, w') \<and> ota_inv F p h w0 (ds @ [(buf, code)]) w'"
  proof (cases "fu_is_error w \<or> code \<noteq> 200")
    case True
    define bad where "bad = (\<not> fu_is_error w \<and> code \<noteq> 301 \<and> code \<noteq> 302)"
    define w' where "w' = (if bad then w\<lparr>fu_is_error := True\<rparr> else w)"
    have "?cb = Some (\<not> fu_is_error w \<and> \<not> bad, w')"
      using True by (auto simp: fw_update_ota_partition_cb_on_recv_data_def fw_update_handle_http_resp_code_def bad_def w'_def)
    moreover have "ota_expected F p (ds @ [(buf, code)]) \<longrightarrow> \<not> fu_is_error w'"
      using keeps(3) True ota_expected_prefix [of F p ds buf code] by (auto simp: w'_def bad_def)
    moreover have "\<not> fu_is_error w' \<longrightarrow> codes_ok (ds @ [(buf, code)]) \<and> ota_holds F (body_of (ds @ [(buf, code)])) e (fu_flash w')"
      using e(5) True by (auto simp: w'_def bad_def split: if_splits)
    moreover have "upd_keeps w0 w'" "part_changed F p (fu_flash w0) (fu_flash w')" "s_ota_ops_entries w' = s_ota_ops_entries w"
      using keeps by (simp_all add: w'_def)
    ultimately show ?thesis using e(1-4) by (auto simp: ota_inv_def simp del: body_of_simps)
  next
    case False
    with e have h: "codes_ok ds" "ota_holds F (body_of ds) e (fu_flash w)" by auto
    have disj: "region (oe_part e) \<inter> otadata = {}" using assms(2) e(3) by simp
    obtain ok e' f' where r: "esp_ota_write_entry F e buf (fu_flash w) = Some (ok, e', f')"
      "ota_step F (body_of ds @ buf) e (fu_flash w) ok e' f'"
      using write_entry_step [OF law disj e(4) h(2)] by blast
    have changed: "part_changed F p (fu_flash w0) f'" using r(2) e(3) keeps(2) by (auto simp: ota_step_def intro: part_changed_trans)
    define w' where "w' = (fw_update_set_extra_info_for_status_json (g_update_progress_stage w)
      (fw_update_percentage off (length buf) cl FW_UPDATE_MAX_OTA_PARTITION_SIZE) w)
      \<lparr>s_ota_ops_entries := e' # s_ota_ops_entries w0, fu_flash := f', fu_is_error := \<not> ok\<rparr>"
    have "?cb = Some (ok, w')"
      using False e(1-4) r(1) by (cases ok) (simp_all add: fw_update_ota_partition_cb_on_recv_data_def
        fw_update_handle_http_resp_code_def esp_ota_write_patched_def w'_def Let_def upd_error_id)
    moreover have "ota_expected F p (ds @ [(buf, code)]) \<longrightarrow> \<not> fu_is_error w'"
      using write_entry_succeeds [OF _ _ h(2) _ _ r(1)] False e(3) by (auto simp: ota_expected_def w'_def)
    moreover have "\<not> fu_is_error w' \<longrightarrow> codes_ok (ds @ [(buf, code)]) \<and> ota_holds F (body_of (ds @ [(buf, code)])) e' (fu_flash w')"
      using h(1) False r(2) by (simp add: w'_def ota_step_def)
    moreover have "upd_keeps w0 w'" "part_changed F p (fu_flash w0) (fu_flash w')" "s_ota_ops_entries w' = e' # s_ota_ops_entries w0"
      using keeps(1) changed by (simp_all add: w'_def)
    ultimately show ?thesis using e(2-4) r(2) by (auto simp: ota_inv_def ota_step_def ota_same_def simp del: body_of_simps)
  qed
qed

text \<open>The bytes \<open>bs\<close> at the beginning of a partition.\<close>

definition part_holds :: "'f flash \<Rightarrow> esp_partition \<Rightarrow> u8 list \<Rightarrow> 'f \<Rightarrow> bool" where
  "part_holds F p bs f \<longleftrightarrow> length bs \<le> part_size p \<and> (\<forall>k<length bs. fl_read F f (part_address p + k) = bs ! k)"

lemma part_stored_holds: "part_stored F p bs f \<Longrightarrow> part_holds F p bs f" by (simp add: part_stored_def part_holds_def)

lemma part_holds_prefix: "part_holds F p (bs @ cs) f \<Longrightarrow> part_holds F p bs f"
  unfolding part_holds_def by (auto simp: nth_append)

lemma ota_finish_result:
  assumes "write_law F otadata" and "region (oe_part e) \<inter> otadata = {}" and "ota_finish F alloc e f = (ok, f')"
  shows "part_changed F (oe_part e) f f'"
    and "ok \<Longrightarrow> ota_holds F bs e f \<Longrightarrow> part_holds F (oe_part e) bs f' \<and> fl_image_verify F (oe_part e) f'"
proof -
  obtain ok1 f1 where f1: "(if 0 < oe_partial_bytes e then fl_write F (oe_part e) (oe_wrote_size e) (oe_partial_data e) f else (True, f)) = (ok1, f1)"
    by fastforce
  then have "part_changed F (oe_part e) f f1"
    using write_changes(1) [OF assms(1,2), of "oe_wrote_size e" "oe_partial_data e" f ok1 f1] by (auto split: if_splits)
  with assms(3) f1 show "part_changed F (oe_part e) f f'" by (auto simp: ota_finish_def split: if_splits)
  assume ok and holds: "ota_holds F bs e f"
  with assms(3) f1 have f': "ok1" "f' = f1" "fl_image_verify F (oe_part e) f'" by (auto simp: ota_finish_def split: if_splits)
  obtain "done" where d: "bs = done @ take (oe_partial_bytes e) (oe_partial_data e)" "part_stored F (oe_part e) done f"
    "oe_wrote_size e = length done"
    using holds by (auto simp: ota_holds_def)
  have "part_holds F (oe_part e) bs f'"
  proof (cases "0 < oe_partial_bytes e")
    case True
    with f1 f' d(3) have "fl_write F (oe_part e) (length done) (oe_partial_data e) f = (True, f')" by simp
    from part_stored_holds [OF stored_write [OF assms(1) d(2) this]]
    have "part_holds F (oe_part e) (done @ oe_partial_data e) f'" .
    then have "part_holds F (oe_part e) (bs @ drop (oe_partial_bytes e) (oe_partial_data e)) f'" using d(1) by simp
    then show ?thesis by (rule part_holds_prefix)
  next
    case False
    with f1 f' d part_stored_holds [OF d(2)] show ?thesis by simp
  qed
  with f'(3) show "part_holds F (oe_part e) bs f' \<and> fl_image_verify F (oe_part e) f'" by simp
qed

lemma ota_begin_result:
  assumes "flash_laws (ue_flash E) otadata" and "region p \<inter> otadata = {}" and "0 < part_size p"
    and "esp_ota_begin_patched E p w = (h, w')"
  shows "upd_keeps w w'" and "part_changed (ue_flash E) p (fu_flash w) (fu_flash w')"
    and "h = None \<Longrightarrow> s_ota_ops_entries w' = s_ota_ops_entries w"
    and "h = Some n \<Longrightarrow> is_ota_partition p \<and> fl_running_partition (ue_flash E) \<noteq> Some p \<and> (\<exists>e. s_ota_ops_entries w' = e # s_ota_ops_entries w \<and>
      oe_handle e = n \<and> oe_part e = p \<and> oe_erased_size e \<noteq> 0 \<and> ota_holds (ue_flash E) [] e (fu_flash w'))"
proof -
  let ?F = "ue_flash E"
  obtain ok w1 where w1: "erase_partition_with_sleep ?F p w = (ok, w1)" by fastforce
  note erase = erase_partition_result [OF assms(1,2) w1]
  have early: "h = None \<and> w' = w \<or> fl_partition_verify ?F p = Some p \<and> is_ota_partition p \<and> fl_running_partition ?F \<noteq> Some p \<and>
      (h, w') = (if \<not> ok then (None, w1) else if \<not> ue_alloc_entry E then (None, w1) else let h = s_ota_ops_last_handle w1 + 1 in
          (Some h, w1\<lparr>s_ota_ops_last_handle := h,
             s_ota_ops_entries := \<lparr>oe_handle = h, oe_part = p, oe_erased_size = part_size p, oe_wrote_size = 0, oe_partial_bytes = 0,
               oe_partial_data = replicate ESP_OTA_FLASH_ENCRYPTION_MIN_CHUNK_SIZE 0\<rparr> # s_ota_ops_entries w1\<rparr>))"
  proof (cases "fl_partition_verify ?F p")
    case (Some v)
    with assms(1) have "v = p" by (simp add: flash_laws_def)
    with Some assms(4) w1 show ?thesis by (auto simp: esp_ota_begin_patched_def Let_def split: if_splits)
  qed (use assms(4) in \<open>simp add: esp_ota_begin_patched_def Let_def\<close>)
  show "upd_keeps w w'" "part_changed ?F p (fu_flash w) (fu_flash w')"
    using early erase(1,5) by (auto simp: Let_def split: if_splits)
  show "h = None \<Longrightarrow> s_ota_ops_entries w' = s_ota_ops_entries w" using early erase(2) by (auto simp: Let_def split: if_splits)
  assume h: "h = Some n"
  with early have ok and w': "w' = w1\<lparr>s_ota_ops_last_handle := n, s_ota_ops_entries := \<lparr>oe_handle = n, oe_part = p,
      oe_erased_size = part_size p, oe_wrote_size = 0, oe_partial_bytes = 0,
      oe_partial_data = replicate ESP_OTA_FLASH_ENCRYPTION_MIN_CHUNK_SIZE 0\<rparr> # s_ota_ops_entries w1\<rparr>"
    and more: "is_ota_partition p" "fl_running_partition ?F \<noteq> Some p" by (auto simp: Let_def split: if_splits)
  from erase(6) [OF \<open>ok\<close>] have "ota_holds ?F [] (hd (s_ota_ops_entries w')) (fu_flash w')"
    by (simp add: ota_holds_def w' ESP_OTA_FLASH_ENCRYPTION_MIN_CHUNK_SIZE_def)
  with more erase(2) assms(3) show "is_ota_partition p \<and> fl_running_partition ?F \<noteq> Some p \<and> (\<exists>e. s_ota_ops_entries w' = e # s_ota_ops_entries w \<and>
      oe_handle e = n \<and> oe_part e = p \<and> oe_erased_size e \<noteq> 0 \<and> ota_holds ?F [] e (fu_flash w'))"
    by (simp add: w')
qed

text \<open>What the application partition needs for an update to succeed.\<close>

definition ota_ready :: "('f, 'd) upd_env \<Rightarrow> esp_partition \<Rightarrow> 'f \<Rightarrow> bool" where
  "ota_ready E p f \<longleftrightarrow> (let F = ue_flash E in
     flash_healthy F \<and> \<not> fl_encryption_enabled F \<and> sector_aligned p \<and> fl_partition_verify F p = Some p \<and> is_ota_partition p \<and>
     fl_running_partition F \<noteq> Some p \<and>
     Option.bind (fl_running_partition F) (\<lambda>r. fl_state_partition F r f) \<noteq> Some ESP_OTA_IMG_PENDING_VERIFY \<and>
     ue_alloc_entry E \<and> ue_alloc_metadata E)"

lemma ota_begin_succeeds:
  assumes "ota_ready E p (fu_flash w)" and "esp_ota_begin_patched E p w = (h, w')"
  shows "h \<noteq> None"
proof -
  obtain ok w1 where w1: "erase_partition_with_sleep (ue_flash E) p w = (ok, w1)" by fastforce
  have "ok = True" by (rule erase_partition_succeeds [OF _ _ w1]) (use assms(1) in \<open>simp_all add: ota_ready_def Let_def\<close>)
  with assms w1 show ?thesis by (auto simp: esp_ota_begin_patched_def ota_ready_def Let_def)
qed

lemma ota_finish_succeeds:
  assumes "\<not> fl_encryption_enabled F" and "ota_holds F bs e f" and "oe_erased_size e \<noteq> 0" and "bs \<noteq> []" and "ota_finish F True e f = (ok, f')"
    and "part_holds F (oe_part e) bs f' \<Longrightarrow> fl_image_verify F (oe_part e) f'"
  shows "ok = True"
proof -
  note plain = ota_holds_plain [OF assms(2,1)]
  with assms(3,4,5) have "f' = f" "ok = fl_image_verify F (oe_part e) f'" by (auto simp: ota_finish_def)
  moreover have "part_holds F (oe_part e) bs f" using assms(2) plain by (auto simp: ota_holds_def intro: part_stored_holds)
  ultimately show ?thesis using assms(6) by simp
qed

lemma fw_update_ota_result:
  assumes "upd_env_ok E otadata st" and "fi_next_update_partition (g_ruuvi_flash_info (ds_user st)) = Some p"
    and "region p \<inter> otadata = {}" and "0 < part_size p"
  shows "\<exists>ok st'. fw_update_ota E url st = Some (ok, st') \<and> dl_back st st' \<and> upd_keeps (ds_user st) (ds_user st') \<and>
    s_ota_ops_entries (ds_user st') = s_ota_ops_entries (ds_user st) \<and>
    part_changed (ue_flash E) p (fu_flash (ds_user st)) (fu_flash (ds_user st')) \<and>
    (ok \<longrightarrow> is_ota_partition p \<and> fl_running_partition (ue_flash E) \<noteq> Some p \<and> dl_completed (ue_download E url) \<and> dl_codes_ok (ue_download E url) \<and>
      part_holds (ue_flash E) p (dl_body (ue_download E url)) (fu_flash (ds_user st')) \<and>
      fl_image_verify (ue_flash E) p (fu_flash (ds_user st'))) \<and>
    (ota_ready E p (fu_flash (ds_user st)) \<and> upd_connected st \<and> dl_good (ue_download E url) url (part_size p) \<and>
     image_begins (dl_body (ue_download E url)) \<and> dl_body (ue_download E url) \<noteq> [] \<and>
     (\<forall>f. part_holds (ue_flash E) p (dl_body (ue_download E url)) f \<longrightarrow> fl_image_verify (ue_flash E) p f) \<longrightarrow> ok)"
proof -
  let ?F = "ue_flash E" let ?D = "ue_download E url"
  have laws: "flash_laws ?F otadata" "write_law ?F otadata" using assms(1) by (simp_all add: upd_env_ok_def flash_laws_def)
  obtain h w1 where w1: "esp_ota_begin_patched E p (ds_user st) = (h, w1)" by fastforce
  note start = ota_begin_result [OF laws(1) assms(3,4) w1]
  show ?thesis
  proof (cases h)
    case None
    with ota_begin_succeeds [OF _ w1] have "\<not> ota_ready E p (fu_flash (ds_user st))" by blast
    moreover have "fw_update_ota E url st = Some (False, st\<lparr>ds_user := w1\<rparr>)"
      using assms(2) w1 None by (simp add: fw_update_ota_def Let_def)
    ultimately show ?thesis using start(1,2,3) None by auto
  next
    case (Some n)
    note begun = start(4) [OF Some]
    define st1 where "st1 = on_upd (\<lambda>w. w\<lparr>fu_is_error := False\<rparr>) (st\<lparr>ds_user := w1\<rparr>)"
    have counts: "ticks_advance (en_wait (ue_main E))" "unat (fst (dl_counts st1)) < 2 ^ 31 - 1"
      "dl_ticks ?D (dp_timeout_seconds (fw_update_request url))"
      using assms(1) by (simp_all add: upd_env_ok_def st1_def on_upd_def)
    have inv: "ota_inv ?F p n (ds_user st) [] (ds_user st1)"
      using begun start(1,2) by (auto simp: ota_inv_def st1_def on_upd_def)
    obtain ok st2 where st2: "http_download (ue_main E) ?D (fw_update_request url) (fw_update_ota_partition_cb_on_recv_data ?F n) st1 = Some (ok, st2)"
      "dl_back st1 st2" "ota_inv ?F p n (ds_user st) (dl_data_of ?D) (ds_user st2) \<or> \<not> ok \<and> ota_inv ?F p n (ds_user st) [] (ds_user st2)"
      "dl_all_ok ?D (fw_update_request url) \<and> gw_status_is_network_connected (ml_status (ds_world st1)) \<and> dl_completed ?D \<longrightarrow> ok"
      "ok \<longrightarrow> dl_completed ?D"
      using download_follows [OF counts ota_callback_follows [OF laws(1) assms(3)] inv]
      unfolding request_timeout dl_data_of_def [symmetric] dl_completed_def [symmetric] by blast
    define res where "res = (ok \<and> \<not> fu_is_error (ds_user st2))"
    define w3 where "w3 = (if res then fw_update_set_extra_info_for_status_json (g_update_progress_stage (ds_user st2)) FW_UPDATE_PERCENTAGE_100 (ds_user st2)
      else ds_user st2)"
    have part: "fw_update_ota_partition E n url (st\<lparr>ds_user := w1\<rparr>) = Some (res, st2\<lparr>ds_user := w3\<rparr>)"
      using st2(1) by (auto simp: fw_update_ota_partition_def st1_def res_def w3_def on_upd_def)
    obtain e where e: "s_ota_ops_entries (ds_user st2) = e # s_ota_ops_entries (ds_user st)" "oe_handle e = n" "oe_part e = p"
      "oe_erased_size e \<noteq> 0" "res \<longrightarrow> dl_completed ?D \<and> dl_codes_ok ?D \<and> ota_holds ?F (dl_body ?D) e (fu_flash (ds_user st2))"
      using st2(3,5) by (auto simp: ota_inv_def res_def dl_codes_ok_def dl_body_def)
    have keeps: "upd_keeps (ds_user st) (ds_user st2)" "part_changed ?F p (fu_flash (ds_user st)) (fu_flash (ds_user st2))"
      using st2(3) by (auto simp: ota_inv_def)
    obtain ok2 f where f: "ota_finish ?F (ue_alloc_metadata E) e (fu_flash (ds_user st2)) = (ok2, f)" by fastforce
    have disj: "region (oe_part e) \<inter> otadata = {}" using assms(3) e(3) by simp
    note finish = ota_finish_result [OF laws(2) disj f, unfolded e(3)]
    have w3: "fu_flash w3 = fu_flash (ds_user st2)" "s_ota_ops_entries w3 = s_ota_ops_entries (ds_user st2)" "upd_keeps w w3 = upd_keeps w (ds_user st2)" for w
      by (simp_all add: w3_def)
    have over: "esp_ota_end_patched E n w3 = (ok2, w3\<lparr>fu_flash := f, s_ota_ops_entries := s_ota_ops_entries (ds_user st)\<rparr>)"
      using e f w3 by (simp add: esp_ota_end_patched_def)
    have "fw_update_ota E url st = Some (ok2 \<and> res, st2\<lparr>ds_user := w3\<lparr>fu_flash := f, s_ota_ops_entries := s_ota_ops_entries (ds_user st)\<rparr>\<rparr>)"
      using assms(2) w1 Some part over by (simp add: fw_update_ota_def Let_def)
    moreover have "dl_back st st2" using st2(2) by (simp add: st1_def on_upd_def)
    moreover have "part_changed ?F p (fu_flash (ds_user st)) f" by (rule part_changed_trans [OF keeps(2) finish(1)])
    moreover have "ok2 \<and> res" if ready: "ota_ready E p (fu_flash (ds_user st))" and good: "upd_connected st"
        "dl_good ?D url (part_size p)" "image_begins (dl_body ?D)" "dl_body ?D \<noteq> []"
        and verify: "\<forall>f. part_holds ?F p (dl_body ?D) f \<longrightarrow> fl_image_verify ?F p f"
    proof -
      have "ok" using st2(4) good(1,2) by (simp add: dl_good_def upd_connected_def st1_def on_upd_def)
      moreover have "ota_expected ?F p (dl_data_of ?D)"
        using ready good by (simp add: ota_expected_def ota_ready_def dl_good_def dl_codes_ok_def dl_body_def Let_def)
      ultimately have res: "res" using st2(3) by (simp add: res_def ota_inv_def)
      have "ok2 = True"
        by (rule ota_finish_succeeds [of ?F "dl_body ?D" e "fu_flash (ds_user st2)" ok2 f])
          (use ready e f res good(4) verify in \<open>simp_all add: ota_ready_def Let_def\<close>)
      with res show ?thesis by simp
    qed
    ultimately show ?thesis using begun keeps(1) e(5) finish(2) w3(3) by (auto simp: )
  qed
qed

end
