(* ===== verification/Fw_Update_Images.thy ===== *)
theory Fw_Update_Images
  imports Fw_Update_Safe
begin

text \<open>
  The three images of a firmware update together: when the boot partition is switched, what the new partitions hold, that the
  partitions in use stay as they are, and when an update succeeds.
\<close>

section \<open>The three images\<close>

text \<open>The partitions to write lie apart from each other and from the choice of the boot partition.\<close>

definition new_partitions_apart :: "nat set \<Rightarrow> esp_partition \<Rightarrow> esp_partition \<Rightarrow> esp_partition \<Rightarrow> bool" where
  "new_partitions_apart otadata a b c \<longleftrightarrow> 0 < part_size a \<and> region a \<inter> otadata = {} \<and> region b \<inter> otadata = {} \<and> region c \<inter> otadata = {} \<and>
     region a \<inter> region b = {} \<and> region a \<inter> region c = {} \<and> region b \<inter> region c = {}"

definition new_partitions :: "ruuvi_flash_info \<Rightarrow> esp_partition \<Rightarrow> esp_partition \<Rightarrow> esp_partition \<Rightarrow> bool" where
  "new_partitions i a b c \<longleftrightarrow> fi_next_update_partition i = Some a \<and> fi_next_fatfs_gwui_partition i = Some b \<and>
     fi_next_fatfs_nrf52_partition i = Some c"

text \<open>What the server delivers for a file.\<close>

definition image_dl :: "('f, 'd) upd_env \<Rightarrow> ('f, 'd) upd_state \<Rightarrow> string \<Rightarrow> dl_env" where
  "image_dl E st name = ue_download E (fw_update_url st name)"

text \<open>
  Each of the three requests was completed (as the HTTP client reports it, with status 200, or with any 2xx after the first call), every
  response that carried data had status 200 or was a redirect, and each partition holds byte by byte what its request delivered. Nothing
  is compared with a Content-Length, and an answer without data counts as an empty file; the application alone was verified.
\<close>

definition images_as_delivered :: "('f, 'd) upd_env \<Rightarrow> ('f, 'd) upd_state \<Rightarrow> esp_partition \<Rightarrow> esp_partition \<Rightarrow> esp_partition \<Rightarrow> 'f \<Rightarrow> bool" where
  "images_as_delivered E st a b c f \<longleftrightarrow>
     (let F = ue_flash E; A = image_dl E st ''ruuvi_gateway_esp.bin''; B = image_dl E st ''fatfs_gwui.bin''; C = image_dl E st ''fatfs_nrf52.bin'' in
      dl_completed A \<and> dl_completed B \<and> dl_completed C \<and> dl_codes_ok A \<and> dl_codes_ok B \<and> dl_codes_ok C \<and>
      is_ota_partition a \<and> fl_running_partition F \<noteq> Some a \<and>
      part_holds F a (dl_body A) f \<and> part_stored F b (dl_body B) f \<and> part_stored F c (dl_body C) f \<and>
      (\<exists>f1. fl_image_verify F a f1 \<and> (\<forall>x\<in>region a. fl_read F f1 x = fl_read F f x)))"

lemma part_holds_same: "flash_same F S f f' \<Longrightarrow> S \<inter> region p = {} \<Longrightarrow> part_holds F p bs f \<Longrightarrow> part_holds F p bs f'"
proof -
  assume same: "flash_same F S f f'" and S: "S \<inter> region p = {}" and h: "part_holds F p bs f"
  have "part_address p + k \<notin> S" if "k < part_size p" for k
  proof -
    have "part_address p + k \<in> region p" using that by (simp add: region_def)
    with S show ?thesis by blast
  qed
  with same h show ?thesis by (simp add: part_holds_def flash_same_def)
qed

lemma flash_same_region: "flash_same F S f f' \<Longrightarrow> S \<inter> region p = {} \<Longrightarrow> x \<in> region p \<Longrightarrow> fl_read F f' x = fl_read F f x"
  by (auto simp: flash_same_def)

lemma on_upd_simps [simp]: "ds_user (on_upd g st) = g (ds_user st)" "dl_back (on_upd g st) st' = dl_back st st'"
  "dl_back st (on_upd g st') = dl_back st st'" "upd_connected (on_upd g st) = upd_connected st"
  "upd_env_ok E otadata (on_upd g st) = upd_env_ok E otadata st"
  by (simp_all add: on_upd_def upd_connected_def upd_env_ok_def dl_counts_def)

lemma set_stage_simps [simp]: "upd_keeps w (fw_update_set_stage s w') = upd_keeps w w'" "upd_keeps (fw_update_set_stage s w) w' = upd_keeps w w'"
  "fu_flash (fw_update_set_stage s w) = fu_flash w" "s_ota_ops_entries (fw_update_set_stage s w) = s_ota_ops_entries w"
  "g_ruuvi_flash_info (fw_update_set_stage s w) = g_ruuvi_flash_info w" "g_fw_update_cfg (fw_update_set_stage s w) = g_fw_update_cfg w"
  by (simp_all add: fw_update_set_stage_def upd_keeps_def fw_update_set_extra_info_for_status_json_def wifi_manager_set_extra_info_def)

lemma failed_simps [simp]: "upd_keeps w (fw_update_set_extra_info_for_status_json_update_failed m w') = upd_keeps w w'"
  "fu_flash (fw_update_set_extra_info_for_status_json_update_failed m w) = fu_flash w"
  by (simp_all add: fw_update_set_extra_info_for_status_json_update_failed_def)

lemma failed_reason: "g_fw_updating_reason (fw_update_set_extra_info_for_status_json_update_failed m w) = g_fw_updating_reason w"
  by (simp add: fw_update_set_extra_info_for_status_json_update_failed_def wifi_manager_set_extra_info_def)

lemma upd_env_ok_back: "upd_env_ok E otadata st \<Longrightarrow> dl_back st st' \<Longrightarrow> upd_env_ok E otadata st'"
  by (simp add: upd_env_ok_def dl_back_def)

lemma upd_connected_back: "upd_connected st \<Longrightarrow> fst (dl_counts st) \<noteq> 0 \<Longrightarrow> dl_back st st' \<Longrightarrow> upd_connected st'"
  by (simp add: upd_connected_def dl_back_def dl_bits_def gw_status_is_network_connected_def status_any_def)

lemma url_keeps: "upd_keeps (ds_user st) (ds_user st') \<Longrightarrow> fw_update_url st' n = fw_update_url st n"
  by (simp add: fw_update_url_def upd_keeps_def)

lemma url_on_stage [simp]: "fw_update_url (on_upd (fw_update_set_stage s) st) n = fw_update_url st n"
  by (simp add: fw_update_url_def)

definition esp_result :: "('f, 'd) upd_env \<Rightarrow> esp_partition \<Rightarrow> ('f, 'd) upd_state \<Rightarrow> bool \<Rightarrow> ('f, 'd) upd_state \<Rightarrow> bool" where
  "esp_result E p st ok st' \<longleftrightarrow> (let F = ue_flash E; D = image_dl E st ''ruuvi_gateway_esp.bin'' in
     dl_back st st' \<and> upd_keeps (ds_user st) (ds_user st') \<and> part_changed F p (fu_flash (ds_user st)) (fu_flash (ds_user st')) \<and>
     (ok \<longrightarrow> is_ota_partition p \<and> fl_running_partition F \<noteq> Some p \<and> dl_completed D \<and> dl_codes_ok D \<and>
       part_holds F p (dl_body D) (fu_flash (ds_user st')) \<and> fl_image_verify F p (fu_flash (ds_user st'))) \<and>
     (ue_alloc_url E ''ruuvi_gateway_esp.bin'' \<and> ota_ready E p (fu_flash (ds_user st)) \<and> upd_connected st \<and>
      dl_good D (fw_update_url st ''ruuvi_gateway_esp.bin'') (part_size p) \<and> image_begins (dl_body D) \<and> dl_body D \<noteq> [] \<and>
      (\<forall>f. part_holds F p (dl_body D) f \<longrightarrow> fl_image_verify F p f) \<longrightarrow> ok))"

lemma esp_bin_result:
  assumes "upd_env_ok E otadata st" and "fi_next_update_partition (g_ruuvi_flash_info (ds_user st)) = Some p"
    and "region p \<inter> otadata = {}" and "0 < part_size p"
  shows "\<exists>ok st'. fw_update_ruuvi_gateway_esp_bin E st = Some (ok, st') \<and> esp_result E p st ok st'"
proof (cases "ue_alloc_url E ''ruuvi_gateway_esp.bin''")
  case True
  with fw_update_ota_result [OF assms, of "fw_update_url st ''ruuvi_gateway_esp.bin''"] show ?thesis
    unfolding fw_update_ruuvi_gateway_esp_bin_def esp_result_def image_dl_def Let_def by simp blast
qed (auto simp: fw_update_ruuvi_gateway_esp_bin_def esp_result_def Let_def)

text \<open>The two images of file systems.\<close>

definition fat_result :: "('f, 'd) upd_env \<Rightarrow> esp_partition \<Rightarrow> string \<Rightarrow> ('f, 'd) upd_state \<Rightarrow> bool \<Rightarrow> ('f, 'd) upd_state \<Rightarrow> bool" where
  "fat_result E p name st ok st' \<longleftrightarrow> (let D = image_dl E st name in
     dl_back st st' \<and> upd_keeps (ds_user st) (ds_user st') \<and> part_changed (ue_flash E) p (fu_flash (ds_user st)) (fu_flash (ds_user st')) \<and>
     (ok \<longrightarrow> dl_completed D \<and> dl_codes_ok D \<and> part_stored (ue_flash E) p (dl_body D) (fu_flash (ds_user st'))) \<and>
     (ue_alloc_url E name \<and> flash_healthy (ue_flash E) \<and> sector_aligned p \<and> upd_connected st \<and>
      dl_good D (fw_update_url st name) (part_size p) \<longrightarrow> ok))"

lemma gwui_bin_result:
  assumes "upd_env_ok E otadata st" and "fi_next_fatfs_gwui_partition (g_ruuvi_flash_info (ds_user st)) = Some p" and "region p \<inter> otadata = {}"
  shows "\<exists>ok st'. fw_update_fatfs_gwui_bin E st = Some (ok, st') \<and> fat_result E p ''fatfs_gwui.bin'' st ok st'"
proof (cases "ue_alloc_url E ''fatfs_gwui.bin''")
  case True
  with data_partition_result [OF assms(1,3), of "fw_update_url st ''fatfs_gwui.bin''"] assms(2) show ?thesis
    unfolding fw_update_fatfs_gwui_bin_def fw_update_fatfs_gwui_def fat_result_def image_dl_def Let_def by simp blast
qed (auto simp: fw_update_fatfs_gwui_bin_def fat_result_def Let_def)

lemma nrf52_bin_result:
  assumes "upd_env_ok E otadata st" and "fi_next_fatfs_nrf52_partition (g_ruuvi_flash_info (ds_user st)) = Some p" and "region p \<inter> otadata = {}"
  shows "\<exists>ok st'. fw_update_fatfs_nrf52_bin E st = Some (ok, st') \<and> fat_result E p ''fatfs_nrf52.bin'' st ok st'"
proof (cases "ue_alloc_url E ''fatfs_nrf52.bin''")
  case True
  with data_partition_result [OF assms(1,3), of "fw_update_url st ''fatfs_nrf52.bin''"] assms(2) show ?thesis
    unfolding fw_update_fatfs_nrf52_bin_def fw_update_fatfs_nrf52_def fat_result_def image_dl_def Let_def by simp blast
qed (auto simp: fw_update_fatfs_nrf52_bin_def fat_result_def Let_def)

lemma switch_result:
  assumes "boot_law (ue_flash E) otadata" and "fi_next_update_partition (g_ruuvi_flash_info (ds_user st)) = Some a"
  shows "\<exists>ok st'. fw_update_switch E st = Some (ok, st') \<and> dl_back st st' \<and> flash_same (ue_flash E) otadata (fu_flash (ds_user st)) (fu_flash (ds_user st')) \<and>
    (ok \<longrightarrow> fl_boot_partition (ue_flash E) (fu_flash (ds_user st')) = Some a \<and> g_ruuvi_flash_info (ds_user st') = (g_ruuvi_flash_info (ds_user st))
      \<lparr>fi_boot_partition := Some a, fi_is_ota0_active := \<not> fi_is_ota0_active (g_ruuvi_flash_info (ds_user st))\<rparr>) \<and>
    (flash_healthy (ue_flash E) \<longrightarrow> ok) \<and> g_fw_updating_reason (ds_user st') = g_fw_updating_reason (ds_user st)"
proof -
  obtain ok f where f: "fl_set_boot_partition (ue_flash E) a (fu_flash (ds_user st)) = (ok, f)" by fastforce
  have "let (ok, f') = fl_set_boot_partition (ue_flash E) a (fu_flash (ds_user st)) in
     flash_same (ue_flash E) otadata (fu_flash (ds_user st)) f' \<and> (ok \<longrightarrow> fl_boot_partition (ue_flash E) f' = Some a)"
    using assms(1) unfolding boot_law_def by blast
  note law = this [unfolded f Let_def prod.case]
  have "flash_healthy (ue_flash E) \<longrightarrow> ok" using flash_healthyD(2) [OF _ f] by blast
  with law assms(2) f show ?thesis by (cases ok) (auto simp: fw_update_switch_def upd_fail_def Let_def on_upd_def failed_reason)
qed

text \<open>What an update needs to succeed.\<close>

definition update_good :: "('f, 'd) upd_env \<Rightarrow> ('f, 'd) upd_state \<Rightarrow> esp_partition \<Rightarrow> esp_partition \<Rightarrow> esp_partition \<Rightarrow> bool" where
  "update_good E st a b c \<longleftrightarrow>
     (let A = image_dl E st ''ruuvi_gateway_esp.bin''; B = image_dl E st ''fatfs_gwui.bin''; C = image_dl E st ''fatfs_nrf52.bin'' in
      (\<forall>n. ue_alloc_url E n) \<and> ota_ready E a (fu_flash (ds_user st)) \<and> sector_aligned b \<and> sector_aligned c \<and> upd_connected st \<and>
      fst (dl_counts st) \<noteq> 0 \<and> dl_good A (fw_update_url st ''ruuvi_gateway_esp.bin'') (part_size a) \<and>
      dl_good B (fw_update_url st ''fatfs_gwui.bin'') (part_size b) \<and> dl_good C (fw_update_url st ''fatfs_nrf52.bin'') (part_size c) \<and>
      image_begins (dl_body A) \<and> dl_body A \<noteq> [] \<and> (\<forall>f. part_holds (ue_flash E) a (dl_body A) f \<longrightarrow> fl_image_verify (ue_flash E) a f))"

definition images_outcome ::
  "('f, 'd) upd_env \<Rightarrow> nat set \<Rightarrow> esp_partition \<Rightarrow> esp_partition \<Rightarrow> esp_partition \<Rightarrow> ('f, 'd) upd_state \<Rightarrow> bool \<Rightarrow> ('f, 'd) upd_state \<Rightarrow> bool" where
  "images_outcome E otadata a b c st ok st' \<longleftrightarrow>
     (let F = ue_flash E; f = fu_flash (ds_user st); f' = fu_flash (ds_user st'); i = g_ruuvi_flash_info (ds_user st) in
      dl_back st st' \<and> flash_same F (region a \<union> region b \<union> region c \<union> otadata) f f' \<and>
      (ok \<or> fl_boot_partition F f' \<noteq> fl_boot_partition F f \<longrightarrow> images_as_delivered E st a b c f') \<and>
      (ok \<longrightarrow> fl_boot_partition F f' = Some a \<and>
        g_ruuvi_flash_info (ds_user st') = i\<lparr>fi_boot_partition := Some a, fi_is_ota0_active := \<not> fi_is_ota0_active i\<rparr>) \<and>
      g_fw_updating_reason (ds_user st') = g_fw_updating_reason (ds_user st) \<and>
      (update_good E st a b c \<longrightarrow> ok))"

lemma failed_outcome:
  assumes "dl_back st st'" and "upd_keeps (ds_user st) (ds_user st')" and "\<not> update_good E st a b c"
    and "flash_same (ue_flash E) (region a \<union> region b \<union> region c \<union> otadata) (fu_flash (ds_user st)) (fu_flash (ds_user st'))"
    and "fl_boot_partition (ue_flash E) (fu_flash (ds_user st')) = fl_boot_partition (ue_flash E) (fu_flash (ds_user st))"
  shows "images_outcome E otadata a b c st False (on_upd (fw_update_set_extra_info_for_status_json_update_failed m) st')"
  using assms by (simp add: images_outcome_def Let_def) (simp add: upd_keeps_def failed_reason)

lemma images_result:
  assumes env: "upd_env_ok E otadata st" and new: "new_partitions (g_ruuvi_flash_info (ds_user st)) a b c"
    and apart: "new_partitions_apart otadata a b c"
  shows "\<exists>ok st'. fw_update_images E st = Some (ok, st') \<and> images_outcome E otadata a b c st ok st'"
proof -
  let ?F = "ue_flash E" let ?S = "region a \<union> region b \<union> region c \<union> otadata" let ?f = "fu_flash (ds_user st)"
  let ?fail = "\<lambda>m. fw_update_set_extra_info_for_status_json_update_failed m"
  note parts = new [unfolded new_partitions_def]
  from apart have ap: "0 < part_size a" "region a \<inter> otadata = {}" "region b \<inter> otadata = {}" "region c \<inter> otadata = {}"
    and d: "region b \<inter> region a = {}" "region c \<inter> region a = {}" "otadata \<inter> region a = {}" "region c \<inter> region b = {}"
      "otadata \<inter> region b = {}" "otadata \<inter> region c = {}"
    unfolding new_partitions_apart_def by blast+
  have sub: "region a \<subseteq> ?S" "region b \<subseteq> ?S" "region c \<subseteq> ?S" "otadata \<subseteq> ?S" by auto
  let ?st0 = "on_upd (fw_update_set_stage FW_UPDATE_STAGE_1) st"
  have "upd_env_ok E otadata ?st0" "fi_next_update_partition (g_ruuvi_flash_info (ds_user ?st0)) = Some a" using env parts by simp_all
  from esp_bin_result [OF this ap(2,1)] obtain ok1 st1 where e1: "fw_update_ruuvi_gateway_esp_bin E ?st0 = Some (ok1, st1)"
    and x1: "esp_result E a ?st0 ok1 st1" by blast
  have r1: "dl_back st st1" "upd_keeps (ds_user st) (ds_user st1)" "part_changed ?F a ?f (fu_flash (ds_user st1))"
      "ok1 \<longrightarrow> is_ota_partition a \<and> fl_running_partition ?F \<noteq> Some a \<and> dl_completed (image_dl E st ''ruuvi_gateway_esp.bin'') \<and> dl_codes_ok (image_dl E st ''ruuvi_gateway_esp.bin'') \<and>
        part_holds ?F a (dl_body (image_dl E st ''ruuvi_gateway_esp.bin'')) (fu_flash (ds_user st1)) \<and> fl_image_verify ?F a (fu_flash (ds_user st1))"
      "update_good E st a b c \<longrightarrow> ok1"
    using x1 by (simp_all add: esp_result_def image_dl_def update_good_def Let_def)
  have f1: "flash_same ?F ?S ?f (fu_flash (ds_user st1))" "fl_boot_partition ?F (fu_flash (ds_user st1)) = fl_boot_partition ?F ?f"
    using r1(3) flash_same_mono [OF _ sub(1)] by (auto simp: part_changed_def)
  show ?thesis
  proof (cases ok1)
    case False
    then have "fw_update_images E st = Some (False, on_upd (?fail ''Failed to update OTA'') st1)"
      by (simp add: fw_update_images_def e1 upd_fail_def)
    with failed_outcome [OF r1(1,2) _ f1] False r1(5) show ?thesis by blast
  next
    case ok1: True
    let ?st1 = "on_upd (fw_update_set_stage FW_UPDATE_STAGE_2) st1"
    have "upd_env_ok E otadata ?st1" "fi_next_fatfs_gwui_partition (g_ruuvi_flash_info (ds_user ?st1)) = Some b"
      using upd_env_ok_back [OF env r1(1)] parts r1(2) by (simp_all add: upd_keeps_def)
    from gwui_bin_result [OF this ap(3)] obtain ok2 st2 where e2: "fw_update_fatfs_gwui_bin E ?st1 = Some (ok2, st2)"
      "fat_result E b ''fatfs_gwui.bin'' ?st1 ok2 st2" by blast
    have r2: "dl_back st st2" "upd_keeps (ds_user st) (ds_user st2)" "part_changed ?F b (fu_flash (ds_user st1)) (fu_flash (ds_user st2))"
      "ok2 \<longrightarrow> dl_completed (image_dl E st ''fatfs_gwui.bin'') \<and> dl_codes_ok (image_dl E st ''fatfs_gwui.bin'') \<and> part_stored ?F b (dl_body (image_dl E st ''fatfs_gwui.bin'')) (fu_flash (ds_user st2))"
      using e2(2) dl_back_trans [OF r1(1)] upd_keeps_trans [OF r1(2)] url_keeps [OF r1(2)] by (simp_all add: fat_result_def image_dl_def Let_def)
    have good2: "update_good E st a b c \<longrightarrow> ok2"
      using e2(2) upd_connected_back [OF _ _ r1(1)] url_keeps [OF r1(2)]
      by (auto simp: fat_result_def image_dl_def update_good_def ota_ready_def Let_def)
    have f2: "flash_same ?F ?S ?f (fu_flash (ds_user st2))" "fl_boot_partition ?F (fu_flash (ds_user st2)) = fl_boot_partition ?F ?f"
      using f1 r2(3) flash_same_trans [OF f1(1) flash_same_mono [OF _ sub(2)]] by (auto simp: part_changed_def)
    show ?thesis
    proof (cases ok2)
      case False
      then have "fw_update_images E st = Some (False, on_upd (?fail ''Failed to update GWUI'') st2)"
        by (simp add: fw_update_images_def e1 e2(1) ok1 upd_fail_def)
      with failed_outcome [OF r2(1,2) _ f2] False good2 show ?thesis by blast
    next
      case ok2: True
      let ?st2 = "on_upd (fw_update_set_stage FW_UPDATE_STAGE_3) st2"
      have "upd_env_ok E otadata ?st2" "fi_next_fatfs_nrf52_partition (g_ruuvi_flash_info (ds_user ?st2)) = Some c"
        using upd_env_ok_back [OF env r2(1)] parts r2(2) by (simp_all add: upd_keeps_def)
      from nrf52_bin_result [OF this ap(4)] obtain ok3 st3 where e3: "fw_update_fatfs_nrf52_bin E ?st2 = Some (ok3, st3)"
        "fat_result E c ''fatfs_nrf52.bin'' ?st2 ok3 st3" by blast
      have r3: "dl_back st st3" "upd_keeps (ds_user st) (ds_user st3)" "part_changed ?F c (fu_flash (ds_user st2)) (fu_flash (ds_user st3))"
        "ok3 \<longrightarrow> dl_completed (image_dl E st ''fatfs_nrf52.bin'') \<and> dl_codes_ok (image_dl E st ''fatfs_nrf52.bin'') \<and> part_stored ?F c (dl_body (image_dl E st ''fatfs_nrf52.bin'')) (fu_flash (ds_user st3))"
        using e3(2) dl_back_trans [OF r2(1)] upd_keeps_trans [OF r2(2)] url_keeps [OF r2(2)] by (simp_all add: fat_result_def image_dl_def Let_def)
      have good3: "update_good E st a b c \<longrightarrow> ok3"
        using e3(2) upd_connected_back [OF _ _ r2(1)] url_keeps [OF r2(2)]
        by (auto simp: fat_result_def image_dl_def update_good_def ota_ready_def Let_def)
      have f3: "flash_same ?F ?S ?f (fu_flash (ds_user st3))" "fl_boot_partition ?F (fu_flash (ds_user st3)) = fl_boot_partition ?F ?f"
        using f2 r3(3) flash_same_trans [OF f2(1) flash_same_mono [OF _ sub(3)]] by (auto simp: part_changed_def)
      show ?thesis
      proof (cases ok3)
        case False
        then have "fw_update_images E st = Some (False, on_upd (?fail ''Failed to update nRF52'') st3)"
          by (simp add: fw_update_images_def e1 e2(1) e3(1) ok1 ok2 upd_fail_def)
        with failed_outcome [OF r3(1,2) _ f3] False good3 show ?thesis by blast
      next
        case ok3: True
        have law: "boot_law ?F otadata" using env by (simp add: upd_env_ok_def flash_laws_def)
        have i: "g_ruuvi_flash_info (ds_user st3) = g_ruuvi_flash_info (ds_user st)" using r3(2) by (simp add: upd_keeps_def)
        with parts have "fi_next_update_partition (g_ruuvi_flash_info (ds_user st3)) = Some a" by simp
        from switch_result [OF law this] obtain ok4 st4 where e4: "fw_update_switch E st3 = Some (ok4, st4)" "dl_back st3 st4"
          "flash_same ?F otadata (fu_flash (ds_user st3)) (fu_flash (ds_user st4))"
          "ok4 \<longrightarrow> fl_boot_partition ?F (fu_flash (ds_user st4)) = Some a \<and> g_ruuvi_flash_info (ds_user st4) = (g_ruuvi_flash_info (ds_user st))
            \<lparr>fi_boot_partition := Some a, fi_is_ota0_active := \<not> fi_is_ota0_active (g_ruuvi_flash_info (ds_user st))\<rparr>"
          "flash_healthy ?F \<longrightarrow> ok4" "g_fw_updating_reason (ds_user st4) = g_fw_updating_reason (ds_user st3)" unfolding i by blast
        have b3: "flash_same ?F (region b) (fu_flash (ds_user st1)) (fu_flash (ds_user st2))"
          and c3: "flash_same ?F (region c) (fu_flash (ds_user st2)) (fu_flash (ds_user st3))"
          using r2(3) r3(3) by (simp_all add: part_changed_def)
        have "part_holds ?F a (dl_body (image_dl E st ''ruuvi_gateway_esp.bin'')) (fu_flash (ds_user st4))"
          using r1(4) ok1 part_holds_same [OF b3 d(1)] part_holds_same [OF c3 d(2)] part_holds_same [OF e4(3) d(3)] by blast
        moreover have "part_stored ?F b (dl_body (image_dl E st ''fatfs_gwui.bin'')) (fu_flash (ds_user st4))"
          using r2(4) ok2 stored_same [OF c3 d(4)] stored_same [OF e4(3) d(5)] by blast
        moreover have "part_stored ?F c (dl_body (image_dl E st ''fatfs_nrf52.bin'')) (fu_flash (ds_user st4))"
          using r3(4) ok3 stored_same [OF e4(3) d(6)] by blast
        moreover have "fl_read ?F (fu_flash (ds_user st1)) x = fl_read ?F (fu_flash (ds_user st4)) x" if "x \<in> region a" for x
          using flash_same_region [OF b3 d(1) that] flash_same_region [OF c3 d(2) that] flash_same_region [OF e4(3) d(3) that] by simp
        ultimately have "images_as_delivered E st a b c (fu_flash (ds_user st4))"
          using r1(4) r2(4) r3(4) ok1 ok2 ok3 unfolding images_as_delivered_def Let_def by blast
        moreover have "flash_same ?F ?S ?f (fu_flash (ds_user st4))" by (rule flash_same_trans [OF f3(1) flash_same_mono [OF e4(3) sub(4)]])
        moreover have "fw_update_images E st = Some (ok4, st4)" by (simp add: fw_update_images_def e1 e2(1) e3(1) e4(1) ok1 ok2 ok3)
        moreover have "update_good E st a b c \<longrightarrow> ok4" using e4(5) by (auto simp: update_good_def ota_ready_def Let_def)
        moreover have "g_fw_updating_reason (ds_user st4) = g_fw_updating_reason (ds_user st)" using e4(6) r3(2) by (simp add: upd_keeps_def)
        ultimately have "fw_update_images E st = Some (ok4, st4)" "images_outcome E otadata a b c st ok4 st4"
          using e4(4) dl_back_trans [OF r3(1) e4(2)] unfolding images_outcome_def Let_def by blast+
        then show ?thesis by blast
      qed
    qed
  qed
qed

section \<open>Switching the boot partition\<close>

lemma report_progress_keeps: "report_progress es w = Some w' \<Longrightarrow> fu_flash w' = fu_flash w \<and> g_fw_updating_reason w' = g_fw_updating_reason w"
proof (induction es w rule: report_progress.induct)
  case (2 n k es w)
  then obtain w1 where w1: "fw_update_nrf52fw_cb_progress n k w = Some w1" "report_progress es w1 = Some w'" by (auto split: bind_splits)
  with 2(1) [OF w1] show ?case
    by (auto simp: fw_update_nrf52fw_cb_progress_def fw_update_set_extra_info_for_status_json_def wifi_manager_set_extra_info_def split: if_splits)
qed simp_all

lemma nrf52_keeps: "fw_update_nrf52 E st = Some (ok, st') \<Longrightarrow> fu_flash (ds_user st') = fu_flash (ds_user st) \<and>
    g_fw_updating_reason (ds_user st') = g_fw_updating_reason (ds_user st)"
  by (auto simp: fw_update_nrf52_def fw_update_set_stage_nrf52_updating_def fw_update_set_extra_info_for_status_json_update_failed_nrf52_def
    fw_update_set_extra_info_for_status_json_update_successful_def fw_update_set_extra_info_for_status_json_def wifi_manager_set_extra_info_def Let_def dest!: report_progress_keeps split: bind_splits if_splits)

text \<open>C35: The boot partition is switched only after all three images were downloaded and stored. Whatever fails during an update
  (downloads, allocations, the flash memory),
  nothing is written outside of the three new partitions and the choice of the boot partition, and if this choice has changed then
  the client reported each of the three requests as completed, every response with data had status 200 (or was a redirect), the new
  application is not the running one, was verified and is, like the
  images of the web page and of the nRF52, in its partition byte by byte as the data were delivered; the rest of the two file systems is erased.
  (The code compares no length and takes an answer without data for an empty file, see C38.) The nRF52 is
  updated only then, and this changes nothing in the flash memory. The downloads end and leave relaying as suspended as before.\<close>

theorem fw_update_switches_stored_images:
  assumes "upd_env_ok E otadata st" and "new_partitions (g_ruuvi_flash_info (ds_user st)) a b c" and "new_partitions_apart otadata a b c"
  shows "\<exists>ok st1. fw_update_images E st = Some (ok, st1) \<and>
    flash_same (ue_flash E) (region a \<union> region b \<union> region c \<union> otadata) (fu_flash (ds_user st)) (fu_flash (ds_user st1)) \<and>
    (fl_boot_partition (ue_flash E) (fu_flash (ds_user st1)) \<noteq> fl_boot_partition (ue_flash E) (fu_flash (ds_user st)) \<longrightarrow>
      images_as_delivered E st a b c (fu_flash (ds_user st1))) \<and>
    (ok \<longrightarrow> images_as_delivered E st a b c (fu_flash (ds_user st1)) \<and> fl_boot_partition (ue_flash E) (fu_flash (ds_user st1)) = Some a) \<and>
    dl_counts st1 = dl_counts st \<and>
    fw_update_do_actions E st = (if ok then fw_update_nrf52 E st1 else Some (False, st1)) \<and>
    (\<forall>r st2. fw_update_nrf52 E st1 = Some (r, st2) \<longrightarrow> fu_flash (ds_user st2) = fu_flash (ds_user st1))"
proof -
  obtain ok st1 where r: "fw_update_images E st = Some (ok, st1)" "images_outcome E otadata a b c st ok st1"
    using images_result [OF assms] by blast
  moreover have "fw_update_do_actions E st = (if ok then fw_update_nrf52 E st1 else Some (False, st1))"
    using r(1) by (simp add: fw_update_do_actions_def)
  ultimately show ?thesis using nrf52_keeps by (auto simp: images_outcome_def dl_back_def Let_def)
qed

section \<open>The partitions in use\<close>

text \<open>The SDK answers from the partition table.\<close>

definition reads_partition_table :: "'f flash \<Rightarrow> bool" where
  "reads_partition_table F \<longleftrightarrow>
     (\<forall>n. fl_find_fat F n = find (\<lambda>p. part_type p = ESP_PARTITION_TYPE_DATA \<and> part_subtype p = 0x81 \<and> part_label p = n) ruuvi_partition_table) \<and>
     (fl_running_partition F = Some part_ota_0 \<and> fl_next_update_partition F part_ota_0 = Some part_ota_1 \<or>
      fl_running_partition F = Some part_ota_1 \<and> fl_next_update_partition F part_ota_1 = Some part_ota_0)"

text \<open>The running application, the partitions that it mounts, and the settings.\<close>

definition labels_in_use :: "'f flash \<Rightarrow> ('f, 'd) upd_world \<Rightarrow> string set" where
  "labels_in_use F w = {part_label (the (fl_running_partition F)), fw_update_get_current_fatfs_gwui_partition_name w,
     fw_update_get_current_fatfs_nrf52_partition_name w, ''nvs'', ''phy_init'', ''gw_cfg_def''}"

lemmas partition_names =
  GW_GWUI_PARTITION_def GW_NRF_PARTITION_def GW_GWUI_PARTITION_2_def GW_NRF_PARTITION_2_def

lemmas table_defs = ruuvi_partition_table_def part_otadata_def part_ota_0_def part_ota_1_def table_row_def

definition fat_part :: "string \<Rightarrow> nat \<Rightarrow> nat \<Rightarrow> esp_partition" where
  "fat_part label a n = table_row label ESP_PARTITION_TYPE_DATA 0x81 a n"

lemma find_fat:
  assumes "reads_partition_table F"
  shows "find_data_fat_partition_by_name F GW_GWUI_PARTITION = Some (fat_part ''fatfs_gwui'' 0x500000 0xC0000)"
    "find_data_fat_partition_by_name F GW_GWUI_PARTITION_2 = Some (fat_part ''fatfs_gwui_2'' 0xA00000 0xC0000)"
    "find_data_fat_partition_by_name F GW_NRF_PARTITION = Some (fat_part ''fatfs_nrf52'' 0x5C0000 0x40000)"
    "find_data_fat_partition_by_name F GW_NRF_PARTITION_2 = Some (fat_part ''fatfs_nrf52_2'' 0xAC0000 0x40000)"
  using assms by (simp_all add: reads_partition_table_def find_data_fat_partition_by_name_def table_defs partition_names fat_part_def)

lemma read_flash_info_valid: "fw_update_read_flash_info_internal F f i0 = Some (ok, i) \<Longrightarrow> fi_is_valid i = ok"
  by (auto simp: fw_update_read_flash_info_internal_def fw_update_find_nrf52_partition_def Let_def split: if_splits option.splits)

lemma read_flash_info_of_table:
  assumes "reads_partition_table F" and "fw_update_read_flash_info F w = Some (True, w')"
  shows "fl_running_partition F = Some part_ota_0 \<and> fi_is_ota0_active (g_ruuvi_flash_info w') \<and>
      new_partitions (g_ruuvi_flash_info w') part_ota_1 (fat_part ''fatfs_gwui_2'' 0xA00000 0xC0000) (fat_part ''fatfs_nrf52_2'' 0xAC0000 0x40000) \<or>
    fl_running_partition F = Some part_ota_1 \<and> \<not> fi_is_ota0_active (g_ruuvi_flash_info w') \<and>
      new_partitions (g_ruuvi_flash_info w') part_ota_0 (fat_part ''fatfs_gwui'' 0x500000 0xC0000) (fat_part ''fatfs_nrf52'' 0x5C0000 0x40000)"
proof -
  have labels: "part_label part_ota_0 = ''ota_0''" "part_label part_ota_1 = ''ota_1''" by (simp_all add: table_defs)
  obtain ok i where "fw_update_read_flash_info_internal F (fu_flash w) (g_ruuvi_flash_info w) = Some (ok, i)" "fi_is_valid i"
    and w': "g_ruuvi_flash_info w' = i"
    using assms(2) by (auto simp: fw_update_read_flash_info_def split: bind_splits)
  with read_flash_info_valid [of F "fu_flash w" "g_ruuvi_flash_info w" ok i]
  have i: "fw_update_read_flash_info_internal F (fu_flash w) (g_ruuvi_flash_info w) = Some (True, i)" by simp
  from assms(1) consider (zero) "fl_running_partition F = Some part_ota_0" "fl_next_update_partition F part_ota_0 = Some part_ota_1"
    | (one) "fl_running_partition F = Some part_ota_1" "fl_next_update_partition F part_ota_1 = Some part_ota_0"
    by (auto simp: reads_partition_table_def)
  then show ?thesis
  proof cases
    case zero
    with i show ?thesis unfolding w'
      by (auto simp: fw_update_read_flash_info_internal_def fw_update_find_nrf52_partition_def find_fat [OF assms(1)] labels
        new_partitions_def Let_def split: if_splits option.splits)
  next
    case one
    with i show ?thesis unfolding w'
      by (auto simp: fw_update_read_flash_info_internal_def fw_update_find_nrf52_partition_def find_fat [OF assms(1)] labels
        new_partitions_def Let_def split: if_splits option.splits)
  qed
qed

definition written :: "esp_partition \<Rightarrow> esp_partition \<Rightarrow> esp_partition \<Rightarrow> nat set" where
  "written a b c = region a \<union> region b \<union> region c \<union> region part_otadata"

lemma table_apart:
  "new_partitions_apart (region part_otadata) part_ota_1 (fat_part ''fatfs_gwui_2'' 0xA00000 0xC0000) (fat_part ''fatfs_nrf52_2'' 0xAC0000 0x40000)"
  "new_partitions_apart (region part_otadata) part_ota_0 (fat_part ''fatfs_gwui'' 0x500000 0xC0000) (fat_part ''fatfs_nrf52'' 0x5C0000 0x40000)"
  by (auto simp: new_partitions_apart_def region_def table_defs fat_part_def)

lemma in_use_apart:
  assumes "reads_partition_table F" and "fw_update_read_flash_info F w = Some (True, w')"
  shows "\<exists>a b c. new_partitions (g_ruuvi_flash_info w') a b c \<and> new_partitions_apart (region part_otadata) a b c \<and>
    (\<forall>p\<in>set ruuvi_partition_table. part_label p \<in> labels_in_use F w' \<longrightarrow> written a b c \<inter> region p = {})"
proof -
  consider (zero) "fl_running_partition F = Some part_ota_0" "fi_is_ota0_active (g_ruuvi_flash_info w')"
      "new_partitions (g_ruuvi_flash_info w') part_ota_1 (fat_part ''fatfs_gwui_2'' 0xA00000 0xC0000) (fat_part ''fatfs_nrf52_2'' 0xAC0000 0x40000)"
    | (one) "fl_running_partition F = Some part_ota_1" "\<not> fi_is_ota0_active (g_ruuvi_flash_info w')"
      "new_partitions (g_ruuvi_flash_info w') part_ota_0 (fat_part ''fatfs_gwui'' 0x500000 0xC0000) (fat_part ''fatfs_nrf52'' 0x5C0000 0x40000)"
    using read_flash_info_of_table [OF assms] by blast
  then show ?thesis
  proof cases
    case zero
    have "written part_ota_1 (fat_part ''fatfs_gwui_2'' 0xA00000 0xC0000) (fat_part ''fatfs_nrf52_2'' 0xAC0000 0x40000) \<inter> region p = {}"
      if "p \<in> set ruuvi_partition_table" "part_label p \<in> labels_in_use F w'" for p
      using that zero(1,2) by (auto simp: labels_in_use_def fw_update_get_current_fatfs_gwui_partition_name_def
        fw_update_get_current_fatfs_nrf52_partition_name_def partition_names table_defs fat_part_def written_def region_def)
    with zero(3) table_apart(1) show ?thesis by blast
  next
    case one
    have "written part_ota_0 (fat_part ''fatfs_gwui'' 0x500000 0xC0000) (fat_part ''fatfs_nrf52'' 0x5C0000 0x40000) \<inter> region p = {}"
      if "p \<in> set ruuvi_partition_table" "part_label p \<in> labels_in_use F w'" for p
      using that one(1,2) by (auto simp: labels_in_use_def fw_update_get_current_fatfs_gwui_partition_name_def
        fw_update_get_current_fatfs_nrf52_partition_name_def partition_names table_defs fat_part_def written_def region_def)
    with one(3) table_apart(2) show ?thesis by blast
  qed
qed

text \<open>C36: An update does not touch what the gateway runs from. After \<open>fw_update_read_flash_info\<close> has found the partitions in the
  partition table of the gateway, no update (successful or not) changes a byte of the running application, of the file systems of the
  web page and of the nRF52 that belong to it (those which the getters name), of the settings or of the default configuration.\<close>

theorem fw_update_keeps_running_firmware:
  assumes "upd_env_ok E (region part_otadata) st" and "reads_partition_table (ue_flash E)"
    and "fw_update_read_flash_info (ue_flash E) w = Some (True, ds_user st)"
  shows "\<exists>ok st1. fw_update_images E st = Some (ok, st1) \<and>
    fw_update_do_actions E st = (if ok then fw_update_nrf52 E st1 else Some (False, st1)) \<and>
    (\<forall>p\<in>set ruuvi_partition_table. part_label p \<in> labels_in_use (ue_flash E) (ds_user st) \<longrightarrow>
      (\<forall>x\<in>region p. fl_read (ue_flash E) (fu_flash (ds_user st1)) x = fl_read (ue_flash E) (fu_flash (ds_user st)) x \<and>
        (\<forall>r st2. fw_update_nrf52 E st1 = Some (r, st2) \<longrightarrow>
          fl_read (ue_flash E) (fu_flash (ds_user st2)) x = fl_read (ue_flash E) (fu_flash (ds_user st)) x)))"
proof -
  obtain a b c where abc: "new_partitions (g_ruuvi_flash_info (ds_user st)) a b c" "new_partitions_apart (region part_otadata) a b c"
    "\<forall>p\<in>set ruuvi_partition_table. part_label p \<in> labels_in_use (ue_flash E) (ds_user st) \<longrightarrow> written a b c \<inter> region p = {}"
    using in_use_apart [OF assms(2,3)] by blast
  obtain ok st1 where r: "fw_update_images E st = Some (ok, st1)" "images_outcome E (region part_otadata) a b c st ok st1"
    using images_result [OF assms(1) abc(1,2)] by blast
  have same: "flash_same (ue_flash E) (written a b c) (fu_flash (ds_user st)) (fu_flash (ds_user st1))"
    using r(2) by (simp add: images_outcome_def written_def Let_def)
  have "fl_read (ue_flash E) (fu_flash (ds_user st1)) x = fl_read (ue_flash E) (fu_flash (ds_user st)) x"
    if "p \<in> set ruuvi_partition_table" "part_label p \<in> labels_in_use (ue_flash E) (ds_user st)" "x \<in> region p" for p x
    using flash_same_region [OF same _ that(3)] abc(3) that(1,2) by blast
  moreover have "fw_update_do_actions E st = (if ok then fw_update_nrf52 E st1 else Some (False, st1))"
    using r(1) by (simp add: fw_update_do_actions_def)
  ultimately show ?thesis using r(1) nrf52_keeps [of E st1] by auto
qed

section \<open>Success\<close>

text \<open>C37: An update succeeds when it can. If the server delivers the three files (with any division into chunks, with redirects, at once or after
  several calls), they fit, the application begins with the magic byte and verifies, no allocation fails and the flash memory, without encryption,
  works, then \<open>fw_update_images\<close> stores all three, switches the boot partition and exchanges the roles of the partitions.\<close>

theorem fw_update_succeeds:
  assumes "upd_env_ok E otadata st" and "new_partitions (g_ruuvi_flash_info (ds_user st)) a b c" and "new_partitions_apart otadata a b c"
    and "update_good E st a b c"
  shows "\<exists>st1. fw_update_images E st = Some (True, st1) \<and> images_as_delivered E st a b c (fu_flash (ds_user st1)) \<and>
    fl_boot_partition (ue_flash E) (fu_flash (ds_user st1)) = Some a \<and>
    fi_is_ota0_active (g_ruuvi_flash_info (ds_user st1)) = (\<not> fi_is_ota0_active (g_ruuvi_flash_info (ds_user st)))"
proof -
  obtain ok st1 where "fw_update_images E st = Some (ok, st1)" "images_outcome E otadata a b c st ok st1"
    using images_result [OF assms(1-3)] by blast
  moreover from this assms(4) have ok by (simp add: images_outcome_def Let_def)
  ultimately show ?thesis by (auto simp: images_outcome_def Let_def)
qed

text \<open>C38: A missing file of the web page passes for an empty one. If the server answers the request for \<open>fatfs_gwui.bin\<close> without a body
  and with a status like 204, the partition of the web page is erased and the update goes on as if it were complete: the boot
  partition is switched to a firmware without a web page.\<close>

theorem fw_update_accepts_empty_image:
  assumes "upd_env_ok E otadata st" and "new_partitions (g_ruuvi_flash_info (ds_user st)) a b c" and "new_partitions_apart otadata a b c"
    and "update_good E st a b c" and "dl_data_of (image_dl E st ''fatfs_gwui.bin'') = []"
  shows "\<exists>st1. fw_update_images E st = Some (True, st1) \<and> fl_boot_partition (ue_flash E) (fu_flash (ds_user st1)) = Some a \<and>
    (\<forall>x\<in>region b. fl_blank (ue_flash E) (fu_flash (ds_user st1)) x)"
proof -
  obtain ok st1 where r: "fw_update_images E st = Some (ok, st1)" "images_outcome E otadata a b c st ok st1"
    using images_result [OF assms(1-3)] by blast
  moreover from this assms(4) have ok: ok by (simp add: images_outcome_def Let_def)
  moreover have "dl_body (image_dl E st ''fatfs_gwui.bin'') = []" using assms(5) by (simp add: dl_body_def)
  ultimately have "part_stored (ue_flash E) b [] (fu_flash (ds_user st1))"
    by (simp add: images_outcome_def images_as_delivered_def Let_def)
  then have "fl_blank (ue_flash E) (fu_flash (ds_user st1)) x" if "x \<in> region b" for x
    using that by (auto simp: part_stored_def region_def dest!: spec [of _ "x - part_address b"])
  with r ok show ?thesis by (auto simp: images_outcome_def Let_def)
qed

text \<open>Without a second partition for the nRF52 the first one is written, which the running firmware uses; after the switch its name is
  that of the partition that does not exist.\<close>

lemma nrf52_partition_fallback:
  assumes "fw_update_read_flash_info F w = Some (True, w')" and "fi_is_ota0_active (g_ruuvi_flash_info w')"
    and "fl_find_fat F GW_NRF_PARTITION_2 = None"
  shows "fi_next_fatfs_nrf52_partition (g_ruuvi_flash_info w') = fl_find_fat F (fw_update_get_current_fatfs_nrf52_partition_name w')"
    and "fl_find_fat F (fw_update_get_current_fatfs_nrf52_partition_name
      (w'\<lparr>g_ruuvi_flash_info := (g_ruuvi_flash_info w')\<lparr>fi_is_ota0_active := False\<rparr>\<rparr>)) = None"
proof -
  obtain ok i where "fw_update_read_flash_info_internal F (fu_flash w) (g_ruuvi_flash_info w) = Some (ok, i)" "fi_is_valid i"
    and w': "g_ruuvi_flash_info w' = i"
    using assms(1) by (auto simp: fw_update_read_flash_info_def split: bind_splits)
  with read_flash_info_valid [of F "fu_flash w" "g_ruuvi_flash_info w" ok i]
  have i: "fw_update_read_flash_info_internal F (fu_flash w) (g_ruuvi_flash_info w) = Some (True, i)" by simp
  have "fi_is_ota0_active i" using assms(2) w' by simp
  then have "fi_next_fatfs_nrf52_partition i = fl_find_fat F GW_NRF_PARTITION"
    using i assms(3) by (auto simp: fw_update_read_flash_info_internal_def fw_update_find_nrf52_partition_def
      find_data_fat_partition_by_name_def Let_def split: if_splits option.splits)
  with w' assms(2,3) show "fi_next_fatfs_nrf52_partition (g_ruuvi_flash_info w') = fl_find_fat F (fw_update_get_current_fatfs_nrf52_partition_name w')"
    "fl_find_fat F (fw_update_get_current_fatfs_nrf52_partition_name
      (w'\<lparr>g_ruuvi_flash_info := (g_ruuvi_flash_info w')\<lparr>fi_is_ota0_active := False\<rparr>\<rparr>)) = None"
    by (simp_all add: fw_update_get_current_fatfs_nrf52_partition_name_def)
qed

section \<open>A flash memory\<close>

text \<open>A NOR flash memory: erasing sets all bits of a sector, writing clears bits.\<close>

record nor =
  nor_mem :: "nat \<Rightarrow> u8"
  nor_boot :: "esp_partition option"

definition nor_flash :: "nor flash" where
  "nor_flash = \<lparr>
     fl_erase_sector = (\<lambda>a f. (True, f\<lparr>nor_mem := (\<lambda>x. if a \<le> x \<and> x < a + SPI_FLASH_SEC_SIZE then 0xFF else nor_mem f x)\<rparr>)),
     fl_write = (\<lambda>p off bs f. let a = part_address p + off in
       if off + length bs \<le> part_size p
       then (True, f\<lparr>nor_mem := (\<lambda>x. if a \<le> x \<and> x < a + length bs then and (nor_mem f x) (bs ! (x - a)) else nor_mem f x)\<rparr>)
       else (False, f)),
     fl_image_verify = (\<lambda>p f. nor_mem f (part_address p) = ESP_IMAGE_HEADER_MAGIC),
     fl_encryption_enabled = False, fl_read = nor_mem, fl_blank = (\<lambda>f x. nor_mem f x = 0xFF),
     fl_boot_partition = nor_boot, fl_set_boot_partition = (\<lambda>p f. (True, f\<lparr>nor_boot := Some p\<rparr>)),
     fl_running_partition = Some part_ota_0, fl_state_partition = (\<lambda>_ _. Some ESP_OTA_IMG_VALID),
     fl_next_update_partition = (\<lambda>p. if p = part_ota_0 then Some part_ota_1 else Some part_ota_0),
     fl_find_fat = (\<lambda>n. find (\<lambda>p. part_type p = ESP_PARTITION_TYPE_DATA \<and> part_subtype p = 0x81 \<and> part_label p = n) ruuvi_partition_table),
     fl_partition_verify = Some, fl_mark_app_valid = (\<lambda>f. (True, f))\<rparr>"

lemma nor_laws: "flash_laws nor_flash otadata"
proof -
  have ones: "and (0xFF :: u8) b = b" for b
  proof -
    have "(0xFF :: u8) = - 1" by simp
    then show ?thesis by (simp only: and.left_neutral)
  qed
  have "erase_law nor_flash otadata" by (auto simp: erase_law_def nor_flash_def flash_same_def)
  moreover have "write_law nor_flash otadata"
    by (auto simp: write_law_def nor_flash_def flash_same_def region_def ones Let_def)
  moreover have "boot_law nor_flash otadata" by (simp add: boot_law_def nor_flash_def flash_same_def)
  ultimately show ?thesis by (simp add: flash_laws_def) (simp add: nor_flash_def)
qed

lemma nor_healthy: "flash_healthy nor_flash"
  by (simp add: flash_healthy_def nor_flash_def Let_def)

lemma nor_table: "reads_partition_table nor_flash"
  by (simp add: reads_partition_table_def nor_flash_def)

text \<open>A server whose web page is missing.\<close>

definition sim_server :: "string \<Rightarrow> dl_env" where
  "sim_server url =
     (if url = ''https://r.fi/x/fatfs_gwui.bin''
      then sim_download\<lparr>de_first := ([], Perform_again), de_poll := (\<lambda>_. ([], Perform_ok)), de_status_code := 204\<rparr>
      else sim_download\<lparr>de_first := ([HTTP_EVENT_ON_DATA [0xE9, 1] 200 (\<lambda>_. True)], Perform_ok)\<rparr>)"

definition sim_upd_env :: "(nor, u32 \<Rightarrow> u32) upd_env" where
  "sim_upd_env = \<lparr>ue_main = sim_main_env, ue_flash = nor_flash, ue_alloc_url = (\<lambda>_. True), ue_alloc_entry = True, ue_alloc_metadata = True,
     ue_download = sim_server, ue_libswd = sim_nrf52, ue_files = (\<lambda>_ _. sim_fw_env), ue_ap_sta_ip_assigned = False, ue_thread_created = True\<rparr>"

definition sim_upd_world :: "(nor, u32 \<Rightarrow> u32) upd_world" where
  "sim_upd_world = \<lparr>fu_flash = \<lparr>nor_mem = (\<lambda>_. 0), nor_boot = Some part_ota_0\<rparr>,
     g_ruuvi_flash_info = \<lparr>fi_is_valid = True, fi_is_ota0_active = True, fi_boot_partition = Some part_ota_0,
       fi_running_partition = Some part_ota_0, fi_running_partition_state = ESP_OTA_IMG_VALID,
       fi_next_update_partition = Some part_ota_1, fi_next_fatfs_gwui_partition = Some (fat_part ''fatfs_gwui_2'' 0xA00000 0xC0000),
       fi_next_fatfs_nrf52_partition = Some (fat_part ''fatfs_nrf52_2'' 0xAC0000 0x40000)\<rparr>,
     g_fw_update_cfg = ''https://r.fi/x'' @ [NUL], g_update_progress_stage = FW_UPDATE_STAGE_NONE, g_fw_updating_reason = FW_UPDATE_REASON_AUTO,
     s_ota_ops_entries = [], s_ota_ops_last_handle = 0, fu_offset = 0, fu_is_error = False, fu_extra_info = [], fu_nrf52 = sim_fw_world\<rparr>"

definition sim_upd_state :: "(nor, u32 \<Rightarrow> u32) upd_state" where
  "sim_upd_state = (let st = sim_download_state sim_upd_world in
     st\<lparr>ds_world := set_status ((ml_status (ds_world st))\<lparr>cnt_relaying_via_http_suspended := 1\<rparr>) (ds_world st)\<rparr>)"

lemma sim_upd_user: "ds_user sim_upd_state = sim_upd_world"
  by (simp add: sim_upd_state_def sim_download_state_def Let_def)

lemma sim_upd_http: "fst (dl_counts sim_upd_state) = 1" "upd_connected sim_upd_state"
  using sim_download_counts(2) [of sim_upd_world]
  by (simp_all add: dl_counts_def upd_connected_def sim_upd_state_def Let_def ml_status_def set_status_def gw_status_is_network_connected_def status_any_def)

lemma sim_upd_mqtt: "snd (dl_counts sim_upd_state) = 0"
  by (simp add: dl_counts_def sim_upd_state_def sim_download_state_def Let_def ml_status_def set_status_def sim_main_def mqtt_initial_def
    sim_mqtt_status_def gw_status_set_wifi_connected_def xEventGroupSetBits_def)

lemma sim_upd_env_ok: "upd_env_ok sim_upd_env otadata sim_upd_state"
proof -
  have "dl_ticks (sim_server url) HTTP_DOWNLOAD_FW_BINARIES_TIMEOUT_SECONDS" for url
    by (rule sim_download_ticks) (simp_all add: sim_server_def HTTP_DOWNLOAD_FW_BINARIES_TIMEOUT_SECONDS_def)
  then show ?thesis
    by (simp add: upd_env_ok_def nor_laws sim_wait_advances sim_upd_http(1)) (simp add: sim_upd_env_def nor_laws sim_wait_advances)
qed

lemma sim_new: "new_partitions (g_ruuvi_flash_info (ds_user sim_upd_state)) part_ota_1 (fat_part ''fatfs_gwui_2'' 0xA00000 0xC0000)
    (fat_part ''fatfs_nrf52_2'' 0xAC0000 0x40000)"
  by (simp add: sim_upd_user sim_upd_world_def new_partitions_def)

lemma sim_image:
  "image_dl sim_upd_env sim_upd_state ''ruuvi_gateway_esp.bin'' = sim_download\<lparr>de_first := ([HTTP_EVENT_ON_DATA [0xE9, 1] 200 (\<lambda>_. True)], Perform_ok)\<rparr>"
  "image_dl sim_upd_env sim_upd_state ''fatfs_nrf52.bin'' = sim_download\<lparr>de_first := ([HTTP_EVENT_ON_DATA [0xE9, 1] 200 (\<lambda>_. True)], Perform_ok)\<rparr>"
  "image_dl sim_upd_env sim_upd_state ''fatfs_gwui.bin'' =
     sim_download\<lparr>de_first := ([], Perform_again), de_poll := (\<lambda>_. ([], Perform_ok)), de_status_code := 204\<rparr>"
  by (simp_all add: image_dl_def sim_upd_env_def fw_update_url_def sim_upd_user sim_upd_world_def sim_server_def c_str_def NUL_def)

lemma sim_urls:
  "fw_update_url sim_upd_state n = ''https://r.fi/x/'' @ n" "http_download_is_url_valid (fw_update_url sim_upd_state n)"
  by (simp_all add: fw_update_url_def sim_upd_user sim_upd_world_def c_str_def NUL_def http_download_is_url_valid_def url_host_valid_def
    HTTP_MIN_DOMAIN_NAME_LEN_def)

lemma sim_deliveries:
  assumes "D = sim_download\<lparr>de_first := ([HTTP_EVENT_ON_DATA [0xE9, 1] 200 (\<lambda>_. True)], Perform_ok)\<rparr>"
  shows "dl_body D = [0xE9, 1]" "2 \<le> n \<Longrightarrow> dl_good D (fw_update_url sim_upd_state m) n"
  using assms by (simp_all add: dl_body_def dl_data_of_def dl_reported_def body_of_def dl_good_def dl_all_ok_def fw_update_request_def sim_urls(2)
    dl_completed_def dl_delivered_def dl_codes_ok_def codes_ok_def sim_download_def)

lemma sim_missing:
  assumes "D = sim_download\<lparr>de_first := ([], Perform_again), de_poll := (\<lambda>_. ([], Perform_ok)), de_status_code := 204\<rparr>"
  shows "dl_data_of D = []" "dl_good D (fw_update_url sim_upd_state m) n"
proof -
  have calls: "dl_calls D HTTP_DOWNLOAD_FW_BINARIES_TIMEOUT_SECONDS = [([], Perform_ok)]"
    by (simp add: dl_calls_def, subst dl_calls_from.simps) (simp add: assms sim_download_def HTTP_DOWNLOAD_FW_BINARIES_TIMEOUT_SECONDS_def)
  then show data: "dl_data_of D = []" by (simp add: dl_data_of_def dl_reported_def assms)
  show "dl_good D (fw_update_url sim_upd_state m) n"
    using data calls by (simp add: dl_good_def dl_body_def body_of_def dl_completed_def dl_delivered_def dl_codes_ok_def codes_ok_def)
      (simp add: assms dl_all_ok_def fw_update_request_def sim_urls(2) sim_download_def)
qed

lemma sim_update_good: "update_good sim_upd_env sim_upd_state part_ota_1 (fat_part ''fatfs_gwui_2'' 0xA00000 0xC0000)
    (fat_part ''fatfs_nrf52_2'' 0xAC0000 0x40000)"
proof -
  note esp = sim_deliveries [OF sim_image(1)] and nrf = sim_deliveries [OF sim_image(2)] and gwui = sim_missing [OF sim_image(3)]
  have flash: "ue_flash sim_upd_env = nor_flash" by (simp add: sim_upd_env_def)
  have "part_holds nor_flash part_ota_1 [0xE9, 1] f \<longrightarrow> fl_image_verify nor_flash part_ota_1 f" for f
    by (auto simp: part_holds_def nor_flash_def ESP_IMAGE_HEADER_MAGIC_def dest!: spec [of _ 0])
  moreover have "ota_ready sim_upd_env part_ota_1 (fu_flash (ds_user sim_upd_state))"
    unfolding ota_ready_def Let_def flash using nor_healthy
    by (simp add: sim_upd_env_def sector_aligned_def SPI_FLASH_SEC_SIZE_def is_ota_partition_def nor_flash_def table_defs)
  moreover have "sector_aligned (fat_part l a 0xC0000)" "sector_aligned (fat_part l a 0x40000)" for l a
    by (simp_all add: sector_aligned_def SPI_FLASH_SEC_SIZE_def fat_part_def table_row_def)
  moreover have "part_size part_ota_1 = 0x400000" "part_size (fat_part l a n) = n" for l a n by (simp_all add: fat_part_def table_defs)
  ultimately show ?thesis
    using esp(2) nrf(2) gwui(2) by (simp add: update_good_def flash esp(1) sim_upd_http image_begins_def ESP_IMAGE_HEADER_MAGIC_def Let_def)
      (simp add: sim_upd_env_def)
qed

theorem fw_update_switches_stored_images_witness:
  "\<exists>ok st1. fw_update_images sim_upd_env sim_upd_state = Some (ok, st1) \<and> fst (dl_counts st1) = 1"
  using fw_update_switches_stored_images [OF sim_upd_env_ok sim_new table_apart(1)] sim_upd_http(1) by auto

theorem fw_update_keeps_running_firmware_witness:
  "\<exists>ok st1. fw_update_images sim_upd_env sim_upd_state = Some (ok, st1) \<and> nor_mem (fu_flash (ds_user st1)) 0x100000 = 0"
proof -
  have flash: "ue_flash sim_upd_env = nor_flash" by (simp add: sim_upd_env_def)
  have read: "fw_update_read_flash_info nor_flash sim_upd_world = Some (True, sim_upd_world)"
  proof -
    have "fl_running_partition nor_flash = Some part_ota_0" "fl_next_update_partition nor_flash part_ota_0 = Some part_ota_1"
      "fl_state_partition nor_flash p f = Some ESP_OTA_IMG_VALID" "fl_boot_partition nor_flash f = nor_boot f" for p f
      by (simp_all add: nor_flash_def)
    moreover have "part_label part_ota_0 = ''ota_0''" by (simp add: part_ota_0_def table_row_def)
    ultimately show ?thesis
      by (simp add: fw_update_read_flash_info_def fw_update_read_flash_info_internal_def fw_update_find_nrf52_partition_def Let_def
        find_fat [OF nor_table] sim_upd_world_def)
  qed
  have "reads_partition_table (ue_flash sim_upd_env)" "fw_update_read_flash_info (ue_flash sim_upd_env) sim_upd_world = Some (True, ds_user sim_upd_state)"
    using nor_table read by (simp_all add: flash sim_upd_user)
  from fw_update_keeps_running_firmware [OF sim_upd_env_ok this] obtain ok st1 where
    r: "fw_update_images sim_upd_env sim_upd_state = Some (ok, st1)"
    "\<forall>p\<in>set ruuvi_partition_table. part_label p \<in> labels_in_use nor_flash (ds_user sim_upd_state) \<longrightarrow>
      (\<forall>x\<in>region p. fl_read nor_flash (fu_flash (ds_user st1)) x = fl_read nor_flash (fu_flash (ds_user sim_upd_state)) x)"
    unfolding flash by blast
  have "part_ota_0 \<in> set ruuvi_partition_table" "part_label part_ota_0 \<in> labels_in_use nor_flash (ds_user sim_upd_state)" "0x100000 \<in> region part_ota_0"
    by (simp_all add: ruuvi_partition_table_def labels_in_use_def nor_flash_def region_def) (simp add: part_ota_0_def table_row_def)
  with r(2) have "fl_read nor_flash (fu_flash (ds_user st1)) 0x100000 = fl_read nor_flash (fu_flash (ds_user sim_upd_state)) 0x100000" by blast
  then have "nor_mem (fu_flash (ds_user st1)) 0x100000 = 0" by (simp add: nor_flash_def sim_upd_user sim_upd_world_def)
  with r(1) show ?thesis by blast
qed

theorem fw_update_succeeds_witness:
  "\<exists>st1. fw_update_images sim_upd_env sim_upd_state = Some (True, st1) \<and> nor_boot (fu_flash (ds_user st1)) = Some part_ota_1"
proof -
  obtain st1 where "fw_update_images sim_upd_env sim_upd_state = Some (True, st1)"
    "fl_boot_partition (ue_flash sim_upd_env) (fu_flash (ds_user st1)) = Some part_ota_1"
    using fw_update_succeeds [OF sim_upd_env_ok sim_new table_apart(1) sim_update_good] by blast
  then show ?thesis by (simp add: sim_upd_env_def nor_flash_def)
qed

theorem fw_update_accepts_empty_image_witness:
  "\<exists>st1. fw_update_images sim_upd_env sim_upd_state = Some (True, st1) \<and> nor_boot (fu_flash (ds_user st1)) = Some part_ota_1 \<and>
    nor_mem (fu_flash (ds_user st1)) 0xA00000 = 0xFF"
proof -
  obtain st1 where r: "fw_update_images sim_upd_env sim_upd_state = Some (True, st1)"
    "fl_boot_partition (ue_flash sim_upd_env) (fu_flash (ds_user st1)) = Some part_ota_1"
    "\<forall>x\<in>region (fat_part ''fatfs_gwui_2'' 0xA00000 0xC0000). fl_blank (ue_flash sim_upd_env) (fu_flash (ds_user st1)) x"
    using fw_update_accepts_empty_image [OF sim_upd_env_ok sim_new table_apart(1) sim_update_good sim_missing(1) [OF sim_image(3)]] by blast
  moreover have "0xA00000 \<in> region (fat_part ''fatfs_gwui_2'' 0xA00000 0xC0000)" by (simp add: region_def fat_part_def table_row_def)
  ultimately have "fl_blank (ue_flash sim_upd_env) (fu_flash (ds_user st1)) 0xA00000" by blast
  with r(1,2) show ?thesis by (simp add: sim_upd_env_def nor_flash_def)
qed

section \<open>The thread\<close>

definition upd_calls :: "('f, 'd) upd_state \<Rightarrow> main_call list" where
  "upd_calls st = ml_calls (ds_world st)"

definition ap_calls :: "('f, 'd) upd_env \<Rightarrow> fw_updating_reason \<Rightarrow> main_call list" where
  "ap_calls E reason = (if en_ap_active (ue_main E) then []
     else [Wifi_start_ap (reason \<noteq> FW_UPDATE_REASON_MANUAL_VIA_LAN), Main_send_sig MAIN_TASK_SIG_ACTIVATE_CFG_MODE,
       Main_delay (en_ms_to_ticks (ue_main E) 1000)])"

lemma prepare_result:
  assumes "ticks_advance (en_wait (ue_main E))" and "unat (fst (dl_counts st)) < 2 ^ 31 - 1" and "unat (snd (dl_counts st)) < 2 ^ 31 - 1"
  shows "\<exists>st1. fw_update_prepare E st = Some st1 \<and> ds_user st1 = ds_user st \<and>
    dl_counts st1 = (fst (dl_counts st) + 1, snd (dl_counts st) + 1) \<and>
    upd_calls st1 = upd_calls st @ [Main_leds_nrf52_fw_updating, Main_timer_stop Timer_check_for_remote_cfg] @
      ap_calls E (g_fw_updating_reason (ds_user st)) @ [Main_timer_stop Timer_deactivate_cfg_mode]"
proof -
  let ?s = "ml_status (ds_world st)"
  obtain s' where s': "gw_status_suspend_relaying (en_wait (ue_main E)) True ?s = Some s'"
      "cnt_relaying_via_http_suspended s' = cnt_relaying_via_http_suspended ?s + 1"
      "cnt_relaying_via_mqtt_suspended s' = cnt_relaying_via_mqtt_suspended ?s + 1"
    using notify_and_wait_counts [OF assms(1), of "cnt_relaying_via_http_suspended ?s = 0" "cnt_relaying_via_mqtt_suspended ?s = 0" True
      "?s\<lparr>cnt_relaying_via_http_suspended := cnt_relaying_via_http_suspended ?s + 1,
          cnt_relaying_via_mqtt_suspended := cnt_relaying_via_mqtt_suspended ?s + 1\<rparr>"] assms(2,3)
    by (auto simp: gw_status_suspend_relaying_def Let_def dl_counts_def suspend_count_ok)
  have call: "ml_status (ml_call c w) = ml_status w" "ml_calls (ml_call c w) = ml_calls w @ [c]" for c w
    by (simp_all add: ml_call_def ml_status_def)
  have set: "ml_status (set_status s w) = s" "ml_calls (set_status s w) = ml_calls w" for s w
    by (simp_all add: set_status_def ml_status_def)
  define w1 where "w1 = timer_cfg_mode_deactivation_stop (fw_update_start_ap E (g_fw_updating_reason (ds_user st))
    (set_status s' (main_task_stop_timer_check_for_remote_cfg (ml_call Main_leds_nrf52_fw_updating (ds_world st)))))"
  have "fw_update_prepare E st = Some (st\<lparr>ds_world := w1\<rparr>)"
    using s'(1) by (simp add: fw_update_prepare_def on_main_def main_task_stop_timer_check_for_remote_cfg_def call w1_def Let_def)
  moreover have "ml_status w1 = s'"
    by (simp add: w1_def timer_cfg_mode_deactivation_stop_def fw_update_start_ap_def start_wifi_ap_def start_wifi_ap_internal_def
      start_wifi_ap_without_blocking_req_from_lan_def main_task_send_sig_activate_cfg_mode_def call set)
  moreover have "ml_calls w1 = upd_calls st @ [Main_leds_nrf52_fw_updating, Main_timer_stop Timer_check_for_remote_cfg] @
      ap_calls E (g_fw_updating_reason (ds_user st)) @ [Main_timer_stop Timer_deactivate_cfg_mode]"
    by (simp add: w1_def timer_cfg_mode_deactivation_stop_def fw_update_start_ap_def start_wifi_ap_def start_wifi_ap_internal_def
      start_wifi_ap_without_blocking_req_from_lan_def main_task_send_sig_activate_cfg_mode_def call set upd_calls_def
      main_task_stop_timer_check_for_remote_cfg_def ap_calls_def)
  ultimately show ?thesis using s'(2,3) by (simp add: dl_counts_def upd_calls_def)
qed

lemma sleep_calls: "ml_calls (sleep_with_task_watchdog_feeding E n w) =
    ml_calls w @ concat (replicate n [Main_wdt_reset, Main_delay (en_ms_to_ticks E 1000)])"
proof (induction n)
  case (Suc n)
  then show ?case
    by (simp add: sleep_with_task_watchdog_feeding_def ml_call_def replicate_append_same [symmetric] del: replicate_append_same replicate.simps)
      (simp add: replicate_append_same [symmetric])
qed (simp add: sleep_with_task_watchdog_feeding_def)

text \<open>What the thread does after the update: a note for the next start, five seconds, and the request to restart.\<close>

definition restart_calls :: "('f, 'd) upd_env \<Rightarrow> fw_updating_reason \<Rightarrow> bool \<Rightarrow> main_call list" where
  "restart_calls E reason ok =
     (if ok
      then (if reason = FW_UPDATE_REASON_AUTO then [Main_write_rebooting_after_auto_update True]
            else if reason = FW_UPDATE_REASON_MANUAL_VIA_HOTSPOT \<and> ue_ap_sta_ip_assigned E
            then [Main_write_force_start_wifi_hotspot FORCE_START_WIFI_HOTSPOT_ONCE] else []) @
        concat (replicate 5 [Main_wdt_reset, Main_delay (en_ms_to_ticks (ue_main E) 1000)])
      else []) @
     [Reset_info_set_sw (fw_update_get_reboot_reason_msg reason ok), Wifi_stop,
      Main_delay (en_ms_to_ticks (ue_main E) RESET_TASK_DELAY_BEFORE_REBOOT_MS), Main_notify EVENT_MGR_EV_REBOOT]"

lemma finish_result:
  "upd_calls (fw_update_finish E ok st) = upd_calls st @ restart_calls E (g_fw_updating_reason (ds_user st)) ok"
  "dl_counts (fw_update_finish E ok st) = dl_counts st"
  "g_fw_updating_reason (ds_user (fw_update_finish E ok st)) = (if ok then g_fw_updating_reason (ds_user st) else FW_UPDATE_REASON_NONE)"
  "fu_flash (ds_user (fw_update_finish E ok st)) = fu_flash (ds_user st)"
proof -
  have call: "ml_status (ml_call c w) = ml_status w" "ml_calls (ml_call c w) = ml_calls w @ [c]" for c w
    by (simp_all add: ml_call_def ml_status_def)
  have sleep: "ml_status (sleep_with_task_watchdog_feeding M n w) = ml_status w" for M n w
    by (induction n) (simp_all add: sleep_with_task_watchdog_feeding_def call)
  show "upd_calls (fw_update_finish E ok st) = upd_calls st @ restart_calls E (g_fw_updating_reason (ds_user st)) ok"
    by (cases "g_fw_updating_reason (ds_user st)") (simp_all add: fw_update_finish_def upd_calls_def on_main_def on_upd_def gateway_restart_announce_def
      restart_calls_def fw_update_before_reboot_def sleep_calls FW_UPDATE_DELAY_BEFORE_REBOOT_SECONDS_def call Let_def)
  show "dl_counts (fw_update_finish E ok st) = dl_counts st"
    by (cases "g_fw_updating_reason (ds_user st)") (simp_all add: fw_update_finish_def dl_counts_def on_main_def on_upd_def gateway_restart_announce_def
      fw_update_before_reboot_def sleep call Let_def)
  show "g_fw_updating_reason (ds_user (fw_update_finish E ok st)) = (if ok then g_fw_updating_reason (ds_user st) else FW_UPDATE_REASON_NONE)"
    "fu_flash (ds_user (fw_update_finish E ok st)) = fu_flash (ds_user st)"
    by (simp_all add: fw_update_finish_def on_main_def on_upd_def Let_def)
qed

text \<open>C39: The thread of the update ends with a restart that tells its result, unless the update of the nRF52 never returns. It suspends
  relaying by HTTP and MQTT (and never resumes it), opens the hotspot if it is not open, and stops the end of the configuration mode. If the
  images could not be stored, it restarts at once. Otherwise the nRF52 is updated: exactly when this does not return (an endless wait, or the
  division by zero in its progress) the thread does not end; if it returns, with whatever result, the thread restarts the gateway. The flag
  for an automatic update and the one for the hotspot are stored only after a complete update of that kind; the reason of the update is
  cleared after a failure.\<close>

theorem fw_update_task_restarts:
  assumes "flash_laws (ue_flash E) otadata" and "ticks_advance (en_wait (ue_main E))"
    and "\<forall>url. dl_ticks (ue_download E url) HTTP_DOWNLOAD_FW_BINARIES_TIMEOUT_SECONDS"
    and "unat (fst (dl_counts st)) < 2 ^ 31 - 2" and "unat (snd (dl_counts st)) < 2 ^ 31 - 1"
    and "new_partitions (g_ruuvi_flash_info (ds_user st)) a b c" and "new_partitions_apart otadata a b c"
  shows "\<exists>st1 ok st2. dl_counts st1 = (fst (dl_counts st) + 1, snd (dl_counts st) + 1) \<and>
    upd_calls st1 = upd_calls st @ [Main_leds_nrf52_fw_updating, Main_timer_stop Timer_check_for_remote_cfg] @
      ap_calls E (g_fw_updating_reason (ds_user st)) @ [Main_timer_stop Timer_deactivate_cfg_mode] \<and>
    fw_update_images E st1 = Some (ok, st2) \<and> dl_counts st2 = dl_counts st1 \<and>
    (ok \<longrightarrow> images_as_delivered E st1 a b c (fu_flash (ds_user st2))) \<and>
    (fw_update_task E st = None \<longleftrightarrow> ok \<and> fw_update_nrf52 E st2 = None) \<and>
    (\<forall>r st3. (if ok then fw_update_nrf52 E st2 = Some (r, st3) else \<not> r \<and> st3 = st2) \<longrightarrow>
      (\<exists>st'. fw_update_task E st = Some st' \<and> dl_counts st' = dl_counts st3 \<and> fu_flash (ds_user st') = fu_flash (ds_user st2) \<and>
        upd_calls st' = upd_calls st3 @ restart_calls E (g_fw_updating_reason (ds_user st)) r \<and>
        g_fw_updating_reason (ds_user st') = (if r then g_fw_updating_reason (ds_user st) else FW_UPDATE_REASON_NONE)))"
proof -
  obtain st1 where st1: "fw_update_prepare E st = Some st1" "ds_user st1 = ds_user st"
    "dl_counts st1 = (fst (dl_counts st) + 1, snd (dl_counts st) + 1)"
    "upd_calls st1 = upd_calls st @ [Main_leds_nrf52_fw_updating, Main_timer_stop Timer_check_for_remote_cfg] @
      ap_calls E (g_fw_updating_reason (ds_user st)) @ [Main_timer_stop Timer_deactivate_cfg_mode]"
    using prepare_result [OF assms(2) _ assms(5)] assms(4) by auto
  have "upd_env_ok E otadata st1" using assms(1-4) st1(3) unat_plus_one [OF count_minus_1, of "fst (dl_counts st)"]
    by (simp add: upd_env_ok_def)
  moreover have "new_partitions (g_ruuvi_flash_info (ds_user st1)) a b c" using assms(6) st1(2) by simp
  ultimately obtain ok st2 where st2: "fw_update_images E st1 = Some (ok, st2)" "images_outcome E otadata a b c st1 ok st2"
    using images_result [OF _ _ assms(7)] by blast
  have out: "dl_counts st2 = dl_counts st1" "ok \<longrightarrow> images_as_delivered E st1 a b c (fu_flash (ds_user st2))"
    "g_fw_updating_reason (ds_user st2) = g_fw_updating_reason (ds_user st)"
    using st2(2) st1(2) by (simp_all add: images_outcome_def dl_back_def Let_def)
  have restart: "\<exists>st'. fw_update_task E st = Some st' \<and> dl_counts st' = dl_counts st3 \<and> fu_flash (ds_user st') = fu_flash (ds_user st2) \<and>
        upd_calls st' = upd_calls st3 @ restart_calls E (g_fw_updating_reason (ds_user st)) r \<and>
        g_fw_updating_reason (ds_user st') = (if r then g_fw_updating_reason (ds_user st) else FW_UPDATE_REASON_NONE)"
    if step: "if ok then fw_update_nrf52 E st2 = Some (r, st3) else \<not> r \<and> st3 = st2" for r st3
  proof -
    have "fw_update_do_actions E st1 = Some (r, st3)" using st2(1) step by (cases ok) (simp_all add: fw_update_do_actions_def)
    then have "fw_update_task E st = Some (fw_update_finish E r st3)" using st1(1) by (simp add: fw_update_task_def)
    moreover have "fu_flash (ds_user st3) = fu_flash (ds_user st2)" "g_fw_updating_reason (ds_user st3) = g_fw_updating_reason (ds_user st)"
      using nrf52_keeps [of E st2 r st3] step out(3) by (cases ok; simp)+
    ultimately show ?thesis by (simp add: finish_result)
  qed
  have never: "fw_update_task E st = None \<longleftrightarrow> ok \<and> fw_update_nrf52 E st2 = None"
    using st1(1) st2(1) by (cases "fw_update_nrf52 E st2") (auto simp: fw_update_task_def fw_update_do_actions_def)
  have "\<forall>r st3. (if ok then fw_update_nrf52 E st2 = Some (r, st3) else \<not> r \<and> st3 = st2) \<longrightarrow>
      (\<exists>st'. fw_update_task E st = Some st' \<and> dl_counts st' = dl_counts st3 \<and> fu_flash (ds_user st') = fu_flash (ds_user st2) \<and>
        upd_calls st' = upd_calls st3 @ restart_calls E (g_fw_updating_reason (ds_user st)) r \<and>
        g_fw_updating_reason (ds_user st') = (if r then g_fw_updating_reason (ds_user st) else FW_UPDATE_REASON_NONE))"
    using restart by blast
  from st1(3,4) st2(1) out(1,2) never this show ?thesis
    by (intro exI [of _ st1] exI [of _ ok] exI [of _ st2] conjI)
qed

theorem fw_update_task_restarts_witness:
  "\<exists>st'. fw_update_task (sim_upd_env\<lparr>ue_alloc_url := (\<lambda>_. False)\<rparr>) sim_upd_state = Some st' \<and>
    last (upd_calls st') = Main_notify EVENT_MGR_EV_REBOOT \<and> fst (dl_counts st') = 2"
proof -
  let ?E = "sim_upd_env\<lparr>ue_alloc_url := (\<lambda>_. False)\<rparr>"
  have h: "flash_laws (ue_flash ?E) (region part_otadata)" "ticks_advance (en_wait (ue_main ?E))"
    "\<forall>url. dl_ticks (ue_download ?E url) HTTP_DOWNLOAD_FW_BINARIES_TIMEOUT_SECONDS"
    "unat (fst (dl_counts sim_upd_state)) < 2 ^ 31 - 2" "unat (snd (dl_counts sim_upd_state)) < 2 ^ 31 - 1"
    using sim_upd_env_ok [of "region part_otadata"] sim_upd_http(1) sim_upd_mqtt
    by (simp_all add: upd_env_ok_def)
  have no: "fw_update_images ?E st = Some (ok, st2) \<Longrightarrow> \<not> ok" for st ok st2
    by (auto simp: fw_update_images_def fw_update_ruuvi_gateway_esp_bin_def upd_fail_def)
  obtain st1 ok st2 where r: "dl_counts st1 = (fst (dl_counts sim_upd_state) + 1, snd (dl_counts sim_upd_state) + 1)"
    "fw_update_images ?E st1 = Some (ok, st2)" "dl_counts st2 = dl_counts st1"
    "\<forall>r st3. (if ok then fw_update_nrf52 ?E st2 = Some (r, st3) else \<not> r \<and> st3 = st2) \<longrightarrow>
      (\<exists>st'. fw_update_task ?E sim_upd_state = Some st' \<and> dl_counts st' = dl_counts st3 \<and> fu_flash (ds_user st') = fu_flash (ds_user st2) \<and>
        upd_calls st' = upd_calls st3 @ restart_calls ?E (g_fw_updating_reason (ds_user sim_upd_state)) r \<and>
        g_fw_updating_reason (ds_user st') = (if r then g_fw_updating_reason (ds_user sim_upd_state) else FW_UPDATE_REASON_NONE))"
    using fw_update_task_restarts [OF h sim_new table_apart(1)] by blast
  with no [OF r(2)] obtain st' where "fw_update_task ?E sim_upd_state = Some st'" "dl_counts st' = dl_counts st2"
    "upd_calls st' = upd_calls st2 @ restart_calls ?E (g_fw_updating_reason (ds_user sim_upd_state)) False" by auto
  with r(1,3) sim_upd_http(1) show ?thesis by (simp add: restart_calls_def)
qed

end
