(* ===== verification/Url_Encode.thy ===== *)
theory Url_Encode
  imports Gw_Cfg_Defs "HOL-Library.Monad_Syntax"
begin

text \<open>
  Percent-encoding of URLs, \<open>url_encode.c\<close>. The output goes to a \<open>str_buf\<close> (a library): without a buffer it only
  counts, and a text that does not fit with its terminator is an overflow. The conversion of numbers is the argument \<open>P\<close>.
\<close>

unbundle bit_operations_syntax

section \<open>Encoding\<close>

definition g_rfc3986_table :: "u8 list" where
  "g_rfc3986_table =
     [0x00, 0x00, 0x00, 0x00, 0x00, 0x60, 0xff, 0x03, 0xfe, 0xff, 0xff, 0x87, 0xfe, 0xff, 0xff, 0x47,
      0x00, 0x00, 0x00, 0x00, 0x00, 0x00, 0x00, 0x00, 0x00, 0x00, 0x00, 0x00, 0x00, 0x00, 0x00, 0x00]"

definition rfc3986_is_in_range :: "char \<Rightarrow> bool" where
  "rfc3986_is_in_range val =
     (let uch = of_char val :: u8; index = uch div 8; bit_ofs = uch mod 8
      in (ucast (g_rfc3986_table ! unat index) :: u32) AND push_bit (unat bit_ofs) 1 \<noteq> 0)"

definition hex_digit :: "nat \<Rightarrow> char" where
  "hex_digit n = (if n < 10 then char_of (48 + n) else char_of (55 + n))"

text \<open>One character, or \<open>%%%02X\<close>.\<close>

definition url_encode_char :: "char \<Rightarrow> string" where
  "url_encode_char c =
     (if rfc3986_is_in_range c then [c]
      else let uch = of_char c :: nat in [CHR ''%'', hex_digit (uch div 16), hex_digit (uch mod 16)])"

text \<open>A buffer of a size, or none.\<close>

definition str_buf_is_overflow :: "nat option \<Rightarrow> string \<Rightarrow> bool" where
  "str_buf_is_overflow cap txt = (case cap of None \<Rightarrow> False | Some n \<Rightarrow> n \<le> length txt)"

definition str_buf_text :: "nat option \<Rightarrow> string \<Rightarrow> string" where
  "str_buf_text cap txt = (case cap of None \<Rightarrow> [] | Some n \<Rightarrow> take (n - 1) txt)"

definition url_n_encode_to_str_buf :: "nat option \<Rightarrow> string \<Rightarrow> nat \<Rightarrow> bool \<times> string" where
  "url_n_encode_to_str_buf cap src len =
     (let txt = concat (map url_encode_char (take len (c_str src)))
      in (if str_buf_is_overflow cap txt then False else True, str_buf_text cap txt))"

definition url_encode_to_str_buf :: "nat option \<Rightarrow> string \<Rightarrow> bool \<times> string" where
  "url_encode_to_str_buf cap src = url_n_encode_to_str_buf cap src (length (c_str src))"

text \<open>The first pass counts, the buffer is allocated for the text and its terminator.\<close>

definition url_n_encode_with_alloc :: "bool \<Rightarrow> string \<Rightarrow> nat \<Rightarrow> string option" where
  "url_n_encode_with_alloc alloc src len =
     (let n = length (concat (map url_encode_char (take len (c_str src)))) + 1
      in if \<not> alloc then None else Some (snd (url_n_encode_to_str_buf (Some n) src len)))"

definition url_encode_with_alloc :: "bool \<Rightarrow> string \<Rightarrow> string option" where
  "url_encode_with_alloc alloc src = url_n_encode_with_alloc alloc src (length (c_str src))"

section \<open>Decoding\<close>

text \<open>\<open>pos\<close> is the distance of \<open>p_cur\<close> from the beginning; the list is the rest of the C string.\<close>

fun url_decode_loop :: "(string \<Rightarrow> nat \<Rightarrow> u32 \<times> string) \<Rightarrow> nat \<Rightarrow> nat \<Rightarrow> string \<Rightarrow> string option" where
  "url_decode_loop P pos len [] = Some []"
| "url_decode_loop P pos len (c # s) =
     (if \<not> pos < len then Some []
      else if c = CHR ''%'' then
        (case s of
           [] \<Rightarrow> None
         | [a] \<Rightarrow> None
         | a # b # s' \<Rightarrow>
             let (ch_val, p_end) = P [a, b] 16 in
             if p_end \<noteq> [] then None
             else map_option ((#) (char_of (unat ch_val mod 256))) (url_decode_loop P (pos + 3) len s'))
      else map_option ((#) c) (url_decode_loop P (pos + 1) len s))"

definition url_n_decode_to_str_buf :: "(string \<Rightarrow> nat \<Rightarrow> u32 \<times> string) \<Rightarrow> nat option \<Rightarrow> string \<Rightarrow> nat \<Rightarrow> (bool \<times> string) option" where
  "url_n_decode_to_str_buf P cap src len = do {
     txt \<leftarrow> url_decode_loop P 0 len (c_str src);
     Some (if str_buf_is_overflow cap txt then False else True, str_buf_text cap txt)
   }"

definition url_decode_to_str_buf :: "(string \<Rightarrow> nat \<Rightarrow> u32 \<times> string) \<Rightarrow> nat option \<Rightarrow> string \<Rightarrow> (bool \<times> string) option" where
  "url_decode_to_str_buf P cap src = url_n_decode_to_str_buf P cap src (length (c_str src))"

definition url_n_decode_with_alloc :: "(string \<Rightarrow> nat \<Rightarrow> u32 \<times> string) \<Rightarrow> bool \<Rightarrow> string \<Rightarrow> nat \<Rightarrow> string option" where
  "url_n_decode_with_alloc P alloc src len = do {
     txt \<leftarrow> url_decode_loop P 0 len (c_str src);
     if \<not> alloc then None else map_option snd (url_n_decode_to_str_buf P (Some (length txt + 1)) src len)
   }"

definition url_decode_with_alloc :: "(string \<Rightarrow> nat \<Rightarrow> u32 \<times> string) \<Rightarrow> bool \<Rightarrow> string \<Rightarrow> string option" where
  "url_decode_with_alloc P alloc src = url_n_decode_with_alloc P alloc src (length (c_str src))"

section \<open>The round trip\<close>

text \<open>What the conversion of numbers must do: read two digits in base 16.\<close>

definition reads_hex :: "(string \<Rightarrow> nat \<Rightarrow> u32 \<times> string) \<Rightarrow> bool" where
  "reads_hex P \<longleftrightarrow> (\<forall>h l. h < 16 \<longrightarrow> l < 16 \<longrightarrow> P [hex_digit h, hex_digit l] 16 = (word_of_nat (16 * h + l), []))"

text \<open>The unreserved characters of RFC 3986: letters, digits, minus, point, underscore and tilde.\<close>

definition rfc3986_unreserved :: "char \<Rightarrow> bool" where
  "rfc3986_unreserved c =
     (let n = of_char c :: nat
      in 48 \<le> n \<and> n \<le> 57 \<or> 65 \<le> n \<and> n \<le> 90 \<or> 97 \<le> n \<and> n \<le> 122 \<or> n \<in> {45, 46, 95, 126})"

lemma unreserved_table:
  "map rfc3986_is_in_range (map char_of [0..<256::nat]) =
   map (\<lambda>n. 48 \<le> n \<and> n \<le> 57 \<or> 65 \<le> n \<and> n \<le> 90 \<or> 97 \<le> n \<and> n \<le> 122 \<or> n \<in> {45, 46, 95, 126}) [0..<256::nat]"
  by code_simp

lemma rfc3986_is_in_range_iff: "rfc3986_is_in_range c = rfc3986_unreserved c"
proof -
  have "(of_char c :: nat) \<in> set [0..<256]" using nat_of_char_less_256 [of c] by simp
  with unreserved_table have "rfc3986_is_in_range (char_of (of_char c :: nat)) = rfc3986_unreserved c"
    unfolding map_map map_eq_conv o_apply rfc3986_unreserved_def Let_def by blast
  then show ?thesis by simp
qed

lemma hex_digit_table: "list_all (\<lambda>n. rfc3986_is_in_range (hex_digit n)) [0..<16]"
  by code_simp

lemma hex_digit_in_range: "n < 16 \<Longrightarrow> rfc3986_is_in_range (hex_digit n)"
  using hex_digit_table by (simp add: list_all_iff)

lemma not_in_range: "\<not> rfc3986_is_in_range NUL" "\<not> rfc3986_is_in_range (CHR ''%'')"
  by code_simp+

lemma url_encode_char_chars: "x \<in> set (url_encode_char c) \<Longrightarrow> rfc3986_is_in_range x \<or> x = CHR ''%''"
  using nat_of_char_less_256 [of c]
  by (auto simp: url_encode_char_def Let_def hex_digit_in_range less_mult_imp_div_less split: if_splits)

lemma encoded_chars: "x \<in> set (concat (map url_encode_char s)) \<Longrightarrow> rfc3986_is_in_range x \<or> x = CHR ''%''"
  using url_encode_char_chars by auto

lemma encoded_no_NUL: "NUL \<notin> set (concat (map url_encode_char s))"
  using encoded_chars [of NUL s] not_in_range by (auto simp: NUL_def)

lemma decode_char:
  assumes "reads_hex P" and "pos + length (url_encode_char c) \<le> len"
  shows "url_decode_loop P pos len (url_encode_char c @ s) =
    map_option ((#) c) (url_decode_loop P (pos + length (url_encode_char c)) len s)"
proof (cases "rfc3986_is_in_range c")
  case True
  then have "c \<noteq> CHR ''%''" using not_in_range by auto
  with True assms(2) show ?thesis by (simp add: url_encode_char_def)
next
  case False
  define n where "n = (of_char c :: nat)"
  have n: "n < 256" unfolding n_def by (rule nat_of_char_less_256)
  then have digits: "P [hex_digit (n div 16), hex_digit (n mod 16)] 16 = (word_of_nat n, [])"
    using assms(1) [unfolded reads_hex_def, rule_format, of "n div 16" "n mod 16"] by (simp add: less_mult_imp_div_less)
  have "unat (word_of_nat n :: u32) mod 256 = n" using n by (simp add: unat_of_nat take_bit_eq_mod)
  then have "char_of (unat (word_of_nat n :: u32) mod 256) = c" by (simp add: n_def)
  with False digits assms(2) show ?thesis by (simp add: url_encode_char_def n_def [symmetric] add.commute [of pos] numeral_3_eq_3)
qed

lemma decode_encoded:
  assumes "reads_hex P"
  shows "pos + length (concat (map url_encode_char s)) \<le> len \<Longrightarrow> url_decode_loop P pos len (concat (map url_encode_char s)) = Some s"
proof (induction s arbitrary: pos)
  case (Cons c s)
  with decode_char [OF assms] show ?case by simp
qed simp

lemma encoded_with_alloc:
  "url_encode_with_alloc True src = Some (concat (map url_encode_char (c_str src)))"
  by (simp add: url_encode_with_alloc_def url_n_encode_with_alloc_def url_n_encode_to_str_buf_def str_buf_text_def Let_def)

lemma decoded_with_alloc:
  assumes "url_decode_loop P 0 (length (c_str src)) (c_str src) = Some txt"
  shows "url_decode_with_alloc P True src = Some txt"
  using assms by (simp add: url_decode_with_alloc_def url_n_decode_with_alloc_def url_n_decode_to_str_buf_def str_buf_text_def)

text \<open>C40: Every text is encoded with unreserved characters and escapes only, and decoding the result, whatever follows its terminator,
  gives the text back.\<close>

theorem url_round_trip:
  assumes "reads_hex P"
  shows "\<exists>enc. url_encode_with_alloc True src = Some enc \<and> (\<forall>x \<in> set enc. rfc3986_unreserved x \<or> x = CHR ''%'') \<and>
    url_decode_with_alloc P True (enc @ NUL # rest) = Some (c_str src)"
proof (intro exI conjI)
  let ?enc = "concat (map url_encode_char (c_str src))"
  show "url_encode_with_alloc True src = Some ?enc" by (rule encoded_with_alloc)
  show "\<forall>x \<in> set ?enc. rfc3986_unreserved x \<or> x = CHR ''%''" using encoded_chars rfc3986_is_in_range_iff by blast
  have "c_str (?enc @ NUL # rest) = ?enc" using encoded_no_NUL by simp
  with decode_encoded [OF assms, of 0 "c_str src"] show "url_decode_with_alloc P True (?enc @ NUL # rest) = Some (c_str src)"
    by (intro decoded_with_alloc) simp
qed

text \<open>A conversion that reads the digits.\<close>

definition sim_hex_value :: "char \<Rightarrow> nat" where
  "sim_hex_value c = (let n = of_char c :: nat in if n < 58 then n - 48 else n - 55)"

definition sim_str_to_uint32 :: "string \<Rightarrow> nat \<Rightarrow> u32 \<times> string" where
  "sim_str_to_uint32 s base = (word_of_nat (foldl (\<lambda>n c. base * n + sim_hex_value c) 0 s), [])"

lemma sim_reads_hex: "reads_hex sim_str_to_uint32"
proof -
  have "map sim_hex_value (map hex_digit [0..<16]) = map (\<lambda>n. n) [0..<16]" by code_simp
  then have "h < 16 \<Longrightarrow> sim_hex_value (hex_digit h) = h" for h unfolding map_map map_eq_conv by simp
  then show ?thesis by (simp add: reads_hex_def sim_str_to_uint32_def)
qed

theorem url_round_trip_witness:
  "\<exists>enc. url_encode_with_alloc True ''a b%c'' = Some enc \<and> url_decode_with_alloc sim_str_to_uint32 True (enc @ NUL # ''x'') = Some ''a b%c''"
proof -
  have "c_str ''a b%c'' = ''a b%c''" by (simp add: c_str_def NUL_def)
  with url_round_trip [OF sim_reads_hex, of "''a b%c''" "''x''"] show ?thesis by auto
qed

text \<open>The texts of a request with spaces and other reserved characters.\<close>

lemma url_encode_example: "url_encode_with_alloc True ''a b%/~'' = Some ''a%20b%25%2F~''"
  by code_simp

end
