(* ===== verification/Nrf52_Info.thy ===== *)
theory Nrf52_Info
  imports Nrf52_Fw
begin

text \<open>
  What the parser of \<open>info.txt\<close> accepts, and the resources of the debug port on the error paths of
  \<open>nrf52fw.c\<close>.
\<close>

section \<open>Versions\<close>

text \<open>The number parser reads a decimal number that no further digit follows.\<close>

definition reads_decimal :: "str_to_uint32 \<Rightarrow> bool" where
  "reads_decimal conv \<longleftrightarrow>
     (\<forall>n t. n < 2 ^ 32 \<longrightarrow> (t = [] \<or> hd t = CHR ''.'') \<longrightarrow>
        conv 10 (print_nat n @ t) = (word_of_nat n, length (print_nat n)))"

definition is_digit :: "char \<Rightarrow> bool" where
  "is_digit c \<longleftrightarrow> digit_value c < 10"

lemma digit_char: "n < 10 \<Longrightarrow> digit_value (char_of (48 + n)) = n"
  by (simp add: digit_value_def Let_def)

lemma print_nat_digits: "c \<in> set (print_nat n) \<Longrightarrow> is_digit c"
proof (induction n rule: print_nat.induct)
  case (1 n)
  then show ?case
    by (subst (asm) print_nat.simps) (auto simp: is_digit_def digit_char split: if_splits)
qed

lemma dot_not_digit: "\<not> is_digit CHR ''.''"
  by (simp add: is_digit_def digit_value_def)

lemma print_nat_not_Nil: "print_nat n \<noteq> []"
  by (subst print_nat.simps) simp

lemma strchr_pos_skip: "c \<notin> set s \<Longrightarrow> strchr_pos c (s @ c # t) = Some (length s)"
  by (induction s) auto

lemma strchr_pos_print: "strchr_pos CHR ''.'' (print_nat n @ CHR ''.'' # t) = Some (length (print_nat n))"
  using strchr_pos_skip [of "CHR ''.''" "print_nat n" t] print_nat_digits [of "CHR ''.''" n] dot_not_digit by blast

lemma parse_digit_print:
  assumes "reads_decimal conv" and "n < 256" and "t = [] \<or> hd t = CHR ''.''"
    and "e = (if t = [] then None else Some (length (print_nat n)))"
  shows "nrf52fw_parse_digit_update_ver conv (print_nat n @ t) e v k = Some (v OR push_bit (8 * k) (word_of_nat n))"
proof -
  have conv: "conv 10 (print_nat n @ t) = (word_of_nat n, length (print_nat n))"
    using assms(1) [unfolded reads_decimal_def, rule_format, of n t] assms(2,3) by simp
  have n: "unat (word_of_nat n :: u32) = n" using assms(2) by (simp add: unat_of_nat)
  then have "\<not> (word_of_nat n :: u32) > 255" using assms(2) by (simp add: word_less_nat_alt)
  moreover have "(ucast (ucast (word_of_nat n :: u32) :: u8) :: u32) = word_of_nat n"
    by (rule word_unat_eq_iff [THEN iffD2]) (use n assms(2) in \<open>simp add: unsigned_ucast_eq unsigned_take_bit_eq take_bit_nat_eq_self\<close>)
  ultimately show ?thesis
    using conv assms(4) by (auto simp: nrf52fw_parse_digit_update_ver_def nrf52fw_parse_version_digit_def)
qed

lemma version_byte_mask: "version_byte v k = unat (take_bit 8 (drop_bit (8 * k) v))"
  by (simp add: version_byte_def take_bit_eq_mask mask_eq_exp_minus_1)

lemma version_byte_less: "version_byte v k < 256"
  using take_bit_nat_less_exp [of 8 "unat (drop_bit (8 * k) v)"]
  by (simp add: version_byte_mask unsigned_take_bit_eq)

lemma version_bytes_join:
  "((0 OR push_bit (8 * 3) (word_of_nat (version_byte v 3))) OR push_bit (8 * 2) (word_of_nat (version_byte v 2)))
     OR push_bit (8 * 1) (word_of_nat (version_byte v 1)) = v AND 0xFFFFFF00"
proof -
  have low: "(0xFFFFFF00 :: u32) = NOT (mask 8)" by (simp add: mask_eq_exp_minus_1)
  have shift: "k + (n - k) = n" if "k \<le> n" for k n :: nat using that by simp
  have range: "n < 8 \<or> 8 \<le> n \<and> n < 16 \<or> 16 \<le> n \<and> n < 24 \<or> 24 \<le> n \<and> n < 32" if "n < 32" for n :: nat
    using that by linarith
  show ?thesis
    unfolding version_byte_mask low
  proof (rule bit_word_eqI)
    fix n :: nat assume "n < LENGTH(32)"
    then have "n < 32" by simp
    with range [OF this] show "bit (((0 OR push_bit (8 * 3) (word_of_nat (unat (take_bit 8 (drop_bit (8 * 3) v))))) OR
        push_bit (8 * 2) (word_of_nat (unat (take_bit 8 (drop_bit (8 * 2) v))))) OR
        push_bit (8 * 1) (word_of_nat (unat (take_bit 8 (drop_bit (8 * 1) v)))) :: u32) n = bit (v AND NOT (mask 8)) n"
      by (elim disjE conjE) (simp_all add: bit_simps shift less_diff_conv2)
  qed
qed

text \<open>Printing and parsing a version. \<open>nrf52fw_parse_version_line\<close>, applied to the comment sign
  and the string that \<open>nrf52_fw_ver_get_str\<close> prints for a version word, accepts it and returns the
  word with its lowest byte cleared, when the number parser reads decimal numbers. So the three
  numbers of a version survive the round trip through \<open>info.txt\<close>, and the fourth byte of the
  version register does not.\<close>

theorem nrf52_version_round_trip:
  assumes "reads_decimal conv"
  shows "nrf52fw_parse_version_line conv (''# '' @ nrf52_fw_ver_get_str v) = Some (v AND 0xFFFFFF00)"
proof -
  define p where "p k = print_nat (version_byte v k)" for k
  note digit = parse_digit_print [OF assms version_byte_less, of _ _ v, folded p_def]
  have str: "nrf52_fw_ver_get_str v = ''v'' @ p 3 @ ''.'' @ p 2 @ ''.'' @ p 1"
    by (simp add: nrf52_fw_ver_get_str_def p_def)
  have ne: "p k \<noteq> []" for k by (simp add: p_def print_nat_not_Nil)
  have pos: "strchr_pos CHR ''.'' (p k @ CHR ''.'' # t) = Some (length (p k))" for k t
    by (simp add: p_def strchr_pos_print)
  have d3: "nrf52fw_parse_digit_update_ver conv (p 3 @ CHR ''.'' # t) (Some (length (p 3))) u k =
      Some (u OR push_bit (8 * k) (word_of_nat (version_byte v 3)))" for t u k
    by (rule digit) simp_all
  have d2: "nrf52fw_parse_digit_update_ver conv (p 2 @ CHR ''.'' # t) (Some (length (p 2))) u k =
      Some (u OR push_bit (8 * k) (word_of_nat (version_byte v 2)))" for t u k
    by (rule digit) simp_all
  have d1: "nrf52fw_parse_digit_update_ver conv (p 1) None u k =
      Some (u OR push_bit (8 * k) (word_of_nat (version_byte v 1)))" for u k
    using digit [of "[]" None 1 u k] by simp
  have "nrf52fw_parse_version conv (p 3 @ CHR ''.'' # p 2 @ CHR ''.'' # p 1) = Some (v AND 0xFFFFFF00)"
    using version_bytes_join [of v]
    by (simp add: nrf52fw_parse_version_def pos d3 d2 d1 [unfolded One_nat_def] ne Let_def)
  then show ?thesis by (simp add: nrf52fw_parse_version_line_def str)
qed

lemma foldl_print_nat: "foldl (\<lambda>n c. n * 10 + digit_value c) 0 (print_nat n) = n"
proof (induction n rule: print_nat.induct)
  case (1 n)
  then show ?case
    by (subst print_nat.simps) (simp add: digit_char)
qed

lemma digit_not_blank: "is_digit c \<Longrightarrow> \<not> is_blank c"
  by (auto simp: is_blank_def is_digit_def digit_value_def)

lemma sim_reads_decimal: "reads_decimal sim_str_to_uint32"
proof -
  have "sim_str_to_uint32 10 (print_nat n @ t) = (word_of_nat n, length (print_nat n))"
    if "t = [] \<or> hd t = CHR ''.''" for n t
  proof -
    obtain c cs where p: "print_nat n = c # cs" using print_nat_not_Nil [of n] by (cases "print_nat n") auto
    then have "\<not> is_blank c" using print_nat_digits [of c n] digit_not_blank by simp
    then have skip: "skip_blanks (print_nat n @ t) = print_nat n @ t" by (simp add: p)
    have all: "\<forall>c \<in> set (print_nat n). digit_value c < 10"
      using print_nat_digits by (auto simp: is_digit_def)
    have t: "takeWhile (\<lambda>c. digit_value c < 10) t = []"
      using that dot_not_digit by (cases t) (auto simp: is_digit_def)
    have "takeWhile (\<lambda>c. digit_value c < 10) (print_nat n @ t) = print_nat n"
      using all t by (simp add: takeWhile_append2)
    then show ?thesis by (simp add: sim_str_to_uint32_def skip foldl_print_nat)
  qed
  then show ?thesis by (simp add: reads_decimal_def)
qed

theorem nrf52_version_round_trip_witness:
  "nrf52fw_parse_version_line sim_str_to_uint32 (''# '' @ nrf52_fw_ver_get_str 0x01020305) = Some 0x01020300"
  using nrf52_version_round_trip [OF sim_reads_decimal, where v = "0x01020305"] by simp

section \<open>Lines and files\<close>

text \<open>The positions in a segment line: behind the address, behind the size.\<close>

definition after_address :: "str_to_uint32 \<Rightarrow> string \<Rightarrow> string" where
  "after_address conv s = drop (snd (conv 16 s)) s"

definition after_size :: "str_to_uint32 \<Rightarrow> string \<Rightarrow> string" where
  "after_size conv s = (let t = skip_blanks (after_address conv s) in drop (snd (conv 0 t)) t)"

definition starts_blank :: "string \<Rightarrow> bool" where
  "starts_blank s \<longleftrightarrow> s \<noteq> [] \<and> is_blank (hd s)"

text \<open>The number parser stays within its string.\<close>

definition stays_inside :: "str_to_uint32 \<Rightarrow> bool" where
  "stays_inside conv \<longleftrightarrow> (\<forall>b s. snd (conv b s) \<le> length s)"

lemma c_char_at_hd: "n \<le> length s \<Longrightarrow> c_char_at s n = Some (if drop n s = [] then NUL else hd (drop n s))"
  by (auto simp: c_char_at_def hd_drop_conv_nth)

text \<open>The one way in which the parser of \<open>info.txt\<close> leaves its buffer. When the number parser stays
  inside the string, \<open>nrf52fw_parse_segment_info_line\<close> reads past the end of a line exactly when
  the address and the size are each followed by a blank and no blank follows in the rest of the line:
  the loop over the file name looks for a blank only and not for the terminator. A line without a
  file name or without a checksum does this. Every other line is accepted or rejected.\<close>

theorem segment_line_reads_past_end:
  assumes "stays_inside conv"
  shows "nrf52fw_parse_segment_info_line conv s = Reads_past_end \<longleftrightarrow>
    starts_blank (after_address conv s) \<and> starts_blank (after_size conv s) \<and>
    find_blank (skip_blanks (after_size conv s)) = None"
proof -
  have in_string: "c_char_at t (snd (conv b t)) = Some (if drop (snd (conv b t)) t = [] then NUL else hd (drop (snd (conv b t)) t))" for b t
    using assms by (intro c_char_at_hd) (simp add: stays_inside_def)
  have blank: "is_blank (if t = [] then NUL else hd t) \<longleftrightarrow> starts_blank t" for t :: string
    by (auto simp: starts_blank_def is_blank_def NUL_def)
  show ?thesis
    by (auto simp: nrf52fw_parse_segment_info_line_def Let_def case_prod_beta in_string blank
      after_address_def after_size_def simp del: drop_eq_Nil split: option.split)
qed

theorem segment_line_reads_past_end_witness:
  "nrf52fw_parse_segment_info_line sim_str_to_uint32 ''1000 4 a.bin'' = Reads_past_end"
proof -
  have le: "length (skip_blanks s) \<le> length s" for s by (induction s) auto
  have "length s - length (skip_blanks s) + length (takeWhile P (skip_blanks s)) \<le> length s" for s P
    using le [of s] length_takeWhile_le [of P "skip_blanks s"] by linarith
  then have inside: "stays_inside sim_str_to_uint32"
    by (simp add: stays_inside_def sim_str_to_uint32_def Let_def)
  have "starts_blank (after_address sim_str_to_uint32 ''1000 4 a.bin'') \<and>
      starts_blank (after_size sim_str_to_uint32 ''1000 4 a.bin'') \<and>
      find_blank (skip_blanks (after_size sim_str_to_uint32 ''1000 4 a.bin'')) = None"
    by code_simp
  with segment_line_reads_past_end [OF inside] show ?thesis by simp
qed

text \<open>The lines as \<open>fgets\<close> delivers them: at most 79 characters each.\<close>

function info_lines :: "string \<Rightarrow> string list" where
  "info_lines t = (if t = [] then [] else let (l, r) = fgets_line 79 t in l # info_lines r)"
  by pat_completeness auto
termination
  by (relation "measure length") (auto dest: fgets_line_79)

declare info_lines.simps [simp del]

definition info_bounded :: "nrf52fw_info \<Rightarrow> bool" where
  "info_bounded info \<longleftrightarrow> length (info_segments info) \<le> 5 \<and>
     (\<forall>seg \<in> set (info_segments info). length (seg_file_name seg) < 20)"

lemma find_blank_length: "find_blank s = Some n \<Longrightarrow> n < length s"
  by (induction s arbitrary: n) (auto split: if_splits)

lemma parsed_segment_name:
  "nrf52fw_parse_segment_info_line conv s = Parsed seg \<Longrightarrow> length (seg_file_name seg) < 20"
  by (auto simp: nrf52fw_parse_segment_info_line_def Let_def split: prod.splits option.splits if_splits)

lemma parse_info_lines_spec:
  "parse_info_lines conv buf cnt info t = Parsed (err, info') \<Longrightarrow> info_bounded info \<Longrightarrow>
   length (info_segments info) = cnt - 1 \<Longrightarrow>
   info_bounded info' \<and> err \<le> cnt + length (info_lines t) \<and>
   length (info_segments info') = (if err = 0 then cnt + length (info_lines t) - 1 else err - 2) \<and>
   (err = 0 \<and> t \<noteq> [] \<and> cnt = 0 \<longrightarrow>
      (\<exists>l. nrf52fw_parse_version_line conv l = Some (info_fw_ver info'))) \<and>
   (cnt > 0 \<longrightarrow> info_fw_ver info' = info_fw_ver info)"
proof (induction conv buf cnt info t rule: parse_info_lines.induct)
  case (1 conv buf cnt info t)
  show ?case
  proof (cases "t = []")
    case True
    with "1.prems" show ?thesis
      by (subst (asm) parse_info_lines.simps) (auto simp: info_lines.simps [of "[]"])
  next
    case False
    obtain l r where lr: "fgets_line 79 t = (l, r)" by fastforce
    define buf' where "buf' = nrf52fw_line_rstrip (l @ NUL # drop (length l + 1) buf) 80"
    have lines: "length (info_lines t) = Suc (length (info_lines r))"
      using False lr by (subst info_lines.simps) simp
    show ?thesis
    proof (cases "cnt = 0")
      case True
      show ?thesis
      proof (cases "nrf52fw_parse_version_line conv (c_str buf')")
        case None
        with "1.prems" True False lr lines show ?thesis
          by (subst (asm) parse_info_lines.simps) (auto simp: Let_def buf'_def)
      next
        case (Some v)
        from 1(4) have "info_bounded (info\<lparr>info_fw_ver := v\<rparr>)" by (simp add: info_bounded_def)
        moreover have "parse_info_lines conv buf' 1 (info\<lparr>info_fw_ver := v\<rparr>) r = Parsed (err, info')"
          using 1(3) True False lr Some
          by (subst (asm) parse_info_lines.simps) (simp add: Let_def buf'_def)
        ultimately show ?thesis
          using 1(1) [OF False lr [symmetric] refl] 1(5) True Some lines by (auto simp: buf'_def)
      qed
    next
      case pos: False
      show ?thesis
      proof (cases "length (info_segments info) \<ge> 5")
        case True
        with "1.prems" pos False lr lines show ?thesis
          by (subst (asm) parse_info_lines.simps) (auto simp: Let_def)
      next
        case room: False
        show ?thesis
        proof (cases "nrf52fw_parse_segment_info_line conv (c_str buf')")
          case (Parsed seg)
          from 1(4) room parsed_segment_name [OF Parsed]
          have "info_bounded (info\<lparr>info_segments := info_segments info @ [seg]\<rparr>)"
            by (auto simp: info_bounded_def)
          moreover have "parse_info_lines conv buf' (cnt + 1)
              (info\<lparr>info_segments := info_segments info @ [seg]\<rparr>) r = Parsed (err, info')"
            using 1(3) pos room False lr Parsed
            by (subst (asm) parse_info_lines.simps) (simp add: Let_def buf'_def)
          ultimately show ?thesis
            using 1(2) [OF False lr [symmetric] refl refl refl refl _ room] 1(5) pos Parsed lines
            by (auto simp: buf'_def)
        next
          case Parse_error
          with "1.prems" pos room False lr lines show ?thesis
            by (subst (asm) parse_info_lines.simps) (auto simp: Let_def buf'_def)
        next
          case Reads_past_end
          with 1(3) pos room False lr show ?thesis
            by (subst (asm) parse_info_lines.simps) (simp add: Let_def buf'_def)
        qed
      qed
    qed
  qed
qed

text \<open>What a successful or failed parse of \<open>info.txt\<close> leaves. At most five segments are stored and every
  file name fits into its 20 bytes, so no array is overrun. With the result 0 every line behind the
  first is a segment and the first one is a version line with the version stored. With an error
  line number, it is the number of one of the lines, and the segments are those of the lines before
  it. An empty file is accepted, as version 0 without segments.\<close>

theorem info_file_result:
  assumes "nrf52fw_parse_info_file conv buf t = Parsed (err, info)"
  shows "length (info_segments info) \<le> 5 \<and> (\<forall>seg \<in> set (info_segments info). length (seg_file_name seg) < 20) \<and>
    err \<le> length (info_lines t) \<and>
    length (info_segments info) = (if err = 0 then length (info_lines t) - 1 else err - 2) \<and>
    (if t = [] then err = 0 \<and> info_fw_ver info = 0 \<and> info_segments info = []
     else err = 0 \<longrightarrow> (\<exists>l. nrf52fw_parse_version_line conv l = Some (info_fw_ver info)))"
proof (cases "t = []")
  case True
  with assms show ?thesis
    by (auto simp: nrf52fw_parse_info_file_def parse_info_lines.simps [of conv buf 0 _ "[]"] info_lines.simps [of "[]"])
next
  case False
  with parse_info_lines_spec [OF assms [unfolded nrf52fw_parse_info_file_def]] show ?thesis
    by (auto simp: info_bounded_def)
qed

theorem info_file_result_witness:
  "\<exists>info. nrf52fw_parse_info_file sim_str_to_uint32 [] (''# v1.2.0'' @ [CHR 0x0A] @ ''1000 4 a.bin a'') = Parsed (0, info) \<and>
    length (info_segments info) = 1"
proof -
  let ?t = "''# v1.2.0'' @ [CHR 0x0A] @ ''1000 4 a.bin a''"
  have run: "nrf52fw_parse_info_file sim_str_to_uint32 [] ?t = Parsed (0, sim_info)" by code_simp
  have "length (info_lines ?t) = 2" by code_simp
  with info_file_result [OF run] run show ?thesis by auto
qed

section \<open>The debug port on the error paths\<close>

text \<open>An open port with one user more than before.\<close>

definition port_held :: "u32 \<Rightarrow> 'd swd_world \<Rightarrow> bool" where
  "port_held c w \<longleftrightarrow> port_inv w \<and> port_open w \<and> g_switch_ctrl_cnt w = c"

lemma port_held_on_device: "port_held c (snd (on_device f w)) = port_held c w"
  by (simp add: port_held_def port_open_def)

lemma and_when_port_held:
  "\<exists>ok v. r = Some (ok, v) \<and> port_held c v \<Longrightarrow>
   (\<And>v. port_held c v \<Longrightarrow> \<exists>ok u. f v = Some (ok, u) \<and> port_held c u) \<Longrightarrow>
   \<exists>ok u. and_when r f = Some (ok, u) \<and> port_held c u"
  by (auto simp: and_when_def)

lemma port_held_step:
  "port_held c w \<Longrightarrow> \<exists>ok v. Some (on_device f w) = Some (ok, v) \<and> port_held c v"
  using port_held_on_device [of c f w] by (cases "on_device f w") auto

lemma check_id_code_step:
  "port_held c w \<Longrightarrow> \<exists>ok v. Some (nrf52swd_check_id_code D w) = Some (ok, v) \<and> port_held c v"
  using port_held_on_device [of c "libswd_dap_detect D" w]
  by (cases "on_device (libswd_dap_detect D) w")
    (auto simp: nrf52swd_check_id_code_def split: option.split)

lemma init_swd_holds:
  assumes "nrf52swd_init D B w = Some (True, w1)" and "port_held c w1"
  shows "\<exists>ok w2. nrf52fw_init_swd D B w = Some (ok, w2) \<and> port_held c w2"
  unfolding nrf52fw_init_swd_def nrf52swd_debug_halt_def nrf52swd_debug_enable_reset_vector_catch_def
    nrf52swd_debug_reset_def
  by (intro and_when_port_held) (rule check_id_code_step port_held_step exI conjI assms refl | assumption)+

lemma deinit_held:
  assumes "port_held (c + 1) w" and "c + 1 \<noteq> 0"
  shows "\<exists>v. nrf52swd_deinit w = Some v \<and> port_closed v \<and> port_inv v \<and> g_switch_ctrl_cnt v = c"
  using nrf52swd_deinit_spec [of w c] assms by (auto simp: port_held_def port_open_def)

text \<open>The debug port on the paths of \<open>nrf52fw.c\<close>. Let \<open>nrf52swd_init\<close> have opened a closed port. If
  the checks and resets behind it in \<open>nrf52fw_init_swd\<close> succeed, \<open>nrf52fw_software_reset\<close> returns with
  the port closed and the analog switch released. If one of them fails, \<open>nrf52fw_software_reset\<close>
  and \<open>nrf52fw_update_fw_step0\<close> return false with the port still open: the bus, the device and the
  library context stay allocated and the switch counter stays one too high, because neither calls
  \<open>nrf52fw_deinit_swd\<close> there.\<close>

theorem swd_port_after_failed_init:
  fixes w :: "'d swd_world"
  assumes "port_inv w" and "port_closed w" and "g_switch_ctrl_cnt w + 1 \<noteq> 0"
    and init: "nrf52swd_init D B w = Some (True, w1)"
  shows "\<exists>ok w2. nrf52fw_init_swd D B w = Some (ok, w2) \<and>
    (if ok then (\<exists>r w3. nrf52fw_software_reset D B w = Some (r, w3) \<and> port_closed w3 \<and>
        g_switch_ctrl_cnt w3 = g_switch_ctrl_cnt w)
     else nrf52fw_software_reset D B w = Some (False, w2) \<and> port_open w2 \<and>
        g_switch_ctrl_cnt w2 = g_switch_ctrl_cnt w + 1 \<and>
        (\<forall>E u. fe_board E = B \<longrightarrow> fw_swd u = w \<longrightarrow>
           nrf52fw_update_fw_step0 D E u = Some (False, u\<lparr>fw_swd := w2\<rparr>)))"
proof -
  have held: "port_held (g_switch_ctrl_cnt w + 1) w1"
  proof -
    from init have "nrf52swd_init_internal D B w = (True, w1)"
      by (auto simp: nrf52swd_init_def split: prod.splits bind_splits if_splits)
    from nrf52swd_init_internal_spec [OF assms(1,2) refl assms(3) this] show ?thesis
      by (auto simp: port_held_def port_opening_def port_open_def)
  qed
  from init_swd_holds [OF init held] obtain ok w2 where
    w2: "nrf52fw_init_swd D B w = Some (ok, w2)" "port_held (g_switch_ctrl_cnt w + 1) w2" by blast
  show ?thesis
  proof (cases ok)
    case True
    obtain r w3 where run: "nrf52swd_debug_run D w2 = (r, w3)" by fastforce
    then have "port_held (g_switch_ctrl_cnt w + 1) w3"
      using w2(2) port_held_on_device [of _ "libswd_debug_run D" w2] by (simp add: nrf52swd_debug_run_def)
    from deinit_held [OF this assms(3)] obtain v where
      v: "nrf52swd_deinit w3 = Some v" "port_closed v" "g_switch_ctrl_cnt v = g_switch_ctrl_cnt w" by blast
    have "nrf52fw_software_reset D B w = Some (r, v)"
      using True w2(1) run v(1) by (simp add: nrf52fw_software_reset_def and_when_def nrf52fw_deinit_swd_def)
    with True w2(1) v(2,3) show ?thesis by (intro exI [of _ True] exI [of _ w2]) simp
  next
    case False
    with w2 show ?thesis
      by (auto simp: nrf52fw_software_reset_def and_when_def nrf52fw_update_fw_step0_def on_swd_def port_held_def)
  qed
qed

text \<open>A chip that does not answer with the expected identification.\<close>

definition sim_no_chip :: "(u32 \<Rightarrow> u32) libswd" where
  "sim_no_chip = sim_nrf52\<lparr>libswd_dap_detect := Pair None\<rparr>"

theorem swd_port_after_failed_init_witness:
  "\<exists>w2. nrf52fw_software_reset sim_no_chip (fe_board sim_fw_env) sim_world = Some (False, w2) \<and> port_open w2"
proof -
  let ?B = "fe_board sim_fw_env"
  have inv: "port_inv sim_world" "port_closed sim_world" "g_switch_ctrl_cnt sim_world + 1 \<noteq> 0"
    by (simp_all add: port_inv_def port_closed_def sim_world_def)
  have "fst (nrf52swd_init_internal sim_no_chip ?B sim_world)"
    by (simp add: nrf52swd_init_internal_def nrf52swd_gpio_init_def nrf52swd_init_gpio_cfg_nreset_def
      nrf52swd_reset_def nrf52swd_init_spi_init_def nrf52swd_init_spi_add_device_def
      nrf52swd_libswd_debug_init_def on_device_def sim_no_chip_def sim_nrf52_def sim_fw_env_def sim_world_def)
  then obtain w1 where "nrf52swd_init_internal sim_no_chip ?B sim_world = (True, w1)"
    by (cases "nrf52swd_init_internal sim_no_chip ?B sim_world") simp
  then have init: "nrf52swd_init sim_no_chip ?B sim_world = Some (True, w1)" by (simp add: nrf52swd_init_def)
  have "\<not> fst (nrf52swd_check_id_code sim_no_chip v)" for v
    by (simp add: nrf52swd_check_id_code_def on_device_def sim_no_chip_def)
  then have no: "nrf52swd_check_id_code sim_no_chip v \<noteq> (True, u)" for u v by (metis fst_conv)
  have "nrf52fw_init_swd sim_no_chip ?B sim_world \<noteq> Some (True, v)" for v
    using no by (auto simp: nrf52fw_init_swd_def and_when_True)
  with swd_port_after_failed_init [OF inv init] show ?thesis
    by (auto split: if_splits)
qed

end
