(* ===== verification/Spec2Isabelle.thy ===== *)
theory Spec2Isabelle
  imports Gw_Prelude Gw_Cfg_Defs Gw_Cfg_Cmp Gw_Cfg Adv_Table Event_Mgr Leds Adv_Post_World
    Adv_Post_Timers Http_Async Adv_Post_Comm Adv_Post_Recv Adv_Post_Signals
    Gw_Cfg_Json Gw_Status Mqtt Adv_Mqtt Main_World Main_Loop Network Time_Task Http_Download Fw_Update Fw_Update_Safe Fw_Update_Images Url_Encode Nrf52_Swd Nrf52_Fw Nrf52_Info
begin

text \<open>
  A verification development for the firmware of the Ruuvi Gateway (ESP32). The gateway receives
  Bluetooth advertisements from an nRF52 coprocessor, keeps the newest one of every sensor in a
  table, and relays them over HTTP to the Ruuvi cloud, to a server of the user, and to an MQTT
  broker. All files named below are in \<open>src/main\<close>.

  \<^bold>\<open>The parts and how they interact.\<close>
  The callback of the nRF52 link (\<open>adv_post.c\<close>) parses and filters an advertisement and puts it
  into the table (\<open>adv_table.c\<close>), which keeps a history and three lists of pending reports, one per
  target. The posting task (\<open>adv_post_signals.c\<close>) waits for signals. Timers
  (\<open>adv_post_timers.c\<close>) ask for transfers by setting request flags; the signal DO_ASYNC_COMM makes
  one pass of \<open>adv_post_async_comm.c\<close>, which goes on with the transfer in progress or starts the
  next one that is requested. A transfer over HTTP takes the mutex of the web server, then the one
  request slot of \<open>http.c\<close>, and is polled until it completes or is aborted. Other tasks tell the
  posting task about the network, the time, the relaying mode and the configuration through the
  event manager (\<open>event_mgr.c\<close>), whose subscribers are signals. The configuration store
  (\<open>gw_cfg.c\<close>) compares a new configuration with the current one section by section
  (\<open>gw_cfg_cmp.c\<close>), stores and reports what changed; it is written to the flash memory and sent to
  the web page as JSON (\<open>gw_cfg_json_generate.c\<close>) and read from there (\<open>gw_cfg_json_parse*.c\<close>). The MQTT task (\<open>adv_mqtt*.c\<close>) is a second client of the table and
  of the event manager: it relays the pending reports through the client of \<open>mqtt.c\<close>, which starts,
  stops and restarts with the network and the configuration and reports its connection to
  \<open>gw_status.c\<close>, the event group in which every task looks up the links, the targets and whether
  relaying is suspended. The main task (\<open>main_loop.c\<close>) starts and stops MQTT with the configuration and
  the suspensions, enters and leaves the configuration mode, in which relaying is suspended, schedules
  the checks for updates and watches the free heap. The status LED (\<open>leds_ctrl.c\<close>,
  \<open>leds_ctrl2.c\<close>, \<open>leds_blinking.c\<close>) shows the state of the network and of the targets. At
  start the firmware of the nRF52 is updated over its debug port when its version differs from the one
  in the file system (\<open>nrf52fw.c\<close>, \<open>nrf52swd.c\<close>). The network (\<open>network_subsystem.c\<close>, \<open>ethernet.c\<close>) is started
  with Ethernet or as a WiFi station and tells the main task about its links; the reset task (\<open>reset_task.c\<close>)
  counts the presses of the button and restarts the gateway; the time task (\<open>time_task.c\<close>) runs the SNTP client.
  Documents and firmware images are downloaded through \<open>http_download.c\<close>, which uses the request slot of
  \<open>http.c\<close> and suspends relaying for the time of a download when memory is short; the update of the firmware
  (\<open>fw_update.c\<close>, \<open>esp_ota_ops_patched.c\<close>) writes the three images into the partitions that are not in use,
  switches the boot partition, flashes the nRF52 and restarts.

  \<^bold>\<open>The theories.\<close>
  \<^item> \<open>Gw_Prelude\<close>: machine integers, MAC addresses, C string indexing, list lemmas, and the
    interfaces: \<open>event_machine\<close> (an operation on events with an invariant it keeps, hence every run
    keeps it), \<open>simulation\<close> (which adds an abstraction under which every step is a step of a
    specification, hence every run is a run of it), \<open>flag_queue\<close> (a queue with a membership flag per element) and \<open>comparison\<close> (a
    comparison that decides equality of what two records mean and reads nothing outside them).
  \<^item> \<open>Adv_Table\<close>: \<open>adv_table.c\<close>. The history list, the hash chains and the three lists hold indices
    into the pool of reports. Invariant, drain loops, hash lookup against a linear search, and the
    refinement of a bounded list of reports in the order of their last update.
  \<^item> \<open>Event_Mgr\<close>: \<open>event_mgr.c\<close>. Queues of subscribers over a set of allocated addresses. A run stops at
    the first NULL dereference or failed assertion; memory safety under the usage protocol, and the failing branches.
  \<^item> \<open>Leds\<close>: the sequence player, the sub-machine and the controller; the status sequence against a
    specification of priorities, the state diagram, the order of callbacks.
  \<^item> \<open>Gw_Cfg_Defs\<close>, \<open>Gw_Cfg_Cmp\<close>, \<open>Gw_Cfg\<close>: the records of \<open>gw_cfg.h\<close>, the comparisons, the store
    with its recursive mutex. A configuration means the C strings in its buffers and the part of the
    filter list in use; each comparison is exact for that meaning, and the store refines a store of
    meanings, with an exact count of how often its mutex is held.
  \<^item> \<open>Json_Wrap\<close>, \<open>Gw_Cfg_Json_Gen\<close>, \<open>Gw_Cfg_Json_Parse\<close>: the getters of \<open>cjson_wrap.c\<close>, the generator
    and the parsers. \<open>Json_Ops\<close> describes a generator as a list of additions to the document and has
    the interface \<open>json_section\<close>: a generator, a parser, what is restored, and the round trip that
    follows; \<open>Gw_Cfg_Json_Sections\<close> interprets it for every section, \<open>Gw_Cfg_Json\<close> for the whole
    configuration. The latter also has what the web page may learn, the type of what is parsed
    from any document, and the documents that break the parser.
  \<^item> \<open>Adv_Post_World\<close>, \<open>Adv_Post_Timers\<close>, \<open>Http_Async\<close>, \<open>Adv_Post_Comm\<close>, \<open>Adv_Post_Recv\<close>,
    \<open>Adv_Post_Signals\<close>: the posting task in the order of its calls. \<open>Http_Async\<close> has the slot of
    \<open>http.c\<close>, \<open>http_post_advs.c\<close> and \<open>http_post_stat.c\<close> with the interface \<open>request_slot\<close>, interpreted
    for both kinds of posts; \<open>Adv_Post_Signals\<close> has the handlers and the task as a machine over
    signals, received advertisements and web server accesses, with its invariant.
  \<^item> \<open>Gw_Status\<close>: \<open>gw_status.c\<close>, whose bits refine a record of booleans and counters, with the wait
    for the suspension of relaying. \<open>Mqtt\<close>: the life cycle of the client, its topics and its error
    reports. \<open>Adv_Mqtt\<close>: the task that feeds it, its subscriptions, timers and handlers.
  \<^item> \<open>Main_World\<close>: the state of the tasks around the main task and the calls they record, which \<open>Main_Loop\<close>, \<open>Network\<close>,
    \<open>Time_Task\<close>, \<open>Http_Download\<close> and \<open>Fw_Update\<close> share.
  \<^item> \<open>Main_Loop\<close>: \<open>main_loop.c\<close> on the status, the MQTT connection and the configuration store of the
    other theories. The relation \<open>gateway_run\<close> interleaves its signals with the other tasks; the
    suspensions and the configuration mode, what becomes of MQTT, the schedule of the checks for updates,
    the restart on low memory, and two faults of its timers.
  \<^item> \<open>Network\<close>: the start of the network with its choice of the link, the callbacks of Ethernet and WiFi, the
    reset task and the button. \<open>Time_Task\<close>: the SNTP client, refining a client with the configured servers that is
    started and stopped by the signals.
  \<^item> \<open>Http_Download\<close>: downloads and checks of a URL over the events of the HTTP client, the wait for an asynchronous
    response with its timeout, and JSON documents in a growing buffer; what every path gives back, and when a document
    is complete. What a server delivers before the timeout is \<open>dl_reported\<close>, and \<open>dl_delivered\<close> says that the client counts
    the request as completed.
  \<^item> \<open>Fw_Update\<close>: the update and its flash memory as an interface (\<open>flash\<close>). \<open>Fw_Update_Safe\<close>: what the flash
    memory must do (\<open>flash_laws\<close>), a callback followed through a download (\<open>follows\<close>), the result of one image.
    \<open>Fw_Update_Images\<close>: the result of the three images (\<open>images_outcome\<close>), the properties of the update, and a NOR
    flash memory as an instance.
  \<^item> \<open>Url_Encode\<close>: percent encoding and its round trip.
  \<^item> \<open>Nrf52_Swd\<close>, \<open>Nrf52_Fw\<close>, \<open>Nrf52_Info\<close>: the debug port and its resources; the update of the
    firmware; the parser of \<open>info.txt\<close> and the error paths.
  \<^item> This theory: properties that span components.

  \<^bold>\<open>Conventions.\<close>
  Static variables of a module are the fields of a record, under the names of the code; the state is
  passed along and returned. \<open>uint32_t\<close> and the like are words and wrap; \<open>time_t\<close> has 32 bits. The counts of
  suspensions are \<open>int32_t\<close>: an increase of the greatest value, which C leaves undefined, is None, and theorems
  bound the counts by \<open>2^31\<close>.
  A call to code outside the model is recorded in a trace with its arguments (\<open>effect\<close>,
  \<open>gw_cfg_effect\<close>, \<open>mqtt_call\<close>, \<open>adv_mqtt_call\<close>, \<open>main_call\<close>, \<open>swd_effect\<close>, \<open>fw_event\<close>), and its answer is a field of an argument:
  \<open>post_env\<close> for one activation of the posting task, \<open>mqtt_env\<close> and \<open>adv_mqtt_env\<close> for the MQTT task
  and the client library, \<open>main_env\<close> for one signal of the main task, \<open>wait_env\<close> for what the other tasks do during a wait,
  \<open>dl_env\<close> for one download (allocations and the events of the client), \<open>upd_env\<close> for one update (the flash memory, the server,
  the files), \<open>board_env\<close> and \<open>fw_env\<close> for the drivers and
  the file system, \<open>libswd\<close> for the debug library and the chip behind it, \<open>cjson_lib\<close> for the JSON library
  and \<open>json_env\<close> for what else the JSON code calls. Such an argument is
  arbitrary in every theorem; what the code relies on is a named predicate (\<open>nrf52_device\<close>,
  \<open>crc_incremental\<close>, \<open>reads_decimal\<close>, \<open>stays_inside\<close>, \<open>cjson_documented\<close>, \<open>mac_text_ok\<close>, \<open>auth_names_ok\<close>,
  \<open>flash_laws\<close>, \<open>reads_partition_table\<close>, \<open>reads_hex\<close>) with an instance for which it is proved. A failed
  assertion, a read outside an object and \<open>gateway_restart\<close>, which never returns, are values: the
  error side of a sum or None. A pointer that may be NULL is an option, or a flag when only its
  presence matters. A buffer that the code allocates with \<open>os_calloc\<close> starts zeroed. Mutexes are owner
  fields or counters; taking a mutex that another task holds is the caller's wait and is modelled as
  the operation running after the release. \<open>cfg_view\<close> has the configuration values on which the posting
  task decides; \<open>posting_view\<close> in this theory says how the getters produce them, with everything else that it reads.

  \<^bold>\<open>Loops.\<close>
  Loops are structural recursions, or functions with a measure (the unread part of a file, a
  payload, a list). Three loops can run for ever: the wait for the flash controller, the wait
  for the other tasks to suspend relaying, and the wait for the response of a server. They are partial functions. The
  first returns exactly when the chip becomes ready or fails to answer; the two others have a timeout and return when
  the tick counter moves on between two polls (\<open>ticks_advance\<close>, \<open>dl_ticks\<close>), which theorems assume where it
  is needed. No fuel is used.

  \<^bold>\<open>Not modelled.\<close>
  The ESP-IDF and the other vendored components, and the git submodules (JSON, timers and signals,
  WiFi manager, MQTT and HTTP clients, libswd), which are not in the repository. Text for the log. The
  HTTP bodies, which the JSON submodules generate: a body is described by the reports and parameters
  it is made from. The generation of JSON and metrics, the
  formats of advertisements, the runtime statistics, the log of resets and the task that drives the LED
  are not modelled, nor are the callbacks of the web server and the reading and writing of settings in the flash
  memory.
\<close>

section \<open>The configuration as the posting task sees it\<close>

text \<open>
  Everything that the posting task reads from the configuration, with the getters of \<open>gw_cfg.c\<close>, one
  after the other: the values that decide (\<open>cfg_view\<close> in the environment of its activations), and those it
  only passes on. From the copies of the HTTP sections it takes URLs and credentials (\<open>http_post_advs.c\<close>,
  \<open>http_post_stat.c\<close>): the strings in their buffers, and of the union of the credentials those of the
  selected type. The coordinates and the MAC address go into every document (\<open>http_post_advs.c\<close>, \<open>mqtt.c\<close>),
  with the format of MQTT; the versions go into the statistics (\<open>adv_post_statistics.c\<close>); and the filter and
  the scan settings are sent to the nRF52 (\<open>ruuvi_send_nrf_settings_from_gw_cfg\<close>).
\<close>

record posting_cfg =
  pc_view :: cfg_view
  pc_http :: "ruuvi_gw_cfg_http \<times> auth_value"
  pc_http_stat :: ruuvi_gw_cfg_http_stat
  pc_coordinates :: string
  pc_mqtt_data_format :: gw_cfg_mqtt_data_format
  pc_filter :: ruuvi_gw_cfg_filter
  pc_scan :: ruuvi_gw_cfg_scan
  pc_nrf52_mac_addr :: string
  pc_esp32_fw_ver :: string
  pc_nrf52_fw_ver :: string

definition posting_view :: "gw_cfg_state \<Rightarrow> posting_cfg option" where
  "posting_view s = do {
     (http_ruuvi, s) \<leftarrow> gw_cfg_get_http_use_http_ruuvi s;
     (http_custom, s) \<leftarrow> gw_cfg_get_http_use_http s;
     (period, s) \<leftarrow> gw_cfg_get_http_period s;
     (stat, s) \<leftarrow> gw_cfg_get_http_stat_use_http_stat s;
     (mqtt, s) \<leftarrow> gw_cfg_get_mqtt_use_mqtt s;
     (ssl, s) \<leftarrow> gw_cfg_get_mqtt_use_mqtt_over_ssl_or_wss s;
     (interval, s) \<leftarrow> gw_cfg_get_mqtt_sending_interval s;
     (ntp, s) \<leftarrow> gw_cfg_get_ntp_use s;
     (h, s) \<leftarrow> gw_cfg_get_http_copy True s;
     h \<leftarrow> h;
     (t, s) \<leftarrow> gw_cfg_get_http_stat_copy True s;
     t \<leftarrow> t;
     (c, s) \<leftarrow> gw_cfg_lock_ro s;
     (mac, s) \<leftarrow> gw_cfg_get_nrf52_mac_addr s;
     s \<leftarrow> gw_cfg_unlock_ro s;
     (esp, s) \<leftarrow> gw_cfg_get_esp32_fw_ver s;
     (nrf, s) \<leftarrow> gw_cfg_get_nrf52_fw_ver s;
     let f = cfg_scan_filter (ruuvi_cfg c);
     Some \<lparr>pc_view = \<lparr>c_use_http_ruuvi = http_ruuvi, c_use_http = http_custom, c_http_period = period,
         c_http_data_format = http_data_format h, c_http_auth_type = http_auth_type h,
         c_http_use_ssl_client_cert = http_use_ssl_client_cert h,
         c_http_use_ssl_server_cert = http_use_ssl_server_cert h, c_use_http_stat = stat,
         c_http_stat_use_ssl_client_cert = http_stat_use_ssl_client_cert t,
         c_http_stat_use_ssl_server_cert = http_stat_use_ssl_server_cert t,
         c_use_mqtt = mqtt, c_mqtt_over_ssl_or_wss = ssl, c_mqtt_sending_interval = interval,
         c_ntp_use = ntp, c_scan_filter_allow_listed = sf_allow_listed f,
         c_scan_filter_list = take (unat (sf_length f)) (sf_list f)\<rparr>,
       pc_http = http_view h, pc_http_stat = http_stat_view t, pc_coordinates = c_str (cfg_coordinates (ruuvi_cfg c)),
       pc_mqtt_data_format = mqtt_data_format (cfg_mqtt (ruuvi_cfg c)), pc_filter = cfg_filter (ruuvi_cfg c),
       pc_scan = cfg_scan (ruuvi_cfg c), pc_nrf52_mac_addr = mac, pc_esp32_fw_ver = esp, pc_nrf52_fw_ver = nrf\<rparr>
   }"

text \<open>It is a function of what the Ruuvi section means and of the device information, which no update changes.\<close>

definition view_of_meaning :: "gw_cfg_device_info \<Rightarrow> ruuvi_meaning \<Rightarrow> posting_cfg" where
  "view_of_meaning d r =
     (let h = fst (m_http r); t = m_http_stat r; q = m_mqtt r; f = m_scan_filter r in
      \<lparr>pc_view = \<lparr>c_use_http_ruuvi = use_http_ruuvi h, c_use_http = use_http h, c_http_period = http_period h,
         c_http_data_format = http_data_format h, c_http_auth_type = http_auth_type h,
         c_http_use_ssl_client_cert = http_use_ssl_client_cert h,
         c_http_use_ssl_server_cert = http_use_ssl_server_cert h, c_use_http_stat = use_http_stat t,
         c_http_stat_use_ssl_client_cert = http_stat_use_ssl_client_cert t,
         c_http_stat_use_ssl_server_cert = http_stat_use_ssl_server_cert t,
         c_use_mqtt = use_mqtt q,
         c_mqtt_over_ssl_or_wss = (use_mqtt q \<and> (mqtt_transport q = ''SSL'' \<or> mqtt_transport q = ''WSS'')),
         c_mqtt_sending_interval = mqtt_sending_interval q,
         c_ntp_use = ntp_use (m_ntp r), c_scan_filter_allow_listed = sf_allow_listed f,
         c_scan_filter_list = sf_list f\<rparr>,
       pc_http = m_http r, pc_http_stat = t, pc_coordinates = m_coordinates r, pc_mqtt_data_format = mqtt_data_format q,
       pc_filter = m_filter r, pc_scan = m_scan r, pc_nrf52_mac_addr = di_nrf52_mac_addr d,
       pc_esp32_fw_ver = di_esp32_fw_ver d, pc_nrf52_fw_ver = di_nrf52_fw_ver d\<rparr>)"

lemma posting_view_eq:
  assumes "cfg_inv s"
  shows "posting_view s =
    Some (view_of_meaning (device_info (g_gateway_config s)) (mean_ruuvi (gw_cfg_view (g_gateway_config s))))"
proof -
  have m: "g_gw_cfg_mutex s = Some 0" and ok: "gw_cfg_ok (g_gateway_config s)" using assms by (simp_all add: cfg_inv_def)
  define s' where "s' = s\<lparr>g_gw_cfg_mutex := Some (Suc 0)\<rparr>"
  have lock: "gw_cfg_lock_ro s = Some (g_gateway_config s, s')"
    using m by (simp add: gw_cfg_lock_ro_def gw_cfg_mutex_lock_def s'_def)
  have unlock: "gw_cfg_unlock_ro s' = Some s"
    using m by (cases s) (simp add: gw_cfg_unlock_ro_def gw_cfg_mutex_unlock_def s'_def)
  have dev: "gw_cfg_device_string f s = Some (f (device_info (g_gateway_config s)), s)"
      "gw_cfg_device_string f s' = Some (f (device_info (g_gateway_config s)), s')" for f
    using m by (simp_all add: gw_cfg_device_string_def s'_def)
  have copies: "gw_cfg_get_http_copy True s = Some (Some (cfg_http (ruuvi_cfg (g_gateway_config s))), s)"
      "gw_cfg_get_http_stat_copy True s = Some (Some (cfg_http_stat (ruuvi_cfg (g_gateway_config s))), s)"
    by (simp_all add: gw_cfg_get_http_copy_def gw_cfg_get_http_stat_copy_def gw_cfg_alloc_copy_def gw_cfg_read_eq [OF m] m)
  show ?thesis
    by (simp add: posting_view_def gw_cfg_get_http_use_http_ruuvi_def gw_cfg_get_http_use_http_def
      gw_cfg_get_http_period_def gw_cfg_get_http_stat_use_http_stat_def gw_cfg_get_mqtt_use_mqtt_def
      gw_cfg_get_mqtt_sending_interval_def gw_cfg_get_ntp_use_def gw_cfg_read_eq [OF m]
      gw_cfg_get_mqtt_ssl_eq [OF ok m] copies lock unlock dev gw_cfg_get_nrf52_mac_addr_def gw_cfg_get_esp32_fw_ver_def
      gw_cfg_get_nrf52_fw_ver_def view_of_meaning_def gw_cfg_view_def gw_cfg_ruuvi_view_def
      http_view_def http_stat_view_def mqtt_view_def ntp_view_def scan_filter_view_def Let_def)
qed

text \<open>C15: The posting task misses no change of its configuration. An update of a valid, ready store
  whose notifications do not contain EVENT_MGR_EV_GW_CFG_CHANGED_RUUVI, the event that the task
  subscribes to, leaves every value that the task reads from the configuration as it was: the HTTP
  targets with their URLs, credentials, period, format and certificates, the same of the statistics, the MQTT
  settings, the use of NTP, the scan filter, the settings of the nRF52, the coordinates and the
  device information. The status flag of the Ruuvi section is clear as well. Reading never fails.
\<close>

theorem posting_task_misses_no_change:
  assumes "cfg_inv s" and "g_gw_cfg_ready s" and "update_ok ru eth ap sta"
    and "gw_cfg_set ru eth ap sta s = Some (st, s')"
    and "cfg_trace s' = cfg_trace s @ new"
    and "Cfg_notify EVENT_MGR_EV_GW_CFG_CHANGED_RUUVI \<notin> set new"
  shows "posting_view s' = posting_view s \<and> posting_view s \<noteq> None \<and> \<not> flag_ruuvi_cfg_modified st"
proof -
  let ?m = "gw_cfg_view (g_gateway_config s)"
  from assms(1) have ok: "gw_cfg_ok (g_gateway_config s)" and mx: "g_gw_cfg_mutex s = Some 0"
    by (simp_all add: cfg_inv_def)
  define c where "c = config_after ru eth ap sta (g_gateway_config s)"
  note run = gw_cfg_set_eq [OF ok assms(3) mx, folded c_def]
  from run assms(4) have s': "g_gateway_config s' = c" "g_gw_cfg_mutex s' = Some 0"
      "st = status_of ?m (gw_cfg_view c)"
      "cfg_trace s' = cfg_trace s @ update_trace s (ru = None \<and> eth = None \<and> ap = None \<and> sta = None) c"
    using mx by auto
  with assms(5) have "new = update_trace s (ru = None \<and> eth = None \<and> ap = None \<and> sta = None) c"
    by simp
  with assms(2,6) have same: "mean_ruuvi (gw_cfg_view c) = mean_ruuvi ?m"
    by (auto simp: update_trace_def change_events_def ruuvi_change_events_def split: if_splits)
  have "cfg_inv s'"
    using s' config_after_ok [OF ok assms(3)] by (simp add: cfg_inv_def c_def)
  moreover have "device_info c = device_info (g_gateway_config s)" by (simp add: c_def config_after_def)
  ultimately show ?thesis
    using same s' by (simp add: posting_view_eq [OF assms(1)] posting_view_eq status_of_def)
qed

theorem posting_task_misses_no_change_witness:
  "posting_view (snd (the (gw_cfg_set None None None None (gw_cfg_state_example (Some 0))))) =
   posting_view (gw_cfg_state_example (Some 0))"
proof -
  let ?s = "gw_cfg_state_example (Some 0)"
  have inv: "cfg_inv ?s" by (simp add: cfg_inv_def gw_cfg_state_example_parts gw_cfg_example_ok)
  have u: "update_ok None None None None" by (simp add: update_ok_def)
  have run: "gw_cfg_set None None None None ?s =
      Some (clean_status, ?s\<lparr>g_gw_cfg_is_empty := True, cfg_trace := [Cfg_on_change None]\<rparr>)"
    by (simp add: gw_cfg_set_def gw_cfg_mutex_lock_def gw_cfg_mutex_unlock_def gw_cfg_state_example_def
      cfg_emit_def clean_status_def)
  from posting_task_misses_no_change [OF inv _ u run, of "[Cfg_on_change None]"] show ?thesis
    by (simp add: gw_cfg_state_example_parts run)
qed

end
